(* ===== verification/Still_Prelude.thy ===== *)
theory Still_Prelude
  imports Main
begin

text \<open>
  What every theory of the development shares: the result type of code that may throw, its
  composition, JavaScript's BigInt division, the outcome of one chain read, ASCII case folding,
  and the lemma collections the component proofs draw on.
\<close>

section \<open>Code that may throw\<close>

text \<open>A thrown error carries its class and its message.\<close>

datatype js_error =
    RangeError string
  | TypeError string
  | JsError string

type_synonym 'a result = "js_error + 'a"

text \<open>Sequencing: the first error stops the rest, as an exception does.\<close>

definition bindR :: "'a result \<Rightarrow> ('a \<Rightarrow> 'b result) \<Rightarrow> 'b result" where
  "bindR m f = (case m of Inl e \<Rightarrow> Inl e | Inr x \<Rightarrow> f x)"

named_theorems money \<comment> \<open>closed forms of the arithmetic where its guards hold\<close>
named_theorems total \<comment> \<open>operations that return on well-formed inputs\<close>
named_theorems nonneg \<comment> \<open>amounts that cannot be negative\<close>

lemma bindR_Inl [simp]: "bindR (Inl e) f = Inl e"
  by (simp add: bindR_def)

lemma bindR_Inr [simp]: "bindR (Inr x) f = f x"
  by (simp add: bindR_def)

lemma bindR_eq_Inr: "bindR m f = Inr y \<longleftrightarrow> (\<exists>x. m = Inr x \<and> f x = Inr y)"
  by (cases m) auto

lemma bindR_InrE [elim!]:
  assumes "bindR m f = Inr y"
  obtains x where "m = Inr x" and "f x = Inr y"
  using assms by (auto simp: bindR_eq_Inr)

lemma bindR_eq_Inl: "bindR m f = Inl e \<longleftrightarrow> m = Inl e \<or> (\<exists>x. m = Inr x \<and> f x = Inl e)"
  by (cases m) auto

lemma bindR_cong [fundef_cong]:
  "m = m' \<Longrightarrow> (\<And>x. m' = Inr x \<Longrightarrow> f x = f' x) \<Longrightarrow> bindR m f = bindR m' f'"
  by (cases m') auto

lemma bindR_total:
  "\<exists>x. m = Inr x \<and> (\<exists>y. f x = Inr y) \<Longrightarrow> \<exists>y. bindR m f = Inr y"
  by auto

text \<open>A loop that may throw over a list, with its state passed along.\<close>

fun foldR :: "('s \<Rightarrow> 'a \<Rightarrow> 's result) \<Rightarrow> 's \<Rightarrow> 'a list \<Rightarrow> 's result" where
  "foldR f s [] = Inr s"
| "foldR f s (x # xs) = bindR (f s x) (\<lambda>s'. foldR f s' xs)"

fun mapR :: "('a \<Rightarrow> 'b result) \<Rightarrow> 'a list \<Rightarrow> 'b list result" where
  "mapR f [] = Inr []"
| "mapR f (x # xs) = bindR (f x) (\<lambda>y. bindR (mapR f xs) (\<lambda>ys. Inr (y # ys)))"

text \<open>A step taken only where its value is known.\<close>

definition optR :: "'a option \<Rightarrow> ('a \<Rightarrow> 'b result) \<Rightarrow> 'b option result" where
  "optR x f = (case x of None \<Rightarrow> Inr None | Some v \<Rightarrow> bindR (f v) (\<lambda>y. Inr (Some y)))"

lemma optR_simps [simp]:
  "optR None f = Inr None" "optR (Some v) f = bindR (f v) (\<lambda>y. Inr (Some y))"
  by (simp_all add: optR_def)

lemma optR_total: "(\<And>v. x = Some v \<Longrightarrow> \<exists>y. f v = Inr y) \<Longrightarrow> \<exists>y. optR x f = Inr y"
  by (cases x) fastforce+

lemma optR_Inr: "optR x f = Inr y \<longleftrightarrow>
    (x = None \<and> y = None) \<or> (\<exists>v z. x = Some v \<and> f v = Inr z \<and> y = Some z)"
  by (cases x) (auto simp: bindR_eq_Inr)

lemma foldR_invariant:
  assumes "foldR f s xs = Inr s'" and "P s"
    and "\<And>s x s'. P s \<Longrightarrow> x \<in> set xs \<Longrightarrow> f s x = Inr s' \<Longrightarrow> P s'"
  shows "P s'"
  using assms
proof (induction xs arbitrary: s)
  case Nil
  then show ?case by simp
next
  case (Cons x xs)
  from Cons.prems(1) obtain t where t: "f s x = Inr t" "foldR f t xs = Inr s'" by auto
  have "P t" by (rule Cons.prems(3) [OF Cons.prems(2) _ t(1)]) simp
  with t(2) Cons.prems(3) show ?case by (intro Cons.IH [of t]) auto
qed

lemma foldR_total:
  assumes "P s"
    and "\<And>s x. P s \<Longrightarrow> x \<in> set xs \<Longrightarrow> \<exists>s'. f s x = Inr s' \<and> P s'"
  shows "\<exists>s'. foldR f s xs = Inr s' \<and> P s'"
  using assms
proof (induction xs arbitrary: s)
  case Nil
  then show ?case by simp
next
  case (Cons x xs)
  then obtain t where "f s x = Inr t" "P t" by (meson list.set_intros(1))
  moreover have "\<exists>s'. foldR f t xs = Inr s' \<and> P s'"
    using Cons.prems(2) \<open>P t\<close> by (intro Cons.IH) auto
  ultimately show ?case by simp
qed

lemma mapR_total:
  "(\<And>x. x \<in> set xs \<Longrightarrow> \<exists>y. f x = Inr y) \<Longrightarrow> \<exists>ys. mapR f xs = Inr ys"
proof (induction xs)
  case Nil
  then show ?case by simp
next
  case (Cons x xs)
  then obtain y ys where "f x = Inr y" "mapR f xs = Inr ys"
    by (metis list.set_intros)
  then show ?case by simp
qed

lemma mapR_list_all2: "mapR f xs = Inr ys \<Longrightarrow> list_all2 (\<lambda>x y. f x = Inr y) xs ys"
  by (induction xs arbitrary: ys) auto

lemma mapR_set: "mapR f xs = Inr ys \<Longrightarrow> y \<in> set ys \<Longrightarrow> \<exists>x \<in> set xs. f x = Inr y"
  by (induction xs arbitrary: ys) auto

section \<open>BigInt division\<close>

text \<open>
  BigInt division truncates towards zero; division by zero throws, and every caller in the
  modelled code divides by a value it has checked or that is a positive constant.
\<close>

definition jsdiv :: "int \<Rightarrow> int \<Rightarrow> int" where
  "jsdiv a b = sgn a * sgn b * (\<bar>a\<bar> div \<bar>b\<bar>)"

lemma jsdiv_nonneg [simp]: "0 \<le> a \<Longrightarrow> 0 < b \<Longrightarrow> jsdiv a b = a div b"
  by (cases "a = 0") (simp_all add: jsdiv_def)

text \<open>Rounding up, the other direction of the money arithmetic.\<close>

definition ceil_div :: "int \<Rightarrow> int \<Rightarrow> int" where
  "ceil_div a b = (a + (b - 1)) div b"

lemma le_div_iff: "0 < b \<Longrightarrow> q \<le> a div b \<longleftrightarrow> q * b \<le> (a::int)"
proof
  assume b: "0 < b" and "q \<le> a div b"
  then have "q * b \<le> a div b * b" by simp
  also have "\<dots> \<le> a" using pos_mod_sign [OF b, of a] div_mult_mod_eq [of a b] by linarith
  finally show "q * b \<le> a" .
next
  assume b: "0 < b" and "q * b \<le> a"
  then have "q * b div b \<le> a div b" by (intro zdiv_mono1)
  with b show "q \<le> a div b" by simp
qed

lemma div_lt_iff: "0 < b \<Longrightarrow> a div b < q \<longleftrightarrow> (a::int) < q * b"
  using le_div_iff [of b q a] by (simp add: not_le [symmetric])

lemma ceil_div_le_iff: "0 < b \<Longrightarrow> ceil_div a b \<le> q \<longleftrightarrow> a \<le> q * b"
proof -
  assume b: "0 < b"
  have "ceil_div a b \<le> q \<longleftrightarrow> (a + (b - 1)) div b < q + 1" by (auto simp: ceil_div_def)
  also have "\<dots> \<longleftrightarrow> a + (b - 1) < (q + 1) * b" using b by (rule div_lt_iff)
  also have "\<dots> \<longleftrightarrow> a \<le> q * b" unfolding distrib_right by linarith
  finally show ?thesis .
qed

lemma ceil_div_ge: "0 < b \<Longrightarrow> a \<le> ceil_div a b * b"
  using ceil_div_le_iff [of b a "ceil_div a b"] by simp

lemma ceil_div_lt: "0 < b \<Longrightarrow> (ceil_div a b - 1) * b < a"
  using ceil_div_le_iff [of b a "ceil_div a b - 1"] by simp

lemma ceil_div_mono: "0 < b \<Longrightarrow> a \<le> a' \<Longrightarrow> ceil_div a b \<le> ceil_div a' b"
  by (simp add: ceil_div_def zdiv_mono1)

lemma ceil_div_nonneg [nonneg, simp]: "0 \<le> a \<Longrightarrow> 0 < b \<Longrightarrow> 0 \<le> ceil_div a b"
  by (simp add: ceil_div_def pos_imp_zdiv_nonneg_iff)

lemma ceil_div_pos: "0 < a \<Longrightarrow> 0 < b \<Longrightarrow> 0 < ceil_div a b"
  using ceil_div_le_iff [of b a 0] by (simp add: not_le [symmetric])

lemma ceil_div_0 [simp]: "0 < b \<Longrightarrow> ceil_div 0 b = 0"
  by (simp add: ceil_div_def)

lemma ceil_div_add_mult: "0 < b \<Longrightarrow> ceil_div (a + q * b) b = ceil_div a b + q"
proof -
  assume b: "0 < b"
  have "a + q * b + (b - 1) = (a + (b - 1)) + q * b" by simp
  then show ?thesis using b by (simp only: ceil_div_def) simp
qed

lemma div_le_ceil_div: "0 < b \<Longrightarrow> a div b \<le> ceil_div a b"
  by (simp add: ceil_div_def zdiv_mono1)

lemma ceil_div_le_div_Suc: "0 < b \<Longrightarrow> ceil_div a b \<le> a div b + 1"
proof -
  assume b: "0 < b"
  have "a = a div b * b + a mod b" by simp
  then have "a \<le> (a div b + 1) * b"
    using pos_mod_bound [OF b, of a] unfolding distrib_right by linarith
  then show ?thesis using b by (simp add: ceil_div_le_iff)
qed

section \<open>Reads\<close>

text \<open>
  \<open>Outcome\<close> of lib/still-engine/src/rpc.ts: a failed read is never an empty read, it carries
  why there is no value.
\<close>

datatype read_failure = Reverted | Undecodable

datatype 'a outcome = Read 'a | Unread read_failure

fun outcome_value :: "'a outcome \<Rightarrow> 'a option" where
  "outcome_value (Read v) = Some v"
| "outcome_value (Unread _) = None"

lemma outcome_value_Some [simp]: "outcome_value x = Some v \<longleftrightarrow> x = Read v"
  by (cases x) auto

text \<open>\<open>map\<close> of lib/still-engine/src/read.ts.\<close>

fun map_outcome_value :: "('a \<Rightarrow> 'b) \<Rightarrow> 'a outcome \<Rightarrow> 'b outcome" where
  "map_outcome_value f (Read v) = Read (f v)"
| "map_outcome_value f (Unread r) = Unread r"

section \<open>Strings\<close>

definition char_lower :: "char \<Rightarrow> char" where
  "char_lower c = (let n = (of_char c :: nat) in if 65 \<le> n \<and> n \<le> 90 then char_of (n + 32) else c)"

definition to_lower :: "string \<Rightarrow> string" where
  "to_lower s = map char_lower s"

text \<open>\<open>same\<close> of lib/still-engine/src/read.ts: addresses compare without their case.\<close>

definition same_address :: "string \<Rightarrow> string \<Rightarrow> bool" where
  "same_address a b \<longleftrightarrow> to_lower a = to_lower b"

section \<open>Sums over lists\<close>

lemma sum_list_nonneg_int: "(\<And>x. x \<in> set xs \<Longrightarrow> 0 \<le> f x) \<Longrightarrow> 0 \<le> (\<Sum>x\<leftarrow>xs. (f x :: int))"
  by (induction xs) auto

lemma fold_plus_eq_sum_list: "fold (\<lambda>x s. s + f x) xs a = a + (\<Sum>x\<leftarrow>xs. (f x :: int))"
  by (induction xs arbitrary: a) auto

end
