(* ===== verification/Money.thy ===== *)
theory Money
  imports Still_Prelude
begin

text \<open>
  lib/still-engine/src/math.ts: exact integer arithmetic for money. Every division names the
  direction it rounds in and refuses a non-positive denominator or a negative operand.
\<close>

definition WAD :: int where
  "WAD = 10 ^ 18"

definition RAY :: int where
  "RAY = 10 ^ 27"

definition BPS :: int where
  "BPS = 10000"

datatype rounding = Down | Up

definition mulDiv :: "int \<Rightarrow> int \<Rightarrow> int \<Rightarrow> rounding \<Rightarrow> int result" where
  "mulDiv a b denominator r =
     (if denominator \<le> 0 then Inl (RangeError ''mulDiv: denominator must be positive'')
      else if a < 0 \<or> b < 0 then Inl (RangeError ''mulDiv: operands must not be negative'')
      else
        let product = a * b;
            quotient = jsdiv product denominator
        in Inr (if r = Up \<and> quotient * denominator \<noteq> product then quotient + 1 else quotient))"

definition divide_money :: "int \<Rightarrow> int \<Rightarrow> rounding \<Rightarrow> int result" where
  "divide_money a denominator r = mulDiv a 1 denominator r"

definition min_money :: "int \<Rightarrow> int \<Rightarrow> int" where
  "min_money a b = (if a < b then a else b)"

definition max_money :: "int \<Rightarrow> int \<Rightarrow> int" where
  "max_money a b = (if a > b then a else b)"

definition USDC_UNITS_PER_CENT :: int where
  "USDC_UNITS_PER_CENT = 10 ^ 4"

definition usdcToCents :: "int \<Rightarrow> rounding \<Rightarrow> int result" where
  "usdcToCents raw r = divide_money raw USDC_UNITS_PER_CENT r"

section \<open>Closed forms\<close>

lemma units_values [simp]:
  "0 < WAD" "0 < RAY" "0 < BPS" "0 < USDC_UNITS_PER_CENT" "0 \<le> WAD" "0 \<le> BPS" "WAD \<noteq> 0" "BPS \<noteq> 0"
  by (simp_all add: WAD_def RAY_def BPS_def USDC_UNITS_PER_CENT_def)

lemma min_money_eq [simp]: "min_money a b = min a b"
  by (simp add: min_money_def min_def)

lemma max_money_eq [simp]: "max_money a b = max a b"
  by (simp add: max_money_def max_def)

lemma quotient_up: "0 < d \<Longrightarrow> (if p div d * d \<noteq> p then p div d + 1 else p div d) = ceil_div p d"
proof -
  assume d: "0 < d"
  show ?thesis
  proof (cases "p div d * d = p")
    case True
    have "ceil_div p d \<le> p div d" using d True by (simp add: ceil_div_le_iff)
    with div_le_ceil_div [OF d, of p] True show ?thesis by simp
  next
    case False
    have "p div d * d < p" using False div_mult_mod_eq [of p d] pos_mod_sign [OF d, of p] by linarith
    then have "\<not> ceil_div p d \<le> p div d" using d by (simp add: ceil_div_le_iff)
    with ceil_div_le_div_Suc [OF d, of p] False show ?thesis by simp
  qed
qed

lemma mulDiv_eq [money]:
  "0 \<le> a \<Longrightarrow> 0 \<le> b \<Longrightarrow> 0 < d \<Longrightarrow>
     mulDiv a b d r = Inr (case r of Down \<Rightarrow> a * b div d | Up \<Rightarrow> ceil_div (a * b) d)"
  using quotient_up [of d "a * b"] by (cases r) (auto simp: mulDiv_def Let_def)

lemma mulDiv_Inr:
  "mulDiv a b d r = Inr q \<Longrightarrow>
     0 \<le> a \<and> 0 \<le> b \<and> 0 < d \<and> q = (case r of Down \<Rightarrow> a * b div d | Up \<Rightarrow> ceil_div (a * b) d)"
proof -
  assume q: "mulDiv a b d r = Inr q"
  then have h: "0 \<le> a" "0 \<le> b" "0 < d"
    by (auto simp: mulDiv_def Let_def not_less not_le split: if_splits)
  with q show ?thesis by (simp add: mulDiv_eq)
qed

lemma mulDiv_DownD: "mulDiv a b d Down = Inr q \<Longrightarrow> 0 \<le> a \<and> 0 \<le> b \<and> 0 < d \<and> q = a * b div d"
  by (drule mulDiv_Inr) simp

lemma mulDiv_UpD: "mulDiv a b d Up = Inr q \<Longrightarrow> 0 \<le> a \<and> 0 \<le> b \<and> 0 < d \<and> q = ceil_div (a * b) d"
  by (drule mulDiv_Inr) simp

lemma divide_money_eq [money]:
  "0 \<le> a \<Longrightarrow> 0 < d \<Longrightarrow> divide_money a d r = Inr (case r of Down \<Rightarrow> a div d | Up \<Rightarrow> ceil_div a d)"
  by (simp add: divide_money_def mulDiv_eq cong: rounding.case_cong)

lemma usdcToCents_eq [money]:
  "0 \<le> raw \<Longrightarrow> usdcToCents raw r =
     Inr (case r of Down \<Rightarrow> raw div USDC_UNITS_PER_CENT | Up \<Rightarrow> ceil_div raw USDC_UNITS_PER_CENT)"
  by (simp add: usdcToCents_def divide_money_eq cong: rounding.case_cong)

lemma usdcToCents_DownD:
  "usdcToCents raw Down = Inr c \<Longrightarrow> 0 \<le> raw \<and> c = raw div USDC_UNITS_PER_CENT"
  by (auto simp: usdcToCents_def divide_money_def dest: mulDiv_DownD)

lemma usdcToCents_UpD:
  "usdcToCents raw Up = Inr c \<Longrightarrow> 0 \<le> raw \<and> c = ceil_div raw USDC_UNITS_PER_CENT"
  by (auto simp: usdcToCents_def divide_money_def dest: mulDiv_UpD)

lemma mulDiv_nonneg [nonneg]: "mulDiv a b d r = Inr q \<Longrightarrow> 0 \<le> q"
  by (drule mulDiv_Inr) (auto simp: pos_imp_zdiv_nonneg_iff split: rounding.splits)

lemma mulDiv_total [total]:
  "0 \<le> a \<Longrightarrow> 0 \<le> b \<Longrightarrow> 0 < d \<Longrightarrow> \<exists>q. mulDiv a b d r = Inr q \<and> 0 \<le> q"
  by (metis mulDiv_eq mulDiv_nonneg)

lemma usdcToCents_total [total]: "0 \<le> raw \<Longrightarrow> \<exists>c. usdcToCents raw r = Inr c \<and> 0 \<le> c"
  by (simp add: usdcToCents_def divide_money_def mulDiv_total)

section \<open>Rounding works against the transaction\<close>

text \<open>
  \<open>mulDiv\<close> rounds exactly as it says: rounding down gives the largest integer whose
  product with the denominator does not pass \<open>a * b\<close>, rounding up the smallest one that
  reaches it, and it throws exactly when the denominator is not positive or an operand is
  negative.
\<close>

theorem mulDiv_rounds_as_named:
  "(\<forall>q. mulDiv a b d Down = Inr q \<longrightarrow> (\<forall>k. k \<le> q \<longleftrightarrow> k * d \<le> a * b))
   \<and> (\<forall>q. mulDiv a b d Up = Inr q \<longrightarrow> (\<forall>k. q \<le> k \<longleftrightarrow> a * b \<le> k * d))
   \<and> ((\<exists>e. mulDiv a b d r = Inl (RangeError e)) \<longleftrightarrow> d \<le> 0 \<or> a < 0 \<or> b < 0)"
proof (intro conjI allI impI)
  fix q k
  assume "mulDiv a b d Down = Inr q"
  then show "k \<le> q \<longleftrightarrow> k * d \<le> a * b" by (auto dest!: mulDiv_DownD simp: le_div_iff)
next
  fix q k
  assume "mulDiv a b d Up = Inr q"
  then show "q \<le> k \<longleftrightarrow> a * b \<le> k * d" by (auto dest!: mulDiv_UpD simp: ceil_div_le_iff)
next
  show "(\<exists>e. mulDiv a b d r = Inl (RangeError e)) \<longleftrightarrow> d \<le> 0 \<or> a < 0 \<or> b < 0"
    by (auto simp: mulDiv_def Let_def)
qed

lemma mulDiv_rounds_as_named_witness:
  "mulDiv 7 3 2 Down = Inr 10 \<and> mulDiv 7 3 2 Up = Inr 11 \<and> (10::int) * 2 \<le> 7 * 3 \<and> (7::int) * 3 \<le> 11 * 2"
proof -
  have d: "mulDiv 7 3 2 Down = Inr 10" and u: "mulDiv 7 3 2 Up = Inr 11"
    by (simp_all add: mulDiv_def jsdiv_def)
  show ?thesis
    using d u mulDiv_rounds_as_named [of 7 3 2 Down] by (metis order_refl)
qed

end
