(* ===== verification/Morpho_Math.thy ===== *)
theory Morpho_Math
  imports Money
begin

text \<open>
  lib/rwa-issuer/src/morphoBorrowMath.ts: Morpho Blue's own arithmetic, operation for operation,
  with the contract's rounding. Amounts are BigInts (\<open>int\<close>); the divisions throw on a
  non-positive denominator and otherwise truncate.
\<close>

section \<open>MathLib and SharesMathLib\<close>

definition MORPHO_ORACLE_PRICE_SCALE_V1 :: int where
  "MORPHO_ORACLE_PRICE_SCALE_V1 = 10 ^ 36"

definition MORPHO_WAD_V1 :: int where
  "MORPHO_WAD_V1 = 10 ^ 18"

definition MORPHO_VIRTUAL_SHARES_V1 :: int where
  "MORPHO_VIRTUAL_SHARES_V1 = 10 ^ 6"

definition MORPHO_VIRTUAL_ASSETS_V1 :: int where
  "MORPHO_VIRTUAL_ASSETS_V1 = 1"

definition MORPHO_LIQUIDATION_CURSOR_V1 :: int where
  "MORPHO_LIQUIDATION_CURSOR_V1 = 3 * 10 ^ 17"

definition MORPHO_MAX_LIQUIDATION_INCENTIVE_V1 :: int where
  "MORPHO_MAX_LIQUIDATION_INCENTIVE_V1 = 115 * 10 ^ 16"

definition mulDivDownV1 :: "int \<Rightarrow> int \<Rightarrow> int \<Rightarrow> int result" where
  "mulDivDownV1 x y d =
     (if d \<le> 0 then Inl (RangeError ''morpho math: division by zero'') else Inr (jsdiv (x * y) d))"

definition mulDivUpV1 :: "int \<Rightarrow> int \<Rightarrow> int \<Rightarrow> int result" where
  "mulDivUpV1 x y d =
     (if d \<le> 0 then Inl (RangeError ''morpho math: division by zero'')
      else Inr (jsdiv (x * y + (d - 1)) d))"

definition wMulDownV1 :: "int \<Rightarrow> int \<Rightarrow> int result" where
  "wMulDownV1 x y = mulDivDownV1 x y MORPHO_WAD_V1"

definition wDivDownV1 :: "int \<Rightarrow> int \<Rightarrow> int result" where
  "wDivDownV1 x y = mulDivDownV1 x MORPHO_WAD_V1 y"

definition wDivUpV1 :: "int \<Rightarrow> int \<Rightarrow> int result" where
  "wDivUpV1 x y = mulDivUpV1 x MORPHO_WAD_V1 y"

definition toAssetsUpV1 :: "int \<Rightarrow> int \<Rightarrow> int \<Rightarrow> int result" where
  "toAssetsUpV1 shares totalAssets totalShares =
     mulDivUpV1 shares (totalAssets + MORPHO_VIRTUAL_ASSETS_V1) (totalShares + MORPHO_VIRTUAL_SHARES_V1)"

definition toAssetsDownV1 :: "int \<Rightarrow> int \<Rightarrow> int \<Rightarrow> int result" where
  "toAssetsDownV1 shares totalAssets totalShares =
     mulDivDownV1 shares (totalAssets + MORPHO_VIRTUAL_ASSETS_V1) (totalShares + MORPHO_VIRTUAL_SHARES_V1)"

definition toSharesDownV1 :: "int \<Rightarrow> int \<Rightarrow> int \<Rightarrow> int result" where
  "toSharesDownV1 assets totalAssets totalShares =
     mulDivDownV1 assets (totalShares + MORPHO_VIRTUAL_SHARES_V1) (totalAssets + MORPHO_VIRTUAL_ASSETS_V1)"

definition wTaylorCompoundedV1 :: "int \<Rightarrow> int \<Rightarrow> int result" where
  "wTaylorCompoundedV1 x n =
     (let firstTerm = x * n in
      bindR (mulDivDownV1 firstTerm firstTerm (2 * MORPHO_WAD_V1)) (\<lambda>secondTerm.
      bindR (mulDivDownV1 secondTerm firstTerm (3 * MORPHO_WAD_V1)) (\<lambda>thirdTerm.
      Inr (firstTerm + secondTerm + thirdTerm))))"

section \<open>Interest the contract has not written down yet\<close>

record morpho_totals =
  tot_supply_assets :: int
  tot_supply_shares :: int
  tot_borrow_assets :: int
  tot_borrow_shares :: int
  tot_last_update :: int
  tot_fee :: int

definition morphoAccruedTotalsV1 :: "morpho_totals \<Rightarrow> int \<Rightarrow> int \<Rightarrow> morpho_totals result" where
  "morphoAccruedTotalsV1 totals borrowRatePerSecondWad timestamp =
     (let elapsed = timestamp - tot_last_update totals in
      if elapsed \<le> 0 \<or> tot_borrow_assets totals = 0 \<or> borrowRatePerSecondWad = 0 then Inr totals
      else
        bindR (wTaylorCompoundedV1 borrowRatePerSecondWad elapsed) (\<lambda>growth.
        bindR (wMulDownV1 (tot_borrow_assets totals) growth) (\<lambda>interest.
        let totalSupplyAssets = tot_supply_assets totals + interest in
        bindR
          (if tot_fee totals \<noteq> 0 then
             bindR (wMulDownV1 interest (tot_fee totals)) (\<lambda>feeAmount.
             bindR (toSharesDownV1 feeAmount (totalSupplyAssets - feeAmount) (tot_supply_shares totals)) (\<lambda>feeShares.
             Inr (tot_supply_shares totals + feeShares)))
           else Inr (tot_supply_shares totals)) (\<lambda>totalSupplyShares.
        Inr (totals\<lparr>
          tot_supply_assets := totalSupplyAssets,
          tot_supply_shares := totalSupplyShares,
          tot_borrow_assets := tot_borrow_assets totals + interest,
          tot_last_update := timestamp\<rparr>)))))"

section \<open>The market and the position, as measured\<close>

record morpho_market =
  mkt_collateral_price :: int
  mkt_lltv_wad :: int
  mkt_supply_assets :: int
  mkt_borrow_assets :: int
  mkt_borrow_shares :: int
  mkt_block_number :: "int option"

record morpho_position =
  pos_collateral :: int
  pos_borrow_shares :: int

record morpho_health =
  hlt_max_borrow :: int
  hlt_borrowed :: int
  hlt_healthy :: bool
  hlt_headroom :: int
  hlt_factor_wad :: "int option"

definition morphoMaxBorrowAssetsV1 :: "int \<Rightarrow> int \<Rightarrow> int \<Rightarrow> int result" where
  "morphoMaxBorrowAssetsV1 collateral collateralPrice lltvWad =
     bindR (mulDivDownV1 collateral collateralPrice MORPHO_ORACLE_PRICE_SCALE_V1) (\<lambda>value.
     wMulDownV1 value lltvWad)"

definition position_debt :: "morpho_market \<Rightarrow> morpho_position \<Rightarrow> int result" where
  "position_debt market position =
     (if pos_borrow_shares position = 0 then Inr 0
      else toAssetsUpV1 (pos_borrow_shares position) (mkt_borrow_assets market) (mkt_borrow_shares market))"

definition morphoHealthV1 :: "morpho_market \<Rightarrow> morpho_position \<Rightarrow> morpho_health result" where
  "morphoHealthV1 market position =
     bindR (position_debt market position) (\<lambda>borrowedAssets.
     bindR (morphoMaxBorrowAssetsV1 (pos_collateral position) (mkt_collateral_price market) (mkt_lltv_wad market))
       (\<lambda>maxBorrowAssets.
     bindR (if borrowedAssets = 0 then Inr None
            else bindR (wDivDownV1 maxBorrowAssets borrowedAssets) (\<lambda>f. Inr (Some f))) (\<lambda>healthFactorWad.
     Inr \<lparr>hlt_max_borrow = maxBorrowAssets,
          hlt_borrowed = borrowedAssets,
          hlt_healthy = (maxBorrowAssets \<ge> borrowedAssets),
          hlt_headroom = (if maxBorrowAssets > borrowedAssets then maxBorrowAssets - borrowedAssets else 0),
          hlt_factor_wad = healthFactorWad\<rparr>)))"

datatype capacity_bound =
    BoundCollateral
  | BoundMarketLiquidity
  | BoundCollateralAndMarketLiquidity
  | BoundNothingAvailable

record morpho_capacity =
  cpy_assets :: int
  cpy_bound :: capacity_bound
  cpy_collateral_headroom :: int
  cpy_market_liquidity :: int
  cpy_rounding_margin :: int

definition morphoBorrowCapacityV1 ::
    "morpho_market \<Rightarrow> morpho_position \<Rightarrow> int option \<Rightarrow> morpho_capacity result" where
  "morphoBorrowCapacityV1 market position safetyMarginWad =
     bindR (morphoHealthV1 market position) (\<lambda>health.
     let marketLiquidityAssets =
           (if mkt_supply_assets market > mkt_borrow_assets market
            then mkt_supply_assets market - mkt_borrow_assets market else 0) in
     bindR (case safetyMarginWad of
              None \<Rightarrow> Inr (hlt_headroom health)
            | Some margin \<Rightarrow> wMulDownV1 (hlt_headroom health) margin) (\<lambda>offered.
     let roundingMarginAssets = (if offered > 0 then 1 else 0);
         collateralHeadroomAssets = offered - roundingMarginAssets;
         assets = (if collateralHeadroomAssets < marketLiquidityAssets
                   then collateralHeadroomAssets else marketLiquidityAssets)
     in Inr \<lparr>cpy_assets = assets,
             cpy_bound =
               (if assets = 0 then BoundNothingAvailable
                else if collateralHeadroomAssets = marketLiquidityAssets then BoundCollateralAndMarketLiquidity
                else if collateralHeadroomAssets < marketLiquidityAssets then BoundCollateral
                else BoundMarketLiquidity),
             cpy_collateral_headroom = collateralHeadroomAssets,
             cpy_market_liquidity = marketLiquidityAssets,
             cpy_rounding_margin = roundingMarginAssets\<rparr>))"

definition morphoLiquidationPriceV1 :: "morpho_market \<Rightarrow> morpho_position \<Rightarrow> int option result" where
  "morphoLiquidationPriceV1 market position =
     (if pos_borrow_shares position = 0 \<or> pos_collateral position = 0 \<or> mkt_lltv_wad market = 0 then Inr None
      else
        bindR (toAssetsUpV1 (pos_borrow_shares position) (mkt_borrow_assets market) (mkt_borrow_shares market))
          (\<lambda>borrowed.
        if borrowed = 0 then Inr None
        else bindR (mulDivUpV1 (borrowed * MORPHO_ORACLE_PRICE_SCALE_V1) MORPHO_WAD_V1
                      (pos_collateral position * mkt_lltv_wad market)) (\<lambda>p. Inr (Some p))))"

definition morphoLiquidationIncentiveWadV1 :: "int \<Rightarrow> int result" where
  "morphoLiquidationIncentiveWadV1 lltvWad =
     (if lltvWad \<ge> MORPHO_WAD_V1 then Inr MORPHO_WAD_V1
      else
        bindR (wMulDownV1 MORPHO_LIQUIDATION_CURSOR_V1 (MORPHO_WAD_V1 - lltvWad)) (\<lambda>cut.
        bindR (wDivDownV1 MORPHO_WAD_V1 (MORPHO_WAD_V1 - cut)) (\<lambda>factor.
        Inr (if factor < MORPHO_MAX_LIQUIDATION_INCENTIVE_V1 then factor
             else MORPHO_MAX_LIQUIDATION_INCENTIVE_V1))))"

record morpho_after =
  aft_position :: morpho_position
  aft_health :: morpho_health
  aft_liquidation_price :: "int option"

definition morphoAfterBorrowV1 ::
    "morpho_market \<Rightarrow> morpho_position \<Rightarrow> int \<Rightarrow> morpho_after option result" where
  "morphoAfterBorrowV1 market position assets =
     (if assets \<le> 0 then Inr None
      else if assets > mkt_supply_assets market - mkt_borrow_assets market then Inr None
      else
        bindR (mulDivUpV1 assets (mkt_borrow_shares market + MORPHO_VIRTUAL_SHARES_V1)
                 (mkt_borrow_assets market + MORPHO_VIRTUAL_ASSETS_V1)) (\<lambda>addedShares.
        let after = \<lparr>pos_collateral = pos_collateral position,
                     pos_borrow_shares = pos_borrow_shares position + addedShares\<rparr>;
            marketAfter = market\<lparr>mkt_borrow_assets := mkt_borrow_assets market + assets,
                                 mkt_borrow_shares := mkt_borrow_shares market + addedShares\<rparr>
        in bindR (morphoHealthV1 marketAfter after) (\<lambda>health.
        if \<not> hlt_healthy health then Inr None
        else bindR (morphoLiquidationPriceV1 marketAfter after) (\<lambda>liquidationPrice.
             Inr (Some \<lparr>aft_position = after,
                        aft_health = health,
                        aft_liquidation_price = liquidationPrice\<rparr>)))))"

end
