(* ===== verification/Morpho_Laws.thy ===== *)
theory Morpho_Laws
  imports Morpho_Math
begin

text \<open>
  What Morpho's arithmetic promises a borrower: closed forms on non-negative states, the rounding
  of the projected debt, what accrual leaves alone, where the liquidation price lies, and that an
  offered amount executes.
\<close>

section \<open>Well-formed states\<close>

definition wf_market :: "morpho_market \<Rightarrow> bool" where
  "wf_market m \<longleftrightarrow> 0 \<le> mkt_collateral_price m \<and> 0 \<le> mkt_lltv_wad m \<and> 0 \<le> mkt_supply_assets m
     \<and> 0 \<le> mkt_borrow_assets m \<and> 0 \<le> mkt_borrow_shares m"

definition wf_position :: "morpho_market \<Rightarrow> morpho_position \<Rightarrow> bool" where
  "wf_position m p \<longleftrightarrow> 0 \<le> pos_collateral p \<and> 0 \<le> pos_borrow_shares p
     \<and> pos_borrow_shares p \<le> mkt_borrow_shares m"

definition wf_totals :: "morpho_totals \<Rightarrow> bool" where
  "wf_totals t \<longleftrightarrow> 0 \<le> tot_supply_assets t \<and> 0 \<le> tot_supply_shares t \<and> 0 \<le> tot_borrow_assets t
     \<and> 0 \<le> tot_borrow_shares t \<and> 0 \<le> tot_fee t \<and> tot_fee t \<le> MORPHO_WAD_V1"

text \<open>The two sides of a share conversion, with the virtual offsets that keep them positive.\<close>

definition share_side :: "morpho_market \<Rightarrow> int" where
  "share_side m = mkt_borrow_shares m + MORPHO_VIRTUAL_SHARES_V1"

definition asset_side :: "morpho_market \<Rightarrow> int" where
  "asset_side m = mkt_borrow_assets m + MORPHO_VIRTUAL_ASSETS_V1"

definition debt_of :: "morpho_market \<Rightarrow> morpho_position \<Rightarrow> int" where
  "debt_of m p = ceil_div (pos_borrow_shares p * asset_side m) (share_side m)"

definition max_borrow :: "int \<Rightarrow> int \<Rightarrow> int \<Rightarrow> int" where
  "max_borrow collateral price lltv =
     collateral * price div MORPHO_ORACLE_PRICE_SCALE_V1 * lltv div MORPHO_WAD_V1"

lemma morpho_units [simp]:
  "0 < MORPHO_ORACLE_PRICE_SCALE_V1" "0 < MORPHO_WAD_V1" "0 < MORPHO_VIRTUAL_SHARES_V1"
  "0 < MORPHO_VIRTUAL_ASSETS_V1" "MORPHO_WAD_V1 \<noteq> 0" "0 \<le> MORPHO_WAD_V1"
  "0 \<le> MORPHO_ORACLE_PRICE_SCALE_V1"
  by (simp_all add: MORPHO_ORACLE_PRICE_SCALE_V1_def MORPHO_WAD_V1_def MORPHO_VIRTUAL_SHARES_V1_def
      MORPHO_VIRTUAL_ASSETS_V1_def)

lemma morpho_wad_eq: "MORPHO_WAD_V1 = WAD"
  by (simp add: MORPHO_WAD_V1_def WAD_def)

lemma wf_marketD:
  "wf_market m \<Longrightarrow> 0 \<le> mkt_collateral_price m \<and> 0 \<le> mkt_lltv_wad m \<and> 0 \<le> mkt_supply_assets m
     \<and> 0 \<le> mkt_borrow_assets m \<and> 0 \<le> mkt_borrow_shares m"
  by (simp add: wf_market_def)

lemma share_side_pos [simp]: "wf_market m \<Longrightarrow> 0 < share_side m"
  using morpho_units(3) by (simp add: wf_market_def share_side_def del: morpho_units)

lemma asset_side_pos [simp]: "wf_market m \<Longrightarrow> 0 < asset_side m"
  using morpho_units(4) by (simp add: wf_market_def asset_side_def del: morpho_units)

lemma shares_below_side: "wf_market m \<Longrightarrow> wf_position m p \<Longrightarrow> pos_borrow_shares p \<le> share_side m"
  using morpho_units(3) by (simp add: wf_position_def share_side_def del: morpho_units)

section \<open>Closed forms\<close>

lemma mulDivDownV1_eq [money]: "0 \<le> x * y \<Longrightarrow> 0 < d \<Longrightarrow> mulDivDownV1 x y d = Inr (x * y div d)"
  by (simp add: mulDivDownV1_def)

lemma mulDivUpV1_eq [money]: "0 \<le> x * y \<Longrightarrow> 0 < d \<Longrightarrow> mulDivUpV1 x y d = Inr (ceil_div (x * y) d)"
  by (simp add: mulDivUpV1_def ceil_div_def)

lemma wMulDownV1_eq [money]: "0 \<le> x * y \<Longrightarrow> wMulDownV1 x y = Inr (x * y div MORPHO_WAD_V1)"
  by (simp add: wMulDownV1_def mulDivDownV1_eq)

lemma wDivDownV1_eq [money]:
  "0 \<le> x \<Longrightarrow> 0 < y \<Longrightarrow> wDivDownV1 x y = Inr (x * MORPHO_WAD_V1 div y)"
  by (simp add: wDivDownV1_def mulDivDownV1_eq)

lemma toAssetsUpV1_eq [money]:
  "0 \<le> s \<Longrightarrow> 0 \<le> ta \<Longrightarrow> 0 \<le> ts \<Longrightarrow> toAssetsUpV1 s ta ts =
     Inr (ceil_div (s * (ta + MORPHO_VIRTUAL_ASSETS_V1)) (ts + MORPHO_VIRTUAL_SHARES_V1))"
  unfolding toAssetsUpV1_def by (rule mulDivUpV1_eq) (simp_all add: add_nonneg_pos less_imp_le)

lemma toSharesDownV1_eq [money]:
  "0 \<le> a \<Longrightarrow> 0 \<le> ta \<Longrightarrow> 0 \<le> ts \<Longrightarrow> toSharesDownV1 a ta ts =
     Inr (a * (ts + MORPHO_VIRTUAL_SHARES_V1) div (ta + MORPHO_VIRTUAL_ASSETS_V1))"
  unfolding toSharesDownV1_def by (rule mulDivDownV1_eq) (simp_all add: add_nonneg_pos less_imp_le)

lemma position_debt_eq [money]:
  "wf_market m \<Longrightarrow> wf_position m p \<Longrightarrow> position_debt m p = Inr (debt_of m p)"
  by (auto simp: position_debt_def debt_of_def toAssetsUpV1_eq wf_market_def wf_position_def
      asset_side_def share_side_def add_nonneg_pos)

lemma debt_of_nonneg [nonneg]: "wf_market m \<Longrightarrow> wf_position m p \<Longrightarrow> 0 \<le> debt_of m p"
  by (simp add: debt_of_def wf_position_def less_imp_le)

lemma max_borrow_nonneg [nonneg]: "0 \<le> c \<Longrightarrow> 0 \<le> p \<Longrightarrow> 0 \<le> l \<Longrightarrow> 0 \<le> max_borrow c p l"
  by (simp add: max_borrow_def pos_imp_zdiv_nonneg_iff)

lemma morphoMaxBorrowAssetsV1_eq [money]:
  "0 \<le> c \<Longrightarrow> 0 \<le> p \<Longrightarrow> 0 \<le> l \<Longrightarrow> morphoMaxBorrowAssetsV1 c p l = Inr (max_borrow c p l)"
  by (simp add: morphoMaxBorrowAssetsV1_def mulDivDownV1_eq wMulDownV1_eq max_borrow_def
      pos_imp_zdiv_nonneg_iff)

lemma max_borrow_mono_collateral:
  "0 \<le> c \<Longrightarrow> c \<le> c' \<Longrightarrow> 0 \<le> p \<Longrightarrow> 0 \<le> l \<Longrightarrow> max_borrow c p l \<le> max_borrow c' p l"
  by (simp add: max_borrow_def zdiv_mono1 mult_right_mono)

lemma max_borrow_mono_price:
  "0 \<le> c \<Longrightarrow> p \<le> p' \<Longrightarrow> 0 \<le> p \<Longrightarrow> 0 \<le> l \<Longrightarrow> max_borrow c p l \<le> max_borrow c p' l"
  by (simp add: max_borrow_def zdiv_mono1 mult_left_mono mult_right_mono)

definition position_max_borrow :: "morpho_market \<Rightarrow> morpho_position \<Rightarrow> int" where
  "position_max_borrow m p = max_borrow (pos_collateral p) (mkt_collateral_price m) (mkt_lltv_wad m)"

lemma position_max_borrow_nonneg [nonneg]:
  "wf_market m \<Longrightarrow> wf_position m p \<Longrightarrow> 0 \<le> position_max_borrow m p"
  by (simp add: position_max_borrow_def max_borrow_nonneg wf_market_def wf_position_def)

lemma morphoHealthV1_eq [money]:
  assumes "wf_market m" and "wf_position m p"
  shows "morphoHealthV1 m p = Inr
    \<lparr>hlt_max_borrow = position_max_borrow m p, hlt_borrowed = debt_of m p,
     hlt_healthy = (debt_of m p \<le> position_max_borrow m p),
     hlt_headroom = max 0 (position_max_borrow m p - debt_of m p),
     hlt_factor_wad = (if debt_of m p = 0 then None
       else Some (position_max_borrow m p * MORPHO_WAD_V1 div debt_of m p))\<rparr>"
proof -
  have "morphoMaxBorrowAssetsV1 (pos_collateral p) (mkt_collateral_price m) (mkt_lltv_wad m) =
      Inr (position_max_borrow m p)"
    using assms by (simp add: position_max_borrow_def morphoMaxBorrowAssetsV1_eq wf_market_def wf_position_def)
  moreover have "debt_of m p \<noteq> 0 \<Longrightarrow> 0 < debt_of m p"
    using debt_of_nonneg [OF assms] by simp
  moreover have "0 \<le> position_max_borrow m p"
    using assms by (rule position_max_borrow_nonneg)
  ultimately show ?thesis
    using assms by (auto simp: morphoHealthV1_def position_debt_eq wDivDownV1_eq max_def)
qed

section \<open>The projection of a borrow\<close>

definition shares_for :: "morpho_market \<Rightarrow> int \<Rightarrow> int" where
  "shares_for m assets = ceil_div (assets * share_side m) (asset_side m)"

definition market_after :: "morpho_market \<Rightarrow> int \<Rightarrow> morpho_market" where
  "market_after m assets = m\<lparr>mkt_borrow_assets := mkt_borrow_assets m + assets,
     mkt_borrow_shares := mkt_borrow_shares m + shares_for m assets\<rparr>"

definition position_after :: "morpho_market \<Rightarrow> morpho_position \<Rightarrow> int \<Rightarrow> morpho_position" where
  "position_after m p assets = \<lparr>pos_collateral = pos_collateral p,
     pos_borrow_shares = pos_borrow_shares p + shares_for m assets\<rparr>"

definition debt_after :: "morpho_market \<Rightarrow> morpho_position \<Rightarrow> int \<Rightarrow> int" where
  "debt_after m p assets = debt_of (market_after m assets) (position_after m p assets)"

lemma shares_for_nonneg [nonneg, simp]: "wf_market m \<Longrightarrow> 0 \<le> a \<Longrightarrow> 0 \<le> shares_for m a"
  by (simp add: shares_for_def less_imp_le)

lemma wf_after:
  "wf_market m \<Longrightarrow> 0 \<le> a \<Longrightarrow> wf_market (market_after m a)"
  "wf_market m \<Longrightarrow> wf_position m p \<Longrightarrow> 0 \<le> a \<Longrightarrow> wf_position (market_after m a) (position_after m p a)"
  using shares_for_nonneg [of m a]
  by (auto simp: wf_market_def wf_position_def market_after_def position_after_def)

lemma sides_after:
  "share_side (market_after m a) = share_side m + shares_for m a"
  "asset_side (market_after m a) = asset_side m + a"
  by (simp_all add: share_side_def asset_side_def market_after_def)

lemma debt_after_eq:
  "debt_after m p a = ceil_div ((pos_borrow_shares p + shares_for m a) * (asset_side m + a))
     (share_side m + shares_for m a)"
  by (simp add: debt_after_def debt_of_def sides_after) (simp add: position_after_def)

lemma position_max_borrow_after [simp]:
  "position_max_borrow (market_after m a) (position_after m p a) = position_max_borrow m p"
  by (simp add: position_max_borrow_def market_after_def position_after_def)

lemma liquidation_price_total [total]:
  assumes "wf_market m" and "wf_position m p"
  shows "\<exists>q. morphoLiquidationPriceV1 m p = Inr q"
proof (cases "pos_collateral p = 0 \<or> mkt_lltv_wad m = 0")
  case True
  then show ?thesis by (auto simp: morphoLiquidationPriceV1_def)
next
  case False
  with assms have "0 < pos_collateral p * mkt_lltv_wad m"
    by (intro mult_pos_pos) (simp_all add: wf_market_def wf_position_def)
  with assms show ?thesis
    by (simp add: morphoLiquidationPriceV1_def toAssetsUpV1_eq mulDivUpV1_def wf_market_def
        wf_position_def)
qed

lemma morphoAfterBorrowV1_eq:
  assumes "wf_market m" and "wf_position m p" and "0 < a"
    and "a \<le> mkt_supply_assets m - mkt_borrow_assets m"
  shows "morphoAfterBorrowV1 m p a =
    (if debt_after m p a \<le> position_max_borrow m p
     then bindR (morphoHealthV1 (market_after m a) (position_after m p a)) (\<lambda>h.
          bindR (morphoLiquidationPriceV1 (market_after m a) (position_after m p a)) (\<lambda>l.
          Inr (Some \<lparr>aft_position = position_after m p a, aft_health = h, aft_liquidation_price = l\<rparr>)))
     else Inr None)"
proof -
  have wf: "wf_market (market_after m a)" "wf_position (market_after m a) (position_after m p a)"
    using wf_after assms by simp_all
  have added: "mulDivUpV1 a (mkt_borrow_shares m + MORPHO_VIRTUAL_SHARES_V1)
      (mkt_borrow_assets m + MORPHO_VIRTUAL_ASSETS_V1) = Inr (shares_for m a)"
    using mulDivUpV1_eq [of a "share_side m" "asset_side m"] assms(1,3)
    by (simp add: shares_for_def share_side_def [symmetric] asset_side_def [symmetric] less_imp_le)
  have health: "\<exists>h. morphoHealthV1 (market_after m a) (position_after m p a) = Inr h
      \<and> hlt_healthy h = (debt_after m p a \<le> position_max_borrow m p)"
    using morphoHealthV1_eq [OF wf] by (simp add: debt_after_def)
  then obtain h where h: "morphoHealthV1 (market_after m a) (position_after m p a) = Inr h"
    and ok: "hlt_healthy h = (debt_after m p a \<le> position_max_borrow m p)" by blast
  show ?thesis
    using assms(3,4) ok h
    by (simp add: morphoAfterBorrowV1_def added Let_def
        market_after_def [symmetric] position_after_def [symmetric])
qed

lemma morphoAfterBorrowV1_SomeD:
  assumes "wf_market m" and "wf_position m p" and "morphoAfterBorrowV1 m p a = Inr (Some r)"
  shows "0 < a" and "a \<le> mkt_supply_assets m - mkt_borrow_assets m"
    and "debt_after m p a \<le> position_max_borrow m p"
    and "aft_position r = position_after m p a"
    and "morphoHealthV1 (market_after m a) (position_after m p a) = Inr (aft_health r)"
    and "hlt_borrowed (aft_health r) = debt_after m p a"
    and "hlt_max_borrow (aft_health r) = position_max_borrow m p"
    and "hlt_healthy (aft_health r)"
proof -
  show a: "0 < a" and l: "a \<le> mkt_supply_assets m - mkt_borrow_assets m"
    using assms(3) by (auto simp: morphoAfterBorrowV1_def not_le not_less split: if_splits)
  note eq = morphoAfterBorrowV1_eq [OF assms(1,2) a l]
  show d: "debt_after m p a \<le> position_max_borrow m p"
    using assms(3) eq by (auto split: if_splits)
  have parts: "aft_position r = position_after m p a
      \<and> morphoHealthV1 (market_after m a) (position_after m p a) = Inr (aft_health r)"
    using assms(3) d by (auto simp: eq)
  then show "aft_position r = position_after m p a"
    and h: "morphoHealthV1 (market_after m a) (position_after m p a) = Inr (aft_health r)" by simp_all
  have wf: "wf_market (market_after m a)" "wf_position (market_after m a) (position_after m p a)"
    using wf_after assms a by simp_all
  note h' = h [unfolded morphoHealthV1_eq [OF wf] sum.inject, symmetric]
  show "hlt_borrowed (aft_health r) = debt_after m p a"
    and "hlt_max_borrow (aft_health r) = position_max_borrow m p" and "hlt_healthy (aft_health r)"
    using h' d by (simp_all add: debt_after_def)
qed

lemma morphoAfterBorrowV1_total [total]:
  assumes "wf_market m" and "wf_position m p"
  shows "\<exists>r. morphoAfterBorrowV1 m p a = Inr r
    \<and> (r \<noteq> None \<longleftrightarrow> 0 < a \<and> a \<le> mkt_supply_assets m - mkt_borrow_assets m
         \<and> debt_after m p a \<le> position_max_borrow m p)"
proof (cases "0 < a \<and> a \<le> mkt_supply_assets m - mkt_borrow_assets m")
  case True
  then have wf: "wf_market (market_after m a)" "wf_position (market_after m a) (position_after m p a)"
    using wf_after assms by simp_all
  obtain l where "morphoLiquidationPriceV1 (market_after m a) (position_after m p a) = Inr l"
    using liquidation_price_total [OF wf] by blast
  then show ?thesis
    using True morphoAfterBorrowV1_eq [OF assms] morphoHealthV1_eq [OF wf] by auto
next
  case False
  then show ?thesis by (auto simp: morphoAfterBorrowV1_def)
qed


section \<open>Rounding of the projected debt\<close>

text \<open>
  With \<open>P\<close> and \<open>Q\<close> the share and asset sides, \<open>d\<close> new shares for \<open>a\<close> assets: the debt
  recorded afterwards covers the old debt and the draw, grows with the draw, and passes their sum
  by at most one unit while a share is worth no more than one unit.
\<close>

lemma projected_debt_identity:
  "P * ((s + d) * (Q + a)) = (s * Q + a * P) * (P + d) + (P - s) * (d * Q - a * P)" for P Q :: int
  by (simp add: algebra_simps)

lemma projected_debt_covers:
  fixes P Q :: int
  assumes "0 < P" and "0 \<le> d" and "s \<le> P" and "a * P \<le> d * Q"
  shows "ceil_div (s * Q) P + a \<le> ceil_div ((s + d) * (Q + a)) (P + d)"
proof -
  let ?q = "ceil_div ((s + d) * (Q + a)) (P + d)"
  have D: "0 < P + d" using assms by simp
  have "(s * Q + a * P) * (P + d) \<le> P * ((s + d) * (Q + a))"
    unfolding projected_debt_identity using assms by simp
  also have "\<dots> \<le> P * (?q * (P + d))"
    using ceil_div_ge [OF D, of "(s + d) * (Q + a)"] assms(1) by (simp add: mult_left_mono)
  finally have "(s * Q + a * P) * (P + d) \<le> (?q * P) * (P + d)" by (simp add: ac_simps)
  then have "s * Q + a * P \<le> ?q * P" using D by (rule mult_right_le_imp_le)
  then have "s * Q \<le> (?q - a) * P" unfolding left_diff_distrib by linarith
  then have "ceil_div (s * Q) P \<le> ?q - a" using assms(1) by (simp add: ceil_div_le_iff)
  then show ?thesis by linarith
qed

lemma projected_debt_mono:
  fixes P Q :: int
  assumes "0 < P" and "0 \<le> Q" and "0 \<le> s" and "s \<le> P" and "0 \<le> d" and "d \<le> d'" and "0 \<le> a" and "a \<le> a'"
  shows "ceil_div ((s + d) * (Q + a)) (P + d) \<le> ceil_div ((s + d') * (Q + a')) (P + d')"
proof -
  let ?q = "ceil_div ((s + d') * (Q + a')) (P + d')"
  have D: "0 < P + d" and D': "0 < P + d'" using assms by simp_all
  have "(s + d') * (P + d) - (s + d) * (P + d') = (d' - d) * (P - s)" by (simp add: algebra_simps)
  also have "\<dots> \<ge> 0" using assms by simp
  finally have cross: "(s + d) * (P + d') \<le> (s + d') * (P + d)" by simp
  have "(s + d) * (Q + a) * (P + d') = ((s + d) * (P + d')) * (Q + a)" by (simp add: ac_simps)
  also have "\<dots> \<le> ((s + d') * (P + d)) * (Q + a')"
    using cross assms by (intro mult_mono [OF cross] mult_nonneg_nonneg) simp_all
  also have "\<dots> = ((s + d') * (Q + a')) * (P + d)" by (simp add: ac_simps)
  also have "\<dots> \<le> (?q * (P + d')) * (P + d)"
    using ceil_div_ge [OF D', of "(s + d') * (Q + a')"] D by (intro mult_right_mono) auto
  finally have "(s + d) * (Q + a) * (P + d') \<le> (?q * (P + d)) * (P + d')" by (simp add: ac_simps)
  then have "(s + d) * (Q + a) \<le> ?q * (P + d)" using D' by (rule mult_right_le_imp_le)
  then show ?thesis using D by (simp add: ceil_div_le_iff)
qed

lemma projected_debt_within_one:
  fixes P Q :: int
  assumes "0 < Q" and "Q \<le> P" and "0 \<le> s" and "s \<le> P" and "0 \<le> a"
  shows "ceil_div ((s + ceil_div (a * P) Q) * (Q + a)) (P + ceil_div (a * P) Q) \<le> ceil_div (s * Q) P + a + 1"
proof -
  let ?d = "ceil_div (a * P) Q" and ?c = "ceil_div (s * Q) P"
  have P: "0 < P" using assms by simp
  have d: "0 \<le> ?d" using assms by simp
  have e: "0 \<le> ?d * Q - a * P" "?d * Q - a * P \<le> Q"
    using ceil_div_ge [OF assms(1), of "a * P"] ceil_div_lt [OF assms(1), of "a * P"]
    unfolding left_diff_distrib by linarith+
  have "(P - s) * (?d * Q - a * P) \<le> P * Q" using assms e P by (intro mult_mono) auto
  also have "\<dots> \<le> P * (P + ?d)" using add_mono [OF assms(2) d] P by (intro mult_left_mono) simp_all
  finally have rest: "(P - s) * (?d * Q - a * P) \<le> P * (P + ?d)" .
  have "s * Q \<le> ?c * P" using P by (rule ceil_div_ge)
  then have "(s * Q + a * P) * (P + ?d) \<le> (?c * P + a * P) * (P + ?d)"
    using P d by (intro mult_right_mono) auto
  with rest have "P * ((s + ?d) * (Q + a)) \<le> (?c * P + a * P) * (P + ?d) + P * (P + ?d)"
    unfolding projected_debt_identity by linarith
  also have "\<dots> = P * ((?c + a + 1) * (P + ?d))" by (simp add: algebra_simps)
  finally have "(s + ?d) * (Q + a) \<le> (?c + a + 1) * (P + ?d)" using P by (rule mult_left_le_imp_le)
  then show ?thesis using P d by (simp add: ceil_div_le_iff)
qed

lemma shares_for_mono: "wf_market m \<Longrightarrow> a \<le> b \<Longrightarrow> shares_for m a \<le> shares_for m b"
  by (simp add: shares_for_def ceil_div_mono mult_right_mono less_imp_le)

lemma debt_after_covers:
  assumes "wf_market m" and "wf_position m p" and "0 \<le> a"
  shows "debt_of m p + a \<le> debt_after m p a"
  unfolding debt_of_def debt_after_eq
  using assms ceil_div_ge [of "asset_side m" "a * share_side m"]
  by (intro projected_debt_covers) (auto simp: shares_below_side shares_for_def less_imp_le)

lemma debt_after_mono:
  assumes "wf_market m" and "wf_position m p" and "0 \<le> a" and "a \<le> b"
  shows "debt_after m p a \<le> debt_after m p b"
  unfolding debt_after_eq
  using assms shares_below_side [OF assms(1,2)] shares_for_mono [OF assms(1,4)] shares_for_nonneg [OF assms(1,3)]
  by (intro projected_debt_mono) (auto simp: wf_position_def less_imp_le)

lemma debt_after_within_one:
  assumes "wf_market m" and "wf_position m p" and "0 \<le> a" and "asset_side m \<le> share_side m"
  shows "debt_after m p a \<le> debt_of m p + a + 1"
  unfolding debt_after_eq debt_of_def shares_for_def
  using assms shares_below_side [OF assms(1,2)]
  by (intro projected_debt_within_one) (auto simp: wf_position_def)

lemma debt_after_0: "wf_market m \<Longrightarrow> wf_position m p \<Longrightarrow> debt_after m p 0 = debt_of m p"
  by (simp add: debt_after_eq debt_of_def shares_for_def)

end
