(* ===== verification/Morpho_Properties.thy ===== *)
theory Morpho_Properties
  imports Morpho_Laws
begin

text \<open>
  The promises of morphoBorrowMath.ts as properties: what a projected borrow records, what an
  offer can count on, what accrual preserves and what the liquidation price separates.
\<close>

section \<open>Interest\<close>

lemma wTaylorCompoundedV1_total [total]:
  assumes "0 \<le> x" and "0 \<le> n"
  shows "\<exists>g. wTaylorCompoundedV1 x n = Inr g \<and> x * n \<le> g"
proof -
  let ?f = "x * n"
  have f: "0 \<le> ?f" using assms by simp
  have second: "mulDivDownV1 ?f ?f (2 * MORPHO_WAD_V1) = Inr (?f * ?f div (2 * MORPHO_WAD_V1))"
    by (rule mulDivDownV1_eq) simp_all
  have pos: "0 \<le> ?f * ?f div (2 * MORPHO_WAD_V1)" using f by (simp add: pos_imp_zdiv_nonneg_iff)
  have third: "mulDivDownV1 (?f * ?f div (2 * MORPHO_WAD_V1)) ?f (3 * MORPHO_WAD_V1)
      = Inr (?f * ?f div (2 * MORPHO_WAD_V1) * ?f div (3 * MORPHO_WAD_V1))"
    using pos f by (intro mulDivDownV1_eq) (simp_all del: times_divide_eq_left)
  have "0 \<le> ?f * ?f div (2 * MORPHO_WAD_V1) * ?f div (3 * MORPHO_WAD_V1)"
    using pos f by (simp add: pos_imp_zdiv_nonneg_iff)
  with second third pos show ?thesis by (simp add: wTaylorCompoundedV1_def Let_def)
qed

lemma fee_shares_total:
  assumes "wf_totals t" and "0 \<le> i"
  shows "\<exists>s. (if tot_fee t \<noteq> 0 then
             bindR (wMulDownV1 i (tot_fee t)) (\<lambda>feeAmount.
             bindR (toSharesDownV1 feeAmount (tot_supply_assets t + i - feeAmount) (tot_supply_shares t)) (\<lambda>feeShares.
             Inr (tot_supply_shares t + feeShares)))
           else Inr (tot_supply_shares t)) = Inr s \<and> tot_supply_shares t \<le> s"
proof -
  let ?fee = "i * tot_fee t div MORPHO_WAD_V1"
  have fee: "0 \<le> ?fee" using assms by (simp add: wf_totals_def pos_imp_zdiv_nonneg_iff)
  have "i * tot_fee t \<le> i * MORPHO_WAD_V1" using assms by (simp add: wf_totals_def mult_left_mono)
  then have "?fee \<le> i * MORPHO_WAD_V1 div MORPHO_WAD_V1" by (intro zdiv_mono1) simp_all
  then have le: "0 \<le> tot_supply_assets t + i - ?fee" using assms by (simp add: wf_totals_def)
  have "0 \<le> ?fee * (tot_supply_shares t + MORPHO_VIRTUAL_SHARES_V1)
       div (tot_supply_assets t + i - ?fee + MORPHO_VIRTUAL_ASSETS_V1)"
    using fee le assms by (simp add: wf_totals_def pos_imp_zdiv_nonneg_iff add_nonneg_pos less_imp_le)
  then show ?thesis
    using assms fee le by (simp add: wMulDownV1_eq toSharesDownV1_eq wf_totals_def)
qed

lemma morphoAccruedTotalsV1_total [total]:
  assumes "wf_totals t" and "0 \<le> rate"
  shows "\<exists>t' i. morphoAccruedTotalsV1 t rate now = Inr t' \<and> 0 \<le> i
    \<and> tot_supply_assets t' = tot_supply_assets t + i \<and> tot_borrow_assets t' = tot_borrow_assets t + i
    \<and> tot_borrow_shares t' = tot_borrow_shares t \<and> tot_supply_shares t \<le> tot_supply_shares t'
    \<and> tot_fee t' = tot_fee t
    \<and> (t' = t \<and> i = 0 \<and> (now \<le> tot_last_update t \<or> tot_borrow_assets t = 0 \<or> rate = 0)
       \<or> tot_last_update t' = now)"
proof (cases "now - tot_last_update t \<le> 0 \<or> tot_borrow_assets t = 0 \<or> rate = 0")
  case True
  then show ?thesis by (auto simp: morphoAccruedTotalsV1_def Let_def intro!: exI [of _ 0])
next
  case False
  then have n: "0 \<le> now - tot_last_update t" by simp
  obtain g where g: "wTaylorCompoundedV1 rate (now - tot_last_update t) = Inr g"
    and "rate * (now - tot_last_update t) \<le> g"
    using wTaylorCompoundedV1_total [OF assms(2) n] by blast
  then have "0 \<le> g" using assms(2) n by (meson mult_nonneg_nonneg order_trans)
  define i where "i = tot_borrow_assets t * g div MORPHO_WAD_V1"
  have w: "wMulDownV1 (tot_borrow_assets t) g = Inr i"
    unfolding i_def using assms \<open>0 \<le> g\<close> by (intro wMulDownV1_eq) (simp add: wf_totals_def)
  have i: "0 \<le> i" using assms \<open>0 \<le> g\<close> by (simp add: i_def wf_totals_def pos_imp_zdiv_nonneg_iff)
  obtain s where "(if tot_fee t \<noteq> 0 then
             bindR (wMulDownV1 i (tot_fee t)) (\<lambda>feeAmount.
             bindR (toSharesDownV1 feeAmount (tot_supply_assets t + i - feeAmount) (tot_supply_shares t)) (\<lambda>feeShares.
             Inr (tot_supply_shares t + feeShares)))
           else Inr (tot_supply_shares t)) = Inr s" and "tot_supply_shares t \<le> s"
    using fee_shares_total [OF assms(1) i] by blast
  moreover define t' where "t' = t\<lparr>tot_supply_assets := tot_supply_assets t + i, tot_supply_shares := s,
      tot_borrow_assets := tot_borrow_assets t + i, tot_last_update := now\<rparr>"
  ultimately have "morphoAccruedTotalsV1 t rate now = Inr t'"
    using False g w by (simp add: morphoAccruedTotalsV1_def Let_def)
  with i \<open>tot_supply_shares t \<le> s\<close> show ?thesis
    by (intro exI [of _ t'] exI [of _ i]) (simp add: t'_def)
qed

lemma morphoAccruedTotalsV1_wf:
  assumes "wf_totals t" and "0 \<le> rate" and "morphoAccruedTotalsV1 t rate now = Inr t'"
  shows "wf_totals t'"
  using morphoAccruedTotalsV1_total [OF assms(1,2), of now] assms by (auto simp: wf_totals_def)

text \<open>
  Accruing interest on well-formed totals at a non-negative rate never throws; it adds the same
  interest to what is supplied and what is borrowed, so the liquidity the market can lend is
  untouched; no debt share is created and no debt falls; and accruing again at the same moment
  changes nothing.
\<close>

theorem accrual_keeps_liquidity:
  assumes "wf_totals t" and "0 \<le> rate"
  shows "\<exists>t'. morphoAccruedTotalsV1 t rate now = Inr t'
    \<and> tot_supply_assets t' - tot_borrow_assets t' = tot_supply_assets t - tot_borrow_assets t
    \<and> tot_borrow_assets t \<le> tot_borrow_assets t' \<and> tot_borrow_shares t' = tot_borrow_shares t
    \<and> tot_supply_shares t \<le> tot_supply_shares t'
    \<and> morphoAccruedTotalsV1 t' rate now = Inr t'"
proof -
  obtain t' i where t': "morphoAccruedTotalsV1 t rate now = Inr t'" "0 \<le> i"
      "tot_supply_assets t' = tot_supply_assets t + i" "tot_borrow_assets t' = tot_borrow_assets t + i"
      "tot_borrow_shares t' = tot_borrow_shares t" "tot_supply_shares t \<le> tot_supply_shares t'"
    and again: "t' = t \<and> i = 0 \<and> (now \<le> tot_last_update t \<or> tot_borrow_assets t = 0 \<or> rate = 0)
       \<or> tot_last_update t' = now"
    using morphoAccruedTotalsV1_total [OF assms, of now] by blast
  have "morphoAccruedTotalsV1 t' rate now = Inr t'"
    using again by (auto simp: morphoAccruedTotalsV1_def Let_def)
  with t' show ?thesis by auto
qed

definition cbbtc_totals :: morpho_totals where
  "cbbtc_totals = \<lparr>tot_supply_assets = 1000000000, tot_supply_shares = 900000000000000,
     tot_borrow_assets = 800000000, tot_borrow_shares = 700000000000000, tot_last_update = 100, tot_fee = 0\<rparr>"

lemma accrual_keeps_liquidity_witness:
  "\<exists>t'. morphoAccruedTotalsV1 cbbtc_totals 1585489599 3700 = Inr t'
    \<and> tot_supply_assets t' - tot_borrow_assets t' = 200000000"
proof -
  have "wf_totals cbbtc_totals" by (simp add: wf_totals_def cbbtc_totals_def less_imp_le)
  from accrual_keeps_liquidity [OF this, of 1585489599 3700] show ?thesis
    by (auto simp: cbbtc_totals_def)
qed

section \<open>A projected borrow\<close>

text \<open>
  The contract's own arithmetic: the shares it adds for a draw, rounded up, and what the position then
  owes, rounded up, in assets.
\<close>

definition shares_added :: "morpho_market \<Rightarrow> int \<Rightarrow> int" where
  "shares_added m a = ceil_div (a * (mkt_borrow_shares m + 10 ^ 6)) (mkt_borrow_assets m + 1)"

definition owed_with :: "morpho_market \<Rightarrow> morpho_position \<Rightarrow> int \<Rightarrow> int" where
  "owed_with m p a = ceil_div ((pos_borrow_shares p + shares_added m a) * (mkt_borrow_assets m + a + 1))
     (mkt_borrow_shares m + shares_added m a + 10 ^ 6)"

definition supported_by :: "morpho_market \<Rightarrow> morpho_position \<Rightarrow> int" where
  "supported_by m p = pos_collateral p * mkt_collateral_price m div 10 ^ 36 * mkt_lltv_wad m div 10 ^ 18"

lemma contract_arithmetic:
  "shares_added m a = shares_for m a" "owed_with m p a = debt_after m p a" "supported_by m p = position_max_borrow m p"
  by (simp_all add: shares_added_def owed_with_def supported_by_def shares_for_def debt_after_def debt_of_def market_after_def
      position_after_def position_max_borrow_def max_borrow_def share_side_def asset_side_def MORPHO_VIRTUAL_ASSETS_V1_def
      MORPHO_VIRTUAL_SHARES_V1_def MORPHO_ORACLE_PRICE_SCALE_V1_def MORPHO_WAD_V1_def ac_simps)

text \<open>
  C30. The review's projection is honest both ways. On a well-formed market and position
  \<open>morphoAfterBorrowV1\<close> does not throw. It answers exactly when the draw is positive, the market has
  it, and what the position would owe by the contract's arithmetic, with the draw's shares rounded up, is
  within what the collateral supports; otherwise it answers null. What it answers is that debt, those
  shares and the same collateral, healthy; the debt covers the old debt and the draw, and passes their
  sum by at most one unit when a share is worth no more than one unit.
\<close>

theorem projected_borrow_is_honest:
  assumes "wf_market m" and "wf_position m p"
  shows "\<exists>answer owed. morphoAfterBorrowV1 m p a = Inr answer \<and> position_debt m p = Inr owed
    \<and> (answer \<noteq> None \<longleftrightarrow> 0 < a \<and> a \<le> mkt_supply_assets m - mkt_borrow_assets m \<and> owed_with m p a \<le> supported_by m p)
    \<and> (\<forall>r. answer = Some r \<longrightarrow>
          hlt_healthy (aft_health r) \<and> hlt_borrowed (aft_health r) = owed_with m p a
        \<and> hlt_max_borrow (aft_health r) = supported_by m p
        \<and> pos_collateral (aft_position r) = pos_collateral p
        \<and> pos_borrow_shares (aft_position r) = pos_borrow_shares p + shares_added m a
        \<and> owed + a \<le> hlt_borrowed (aft_health r)
        \<and> (mkt_borrow_assets m + 1 \<le> mkt_borrow_shares m + 10 ^ 6
             \<longrightarrow> hlt_borrowed (aft_health r) \<le> owed + a + 1))"
proof -
  obtain answer where answer: "morphoAfterBorrowV1 m p a = Inr answer"
      "answer \<noteq> None \<longleftrightarrow> 0 < a \<and> a \<le> mkt_supply_assets m - mkt_borrow_assets m \<and> debt_after m p a \<le> position_max_borrow m p"
    using morphoAfterBorrowV1_total [OF assms] by blast
  have sides: "asset_side m \<le> share_side m" if "mkt_borrow_assets m + 1 \<le> mkt_borrow_shares m + 10 ^ 6"
    using that by (simp add: asset_side_def share_side_def MORPHO_VIRTUAL_ASSETS_V1_def
        MORPHO_VIRTUAL_SHARES_V1_def)
  have "hlt_healthy (aft_health r) \<and> hlt_borrowed (aft_health r) = debt_after m p a
      \<and> hlt_max_borrow (aft_health r) = position_max_borrow m p
      \<and> pos_collateral (aft_position r) = pos_collateral p
      \<and> pos_borrow_shares (aft_position r) = pos_borrow_shares p + shares_for m a
      \<and> debt_of m p + a \<le> hlt_borrowed (aft_health r)
      \<and> (mkt_borrow_assets m + 1 \<le> mkt_borrow_shares m + 10 ^ 6
             \<longrightarrow> hlt_borrowed (aft_health r) \<le> debt_of m p + a + 1)" if "answer = Some r" for r
  proof -
    note r = morphoAfterBorrowV1_SomeD [OF assms answer(1) [unfolded that]]
    then show ?thesis
      using debt_after_covers [OF assms, of a] debt_after_within_one [OF assms, of a] sides
      by (simp add: position_after_def)
  qed
  with answer position_debt_eq [OF assms] show ?thesis unfolding contract_arithmetic by blast
qed

definition cbbtc_market :: morpho_market where
  "cbbtc_market = \<lparr>mkt_collateral_price = 600 * 10 ^ 36, mkt_lltv_wad = 860000000000000000,
     mkt_supply_assets = 1000000000, mkt_borrow_assets = 800000000, mkt_borrow_shares = 700000000000000,
     mkt_block_number = None\<rparr>"

definition cbbtc_position :: morpho_position where
  "cbbtc_position = \<lparr>pos_collateral = 1000000, pos_borrow_shares = 50000000000000\<rparr>"

lemma cbbtc_wf: "wf_market cbbtc_market" "wf_position cbbtc_market cbbtc_position"
  by (simp_all add: wf_market_def wf_position_def cbbtc_market_def cbbtc_position_def)

lemma projected_borrow_is_honest_witness:
  "(\<exists>r. morphoAfterBorrowV1 cbbtc_market cbbtc_position 100000000 = Inr (Some r))
   \<and> morphoAfterBorrowV1 cbbtc_market cbbtc_position 200000001 = Inr None
   \<and> morphoAfterBorrowV1 (cbbtc_market\<lparr>mkt_lltv_wad := 200000000000000000\<rparr>) cbbtc_position 100000000 = Inr None"
proof (intro conjI)
  have sums: "owed_with cbbtc_market cbbtc_position 100000000 \<le> supported_by cbbtc_market cbbtc_position"
      "\<not> owed_with (cbbtc_market\<lparr>mkt_lltv_wad := 200000000000000000\<rparr>) cbbtc_position 100000000
         \<le> supported_by (cbbtc_market\<lparr>mkt_lltv_wad := 200000000000000000\<rparr>) cbbtc_position"
      "mkt_supply_assets cbbtc_market - mkt_borrow_assets cbbtc_market = 200000000"
    by (simp_all add: owed_with_def supported_by_def shares_added_def ceil_div_def cbbtc_market_def cbbtc_position_def)
  show "\<exists>r. morphoAfterBorrowV1 cbbtc_market cbbtc_position 100000000 = Inr (Some r)"
    using projected_borrow_is_honest [OF cbbtc_wf, of 100000000] sums by auto
  show "morphoAfterBorrowV1 cbbtc_market cbbtc_position 200000001 = Inr None"
    using projected_borrow_is_honest [OF cbbtc_wf, of 200000001] sums by auto
  have "wf_market (cbbtc_market\<lparr>mkt_lltv_wad := 200000000000000000\<rparr>)"
      "wf_position (cbbtc_market\<lparr>mkt_lltv_wad := 200000000000000000\<rparr>) cbbtc_position"
    using cbbtc_wf by (simp_all add: wf_market_def wf_position_def)
  from projected_borrow_is_honest [OF this, of 100000000] sums
  show "morphoAfterBorrowV1 (cbbtc_market\<lparr>mkt_lltv_wad := 200000000000000000\<rparr>) cbbtc_position 100000000 = Inr None"
    by auto
qed

text \<open>
  C31. An offered amount executes, where a share is worth no more than one unit (the debt's unit of
  account; the market starts at a millionth of one) and a caller's haircut is none or a share of at most
  all: the amount \<open>morphoBorrowCapacityV1\<close> offers, when it is positive, is one the projection accepts.
  It is what the collateral's headroom, after the haircut and less one unit of rounding, and the market's
  liquidity both allow, and the stated bound names the side that set it.
\<close>

theorem offered_capacity_executes:
  assumes "wf_market m" and "wf_position m p"
    and "mkt_borrow_assets m + 1 \<le> mkt_borrow_shares m + 10 ^ 6"
    and "\<forall>margin. haircut = Some margin \<longrightarrow> 0 \<le> margin \<and> margin \<le> 10 ^ 18"
  shows "\<exists>c. morphoBorrowCapacityV1 m p haircut = Inr c \<and> 0 \<le> cpy_assets c
    \<and> (0 < cpy_assets c \<longrightarrow> (\<exists>r. morphoAfterBorrowV1 m p (cpy_assets c) = Inr (Some r)))
    \<and> cpy_assets c = min (cpy_collateral_headroom c) (cpy_market_liquidity c)
    \<and> (cpy_bound c = BoundNothingAvailable \<longleftrightarrow> cpy_assets c = 0)
    \<and> (cpy_bound c = BoundCollateral \<longrightarrow> cpy_assets c = cpy_collateral_headroom c \<and> cpy_assets c < cpy_market_liquidity c)
    \<and> (cpy_bound c = BoundMarketLiquidity \<longrightarrow> cpy_assets c = cpy_market_liquidity c \<and> cpy_assets c < cpy_collateral_headroom c)"
proof -
  let ?room = "max 0 (position_max_borrow m p - debt_of m p)"
  define offered where "offered = (case haircut of None \<Rightarrow> ?room | Some margin \<Rightarrow> ?room * margin div MORPHO_WAD_V1)"
  have o: "(case haircut of None \<Rightarrow> Inr ?room | Some margin \<Rightarrow> wMulDownV1 ?room margin) = Inr offered"
    using assms(4) by (auto simp: offered_def wMulDownV1_eq split: option.split)
  have le: "?room * margin div MORPHO_WAD_V1 \<le> ?room \<and> 0 \<le> ?room * margin div MORPHO_WAD_V1"
    if "0 \<le> margin" "margin \<le> 10 ^ 18" for margin
  proof -
    have "?room * margin \<le> ?room * MORPHO_WAD_V1" using that by (intro mult_left_mono) (simp_all add: MORPHO_WAD_V1_def)
    then have "?room * margin div MORPHO_WAD_V1 \<le> ?room * MORPHO_WAD_V1 div MORPHO_WAD_V1" by (intro zdiv_mono1) simp_all
    then show ?thesis using that by (simp add: pos_imp_zdiv_nonneg_iff)
  qed
  then have offered: "0 \<le> offered" "offered \<le> ?room"
    using assms(4) by (auto simp: offered_def split: option.split)
  define c where "c = projr (morphoBorrowCapacityV1 m p haircut)"
  have c: "morphoBorrowCapacityV1 m p haircut = Inr c" and
    shape: "cpy_collateral_headroom c = offered - (if 0 < offered then 1 else 0)"
      "cpy_market_liquidity c = max 0 (mkt_supply_assets m - mkt_borrow_assets m)"
      "cpy_assets c = min (cpy_collateral_headroom c) (cpy_market_liquidity c)"
      "cpy_bound c = (if cpy_assets c = 0 then BoundNothingAvailable
                else if cpy_collateral_headroom c = cpy_market_liquidity c then BoundCollateralAndMarketLiquidity
                else if cpy_collateral_headroom c < cpy_market_liquidity c then BoundCollateral
                else BoundMarketLiquidity)"
    unfolding c_def morphoBorrowCapacityV1_def morphoHealthV1_eq [OF assms(1,2)] bindR_Inr Let_def morpho_health.select_convs o
    by (simp_all add: min_def max_def)
  have sides: "asset_side m \<le> share_side m"
    using assms(3) by (simp add: asset_side_def share_side_def MORPHO_VIRTUAL_ASSETS_V1_def
        MORPHO_VIRTUAL_SHARES_V1_def)
  have "\<exists>r. morphoAfterBorrowV1 m p (cpy_assets c) = Inr (Some r)" if a: "0 < cpy_assets c"
  proof -
    have "cpy_assets c + 1 \<le> position_max_borrow m p - debt_of m p"
      and "cpy_assets c \<le> mkt_supply_assets m - mkt_borrow_assets m"
      using a offered by (auto simp: shape(1-3) split: if_splits)
    moreover have "debt_after m p (cpy_assets c) \<le> debt_of m p + cpy_assets c + 1"
      using debt_after_within_one [OF assms(1,2) _ sides] a by simp
    ultimately show ?thesis
      using morphoAfterBorrowV1_total [OF assms(1,2), of "cpy_assets c"] a by auto
  qed
  moreover have "0 \<le> cpy_assets c" using offered by (auto simp: shape(1-3))
  ultimately show ?thesis using c shape(3,4) by (auto simp: min_def split: if_splits)
qed

lemma offered_capacity_executes_witness:
  "\<exists>c r. morphoBorrowCapacityV1 cbbtc_market cbbtc_position (Some 800000000000000000) = Inr c
    \<and> cpy_assets c = 200000000 \<and> cpy_bound c = BoundMarketLiquidity
    \<and> morphoAfterBorrowV1 cbbtc_market cbbtc_position 200000000 = Inr (Some r)"
proof -
  have "mkt_borrow_assets cbbtc_market + 1 \<le> mkt_borrow_shares cbbtc_market + 10 ^ 6"
    by (simp add: cbbtc_market_def)
  then obtain c where c: "morphoBorrowCapacityV1 cbbtc_market cbbtc_position (Some 800000000000000000) = Inr c"
      "0 < cpy_assets c \<longrightarrow> (\<exists>r. morphoAfterBorrowV1 cbbtc_market cbbtc_position (cpy_assets c) = Inr (Some r))"
    using offered_capacity_executes [OF cbbtc_wf, of "Some 800000000000000000"] by auto
  have "map_sum id (\<lambda>c. (cpy_assets c, cpy_bound c)) (morphoBorrowCapacityV1 cbbtc_market cbbtc_position (Some 800000000000000000))
      = Inr (200000000, BoundMarketLiquidity)"
    by code_simp
  then have "cpy_assets c = 200000000" "cpy_bound c = BoundMarketLiquidity" using c(1) by simp_all
  with c show ?thesis by simp
qed

section \<open>The liquidation price\<close>

definition at_price :: "morpho_market \<Rightarrow> int \<Rightarrow> morpho_market" where
  "at_price m price = m\<lparr>mkt_collateral_price := price\<rparr>"

lemma wf_at_price:
  "wf_market m \<Longrightarrow> 0 \<le> price \<Longrightarrow> wf_market (at_price m price)"
  "wf_position m p \<Longrightarrow> wf_position (at_price m price) p"
  by (simp_all add: wf_market_def wf_position_def at_price_def)

lemma debt_at_price [simp]: "debt_of (at_price m price) p = debt_of m p"
  by (simp add: debt_of_def asset_side_def share_side_def at_price_def)

lemma morphoLiquidationPriceV1_SomeD:
  assumes "wf_market m" and "wf_position m p" and "morphoLiquidationPriceV1 m p = Inr (Some q)"
  shows "0 < pos_collateral p * mkt_lltv_wad m" and "0 < debt_of m p"
    and "q = ceil_div (debt_of m p * MORPHO_ORACLE_PRICE_SCALE_V1 * MORPHO_WAD_V1)
               (pos_collateral p * mkt_lltv_wad m)"
proof -
  have debt: "toAssetsUpV1 (pos_borrow_shares p) (mkt_borrow_assets m) (mkt_borrow_shares m) = Inr (debt_of m p)"
    using assms(1,2) by (simp add: toAssetsUpV1_eq wf_market_def wf_position_def debt_of_def
        asset_side_def share_side_def)
  have nz: "pos_collateral p \<noteq> 0" "mkt_lltv_wad m \<noteq> 0" "debt_of m p \<noteq> 0"
    using assms(3) by (auto simp: morphoLiquidationPriceV1_def debt split: if_splits)
  then show pos: "0 < pos_collateral p * mkt_lltv_wad m"
    using assms(1,2) by (intro mult_pos_pos) (simp_all add: wf_market_def wf_position_def)
  show D: "0 < debt_of m p" using nz(3) debt_of_nonneg [OF assms(1,2)] by simp
  show "q = ceil_div (debt_of m p * MORPHO_ORACLE_PRICE_SCALE_V1 * MORPHO_WAD_V1)
               (pos_collateral p * mkt_lltv_wad m)"
    using assms(3) nz mulDivUpV1_eq [OF _ pos, of "debt_of m p * MORPHO_ORACLE_PRICE_SCALE_V1" MORPHO_WAD_V1] D
    by (auto simp: morphoLiquidationPriceV1_def debt less_imp_le split: if_splits)
qed

text \<open>What the position supports at a price, before the contract rounds it twice.\<close>

lemma max_borrow_lt:
  assumes "0 \<le> l" and "c * p * l < D * MORPHO_ORACLE_PRICE_SCALE_V1 * MORPHO_WAD_V1"
  shows "max_borrow c p l < D"
proof -
  let ?S = MORPHO_ORACLE_PRICE_SCALE_V1
  have "c * p div ?S * ?S \<le> c * p" using le_div_iff [of ?S "c * p div ?S" "c * p"] by simp
  then have "c * p div ?S * ?S * l \<le> c * p * l" using assms(1) by (rule mult_right_mono)
  then have "c * p div ?S * ?S * l < D * ?S * MORPHO_WAD_V1"
    using assms(2) by (rule le_less_trans)
  moreover have "c * p div ?S * ?S * l = (c * p div ?S * l) * ?S"
    and "D * ?S * MORPHO_WAD_V1 = (D * MORPHO_WAD_V1) * ?S" by simp_all
  ultimately have "(c * p div ?S * l) * ?S < (D * MORPHO_WAD_V1) * ?S" by (simp only:)
  then have "c * p div ?S * l < D * MORPHO_WAD_V1" by (rule mult_right_less_imp_less) simp
  then show ?thesis by (simp add: max_borrow_def div_lt_iff)
qed

text \<open>
  C32. Every price below the stated liquidation price fails the contract's health test for the same
  position, and from that price on the collateral covers the debt before rounding.
\<close>

theorem below_liquidation_price_fails:
  assumes "wf_market m" and "wf_position m p" and "morphoLiquidationPriceV1 m p = Inr (Some q)"
  shows "0 < q
    \<and> (0 \<le> price \<and> price < q \<longrightarrow>
           (\<exists>h. morphoHealthV1 (at_price m price) p = Inr h \<and> \<not> hlt_healthy h))
    \<and> (q \<le> price \<longrightarrow> (\<exists>owed. position_debt m p = Inr owed
           \<and> owed * 10 ^ 54 \<le> pos_collateral p * price * mkt_lltv_wad m))"
proof (intro conjI impI)
  note q = morphoLiquidationPriceV1_SomeD [OF assms]
  have scale: "(10::int) ^ 54 = MORPHO_ORACLE_PRICE_SCALE_V1 * MORPHO_WAD_V1"
    by (simp add: MORPHO_ORACLE_PRICE_SCALE_V1_def MORPHO_WAD_V1_def)
  have iff: "q \<le> x \<longleftrightarrow> debt_of m p * MORPHO_ORACLE_PRICE_SCALE_V1 * MORPHO_WAD_V1
      \<le> pos_collateral p * x * mkt_lltv_wad m" for x
    unfolding q(3) ceil_div_le_iff [OF q(1)] by (simp add: ac_simps)
  show "0 < q" unfolding q(3) using q(1,2) by (intro ceil_div_pos) simp_all
  show "\<exists>h. morphoHealthV1 (at_price m price) p = Inr h \<and> \<not> hlt_healthy h"
    if below: "0 \<le> price \<and> price < q"
  proof -
    have that: "0 \<le> price" "price < q" using below by simp_all
    have "position_max_borrow (at_price m price) p < debt_of m p"
      unfolding position_max_borrow_def using that(2) iff [of price] assms(1)
      by (intro max_borrow_lt) (simp_all add: at_price_def wf_market_def)
    then show ?thesis
      using morphoHealthV1_eq [OF wf_at_price(1) [OF assms(1) that(1)] wf_at_price(2) [OF assms(2)]]
      by simp
  qed
  show "\<exists>owed. position_debt m p = Inr owed
      \<and> owed * 10 ^ 54 \<le> pos_collateral p * price * mkt_lltv_wad m" if "q \<le> price"
    using that iff [of price] position_debt_eq [OF assms(1,2)] by (simp only: scale) (simp add: ac_simps)
qed

definition cbbtc_liquidation_price :: int where
  "cbbtc_liquidation_price = 66445183720930232558139534883720930233"

lemma cbbtc_liquidation: "morphoLiquidationPriceV1 cbbtc_market cbbtc_position = Inr (Some cbbtc_liquidation_price)"
  by (simp add: morphoLiquidationPriceV1_def toAssetsUpV1_def mulDivUpV1_def cbbtc_market_def
      cbbtc_position_def cbbtc_liquidation_price_def MORPHO_VIRTUAL_ASSETS_V1_def
      MORPHO_VIRTUAL_SHARES_V1_def MORPHO_ORACLE_PRICE_SCALE_V1_def MORPHO_WAD_V1_def)

lemma below_liquidation_price_fails_witness:
  "0 < cbbtc_liquidation_price
   \<and> (\<exists>h. morphoHealthV1 (at_price cbbtc_market (60 * 10 ^ 36)) cbbtc_position = Inr h \<and> \<not> hlt_healthy h)"
  using below_liquidation_price_fails [OF cbbtc_wf cbbtc_liquidation]
  by (simp add: cbbtc_liquidation_price_def)

text \<open>
  The liquidation price itself is not always a price that passes: the contract rounds twice,
  and the cbBTC position of the example fails the health test exactly at its stated price.
\<close>

theorem liquidation_price_may_fail_itself:
  "morphoLiquidationPriceV1 cbbtc_market cbbtc_position = Inr (Some cbbtc_liquidation_price)
   \<and> (\<exists>h. morphoHealthV1 (at_price cbbtc_market cbbtc_liquidation_price) cbbtc_position = Inr h
        \<and> \<not> hlt_healthy h)"
  by (rule conjI [OF cbbtc_liquidation])
    (simp add: morphoHealthV1_def position_debt_def morphoMaxBorrowAssetsV1_def
      wMulDownV1_def wDivDownV1_def mulDivDownV1_def toAssetsUpV1_def mulDivUpV1_def cbbtc_market_def at_price_def
      cbbtc_position_def cbbtc_liquidation_price_def MORPHO_VIRTUAL_ASSETS_V1_def
      MORPHO_VIRTUAL_SHARES_V1_def MORPHO_ORACLE_PRICE_SCALE_V1_def MORPHO_WAD_V1_def)

end
