(* ===== verification/Terms.thy ===== *)
theory Terms
  imports Money
begin

text \<open>
  The first half of lib/still-engine/src/policy.ts: Still's versioned terms, the share of the
  protocol's factor it lends at, and the safety bands. The windows the terms run on are in
  Market_Clock, Weekend_Market and Windows.
\<close>

record still_terms =
  trm_version :: string
  trm_share_of_protocol_bps :: int
  trm_weekend_stock_share_bps :: int
  trm_weekend_starts_friday :: "int \<times> int"
  trm_weekend_ends_sunday :: "int \<times> int"
  trm_earnings_stock_share_bps :: int
  trm_earnings_starts_day_before :: "int \<times> int"
  trm_earnings_ends_day_after :: "int \<times> int"
  trm_watch_below_bps :: int
  trm_act_below_bps :: int
  trm_dust_below_cents :: int
  trm_eth_gas_reserve_wei :: int

definition TERMS :: still_terms where
  "TERMS = \<lparr>
     trm_version = ''2026-10-26'',
     trm_share_of_protocol_bps = 5000,
     trm_weekend_stock_share_bps = 4000,
     trm_weekend_starts_friday = (20, 0),
     trm_weekend_ends_sunday = (20, 0),
     trm_earnings_stock_share_bps = 4000,
     trm_earnings_starts_day_before = (0, 0),
     trm_earnings_ends_day_after = (20, 0),
     trm_watch_below_bps = 3750,
     trm_act_below_bps = 2000,
     trm_dust_below_cents = 100,
     trm_eth_gas_reserve_wei = 500000000000000\<rparr>"

datatype asset_kind = StockKind | CryptoKind

definition stillShareBps :: "asset_kind \<Rightarrow> bool \<Rightarrow> bool \<Rightarrow> int" where
  "stillShareBps kind weekend earnings =
     (let share = trm_share_of_protocol_bps TERMS in
      if kind \<noteq> StockKind then share
      else
        let share = (if weekend \<and> trm_weekend_stock_share_bps TERMS < share
                     then trm_weekend_stock_share_bps TERMS else share);
            share = (if earnings \<and> trm_earnings_stock_share_bps TERMS < share
                     then trm_earnings_stock_share_bps TERMS else share)
        in share)"

datatype safety_state = Calm | Watch | Act | Liquidation

definition safetyFromHealthFactor :: "int \<Rightarrow> (int \<times> safety_state) result" where
  "safetyFromHealthFactor healthFactorWad =
     (if healthFactorWad \<le> WAD then Inr (0, Liquidation)
      else
        bindR (mulDiv BPS WAD healthFactorWad Up) (\<lambda>used.
        let marginBps = BPS - used in
        if marginBps < trm_act_below_bps TERMS then Inr (marginBps, Act)
        else if marginBps < trm_watch_below_bps TERMS then Inr (marginBps, Watch)
        else Inr (marginBps, Calm)))"

section \<open>The share\<close>

lemma stillShareBps_simps [simp]:
  "stillShareBps CryptoKind w e = 5000"
  "stillShareBps StockKind w e = (if w \<or> e then 4000 else 5000)"
  by (simp_all add: stillShareBps_def TERMS_def)

lemma stillShareBps_range [nonneg]: "0 \<le> stillShareBps k w e" "stillShareBps k w e \<le> BPS"
  by (cases k; simp add: BPS_def)+

section \<open>The safety bands\<close>

definition margin_of :: "int \<Rightarrow> int" where
  "margin_of hf = BPS - ceil_div (BPS * WAD) hf"

lemma safety_eq [money]:
  "WAD < hf \<Longrightarrow> safetyFromHealthFactor hf =
     Inr (margin_of hf,
       if margin_of hf < 2000 then Act else if margin_of hf < 3750 then Watch else Calm)"
  by (simp add: safetyFromHealthFactor_def mulDiv_eq less_imp_le less_trans [OF units_values(1)]
      margin_of_def TERMS_def Let_def)

lemma safety_total [total]: "\<exists>m s. safetyFromHealthFactor hf = Inr (m, s)"
proof (cases "hf \<le> WAD")
  case True
  then show ?thesis by (simp add: safetyFromHealthFactor_def)
next
  case False
  then show ?thesis by (simp add: safety_eq not_le)
qed

lemma margin_ge_iff: "0 < hf \<Longrightarrow> k \<le> margin_of hf \<longleftrightarrow> BPS * WAD \<le> (BPS - k) * hf"
  using ceil_div_le_iff [of hf "BPS * WAD" "BPS - k"] by (auto simp: margin_of_def)

text \<open>
  The safety reading: it never throws, its margin is between nothing and less than all, the
  margin is exactly the whole-basis-point share by which the health factor can fall to one, and the
  bands sit at the health factors the terms name: act below 1.25, watch below 1.6, liquidation at
  1 or less.
\<close>

theorem safety_bands_are_health_factors:
  "\<exists>margin state. safetyFromHealthFactor hf = Inr (margin, state)
    \<and> 0 \<le> margin \<and> margin < BPS
    \<and> (WAD < hf \<longrightarrow> (\<forall>k. k \<le> margin \<longleftrightarrow> BPS * WAD \<le> (BPS - k) * hf))
    \<and> (state = Liquidation \<longleftrightarrow> hf \<le> WAD)
    \<and> (state = Act \<longleftrightarrow> WAD < hf \<and> 4 * hf < 5 * WAD)
    \<and> (state = Watch \<longleftrightarrow> 5 * WAD \<le> 4 * hf \<and> 5 * hf < 8 * WAD)
    \<and> (state = Calm \<longleftrightarrow> 8 * WAD \<le> 5 * hf)"
proof (cases "hf \<le> WAD")
  case True
  moreover have "\<not> 8 * WAD \<le> 5 * hf" "\<not> 5 * WAD \<le> 4 * hf"
    using True units_values(1) by linarith+
  ultimately show ?thesis by (auto simp: safetyFromHealthFactor_def BPS_def)
next
  case False
  then have hf: "WAD < hf" "0 < hf" using units_values(1) by linarith+
  have act: "margin_of hf < 2000 \<longleftrightarrow> 4 * hf < 5 * WAD"
    using margin_ge_iff [OF hf(2), of 2000] unfolding BPS_def by (auto simp: not_le [symmetric])
  have watch: "margin_of hf < 3750 \<longleftrightarrow> 5 * hf < 8 * WAD"
    using margin_ge_iff [OF hf(2), of 3750] unfolding BPS_def by (auto simp: not_le [symmetric])
  have "0 \<le> margin_of hf" using margin_ge_iff [OF hf(2), of 0] hf by (simp add: BPS_def)
  moreover have "margin_of hf < BPS"
    using margin_ge_iff [OF hf(2), of BPS] units_values(1,3) by (simp add: BPS_def not_le [symmetric])
  ultimately show ?thesis
    using hf act watch margin_ge_iff [OF hf(2)] by (auto simp: safety_eq)
qed

lemma safety_bands_are_health_factors_witness:
  "safetyFromHealthFactor (13 * 10 ^ 17) = Inr (2307, Watch)
   \<and> (5 * WAD \<le> 4 * (13 * 10 ^ 17) \<and> 5 * (13 * 10 ^ 17) < 8 * WAD)"
proof -
  have e: "safetyFromHealthFactor (13 * 10 ^ 17) = Inr (2307, Watch)"
    by (simp add: safetyFromHealthFactor_def mulDiv_def jsdiv_def TERMS_def BPS_def WAD_def Let_def)
  show ?thesis using e safety_bands_are_health_factors [of "13 * 10 ^ 17"] by auto
qed

end
