(* ===== verification/Capacity.thy ===== *)
theory Capacity
  imports Morpho_Laws Terms
begin

text \<open>
  lib/still-engine/src/capacity.ts: Still's allowance as a share of the total protocol limit, the
  whole-cent offer that must pass the execution review's own share-rounded projection, the recheck
  of an exact draw, and Aave V4's risk premium.
\<close>

definition UINT256_MAX :: int where
  "UINT256_MAX = 2 ^ 256 - 1"

definition check_unsigned :: "int \<Rightarrow> string \<Rightarrow> unit result" where
  "check_unsigned value label =
     (if value < 0 \<or> value > UINT256_MAX
      then Inl (RangeError (''Still capacity: '' @ label @ '' is outside uint256''))
      else Inr ())"

record still_limit =
  lim_protocol_assets :: int
  lim_share_bps :: int
  lim_assets :: int
  lim_cents :: int

definition stillBorrowLimitV1 :: "int \<Rightarrow> int option \<Rightarrow> still_limit result" where
  "stillBorrowLimitV1 protocolLimitAssets share =
     bindR (check_unsigned protocolLimitAssets ''protocol limit'') (\<lambda>_.
     let shareBps = (case share of None \<Rightarrow> trm_share_of_protocol_bps TERMS | Some s \<Rightarrow> s) in
     if shareBps < 0 \<or> shareBps > BPS then Inl (RangeError ''Still capacity: share is outside basis points'')
     else
       bindR (mulDiv protocolLimitAssets shareBps BPS Down) (\<lambda>limitAssets.
       bindR (usdcToCents limitAssets Down) (\<lambda>limitCents.
       Inr \<lparr>lim_protocol_assets = protocolLimitAssets, lim_share_bps = shareBps,
            lim_assets = limitAssets, lim_cents = limitCents\<rparr>)))"

record still_capacity = still_limit +
  cap_debt_assets :: int
  cap_debt_cents :: int
  cap_liquidity_assets :: int
  cap_liquidity_cents :: int
  cap_headroom_assets :: int
  cap_headroom_cents :: int
  cap_available_cents :: int
  cap_available_assets :: int

definition stillBorrowCapacityV1 :: "int \<Rightarrow> int \<Rightarrow> int \<Rightarrow> int option \<Rightarrow> still_capacity result" where
  "stillBorrowCapacityV1 protocolLimitAssets debtAssets liquidityAssets share =
     bindR (stillBorrowLimitV1 protocolLimitAssets share) (\<lambda>limit.
     bindR (check_unsigned debtAssets ''debt'') (\<lambda>_.
     bindR (check_unsigned liquidityAssets ''liquidity'') (\<lambda>_.
     bindR (usdcToCents debtAssets Up) (\<lambda>debtCents.
     bindR (usdcToCents liquidityAssets Down) (\<lambda>liquidityCents.
     let headroomCents = max_money 0 (lim_cents limit - debtCents);
         availableCents = min_money headroomCents liquidityCents
     in Inr \<lparr>lim_protocol_assets = lim_protocol_assets limit, lim_share_bps = lim_share_bps limit,
             lim_assets = lim_assets limit, lim_cents = lim_cents limit,
             cap_debt_assets = debtAssets, cap_debt_cents = debtCents,
             cap_liquidity_assets = liquidityAssets, cap_liquidity_cents = liquidityCents,
             cap_headroom_assets = max_money 0 (lim_assets limit - debtAssets),
             cap_headroom_cents = headroomCents,
             cap_available_cents = availableCents,
             cap_available_assets = availableCents * USDC_UNITS_PER_CENT\<rparr>)))))"

record morpho_still_input =
  msi_market :: morpho_market
  msi_position :: morpho_position
  msi_additional_collateral :: "int option"
  msi_share_bps :: "int option"

fun check_all :: "(string \<times> int) list \<Rightarrow> unit result" where
  "check_all [] = Inr ()"
| "check_all ((label, value) # rest) = bindR (check_unsigned value label) (\<lambda>_. check_all rest)"

definition morphoInputs :: "morpho_still_input \<Rightarrow> (morpho_position \<times> still_capacity) result" where
  "morphoInputs input =
     (let market = msi_market input;
          position = msi_position input;
          extra = (case msi_additional_collateral input of None \<Rightarrow> 0 | Some x \<Rightarrow> x) in
      bindR (check_all [
        (''collateral'', pos_collateral position), (''additional collateral'', extra),
        (''borrow shares'', pos_borrow_shares position), (''price'', mkt_collateral_price market),
        (''LLTV'', mkt_lltv_wad market), (''supply assets'', mkt_supply_assets market),
        (''borrow assets'', mkt_borrow_assets market), (''total borrow shares'', mkt_borrow_shares market)]) (\<lambda>_.
      if mkt_lltv_wad market > 10 ^ 18 then Inl (RangeError ''Still capacity: LLTV exceeds WAD'')
      else if pos_borrow_shares position > mkt_borrow_shares market
        then Inl (RangeError ''Still capacity: position shares exceed market total'')
      else
        let collateralAfterAssets = pos_collateral position + extra in
        bindR (check_unsigned collateralAfterAssets ''total collateral'') (\<lambda>_.
        bindR (position_debt market position) (\<lambda>debtAssets.
        bindR (morphoMaxBorrowAssetsV1 collateralAfterAssets (mkt_collateral_price market) (mkt_lltv_wad market))
          (\<lambda>protocolLimit.
        bindR (stillBorrowCapacityV1 protocolLimit debtAssets
                 (max_money 0 (mkt_supply_assets market - mkt_borrow_assets market)) (msi_share_bps input))
          (\<lambda>capacity.
        Inr (\<lparr>pos_collateral = collateralAfterAssets, pos_borrow_shares = pos_borrow_shares position\<rparr>,
             capacity)))))))"

text \<open>
  The bounded binary search of \<open>morphoStillCapacityV1\<close>: \<open>low\<close> always passes, everything above
  \<open>high\<close> is refused.
\<close>

lemma middle_bounds: "low < high \<Longrightarrow> low < jsdiv (low + high + 1) 2 \<and> jsdiv (low + high + 1) 2 \<le> high"
proof (cases "0 \<le> low + high + 1")
  case True
  then show "low < high \<Longrightarrow> ?thesis" by (simp del: jsdiv_def) linarith
next
  case False
  then have "jsdiv (low + high + 1) 2 = - ((- (low + high + 1)) div 2)" by (simp add: jsdiv_def)
  then show "low < high \<Longrightarrow> ?thesis" by linarith
qed

function search_cents :: "(int \<Rightarrow> bool result) \<Rightarrow> int \<Rightarrow> int \<Rightarrow> int result" where
  "search_cents passes low high =
     (if low < high then
        let middle = jsdiv (low + high + 1) 2 in
        bindR (passes middle) (\<lambda>ok.
          if ok then search_cents passes middle high else search_cents passes low (middle - 1))
      else Inr low)"
  by pat_completeness auto
termination
  by (relation "measure (\<lambda>(_, low, high). nat (high - low))") (use middle_bounds in force)+

declare search_cents.simps [simp del]

record morpho_still_capacity = still_capacity +
  msc_collateral_after :: int
  msc_rounding_margin_cents :: int

definition passes_review :: "morpho_market \<Rightarrow> morpho_position \<Rightarrow> int \<Rightarrow> int \<Rightarrow> bool result" where
  "passes_review market position limitAssets cents =
     (if cents = 0 then Inr True
      else
        bindR (morphoAfterBorrowV1 market position (cents * USDC_UNITS_PER_CENT)) (\<lambda>after.
        Inr (case after of None \<Rightarrow> False | Some r \<Rightarrow> hlt_borrowed (aft_health r) \<le> limitAssets)))"

definition morphoStillCapacityV1 :: "morpho_still_input \<Rightarrow> morpho_still_capacity result" where
  "morphoStillCapacityV1 input =
     bindR (morphoInputs input) (\<lambda>(position, capacity).
     let passes = passes_review (msi_market input) position (lim_assets capacity) in
     bindR (passes (cap_available_cents capacity)) (\<lambda>ok.
     bindR (if ok then Inr (cap_available_cents capacity)
            else search_cents passes 0 (cap_available_cents capacity)) (\<lambda>availableCents.
     Inr (still_capacity.extend
       (capacity\<lparr>cap_available_cents := availableCents,
                 cap_available_assets := availableCents * USDC_UNITS_PER_CENT\<rparr>)
       \<lparr>msc_collateral_after = pos_collateral position,
        msc_rounding_margin_cents = cap_available_cents capacity - availableCents\<rparr>))))"

datatype draw_refusal =
    NothingAskedFor
  | OverMarketLiquidity
  | OverStillLimit
  | WouldNotBeHealthy
  | ProjectedDebtOverStillLimit

datatype morpho_still_draw =
    DrawOk morpho_still_capacity morpho_after
  | DrawRefused morpho_still_capacity draw_refusal

definition morphoStillDrawV1 :: "morpho_still_input \<Rightarrow> int \<Rightarrow> morpho_still_draw result" where
  "morphoStillDrawV1 input borrowAssets =
     bindR (morphoStillCapacityV1 input) (\<lambda>capacity.
     if borrowAssets \<le> 0 then Inr (DrawRefused capacity NothingAskedFor)
     else
       bindR (check_unsigned borrowAssets ''draw'') (\<lambda>_.
       if borrowAssets > cap_liquidity_cents capacity * USDC_UNITS_PER_CENT
         then Inr (DrawRefused capacity OverMarketLiquidity)
       else if borrowAssets > cap_available_assets capacity
         then Inr (DrawRefused capacity OverStillLimit)
       else
         bindR (morphoAfterBorrowV1 (msi_market input)
                  \<lparr>pos_collateral = msc_collateral_after capacity,
                   pos_borrow_shares = pos_borrow_shares (msi_position input)\<rparr> borrowAssets) (\<lambda>after.
         case after of
           None \<Rightarrow> Inr (DrawRefused capacity WouldNotBeHealthy)
         | Some r \<Rightarrow>
             if hlt_borrowed (aft_health r) > lim_assets capacity
               then Inr (DrawRefused capacity ProjectedDebtOverStillLimit)
             else Inr (DrawOk capacity r))))"

section \<open>Aave V4's risk premium\<close>

record risk_entry =
  rsk_bps :: int
  rsk_value :: int

text \<open>The comparator: the least risk first and, at one risk, the greatest value first.\<close>

definition risk_before :: "risk_entry \<Rightarrow> risk_entry \<Rightarrow> bool" where
  "risk_before a b \<longleftrightarrow>
     (if rsk_bps a \<noteq> rsk_bps b then rsk_bps a < rsk_bps b else rsk_value a \<ge> rsk_value b)"

text \<open>The stable sort of the runtime with that comparator, as insertion from the right.\<close>

fun insert_risk :: "risk_entry \<Rightarrow> risk_entry list \<Rightarrow> risk_entry list" where
  "insert_risk x [] = [x]"
| "insert_risk x (y # ys) = (if risk_before x y then x # y # ys else y # insert_risk x ys)"

fun sort_risk :: "risk_entry list \<Rightarrow> risk_entry list" where
  "sort_risk [] = []"
| "sort_risk (x # xs) = insert_risk x (sort_risk xs)"

fun cover_debt :: "risk_entry list \<Rightarrow> int \<Rightarrow> int \<Rightarrow> int \<times> int" where
  "cover_debt [] left weighted = (left, weighted)"
| "cover_debt (entry # rest) left weighted =
     (if left = 0 then (left, weighted)
      else let covered = min_money (rsk_value entry) left
           in cover_debt rest (left - covered) (weighted + covered * rsk_bps entry))"

definition aaveRiskPremiumBpsV1 :: "risk_entry list \<Rightarrow> int \<Rightarrow> int result" where
  "aaveRiskPremiumBpsV1 collateral debtValue =
     (let (left, weighted) = cover_debt (sort_risk collateral) debtValue 0;
          covered = debtValue - left
      in if covered = 0 then Inr 0 else mulDiv weighted 1 covered Up)"

end
