(* ===== verification/Capacity_Properties.thy ===== *)
theory Capacity_Properties
  imports Capacity Morpho_Properties
begin

text \<open>
  The interface between a lending venue and Still's allowance: a venue says what a state owes and
  what it would owe after a draw, and promises that the draw is covered and that a larger draw
  never owes less. Still's offer rests on these two laws only. The venue that provides them here is
  Morpho's projection; Aave's plain debt counter is the other one.

  What Still's allowance promises: the offer is the greatest whole-cent amount the execution review
  accepts, a draw is accepted exactly within the offer, and an accepted draw starts at least half
  way from liquidation.
\<close>

locale draw_ledger =
  fixes valid :: "'s \<Rightarrow> bool"
    and owes :: "'s \<Rightarrow> int"
    and owes_after :: "'s \<Rightarrow> int \<Rightarrow> int"
  assumes after_covers: "valid s \<Longrightarrow> 0 \<le> a \<Longrightarrow> owes s + a \<le> owes_after s a"
    and after_mono: "valid s \<Longrightarrow> 0 \<le> a \<Longrightarrow> a \<le> b \<Longrightarrow> owes_after s a \<le> owes_after s b"
begin

lemma accepted_within_headroom:
  "valid s \<Longrightarrow> 0 \<le> a \<Longrightarrow> owes_after s a \<le> limit \<Longrightarrow> a \<le> limit - owes s"
  using after_covers [of s a] by linarith

lemma smaller_draw_fits:
  "valid s \<Longrightarrow> 0 \<le> a \<Longrightarrow> a \<le> b \<Longrightarrow> owes_after s b \<le> limit \<Longrightarrow> owes_after s a \<le> limit"
  using after_mono [of s a b] by linarith

text \<open>One tick is \<open>u\<close> units; if some number of ticks fits, every smaller number does.\<close>

lemma fewer_ticks_fit:
  "valid s \<Longrightarrow> 0 \<le> u \<Longrightarrow> 0 \<le> c \<Longrightarrow> c \<le> d \<Longrightarrow> owes_after s (d * u) \<le> limit \<Longrightarrow> owes_after s (c * u) \<le> limit"
  by (rule smaller_draw_fits [of s "c * u" "d * u"]) (simp_all add: mult_right_mono)

end

text \<open>Morpho: the debt in rounded shares.\<close>

definition morpho_valid :: "morpho_market \<times> morpho_position \<Rightarrow> bool" where
  "morpho_valid = (\<lambda>(m, p). wf_market m \<and> wf_position m p)"

definition morpho_owes :: "morpho_market \<times> morpho_position \<Rightarrow> int" where
  "morpho_owes = (\<lambda>(m, p). debt_of m p)"

definition morpho_owes_after :: "morpho_market \<times> morpho_position \<Rightarrow> int \<Rightarrow> int" where
  "morpho_owes_after = (\<lambda>(m, p) a. debt_after m p a)"

interpretation morpho_draw: draw_ledger morpho_valid morpho_owes morpho_owes_after
proof unfold_locales
  show "morpho_valid s \<Longrightarrow> 0 \<le> a \<Longrightarrow> morpho_owes s + a \<le> morpho_owes_after s a" for s a
    by (cases s) (simp add: morpho_valid_def morpho_owes_def morpho_owes_after_def debt_after_covers)
  show "morpho_valid s \<Longrightarrow> 0 \<le> a \<Longrightarrow> a \<le> b \<Longrightarrow> morpho_owes_after s a \<le> morpho_owes_after s b" for s a b
    by (cases s) (simp add: morpho_valid_def morpho_owes_after_def debt_after_mono)
qed

text \<open>The binary search finds the greatest accepted value of a downward closed test.\<close>

lemma search_cents_greatest:
  assumes "\<And>c. low < c \<Longrightarrow> c \<le> high \<Longrightarrow> passes c = Inr (P c)" and "P low" and "low \<le> high"
    and "\<And>c d. low \<le> c \<Longrightarrow> c \<le> d \<Longrightarrow> d \<le> high \<Longrightarrow> P d \<Longrightarrow> P c"
  shows "\<exists>r. search_cents passes low high = Inr r \<and> low \<le> r \<and> r \<le> high \<and> P r
    \<and> (\<forall>c. r < c \<and> c \<le> high \<longrightarrow> \<not> P c)"
  using assms
proof (induction passes low high rule: search_cents.induct)
  case (1 passes low high)
  show ?case
  proof (cases "low < high")
    case False
    with "1.prems"(2,3) show ?thesis by (subst search_cents.simps) auto
  next
    case True
    define mid where "mid = jsdiv (low + high + 1) 2"
    have mid: "low < mid" "mid \<le> high" using middle_bounds [OF True] by (simp_all add: mid_def)
    have ok: "passes mid = Inr (P mid)" using "1.prems"(1) mid by simp
    show ?thesis
    proof (cases "P mid")
      case True
      have "\<exists>r. search_cents passes mid high = Inr r \<and> mid \<le> r \<and> r \<le> high \<and> P r
          \<and> (\<forall>c. r < c \<and> c \<le> high \<longrightarrow> \<not> P c)"
        using "1.prems" mid ok True \<open>low < high\<close> by (intro "1.IH"(1) [OF \<open>low < high\<close> mid_def]) auto
      then show ?thesis
        using \<open>low < high\<close> mid ok True by (subst search_cents.simps) (auto simp: mid_def [symmetric] Let_def)
    next
      case False
      then have above: "\<not> P c" if "mid \<le> c" "c \<le> high" for c
        using "1.prems"(4) [of mid c] mid that by auto
      have "\<exists>r. search_cents passes low (mid - 1) = Inr r \<and> low \<le> r \<and> r \<le> mid - 1 \<and> P r
          \<and> (\<forall>c. r < c \<and> c \<le> mid - 1 \<longrightarrow> \<not> P c)"
        using "1.prems" mid ok False \<open>low < high\<close> by (intro "1.IH"(2) [OF \<open>low < high\<close> mid_def]) auto
      then obtain r where r: "search_cents passes low (mid - 1) = Inr r" "low \<le> r" "r \<le> mid - 1" "P r"
        "\<forall>c. r < c \<and> c \<le> mid - 1 \<longrightarrow> \<not> P c" by blast
      have "\<forall>c. r < c \<and> c \<le> high \<longrightarrow> \<not> P c" using r(5) above by (metis not_less zle_diff1_eq)
      then show ?thesis
        using \<open>low < high\<close> mid ok False r(1-4)
        by (subst search_cents.simps) (auto simp: mid_def [symmetric] Let_def)
    qed
  qed
qed

section \<open>What the inputs establish\<close>

lemma check_unsigned_Inr: "check_unsigned v l = Inr u \<longleftrightarrow> 0 \<le> v \<and> v \<le> UINT256_MAX"
  by (auto simp: check_unsigned_def)

lemma check_unsigned_eq [money]: "0 \<le> v \<Longrightarrow> v \<le> UINT256_MAX \<Longrightarrow> check_unsigned v l = Inr ()"
  by (simp add: check_unsigned_def)

lemma check_all_Inr: "check_all vs = Inr u \<longleftrightarrow> (\<forall>(l, v) \<in> set vs. 0 \<le> v \<and> v \<le> UINT256_MAX)"
  by (induction vs rule: check_all.induct) (auto simp: bindR_eq_Inr check_unsigned_Inr)

definition chosen_share :: "int option \<Rightarrow> int" where
  "chosen_share share = (case share of None \<Rightarrow> trm_share_of_protocol_bps TERMS | Some s \<Rightarrow> s)"

lemma chosen_share_simps [simp]: "chosen_share None = 5000" "chosen_share (Some s) = s"
  by (simp_all add: chosen_share_def TERMS_def)

lemma stillBorrowLimitV1_InrD:
  assumes "stillBorrowLimitV1 M share = Inr l"
  shows "0 \<le> M" and "M \<le> UINT256_MAX" and "0 \<le> chosen_share share" and "chosen_share share \<le> BPS"
    and "lim_protocol_assets l = M" and "lim_share_bps l = chosen_share share"
    and "lim_assets l = M * chosen_share share div BPS"
    and "lim_cents l = lim_assets l div USDC_UNITS_PER_CENT" and "0 \<le> lim_assets l"
  using assms
  by (auto simp: stillBorrowLimitV1_def bindR_eq_Inr check_unsigned_Inr Let_def chosen_share_def [symmetric]
      not_less pos_imp_zdiv_nonneg_iff dest!: mulDiv_DownD usdcToCents_DownD split: if_splits)

lemma stillBorrowLimitV1_eq [money]:
  assumes "0 \<le> M" and "M \<le> UINT256_MAX" and "0 \<le> chosen_share share" and "chosen_share share \<le> BPS"
  shows "stillBorrowLimitV1 M share = Inr \<lparr>lim_protocol_assets = M, lim_share_bps = chosen_share share,
    lim_assets = M * chosen_share share div BPS,
    lim_cents = M * chosen_share share div BPS div USDC_UNITS_PER_CENT\<rparr>"
  using assms by (simp add: stillBorrowLimitV1_def check_unsigned_eq Let_def chosen_share_def [symmetric]
      mulDiv_eq usdcToCents_eq pos_imp_zdiv_nonneg_iff)

lemma limit_below_protocol: "0 \<le> M \<Longrightarrow> 0 \<le> s \<Longrightarrow> s \<le> BPS \<Longrightarrow> M * s div BPS \<le> M"
proof -
  assume "0 \<le> M" "0 \<le> s" "s \<le> BPS"
  then have "M * s div BPS \<le> M * BPS div BPS" by (intro zdiv_mono1 mult_left_mono) simp_all
  then show ?thesis by simp
qed

text \<open>The state a successful capacity rests on.\<close>

definition after_deposit :: "morpho_still_input \<Rightarrow> morpho_position" where
  "after_deposit i = \<lparr>pos_collateral = pos_collateral (msi_position i)
       + (case msi_additional_collateral i of None \<Rightarrow> 0 | Some x \<Rightarrow> x),
     pos_borrow_shares = pos_borrow_shares (msi_position i)\<rparr>"

definition lendable :: "morpho_market \<Rightarrow> int" where
  "lendable m = max 0 (mkt_supply_assets m - mkt_borrow_assets m)"

definition base_cents :: "int \<Rightarrow> int \<Rightarrow> int \<Rightarrow> int" where
  "base_cents limit debt liquidity =
     min (max 0 (limit div USDC_UNITS_PER_CENT - ceil_div debt USDC_UNITS_PER_CENT))
         (liquidity div USDC_UNITS_PER_CENT)"

lemma stillBorrowCapacityV1_InrD:
  assumes "stillBorrowCapacityV1 M D Q share = Inr c"
  shows "0 \<le> M" and "0 \<le> D" and "0 \<le> Q" and "0 \<le> chosen_share share" and "chosen_share share \<le> BPS"
    and "lim_assets c = M * chosen_share share div BPS" and "lim_cents c = lim_assets c div USDC_UNITS_PER_CENT"
    and "cap_debt_assets c = D" and "cap_liquidity_cents c = Q div USDC_UNITS_PER_CENT"
    and "cap_available_cents c = base_cents (lim_assets c) D Q"
    and "cap_available_assets c = cap_available_cents c * USDC_UNITS_PER_CENT"
    and "cap_headroom_assets c = max 0 (lim_assets c - D)"
proof -
  from assms obtain l where l: "stillBorrowLimitV1 M share = Inr l" by (auto simp: stillBorrowCapacityV1_def)
  note d = stillBorrowLimitV1_InrD [OF l]
  show "0 \<le> M" "0 \<le> chosen_share share" "chosen_share share \<le> BPS" by (fact d)+
  show "0 \<le> D" "0 \<le> Q"
    and "lim_assets c = M * chosen_share share div BPS" "lim_cents c = lim_assets c div USDC_UNITS_PER_CENT"
    and "cap_debt_assets c = D" "cap_liquidity_cents c = Q div USDC_UNITS_PER_CENT"
    and "cap_available_cents c = base_cents (lim_assets c) D Q"
    and "cap_available_assets c = cap_available_cents c * USDC_UNITS_PER_CENT"
    and "cap_headroom_assets c = max 0 (lim_assets c - D)"
    using assms d(7,8)
    by (auto simp: stillBorrowCapacityV1_def l check_unsigned_Inr Let_def base_cents_def
        dest!: usdcToCents_DownD usdcToCents_UpD)
qed

lemma morphoInputs_InrD:
  assumes "morphoInputs i = Inr (p, c)"
  shows "wf_market (msi_market i)" and "wf_position (msi_market i) p" and "p = after_deposit i"
    and "wf_position (msi_market i) (msi_position i)"
    and "stillBorrowCapacityV1 (position_max_borrow (msi_market i) p) (debt_of (msi_market i) p)
           (lendable (msi_market i)) (msi_share_bps i) = Inr c"
    and "mkt_lltv_wad (msi_market i) \<le> WAD"
proof -
  let ?m = "msi_market i" and ?q = "msi_position i"
  from assms have checks: "0 \<le> pos_collateral ?q" "0 \<le> pos_borrow_shares ?q"
      "0 \<le> pos_collateral (after_deposit i)" "pos_borrow_shares ?q \<le> mkt_borrow_shares ?m"
    and m: "wf_market ?m" and p: "p = after_deposit i" and l: "mkt_lltv_wad ?m \<le> WAD"
    by (auto simp: morphoInputs_def Let_def bindR_eq_Inr check_all_Inr check_unsigned_Inr wf_market_def
        after_deposit_def not_less WAD_def simp del: check_all.simps split: if_splits)
  show "wf_market ?m" "p = after_deposit i" "mkt_lltv_wad ?m \<le> WAD" by fact+
  show q: "wf_position ?m ?q" using checks by (simp add: wf_position_def)
  show wp: "wf_position ?m p" using checks p by (simp add: wf_position_def after_deposit_def)
  have debt: "position_debt ?m ?q = Inr (debt_of ?m p)"
    using position_debt_eq [OF m q] p by (simp add: debt_of_def after_deposit_def)
  have limit: "morphoMaxBorrowAssetsV1 (pos_collateral p) (mkt_collateral_price ?m) (mkt_lltv_wad ?m)
      = Inr (position_max_borrow ?m p)"
    using m wp by (simp add: morphoMaxBorrowAssetsV1_eq position_max_borrow_def wf_market_def wf_position_def)
  from assms show "stillBorrowCapacityV1 (position_max_borrow ?m p) (debt_of ?m p) (lendable ?m) (msi_share_bps i) = Inr c"
    using debt limit p
    by (auto simp: morphoInputs_def Let_def bindR_eq_Inr lendable_def after_deposit_def
        simp del: check_all.simps split: if_splits)
qed

section \<open>The review's test\<close>

definition review_accepts :: "morpho_market \<Rightarrow> morpho_position \<Rightarrow> int \<Rightarrow> int \<Rightarrow> bool" where
  "review_accepts m p limit a \<longleftrightarrow>
     a \<le> mkt_supply_assets m - mkt_borrow_assets m \<and> debt_after m p a \<le> position_max_borrow m p
     \<and> debt_after m p a \<le> limit"

lemma passes_review_eq:
  assumes "wf_market m" and "wf_position m p" and "0 \<le> c"
  shows "passes_review m p limit c =
    Inr (c = 0 \<or> review_accepts m p limit (c * USDC_UNITS_PER_CENT))"
proof (cases "c = 0")
  case True
  then show ?thesis by (simp add: passes_review_def)
next
  case False
  then have pos: "0 < c * USDC_UNITS_PER_CENT" using assms(3) by simp
  obtain r where r: "morphoAfterBorrowV1 m p (c * USDC_UNITS_PER_CENT) = Inr r"
    and iff: "r \<noteq> None \<longleftrightarrow> 0 < c * USDC_UNITS_PER_CENT
         \<and> c * USDC_UNITS_PER_CENT \<le> mkt_supply_assets m - mkt_borrow_assets m
         \<and> debt_after m p (c * USDC_UNITS_PER_CENT) \<le> position_max_borrow m p"
    using morphoAfterBorrowV1_total [OF assms(1,2)] by blast
  show ?thesis
  proof (cases r)
    case None
    with r iff pos False show ?thesis by (auto simp: passes_review_def review_accepts_def)
  next
    case (Some a)
    note d = morphoAfterBorrowV1_SomeD [OF assms(1,2) r [unfolded Some]]
    with r iff pos Some False show ?thesis by (auto simp: passes_review_def review_accepts_def)
  qed
qed

lemma review_accepts_smaller:
  assumes "wf_market m" and "wf_position m p" and "0 \<le> a" and "a \<le> b" and "review_accepts m p limit b"
  shows "review_accepts m p limit a"
  using morpho_draw.smaller_draw_fits [of "(m, p)" a b limit]
    morpho_draw.smaller_draw_fits [of "(m, p)" a b "position_max_borrow m p"] assms
  by (simp add: review_accepts_def morpho_valid_def morpho_owes_after_def)

lemma base_cents_nonneg [nonneg]: "0 \<le> Q \<Longrightarrow> 0 \<le> base_cents L D Q"
  by (simp add: base_cents_def pos_imp_zdiv_nonneg_iff)

lemma review_accepts_fewer:
  assumes "wf_market m" and "wf_position m p" and "0 \<le> n" and "n \<le> k"
    and "k = 0 \<or> review_accepts m p L (k * USDC_UNITS_PER_CENT)"
  shows "n = 0 \<or> review_accepts m p L (n * USDC_UNITS_PER_CENT)"
  using assms review_accepts_smaller [OF assms(1,2), of "n * USDC_UNITS_PER_CENT" "k * USDC_UNITS_PER_CENT" L]
  by (cases "n = 0") (auto simp: mult_right_mono less_imp_le [OF units_values(4)])

text \<open>The search finds the greatest amount the review accepts, whether or not it has to search.\<close>

lemma review_search:
  fixes L :: int
  assumes wf: "wf_market m" "wf_position m p" and "0 \<le> most"
  defines "P \<equiv> \<lambda>n. n = 0 \<or> review_accepts m p L (n * USDC_UNITS_PER_CENT)"
  shows "\<exists>r. (if P most then Inr most else search_cents (passes_review m p L) 0 most) = Inr r
      \<and> 0 \<le> r \<and> r \<le> most \<and> P r \<and> (\<forall>n. r < n \<and> n \<le> most \<longrightarrow> \<not> P n)"
proof (cases "P most")
  case True
  then show ?thesis using assms(3) by auto
next
  case False
  have "\<exists>r. search_cents (passes_review m p L) 0 most = Inr r \<and> 0 \<le> r \<and> r \<le> most \<and> P r
        \<and> (\<forall>n. r < n \<and> n \<le> most \<longrightarrow> \<not> P n)"
  proof (rule search_cents_greatest)
    show "passes_review m p L n = Inr (P n)" if "0 < n" for n
      using passes_review_eq [OF wf, of n L] that by (simp add: P_def)
    show "P c" if "0 \<le> c" "c \<le> d" "P d" for c d
      using review_accepts_fewer [OF wf that(1,2), of L] that(3) by (simp add: P_def)
  qed (use assms(3) in \<open>simp_all add: P_def\<close>)
  with False show ?thesis by simp
qed

text \<open>What \<open>morphoStillCapacityV1\<close> computes, once its inputs pass.\<close>

lemma morphoStillCapacityV1_eq:
  assumes i: "morphoInputs i = Inr (p, base)"
  shows "\<exists>r. morphoStillCapacityV1 i = Inr (still_capacity.extend
       (base\<lparr>cap_available_cents := r, cap_available_assets := r * USDC_UNITS_PER_CENT\<rparr>)
       \<lparr>msc_collateral_after = pos_collateral p, msc_rounding_margin_cents = cap_available_cents base - r\<rparr>)
    \<and> 0 \<le> r \<and> r \<le> cap_available_cents base
    \<and> (\<forall>n. 0 < n \<and> n \<le> cap_available_cents base \<longrightarrow>
         (n \<le> r \<longleftrightarrow> review_accepts (msi_market i) p (lim_assets base) (n * USDC_UNITS_PER_CENT)))"
proof -
  note d = morphoInputs_InrD [OF i]
  let ?m = "msi_market i" and ?L = "lim_assets base" and ?top = "cap_available_cents base"
  let ?P = "\<lambda>n. n = 0 \<or> review_accepts ?m p ?L (n * USDC_UNITS_PER_CENT)"
  note b = stillBorrowCapacityV1_InrD [OF d(5)]
  have top: "0 \<le> ?top" using b(3,10) by (simp add: base_cents_nonneg)
  obtain r where r: "(if ?P ?top then Inr ?top else search_cents (passes_review ?m p ?L) 0 ?top) = Inr r"
      "0 \<le> r" "r \<le> ?top" "?P r" "\<forall>n. r < n \<and> n \<le> ?top \<longrightarrow> \<not> ?P n"
    using review_search [OF d(1,2) top, of ?L] by blast
  have passes: "passes_review ?m p ?L ?top = Inr (?P ?top)" by (rule passes_review_eq [OF d(1,2) top])
  have "n \<le> r \<longleftrightarrow> review_accepts ?m p ?L (n * USDC_UNITS_PER_CENT)" if "0 < n" "n \<le> ?top" for n
    using r(4,5) that review_accepts_fewer [OF d(1,2), of n r ?L] by (cases "n \<le> r") auto
  with r passes show ?thesis
    by (intro exI [of _ r]) (auto simp: morphoStillCapacityV1_def i Let_def split: if_splits)
qed

lemma morphoStillCapacityV1_InrD:
  assumes "morphoStillCapacityV1 i = Inr c"
  obtains base where "morphoInputs i = Inr (after_deposit i, base)"
    and "lim_assets c = lim_assets base" and "cap_liquidity_cents c = cap_liquidity_cents base"
    and "cap_debt_assets c = cap_debt_assets base" and "lim_cents c = lim_cents base"
    and "cap_debt_cents c = cap_debt_cents base"
    and "cap_available_assets c = cap_available_cents c * USDC_UNITS_PER_CENT"
    and "msc_collateral_after c = pos_collateral (after_deposit i)"
    and "msc_rounding_margin_cents c = cap_available_cents base - cap_available_cents c"
    and "0 \<le> cap_available_cents c" and "cap_available_cents c \<le> cap_available_cents base"
    and "\<And>n. 0 < n \<Longrightarrow> n \<le> cap_available_cents base \<Longrightarrow>
           n \<le> cap_available_cents c \<longleftrightarrow>
           review_accepts (msi_market i) (after_deposit i) (lim_assets base) (n * USDC_UNITS_PER_CENT)"
proof -
  from assms obtain p base where i: "morphoInputs i = Inr (p, base)"
    by (auto simp: morphoStillCapacityV1_def)
  obtain r where r: "c = still_capacity.extend
       (base\<lparr>cap_available_cents := r, cap_available_assets := r * USDC_UNITS_PER_CENT\<rparr>)
       \<lparr>msc_collateral_after = pos_collateral p, msc_rounding_margin_cents = cap_available_cents base - r\<rparr>"
    "0 \<le> r" "r \<le> cap_available_cents base"
    "\<forall>n. 0 < n \<and> n \<le> cap_available_cents base \<longrightarrow>
         (n \<le> r \<longleftrightarrow> review_accepts (msi_market i) p (lim_assets base) (n * USDC_UNITS_PER_CENT))"
    using morphoStillCapacityV1_eq [OF i] assms by auto
  show ?thesis
    using i morphoInputs_InrD(3) [OF i] r(2-4)
    by (intro that [of base]) (simp_all add: r(1) still_capacity.defs)
qed

text \<open>Inputs within uint256 pass, so the capacity is computed.\<close>

definition wf_still_input :: "morpho_still_input \<Rightarrow> bool" where
  "wf_still_input i \<longleftrightarrow>
     wf_market (msi_market i) \<and> wf_position (msi_market i) (msi_position i)
     \<and> 0 \<le> (case msi_additional_collateral i of None \<Rightarrow> 0 | Some x \<Rightarrow> x)
     \<and> pos_collateral (after_deposit i) \<le> UINT256_MAX
     \<and> mkt_collateral_price (msi_market i) \<le> UINT256_MAX \<and> mkt_lltv_wad (msi_market i) \<le> WAD
     \<and> mkt_supply_assets (msi_market i) \<le> UINT256_MAX \<and> mkt_borrow_assets (msi_market i) < UINT256_MAX
     \<and> mkt_borrow_shares (msi_market i) \<le> UINT256_MAX
     \<and> position_max_borrow (msi_market i) (after_deposit i) \<le> UINT256_MAX
     \<and> 0 \<le> chosen_share (msi_share_bps i) \<and> chosen_share (msi_share_bps i) \<le> BPS"

lemma debt_below_asset_side:
  assumes "wf_market m" and "wf_position m p"
  shows "debt_of m p \<le> asset_side m"
proof -
  have "pos_borrow_shares p * asset_side m \<le> asset_side m * share_side m"
    using shares_below_side [OF assms] asset_side_pos [OF assms(1)] by (simp add: mult.commute mult_right_mono)
  then show ?thesis using assms by (simp add: debt_of_def ceil_div_le_iff)
qed

lemma stillBorrowCapacityV1_total [total]:
  assumes "0 \<le> M" "M \<le> UINT256_MAX" "0 \<le> D" "D \<le> UINT256_MAX" "0 \<le> Q" "Q \<le> UINT256_MAX"
    and "0 \<le> chosen_share share" "chosen_share share \<le> BPS"
  shows "\<exists>c. stillBorrowCapacityV1 M D Q share = Inr c"
  using assms by (simp add: stillBorrowCapacityV1_def stillBorrowLimitV1_eq check_unsigned_eq usdcToCents_eq Let_def)

lemma morphoStillCapacityV1_total [total]:
  assumes "wf_still_input i"
  shows "\<exists>c. morphoStillCapacityV1 i = Inr c"
proof -
  let ?m = "msi_market i" and ?q = "msi_position i" and ?p = "after_deposit i"
  let ?extra = "case msi_additional_collateral i of None \<Rightarrow> 0 | Some x \<Rightarrow> x"
  have m: "wf_market ?m" and q: "wf_position ?m ?q" and extra: "0 \<le> ?extra"
    and after: "pos_collateral ?p \<le> UINT256_MAX" "pos_collateral ?p = pos_collateral ?q + ?extra"
    and bounds: "mkt_collateral_price ?m \<le> UINT256_MAX" "mkt_lltv_wad ?m \<le> WAD" "mkt_supply_assets ?m \<le> UINT256_MAX"
      "mkt_borrow_assets ?m < UINT256_MAX" "mkt_borrow_shares ?m \<le> UINT256_MAX"
      "position_max_borrow ?m ?p \<le> UINT256_MAX" "0 \<le> chosen_share (msi_share_bps i)" "chosen_share (msi_share_bps i) \<le> BPS"
    using assms by (simp_all add: wf_still_input_def after_deposit_def)
  have p: "wf_position ?m ?p" using q extra by (simp add: wf_position_def after_deposit_def)
  have wad: "WAD \<le> UINT256_MAX" by (simp add: WAD_def UINT256_MAX_def)
  have debt: "position_debt ?m ?q = Inr (debt_of ?m ?p)"
    using position_debt_eq [OF m q] by (simp add: debt_of_def after_deposit_def)
  have debt_bound: "0 \<le> debt_of ?m ?p" "debt_of ?m ?p \<le> UINT256_MAX"
    using debt_of_nonneg [OF m p] debt_below_asset_side [OF m p] bounds(4)
    by (simp_all add: asset_side_def MORPHO_VIRTUAL_ASSETS_V1_def)
  have limit: "morphoMaxBorrowAssetsV1 (pos_collateral ?p) (mkt_collateral_price ?m) (mkt_lltv_wad ?m)
      = Inr (position_max_borrow ?m ?p)"
    using m p by (simp add: morphoMaxBorrowAssetsV1_eq position_max_borrow_def wf_market_def wf_position_def)
  have lend: "0 \<le> lendable ?m" "lendable ?m \<le> UINT256_MAX"
    using m bounds(3) by (auto simp: lendable_def wf_market_def UINT256_MAX_def)
  obtain c where "stillBorrowCapacityV1 (position_max_borrow ?m ?p) (debt_of ?m ?p) (lendable ?m) (msi_share_bps i) = Inr c"
    using stillBorrowCapacityV1_total position_max_borrow_nonneg [OF m p] debt_bound lend bounds by blast
  moreover have "check_all [
        (''collateral'', pos_collateral ?q), (''additional collateral'', ?extra),
        (''borrow shares'', pos_borrow_shares ?q), (''price'', mkt_collateral_price ?m),
        (''LLTV'', mkt_lltv_wad ?m), (''supply assets'', mkt_supply_assets ?m),
        (''borrow assets'', mkt_borrow_assets ?m), (''total borrow shares'', mkt_borrow_shares ?m)] = Inr ()"
    unfolding check_all_Inr using m q extra after bounds wad by (auto simp: wf_market_def wf_position_def)
  ultimately have "morphoInputs i = Inr (?p, c)"
    using limit debt bounds(2) q after extra
    by (auto simp: morphoInputs_def Let_def WAD_def wf_position_def check_unsigned_eq lendable_def
        after_deposit_def simp del: check_all.simps)
  then show ?thesis using morphoStillCapacityV1_eq by blast
qed

section \<open>The offer and the draw\<close>

text \<open>
  C11. The offer is the greatest whole-cent amount the execution review accepts: it never passes
  the share-limit headroom or the market's liquidity, a positive whole number of cents within both
  is offered exactly when the review's own share-rounded projection accepts it, and the part cut
  from the exact bounds is what the review refuses.
\<close>

theorem offer_is_greatest_reviewed_amount:
  assumes "morphoStillCapacityV1 i = Inr c"
  shows "let m = msi_market i; p = after_deposit i;
             top = base_cents (lim_assets c) (debt_of m p) (lendable m)
    in 0 \<le> cap_available_cents c \<and> cap_available_cents c \<le> top
       \<and> msc_rounding_margin_cents c = top - cap_available_cents c
       \<and> cap_available_assets c = cap_available_cents c * USDC_UNITS_PER_CENT
       \<and> (\<forall>n. 0 < n \<and> n \<le> top \<longrightarrow>
            (n \<le> cap_available_cents c \<longleftrightarrow> review_accepts m p (lim_assets c) (n * USDC_UNITS_PER_CENT)))"
proof -
  obtain base where b: "morphoInputs i = Inr (after_deposit i, base)" "lim_assets c = lim_assets base"
    "cap_available_assets c = cap_available_cents c * USDC_UNITS_PER_CENT"
    "msc_rounding_margin_cents c = cap_available_cents base - cap_available_cents c"
    "0 \<le> cap_available_cents c" "cap_available_cents c \<le> cap_available_cents base"
    "\<And>n. 0 < n \<Longrightarrow> n \<le> cap_available_cents base \<Longrightarrow>
           n \<le> cap_available_cents c \<longleftrightarrow>
           review_accepts (msi_market i) (after_deposit i) (lim_assets base) (n * USDC_UNITS_PER_CENT)"
    by (rule morphoStillCapacityV1_InrD [OF assms]) blast
  note top = stillBorrowCapacityV1_InrD(10) [OF morphoInputs_InrD(5) [OF b(1)]]
  show ?thesis using b top by (simp add: Let_def)
qed

lemma accepted_draw_facts:
  assumes "morphoStillDrawV1 i b = Inr (DrawOk c r)"
  obtains base where "morphoStillCapacityV1 i = Inr c" and "morphoInputs i = Inr (after_deposit i, base)"
    and "lim_assets c = lim_assets base" and "0 < b" and "b \<le> cap_available_assets c"
    and "morphoAfterBorrowV1 (msi_market i) (after_deposit i) b = Inr (Some r)"
    and "hlt_borrowed (aft_health r) \<le> lim_assets c"
proof -
  from assms have c: "morphoStillCapacityV1 i = Inr c" by (auto simp: morphoStillDrawV1_def split: if_splits option.splits)
  obtain base where base: "morphoInputs i = Inr (after_deposit i, base)" "lim_assets c = lim_assets base"
      "msc_collateral_after c = pos_collateral (after_deposit i)"
    by (rule morphoStillCapacityV1_InrD [OF c]) blast
  from base(3) have p: "\<lparr>pos_collateral = msc_collateral_after c, pos_borrow_shares = pos_borrow_shares (msi_position i)\<rparr>
      = after_deposit i" by (simp add: after_deposit_def)
  from assms show ?thesis
    by (intro that [OF c base(1,2)])
       (auto simp: morphoStillDrawV1_def c p split: if_splits option.splits)
qed

text \<open>
  C12. A draw is accepted exactly within the offer: once the capacity is known, an amount between
  one unit and the offer always goes through, with no projection refusal left to surprise it, and
  every other amount is refused for the stated reason: nothing asked for, more than the market has,
  or more than Still's limit.
\<close>

theorem draw_accepted_within_offer:
  assumes "morphoStillCapacityV1 i = Inr c" and "b \<le> UINT256_MAX"
  shows "((\<exists>r. morphoStillDrawV1 i b = Inr (DrawOk c r)) \<longleftrightarrow> 0 < b \<and> b \<le> cap_available_assets c)
    \<and> (\<not> (0 < b \<and> b \<le> cap_available_assets c) \<longrightarrow> morphoStillDrawV1 i b = Inr (DrawRefused c
       (if b \<le> 0 then NothingAskedFor
        else if cap_liquidity_cents c * USDC_UNITS_PER_CENT < b then OverMarketLiquidity
        else OverStillLimit)))"
proof -
  obtain base where base: "morphoInputs i = Inr (after_deposit i, base)" "lim_assets c = lim_assets base"
    "cap_liquidity_cents c = cap_liquidity_cents base"
    "cap_available_assets c = cap_available_cents c * USDC_UNITS_PER_CENT"
    "msc_collateral_after c = pos_collateral (after_deposit i)"
    "0 \<le> cap_available_cents c" "cap_available_cents c \<le> cap_available_cents base"
    "\<And>n. 0 < n \<Longrightarrow> n \<le> cap_available_cents base \<Longrightarrow>
           n \<le> cap_available_cents c \<longleftrightarrow>
           review_accepts (msi_market i) (after_deposit i) (lim_assets base) (n * USDC_UNITS_PER_CENT)"
    by (rule morphoStillCapacityV1_InrD [OF assms(1)]) blast
  note wf = morphoInputs_InrD(1,2) [OF base(1)]
  note b = stillBorrowCapacityV1_InrD [OF morphoInputs_InrD(5) [OF base(1)]]
  have liq: "cap_available_assets c \<le> cap_liquidity_cents c * USDC_UNITS_PER_CENT"
    using base(3,4,7) b(9,10) by (simp add: base_cents_def)
  have p: "\<lparr>pos_collateral = msc_collateral_after c, pos_borrow_shares = pos_borrow_shares (msi_position i)\<rparr>
      = after_deposit i" using base(5) by (simp add: after_deposit_def)
  have draw: "morphoStillDrawV1 i b = (if b \<le> 0 then Inr (DrawRefused c NothingAskedFor)
      else if cap_liquidity_cents c * USDC_UNITS_PER_CENT < b then Inr (DrawRefused c OverMarketLiquidity)
      else if cap_available_assets c < b then Inr (DrawRefused c OverStillLimit)
      else bindR (morphoAfterBorrowV1 (msi_market i) (after_deposit i) b) (\<lambda>after.
        case after of None \<Rightarrow> Inr (DrawRefused c WouldNotBeHealthy)
        | Some r \<Rightarrow> if lim_assets c < hlt_borrowed (aft_health r)
            then Inr (DrawRefused c ProjectedDebtOverStillLimit) else Inr (DrawOk c r)))"
    using assms by (simp add: morphoStillDrawV1_def p check_unsigned_eq)
  have refused: "\<not> (0 < b \<and> b \<le> cap_available_assets c) \<longrightarrow> morphoStillDrawV1 i b = Inr (DrawRefused c
       (if b \<le> 0 then NothingAskedFor
        else if cap_liquidity_cents c * USDC_UNITS_PER_CENT < b then OverMarketLiquidity
        else OverStillLimit))"
    by (auto simp: draw)
  have accepts: "review_accepts (msi_market i) (after_deposit i) (lim_assets c) b"
    if "0 < b" "b \<le> cap_available_assets c"
  proof -
    have "cap_available_cents c \<noteq> 0" using that base(4) by auto
    then have "review_accepts (msi_market i) (after_deposit i) (lim_assets c) (cap_available_assets c)"
      using base(2,4,6,7) base(8) [of "cap_available_cents c"] by simp
    with that show ?thesis using review_accepts_smaller [OF wf, of b "cap_available_assets c"] by simp
  qed
  have "\<exists>r. morphoStillDrawV1 i b = Inr (DrawOk c r)" if h: "0 < b" "b \<le> cap_available_assets c"
  proof -
    obtain r where r: "morphoAfterBorrowV1 (msi_market i) (after_deposit i) b = Inr (Some r)"
      using morphoAfterBorrowV1_total [OF wf, of b] accepts [OF h] h(1) by (auto simp: review_accepts_def)
    then show ?thesis
      using h liq accepts [OF h] morphoAfterBorrowV1_SomeD(6) [OF wf r]
      by (simp add: draw review_accepts_def)
  qed
  moreover have "0 < b \<and> b \<le> cap_available_assets c" if "morphoStillDrawV1 i b = Inr (DrawOk c r)" for r
    using that by (auto simp: draw split: if_splits)
  ultimately show ?thesis using refused by blast
qed

text \<open>
  A fresh draw starts at half the protocol's line: an accepted draw keeps the recorded debt
  within the chosen share of the protocol limit, and at Still's own share (no share given) its
  health factor is at least two, so the safety reading is calm with a margin of at least 5000 basis
  points: the collateral must fall by half before the debt can be called.
\<close>

theorem fresh_draw_starts_half_way:
  assumes "morphoStillDrawV1 i b = Inr (DrawOk c r)"
  shows "BPS * hlt_borrowed (aft_health r) \<le> chosen_share (msi_share_bps i) * hlt_max_borrow (aft_health r)
    \<and> hlt_healthy (aft_health r)
    \<and> (msi_share_bps i = None \<longrightarrow>
        (\<exists>hf margin. hlt_factor_wad (aft_health r) = Some hf \<and> 2 * WAD \<le> hf
           \<and> safetyFromHealthFactor hf = Inr (margin, Calm) \<and> 5000 \<le> margin))"
proof -
  obtain base where base: "morphoStillCapacityV1 i = Inr c" "morphoInputs i = Inr (after_deposit i, base)"
    "lim_assets c = lim_assets base" "0 < b" "b \<le> cap_available_assets c"
    "morphoAfterBorrowV1 (msi_market i) (after_deposit i) b = Inr (Some r)"
    "hlt_borrowed (aft_health r) \<le> lim_assets c"
    by (rule accepted_draw_facts [OF assms])
  note wf = morphoInputs_InrD(1,2) [OF base(2)]
  note l = stillBorrowCapacityV1_InrD [OF morphoInputs_InrD(5) [OF base(2)]]
  note a = morphoAfterBorrowV1_SomeD [OF wf base(6)]
  let ?M = "hlt_max_borrow (aft_health r)" and ?D = "hlt_borrowed (aft_health r)"
  have within: "BPS * ?D \<le> chosen_share (msi_share_bps i) * ?M"
  proof -
    have "?D \<le> chosen_share (msi_share_bps i) * ?M div BPS"
      using base(3,7) l(6) a(7) by (simp add: mult.commute)
    then show ?thesis using le_div_iff [of BPS ?D] by (simp add: mult.commute)
  qed
  have D: "0 < ?D"
    using debt_after_covers [OF wf, of b] debt_of_nonneg [OF wf] base(4) a(6) by simp
  have wf': "wf_market (market_after (msi_market i) b)"
    "wf_position (market_after (msi_market i) b) (position_after (msi_market i) (after_deposit i) b)"
    using wf_after wf base(4) by simp_all
  have hf: "hlt_factor_wad (aft_health r) = Some (?M * MORPHO_WAD_V1 div ?D)"
    using D unfolding a(5) [unfolded morphoHealthV1_eq [OF wf'] sum.inject, symmetric] by simp
  have "\<exists>hf margin. hlt_factor_wad (aft_health r) = Some hf \<and> 2 * WAD \<le> hf
           \<and> safetyFromHealthFactor hf = Inr (margin, Calm) \<and> 5000 \<le> margin"
    if none: "msi_share_bps i = None"
  proof -
    let ?hf = "?M * MORPHO_WAD_V1 div ?D"
    have "2 * ?D \<le> ?M" using within none by (simp add: BPS_def)
    then have "2 * ?D * WAD \<le> ?M * WAD" by (intro mult_right_mono) simp_all
    then have two: "2 * WAD \<le> ?hf"
      using D by (simp add: le_div_iff morpho_wad_eq mult.assoc mult.commute mult.left_commute)
    then have "WAD < ?hf" using units_values(1) by linarith
    moreover have pos: "0 < ?hf" using less_trans [OF units_values(1) \<open>WAD < ?hf\<close>] .
    moreover have "5000 \<le> margin_of ?hf"
      unfolding margin_ge_iff [OF pos] using two by (simp add: BPS_def)
    ultimately show ?thesis using hf two by (auto simp: safety_eq)
  qed
  with within a(8) show ?thesis by blast
qed

section \<open>A wallet with cbBTC\<close>

definition cbbtc_input :: morpho_still_input where
  "cbbtc_input = \<lparr>msi_market = cbbtc_market, msi_position = cbbtc_position,
     msi_additional_collateral = None, msi_share_bps = None\<rparr>"

definition cbbtc_capacity :: morpho_still_capacity where
  "cbbtc_capacity = projr (morphoStillCapacityV1 cbbtc_input)"

lemma cbbtc_capacity_Inr: "morphoStillCapacityV1 cbbtc_input = Inr cbbtc_capacity"
  by code_simp

lemma cbbtc_capacity_fields:
  "cap_available_cents cbbtc_capacity = 20000" "cap_available_assets cbbtc_capacity = 200000000"
  "lim_assets cbbtc_capacity = 258000000"
  by code_simp+

lemma offer_is_greatest_reviewed_amount_witness:
  "review_accepts cbbtc_market (after_deposit cbbtc_input) 258000000 (20000 * USDC_UNITS_PER_CENT)
   \<and> base_cents 258000000 (debt_of cbbtc_market (after_deposit cbbtc_input)) (lendable cbbtc_market) = 20000"
proof -
  have top: "base_cents 258000000 (debt_of cbbtc_market (after_deposit cbbtc_input)) (lendable cbbtc_market) = 20000"
    by code_simp
  with offer_is_greatest_reviewed_amount [OF cbbtc_capacity_Inr] show ?thesis
    by (simp add: cbbtc_capacity_fields Let_def cbbtc_input_def)
qed

definition cbbtc_draw :: morpho_after where
  "cbbtc_draw = (case morphoStillDrawV1 cbbtc_input 50000000 of Inr (DrawOk _ r) \<Rightarrow> r)"

lemma cbbtc_draw_Inr: "morphoStillDrawV1 cbbtc_input 50000000 = Inr (DrawOk cbbtc_capacity cbbtc_draw)"
  by code_simp

lemma draw_accepted_within_offer_witness:
  "(\<exists>r. morphoStillDrawV1 cbbtc_input 200000000 = Inr (DrawOk cbbtc_capacity r))
   \<and> (\<exists>why. morphoStillDrawV1 cbbtc_input 200000001 = Inr (DrawRefused cbbtc_capacity why))"
proof -
  have small: "(200000000::int) \<le> UINT256_MAX" "(200000001::int) \<le> UINT256_MAX"
    by (simp_all add: UINT256_MAX_def)
  show ?thesis
    using draw_accepted_within_offer [OF cbbtc_capacity_Inr small(1)]
      draw_accepted_within_offer [OF cbbtc_capacity_Inr small(2)]
    by (simp add: cbbtc_capacity_fields)
qed

lemma fresh_draw_starts_half_way_witness:
  "\<exists>hf margin. hlt_factor_wad (aft_health cbbtc_draw) = Some hf \<and> 2 * WAD \<le> hf
     \<and> safetyFromHealthFactor hf = Inr (margin, Calm)"
  using fresh_draw_starts_half_way [OF cbbtc_draw_Inr] by (auto simp: cbbtc_input_def)

end
