(* ===== verification/Risk_Premium.thy ===== *)
theory Risk_Premium
  imports Capacity "HOL-Library.Multiset"
begin

text \<open>
  \<open>aaveRiskPremiumBpsV1\<close> of lib/still-engine/src/capacity.ts against its specification: the debt is
  counted against collateral with the least risk first, which is the cheapest way to count it.
\<close>

text \<open>A way to count a debt against collateral: an amount of each entry, at most its value.\<close>

type_synonym allocation = "(risk_entry \<times> int) list"

definition allocates :: "allocation \<Rightarrow> bool" where
  "allocates a \<longleftrightarrow> (\<forall>(e, x) \<in> set a. 0 \<le> x \<and> x \<le> rsk_value e)"

definition allocated :: "allocation \<Rightarrow> int" where
  "allocated a = (\<Sum>(e, x)\<leftarrow>a. x)"

definition risk_weight :: "allocation \<Rightarrow> int" where
  "risk_weight a = (\<Sum>(e, x)\<leftarrow>a. x * rsk_bps e)"

definition total_value :: "risk_entry list \<Rightarrow> int" where
  "total_value es = (\<Sum>e\<leftarrow>es. rsk_value e)"

definition wf_risk :: "risk_entry list \<Rightarrow> bool" where
  "wf_risk es \<longleftrightarrow> (\<forall>e \<in> set es. 0 \<le> rsk_bps e \<and> 0 \<le> rsk_value e)"

lemma allocation_simps [simp]:
  "allocates []" "allocates ((e, x) # a) \<longleftrightarrow> 0 \<le> x \<and> x \<le> rsk_value e \<and> allocates a"
  "allocated [] = 0" "allocated ((e, x) # a) = x + allocated a"
  "risk_weight [] = 0" "risk_weight ((e, x) # a) = x * rsk_bps e + risk_weight a"
  "total_value [] = 0" "total_value (e # es) = rsk_value e + total_value es"
  "wf_risk []" "wf_risk (e # es) \<longleftrightarrow> 0 \<le> rsk_bps e \<and> 0 \<le> rsk_value e \<and> wf_risk es"
  by (auto simp: allocates_def allocated_def risk_weight_def total_value_def wf_risk_def)

lemma allocation_mset:
  assumes "mset a = mset b"
  shows "allocates a = allocates b" and "allocated a = allocated b" and "risk_weight a = risk_weight b"
proof -
  have "set a = set b" using assms by (rule mset_eq_setD)
  then show "allocates a = allocates b" by (simp add: allocates_def)
  have "mset (map f a) = mset (map f b)" for f :: "risk_entry \<times> int \<Rightarrow> int"
    using assms by (simp only: mset_map)
  then have "sum_mset (mset (map f a)) = sum_mset (mset (map f b))" for f :: "risk_entry \<times> int \<Rightarrow> int"
    by (rule arg_cong)
  then show "allocated a = allocated b" and "risk_weight a = risk_weight b"
    by (simp_all only: allocated_def risk_weight_def sum_mset_sum_list)
qed

lemma total_value_nonneg [nonneg]: "wf_risk es \<Longrightarrow> 0 \<le> total_value es"
  by (induction es) auto

lemma allocated_nonneg: "allocates a \<Longrightarrow> 0 \<le> allocated a"
  by (induction a) auto

section \<open>The sort\<close>

lemma mset_sort_risk [simp]: "mset (sort_risk es) = mset es"
proof -
  have "mset (insert_risk x ys) = add_mset x (mset ys)" for x ys by (induction ys) auto
  then show ?thesis by (induction es) simp_all
qed

lemma set_insert_risk: "set (insert_risk x ys) = insert x (set ys)"
  by (induction ys) auto

lemma sorted_sort_risk: "sorted_wrt (\<lambda>a b. rsk_bps a \<le> rsk_bps b) (sort_risk es)"
proof (induction es)
  case Nil
  then show ?case by simp
next
  case (Cons e es)
  have "sorted_wrt (\<lambda>a b. rsk_bps a \<le> rsk_bps b) ys \<Longrightarrow>
      sorted_wrt (\<lambda>a b. rsk_bps a \<le> rsk_bps b) (insert_risk e ys)" for ys
    by (induction ys) (auto simp: set_insert_risk risk_before_def split: if_splits)
  with Cons show ?case by simp
qed

lemma wf_sort_risk [simp]: "wf_risk (sort_risk es) = wf_risk es"
  using mset_eq_setD [OF mset_sort_risk] by (simp add: wf_risk_def)

lemma total_value_sort [simp]: "total_value (sort_risk es) = total_value es"
proof -
  have "sum_mset (mset (map rsk_value (sort_risk es))) = sum_mset (mset (map rsk_value es))"
    by (simp only: mset_map mset_sort_risk)
  then show ?thesis by (simp only: total_value_def sum_mset_sum_list)
qed

text \<open>An allocation can follow the entries through the sort and back.\<close>

lemma allocation_through_insert:
  "map fst a = ys \<Longrightarrow> \<exists>b. map fst b = insert_risk x ys \<and> mset b = add_mset (x, n) (mset a)"
proof (induction ys arbitrary: a)
  case Nil
  then show ?case by (intro exI [of _ "[(x, n)]"]) simp
next
  case (Cons y ys)
  then obtain m r where a: "a = (y, m) # r" "map fst r = ys" by (cases a) auto
  obtain b where b: "map fst b = insert_risk x ys" "mset b = add_mset (x, n) (mset r)"
    using Cons.IH [OF a(2)] by blast
  show ?case
  proof (cases "risk_before x y")
    case True
    then show ?thesis using a by (intro exI [of _ "(x, n) # a"]) simp
  next
    case False
    then show ?thesis using a b by (intro exI [of _ "(y, m) # b"]) simp
  qed
qed

lemma allocation_sorted: "\<exists>b. map fst b = sort_risk (map fst a) \<and> mset b = mset a"
proof (induction a)
  case Nil
  then show ?case by simp
next
  case (Cons p a)
  then obtain b where "map fst b = sort_risk (map fst a)" "mset b = mset a" by blast
  with allocation_through_insert [of b _ "fst p" "snd p"] show ?case by simp
qed

lemma allocation_out_of_insert:
  "map fst b = insert_risk x ys \<Longrightarrow> \<exists>n a. map fst a = ys \<and> mset b = add_mset (x, n) (mset a)"
proof (induction ys arbitrary: b)
  case Nil
  then show ?case by (cases b) auto
next
  case (Cons y ys)
  show ?case
  proof (cases "risk_before x y")
    case True
    with Cons.prems obtain n r where "b = (x, n) # r" "map fst r = y # ys" by (cases b) auto
    then show ?thesis by (intro exI [of _ n] exI [of _ r]) simp
  next
    case False
    with Cons.prems obtain m r where b: "b = (y, m) # r" "map fst r = insert_risk x ys" by (cases b) auto
    obtain n a where "map fst a = ys" "mset r = add_mset (x, n) (mset a)" using Cons.IH [OF b(2)] by blast
    with b show ?thesis by (intro exI [of _ n] exI [of _ "(y, m) # a"]) simp
  qed
qed

lemma allocation_unsorted:
  "map fst b = sort_risk es \<Longrightarrow> \<exists>a. map fst a = es \<and> mset a = mset b"
proof (induction es arbitrary: b)
  case Nil
  then show ?case by simp
next
  case (Cons e es)
  then obtain n a where a: "map fst a = sort_risk es" "mset b = add_mset (e, n) (mset a)"
    using allocation_out_of_insert [of b e "sort_risk es"] by auto
  obtain c where "map fst c = es" "mset c = mset a" using Cons.IH [OF a(1)] by blast
  with a show ?case by (intro exI [of _ "(e, n) # c"]) simp
qed

section \<open>The loop\<close>

lemma cover_debt_result:
  assumes "wf_risk es" and "0 \<le> d"
  obtains a where "map fst a = es" and "allocates a" and "allocated a = min d (total_value es)"
    and "cover_debt es d w = (d - allocated a, w + risk_weight a)"
  using assms
proof (induction es arbitrary: d w thesis)
  case Nil
  then show ?case by (metis allocation_simps(1,3,5,7) cover_debt.simps(1) diff_zero list.map(1) min.absorb2 add.right_neutral)
next
  case (Cons e es)
  define g where "g = min (rsk_value e) d"
  have g: "0 \<le> g" "g \<le> rsk_value e" "0 \<le> d - g" using Cons.prems by (auto simp: g_def)
  obtain a where a: "map fst a = es" "allocates a" "allocated a = min (d - g) (total_value es)"
      "cover_debt es (d - g) (w + g * rsk_bps e) = (d - g - allocated a, w + g * rsk_bps e + risk_weight a)"
    using Cons.IH [of "d - g" "w + g * rsk_bps e"] Cons.prems g by auto
  have all: "allocated ((e, g) # a) = min d (total_value (e # es))"
    using a(3) total_value_nonneg [of es] Cons.prems by (auto simp: g_def)
  have "cover_debt (e # es) d w = (d - allocated ((e, g) # a), w + risk_weight ((e, g) # a))"
  proof (cases "d = 0")
    case True
    then have zero: "g = 0" using Cons.prems by (simp add: g_def)
    have "risk_weight b = 0" if "allocates b" "allocated b = 0" for b
      using that
    proof (induction b)
      case (Cons p b)
      obtain f y where p: "p = (f, y)" by (cases p)
      have "y = 0 \<and> allocated b = 0" using Cons.prems allocated_nonneg [of b] p by auto
      with Cons p show ?case by auto
    qed simp
    moreover have "allocated a = 0" using a(3) True zero total_value_nonneg [of es] Cons.prems by auto
    ultimately show ?thesis using True zero a(2) by simp
  next
    case False
    then show ?thesis using a(4) by (simp add: g_def [symmetric] Let_def)
  qed
  with all a g show ?case by (intro Cons.prems(1) [of "(e, g) # a"]) auto
qed

text \<open>
  On sorted entries no allocation of at least as much weighs less, and what it allocates beyond the
  loop's weighs at least the least risk.
\<close>

lemma cover_debt_least:
  assumes "sorted_wrt (\<lambda>a b. rsk_bps a \<le> rsk_bps b) (map fst a)" and "wf_risk (map fst a)"
    and "allocates a" and "0 \<le> d" and "min d (total_value (map fst a)) \<le> allocated a"
    and "\<And>e. e \<in> set (map fst a) \<Longrightarrow> low \<le> rsk_bps e"
  shows "snd (cover_debt (map fst a) d w) - w + low * (allocated a - min d (total_value (map fst a))) \<le> risk_weight a"
  using assms
proof (induction a arbitrary: d w low)
  case Nil
  then show ?case by simp
next
  case (Cons p a)
  obtain e x where p: "p = (e, x)" by (cases p)
  let ?es = "map fst a" and ?b = "rsk_bps e"
  define g where "g = min (rsk_value e) d"
  have g: "0 \<le> g" "0 \<le> d - g" using Cons.prems p by (auto simp: g_def)
  have tv: "0 \<le> total_value ?es" using Cons.prems p by (intro total_value_nonneg) simp
  have all: "min d (total_value (e # ?es)) = g + min (d - g) (total_value ?es)"
    using tv Cons.prems p by (auto simp: g_def)
  have loop: "snd (cover_debt (e # ?es) d w) - w = g * ?b + (snd (cover_debt ?es (d - g) (w + g * ?b)) - (w + g * ?b))"
  proof (cases "d = 0")
    case True
    then have "g = 0" using Cons.prems p by (simp add: g_def)
    moreover have "cover_debt ?es 0 w = (0, w)" by (cases ?es) simp_all
    ultimately show ?thesis using True by simp
  next
    case False
    then show ?thesis by (simp add: g_def [symmetric] Let_def)
  qed
  let ?extra = "allocated a - min (d - g) (total_value ?es)"
  show ?case
  proof (cases "x \<le> g")
    case True
    then have "0 \<le> ?extra" using Cons.prems(5) all p by simp
    then have IH: "snd (cover_debt ?es (d - g) (w + g * ?b)) - (w + g * ?b) + ?b * ?extra \<le> risk_weight a"
      using Cons.prems p g by (intro Cons.IH) auto
    have "low * (x + ?extra - g) \<le> ?b * (x + ?extra - g)"
      using Cons.prems(5,6) all p by (intro mult_right_mono) auto
    then have "g * ?b + low * (x + ?extra - g) \<le> x * ?b + ?b * ?extra" by (simp add: algebra_simps)
    then show ?thesis using IH loop all p by (simp add: algebra_simps)
  next
    case False
    then have gd: "g = d" using Cons.prems p by (auto simp: g_def)
    have zero: "cover_debt ?es 0 w' = (0, w')" for w' by (cases ?es) simp_all
    have an: "0 \<le> allocated a" using Cons.prems p by (auto intro: allocated_nonneg)
    have IH: "snd (cover_debt ?es 0 0) - 0 + ?b * (allocated a - min 0 (total_value ?es)) \<le> risk_weight a"
      using Cons.prems p an tv by (intro Cons.IH) auto
    have z: "snd (cover_debt ?es 0 0) = 0" by (cases ?es) simp_all
    have "low * (x + allocated a - g) \<le> ?b * (x + allocated a - g)"
      using Cons.prems(6) False an p by (intro mult_right_mono) auto
    then have "g * ?b + low * (x + allocated a - g) \<le> x * ?b + ?b * allocated a" by (simp add: algebra_simps)
    moreover have "?b * allocated a \<le> risk_weight a" using IH z tv by simp
    moreover have "snd (cover_debt (e # ?es) d w) - w = g * ?b"
      unfolding loop gd diff_self zero by simp
    moreover have "min d (total_value (e # ?es)) = g" unfolding all gd diff_self using tv by simp
    ultimately show ?thesis unfolding p by simp
  qed
qed

section \<open>The premium\<close>

text \<open>
  C33. The risk premium is the cheapest one: on non-negative entries \<open>aaveRiskPremiumBpsV1\<close> never
  throws, its rounded-up average is reached by some way to count the coverable debt against the
  collateral and no way to count that debt gives less, so neither the order of the collateral nor
  adding an entry can raise it; with nothing covered it is nothing.
\<close>

theorem premium_is_least:
  assumes "wf_risk es" and "0 \<le> d"
  shows "\<exists>premium. aaveRiskPremiumBpsV1 es d = Inr premium
    \<and> (min d (total_value es) = 0 \<longrightarrow> premium = 0)
    \<and> (0 < min d (total_value es) \<longrightarrow>
        (\<exists>a. map fst a = es \<and> allocates a \<and> allocated a = min d (total_value es)
           \<and> premium = ceil_div (risk_weight a) (allocated a))
        \<and> (\<forall>a. map fst a = es \<and> allocates a \<and> allocated a = min d (total_value es)
           \<longrightarrow> premium \<le> ceil_div (risk_weight a) (allocated a)))"
proof -
  let ?covered = "min d (total_value es)"
  have wf: "wf_risk (sort_risk es)" using assms by simp
  obtain b where b: "map fst b = sort_risk es" "allocates b" "allocated b = ?covered"
      "cover_debt (sort_risk es) d 0 = (d - ?covered, risk_weight b)"
    using cover_debt_result [OF wf assms(2), of 0] by (metis add_0 total_value_sort)
  obtain a where a: "map fst a = es" "mset a = mset b" using allocation_unsorted [OF b(1)] by blast
  have covered: "0 \<le> ?covered" using assms by (simp add: total_value_nonneg)
  have weight: "0 \<le> risk_weight b"
  proof -
    have "0 \<le> risk_weight c" if "allocates c" "wf_risk (map fst c)" for c
      using that by (induction c) auto
    then show ?thesis using b wf by simp
  qed
  show ?thesis
  proof (cases "?covered = 0")
    case True
    then show ?thesis by (simp add: aaveRiskPremiumBpsV1_def b(4))
  next
    case False
    then have pos: "0 < ?covered" using covered by (metis order_less_le)
    have result: "aaveRiskPremiumBpsV1 es d = Inr (ceil_div (risk_weight b) ?covered)"
      unfolding aaveRiskPremiumBpsV1_def b(4) using False pos weight
      by (simp add: mulDiv_eq del: min_less_iff_conj)
    have least: "ceil_div (risk_weight b) ?covered \<le> ceil_div (risk_weight c) (allocated c)"
      if c: "map fst c = es" "allocates c" "allocated c = ?covered" for c
    proof -
      obtain s where s: "map fst s = sort_risk es" "mset s = mset c" using allocation_sorted [of c] c(1) by auto
      have "snd (cover_debt (map fst s) d 0) - 0 + 0 * (allocated s - min d (total_value (map fst s))) \<le> risk_weight s"
        using s wf c allocation_mset [OF s(2)] assms(2) sorted_sort_risk [of es]
        by (intro cover_debt_least) (auto simp: wf_risk_def)
      then have "risk_weight b \<le> risk_weight c"
        using s allocation_mset(3) [OF s(2)] b(4) by simp
      with pos c(3) show ?thesis by (simp add: ceil_div_mono)
    qed
    show ?thesis
      using result least pos a b(2,3) allocation_mset [OF a(2)] by (intro exI [of _ "ceil_div (risk_weight b) ?covered"]) (auto simp del: min_less_iff_conj)
  qed
qed

definition two_collaterals :: "risk_entry list" where
  "two_collaterals = [\<lparr>rsk_bps = 2000, rsk_value = 500\<rparr>, \<lparr>rsk_bps = 0, rsk_value = 300\<rparr>]"

lemma premium_is_least_witness:
  "\<exists>premium. aaveRiskPremiumBpsV1 two_collaterals 400 = Inr premium \<and> premium = 500
     \<and> premium \<le> ceil_div (risk_weight (zip two_collaterals [400, 0])) 400"
proof -
  have wf: "wf_risk two_collaterals" by (simp add: two_collaterals_def)
  have five: "aaveRiskPremiumBpsV1 two_collaterals 400 = Inr 500" by code_simp
  have "map fst (zip two_collaterals [400, 0]) = two_collaterals"
    "allocates (zip two_collaterals [400, 0])" "allocated (zip two_collaterals [400, 0]) = 400"
    "min 400 (total_value two_collaterals) = 400"
    by (simp_all add: two_collaterals_def)
  with premium_is_least [OF wf, of 400] five show ?thesis by fastforce
qed

end
