(* ===== verification/Civil.thy ===== *)
theory Civil
  imports Still_Prelude "HOL-Library.Product_Lexorder"
begin

text \<open>
  The calendar arithmetic the market clocks use of JavaScript's Date and Intl: an instant is a
  number of milliseconds since 1970, a day a number of days, a civil date a triple of year, month
  and day whose lexicographic order is the order of its ISO form. A zone gives, for an instant, the
  minutes its wall clock is ahead of UTC; New York's follows the rule in force since 2007.
\<close>

type_synonym instant = int
type_synonym civil = "int \<times> int \<times> int"
type_synonym zone = "instant \<Rightarrow> int"

definition ms_per_day :: int where
  "ms_per_day = 86400000"

lemma ms_per_day_pos [simp]: "0 < ms_per_day" "ms_per_day \<noteq> 0"
  by (simp_all add: ms_per_day_def)

section \<open>Years\<close>

definition leap :: "int \<Rightarrow> bool" where
  "leap y \<longleftrightarrow> 4 dvd y \<and> (\<not> 100 dvd y \<or> 400 dvd y)"

definition leaps_through :: "int \<Rightarrow> int" where
  "leaps_through y = y div 4 - y div 100 + y div 400"

text \<open>The day number of 1 January; the 477 leap years through 1969 set 1970 to day 0.\<close>

definition year_start :: "int \<Rightarrow> int" where
  "year_start y = 365 * (y - 1970) + leaps_through (y - 1) - 477"

definition year_length :: "int \<Rightarrow> int" where
  "year_length y = (if leap y then 366 else 365)"

lemma div_step: "0 < (k::int) \<Longrightarrow> y div k - (y - 1) div k = (if k dvd y then 1 else 0)"
proof -
  assume k: "0 < k"
  have split: "y = k * (y div k) + y mod k" by simp
  show ?thesis
  proof (cases "k dvd y")
    case True
    then obtain q where q: "y = k * q" by (auto elim: dvdE)
    have "(k * q - 1) div k = q - 1"
      using k by (intro int_div_pos_eq [where r = "k - 1"]) (simp_all add: algebra_simps)
    with k q True show ?thesis by simp
  next
    case False
    then have "y mod k \<noteq> 0" by (simp add: dvd_eq_mod_eq_0)
    then have "(y - 1) div k = y div k"
      using k pos_mod_bound [OF k, of y] pos_mod_sign [OF k, of y]
      by (intro int_div_pos_eq [where r = "y mod k - 1"]) (simp_all add: algebra_simps)
    with False show ?thesis by simp
  qed
qed

lemma leaps_step: "leaps_through y - leaps_through (y - 1) = (if leap y then 1 else 0)"
proof -
  have "\<not> 4 dvd y \<Longrightarrow> \<not> 100 dvd y" "\<not> 100 dvd y \<Longrightarrow> \<not> 400 dvd y"
    by (auto intro: dvd_trans [of _ 100] dvd_trans [of _ 400])
  moreover have "leaps_through y - leaps_through (y - 1) =
      (y div 4 - (y - 1) div 4) - (y div 100 - (y - 1) div 100) + (y div 400 - (y - 1) div 400)"
    by (simp add: leaps_through_def)
  ultimately show ?thesis by (simp only: div_step leap_def) auto
qed

lemma year_start_Suc: "year_start (y + 1) = year_start y + year_length y"
  using leaps_step [of y] by (simp add: year_start_def year_length_def split: if_splits)

text \<open>A year start is within two days of the mean Gregorian year, so one step corrects an estimate.\<close>

lemma near_aux:
  assumes "(z::int) = 4 * a + r" "0 \<le> r" "r \<le> 3" "z = 100 * b + s" "0 \<le> s" "s \<le> 99"
    "z = 400 * c + t" "0 \<le> t" "t \<le> 399"
  shows "97 * z - 699 \<le> 400 * a - 400 * b + 400 * c" and "400 * a - 400 * b + 400 * c \<le> 97 * z + 396"
  using assms by linarith+

lemma leaps_near: "97 * z - 699 \<le> 400 * leaps_through z" "400 * leaps_through z \<le> 97 * z + 396"
proof -
  have d: "z = 4 * (z div 4) + z mod 4" "0 \<le> z mod 4" "z mod 4 \<le> 3"
    "z = 100 * (z div 100) + z mod 100" "0 \<le> z mod 100" "z mod 100 \<le> 99"
    "z = 400 * (z div 400) + z mod 400" "0 \<le> z mod 400" "z mod 400 \<le> 399"
    by simp_all
  show "97 * z - 699 \<le> 400 * leaps_through z" "400 * leaps_through z \<le> 97 * z + 396"
    using near_aux [OF d] by (simp_all add: leaps_through_def)
qed

lemma year_start_near:
  "146097 * (y - 1970) - 1200 \<le> 400 * year_start y \<and> 400 * year_start y \<le> 146097 * (y - 1970) + 1200"
  using leaps_near [of "y - 1"] by (simp add: year_start_def)

definition year_of_day :: "int \<Rightarrow> int" where
  "year_of_day n =
     (let y = 1970 + 400 * n div 146097 in
      if n < year_start y then y - 1 else if year_start (y + 1) \<le> n then y + 1 else y)"

lemma year_of_day_bounds: "year_start (year_of_day n) \<le> n \<and> n < year_start (year_of_day n + 1)"
proof -
  define y where "y = 1970 + 400 * n div 146097"
  have d: "146097 * (y - 1970) \<le> 400 * n" "400 * n < 146097 * (y - 1970) + 146097"
    unfolding y_def by (simp_all add: minus_mod_eq_mult_div [symmetric])
  have b: "year_start (y - 1) \<le> n" using year_start_near [of "y - 1"] d by (simp add: algebra_simps)
  have u: "n < year_start (y + 2)" using year_start_near [of "y + 2"] d by (simp add: algebra_simps)
  show ?thesis
    using b u by (auto simp: year_of_day_def y_def [symmetric] Let_def add.assoc)
qed

lemma year_start_strict: "y < z \<Longrightarrow> year_start y < year_start z"
proof (induction z rule: int_gr_induct)
  case base
  then show ?case by (simp add: year_start_Suc year_length_def)
next
  case (step z)
  have "year_start z < year_start (z + 1)" by (simp add: year_start_Suc year_length_def)
  with step show ?case by simp
qed

lemma year_start_mono: "y \<le> z \<Longrightarrow> year_start y \<le> year_start z"
  using year_start_strict [of y z] by (cases "y = z") auto

lemma year_of_day_unique:
  assumes "year_start y \<le> n" and "n < year_start (y + 1)"
  shows "year_of_day n = y"
proof (rule ccontr)
  note b = year_of_day_bounds [of n]
  assume "year_of_day n \<noteq> y"
  then consider "year_of_day n + 1 \<le> y" | "y + 1 \<le> year_of_day n" by linarith
  then show False
  proof cases
    case 1
    with year_start_mono [OF 1] b assms show False by linarith
  next
    case 2
    with year_start_mono [OF 2] b assms show False by linarith
  qed
qed

section \<open>Months and dates\<close>

text \<open>Days of the year before a month; the months past February move by one in a leap year.\<close>

definition month_start :: "int \<Rightarrow> int \<Rightarrow> int" where
  "month_start l m =
     (if m \<le> 1 then 0 else if m = 2 then 31 else if m = 3 then 59 + l else if m = 4 then 90 + l
      else if m = 5 then 120 + l else if m = 6 then 151 + l else if m = 7 then 181 + l
      else if m = 8 then 212 + l else if m = 9 then 243 + l else if m = 10 then 273 + l
      else if m = 11 then 304 + l else 334 + l)"

definition month_of :: "int \<Rightarrow> int \<Rightarrow> int" where
  "month_of l n =
     (if n < 31 then 1 else if n < 59 + l then 2 else if n < 90 + l then 3 else if n < 120 + l then 4
      else if n < 151 + l then 5 else if n < 181 + l then 6 else if n < 212 + l then 7
      else if n < 243 + l then 8 else if n < 273 + l then 9 else if n < 304 + l then 10
      else if n < 334 + l then 11 else 12)"

definition leap_day :: "int \<Rightarrow> int" where
  "leap_day y = (if leap y then 1 else 0)"

definition month_length :: "int \<Rightarrow> int \<Rightarrow> int" where
  "month_length y m = (if m = 2 then 28 + leap_day y else if m \<in> {4, 6, 9, 11} then 30 else 31)"

definition real_date :: "civil \<Rightarrow> bool" where
  "real_date = (\<lambda>(y, m, d). 1 \<le> m \<and> m \<le> 12 \<and> 1 \<le> d \<and> d \<le> month_length y m)"

text \<open>
  \<open>Date.UTC\<close> counts days past a month's end into the next month, and the other way; the month
  arithmetic of the modelled code never leaves the year.
\<close>

definition day_number :: "int \<Rightarrow> int \<Rightarrow> int \<Rightarrow> int" where
  "day_number y m d = year_start y + month_start (leap_day y) m + d - 1"

definition date_of_day :: "int \<Rightarrow> civil" where
  "date_of_day n =
     (let y = year_of_day n; l = leap_day y; r = n - year_start y; m = month_of l r
      in (y, m, r - month_start l m + 1))"

definition day_of :: "civil \<Rightarrow> int" where
  "day_of = (\<lambda>(y, m, d). day_number y m d)"

definition shift_date :: "civil \<Rightarrow> int \<Rightarrow> civil" where
  "shift_date c days = date_of_day (day_of c + days)"

text \<open>The weekday of a day, Sunday 0; 1 January 1970 was a Thursday.\<close>

definition weekday_of_day :: "int \<Rightarrow> int" where
  "weekday_of_day n = (n + 4) mod 7"

lemma leap_day_cases: "leap_day y = 0 \<or> leap_day y = 1"
  by (simp add: leap_day_def)

lemma year_length_eq: "year_length y = 365 + leap_day y"
  by (simp add: year_length_def leap_day_def)

lemma month_cases: "1 \<le> (m::int) \<Longrightarrow> m \<le> 12 \<Longrightarrow>
  m = 1 \<or> m = 2 \<or> m = 3 \<or> m = 4 \<or> m = 5 \<or> m = 6 \<or> m = 7 \<or> m = 8 \<or> m = 9 \<or> m = 10 \<or> m = 11 \<or> m = 12"
proof -
  assume "1 \<le> m" "m \<le> 12"
  then have "m \<in> set [1..12]" by simp
  also have "[1..12] = [1, 2, 3, 4, 5, 6, 7, 8, 9, 10, 11, 12 :: int]" by (simp add: upto.simps)
  finally show ?thesis by simp
qed

lemma month_of_start:
  assumes "real_date (y, m, d)"
  shows "month_of (leap_day y) (month_start (leap_day y) m + d - 1) = m"
    and "0 \<le> month_start (leap_day y) m + d - 1" and "month_start (leap_day y) m + d - 1 < year_length y"
proof -
  have h: "1 \<le> m" "m \<le> 12" "1 \<le> d" "d \<le> month_length y m" using assms by (simp_all add: real_date_def)
  note c = month_cases [OF h(1,2)] leap_day_cases [of y]
  show "month_of (leap_day y) (month_start (leap_day y) m + d - 1) = m"
    using c h(3,4) by (elim disjE) (simp_all add: month_of_def month_start_def month_length_def)
  show "0 \<le> month_start (leap_day y) m + d - 1" and "month_start (leap_day y) m + d - 1 < year_length y"
    using c h(3,4) by (elim disjE; simp add: month_start_def month_length_def year_length_eq)+
qed

lemma day_of_month:
  assumes "0 \<le> r" and "r < year_length y"
  shows "real_date (y, month_of (leap_day y) r, r - month_start (leap_day y) (month_of (leap_day y) r) + 1)"
  using assms leap_day_cases [of y]
  by (auto simp: real_date_def month_of_def month_start_def month_length_def year_length_eq split: if_splits)

lemma day_number_year:
  "real_date (y, m, d) \<Longrightarrow> year_start y \<le> day_number y m d \<and> day_number y m d < year_start (y + 1)"
  using month_of_start(2,3) [of y m d] by (simp add: day_number_def year_start_Suc)

lemma date_of_day_of [simp]: "real_date c \<Longrightarrow> date_of_day (day_of c) = c"
proof -
  assume c: "real_date c"
  obtain y m d where p: "c = (y, m, d)" by (cases c)
  have y: "year_of_day (day_number y m d) = y"
    using day_number_year [of y m d] c p by (intro year_of_day_unique) auto
  have r: "day_number y m d - year_start y = month_start (leap_day y) m + d - 1" by (simp add: day_number_def)
  show ?thesis using month_of_start(1) [of y m d] c p by (simp add: date_of_day_def day_of_def y r Let_def)
qed

lemma real_date_of_day [simp]: "real_date (date_of_day n)"
  using year_of_day_bounds [of n] day_of_month [of "n - year_start (year_of_day n)" "year_of_day n"]
  by (simp add: date_of_day_def Let_def year_start_Suc)

lemma day_of_date_of_day [simp]: "day_of (date_of_day n) = n"
  by (simp add: day_of_def date_of_day_def day_number_def Let_def)

lemma shift_date_facts [simp]:
  "real_date (shift_date c k)" "day_of (shift_date c k) = day_of c + k"
  by (simp_all add: shift_date_def)

text \<open>The order of dates is the order of their ISO forms and of their days.\<close>

lemma month_start_less: "1 \<le> m \<Longrightarrow> m < m' \<Longrightarrow> m' \<le> 12 \<Longrightarrow> d \<le> month_length y m \<Longrightarrow> 1 \<le> d' \<Longrightarrow>
    month_start (leap_day y) m + d < month_start (leap_day y) m' + d'"
proof -
  assume h: "1 \<le> m" "m < m'" "m' \<le> 12" "d \<le> month_length y m" "1 \<le> d'"
  have "month_start l (n + 1) \<le> month_start l k" if "1 \<le> n" "n < k" "k \<le> 12" "0 \<le> l" for n k l :: int
    using that month_cases [of n] month_cases [of k] by (auto simp: month_start_def)
  moreover have "month_start (leap_day y) (m + 1) = month_start (leap_day y) m + month_length y m"
    using month_cases [of m] h by (auto simp: month_start_def month_length_def)
  moreover have "0 \<le> leap_day y" using leap_day_cases [of y] by auto
  ultimately have "month_start (leap_day y) m + month_length y m \<le> month_start (leap_day y) m'"
    using h by metis
  with h show ?thesis by linarith
qed

lemma day_of_less:
  assumes "real_date a" and "real_date b" and "a < b"
  shows "day_of a < day_of b"
proof -
  obtain y m d y' m' d' where p: "a = (y, m, d)" "b = (y', m', d')" by (cases a, cases b)
  from assms(3) p consider "y < y'" | "y = y'" "m < m'" | "y = y'" "m = m'" "d < d'"
    by (auto simp: less_prod_simp order.order_iff_strict)
  then show ?thesis
  proof cases
    case 1
    then have "year_start (y + 1) \<le> year_start y'" by (intro year_start_mono) simp
    with assms p day_number_year [of y m d] day_number_year [of y' m' d'] show ?thesis by (simp add: day_of_def)
  next
    case 2
    then show ?thesis using assms p month_start_less [of m m' d y d']
      by (auto simp: day_of_def day_number_def real_date_def)
  next
    case 3
    then show ?thesis using p by (simp add: day_of_def day_number_def)
  qed
qed

lemma day_of_less_iff: "real_date a \<Longrightarrow> real_date b \<Longrightarrow> day_of a < day_of b \<longleftrightarrow> a < b"
  using day_of_less [of a b] day_of_less [of b a] by (cases a b rule: linorder_cases) auto

lemma day_of_le_iff: "real_date a \<Longrightarrow> real_date b \<Longrightarrow> day_of a \<le> day_of b \<longleftrightarrow> a \<le> b"
  using day_of_less_iff [of b a] by (simp add: not_less [symmetric])

end
