(* ===== verification/Market_Clock.thy ===== *)
theory Market_Clock
  imports Civil Terms
begin

text \<open>
  New York's wall clock as the modelled code reads it: \<open>wallTime\<close>, \<open>offsetMinutes\<close> and \<open>zonedTime\<close>
  of lib/still-engine/src/policy.ts, \<open>etPartsV1\<close> and \<open>etInstantV1\<close> of
  lib/rwa-market-reality/src/weekendMarket.ts, and when a wall time reads back.
\<close>

section \<open>New York\<close>

text \<open>
  Daylight saving time runs from 02:00 standard time on the second Sunday of March to 02:00
  daylight time on the first Sunday of November, as the time zone database has it since 2007.
\<close>

definition dst_first_day :: "int \<Rightarrow> int" where
  "dst_first_day y = (let d = day_number y 3 8 in d + (7 - weekday_of_day d) mod 7)"

definition dst_last_day :: "int \<Rightarrow> int" where
  "dst_last_day y = (let d = day_number y 11 1 in d + (7 - weekday_of_day d) mod 7)"

definition hours :: "int \<Rightarrow> int" where
  "hours h = h * 3600000"

definition minutes :: "int \<Rightarrow> int" where
  "minutes m = m * 60000"

definition day_of_instant :: "instant \<Rightarrow> int" where
  "day_of_instant t = t div ms_per_day"

definition new_york :: zone where
  "new_york t =
     (let y = year_of_day (day_of_instant t) in
      if dst_first_day y * ms_per_day + hours 7 \<le> t \<and> t < dst_last_day y * ms_per_day + hours 6
      then - 240 else - 300)"

section \<open>Reading and setting the clock\<close>

record wall_time =
  wt_year :: int
  wt_month :: int
  wt_day :: int
  wt_weekday :: int
  wt_hour :: int
  wt_minute :: int
  wt_second :: int

definition local_ms :: "zone \<Rightarrow> instant \<Rightarrow> int" where
  "local_ms zone t = t + minutes (zone t)"

definition wallTime :: "instant \<Rightarrow> zone \<Rightarrow> wall_time" where
  "wallTime t zone =
     (let l = local_ms zone t; n = day_of_instant l; (y, m, d) = date_of_day n; s = l mod ms_per_day div 1000
      in \<lparr>wt_year = y, wt_month = m, wt_day = d, wt_weekday = weekday_of_day n,
          wt_hour = s div 3600, wt_minute = s div 60 mod 60, wt_second = s mod 60\<rparr>)"

definition date_utc :: "int \<Rightarrow> int \<Rightarrow> int \<Rightarrow> int \<Rightarrow> int \<Rightarrow> int \<Rightarrow> instant" where
  "date_utc y m d h mi s = day_number y m d * ms_per_day + hours h + minutes mi + s * 1000"

text \<open>\<open>Math.round\<close> of a quotient rounds half up.\<close>

definition offsetMinutes :: "instant \<Rightarrow> zone \<Rightarrow> int" where
  "offsetMinutes t zone =
     (let w = wallTime t zone;
          asUtc = date_utc (wt_year w) (wt_month w) (wt_day w) (wt_hour w) (wt_minute w) (wt_second w)
      in (2 * (asUtc - t div 1000 * 1000) + 60000) div 120000)"

fun settle :: "int \<Rightarrow> zone \<Rightarrow> nat \<Rightarrow> instant \<Rightarrow> instant" where
  "settle naive zone 0 t = t"
| "settle naive zone (Suc n) t =
     (let t' = naive - minutes (offsetMinutes t zone) in
      if t' = t then t else settle naive zone n t')"

definition zonedTime :: "civil \<Rightarrow> int \<Rightarrow> int \<Rightarrow> zone \<Rightarrow> instant" where
  "zonedTime date hour minute zone =
     (let naive = (case date of (y, m, d) \<Rightarrow> date_utc y m d hour minute 0)
      in settle naive zone 3 naive)"

definition etPartsV1 :: "instant \<Rightarrow> civil \<times> int" where
  "etPartsV1 t =
     (let w = wallTime t new_york
      in ((wt_year w, wt_month w, wt_day w), wt_hour w * 60 + wt_minute w))"

definition reads_back :: "civil \<Rightarrow> int \<Rightarrow> instant \<Rightarrow> bool" where
  "reads_back localDate minuteOfDay candidate \<longleftrightarrow> etPartsV1 candidate = (localDate, minuteOfDay)"

definition etInstantV1 :: "civil \<Rightarrow> int \<Rightarrow> instant" where
  "etInstantV1 localDate minuteOfDay =
     (let naive = (case localDate of (y, m, d) \<Rightarrow> date_utc y m d 0 minuteOfDay 0) in
      if reads_back localDate minuteOfDay (naive + hours 4) then naive + hours 4
      else if reads_back localDate minuteOfDay (naive + hours 5) then naive + hours 5
      else naive + hours 5)"

definition shiftDateV1 :: "civil \<Rightarrow> int \<Rightarrow> civil" where
  "shiftDateV1 localDate days = shift_date localDate days"

section \<open>The offset\<close>

lemma split_day: "t = D * ms_per_day + r \<Longrightarrow> 0 \<le> r \<Longrightarrow> r < ms_per_day \<Longrightarrow> day_of_instant t = D \<and> t mod ms_per_day = r"
  unfolding day_of_instant_def by (simp add: int_div_pos_eq)

lemma minutes_of_day:
  "0 \<le> r \<Longrightarrow> r div 1000 div 3600 * 60 + r div 1000 div 60 mod 60 = (r::int) div 60000"
proof -
  have "r div 1000 div 3600 = r div 60000 div 60" by (simp add: zdiv_zmult2_eq [symmetric])
  moreover have "r div 1000 div 60 = r div 60000" by (simp add: zdiv_zmult2_eq [symmetric])
  ultimately show ?thesis by (simp add: mult.commute)
qed

lemma seconds_split: "s div 3600 * 3600 + s div 60 mod 60 * 60 + s mod 60 = (s::int)"
proof -
  have a: "s div 60 div 60 * 60 + s div 60 mod 60 = s div 60" and b: "s div 60 * 60 + s mod 60 = s"
    by (simp_all only: div_mult_mod_eq)
  have "s div 3600 = s div 60 div 60" by (simp add: zdiv_zmult2_eq [symmetric])
  then have "s div 3600 * 3600 + s div 60 mod 60 * 60 = (s div 60 div 60 * 60 + s div 60 mod 60) * 60"
    by (simp only: distrib_right mult.assoc)
  then show ?thesis using a b by metis
qed

lemma whole_seconds: "l = q * ms_per_day + r \<Longrightarrow> l div 1000 * 1000 = q * ms_per_day + r div 1000 * 1000"
proof -
  assume "l = q * ms_per_day + r"
  then have "l = 86400 * q * 1000 + r" by (simp add: ms_per_day_def)
  then have "l div 1000 = 86400 * q + r div 1000" by simp
  then show ?thesis by (simp add: ms_per_day_def)
qed

lemma wall_as_utc:
  "(let w = wallTime t zone in
     date_utc (wt_year w) (wt_month w) (wt_day w) (wt_hour w) (wt_minute w) (wt_second w))
   = local_ms zone t div 1000 * 1000"
proof -
  let ?l = "local_ms zone t"
  obtain y m d where c: "date_of_day (day_of_instant ?l) = (y, m, d)" by (cases "date_of_day (day_of_instant ?l)")
  have day: "day_number y m d = ?l div ms_per_day"
    using day_of_date_of_day [of "day_of_instant ?l"] unfolding c by (simp add: day_of_def day_of_instant_def)
  define s where "s = ?l mod ms_per_day div 1000"
  have "hours (s div 3600) + minutes (s div 60 mod 60) + s mod 60 * 1000 = s * 1000"
    using seconds_split [of s] by (simp add: hours_def minutes_def)
  moreover have "?l div 1000 * 1000 = ?l div ms_per_day * ms_per_day + s * 1000"
    unfolding s_def by (rule whole_seconds) (simp only: div_mult_mod_eq)
  moreover have "(let w = wallTime t zone in
     date_utc (wt_year w) (wt_month w) (wt_day w) (wt_hour w) (wt_minute w) (wt_second w))
     = day_number y m d * ms_per_day + hours (s div 3600) + minutes (s div 60 mod 60) + s mod 60 * 1000"
    by (simp only: wallTime_def Let_def c prod.case wall_time.select_convs date_utc_def s_def)
  ultimately show ?thesis unfolding day by (simp only: add.assoc)
qed

lemma offsetMinutes_eq [simp]: "offsetMinutes t zone = zone t"
proof -
  have "local_ms zone t = t + zone t * 60 * 1000" by (simp add: local_ms_def minutes_def)
  then have "local_ms zone t div 1000 * 1000 - t div 1000 * 1000 = zone t * 60000"
    by (simp only: div_mult_self1 [where b = 1000, OF zero_neq_numeral [symmetric]] distrib_right)
  then show ?thesis using wall_as_utc [of t zone] by (simp add: offsetMinutes_def Let_def)
qed

text \<open>A wall time whose offset is settled after one step is reached, and reads back.\<close>

lemma zonedTime_settled:
  assumes "zone (day_of c * ms_per_day + hours h + minutes mi) = k"
    and "zone (day_of c * ms_per_day + hours h + minutes mi - minutes k) = k"
  shows "zonedTime c h mi zone = day_of c * ms_per_day + hours h + minutes mi - minutes k"
  using assms
  by (cases c) (simp add: zonedTime_def date_utc_def day_of_def numeral_3_eq_3 Let_def)

lemma etPartsV1_eq:
  "etPartsV1 t = (date_of_day (day_of_instant (local_ms new_york t)),
     local_ms new_york t mod ms_per_day div 60000)"
  by (simp add: etPartsV1_def wallTime_def Let_def minutes_of_day case_prod_beta)

lemma instant_of_parts:
  assumes "etPartsV1 t = (c, m)"
  shows "local_ms new_york t div 60000 = day_of c * 1440 + m"
proof -
  let ?l = "local_ms new_york t"
  have "?l div 60000 = (1440 * (?l div ms_per_day) * 60000 + ?l mod ms_per_day) div 60000"
    using div_mult_mod_eq [of ?l ms_per_day] by (simp add: ms_per_day_def)
  also have "\<dots> = 1440 * (?l div ms_per_day) + ?l mod ms_per_day div 60000" by simp
  finally show ?thesis using assms by (auto simp: etPartsV1_eq day_of_instant_def)
qed

lemma parts_of_instant:
  assumes "real_date c" and "0 \<le> m" and "m < 1440"
    and "local_ms new_york t = day_of c * ms_per_day + minutes m"
  shows "etPartsV1 t = (c, m)"
proof -
  have "day_of_instant (local_ms new_york t) = day_of c \<and> local_ms new_york t mod ms_per_day = minutes m"
    using assms(2,3) by (intro split_day [OF assms(4)]) (simp_all add: minutes_def ms_per_day_def)
  then show ?thesis using assms(1) by (simp add: etPartsV1_eq minutes_def)
qed

text \<open>An Eastern wall time where the offset does not change is found, and reads back.\<close>

lemma etInstantV1_settled:
  assumes "real_date c" and "0 \<le> m" and "m < 1440" and "k = - 240 \<or> k = - 300"
    and "\<And>j. j = 4 \<or> j = 5 \<Longrightarrow> new_york (day_of c * ms_per_day + minutes m + hours j) = k"
  shows "etInstantV1 c m = day_of c * ms_per_day + minutes m - minutes k"
    and "etPartsV1 (etInstantV1 c m) = (c, m)"
proof -
  let ?naive = "day_of c * ms_per_day + minutes m"
  have local: "local_ms new_york (?naive + hours j) = ?naive + hours j + minutes k" if "j = 4 \<or> j = 5" for j
    using assms(5) that by (simp add: local_ms_def)
  have reads: "etPartsV1 (?naive + hours j) = (c, m) \<longleftrightarrow> hours j = - minutes k" if j: "j = 4 \<or> j = 5" for j
  proof
    assume "etPartsV1 (?naive + hours j) = (c, m)"
    then have "(?naive + hours j + minutes k) div 60000 = day_of c * 1440 + m"
      using instant_of_parts local [OF j] by metis
    then show "hours j = - minutes k"
      using j assms(4) by (auto simp: hours_def minutes_def ms_per_day_def)
  next
    assume "hours j = - minutes k"
    then show "etPartsV1 (?naive + hours j) = (c, m)"
      using local [OF j] by (intro parts_of_instant assms(1-3)) simp
  qed
  have naive: "(case c of (y, m', d) \<Rightarrow> date_utc y m' d 0 m 0) = ?naive"
    by (cases c) (simp add: date_utc_def day_of_def hours_def)
  show e: "etInstantV1 c m = ?naive - minutes k"
    unfolding etInstantV1_def Let_def naive reads_back_def using reads [of 4] reads [of 5] assms(4)
    by (auto simp: hours_def minutes_def)
  show "etPartsV1 (etInstantV1 c m) = (c, m)"
    unfolding e using reads [of 4] reads [of 5] assms(4) by (auto simp: hours_def minutes_def)
qed

section \<open>The offset changes once a day at most, between 06:00 and 07:00 UTC\<close>

definition day_offset :: "int \<Rightarrow> int" where
  "day_offset n = new_york (n * ms_per_day + hours 7)"

lemma day_offset_cases: "day_offset n = - 240 \<or> day_offset n = - 300"
  by (simp add: day_offset_def new_york_def Let_def)

lemma dst_days_inside:
  "year_start y + 59 < dst_first_day y" "dst_first_day y < dst_last_day y" "dst_last_day y + 1 < year_start (y + 1)"
proof -
  obtain a where a: "dst_first_day y = day_number y 3 8 + a" "0 \<le> a" "a \<le> 6"
    by (rule that [of "(7 - weekday_of_day (day_number y 3 8)) mod 7"]) (simp_all add: dst_first_day_def Let_def)
  obtain b where b: "dst_last_day y = day_number y 11 1 + b" "0 \<le> b" "b \<le> 6"
    by (rule that [of "(7 - weekday_of_day (day_number y 11 1)) mod 7"]) (simp_all add: dst_last_day_def Let_def)
  show "year_start y + 59 < dst_first_day y" "dst_first_day y < dst_last_day y" "dst_last_day y + 1 < year_start (y + 1)"
    using a b leap_day_cases [of y] by (auto simp: day_number_def month_start_def year_start_Suc year_length_eq)
qed

lemma new_york_morning:
  assumes "0 \<le> r" and "r < hours 6"
  shows "new_york (n * ms_per_day + r) =
    (if dst_first_day (year_of_day n) < n \<and> n \<le> dst_last_day (year_of_day n) then - 240 else - 300)"
proof -
  have day: "day_of_instant (n * ms_per_day + r) = n"
    using split_day [of _ n r] assms by (simp add: hours_def ms_per_day_def)
  have "a * ms_per_day + hours 7 \<le> n * ms_per_day + r \<longleftrightarrow> a < n" for a
    using assms by (simp add: hours_def ms_per_day_def) linarith
  moreover have "n * ms_per_day + r < a * ms_per_day + hours 6 \<longleftrightarrow> n \<le> a" for a
    using assms by (simp add: hours_def ms_per_day_def) linarith
  ultimately show ?thesis by (simp add: new_york_def day Let_def)
qed

lemma new_york_rest:
  assumes "hours 7 \<le> r" and "r < ms_per_day"
  shows "new_york (n * ms_per_day + r) =
    (if dst_first_day (year_of_day n) \<le> n \<and> n < dst_last_day (year_of_day n) then - 240 else - 300)"
proof -
  have day: "day_of_instant (n * ms_per_day + r) = n"
    using split_day [of _ n r] assms by (simp add: hours_def ms_per_day_def)
  have "a * ms_per_day + hours 7 \<le> n * ms_per_day + r \<longleftrightarrow> a \<le> n" for a
    using assms by (simp add: hours_def ms_per_day_def) linarith
  moreover have "n * ms_per_day + r < a * ms_per_day + hours 6 \<longleftrightarrow> n < a" for a
    using assms by (simp add: hours_def ms_per_day_def) linarith
  ultimately show ?thesis by (simp add: new_york_def day Let_def)
qed

lemma new_york_next_morning:
  assumes "0 \<le> r" and "r < hours 6"
  shows "new_york ((n + 1) * ms_per_day + r) = day_offset n"
proof -
  let ?y = "year_of_day n"
  have rest: "day_offset n = (if dst_first_day ?y \<le> n \<and> n < dst_last_day ?y then - 240 else - 300)"
    unfolding day_offset_def by (rule new_york_rest) (simp_all add: hours_def ms_per_day_def)
  note b = year_of_day_bounds [of n]
  show ?thesis
  proof (cases "n + 1 < year_start (?y + 1)")
    case True
    then have "year_of_day (n + 1) = ?y" using b by (intro year_of_day_unique) auto
    then show ?thesis using new_york_morning [OF assms, of "n + 1"] rest by auto
  next
    case False
    then have n: "n + 1 = year_start (?y + 1)" using b by simp
    have "year_start (?y + 1) < year_start (?y + 1 + 1)" by (rule year_start_strict) simp
    then have "year_of_day (n + 1) = ?y + 1" using n by (intro year_of_day_unique) auto
    then show ?thesis
      using new_york_morning [OF assms, of "n + 1"] rest n dst_days_inside(3) [of ?y] dst_days_inside(1) [of "?y + 1"]
      by auto
  qed
qed

lemma new_york_day:
  assumes "hours 7 \<le> r" and "r < hours 30"
  shows "new_york (n * ms_per_day + r) = day_offset n"
proof (cases "r < ms_per_day")
  case True
  then show ?thesis
    using new_york_rest [OF assms(1) True] new_york_rest [of "hours 7"]
    by (simp add: day_offset_def) (simp add: hours_def ms_per_day_def)
next
  case False
  have "new_york ((n + 1) * ms_per_day + (r - ms_per_day)) = day_offset n"
    using False assms by (intro new_york_next_morning) (simp_all add: hours_def ms_per_day_def)
  then show ?thesis by (simp add: distrib_right)
qed

text \<open>From 03:00 on a New York day is a day with one offset.\<close>

lemma etInstantV1_day:
  assumes "real_date c" and "180 \<le> m" and "m < 1440"
  shows "etInstantV1 c m = day_of c * ms_per_day + minutes m - minutes (day_offset (day_of c))"
    and "etPartsV1 (etInstantV1 c m) = (c, m)"
proof -
  have off: "new_york (day_of c * ms_per_day + minutes m + hours j) = day_offset (day_of c)"
    if "j = 4 \<or> j = 5" for j
    using new_york_day [of "minutes m + hours j" "day_of c"] assms(2,3) that
    by (auto simp: add.assoc hours_def minutes_def)
  show "etInstantV1 c m = day_of c * ms_per_day + minutes m - minutes (day_offset (day_of c))"
    and "etPartsV1 (etInstantV1 c m) = (c, m)"
    using etInstantV1_settled [OF assms(1) _ assms(3) day_offset_cases off] assms(2) by simp_all
qed

lemma zonedTime_day:
  assumes "7 \<le> h" and "h < 24"
  shows "zonedTime c h 0 new_york = day_of c * ms_per_day + hours h - minutes (day_offset (day_of c))"
proof -
  have "new_york (day_of c * ms_per_day + hours h) = day_offset (day_of c)"
    using assms by (intro new_york_day) (simp_all add: hours_def)
  moreover have "new_york (day_of c * ms_per_day + (hours h - minutes (day_offset (day_of c)))) = day_offset (day_of c)"
    using assms day_offset_cases [of "day_of c"] by (intro new_york_day) (auto simp: hours_def minutes_def)
  ultimately show ?thesis
    using zonedTime_settled [of new_york c h 0 "day_offset (day_of c)"] by (simp add: minutes_def algebra_simps)
qed

lemma zonedTime_midnight:
  "zonedTime c 0 0 new_york = day_of c * ms_per_day - minutes (day_offset (day_of c - 1))"
proof -
  have off: "new_york (day_of c * ms_per_day + r) = day_offset (day_of c - 1)" if "0 \<le> r" "r < hours 6" for r
    using new_york_next_morning [OF that, of "day_of c - 1"] by simp
  have "new_york (day_of c * ms_per_day) = day_offset (day_of c - 1)" using off [of 0] by (simp add: hours_def)
  moreover have "new_york (day_of c * ms_per_day + - minutes (day_offset (day_of c - 1))) = day_offset (day_of c - 1)"
    using day_offset_cases [of "day_of c - 1"] by (intro off) (auto simp: hours_def minutes_def)
  ultimately show ?thesis
    using zonedTime_settled [of new_york c 0 0 "day_offset (day_of c - 1)"] by (simp add: minutes_def hours_def)
qed

end
