(* ===== verification/Weekend_Market.thy ===== *)
theory Weekend_Market
  imports Market_Clock
begin

text \<open>
  The reviewed market calendar of lib/rwa-market-reality/src/referenceSession.ts and the quiet
  periods lib/rwa-market-reality/src/weekendMarket.ts derives from it. A local date is a civil
  triple; its ISO form compares as the triple does.
\<close>

record market_calendar =
  cal_valid_from :: civil
  cal_valid_through :: civil
  cal_open_minute :: int
  cal_close_minute :: int
  cal_closed_dates :: "civil list"
  cal_early_close :: "(civil \<times> int) list"

definition REVIEWED_US_EQUITIES_CALENDAR_V1 :: market_calendar where
  "REVIEWED_US_EQUITIES_CALENDAR_V1 = \<lparr>
     cal_valid_from = (2026, 1, 1),
     cal_valid_through = (2027, 12, 31),
     cal_open_minute = 9 * 60 + 30,
     cal_close_minute = 16 * 60,
     cal_closed_dates = [
       (2026, 1, 1), (2026, 1, 19), (2026, 2, 16), (2026, 4, 3), (2026, 5, 25),
       (2026, 6, 19), (2026, 7, 3), (2026, 9, 7), (2026, 11, 26), (2026, 12, 25),
       (2027, 1, 1), (2027, 1, 18), (2027, 2, 15), (2027, 3, 26), (2027, 5, 31),
       (2027, 6, 18), (2027, 7, 5), (2027, 9, 6), (2027, 11, 25), (2027, 12, 24)],
     cal_early_close = [
       ((2026, 11, 27), 13 * 60), ((2026, 12, 24), 13 * 60), ((2027, 11, 26), 13 * 60)]\<rparr>"

definition sessionOnV1 :: "civil \<Rightarrow> market_calendar \<Rightarrow> int option" where
  "sessionOnV1 localDate calendar =
     (if localDate < cal_valid_from calendar \<or> localDate > cal_valid_through calendar then None
      else
        let weekday = weekday_of_day (day_of localDate) in
        if weekday = 0 \<or> weekday = 6 \<or> localDate \<in> set (cal_closed_dates calendar) then None
        else Some (case map_of (cal_early_close calendar) localDate of
                     Some close \<Rightarrow> close | None \<Rightarrow> cal_close_minute calendar))"

record quiet_window =
  qw_close_at :: instant
  qw_dark_start_at :: instant
  qw_expected_reopen_at :: instant
  qw_next_session_close_at :: instant

text \<open>The two searches, over the offsets the loops run through.\<close>

fun last_closed :: "market_calendar \<Rightarrow> civil \<Rightarrow> int \<Rightarrow> int list \<Rightarrow> (civil \<times> int) option" where
  "last_closed calendar localDate minuteOfDay [] = None"
| "last_closed calendar localDate minuteOfDay (offset # offsets) =
     (let date = shiftDateV1 localDate (- offset) in
      case sessionOnV1 date calendar of
        None \<Rightarrow> last_closed calendar localDate minuteOfDay offsets
      | Some close \<Rightarrow>
          if offset = 0 \<and> minuteOfDay < close then last_closed calendar localDate minuteOfDay offsets
          else Some (date, close))"

fun next_session :: "market_calendar \<Rightarrow> civil \<Rightarrow> int list \<Rightarrow> (civil \<times> int) option" where
  "next_session calendar closedDate [] = None"
| "next_session calendar closedDate (offset # offsets) =
     (let date = shiftDateV1 closedDate offset in
      case sessionOnV1 date calendar of
        None \<Rightarrow> next_session calendar closedDate offsets
      | Some close \<Rightarrow> Some (date, close))"

definition quiet_between :: "civil \<times> int \<Rightarrow> civil \<times> int \<Rightarrow> quiet_window option" where
  "quiet_between closed nextd =
     (if etInstantV1 (shiftDateV1 (fst nextd) (- 1)) (20 * 60) \<le> etInstantV1 (fst closed) (20 * 60) then None
      else Some \<lparr>qw_close_at = etInstantV1 (fst closed) (snd closed),
                 qw_dark_start_at = etInstantV1 (fst closed) (20 * 60),
                 qw_expected_reopen_at = etInstantV1 (shiftDateV1 (fst nextd) (- 1)) (20 * 60),
                 qw_next_session_close_at = etInstantV1 (fst nextd) (snd nextd)\<rparr>)"

definition weekendWindowV1 :: "instant \<Rightarrow> market_calendar \<Rightarrow> quiet_window option" where
  "weekendWindowV1 now calendar =
     (case last_closed calendar (fst (etPartsV1 now)) (snd (etPartsV1 now)) [0..10] of
        None \<Rightarrow> None
      | Some closed \<Rightarrow>
          (case next_session calendar (fst closed) [1..10] of
             None \<Rightarrow> None
           | Some nextd \<Rightarrow> quiet_between closed nextd))"

fun next_weekend :: "market_calendar \<Rightarrow> instant \<Rightarrow> civil \<Rightarrow> int list \<Rightarrow> instant option" where
  "next_weekend calendar now today [] = None"
| "next_weekend calendar now today (offset # offsets) =
     (let date = shiftDateV1 today offset in
      if sessionOnV1 date calendar = None then next_weekend calendar now today offsets
      else
        let nextd = shiftDateV1 date 1 in
        if nextd > cal_valid_through calendar then None
        else if sessionOnV1 nextd calendar \<noteq> None then next_weekend calendar now today offsets
        else
          let start = etInstantV1 date (20 * 60) in
          if start > now then Some start else next_weekend calendar now today offsets)"

definition nextWeekendStartV1 :: "instant \<Rightarrow> market_calendar \<Rightarrow> instant option" where
  "nextWeekendStartV1 now calendar = next_weekend calendar now (fst (etPartsV1 now)) [0..14]"

definition regularSessionV1 :: "instant \<Rightarrow> market_calendar \<Rightarrow> (instant \<times> instant) option" where
  "regularSessionV1 now calendar =
     (let today = fst (etPartsV1 now) in
      case sessionOnV1 today calendar of
        None \<Rightarrow> None
      | Some close \<Rightarrow> Some (etInstantV1 today (cal_open_minute calendar), etInstantV1 today close))"

section \<open>What a calendar must be\<close>

definition wf_calendar :: "market_calendar \<Rightarrow> bool" where
  "wf_calendar calendar \<longleftrightarrow>
     180 \<le> cal_open_minute calendar
     \<and> (\<forall>c \<in> insert (cal_close_minute calendar) (snd ` set (cal_early_close calendar)).
          cal_open_minute calendar < c \<and> c \<le> 1200)"

lemma reviewed_calendar_wf [simp]: "wf_calendar REVIEWED_US_EQUITIES_CALENDAR_V1"
  by (simp add: wf_calendar_def REVIEWED_US_EQUITIES_CALENDAR_V1_def)

lemma session_close:
  assumes "wf_calendar calendar" and "sessionOnV1 d calendar = Some close"
  shows "cal_open_minute calendar < close" and "close \<le> 1200" and "180 \<le> cal_open_minute calendar"
proof -
  have "close \<in> insert (cal_close_minute calendar) (snd ` set (cal_early_close calendar))"
    using assms(2)
    by (auto simp: sessionOnV1_def Let_def split: if_splits option.splits dest!: map_of_SomeD intro!: rev_image_eqI)
  then show "cal_open_minute calendar < close" "close \<le> 1200" "180 \<le> cal_open_minute calendar"
    using assms(1) by (auto simp: wf_calendar_def)
qed

section \<open>The searches\<close>

lemma last_closed_SomeD:
  "last_closed calendar d m offsets = Some (date, close) \<Longrightarrow>
     \<exists>k \<in> set offsets. date = shiftDateV1 d (- k) \<and> sessionOnV1 date calendar = Some close
       \<and> (k = 0 \<longrightarrow> close \<le> m)"
  by (induction calendar d m offsets rule: last_closed.induct)
     (auto simp: Let_def not_less split: option.splits if_splits)

lemma next_session_SomeD:
  assumes "next_session calendar d [a..b] = Some (date, close)"
  shows "\<exists>k. a \<le> k \<and> k \<le> b \<and> date = shiftDateV1 d k \<and> sessionOnV1 date calendar = Some close
    \<and> (\<forall>j. a \<le> j \<and> j < k \<longrightarrow> sessionOnV1 (shiftDateV1 d j) calendar = None)"
  using assms
proof (induction a b rule: upto.induct)
  case (1 a b)
  show ?case
  proof (cases "a \<le> b")
    case False
    with "1.prems" show ?thesis by simp
  next
    case True
    then have upto: "[a..b] = a # [a + 1..b]" by (rule upto_rec1)
    show ?thesis
    proof (cases "sessionOnV1 (shiftDateV1 d a) calendar")
      case (Some c)
      with "1.prems" upto True show ?thesis by (intro exI [of _ a]) auto
    next
      case None
      with "1.prems" upto have "next_session calendar d [a + 1..b] = Some (date, close)" by simp
      from "1.IH" [OF True this] obtain k where k: "a + 1 \<le> k" "k \<le> b" "date = shiftDateV1 d k"
        "sessionOnV1 date calendar = Some close"
        "\<forall>j. a + 1 \<le> j \<and> j < k \<longrightarrow> sessionOnV1 (shiftDateV1 d j) calendar = None" by blast
      have "\<forall>j. a \<le> j \<and> j < k \<longrightarrow> sessionOnV1 (shiftDateV1 d j) calendar = None"
        using k(5) None by (metis order_le_less zless_imp_add1_zle)
      with k show ?thesis by (intro exI [of _ k]) auto
    qed
  qed
qed

lemma next_weekend_SomeD:
  "next_weekend calendar now today offsets = Some start \<Longrightarrow>
     \<exists>k \<in> set offsets. start = etInstantV1 (shiftDateV1 today k) 1200 \<and> now < start
       \<and> sessionOnV1 (shiftDateV1 today k) calendar \<noteq> None
       \<and> sessionOnV1 (shiftDateV1 (shiftDateV1 today k) 1) calendar = None"
  by (induction calendar now today offsets rule: next_weekend.induct)
     (auto simp: Let_def split: if_splits)

lemma weekendWindowV1_SomeD:
  assumes "weekendWindowV1 now calendar = Some w"
  obtains closed close nextd nclose k j where "etPartsV1 now = (fst (etPartsV1 now), snd (etPartsV1 now))"
    and "closed = shiftDateV1 (fst (etPartsV1 now)) (- k)" and "0 \<le> k" and "k \<le> 10"
    and "sessionOnV1 closed calendar = Some close" and "k = 0 \<longrightarrow> close \<le> snd (etPartsV1 now)"
    and "nextd = shiftDateV1 closed j" and "1 \<le> j" and "j \<le> 10" and "sessionOnV1 nextd calendar = Some nclose"
    and "\<forall>i. 1 \<le> i \<and> i < j \<longrightarrow> sessionOnV1 (shiftDateV1 closed i) calendar = None"
    and "w = \<lparr>qw_close_at = etInstantV1 closed close, qw_dark_start_at = etInstantV1 closed 1200,
       qw_expected_reopen_at = etInstantV1 (shiftDateV1 nextd (- 1)) 1200,
       qw_next_session_close_at = etInstantV1 nextd nclose\<rparr>"
    and "qw_dark_start_at w < qw_expected_reopen_at w"
proof -
  obtain d m where p: "etPartsV1 now = (d, m)" by (cases "etPartsV1 now")
  from assms obtain closed close nextd nclose where
    l: "last_closed calendar d m [0..10] = Some (closed, close)"
    and n: "next_session calendar closed [1..10] = Some (nextd, nclose)"
    and w: "\<not> etInstantV1 (shiftDateV1 nextd (- 1)) 1200 \<le> etInstantV1 closed 1200"
      "w = \<lparr>qw_close_at = etInstantV1 closed close, qw_dark_start_at = etInstantV1 closed 1200,
       qw_expected_reopen_at = etInstantV1 (shiftDateV1 nextd (- 1)) 1200,
       qw_next_session_close_at = etInstantV1 nextd nclose\<rparr>"
    by (auto simp: weekendWindowV1_def quiet_between_def p simp del: upto.simps split: option.splits if_splits)
  show thesis
    using last_closed_SomeD [OF l] next_session_SomeD [OF n] w p
    by (auto simp del: upto.simps intro: that)
qed

end
