(* ===== verification/Windows.thy ===== *)
theory Windows
  imports Weekend_Market
begin

text \<open>
  The windows Still's terms run on, lib/still-engine/src/policy.ts from \<open>weekendWindow\<close> on: the
  closed-market window around an instant, by the reviewed calendar or past it by the fixed rule,
  and the window around a stock's report date. Their properties follow the definitions.
\<close>

record weekend_window =
  ww_active :: bool
  ww_starts_at :: instant
  ww_ends_at :: instant

definition reviewedWindow :: "instant \<Rightarrow> weekend_window option" where
  "reviewedWindow at =
     (let upcoming =
        (case nextWeekendStartV1 at REVIEWED_US_EQUITIES_CALENDAR_V1 of
           None \<Rightarrow> None
         | Some nextw \<Rightarrow>
             map_option (\<lambda>u. \<lparr>ww_active = False, ww_starts_at = qw_dark_start_at u,
                              ww_ends_at = qw_expected_reopen_at u\<rparr>)
               (weekendWindowV1 nextw REVIEWED_US_EQUITIES_CALENDAR_V1))
      in case weekendWindowV1 at REVIEWED_US_EQUITIES_CALENDAR_V1 of
           Some quiet \<Rightarrow>
             if at < qw_expected_reopen_at quiet
             then Some \<lparr>ww_active = (qw_dark_start_at quiet \<le> at), ww_starts_at = qw_dark_start_at quiet,
                        ww_ends_at = qw_expected_reopen_at quiet\<rparr>
             else upcoming
         | None \<Rightarrow> upcoming)"

definition window_from :: "civil \<Rightarrow> zone \<Rightarrow> instant \<times> instant" where
  "window_from friday zone =
     (zonedTime friday (fst (trm_weekend_starts_friday TERMS)) (snd (trm_weekend_starts_friday TERMS)) zone,
      zonedTime (shift_date friday 2) (fst (trm_weekend_ends_sunday TERMS)) (snd (trm_weekend_ends_sunday TERMS)) zone)"

definition local_date :: "wall_time \<Rightarrow> int \<Rightarrow> civil" where
  "local_date now offsetDays = shift_date (wt_year now, wt_month now, wt_day now) offsetDays"

definition fixedWeekendWindow :: "instant \<Rightarrow> zone \<Rightarrow> weekend_window" where
  "fixedWeekendWindow at zone =
     (let now = wallTime at zone;
          back = (wt_weekday now - 5 + 7) mod 7;
          (startsAt, endsAt) = window_from (local_date now (- back)) zone
      in if startsAt \<le> at \<and> at < endsAt
         then \<lparr>ww_active = True, ww_starts_at = startsAt, ww_ends_at = endsAt\<rparr>
         else
           let (s, e) = (if at < startsAt then (startsAt, endsAt) else window_from (local_date now (7 - back)) zone)
           in \<lparr>ww_active = False, ww_starts_at = s, ww_ends_at = e\<rparr>)"

definition weekendWindow :: "instant \<Rightarrow> zone \<Rightarrow> weekend_window" where
  "weekendWindow at zone =
     (case reviewedWindow at of Some w \<Rightarrow> w | None \<Rightarrow> fixedWeekendWindow at zone)"

definition marketDate :: "instant \<Rightarrow> zone \<Rightarrow> civil" where
  "marketDate at zone = (let w = wallTime at zone in (wt_year w, wt_month w, wt_day w))"

record earnings_window =
  ew_report_date :: civil
  ew_starts_at :: instant
  ew_ends_at :: instant
  ew_active :: bool

definition earningsWindowOf :: "civil \<Rightarrow> zone \<Rightarrow> instant \<times> instant" where
  "earningsWindowOf reportDate zone =
     (zonedTime (shift_date reportDate (- 1)) (fst (trm_earnings_starts_day_before TERMS))
        (snd (trm_earnings_starts_day_before TERMS)) zone,
      zonedTime (shift_date reportDate 1) (fst (trm_earnings_ends_day_after TERMS))
        (snd (trm_earnings_ends_day_after TERMS)) zone)"

fun earnings_loop :: "instant \<Rightarrow> zone \<Rightarrow> earnings_window option \<Rightarrow> civil list \<Rightarrow> earnings_window option" where
  "earnings_loop at zone found [] = found"
| "earnings_loop at zone found (reportDate # rest) =
     (let (startsAt, endsAt) = earningsWindowOf reportDate zone in
      if startsAt \<le> at \<and> at < endsAt
      then Some \<lparr>ew_report_date = reportDate, ew_starts_at = startsAt, ew_ends_at = endsAt, ew_active = True\<rparr>
      else if at < startsAt \<and> (case found of None \<Rightarrow> True | Some w \<Rightarrow> startsAt < ew_starts_at w)
      then earnings_loop at zone
        (Some \<lparr>ew_report_date = reportDate, ew_starts_at = startsAt, ew_ends_at = endsAt, ew_active = False\<rparr>) rest
      else earnings_loop at zone found rest)"

definition earningsWindow :: "instant \<Rightarrow> civil list \<Rightarrow> zone \<Rightarrow> earnings_window option" where
  "earningsWindow at reportDates zone = earnings_loop at zone None reportDates"

section \<open>Where an Eastern instant lies\<close>

lemma etInstantV1_bounds:
  assumes "real_date c" and "180 \<le> m" and "m < 1440"
  shows "day_of c * ms_per_day + minutes m + hours 4 \<le> etInstantV1 c m"
    and "etInstantV1 c m \<le> day_of c * ms_per_day + minutes m + hours 5"
  using etInstantV1_day(1) [OF assms] day_offset_cases [of "day_of c"] by (auto simp: minutes_def hours_def)

lemma etInstantV1_mono:
  assumes "real_date c" and "180 \<le> m" and "m \<le> m'" and "m' < 1440"
  shows "etInstantV1 c m \<le> etInstantV1 c m'"
  using etInstantV1_day(1) [of c m] etInstantV1_day(1) [of c m'] assms by (simp add: minutes_def)

lemma days_apart: "m < n \<Longrightarrow> (m + 1) * ms_per_day \<le> n * (ms_per_day :: int)"
  by (intro mult_right_mono) (simp_all add: less_imp_le)

lemma earlier_day:
  assumes "real_date c" "real_date d" "day_of c < day_of d" "180 \<le> m" "m \<le> 1200" "180 \<le> n" "n < 1440"
  shows "etInstantV1 c m < etInstantV1 d n"
  using etInstantV1_bounds(2) [of c m] etInstantV1_bounds(1) [of d n] days_apart [OF assms(3)] assms
  by (simp add: minutes_def hours_def distrib_right) (simp add: ms_per_day_def)

lemma real_parts [simp]: "real_date (fst (etPartsV1 t))"
  by (simp add: etPartsV1_eq)

lemma real_shiftDateV1 [simp]: "real_date (shiftDateV1 c k)" "day_of (shiftDateV1 c k) = day_of c + k"
  by (simp_all add: shiftDateV1_def)

lemma date_eq: "real_date c \<Longrightarrow> real_date d \<Longrightarrow> day_of c = day_of d \<Longrightarrow> c = d"
  by (metis date_of_day_of)

section \<open>The quiet period\<close>

text \<open>
  A quiet period keeps out of the sessions: its close, its start, its reopen and the next close
  come in this order, the start and the reopen read 20:00 in New York, and every regular session of the calendar ends by the start or opens after the
  reopen.
\<close>

theorem quiet_period_has_no_session:
  assumes "wf_calendar calendar" and "weekendWindowV1 now calendar = Some w"
    and "real_date d" and "sessionOnV1 d calendar = Some close"
  shows "qw_close_at w \<le> qw_dark_start_at w \<and> qw_dark_start_at w < qw_expected_reopen_at w
    \<and> qw_expected_reopen_at w < qw_next_session_close_at w
    \<and> snd (etPartsV1 (qw_dark_start_at w)) = 1200 \<and> snd (etPartsV1 (qw_expected_reopen_at w)) = 1200
    \<and> (etInstantV1 d close \<le> qw_dark_start_at w
       \<or> qw_expected_reopen_at w < etInstantV1 d (cal_open_minute calendar))"
proof -
  obtain closed c nextd nc k j where closed: "closed = shiftDateV1 (fst (etPartsV1 now)) (- k)"
    and c: "sessionOnV1 closed calendar = Some c" and nextd: "nextd = shiftDateV1 closed j" "1 \<le> j"
    and nc: "sessionOnV1 nextd calendar = Some nc"
    and gap: "\<forall>i. 1 \<le> i \<and> i < j \<longrightarrow> sessionOnV1 (shiftDateV1 closed i) calendar = None"
    and w: "w = \<lparr>qw_close_at = etInstantV1 closed c, qw_dark_start_at = etInstantV1 closed 1200,
       qw_expected_reopen_at = etInstantV1 (shiftDateV1 nextd (- 1)) 1200,
       qw_next_session_close_at = etInstantV1 nextd nc\<rparr>"
    and order: "qw_dark_start_at w < qw_expected_reopen_at w"
    by (rule weekendWindowV1_SomeD [OF assms(2)])
  have real: "real_date closed" "real_date nextd" by (simp_all add: closed nextd)
  note sc = session_close [OF assms(1) c] and sn = session_close [OF assms(1) nc]
    and sd = session_close [OF assms(1,4)]
  have "etInstantV1 closed c \<le> etInstantV1 closed 1200" using sc by (intro etInstantV1_mono real) auto
  moreover have "etInstantV1 (shiftDateV1 nextd (- 1)) 1200 < etInstantV1 nextd nc"
    using sn real by (intro earlier_day) auto
  moreover have "etInstantV1 d close \<le> etInstantV1 closed 1200
      \<or> etInstantV1 (shiftDateV1 nextd (- 1)) 1200 < etInstantV1 d (cal_open_minute calendar)"
  proof -
    consider "day_of d < day_of closed" | "d = closed" | "day_of closed < day_of d" "day_of d < day_of nextd"
      | "day_of nextd \<le> day_of d"
      using date_eq [OF assms(3) real(1)] by linarith
    then show ?thesis
    proof cases
      case 1
      then have "etInstantV1 d close < etInstantV1 closed 1200"
        using sd real assms(3) by (intro earlier_day) auto
      then show ?thesis by simp
    next
      case 2
      then show ?thesis using sd real by (auto intro: etInstantV1_mono)
    next
      case 3
      then have "d = shiftDateV1 closed (day_of d - day_of closed)"
        using assms(3) by (intro date_eq) simp_all
      moreover have "1 \<le> day_of d - day_of closed \<and> day_of d - day_of closed < j" using 3 nextd by simp
      ultimately have "sessionOnV1 d calendar = None" using gap by metis
      with assms(4) show ?thesis by simp
    next
      case 4
      then have "etInstantV1 (shiftDateV1 nextd (- 1)) 1200 < etInstantV1 d (cal_open_minute calendar)"
        using sd real assms(3) by (intro earlier_day) auto
      then show ?thesis by simp
    qed
  qed
  ultimately show ?thesis
    using order real etInstantV1_day(2) [of closed 1200] etInstantV1_day(2) [of "shiftDateV1 nextd (- 1)" 1200]
    by (simp add: w)
qed

definition thanksgiving_eve :: instant where
  "thanksgiving_eve = etInstantV1 (2026, 11, 25) (21 * 60)"

lemma quiet_period_has_no_session_witness:
  "\<exists>w. weekendWindowV1 thanksgiving_eve REVIEWED_US_EQUITIES_CALENDAR_V1 = Some w
    \<and> qw_dark_start_at w = etInstantV1 (2026, 11, 25) 1200
    \<and> qw_expected_reopen_at w = etInstantV1 (2026, 11, 26) 1200
    \<and> qw_expected_reopen_at w < etInstantV1 (2026, 11, 27) 570"
proof -
  let ?w = "\<lparr>qw_close_at = etInstantV1 (2026, 11, 25) 960, qw_dark_start_at = etInstantV1 (2026, 11, 25) 1200,
    qw_expected_reopen_at = etInstantV1 (2026, 11, 26) 1200, qw_next_session_close_at = etInstantV1 (2026, 11, 27) 780\<rparr>"
  have w: "weekendWindowV1 thanksgiving_eve REVIEWED_US_EQUITIES_CALENDAR_V1 = Some ?w"
    by code_simp
  have d: "real_date (2026, 11, 27)" "sessionOnV1 (2026, 11, 27) REVIEWED_US_EQUITIES_CALENDAR_V1 = Some 780"
    by code_simp+
  have "\<not> etInstantV1 (2026, 11, 27) 780 \<le> etInstantV1 (2026, 11, 25) 1200" by code_simp
  with quiet_period_has_no_session [OF reviewed_calendar_wf w d] w show ?thesis
    by (simp add: REVIEWED_US_EQUITIES_CALENDAR_V1_def)
qed

section \<open>The window the terms run on\<close>

lemma new_york_cases: "new_york t = - 240 \<or> new_york t = - 300"
  by (simp add: new_york_def Let_def)

lemma reviewed_quiet:
  assumes "weekendWindowV1 now REVIEWED_US_EQUITIES_CALENDAR_V1 = Some w"
  shows "qw_dark_start_at w < qw_expected_reopen_at w"
  by (rule weekendWindowV1_SomeD [OF assms]) assumption

lemma last_closed_today:
  assumes "real_date d" and "sessionOnV1 d calendar = Some close" and "close \<le> m"
  shows "last_closed calendar d m [0..10] = Some (d, close)"
proof -
  have "[0..10] = 0 # [1..10 :: int]" by (simp add: upto_rec1)
  moreover have "shiftDateV1 d 0 = d" using assms(1) by (intro date_eq) simp_all
  ultimately show ?thesis using assms(2,3) by simp
qed

lemma upcoming_starts_later:
  assumes "nextWeekendStartV1 at REVIEWED_US_EQUITIES_CALENDAR_V1 = Some s"
    and "weekendWindowV1 s REVIEWED_US_EQUITIES_CALENDAR_V1 = Some u"
  shows "at < qw_dark_start_at u"
proof -
  let ?c = "REVIEWED_US_EQUITIES_CALENDAR_V1"
  obtain k close where k: "s = etInstantV1 (shiftDateV1 (fst (etPartsV1 at)) k) 1200" "at < s"
    "sessionOnV1 (shiftDateV1 (fst (etPartsV1 at)) k) ?c = Some close"
    using next_weekend_SomeD [OF assms(1) [unfolded nextWeekendStartV1_def]] by auto
  let ?d = "shiftDateV1 (fst (etPartsV1 at)) k"
  have parts: "etPartsV1 s = (?d, 1200)" unfolding k(1) by (rule etInstantV1_day(2)) simp_all
  have "last_closed ?c ?d 1200 [0..10] = Some (?d, close)"
    using session_close(2) [OF reviewed_calendar_wf k(3)] by (intro last_closed_today k(3)) simp_all
  then have "qw_dark_start_at u = etInstantV1 ?d 1200"
    using assms(2) by (auto simp: weekendWindowV1_def quiet_between_def parts simp del: upto.simps split: option.splits if_splits)
  with k show ?thesis by simp
qed

lemma reviewedWindow_around:
  assumes "reviewedWindow at = Some w"
  shows "ww_starts_at w < ww_ends_at w" and "at < ww_ends_at w" and "ww_active w \<longleftrightarrow> ww_starts_at w \<le> at"
proof -
  have "ww_starts_at w < ww_ends_at w \<and> at < ww_ends_at w \<and> (ww_active w \<longleftrightarrow> ww_starts_at w \<le> at)"
    using assms upcoming_starts_later [of at] reviewed_quiet
    by (fastforce simp: reviewedWindow_def Let_def split: option.splits if_splits)
  then show "ww_starts_at w < ww_ends_at w" "at < ww_ends_at w" "ww_active w \<longleftrightarrow> ww_starts_at w \<le> at" by simp_all
qed

lemma wallTime_date:
  "(wt_year (wallTime t z), wt_month (wallTime t z), wt_day (wallTime t z)) = date_of_day (day_of_instant (local_ms z t))"
  "wt_weekday (wallTime t z) = weekday_of_day (day_of_instant (local_ms z t))"
  by (simp_all add: wallTime_def Let_def case_prod_beta)

lemma window_from_eq:
  "window_from c new_york =
    (day_of c * ms_per_day + hours 20 - minutes (day_offset (day_of c)),
     (day_of c + 2) * ms_per_day + hours 20 - minutes (day_offset (day_of c + 2)))"
  by (simp add: window_from_def TERMS_def zonedTime_day)

lemma window_from_bounds:
  assumes "window_from c new_york = (s, e)"
  shows "day_of c * ms_per_day + hours 24 \<le> s" and "s \<le> day_of c * ms_per_day + hours 25" and "s < e"
  using assms day_offset_cases [of "day_of c"] day_offset_cases [of "day_of c + 2"]
  by (auto simp: window_from_eq hours_def minutes_def ms_per_day_def)

lemma fixedWeekendWindow_around:
  fixes now0 :: instant
  defines "w \<equiv> fixedWeekendWindow now0 new_york"
  shows "ww_starts_at w < ww_ends_at w \<and> now0 < ww_ends_at w \<and> (ww_active w \<longleftrightarrow> ww_starts_at w \<le> now0)"
proof -
  define n where "n = wallTime now0 new_york"
  define gone where "gone = (wt_weekday n - 5 + 7) mod 7"
  have gone: "0 \<le> gone" "gone \<le> 6" by (simp_all add: gone_def)
  define D where "D = day_of_instant (local_ms new_york now0)"
  have date: "day_of (local_date n k) = D + k" for k
    by (simp add: local_date_def n_def wallTime_date D_def)
  have "local_ms new_york now0 < (D + 1) * ms_per_day"
    using div_lt_iff [of ms_per_day "local_ms new_york now0" "D + 1"] by (simp add: D_def day_of_instant_def)
  then have early: "now0 < (D + 1) * ms_per_day + hours 5"
    using new_york_cases [of now0] by (auto simp: local_ms_def minutes_def hours_def)
  obtain s e where w1: "window_from (local_date n (- gone)) new_york = (s, e)" by fastforce
  obtain s' e' where w2: "window_from (local_date n (7 - gone)) new_york = (s', e')" by fastforce
  have order: "s < e" "s' < e'" using window_from_bounds(3) [OF w1] window_from_bounds(3) [OF w2] by simp_all
  have "(D + 1) * ms_per_day \<le> day_of (local_date n (7 - gone)) * ms_per_day"
    using gone by (intro mult_right_mono) (simp_all add: date less_imp_le)
  then have "now0 < s'" using early window_from_bounds(1) [OF w2] unfolding hours_def by linarith
  moreover have "w = (if s \<le> now0 \<and> now0 < e then \<lparr>ww_active = True, ww_starts_at = s, ww_ends_at = e\<rparr>
      else if now0 < s then \<lparr>ww_active = False, ww_starts_at = s, ww_ends_at = e\<rparr>
      else \<lparr>ww_active = False, ww_starts_at = s', ww_ends_at = e'\<rparr>)"
    unfolding w_def fixedWeekendWindow_def Let_def n_def [symmetric] gone_def [symmetric] w1 w2 prod.case
    by (simp split: prod.splits)
  ultimately show ?thesis using order by auto
qed

text \<open>
  Every instant has its closed-market window: whatever the calendar covers, \<open>weekendWindow\<close> in New
  York answers with a window that has not ended, whose start is before its end, and which is active
  exactly from its start on; so it is the one open now or one still ahead, never one that is past.
\<close>

theorem weekend_window_is_current_or_next:
  "let w = weekendWindow at new_york in
     ww_starts_at w < ww_ends_at w \<and> at < ww_ends_at w \<and> (ww_active w \<longleftrightarrow> ww_starts_at w \<le> at)"
  using reviewedWindow_around [of at] fixedWeekendWindow_around [of at]
  by (auto simp: weekendWindow_def Let_def split: option.splits)

section \<open>The window around a report\<close>

lemma earningsWindowOf_eq:
  "earningsWindowOf d new_york =
    ((day_of d - 1) * ms_per_day - minutes (day_offset (day_of d - 2)),
     (day_of d + 1) * ms_per_day + hours 20 - minutes (day_offset (day_of d + 1)))"
  by (simp add: earningsWindowOf_def TERMS_def zonedTime_midnight zonedTime_day)

definition window_open :: "instant \<Rightarrow> zone \<Rightarrow> civil \<Rightarrow> bool" where
  "window_open at zone d \<longleftrightarrow> fst (earningsWindowOf d zone) \<le> at \<and> at < snd (earningsWindowOf d zone)"

definition window_ahead :: "instant \<Rightarrow> zone \<Rightarrow> civil \<Rightarrow> bool" where
  "window_ahead at zone d \<longleftrightarrow> at < fst (earningsWindowOf d zone)"

definition upcoming_earnings :: "zone \<Rightarrow> civil \<Rightarrow> bool \<Rightarrow> earnings_window" where
  "upcoming_earnings zone d active = \<lparr>ew_report_date = d, ew_starts_at = fst (earningsWindowOf d zone),
     ew_ends_at = snd (earningsWindowOf d zone), ew_active = active\<rparr>"

lemma earnings_loop_open:
  "(\<exists>d \<in> set ds. window_open at z d) \<Longrightarrow>
     \<exists>d \<in> set ds. window_open at z d \<and> earnings_loop at z found ds = Some (upcoming_earnings z d True)"
proof (induction ds arbitrary: found)
  case Nil
  then show ?case by simp
next
  case (Cons d rest)
  obtain s e where w: "earningsWindowOf d z = (s, e)" by (cases "earningsWindowOf d z")
  show ?case
  proof (cases "window_open at z d")
    case True
    then show ?thesis by (auto simp: w window_open_def upcoming_earnings_def)
  next
    case False
    then have "\<exists>d \<in> set rest. window_open at z d" and "\<not> (s \<le> at \<and> at < e)"
      using Cons.prems w by (auto simp: window_open_def)
    then show ?thesis using Cons.IH by (simp add: w) blast
  qed
qed

text \<open>With no window open, the loop keeps the earliest of those ahead.\<close>

definition starts :: "zone \<Rightarrow> civil \<Rightarrow> instant" where
  "starts z d = fst (earningsWindowOf d z)"

definition keep_earlier :: "('a \<Rightarrow> bool) \<Rightarrow> ('a \<Rightarrow> int) \<Rightarrow> 'a \<Rightarrow> 'a option \<Rightarrow> 'a option" where
  "keep_earlier ahead start d b =
     (if ahead d \<and> (case b of None \<Rightarrow> True | Some f \<Rightarrow> start d < start f) then Some d else b)"

lemma earnings_step:
  assumes "\<not> window_open at z d"
  shows "earnings_loop at z (map_option (\<lambda>d. upcoming_earnings z d False) b) (d # rest)
    = earnings_loop at z (map_option (\<lambda>d. upcoming_earnings z d False)
        (keep_earlier (window_ahead at z) (starts z) d b)) rest"
proof -
  obtain s e where w: "earningsWindowOf d z = (s, e)" by (cases "earningsWindowOf d z")
  have up: "\<lparr>ew_report_date = d, ew_starts_at = s, ew_ends_at = e, ew_active = False\<rparr> = upcoming_earnings z d False"
    by (simp add: upcoming_earnings_def w)
  have start: "ew_starts_at (upcoming_earnings z f False) = starts z f" for f
    by (simp add: upcoming_earnings_def starts_def)
  have closed: "\<not> (s \<le> at \<and> at < e)" and ahead: "window_ahead at z d \<longleftrightarrow> at < s" and s: "starts z d = s"
    using assms by (simp_all add: window_open_def window_ahead_def starts_def w)
  show ?thesis
    by (cases b) (simp_all only: earnings_loop.simps w Let_def prod.case up closed if_False option.map option.case
      start ahead s keep_earlier_def simp_thms, simp_all)
qed

lemma earnings_loop_closed:
  "(\<forall>d \<in> set ds. \<not> window_open at z d) \<Longrightarrow>
     earnings_loop at z (map_option (\<lambda>d. upcoming_earnings z d False) b) ds
     = map_option (\<lambda>d. upcoming_earnings z d False)
         (fold (keep_earlier (window_ahead at z) (starts z)) ds b)"
proof (induction ds arbitrary: b)
  case Nil
  then show ?case by simp
next
  case (Cons d rest)
  from Cons.prems have "\<not> window_open at z d" by simp
  from earnings_step [OF this] Cons show ?case by simp
qed

lemma fold_earlier:
  "fold (keep_earlier ahead start) ds b = r \<Longrightarrow>
     (r = None \<longleftrightarrow> b = None \<and> (\<forall>d \<in> set ds. \<not> ahead d))
     \<and> (\<forall>d. r = Some d \<longrightarrow> (d \<in> set ds \<and> ahead d \<or> b = Some d)
          \<and> (\<forall>d' \<in> set ds. ahead d' \<longrightarrow> start d \<le> start d')
          \<and> (\<forall>f. b = Some f \<longrightarrow> start d \<le> start f))"
proof (induction ds arbitrary: b)
  case Nil
  then show ?case by auto
next
  case (Cons x ds)
  note IH = Cons.IH [of "keep_earlier ahead start x b", OF Cons.prems [simplified]]
  show ?case
  proof (cases "ahead x \<and> (case b of None \<Rightarrow> True | Some f \<Rightarrow> start x < start f)")
    case True
    then have "keep_earlier ahead start x b = Some x" by (simp add: keep_earlier_def)
    with IH True show ?thesis by (cases b) auto
  next
    case False
    then have "keep_earlier ahead start x b = b" by (auto simp: keep_earlier_def)
    with IH False show ?thesis by (cases b) force+
  qed
qed

text \<open>
  The earnings window of a stock: when some report's window is open, \<open>earningsWindow\<close> answers with an
  open one and says it is active; when none is, it answers with the one that starts first among those
  ahead and says it is not; and it answers with nothing exactly when every window has passed.
\<close>

theorem earnings_window_is_open_or_first_ahead:
  "let w = earningsWindow at ds zone in
     ((\<exists>d \<in> set ds. window_open at zone d) \<longrightarrow>
        (\<exists>d \<in> set ds. window_open at zone d \<and> w = Some (upcoming_earnings zone d True)))
     \<and> ((\<forall>d \<in> set ds. \<not> window_open at zone d) \<longrightarrow>
        (w = None \<longleftrightarrow> (\<forall>d \<in> set ds. \<not> window_ahead at zone d))
        \<and> (\<forall>x. w = Some x \<longrightarrow> (\<exists>d \<in> set ds. window_ahead at zone d \<and> x = upcoming_earnings zone d False
             \<and> (\<forall>d' \<in> set ds. window_ahead at zone d' \<longrightarrow> starts zone d \<le> starts zone d'))))"
proof -
  have closed: "(w = None \<longleftrightarrow> (\<forall>d \<in> set ds. \<not> window_ahead at zone d))
      \<and> (\<forall>x. w = Some x \<longrightarrow> (\<exists>d \<in> set ds. window_ahead at zone d \<and> x = upcoming_earnings zone d False
           \<and> (\<forall>d' \<in> set ds. window_ahead at zone d' \<longrightarrow> starts zone d \<le> starts zone d')))"
    if none: "\<forall>d \<in> set ds. \<not> window_open at zone d" and w: "w = earningsWindow at ds zone" for w
  proof -
    define r where "r = fold (keep_earlier (window_ahead at zone) (starts zone)) ds None"
    have "w = map_option (\<lambda>d. upcoming_earnings zone d False) r"
      using earnings_loop_closed [OF none, of None] by (simp add: earningsWindow_def r_def w)
    with fold_earlier [of "window_ahead at zone" "starts zone" ds None, OF r_def [symmetric]]
    show ?thesis by (cases r) (simp_all del: split_paired_All split_paired_Ex, blast)
  qed
  show ?thesis
    unfolding Let_def
    using closed [OF _ refl] earnings_loop_open [of ds at zone None] by (simp only: earningsWindow_def) blast
qed

definition report_dates :: "civil list" where
  "report_dates = [(2026, 10, 22), (2027, 1, 21)]"

lemma earnings_window_is_open_or_first_ahead_witness:
  "earningsWindow (etInstantV1 (2026, 10, 22) 600) report_dates new_york
     = Some (upcoming_earnings new_york (2026, 10, 22) True)"
proof -
  let ?at = "etInstantV1 (2026, 10, 22) 600"
  have first: "window_open ?at new_york (2026, 10, 22)" by code_simp
  have second: "\<not> window_open ?at new_york (2027, 1, 21)" by code_simp
  show ?thesis
    using earnings_window_is_open_or_first_ahead [of ?at report_dates new_york] first second
    by (simp add: Let_def report_dates_def)
qed

end
