(* ===== verification/Registry.thy ===== *)
theory Registry
  imports Money Terms
begin

text \<open>
  lib/still-engine/src/registry.ts: the contracts and assets Still reads on Base. Addresses are
  strings in their checksummed spelling; lookups compare them without their case.
\<close>

definition BASE_CHAIN_ID :: int where
  "BASE_CHAIN_ID = 8453"

record still_addresses =
  addr_multicall3 :: string
  addr_usdc :: string
  addr_weth :: string
  addr_cbbtc :: string
  addr_paxg :: string
  addr_aave_spoke :: string
  addr_aave_hub :: string
  addr_aave_oracle :: string
  addr_morpho :: string
  addr_coinbase_stock_registry :: string

definition ADDRESSES :: still_addresses where
  "ADDRESSES = \<lparr>
     addr_multicall3 = ''0xcA11bde05977b3631167028862bE2a173976CA11'',
     addr_usdc = ''0x833589fCD6eDb6E08f4c7C32D4f71b54bdA02913'',
     addr_weth = ''0x4200000000000000000000000000000000000006'',
     addr_cbbtc = ''0xcbB7C0000aB88B473b1f5aFd9ef808440eed33Bf'',
     addr_paxg = ''0xe904AEA5E1b110c9174728fA2efFc8aeD19E98Ef'',
     addr_aave_spoke = ''0x17905Db0e4A3514467539956c084180616AE7B8D'',
     addr_aave_hub = ''0xa4d5947Eb727A052bae69C593FfC84247EC9864E'',
     addr_aave_oracle = ''0xaBaf048fD7675Ea34a84332371ffd5D55E322A47'',
     addr_morpho = ''0xBBBBBbbBBb9cC5e90e3b3Af64bdAF62C37EEFFCb'',
     addr_coinbase_stock_registry = ''0x3f3E8cf41cdd3b1D118c16471aB0113DfDDd5CaD''\<rparr>"

datatype stock_id = AAPLc | AMZNc | GOOGLc | METAc | MSFTc | NVDAc | SPCXc | TSLAc

datatype crypto_id = CbBTC | ETH | PAXG

datatype asset_id = StockAsset stock_id | CryptoAsset crypto_id

record stock_asset =
  stk_id :: stock_id
  stk_token :: string
  stk_decimals :: nat
  stk_name :: string
  stk_legal_name :: string
  stk_ticker :: string
  stk_isin :: string

record crypto_asset =
  cry_id :: crypto_id
  cry_token :: string
  cry_decimals :: nat
  cry_name :: string
  cry_symbol :: string
  cry_morpho_market :: string
  cry_includes_native_eth :: bool

definition STOCKS :: "stock_asset list" where
  "STOCKS = [
     \<lparr>stk_id = AAPLc, stk_token = ''0xb200000000000000000000C2e324d24d7eEcd1fb'', stk_decimals = 8,
      stk_name = ''Apple'', stk_legal_name = ''Apple Inc.'', stk_ticker = ''AAPL'', stk_isin = ''US0378331005''\<rparr>,
     \<lparr>stk_id = AMZNc, stk_token = ''0xb200000000000000000000d9192b6B456483C2E8'', stk_decimals = 8,
      stk_name = ''Amazon'', stk_legal_name = ''Amazon.com Inc.'', stk_ticker = ''AMZN'', stk_isin = ''US0231351067''\<rparr>,
     \<lparr>stk_id = GOOGLc, stk_token = ''0xb2000000000000000000002D0BA3164cc74f58B7'', stk_decimals = 8,
      stk_name = ''Alphabet'', stk_legal_name = ''Alphabet Inc.'', stk_ticker = ''GOOGL'', stk_isin = ''US02079K3059''\<rparr>,
     \<lparr>stk_id = METAc, stk_token = ''0xb2000000000000000000008bC8786B856E61707C'', stk_decimals = 8,
      stk_name = ''Meta'', stk_legal_name = ''Meta Platforms Inc.'', stk_ticker = ''META'', stk_isin = ''US30303M1027''\<rparr>,
     \<lparr>stk_id = MSFTc, stk_token = ''0xB200000000000000000000Ab99cFa739E253872B'', stk_decimals = 8,
      stk_name = ''Microsoft'', stk_legal_name = ''Microsoft Corporation'', stk_ticker = ''MSFT'', stk_isin = ''US5949181045''\<rparr>,
     \<lparr>stk_id = NVDAc, stk_token = ''0xb20000000000000000000078ee7ce2fE4908108C'', stk_decimals = 8,
      stk_name = ''NVIDIA'', stk_legal_name = ''NVIDIA Corporation'', stk_ticker = ''NVDA'', stk_isin = ''US67066G1040''\<rparr>,
     \<lparr>stk_id = SPCXc, stk_token = ''0xb2000000000000000000007b9fcbd005511aCBd5'', stk_decimals = 8,
      stk_name = ''SpaceX'', stk_legal_name = ''Space Exploration Technologies Corp.'', stk_ticker = ''SPCX'', stk_isin = ''US84615Q1031''\<rparr>,
     \<lparr>stk_id = TSLAc, stk_token = ''0xb2000000000000000000001e800a7f5189430cD0'', stk_decimals = 8,
      stk_name = ''Tesla'', stk_legal_name = ''Tesla Inc.'', stk_ticker = ''TSLA'', stk_isin = ''US88160R1014''\<rparr>]"

definition CRYPTO :: "crypto_asset list" where
  "CRYPTO = [
     \<lparr>cry_id = CbBTC, cry_token = addr_cbbtc ADDRESSES, cry_decimals = 8, cry_name = ''Bitcoin'', cry_symbol = ''cbBTC'',
      cry_morpho_market = ''0x9103c3b4e834476c9a62ea009ba2c884ee42e94e6e314a26f04d312434191836'',
      cry_includes_native_eth = False\<rparr>,
     \<lparr>cry_id = ETH, cry_token = addr_weth ADDRESSES, cry_decimals = 18, cry_name = ''Ether'', cry_symbol = ''ETH'',
      cry_morpho_market = ''0x8793cf302b8ffd655ab97bd1c695dbd967807e8367a65cb2f4edaf1380ba1bda'',
      cry_includes_native_eth = True\<rparr>,
     \<lparr>cry_id = PAXG, cry_token = addr_paxg ADDRESSES, cry_decimals = 18, cry_name = ''Gold'', cry_symbol = ''PAXG'',
      cry_morpho_market = ''0x48dca3ed245fb30931013a676d3451f7602b11150f92743ad93159628cbbe392'',
      cry_includes_native_eth = False\<rparr>]"

definition ASSETS :: "(stock_asset + crypto_asset) list" where
  "ASSETS = map Inl STOCKS @ map Inr CRYPTO"

definition asset_key :: "stock_asset + crypto_asset \<Rightarrow> asset_id" where
  "asset_key a = (case a of Inl s \<Rightarrow> StockAsset (stk_id s) | Inr c \<Rightarrow> CryptoAsset (cry_id c))"

definition stockByToken :: "string \<Rightarrow> stock_asset option" where
  "stockByToken token = find (\<lambda>s. to_lower (stk_token s) = to_lower token) STOCKS"

definition assetById :: "asset_id \<Rightarrow> (stock_asset + crypto_asset) result" where
  "assetById i =
     (case find (\<lambda>a. asset_key a = i) ASSETS of
        None \<Rightarrow> Inl (JsError ''unknown asset'') | Some a \<Rightarrow> Inr a)"

section \<open>The registry is a table\<close>

lemma stock_ids: "map stk_id STOCKS = [AAPLc, AMZNc, GOOGLc, METAc, MSFTc, NVDAc, SPCXc, TSLAc]"
  by (simp add: STOCKS_def)

lemma crypto_ids: "map cry_id CRYPTO = [CbBTC, ETH, PAXG]"
  by (simp add: CRYPTO_def)

lemma stock_tokens_distinct: "distinct (map (to_lower \<circ> stk_token) STOCKS)"
  by code_simp

lemma find_unique:
  "distinct (map f xs) \<Longrightarrow> x \<in> set xs \<Longrightarrow> find (\<lambda>y. f y = f x) xs = Some x"
  by (induction xs) (auto simp: rev_image_eqI)

lemma stockByToken_registered: "s \<in> set STOCKS \<Longrightarrow> stockByToken (stk_token s) = Some s"
  using find_unique [of "to_lower \<circ> stk_token" STOCKS s] stock_tokens_distinct
  by (simp add: stockByToken_def)

lemma stockByToken_SomeD: "stockByToken t = Some s \<Longrightarrow> s \<in> set STOCKS \<and> same_address (stk_token s) t"
  by (auto simp: stockByToken_def same_address_def find_Some_iff)

lemma stocks_decimals: "s \<in> set STOCKS \<Longrightarrow> stk_decimals s = 8"
  by (auto simp: STOCKS_def)

text \<open>
  The registry is a table without clashes: every asset id has exactly one entry, found by
  \<open>assetById\<close>, which never throws; and every stock is found again by its token, whatever the case of
  its letters.
\<close>

theorem registry_lookup:
  "(\<exists>a. assetById i = Inr a \<and> asset_key a = i \<and> filter (\<lambda>b. asset_key b = i) ASSETS = [a])
   \<and> (\<forall>s t. s \<in> set STOCKS \<and> same_address t (stk_token s) \<longrightarrow> stockByToken t = Some s)"
proof
  show "\<exists>a. assetById i = Inr a \<and> asset_key a = i \<and> filter (\<lambda>b. asset_key b = i) ASSETS = [a]"
  proof (cases i)
    case (StockAsset s)
    then show ?thesis by (cases s) (simp_all add: assetById_def ASSETS_def STOCKS_def CRYPTO_def asset_key_def)
  next
    case (CryptoAsset c)
    then show ?thesis by (cases c) (simp_all add: assetById_def ASSETS_def STOCKS_def CRYPTO_def asset_key_def)
  qed
  show "\<forall>s t. s \<in> set STOCKS \<and> same_address t (stk_token s) \<longrightarrow> stockByToken t = Some s"
    using stockByToken_registered by (simp add: stockByToken_def same_address_def)
qed

lemma registry_lookup_witness:
  "stockByToken ''0xb2000000000000000000008BC8786B856E61707C'' = Some (STOCKS ! 3)"
proof -
  have "same_address ''0xb2000000000000000000008BC8786B856E61707C'' (stk_token (STOCKS ! 3))" by code_simp
  moreover have "STOCKS ! 3 \<in> set STOCKS" by (simp add: STOCKS_def)
  ultimately show ?thesis using registry_lookup by blast
qed

end
