(* ===== verification/Reading.thy ===== *)
theory Reading
  imports Registry Morpho_Math
begin

text \<open>
  lib/still-engine/src/read.ts: what one block answered, decoded. The chain is a parameter: each
  question's outcome is given, and the operations decide what to ask, what to refuse and how the
  answers become the universe and the wallet snapshot.
\<close>

section \<open>The universe\<close>

datatype reserve_role = StockRole stock_asset | UsdcRole | OtherRole

record aave_reserve_info =
  ari_reserve_id :: int
  ari_underlying :: string
  ari_hub_asset_id :: int
  ari_decimals :: nat
  ari_dynamic_config_key :: int
  ari_price_source :: "string option"
  ari_role :: reserve_role

record morpho_params =
  mpr_loan_token :: string
  mpr_collateral_token :: string
  mpr_oracle :: string
  mpr_irm :: string
  mpr_lltv :: int

record morpho_market_info =
  mmi_asset :: crypto_asset
  mmi_id :: string
  mmi_params :: morpho_params

datatype aave_problem = AaveUnreadable | OracleChanged | UsdcReserveMissing

record aave_known =
  akn_oracle_decimals :: nat
  akn_reserves :: "aave_reserve_info list"
  akn_usdc :: aave_reserve_info
  akn_no_cap :: int

datatype aave_universe = AaveOk aave_known | AaveRefused aave_problem

datatype morpho_problem = MorphoUnreadable | MarketMismatch

datatype morpho_universe = MorphoOk morpho_market_info | MorphoRefused crypto_asset morpho_problem

record still_universe =
  uni_loaded_at :: int
  uni_provider :: string
  uni_aave :: aave_universe
  uni_morpho :: "morpho_universe list"

definition ZERO_ADDRESS :: string where
  "ZERO_ADDRESS = ''0x0000000000000000000000000000000000000000''"

definition morphoUniversePlan :: "(crypto_asset \<times> morpho_params outcome) list \<Rightarrow> morpho_universe list" where
  "morphoUniversePlan answers =
     map (\<lambda>(asset, answer).
       case answer of
         Unread _ \<Rightarrow> MorphoRefused asset MorphoUnreadable
       | Read p \<Rightarrow>
           if same_address (mpr_loan_token p) (addr_usdc ADDRESSES)
              \<and> same_address (mpr_collateral_token p) (cry_token asset)
              \<and> mpr_lltv p > 0 \<and> mpr_lltv p \<le> 10 ^ 18 \<and> \<not> same_address (mpr_oracle p) ZERO_ADDRESS
           then MorphoOk \<lparr>mmi_asset = asset, mmi_id = cry_morpho_market asset, mmi_params = p\<rparr>
           else MorphoRefused asset MarketMismatch) answers"

record reserve_answer =
  rsv_underlying :: string
  rsv_hub :: string
  rsv_asset_id :: int
  rsv_decimals :: nat
  rsv_dynamic_config_key :: int

definition role_of :: "reserve_answer \<Rightarrow> reserve_role" where
  "role_of r =
     (let onOurHub = same_address (rsv_hub r) (addr_aave_hub ADDRESSES) in
      case stockByToken (rsv_underlying r) of
        Some stock \<Rightarrow>
          if onOurHub \<and> rsv_decimals r = stk_decimals stock then StockRole stock
          else if onOurHub \<and> same_address (rsv_underlying r) (addr_usdc ADDRESSES) \<and> rsv_decimals r = 6 then UsdcRole
          else OtherRole
      | None \<Rightarrow>
          if onOurHub \<and> same_address (rsv_underlying r) (addr_usdc ADDRESSES) \<and> rsv_decimals r = 6 then UsdcRole
          else OtherRole)"

definition reserve_info :: "int \<Rightarrow> reserve_answer \<Rightarrow> string outcome \<Rightarrow> aave_reserve_info" where
  "reserve_info reserveId r source =
     \<lparr>ari_reserve_id = reserveId, ari_underlying = rsv_underlying r, ari_hub_asset_id = rsv_asset_id r,
      ari_decimals = rsv_decimals r, ari_dynamic_config_key = rsv_dynamic_config_key r,
      ari_price_source = outcome_value source, ari_role = role_of r\<rparr>"

text \<open>The loop over the reserves, by index from \<open>i\<close>; the first unreadable one ends it.\<close>

fun reserve_infos :: "int \<Rightarrow> (reserve_answer outcome \<times> string outcome) list \<Rightarrow> aave_reserve_info list option" where
  "reserve_infos i [] = Some []"
| "reserve_infos i ((reserve, source) # rest) =
     (case reserve of
        Unread _ \<Rightarrow> None
      | Read r \<Rightarrow> map_option ((#) (reserve_info i r source)) (reserve_infos (i + 1) rest))"

record universe_answers =
  ans_oracle :: "string outcome"
  ans_count :: "int outcome"
  ans_oracle_decimals :: "nat outcome"
  ans_no_cap :: "int outcome"
  ans_morpho :: "(crypto_asset \<times> morpho_params outcome) list"
  ans_reserve :: "int \<Rightarrow> reserve_answer outcome \<times> string outcome"

definition aave_of_answers :: "universe_answers \<Rightarrow> aave_universe" where
  "aave_of_answers a =
     (case (ans_oracle a, ans_count a, ans_oracle_decimals a, ans_no_cap a) of
        (Read oracle, Read count, Read decimals, Read noCap) \<Rightarrow>
          if \<not> same_address oracle (addr_aave_oracle ADDRESSES) then AaveRefused OracleChanged
          else
            (case reserve_infos 0 (map (ans_reserve a) [0..count - 1]) of
               None \<Rightarrow> AaveRefused AaveUnreadable
             | Some reserves \<Rightarrow>
                 (case filter (\<lambda>r. ari_role r = UsdcRole) reserves of
                    [usdc] \<Rightarrow> AaveOk \<lparr>akn_oracle_decimals = decimals, akn_reserves = reserves,
                                akn_usdc = usdc, akn_no_cap = noCap\<rparr>
                  | _ \<Rightarrow> AaveRefused UsdcReserveMissing))
      | _ \<Rightarrow> AaveRefused AaveUnreadable)"

definition loadUniverse :: "int \<Rightarrow> string \<Rightarrow> universe_answers \<Rightarrow> still_universe" where
  "loadUniverse loadedAt provider a =
     \<lparr>uni_loaded_at = loadedAt, uni_provider = provider, uni_aave = aave_of_answers a,
      uni_morpho = morphoUniversePlan (ans_morpho a)\<rparr>"

section \<open>The wallet snapshot\<close>

record reserve_config =
  rcf_paused :: bool
  rcf_frozen :: bool
  rcf_borrowable :: bool

record spoke_config =
  spc_add_cap :: int
  spc_draw_cap :: int
  spc_active :: bool
  spc_halted :: bool

record aave_reserve_snapshot =
  ars_info :: aave_reserve_info
  ars_config :: "reserve_config outcome"
  ars_factor_bps :: "int outcome"
  ars_user_factor_bps :: "int outcome"
  ars_price :: "int outcome"
  ars_price_updated_at :: "int outcome"
  ars_supplied :: "int outcome"
  ars_status :: "(bool \<times> bool) outcome"
  ars_spoke_config :: "spoke_config outcome"
  ars_spoke_added :: "int outcome"
  ars_collateral_risk_bps :: "int outcome"

record aave_account =
  acc_health_factor :: int
  acc_borrow_count :: int

record aave_snapshot =
  avs_reserves :: "aave_reserve_snapshot list"
  avs_usdc_debt :: "int outcome"
  avs_usdc_liquidity :: "int outcome"
  avs_usdc_drawn_rate_ray :: "int outcome"
  avs_usdc_spoke_owed :: "int outcome"
  avs_account :: "aave_account outcome"
  avs_risk_premium_bps :: "int outcome"

record morpho_snapshot =
  mps_info :: morpho_market_info
  mps_market :: "morpho_totals outcome"
  mps_position :: "morpho_position outcome"
  mps_price :: "int outcome"
  mps_borrow_rate :: "int outcome"

record coinbase_entry =
  cbe_multiplier :: int
  cbe_paused :: bool

record wallet_snapshot =
  wsn_provider :: string
  wsn_block_number :: int
  wsn_block_timestamp :: int
  wsn_native_eth :: "int outcome"
  wsn_balances :: "(string \<times> int outcome) list"
  wsn_coinbase :: "(stock_id \<times> coinbase_entry outcome) list"
  wsn_aave :: "aave_snapshot option"
  wsn_morpho :: "(crypto_id \<times> morpho_snapshot option) list"

text \<open>What the batches answered, per reserve and per market.\<close>

record reserve_answers =
  rva_latest_key :: "int outcome"
  rva_config :: "(int \<times> reserve_config) outcome"
  rva_dynamic :: "int outcome"
  rva_price :: "int outcome"
  rva_source :: "string outcome"
  rva_feed_updated_at :: "int outcome"
  rva_supplied :: "int outcome"
  rva_status :: "(bool \<times> bool) outcome"
  rva_user_key :: "int outcome"
  rva_spoke_config :: "spoke_config outcome"
  rva_spoke_added :: "int outcome"

record aave_answers =
  ava_reserves :: "reserve_answers list"
  ava_debt :: "int outcome"
  ava_liquidity :: "int outcome"
  ava_rate :: "int outcome"
  ava_owed :: "int outcome"
  ava_account :: "aave_account outcome"
  ava_premium :: "int outcome"

record market_answers =
  mka_market :: "morpho_totals outcome"
  mka_position :: "(int \<times> int \<times> int) outcome"
  mka_price :: "int outcome"
  mka_rate :: "int outcome"

record wallet_answers =
  wan_provider :: string
  wan_block_number :: "int outcome"
  wan_block_time :: "int outcome"
  wan_native_eth :: "int outcome"
  wan_balance :: "string \<Rightarrow> int outcome"
  wan_registry :: "stock_id \<Rightarrow> coinbase_entry outcome"
  wan_aave :: aave_answers
  wan_follow_factor :: "int \<Rightarrow> int \<Rightarrow> int outcome"
  wan_market :: "crypto_id \<Rightarrow> market_answers"

text \<open>
  The follow-up questions: for each reserve the wallet's own and the latest configuration key,
  where it is not the one the universe was loaded with, each asked once under the key
  \<open>key * 1000 + reserveId\<close>.
\<close>

type_synonym asked_configs = "(int \<times> (int \<times> int)) list"

definition ask_config :: "aave_reserve_info \<Rightarrow> int option \<Rightarrow> asked_configs \<Rightarrow> asked_configs" where
  "ask_config info key asked =
     (case key of
        None \<Rightarrow> asked
      | Some k \<Rightarrow>
          if k \<noteq> ari_dynamic_config_key info \<and> map_of asked (k * 1000 + ari_reserve_id info) = None
          then asked @ [(k * 1000 + ari_reserve_id info, (ari_reserve_id info, k))]
          else asked)"

fun userConfigs :: "asked_configs \<Rightarrow> (aave_reserve_info \<times> reserve_answers) list \<Rightarrow> asked_configs" where
  "userConfigs asked [] = asked"
| "userConfigs asked ((info, r) # rest) =
     userConfigs (ask_config info (outcome_value (rva_latest_key r))
                   (ask_config info (outcome_value (rva_user_key r)) asked)) rest"

definition factorAt :: "wallet_answers \<Rightarrow> asked_configs \<Rightarrow> aave_reserve_info \<Rightarrow> reserve_answers \<Rightarrow> int option \<Rightarrow> int outcome" where
  "factorAt w asked info r key =
     (case key of
        None \<Rightarrow> Unread Reverted
      | Some k \<Rightarrow>
          if k = ari_dynamic_config_key info then rva_dynamic r
          else (case map_of asked (k * 1000 + ari_reserve_id info) of
                  None \<Rightarrow> Unread Reverted
                | Some (reserveId, key') \<Rightarrow> wan_follow_factor w reserveId key'))"

definition reserve_snapshot ::
  "wallet_answers \<Rightarrow> asked_configs \<Rightarrow> aave_reserve_info \<times> reserve_answers \<Rightarrow> aave_reserve_snapshot" where
  "reserve_snapshot w asked = (\<lambda>(info, r).
     let sourceUnchanged = (case (rva_source r, ari_price_source info) of
           (Read s, Some p) \<Rightarrow> same_address s p | _ \<Rightarrow> False);
         hasFeed = ((case ari_role info of StockRole _ \<Rightarrow> True | _ \<Rightarrow> False) \<and> ari_price_source info \<noteq> None)
     in \<lparr>ars_info = info,
         ars_config = map_outcome_value snd (rva_config r),
         ars_factor_bps = factorAt w asked info r (outcome_value (rva_latest_key r)),
         ars_user_factor_bps = factorAt w asked info r (outcome_value (rva_user_key r)),
         ars_price = rva_price r,
         ars_price_updated_at = (if hasFeed \<and> sourceUnchanged then rva_feed_updated_at r else Unread Reverted),
         ars_supplied = rva_supplied r,
         ars_status = rva_status r,
         ars_spoke_config = rva_spoke_config r,
         ars_spoke_added = rva_spoke_added r,
         ars_collateral_risk_bps = map_outcome_value fst (rva_config r)\<rparr>)"

definition aave_snapshot_of :: "wallet_answers \<Rightarrow> aave_universe \<Rightarrow> aave_snapshot option" where
  "aave_snapshot_of w universe =
     (case universe of
        AaveRefused _ \<Rightarrow> None
      | AaveOk known \<Rightarrow>
          let a = wan_aave w; plan = zip (akn_reserves known) (ava_reserves a); asked = userConfigs [] plan in
          Some \<lparr>avs_reserves = map (reserve_snapshot w asked) plan,
                avs_usdc_debt = ava_debt a, avs_usdc_liquidity = ava_liquidity a,
                avs_usdc_drawn_rate_ray = ava_rate a, avs_usdc_spoke_owed = ava_owed a,
                avs_account = ava_account a, avs_risk_premium_bps = ava_premium a\<rparr>)"

text \<open>The rate is asked of the market's interest model only once its totals are read.\<close>

definition rate_asked :: "morpho_market_info \<Rightarrow> market_answers \<Rightarrow> int outcome option" where
  "rate_asked info m =
     (case mka_market m of
        Unread _ \<Rightarrow> None
      | Read _ \<Rightarrow> if same_address (mpr_irm (mmi_params info)) ZERO_ADDRESS then None else Some (mka_rate m))"

definition morpho_snapshot_of :: "wallet_answers \<Rightarrow> morpho_universe \<Rightarrow> crypto_id \<times> morpho_snapshot option" where
  "morpho_snapshot_of w entry =
     (case entry of
        MorphoRefused asset _ \<Rightarrow> (cry_id asset, None)
      | MorphoOk info \<Rightarrow>
          let m = wan_market w (cry_id (mmi_asset info)) in
          (cry_id (mmi_asset info),
           Some \<lparr>mps_info = info,
                 mps_market = mka_market m,
                 mps_position = map_outcome_value
                   (\<lambda>(_, borrowShares, collateral). \<lparr>pos_collateral = collateral, pos_borrow_shares = borrowShares\<rparr>)
                   (mka_position m),
                 mps_price = mka_price m,
                 mps_borrow_rate = (case rate_asked info m of Some rate \<Rightarrow> rate | None \<Rightarrow> Read 0)\<rparr>))"

definition readWallet :: "wallet_answers \<Rightarrow> still_universe \<Rightarrow> int option \<Rightarrow> wallet_snapshot result" where
  "readWallet w universe atBlock =
     (if (case atBlock of None \<Rightarrow> False | Some b \<Rightarrow> b < 0)
      then Inl (JsError ''wallet reading block must be nonnegative'')
      else
        case (wan_block_number w, wan_block_time w) of
          (Read number, Read timestamp) \<Rightarrow>
            if atBlock \<noteq> None \<and> atBlock \<noteq> Some number
            then Inl (JsError ''wallet snapshot did not answer at its requested block'')
            else Inr \<lparr>wsn_provider = wan_provider w, wsn_block_number = number, wsn_block_timestamp = timestamp,
              wsn_native_eth = wan_native_eth w,
              wsn_balances = map (\<lambda>token. (to_lower token, wan_balance w token))
                (map stk_token STOCKS @ map cry_token CRYPTO @ [addr_usdc ADDRESSES]),
              wsn_coinbase = map (\<lambda>s. (stk_id s, wan_registry w (stk_id s))) STOCKS,
              wsn_aave = aave_snapshot_of w (uni_aave universe),
              wsn_morpho = map (morpho_snapshot_of w) (uni_morpho universe)\<rparr>
        | _ \<Rightarrow> Inl (JsError ''multicall answered without its own block number''))"

section \<open>The follow-up finds the right configuration\<close>

definition ids_ok :: "aave_reserve_info list \<Rightarrow> bool" where
  "ids_ok infos \<longleftrightarrow> (\<forall>i \<in> set infos. 0 \<le> ari_reserve_id i \<and> ari_reserve_id i < 1000)"

definition asked_ok :: "asked_configs \<Rightarrow> bool" where
  "asked_ok asked \<longleftrightarrow> (\<forall>(n, i, k) \<in> set asked. n = k * 1000 + i \<and> 0 \<le> i \<and> i < 1000)"

lemma asked_key_unique: "(k::int) * 1000 + i = k' * 1000 + i' \<Longrightarrow> 0 \<le> i \<Longrightarrow> i < 1000 \<Longrightarrow> 0 \<le> i' \<Longrightarrow> i' < 1000 \<Longrightarrow> k = k' \<and> i = i'"
proof -
  assume h: "k * 1000 + i = k' * 1000 + i'" "0 \<le> i" "i < 1000" "0 \<le> i'" "i' < 1000"
  have "(k * 1000 + i) div 1000 = k" "(k' * 1000 + i') div 1000 = k'" using h(2-5) by simp_all
  with h(1) show ?thesis by simp
qed

lemma ask_config_ok:
  assumes "asked_ok asked" and "0 \<le> ari_reserve_id info" and "ari_reserve_id info < 1000"
  shows "asked_ok (ask_config info key asked)"
  using assms by (auto simp: asked_ok_def ask_config_def split: option.splits)

lemma ask_config_keeps: "map_of asked n = Some v \<Longrightarrow> map_of (ask_config info key asked) n = Some v"
  by (auto simp: ask_config_def map_of_append split: option.splits)

lemma ask_config_asks:
  "k \<noteq> ari_dynamic_config_key info \<Longrightarrow> map_of (ask_config info (Some k) asked) (k * 1000 + ari_reserve_id info) \<noteq> None"
  by (cases "map_of asked (k * 1000 + ari_reserve_id info)") (simp_all add: ask_config_def map_add_def)

lemma userConfigs_keeps: "map_of asked n = Some v \<Longrightarrow> map_of (userConfigs asked plan) n = Some v"
  by (induction asked plan rule: userConfigs.induct) (simp_all add: ask_config_keeps)

lemma userConfigs_ok:
  "asked_ok asked \<Longrightarrow> ids_ok (map fst plan) \<Longrightarrow> asked_ok (userConfigs asked plan)"
  by (induction asked plan rule: userConfigs.induct) (simp_all add: ask_config_ok ids_ok_def)

lemma userConfigs_asks:
  "(info, r) \<in> set plan \<Longrightarrow> k \<noteq> ari_dynamic_config_key info \<Longrightarrow>
   outcome_value (rva_latest_key r) = Some k \<or> outcome_value (rva_user_key r) = Some k \<Longrightarrow>
   map_of (userConfigs asked plan) (k * 1000 + ari_reserve_id info) \<noteq> None"
proof (induction asked plan rule: userConfigs.induct)
  case (1 asked)
  then show ?case by simp
next
  case (2 asked info' r' rest)
  show ?case
  proof (cases "(info, r) = (info', r')")
    case True
    let ?one = "ask_config info (outcome_value (rva_user_key r)) asked"
    let ?two = "ask_config info (outcome_value (rva_latest_key r)) ?one"
    have "map_of ?two (k * 1000 + ari_reserve_id info) \<noteq> None"
      using "2.prems"(2,3) ask_config_asks ask_config_keeps by (metis not_None_eq)
    with True show ?thesis using userConfigs_keeps by fastforce
  next
    case False
    with 2 show ?thesis by auto
  qed
qed

text \<open>
  A reserve's collateral factors are its own: whatever configurations moved since the universe
  was loaded, the factor of a key that was read is what the chain answers for that reserve and that
  key, from the first batch where the key is the one loaded with, from the follow-up where it is
  not; a key that was not read leaves the factor unread. The clock of a price is trusted only while
  the oracle points at the feed that was asked.
\<close>

theorem factors_are_the_reserves_own:
  assumes "ids_ok (map fst plan)" and "(info, r) \<in> set plan"
  shows "let s = reserve_snapshot w (userConfigs [] plan) (info, r) in
    ars_factor_bps s = (case rva_latest_key r of
      Unread _ \<Rightarrow> Unread Reverted
    | Read k \<Rightarrow> if k = ari_dynamic_config_key info then rva_dynamic r else wan_follow_factor w (ari_reserve_id info) k)
    \<and> ars_user_factor_bps s = (case rva_user_key r of
      Unread _ \<Rightarrow> Unread Reverted
    | Read k \<Rightarrow> if k = ari_dynamic_config_key info then rva_dynamic r else wan_follow_factor w (ari_reserve_id info) k)
    \<and> (\<forall>t. ars_price_updated_at s = Read t \<longrightarrow>
         (\<exists>now loaded. rva_source r = Read now \<and> ari_price_source info = Some loaded \<and> same_address now loaded))"
proof -
  let ?asked = "userConfigs [] plan"
  have ok: "asked_ok ?asked" using assms(1) by (intro userConfigs_ok) (simp_all add: asked_ok_def)
  have id: "0 \<le> ari_reserve_id info" "ari_reserve_id info < 1000"
    using assms by (force simp: ids_ok_def)+
  have found: "factorAt w ?asked info r (Some k) = (if k = ari_dynamic_config_key info then rva_dynamic r
        else wan_follow_factor w (ari_reserve_id info) k)"
    if k: "outcome_value (rva_latest_key r) = Some k \<or> outcome_value (rva_user_key r) = Some k" for k
  proof (cases "k = ari_dynamic_config_key info")
    case True
    then show ?thesis by (simp add: factorAt_def)
  next
    case False
    obtain i k' where v: "map_of ?asked (k * 1000 + ari_reserve_id info) = Some (i, k')"
      using userConfigs_asks [OF assms(2) False k, of "[]"] by auto
    then have "k * 1000 + ari_reserve_id info = k' * 1000 + i \<and> 0 \<le> i \<and> i < 1000"
      using ok by (auto simp: asked_ok_def dest: map_of_SomeD)
    then have "k' = k \<and> i = ari_reserve_id info" using asked_key_unique [of k "ari_reserve_id info" k' i] id by auto
    with v False show ?thesis by (simp add: factorAt_def)
  qed
  have unread: "factorAt w ?asked info r None = Unread Reverted" by (simp add: factorAt_def)
  show ?thesis
    using found unread
    by (cases "rva_latest_key r"; cases "rva_user_key r")
       (auto simp: reserve_snapshot_def Let_def split: outcome.splits option.splits if_splits)
qed

definition nvda_info :: aave_reserve_info where
  "nvda_info = \<lparr>ari_reserve_id = 5, ari_underlying = ''0xb20000000000000000000078ee7ce2fE4908108C'',
     ari_hub_asset_id = 7, ari_decimals = 8, ari_dynamic_config_key = 0, ari_price_source = Some ''0xfeed'',
     ari_role = StockRole (STOCKS ! 5)\<rparr>"

definition nvda_answers :: reserve_answers where
  "nvda_answers = \<lparr>rva_latest_key = Read 1, rva_config = Read (0, \<lparr>rcf_paused = False, rcf_frozen = False,
     rcf_borrowable = False\<rparr>), rva_dynamic = Read 7000, rva_price = Read 18000000000, rva_source = Read ''0xFEED'',
     rva_feed_updated_at = Read 1700000000, rva_supplied = Read 0, rva_status = Read (False, False),
     rva_user_key = Read 0, rva_spoke_config = Read \<lparr>spc_add_cap = 100, spc_draw_cap = 0, spc_active = True,
     spc_halted = False\<rparr>, rva_spoke_added = Read 0\<rparr>"

lemma factors_are_the_reserves_own_witness:
  "\<forall>w. ars_factor_bps (reserve_snapshot w (userConfigs [] [(nvda_info, nvda_answers)]) (nvda_info, nvda_answers))
     = wan_follow_factor w 5 1
   \<and> ars_user_factor_bps (reserve_snapshot w (userConfigs [] [(nvda_info, nvda_answers)]) (nvda_info, nvda_answers))
     = Read 7000"
proof
  fix w
  show "ars_factor_bps (reserve_snapshot w (userConfigs [] [(nvda_info, nvda_answers)]) (nvda_info, nvda_answers))
     = wan_follow_factor w 5 1
   \<and> ars_user_factor_bps (reserve_snapshot w (userConfigs [] [(nvda_info, nvda_answers)]) (nvda_info, nvda_answers))
     = Read 7000"
    using factors_are_the_reserves_own [of "[(nvda_info, nvda_answers)]" nvda_info nvda_answers w]
    by (simp add: Let_def ids_ok_def) (simp add: nvda_info_def nvda_answers_def)
qed

section \<open>What is refused\<close>

definition stock_reserve_ok :: "aave_reserve_info \<Rightarrow> stock_asset \<Rightarrow> bool" where
  "stock_reserve_ok i s \<longleftrightarrow> s \<in> set STOCKS \<and> same_address (stk_token s) (ari_underlying i) \<and> ari_decimals i = stk_decimals s"

definition market_ok :: "morpho_market_info \<Rightarrow> bool" where
  "market_ok m \<longleftrightarrow> 0 < mpr_lltv (mmi_params m) \<and> mpr_lltv (mmi_params m) \<le> WAD
     \<and> same_address (mpr_loan_token (mmi_params m)) (addr_usdc ADDRESSES)
     \<and> same_address (mpr_collateral_token (mmi_params m)) (cry_token (mmi_asset m))
     \<and> \<not> same_address (mpr_oracle (mmi_params m)) ZERO_ADDRESS
     \<and> mmi_id m = cry_morpho_market (mmi_asset m)"

definition wf_universe :: "still_universe \<Rightarrow> bool" where
  "wf_universe u \<longleftrightarrow>
     (\<forall>k. uni_aave u = AaveOk k \<longrightarrow>
        filter (\<lambda>r. ari_role r = UsdcRole) (akn_reserves k) = [akn_usdc k]
        \<and> distinct (map ari_reserve_id (akn_reserves k))
        \<and> (\<forall>i \<in> set (akn_reserves k). \<forall>s. ari_role i = StockRole s \<longrightarrow> stock_reserve_ok i s))
     \<and> (\<forall>m. MorphoOk m \<in> set (uni_morpho u) \<longrightarrow> market_ok m)"

lemma role_of_stock: "role_of r = StockRole s \<Longrightarrow> stock_reserve_ok (reserve_info i r src) s"
  by (auto simp: role_of_def stock_reserve_ok_def reserve_info_def Let_def
      dest!: stockByToken_SomeD split: option.splits if_splits)

lemma reserve_infos_facts:
  "reserve_infos n answers = Some infos \<Longrightarrow>
     map ari_reserve_id infos = [n..n + int (length answers) - 1]
     \<and> (\<forall>i \<in> set infos. \<forall>s. ari_role i = StockRole s \<longrightarrow> stock_reserve_ok i s)"
proof (induction n answers arbitrary: infos rule: reserve_infos.induct)
  case (1 n)
  then show ?case by simp
next
  case (2 n reserve source rest)
  then obtain r tl where r: "reserve = Read r" "reserve_infos (n + 1) rest = Some tl"
      "infos = reserve_info n r source # tl"
    by (auto split: outcome.splits)
  note IH = "2.IH" [OF r(1,2)]
  have up: "[n..n + int (length ((reserve, source) # rest)) - 1] = n # [n + 1..n + 1 + int (length rest) - 1]"
    using upto_rec1 [of n "n + int (length rest)"] by (simp add: ac_simps)
  have role: "ari_role (reserve_info n r source) = role_of r" "ari_reserve_id (reserve_info n r source) = n"
    by (simp_all add: reserve_info_def)
  show ?case
    unfolding up r(3) using IH role role_of_stock [of r _ n source] by auto
qed

text \<open>
  What enters is checked: however the chain answers, a universe that \<open>loadUniverse\<close> accepts has
  one USDC reserve, reserves under distinct ids, stocks only from the registry with their own token
  and decimals, and Morpho markets only with USDC lent against the asset's own token, a price feed,
  and a liquidation threshold above nothing and at most all; an oracle other than the registered
  one is refused.
\<close>

theorem universe_is_checked:
  "wf_universe (loadUniverse loadedAt provider a)
   \<and> (\<forall>oracle. ans_oracle a = Read oracle \<and> \<not> same_address oracle (addr_aave_oracle ADDRESSES) \<longrightarrow>
        (\<exists>problem. uni_aave (loadUniverse loadedAt provider a) = AaveRefused problem))"
proof -
  let ?u = "loadUniverse loadedAt provider a"
  have aave: "filter (\<lambda>r. ari_role r = UsdcRole) (akn_reserves k) = [akn_usdc k]
        \<and> distinct (map ari_reserve_id (akn_reserves k))
        \<and> (\<forall>i \<in> set (akn_reserves k). \<forall>s. ari_role i = StockRole s \<longrightarrow> stock_reserve_ok i s)"
    if k: "aave_of_answers a = AaveOk k" for k
  proof -
    obtain answers where r: "reserve_infos 0 answers = Some (akn_reserves k)"
      and u: "filter (\<lambda>r. ari_role r = UsdcRole) (akn_reserves k) = [akn_usdc k]"
      using k by (auto simp: aave_of_answers_def split: outcome.splits option.splits if_splits list.splits)
    have "distinct (map ari_reserve_id (akn_reserves k))" using reserve_infos_facts [OF r] by simp
    with u reserve_infos_facts [OF r] show ?thesis by blast
  qed
  have "market_ok m" if "MorphoOk m \<in> set (uni_morpho ?u)" for m
    using that by (auto simp: loadUniverse_def morphoUniversePlan_def market_ok_def WAD_def
        split: outcome.splits if_splits)
  then have "wf_universe ?u" using aave by (simp add: wf_universe_def loadUniverse_def)
  moreover have "\<exists>problem. aave_of_answers a = AaveRefused problem"
    if "ans_oracle a = Read orc" "\<not> same_address orc (addr_aave_oracle ADDRESSES)" for orc
    using that by (auto simp: aave_of_answers_def split: outcome.splits)
  ultimately show ?thesis by (auto simp: loadUniverse_def)
qed

definition moved_oracle_answers :: universe_answers where
  "moved_oracle_answers = \<lparr>ans_oracle = Read ''0x0000000000000000000000000000000000000001'', ans_count = Read 0,
     ans_oracle_decimals = Read 8, ans_no_cap = Read 100, ans_morpho = [], ans_reserve = (\<lambda>i. (Unread Reverted, Unread Reverted))\<rparr>"

lemma universe_is_checked_witness:
  "\<exists>problem. uni_aave (loadUniverse 0 ''rpc'' moved_oracle_answers) = AaveRefused problem"
proof -
  have "\<not> same_address ''0x0000000000000000000000000000000000000001'' (addr_aave_oracle ADDRESSES)" by code_simp
  then show ?thesis
    using universe_is_checked [of 0 "''rpc''" moved_oracle_answers] by (simp add: moved_oracle_answers_def)
qed

text \<open>
  A failed read can become a measured zero: when a market's totals were not read, its rate is
  never asked and the snapshot records a rate of zero as if it had been read, whatever the interest
  model would have answered, although the market has an interest model.
\<close>

theorem unread_totals_read_as_zero_rate:
  assumes "mka_market (wan_market w (cry_id (mmi_asset info))) = Unread why"
  shows "\<exists>s. morpho_snapshot_of w (MorphoOk info) = (cry_id (mmi_asset info), Some s)
    \<and> mps_market s = Unread why \<and> mps_borrow_rate s = Read 0"
  using assms by (simp add: morpho_snapshot_of_def rate_asked_def Let_def)

definition unread_market :: market_answers where
  "unread_market = \<lparr>mka_market = Unread Reverted, mka_position = Read (0, 0, 0), mka_price = Read 1, mka_rate = Read 317097919\<rparr>"

definition unread_market_answers :: wallet_answers where
  "unread_market_answers = \<lparr>wan_provider = ''rpc'', wan_block_number = Read 1, wan_block_time = Read 1,
     wan_native_eth = Read 0, wan_balance = (\<lambda>_. Read 0), wan_registry = (\<lambda>_. Unread Reverted),
     wan_aave = \<lparr>ava_reserves = [], ava_debt = Read 0, ava_liquidity = Read 0, ava_rate = Read 0, ava_owed = Read 0,
       ava_account = Unread Reverted, ava_premium = Read 0\<rparr>,
     wan_follow_factor = (\<lambda>_ _. Unread Reverted), wan_market = (\<lambda>_. unread_market)\<rparr>"

definition cbbtc_info :: morpho_market_info where
  "cbbtc_info = \<lparr>mmi_asset = CRYPTO ! 0, mmi_id = cry_morpho_market (CRYPTO ! 0),
     mmi_params = \<lparr>mpr_loan_token = addr_usdc ADDRESSES, mpr_collateral_token = addr_cbbtc ADDRESSES,
       mpr_oracle = ''0x663BECd10daE6C4A3Dcd89F1d76c1174199639B9'',
       mpr_irm = ''0x46415998764C29aB2a25CbeA6254146D50D22687'', mpr_lltv = 860000000000000000\<rparr>\<rparr>"

lemma unread_totals_read_as_zero_rate_witness:
  "\<not> same_address (mpr_irm (mmi_params cbbtc_info)) ZERO_ADDRESS
   \<and> (\<exists>s. morpho_snapshot_of unread_market_answers (MorphoOk cbbtc_info) = (cry_id (mmi_asset cbbtc_info), Some s)
        \<and> mps_borrow_rate s = Read 0)"
proof
  show "\<not> same_address (mpr_irm (mmi_params cbbtc_info)) ZERO_ADDRESS" by code_simp
  have "mka_market (wan_market unread_market_answers (cry_id (mmi_asset cbbtc_info))) = Unread Reverted"
    by (simp add: unread_market_answers_def unread_market_def)
  from unread_totals_read_as_zero_rate [OF this]
  show "\<exists>s. morpho_snapshot_of unread_market_answers (MorphoOk cbbtc_info) = (cry_id (mmi_asset cbbtc_info), Some s)
        \<and> mps_borrow_rate s = Read 0" by blast
qed

end
