(* ===== verification/Report.thy ===== *)
theory Report
  imports Reading Windows Capacity
begin

text \<open>
  lib/still-engine/src/report.ts: the shape of the Mirror report. Amounts are the integers the
  decimal strings spell, instants the milliseconds the ISO strings spell; an absent value is None.
\<close>

datatype venue = AaveV4 | MorphoVenue

record token_amount =
  amt_raw :: int
  amt_decimals :: nat

datatype asset_limit =
    ReservePaused | ReserveFrozen | SpokeHalted | IssuerPaused | SupplyCap | GasReserve | NotListed

datatype earnings_source = CalendarSource | UnreadSource

record earnings_note =
  ern_source :: earnings_source
  ern_report_date :: "civil option"
  ern_window :: "(instant \<times> instant) option"
  ern_lowered :: bool

record asset_line =
  lin_asset :: asset_id
  lin_kind :: asset_kind
  lin_name :: string
  lin_symbol :: string
  lin_token :: string
  lin_isin :: "string option"
  lin_venue :: venue
  lin_wallet :: "token_amount option"
  lin_pledged :: "token_amount option"
  lin_shares :: "token_amount option"
  lin_price_cents :: "int option"
  lin_price_updated_at :: "instant option"
  lin_value_cents :: "int option"
  lin_protocol_factor_bps :: "int option"
  lin_still_factor_bps :: "int option"
  lin_capacity_cents :: "int option"
  lin_earnings :: "earnings_note option"
  lin_limits :: "asset_limit list"
  lin_failed :: "string list"

datatype safety_source = FromProtocol | Computed

record safety_reading =
  sfr_margin_bps :: int
  sfr_state :: safety_state
  sfr_health_factor :: int
  sfr_source :: safety_source

record liquidation_price =
  lqp_asset :: asset_id
  lqp_price_cents :: "int option"
  lqp_unreachable :: bool

record venue_deductions =
  ded_loans_cents :: "int option"
  ded_venue_limit_cents :: "int option"

record venue_line =
  vln_venue :: venue
  vln_market :: string
  vln_label :: string
  vln_debt_cents :: "int option"
  vln_debt_atomic :: "int option"
  vln_capacity_cents :: "int option"
  vln_available_cents :: "int option"
  vln_borrow_rate_bps :: "int option"
  vln_liquidity_cents :: "int option"
  vln_deductions :: venue_deductions
  vln_safety :: "safety_reading option"
  vln_liquidation_prices :: "liquidation_price list"
  vln_failed :: "string list"

datatype headline_state = Funded | Dust | NoneState | Unknown

datatype headline_reason = NoEligibleAssets | LimitInUse | Paused

record headline =
  hdl_state :: headline_state
  hdl_available_cents :: "int option"
  hdl_complete :: bool
  hdl_reason :: "headline_reason option"
  hdl_weekday_available_cents :: "int option"

datatype failure_owner = Us | Protocol

record failed_read =
  fld_what :: string
  fld_owner :: failure_owner

record report_terms =
  rpt_version :: string
  rpt_stock_share_bps :: int
  rpt_crypto_share_bps :: int
  rpt_weekend_active :: bool
  rpt_weekend_starts_at :: instant
  rpt_weekend_ends_at :: instant
  rpt_weekend_share_bps :: int
  rpt_earnings_share_bps :: int
  rpt_calendar_read_at :: "instant option"

record report_subject =
  sub_address :: string
  sub_name :: "string option"
  sub_input :: string

record mirror_report =
  mrr_subject :: report_subject
  mrr_block :: int
  mrr_block_time :: instant
  mrr_assembled_at :: instant
  mrr_provider :: string
  mrr_terms :: report_terms
  mrr_headline :: headline
  mrr_assets :: "asset_line list"
  mrr_venues :: "venue_line list"
  mrr_failed :: "failed_read list"
  mrr_evidence :: "(string \<times> string) list"

text \<open>The calendar of lib/still-engine/src/calendar.ts: the report dates of each stock read.\<close>

record earnings_calendar =
  ecl_read_at :: instant
  ecl_dates :: "(stock_id \<times> civil list) list"

datatype calendar_read = CalendarOk earnings_calendar | CalendarUnread

end
