(* ===== verification/Mirror.thy ===== *)
theory Mirror
  imports Report
begin

text \<open>
  lib/still-engine/src/mirror.ts: from one block's reads to what the wallet could borrow. The code
  is kept branch by branch: \<open>need\<close> threads the ledger of failed reads and the line's own list, and
  every division that throws is a branch of the result.
\<close>

definition SECONDS_PER_YEAR :: int where
  "SECONDS_PER_YEAR = 31536000"

definition USDC_DECIMALS :: nat where
  "USDC_DECIMALS = 6"

definition PRICE_SCALE_MORPHO :: int where
  "PRICE_SCALE_MORPHO = 10 ^ 36"

definition token_amount_of :: "int \<Rightarrow> nat \<Rightarrow> token_amount" where
  "token_amount_of raw decimals = \<lparr>amt_raw = raw, amt_decimals = decimals\<rparr>"

definition deductionsOf :: "int option \<Rightarrow> int option \<Rightarrow> int option \<Rightarrow> venue_deductions" where
  "deductionsOf capacity debt available =
     (case (capacity, debt, available) of
        (Some c, Some d, Some a) \<Rightarrow>
          let loans = min_money d c in
          \<lparr>ded_loans_cents = Some loans, ded_venue_limit_cents = Some (c - loans - a)\<rparr>
      | _ \<Rightarrow> \<lparr>ded_loans_cents = None, ded_venue_limit_cents = None\<rparr>)"

text \<open>
  A Date holds the instants within a hundred million days of 1970; beyond, it is invalid and
  \<open>toISOString\<close> throws.
\<close>

definition MAX_INSTANT :: int where
  "MAX_INSTANT = 8640000000000000"

definition representable :: "instant \<Rightarrow> bool" where
  "representable at \<longleftrightarrow> - MAX_INSTANT \<le> at \<and> at \<le> MAX_INSTANT"

definition toISOString :: "instant \<Rightarrow> instant result" where
  "toISOString at = (if representable at then Inr at else Inl (RangeError ''Invalid time value''))"

definition iso_of_seconds :: "int \<Rightarrow> instant result" where
  "iso_of_seconds seconds = toISOString (seconds * 1000)"

lemma toISOString_simps [simp]:
  "toISOString at = Inr t \<longleftrightarrow> representable at \<and> t = at" "representable at \<Longrightarrow> toISOString at = Inr at"
  by (auto simp: toISOString_def)

section \<open>The ledger of failed reads\<close>

type_synonym reads = "failed_read list \<times> string list"

definition fail_read :: "string \<Rightarrow> failure_owner \<Rightarrow> reads \<Rightarrow> reads" where
  "fail_read what owner = (\<lambda>(failures, local).
     (if what \<in> set (map fld_what failures) then failures
      else failures @ [\<lparr>fld_what = what, fld_owner = owner\<rparr>], local @ [what]))"

definition need :: "'a outcome option \<Rightarrow> string \<Rightarrow> reads \<Rightarrow> 'a option \<times> reads" where
  "need outcome what reads =
     (case outcome of
        Some (Read v) \<Rightarrow> (Some v, reads)
      | _ \<Rightarrow> (None, fail_read what Us reads))"

section \<open>Earnings\<close>

definition calendar_dates :: "calendar_read \<Rightarrow> stock_id \<Rightarrow> civil list option" where
  "calendar_dates calendar i =
     (case calendar of CalendarOk c \<Rightarrow> map_of (ecl_dates c) i | CalendarUnread \<Rightarrow> None)"

text \<open>
  A date of the calendar has a year of four digits, so the window around it is one a Date holds.
\<close>

definition four_digit_years :: "calendar_read \<Rightarrow> bool" where
  "four_digit_years calendar \<longleftrightarrow>
     (\<forall>i dates. calendar_dates calendar i = Some dates \<longrightarrow> (\<forall>d \<in> set dates. 0 \<le> fst d \<and> fst d \<le> 9999))"

definition earningsFrom :: "calendar_read \<Rightarrow> instant \<Rightarrow> stock_asset \<Rightarrow> earnings_note \<times> failed_read option" where
  "earningsFrom calendar at asset =
     (case calendar_dates calendar (stk_id asset) of
        None \<Rightarrow>
          (\<lparr>ern_source = UnreadSource, ern_report_date = None, ern_window = None, ern_lowered = True\<rparr>,
           Some (case calendar of
             CalendarOk _ \<Rightarrow> \<lparr>fld_what = stk_ticker asset @ ''c earnings date'', fld_owner = Protocol\<rparr>
           | CalendarUnread \<Rightarrow> \<lparr>fld_what = ''Earnings calendar (Aave API)'', fld_owner = Us\<rparr>))
      | Some dates \<Rightarrow>
          let window = earningsWindow at dates new_york in
          (\<lparr>ern_source = CalendarSource,
            ern_report_date = map_option ew_report_date window,
            ern_window = map_option (\<lambda>w. (ew_starts_at w, ew_ends_at w)) window,
            ern_lowered = (case window of None \<Rightarrow> False | Some w \<Rightarrow> ew_active w)\<rparr>, None))"

type_synonym earnings_of = "stock_asset \<Rightarrow> earnings_note \<times> failed_read option"

section \<open>Stock lines\<close>

text \<open>A stock's id in words: its ticker and a c.\<close>

definition stock_symbol :: "stock_asset \<Rightarrow> string" where
  "stock_symbol asset = stk_ticker asset @ ''c''"

definition stockLine :: "stock_asset \<Rightarrow> asset_line" where
  "stockLine asset =
     \<lparr>lin_asset = StockAsset (stk_id asset), lin_kind = StockKind, lin_name = stk_name asset,
      lin_symbol = stock_symbol asset, lin_token = stk_token asset, lin_isin = Some (stk_isin asset),
      lin_venue = AaveV4, lin_wallet = None, lin_pledged = None, lin_shares = None,
      lin_price_cents = None, lin_price_updated_at = None, lin_value_cents = None,
      lin_protocol_factor_bps = None, lin_still_factor_bps = None, lin_capacity_cents = None,
      lin_earnings = None, lin_limits = [], lin_failed = []\<rparr>"

definition shareOf :: "earnings_of \<Rightarrow> bool \<Rightarrow> stock_asset \<Rightarrow> reads \<Rightarrow> (earnings_note \<times> int) \<times> reads" where
  "shareOf earningsOf weekend asset reads =
     (let (note, failed) = earningsOf asset;
          reads = (case failed of None \<Rightarrow> reads | Some f \<Rightarrow> fail_read (fld_what f) (fld_owner f) reads)
      in ((note, stillShareBps StockKind weekend (ern_lowered note)), reads))"

definition walletOf :: "wallet_snapshot \<Rightarrow> stock_asset \<Rightarrow> reads \<Rightarrow> int option \<times> reads" where
  "walletOf snapshot asset =
     need (map_of (wsn_balances snapshot) (to_lower (stk_token asset))) (stock_symbol asset @ '' wallet balance'')"

text \<open>One stock when the venue is closed: shown when the wallet holds it, or might.\<close>

definition closed_stock ::
  "wallet_snapshot \<Rightarrow> bool \<Rightarrow> earnings_of \<Rightarrow> stock_asset \<Rightarrow> failed_read list \<Rightarrow> asset_line list \<times> failed_read list" where
  "closed_stock snapshot weekend earningsOf asset failures =
     (let (wallet, reads) = walletOf snapshot asset (failures, []) in
      if (case wallet of None \<Rightarrow> True | Some n \<Rightarrow> n > 0) then
        let reads = fail_read ''Aave V4 Coinbase Stocks spoke'' Us reads;
            ((note, _), reads) = shareOf earningsOf weekend asset reads
        in ([(stockLine asset)\<lparr>lin_wallet := map_option (\<lambda>n. token_amount_of n (stk_decimals asset)) wallet,
               lin_earnings := Some note, lin_failed := snd reads\<rparr>], fst reads)
      else ([], fst reads))"

fun closed_stocks ::
  "wallet_snapshot \<Rightarrow> bool \<Rightarrow> earnings_of \<Rightarrow> stock_asset list \<Rightarrow> failed_read list \<Rightarrow> asset_line list \<times> failed_read list" where
  "closed_stocks snapshot weekend earningsOf [] failures = ([], failures)"
| "closed_stocks snapshot weekend earningsOf (asset # rest) failures =
     (let (line, failures) = closed_stock snapshot weekend earningsOf asset failures;
          (lines, failures) = closed_stocks snapshot weekend earningsOf rest failures
      in (line @ lines, failures))"

record computed =
  cmp_lines :: "asset_line list"
  cmp_venues :: "venue_line list"
  cmp_complete :: bool

definition aave_label :: string where
  "aave_label = ''Aave V4 '' @ [CHR 0xC2, CHR 0xB7] @ '' Coinbase Stocks''"

definition unread_venue :: "venue \<Rightarrow> string \<Rightarrow> string \<Rightarrow> string list \<Rightarrow> venue_line" where
  "unread_venue venue market label failed =
     \<lparr>vln_venue = venue, vln_market = market, vln_label = label, vln_debt_cents = None, vln_debt_atomic = None,
      vln_capacity_cents = None, vln_available_cents = None, vln_borrow_rate_bps = None,
      vln_liquidity_cents = None,
      vln_deductions = \<lparr>ded_loans_cents = None, ded_venue_limit_cents = None\<rparr>,
      vln_safety = None, vln_liquidation_prices = [], vln_failed = failed\<rparr>"

section \<open>One reserve\<close>

definition sum_known :: "int option \<Rightarrow> int option \<Rightarrow> int option" where
  "sum_known a b = (case (a, b) of (Some x, Some y) \<Rightarrow> Some (x + y) | _ \<Rightarrow> None)"

record stock_reads =
  srd_wallet :: "int option"
  srd_supplied :: "int option"
  srd_note :: earnings_note
  srd_share :: int
  srd_registry :: "coinbase_entry option"
  srd_price :: "int option"
  srd_factor :: "int option"
  srd_config :: "reserve_config option"
  srd_spoke :: "spoke_config option"
  srd_added :: "int option"

definition stock_needs ::
  "wallet_snapshot \<Rightarrow> bool \<Rightarrow> earnings_of \<Rightarrow> aave_reserve_snapshot \<Rightarrow> stock_asset \<Rightarrow> int option \<Rightarrow> int option \<Rightarrow> reads
     \<Rightarrow> stock_reads \<times> reads" where
  "stock_needs snapshot weekend earningsOf reserve asset wallet supplied reads =
     (let sym = stock_symbol asset;
          ((note, share), reads) = shareOf earningsOf weekend asset reads;
          (price, reads) = need (Some (ars_price reserve)) (sym @ '' price on Aave'') reads;
          (factor, reads) = need (Some (ars_factor_bps reserve)) (sym @ '' collateral factor'') reads;
          (config, reads) = need (Some (ars_config reserve)) (sym @ '' reserve status'') reads;
          (spoke, reads) = need (Some (ars_spoke_config reserve)) (sym @ '' Aave cap'') reads;
          (added, reads) = need (Some (ars_spoke_added reserve)) (sym @ '' Aave supplied total'') reads
      in (\<lparr>srd_wallet = wallet, srd_supplied = supplied, srd_note = note, srd_share = share,
           srd_registry = (case map_of (wsn_coinbase snapshot) (stk_id asset) of
              Some (Read e) \<Rightarrow> Some e | _ \<Rightarrow> None),
           srd_price = price, srd_factor = factor, srd_config = config, srd_spoke = spoke, srd_added = added\<rparr>, reads))"

definition blocking_limits :: "stock_reads \<Rightarrow> asset_limit list" where
  "blocking_limits s =
     (case srd_config s of Some c \<Rightarrow> if rcf_paused c then [ReservePaused] else [] | None \<Rightarrow> [])
     @ (case srd_config s of Some c \<Rightarrow> if rcf_frozen c then [ReserveFrozen] else [] | None \<Rightarrow> [])
     @ (case srd_spoke s of Some c \<Rightarrow> if \<not> spc_active c \<or> spc_halted c then [SpokeHalted] else [] | None \<Rightarrow> [])
     @ (case srd_registry s of Some e \<Rightarrow> if cbe_paused e then [IssuerPaused] else [] | None \<Rightarrow> [])"

text \<open>How much of the wallet's tokens the collateral cap leaves room for.\<close>

definition countable_wallet :: "int \<Rightarrow> nat \<Rightarrow> stock_reads \<Rightarrow> int option" where
  "countable_wallet noCap decimals s =
     (case (srd_wallet s, srd_spoke s, srd_added s) of
        (Some wallet, Some spoke, Some added) \<Rightarrow>
          Some (if spc_add_cap spoke = noCap then wallet
                else min_money wallet (max_money 0 (spc_add_cap spoke * 10 ^ decimals - added)))
      | _ \<Rightarrow> None)"

definition cap_limits :: "int \<Rightarrow> nat \<Rightarrow> stock_reads \<Rightarrow> asset_limit list" where
  "cap_limits noCap decimals s =
     (case (countable_wallet noCap decimals s, srd_wallet s, srd_spoke s) of
        (Some countable, Some wallet, Some spoke) \<Rightarrow>
          if spc_add_cap spoke \<noteq> noCap \<and> countable < wallet then [SupplyCap] else []
      | _ \<Rightarrow> [])"

text \<open>USDC base units a dollar value buys.\<close>

definition toUsdc :: "int option \<Rightarrow> int \<Rightarrow> int \<Rightarrow> int option result" where
  "toUsdc usdcPrice valueTimesBps bpsDivisor =
     (case usdcPrice of
        None \<Rightarrow> Inr None
      | Some p \<Rightarrow>
          if p = 0 then Inr None
          else bindR (mulDiv valueTimesBps (10 ^ USDC_DECIMALS) (bpsDivisor * p) Down) (\<lambda>x. Inr (Some x)))"

definition stock_capacity :: "int option \<Rightarrow> int \<Rightarrow> nat \<Rightarrow> stock_reads \<Rightarrow> int option result" where
  "stock_capacity usdcPrice noCap decimals s =
     (case (srd_price s, srd_factor s) of
        (Some price, Some factor) \<Rightarrow>
          let counted = (case countable_wallet noCap decimals s of None \<Rightarrow> 0 | Some n \<Rightarrow> n)
                + (case srd_supplied s of None \<Rightarrow> 0 | Some n \<Rightarrow> n)
          in bindR (toUsdc usdcPrice (counted * price * factor * srd_share s) (10 ^ decimals * BPS * BPS)) (\<lambda>raw.
             optR raw (\<lambda>usdcRaw. usdcToCents usdcRaw Down))
      | _ \<Rightarrow> Inr None)"

record stock_collateral =
  col_asset :: stock_asset
  col_supplied :: int
  col_price :: int
  col_user_factor :: int
  col_risk_bps :: "int option"

definition stock_collateral_of :: "aave_reserve_snapshot \<Rightarrow> stock_asset \<Rightarrow> stock_reads \<Rightarrow> stock_collateral option" where
  "stock_collateral_of reserve asset s =
     (case (srd_supplied s, ars_status reserve, srd_price s, ars_user_factor_bps reserve) of
        (Some supplied, Read (using, _), Some price, Read userFactor) \<Rightarrow>
          if supplied > 0 \<and> using
          then Some \<lparr>col_asset = asset, col_supplied = supplied, col_price = price,
                     col_user_factor = userFactor, col_risk_bps = outcome_value (ars_collateral_risk_bps reserve)\<rparr>
          else None
      | _ \<Rightarrow> None)"

definition stock_line_of ::
  "int option \<Rightarrow> int \<Rightarrow> int \<Rightarrow> aave_reserve_snapshot \<Rightarrow> stock_asset \<Rightarrow> stock_reads \<Rightarrow> string list \<Rightarrow> asset_line result" where
  "stock_line_of usdcPrice noCap centsPerPriceUnit reserve asset s failed =
     (let d = stk_decimals asset; held = sum_known (srd_wallet s) (srd_supplied s); blocked = blocking_limits s in
      bindR (optR (case (srd_registry s, held) of (Some e, Some n) \<Rightarrow> Some (e, n) | _ \<Rightarrow> None)
               (\<lambda>(e, n). mulDiv n (cbe_multiplier e) WAD Down)) (\<lambda>shares.
      bindR (optR (srd_price s) (\<lambda>p. divide_money p centsPerPriceUnit Down)) (\<lambda>priceCents.
      bindR (optR (outcome_value (ars_price_updated_at reserve)) iso_of_seconds) (\<lambda>updatedAt.
      bindR (optR (case (srd_price s, held) of (Some p, Some n) \<Rightarrow> Some (p, n) | _ \<Rightarrow> None)
               (\<lambda>(p, n). mulDiv n p (10 ^ d * centsPerPriceUnit) Down)) (\<lambda>valueCents.
      bindR (optR (srd_factor s) (\<lambda>f. mulDiv f (srd_share s) BPS Down)) (\<lambda>stillFactor.
      bindR (if blocked \<noteq> [] then Inr (Some 0) else stock_capacity usdcPrice noCap d s) (\<lambda>capacity.
      Inr ((stockLine asset)\<lparr>
        lin_wallet := map_option (\<lambda>n. token_amount_of n d) (srd_wallet s),
        lin_pledged := map_option (\<lambda>n. token_amount_of n d) (srd_supplied s),
        lin_shares := map_option (\<lambda>n. token_amount_of n d) shares,
        lin_price_cents := priceCents,
        lin_price_updated_at := updatedAt,
        lin_value_cents := valueCents,
        lin_protocol_factor_bps := srd_factor s,
        lin_still_factor_bps := stillFactor,
        lin_capacity_cents := capacity,
        lin_earnings := Some (srd_note s),
        lin_limits := blocked @ cap_limits noCap d s,
        lin_failed := failed\<rparr>))))))))"

text \<open>The loop over the reserves: lines, the running capacity, whether all was read, the collateral in use.\<close>

record aave_loop =
  alp_lines :: "asset_line list"
  alp_capacity_cents :: int
  alp_capacity_complete :: bool
  alp_collateral :: "stock_collateral list"
  alp_failures :: "failed_read list"

definition reserve_step ::
  "wallet_snapshot \<Rightarrow> bool \<Rightarrow> earnings_of \<Rightarrow> int option \<Rightarrow> int \<Rightarrow> int \<Rightarrow> aave_loop \<Rightarrow> aave_reserve_snapshot
     \<Rightarrow> aave_loop result" where
  "reserve_step snapshot weekend earningsOf usdcPrice noCap centsPerPriceUnit l reserve =
     (case ari_role (ars_info reserve) of
        StockRole asset \<Rightarrow>
          let (wallet, reads) = walletOf snapshot asset (alp_failures l, []);
              (supplied, reads) = need (Some (ars_supplied reserve)) (stock_symbol asset @ '' supplied on Aave'') reads
          in if wallet = Some 0 \<and> supplied = Some 0 then Inr (l\<lparr>alp_failures := fst reads\<rparr>)
             else
               let (s, reads) = stock_needs snapshot weekend earningsOf reserve asset wallet supplied reads in
               bindR (stock_line_of usdcPrice noCap centsPerPriceUnit reserve asset s (snd reads)) (\<lambda>line.
               Inr \<lparr>alp_lines = alp_lines l @ [line],
                    alp_capacity_cents = alp_capacity_cents l
                      + (case lin_capacity_cents line of None \<Rightarrow> 0 | Some c \<Rightarrow> c),
                    alp_capacity_complete = (alp_capacity_complete l \<and> snd reads = []),
                    alp_collateral = alp_collateral l
                      @ (case stock_collateral_of reserve asset s of None \<Rightarrow> [] | Some c \<Rightarrow> [c]),
                    alp_failures = fst reads\<rparr>)
      | _ \<Rightarrow> Inr l)"

section \<open>Safety and the rate on Aave\<close>

definition debt_value :: "int \<Rightarrow> int \<Rightarrow> int result" where
  "debt_value debt usdcPrice = mulDiv debt usdcPrice (10 ^ USDC_DECIMALS) Up"

definition weighted_collateral :: "stock_collateral \<Rightarrow> (stock_collateral \<times> int) result" where
  "weighted_collateral c =
     bindR (mulDiv (col_supplied c * col_price c) (col_user_factor c) (10 ^ stk_decimals (col_asset c) * BPS) Down)
       (\<lambda>w. Inr (c, w))"

text \<open>The liquidation price of each collateral, the weights of the others \<open>earlier\<close> and after it summed.\<close>

fun liquidation_prices ::
  "int \<Rightarrow> int \<Rightarrow> int \<Rightarrow> (stock_collateral \<times> int) list \<Rightarrow> liquidation_price list result" where
  "liquidation_prices debtValue centsPerPriceUnit earlier [] = Inr []"
| "liquidation_prices debtValue centsPerPriceUnit earlier ((c, w) # rest) =
     (let others = earlier + sum_list (map snd rest); asset = StockAsset (stk_id (col_asset c)) in
      bindR (if others \<ge> debtValue
             then Inr \<lparr>lqp_asset = asset, lqp_price_cents = None, lqp_unreachable = True\<rparr>
             else
               bindR (mulDiv (debtValue - others) (10 ^ stk_decimals (col_asset c) * BPS)
                        (col_supplied c * col_user_factor c * centsPerPriceUnit) Up) (\<lambda>priceCents.
               Inr \<lparr>lqp_asset = asset, lqp_price_cents = Some priceCents, lqp_unreachable = False\<rparr>)) (\<lambda>price.
      bindR (liquidation_prices debtValue centsPerPriceUnit (earlier + w) rest) (\<lambda>prices.
      Inr (price # prices))))"

definition aave_health ::
  "aave_account outcome \<Rightarrow> (stock_collateral \<times> int) list \<Rightarrow> int \<Rightarrow> (int \<times> safety_source) result" where
  "aave_health account weighted debtValue =
     (let protocol = (case account of Read a \<Rightarrow> if acc_health_factor a > 0 then Some (acc_health_factor a) else None
                      | Unread _ \<Rightarrow> None)
      in case protocol of
           Some hf \<Rightarrow> Inr (hf, FromProtocol)
         | None \<Rightarrow>
             bindR (mulDiv (sum_list (map snd weighted)) WAD debtValue Down) (\<lambda>hf. Inr (hf, Computed)))"

definition aave_safety ::
  "aave_snapshot \<Rightarrow> int option \<Rightarrow> int option \<Rightarrow> int \<Rightarrow> stock_collateral list
     \<Rightarrow> (safety_reading option \<times> liquidation_price list) result" where
  "aave_safety aave debt usdcPrice centsPerPriceUnit collateral =
     (case (debt, usdcPrice) of
        (Some d, Some p) \<Rightarrow>
          if d > 0 then
            bindR (debt_value d p) (\<lambda>debtValue.
            bindR (mapR weighted_collateral collateral) (\<lambda>weighted.
            bindR (aave_health (avs_account aave) weighted debtValue) (\<lambda>(hf, source).
            bindR (safetyFromHealthFactor hf) (\<lambda>(margin, state).
            bindR (liquidation_prices debtValue centsPerPriceUnit 0 weighted) (\<lambda>prices.
            Inr (Some \<lparr>sfr_margin_bps = margin, sfr_state = state, sfr_health_factor = hf, sfr_source = source\<rparr>,
                 prices))))))
          else Inr (None, [])
      | _ \<Rightarrow> Inr (None, []))"

definition risk_of_collateral :: "stock_collateral \<Rightarrow> risk_entry result" where
  "risk_of_collateral c =
     bindR (mulDiv (col_supplied c) (col_price c) (10 ^ stk_decimals (col_asset c)) Down) (\<lambda>v.
     Inr \<lparr>rsk_bps = (case col_risk_bps c of None \<Rightarrow> 0 | Some r \<Rightarrow> r), rsk_value = v\<rparr>)"

definition aave_premium ::
  "aave_snapshot \<Rightarrow> int option \<Rightarrow> int option \<Rightarrow> stock_collateral list \<Rightarrow> int option result" where
  "aave_premium aave debt usdcPrice collateral =
     (case debt of
        None \<Rightarrow> Inr (Some 0)
      | Some d \<Rightarrow>
          if d > 0 then
            (case avs_risk_premium_bps aave of
               Read premium \<Rightarrow> Inr (Some premium)
             | Unread _ \<Rightarrow>
                 let counted = filter (\<lambda>c. col_user_factor c > 0) collateral in
                 (case usdcPrice of
                    None \<Rightarrow> Inr None
                  | Some p \<Rightarrow>
                      if \<exists>c \<in> set counted. col_risk_bps c = None then Inr None
                      else
                        bindR (debt_value d p) (\<lambda>debtValue.
                        bindR (mapR risk_of_collateral counted) (\<lambda>risks.
                        bindR (aaveRiskPremiumBpsV1 risks debtValue) (\<lambda>premium. Inr (Some premium))))))
          else Inr (Some 0))"

text \<open>What the hub can lend to this spoke now.\<close>

definition lendable_usdc :: "int \<Rightarrow> reserve_config option \<Rightarrow> spoke_config option \<Rightarrow> int option \<Rightarrow> int option \<Rightarrow> int option" where
  "lendable_usdc noCap config spoke liquidity owed =
     (case (config, spoke, liquidity, owed) of
        (Some c, Some s, Some l, Some ow) \<Rightarrow>
          let closed = rcf_paused c \<or> rcf_frozen c \<or> \<not> rcf_borrowable c \<or> \<not> spc_active s \<or> spc_halted s;
              drawRoom = (if spc_draw_cap s = noCap then l
                          else max_money 0 (spc_draw_cap s * 10 ^ USDC_DECIMALS - ow))
          in Some (if closed then 0 else min_money l drawRoom)
      | _ \<Rightarrow> None)"

definition whenSome :: "'b option \<Rightarrow> ('b \<Rightarrow> 'a outcome) \<Rightarrow> string \<Rightarrow> reads \<Rightarrow> 'a option \<times> reads" where
  "whenSome x f what reads = (case x of None \<Rightarrow> (None, reads) | Some v \<Rightarrow> need (Some (f v)) what reads)"

definition aave_closed :: "wallet_snapshot \<Rightarrow> bool \<Rightarrow> earnings_of \<Rightarrow> failed_read list \<Rightarrow> computed \<times> failed_read list" where
  "aave_closed snapshot weekend earningsOf failures =
     (let (lines, failures) = closed_stocks snapshot weekend earningsOf STOCKS failures in
      (\<lparr>cmp_lines = lines,
        cmp_venues = [unread_venue AaveV4 (addr_aave_spoke ADDRESSES) aave_label [''Aave V4 Coinbase Stocks spoke'']],
        cmp_complete = False\<rparr>, failures))"

record aave_totals =
  att_debt :: "int option"
  att_capacity_known :: bool
  att_capacity_cents :: int
  att_lendable :: "int option"
  att_premium_bps :: "int option"

definition aave_available :: "bool \<Rightarrow> int \<Rightarrow> int option \<Rightarrow> int option \<Rightarrow> int option result" where
  "aave_available capacityKnown capacityCents debtCents lendable =
     (case (debtCents, lendable) of
        (Some d, Some l) \<Rightarrow>
          if capacityKnown
          then bindR (usdcToCents l Down) (\<lambda>lc. Inr (Some (min_money (max_money 0 (capacityCents - d)) lc)))
          else Inr None
      | _ \<Rightarrow> Inr None)"

definition aave_venue_line ::
  "aave_totals \<Rightarrow> int option \<Rightarrow> safety_reading option \<Rightarrow> liquidation_price list \<Rightarrow> string list
     \<Rightarrow> (venue_line \<times> int option) result" where
  "aave_venue_line t drawnRate safety prices venueFailed =
     bindR (optR (att_debt t) (\<lambda>d. usdcToCents d Up)) (\<lambda>debtCents.
     bindR (aave_available (att_capacity_known t) (att_capacity_cents t) debtCents (att_lendable t)) (\<lambda>available.
     bindR (optR (case (drawnRate, att_premium_bps t) of (Some r, Some p) \<Rightarrow> Some (r, p) | _ \<Rightarrow> None)
              (\<lambda>(r, p). mulDiv r (BPS + p) RAY Up)) (\<lambda>rate.
     bindR (optR (att_lendable t) (\<lambda>l. usdcToCents l Down)) (\<lambda>liquidityCents.
     let capacity = (if att_capacity_known t then Some (att_capacity_cents t) else None) in
     Inr (\<lparr>vln_venue = AaveV4, vln_market = addr_aave_spoke ADDRESSES, vln_label = aave_label,
          vln_debt_cents = debtCents, vln_debt_atomic = att_debt t, vln_capacity_cents = capacity,
          vln_available_cents = available, vln_borrow_rate_bps = rate, vln_liquidity_cents = liquidityCents,
          vln_deductions = deductionsOf capacity debtCents available,
          vln_safety = safety, vln_liquidation_prices = prices, vln_failed = venueFailed\<rparr>, available)))))"

definition compute_aave_open ::
  "aave_known \<Rightarrow> aave_snapshot \<Rightarrow> wallet_snapshot \<Rightarrow> bool \<Rightarrow> earnings_of \<Rightarrow> failed_read list
     \<Rightarrow> (computed \<times> failed_read list) result" where
  "compute_aave_open known aave snapshot weekend earningsOf failures =
     (let noCap = akn_no_cap known;
          usdc = find (\<lambda>r. ari_role (ars_info r) = UsdcRole) (avs_reserves aave);
          (usdcPrice, reads) = whenSome usdc ars_price ''USDC price on Aave'' (failures, []);
          (debt, reads) = need (Some (avs_usdc_debt aave)) ''Aave USDC debt'' reads;
          centsPerPriceUnit = 10 ^ (akn_oracle_decimals known - 2);
          capacityKnown = (case usdcPrice of None \<Rightarrow> False | Some p \<Rightarrow> p > 0)
      in
      bindR (foldR (reserve_step snapshot weekend earningsOf usdcPrice noCap centsPerPriceUnit)
               \<lparr>alp_lines = [], alp_capacity_cents = 0, alp_capacity_complete = True, alp_collateral = [],
                alp_failures = fst reads\<rparr> (avs_reserves aave)) (\<lambda>l.
      let (usdcConfig, reads) = whenSome usdc ars_config ''USDC reserve status'' (alp_failures l, snd reads);
          (usdcSpoke, reads) = whenSome usdc ars_spoke_config ''USDC Aave cap'' reads;
          (liquidity, reads) = need (Some (avs_usdc_liquidity aave)) ''Aave USDC liquidity'' reads;
          (owed, reads) = need (Some (avs_usdc_spoke_owed aave)) ''Aave USDC drawn total'' reads;
          lendable = lendable_usdc noCap usdcConfig usdcSpoke liquidity owed
      in
      bindR (aave_safety aave debt usdcPrice centsPerPriceUnit (alp_collateral l)) (\<lambda>(safety, prices).
      bindR (aave_premium aave debt usdcPrice (alp_collateral l)) (\<lambda>premium.
      bindR (aave_venue_line
               \<lparr>att_debt = debt, att_capacity_known = capacityKnown,
                att_capacity_cents = alp_capacity_cents l, att_lendable = lendable, att_premium_bps = premium\<rparr>
               (outcome_value (avs_usdc_drawn_rate_ray aave)) safety prices (snd reads)) (\<lambda>(venue, available).
      let relevant = alp_lines l \<noteq> [] \<or> vln_debt_cents venue \<noteq> Some 0 \<or> snd reads \<noteq> [] in
      Inr (\<lparr>cmp_lines = alp_lines l, cmp_venues = (if relevant then [venue] else []),
            cmp_complete = (available \<noteq> None \<and> alp_capacity_complete l)\<rparr>, fst reads))))))"

definition computeAave ::
  "still_universe \<Rightarrow> wallet_snapshot \<Rightarrow> bool \<Rightarrow> earnings_of \<Rightarrow> failed_read list
     \<Rightarrow> (computed \<times> failed_read list) result" where
  "computeAave universe snapshot weekend earningsOf failures =
     (case (uni_aave universe, wsn_aave snapshot) of
        (AaveOk known, Some aave) \<Rightarrow> compute_aave_open known aave snapshot weekend earningsOf failures
      | _ \<Rightarrow> Inr (aave_closed snapshot weekend earningsOf failures))"

section \<open>One Morpho market\<close>

definition cryptoLine :: "crypto_asset \<Rightarrow> asset_line" where
  "cryptoLine asset =
     \<lparr>lin_asset = CryptoAsset (cry_id asset), lin_kind = CryptoKind, lin_name = cry_name asset,
      lin_symbol = cry_symbol asset, lin_token = cry_token asset, lin_isin = None,
      lin_venue = MorphoVenue, lin_wallet = None, lin_pledged = None, lin_shares = None,
      lin_price_cents = None, lin_price_updated_at = None, lin_value_cents = None,
      lin_protocol_factor_bps = None, lin_still_factor_bps = None, lin_capacity_cents = None,
      lin_earnings = None, lin_limits = [], lin_failed = []\<rparr>"

definition wrapped_symbol :: "crypto_asset \<Rightarrow> string" where
  "wrapped_symbol asset = (if cry_symbol asset = ''ETH'' then ''WETH'' else cry_symbol asset)"

definition morpho_label :: "crypto_asset \<Rightarrow> string" where
  "morpho_label asset = ''Morpho '' @ [CHR 0xC2, CHR 0xB7] @ '' '' @ wrapped_symbol asset @ ''/USDC''"

definition spendable_native :: "int \<Rightarrow> int" where
  "spendable_native n = max_money 0 (n - trm_eth_gas_reserve_wei TERMS)"

text \<open>The wallet's part: balances, what of them counts, and the gas reserve.\<close>

record crypto_wallet =
  crw_wallet :: "int option"
  crw_countable :: "int option"
  crw_limits :: "asset_limit list"

definition crypto_wallet_of :: "wallet_snapshot \<Rightarrow> crypto_asset \<Rightarrow> reads \<Rightarrow> crypto_wallet \<times> reads" where
  "crypto_wallet_of snapshot asset reads =
     (let (tokenBalance, reads) = need (map_of (wsn_balances snapshot) (to_lower (cry_token asset)))
            (wrapped_symbol asset @ '' wallet balance'') reads;
          (native, reads) = (if cry_includes_native_eth asset
            then need (Some (wsn_native_eth snapshot)) ''ETH wallet balance'' reads else (Some 0, reads))
      in (\<lparr>crw_wallet = sum_known tokenBalance native,
           crw_countable = sum_known tokenBalance (map_option spendable_native native),
           crw_limits = (case native of
             Some n \<Rightarrow> if n > 0 \<and> spendable_native n \<noteq> n then [GasReserve] else [] | None \<Rightarrow> [])\<rparr>, reads))"

record morpho_reads =
  mrd_price :: "int option"
  mrd_countable :: "int option"
  mrd_position :: "morpho_position option"
  mrd_rate :: "int option"
  mrd_accrued :: "morpho_totals option"
  mrd_lltv :: int

definition market_state :: "int \<Rightarrow> int \<Rightarrow> morpho_totals \<Rightarrow> int \<Rightarrow> morpho_market" where
  "market_state price lltv accrued block =
     \<lparr>mkt_collateral_price = price, mkt_lltv_wad = lltv, mkt_supply_assets = tot_supply_assets accrued,
      mkt_borrow_assets = tot_borrow_assets accrued, mkt_borrow_shares = tot_borrow_shares accrued,
      mkt_block_number = Some block\<rparr>"

definition morpho_capacity_cents :: "morpho_reads \<Rightarrow> int option result" where
  "morpho_capacity_cents r =
     (case (mrd_price r, mrd_countable r, mrd_position r) of
        (Some price, Some countable, Some p) \<Rightarrow>
          bindR (morphoMaxBorrowAssetsV1 (countable + pos_collateral p) price (mrd_lltv r)) (\<lambda>limit.
          bindR (stillBorrowLimitV1 limit (Some (stillShareBps CryptoKind False False))) (\<lambda>l.
          Inr (Some (lim_cents l))))
      | _ \<Rightarrow> Inr None)"

definition morpho_debt :: "morpho_reads \<Rightarrow> int option result" where
  "morpho_debt r =
     (case mrd_position r of
        None \<Rightarrow> Inr None
      | Some p \<Rightarrow>
          if pos_borrow_shares p = 0 then Inr (Some 0)
          else optR (mrd_accrued r) (\<lambda>a.
            toAssetsUpV1 (pos_borrow_shares p) (tot_borrow_assets a) (tot_borrow_shares a)))"

definition morpho_available :: "morpho_reads \<Rightarrow> int \<Rightarrow> int option result" where
  "morpho_available r block =
     (case (mrd_price r, mrd_countable r, mrd_position r, mrd_accrued r) of
        (Some price, Some countable, Some p, Some a) \<Rightarrow>
          bindR (morphoStillCapacityV1
            \<lparr>msi_market = market_state price (mrd_lltv r) a block, msi_position = p,
             msi_additional_collateral = Some countable,
             msi_share_bps = Some (stillShareBps CryptoKind False False)\<rparr>) (\<lambda>c.
          Inr (Some (cap_available_cents c)))
      | _ \<Rightarrow> Inr None)"

definition morpho_safety ::
  "crypto_asset \<Rightarrow> morpho_reads \<Rightarrow> int option \<Rightarrow> int \<Rightarrow> (safety_reading option \<times> liquidation_price list) result" where
  "morpho_safety asset r debt block =
     (case (debt, mrd_price r, mrd_position r, mrd_accrued r) of
        (Some d, Some price, Some p, Some a) \<Rightarrow>
          if d > 0 then
            let state = market_state price (mrd_lltv r) a block in
            bindR (morphoHealthV1 state p) (\<lambda>h.
            let hf = (case hlt_factor_wad h of None \<Rightarrow> 0 | Some f \<Rightarrow> f) in
            bindR (safetyFromHealthFactor hf) (\<lambda>(margin, st).
            bindR (morphoLiquidationPriceV1 state p) (\<lambda>liquidation.
            bindR (optR liquidation (\<lambda>l. mulDiv l (10 ^ cry_decimals asset) (PRICE_SCALE_MORPHO * 10 ^ 4) Up)) (\<lambda>cents.
            Inr (Some \<lparr>sfr_margin_bps = margin, sfr_state = st, sfr_health_factor = hf, sfr_source = Computed\<rparr>,
                 case cents of None \<Rightarrow> []
                 | Some c \<Rightarrow> [\<lparr>lqp_asset = CryptoAsset (cry_id asset), lqp_price_cents = Some c,
                              lqp_unreachable = False\<rparr>])))))
          else Inr (None, [])
      | _ \<Rightarrow> Inr (None, []))"

definition morpho_line ::
  "crypto_asset \<Rightarrow> crypto_wallet \<Rightarrow> morpho_reads \<Rightarrow> int option \<Rightarrow> string list \<Rightarrow> asset_line result" where
  "morpho_line asset w r capacity failed =
     (let unit = 10 ^ cry_decimals asset; scale = PRICE_SCALE_MORPHO * 10 ^ 4;
          held = sum_known (crw_wallet w) (map_option pos_collateral (mrd_position r)) in
      bindR (mulDiv (mrd_lltv r) BPS WAD Down) (\<lambda>protocolFactor.
      bindR (mulDiv protocolFactor (stillShareBps CryptoKind False False) BPS Down) (\<lambda>stillFactor.
      bindR (optR (mrd_price r) (\<lambda>p. mulDiv p unit scale Down)) (\<lambda>priceCents.
      bindR (optR (case (mrd_price r, held) of (Some p, Some n) \<Rightarrow> Some (p, n) | _ \<Rightarrow> None)
               (\<lambda>(p, n). mulDiv n p scale Down)) (\<lambda>valueCents.
      Inr ((cryptoLine asset)\<lparr>
        lin_wallet := map_option (\<lambda>n. token_amount_of n (cry_decimals asset)) (crw_wallet w),
        lin_pledged := map_option (\<lambda>p. token_amount_of (pos_collateral p) (cry_decimals asset)) (mrd_position r),
        lin_price_cents := priceCents, lin_value_cents := valueCents,
        lin_protocol_factor_bps := Some protocolFactor, lin_still_factor_bps := Some stillFactor,
        lin_capacity_cents := capacity, lin_limits := crw_limits w, lin_failed := failed\<rparr>))))))"

definition morpho_venue_line ::
  "crypto_asset \<Rightarrow> morpho_reads \<Rightarrow> int \<Rightarrow> int option \<Rightarrow> string list \<Rightarrow> venue_line result" where
  "morpho_venue_line asset r block capacity venueFailed =
     bindR (morpho_debt r) (\<lambda>debt.
     bindR (optR debt (\<lambda>d. usdcToCents d Up)) (\<lambda>debtCents.
     bindR (morpho_available r block) (\<lambda>available.
     bindR (morpho_safety asset r debt block) (\<lambda>(safety, prices).
     bindR (optR (mrd_rate r) (\<lambda>rate. mulDiv (rate * SECONDS_PER_YEAR) BPS WAD Up)) (\<lambda>rateBps.
     bindR (optR (mrd_accrued r)
              (\<lambda>a. usdcToCents (max_money 0 (tot_supply_assets a - tot_borrow_assets a)) Down)) (\<lambda>liquidityCents.
     Inr \<lparr>vln_venue = MorphoVenue, vln_market = cry_morpho_market asset, vln_label = morpho_label asset,
          vln_debt_cents = debtCents, vln_debt_atomic = debt, vln_capacity_cents = capacity,
          vln_available_cents = available, vln_borrow_rate_bps = rateBps, vln_liquidity_cents = liquidityCents,
          vln_deductions = deductionsOf capacity debtCents available,
          vln_safety = safety, vln_liquidation_prices = prices, vln_failed = venueFailed\<rparr>))))))"

definition computeMorpho ::
  "crypto_asset \<Rightarrow> morpho_snapshot option \<Rightarrow> wallet_snapshot \<Rightarrow> failed_read list
     \<Rightarrow> (computed \<times> failed_read list) result" where
  "computeMorpho asset market snapshot failures =
     (let label = morpho_label asset; (w, reads) = crypto_wallet_of snapshot asset (failures, []) in
      case market of
        None \<Rightarrow>
          if crw_countable w = Some 0
          then Inr (\<lparr>cmp_lines = [], cmp_venues = [], cmp_complete = True\<rparr>, fst reads)
          else
            let reads = fail_read (label @ '' market'') Us reads in
            Inr (\<lparr>cmp_lines = [(cryptoLine asset)\<lparr>
                    lin_wallet := map_option (\<lambda>n. token_amount_of n (cry_decimals asset)) (crw_wallet w),
                    lin_limits := crw_limits w, lin_failed := snd reads\<rparr>],
                  cmp_venues = [unread_venue MorphoVenue (cry_morpho_market asset) label [label @ '' market'']],
                  cmp_complete = False\<rparr>, fst reads)
      | Some m \<Rightarrow>
          let (position, reads) = need (Some (mps_position m)) (label @ '' position'') reads in
          if crw_countable w = Some 0 \<and> map_option pos_collateral position = Some 0
             \<and> map_option pos_borrow_shares position = Some 0
          then Inr (\<lparr>cmp_lines = [], cmp_venues = [], cmp_complete = True\<rparr>, fst reads)
          else
            let (price, reads) = need (Some (mps_price m)) (cry_symbol asset @ '' price on Morpho'') reads;
                failed = snd reads;
                (stored, reads) = need (Some (mps_market m)) (label @ '' market totals'') (fst reads, []);
                (rate, reads) = need (Some (mps_borrow_rate m)) (label @ '' borrow rate'') reads
            in
            bindR (optR (case (stored, rate) of (Some t, Some r) \<Rightarrow> Some (t, r) | _ \<Rightarrow> None)
                     (\<lambda>(t, r). morphoAccruedTotalsV1 t r (wsn_block_timestamp snapshot))) (\<lambda>accrued.
            let r = \<lparr>mrd_price = price, mrd_countable = crw_countable w, mrd_position = position, mrd_rate = rate,
                    mrd_accrued = accrued, mrd_lltv = mpr_lltv (mmi_params (mps_info m))\<rparr>
            in
            bindR (morpho_capacity_cents r) (\<lambda>capacity.
            bindR (morpho_line asset w r capacity failed) (\<lambda>line.
            bindR (morpho_venue_line asset r (wsn_block_number snapshot) capacity (snd reads)) (\<lambda>venue.
            Inr (\<lparr>cmp_lines = [line], cmp_venues = [venue],
                  cmp_complete = (vln_available_cents venue \<noteq> None \<and> failed = [] \<and> snd reads = [])\<rparr>, fst reads))))))"

section \<open>The whole\<close>

fun computeMorphos ::
  "wallet_snapshot \<Rightarrow> crypto_asset list \<Rightarrow> failed_read list \<Rightarrow> (computed list \<times> failed_read list) result" where
  "computeMorphos snapshot [] failures = Inr ([], failures)"
| "computeMorphos snapshot (asset # rest) failures =
     bindR (computeMorpho asset (case map_of (wsn_morpho snapshot) (cry_id asset) of None \<Rightarrow> None | Some m \<Rightarrow> m)
              snapshot failures) (\<lambda>(part, failures).
     bindR (computeMorphos snapshot rest failures) (\<lambda>(parts, failures). Inr (part # parts, failures)))"

definition computeAll ::
  "still_universe \<Rightarrow> wallet_snapshot \<Rightarrow> bool \<Rightarrow> earnings_of \<Rightarrow> (computed \<times> failed_read list) result" where
  "computeAll universe snapshot weekend earningsOf =
     bindR (computeAave universe snapshot weekend earningsOf []) (\<lambda>(aave, failures).
     bindR (computeMorphos snapshot CRYPTO failures) (\<lambda>(morphos, failures).
     let parts = aave # morphos in
     Inr (\<lparr>cmp_lines = concat (map cmp_lines parts), cmp_venues = concat (map cmp_venues parts),
           cmp_complete = (list_all cmp_complete parts \<and> failures = [])\<rparr>, failures)))"

definition known_available :: "venue_line list \<Rightarrow> int list" where
  "known_available venues = List.map_filter vln_available_cents venues"

definition headlineOf :: "computed \<Rightarrow> int option \<Rightarrow> headline" where
  "headlineOf c weekdayAvailable =
     (let known = known_available (cmp_venues c);
          total = sum_list known;
          anything = cmp_lines c \<noteq> [];
          state = (if known = [] \<and> anything then Unknown
                   else if total \<ge> trm_dust_below_cents TERMS then Funded
                   else if total > 0 then Dust
                   else if cmp_complete c then NoneState else Unknown);
          eligible = filter (\<lambda>l. case lin_capacity_cents l of None \<Rightarrow> False | Some n \<Rightarrow> n > 0) (cmp_lines c);
          reason = (if state \<noteq> NoneState then None
                    else if \<not> anything then Some NoEligibleAssets
                    else if eligible \<noteq> [] then Some LimitInUse
                    else if list_ex (\<lambda>l. list_ex (\<lambda>x. x \<noteq> SupplyCap) (lin_limits l)) (cmp_lines c) then Some Paused
                    else Some NoEligibleAssets)
      in \<lparr>hdl_state = state,
          hdl_available_cents = (if state = Unknown \<and> known = [] then None else Some total),
          hdl_complete = cmp_complete c, hdl_reason = reason,
          hdl_weekday_available_cents = weekdayAvailable\<rparr>)"

record mirror_input =
  mri_universe :: still_universe
  mri_snapshot :: wallet_snapshot
  mri_calendar :: calendar_read
  mri_subject :: report_subject
  mri_assembled_at :: instant

definition evidence_of :: "still_universe \<Rightarrow> asset_line list \<Rightarrow> (string \<times> string) list" where
  "evidence_of universe lines =
     [(''Aave V4 Coinbase Stocks spoke'', addr_aave_spoke ADDRESSES),
      (''Aave V4 Coinbase Stocks hub'', addr_aave_hub ADDRESSES),
      (''Aave V4 oracle'', addr_aave_oracle ADDRESSES),
      (''Morpho Blue'', addr_morpho ADDRESSES)]
     @ (case uni_aave universe of
          AaveRefused _ \<Rightarrow> []
        | AaveOk known \<Rightarrow>
            List.map_filter (\<lambda>r. case (ari_role r, ari_price_source r) of
              (StockRole asset, Some feed) \<Rightarrow>
                if list_ex (\<lambda>l. lin_asset l = StockAsset (stk_id asset)) lines
                then Some (stk_ticker asset @ '' price feed'', feed) else None
            | _ \<Rightarrow> None) (akn_reserves known))"

text \<open>
  The instants every report writes: the block's, the report's own, the two ends of the window and,
  where a calendar was read, its reading. The first use of an invalid block time throws.
\<close>

definition report_instants :: "mirror_input \<Rightarrow> weekend_window \<Rightarrow> instant list" where
  "report_instants input window =
     [wsn_block_timestamp (mri_snapshot input) * 1000, mri_assembled_at input, ww_starts_at window, ww_ends_at window]
     @ (case mri_calendar input of CalendarOk c \<Rightarrow> [ecl_read_at c] | CalendarUnread \<Rightarrow> [])"

definition computeMirror :: "mirror_input \<Rightarrow> mirror_report result" where
  "computeMirror input =
     (let universe = mri_universe input; snapshot = mri_snapshot input; calendar = mri_calendar input;
          blockTime = wsn_block_timestamp snapshot * 1000;
          window = weekendWindow blockTime new_york;
          earningsOf = earningsFrom calendar blockTime
      in
      bindR (iso_of_seconds (wsn_block_timestamp snapshot)) (\<lambda>_.
      bindR (computeAll universe snapshot (ww_active window) earningsOf) (\<lambda>(actual, failures).
      bindR (if ww_active window
             then bindR (computeAll universe snapshot False earningsOf) (\<lambda>(weekday, _).
                    let known = known_available (cmp_venues weekday) in
                    Inr (if known = [] then None else Some (sum_list known)))
             else Inr None) (\<lambda>weekdayAvailable.
      bindR (mapR toISOString (report_instants input window)) (\<lambda>_.
      Inr \<lparr>mrr_subject = mri_subject input,
           mrr_block = wsn_block_number snapshot, mrr_block_time = blockTime,
           mrr_assembled_at = mri_assembled_at input, mrr_provider = wsn_provider snapshot,
           mrr_terms = \<lparr>rpt_version = trm_version TERMS,
             rpt_stock_share_bps = trm_share_of_protocol_bps TERMS,
             rpt_crypto_share_bps = trm_share_of_protocol_bps TERMS,
             rpt_weekend_active = ww_active window, rpt_weekend_starts_at = ww_starts_at window,
             rpt_weekend_ends_at = ww_ends_at window,
             rpt_weekend_share_bps = trm_weekend_stock_share_bps TERMS,
             rpt_earnings_share_bps = trm_earnings_stock_share_bps TERMS,
             rpt_calendar_read_at = (case calendar of CalendarOk c \<Rightarrow> Some (ecl_read_at c) | CalendarUnread \<Rightarrow> None)\<rparr>,
           mrr_headline = headlineOf actual weekdayAvailable,
           mrr_assets = cmp_lines actual, mrr_venues = cmp_venues actual,
           mrr_failed = failures,
           mrr_evidence = evidence_of universe (cmp_lines actual)\<rparr>)))))"

end
