(* ===== verification/Mirror_Morpho.thy ===== *)
theory Mirror_Morpho
  imports Mirror Capacity_Properties
begin

text \<open>
  What the Morpho half of the Mirror computation does on well-formed reads: it never throws, its
  line adds up and its offer is the reviewed one.
\<close>

section \<open>Well-formed reads\<close>

definition wf_position_reads :: "morpho_position \<Rightarrow> bool" where
  "wf_position_reads p \<longleftrightarrow> 0 \<le> pos_collateral p \<and> 0 \<le> pos_borrow_shares p"

text \<open>
  What the chain's own types and a working market guarantee: totals in uint128, the position's
  shares among the market's, interest since the last update below a hundredfold, a price and a
  collateral whose product leaves uint256 room.
\<close>

definition wf_morpho_snapshot :: "int \<Rightarrow> morpho_snapshot \<Rightarrow> bool" where
  "wf_morpho_snapshot now m \<longleftrightarrow>
     0 < mpr_lltv (mmi_params (mps_info m)) \<and> mpr_lltv (mmi_params (mps_info m)) \<le> WAD
     \<and> (\<forall>p. mps_position m = Read p \<longrightarrow> wf_position_reads p \<and> pos_collateral p \<le> 2 ^ 128)
     \<and> (\<forall>v. mps_price m = Read v \<longrightarrow> 0 \<le> v \<and> v \<le> 2 ^ 192)
     \<and> (\<forall>r. mps_borrow_rate m = Read r \<longrightarrow> 0 \<le> r)
     \<and> (\<forall>t. mps_market m = Read t \<longrightarrow> wf_totals t \<and> tot_supply_assets t \<le> 2 ^ 128
          \<and> tot_borrow_assets t \<le> 2 ^ 128 \<and> tot_borrow_shares t \<le> 2 ^ 128
          \<and> (\<forall>r. mps_borrow_rate m = Read r \<longrightarrow> r * (now - tot_last_update t) \<le> 10 ^ 20)
          \<and> (\<forall>p. mps_position m = Read p \<longrightarrow> pos_borrow_shares p \<le> tot_borrow_shares t))"

section \<open>Interest stays in range\<close>

lemma wTaylorCompoundedV1_eq:
  assumes "0 \<le> x" and "0 \<le> n"
  shows "wTaylorCompoundedV1 x n =
    Inr (x * n + x * n * (x * n) div (2 * MORPHO_WAD_V1)
         + x * n * (x * n) div (2 * MORPHO_WAD_V1) * (x * n) div (3 * MORPHO_WAD_V1))"
proof -
  let ?f = "x * n"
  have f: "0 \<le> ?f" using assms by simp
  have second: "mulDivDownV1 ?f ?f (2 * MORPHO_WAD_V1) = Inr (?f * ?f div (2 * MORPHO_WAD_V1))"
    by (rule mulDivDownV1_eq) simp_all
  have pos: "0 \<le> ?f * ?f div (2 * MORPHO_WAD_V1)" using f by (simp add: pos_imp_zdiv_nonneg_iff)
  have "mulDivDownV1 (?f * ?f div (2 * MORPHO_WAD_V1)) ?f (3 * MORPHO_WAD_V1)
      = Inr (?f * ?f div (2 * MORPHO_WAD_V1) * ?f div (3 * MORPHO_WAD_V1))"
    using pos f by (intro mulDivDownV1_eq) (simp_all del: times_divide_eq_left)
  with second show ?thesis by (simp add: wTaylorCompoundedV1_def Let_def)
qed

lemma wTaylorCompoundedV1_bound:
  assumes "0 \<le> x" and "0 \<le> n" and "x * n \<le> 10 ^ 20" and "wTaylorCompoundedV1 x n = Inr g"
  shows "0 \<le> g" and "g \<le> 10 ^ 24"
proof -
  define f where "f = x * n"
  have f: "0 \<le> f" "f \<le> 10 ^ 20" using assms by (simp_all add: f_def)
  have two: "0 \<le> f * f div (2 * MORPHO_WAD_V1)" "f * f div (2 * MORPHO_WAD_V1) \<le> 10 ^ 22"
  proof -
    show "0 \<le> f * f div (2 * MORPHO_WAD_V1)" using f by (simp add: pos_imp_zdiv_nonneg_iff)
    have "f * f \<le> 10 ^ 20 * 10 ^ 20" using f by (intro mult_mono) simp_all
    then have "f * f div (2 * MORPHO_WAD_V1) \<le> 10 ^ 20 * 10 ^ 20 div (2 * MORPHO_WAD_V1)"
      by (intro zdiv_mono1) simp_all
    also have "\<dots> \<le> 10 ^ 22" by (simp add: MORPHO_WAD_V1_def)
    finally show "f * f div (2 * MORPHO_WAD_V1) \<le> 10 ^ 22" .
  qed
  have three: "0 \<le> f * f div (2 * MORPHO_WAD_V1) * f div (3 * MORPHO_WAD_V1)"
      "f * f div (2 * MORPHO_WAD_V1) * f div (3 * MORPHO_WAD_V1) \<le> 9 * 10 ^ 23"
  proof -
    show "0 \<le> f * f div (2 * MORPHO_WAD_V1) * f div (3 * MORPHO_WAD_V1)"
      using f two by (simp add: pos_imp_zdiv_nonneg_iff)
    have "f * f div (2 * MORPHO_WAD_V1) * f \<le> 10 ^ 22 * 10 ^ 20" using f two by (intro mult_mono) simp_all
    then have "f * f div (2 * MORPHO_WAD_V1) * f div (3 * MORPHO_WAD_V1) \<le> 10 ^ 22 * 10 ^ 20 div (3 * MORPHO_WAD_V1)"
      by (intro zdiv_mono1) simp_all
    also have "\<dots> \<le> 9 * 10 ^ 23" by (simp add: MORPHO_WAD_V1_def)
    finally show "f * f div (2 * MORPHO_WAD_V1) * f div (3 * MORPHO_WAD_V1) \<le> 9 * 10 ^ 23" .
  qed
  have g: "g = f + f * f div (2 * MORPHO_WAD_V1) + f * f div (2 * MORPHO_WAD_V1) * f div (3 * MORPHO_WAD_V1)"
    using assms(4) wTaylorCompoundedV1_eq [OF assms(1,2)] by (simp add: f_def)
  show "0 \<le> g" using f two three unfolding g by linarith
  have "(10::int) ^ 20 + 10 ^ 22 + 9 * 10 ^ 23 \<le> 10 ^ 24" by simp
  then show "g \<le> 10 ^ 24" using f two three unfolding g by linarith
qed

lemma accrued_bounds:
  assumes "wf_totals t" and "0 \<le> r" and "morphoAccruedTotalsV1 t r now = Inr t'"
    and "tot_supply_assets t \<le> 2 ^ 128" and "tot_borrow_assets t \<le> 2 ^ 128"
    and "r * (now - tot_last_update t) \<le> 10 ^ 20"
  shows "tot_supply_assets t' \<le> 2 ^ 200" and "tot_borrow_assets t' \<le> 2 ^ 200"
    and "tot_borrow_shares t' = tot_borrow_shares t"
proof -
  obtain i where i: "tot_supply_assets t' = tot_supply_assets t + i" "tot_borrow_assets t' = tot_borrow_assets t + i"
      "tot_borrow_shares t' = tot_borrow_shares t"
    using morphoAccruedTotalsV1_total [OF assms(1,2), of now] assms(3) by auto
  have "i \<le> 2 ^ 199"
  proof (cases "now - tot_last_update t \<le> 0 \<or> tot_borrow_assets t = 0 \<or> r = 0")
    case True
    then have "t' = t" using assms(3) by (auto simp: morphoAccruedTotalsV1_def Let_def)
    with i(1) show ?thesis by simp
  next
    case False
    then have n: "0 \<le> now - tot_last_update t" by simp
    obtain g where g: "wTaylorCompoundedV1 r (now - tot_last_update t) = Inr g"
      using wTaylorCompoundedV1_eq [OF assms(2) n] by blast
    note b = wTaylorCompoundedV1_bound [OF assms(2) n assms(6) g]
    have "wMulDownV1 (tot_borrow_assets t) g = Inr (tot_borrow_assets t * g div MORPHO_WAD_V1)"
      using assms(1) b(1) by (intro wMulDownV1_eq) (simp add: wf_totals_def)
    then have "tot_borrow_assets t' = tot_borrow_assets t + tot_borrow_assets t * g div MORPHO_WAD_V1"
      using assms(3) False g by (auto simp: morphoAccruedTotalsV1_def Let_def split: if_splits)
    then have "i = tot_borrow_assets t * g div MORPHO_WAD_V1" using i(2) by simp
    moreover have "tot_borrow_assets t * g \<le> 2 ^ 128 * 10 ^ 24"
      using assms(1,5) b by (intro mult_mono) (simp_all add: wf_totals_def)
    ultimately have "i \<le> 2 ^ 128 * 10 ^ 24 div MORPHO_WAD_V1" by (simp add: zdiv_mono1)
    also have "\<dots> \<le> 2 ^ 199" by (simp add: MORPHO_WAD_V1_def)
    finally show ?thesis .
  qed
  then show "tot_supply_assets t' \<le> 2 ^ 200" "tot_borrow_assets t' \<le> 2 ^ 200"
    "tot_borrow_shares t' = tot_borrow_shares t"
    using i assms(4,5) by simp_all
qed

section \<open>The reads the computation runs on\<close>

definition wf_morpho_reads :: "morpho_reads \<Rightarrow> bool" where
  "wf_morpho_reads r \<longleftrightarrow>
     0 < mrd_lltv r \<and> mrd_lltv r \<le> WAD
     \<and> (\<forall>n. mrd_countable r = Some n \<longrightarrow> 0 \<le> n \<and> n \<le> 2 ^ 128)
     \<and> (\<forall>p. mrd_position r = Some p \<longrightarrow> wf_position_reads p \<and> pos_collateral p \<le> 2 ^ 128)
     \<and> (\<forall>v. mrd_price r = Some v \<longrightarrow> 0 \<le> v \<and> v \<le> 2 ^ 192)
     \<and> (\<forall>v. mrd_rate r = Some v \<longrightarrow> 0 \<le> v)
     \<and> (\<forall>a. mrd_accrued r = Some a \<longrightarrow> wf_totals a \<and> tot_supply_assets a \<le> 2 ^ 200
          \<and> tot_borrow_assets a \<le> 2 ^ 200 \<and> tot_borrow_shares a \<le> 2 ^ 128
          \<and> (\<forall>p. mrd_position r = Some p \<longrightarrow> pos_borrow_shares p \<le> tot_borrow_shares a))"

lemma max_borrow_bound:
  assumes "0 \<le> c" "c \<le> 2 ^ 129" "0 \<le> p" "p \<le> 2 ^ 192" "0 \<le> l" "l \<le> WAD"
  shows "max_borrow c p l \<le> UINT256_MAX"
proof -
  let ?x = "c * p div MORPHO_ORACLE_PRICE_SCALE_V1"
  have x0: "0 \<le> ?x" using assms by (simp add: pos_imp_zdiv_nonneg_iff)
  have "?x * l \<le> ?x * WAD" using assms(6) x0 by (intro mult_left_mono)
  then have "max_borrow c p l \<le> ?x * WAD div MORPHO_WAD_V1"
    unfolding max_borrow_def by (intro zdiv_mono1) simp_all
  also have "\<dots> = ?x" by (simp add: morpho_wad_eq)
  also have "?x \<le> 2 ^ 129 * 2 ^ 192 div MORPHO_ORACLE_PRICE_SCALE_V1"
    using assms by (intro zdiv_mono1 mult_mono) simp_all
  also have "\<dots> \<le> UINT256_MAX" by (simp add: MORPHO_ORACLE_PRICE_SCALE_V1_def UINT256_MAX_def)
  finally show ?thesis .
qed

lemma wf_market_state:
  assumes "wf_morpho_reads r" and "mrd_accrued r = Some a" and "0 \<le> price"
  shows "wf_market (market_state price (mrd_lltv r) a block)"
  using assms by (auto simp: wf_morpho_reads_def wf_market_def market_state_def wf_totals_def)

lemma wf_position_state:
  assumes "wf_morpho_reads r" and "mrd_accrued r = Some a" and "mrd_position r = Some p"
  shows "wf_position (market_state price (mrd_lltv r) a block) p"
  using assms by (auto simp: wf_morpho_reads_def wf_position_def market_state_def wf_position_reads_def)

definition offer_input :: "morpho_reads \<Rightarrow> int \<Rightarrow> int \<Rightarrow> morpho_position \<Rightarrow> morpho_totals \<Rightarrow> int \<Rightarrow> morpho_still_input" where
  "offer_input r price countable p a block =
     \<lparr>msi_market = market_state price (mrd_lltv r) a block, msi_position = p,
      msi_additional_collateral = Some countable, msi_share_bps = Some 5000\<rparr>"

lemma wf_offer_input:
  assumes r: "wf_morpho_reads r" and "mrd_price r = Some price" and "mrd_countable r = Some n"
    and "mrd_position r = Some p" and "mrd_accrued r = Some a"
  shows "wf_still_input (offer_input r price n p a block)"
proof -
  have price: "0 \<le> price" "price \<le> 2 ^ 192" and n: "0 \<le> n" "n \<le> 2 ^ 128"
    and c: "0 \<le> pos_collateral p" "pos_collateral p \<le> 2 ^ 128" and l: "0 \<le> mrd_lltv r" "mrd_lltv r \<le> WAD"
    and t: "tot_supply_assets a \<le> 2 ^ 200" "tot_borrow_assets a \<le> 2 ^ 200" "tot_borrow_shares a \<le> 2 ^ 128"
    using assms by (auto simp: wf_morpho_reads_def wf_position_reads_def)
  have u: "(2::int) ^ 192 \<le> UINT256_MAX" "(2::int) ^ 200 < UINT256_MAX" "(2::int) ^ 128 \<le> UINT256_MAX"
      "(2::int) ^ 129 \<le> UINT256_MAX" "(2::int) ^ 128 + 2 ^ 128 = 2 ^ 129"
    by (simp_all add: UINT256_MAX_def)
  have "max_borrow (pos_collateral p + n) price (mrd_lltv r) \<le> UINT256_MAX"
    using price n c l u by (intro max_borrow_bound) linarith+
  then show ?thesis
    using wf_market_state [OF r assms(5) price(1), of block] wf_position_state [OF r assms(5,4), of price block]
      price n c l t u
    by (simp add: wf_still_input_def offer_input_def after_deposit_def position_max_borrow_def market_state_def BPS_def)
qed

lemma crypto_share [simp]: "stillShareBps CryptoKind False False = 5000"
  by simp

lemma morpho_available_eq:
  "morpho_available r block =
     (case (mrd_price r, mrd_countable r, mrd_position r, mrd_accrued r) of
        (Some price, Some n, Some p, Some a) \<Rightarrow>
          bindR (morphoStillCapacityV1 (offer_input r price n p a block)) (\<lambda>c. Inr (Some (cap_available_cents c)))
      | _ \<Rightarrow> Inr None)"
  by (simp add: morpho_available_def offer_input_def cong: option.case_cong)

lemma morpho_available_total [total]:
  "wf_morpho_reads r \<Longrightarrow> \<exists>v. morpho_available r block = Inr v"
  using morphoStillCapacityV1_total [OF wf_offer_input, of r _ _ _ _ block]
  by (fastforce simp: morpho_available_eq split: option.split)

lemma morpho_debt_total [total]:
  assumes "wf_morpho_reads r"
  shows "\<exists>d. morpho_debt r = Inr d \<and> (\<forall>x. d = Some x \<longrightarrow> 0 \<le> x)"
proof (cases "\<exists>p a. mrd_position r = Some p \<and> mrd_accrued r = Some a \<and> pos_borrow_shares p \<noteq> 0")
  case True
  then obtain p a where h: "mrd_position r = Some p" "mrd_accrued r = Some a" "pos_borrow_shares p \<noteq> 0" by blast
  then have "0 \<le> pos_borrow_shares p" "0 \<le> tot_borrow_assets a" "0 \<le> tot_borrow_shares a"
    using assms by (auto simp: wf_morpho_reads_def wf_position_reads_def wf_totals_def)
  then show ?thesis
    using h by (simp add: morpho_debt_def toAssetsUpV1_eq MORPHO_VIRTUAL_ASSETS_V1_def MORPHO_VIRTUAL_SHARES_V1_def)
next
  case False
  then show ?thesis by (auto simp: morpho_debt_def split: option.splits)
qed

text \<open>With the totals read, the debt stated is the one the offer and the health check rest on.\<close>

lemma morpho_debt_eq:
  assumes "wf_morpho_reads r" and "mrd_position r = Some p" and "mrd_accrued r = Some a" and "0 \<le> price"
  shows "morpho_debt r = Inr (Some (debt_of (market_state price (mrd_lltv r) a block) p))"
proof -
  have "0 \<le> pos_borrow_shares p" "0 \<le> tot_borrow_assets a" "0 \<le> tot_borrow_shares a"
    using assms by (auto simp: wf_morpho_reads_def wf_position_reads_def wf_totals_def)
  then show ?thesis
    using assms
    by (simp add: morpho_debt_def toAssetsUpV1_eq debt_of_def share_side_def asset_side_def market_state_def
        MORPHO_VIRTUAL_SHARES_V1_def)
qed

lemma morpho_capacity_cents_eq:
  assumes "wf_morpho_reads r" and "mrd_price r = Some price" and "mrd_countable r = Some n"
    and "mrd_position r = Some p"
  shows "morpho_capacity_cents r =
    Inr (Some (max_borrow (n + pos_collateral p) price (mrd_lltv r) * 5000 div BPS div USDC_UNITS_PER_CENT))"
proof -
  have h: "0 \<le> n + pos_collateral p" "n + pos_collateral p \<le> 2 ^ 129" "0 \<le> price" "price \<le> 2 ^ 192"
      "0 \<le> mrd_lltv r" "mrd_lltv r \<le> WAD"
    using assms by (auto simp: wf_morpho_reads_def wf_position_reads_def)
  show ?thesis
    using assms(2-4) morphoMaxBorrowAssetsV1_eq [OF h(1,3,5)] max_borrow_bound [OF h] max_borrow_nonneg [OF h(1,3,5)]
    by (simp add: morpho_capacity_cents_def stillBorrowLimitV1_eq BPS_def)
qed

lemma morpho_capacity_cents_total [total]:
  assumes "wf_morpho_reads r"
  shows "\<exists>c. morpho_capacity_cents r = Inr c"
proof (cases "\<exists>price n p. mrd_price r = Some price \<and> mrd_countable r = Some n \<and> mrd_position r = Some p")
  case True
  with morpho_capacity_cents_eq [OF assms] show ?thesis by blast
next
  case False
  then show ?thesis by (auto simp: morpho_capacity_cents_def split: option.splits)
qed

text \<open>What a venue line promises: its parts add up and its amount is within its bounds.\<close>

definition line_adds_up :: "venue_line \<Rightarrow> bool" where
  "line_adds_up v \<longleftrightarrow>
     (case vln_available_cents v of
        None \<Rightarrow> vln_deductions v = \<lparr>ded_loans_cents = None, ded_venue_limit_cents = None\<rparr>
      | Some a \<Rightarrow> \<exists>c d q. vln_capacity_cents v = Some c \<and> vln_debt_cents v = Some d \<and> vln_liquidity_cents v = Some q
          \<and> 0 \<le> a \<and> a \<le> max 0 (c - d) \<and> a \<le> q
          \<and> vln_deductions v = \<lparr>ded_loans_cents = Some (min d c), ded_venue_limit_cents = Some (c - min d c - a)\<rparr>
          \<and> 0 \<le> c - min d c - a)"

lemma deductionsOf_adds_up:
  assumes "0 \<le> a" and "a \<le> max 0 (c - d)" and "0 \<le> c"
  shows "deductionsOf (Some c) (Some d) (Some a) =
      \<lparr>ded_loans_cents = Some (min d c), ded_venue_limit_cents = Some (c - min d c - a)\<rparr>
    \<and> 0 \<le> c - min d c - a"
  using assms by (auto simp: deductionsOf_def Let_def)

lemma deductionsOf_unknown [simp]:
  "deductionsOf c d None = \<lparr>ded_loans_cents = None, ded_venue_limit_cents = None\<rparr>"
  by (simp add: deductionsOf_def split: option.split)

lemma morpho_available_facts:
  assumes r: "wf_morpho_reads r" and "morpho_available r block = Inr (Some v)"
  obtains c d a p where "morpho_capacity_cents r = Inr (Some c)" and "morpho_debt r = Inr (Some d)"
    and "mrd_accrued r = Some a" and "0 \<le> v" and "0 \<le> c" and "0 \<le> d"
    and "v \<le> max 0 (c - ceil_div d USDC_UNITS_PER_CENT)"
    and "v \<le> max 0 (tot_supply_assets a - tot_borrow_assets a) div USDC_UNITS_PER_CENT"
    and "mrd_position r = Some p"
proof -
  from assms(2) obtain price n p a where h: "mrd_price r = Some price" "mrd_countable r = Some n"
      "mrd_position r = Some p" "mrd_accrued r = Some a"
    by (auto simp: morpho_available_eq split: option.splits)
  let ?i = "offer_input r price n p a block" and ?m = "market_state price (mrd_lltv r) a block"
  from assms(2) h obtain cap where cap: "morphoStillCapacityV1 ?i = Inr cap" "v = cap_available_cents cap"
    by (auto simp: morpho_available_eq)
  obtain base where base: "morphoInputs ?i = Inr (after_deposit ?i, base)"
    "0 \<le> cap_available_cents cap" "cap_available_cents cap \<le> cap_available_cents base"
    by (rule morphoStillCapacityV1_InrD [OF cap(1)]) blast
  note b = stillBorrowCapacityV1_InrD [OF morphoInputs_InrD(5) [OF base(1)]]
  have price: "0 \<le> price" using r h by (simp add: wf_morpho_reads_def)
  let ?c = "max_borrow (n + pos_collateral p) price (mrd_lltv r) * 5000 div BPS div USDC_UNITS_PER_CENT"
  let ?d = "debt_of ?m p"
  have lim: "lim_assets base div USDC_UNITS_PER_CENT = ?c"
    using b(6) by (simp add: offer_input_def after_deposit_def position_max_borrow_def market_state_def add.commute)
  have parts: "debt_of (msi_market ?i) (after_deposit ?i) = ?d"
      "lendable (msi_market ?i) = max 0 (tot_supply_assets a - tot_borrow_assets a)"
    by (simp_all add: offer_input_def after_deposit_def debt_of_def lendable_def market_state_def)
  have "v \<le> base_cents (lim_assets base) ?d (max 0 (tot_supply_assets a - tot_borrow_assets a))"
    using base(3) b(10) cap(2) parts by simp
  then have bound: "v \<le> max 0 (?c - ceil_div ?d USDC_UNITS_PER_CENT)"
      "v \<le> max 0 (tot_supply_assets a - tot_borrow_assets a) div USDC_UNITS_PER_CENT"
    by (simp_all add: base_cents_def lim)
  have "0 \<le> ?d"
    using debt_of_nonneg [OF wf_market_state [OF r h(4) price] wf_position_state [OF r h(4,3)], of block] .
  moreover have "0 \<le> ?c"
  proof -
    have "0 \<le> max_borrow (n + pos_collateral p) price (mrd_lltv r)"
      using r h by (intro max_borrow_nonneg) (auto simp: wf_morpho_reads_def wf_position_reads_def)
    then show ?thesis by (simp add: pos_imp_zdiv_nonneg_iff)
  qed
  ultimately show ?thesis
    using that morpho_capacity_cents_eq [OF r h(1-3)] morpho_debt_eq [OF r h(3,4) price, of block] h base(2) cap(2) bound
    by blast
qed

lemma morpho_venue_adds_up:
  assumes r: "wf_morpho_reads r" and c: "morpho_capacity_cents r = Inr c"
    and "morpho_venue_line asset r block c failed = Inr v"
  shows "line_adds_up v"
proof (cases "vln_available_cents v")
  case None
  with assms(3) show ?thesis by (auto simp: morpho_venue_line_def line_adds_up_def)
next
  case (Some x)
  with assms(3) have av: "morpho_available r block = Inr (Some x)" by (auto simp: morpho_venue_line_def)
  obtain c' d a p where f: "morpho_capacity_cents r = Inr (Some c')" "morpho_debt r = Inr (Some d)"
    "mrd_accrued r = Some a" "0 \<le> x" "0 \<le> c'" "0 \<le> d"
    "x \<le> max 0 (c' - ceil_div d USDC_UNITS_PER_CENT)"
    "x \<le> max 0 (tot_supply_assets a - tot_borrow_assets a) div USDC_UNITS_PER_CENT"
    by (rule morpho_available_facts [OF r av])
  have "vln_capacity_cents v = Some c'" "vln_debt_cents v = Some (ceil_div d USDC_UNITS_PER_CENT)"
    "vln_liquidity_cents v = Some (max 0 (tot_supply_assets a - tot_borrow_assets a) div USDC_UNITS_PER_CENT)"
    "vln_deductions v = deductionsOf (Some c') (Some (ceil_div d USDC_UNITS_PER_CENT)) (Some x)"
    using assms(3) c f av by (auto simp: morpho_venue_line_def usdcToCents_eq)
  with Some f deductionsOf_adds_up [OF f(4,7,5)] show ?thesis by (auto simp: line_adds_up_def)
qed

section \<open>The market never throws\<close>

lemma morpho_safety_total [total]:
  assumes r: "wf_morpho_reads r"
  shows "\<exists>s. morpho_safety asset r debt block = Inr s"
proof (cases "\<exists>d price p a. debt = Some d \<and> mrd_price r = Some price \<and> mrd_position r = Some p
    \<and> mrd_accrued r = Some a \<and> 0 < d")
  case False
  then show ?thesis by (auto simp: morpho_safety_def split: option.splits)
next
  case True
  then obtain d price p a where h: "debt = Some d" "mrd_price r = Some price" "mrd_position r = Some p"
      "mrd_accrued r = Some a" "0 < d" by blast
  let ?m = "market_state price (mrd_lltv r) a block"
  have wf: "wf_market ?m" "wf_position ?m p"
    using wf_market_state [OF r h(4)] wf_position_state [OF r h(4,3)] r h(2) by (auto simp: wf_morpho_reads_def)
  obtain hl where hl: "morphoHealthV1 ?m p = Inr hl" using morphoHealthV1_eq [OF wf] by blast
  obtain mg st where sf: "safetyFromHealthFactor (case hlt_factor_wad hl of None \<Rightarrow> 0 | Some f \<Rightarrow> f) = Inr (mg, st)"
    using safety_total by blast
  obtain q where q: "morphoLiquidationPriceV1 ?m p = Inr q" using liquidation_price_total [OF wf] by blast
  have "\<exists>c. optR q (\<lambda>l. mulDiv l (10 ^ cry_decimals asset) (PRICE_SCALE_MORPHO * 10 ^ 4) Up) = Inr c"
  proof (rule optR_total)
    fix l assume "q = Some l"
    with q have l: "morphoLiquidationPriceV1 ?m p = Inr (Some l)" by simp
    note d = morphoLiquidationPriceV1_SomeD [OF wf l]
    have "0 \<le> l" unfolding d(3) using d(1,2) by (intro ceil_div_nonneg) (simp_all add: less_imp_le)
    then show "\<exists>y. mulDiv l (10 ^ cry_decimals asset) (PRICE_SCALE_MORPHO * 10 ^ 4) Up = Inr y"
      by (simp add: mulDiv_eq PRICE_SCALE_MORPHO_def)
  qed
  then show ?thesis using h hl sf q by (auto simp: morpho_safety_def Let_def)
qed

lemma morpho_venue_line_total [total]:
  assumes r: "wf_morpho_reads r"
  shows "\<exists>v. morpho_venue_line asset r block capacity failed = Inr v"
proof -
  obtain d where d: "morpho_debt r = Inr d" "\<forall>x. d = Some x \<longrightarrow> 0 \<le> x" using morpho_debt_total [OF r] by blast
  obtain dc where dc: "optR d (\<lambda>d. usdcToCents d Up) = Inr dc"
    using d(2) by (cases d) (simp_all add: usdcToCents_eq)
  obtain av where av: "morpho_available r block = Inr av" using morpho_available_total [OF r] by blast
  obtain s ps where s: "morpho_safety asset r d block = Inr (s, ps)" using morpho_safety_total [OF r, of asset d] by fastforce
  have "\<exists>y. optR (mrd_rate r) (\<lambda>rate. mulDiv (rate * SECONDS_PER_YEAR) BPS WAD Up) = Inr y"
    using r by (intro optR_total) (simp add: mulDiv_eq wf_morpho_reads_def SECONDS_PER_YEAR_def)
  moreover have "\<exists>y. optR (mrd_accrued r)
      (\<lambda>a. usdcToCents (max_money 0 (tot_supply_assets a - tot_borrow_assets a)) Down) = Inr y"
    by (intro optR_total) (simp add: usdcToCents_eq)
  ultimately show ?thesis using d(1) dc av s by (auto simp: morpho_venue_line_def)
qed

lemma morpho_line_total [total]:
  assumes r: "wf_morpho_reads r" and "\<And>n. crw_wallet w = Some n \<Longrightarrow> 0 \<le> n"
  shows "\<exists>l. morpho_line asset w r capacity failed = Inr l"
proof -
  have l: "0 \<le> mrd_lltv r" and price: "\<And>v. mrd_price r = Some v \<Longrightarrow> 0 \<le> v"
    and c: "\<And>p. mrd_position r = Some p \<Longrightarrow> 0 \<le> pos_collateral p"
    using r by (auto simp: wf_morpho_reads_def wf_position_reads_def)
  obtain pf where pf: "mulDiv (mrd_lltv r) BPS WAD Down = Inr pf" "0 \<le> pf"
    using mulDiv_total [OF l _ units_values(1), of BPS Down] by auto
  obtain sf where sf: "mulDiv pf (stillShareBps CryptoKind False False) BPS Down = Inr sf"
    using mulDiv_total [OF pf(2) _ units_values(3), of 5000 Down] by auto
  let ?scale = "PRICE_SCALE_MORPHO * 10 ^ 4"
  have scale: "0 < ?scale" by (simp add: PRICE_SCALE_MORPHO_def)
  have "\<exists>y. optR (mrd_price r) (\<lambda>p. mulDiv p (10 ^ cry_decimals asset) ?scale Down) = Inr y"
    using price scale by (intro optR_total) (simp add: mulDiv_eq)
  then obtain pc where pc: "optR (mrd_price r) (\<lambda>p. mulDiv p (10 ^ cry_decimals asset) ?scale Down) = Inr pc" by blast
  let ?held = "sum_known (crw_wallet w) (map_option pos_collateral (mrd_position r))"
  have held: "0 \<le> n" if "?held = Some n" for n
    using that assms(2) c by (auto simp: sum_known_def split: option.splits)
  have "\<exists>y. optR (case (mrd_price r, ?held) of (Some p, Some n) \<Rightarrow> Some (p, n) | _ \<Rightarrow> None)
               (\<lambda>(p, n). mulDiv n p ?scale Down) = Inr y"
    using price scale held by (intro optR_total) (auto simp: mulDiv_eq split: option.splits)
  then show ?thesis using pf(1) sf pc by (auto simp: morpho_line_def Let_def)
qed

text \<open>The balances that count.\<close>

definition wf_balances :: "wallet_snapshot \<Rightarrow> bool" where
  "wf_balances s \<longleftrightarrow> (\<forall>t n. map_of (wsn_balances s) t = Some (Read n) \<longrightarrow> 0 \<le> n \<and> n \<le> 2 ^ 127)
     \<and> (\<forall>n. wsn_native_eth s = Read n \<longrightarrow> 0 \<le> n \<and> n \<le> 2 ^ 127)"

lemma need_fst: "fst (need outcome what reads) = (case outcome of Some (Read v) \<Rightarrow> Some v | _ \<Rightarrow> None)"
  by (simp add: need_def split: option.splits outcome.splits)

lemma need_Read: "fst (need outcome what reads) = Some v \<longleftrightarrow> outcome = Some (Read v)"
  by (simp add: need_fst split: option.splits outcome.splits)

lemma need_SomeD: "need (Some x) what reads = (Some v, reads') \<Longrightarrow> x = Read v"
  using need_Read [of "Some x" what reads v] by simp

lemma crypto_wallet_bounds:
  assumes "wf_balances s"
  shows "crw_wallet (fst (crypto_wallet_of s asset reads)) = Some n \<Longrightarrow> 0 \<le> n"
    and "crw_countable (fst (crypto_wallet_of s asset reads)) = Some n \<Longrightarrow> 0 \<le> n \<and> n \<le> 2 ^ 128"
proof -
  have native: "0 \<le> k \<and> k \<le> 2 ^ 127"
    if "wsn_native_eth s = Read k" for k using assms that by (simp add: wf_balances_def)
  have token: "0 \<le> k \<and> k \<le> 2 ^ 127"
    if "map_of (wsn_balances s) t = Some (Read k)" for k t using assms that by (simp add: wf_balances_def)
  have two: "(2::int) ^ 127 + 2 ^ 127 = 2 ^ 128" by simp
  have spend: "0 \<le> spendable_native k \<and> spendable_native k \<le> k" if "0 \<le> k" for k
    using that by (simp add: spendable_native_def TERMS_def)
  obtain tok r1 where t: "need (map_of (wsn_balances s) (to_lower (cry_token asset)))
      (wrapped_symbol asset @ '' wallet balance'') reads = (tok, r1)" by (metis surj_pair)
  obtain nat r2 where nt: "(if cry_includes_native_eth asset
      then need (Some (wsn_native_eth s)) ''ETH wallet balance'' r1 else (Some 0, r1)) = (nat, r2)" by (metis surj_pair)
  have tb: "0 \<le> k \<and> k \<le> 2 ^ 127" if "tok = Some k" for k
    using t that token need_Read by (metis fst_conv)
  have nb: "0 \<le> k \<and> k \<le> 2 ^ 127" if "nat = Some k" for k
    using nt that native need_Read [of "Some (wsn_native_eth s)" "''ETH wallet balance''" r1 k]
    by (auto split: if_splits)
  have w: "crypto_wallet_of s asset reads = (\<lparr>crw_wallet = sum_known tok nat,
      crw_countable = sum_known tok (map_option spendable_native nat),
      crw_limits = (case nat of
             Some n \<Rightarrow> if n > 0 \<and> spendable_native n \<noteq> n then [GasReserve] else [] | None \<Rightarrow> [])\<rparr>, r2)"
    by (simp add: crypto_wallet_of_def t nt)
  show "crw_wallet (fst (crypto_wallet_of s asset reads)) = Some n \<Longrightarrow> 0 \<le> n"
    using tb nb by (auto simp: w sum_known_def split: option.splits)
  show "crw_countable (fst (crypto_wallet_of s asset reads)) = Some n \<Longrightarrow> 0 \<le> n \<and> n \<le> 2 ^ 128"
    using tb nb spend two by (fastforce simp: w sum_known_def split: option.splits)
qed

lemma line_adds_up_unread: "line_adds_up (unread_venue venue market label failed)"
  by (simp add: line_adds_up_def unread_venue_def)

lemma morpho_reads_wf:
  assumes m: "wf_morpho_snapshot now m"
    and "\<And>n. countable = Some n \<Longrightarrow> 0 \<le> n \<and> n \<le> 2 ^ 128"
    and "optR (case (fst (need (Some (mps_market m)) l3 r3), fst (need (Some (mps_borrow_rate m)) l4 r4)) of
           (Some t, Some r) \<Rightarrow> Some (t, r) | _ \<Rightarrow> None)
         (\<lambda>(t, r). morphoAccruedTotalsV1 t r now) = Inr accrued"
  shows "wf_morpho_reads \<lparr>mrd_price = fst (need (Some (mps_price m)) l1 r1), mrd_countable = countable,
    mrd_position = fst (need (Some (mps_position m)) l2 r2), mrd_rate = fst (need (Some (mps_borrow_rate m)) l4 r4),
    mrd_accrued = accrued, mrd_lltv = mpr_lltv (mmi_params (mps_info m))\<rparr>"
proof -
  have acc: "wf_totals a \<and> tot_supply_assets a \<le> 2 ^ 200 \<and> tot_borrow_assets a \<le> 2 ^ 200
      \<and> tot_borrow_shares a \<le> 2 ^ 128 \<and> (\<forall>p. mps_position m = Read p \<longrightarrow> pos_borrow_shares p \<le> tot_borrow_shares a)"
    if known: "accrued = Some a" for a
  proof -
    obtain t r where t: "mps_market m = Read t" "mps_borrow_rate m = Read r" "morphoAccruedTotalsV1 t r now = Inr a"
      using assms(3) unfolding known by (auto simp: optR_Inr need_Read split: option.splits)
    have h: "wf_totals t" "0 \<le> r" "tot_supply_assets t \<le> 2 ^ 128" "tot_borrow_assets t \<le> 2 ^ 128"
        "r * (now - tot_last_update t) \<le> 10 ^ 20" "tot_borrow_shares t \<le> 2 ^ 128"
        "\<forall>p. mps_position m = Read p \<longrightarrow> pos_borrow_shares p \<le> tot_borrow_shares t"
      using m t by (auto simp: wf_morpho_snapshot_def)
    show ?thesis
      using accrued_bounds [OF h(1,2) t(3) h(3-5)] morphoAccruedTotalsV1_wf [OF h(1,2) t(3)] h(6,7) by simp
  qed
  show ?thesis
    using m assms(2) acc by (auto simp: wf_morpho_reads_def wf_morpho_snapshot_def need_Read)
qed

lemma computeMorpho_total [total]:
  assumes bal: "wf_balances s" and market: "\<And>m. market = Some m \<Longrightarrow> wf_morpho_snapshot (wsn_block_timestamp s) m"
  shows "\<exists>c fs'. computeMorpho asset market s fs = Inr (c, fs') \<and> (\<forall>v \<in> set (cmp_venues c). line_adds_up v)"
proof (cases market)
  case None
  then show ?thesis
    by (simp add: computeMorpho_def Let_def case_prod_beta line_adds_up_unread)
next
  case (Some m)
  let ?label = "morpho_label asset"
  obtain w r1 where w: "crypto_wallet_of s asset (fs, []) = (w, r1)" by (metis surj_pair)
  obtain position r2 where pos: "need (Some (mps_position m)) (?label @ '' position'') r1 = (position, r2)"
    by (metis surj_pair)
  obtain price r3 where price: "need (Some (mps_price m)) (cry_symbol asset @ '' price on Morpho'') r2 = (price, r3)"
    by (metis surj_pair)
  obtain stored r4 where stored: "need (Some (mps_market m)) (?label @ '' market totals'') (fst r3, []) = (stored, r4)"
    by (metis surj_pair)
  obtain rate r5 where rate: "need (Some (mps_borrow_rate m)) (?label @ '' borrow rate'') r4 = (rate, r5)"
    by (metis surj_pair)
  note m = market [OF Some]
  have "\<exists>y. optR (case (stored, rate) of (Some t, Some r) \<Rightarrow> Some (t, r) | _ \<Rightarrow> None)
      (\<lambda>(t, r). morphoAccruedTotalsV1 t r (wsn_block_timestamp s)) = Inr y"
  proof (rule optR_total)
    fix v assume v: "(case (stored, rate) of (Some t, Some r) \<Rightarrow> Some (t, r) | _ \<Rightarrow> None) = Some v"
    then obtain t r where t: "stored = Some t" "rate = Some r" "v = (t, r)" by (auto split: option.splits)
    have "mps_market m = Read t" "mps_borrow_rate m = Read r"
      using need_SomeD [OF stored [unfolded t(1)]] need_SomeD [OF rate [unfolded t(2)]] by simp_all
    then have "wf_totals t" "0 \<le> r" using m by (auto simp: wf_morpho_snapshot_def)
    from morphoAccruedTotalsV1_total [OF this, of "wsn_block_timestamp s"] t
    show "\<exists>y. (case v of (t, r) \<Rightarrow> morphoAccruedTotalsV1 t r (wsn_block_timestamp s)) = Inr y" by auto
  qed
  then obtain accrued where acc: "optR (case (stored, rate) of (Some t, Some r) \<Rightarrow> Some (t, r) | _ \<Rightarrow> None)
      (\<lambda>(t, r). morphoAccruedTotalsV1 t r (wsn_block_timestamp s)) = Inr accrued" by blast
  define r where "r = \<lparr>mrd_price = price, mrd_countable = crw_countable w, mrd_position = position, mrd_rate = rate,
    mrd_accrued = accrued, mrd_lltv = mpr_lltv (mmi_params (mps_info m))\<rparr>"
  have wfr: "wf_morpho_reads r"
  proof -
    have bound: "0 \<le> n \<and> n \<le> 2 ^ 128" if "crw_countable w = Some n" for n
      using crypto_wallet_bounds(2) [OF bal, of asset "(fs, [])" n] w that by simp
    have reads: "price = fst (need (Some (mps_price m)) (cry_symbol asset @ '' price on Morpho'') r2)"
        "position = fst (need (Some (mps_position m)) (?label @ '' position'') r1)"
        "rate = fst (need (Some (mps_borrow_rate m)) (?label @ '' borrow rate'') r4)"
      by (simp_all add: price pos rate)
    show ?thesis
      unfolding r_def reads
    proof (rule morpho_reads_wf [OF m bound])
      show "optR (case (fst (need (Some (mps_market m)) (?label @ '' market totals'') (fst r3, [])),
             fst (need (Some (mps_borrow_rate m)) (?label @ '' borrow rate'') r4)) of
             (Some t, Some r) \<Rightarrow> Some (t, r) | _ \<Rightarrow> None)
           (\<lambda>(t, r). morphoAccruedTotalsV1 t r (wsn_block_timestamp s)) = Inr accrued"
        using acc by (simp add: stored rate)
    qed
  qed
  have wallet: "0 \<le> n" if "crw_wallet w = Some n" for n
    using crypto_wallet_bounds(1) [OF bal, of asset "(fs, [])" n] w that by simp
  obtain capacity where cap: "morpho_capacity_cents r = Inr capacity" using morpho_capacity_cents_total [OF wfr] by blast
  obtain line where line: "morpho_line asset w r capacity (snd r3) = Inr line"
    using morpho_line_total [OF wfr wallet] by blast
  obtain venue where venue: "morpho_venue_line asset r (wsn_block_number s) capacity (snd r5) = Inr venue"
    using morpho_venue_line_total [OF wfr] by blast
  have adds: "line_adds_up venue" by (rule morpho_venue_adds_up [OF wfr cap venue])
  note acc' = acc [simplified]
  show ?thesis
    using Some adds
    by (simp add: computeMorpho_def Let_def w pos price stored rate acc' r_def [symmetric] cap line venue)
qed

end
