(* ===== verification/Mirror_Whole.thy ===== *)
theory Mirror_Whole
  imports Mirror_Aave
begin

text \<open>
  The Mirror computation as a whole on well-formed reads: it answers, every venue line adds up, and
  the weekend's stricter share can only lower what is available.
\<close>

section \<open>The Aave venue line\<close>

lemma lendable_nonneg:
  assumes "\<forall>v. liquidity = Some v \<longrightarrow> 0 \<le> v" and "lendable_usdc noCap config spoke liquidity owed = Some l"
  shows "0 \<le> l"
  using assms by (auto simp: lendable_usdc_def Let_def split: option.splits if_splits)

definition wf_totals_aave :: "aave_totals \<Rightarrow> bool" where
  "wf_totals_aave t \<longleftrightarrow> (\<forall>d. att_debt t = Some d \<longrightarrow> 0 \<le> d) \<and> 0 \<le> att_capacity_cents t
     \<and> (\<forall>l. att_lendable t = Some l \<longrightarrow> 0 \<le> l) \<and> (\<forall>p. att_premium_bps t = Some p \<longrightarrow> 0 \<le> p)"

text \<open>What is available, where everything it depends on is known.\<close>

lemma aave_available_eq:
  assumes "\<forall>l. lend = Some l \<longrightarrow> 0 \<le> l"
  shows "aave_available known cap debt lend =
    Inr (case (debt, lend) of
      (Some d, Some l) \<Rightarrow> if known then Some (min (max 0 (cap - d)) (l div USDC_UNITS_PER_CENT)) else None
    | _ \<Rightarrow> None)"
  using assms by (cases debt; cases lend) (simp_all add: aave_available_def usdcToCents_eq)

lemma aave_venue_line_total [total]:
  assumes t: "wf_totals_aave t" and r: "\<forall>r. drawn = Some r \<longrightarrow> 0 \<le> r"
  shows "\<exists>v. aave_venue_line t drawn safety prices failed = Inr (v, vln_available_cents v) \<and> line_adds_up v"
proof -
  let ?debt = "map_option (\<lambda>d. ceil_div d USDC_UNITS_PER_CENT) (att_debt t)"
  let ?liq = "map_option (\<lambda>l. l div USDC_UNITS_PER_CENT) (att_lendable t)"
  have debt: "optR (att_debt t) (\<lambda>d. usdcToCents d Up) = Inr ?debt"
    using t by (cases "att_debt t") (simp_all add: wf_totals_aave_def usdcToCents_eq)
  have liq: "optR (att_lendable t) (\<lambda>l. usdcToCents l Down) = Inr ?liq"
    using t by (cases "att_lendable t") (simp_all add: wf_totals_aave_def usdcToCents_eq)
  have l: "\<forall>l. att_lendable t = Some l \<longrightarrow> 0 \<le> l" using t by (simp add: wf_totals_aave_def)
  note av = aave_available_eq [OF l, of "att_capacity_known t" "att_capacity_cents t" ?debt]
  let ?pair = "case (drawn, att_premium_bps t) of (Some r, Some p) \<Rightarrow> Some (r, p) | _ \<Rightarrow> None"
  have "\<exists>x. optR ?pair (\<lambda>(r, p). mulDiv r (BPS + p) RAY Up) = Inr x"
    using t r by (intro optR_total) (auto simp: wf_totals_aave_def mulDiv_eq split: option.splits)
  then obtain rate where rate: "optR ?pair (\<lambda>(r, p). mulDiv r (BPS + p) RAY Up) = Inr rate" by blast
  show ?thesis
  proof (cases "\<exists>d l. att_debt t = Some d \<and> att_lendable t = Some l \<and> att_capacity_known t")
    case True
    then obtain d l where h: "att_debt t = Some d" "att_lendable t = Some l" "att_capacity_known t" by blast
    define a where "a = min (max 0 (att_capacity_cents t - ceil_div d USDC_UNITS_PER_CENT)) (l div USDC_UNITS_PER_CENT)"
    have a: "0 \<le> a" "a \<le> max 0 (att_capacity_cents t - ceil_div d USDC_UNITS_PER_CENT)" "a \<le> l div USDC_UNITS_PER_CENT"
      using t h by (auto simp: a_def wf_totals_aave_def pos_imp_zdiv_nonneg_iff)
    have "0 \<le> att_capacity_cents t" using t by (simp add: wf_totals_aave_def)
    note ded = deductionsOf_adds_up [OF a(1,2) this]
    show ?thesis
      using h ded a unfolding aave_venue_line_def debt bindR_Inr av liq rate
      by (auto simp: a_def [symmetric] line_adds_up_def Let_def)
  next
    case False
    then have "(case (?debt, att_lendable t) of
        (Some d, Some l) \<Rightarrow> if att_capacity_known t then Some (min (max 0 (att_capacity_cents t - d)) (l div USDC_UNITS_PER_CENT)) else None
      | _ \<Rightarrow> None) = None" by (auto split: option.splits)
    then show ?thesis
      unfolding aave_venue_line_def debt bindR_Inr av liq rate by (simp add: line_adds_up_def Let_def)
  qed
qed

section \<open>The Aave part\<close>

lemma whenSome_value:
  "fst (whenSome x f what reads) = (case x of None \<Rightarrow> None | Some v \<Rightarrow> outcome_value (f v))"
  by (simp add: whenSome_def split: option.split)

lemma compute_aave_open_total [total]:
  assumes a: "wf_aave s a"
  shows "\<exists>c fs'. compute_aave_open known a s weekend eo fs = Inr (c, fs')
    \<and> (\<forall>v \<in> set (cmp_venues c). line_adds_up v)
    \<and> (cmp_complete c \<longrightarrow> (\<forall>v \<in> set (cmp_venues c). vln_available_cents v \<noteq> None))"
proof -
  let ?usdc = "find (\<lambda>r. ari_role (ars_info r) = UsdcRole) (avs_reserves a)"
  let ?cpu = "10 ^ (akn_oracle_decimals known - 2) :: int"
  obtain usdcPrice r1 where price: "whenSome ?usdc ars_price ''USDC price on Aave'' (fs, []) = (usdcPrice, r1)"
    by (metis surj_pair)
  obtain debt r2 where debt: "need (Some (avs_usdc_debt a)) ''Aave USDC debt'' r1 = (debt, r2)" by (metis surj_pair)
  have p: "\<forall>p. usdcPrice = Some p \<longrightarrow> 0 < p"
  proof (intro allI impI)
    fix p assume "usdcPrice = Some p"
    then obtain r where r: "?usdc = Some r" "ars_price r = Read p"
      using price whenSome_value [of ?usdc ars_price "''USDC price on Aave''" "(fs, [])"] by (auto split: option.splits simp: eq_commute [of "Some p"])
    then have "r \<in> set (avs_reserves a)" "ari_role (ars_info r) = UsdcRole"
      by (auto simp: find_Some_iff)
    with a r show "0 < p" by (simp add: wf_aave_def)
  qed
  have p0: "\<forall>p. usdcPrice = Some p \<longrightarrow> 0 \<le> p" using p by (simp add: order_less_imp_le)
  let ?l0 = "\<lparr>alp_lines = [], alp_capacity_cents = 0, alp_capacity_complete = True, alp_collateral = [],
                alp_failures = fst r2\<rparr>"
  have "\<exists>l. foldR (reserve_step s weekend eo usdcPrice (akn_no_cap known) ?cpu) ?l0 (avs_reserves a) = Inr l \<and> wf_loop l"
    by (rule foldR_total) (use reserve_step_total [OF a _ _ p0, of _ _ ?cpu] in \<open>auto simp: wf_loop_def\<close>)
  then obtain l where l: "foldR (reserve_step s weekend eo usdcPrice (akn_no_cap known) ?cpu) ?l0 (avs_reserves a) = Inr l"
    "wf_loop l" by blast
  have coll: "\<forall>c \<in> set (alp_collateral l). wf_collateral c" using l(2) by (simp add: wf_loop_def)
  obtain config r3 where config: "whenSome ?usdc ars_config ''USDC reserve status'' (alp_failures l, snd r2) = (config, r3)"
    by (metis surj_pair)
  obtain spoke r4 where spoke: "whenSome ?usdc ars_spoke_config ''USDC Aave cap'' r3 = (spoke, r4)" by (metis surj_pair)
  obtain liq r5 where liq: "need (Some (avs_usdc_liquidity a)) ''Aave USDC liquidity'' r4 = (liq, r5)" by (metis surj_pair)
  obtain owed r6 where owed: "need (Some (avs_usdc_spoke_owed a)) ''Aave USDC drawn total'' r5 = (owed, r6)" by (metis surj_pair)
  let ?lend = "lendable_usdc (akn_no_cap known) config spoke liq owed"
  have lend: "0 \<le> x" if "?lend = Some x" for x
  proof (rule lendable_nonneg [OF _ that])
    show "\<forall>v. liq = Some v \<longrightarrow> 0 \<le> v"
      using a liq by (auto simp: wf_aave_def dest!: need_SomeD)
  qed
  obtain safety prices where safety: "aave_safety a debt usdcPrice ?cpu (alp_collateral l) = Inr (safety, prices)"
    using aave_safety_total [OF coll p, of ?cpu a debt] by auto
  have "\<forall>v. avs_risk_premium_bps a = Read v \<longrightarrow> 0 \<le> v" using a by (simp add: wf_aave_def)
  then obtain premium where premium: "aave_premium a debt usdcPrice (alp_collateral l) = Inr premium"
      "\<forall>x. premium = Some x \<longrightarrow> 0 \<le> x"
    using aave_premium_total [OF coll p] by blast
  let ?t = "\<lparr>att_debt = debt, att_capacity_known = (case usdcPrice of None \<Rightarrow> False | Some p \<Rightarrow> p > 0),
                att_capacity_cents = alp_capacity_cents l, att_lendable = ?lend, att_premium_bps = premium\<rparr>"
  have "wf_totals_aave ?t"
    using l(2) lend premium(2) a debt by (auto simp: wf_totals_aave_def wf_loop_def wf_aave_def dest: need_SomeD)
  moreover have "\<forall>r. outcome_value (avs_usdc_drawn_rate_ray a) = Some r \<longrightarrow> 0 \<le> r" using a by (simp add: wf_aave_def)
  ultimately obtain v where v: "aave_venue_line ?t (outcome_value (avs_usdc_drawn_rate_ray a)) safety prices (snd r6)
      = Inr (v, vln_available_cents v)" "line_adds_up v"
    using aave_venue_line_total by blast
  show ?thesis
    using v(2)
    by (simp add: compute_aave_open_def Let_def price debt l(1) config spoke liq owed safety premium(1) v(1))
qed

section \<open>All parts\<close>

definition wf_snapshot :: "wallet_snapshot \<Rightarrow> bool" where
  "wf_snapshot s \<longleftrightarrow> wf_balances s \<and> (\<forall>a. wsn_aave s = Some a \<longrightarrow> wf_aave s a)
     \<and> (\<forall>i m. map_of (wsn_morpho s) i = Some (Some m) \<longrightarrow> wf_morpho_snapshot (wsn_block_timestamp s) m)"

definition wf_computed :: "computed \<Rightarrow> bool" where
  "wf_computed c \<longleftrightarrow> (\<forall>v \<in> set (cmp_venues c). line_adds_up v)
     \<and> (cmp_complete c \<longrightarrow> (\<forall>v \<in> set (cmp_venues c). vln_available_cents v \<noteq> None))"

lemma aave_closed_wf: "wf_computed (fst (aave_closed s weekend eo fs))"
  by (simp add: aave_closed_def case_prod_beta Let_def wf_computed_def line_adds_up_unread)

lemma computeAave_total [total]:
  assumes "wf_snapshot s"
  shows "\<exists>c fs'. computeAave u s weekend eo fs = Inr (c, fs') \<and> wf_computed c"
proof (cases "\<exists>k a. uni_aave u = AaveOk k \<and> wsn_aave s = Some a")
  case True
  then obtain k a where h: "uni_aave u = AaveOk k" "wsn_aave s = Some a" by blast
  have "wf_aave s a" using assms h by (simp add: wf_snapshot_def)
  from compute_aave_open_total [OF this, of k weekend eo fs] h show ?thesis
    by (auto simp: computeAave_def wf_computed_def)
next
  case False
  then have "computeAave u s weekend eo fs = Inr (aave_closed s weekend eo fs)"
    by (auto simp: computeAave_def split: aave_universe.splits option.splits)
  then show ?thesis using aave_closed_wf by (metis prod.collapse)
qed

lemma computeMorpho_complete:
  assumes "computeMorpho asset market s fs = Inr (c, fs')" and "cmp_complete c" and "v \<in> set (cmp_venues c)"
  shows "vln_available_cents v \<noteq> None"
  using assms
  by (auto simp: computeMorpho_def Let_def case_prod_beta split: option.splits if_splits)

lemma computeMorphos_total [total]:
  assumes "wf_snapshot s"
  shows "\<exists>cs fs'. computeMorphos s assets fs = Inr (cs, fs') \<and> (\<forall>c \<in> set cs. wf_computed c)"
proof (induction assets arbitrary: fs)
  case Nil
  then show ?case by simp
next
  case (Cons asset assets)
  let ?market = "case map_of (wsn_morpho s) (cry_id asset) of None \<Rightarrow> None | Some m \<Rightarrow> m"
  have m: "wf_morpho_snapshot (wsn_block_timestamp s) m" if "?market = Some m" for m
    using assms that by (auto simp: wf_snapshot_def split: option.splits)
  have bal: "wf_balances s" using assms by (simp add: wf_snapshot_def)
  obtain c f1 where c: "computeMorpho asset ?market s fs = Inr (c, f1)" "\<forall>v \<in> set (cmp_venues c). line_adds_up v"
    using computeMorpho_total [OF bal m] by blast
  have "wf_computed c" using c computeMorpho_complete by (simp add: wf_computed_def)
  moreover obtain cs f2 where "computeMorphos s assets f1 = Inr (cs, f2)" "\<forall>c \<in> set cs. wf_computed c"
    using Cons.IH by blast
  ultimately show ?case using c(1) by simp
qed

lemma computeAll_total [total]:
  assumes "wf_snapshot s"
  shows "\<exists>c fs. computeAll u s weekend eo = Inr (c, fs) \<and> wf_computed c \<and> (cmp_complete c \<longrightarrow> fs = [])"
proof -
  obtain a f1 where a: "computeAave u s weekend eo [] = Inr (a, f1)" "wf_computed a" using computeAave_total [OF assms] by blast
  obtain cs f2 where cs: "computeMorphos s CRYPTO f1 = Inr (cs, f2)" "\<forall>c \<in> set cs. wf_computed c"
    using computeMorphos_total [OF assms] by blast
  show ?thesis
    using a(2) cs(2) by (simp add: computeAll_def a(1) cs(1) wf_computed_def list_all_iff) blast
qed

text \<open>A report is written exactly when all its instants can be.\<close>

lemma mapR_toISOString: "(\<exists>ts. mapR toISOString xs = Inr ts) \<longleftrightarrow> list_all representable xs"
  by (induction xs) (auto simp: bindR_eq_Inr)

definition timely :: "mirror_input \<Rightarrow> bool" where
  "timely i \<longleftrightarrow> list_all representable
     (report_instants i (weekendWindow (wsn_block_timestamp (mri_snapshot i) * 1000) new_york))"

lemma computeMirror_total:
  assumes "wf_snapshot (mri_snapshot i)"
  shows "(\<exists>r. computeMirror i = Inr r) \<longleftrightarrow> timely i"
proof -
  let ?s = "mri_snapshot i" and ?at = "wsn_block_timestamp (mri_snapshot i) * 1000"
  let ?eo = "earningsFrom (mri_calendar i) ?at" and ?w = "weekendWindow (wsn_block_timestamp (mri_snapshot i) * 1000) new_york"
  obtain c fs where c: "computeAll (mri_universe i) ?s (ww_active ?w) ?eo = Inr (c, fs)"
    using computeAll_total [OF assms] by blast
  obtain d gs where d: "computeAll (mri_universe i) ?s False ?eo = Inr (d, gs)" using computeAll_total [OF assms] by blast
  have "representable ?at" if "timely i" using that by (simp add: timely_def report_instants_def)
  then show ?thesis
    using mapR_toISOString [of "report_instants i ?w"] c d
    unfolding timely_def computeMirror_def Let_def iso_of_seconds_def by (auto simp: bindR_eq_Inr)
qed

lemma computeMirror_timely: "computeMirror i = Inr r \<Longrightarrow> timely i"
  using mapR_toISOString by (auto simp: computeMirror_def Let_def timely_def bindR_eq_Inr)

text \<open>The parts of a report.\<close>

lemma computeMirror_parts:
  assumes "wf_snapshot (mri_snapshot i)" and "computeMirror i = Inr r"
  obtains c weekday where "wf_computed c" and "cmp_complete c \<longrightarrow> mrr_failed r = []"
    and "mrr_headline r = headlineOf c weekday" and "mrr_venues r = cmp_venues c" and "mrr_assets r = cmp_lines c"
proof -
  let ?s = "mri_snapshot i" and ?at = "wsn_block_timestamp (mri_snapshot i) * 1000"
  let ?eo = "earningsFrom (mri_calendar i) ?at" and ?w = "weekendWindow (wsn_block_timestamp (mri_snapshot i) * 1000) new_york"
  obtain c fs where "computeAll (mri_universe i) ?s (ww_active ?w) ?eo = Inr (c, fs)"
      "wf_computed c" "cmp_complete c \<longrightarrow> fs = []"
    using computeAll_total [OF assms(1)] by blast
  with assms(2) show thesis by (auto simp: computeMirror_def Let_def intro: that)
qed

end
