(* ===== verification/Mirror_Weekend.thy ===== *)
theory Mirror_Weekend
  imports Mirror_Whole
begin

text \<open>
  The same snapshot computed for a quiet period and for a weekday: the reads, the debt, the safety
  and the prices agree, and no amount is larger in the quiet period.
\<close>

definition at_most :: "int option \<Rightarrow> int option \<Rightarrow> bool" where
  "at_most = rel_option (\<le>)"

lemma at_most_simps [simp]:
  "at_most None None" "at_most (Some a) (Some b) \<longleftrightarrow> a \<le> b" "\<not> at_most None (Some b)" "\<not> at_most (Some a) None"
  by (simp_all add: at_most_def)

lemma at_most_refl [simp]: "at_most x x"
  by (cases x) simp_all

lemma weekend_share_le: "stillShareBps StockKind True e \<le> stillShareBps StockKind False e"
  by simp

definition weekday_reads :: "stock_reads \<Rightarrow> int \<Rightarrow> stock_reads" where
  "weekday_reads n k = n\<lparr>srd_share := k\<rparr>"

lemma weekday_reads_simps [simp]:
  "srd_wallet (weekday_reads n k) = srd_wallet n" "srd_supplied (weekday_reads n k) = srd_supplied n"
  "srd_price (weekday_reads n k) = srd_price n" "srd_factor (weekday_reads n k) = srd_factor n"
  "srd_registry (weekday_reads n k) = srd_registry n" "srd_config (weekday_reads n k) = srd_config n"
  "srd_spoke (weekday_reads n k) = srd_spoke n" "srd_added (weekday_reads n k) = srd_added n"
  "srd_share (weekday_reads n k) = k"
  "countable_wallet noCap d (weekday_reads n k) = countable_wallet noCap d n"
  "blocking_limits (weekday_reads n k) = blocking_limits n"
  "stock_collateral_of r asset (weekday_reads n k) = stock_collateral_of r asset n"
  by (simp_all add: weekday_reads_def countable_wallet_def blocking_limits_def stock_collateral_of_def)

lemma stock_needs_weekday:
  "stock_needs s w eo r asset wallet supplied reads = (n, reads') \<Longrightarrow>
     stock_needs s False eo r asset wallet supplied reads =
       (weekday_reads n (stillShareBps StockKind False (ern_lowered (fst (eo asset)))), reads')"
  by (auto simp: stock_needs_def shareOf_def Let_def case_prod_beta weekday_reads_def)

lemma toUsdc_mono:
  assumes "toUsdc p v d = Inr x" and "toUsdc p v' d = Inr x'" and "v \<le> v'" and "0 < d"
  shows "rel_option (\<lambda>a b. a \<le> b) x x'"
proof (cases "p = None \<or> p = Some 0")
  case True
  then show ?thesis using assms by (auto simp: toUsdc_def)
next
  case False
  then obtain q where q: "p = Some q" "q \<noteq> 0" by auto
  obtain y y' where y: "mulDiv v (10 ^ USDC_DECIMALS) (d * q) Down = Inr y" "x = Some y"
      "mulDiv v' (10 ^ USDC_DECIMALS) (d * q) Down = Inr y'" "x' = Some y'"
    using assms q by (auto simp: toUsdc_def)
  have "v * 10 ^ USDC_DECIMALS \<le> v' * 10 ^ USDC_DECIMALS" using assms(3) by simp
  then show ?thesis
    using mulDiv_DownD [OF y(1)] mulDiv_DownD [OF y(3)] y(2,4) by (auto intro: zdiv_mono1)
qed

lemma usdcToCents_mono:
  "usdcToCents a Down = Inr c \<Longrightarrow> usdcToCents b Down = Inr c' \<Longrightarrow> a \<le> b \<Longrightarrow> c \<le> c'"
  by (drule usdcToCents_DownD)+ (auto intro: zdiv_mono1)

lemma stock_capacity_mono:
  assumes n: "wf_stock_reads n" and k: "srd_share n \<le> k"
    and "stock_capacity p noCap d n = Inr c" and "stock_capacity p noCap d (weekday_reads n k) = Inr c'"
  shows "at_most c c'"
proof (cases "\<exists>price factor. srd_price n = Some price \<and> srd_factor n = Some factor")
  case False
  then show ?thesis using assms(3,4) by (auto simp: stock_capacity_def split: option.splits)
next
  case True
  then obtain price factor where h: "srd_price n = Some price" "srd_factor n = Some factor" by blast
  let ?counted = "(case countable_wallet noCap d n of None \<Rightarrow> 0 | Some n \<Rightarrow> n)
                + (case srd_supplied n of None \<Rightarrow> 0 | Some n \<Rightarrow> n)"
  have "0 \<le> ?counted"
    using n countable_wallet_nonneg [OF n, of noCap d] by (auto simp: wf_stock_reads_def split: option.splits)
  then have "?counted * price * factor * srd_share n \<le> ?counted * price * factor * k"
    using n h k by (intro mult_left_mono mult_nonneg_nonneg) (simp_all add: wf_stock_reads_def)
  moreover obtain x x' where "toUsdc p (?counted * price * factor * srd_share n) (10 ^ d * BPS * BPS) = Inr x"
      "toUsdc p (?counted * price * factor * k) (10 ^ d * BPS * BPS) = Inr x'"
      "optR x (\<lambda>u. usdcToCents u Down) = Inr c" "optR x' (\<lambda>u. usdcToCents u Down) = Inr c'"
    using assms(3,4) h by (auto simp: stock_capacity_def Let_def bindR_eq_Inr)
  ultimately show ?thesis
    using toUsdc_mono [of p _ "10 ^ d * BPS * BPS" x _ x'] usdcToCents_mono
    by (cases x; cases x') (fastforce simp: bindR_eq_Inr)+
qed

lemma stock_line_mono:
  assumes n: "wf_stock_reads n" and k: "srd_share n \<le> k"
    and "stock_line_of p noCap cpu r asset n failed = Inr l"
    and "stock_line_of p noCap cpu r asset (weekday_reads n k) failed = Inr l'"
  shows "at_most (lin_capacity_cents l) (lin_capacity_cents l')"
proof (cases "blocking_limits n = []")
  case True
  have "stock_capacity p noCap (stk_decimals asset) n = Inr (lin_capacity_cents l)"
    using assms(3) True by (auto simp: stock_line_of_def Let_def bindR_eq_Inr)
  moreover have "stock_capacity p noCap (stk_decimals asset) (weekday_reads n k) = Inr (lin_capacity_cents l')"
    using assms(4) True by (auto simp: stock_line_of_def Let_def bindR_eq_Inr)
  ultimately show ?thesis by (rule stock_capacity_mono [OF n k])
next
  case False
  then show ?thesis using assms(3,4) by (auto simp: stock_line_of_def Let_def bindR_eq_Inr)
qed

section \<open>The loop\<close>

definition behind :: "aave_loop \<Rightarrow> aave_loop \<Rightarrow> bool" where
  "behind l l' \<longleftrightarrow> alp_capacity_cents l \<le> alp_capacity_cents l' \<and> (alp_lines l = [] \<longleftrightarrow> alp_lines l' = [])
     \<and> alp_capacity_complete l' = alp_capacity_complete l \<and> alp_collateral l' = alp_collateral l
     \<and> alp_failures l' = alp_failures l"

lemma reserve_step_behind:
  assumes a: "wf_aave s a" and r: "r \<in> set (avs_reserves a)" and b: "behind l l'"
    and "reserve_step s w eo p noCap cpu l r = Inr m" and "reserve_step s False eo p noCap cpu l' r = Inr m'"
  shows "behind m m'"
proof (cases "ari_role (ars_info r)")
  case (StockRole asset)
  have f: "alp_failures l' = alp_failures l" using b by (simp add: behind_def)
  obtain wallet r1 where wal: "walletOf s asset (alp_failures l, []) = (wallet, r1)" by (metis surj_pair)
  obtain supplied r2 where sup: "need (Some (ars_supplied r)) (stock_symbol asset @ '' supplied on Aave'') r1 = (supplied, r2)"
    by (metis surj_pair)
  obtain n r3 where n: "stock_needs s w eo r asset wallet supplied r2 = (n, r3)" by (metis surj_pair)
  let ?k = "stillShareBps StockKind False (ern_lowered (fst (eo asset)))"
  note n' = stock_needs_weekday [OF n]
  have bal: "wf_balances s" using a by (simp add: wf_aave_def)
  have wn: "\<forall>v. wallet = Some v \<longrightarrow> 0 \<le> v" using walletOf_nonneg [OF bal] wal by blast
  have se: "supplied = outcome_value (ars_supplied r)" using sup need_fst_Some by (metis fst_conv)
  note wfn = stock_needs_wf [OF a r wn se n]
  have k: "srd_share n \<le> ?k"
    using stock_needs_fields(8) [OF n] weekend_share_le by (cases w) simp_all
  show ?thesis
  proof (cases "wallet = Some 0 \<and> supplied = Some 0")
    case True
    then show ?thesis
      using assms(4,5) b by (simp add: reserve_step_def StockRole wal sup f) (auto simp: behind_def)
  next
    case False
    obtain line where line: "stock_line_of p noCap cpu r asset n (snd r3) = Inr line"
      using assms(4) False by (auto simp: reserve_step_def StockRole wal sup n)
    obtain line' where line': "stock_line_of p noCap cpu r asset (weekday_reads n ?k) (snd r3) = Inr line'"
      using assms(5) False by (auto simp: reserve_step_def StockRole wal sup n' f)
    have "at_most (lin_capacity_cents line) (lin_capacity_cents line')"
      by (rule stock_line_mono [OF wfn k line line'])
    then have "(case lin_capacity_cents line of None \<Rightarrow> 0 | Some c \<Rightarrow> c)
        \<le> (case lin_capacity_cents line' of None \<Rightarrow> 0 | Some c \<Rightarrow> c)"
      by (cases "lin_capacity_cents line"; cases "lin_capacity_cents line'") simp_all
    then show ?thesis
      using assms(4,5) b False line line'
      by (auto simp: reserve_step_def StockRole wal sup n n' f behind_def)
  qed
qed (use assms(4,5) b in \<open>simp_all add: reserve_step_def\<close>)

lemma reserves_behind:
  assumes a: "wf_aave s a" and "set rs \<subseteq> set (avs_reserves a)" and "behind l l'"
    and "foldR (reserve_step s w eo p noCap cpu) l rs = Inr m" and "foldR (reserve_step s False eo p noCap cpu) l' rs = Inr m'"
  shows "behind m m'"
  using assms(2-5)
proof (induction rs arbitrary: l l')
  case Nil
  then show ?case by simp
next
  case (Cons r rs)
  from Cons.prems obtain k k' where "reserve_step s w eo p noCap cpu l r = Inr k" "reserve_step s False eo p noCap cpu l' r = Inr k'"
      "foldR (reserve_step s w eo p noCap cpu) k rs = Inr m" "foldR (reserve_step s False eo p noCap cpu) k' rs = Inr m'" by auto
  with Cons.prems reserve_step_behind [OF a _ Cons.prems(2)] show ?case by (intro Cons.IH [of k k']) auto
qed

section \<open>Venues\<close>

definition not_above :: "computed \<Rightarrow> computed \<Rightarrow> bool" where
  "not_above c c' \<longleftrightarrow>
     list_all2 (\<lambda>v v'. at_most (vln_available_cents v) (vln_available_cents v')) (cmp_venues c) (cmp_venues c')"

lemma not_above_refl [simp]: "not_above c c"
  by (simp add: not_above_def list.rel_refl)

lemma aave_available_mono:
  assumes "aave_available k cap debt lend = Inr x" and "aave_available k cap' debt lend = Inr x'" and "cap \<le> cap'"
  shows "at_most x x'"
  using assms by (auto simp: aave_available_def split: option.splits if_splits)

lemma aave_venue_line_mono:
  assumes "aave_venue_line t drawn safety prices failed = Inr (v, av)"
    and "aave_venue_line (t\<lparr>att_capacity_cents := cap\<rparr>) drawn safety prices failed = Inr (v', av')"
    and "att_capacity_cents t \<le> cap"
  shows "at_most (vln_available_cents v) (vln_available_cents v') \<and> vln_debt_cents v = vln_debt_cents v'"
proof -
  obtain debt where debt: "optR (att_debt t) (\<lambda>d. usdcToCents d Up) = Inr debt" "vln_debt_cents v = debt"
      "aave_available (att_capacity_known t) (att_capacity_cents t) debt (att_lendable t) = Inr (vln_available_cents v)"
    using assms(1) by (auto simp: aave_venue_line_def Let_def)
  moreover have "vln_debt_cents v' = debt"
      "aave_available (att_capacity_known t) cap debt (att_lendable t) = Inr (vln_available_cents v')"
    using assms(2) debt(1) by (auto simp: aave_venue_line_def Let_def)
  ultimately show ?thesis using aave_available_mono assms(3) by metis
qed

lemma compute_aave_open_weekend:
  assumes a: "wf_aave s a" and "compute_aave_open known a s w eo fs = Inr (c, fs1)"
    and "compute_aave_open known a s False eo fs = Inr (c', fs2)"
  shows "not_above c c' \<and> fs1 = fs2"
proof -
  let ?usdc = "find (\<lambda>r. ari_role (ars_info r) = UsdcRole) (avs_reserves a)"
  let ?cpu = "10 ^ (akn_oracle_decimals known - 2) :: int"
  obtain p r1 where price: "whenSome ?usdc ars_price ''USDC price on Aave'' (fs, []) = (p, r1)" by (metis surj_pair)
  obtain debt r2 where debt: "need (Some (avs_usdc_debt a)) ''Aave USDC debt'' r1 = (debt, r2)" by (metis surj_pair)
  let ?l0 = "\<lparr>alp_lines = [], alp_capacity_cents = 0, alp_capacity_complete = True, alp_collateral = [],
                alp_failures = fst r2\<rparr>"
  let ?fold = "\<lambda>w. foldR (reserve_step s w eo p (akn_no_cap known) ?cpu) ?l0 (avs_reserves a)"
  obtain l where l: "?fold w = Inr l" using assms(2) by (auto simp: compute_aave_open_def Let_def price debt)
  obtain l' where l': "?fold False = Inr l'" using assms(3) by (auto simp: compute_aave_open_def Let_def price debt)
  have b: "behind l l'"
    by (rule reserves_behind [OF a _ _ l l']) (simp_all add: behind_def)
  then have same: "alp_failures l' = alp_failures l" "alp_collateral l' = alp_collateral l"
      "alp_capacity_complete l' = alp_capacity_complete l" "(alp_lines l' = []) = (alp_lines l = [])"
      "alp_capacity_cents l \<le> alp_capacity_cents l'"
    by (auto simp: behind_def)
  obtain config r3 where config: "whenSome ?usdc ars_config ''USDC reserve status'' (alp_failures l, snd r2) = (config, r3)"
    by (metis surj_pair)
  obtain spoke r4 where spoke: "whenSome ?usdc ars_spoke_config ''USDC Aave cap'' r3 = (spoke, r4)" by (metis surj_pair)
  obtain liq r5 where liq: "need (Some (avs_usdc_liquidity a)) ''Aave USDC liquidity'' r4 = (liq, r5)" by (metis surj_pair)
  obtain owed r6 where owed: "need (Some (avs_usdc_spoke_owed a)) ''Aave USDC drawn total'' r5 = (owed, r6)" by (metis surj_pair)
  note steps = price debt config spoke liq owed
  obtain safety prices where safety: "aave_safety a debt p ?cpu (alp_collateral l) = Inr (safety, prices)"
    using assms(2) l by (auto simp: compute_aave_open_def Let_def steps)
  obtain premium where premium: "aave_premium a debt p (alp_collateral l) = Inr premium"
    using assms(2) l safety by (auto simp: compute_aave_open_def Let_def steps)
  let ?t = "\<lparr>att_debt = debt, att_capacity_known = (case p of None \<Rightarrow> False | Some p \<Rightarrow> p > 0),
                att_capacity_cents = alp_capacity_cents l,
                att_lendable = lendable_usdc (akn_no_cap known) config spoke liq owed, att_premium_bps = premium\<rparr>"
  let ?line = "\<lambda>t. aave_venue_line t (outcome_value (avs_usdc_drawn_rate_ray a)) safety prices (snd r6)"
  obtain v av where v: "?line ?t = Inr (v, av)" "fs1 = fst r6"
      "cmp_venues c = (if alp_lines l \<noteq> [] \<or> vln_debt_cents v \<noteq> Some 0 \<or> snd r6 \<noteq> [] then [v] else [])"
    using assms(2) l safety premium by (auto simp: compute_aave_open_def Let_def steps)
  obtain v' av' where v': "?line (?t\<lparr>att_capacity_cents := alp_capacity_cents l'\<rparr>) = Inr (v', av')" "fs2 = fst r6"
      "cmp_venues c' = (if alp_lines l \<noteq> [] \<or> vln_debt_cents v' \<noteq> Some 0 \<or> snd r6 \<noteq> [] then [v'] else [])"
    using assms(3) l' safety premium same by (auto simp: compute_aave_open_def Let_def steps)
  from aave_venue_line_mono [OF v(1) v'(1)] same(5) v(2,3) v'(2,3) show ?thesis
    by (simp add: not_above_def)
qed

lemma computeAll_weekend:
  assumes s: "wf_snapshot s" and "computeAll u s w eo = Inr (c, fs1)" and "computeAll u s False eo = Inr (c', fs2)"
  shows "not_above c c'"
proof -
  obtain a f1 where a: "computeAave u s w eo [] = Inr (a, f1)" using assms(2) by (auto simp: computeAll_def)
  obtain a' f2 where a': "computeAave u s False eo [] = Inr (a', f2)" using assms(3) by (auto simp: computeAll_def)
  have "not_above a a' \<and> f1 = f2"
  proof (cases "\<exists>k v. uni_aave u = AaveOk k \<and> wsn_aave s = Some v")
    case True
    then obtain k v where h: "uni_aave u = AaveOk k" "wsn_aave s = Some v" by blast
    have "wf_aave s v" using s h by (simp add: wf_snapshot_def)
    from compute_aave_open_weekend [OF this] a a' h show ?thesis by (simp add: computeAave_def)
  next
    case False
    have closed: "cmp_venues (fst (aave_closed s w eo [])) = cmp_venues (fst (aave_closed s False eo []))
        \<and> snd (aave_closed s w eo []) = snd (aave_closed s False eo [])"
    proof -
      have "snd (closed_stocks s w eo xs fs) = snd (closed_stocks s False eo xs fs)" for xs fs
        by (induction xs arbitrary: fs) (simp_all add: case_prod_beta Let_def closed_stock_def shareOf_def)
      then show ?thesis by (simp add: aave_closed_def case_prod_beta Let_def)
    qed
    have "computeAave u s w eo [] = Inr (aave_closed s w eo [])" "computeAave u s False eo [] = Inr (aave_closed s False eo [])"
      using False by (auto simp: computeAave_def split: aave_universe.splits option.splits)
    with a a' closed show ?thesis by (auto simp: not_above_def intro: list.rel_refl)
  qed
  moreover obtain cs f3 where "computeMorphos s CRYPTO f1 = Inr (cs, f3)" "c = \<lparr>cmp_lines = concat (map cmp_lines (a # cs)),
      cmp_venues = concat (map cmp_venues (a # cs)), cmp_complete = (list_all cmp_complete (a # cs) \<and> f3 = [])\<rparr>"
    using assms(2) a by (auto simp: computeAll_def Let_def)
  moreover obtain ds f4 where "computeMorphos s CRYPTO f2 = Inr (ds, f4)" "c' = \<lparr>cmp_lines = concat (map cmp_lines (a' # ds)),
      cmp_venues = concat (map cmp_venues (a' # ds)), cmp_complete = (list_all cmp_complete (a' # ds) \<and> f4 = [])\<rparr>"
    using assms(3) a' by (auto simp: computeAll_def Let_def)
  ultimately show ?thesis
    by (auto simp: not_above_def intro!: list_all2_appendI list.rel_refl)
qed

section \<open>The headline\<close>

lemma known_available_simps [simp]:
  "known_available [] = []"
  "known_available (v # vs) = (case vln_available_cents v of None \<Rightarrow> [] | Some a \<Rightarrow> [a]) @ known_available vs"
  by (simp_all add: known_available_def List.map_filter_simps split: option.split)

lemma known_available_at_most:
  "list_all2 (\<lambda>v v'. at_most (vln_available_cents v) (vln_available_cents v')) vs vs' \<Longrightarrow>
     list_all2 (\<le>) (known_available vs) (known_available vs')"
proof (induction rule: list_all2_induct)
  case (Cons v vs v' vs')
  then show ?case by (cases "vln_available_cents v"; cases "vln_available_cents v'") simp_all
qed simp

lemma sum_list_le: "list_all2 (\<le>) xs ys \<Longrightarrow> sum_list xs \<le> sum_list (ys :: int list)"
  by (induction rule: list_all2_induct) simp_all

end
