(* ===== verification/Mirror_Sample.thy ===== *)
theory Mirror_Sample
  imports Mirror_Whole
begin

text \<open>
  One reading the witnesses evaluate: a wallet on a Saturday with ten NVDA pledged on Aave against a
  hundred USDC, and a tenth of a bitcoin pledged on Morpho.
\<close>

section \<open>A reading to evaluate\<close>

definition usdc_info :: aave_reserve_info where
  "usdc_info = \<lparr>ari_reserve_id = 0, ari_underlying = addr_usdc ADDRESSES, ari_hub_asset_id = 0, ari_decimals = 6,
     ari_dynamic_config_key = 0, ari_price_source = None, ari_role = UsdcRole\<rparr>"

definition open_spoke :: "spoke_config outcome" where
  "open_spoke = Read \<lparr>spc_add_cap = 1099511627775, spc_draw_cap = 1099511627775, spc_active = True, spc_halted = False\<rparr>"

definition open_reserve :: "reserve_config outcome" where
  "open_reserve = Read \<lparr>rcf_paused = False, rcf_frozen = False, rcf_borrowable = True\<rparr>"

definition usdc_reserve :: aave_reserve_snapshot where
  "usdc_reserve = \<lparr>ars_info = usdc_info, ars_config = open_reserve, ars_factor_bps = Read 0, ars_user_factor_bps = Unread Reverted,
     ars_price = Read 100000000, ars_price_updated_at = Unread Reverted, ars_supplied = Read 0, ars_status = Read (False, True),
     ars_spoke_config = open_spoke, ars_spoke_added = Read 0, ars_collateral_risk_bps = Read 0\<rparr>"

definition nvda_reserve :: "int outcome \<Rightarrow> aave_reserve_snapshot" where
  "nvda_reserve userFactor = \<lparr>ars_info = nvda_info, ars_config = open_reserve, ars_factor_bps = Read 7000, ars_user_factor_bps = userFactor,
     ars_price = Read 18000000000, ars_price_updated_at = Read 1781300000, ars_supplied = Read 1000000000, ars_status = Read (True, False),
     ars_spoke_config = open_spoke, ars_spoke_added = Read 1000000000, ars_collateral_risk_bps = Read 0\<rparr>"

definition sample_aave :: "int outcome \<Rightarrow> aave_snapshot" where
  "sample_aave userFactor = \<lparr>avs_reserves = [usdc_reserve, nvda_reserve userFactor], avs_usdc_debt = Read 100000000,
     avs_usdc_liquidity = Read 5000000000, avs_usdc_drawn_rate_ray = Read 40000000000000000000000000,
     avs_usdc_spoke_owed = Read 0, avs_account = Unread Reverted, avs_risk_premium_bps = Read 0\<rparr>"

definition sample_market :: morpho_snapshot where
  "sample_market = \<lparr>mps_info = cbbtc_info,
     mps_market = Read \<lparr>tot_supply_assets = 1000000000000, tot_supply_shares = 1000000000000000000,
       tot_borrow_assets = 500000000000, tot_borrow_shares = 500000000000000000,
       tot_last_update = 1781350000, tot_fee = 0\<rparr>,
     mps_position = Read \<lparr>pos_collateral = 10000000, pos_borrow_shares = 0\<rparr>,
     mps_price = Read (10 ^ 39), mps_borrow_rate = Read 1000000000\<rparr>"

definition sample_snapshot :: "int outcome \<Rightarrow> wallet_snapshot" where
  "sample_snapshot userFactor = \<lparr>wsn_provider = ''node'', wsn_block_number = 1000, wsn_block_timestamp = 1781352000,
     wsn_native_eth = Read 0,
     wsn_balances = map (\<lambda>a. (to_lower (stk_token a), Read 0)) STOCKS @ map (\<lambda>a. (to_lower (cry_token a), Read 0)) CRYPTO,
     wsn_coinbase = [(NVDAc, Read \<lparr>cbe_multiplier = WAD, cbe_paused = False\<rparr>)],
     wsn_aave = Some (sample_aave userFactor), wsn_morpho = [(CbBTC, Some sample_market)]\<rparr>"

definition sample_input :: "int outcome \<Rightarrow> mirror_input" where
  "sample_input userFactor = \<lparr>mri_universe = \<lparr>uni_loaded_at = 0, uni_provider = ''node'',
       uni_aave = AaveOk \<lparr>akn_oracle_decimals = 8, akn_reserves = [usdc_info, nvda_info], akn_usdc = usdc_info,
         akn_no_cap = 1099511627775\<rparr>,
       uni_morpho = [MorphoOk cbbtc_info]\<rparr>,
     mri_snapshot = sample_snapshot userFactor,
     mri_calendar = CalendarOk \<lparr>ecl_read_at = 1781352000000, ecl_dates = [(NVDAc, [])]\<rparr>,
     mri_subject = \<lparr>sub_address = ''0x01'', sub_name = None, sub_input = ''0x01''\<rparr>,
     mri_assembled_at = 1781352000000\<rparr>"


lemma sample_wf: "wf_snapshot (mri_snapshot (sample_input (Read 6500)))"
proof -
  have balances: "wf_balances (sample_snapshot f)" for f
    by (auto simp: wf_balances_def sample_snapshot_def STOCKS_def CRYPTO_def split: if_splits)
  have "wf_aave (sample_snapshot (Read 6500)) (sample_aave (Read 6500))"
    using balances
    by (auto simp: wf_aave_def sample_aave_def wf_reserve_def usdc_reserve_def nvda_reserve_def usdc_info_def nvda_info_def
        sample_snapshot_def representable_def MAX_INSTANT_def split: if_splits)
  moreover have "wf_morpho_snapshot 1781352000 sample_market"
    by (simp add: wf_morpho_snapshot_def sample_market_def cbbtc_info_def wf_position_reads_def wf_totals_def WAD_def)
  ultimately show ?thesis
    using balances by (auto simp: wf_snapshot_def sample_input_def sample_snapshot_def split: if_splits)
qed

lemma sample_timely: "timely (sample_input (Read 6500))"
  by code_simp

end
