(* ===== verification/Mirror_Properties.thy ===== *)
theory Mirror_Properties
  imports Mirror_Weekend Mirror_Sample
begin

text \<open>
  What the Mirror promises: it answers on every well-formed reading, its headline is the sum of its
  venues, and a quiet period never offers more than a weekday.
\<close>

section \<open>Answers and headlines\<close>



lemma known_available_set: "set (known_available vs) = {a. \<exists>v \<in> set vs. vln_available_cents v = Some a}"
  by (induction vs) (auto split: option.splits)

lemma known_total_nonneg:
  assumes "wf_computed c"
  shows "0 \<le> sum_list (known_available (cmp_venues c))"
proof (rule sum_list_nonneg)
  fix a assume "a \<in> set (known_available (cmp_venues c))"
  then show "0 \<le> a" using assms by (auto simp: known_available_set wf_computed_def line_adds_up_def)
qed

lemma headlineOf_state:
  assumes "wf_computed c" and "h = headlineOf c weekday"
  shows "(hdl_state h = Funded \<longleftrightarrow> (\<exists>a \<ge> trm_dust_below_cents TERMS. hdl_available_cents h = Some a))
    \<and> (hdl_state h = Dust \<longleftrightarrow> (\<exists>a. hdl_available_cents h = Some a \<and> 0 < a \<and> a < trm_dust_below_cents TERMS))
    \<and> (hdl_state h = NoneState \<longleftrightarrow> hdl_available_cents h = Some 0 \<and> hdl_complete h)
    \<and> (\<forall>a. hdl_available_cents h = Some a \<longrightarrow> a = sum_list (known_available (cmp_venues c)))
    \<and> (hdl_available_cents h = None \<longrightarrow> known_available (cmp_venues c) = [])"
  using known_total_nonneg [OF assms(1)]
  by (cases "known_available (cmp_venues c) = []"; cases "cmp_lines c = []")
    (auto simp: assms(2) headlineOf_def Let_def TERMS_def)

text \<open>
  C27. The headline is its venues. The amount it states is the sum of what the venues that answered
  have available; the four states partition the amounts (a dollar or more, some cents, exactly
  nothing on a complete reading, and otherwise not known); and a headline that calls itself complete
  belongs to a report with no failed read, every venue line of which states its amount.
\<close>

theorem headline_is_its_venues:
  assumes "wf_snapshot (mri_snapshot i)" and "computeMirror i = Inr r"
  shows "(hdl_state (mrr_headline r) = Funded \<longleftrightarrow> (\<exists>a \<ge> 100. hdl_available_cents (mrr_headline r) = Some a))
    \<and> (hdl_state (mrr_headline r) = Dust \<longleftrightarrow> (\<exists>a. hdl_available_cents (mrr_headline r) = Some a \<and> 0 < a \<and> a < 100))
    \<and> (hdl_state (mrr_headline r) = NoneState \<longleftrightarrow>
         hdl_available_cents (mrr_headline r) = Some 0 \<and> hdl_complete (mrr_headline r))
    \<and> (\<forall>a. hdl_available_cents (mrr_headline r) = Some a \<longrightarrow>
         0 \<le> a \<and> a = sum_list (known_available (mrr_venues r)))
    \<and> (hdl_complete (mrr_headline r) \<longrightarrow>
         mrr_failed r = [] \<and> (\<forall>v \<in> set (mrr_venues r). vln_available_cents v \<noteq> None))"
proof -
  obtain c weekday where c: "wf_computed c" "cmp_complete c \<longrightarrow> mrr_failed r = []"
      "mrr_headline r = headlineOf c weekday" "mrr_venues r = cmp_venues c"
    by (rule computeMirror_parts [OF assms])
  have "hdl_complete (mrr_headline r) = cmp_complete c" by (simp add: c(3) headlineOf_def Let_def)
  then show ?thesis
    using headlineOf_state [OF c(1,3)] known_total_nonneg [OF c(1)] c
    by (auto simp: wf_computed_def TERMS_def)
qed

theorem headline_is_its_venues_witness:
  "\<exists>r. computeMirror (sample_input (Read 6500)) = Inr r
     \<and> (\<forall>a. hdl_available_cents (mrr_headline r) = Some a \<longrightarrow> a = sum_list (known_available (mrr_venues r)))"
proof -
  obtain r where r: "computeMirror (sample_input (Read 6500)) = Inr r" using computeMirror_total [OF sample_wf] sample_timely by blast
  from headline_is_its_venues [OF sample_wf r] r show ?thesis by blast
qed

section \<open>Quiet periods\<close>

text \<open>
  C26. A quiet period never offers more. Whenever the report states what a weekday would offer, it
  also states an amount for now, and that amount is at most the weekday's: the stricter share lowers
  every line's capacity and leaves the debt, the liquidity and the failed reads as they are.
\<close>

theorem weekend_never_offers_more:
  assumes "wf_snapshot (mri_snapshot i)" and "computeMirror i = Inr r"
    and "hdl_weekday_available_cents (mrr_headline r) = Some weekday"
  shows "\<exists>now. hdl_available_cents (mrr_headline r) = Some now \<and> now \<le> weekday"
proof -
  let ?s = "mri_snapshot i"
  let ?t = "wsn_block_timestamp ?s * 1000"
  let ?eo = "earningsFrom (mri_calendar i) ?t" and ?w = "ww_active (weekendWindow (wsn_block_timestamp ?s * 1000) new_york)"
  obtain c fs where c: "computeAll (mri_universe i) ?s ?w ?eo = Inr (c, fs)"
    using computeAll_total [OF assms(1)] by blast
  obtain d gs where d: "computeAll (mri_universe i) ?s False ?eo = Inr (d, gs)"
    using computeAll_total [OF assms(1)] by blast
  have le: "list_all2 (\<le>) (known_available (cmp_venues c)) (known_available (cmp_venues d))"
    using computeAll_weekend [OF assms(1) c d] by (simp add: not_above_def known_available_at_most)
  have "known_available (cmp_venues d) \<noteq> []" "weekday = sum_list (known_available (cmp_venues d))"
    using assms(2,3) by (auto simp: computeMirror_def Let_def c d headlineOf_def split: if_splits)
  moreover have "mrr_headline r = headlineOf c (Some weekday)"
    using assms(2,3) by (auto simp: computeMirror_def Let_def c d headlineOf_def split: if_splits)
  ultimately show ?thesis
    using le sum_list_le [OF le] by (auto simp: headlineOf_def Let_def)
qed

text \<open>A small reading in a quiet period: one stock pledged, the other reads failed.\<close>

definition small_input :: mirror_input where
  "small_input = (sample_input (Read 6500))\<lparr>mri_snapshot :=
     (sample_snapshot (Read 6500))\<lparr>wsn_balances := [], wsn_morpho := []\<rparr>\<rparr>"

lemma small_wf: "wf_snapshot (mri_snapshot small_input)"
  using sample_wf
  by (auto simp: wf_snapshot_def small_input_def sample_input_def sample_snapshot_def wf_balances_def wf_aave_def)

lemma small_timely: "timely small_input"
  using sample_timely by (simp add: timely_def report_instants_def small_input_def sample_input_def sample_snapshot_def)

lemma small_report:
  "map_sum id (\<lambda>r. hdl_weekday_available_cents (mrr_headline r)) (computeMirror small_input) = Inr (Some 53000)"
  by code_simp

theorem weekend_never_offers_more_witness:
  "\<exists>r now. computeMirror small_input = Inr r \<and> hdl_weekday_available_cents (mrr_headline r) = Some 53000
     \<and> hdl_available_cents (mrr_headline r) = Some now \<and> now \<le> 53000"
proof -
  obtain r where r: "computeMirror small_input = Inr r" using computeMirror_total [OF small_wf] small_timely by blast
  with small_report have w: "hdl_weekday_available_cents (mrr_headline r) = Some 53000" by simp
  from weekend_never_offers_more [OF small_wf r w] r w show ?thesis by blast
qed

end
