(* ===== verification/Aave_Safety.thy ===== *)
theory Aave_Safety
  imports Mirror_Sample
begin

text \<open>
  The safety half of an Aave venue line: its liquidation prices are exact, and the one kind of
  reading on which it throws.
\<close>

section \<open>Each price by its place\<close>

definition others_weight :: "(stock_collateral \<times> int) list \<Rightarrow> nat \<Rightarrow> int" where
  "others_weight cws i = sum_list (map snd cws) - snd (cws ! i)"

lemma liquidation_prices_nth:
  assumes "liquidation_prices v cpu earlier cws = Inr ps"
  shows "length ps = length cws \<and> (\<forall>i < length cws.
    lqp_asset (ps ! i) = StockAsset (stk_id (col_asset (fst (cws ! i))))
    \<and> (if v \<le> earlier + others_weight cws i
       then lqp_price_cents (ps ! i) = None \<and> lqp_unreachable (ps ! i)
       else \<not> lqp_unreachable (ps ! i) \<and> (\<exists>q. lqp_price_cents (ps ! i) = Some q
         \<and> mulDiv (v - (earlier + others_weight cws i)) (10 ^ stk_decimals (col_asset (fst (cws ! i))) * BPS)
             (col_supplied (fst (cws ! i)) * col_user_factor (fst (cws ! i)) * cpu) Up = Inr q)))"
  using assms
proof (induction cws arbitrary: earlier ps)
  case Nil
  then show ?case by simp
next
  case (Cons cw cws)
  obtain c w where cw: "cw = (c, w)" by (cases cw)
  from Cons.prems obtain p qs where p: "ps = p # qs" "liquidation_prices v cpu (earlier + w) cws = Inr qs"
      "(if v \<le> earlier + sum_list (map snd cws)
        then Inr \<lparr>lqp_asset = StockAsset (stk_id (col_asset c)), lqp_price_cents = None, lqp_unreachable = True\<rparr>
        else bindR (mulDiv (v - (earlier + sum_list (map snd cws))) (10 ^ stk_decimals (col_asset c) * BPS)
                     (col_supplied c * col_user_factor c * cpu) Up) (\<lambda>priceCents.
             Inr \<lparr>lqp_asset = StockAsset (stk_id (col_asset c)), lqp_price_cents = Some priceCents, lqp_unreachable = False\<rparr>))
       = Inr p"
    by (auto simp: cw Let_def)
  have head: "others_weight (cw # cws) 0 = sum_list (map snd cws)" by (simp add: others_weight_def cw)
  have tail: "earlier + others_weight (cw # cws) (Suc i) = earlier + w + others_weight cws i" for i
    by (simp add: others_weight_def cw)
  note ih = Cons.IH [OF p(2)]
  show ?case
  proof (intro conjI allI impI)
    show "length ps = length (cw # cws)" using ih p(1) by simp
  next
    fix i assume "i < length (cw # cws)"
    then show "lqp_asset (ps ! i) = StockAsset (stk_id (col_asset (fst ((cw # cws) ! i))))"
      using ih p by (cases i) (auto simp: cw split: if_splits)
  next
    fix i assume i: "i < length (cw # cws)"
    show "if v \<le> earlier + others_weight (cw # cws) i
       then lqp_price_cents (ps ! i) = None \<and> lqp_unreachable (ps ! i)
       else \<not> lqp_unreachable (ps ! i) \<and> (\<exists>q. lqp_price_cents (ps ! i) = Some q
         \<and> mulDiv (v - (earlier + others_weight (cw # cws) i)) (10 ^ stk_decimals (col_asset (fst ((cw # cws) ! i))) * BPS)
             (col_supplied (fst ((cw # cws) ! i)) * col_user_factor (fst ((cw # cws) ! i)) * cpu) Up = Inr q)"
    proof (cases i)
      case 0
      then show ?thesis using p(3) by (auto simp: p(1) head [unfolded cw] cw split: if_splits)
    next
      case (Suc j)
      then show ?thesis using ih i by (simp add: p(1) tail)
    qed
  qed
qed

text \<open>Lowering a price to \<open>q\<close> cents covers the rest of the debt exactly from the stated price on.\<close>

lemma liquidation_price_exact:
  assumes c: "wf_collateral c" and cpu: "0 < cpu" and v: "0 < v"
    and "mulDiv v (10 ^ stk_decimals (col_asset c) * BPS) (col_supplied c * col_user_factor c * cpu) Up = Inr p"
  shows "v \<le> collateral_weight c (q * cpu) \<longleftrightarrow> p \<le> q"
proof -
  let ?d = "10 ^ stk_decimals (col_asset c) * BPS" and ?u = "col_supplied c * col_user_factor c * cpu"
  have u: "0 < ?u" using c cpu by (simp add: wf_collateral_def)
  have p: "p = ceil_div (v * ?d) ?u" using assms(4) v u by (simp add: mulDiv_eq)
  have "v \<le> collateral_weight c (q * cpu) \<longleftrightarrow> v * ?d \<le> col_supplied c * (q * cpu) * col_user_factor c"
    unfolding collateral_weight_def by (rule le_div_iff) simp
  also have "\<dots> \<longleftrightarrow> p \<le> q" unfolding p using ceil_div_le_iff [OF u] by (simp add: ac_simps)
  finally show ?thesis .
qed

text \<open>
  C28. Aave's liquidation prices are exact. With the other collaterals at their prices, a stock's
  stated price is the lowest whole number of cents at which the weighted collateral still covers the
  debt; a price is called unreachable exactly where the others cover the debt alone, so that the
  stock could go to nothing.
\<close>

theorem aave_liquidation_prices_are_exact:
  assumes c: "\<forall>c \<in> set cs. wf_collateral c" and cpu: "0 < cpu" and d: "0 < debt" and p: "0 < usdcPrice"
    and safety: "aave_safety a (Some debt) (Some usdcPrice) cpu cs = Inr (s, prices)"
    and i: "i < length cs"
  shows "let debtValue = ceil_div (debt * usdcPrice) (10 ^ USDC_DECIMALS);
             others = (\<Sum>c\<leftarrow>cs. collateral_weight c (col_price c)) - collateral_weight (cs ! i) (col_price (cs ! i))
         in length prices = length cs \<and> lqp_asset (prices ! i) = StockAsset (stk_id (col_asset (cs ! i)))
          \<and> (lqp_unreachable (prices ! i) \<longleftrightarrow> debtValue \<le> others)
          \<and> (case lqp_price_cents (prices ! i) of
               None \<Rightarrow> lqp_unreachable (prices ! i)
             | Some stated \<Rightarrow> \<forall>q. debtValue \<le> others + collateral_weight (cs ! i) (q * cpu) \<longleftrightarrow> stated \<le> q)"
proof -
  let ?v = "ceil_div (debt * usdcPrice) (10 ^ USDC_DECIMALS)"
  let ?w = "map (\<lambda>c. (c, collateral_weight c (col_price c))) cs"
  let ?others = "(\<Sum>c\<leftarrow>cs. collateral_weight c (col_price c)) - collateral_weight (cs ! i) (col_price (cs ! i))"
  have prices: "liquidation_prices ?v cpu 0 ?w = Inr prices"
    using safety d p by (auto simp: aave_safety_def debt_value_eq mapR_weighted [OF c])
  have ow: "others_weight ?w i = ?others" using i by (simp add: others_weight_def comp_def)
  have "fst (?w ! i) = cs ! i" using i by simp
  note at_i = liquidation_prices_nth [OF prices, simplified, THEN conjunct2, rule_format, OF i, unfolded ow, simplified]
  have ci: "wf_collateral (cs ! i)" using c i by simp
  have len: "length prices = length cs" using liquidation_prices_nth [OF prices] by simp
  show ?thesis
  proof (cases "?v \<le> ?others")
    case True
    with at_i len i ow show ?thesis by (simp add: Let_def)
  next
    case False
    with at_i i ow obtain q where q: "lqp_price_cents (prices ! i) = Some q" "\<not> lqp_unreachable (prices ! i)"
        "mulDiv (?v - ?others) (10 ^ stk_decimals (col_asset (cs ! i)) * BPS)
             (col_supplied (cs ! i) * col_user_factor (cs ! i) * cpu) Up = Inr q"
        "lqp_asset (prices ! i) = StockAsset (stk_id (col_asset (cs ! i)))"
      by (auto simp: Let_def)
    have "?v \<le> ?others + collateral_weight (cs ! i) (k * cpu) \<longleftrightarrow> q \<le> k" for k
      using liquidation_price_exact [OF ci cpu _ q(3), of k] False by auto
    with q len False show ?thesis by (simp add: Let_def)
  qed
qed


definition nvda_collateral :: "int \<Rightarrow> stock_collateral" where
  "nvda_collateral factor = \<lparr>col_asset = STOCKS ! 5, col_supplied = 1000000000, col_price = 18000000000,
     col_user_factor = factor, col_risk_bps = Some 0\<rparr>"

theorem aave_liquidation_prices_are_exact_witness:
  "map_sum id (map lqp_price_cents \<circ> snd)
     (aave_safety (sample_aave (Read 6500)) (Some 100000000) (Some 100000000) (10 ^ 6) [nvda_collateral 6500])
   = Inr [Some 1539]
   \<and> 10000000000 \<le> collateral_weight (nvda_collateral 6500) (1539 * 10 ^ 6)
   \<and> \<not> 10000000000 \<le> collateral_weight (nvda_collateral 6500) (1538 * 10 ^ 6)"
proof -
  let ?r = "aave_safety (sample_aave (Read 6500)) (Some 100000000) (Some 100000000) (10 ^ 6) [nvda_collateral 6500]"
  have c: "\<forall>c \<in> set [nvda_collateral 6500]. wf_collateral c" by (simp add: wf_collateral_def nvda_collateral_def)
  have priced: "map_sum id (map lqp_price_cents \<circ> snd) ?r = Inr [Some 1539]" by code_simp
  then obtain s prices where r: "?r = Inr (s, prices)" "map lqp_price_cents prices = [Some 1539]"
    by (cases ?r) auto
  have first: "lqp_price_cents (prices ! 0) = Some 1539" using r(2) by (cases prices) auto
  have debt: "ceil_div 10000000000000000 (10 ^ USDC_DECIMALS) = (10000000000 :: int)" by code_simp
  have exact: "10000000000 \<le> collateral_weight (nvda_collateral 6500) (q * 1000000) \<longleftrightarrow> 1539 \<le> q" for q
    using aave_liquidation_prices_are_exact [OF c _ _ _ r(1), of 0] by (simp add: first debt Let_def)
  show ?thesis
    using priced exact [of 1539] exact [of 1538] by simp
qed

section \<open>A collateral factor of nothing\<close>

text \<open>A collateral the protocol counts at no factor: well formed in every other way.\<close>

definition wf_held :: "stock_collateral \<Rightarrow> bool" where
  "wf_held c \<longleftrightarrow> 0 < col_supplied c \<and> 0 \<le> col_price c \<and> 0 \<le> col_user_factor c"

lemma mapR_weighted_held:
  "\<forall>c \<in> set cs. wf_held c \<Longrightarrow>
     mapR weighted_collateral cs = Inr (map (\<lambda>c. (c, collateral_weight c (col_price c))) cs)"
  by (induction cs) (simp_all add: weighted_collateral_def wf_held_def collateral_weight_def mulDiv_eq)

lemma held_weight_nonneg: "wf_held c \<Longrightarrow> 0 \<le> collateral_weight c (col_price c)"
  by (simp add: collateral_weight_def wf_held_def pos_imp_zdiv_nonneg_iff)

lemma mulDiv_by_zero: "0 \<le> a \<Longrightarrow> 0 \<le> b \<Longrightarrow> mulDiv a b 0 r = Inl (RangeError ''mulDiv: denominator must be positive'')"
  by (simp add: mulDiv_def)

lemma liquidation_prices_throw:
  assumes "\<forall>(c, w) \<in> set cws. wf_held c \<and> w = collateral_weight c (col_price c)" and "0 < cpu" and "0 \<le> earlier"
  shows "(\<exists>e. liquidation_prices v cpu earlier cws = Inl e) \<longleftrightarrow>
      (\<exists>(c, w) \<in> set cws. col_user_factor c = 0) \<and> earlier + sum_list (map snd cws) < v"
  using assms(1,3)
proof (induction cws arbitrary: earlier)
  case Nil
  then show ?case by simp
next
  case (Cons cw cws)
  obtain c w where cw: "cw = (c, w)" by (cases cw)
  have c: "wf_held c" "w = collateral_weight c (col_price c)" using Cons.prems(1) by (auto simp: cw)
  have w: "0 \<le> w" using held_weight_nonneg [OF c(1)] c(2) by simp
  have ih: "(\<exists>e. liquidation_prices v cpu (earlier + w) cws = Inl e) \<longleftrightarrow>
      (\<exists>(c, w) \<in> set cws. col_user_factor c = 0) \<and> earlier + w + sum_list (map snd cws) < v"
    using Cons.prems w by (intro Cons.IH) auto
  let ?others = "earlier + sum_list (map snd cws)"
  let ?d = "10 ^ stk_decimals (col_asset c) * BPS" and ?u = "col_supplied c * col_user_factor c * cpu"
  show ?case
  proof (cases "col_user_factor c = 0")
    case True
    then have "w = 0" using c(2) by (simp add: collateral_weight_def)
    show ?thesis
    proof (cases "?others < v")
      case less: True
      then have "mulDiv (v - ?others) ?d ?u Up = Inl (RangeError ''mulDiv: denominator must be positive'')"
        using True by (simp add: mulDiv_by_zero)
      then show ?thesis using True less \<open>w = 0\<close> by (auto simp: cw Let_def)
    next
      case False
      then show ?thesis using ih True \<open>w = 0\<close> by (auto simp: cw Let_def bindR_eq_Inl not_less)
    qed
  next
    case False
    then have u: "0 < ?u" using c(1) assms(2) by (simp add: wf_held_def)
    have "\<exists>q. mulDiv (v - ?others) ?d ?u Up = Inr q" if "\<not> v \<le> ?others"
      using that u by (simp add: mulDiv_eq)
    then have "(\<exists>e. liquidation_prices v cpu earlier (cw # cws) = Inl e) \<longleftrightarrow>
        (\<exists>e. liquidation_prices v cpu (earlier + w) cws = Inl e)"
      by (cases "v \<le> ?others") (auto simp: cw Let_def bindR_eq_Inl)
    with ih False show ?thesis by (auto simp: cw add.assoc)
  qed
qed

text \<open>
  C29. The one reading on which the safety figures throw. With a debt to weigh and every other value
  in range, the computation fails exactly when a stock is held as collateral at a factor of nothing
  and all the collateral together does not cover the debt: the price at which that stock alone would
  save the position is then a division by its factor, which is zero. The whole report fails with it.
\<close>

theorem zero_factor_fails_the_report:
  assumes c: "\<forall>c \<in> set cs. wf_held c" and cpu: "0 < cpu" and d: "0 < debt" and p: "0 < usdcPrice"
  shows "(\<exists>e. aave_safety a (Some debt) (Some usdcPrice) cpu cs = Inl e) \<longleftrightarrow>
     (\<exists>c \<in> set cs. col_user_factor c = 0)
     \<and> (\<Sum>c\<leftarrow>cs. collateral_weight c (col_price c)) < ceil_div (debt * usdcPrice) (10 ^ USDC_DECIMALS)"
proof -
  let ?v = "ceil_div (debt * usdcPrice) (10 ^ USDC_DECIMALS)"
  let ?w = "map (\<lambda>c. (c, collateral_weight c (col_price c))) cs"
  have v: "0 < ?v" using d p by (intro ceil_div_pos) simp_all
  have "0 \<le> (\<Sum>c\<leftarrow>cs. collateral_weight c (col_price c))"
    using c by (intro sum_list_nonneg_int held_weight_nonneg) auto
  then obtain hf src where hf: "aave_health (avs_account a) ?w ?v = Inr (hf, src)"
    using v aave_health_total [of ?w ?v "avs_account a"] by (auto simp: comp_def)
  obtain m st where s: "safetyFromHealthFactor hf = Inr (m, st)" using safety_total by blast
  have "(\<exists>e. aave_safety a (Some debt) (Some usdcPrice) cpu cs = Inl e) \<longleftrightarrow> (\<exists>e. liquidation_prices ?v cpu 0 ?w = Inl e)"
    using d p by (auto simp: aave_safety_def debt_value_eq mapR_weighted_held [OF c] hf s bindR_eq_Inl)
  also have "\<dots> \<longleftrightarrow> (\<exists>(c, w) \<in> set ?w. col_user_factor c = 0) \<and> 0 + sum_list (map snd ?w) < ?v"
    by (rule liquidation_prices_throw) (use c cpu in auto)
  finally show ?thesis by (simp add: comp_def)
qed

theorem zero_factor_fails_the_report_witness:
  "(\<exists>e. aave_safety (sample_aave (Read 0)) (Some 100000000) (Some 100000000) (10 ^ 6) [nvda_collateral 0] = Inl e)
   \<and> map_sum id (\<lambda>_. ()) (compute_aave_open \<lparr>akn_oracle_decimals = 8, akn_reserves = [], akn_usdc = usdc_info, akn_no_cap = 0\<rparr>
       (sample_aave (Read 0)) (mri_snapshot (sample_input (Read 0))) False
       (\<lambda>_. (\<lparr>ern_source = CalendarSource, ern_report_date = None, ern_window = None, ern_lowered = False\<rparr>, None)) [])
     = Inl (RangeError ''mulDiv: denominator must be positive'')"
proof
  have c: "\<forall>c \<in> set [nvda_collateral 0]. wf_held c" by (simp add: wf_held_def nvda_collateral_def)
  show "\<exists>e. aave_safety (sample_aave (Read 0)) (Some 100000000) (Some 100000000) (10 ^ 6) [nvda_collateral 0] = Inl e"
    using zero_factor_fails_the_report [OF c, of "10 ^ 6" 100000000 100000000 "sample_aave (Read 0)"]
    by (simp add: collateral_weight_def nvda_collateral_def USDC_DECIMALS_def ceil_div_def)
qed code_simp

end
