(* ===== verification/Json.thy ===== *)
theory Json
  imports Still_Prelude
begin

text \<open>
  What the modelled code sees of untyped values: JSON as the language parses it, the test for a
  record and the reading of a field. A field that is not there is undefined, which is not null.
\<close>

text \<open>A JavaScript number, as far as the code looks: a whole number, or anything else.\<close>

datatype js_number = Whole int | NotWhole

datatype json =
    JNull
  | JBool bool
  | JNumber js_number
  | JString string
  | JArray "json list"
  | JObject "(string \<times> json) list"

text \<open>\<open>typeof value === 'object' && value !== null\<close>: an array passes too, and has no named field.\<close>

definition isRecord :: "json \<Rightarrow> bool" where
  "isRecord v = (case v of JObject _ \<Rightarrow> True | JArray _ \<Rightarrow> True | _ \<Rightarrow> False)"

definition json_field :: "json \<Rightarrow> string \<Rightarrow> json option" where
  "json_field v name = (case v of JObject fields \<Rightarrow> map_of fields name | _ \<Rightarrow> None)"

definition json_items :: "json option \<Rightarrow> json list option" where
  "json_items v = (case v of Some (JArray xs) \<Rightarrow> Some xs | _ \<Rightarrow> None)"

definition json_record :: "json option \<Rightarrow> json option" where
  "json_record v = (case v of Some x \<Rightarrow> if isRecord x then Some x else None | None \<Rightarrow> None)"

definition json_string :: "json option \<Rightarrow> string option" where
  "json_string v = (case v of Some (JString s) \<Rightarrow> Some s | _ \<Rightarrow> None)"

end
