(* ===== verification/Scenario.thy ===== *)
theory Scenario
  imports Mirror Json "HOL-Library.AList"
begin

text \<open>
  lib/still-engine/src/scenario.ts: what-if questions. An edit changes a copy of the reading a report
  was computed from, or is refused with a reason; the report is then computed again. The code mutates
  the copy in place; here each edit returns the changed snapshot.
\<close>

section \<open>Edits and refusals\<close>

datatype scenario_venue = AaveVenue | MorphoVenueOf crypto_id


datatype repaid = RepayAll | RepayAtomic int

datatype deposit_source = FromWallet | NewTokens

datatype scenario_edit =
    PriceEdit asset_id js_number
  | PriceToEdit asset_id int
  | BorrowEdit scenario_venue int
  | RepayEdit scenario_venue repaid
  | DepositEdit asset_id int deposit_source

datatype scenario_refusal = UnreadRefusal | OutOfRange | NoDebt | NoCollateral | ExceedsLiquidity | ExceedsWallet

datatype scenario_error = Refused scenario_refusal scenario_edit | Thrown js_error

type_synonym 'a edited = "scenario_error + 'a"

definition bindE :: "'a edited \<Rightarrow> ('a \<Rightarrow> 'b edited) \<Rightarrow> 'b edited" where
  "bindE m f = (case m of Inl e \<Rightarrow> Inl e | Inr x \<Rightarrow> f x)"

lemma bindE_simps [simp]: "bindE (Inl e) f = Inl e" "bindE (Inr x) f = f x"
  by (simp_all add: bindE_def)

lemma bindE_eq_Inr: "bindE m f = Inr y \<longleftrightarrow> (\<exists>x. m = Inr x \<and> f x = Inr y)"
  by (cases m) auto

definition thrown :: "'a result \<Rightarrow> 'a edited" where
  "thrown m = (case m of Inl e \<Rightarrow> Inl (Thrown e) | Inr x \<Rightarrow> Inr x)"

lemma thrown_simps [simp]: "thrown (Inl e) = Inl (Thrown e)" "thrown (Inr x) = Inr x"
  by (simp_all add: thrown_def)

lemma thrown_eq_Inr [simp]: "thrown m = Inr x \<longleftrightarrow> m = Inr x"
  by (cases m) auto

definition readOr :: "'a outcome option \<Rightarrow> scenario_edit \<Rightarrow> 'a edited" where
  "readOr outcome edit = (case outcome of Some (Read v) \<Rightarrow> Inr v | _ \<Rightarrow> Inl (Refused UnreadRefusal edit))"

lemma readOr_eq_Inr [simp]: "readOr outcome edit = Inr v \<longleftrightarrow> outcome = Some (Read v)"
  by (auto simp: readOr_def split: option.splits outcome.splits)

section \<open>Where an edit lands\<close>

definition is_stock_reserve :: "asset_id \<Rightarrow> aave_reserve_snapshot \<Rightarrow> bool" where
  "is_stock_reserve asset r =
     (case ari_role (ars_info r) of StockRole s \<Rightarrow> StockAsset (stk_id s) = asset | _ \<Rightarrow> False)"

definition stockReserve :: "wallet_snapshot \<Rightarrow> asset_id \<Rightarrow> scenario_edit \<Rightarrow> aave_reserve_snapshot edited" where
  "stockReserve snapshot asset edit =
     (case wsn_aave snapshot of
        None \<Rightarrow> Inl (Refused UnreadRefusal edit)
      | Some a \<Rightarrow> (case find (is_stock_reserve asset) (avs_reserves a) of
          None \<Rightarrow> Inl (Refused UnreadRefusal edit) | Some r \<Rightarrow> Inr r))"

text \<open>Writing through the reference the lookup returned changes the first matching reserve.\<close>

fun update_first :: "('a \<Rightarrow> bool) \<Rightarrow> ('a \<Rightarrow> 'a) \<Rightarrow> 'a list \<Rightarrow> 'a list" where
  "update_first P f [] = []"
| "update_first P f (x # xs) = (if P x then f x # xs else x # update_first P f xs)"

definition write_reserve ::
  "asset_id \<Rightarrow> (aave_reserve_snapshot \<Rightarrow> aave_reserve_snapshot) \<Rightarrow> wallet_snapshot \<Rightarrow> wallet_snapshot" where
  "write_reserve asset f snapshot = snapshot\<lparr>wsn_aave :=
     map_option (\<lambda>a. a\<lparr>avs_reserves := update_first (is_stock_reserve asset) f (avs_reserves a)\<rparr>) (wsn_aave snapshot)\<rparr>"

definition morphoMarket :: "wallet_snapshot \<Rightarrow> crypto_id \<Rightarrow> scenario_edit \<Rightarrow> morpho_snapshot edited" where
  "morphoMarket snapshot asset edit =
     (case map_of (wsn_morpho snapshot) asset of
        Some (Some m) \<Rightarrow> Inr m | _ \<Rightarrow> Inl (Refused UnreadRefusal edit))"

definition write_market :: "crypto_id \<Rightarrow> morpho_snapshot \<Rightarrow> wallet_snapshot \<Rightarrow> wallet_snapshot" where
  "write_market asset m snapshot = snapshot\<lparr>wsn_morpho := AList.update asset (Some m) (wsn_morpho snapshot)\<rparr>"

definition write_balance :: "string \<Rightarrow> int \<Rightarrow> wallet_snapshot \<Rightarrow> wallet_snapshot" where
  "write_balance key n snapshot = snapshot\<lparr>wsn_balances := AList.update key (Read n) (wsn_balances snapshot)\<rparr>"

definition isStock :: "asset_id \<Rightarrow> bool" where
  "isStock asset = list_ex (\<lambda>s. StockAsset (stk_id s) = asset) STOCKS"

definition crypto_of :: "asset_id \<Rightarrow> crypto_asset option" where
  "crypto_of asset = find (\<lambda>c. CryptoAsset (cry_id c) = asset) CRYPTO"

section \<open>Prices\<close>

definition scaled :: "int \<Rightarrow> int \<Rightarrow> int edited" where
  "scaled change price = thrown (mulDiv price (BPS + change) BPS Down)"

definition applyPrice :: "wallet_snapshot \<Rightarrow> asset_id \<Rightarrow> js_number \<Rightarrow> scenario_edit \<Rightarrow> wallet_snapshot edited" where
  "applyPrice snapshot asset change edit =
     (case change of
        NotWhole \<Rightarrow> Inl (Refused OutOfRange edit)
      | Whole n \<Rightarrow>
          if n \<le> -10000 \<or> n > 100000 then Inl (Refused OutOfRange edit)
          else if isStock asset then
            bindE (stockReserve snapshot asset edit) (\<lambda>r.
            bindE (readOr (Some (ars_price r)) edit) (\<lambda>price.
            bindE (scaled n price) (\<lambda>p.
            Inr (write_reserve asset (\<lambda>r. r\<lparr>ars_price := Read p\<rparr>) snapshot))))
          else (case asset of
            CryptoAsset c \<Rightarrow>
              bindE (morphoMarket snapshot c edit) (\<lambda>m.
              bindE (readOr (Some (mps_price m)) edit) (\<lambda>price.
              bindE (scaled n price) (\<lambda>p.
              Inr (write_market c (m\<lparr>mps_price := Read p\<rparr>) snapshot))))
          | StockAsset _ \<Rightarrow> Inl (Refused UnreadRefusal edit)))"

definition applyPriceTo ::
  "still_universe \<Rightarrow> wallet_snapshot \<Rightarrow> asset_id \<Rightarrow> int \<Rightarrow> scenario_edit \<Rightarrow> wallet_snapshot edited" where
  "applyPriceTo universe snapshot asset cents edit =
     (if cents \<le> 0 then Inl (Refused OutOfRange edit)
      else if isStock asset then
        (case uni_aave universe of
           AaveRefused _ \<Rightarrow> Inl (Refused UnreadRefusal edit)
         | AaveOk known \<Rightarrow>
             bindE (stockReserve snapshot asset edit) (\<lambda>r.
             bindE (readOr (Some (ars_price r)) edit) (\<lambda>_.
             Inr (write_reserve asset (\<lambda>r. r\<lparr>ars_price := Read (cents * 10 ^ (akn_oracle_decimals known - 2))\<rparr>) snapshot))))
      else (case crypto_of asset of
          None \<Rightarrow> Inl (Thrown (JsError ''undefined asset''))
        | Some c \<Rightarrow>
            bindE (morphoMarket snapshot (cry_id c) edit) (\<lambda>m.
            bindE (readOr (Some (mps_price m)) edit) (\<lambda>_.
            Inr (write_market (cry_id c)
              (m\<lparr>mps_price := Read (jsdiv (cents * 10 ^ 4 * 10 ^ 36) (10 ^ cry_decimals c))\<rparr>) snapshot)))))"

section \<open>Debts\<close>

definition pledged :: "aave_snapshot \<Rightarrow> bool" where
  "pledged a = list_ex (\<lambda>r. (case ari_role (ars_info r) of StockRole _ \<Rightarrow> True | _ \<Rightarrow> False)
     \<and> (case ars_supplied r of Read v \<Rightarrow> v > 0 | Unread _ \<Rightarrow> False)) (avs_reserves a)"

text \<open>A change of the debt: what a borrow adds, or what a repayment takes away.\<close>

datatype debt_change = Borrow int | Repay repaid

definition aave_change :: "aave_snapshot \<Rightarrow> int \<Rightarrow> debt_change \<Rightarrow> scenario_edit \<Rightarrow> int edited" where
  "aave_change a debt change edit =
     (case change of
        Borrow n \<Rightarrow>
          if \<not> pledged a then Inl (Refused NoCollateral edit)
          else if (case avs_usdc_liquidity a of Read l \<Rightarrow> n > l | Unread _ \<Rightarrow> False)
          then Inl (Refused ExceedsLiquidity edit)
          else Inr n
      | Repay r \<Rightarrow>
          if debt = 0 then Inl (Refused NoDebt edit)
          else Inr (- (case r of RepayAll \<Rightarrow> debt | RepayAtomic n \<Rightarrow> if n > debt then debt else n)))"

definition with_debt_change :: "aave_snapshot \<Rightarrow> int \<Rightarrow> int \<Rightarrow> aave_snapshot" where
  "with_debt_change a debt change =
     a\<lparr>avs_usdc_debt := Read (debt + change),
       avs_usdc_spoke_owed := map_outcome_value (\<lambda>v. if v + change > 0 then v + change else 0) (avs_usdc_spoke_owed a),
       avs_usdc_liquidity := map_outcome_value (\<lambda>v. v - change) (avs_usdc_liquidity a)\<rparr>"

definition applyAaveDebt :: "wallet_snapshot \<Rightarrow> debt_change \<Rightarrow> scenario_edit \<Rightarrow> wallet_snapshot edited" where
  "applyAaveDebt snapshot change edit =
     (case wsn_aave snapshot of
        None \<Rightarrow> Inl (Refused UnreadRefusal edit)
      | Some a \<Rightarrow>
          bindE (readOr (Some (avs_usdc_debt a)) edit) (\<lambda>debt.
          bindE (aave_change a debt change edit) (\<lambda>c.
          Inr (snapshot\<lparr>wsn_aave := Some (with_debt_change a debt c)\<rparr>))))"

text \<open>On Morpho a change is assets and the shares they are worth after interest.\<close>

definition morpho_change ::
  "morpho_position \<Rightarrow> morpho_totals \<Rightarrow> debt_change \<Rightarrow> scenario_edit \<Rightarrow> (int \<times> int) edited" where
  "morpho_change p t change edit =
     (case change of
        Borrow n \<Rightarrow>
          if pos_collateral p = 0 then Inl (Refused NoCollateral edit)
          else if n > tot_supply_assets t - tot_borrow_assets t then Inl (Refused ExceedsLiquidity edit)
          else
            bindE (thrown (mulDivUpV1 n (tot_borrow_shares t + MORPHO_VIRTUAL_SHARES_V1)
                     (tot_borrow_assets t + MORPHO_VIRTUAL_ASSETS_V1))) (\<lambda>shares.
            Inr (n, shares))
      | Repay r \<Rightarrow>
          if pos_borrow_shares p = 0 then Inl (Refused NoDebt edit)
          else
            bindE (thrown (toAssetsUpV1 (pos_borrow_shares p) (tot_borrow_assets t) (tot_borrow_shares t))) (\<lambda>owed.
            case r of
              RepayAll \<Rightarrow> Inr (- owed, - pos_borrow_shares p)
            | RepayAtomic n \<Rightarrow>
                if n \<ge> owed then Inr (- owed, - pos_borrow_shares p)
                else
                  bindE (thrown (toSharesDownV1 n (tot_borrow_assets t) (tot_borrow_shares t))) (\<lambda>shares.
                  Inr (- n, - shares))))"

definition with_morpho_change ::
  "morpho_snapshot \<Rightarrow> morpho_position \<Rightarrow> morpho_totals \<Rightarrow> int \<Rightarrow> int \<Rightarrow> int \<Rightarrow> morpho_snapshot" where
  "with_morpho_change m p t timestamp assets shares =
     m\<lparr>mps_market := Read (t\<lparr>
           tot_borrow_assets := (if tot_borrow_assets t + assets > 0 then tot_borrow_assets t + assets else 0),
           tot_borrow_shares := tot_borrow_shares t + shares, tot_last_update := timestamp\<rparr>),
       mps_position := Read (p\<lparr>pos_borrow_shares := pos_borrow_shares p + shares\<rparr>)\<rparr>"

definition applyMorphoDebt :: "wallet_snapshot \<Rightarrow> crypto_id \<Rightarrow> debt_change \<Rightarrow> scenario_edit \<Rightarrow> wallet_snapshot edited" where
  "applyMorphoDebt snapshot asset change edit =
     bindE (morphoMarket snapshot asset edit) (\<lambda>m.
     bindE (readOr (Some (mps_position m)) edit) (\<lambda>p.
     bindE (readOr (Some (mps_market m)) edit) (\<lambda>stored.
     bindE (readOr (Some (mps_borrow_rate m)) edit) (\<lambda>rate.
     bindE (thrown (morphoAccruedTotalsV1 stored rate (wsn_block_timestamp snapshot))) (\<lambda>t.
     bindE (morpho_change p t change edit) (\<lambda>(assets, shares).
     Inr (write_market asset (with_morpho_change m p t (wsn_block_timestamp snapshot) assets shares) snapshot)))))))"

section \<open>Deposits\<close>

definition with_deposit :: "int \<Rightarrow> int \<Rightarrow> aave_reserve_snapshot \<Rightarrow> aave_reserve_snapshot" where
  "with_deposit supplied raw r =
     r\<lparr>ars_supplied := Read (supplied + raw),
       ars_spoke_added := map_outcome_value (\<lambda>v. v + raw) (ars_spoke_added r),
       ars_status := Read (True, case ars_status r of Read (_, borrowing) \<Rightarrow> borrowing | Unread _ \<Rightarrow> False),
       ars_user_factor_bps := (if (case ars_user_factor_bps r of Read _ \<Rightarrow> False | Unread _ \<Rightarrow> True) \<or> supplied = 0
         then ars_factor_bps r else ars_user_factor_bps r)\<rparr>"

definition applyStockDeposit ::
  "wallet_snapshot \<Rightarrow> asset_id \<Rightarrow> int \<Rightarrow> deposit_source \<Rightarrow> scenario_edit \<Rightarrow> wallet_snapshot edited" where
  "applyStockDeposit snapshot asset raw source edit =
     bindE (stockReserve snapshot asset edit) (\<lambda>r.
     bindE (readOr (Some (ars_supplied r)) edit) (\<lambda>supplied.
     bindE (case source of
         NewTokens \<Rightarrow> Inr snapshot
       | FromWallet \<Rightarrow>
           let key = to_lower (ari_underlying (ars_info r)) in
           bindE (readOr (map_of (wsn_balances snapshot) key) edit) (\<lambda>held.
           if held < raw then Inl (Refused ExceedsWallet edit)
           else Inr (write_balance key (held - raw) snapshot))) (\<lambda>s.
     Inr (write_reserve asset (with_deposit supplied raw) s))))"

text \<open>Wrapped tokens go first; native ETH makes up the rest.\<close>

definition take_crypto :: "wallet_snapshot \<Rightarrow> crypto_asset \<Rightarrow> int \<Rightarrow> scenario_edit \<Rightarrow> wallet_snapshot edited" where
  "take_crypto snapshot c raw edit =
     (let key = to_lower (cry_token c) in
      bindE (readOr (map_of (wsn_balances snapshot) key) edit) (\<lambda>tokens.
      bindE (if cry_includes_native_eth c then readOr (Some (wsn_native_eth snapshot)) edit else Inr 0) (\<lambda>native.
      if tokens + native < raw then Inl (Refused ExceedsWallet edit)
      else
        let fromTokens = (if tokens < raw then tokens else raw);
            s = write_balance key (tokens - fromTokens) snapshot
        in Inr (if raw > fromTokens then s\<lparr>wsn_native_eth := Read (native - (raw - fromTokens))\<rparr> else s))))"

definition applyDeposit ::
  "wallet_snapshot \<Rightarrow> asset_id \<Rightarrow> int \<Rightarrow> deposit_source \<Rightarrow> scenario_edit \<Rightarrow> wallet_snapshot edited" where
  "applyDeposit snapshot asset raw source edit =
     (if raw \<le> 0 then Inl (Refused OutOfRange edit)
      else if isStock asset then applyStockDeposit snapshot asset raw source edit
      else (case crypto_of asset of
          None \<Rightarrow> Inl (Thrown (JsError ''undefined asset''))
        | Some c \<Rightarrow>
            bindE (morphoMarket snapshot (cry_id c) edit) (\<lambda>m.
            bindE (readOr (Some (mps_position m)) edit) (\<lambda>p.
            bindE (if source = FromWallet then take_crypto snapshot c raw edit else Inr snapshot) (\<lambda>s.
            Inr (write_market (cry_id c)
              (m\<lparr>mps_position := Read (p\<lparr>pos_collateral := pos_collateral p + raw\<rparr>)\<rparr>) s))))))"

section \<open>One edit, and the scenario\<close>

definition apply_debt :: "wallet_snapshot \<Rightarrow> scenario_venue \<Rightarrow> debt_change \<Rightarrow> scenario_edit \<Rightarrow> wallet_snapshot edited" where
  "apply_debt snapshot venue change edit =
     (case venue of
        AaveVenue \<Rightarrow> applyAaveDebt snapshot change edit
      | MorphoVenueOf c \<Rightarrow> applyMorphoDebt snapshot c change edit)"

definition apply_edit :: "still_universe \<Rightarrow> wallet_snapshot \<Rightarrow> scenario_edit \<Rightarrow> wallet_snapshot edited" where
  "apply_edit universe snapshot edit =
     (case edit of
        PriceEdit asset change \<Rightarrow> applyPrice snapshot asset change edit
      | PriceToEdit asset cents \<Rightarrow> applyPriceTo universe snapshot asset cents edit
      | DepositEdit asset raw source \<Rightarrow> applyDeposit snapshot asset raw source edit
      | BorrowEdit venue n \<Rightarrow>
          if n \<le> 0 then Inl (Refused OutOfRange edit) else apply_debt snapshot venue (Borrow n) edit
      | RepayEdit venue r \<Rightarrow>
          if (case r of RepayAll \<Rightarrow> False | RepayAtomic n \<Rightarrow> n \<le> 0) then Inl (Refused OutOfRange edit)
          else apply_debt snapshot venue (Repay r) edit)"

fun apply_edits :: "still_universe \<Rightarrow> wallet_snapshot \<Rightarrow> scenario_edit list \<Rightarrow> wallet_snapshot edited" where
  "apply_edits universe snapshot [] = Inr snapshot"
| "apply_edits universe snapshot (edit # edits) =
     bindE (apply_edit universe snapshot edit) (\<lambda>s. apply_edits universe s edits)"

definition withComputedHealth :: "mirror_input \<Rightarrow> wallet_snapshot \<Rightarrow> mirror_input" where
  "withComputedHealth input snapshot = input\<lparr>mri_snapshot := snapshot\<lparr>wsn_aave :=
     map_option (\<lambda>a. a\<lparr>avs_account := Unread Reverted, avs_risk_premium_bps := Unread Reverted\<rparr>) (wsn_aave snapshot)\<rparr>\<rparr>"

definition aave_line :: "mirror_report \<Rightarrow> venue_line option" where
  "aave_line r = find (\<lambda>v. vln_venue v = AaveV4) (mrr_venues r)"

definition aave_line_safety :: "mirror_report \<Rightarrow> safety_reading option" where
  "aave_line_safety r = (case aave_line r of None \<Rightarrow> None | Some v \<Rightarrow> vln_safety v)"

text \<open>The protocol's own figure, moved by the ratio of the two computed ones.\<close>

definition moved_safety :: "safety_reading \<Rightarrow> safety_reading \<Rightarrow> safety_reading \<Rightarrow> safety_reading result" where
  "moved_safety protocol computedAfter computedBefore =
     bindR (mulDiv (sfr_health_factor protocol) (sfr_health_factor computedAfter) (sfr_health_factor computedBefore) Down) (\<lambda>hf.
     bindR (safetyFromHealthFactor hf) (\<lambda>(margin, st).
     Inr \<lparr>sfr_margin_bps = margin, sfr_state = st, sfr_health_factor = hf, sfr_source = Computed\<rparr>))"

datatype scenario_outcome =
    ScenarioOk mirror_report mirror_report "scenario_edit list"
  | ScenarioRefused scenario_refusal scenario_edit

definition rescaled_after :: "mirror_input \<Rightarrow> mirror_report \<Rightarrow> mirror_report \<Rightarrow> mirror_report result" where
  "rescaled_after input report after =
     (case (aave_line_safety report, aave_line_safety after) of
        (Some protocol, Some computedAfter) \<Rightarrow>
          if sfr_source protocol = FromProtocol then
            bindR (computeMirror (withComputedHealth input (mri_snapshot input))) (\<lambda>plain.
            case aave_line_safety plain of
              None \<Rightarrow> Inr after
            | Some computedBefore \<Rightarrow>
                if sfr_health_factor computedBefore > 0 then
                  bindR (moved_safety protocol computedAfter computedBefore) (\<lambda>s.
                  Inr (after\<lparr>mrr_venues := update_first (\<lambda>v. vln_venue v = AaveV4) (\<lambda>v. v\<lparr>vln_safety := Some s\<rparr>) (mrr_venues after)\<rparr>))
                else Inr after)
          else Inr after
      | _ \<Rightarrow> Inr after)"

definition scenarioV1 :: "mirror_input \<Rightarrow> scenario_edit list \<Rightarrow> scenario_outcome result" where
  "scenarioV1 input edits =
     (case apply_edits (mri_universe input) (mri_snapshot input) edits of
        Inl (Refused reason edit) \<Rightarrow> Inr (ScenarioRefused reason edit)
      | Inl (Thrown e) \<Rightarrow> Inl e
      | Inr snapshot \<Rightarrow>
          bindR (computeMirror input) (\<lambda>report.
          bindR (computeMirror (withComputedHealth input snapshot)) (\<lambda>after.
          bindR (rescaled_after input report after) (\<lambda>after.
          Inr (ScenarioOk report after edits)))))"

text \<open>\<open>healthFactorTextV1\<close>: hundredths, after a billionth of slack.\<close>

definition health_hundredths :: "int \<Rightarrow> int result" where
  "health_hundredths hf = mulDiv (hf + 10 ^ 9) 100 WAD Down"

end
