(* ===== verification/Guarded_Steps.thy ===== *)
theory Guarded_Steps
  imports Main
begin

text \<open>
  Runs of an operation that changes a state or refuses: the interface the scenarios, the caches and
  the ledgers of the development share. A provider states its step and what every step keeps; the
  facts about whole runs are proved here once.
\<close>

text \<open>The first refusal stops the run.\<close>

fun run_steps :: "('s \<Rightarrow> 'e \<Rightarrow> 'x + 's) \<Rightarrow> 's \<Rightarrow> 'e list \<Rightarrow> 'x + 's" where
  "run_steps step s [] = Inr s"
| "run_steps step s (e # es) = (case step s e of Inl x \<Rightarrow> Inl x | Inr t \<Rightarrow> run_steps step t es)"

lemma run_steps_append:
  "run_steps step s (xs @ ys) = (case run_steps step s xs of Inl x \<Rightarrow> Inl x | Inr t \<Rightarrow> run_steps step t ys)"
  by (induction xs arbitrary: s) (simp_all split: sum.splits)

locale guarded_steps =
  fixes step :: "'s \<Rightarrow> 'e \<Rightarrow> 'x + 's" and inv :: "'s \<Rightarrow> bool"
  assumes step_keeps: "inv s \<Longrightarrow> step s e = Inr t \<Longrightarrow> inv t"
begin

lemma run_keeps: "inv s \<Longrightarrow> run_steps step s es = Inr t \<Longrightarrow> inv t"
  by (induction es arbitrary: s) (auto split: sum.splits intro: step_keeps)

lemma run_stops_at:
  "inv s \<Longrightarrow> run_steps step s es = Inl x \<Longrightarrow> \<exists>s' e. inv s' \<and> e \<in> set es \<and> step s' e = Inl x"
proof (induction es arbitrary: s)
  case Nil
  then show ?case by simp
next
  case (Cons e es)
  show ?case
  proof (cases "step s e")
    case (Inl y)
    with Cons.prems show ?thesis by auto
  next
    case (Inr t)
    with Cons.prems have "inv t" "run_steps step t es = Inl x" by (auto intro: step_keeps)
    from Cons.IH [OF this] show ?thesis by auto
  qed
qed

end

text \<open>What the steps of one kind leave as it is.\<close>

locale measured_steps = guarded_steps +
  fixes harmless :: "'b \<Rightarrow> bool" and reading :: "'a \<Rightarrow> 'v"
  assumes step_leaves: "inv s \<Longrightarrow> harmless e \<Longrightarrow> step s e = Inr t \<Longrightarrow> reading t = reading s"
begin

lemma run_leaves:
  "inv s \<Longrightarrow> \<forall>e \<in> set es. harmless e \<Longrightarrow> run_steps step s es = Inr t \<Longrightarrow> reading t = reading s"
proof (induction es arbitrary: s)
  case Nil
  then show ?case by simp
next
  case (Cons e es)
  then obtain u where u: "step s e = Inr u" "run_steps step u es = Inr t" by (auto split: sum.splits)
  have "reading t = reading u" using Cons.prems u step_keeps by (intro Cons.IH) auto
  moreover have "reading u = reading s" using Cons.prems u(1) by (intro step_leaves) auto
  ultimately show ?case by simp
qed

end

section \<open>Loops that add up\<close>

text \<open>
  A loop that refuses at the first element it does not accept and adds up what the others weigh: the
  guards scan the calls of a batch this way.
\<close>

locale adding_steps =
  fixes step :: "'s \<Rightarrow> 'e \<Rightarrow> 'x + 's" and tally :: "'s \<Rightarrow> int" and weight :: "'e \<Rightarrow> int" and accepted :: "'e \<Rightarrow> bool"
  assumes step_accepts: "step s e = Inr t \<Longrightarrow> accepted e"
    and step_adds: "step s e = Inr t \<Longrightarrow> tally t = tally s + weight e"
begin

lemma run_accepts: "run_steps step s es = Inr t \<Longrightarrow> e \<in> set es \<Longrightarrow> accepted e"
  by (induction es arbitrary: s) (auto split: sum.splits dest: step_accepts)

lemma run_adds: "run_steps step s es = Inr t \<Longrightarrow> tally t = tally s + (\<Sum>e\<leftarrow>es. weight e)"
  by (induction es arbitrary: s) (auto split: sum.splits dest: step_adds)

end

section \<open>Step relations\<close>

text \<open>
  A component that others act on in any order: an initial state and labelled steps. \<open>runs\<close> is what
  a sequence of labels can lead to.
\<close>

inductive runs :: "('s \<Rightarrow> 'e \<Rightarrow> 's \<Rightarrow> bool) \<Rightarrow> 's \<Rightarrow> 'e list \<Rightarrow> 's \<Rightarrow> bool" for step where
  none: "runs step s [] s"
| more: "step s e t \<Longrightarrow> runs step t es u \<Longrightarrow> runs step s (e # es) u"

inductive_simps runs_Nil [simp]: "runs step s [] t"
inductive_simps runs_Cons [simp]: "runs step s (e # es) u"

lemma runs_append: "runs step s (xs @ ys) u \<longleftrightarrow> (\<exists>t. runs step s xs t \<and> runs step t ys u)"
  by (induction xs arbitrary: s) auto

locale stepping =
  fixes step :: "'s \<Rightarrow> 'e \<Rightarrow> 's \<Rightarrow> bool" and started :: "'s \<Rightarrow> bool" and inv :: "'s \<Rightarrow> bool"
  assumes started_inv: "started s \<Longrightarrow> inv s"
    and step_inv: "inv s \<Longrightarrow> step s e t \<Longrightarrow> inv t"
begin

lemma runs_inv: "runs step s es t \<Longrightarrow> inv s \<Longrightarrow> inv t"
  by (induction rule: runs.induct) (auto intro: step_inv)

lemma reached: "started s \<Longrightarrow> runs step s es t \<Longrightarrow> inv t"
  by (blast intro: runs_inv started_inv)

end

end
