(* ===== verification/Scenario_Holdings.thy ===== *)
theory Scenario_Holdings
  imports Scenario Guarded_Steps Morpho_Properties Mirror_Sample
begin

text \<open>
  What a scenario's edits keep: readings stay in range, every failure is a refusal that names an edit
  of the scenario, and no edit but a deposit of new tokens changes how much of an asset is held.
\<close>

section \<open>Looking a written reserve up again\<close>

lemma find_update_first:
  assumes "\<And>x. P x \<Longrightarrow> P (f x)"
  shows "find P (update_first P f xs) = map_option f (find P xs)"
  by (induction xs) (auto simp: assms)

lemma find_update_first_other:
  assumes "\<And>x. P x \<Longrightarrow> \<not> Q x \<and> \<not> Q (f x)"
  shows "find Q (update_first P f xs) = find Q xs"
  by (induction xs) (use assms in auto)

lemma set_update_first: "y \<in> set (update_first P f xs) \<Longrightarrow> y \<in> set xs \<or> (\<exists>x. find P xs = Some x \<and> y = f x)"
  by (induction xs) (auto split: if_splits)

lemma is_stock_reserve_info: "ars_info r' = ars_info r \<Longrightarrow> is_stock_reserve a r' = is_stock_reserve a r"
  by (simp add: is_stock_reserve_def)

lemma is_stock_reserve_unique: "is_stock_reserve a r \<Longrightarrow> is_stock_reserve b r \<Longrightarrow> a = b"
  by (auto simp: is_stock_reserve_def split: reserve_role.splits)

definition stock_reserve_of :: "wallet_snapshot \<Rightarrow> asset_id \<Rightarrow> aave_reserve_snapshot option" where
  "stock_reserve_of s b = (case wsn_aave s of None \<Rightarrow> None | Some a \<Rightarrow> find (is_stock_reserve b) (avs_reserves a))"

lemma stockReserve_eq_Inr [simp]: "stockReserve s a edit = Inr r \<longleftrightarrow> stock_reserve_of s a = Some r"
  by (auto simp: stockReserve_def stock_reserve_of_def split: option.splits)

lemma stock_reserve_of_write:
  assumes "\<And>r. ars_info (f r) = ars_info r"
  shows "stock_reserve_of (write_reserve a f s) b =
    (if a = b then map_option f (stock_reserve_of s b) else stock_reserve_of s b)"
proof (cases "a = b")
  case True
  have "find (is_stock_reserve b) (update_first (is_stock_reserve b) f xs) = map_option f (find (is_stock_reserve b) xs)" for xs
    by (rule find_update_first) (simp add: is_stock_reserve_info [OF assms])
  with True show ?thesis by (auto simp: stock_reserve_of_def write_reserve_def split: option.split)
next
  case False
  have "find (is_stock_reserve b) (update_first (is_stock_reserve a) f xs) = find (is_stock_reserve b) xs" for xs
    by (rule find_update_first_other) (use False is_stock_reserve_unique is_stock_reserve_info [OF assms] in auto)
  with False show ?thesis by (auto simp: stock_reserve_of_def write_reserve_def split: option.split)
qed

section \<open>Holdings\<close>

definition balance_of :: "wallet_snapshot \<Rightarrow> string \<Rightarrow> int option" where
  "balance_of s key = (case map_of (wsn_balances s) key of Some x \<Rightarrow> outcome_value x | None \<Rightarrow> None)"

definition token_key :: "asset_id \<Rightarrow> string" where
  "token_key a = (case find (\<lambda>x. StockAsset (stk_id x) = a) STOCKS of
     Some x \<Rightarrow> to_lower (stk_token x)
   | None \<Rightarrow> (case find (\<lambda>c. CryptoAsset (cry_id c) = a) CRYPTO of Some c \<Rightarrow> to_lower (cry_token c) | None \<Rightarrow> ''''))"

definition native_of :: "wallet_snapshot \<Rightarrow> crypto_id \<Rightarrow> int option" where
  "native_of s c = (if c = ETH then outcome_value (wsn_native_eth s) else Some 0)"

definition position_of :: "wallet_snapshot \<Rightarrow> crypto_id \<Rightarrow> morpho_position option" where
  "position_of s c = (case map_of (wsn_morpho s) c of Some (Some m) \<Rightarrow> outcome_value (mps_position m) | _ \<Rightarrow> None)"

text \<open>All of an asset the reading counts: in the wallet and pledged.\<close>

definition holdings :: "wallet_snapshot \<Rightarrow> asset_id \<Rightarrow> int option" where
  "holdings s a = (case a of
     StockAsset _ \<Rightarrow> (case stock_reserve_of s a of None \<Rightarrow> None
       | Some r \<Rightarrow> sum_known (balance_of s (token_key a)) (outcome_value (ars_supplied r)))
   | CryptoAsset c \<Rightarrow> (case position_of s c of None \<Rightarrow> None
       | Some p \<Rightarrow> sum_known (sum_known (balance_of s (token_key a)) (native_of s c)) (Some (pos_collateral p))))"

lemma holdings_same:
  assumes "stock_reserve_of t b = stock_reserve_of s b" and "balance_of t (token_key b) = balance_of s (token_key b)"
    and "\<And>c. b = CryptoAsset c \<Longrightarrow> native_of t c = native_of s c \<and> position_of t c = position_of s c"
  shows "holdings t b = holdings s b"
  using assms by (cases b) (simp_all add: holdings_def cong: option.case_cong)

lemma token_keys:
  "map token_key (map StockAsset [AAPLc, AMZNc, GOOGLc, METAc, MSFTc, NVDAc, SPCXc, TSLAc] @ map CryptoAsset [CbBTC, ETH, PAXG])
     = map to_lower (map stk_token STOCKS @ map cry_token CRYPTO)"
  by code_simp

lemma token_keys_distinct: "distinct (map to_lower (map stk_token STOCKS @ map cry_token CRYPTO))"
  by code_simp

lemma token_key_inj: "token_key a = token_key b \<Longrightarrow> a = b"
proof -
  let ?all = "map StockAsset [AAPLc, AMZNc, GOOGLc, METAc, MSFTc, NVDAc, SPCXc, TSLAc] @ map CryptoAsset [CbBTC, ETH, PAXG]"
  assume eq: "token_key a = token_key b"
  have all: "x \<in> set ?all" for x
  proof (cases x)
    case (StockAsset i)
    then show ?thesis by (cases i) simp_all
  next
    case (CryptoAsset c)
    then show ?thesis by (cases c) simp_all
  qed
  have "inj_on token_key (set ?all)"
    using token_keys_distinct unfolding token_keys [symmetric] distinct_map by blast
  then show ?thesis using eq all by (blast dest: inj_onD)
qed

text \<open>The reserves of a reading are the registered tokens, as the universe checks.\<close>

definition keys_ok :: "wallet_snapshot \<Rightarrow> bool" where
  "keys_ok s \<longleftrightarrow> (\<forall>a r. stock_reserve_of s a = Some r \<longrightarrow> to_lower (ari_underlying (ars_info r)) = token_key a)"

lemma keys_ok_write: "keys_ok s \<Longrightarrow> (\<And>r. ars_info (f r) = ars_info r) \<Longrightarrow> keys_ok (write_reserve a f s)"
  by (auto simp: keys_ok_def stock_reserve_of_write)

lemma stock_of_write_balance [simp]: "stock_reserve_of (write_balance k n s) a = stock_reserve_of s a"
  by (simp add: stock_reserve_of_def write_balance_def)

lemma stock_of_write_market [simp]: "stock_reserve_of (write_market c m s) a = stock_reserve_of s a"
  by (simp add: stock_reserve_of_def write_market_def)

lemma position_of_writes [simp]:
  "position_of (write_reserve a f s) c = position_of s c"
  "position_of (write_balance k n s) c = position_of s c"
  "position_of (write_market c' m s) c = (if c = c' then outcome_value (mps_position m) else position_of s c)"
  by (simp_all add: position_of_def write_reserve_def write_balance_def write_market_def update_conv')

lemma balance_of_writes [simp]:
  "balance_of (write_reserve a f s) k = balance_of s k"
  "balance_of (write_market c m s) k = balance_of s k"
  "balance_of (write_balance k' n s) k = (if k = k' then Some n else balance_of s k)"
  by (simp_all add: balance_of_def write_reserve_def write_balance_def write_market_def update_conv')

lemma native_of_writes [simp]:
  "native_of (write_reserve a f s) c = native_of s c"
  "native_of (write_market c' m s) c = native_of s c"
  "native_of (write_balance k n s) c = native_of s c"
  by (simp_all add: native_of_def write_reserve_def write_balance_def write_market_def)

lemma stock_reserve_of_same_aave: "wsn_aave s' = wsn_aave s \<Longrightarrow> stock_reserve_of s' a = stock_reserve_of s a"
  by (simp add: stock_reserve_of_def)

section \<open>Readings in range\<close>

definition wf_held_market :: "morpho_snapshot \<Rightarrow> bool" where
  "wf_held_market m \<longleftrightarrow>
     (\<forall>p. mps_position m = Read p \<longrightarrow> 0 \<le> pos_collateral p \<and> 0 \<le> pos_borrow_shares p
        \<and> (\<forall>t. mps_market m = Read t \<longrightarrow> pos_borrow_shares p \<le> tot_borrow_shares t))
     \<and> (\<forall>v. mps_price m = Read v \<longrightarrow> 0 \<le> v) \<and> (\<forall>v. mps_borrow_rate m = Read v \<longrightarrow> 0 \<le> v)
     \<and> (\<forall>t. mps_market m = Read t \<longrightarrow> wf_totals t)"

definition wf_held_reserve :: "aave_reserve_snapshot \<Rightarrow> bool" where
  "wf_held_reserve r \<longleftrightarrow> (\<forall>v. ars_price r = Read v \<longrightarrow> 0 \<le> v) \<and> (\<forall>v. ars_supplied r = Read v \<longrightarrow> 0 \<le> v)"

definition wf_held_aave :: "aave_snapshot \<Rightarrow> bool" where
  "wf_held_aave a \<longleftrightarrow> (\<forall>r \<in> set (avs_reserves a). wf_held_reserve r)
     \<and> (\<forall>v. avs_usdc_debt a = Read v \<longrightarrow> 0 \<le> v) \<and> (\<forall>v. avs_usdc_liquidity a = Read v \<longrightarrow> 0 \<le> v)
     \<and> (\<forall>v. avs_usdc_spoke_owed a = Read v \<longrightarrow> 0 \<le> v)"

definition wf_reading :: "wallet_snapshot \<Rightarrow> bool" where
  "wf_reading s \<longleftrightarrow> keys_ok s \<and> (\<forall>k n. balance_of s k = Some n \<longrightarrow> 0 \<le> n)
     \<and> (\<forall>n. wsn_native_eth s = Read n \<longrightarrow> 0 \<le> n)
     \<and> (\<forall>a. wsn_aave s = Some a \<longrightarrow> wf_held_aave a)
     \<and> (\<forall>c m. map_of (wsn_morpho s) c = Some (Some m) \<longrightarrow> wf_held_market m)"

lemma wf_write_reserve:
  assumes s: "wf_reading s" and f: "\<And>r. ars_info (f r) = ars_info r"
    and r: "\<And>r. stock_reserve_of s a = Some r \<Longrightarrow> wf_held_reserve (f r)"
  shows "wf_reading (write_reserve a f s)"
proof -
  have "wf_held_aave (v\<lparr>avs_reserves := update_first (is_stock_reserve a) f (avs_reserves v)\<rparr>)"
    if v: "wsn_aave s = Some v" for v
    using s v r by (auto simp: wf_reading_def wf_held_aave_def stock_reserve_of_def dest: set_update_first)
  then show ?thesis
    using s keys_ok_write [of s f a] f by (auto simp: wf_reading_def) (auto simp: write_reserve_def)
qed

lemma wf_write_market:
  "wf_reading s \<Longrightarrow> wf_held_market m \<Longrightarrow> wf_reading (write_market c m s)"
  by (auto simp: wf_reading_def keys_ok_def) (auto simp: write_market_def update_conv' split: if_splits)

lemma wf_write_balance:
  "wf_reading s \<Longrightarrow> 0 \<le> n \<Longrightarrow> wf_reading (write_balance k n s)"
  by (auto simp: wf_reading_def keys_ok_def split: if_splits) (auto simp: write_balance_def)

lemma wf_native: "wf_reading s \<Longrightarrow> 0 \<le> n \<Longrightarrow> wf_reading (s\<lparr>wsn_native_eth := Read n\<rparr>)"
  by (auto simp: wf_reading_def keys_ok_def stock_reserve_of_def balance_of_def)

lemma wf_readingD:
  assumes "wf_reading s"
  shows "stock_reserve_of s a = Some r \<Longrightarrow> wf_held_reserve r"
    and "map_of (wsn_morpho s) c = Some (Some m) \<Longrightarrow> wf_held_market m"
    and "map_of (wsn_balances s) k = Some (Read n) \<Longrightarrow> 0 \<le> n"
  using assms
  by (auto simp: wf_reading_def wf_held_aave_def stock_reserve_of_def balance_of_def find_Some_iff split: option.splits)

lemma reading_prices:
  assumes "wf_reading s"
  shows "stock_reserve_of s a = Some r \<Longrightarrow> ars_price r = Read v \<Longrightarrow> 0 \<le> v"
    and "map_of (wsn_morpho s) c = Some (Some m) \<Longrightarrow> mps_price m = Read v \<Longrightarrow> 0 \<le> v"
  using wf_readingD(1,2) [OF assms] by (auto simp: wf_held_reserve_def wf_held_market_def)

lemma morphoMarket_eq_Inr [simp]: "morphoMarket s c edit = Inr m \<longleftrightarrow> map_of (wsn_morpho s) c = Some (Some m)"
  by (auto simp: morphoMarket_def split: option.splits)

section \<open>Prices\<close>

lemma scaled_price:
  "0 \<le> price \<Longrightarrow> -10000 < n \<Longrightarrow> \<exists>p. scaled n price = Inr p \<and> 0 \<le> p"
  by (simp add: scaled_def mulDiv_eq BPS_def pos_imp_zdiv_nonneg_iff)

lemma crypto_of_eq: "crypto_of a = Some c \<Longrightarrow> a = CryptoAsset (cry_id c) \<and> c \<in> set CRYPTO"
  by (auto simp: crypto_of_def find_Some_iff)

lemma isStock_iff: "isStock a \<longleftrightarrow> (\<exists>i. a = StockAsset i)"
  by (cases a) (auto simp: isStock_def STOCKS_def, metis stock_id.exhaust)

lemma crypto_of_known: "\<not> isStock a \<Longrightarrow> \<exists>c. crypto_of a = Some c"
  by (cases a) (auto simp: isStock_iff crypto_of_def CRYPTO_def, metis crypto_id.exhaust)

section \<open>One edit\<close>

text \<open>New tokens are the one thing an edit can add.\<close>

definition brings_tokens :: "scenario_edit \<Rightarrow> bool" where
  "brings_tokens edit = (case edit of DepositEdit _ _ source \<Rightarrow> source = NewTokens | _ \<Rightarrow> False)"

definition refuses :: "scenario_edit \<Rightarrow> 'a edited \<Rightarrow> bool" where
  "refuses edit m \<longleftrightarrow> (\<forall>x. m = Inl x \<longrightarrow> (\<exists>reason. x = Refused reason edit))"

definition fine :: "wallet_snapshot \<Rightarrow> scenario_edit \<Rightarrow> wallet_snapshot edited \<Rightarrow> bool" where
  "fine s edit m \<longleftrightarrow> refuses edit m
     \<and> (\<forall>t. m = Inr t \<longrightarrow> wf_reading t \<and> (brings_tokens edit \<or> holdings t = holdings s))"

lemma refuses_simps [simp]:
  "refuses edit (Inr v)" "refuses edit (Inl (Refused reason edit))"
  "refuses edit (readOr x edit)" "refuses edit (stockReserve s a edit)" "refuses edit (morphoMarket s c edit)"
  by (auto simp: refuses_def readOr_def stockReserve_def morphoMarket_def split: option.splits outcome.splits)

lemma refuses_thrown: "(\<And>e. m \<noteq> Inl e) \<Longrightarrow> refuses edit (thrown m)"
  by (cases m) (auto simp: refuses_def)

lemma refuses_bindE:
  "refuses edit m \<Longrightarrow> (\<And>x. m = Inr x \<Longrightarrow> refuses edit (f x)) \<Longrightarrow> refuses edit (bindE m f)"
  by (cases m) (auto simp: refuses_def)

lemma fine_bindE:
  "refuses edit m \<Longrightarrow> (\<And>x. m = Inr x \<Longrightarrow> fine s edit (f x)) \<Longrightarrow> fine s edit (bindE m f)"
  by (cases m) (auto simp: fine_def refuses_def)

lemma fine_refused [simp]: "fine s edit (Inl (Refused reason edit))"
  by (simp add: fine_def)

lemma fine_Inr [simp]: "fine s edit (Inr t) \<longleftrightarrow> wf_reading t \<and> (brings_tokens edit \<or> holdings t = holdings s)"
  by (simp add: fine_def)

lemma holdings_write_price:
  assumes "\<And>r. ars_info (f r) = ars_info r" and "\<And>r. ars_supplied (f r) = ars_supplied r"
  shows "holdings (write_reserve a f s) = holdings s"
  by (rule ext) (use assms in \<open>auto simp: holdings_def stock_reserve_of_write split: asset_id.split option.split\<close>)

lemma holdings_write_market:
  assumes "map_option pos_collateral (outcome_value (mps_position m)) = map_option pos_collateral (position_of s c)"
  shows "holdings (write_market c m s) = holdings s"
  by (rule ext) (use assms in \<open>auto simp: holdings_def split: asset_id.split option.split\<close>)

lemma position_of_market: "map_of (wsn_morpho s) c = Some (Some m) \<Longrightarrow> position_of s c = outcome_value (mps_position m)"
  by (simp add: position_of_def)

lemma applyPrice_fine:
  assumes s: "wf_reading s"
  shows "fine s edit (applyPrice s a change edit)"
proof (cases "\<exists>n. change = Whole n \<and> \<not> (n \<le> -10000 \<or> n > 100000)")
  case False
  then show ?thesis by (auto simp: applyPrice_def split: js_number.split)
next
  case True
  then obtain n where n: "change = Whole n" "-10000 < n" "\<not> n > 100000" by auto
  have price: "refuses edit (scaled n v) \<and> (\<forall>p. scaled n v = Inr p \<longrightarrow> 0 \<le> p)" if "0 \<le> v" for v
    using scaled_price [OF that n(2)] by (auto simp: refuses_def)
  show ?thesis
  proof (cases "isStock a")
    case True
    have stock: "fine s edit (Inr (write_reserve a (\<lambda>r. r\<lparr>ars_price := Read p\<rparr>) s))" if "0 \<le> p" for p
      using wf_write_reserve [OF s, of "\<lambda>r. r\<lparr>ars_price := Read p\<rparr>" a] wf_readingD(1) [OF s, of a]
        holdings_write_price [of "\<lambda>r. r\<lparr>ars_price := Read p\<rparr>" a s] that
      by (simp add: wf_held_reserve_def)
    have "fine s edit (bindE (stockReserve s a edit) (\<lambda>r. bindE (readOr (Some (ars_price r)) edit) (\<lambda>v.
        bindE (scaled n v) (\<lambda>p. Inr (write_reserve a (\<lambda>r. r\<lparr>ars_price := Read p\<rparr>) s)))))"
      by (intro fine_bindE stock)
        (use price reading_prices(1) [OF s] in auto)
    then show ?thesis using n True by (simp add: applyPrice_def)
  next
    case False
    then obtain c where c: "a = CryptoAsset c" by (cases a) (auto simp: isStock_iff)
    have market: "fine s edit (Inr (write_market c (m\<lparr>mps_price := Read p\<rparr>) s))"
      if "0 \<le> p" "map_of (wsn_morpho s) c = Some (Some m)" for p m
      using wf_write_market [OF s, of "m\<lparr>mps_price := Read p\<rparr>" c] wf_readingD(2) [OF s that(2)] that
        holdings_write_market [of "m\<lparr>mps_price := Read p\<rparr>" s c] position_of_market [OF that(2)]
      by (simp add: wf_held_market_def)
    have "fine s edit (bindE (morphoMarket s c edit) (\<lambda>m. bindE (readOr (Some (mps_price m)) edit) (\<lambda>v.
        bindE (scaled n v) (\<lambda>p. Inr (write_market c (m\<lparr>mps_price := Read p\<rparr>) s)))))"
      by (intro fine_bindE market)
        (use price reading_prices(2) [OF s] in auto)
    then show ?thesis using n False c by (simp add: applyPrice_def)
  qed
qed

lemma applyPriceTo_fine:
  assumes s: "wf_reading s"
  shows "fine s edit (applyPriceTo u s a cents edit)"
proof (cases "cents \<le> 0")
  case True
  then show ?thesis by (simp add: applyPriceTo_def)
next
  case cents: False
  show ?thesis
  proof (cases "isStock a")
    case True
    have stock: "fine s edit (Inr (write_reserve a (\<lambda>r. r\<lparr>ars_price := Read p\<rparr>) s))" if "0 \<le> p" for p
      using wf_write_reserve [OF s, of "\<lambda>r. r\<lparr>ars_price := Read p\<rparr>" a] wf_readingD(1) [OF s, of a]
        holdings_write_price [of "\<lambda>r. r\<lparr>ars_price := Read p\<rparr>" a s] that
      by (simp add: wf_held_reserve_def)
    have "fine s edit (bindE (stockReserve s a edit) (\<lambda>r. bindE (readOr (Some (ars_price r)) edit) (\<lambda>_.
        Inr (write_reserve a (\<lambda>r. r\<lparr>ars_price := Read (cents * 10 ^ (akn_oracle_decimals k - 2))\<rparr>) s))))" for k
      by (intro fine_bindE stock) (use cents in simp_all)
    from this show ?thesis using cents True by (cases "uni_aave u") (simp_all add: applyPriceTo_def)
  next
    case False
    then obtain c where c: "crypto_of a = Some c" using crypto_of_known by blast
    have market: "fine s edit (Inr (write_market i (m\<lparr>mps_price := Read p\<rparr>) s))"
      if "0 \<le> p" "map_of (wsn_morpho s) i = Some (Some m)" for p m i
      using wf_write_market [OF s, of "m\<lparr>mps_price := Read p\<rparr>" i] wf_readingD(2) [OF s that(2)] that
        holdings_write_market [of "m\<lparr>mps_price := Read p\<rparr>" s i] position_of_market [OF that(2)]
      by (simp add: wf_held_market_def)
    have "fine s edit (bindE (morphoMarket s (cry_id c) edit) (\<lambda>m. bindE (readOr (Some (mps_price m)) edit) (\<lambda>_.
        Inr (write_market (cry_id c) (m\<lparr>mps_price := Read (jsdiv (cents * 10 ^ 4 * 10 ^ 36) (10 ^ cry_decimals c))\<rparr>) s))))"
      by (intro fine_bindE market) (use cents in \<open>simp_all add: pos_imp_zdiv_nonneg_iff\<close>)
    then show ?thesis using cents False c by (simp add: applyPriceTo_def)
  qed
qed

section \<open>Debts\<close>

definition positive_change :: "debt_change \<Rightarrow> bool" where
  "positive_change change = (case change of Borrow n \<Rightarrow> 0 < n | Repay RepayAll \<Rightarrow> True | Repay (RepayAtomic n) \<Rightarrow> 0 < n)"

lemma aave_change_bounds:
  assumes "aave_change a debt change edit = Inr c" and "positive_change change" and "0 \<le> debt"
  shows "0 \<le> debt + c" and "\<forall>l. avs_usdc_liquidity a = Read l \<longrightarrow> 0 \<le> l \<longrightarrow> 0 \<le> l - c"
  using assms
  by (auto simp: aave_change_def positive_change_def split: debt_change.splits repaid.splits if_splits outcome.splits)

lemma applyAaveDebt_fine:
  assumes s: "wf_reading s" and c: "positive_change change"
  shows "fine s edit (applyAaveDebt s change edit)"
proof (cases "wsn_aave s")
  case None
  then show ?thesis by (simp add: applyAaveDebt_def)
next
  case (Some a)
  have a: "wf_held_aave a" using s Some by (simp add: wf_reading_def)
  have "fine s edit (Inr (s\<lparr>wsn_aave := Some (with_debt_change a debt n)\<rparr>))"
    if d: "avs_usdc_debt a = Read debt" "aave_change a debt change edit = Inr n" for debt n
  proof -
    have debt: "0 \<le> debt" using a d by (simp add: wf_held_aave_def)
    have liquidity: "0 \<le> l - n" if "avs_usdc_liquidity a = Read l" for l
      using aave_change_bounds(2) [OF d(2) c debt] a that by (simp add: wf_held_aave_def)
    have "wf_held_aave (with_debt_change a debt n)"
      using a aave_change_bounds(1) [OF d(2) c debt] liquidity
      by (cases "avs_usdc_liquidity a"; cases "avs_usdc_spoke_owed a") (auto simp: wf_held_aave_def with_debt_change_def)
    moreover have same: "stock_reserve_of (s\<lparr>wsn_aave := Some (with_debt_change a debt n)\<rparr>) b = stock_reserve_of s b" for b
      using Some by (simp add: stock_reserve_of_def with_debt_change_def)
    moreover have "holdings (s\<lparr>wsn_aave := Some (with_debt_change a debt n)\<rparr>) = holdings s"
      by (rule ext) (simp add: holdings_def same balance_of_def native_of_def position_of_def split: asset_id.split option.split)
    ultimately show ?thesis
      using s by (simp add: wf_reading_def keys_ok_def balance_of_def)
  qed
  then show ?thesis
    unfolding applyAaveDebt_def Some option.case
    by (intro fine_bindE) (auto simp: aave_change_def split: debt_change.split)
qed

lemma morpho_change_bounds:
  assumes p: "0 \<le> pos_collateral p" "0 \<le> pos_borrow_shares p" "pos_borrow_shares p \<le> tot_borrow_shares t"
    and t: "wf_totals t" and c: "positive_change change"
  shows "refuses edit (morpho_change p t change edit)"
    and "morpho_change p t change edit = Inr (assets, shares) \<Longrightarrow>
      0 \<le> pos_borrow_shares p + shares"
proof -
  let ?S = "tot_borrow_shares t + MORPHO_VIRTUAL_SHARES_V1" and ?A = "tot_borrow_assets t + MORPHO_VIRTUAL_ASSETS_V1"
  have side: "0 < ?S" "0 < ?A" "0 \<le> tot_borrow_shares t" "0 \<le> tot_borrow_assets t"
    using t by (auto simp: wf_totals_def add_nonneg_pos)
  have up: "mulDivUpV1 n ?S ?A = Inr (ceil_div (n * ?S) ?A)" if "0 < n" for n
    using that side by (intro mulDivUpV1_eq) simp_all
  note owed = toAssetsUpV1_eq [OF p(2) side(4,3)]
  note down = toSharesDownV1_eq [OF _ side(4,3)]
  show "refuses edit (morpho_change p t change edit)"
    using c up owed down by (auto simp: morpho_change_def positive_change_def split: debt_change.split repaid.split intro!: refuses_bindE)
  have fewer: "n * ?S div ?A \<le> pos_borrow_shares p" if "\<not> n \<ge> ceil_div (pos_borrow_shares p * ?A) ?S" for n
  proof -
    have "\<not> pos_borrow_shares p * ?A \<le> n * ?S" using that ceil_div_le_iff [OF side(1)] by simp
    then have "n * ?S \<le> pos_borrow_shares p * ?A" by simp
    then have "n * ?S div ?A \<le> pos_borrow_shares p * ?A div ?A" using side(2) by (rule zdiv_mono1)
    then show ?thesis using side(2) by simp
  qed
  show "morpho_change p t change edit = Inr (assets, shares) \<Longrightarrow> 0 \<le> pos_borrow_shares p + shares"
    using c p up owed down fewer side
    by (auto simp: morpho_change_def positive_change_def bindE_eq_Inr split: debt_change.splits repaid.splits if_splits)
qed

lemma applyMorphoDebt_fine:
  assumes s: "wf_reading s" and c: "positive_change change"
  shows "fine s edit (applyMorphoDebt s i change edit)"
proof -
  have main: "fine s edit (bindE (readOr (Some (mps_position m)) edit) (\<lambda>p.
     bindE (readOr (Some (mps_market m)) edit) (\<lambda>stored.
     bindE (readOr (Some (mps_borrow_rate m)) edit) (\<lambda>rate.
     bindE (thrown (morphoAccruedTotalsV1 stored rate (wsn_block_timestamp s))) (\<lambda>t.
     bindE (morpho_change p t change edit) (\<lambda>(assets, shares).
     Inr (write_market i (with_morpho_change m p t (wsn_block_timestamp s) assets shares) s)))))))"
    if m: "map_of (wsn_morpho s) i = Some (Some m)" for m
  proof (intro fine_bindE)
    note wm = wf_readingD(2) [OF s m]
    fix p stored rate
    assume p: "readOr (Some (mps_position m)) edit = Inr p" and st: "readOr (Some (mps_market m)) edit = Inr stored"
      and r: "readOr (Some (mps_borrow_rate m)) edit = Inr rate"
    have wf: "wf_totals stored" "0 \<le> rate" "0 \<le> pos_collateral p" "0 \<le> pos_borrow_shares p"
        "pos_borrow_shares p \<le> tot_borrow_shares stored"
      using wm p st r by (auto simp: wf_held_market_def)
    obtain t' where t': "morphoAccruedTotalsV1 stored rate (wsn_block_timestamp s) = Inr t'"
        "tot_borrow_shares t' = tot_borrow_shares stored"
      using morphoAccruedTotalsV1_total [OF wf(1,2)] by blast
    show "refuses edit (thrown (morphoAccruedTotalsV1 stored rate (wsn_block_timestamp s)))" using t' by simp
    fix t
    assume "thrown (morphoAccruedTotalsV1 stored rate (wsn_block_timestamp s)) = Inr t"
    then have t: "morphoAccruedTotalsV1 stored rate (wsn_block_timestamp s) = Inr t" by simp
    have wt: "wf_totals t" "pos_borrow_shares p \<le> tot_borrow_shares t"
      using morphoAccruedTotalsV1_wf [OF wf(1,2) t] t t' wf(5) by simp_all
    note change = morpho_change_bounds [OF wf(3,4) wt(2,1) c, where edit = edit]
    show "refuses edit (morpho_change p t change edit)" by (rule change(1))
    fix result
    assume "morpho_change p t change edit = Inr result"
    then obtain assets shares where res: "result = (assets, shares)" "morpho_change p t change edit = Inr (assets, shares)"
      by (cases result) simp
    let ?m = "with_morpho_change m p t (wsn_block_timestamp s) assets shares"
    have "wf_held_market ?m"
      using wm wf wt change(2) [OF res(2)] p by (auto simp: wf_held_market_def with_morpho_change_def wf_totals_def)
    then have "wf_reading (write_market i ?m s)" using wf_write_market [OF s] by simp
    moreover have "holdings (write_market i ?m s) = holdings s"
      using p position_of_market [OF m] by (intro holdings_write_market) (simp add: with_morpho_change_def)
    ultimately show "fine s edit (case result of (assets, shares) \<Rightarrow>
        Inr (write_market i (with_morpho_change m p t (wsn_block_timestamp s) assets shares) s))"
      by (simp add: res(1))
  qed simp_all
  show ?thesis
    unfolding applyMorphoDebt_def by (rule fine_bindE) (use main in simp_all)
qed

section \<open>Deposits\<close>

lemma crypto_facts:
  assumes "c \<in> set CRYPTO"
  shows "cry_includes_native_eth c \<longleftrightarrow> cry_id c = ETH" and "token_key (CryptoAsset (cry_id c)) = to_lower (cry_token c)"
proof -
  have "list_all (\<lambda>c. cry_includes_native_eth c = (cry_id c = ETH)) CRYPTO" by (simp add: CRYPTO_def)
  then show "cry_includes_native_eth c \<longleftrightarrow> cry_id c = ETH" using assms by (simp add: list_all_iff)
  have "distinct (map cry_id CRYPTO)" by (simp add: crypto_ids)
  then have "find (\<lambda>d. CryptoAsset (cry_id d) = CryptoAsset (cry_id c)) CRYPTO = Some c"
    using find_unique [of cry_id CRYPTO c] assms by simp
  moreover have "find (\<lambda>x. StockAsset (stk_id x) = CryptoAsset (cry_id c)) STOCKS = None" by (simp add: find_None_iff)
  ultimately show "token_key (CryptoAsset (cry_id c)) = to_lower (cry_token c)" by (simp add: token_key_def)
qed

lemma with_deposit_simps [simp]:
  "ars_info (with_deposit supplied raw r) = ars_info r" "ars_supplied (with_deposit supplied raw r) = Read (supplied + raw)"
  "ars_price (with_deposit supplied raw r) = ars_price r"
  by (simp_all add: with_deposit_def)

lemma applyStockDeposit_fine:
  assumes s: "wf_reading s" and raw: "0 < raw" and e: "brings_tokens edit \<longleftrightarrow> source = NewTokens"
    and a: "a = StockAsset i"
  shows "fine s edit (applyStockDeposit s a raw source edit)"
proof -
  have written: "wf_reading (write_reserve a (with_deposit supplied raw) t)"
    if "wf_reading t" "stock_reserve_of t a = Some r" "0 \<le> supplied" for t r supplied
    using wf_readingD(1) [OF that(1,2)] that raw by (intro wf_write_reserve) (auto simp: wf_held_reserve_def)
  have main: "fine s edit (bindE (case source of
         NewTokens \<Rightarrow> Inr s
       | FromWallet \<Rightarrow>
           let key = to_lower (ari_underlying (ars_info r)) in
           bindE (readOr (map_of (wsn_balances s) key) edit) (\<lambda>held.
           if held < raw then Inl (Refused ExceedsWallet edit)
           else Inr (write_balance key (held - raw) s))) (\<lambda>t. Inr (write_reserve a (with_deposit supplied raw) t)))"
    if r: "stock_reserve_of s a = Some r" and sup: "ars_supplied r = Read supplied" for r supplied
  proof (cases source)
    case NewTokens
    have "0 \<le> supplied" using wf_readingD(1) [OF s r] sup by (simp add: wf_held_reserve_def)
    then show ?thesis using NewTokens e written [OF s r] by simp
  next
    case FromWallet
    let ?key = "token_key a"
    have key: "to_lower (ari_underlying (ars_info r)) = ?key" using s r by (simp add: wf_reading_def keys_ok_def)
    have supplied: "0 \<le> supplied" using wf_readingD(1) [OF s r] sup by (simp add: wf_held_reserve_def)
    have "fine s edit (Inr (write_reserve a (with_deposit supplied raw) (write_balance ?key (held - raw) s)))"
      if held: "map_of (wsn_balances s) ?key = Some (Read held)" "raw \<le> held" for held
    proof -
      let ?t = "write_balance ?key (held - raw) s"
      have "wf_reading ?t" using s held(2) by (intro wf_write_balance) simp_all
      then have "wf_reading (write_reserve a (with_deposit supplied raw) ?t)" using supplied r by (intro written) simp_all
      moreover have bal: "balance_of s ?key = Some held" using held(1) by (simp add: balance_of_def)
      moreover have "holdings (write_reserve a (with_deposit supplied raw) ?t) b = holdings s b" for b
      proof (cases "b = a")
        case True
        then show ?thesis
          using r sup bal by (simp add: holdings_def a stock_reserve_of_write sum_known_def)
      next
        case False
        then have "token_key b \<noteq> ?key" using token_key_inj by blast
        then show ?thesis
          using False by (intro holdings_same) (simp_all add: stock_reserve_of_write)
      qed
      ultimately show ?thesis by auto
    qed
    note kept = this
    show ?thesis
    proof (rule fine_bindE)
      show "refuses edit (case source of NewTokens \<Rightarrow> Inr s
         | FromWallet \<Rightarrow> let key = to_lower (ari_underlying (ars_info r)) in
           bindE (readOr (map_of (wsn_balances s) key) edit) (\<lambda>held.
           if held < raw then Inl (Refused ExceedsWallet edit) else Inr (write_balance key (held - raw) s)))"
        by (simp add: FromWallet Let_def refuses_bindE)
    next
      fix t
      assume "(case source of NewTokens \<Rightarrow> Inr s
         | FromWallet \<Rightarrow> let key = to_lower (ari_underlying (ars_info r)) in
           bindE (readOr (map_of (wsn_balances s) key) edit) (\<lambda>held.
           if held < raw then Inl (Refused ExceedsWallet edit) else Inr (write_balance key (held - raw) s))) = Inr t"
      then obtain held where "map_of (wsn_balances s) ?key = Some (Read held)" "raw \<le> held"
          "t = write_balance ?key (held - raw) s"
        by (auto simp: FromWallet key Let_def bindE_eq_Inr split: if_splits)
      then show "fine s edit (Inr (write_reserve a (with_deposit supplied raw) t))" using kept by simp
    qed
  qed
  show ?thesis
    unfolding applyStockDeposit_def by (intro fine_bindE main) simp_all
qed

lemma take_crypto_fine:
  assumes s: "wf_reading s" and c: "c \<in> set CRYPTO" and raw: "0 < raw"
  shows "refuses edit (take_crypto s c raw edit)"
    and "take_crypto s c raw edit = Inr t \<Longrightarrow> wf_reading t \<and> wsn_morpho t = wsn_morpho s
      \<and> wsn_aave t = wsn_aave s
      \<and> (\<exists>n. sum_known (balance_of s (to_lower (cry_token c))) (native_of s (cry_id c)) = Some n
          \<and> sum_known (balance_of t (to_lower (cry_token c))) (native_of t (cry_id c)) = Some (n - raw))
      \<and> (\<forall>k. k \<noteq> to_lower (cry_token c) \<longrightarrow> balance_of t k = balance_of s k)
      \<and> (\<forall>i. i \<noteq> cry_id c \<longrightarrow> native_of t i = native_of s i)"
proof -
  let ?key = "to_lower (cry_token c)"
  show "refuses edit (take_crypto s c raw edit)"
    unfolding take_crypto_def Let_def by (intro refuses_bindE) auto
  assume t: "take_crypto s c raw edit = Inr t"
  obtain tokens native where h: "map_of (wsn_balances s) ?key = Some (Read tokens)"
      "(if cry_includes_native_eth c then readOr (Some (wsn_native_eth s)) edit else Inr 0) = Inr native"
      "raw \<le> tokens + native"
    using t by (auto simp: take_crypto_def Let_def bindE_eq_Inr split: if_splits)
  have native: "native_of s (cry_id c) = Some native" using h(2) crypto_facts(1) [OF c] by (auto simp: native_of_def split: if_splits)
  let ?from = "if tokens < raw then tokens else raw"
  let ?s = "write_balance ?key (tokens - ?from) s"
  have t': "t = (if raw > ?from then ?s\<lparr>wsn_native_eth := Read (native - (raw - ?from))\<rparr> else ?s)"
    using t h by (simp add: take_crypto_def Let_def readOr_def)
  have tokens: "0 \<le> tokens" using wf_readingD(3) [OF s h(1)] .
  have wf: "wf_reading ?s" using s tokens by (intro wf_write_balance) auto
  have "0 \<le> native" using h(2) s by (auto simp: wf_reading_def split: if_splits)
  then have "0 \<le> native - (raw - ?from)" using h(3) tokens raw by auto
  then have "wf_reading t" using wf t' wf_native [OF wf] by auto
  moreover have "wsn_morpho t = wsn_morpho s \<and> wsn_aave t = wsn_aave s" by (simp add: t' write_balance_def)
  moreover have bal: "balance_of t k = (if k = ?key then Some (tokens - ?from) else balance_of s k)" for k
    by (simp add: t' balance_of_def write_balance_def update_conv')
  moreover have nat: "native_of t i = (if i = cry_id c then Some (native - (raw - ?from)) else native_of s i)" for i
  proof (cases "raw > ?from")
    case True
    then have "cry_includes_native_eth c"
      using h raw by (auto split: if_splits)
    then have "cry_id c = ETH" using crypto_facts(1) [OF c] by simp
    then show ?thesis using True by (simp add: t' native_of_def write_balance_def)
  next
    case False
    then show ?thesis using native by (simp add: t' split: if_splits)
  qed
  moreover have "balance_of s ?key = Some tokens" using h(1) by (simp add: balance_of_def)
  ultimately show "wf_reading t \<and> wsn_morpho t = wsn_morpho s
      \<and> wsn_aave t = wsn_aave s
      \<and> (\<exists>n. sum_known (balance_of s (to_lower (cry_token c))) (native_of s (cry_id c)) = Some n
          \<and> sum_known (balance_of t (to_lower (cry_token c))) (native_of t (cry_id c)) = Some (n - raw))
      \<and> (\<forall>k. k \<noteq> to_lower (cry_token c) \<longrightarrow> balance_of t k = balance_of s k)
      \<and> (\<forall>i. i \<noteq> cry_id c \<longrightarrow> native_of t i = native_of s i)"
    using native by (auto simp: sum_known_def)
qed

lemma applyDeposit_fine:
  assumes s: "wf_reading s" and e: "brings_tokens edit \<longleftrightarrow> source = NewTokens"
  shows "fine s edit (applyDeposit s a raw source edit)"
proof -
  consider "raw \<le> 0" | i where "0 < raw" "a = StockAsset i" | c where "0 < raw" "\<not> isStock a" "crypto_of a = Some c"
    using isStock_iff crypto_of_known by (metis not_le)
  then show ?thesis
  proof cases
    case 1
    then show ?thesis by (simp add: applyDeposit_def)
  next
    case (2 i)
    then show ?thesis using applyStockDeposit_fine [OF s 2(1) e 2(2)] by (simp add: applyDeposit_def isStock_iff)
  next
    case (3 c)
    have a: "a = CryptoAsset (cry_id c)" and c: "c \<in> set CRYPTO" using crypto_of_eq [OF 3(3)] by simp_all
    have main: "fine s edit (Inr (write_market (cry_id c) (m\<lparr>mps_position := Read (p\<lparr>pos_collateral := pos_collateral p + raw\<rparr>)\<rparr>) t))"
      if m: "map_of (wsn_morpho s) (cry_id c) = Some (Some m)" and p: "mps_position m = Read p"
        and t: "(if source = FromWallet then take_crypto s c raw edit else Inr s) = Inr t" for m p t
    proof -
      let ?m = "m\<lparr>mps_position := Read (p\<lparr>pos_collateral := pos_collateral p + raw\<rparr>)\<rparr>"
      have wm: "wf_held_market ?m" using wf_readingD(2) [OF s m] p 3(1) by (simp add: wf_held_market_def)
      show ?thesis
      proof (cases "source = FromWallet")
        case True
        note took = take_crypto_fine(2) [OF s c 3(1), of edit t] t True
        have wt: "wf_reading (write_market (cry_id c) ?m t)" using took wm by (intro wf_write_market) auto
        have "holdings (write_market (cry_id c) ?m t) b = holdings s b" for b
        proof (cases "b = a")
          case True
          have "position_of s (cry_id c) = Some p" using m p by (simp add: position_of_def)
          then show ?thesis
            using took True crypto_facts(2) [OF c] by (auto simp: holdings_def a sum_known_Some) (auto simp: sum_known_def)
        next
          case False
          then have key: "token_key b \<noteq> to_lower (cry_token c)" using token_key_inj a crypto_facts(2) [OF c] by metis
          have "stock_reserve_of t b = stock_reserve_of s b" using took by (simp add: stock_reserve_of_def)
          moreover have "position_of t i = position_of s i" for i using took by (simp add: position_of_def)
          ultimately show ?thesis
            using took key False by (intro holdings_same) (auto simp: a)
        qed
        with wt show ?thesis by auto
      next
        case False
        then have "source = NewTokens" "t = s" using t by (cases source; simp)+
        then show ?thesis using e wf_write_market [OF s wm] by simp
      qed
    qed
    have refuse: "refuses edit (if source = FromWallet then take_crypto s c raw edit else Inr s)"
      using take_crypto_fine(1) [OF s c 3(1)] by simp
    have "fine s edit (bindE (morphoMarket s (cry_id c) edit) (\<lambda>m. bindE (readOr (Some (mps_position m)) edit) (\<lambda>p.
        bindE (if source = FromWallet then take_crypto s c raw edit else Inr s) (\<lambda>t.
        Inr (write_market (cry_id c) (m\<lparr>mps_position := Read (p\<lparr>pos_collateral := pos_collateral p + raw\<rparr>)\<rparr>) t)))))"
      by (intro fine_bindE main refuse) simp_all
    then show ?thesis using 3 by (simp add: applyDeposit_def not_le)
  qed
qed

lemma apply_edit_fine:
  assumes s: "wf_reading s"
  shows "fine s edit (apply_edit u s edit)"
proof (cases edit)
  case (BorrowEdit venue n)
  then show ?thesis
    using applyAaveDebt_fine [OF s, of "Borrow n"] applyMorphoDebt_fine [OF s, of "Borrow n"]
    by (auto simp: apply_edit_def apply_debt_def positive_change_def split: scenario_venue.split)
next
  case (RepayEdit venue r)
  then show ?thesis
    using applyAaveDebt_fine [OF s, of "Repay r"] applyMorphoDebt_fine [OF s, of "Repay r"]
    by (auto simp: apply_edit_def apply_debt_def positive_change_def split: scenario_venue.split repaid.split)
next
  case (DepositEdit a raw source)
  then show ?thesis using applyDeposit_fine [OF s] by (simp add: apply_edit_def brings_tokens_def)
qed (use applyPrice_fine [OF s] applyPriceTo_fine [OF s] in \<open>simp_all add: apply_edit_def\<close>)

section \<open>Whole scenarios\<close>

lemma apply_edits_run: "apply_edits u s es = run_steps (apply_edit u) s es"
  by (induction es arbitrary: s) (simp_all add: bindE_def)

interpretation edits: measured_steps "apply_edit u" wf_reading "\<lambda>e. \<not> brings_tokens e" holdings for u
proof
  fix s e t
  assume s: "wf_reading s" and t: "apply_edit u s e = Inr t"
  note f = apply_edit_fine [OF s, of e u]
  show "wf_reading t" using f t by (simp add: fine_def)
  show "\<not> brings_tokens e \<Longrightarrow> holdings t = holdings s" using f t by (auto simp: fine_def)
qed

text \<open>
  C38. A scenario either edits or refuses. On a reading in range every list of edits, whatever their
  amounts, ends in an edited reading that is in range again or in a refusal that names one of the
  edits of the list: no edit throws.
\<close>

theorem scenario_edits_or_refuses:
  assumes "wf_reading s"
  shows "(\<exists>t. apply_edits u s edits = Inr t \<and> wf_reading t)
    \<or> (\<exists>reason edit. apply_edits u s edits = Inl (Refused reason edit) \<and> edit \<in> set edits)"
proof (cases "run_steps (apply_edit u) s edits")
  case (Inl x)
  from edits.run_stops_at [OF assms Inl] obtain s' e where "wf_reading s'" "e \<in> set edits" "apply_edit u s' e = Inl x" by blast
  with apply_edit_fine [of s' e u] Inl show ?thesis by (auto simp: apply_edits_run fine_def refuses_def)
next
  case (Inr t)
  with edits.run_keeps [OF assms Inr] show ?thesis by (simp add: apply_edits_run)
qed

text \<open>
  C37. No tokens from nowhere. Unless an edit deposits new tokens, a scenario of price moves, borrows,
  repayments and deposits from the wallet leaves every asset's total as it was: what leaves the wallet
  (wrapped tokens first, then native ETH) is what is pledged.
\<close>

theorem scenario_conserves_holdings:
  assumes "wf_reading s" and "\<forall>e \<in> set edits. \<not> brings_tokens e" and "apply_edits u s edits = Inr t"
  shows "holdings t asset = holdings s asset"
  using edits.run_leaves [OF assms(1,2), of u t] assms(3) by (simp add: apply_edits_run)

definition funded_wallet :: wallet_snapshot where
  "funded_wallet = (sample_snapshot (Read 6500))\<lparr>wsn_balances :=
     [(to_lower (stk_token (STOCKS ! 5)), Read 300000000), (to_lower (addr_cbbtc ADDRESSES), Read 7)]\<rparr>"

definition sample_edits :: "scenario_edit list" where
  "sample_edits = [PriceEdit (StockAsset NVDAc) (Whole (-3000)), DepositEdit (StockAsset NVDAc) 200000000 FromWallet,
     BorrowEdit AaveVenue 5000000]"

lemma funded_wf: "wf_reading funded_wallet"
proof -
  have none: "\<not> is_stock_reserve a usdc_reserve" for a by (simp add: is_stock_reserve_def usdc_reserve_def usdc_info_def)
  have nvda: "is_stock_reserve a (nvda_reserve (Read 6500)) \<longleftrightarrow> a = StockAsset NVDAc" for a
    by (auto simp: is_stock_reserve_def nvda_reserve_def nvda_info_def STOCKS_def)
  have "stock_reserve_of funded_wallet a = (if a = StockAsset NVDAc then Some (nvda_reserve (Read 6500)) else None)" for a
    using none nvda by (auto simp: stock_reserve_of_def funded_wallet_def sample_snapshot_def sample_aave_def)
  moreover have "to_lower (ari_underlying (ars_info (nvda_reserve (Read 6500)))) = token_key (StockAsset NVDAc)" by code_simp
  ultimately have "keys_ok funded_wallet" by (auto simp: keys_ok_def split: if_splits)
  moreover have "wf_held_aave (sample_aave (Read 6500))"
    by (auto simp: wf_held_aave_def sample_aave_def wf_held_reserve_def usdc_reserve_def nvda_reserve_def)
  moreover have "wf_held_market sample_market" by (simp add: wf_held_market_def sample_market_def wf_totals_def MORPHO_WAD_V1_def)
  ultimately show ?thesis
    by (auto simp: wf_reading_def balance_of_def funded_wallet_def sample_snapshot_def split: if_splits)
qed

lemma sample_edits_result:
  "map_sum id (\<lambda>t. (holdings t (StockAsset NVDAc), map_option avs_usdc_debt (wsn_aave t)))
     (apply_edits (mri_universe (sample_input (Read 6500))) funded_wallet sample_edits)
   = Inr (Some 1300000000, Some (Read 105000000))"
  by code_simp

theorem scenario_edits_or_refuses_witness:
  "\<exists>t. apply_edits (mri_universe (sample_input (Read 6500))) funded_wallet sample_edits = Inr t \<and> wf_reading t"
  using scenario_edits_or_refuses [OF funded_wf, of "mri_universe (sample_input (Read 6500))" sample_edits] sample_edits_result
  by auto

theorem scenario_conserves_holdings_witness:
  "\<exists>t. apply_edits (mri_universe (sample_input (Read 6500))) funded_wallet sample_edits = Inr t
     \<and> holdings t (StockAsset NVDAc) = holdings funded_wallet (StockAsset NVDAc)"
proof -
  obtain t where t: "apply_edits (mri_universe (sample_input (Read 6500))) funded_wallet sample_edits = Inr t"
    using sample_edits_result by (cases "apply_edits (mri_universe (sample_input (Read 6500))) funded_wallet sample_edits") auto
  moreover have "\<forall>e \<in> set sample_edits. \<not> brings_tokens e" by (simp add: sample_edits_def brings_tokens_def)
  ultimately show ?thesis using scenario_conserves_holdings [OF funded_wf] by blast
qed

end
