(* ===== verification/Scenario_Rounds.thy ===== *)
theory Scenario_Rounds
  imports Scenario_Holdings
begin

text \<open>
  A scenario undone: borrowing and paying back returns to the reading it started from, on Aave
  exactly and on Morpho with the rounding in the lenders' favour.
\<close>

section \<open>Aave\<close>

text \<open>
  On Aave a borrow and its repayment cancel. After any accepted borrow, paying back the same
  amount is accepted and gives back the reading as it was: the debt, the liquidity, what the spoke
  owes, and everything else.
\<close>

theorem aave_borrow_and_repay_cancel:
  assumes s: "wf_reading s" and b: "apply_edit u s (BorrowEdit AaveVenue n) = Inr t"
  shows "apply_edit u t (RepayEdit AaveVenue (RepayAtomic n)) = Inr s"
proof -
  have n: "0 < n" using b by (auto simp: apply_edit_def split: if_splits)
  obtain a debt where a: "wsn_aave s = Some a" "avs_usdc_debt a = Read debt"
      "aave_change a debt (Borrow n) (BorrowEdit AaveVenue n) = Inr n"
      "t = s\<lparr>wsn_aave := Some (with_debt_change a debt n)\<rparr>"
    using b n by (auto simp: apply_edit_def apply_debt_def applyAaveDebt_def bindE_eq_Inr aave_change_def
        split: option.splits if_splits)
  have wf: "wf_held_aave a" using s a(1) by (simp add: wf_reading_def)
  have debt: "0 \<le> debt" using wf a(2) by (simp add: wf_held_aave_def)
  let ?b = "with_debt_change a debt n"
  have "aave_change ?b (debt + n) (Repay (RepayAtomic n)) e = Inr (- n)" for e
    using n debt by (simp add: aave_change_def)
  moreover have "with_debt_change ?b (debt + n) (- n) = a"
    using wf a(2) n
    by (cases "avs_usdc_liquidity a"; cases "avs_usdc_spoke_owed a") (auto simp: with_debt_change_def wf_held_aave_def)
  moreover have "avs_usdc_debt ?b = Read (debt + n)" by (simp add: with_debt_change_def)
  ultimately show ?thesis
    using n a by (simp add: apply_edit_def apply_debt_def applyAaveDebt_def readOr_def)
qed

lemma aave_sample_borrow:
  "\<exists>t. apply_edit (mri_universe (sample_input (Read 6500))) funded_wallet (BorrowEdit AaveVenue 5000000) = Inr t"
proof -
  have "map_sum id (\<lambda>_. ()) (apply_edit (mri_universe (sample_input (Read 6500))) funded_wallet (BorrowEdit AaveVenue 5000000)) = Inr ()"
    by code_simp
  then show ?thesis
    by (cases "apply_edit (mri_universe (sample_input (Read 6500))) funded_wallet (BorrowEdit AaveVenue 5000000)") auto
qed

theorem aave_borrow_and_repay_cancel_witness:
  "\<exists>t. apply_edit (mri_universe (sample_input (Read 6500))) funded_wallet (BorrowEdit AaveVenue 5000000) = Inr t
     \<and> apply_edit (mri_universe (sample_input (Read 6500))) t (RepayEdit AaveVenue (RepayAtomic 5000000)) = Inr funded_wallet"
  using aave_sample_borrow aave_borrow_and_repay_cancel [OF funded_wf] by blast

section \<open>Morpho\<close>

lemma accrued_now:
  "wf_totals t \<Longrightarrow> now \<le> tot_last_update t \<Longrightarrow> morphoAccruedTotalsV1 t rate now = Inr t"
  by (simp add: morphoAccruedTotalsV1_def Let_def)

lemma fresh_shares:
  assumes "wf_totals t" and "0 < n"
  defines "P \<equiv> tot_borrow_shares t + MORPHO_VIRTUAL_SHARES_V1" and "Q \<equiv> tot_borrow_assets t + MORPHO_VIRTUAL_ASSETS_V1"
  shows "0 < P" and "0 < Q" and "mulDivUpV1 n P Q = Inr (ceil_div (n * P) Q)" and "0 < ceil_div (n * P) Q"
    and "n \<le> ceil_div (ceil_div (n * P) Q * (Q + n)) (P + ceil_div (n * P) Q)"
proof -
  show P: "0 < P" and Q: "0 < Q" using assms(1) by (simp_all add: P_def Q_def wf_totals_def add_nonneg_pos)
  show "mulDivUpV1 n P Q = Inr (ceil_div (n * P) Q)" using P Q assms(2) by (intro mulDivUpV1_eq) simp_all
  show d: "0 < ceil_div (n * P) Q" using P Q assms(2) by (intro ceil_div_pos) simp_all
  have "ceil_div (0 * Q) P + n \<le> ceil_div ((0 + ceil_div (n * P) Q) * (Q + n)) (P + ceil_div (n * P) Q)"
    using P d ceil_div_ge [OF Q, of "n * P"] by (intro projected_debt_covers) simp_all
  then show "n \<le> ceil_div (ceil_div (n * P) Q * (Q + n)) (P + ceil_div (n * P) Q)" using P by simp
qed

text \<open>
  On Morpho a first loan taken and repaid in full leaves the position as it was and no debt share
  behind, and never leaves the market's lenders with less: the amount repaid is at least the amount
  borrowed, so what the market counts as borrowed is at most what it was with interest to that block.
\<close>

theorem morpho_borrow_and_repay_all:
  assumes s: "wf_reading s" and m: "map_of (wsn_morpho s) c = Some (Some m)"
    and p: "mps_position m = Read p" "pos_borrow_shares p = 0"
    and acc: "mps_market m = Read stored" "mps_borrow_rate m = Read rate"
      "morphoAccruedTotalsV1 stored rate (wsn_block_timestamp s) = Inr totals"
    and b: "apply_edit u s (BorrowEdit (MorphoVenueOf c) n) = Inr t"
  shows "\<exists>w m' after. apply_edit u t (RepayEdit (MorphoVenueOf c) RepayAll) = Inr w
    \<and> map_of (wsn_morpho w) c = Some (Some m') \<and> mps_position m' = Read p \<and> mps_market m' = Read after
    \<and> tot_borrow_shares after = tot_borrow_shares totals
    \<and> tot_borrow_assets after \<le> tot_borrow_assets totals
    \<and> tot_supply_assets after = tot_supply_assets totals"
proof -
  let ?now = "wsn_block_timestamp s"
  have n: "0 < n" using b by (auto simp: apply_edit_def split: if_splits)
  have wf: "wf_totals stored" "0 \<le> rate" using wf_readingD(2) [OF s m] acc by (simp_all add: wf_held_market_def)
  have wt: "wf_totals totals" by (rule morphoAccruedTotalsV1_wf [OF wf acc(3)])
  define P where "P = tot_borrow_shares totals + MORPHO_VIRTUAL_SHARES_V1"
  define Q where "Q = tot_borrow_assets totals + MORPHO_VIRTUAL_ASSETS_V1"
  define d where "d = ceil_div (n * P) Q"
  note fresh = fresh_shares [OF wt n, folded P_def Q_def, folded d_def]
  let ?m = "with_morpho_change m p totals ?now n d"
  have t: "t = write_market c ?m s"
    using b n m p acc fresh(3)
    by (auto simp: apply_edit_def apply_debt_def applyMorphoDebt_def bindE_eq_Inr morpho_change_def P_def [symmetric]
        Q_def [symmetric] split: if_splits)
  let ?t1 = "totals\<lparr>tot_borrow_assets := tot_borrow_assets totals + n, tot_borrow_shares := tot_borrow_shares totals + d,
    tot_last_update := ?now\<rparr>"
  have stored1: "mps_market ?m = Read ?t1" "mps_position ?m = Read (p\<lparr>pos_borrow_shares := d\<rparr>)" "mps_borrow_rate ?m = Read rate"
    using wt n p acc by (auto simp: with_morpho_change_def wf_totals_def)
  have w1: "wf_totals ?t1" using wt n fresh(4) by (simp add: wf_totals_def)
  have market_t: "map_of (wsn_morpho t) c = Some (Some ?m)" "wsn_block_timestamp t = ?now"
    by (simp_all add: t write_market_def update_conv')
  define owed where "owed = ceil_div (d * (Q + n)) (P + d)"
  have "toAssetsUpV1 d (tot_borrow_assets ?t1) (tot_borrow_shares ?t1) = Inr owed"
    using toAssetsUpV1_eq [of d "tot_borrow_assets ?t1" "tot_borrow_shares ?t1"] w1 fresh(4)
    by (simp add: owed_def P_def Q_def wf_totals_def algebra_simps)
  then have repaid: "morpho_change (p\<lparr>pos_borrow_shares := d\<rparr>) ?t1 (Repay RepayAll) e = Inr (- owed, - d)" for e
    using fresh(4) by (simp add: morpho_change_def)
  let ?m2 = "with_morpho_change ?m (p\<lparr>pos_borrow_shares := d\<rparr>) ?t1 ?now (- owed) (- d)"
  have "apply_edit u t (RepayEdit (MorphoVenueOf c) RepayAll) = Inr (write_market c ?m2 t)"
    using repaid accrued_now [OF w1, of ?now rate]
    by (simp add: apply_edit_def apply_debt_def applyMorphoDebt_def morphoMarket_def market_t readOr_def stored1)
  moreover have "map_of (wsn_morpho (write_market c ?m2 t)) c = Some (Some ?m2)"
    by (simp add: write_market_def update_conv')
  moreover have "mps_position ?m2 = Read p" using p by (simp add: with_morpho_change_def)
  moreover have "n \<le> owed" using fresh(5) by (simp add: owed_def)
  ultimately show ?thesis using wt by (auto simp: with_morpho_change_def wf_totals_def)
qed

theorem morpho_borrow_and_repay_all_witness:
  "\<exists>t w. apply_edit (mri_universe (sample_input (Read 6500))) funded_wallet (BorrowEdit (MorphoVenueOf CbBTC) 700000000) = Inr t
     \<and> apply_edit (mri_universe (sample_input (Read 6500))) t (RepayEdit (MorphoVenueOf CbBTC) RepayAll) = Inr w"
proof -
  let ?u = "mri_universe (sample_input (Read 6500))" and ?e = "BorrowEdit (MorphoVenueOf CbBTC) 700000000"
  have "map_sum id (\<lambda>_. ()) (apply_edit ?u funded_wallet ?e) = Inr ()" by code_simp
  then obtain t where t: "apply_edit ?u funded_wallet ?e = Inr t" by (cases "apply_edit ?u funded_wallet ?e") auto
  have m: "map_of (wsn_morpho funded_wallet) CbBTC = Some (Some sample_market)"
    by (simp add: funded_wallet_def sample_snapshot_def)
  obtain stored where stored: "mps_market sample_market = Read stored" "wf_totals stored"
    by (simp add: sample_market_def wf_totals_def MORPHO_WAD_V1_def)
  obtain totals where totals: "morphoAccruedTotalsV1 stored 1000000000 (wsn_block_timestamp funded_wallet) = Inr totals"
    using morphoAccruedTotalsV1_total [OF stored(2), of 1000000000] by auto
  have rest: "mps_position sample_market = Read \<lparr>pos_collateral = 10000000, pos_borrow_shares = 0\<rparr>"
      "mps_borrow_rate sample_market = Read 1000000000" by (simp_all add: sample_market_def)
  from morpho_borrow_and_repay_all [OF funded_wf m rest(1) _ stored(1) rest(2) totals t] t show ?thesis by auto
qed

end
