(* ===== verification/Earnings_Calendar.thy ===== *)
theory Earnings_Calendar
  imports Report Json "HOL-Library.AList"
begin

text \<open>
  The first half of lib/still-engine/src/calendar.ts: what one reading of the Aave API says about
  when each stock reports. The API's answers and the language's date parser are parameters; the code
  decides what to believe of them.
\<close>

definition KEEP_PAST_DAYS :: int where
  "KEEP_PAST_DAYS = 7"

definition MAX_PAGES :: nat where
  "MAX_PAGES = 5"

section \<open>One date\<close>

text \<open>Hours, minutes and seconds of the UTC clock are zero; milliseconds are not asked.\<close>

definition utc_midnight :: "instant \<Rightarrow> bool" where
  "utc_midnight t \<longleftrightarrow> t mod ms_per_day div 1000 = 0"

definition utc_day :: "instant \<Rightarrow> civil" where
  "utc_day t = date_of_day (day_of_instant t)"

definition reportDay :: "(string \<Rightarrow> instant option) \<Rightarrow> string \<Rightarrow> civil option" where
  "reportDay parse v = map_option (\<lambda>t. if utc_midnight t then utc_day t else marketDate t new_york) (parse v)"

text \<open>One stock's dates: null means none, anything that is not a readable string spoils the item.\<close>

fun report_days :: "(string \<Rightarrow> instant option) \<Rightarrow> civil \<Rightarrow> json option list \<Rightarrow> civil list option" where
  "report_days parse since [] = Some []"
| "report_days parse since (v # vs) =
     (case v of
        Some JNull \<Rightarrow> report_days parse since vs
      | Some (JString s) \<Rightarrow>
          (case reportDay parse s of
             None \<Rightarrow> None
           | Some day \<Rightarrow> map_option (\<lambda>days. if since \<le> day then day # days else days) (report_days parse since vs))
      | _ \<Rightarrow> None)"

definition datesOf :: "(string \<Rightarrow> instant option) \<Rightarrow> json option \<Rightarrow> civil \<Rightarrow> civil list option" where
  "datesOf parse offchain since =
     (case json_record offchain of
        None \<Rightarrow> None
      | Some item \<Rightarrow>
          (case json_items (json_field item ''earnings'') of
             None \<Rightarrow> None
           | Some earnings \<Rightarrow>
               map_option (\<lambda>days. sort (remdups days))
                 (report_days parse since
                    (json_field item ''nextEarningsReport''
                     # map (\<lambda>e. if isRecord e then json_field e ''reportDate'' else None) earnings))))"

section \<open>The pages\<close>

type_synonym stock_dates = "(stock_id \<times> civil list) list"

definition read_item :: "(string \<Rightarrow> instant option) \<Rightarrow> civil \<Rightarrow> stock_dates \<Rightarrow> json \<Rightarrow> stock_dates" where
  "read_item parse since dates item =
     (case (json_field item ''chainId'', json_string (json_field item ''address'')) of
        (Some (JNumber (Whole chain)), Some address) \<Rightarrow>
          if isRecord item \<and> chain = BASE_CHAIN_ID then
            (case stockByToken address of
               None \<Rightarrow> dates
             | Some stock \<Rightarrow>
                 (case datesOf parse (json_field item ''offchain'') since of
                    None \<Rightarrow> dates | Some days \<Rightarrow> AList.update (stk_id stock) days dates))
          else dates
      | _ \<Rightarrow> dates)"

record page_response =
  prs_ok :: bool
  prs_body :: "json option" \<comment> \<open>None when the body is not JSON\<close>

text \<open>The request of a page by its number and cursor; None when it fails or times out.\<close>

type_synonym calendar_api = "nat \<Rightarrow> string option \<Rightarrow> page_response option"

definition page_result :: "page_response option \<Rightarrow> json result" where
  "page_result response =
     (case response of
        None \<Rightarrow> Inl (JsError ''fetch failed'')
      | Some r \<Rightarrow>
          if \<not> prs_ok r then Inl (JsError ''earnings calendar: HTTP'')
          else (case prs_body r of
              None \<Rightarrow> Inl (JsError ''not JSON'')
            | Some body \<Rightarrow>
                if \<not> isRecord body \<or> json_field body ''errors'' \<noteq> None then Inl (JsError ''earnings calendar: no data'')
                else (case json_record (json_field body ''data'') of
                    None \<Rightarrow> Inl (JsError ''earnings calendar: no data'')
                  | Some data \<Rightarrow>
                      (case json_record (json_field data ''tokenizedStocks'') of
                         None \<Rightarrow> Inl (JsError ''earnings calendar: unexpected shape'')
                       | Some result \<Rightarrow> Inr result))))"

definition next_cursor :: "json \<Rightarrow> string option" where
  "next_cursor result =
     (case json_record (json_field result ''pageInfo'') of
        None \<Rightarrow> None
      | Some info \<Rightarrow> (case json_string (json_field info ''next'') of
          Some next \<Rightarrow> if next = '''' then None else Some next | None \<Rightarrow> None))"

text \<open>At most \<open>left\<close> more pages.\<close>

fun read_pages ::
  "calendar_api \<Rightarrow> (string \<Rightarrow> instant option) \<Rightarrow> civil \<Rightarrow> nat \<Rightarrow> string option \<Rightarrow> stock_dates \<Rightarrow> stock_dates result" where
  "read_pages api parse since 0 cursor dates = Inr dates"
| "read_pages api parse since (Suc left) cursor dates =
     bindR (page_result (api (MAX_PAGES - Suc left) cursor)) (\<lambda>result.
     case json_items (json_field result ''items'') of
       None \<Rightarrow> Inl (JsError ''earnings calendar: unexpected shape'')
     | Some items \<Rightarrow>
         let dates = foldl (read_item parse since) dates items in
         (case next_cursor result of
            None \<Rightarrow> Inr dates
          | Some c \<Rightarrow> read_pages api parse since left (Some c) dates))"

definition readCalendar :: "calendar_api \<Rightarrow> (string \<Rightarrow> instant option) \<Rightarrow> instant \<Rightarrow> earnings_calendar result" where
  "readCalendar api parse readAt =
     (let since = marketDate (readAt - KEEP_PAST_DAYS * 86400000) new_york in
      bindR (read_pages api parse since MAX_PAGES None []) (\<lambda>dates.
      Inr \<lparr>ecl_read_at = readAt, ecl_dates = dates\<rparr>))"

section \<open>What a reading holds\<close>

definition good_dates :: "civil \<Rightarrow> stock_dates \<Rightarrow> bool" where
  "good_dates since dates \<longleftrightarrow>
     (\<forall>i days. map_of dates i = Some days \<longrightarrow> sorted days \<and> distinct days \<and> (\<forall>d \<in> set days. since \<le> d \<and> real_date d))"

lemma real_market_date: "real_date (marketDate t z)"
  by (simp add: marketDate_def Let_def wallTime_date)

lemma reportDay_real: "reportDay parse s = Some d \<Longrightarrow> real_date d"
  by (auto simp: reportDay_def utc_day_def real_market_date)

lemma report_days_since: "report_days parse since vs = Some days \<Longrightarrow> d \<in> set days \<Longrightarrow> since \<le> d \<and> real_date d"
proof (induction vs arbitrary: days)
  case (Cons v vs)
  then show ?case
    by (auto split: option.splits json.splits if_splits simp: reportDay_real)
qed simp

lemma datesOf_good:
  assumes "datesOf parse offchain since = Some days"
  shows "sorted days \<and> distinct days \<and> (\<forall>d \<in> set days. since \<le> d \<and> real_date d)"
proof -
  obtain vs found where "report_days parse since vs = Some found" and days: "days = sort (remdups found)"
    using assms by (auto simp: datesOf_def simp del: report_days.simps split: option.splits)
  then have "\<forall>d \<in> set found. since \<le> d \<and> real_date d" by (blast dest: report_days_since)
  then show ?thesis by (simp add: days)
qed

lemma read_item_good:
  assumes "good_dates since dates"
  shows "good_dates since (read_item parse since dates item)"
  using assms
  by (auto simp: read_item_def good_dates_def update_conv' split: option.splits json.splits js_number.splits if_splits
      dest!: datesOf_good)

lemma read_items_good: "good_dates since dates \<Longrightarrow> good_dates since (foldl (read_item parse since) dates items)"
  by (induction items arbitrary: dates) (simp_all add: read_item_good)

lemma read_pages_good:
  "read_pages api parse since left cursor dates = Inr dates' \<Longrightarrow> good_dates since dates \<Longrightarrow> good_dates since dates'"
proof (induction left arbitrary: cursor dates)
  case (Suc left)
  from Suc.prems(1) obtain result items where r: "page_result (api (MAX_PAGES - Suc left) cursor) = Inr result"
      "json_items (json_field result ''items'') = Some items"
    by (auto split: option.splits)
  let ?dates = "foldl (read_item parse since) dates items"
  have good: "good_dates since ?dates" by (rule read_items_good [OF Suc.prems(2)])
  show ?case
  proof (cases "next_cursor result")
    case None
    then show ?thesis using Suc.prems(1) r good by simp
  next
    case (Some c)
    then show ?thesis using Suc.prems(1) r good Suc.IH [of "Some c" ?dates] by simp
  qed
qed simp

lemma readCalendar_good:
  assumes "readCalendar api parse readAt = Inr c"
  shows "ecl_read_at c = readAt
    \<and> good_dates (marketDate (readAt - KEEP_PAST_DAYS * 86400000) new_york) (ecl_dates c)"
proof -
  let ?since = "marketDate (readAt - KEEP_PAST_DAYS * 86400000) new_york"
  obtain dates where d: "read_pages api parse ?since MAX_PAGES None [] = Inr dates"
      "c = \<lparr>ecl_read_at = readAt, ecl_dates = dates\<rparr>"
    using assms by (auto simp: readCalendar_def Let_def)
  have "good_dates ?since dates"
    by (rule read_pages_good [OF d(1)]) (simp add: good_dates_def)
  then show ?thesis by (simp add: d(2))
qed

end
