(* ===== verification/Calendar_Cache.thy ===== *)
theory Calendar_Cache
  imports Earnings_Calendar Guarded_Steps
begin

text \<open>
  The second half of lib/still-engine/src/calendar.ts: the source that remembers the last good
  calendar, joins the questions that meet a reading under way, and pauses after one that failed.
  The clock is read where the code reads it; what happens between two questions is a step.
\<close>

section \<open>The source\<close>

record cache_times =
  tms_ttl :: int
  tms_retry :: int
  tms_stale :: int

definition DEFAULT_TIMES :: cache_times where
  "DEFAULT_TIMES = \<lparr>tms_ttl = 60 * 60000, tms_retry = 60000, tms_stale = 24 * 60 * 60000\<rparr>"

text \<open>
  \<open>loading\<close>: no promise, a reading begun at an instant, or a promise that has its answer and whose
  \<open>finally\<close> has not run yet.
\<close>

datatype loading = NotLoading | Loading instant | Answered calendar_read

record calendar_cache =
  cch_good :: "earnings_calendar option"
  cch_failed_at :: "instant option"
  cch_loading :: loading

definition createEarningsCalendar :: calendar_cache where
  "createEarningsCalendar = \<lparr>cch_good = None, cch_failed_at = None, cch_loading = NotLoading\<rparr>"

definition younger :: "int \<Rightarrow> instant \<Rightarrow> earnings_calendar option \<Rightarrow> earnings_calendar option" where
  "younger limit at good =
     (case good of Some c \<Rightarrow> if at - ecl_read_at c < limit then Some c else None | None \<Rightarrow> None)"

definition fallback :: "cache_times \<Rightarrow> calendar_cache \<Rightarrow> instant \<Rightarrow> calendar_read" where
  "fallback limits s at =
     (case younger (tms_stale limits) at (cch_good s) of Some c \<Rightarrow> CalendarOk c | None \<Rightarrow> CalendarUnread)"

text \<open>
  A question at \<open>at\<close>: the answer when there is one at once (the fallback reads the clock again, at
  \<open>later\<close>); otherwise the promise of the reading under way, or of one begun now, at \<open>begun\<close>. The list
  holds the readings the question begins.
\<close>

definition current_calendar ::
  "cache_times \<Rightarrow> calendar_cache \<Rightarrow> instant \<Rightarrow> instant \<Rightarrow> instant \<Rightarrow> calendar_read option \<times> instant list \<times> calendar_cache" where
  "current_calendar limits s at later begun =
     (case younger (tms_ttl limits) at (cch_good s) of
        Some c \<Rightarrow> (Some (CalendarOk c), [], s)
      | None \<Rightarrow>
          if (case cch_failed_at s of Some f \<Rightarrow> at - f < tms_retry limits | None \<Rightarrow> False)
          then (Some (fallback limits s later), [], s)
          else if cch_loading s = NotLoading then (None, [begun], s\<lparr>cch_loading := Loading begun\<rparr>)
          else (None, [], s))"

text \<open>
  The end of a reading, and the answer of its promise; the clock is read at \<open>failed\<close> and then by the
  fallback at \<open>later\<close>.
\<close>

definition load_ends ::
  "cache_times \<Rightarrow> earnings_calendar result \<Rightarrow> instant \<Rightarrow> instant \<Rightarrow> calendar_cache \<Rightarrow> calendar_read \<times> calendar_cache" where
  "load_ends limits outcome failed later s =
     (case outcome of
        Inr c \<Rightarrow> (CalendarOk c, s\<lparr>cch_good := Some c, cch_failed_at := None, cch_loading := Answered (CalendarOk c)\<rparr>)
      | Inl e \<Rightarrow> (fallback limits s later,
          s\<lparr>cch_failed_at := Some failed, cch_loading := Answered (fallback limits s later)\<rparr>))"

definition load_cleared :: "calendar_cache \<Rightarrow> calendar_cache" where
  "load_cleared s = s\<lparr>cch_loading := NotLoading\<rparr>"

section \<open>Runs\<close>

text \<open>
  The source with the clock last read, the instants its readings began, the newest first, and the
  readings under way. The clock does not go backwards. Any number of questions may come while a reading
  is under way. Each reading meets the API as it is then: the event of its end carries the API's
  answers, so that one reading of a run may succeed and the next fail.
\<close>

record calendar_run =
  crn_cache :: calendar_cache
  crn_clock :: instant
  crn_begun :: "instant list"
  crn_under_way :: "instant list"

datatype calendar_event =
    Asked instant instant instant "calendar_read option" \<comment> \<open>at, later, begun, the answer when it comes at once\<close>
  | LoadEnds calendar_api instant instant calendar_read \<comment> \<open>what the API said, failed, later, the promise's answer\<close>
  | LoadCleared

inductive calendar_step ::
  "(string \<Rightarrow> instant option) \<Rightarrow> cache_times \<Rightarrow> calendar_run \<Rightarrow> calendar_event \<Rightarrow> calendar_run \<Rightarrow> bool"
  for parse limits where
  asked:
    "crn_clock w \<le> at \<Longrightarrow> at \<le> later \<Longrightarrow> later \<le> begun
     \<Longrightarrow> current_calendar limits (crn_cache w) at later begun = (answer, started, s)
     \<Longrightarrow> w' = \<lparr>crn_cache = s, crn_clock = begun, crn_begun = started @ crn_begun w,
          crn_under_way = started @ crn_under_way w\<rparr>
     \<Longrightarrow> calendar_step parse limits w (Asked at later begun answer) w'"
| ends:
    "readAt \<in> set (crn_under_way w) \<Longrightarrow> crn_clock w \<le> failed \<Longrightarrow> failed \<le> later
     \<Longrightarrow> load_ends limits (readCalendar api parse readAt) failed later (crn_cache w) = (answer, s)
     \<Longrightarrow> w' = w\<lparr>crn_cache := s, crn_clock := later, crn_under_way := remove1 readAt (crn_under_way w)\<rparr>
     \<Longrightarrow> calendar_step parse limits w (LoadEnds api failed later answer) w'"
| cleared:
    "cch_loading (crn_cache w) = Answered answer
     \<Longrightarrow> w' = w\<lparr>crn_cache := load_cleared (crn_cache w)\<rparr>
     \<Longrightarrow> calendar_step parse limits w LoadCleared w'"

inductive_cases askedE: "calendar_step parse limits w (Asked at later begun answer) w'"
inductive_cases endsE: "calendar_step parse limits w (LoadEnds api failed later answer) w'"
inductive_cases clearedE: "calendar_step parse limits w LoadCleared w'"

definition calendar_started :: "calendar_run \<Rightarrow> bool" where
  "calendar_started w \<longleftrightarrow> crn_cache w = createEarningsCalendar \<and> crn_begun w = [] \<and> crn_under_way w = []"

section \<open>What every run keeps\<close>

text \<open>The least time between the beginnings of two readings.\<close>

definition pause :: "cache_times \<Rightarrow> int" where
  "pause limits = min (tms_ttl limits) (tms_retry limits)"

definition calendar_since :: "instant \<Rightarrow> civil" where
  "calendar_since readAt = marketDate (readAt - KEEP_PAST_DAYS * 86400000) new_york"

text \<open>A calendar some reading really produced.\<close>

definition really_read :: "instant list \<Rightarrow> earnings_calendar \<Rightarrow> bool" where
  "really_read begun c \<longleftrightarrow> ecl_read_at c \<in> set begun \<and> good_dates (calendar_since (ecl_read_at c)) (ecl_dates c)"

text \<open>The newest reading began, and has since ended well, failed or is still under way.\<close>

fun last_load :: "calendar_cache \<Rightarrow> instant \<Rightarrow> instant list \<Rightarrow> bool" where
  "last_load s clock [] \<longleftrightarrow> cch_good s = None \<and> cch_failed_at s = None \<and> cch_loading s = NotLoading"
| "last_load s clock (b # bs) \<longleftrightarrow> b \<le> clock \<and>
     (cch_loading s = Loading b
      \<or> (\<forall>r. cch_loading s \<noteq> Loading r)
        \<and> (map_option ecl_read_at (cch_good s) = Some b \<or> (\<exists>f. cch_failed_at s = Some f \<and> b \<le> f)))"

definition spaced :: "int \<Rightarrow> instant list \<Rightarrow> bool" where
  "spaced gap bs \<longleftrightarrow> sorted_wrt (\<lambda>b a. a + gap \<le> b) bs"

definition promised :: "calendar_cache \<Rightarrow> instant list" where
  "promised s = (case cch_loading s of Loading b \<Rightarrow> [b] | _ \<Rightarrow> [])"

definition calendar_inv :: "cache_times \<Rightarrow> calendar_run \<Rightarrow> bool" where
  "calendar_inv limits w \<longleftrightarrow>
     last_load (crn_cache w) (crn_clock w) (crn_begun w)
     \<and> crn_under_way w = promised (crn_cache w)
     \<and> (0 \<le> pause limits \<longrightarrow> spaced (pause limits) (crn_begun w))
     \<and> (\<forall>c. cch_good (crn_cache w) = Some c \<longrightarrow> really_read (crn_begun w) c)"

lemma younger_Some: "younger limit at good = Some c \<longleftrightarrow> good = Some c \<and> at - ecl_read_at c < limit"
  by (auto simp: younger_def split: option.splits)

lemma younger_None: "younger limit at good = None \<longleftrightarrow> (\<forall>c. good = Some c \<longrightarrow> limit \<le> at - ecl_read_at c)"
  by (auto simp: younger_def split: option.splits)

lemma fallback_ok: "fallback limits s at = CalendarOk c \<Longrightarrow> cch_good s = Some c"
  by (auto simp: fallback_def younger_Some split: option.splits)

text \<open>A question begins a reading only where none runs, none is fresh and none failed just now.\<close>

lemma current_begins:
  assumes "current_calendar limits s at later begun = (answer, started, t)"
  shows "(t = s \<and> started = [])
    \<or> (t = s\<lparr>cch_loading := Loading begun\<rparr> \<and> started = [begun] \<and> answer = None \<and> cch_loading s = NotLoading
        \<and> (\<forall>c. cch_good s = Some c \<longrightarrow> tms_ttl limits \<le> at - ecl_read_at c)
        \<and> (\<forall>f. cch_failed_at s = Some f \<longrightarrow> tms_retry limits \<le> at - f))"
  using assms
  by (auto simp: current_calendar_def younger_None split: option.splits if_splits)

lemma spaced_Cons: "0 \<le> gap \<Longrightarrow> spaced gap (b # c # bs) \<longleftrightarrow> c + gap \<le> b \<and> spaced gap (c # bs)"
  by (fastforce simp: spaced_def)

lemma begun_is_spaced:
  assumes "last_load s clock bs" "spaced (pause limits) bs" "0 \<le> pause limits" "cch_loading s = NotLoading"
    and "\<forall>c. cch_good s = Some c \<longrightarrow> tms_ttl limits \<le> at - ecl_read_at c"
    and "\<forall>f. cch_failed_at s = Some f \<longrightarrow> tms_retry limits \<le> at - f" and "at \<le> begun"
  shows "spaced (pause limits) (begun # bs)"
proof (cases bs)
  case Nil
  then show ?thesis by (simp add: spaced_def)
next
  case (Cons b rest)
  have "b + pause limits \<le> begun"
    using assms(1,4-7) by (auto simp: Cons pause_def min_def)
  then show ?thesis using assms(2,3) by (simp add: Cons spaced_Cons)
qed

lemma really_read_mono: "really_read bs c \<Longrightarrow> set bs \<subseteq> set bs' \<Longrightarrow> really_read bs' c"
  by (auto simp: really_read_def)

lemma last_load_later: "last_load s clock bs \<Longrightarrow> clock \<le> clock' \<Longrightarrow> last_load s clock' bs"
  by (cases bs) auto

lemma asked_keeps_inv:
  assumes inv: "calendar_inv limits w" and clock: "crn_clock w \<le> at" "at \<le> later" "later \<le> begun"
    and current: "current_calendar limits (crn_cache w) at later begun = (answer, started, s)"
  shows "calendar_inv limits \<lparr>crn_cache = s, crn_clock = begun, crn_begun = started @ crn_begun w,
    crn_under_way = started @ crn_under_way w\<rparr>"
  using current_begins [OF current]
proof (elim disjE conjE)
  assume "s = crn_cache w" "started = []"
  then show ?thesis using inv clock by (auto simp: calendar_inv_def intro: last_load_later)
next
  assume b: "s = (crn_cache w)\<lparr>cch_loading := Loading begun\<rparr>" "started = [begun]" "cch_loading (crn_cache w) = NotLoading"
    "\<forall>c. cch_good (crn_cache w) = Some c \<longrightarrow> tms_ttl limits \<le> at - ecl_read_at c"
    "\<forall>f. cch_failed_at (crn_cache w) = Some f \<longrightarrow> tms_retry limits \<le> at - f"
  have "0 \<le> pause limits \<longrightarrow> spaced (pause limits) (begun # crn_begun w)"
    using inv b clock by (auto simp: calendar_inv_def intro!: begun_is_spaced)
  then show ?thesis
    using inv b(1-3) by (auto simp: calendar_inv_def promised_def intro: really_read_mono)
qed

lemma ends_keeps_inv:
  assumes inv: "calendar_inv limits w" and under_way: "readAt \<in> set (crn_under_way w)"
    and clock: "crn_clock w \<le> failed" "failed \<le> later"
    and ended: "load_ends limits (readCalendar api parse readAt) failed later (crn_cache w) = (answer, s)"
  shows "calendar_inv limits (w\<lparr>crn_cache := s, crn_clock := later, crn_under_way := remove1 readAt (crn_under_way w)\<rparr>)"
proof -
  have loading: "cch_loading (crn_cache w) = Loading readAt" "crn_under_way w = [readAt]"
    using inv under_way by (auto simp: calendar_inv_def promised_def split: loading.split_asm)
  obtain bs where bs: "crn_begun w = readAt # bs"
    using inv loading(1) by (cases "crn_begun w") (auto simp: calendar_inv_def)
  show ?thesis
  proof (cases "readCalendar api parse readAt")
    case (Inr c)
    then have "really_read (crn_begun w) c" "ecl_read_at c = readAt"
      using readCalendar_good [OF Inr] by (simp_all add: really_read_def calendar_since_def bs)
    then show ?thesis
      using inv loading ended clock Inr by (auto simp: calendar_inv_def load_ends_def bs promised_def)
  next
    case (Inl e)
    then show ?thesis
      using inv loading ended clock by (auto simp: calendar_inv_def load_ends_def bs promised_def)
  qed
qed

lemma calendar_step_inv:
  assumes inv: "calendar_inv limits w" and step: "calendar_step parse limits w e w'"
  shows "calendar_inv limits w'"
  using step
proof cases
  case (asked at later begun answer started s)
  then show ?thesis using asked_keeps_inv [OF inv] by simp
next
  case (ends readAt failed later api answer s)
  then show ?thesis using ends_keeps_inv [OF inv] by simp
next
  case (cleared answer)
  then show ?thesis
    using inv by (cases "crn_begun w") (auto simp: calendar_inv_def load_cleared_def promised_def)
qed

lemma calendar_started_inv: "calendar_started w \<Longrightarrow> calendar_inv limits w"
  by (simp add: calendar_started_def calendar_inv_def createEarningsCalendar_def spaced_def promised_def)

interpretation calendar: stepping "calendar_step parse limits" calendar_started "calendar_inv limits"
  by unfold_locales (auto intro: calendar_started_inv calendar_step_inv)

end
