(* ===== verification/Calendar_Properties.thy ===== *)
theory Calendar_Properties
  imports Calendar_Cache
begin

text \<open>
  What the earnings calendar promises to the reports that ask it: where a served calendar comes from
  and how old it may be, how often the Aave API is asked, and what an outage does.
\<close>

section \<open>Counting readings\<close>

lemma spaced_span: "spaced gap (b # bs) \<Longrightarrow> a \<in> set (b # bs) \<Longrightarrow> 0 \<le> gap \<Longrightarrow> a \<le> b"
  by (auto simp: spaced_def)

lemma spaced_length:
  "spaced gap bs \<Longrightarrow> 0 \<le> gap \<Longrightarrow> \<forall>b \<in> set bs. low \<le> b \<and> b < low + span \<Longrightarrow> bs \<noteq> [] \<Longrightarrow>
   int (length bs) * gap < span + gap"
proof (induction bs arbitrary: span)
  case (Cons b bs)
  show ?case
  proof (cases bs)
    case Nil
    then show ?thesis using Cons.prems(3) by auto
  next
    case tail: (Cons c cs)
    have step: "c + gap \<le> b" "spaced gap bs" using Cons.prems(1,2) by (simp_all add: tail spaced_Cons)
    have "\<forall>x \<in> set bs. low \<le> x \<and> x < low + (span - gap)"
    proof
      fix x assume x: "x \<in> set bs"
      then have "x \<le> c" using spaced_span [of gap c cs x] step(2) Cons.prems(2) by (simp add: tail)
      then show "low \<le> x \<and> x < low + (span - gap)" using x step(1) Cons.prems(3) by auto
    qed
    then have "int (length bs) * gap < (span - gap) + gap"
      using Cons.prems(2) step(2) by (intro Cons.IH) (simp_all add: tail)
    moreover have "int (length (b # bs)) * gap = int (length bs) * gap + gap" by (simp add: distrib_right)
    ultimately show ?thesis by linarith
  qed
qed simp

lemma spaced_filter: "spaced gap bs \<Longrightarrow> spaced gap (filter P bs)"
  by (simp add: spaced_def sorted_wrt_filter)

section \<open>Where a calendar comes from\<close>

text \<open>A reading of the run that succeeded with this calendar.\<close>

definition read_in :: "(string \<Rightarrow> instant option) \<Rightarrow> calendar_event set \<Rightarrow> earnings_calendar \<Rightarrow> bool" where
  "read_in parse E c \<longleftrightarrow>
     (\<exists>api failed later. LoadEnds api failed later (CalendarOk c) \<in> E \<and> readCalendar api parse (ecl_read_at c) = Inr c)"

text \<open>The calendar an event tells, and the instant up to which its age was checked.\<close>

fun told_calendar :: "calendar_event \<Rightarrow> (instant \<times> earnings_calendar) option" where
  "told_calendar (Asked at later begun (Some (CalendarOk c))) = Some (at, c)"
| "told_calendar (LoadEnds api failed later (CalendarOk c)) = Some (later, c)"
| "told_calendar _ = None"

text \<open>What a step tells is a calendar it read, or the last good one, young enough.\<close>

lemma told_by_step:
  assumes "calendar_step parse limits w e w'" and "told_calendar e = Some (at, c)"
  shows "read_in parse {e} c
    \<or> cch_good (crn_cache w) = Some c \<and> at - ecl_read_at c < max (tms_ttl limits) (tms_stale limits)"
  using assms(1)
proof cases
  case (asked at' later begun answer started s)
  then have "answer = Some (CalendarOk c)" "at' = at" using assms(2)
    by (auto split: option.splits calendar_read.splits elim!: told_calendar.elims)
  with asked show ?thesis
    by (auto simp: current_calendar_def fallback_def younger_Some split: option.split_asm if_split_asm)
next
  case (ends readAt failed later api answer s)
  then have a: "answer = CalendarOk c" "later = at" using assms(2) by (auto elim!: told_calendar.elims)
  show ?thesis
  proof (cases "readCalendar api parse readAt")
    case (Inr c')
    then have "c' = c" "ecl_read_at c' = readAt" using ends(5) a readCalendar_good [OF Inr] by (auto simp: load_ends_def)
    then show ?thesis using Inr ends(1) a by (auto simp: read_in_def)
  next
    case (Inl e')
    then show ?thesis using ends(5) a by (auto simp: load_ends_def fallback_def younger_Some split: option.split_asm)
  qed
next
  case (cleared answer)
  then show ?thesis using assms(2) by simp
qed

lemma good_by_step:
  assumes "calendar_step parse limits w e w'" and "cch_good (crn_cache w') = Some c"
  shows "cch_good (crn_cache w) = Some c \<or> read_in parse {e} c"
  using assms(1)
proof cases
  case (asked at later begun answer started s)
  then show ?thesis using assms(2) current_begins [OF asked(5)] by auto
next
  case (ends readAt failed later api answer s)
  show ?thesis
  proof (cases "readCalendar api parse readAt")
    case (Inr c')
    then have "c' = c" "ecl_read_at c' = readAt" "answer = CalendarOk c'"
      using ends assms(2) readCalendar_good [OF Inr] by (auto simp: load_ends_def)
    then show ?thesis using Inr ends(1) by (auto simp: read_in_def)
  next
    case (Inl e')
    then show ?thesis using ends assms(2) by (auto simp: load_ends_def)
  qed
next
  case (cleared answer)
  then show ?thesis using assms(2) by (simp add: load_cleared_def)
qed

lemma read_in_mono: "read_in parse E c \<Longrightarrow> E \<subseteq> E' \<Longrightarrow> read_in parse E' c"
  by (auto simp: read_in_def)

lemma good_by_runs:
  "runs (calendar_step parse limits) w es w' \<Longrightarrow> cch_good (crn_cache w') = Some c
    \<Longrightarrow> cch_good (crn_cache w) = Some c \<or> read_in parse (set es) c"
proof (induction rule: runs.induct)
  case (more s e t es u)
  then show ?case using good_by_step [OF more(1), of c] by (auto intro: read_in_mono)
qed simp

lemma read_in_good: "read_in parse E c \<Longrightarrow> good_dates (calendar_since (ecl_read_at c)) (ecl_dates c)"
  using readCalendar_good by (auto simp: read_in_def calendar_since_def)

section \<open>Properties\<close>

text \<open>
  C39. Whatever was asked, answered and failed before, and however the API behaves from one reading to
  the next: a calendar told to anyone, at once or when a reading ends, well or not, is what a reading of
  this very run got from the API; it is either that reading's own answer or, when told, was younger than
  the hour a calendar serves or, after a failure, than a day. Its dates, for every stock it names, are in
  ascending order, without repetition, and none lies more than the kept week before the reading.
\<close>

theorem served_calendar_is_a_reading:
  assumes "calendar_started w\<^sub>0" and "runs (calendar_step parse limits) w\<^sub>0 es w"
    and "calendar_step parse limits w e w'" and "told_calendar e = Some (at, c)"
  shows "(\<exists>api failed later. LoadEnds api failed later (CalendarOk c) \<in> set (es @ [e])
        \<and> readCalendar api parse (ecl_read_at c) = Inr c)
    \<and> (at - ecl_read_at c < max (tms_ttl limits) (tms_stale limits)
       \<or> (\<exists>api failed. e = LoadEnds api failed at (CalendarOk c) \<and> readCalendar api parse (ecl_read_at c) = Inr c))
    \<and> (\<forall>i days. map_of (ecl_dates c) i = Some days \<longrightarrow>
         sorted days \<and> distinct days \<and> (\<forall>d \<in> set days. calendar_since (ecl_read_at c) \<le> d))"
proof -
  have "read_in parse (set es) c" if "cch_good (crn_cache w) = Some c"
    using good_by_runs [OF assms(2) that] assms(1) by (simp add: calendar_started_def createEarningsCalendar_def)
  then have r: "read_in parse (set (es @ [e])) c"
    using told_by_step [OF assms(3,4)] by (auto intro: read_in_mono)
  moreover have "at - ecl_read_at c < max (tms_ttl limits) (tms_stale limits)
      \<or> (\<exists>api failed. e = LoadEnds api failed at (CalendarOk c) \<and> readCalendar api parse (ecl_read_at c) = Inr c)"
    using told_by_step [OF assms(3,4)] assms(4) by (auto simp: read_in_def)
  ultimately show ?thesis using read_in_good [OF r] by (auto simp: read_in_def good_dates_def)
qed

definition empty_page :: page_response where
  "empty_page = \<lparr>prs_ok = True, prs_body = Some (JObject [(''data'', JObject [(''tokenizedStocks'',
     JObject [(''items'', JArray [])])])])\<rparr>"

text \<open>The API up, and down.\<close>

definition api_up :: calendar_api where
  "api_up = (\<lambda>n cursor. Some empty_page)"

definition api_down :: calendar_api where
  "api_down = (\<lambda>n cursor. None)"

abbreviation sample_step :: "calendar_run \<Rightarrow> calendar_event \<Rightarrow> calendar_run \<Rightarrow> bool" where
  "sample_step \<equiv> calendar_step (\<lambda>s. None) DEFAULT_TIMES"

definition sample_calendar :: earnings_calendar where
  "sample_calendar = \<lparr>ecl_read_at = 10, ecl_dates = []\<rparr>"

definition sample_run :: calendar_run where
  "sample_run = \<lparr>crn_cache = createEarningsCalendar, crn_clock = 0, crn_begun = [], crn_under_way = []\<rparr>"

definition sample_asked :: calendar_run where
  "sample_asked = \<lparr>crn_cache = createEarningsCalendar\<lparr>cch_loading := Loading 10\<rparr>, crn_clock = 10, crn_begun = [10],
     crn_under_way = [10]\<rparr>"

definition sample_answered :: calendar_run where
  "sample_answered = \<lparr>crn_cache = \<lparr>cch_good = Some sample_calendar, cch_failed_at = None,
     cch_loading = Answered (CalendarOk sample_calendar)\<rparr>, crn_clock = 20, crn_begun = [10], crn_under_way = []\<rparr>"

definition sample_read :: calendar_run where
  "sample_read = \<lparr>crn_cache = \<lparr>cch_good = Some sample_calendar, cch_failed_at = None,
     cch_loading = NotLoading\<rparr>, crn_clock = 20, crn_begun = [10], crn_under_way = []\<rparr>"

definition sample_again :: calendar_run where
  "sample_again = \<lparr>crn_cache = \<lparr>cch_good = Some sample_calendar, cch_failed_at = None, cch_loading = Loading 4000000\<rparr>,
     crn_clock = 4000000, crn_begun = [4000000, 10], crn_under_way = [4000000]\<rparr>"

definition sample_failed :: calendar_run where
  "sample_failed = \<lparr>crn_cache = \<lparr>cch_good = Some sample_calendar, cch_failed_at = Some 4000100,
     cch_loading = Answered (CalendarOk sample_calendar)\<rparr>,
     crn_clock = 4000100, crn_begun = [4000000, 10], crn_under_way = []\<rparr>"

definition sample_events :: "calendar_event list" where
  "sample_events = [Asked 10 10 10 None, LoadEnds api_up 20 20 (CalendarOk sample_calendar), LoadCleared,
     Asked 4000000 4000000 4000000 None]"

lemma sample_reading:
  "readCalendar api_up (\<lambda>s. None) 10 = Inr sample_calendar" "\<exists>e. readCalendar api_down (\<lambda>s. None) 4000000 = Inl e"
  by (simp_all add: readCalendar_def Let_def MAX_PAGES_def eval_nat_numeral page_result_def empty_page_def isRecord_def
      json_field_def json_record_def json_items_def next_cursor_def sample_calendar_def api_up_def api_down_def)

lemma sample_runs: "runs sample_step sample_run sample_events sample_again"
proof -
  have "sample_step sample_run (Asked 10 10 10 None) sample_asked"
    by (rule asked [where started = "[10]" and s = "createEarningsCalendar\<lparr>cch_loading := Loading 10\<rparr>"])
      (simp_all add: sample_run_def sample_asked_def current_calendar_def createEarningsCalendar_def younger_def)
  moreover have "sample_step sample_asked (LoadEnds api_up 20 20 (CalendarOk sample_calendar)) sample_answered"
    by (rule ends [where readAt = 10 and s = "crn_cache sample_answered"])
      (simp_all add: sample_asked_def sample_answered_def sample_reading load_ends_def createEarningsCalendar_def)
  moreover have "sample_step sample_answered LoadCleared sample_read"
    by (rule cleared [where answer = "CalendarOk sample_calendar"])
      (simp_all add: sample_answered_def sample_read_def load_cleared_def)
  moreover have "sample_step sample_read (Asked 4000000 4000000 4000000 None) sample_again"
    by (rule asked [where started = "[4000000]" and s = "crn_cache sample_again"])
      (simp_all add: sample_read_def sample_again_def current_calendar_def younger_def sample_calendar_def DEFAULT_TIMES_def)
  ultimately show ?thesis unfolding sample_events_def by (blast intro: runs.intros)
qed

lemma sample_fails: "sample_step sample_again (LoadEnds api_down 4000100 4000100 (CalendarOk sample_calendar)) sample_failed"
proof -
  obtain e where "readCalendar api_down (\<lambda>s. None) 4000000 = Inl e" using sample_reading(2) by blast
  then show ?thesis
    by (intro ends [where readAt = 4000000 and s = "crn_cache sample_failed"])
      (simp_all add: sample_again_def sample_failed_def load_ends_def fallback_def younger_def sample_calendar_def DEFAULT_TIMES_def)
qed

lemma sample_starts: "calendar_started sample_run"
  by (simp add: sample_run_def calendar_started_def)

text \<open>A calendar read at 10 and told more than an hour later, when the next reading fails.\<close>

theorem served_calendar_is_a_reading_witness:
  "sample_step sample_again (LoadEnds api_down 4000100 4000100 (CalendarOk sample_calendar)) sample_failed
    \<and> (\<exists>api failed later. LoadEnds api failed later (CalendarOk sample_calendar)
         \<in> set (sample_events @ [LoadEnds api_down 4000100 4000100 (CalendarOk sample_calendar)])
       \<and> readCalendar api (\<lambda>s. None) 10 = Inr sample_calendar)"
  using served_calendar_is_a_reading [OF sample_starts sample_runs sample_fails, of 4000100 sample_calendar] sample_fails
  by (simp add: sample_calendar_def)

text \<open>
  C40. However many questions come, and however the readings end: never are two readings of the Aave
  API's calendar under way at once; and in any span of time at most one begins per pause (the shorter of
  the hour a calendar serves and the minute after a failure), and one more for the span's end.
\<close>

theorem readings_are_paced:
  assumes "0 < pause limits" and "0 < span" and "calendar_started w\<^sub>0"
    and "runs (calendar_step parse limits) w\<^sub>0 es w"
  shows "length (crn_under_way w) \<le> 1
    \<and> int (length (filter (\<lambda>b. low \<le> b \<and> b < low + span) (crn_begun w))) * pause limits < span + pause limits"
proof -
  have inv: "calendar_inv limits w" by (rule calendar.reached [OF assms(3,4)])
  then have one: "length (crn_under_way w) \<le> 1" by (simp add: calendar_inv_def promised_def split: loading.split)
  have "spaced (pause limits) (crn_begun w)" using inv assms(1) by (simp add: calendar_inv_def)
  then have "spaced (pause limits) (filter (\<lambda>b. low \<le> b \<and> b < low + span) (crn_begun w))" by (rule spaced_filter)
  then have "filter (\<lambda>b. low \<le> b \<and> b < low + span) (crn_begun w) \<noteq> [] \<Longrightarrow> ?thesis"
    using assms(1) one by (intro conjI spaced_length [of _ _ low]) auto
  then show ?thesis using assms(1,2) one by (cases "filter (\<lambda>b. low \<le> b \<and> b < low + span) (crn_begun w) = []") simp_all
qed

theorem readings_are_paced_witness:
  "length (crn_under_way sample_again) \<le> 1
    \<and> int (length (filter (\<lambda>b. 0 \<le> b \<and> b < 0 + 7200000) (crn_begun sample_again))) * 60000 < 7200000 + 60000"
  using readings_are_paced [OF _ _ sample_starts sample_runs, of 7200000 0]
  by (simp add: pause_def DEFAULT_TIMES_def)

section \<open>An outage\<close>

text \<open>An event of an outage in which the calendar \<open>c\<close> may still be served.\<close>

fun in_outage :: "(string \<Rightarrow> instant option) \<Rightarrow> cache_times \<Rightarrow> earnings_calendar \<Rightarrow> calendar_event \<Rightarrow> bool" where
  "in_outage parse limits c (Asked at later begun answer) \<longleftrightarrow> later - ecl_read_at c < tms_stale limits"
| "in_outage parse limits c (LoadEnds api failed later answer) \<longleftrightarrow>
     (\<forall>at. isl (readCalendar api parse at)) \<and> later - ecl_read_at c < tms_stale limits"
| "in_outage parse limits c LoadCleared \<longleftrightarrow> True"

fun answered_by :: "earnings_calendar \<Rightarrow> calendar_event \<Rightarrow> bool" where
  "answered_by c (Asked at later begun answer) \<longleftrightarrow> answer = None \<or> answer = Some (CalendarOk c)"
| "answered_by c (LoadEnds api failed later answer) \<longleftrightarrow> answer = CalendarOk c"
| "answered_by c LoadCleared \<longleftrightarrow> True"

lemma fallback_serves:
  "cch_good s = Some c \<Longrightarrow> at - ecl_read_at c < tms_stale limits \<Longrightarrow> fallback limits s at = CalendarOk c"
  by (simp add: fallback_def younger_def)

lemma outage_step:
  assumes "cch_good (crn_cache w) = Some c" and "calendar_step parse limits w e w'" and "in_outage parse limits c e"
  shows "cch_good (crn_cache w') = Some c \<and> answered_by c e"
  using assms(2)
proof cases
  case (asked at later begun answer started s)
  then show ?thesis
    using assms(1,3) by (auto simp: current_calendar_def younger_Some fallback_serves split: option.splits if_splits)
next
  case (ends readAt failed later api answer s)
  then have "isl (readCalendar api parse readAt)" using assms(3) by simp
  then obtain e' where "readCalendar api parse readAt = Inl e'" by (auto simp: isl_def)
  then show ?thesis using ends assms(1,3) by (auto simp: load_ends_def fallback_serves)
next
  case (cleared answer)
  then show ?thesis using assms(1) by (simp add: load_cleared_def)
qed

text \<open>
  An outage of the Aave API is not an outage of the calendar: once a calendar has been read,
  every question answered at once and every failing reading of the next day answers with that calendar.
\<close>

lemma outage_keeps_the_calendar:
  "runs (calendar_step parse limits) w es w' \<Longrightarrow> cch_good (crn_cache w) = Some c \<Longrightarrow> \<forall>e \<in> set es. in_outage parse limits c e
   \<Longrightarrow> cch_good (crn_cache w') = Some c \<and> (\<forall>e \<in> set es. answered_by c e)"
proof (induction rule: runs.induct)
  case (more s e t es u)
  then have "cch_good (crn_cache t) = Some c \<and> answered_by c e"
    using outage_step [of s c parse limits e t] by simp
  with more show ?case by simp
qed simp

end
