(* ===== verification/Hex_Text.thy ===== *)
theory Hex_Text
  imports Still_Prelude
begin

text \<open>
  Numbers as text, the way the calldata and the amounts of the swap code are written: digits in a
  base, \<open>toString\<close> and \<open>BigInt\<close>, padding, addresses, and the 32-byte words of calldata as 64
  lower-case hexadecimal digits.
\<close>

section \<open>Digits\<close>

definition digit_char :: "nat \<Rightarrow> char" where
  "digit_char d = char_of (if d < 10 then 48 + d else 87 + d)"

text \<open>The value of a digit in any case; a character that is no digit has a value above every base.\<close>

definition digit_value :: "char \<Rightarrow> nat" where
  "digit_value c = (let n = (of_char c :: nat) in
     if 48 \<le> n \<and> n \<le> 57 then n - 48
     else if 97 \<le> n \<and> n \<le> 122 then n - 87
     else if 65 \<le> n \<and> n \<le> 90 then n - 55 else 99)"

definition digits_value :: "nat \<Rightarrow> string \<Rightarrow> nat" where
  "digits_value base s = foldl (\<lambda>n c. n * base + digit_value c) 0 s"

text \<open>\<open>toString(base)\<close> of a number that is not negative.\<close>

function show_digits :: "nat \<Rightarrow> nat \<Rightarrow> string" where
  "show_digits base n =
     (if base < 2 \<or> n < base then [digit_char n]
      else show_digits base (n div base) @ [digit_char (n mod base)])"
  by pat_completeness auto

termination
  by (relation "measure snd") auto

declare show_digits.simps [simp del]

definition padStart :: "nat \<Rightarrow> char \<Rightarrow> string \<Rightarrow> string" where
  "padStart k c s = replicate (k - length s) c @ s"

lemma digit_value_char: "d < 36 \<Longrightarrow> digit_value (digit_char d) = d"
  by (auto simp: digit_char_def digit_value_def Let_def)

lemma digit_char_lower: "d < 36 \<Longrightarrow> char_lower (digit_char d) = digit_char d"
  by (auto simp: digit_char_def char_lower_def Let_def)

lemma digits_value_Nil [simp]: "digits_value b [] = 0"
  by (simp add: digits_value_def)

lemma foldl_digits: "foldl (\<lambda>n c. n * b + digit_value c) a s = a * b ^ length s + digits_value b s"
proof (induction s rule: rev_induct)
  case (snoc c s)
  then show ?case by (simp add: digits_value_def algebra_simps)
qed simp

lemma digits_value_append: "digits_value b (s @ t) = digits_value b s * b ^ length t + digits_value b t"
  using foldl_digits [of b "digits_value b s" t] by (simp add: digits_value_def)

lemma digits_value_single [simp]: "digits_value b [c] = digit_value c"
  by (simp add: digits_value_def)

lemma digits_value_zeros [simp]: "digits_value b (replicate k (CHR ''0'')) = 0"
  by (induction k) (simp_all add: digits_value_append [of b "[_]", simplified] digit_value_def)

lemma show_digits_value: "2 \<le> b \<Longrightarrow> b \<le> 36 \<Longrightarrow> digits_value b (show_digits b n) = n"
proof (induction b n rule: show_digits.induct)
  case (1 b n)
  show ?case
  proof (cases "n < b")
    case True
    then show ?thesis using 1 by (subst show_digits.simps) (simp add: digit_value_char)
  next
    case False
    have m: "n mod b < 36" using 1(2,3) mod_less_divisor [of b n] by linarith
    have "digits_value b (show_digits b (n div b)) = n div b" using 1 False by simp
    then show ?thesis using 1 False m
      by (subst show_digits.simps) (simp add: digits_value_append digit_value_char)
  qed
qed

lemma show_digits_set:
  "2 \<le> b \<Longrightarrow> b \<le> 36 \<Longrightarrow> c \<in> set (show_digits b n) \<Longrightarrow> digit_value c < b \<and> char_lower c = c"
proof (induction b n rule: show_digits.induct)
  case (1 b n)
  show ?case
  proof (cases "n < b")
    case True
    then show ?thesis using 1(2-4) by (subst (asm) show_digits.simps) (simp add: digit_value_char digit_char_lower)
  next
    case False
    have m: "n mod b < b" using 1(2) by simp
    have "c \<in> set (show_digits b (n div b)) \<or> c = digit_char (n mod b)"
      using 1(4) False 1(2) by (subst (asm) show_digits.simps) auto
    then show ?thesis
    proof
      assume "c \<in> set (show_digits b (n div b))"
      then show ?thesis using 1 False by simp
    next
      assume "c = digit_char (n mod b)"
      then show ?thesis using m 1(3) by (simp add: digit_value_char digit_char_lower)
    qed
  qed
qed

lemma show_digits_length: "2 \<le> b \<Longrightarrow> n < b ^ k \<Longrightarrow> 0 < k \<Longrightarrow> length (show_digits b n) \<le> k"
proof (induction k arbitrary: n)
  case (Suc k)
  show ?case
  proof (cases "n < b")
    case True
    then show ?thesis by (subst show_digits.simps) simp
  next
    case False
    then have k: "0 < k" using Suc.prems by (cases k) auto
    have "n div b < b ^ k" using Suc.prems(1,2) by (simp add: less_mult_imp_div_less mult.commute)
    then have "length (show_digits b (n div b)) \<le> k" using Suc.IH Suc.prems(1) k by blast
    then show ?thesis using False Suc.prems(1) by (subst show_digits.simps) simp
  qed
qed simp

lemma show_digits_nonempty [simp]: "show_digits b n \<noteq> []"
  by (subst show_digits.simps) simp

lemma show_digits_inj: "2 \<le> b \<Longrightarrow> b \<le> 36 \<Longrightarrow> show_digits b m = show_digits b n \<longleftrightarrow> m = n"
  by (metis show_digits_value)

lemma padStart_value [simp]: "digits_value b (padStart k (CHR ''0'') s) = digits_value b s"
  by (simp add: padStart_def digits_value_append)

lemma padStart_length: "length s \<le> k \<Longrightarrow> length (padStart k c s) = k"
  by (simp add: padStart_def)

section \<open>Decimal amounts\<close>

text \<open>\<open>toString()\<close> of a bigint.\<close>

definition show_int :: "int \<Rightarrow> string" where
  "show_int n = (if n < 0 then ''-'' else '''') @ show_digits 10 (nat \<bar>n\<bar>)"

definition all_digits :: "nat \<Rightarrow> string \<Rightarrow> bool" where
  "all_digits base s \<longleftrightarrow> list_all (\<lambda>c. digit_value c < base) s"

definition js_space :: "char \<Rightarrow> bool" where
  "js_space c \<longleftrightarrow> (let n = (of_char c :: nat) in n = 32 \<or> 9 \<le> n \<and> n \<le> 13)"

definition js_trim :: "string \<Rightarrow> string" where
  "js_trim s = rev (dropWhile js_space (rev (dropWhile js_space s)))"

text \<open>
  \<open>BigInt(text)\<close>: nothing is zero, a sign goes with decimal digits only, the other bases have their
  prefix; any other text is a SyntaxError, here no value.
\<close>

definition js_bigint :: "string \<Rightarrow> int option" where
  "js_bigint text =
     (let s = js_trim text; radix = to_lower (take 2 s);
          digits = (\<lambda>base s. if s \<noteq> [] \<and> all_digits base s then Some (int (digits_value base s)) else None)
      in if s = [] then Some 0
         else if radix = ''0x'' then digits 16 (drop 2 s)
         else if radix = ''0o'' then digits 8 (drop 2 s)
         else if radix = ''0b'' then digits 2 (drop 2 s)
         else if take 1 s = ''-'' then map_option uminus (digits 10 (drop 1 s))
         else if take 1 s = ''+'' then digits 10 (drop 1 s)
         else digits 10 s)"

text \<open>\<open>/^(0|[1-9][0-9]*)$/\<close>, and the amount such a text stands for.\<close>

definition plain_decimal :: "string \<Rightarrow> bool" where
  "plain_decimal s \<longleftrightarrow> s = ''0'' \<or> (s \<noteq> [] \<and> hd s \<noteq> CHR ''0'' \<and> all_digits 10 s)"

definition parseAtomic :: "string \<Rightarrow> int option" where
  "parseAtomic s = (if plain_decimal s then Some (int (digits_value 10 s)) else None)"

lemma all_digits_show: "2 \<le> b \<Longrightarrow> b \<le> 36 \<Longrightarrow> all_digits b (show_digits b n)"
  by (auto simp: all_digits_def list_all_iff dest: show_digits_set)

lemma digit_not_space: "digit_value c < 36 \<Longrightarrow> \<not> js_space c"
  unfolding digit_value_def js_space_def Let_def by (simp split: if_splits)

lemma js_trim_id: "\<forall>c \<in> set s. \<not> js_space c \<Longrightarrow> js_trim s = s"
proof -
  assume a: "\<forall>c \<in> set s. \<not> js_space c"
  have d: "\<And>t. \<forall>c \<in> set t. \<not> js_space c \<Longrightarrow> dropWhile js_space t = t"
    by (metis dropWhile_eq_self_iff hd_in_set)
  show ?thesis using a by (simp add: js_trim_def d)
qed

lemma show_digits_hd: "2 \<le> b \<Longrightarrow> b \<le> 36 \<Longrightarrow> 0 < n \<Longrightarrow> hd (show_digits b n) \<noteq> CHR ''0''"
proof (induction b n rule: show_digits.induct)
  case (1 b n)
  show ?case
  proof (cases "n < b")
    case True
    have "digit_value (CHR ''0'') = 0" by (simp add: digit_value_def)
    moreover have "digit_value (digit_char n) = n" using 1 True by (intro digit_value_char) simp
    ultimately have "digit_char n \<noteq> CHR ''0''" using 1(4) by (metis less_irrefl)
    then show ?thesis using True by (subst show_digits.simps) simp
  next
    case False
    then have "0 < n div b" using 1(2) by (simp add: div_greater_zero_iff)
    then have "hd (show_digits b (n div b)) \<noteq> CHR ''0''" using 1 False by simp
    then show ?thesis using False 1(2) by (subst show_digits.simps) simp
  qed
qed

lemma plain_decimal_show: "plain_decimal (show_digits 10 n)"
proof (cases "n = 0")
  case True
  have "show_digits 10 0 = ''0''" by (subst show_digits.simps) (simp add: digit_char_def char_of_def bit_0)
  then show ?thesis using True by (simp add: plain_decimal_def)
next
  case False
  then show ?thesis using all_digits_show [of 10 n] show_digits_hd [of 10 n] by (simp add: plain_decimal_def)
qed

lemma parseAtomic_show: "0 \<le> n \<Longrightarrow> parseAtomic (show_int n) = Some n"
  by (simp add: parseAtomic_def show_int_def plain_decimal_show show_digits_value)

lemma js_bigint_digits:
  assumes "s \<noteq> []" and "all_digits 10 s"
  shows "js_bigint s = Some (int (digits_value 10 s))"
proof -
  have "\<forall>c \<in> set s. digit_value c < 10" using assms(2) by (simp add: all_digits_def list_all_iff)
  then have t: "js_trim s = s" by (intro js_trim_id ballI digit_not_space) force
  have two: "\<And>x. to_lower (take 2 s) = [CHR ''0'', x] \<Longrightarrow> 10 \<le> digit_value x \<Longrightarrow> False"
  proof -
    fix x assume x: "to_lower (take 2 s) = [CHR ''0'', x]" "10 \<le> digit_value x"
    then obtain a c rest where s: "s = a # c # rest" "char_lower c = x"
      by (cases s; cases "tl s") (auto simp: to_lower_def)
    then have "digit_value c < 10" using \<open>\<forall>c \<in> set s. digit_value c < 10\<close> by simp
    then have "char_lower c = c" by (auto simp: digit_value_def char_lower_def Let_def split: if_splits)
    with s x(2) \<open>digit_value c < 10\<close> show False by simp
  qed
  have r: "to_lower (take 2 s) \<noteq> ''0x''" "to_lower (take 2 s) \<noteq> ''0o''" "to_lower (take 2 s) \<noteq> ''0b''"
    by (auto dest!: two simp: digit_value_def)
  have "hd s \<noteq> CHR ''-''" "hd s \<noteq> CHR ''+''"
    using assms by (cases s; auto simp: all_digits_def digit_value_def)+
  then have "take 1 s \<noteq> ''-''" "take 1 s \<noteq> ''+''" using assms(1) by (cases s; auto)+
  with t r assms show ?thesis by (simp add: js_bigint_def Let_def)
qed

lemma js_bigint_show: "0 \<le> n \<Longrightarrow> js_bigint (show_int n) = Some n"
  by (simp add: show_int_def js_bigint_digits all_digits_show show_digits_value)

section \<open>Addresses\<close>

text \<open>\<open>[0-9a-f]\<close>\<close>

definition hex_lower :: "char \<Rightarrow> bool" where
  "hex_lower c \<longleftrightarrow> digit_value c < 16 \<and> char_lower c = c"

text \<open>\<open>/^0x[0-9a-f]{40}$/\<close>\<close>

definition ADDRESS :: "string \<Rightarrow> bool" where
  "ADDRESS s \<longleftrightarrow> take 2 s = ''0x'' \<and> length s = 42 \<and> list_all hex_lower (drop 2 s)"

definition ZERO_ADDRESS :: string where
  "ZERO_ADDRESS = ''0x0000000000000000000000000000000000000000''"

text \<open>\<open>/^0x[0-9a-f]*$/\<close>\<close>

definition HEX_DATA :: "string \<Rightarrow> bool" where
  "HEX_DATA s \<longleftrightarrow> take 2 s = ''0x'' \<and> list_all hex_lower (drop 2 s)"

lemma char_lower_idem [simp]: "char_lower (char_lower c) = char_lower c"
  by (auto simp: char_lower_def Let_def)

lemma to_lower_idem [simp]: "to_lower (to_lower s) = to_lower s"
  by (simp add: to_lower_def)

lemma to_lower_append [simp]: "to_lower (s @ t) = to_lower s @ to_lower t"
  by (simp add: to_lower_def)

lemma length_to_lower [simp]: "length (to_lower s) = length s"
  by (simp add: to_lower_def)

lemma to_lower_id: "list_all (\<lambda>c. char_lower c = c) s \<Longrightarrow> to_lower s = s"
  by (induction s) (simp_all add: to_lower_def)

lemma to_lower_hex: "list_all hex_lower s \<Longrightarrow> to_lower s = s"
  by (rule to_lower_id) (simp add: list_all_iff hex_lower_def)

lemma prefixed: "take 2 s = ''0x'' \<Longrightarrow> s = ''0x'' @ drop 2 s"
  by (metis append_take_drop_id)

lemma address_lower: "ADDRESS s \<Longrightarrow> to_lower s = s"
proof -
  assume a: "ADDRESS s"
  then have "s = ''0x'' @ drop 2 s" by (intro prefixed) (simp add: ADDRESS_def)
  moreover have "to_lower (drop 2 s) = drop 2 s" using a by (simp add: ADDRESS_def to_lower_hex)
  moreover have "to_lower ''0x'' = ''0x''" by (simp add: to_lower_def char_lower_def)
  ultimately show ?thesis by (metis to_lower_append)
qed

section \<open>Words\<close>

definition WORD :: nat where
  "WORD = 64"

definition padWord :: "string \<Rightarrow> string" where
  "padWord hex = padStart 64 (CHR ''0'') hex"

definition strip_0x :: "string \<Rightarrow> string" where
  "strip_0x s = (if take 2 s = ''0x'' then drop 2 s else s)"

definition addressWord :: "string \<Rightarrow> string" where
  "addressWord address = padWord (strip_0x (to_lower address))"

definition uintWord :: "int \<Rightarrow> string result" where
  "uintWord n =
     (if n < 0 then Inl (TypeError ''ABI uint cannot be negative'') else Inr (padWord (show_digits 16 (nat n))))"

text \<open>A word of calldata without its selector, and what a word stands for.\<close>

definition word :: "string \<Rightarrow> nat \<Rightarrow> string" where
  "word data index = take WORD (drop (index * WORD) data)"

definition wordAddress :: "string \<Rightarrow> string option" where
  "wordAddress w =
     (if length w = 64 \<and> take 24 w = replicate 24 (CHR ''0'') \<and> list_all hex_lower (drop 24 w)
      then Some (''0x'' @ drop 24 w) else None)"

definition wordUint :: "string \<Rightarrow> int option" where
  "wordUint w = (if length w = 64 \<and> list_all hex_lower w then Some (int (digits_value 16 w)) else None)"

lemma hex_zero [simp]: "hex_lower (CHR ''0'')"
  by (simp add: hex_lower_def digit_value_def char_lower_def)

lemma hex_show: "list_all hex_lower (show_digits 16 n)"
  using show_digits_set [of 16] by (auto simp: list_all_iff hex_lower_def)

lemma hex_padStart: "list_all hex_lower s \<Longrightarrow> list_all hex_lower (padStart k (CHR ''0'') s)"
  by (auto simp: padStart_def list_all_iff)

text \<open>A word written from a number below \<open>2\<^sup>2\<^sup>5\<^sup>6\<close> is read back as that number.\<close>

lemma show_word_length:
  assumes "0 \<le> n" and "n < 2 ^ 256"
  shows "length (padWord (show_digits 16 (nat n))) = 64"
proof -
  have "n < 16 ^ 64" using assms(2) by simp
  then have "nat n < 16 ^ 64" using assms(1) by (simp add: nat_less_iff)
  then have "length (show_digits 16 (nat n)) \<le> 64" by (intro show_digits_length) simp_all
  then show ?thesis by (simp add: padWord_def padStart_length)
qed

lemma uint_word:
  assumes "0 \<le> n" and "n < 2 ^ 256"
  obtains w where "uintWord n = Inr w" and "length w = 64" and "wordUint w = Some n" and "list_all hex_lower w"
proof
  let ?w = "padWord (show_digits 16 (nat n))"
  show "uintWord n = Inr ?w" using assms(1) by (simp add: uintWord_def)
  show len: "length ?w = 64" by (rule show_word_length [OF assms])
  show hex: "list_all hex_lower ?w" by (simp add: padWord_def hex_padStart hex_show)
  show "wordUint ?w = Some n" using len hex assms(1)
    by (simp add: wordUint_def) (simp add: padWord_def show_digits_value)
qed

lemma address_word:
  assumes "ADDRESS (to_lower a)"
  shows "length (addressWord a) = 64 \<and> wordAddress (addressWord a) = Some (to_lower a)
    \<and> list_all hex_lower (addressWord a)"
proof -
  have s: "strip_0x (to_lower a) = drop 2 (to_lower a)" "length (drop 2 (to_lower a)) = 40"
      "list_all hex_lower (drop 2 (to_lower a))" "to_lower a = ''0x'' @ drop 2 (to_lower a)"
    using assms prefixed by (auto simp: ADDRESS_def strip_0x_def)
  then have w: "addressWord a = replicate 24 (CHR ''0'') @ drop 2 (to_lower a)"
    by (simp add: addressWord_def padWord_def padStart_def)
  show ?thesis using s by (simp add: w wordAddress_def list_all_iff)
qed

lemma length_words: "list_all (\<lambda>w. length w = 64) ws \<Longrightarrow> length (concat ws) = 64 * length ws"
  by (induction ws) simp_all

lemma word_of_words:
  "list_all (\<lambda>w. length w = 64) ws \<Longrightarrow> i < length ws \<Longrightarrow> word (concat ws @ rest) i = ws ! i"
proof (induction ws arbitrary: i)
  case (Cons w ws)
  then show ?case
    by (cases i) (simp_all add: word_def WORD_def)
qed simp

end
