(* ===== verification/Aerodrome_Calldata.thy ===== *)
theory Aerodrome_Calldata
  imports Hex_Text
begin

text \<open>
  Aerodrome's swap calldata. lib/swap-adapters/src/aerodrome-pinned.ts writes it; the decoder of
  lib/security/src/aerodromeGuard.ts, which shares no code with the writer, reads it back. The hash
  the writer computes its selectors with belongs to a package and is a parameter.
\<close>

record route_leg =
  leg_from :: string
  leg_to :: string
  leg_stable :: bool
  leg_factory :: string

definition AERODROME_ROUTER_V1 :: string where
  "AERODROME_ROUTER_V1 = ''0xcf77a3ba9a5ca399b7c97c74d54e5b1beb874e43''"

definition AERODROME_WETH_V1 :: string where
  "AERODROME_WETH_V1 = ''0x4200000000000000000000000000000000000006''"

definition AERODROME_USDC_V1 :: string where
  "AERODROME_USDC_V1 = ''0x833589fcd6edb6e08f4c7c32d4f71b54bda02913''"

definition AERODROME_MAX_HOPS_V1 :: nat where
  "AERODROME_MAX_HOPS_V1 = 2"

definition AERODROME_INTERMEDIATES_V1 :: "string list" where
  "AERODROME_INTERMEDIATES_V1 = [AERODROME_WETH_V1, AERODROME_USDC_V1]"

section \<open>Writing\<close>

definition selectorV1 :: "(string \<Rightarrow> string) \<Rightarrow> string \<Rightarrow> string" where
  "selectorV1 keccak signature = take 8 (keccak signature)"

definition TOKENS_FOR_TOKENS :: string where
  "TOKENS_FOR_TOKENS = ''swapExactTokensForTokens(uint256,uint256,(address,address,bool,address)[],address,uint256)''"

definition ETH_FOR_TOKENS :: string where
  "ETH_FOR_TOKENS = ''swapExactETHForTokens(uint256,(address,address,bool,address)[],address,uint256)''"

definition TOKENS_FOR_ETH :: string where
  "TOKENS_FOR_ETH = ''swapExactTokensForETH(uint256,uint256,(address,address,bool,address)[],address,uint256)''"

definition APPROVE :: string where
  "APPROVE = ''approve(address,uint256)''"

definition leg_calldata :: "route_leg \<Rightarrow> string result" where
  "leg_calldata leg = bindR (uintWord (if leg_stable leg then 1 else 0)) (\<lambda>curve.
     Inr (addressWord (leg_from leg) @ addressWord (leg_to leg) @ curve @ addressWord (leg_factory leg)))"

definition routesTailV1 :: "route_leg list \<Rightarrow> string result" where
  "routesTailV1 routes = bindR (uintWord (int (length routes))) (\<lambda>n.
     bindR (mapR leg_calldata routes) (\<lambda>legs. Inr (n @ concat legs)))"

record swap_encode =
  sen_amount_in :: int
  sen_amount_out_min :: int
  sen_routes :: "route_leg list"
  sen_to :: string
  sen_deadline :: int

definition assertSwapInputV1 :: "swap_encode \<Rightarrow> unit result" where
  "assertSwapInputV1 i =
     (if sen_routes i = [] \<or> length (sen_routes i) > AERODROME_MAX_HOPS_V1
      then Inl (TypeError ''An Aerodrome swap needs 1..2 legs'')
      else if sen_amount_in i \<le> 0 then Inl (TypeError ''An Aerodrome swap needs a positive input amount'')
      else if sen_amount_out_min i \<le> 0 then Inl (TypeError ''An Aerodrome swap needs a positive minimum output'')
      else if sen_deadline i \<le> 0 then Inl (TypeError ''An Aerodrome swap needs a deadline'')
      else Inr ())"

definition encodeSwapExactTokensForTokensV1 :: "(string \<Rightarrow> string) \<Rightarrow> swap_encode \<Rightarrow> string result" where
  "encodeSwapExactTokensForTokensV1 keccak i = bindR (assertSwapInputV1 i) (\<lambda>_.
     bindR (uintWord (sen_amount_in i)) (\<lambda>amountIn.
     bindR (uintWord (sen_amount_out_min i)) (\<lambda>amountOutMin.
     bindR (uintWord 160) (\<lambda>offset.
     bindR (uintWord (sen_deadline i)) (\<lambda>deadline.
     bindR (routesTailV1 (sen_routes i)) (\<lambda>tail.
     Inr (''0x'' @ selectorV1 keccak TOKENS_FOR_TOKENS
       @ (amountIn @ amountOutMin @ offset @ addressWord (sen_to i) @ deadline) @ tail)))))))"

definition encodeSwapExactEthForTokensV1 :: "(string \<Rightarrow> string) \<Rightarrow> swap_encode \<Rightarrow> string result" where
  "encodeSwapExactEthForTokensV1 keccak i = bindR (assertSwapInputV1 i) (\<lambda>_.
     bindR (uintWord (sen_amount_out_min i)) (\<lambda>amountOutMin.
     bindR (uintWord 128) (\<lambda>offset.
     bindR (uintWord (sen_deadline i)) (\<lambda>deadline.
     bindR (routesTailV1 (sen_routes i)) (\<lambda>tail.
     Inr (''0x'' @ selectorV1 keccak ETH_FOR_TOKENS
       @ (amountOutMin @ offset @ addressWord (sen_to i) @ deadline) @ tail))))))"

definition encodeSwapExactTokensForEthV1 :: "(string \<Rightarrow> string) \<Rightarrow> swap_encode \<Rightarrow> string result" where
  "encodeSwapExactTokensForEthV1 keccak i = bindR (assertSwapInputV1 i) (\<lambda>_.
     bindR (uintWord (sen_amount_in i)) (\<lambda>amountIn.
     bindR (uintWord (sen_amount_out_min i)) (\<lambda>amountOutMin.
     bindR (uintWord 160) (\<lambda>offset.
     bindR (uintWord (sen_deadline i)) (\<lambda>deadline.
     bindR (routesTailV1 (sen_routes i)) (\<lambda>tail.
     Inr (''0x'' @ selectorV1 keccak TOKENS_FOR_ETH
       @ (amountIn @ amountOutMin @ offset @ addressWord (sen_to i) @ deadline) @ tail)))))))"

definition encodeExactApproveV1 :: "(string \<Rightarrow> string) \<Rightarrow> string \<Rightarrow> int \<Rightarrow> string result" where
  "encodeExactApproveV1 keccak spender amount =
     (if amount \<le> 0 then Inl (TypeError ''An exact approval needs a positive amount'')
      else bindR (uintWord amount) (\<lambda>amount.
        Inr (''0x'' @ selectorV1 keccak APPROVE @ addressWord spender @ amount)))"

section \<open>Reading\<close>

definition AERODROME_BASE_ROUTER :: string where
  "AERODROME_BASE_ROUTER = ''0xcf77a3ba9a5ca399b7c97c74d54e5b1beb874e43''"

definition AERODROME_MAX_HOPS :: nat where
  "AERODROME_MAX_HOPS = 2"

definition SELECTOR_SWAP_TOKENS_FOR_TOKENS :: string where
  "SELECTOR_SWAP_TOKENS_FOR_TOKENS = ''0xcac88ea9''"

definition SELECTOR_SWAP_ETH_FOR_TOKENS :: string where
  "SELECTOR_SWAP_ETH_FOR_TOKENS = ''0x903638a4''"

definition SELECTOR_SWAP_TOKENS_FOR_ETH :: string where
  "SELECTOR_SWAP_TOKENS_FOR_ETH = ''0xc6b7f1b6''"

definition SELECTOR_ERC20_APPROVE :: string where
  "SELECTOR_ERC20_APPROVE = ''0x095ea7b3''"

datatype swap_kind = TokensForTokens | EthForTokens | TokensForEth

record decoded_swap =
  dsw_kind :: swap_kind
  dsw_amount_in :: "int option"
  dsw_amount_out_min :: int
  dsw_route :: "route_leg list"
  dsw_to :: string
  dsw_deadline :: int

definition decode_leg :: "string \<Rightarrow> nat \<Rightarrow> route_leg option" where
  "decode_leg body base =
     (case (wordAddress (word body base), wordAddress (word body (base + 1)),
            wordUint (word body (base + 2)), wordAddress (word body (base + 3))) of
        (Some from, Some target, Some curve, Some factory) \<Rightarrow>
          if curve = 0 \<or> curve = 1
          then Some \<lparr>leg_from = from, leg_to = target, leg_stable = (curve = 1), leg_factory = factory\<rparr> else None
      | _ \<Rightarrow> None)"

fun decode_legs :: "string \<Rightarrow> nat \<Rightarrow> nat \<Rightarrow> route_leg list option" where
  "decode_legs body base 0 = Some []"
| "decode_legs body base (Suc n) =
     (case decode_leg body base of None \<Rightarrow> None
      | Some leg \<Rightarrow> map_option ((#) leg) (decode_legs body (base + 4) n))"

definition entrypoint :: "string \<Rightarrow> (swap_kind \<times> nat) option" where
  "entrypoint selector =
     (if selector = SELECTOR_SWAP_TOKENS_FOR_TOKENS then Some (TokensForTokens, 5)
      else if selector = SELECTOR_SWAP_TOKENS_FOR_ETH then Some (TokensForEth, 5)
      else if selector = SELECTOR_SWAP_ETH_FOR_TOKENS then Some (EthForTokens, 4)
      else None)"

definition decode_body :: "swap_kind \<Rightarrow> nat \<Rightarrow> string \<Rightarrow> decoded_swap option" where
  "decode_body kind headWords body =
     (let ethInput = (kind = EthForTokens);
          amountIn = (if ethInput then None else wordUint (word body 0))
      in case (wordUint (word body (if ethInput then 0 else 1)), wordUint (word body (if ethInput then 1 else 2)),
               wordAddress (word body (if ethInput then 2 else 3)), wordUint (word body (if ethInput then 3 else 4))) of
        (Some amountOutMin, Some routesOffset, Some to, Some deadline) \<Rightarrow>
          if \<not> ethInput \<and> amountIn = None then None
          else if routesOffset \<noteq> int (headWords * 32) then None
          else (case wordUint (word body headWords) of
              None \<Rightarrow> None
            | Some lengthValue \<Rightarrow>
                if lengthValue = 0 \<or> lengthValue > int AERODROME_MAX_HOPS then None
                else if length body \<noteq> (headWords + 1 + nat lengthValue * 4) * WORD then None
                else map_option (\<lambda>route. \<lparr>dsw_kind = kind, dsw_amount_in = amountIn, dsw_amount_out_min = amountOutMin,
                       dsw_route = route, dsw_to = to, dsw_deadline = deadline\<rparr>)
                     (decode_legs body (headWords + 1) (nat lengthValue)))
      | _ \<Rightarrow> None)"

definition decodeAerodromeSwapCalldata :: "string \<Rightarrow> decoded_swap option" where
  "decodeAerodromeSwapCalldata data =
     (let hex = to_lower data; body = drop 10 hex in
      if \<not> HEX_DATA hex \<or> length hex < 10 then None
      else if length body mod WORD \<noteq> 0 then None
      else case entrypoint (take 10 hex) of
          None \<Rightarrow> None
        | Some (kind, headWords) \<Rightarrow>
            if length body < headWords * WORD then None else decode_body kind headWords body)"

text \<open>The spender and the amount of an approval of exactly two words.\<close>

definition decodeExactApproval :: "string \<Rightarrow> (string \<times> int) option" where
  "decodeExactApproval data =
     (let hex = to_lower data; body = drop 10 hex in
      if length hex \<noteq> 10 + WORD * 2 \<or> take 10 hex \<noteq> SELECTOR_ERC20_APPROVE then None
      else case (wordAddress (word body 0), wordUint (word body 1)) of
          (Some spender, Some amount) \<Rightarrow> Some (spender, amount)
        | _ \<Rightarrow> None)"

end
