(* ===== verification/Amount_Text.thy ===== *)
theory Amount_Text
  imports Hex_Text Json
begin

text \<open>
  Token amounts between base units and decimal text: lib/swap-adapters/src/normalization.ts, which
  the routes are displayed with, and the reader of lib/security/src/swapAsset.ts, which the swap
  guards measure approvals with.
\<close>

section \<open>Text\<close>

fun split_on :: "char \<Rightarrow> string \<Rightarrow> string list" where
  "split_on c [] = [[]]"
| "split_on c (x # xs) =
     (if x = c then [] # split_on c xs
      else (case split_on c xs of [] \<Rightarrow> [[x]] | p # ps \<Rightarrow> (x # p) # ps))"

definition padEnd :: "nat \<Rightarrow> char \<Rightarrow> string \<Rightarrow> string" where
  "padEnd k c s = s @ replicate (k - length s) c"

text \<open>\<open>replace(/^0+(?=\d)/, '')\<close> and \<open>replace(/0+$/, '')\<close>\<close>

fun strip_leading_zeros :: "string \<Rightarrow> string" where
  "strip_leading_zeros (a # b # s) = (if a = CHR ''0'' \<and> digit_value b < 10 then strip_leading_zeros (b # s) else a # b # s)"
| "strip_leading_zeros s = s"

definition strip_trailing_zeros :: "string \<Rightarrow> string" where
  "strip_trailing_zeros s = rev (dropWhile (\<lambda>c. c = CHR ''0'') (rev s))"

text \<open>\<open>a || b\<close> on strings\<close>

definition or_else :: "string \<Rightarrow> string \<Rightarrow> string" where
  "or_else a b = (if a = [] then b else a)"

section \<open>normalization.ts\<close>

definition UNSIGNED_INTEGER :: "string \<Rightarrow> bool" where
  "UNSIGNED_INTEGER s = plain_decimal s"

definition UNSIGNED_DECIMAL :: "string \<Rightarrow> bool" where
  "UNSIGNED_DECIMAL s =
     (case split_on (CHR ''.'') s of
        [w] \<Rightarrow> plain_decimal w
      | [w, f] \<Rightarrow> plain_decimal w \<and> f \<noteq> [] \<and> all_digits 10 f
      | _ \<Rightarrow> False)"

text \<open>\<open>const [whole, fraction = ''] = s.split('.')\<close>\<close>

definition whole_and_fraction :: "string \<Rightarrow> string \<times> string" where
  "whole_and_fraction s = (case split_on (CHR ''.'') s of w # f # _ \<Rightarrow> (w, f) | [w] \<Rightarrow> (w, []) | [] \<Rightarrow> ([], []))"

definition with_fraction :: "string \<Rightarrow> string \<Rightarrow> string" where
  "with_fraction w f = (if f = [] then w else w @ ''.'' @ f)"

definition canonicalDecimal :: "string \<Rightarrow> string option" where
  "canonicalDecimal v =
     (if \<not> UNSIGNED_DECIMAL (js_trim v) then None
      else let (wholePart, fractionPart) = whole_and_fraction (js_trim v) in
        Some (with_fraction (or_else (strip_leading_zeros wholePart) ''0'') (strip_trailing_zeros fractionPart)))"

definition humanDecimalToAtomic :: "string \<Rightarrow> js_number \<Rightarrow> string option" where
  "humanDecimalToAtomic v decimals =
     (case decimals of NotWhole \<Rightarrow> None
      | Whole d \<Rightarrow>
          if d < 0 \<or> d > 255 then None
          else (case canonicalDecimal v of None \<Rightarrow> None
            | Some normalized \<Rightarrow>
                let (w, f) = whole_and_fraction normalized in
                if int (length f) > d then None
                else Some (or_else (strip_leading_zeros (w @ padEnd (nat d) (CHR ''0'') f)) ''0'')))"

definition atomicToHumanDecimal :: "string \<Rightarrow> js_number \<Rightarrow> string option" where
  "atomicToHumanDecimal v decimals =
     (case decimals of NotWhole \<Rightarrow> None
      | Whole d \<Rightarrow>
          if \<not> UNSIGNED_INTEGER v \<or> d < 0 then None
          else if d = 0 then Some v
          else let padded = padStart (nat d + 1) (CHR ''0'') v;
                   cut = length padded - nat d;
                   w = or_else (strip_leading_zeros (take cut padded)) ''0'';
                   f = strip_trailing_zeros (drop cut padded)
               in Some (with_fraction w f))"

definition percentageToBasisPoints :: "string \<Rightarrow> int option" where
  "percentageToBasisPoints v =
     (case canonicalDecimal v of None \<Rightarrow> None
      | Some normalized \<Rightarrow>
          (case humanDecimalToAtomic normalized (Whole 6) of None \<Rightarrow> None
           | Some atomic \<Rightarrow> let bps = int (digits_value 10 atomic) div 10000 in if bps \<le> 1000000 then Some bps else None))"

definition basisPointsToPercentage :: "js_number \<Rightarrow> string option result" where
  "basisPointsToPercentage bps =
     (case bps of Whole n \<Rightarrow> if n < 0 then Inl (TypeError ''Basis points must be unsigned'')
        else Inr (atomicToHumanDecimal (show_int n) (Whole 2))
      | NotWhole \<Rightarrow> Inl (TypeError ''Basis points must be unsigned''))"

definition minimumOutputAtomic :: "string \<Rightarrow> js_number \<Rightarrow> string result" where
  "minimumOutputAtomic expectedOutput slippageBps =
     (if \<not> UNSIGNED_INTEGER expectedOutput \<or> digits_value 10 expectedOutput = 0
      then Inl (TypeError ''Expected output must be a positive atomic amount'')
      else (case slippageBps of
          Whole s \<Rightarrow> if s < 0 \<or> s > 10000 then Inl (TypeError ''Slippage must be between 0 and 10000 basis points'')
            else Inr (show_int (jsdiv (int (digits_value 10 expectedOutput) * (10000 - s)) 10000))
        | NotWhole \<Rightarrow> Inl (TypeError ''Slippage must be between 0 and 10000 basis points'')))"

section \<open>swapAsset.ts\<close>

definition decimalAmountToRawV1 :: "string \<Rightarrow> nat \<Rightarrow> int option" where
  "decimalAmountToRawV1 v decimals =
     (let parts = split_on (CHR ''.'') v; digits = (\<lambda>s. s \<noteq> [] \<and> all_digits 10 s);
          matches = (case parts of [w] \<Rightarrow> digits w
            | [w, f] \<Rightarrow> 0 < decimals \<and> digits w \<and> digits f \<and> length f \<le> decimals | _ \<Rightarrow> False)
      in if \<not> matches then None
         else let (w, f) = whole_and_fraction v;
                  amount = int (digits_value 10 (w @ padEnd decimals (CHR ''0'') f))
              in if 0 < amount then Some amount else None)"

section \<open>Facts about the text\<close>

lemma split_on_nonempty [simp]: "split_on c s \<noteq> []"
  by (induction s) (auto split: list.splits)

lemma split_on_none: "c \<notin> set s \<Longrightarrow> split_on c s = [s]"
  by (induction s) auto

lemma split_on_append: "c \<notin> set s \<Longrightarrow> split_on c (s @ c # t) = s # split_on c t"
  by (induction s) auto

lemma digits_no_dot: "all_digits 10 s \<Longrightarrow> CHR ''.'' \<notin> set s"
  by (auto simp: all_digits_def list_all_iff digit_value_def)

lemma split_decimal:
  assumes "all_digits 10 w" and "all_digits 10 f"
  shows "split_on (CHR ''.'') (with_fraction w f) = (if f = [] then [w] else [w, f])"
  using assms by (simp add: with_fraction_def split_on_append split_on_none digits_no_dot)

lemma whole_and_fraction_of:
  "all_digits 10 w \<Longrightarrow> all_digits 10 f \<Longrightarrow> whole_and_fraction (with_fraction w f) = (w, f)"
  by (simp add: whole_and_fraction_def split_decimal)

lemma digit_char_value: "digit_value c < 10 \<Longrightarrow> digit_char (digit_value c) = c"
proof -
  assume c: "digit_value c < 10"
  then have "(if digit_value c < 10 then 48 + digit_value c else 87 + digit_value c) = of_char c"
    by (auto simp: digit_value_def Let_def split: if_splits)
  then have "digit_char (digit_value c) = char_of (of_char c :: nat)" by (simp only: digit_char_def)
  then show ?thesis by simp
qed

lemma digit_char_0: "digit_char 0 = CHR ''0''"
  by (simp add: digit_char_def char_of_def bit_0)

lemma digit_zero: "digit_value c < 10 \<Longrightarrow> digit_value c = 0 \<longleftrightarrow> c = CHR ''0''"
  using digit_char_value [of c] digit_char_0 by (auto simp: digit_value_def)

text \<open>Digits that do not begin with a zero are the number's own digits.\<close>

definition no_leading_zero :: "string \<Rightarrow> bool" where
  "no_leading_zero s \<longleftrightarrow> s \<noteq> [] \<and> (tl s = [] \<or> hd s \<noteq> CHR ''0'')"

lemma no_leading_zero_pos:
  "s \<noteq> [] \<Longrightarrow> all_digits 10 s \<Longrightarrow> hd s \<noteq> CHR ''0'' \<Longrightarrow> 0 < digits_value 10 s"
proof (induction s rule: rev_induct)
  case (snoc c s)
  show ?case
  proof (cases "s = []")
    case True
    then show ?thesis using snoc.prems digit_zero [of c] by (auto simp: all_digits_def)
  next
    case False
    then have "0 < digits_value 10 s" using snoc by (simp add: all_digits_def)
    then show ?thesis by (simp add: digits_value_append)
  qed
qed simp

lemma own_digits:
  "no_leading_zero s \<Longrightarrow> all_digits 10 s \<Longrightarrow> show_digits 10 (digits_value 10 s) = s"
proof (induction s rule: rev_induct)
  case (snoc c s)
  have c: "digit_value c < 10" using snoc.prems(2) by (simp add: all_digits_def)
  show ?case
  proof (cases "s = []")
    case True
    then show ?thesis using c by (subst show_digits.simps) (simp add: digit_char_value)
  next
    case False
    then have s: "hd s \<noteq> CHR ''0''" "all_digits 10 s" using snoc.prems by (auto simp: no_leading_zero_def all_digits_def)
    then have pos: "0 < digits_value 10 s" using no_leading_zero_pos [OF False] by simp
    have "show_digits 10 (digits_value 10 s) = s" using snoc.IH s False by (simp add: no_leading_zero_def)
    then show ?thesis using c pos
      by (subst show_digits.simps) (simp add: digits_value_append digit_char_value)
  qed
qed (simp add: no_leading_zero_def)

lemma strip_leading_zeros_keeps:
  "s \<noteq> [] \<Longrightarrow> all_digits 10 s \<Longrightarrow>
   no_leading_zero (strip_leading_zeros s) \<and> all_digits 10 (strip_leading_zeros s)
   \<and> digits_value 10 (strip_leading_zeros s) = digits_value 10 s"
proof (induction s rule: strip_leading_zeros.induct)
  case (1 a b s)
  show ?case
  proof (cases "a = CHR ''0''")
    case True
    have "digits_value 10 (a # b # s) = digits_value 10 (b # s)"
      using True digits_value_append [of 10 "[a]" "b # s"] by (simp add: digit_value_def)
    then show ?thesis using 1 True by (simp add: all_digits_def)
  next
    case False
    then show ?thesis using 1 by (simp add: no_leading_zero_def)
  qed
qed (simp_all add: no_leading_zero_def)

lemma strip_leading_zeros_show:
  "s \<noteq> [] \<Longrightarrow> all_digits 10 s \<Longrightarrow> strip_leading_zeros s = show_digits 10 (digits_value 10 s)"
  using strip_leading_zeros_keeps [of s] own_digits [of "strip_leading_zeros s"] by simp

lemma plain_decimal_digits: "plain_decimal s \<Longrightarrow> all_digits 10 s \<and> show_digits 10 (digits_value 10 s) = s"
proof -
  assume p: "plain_decimal s"
  have "all_digits 10 s" using p by (auto simp: plain_decimal_def all_digits_def digit_value_def)
  moreover have "no_leading_zero s" using p by (auto simp: plain_decimal_def no_leading_zero_def)
  ultimately show ?thesis by (simp add: own_digits)
qed

lemma dropWhile_pad:
  "rev (dropWhile (\<lambda>x. x = c) r) @ replicate (length r - length (dropWhile (\<lambda>x. x = c) r)) c = rev r"
proof (induction r)
  case (Cons x r)
  show ?case
  proof (cases "x = c")
    case True
    have "length (dropWhile (\<lambda>x. x = c) r) \<le> length r" by (rule length_dropWhile_le)
    then have "replicate (length (x # r) - length (dropWhile (\<lambda>x. x = c) (x # r))) c
        = replicate (length r - length (dropWhile (\<lambda>x. x = c) r)) c @ [c]"
      using True by (simp add: Suc_diff_le replicate_append_same)
    with True Cons.IH show ?thesis by simp
  qed simp
qed simp

lemma strip_trailing_zeros_pad: "padEnd (length s) (CHR ''0'') (strip_trailing_zeros s) = s"
  using dropWhile_pad [of "CHR ''0''" "rev s"] by (simp add: padEnd_def strip_trailing_zeros_def)

lemma strip_trailing_zeros_length: "length (strip_trailing_zeros s) \<le> length s"
  by (metis length_dropWhile_le length_rev strip_trailing_zeros_def)

lemma strip_trailing_zeros_digits: "all_digits 10 s \<Longrightarrow> all_digits 10 (strip_trailing_zeros s)"
  by (auto simp: all_digits_def list_all_iff strip_trailing_zeros_def dest: set_dropWhileD)

lemma strip_trailing_zeros_idem [simp]: "strip_trailing_zeros (strip_trailing_zeros s) = strip_trailing_zeros s"
  by (simp add: strip_trailing_zeros_def dropWhile_idem)

section \<open>There and back\<close>

lemma js_trim_amount:
  assumes "all_digits 10 w" and "all_digits 10 f"
  shows "js_trim (with_fraction w f) = with_fraction w f"
proof (rule js_trim_id, intro ballI)
  fix c
  assume "c \<in> set (with_fraction w f)"
  then have "digit_value c < 10 \<or> c = CHR ''.''"
    using assms by (auto simp: with_fraction_def all_digits_def list_all_iff split: if_splits)
  then show "\<not> js_space c" using digit_not_space [of c] by (auto simp: js_space_def)
qed

lemma canonicalDecimal_id:
  assumes "plain_decimal w" and "all_digits 10 f" and "strip_trailing_zeros f = f"
  shows "canonicalDecimal (with_fraction w f) = Some (with_fraction w f)"
proof -
  have w: "all_digits 10 w" "w \<noteq> []" "strip_leading_zeros w = w"
    using plain_decimal_digits [OF assms(1)] assms(1) strip_leading_zeros_show [of w]
    by (auto simp: plain_decimal_def)
  have "UNSIGNED_DECIMAL (with_fraction w f)"
    using assms w by (simp add: UNSIGNED_DECIMAL_def split_decimal)
  then show ?thesis
    using assms w by (simp add: canonicalDecimal_def js_trim_amount whole_and_fraction_of or_else_def)
qed

text \<open>The two halves of a number written with \<open>d\<close> decimals.\<close>

lemma halves:
  assumes "length padded = k + d" and "all_digits 10 padded" and "0 < k"
  defines "w \<equiv> strip_leading_zeros (take k padded)" and "f \<equiv> strip_trailing_zeros (drop k padded)"
  shows "plain_decimal w" and "all_digits 10 f" and "strip_trailing_zeros f = f" and "length f \<le> d"
    and "digits_value 10 (w @ padEnd d (CHR ''0'') f) = digits_value 10 padded" and "all_digits 10 (w @ padEnd d (CHR ''0'') f)"
proof -
  have t: "take k padded \<noteq> []" "all_digits 10 (take k padded)" "all_digits 10 (drop k padded)" "length (drop k padded) = d"
    using assms(1-3) by (auto simp: all_digits_def list_all_iff dest: in_set_takeD in_set_dropD)
  have w: "w = show_digits 10 (digits_value 10 (take k padded))" unfolding w_def by (rule strip_leading_zeros_show [OF t(1,2)])
  show "plain_decimal w" by (simp add: w plain_decimal_show)
  show "all_digits 10 f" "strip_trailing_zeros f = f" by (simp_all add: f_def strip_trailing_zeros_digits t)
  show "length f \<le> d" using strip_trailing_zeros_length [of "drop k padded"] t(4) by (simp add: f_def)
  have pad: "padEnd d (CHR ''0'') f = drop k padded"
    using strip_trailing_zeros_pad [of "drop k padded"] t(4) by (simp add: f_def)
  have "digits_value 10 (w @ drop k padded) = digits_value 10 (take k padded @ drop k padded)"
    by (simp only: digits_value_append) (simp add: w show_digits_value)
  then show "digits_value 10 (w @ padEnd d (CHR ''0'') f) = digits_value 10 padded" by (simp add: pad)
  show "all_digits 10 (w @ padEnd d (CHR ''0'') f)"
    using t(3) all_digits_show [of 10] by (simp add: pad w all_digits_def)
qed

lemma atomicToHumanDecimal_shape:
  assumes "plain_decimal v" and "0 < d"
  obtains w f where "atomicToHumanDecimal v (Whole (int d)) = Some (with_fraction w f)"
    and "plain_decimal w" and "all_digits 10 f" and "strip_trailing_zeros f = f" and "length f \<le> d"
    and "digits_value 10 (w @ padEnd d (CHR ''0'') f) = digits_value 10 v" and "all_digits 10 (w @ padEnd d (CHR ''0'') f)"
proof -
  let ?p = "padStart (d + 1) (CHR ''0'') v"
  let ?k = "length ?p - d"
  have p: "all_digits 10 ?p" "digits_value 10 ?p = digits_value 10 v"
    using plain_decimal_digits [OF assms(1)] by (auto simp: padStart_def all_digits_def list_all_iff digit_value_def digits_value_append)
  have k: "length ?p = ?k + d" "0 < ?k" by (simp_all add: padStart_def)
  note h = halves [OF k(1) p(1) k(2)]
  have "strip_leading_zeros (take ?k ?p) \<noteq> []" using h(1) by (auto simp: plain_decimal_def)
  then have "atomicToHumanDecimal v (Whole (int d))
      = Some (with_fraction (strip_leading_zeros (take ?k ?p)) (strip_trailing_zeros (drop ?k ?p)))"
    using assms by (simp add: atomicToHumanDecimal_def UNSIGNED_INTEGER_def or_else_def Let_def)
  with h p(2) that show thesis by simp
qed

lemma plain_zero: "plain_decimal v \<Longrightarrow> digits_value 10 v = 0 \<longleftrightarrow> v = ''0''"
  using no_leading_zero_pos [of v] by (cases "v = ''0''") (auto simp: plain_decimal_def digit_value_def)

lemma atomicToHumanDecimal_parts:
  assumes "plain_decimal v"
  obtains w f where "atomicToHumanDecimal v (Whole (int d)) = Some (with_fraction w f)"
    and "plain_decimal w" and "all_digits 10 f" and "strip_trailing_zeros f = f" and "length f \<le> d"
    and "digits_value 10 (w @ padEnd d (CHR ''0'') f) = digits_value 10 v" and "all_digits 10 (w @ padEnd d (CHR ''0'') f)"
proof (cases "d = 0")
  case True
  with assms plain_decimal_digits [OF assms] show thesis
    by (intro that [of v "[]"])
      (simp_all add: atomicToHumanDecimal_def UNSIGNED_INTEGER_def with_fraction_def padEnd_def strip_trailing_zeros_def all_digits_def)
next
  case False
  with atomicToHumanDecimal_shape [OF assms, of d] that show thesis by blast
qed

lemma humanDecimalToAtomic_of:
  assumes "plain_decimal w" and "all_digits 10 f" and "strip_trailing_zeros f = f" and "length f \<le> d" and "d \<le> 255"
  shows "humanDecimalToAtomic (with_fraction w f) (Whole (int d))
    = Some (show_digits 10 (digits_value 10 (w @ padEnd d (CHR ''0'') f)))"
proof -
  have w: "all_digits 10 w" "w \<noteq> []" using plain_decimal_digits [OF assms(1)] assms(1) by (auto simp: plain_decimal_def)
  have p: "all_digits 10 (w @ padEnd d (CHR ''0'') f)" "w @ padEnd d (CHR ''0'') f \<noteq> []"
    using w assms(2) by (auto simp: padEnd_def all_digits_def list_all_iff digit_zero [of "CHR ''0''"] digit_value_def)
  have "show_digits 10 n \<noteq> []" for n using plain_decimal_show [of n] by (auto simp: plain_decimal_def)
  then show ?thesis
    using assms w strip_leading_zeros_show [OF p(2,1)]
    by (simp add: humanDecimalToAtomic_def canonicalDecimal_id whole_and_fraction_of or_else_def Let_def)
qed

lemma decimalAmountToRawV1_of:
  assumes "plain_decimal w" and "all_digits 10 f" and "length f \<le> d"
  shows "decimalAmountToRawV1 (with_fraction w f) d
    = (let n = int (digits_value 10 (w @ padEnd d (CHR ''0'') f)) in if 0 < n then Some n else None)"
proof -
  have w: "all_digits 10 w" "w \<noteq> []" using plain_decimal_digits [OF assms(1)] assms(1) by (auto simp: plain_decimal_def)
  then show ?thesis
    using assms by (auto simp: decimalAmountToRawV1_def split_decimal whole_and_fraction_of Let_def)
qed

end
