(* ===== verification/Swap_Calls.thy ===== *)
theory Swap_Calls
  imports Amount_Text
begin

text \<open>
  What every swap guard starts from: the calls a wallet is asked to sign and the chain they name
  (lib/security/src/baseGuards.ts), and the two sides of a swap as the guards pin them, by address
  and never by symbol (lib/security/src/swapAsset.ts).
\<close>

section \<open>baseGuards.ts\<close>

definition BASE_MAINNET_CHAIN_ID :: int where
  "BASE_MAINNET_CHAIN_ID = 8453"

definition BASE_SEPOLIA_CHAIN_ID :: int where
  "BASE_SEPOLIA_CHAIN_ID = 84532"

definition BASE_MAINNET_USDC_DEFAULT :: string where
  "BASE_MAINNET_USDC_DEFAULT = ''0x833589fCD6eDb6E08f4c7C32D4f71b54bdA02913''"

definition BASE_SEPOLIA_USDC_DEFAULT :: string where
  "BASE_SEPOLIA_USDC_DEFAULT = ''0x036CbD53842c5426634e7929541eC2318f3dCF7e''"

record base_call =
  bcl_to :: string
  bcl_value :: "string option"
  bcl_data :: "string option"

record normalized_chain =
  nch_chain_id :: int
  nch_caip2 :: string
  nch_hex_chain_id :: string
  nch_mcp_chain :: string
  nch_send_calls_tool :: string

datatype chain_arg = ChainText string | ChainNumber int

definition chain_text :: "chain_arg \<Rightarrow> string" where
  "chain_text chain = to_lower (js_trim (case chain of ChainText s \<Rightarrow> s | ChainNumber n \<Rightarrow> show_int n))"

definition normalizeBaseChain :: "chain_arg \<Rightarrow> normalized_chain result" where
  "normalizeBaseChain chain =
     (let raw = chain_text chain in
      if raw = ''8453'' \<or> raw = ''eip155:8453'' then
        Inr \<lparr>nch_chain_id = BASE_MAINNET_CHAIN_ID, nch_caip2 = ''eip155:8453'', nch_hex_chain_id = ''0x2105'',
             nch_mcp_chain = ''base'', nch_send_calls_tool = ''send_calls''\<rparr>
      else if raw = ''84532'' \<or> raw = ''eip155:84532'' then
        Inr \<lparr>nch_chain_id = BASE_SEPOLIA_CHAIN_ID, nch_caip2 = ''eip155:84532'', nch_hex_chain_id = ''0x14a34'',
             nch_mcp_chain = ''base-sepolia'', nch_send_calls_tool = ''sepolia_send_calls''\<rparr>
      else Inl (JsError ''Unsupported Base chain''))"

text \<open>The environment's variables by name.\<close>

type_synonym environment = "string \<Rightarrow> string option"

definition opt_or :: "string option \<Rightarrow> string \<Rightarrow> string" where
  "opt_or v d = (case v of Some s \<Rightarrow> or_else s d | None \<Rightarrow> d)"

definition getBaseMainnetUsdcAddress :: "environment \<Rightarrow> string" where
  "getBaseMainnetUsdcAddress env = opt_or (env ''BASE_MAINNET_USDC_ADDRESS'') BASE_MAINNET_USDC_DEFAULT"

definition getBaseSepoliaUsdcAddress :: "environment \<Rightarrow> string" where
  "getBaseSepoliaUsdcAddress env = opt_or (env ''BASE_SEPOLIA_USDC_ADDRESS'') BASE_SEPOLIA_USDC_DEFAULT"

definition canonicalUsdcForBaseChain :: "environment \<Rightarrow> chain_arg \<Rightarrow> string result" where
  "canonicalUsdcForBaseChain env chain = bindR (normalizeBaseChain chain) (\<lambda>normalized.
     Inr (if nch_chain_id normalized = BASE_MAINNET_CHAIN_ID
          then getBaseMainnetUsdcAddress env else getBaseSepoliaUsdcAddress env))"

definition isErc20ApprovalOrTransferCalldata :: "string option \<Rightarrow> bool" where
  "isErc20ApprovalOrTransferCalldata data =
     (let normalized = to_lower (opt_or data '''') in
      normalized \<noteq> [] \<and> (take 10 normalized = ''0x095ea7b3'' \<or> take 10 normalized = ''0xa9059cbb''))"

definition isNativeOrEmptyCalldata :: "string option \<Rightarrow> bool" where
  "isNativeOrEmptyCalldata data =
     (let normalized = to_lower (js_trim (opt_or data '''')) in normalized = [] \<or> normalized = ''0x'')"

fun check_base_calls :: "string \<Rightarrow> base_call list \<Rightarrow> unit result" where
  "check_base_calls usdc [] = Inr ()"
| "check_base_calls usdc (call # calls) =
     (if bcl_to call = [] then Inl (JsError ''Missing to address in call'')
      else if isNativeOrEmptyCalldata (bcl_data call) then check_base_calls usdc calls
      else if \<not> isErc20ApprovalOrTransferCalldata (bcl_data call) then Inl (JsError ''Unsupported calldata'')
      else if to_lower (bcl_to call) \<noteq> usdc then Inl (JsError ''Invalid token address'')
      else check_base_calls usdc calls)"

definition validateBaseCalls :: "environment \<Rightarrow> chain_arg \<Rightarrow> base_call list \<Rightarrow> normalized_chain result" where
  "validateBaseCalls env chain calls = bindR (normalizeBaseChain chain) (\<lambda>normalized.
     if calls = [] then Inl (JsError ''Missing or empty calls array'')
     else bindR (canonicalUsdcForBaseChain env (ChainNumber (nch_chain_id normalized))) (\<lambda>usdc.
       bindR (check_base_calls (to_lower usdc) calls) (\<lambda>_. Inr normalized)))"

section \<open>swapAsset.ts\<close>

definition BASE_WETH_ADDRESS :: string where
  "BASE_WETH_ADDRESS = ''0x4200000000000000000000000000000000000006''"

definition MAX_SWAP_ASSET_DECIMALS_V1 :: int where
  "MAX_SWAP_ASSET_DECIMALS_V1 = 36"

datatype guard_asset = NativeAsset | Erc20Asset string js_number

record normalized_asset =
  nas_address :: "string option"
  nas_decimals :: nat
  nas_side :: string

definition normalizeSwapAssetV1 :: "guard_asset option \<Rightarrow> string list \<Rightarrow> normalized_asset option" where
  "normalizeSwapAssetV1 asset reserved =
     (case asset of
        None \<Rightarrow> None
      | Some NativeAsset \<Rightarrow> Some \<lparr>nas_address = None, nas_decimals = 18, nas_side = BASE_WETH_ADDRESS\<rparr>
      | Some (Erc20Asset given decimals) \<Rightarrow>
          let address = to_lower given in
          if \<not> ADDRESS address \<or> address = ZERO_ADDRESS then None
          else if list_ex (\<lambda>entry. to_lower entry = address) reserved then None
          else (case decimals of
              NotWhole \<Rightarrow> None
            | Whole d \<Rightarrow> if d < 0 \<or> d > MAX_SWAP_ASSET_DECIMALS_V1 then None
                else Some \<lparr>nas_address = Some address, nas_decimals = nat d, nas_side = address\<rparr>))"

definition isCanonicalBaseUsdcV1 :: "environment \<Rightarrow> string option \<Rightarrow> bool" where
  "isCanonicalBaseUsdcV1 env address =
     (case address of None \<Rightarrow> False
      | Some a \<Rightarrow> a \<noteq> [] \<and>
          (case canonicalUsdcForBaseChain env (ChainNumber 8453) of Inr usdc \<Rightarrow> to_lower a = to_lower usdc | Inl e \<Rightarrow> False))"

section \<open>Facts\<close>

lemma normalized_erc20:
  "normalizeSwapAssetV1 asset reserved = Some n \<Longrightarrow> nas_address n = Some a \<Longrightarrow>
   ADDRESS a \<and> a \<noteq> ZERO_ADDRESS \<and> (\<forall>r \<in> set reserved. to_lower r \<noteq> a) \<and> nas_side n = a"
  by (auto simp: normalizeSwapAssetV1_def Let_def list_ex_iff split: option.splits guard_asset.splits js_number.splits if_splits)

lemma normalized_native:
  "normalizeSwapAssetV1 asset reserved = Some n \<Longrightarrow> nas_address n = None \<longleftrightarrow> asset = Some NativeAsset"
  by (auto simp: normalizeSwapAssetV1_def Let_def split: option.splits guard_asset.splits js_number.splits if_splits)

lemma chain_number: "chain_text (ChainNumber 8453) = ''8453''"
proof -
  have "show_int 8453 = ''8453''"
    by (simp add: show_int_def show_digits.simps digit_char_def char_of_def bit_0 bit_Suc_0_iff)
  moreover have "js_trim ''8453'' = ''8453''" by (simp add: js_trim_def js_space_def)
  ultimately show ?thesis by (simp add: chain_text_def to_lower_def char_lower_def)
qed

lemma base_mainnet:
  "normalizeBaseChain (ChainNumber 8453) = Inr \<lparr>nch_chain_id = 8453, nch_caip2 = ''eip155:8453'',
     nch_hex_chain_id = ''0x2105'', nch_mcp_chain = ''base'', nch_send_calls_tool = ''send_calls''\<rparr>"
  by (simp add: normalizeBaseChain_def chain_number BASE_MAINNET_CHAIN_ID_def)

section \<open>Calls as the guards read them\<close>

text \<open>\<open>String(call.to || '').toLowerCase()\<close>, its data likewise, and \<open>BigInt(String(call.value || '0'))\<close>.\<close>

definition call_to :: "base_call \<Rightarrow> string" where
  "call_to call = to_lower (bcl_to call)"

definition call_data :: "base_call \<Rightarrow> string" where
  "call_data call = to_lower (opt_or (bcl_data call) '''')"

definition call_value :: "base_call \<Rightarrow> int option" where
  "call_value call = js_bigint (opt_or (bcl_value call) ''0'')"

text \<open>\<open>Set.add\<close> on a set kept in the order of its insertions.\<close>

definition set_add :: "'a \<Rightarrow> 'a list \<Rightarrow> 'a list" where
  "set_add x xs = (if x \<in> set xs then xs else xs @ [x])"

text \<open>
  A guard's verdict: the checks passed so far in either case, and what the batch spends, or the code
  of the first refusal.
\<close>

datatype 'a guard_result =
    Allowed "string list" 'a
  | Refused string "string list"

definition guard_allows :: "'a guard_result \<Rightarrow> bool" where
  "guard_allows r = (case r of Allowed _ _ \<Rightarrow> True | Refused _ _ \<Rightarrow> False)"

lemma guard_allows_simps [simp]: "guard_allows (Allowed cs s)" "\<not> guard_allows (Refused code cs)"
  by (simp_all add: guard_allows_def)

lemma guard_allowsE: "guard_allows r \<Longrightarrow> (\<And>cs s. r = Allowed cs s \<Longrightarrow> P) \<Longrightarrow> P"
  by (cases r) auto

end
