(* ===== verification/Route_Domain.thy ===== *)
theory Route_Domain
  imports Swap_Calls
begin

text \<open>
  The values the swap packages exchange, from lib/route-domain/src: assets, amounts, intents and the
  calls of a batch, with the checks of their schemas as predicates. Fields the modelled code never
  reads are left out.
\<close>

section \<open>primitives.ts\<close>

definition address_schema :: "string \<Rightarrow> bool" where
  "address_schema s \<longleftrightarrow> take 2 s = ''0x'' \<and> length s = 42 \<and> list_all (\<lambda>c. digit_value c < 16) (drop 2 s)"

text \<open>The schema's transform: a parsed address is in lower case.\<close>

definition AddressV1Schema :: "string \<Rightarrow> string option" where
  "AddressV1Schema s = (if address_schema s then Some (to_lower s) else None)"

definition AtomicAmountV1Schema :: "string \<Rightarrow> bool" where
  "AtomicAmountV1Schema s = plain_decimal s"

definition DecimalAmountV1Schema :: "string \<Rightarrow> bool" where
  "DecimalAmountV1Schema s = UNSIGNED_DECIMAL s"

datatype asset_ref_kind = NativeKind | Erc20Kind

record asset_ref =
  asr_asset_id :: string
  asr_chain_id :: int
  asr_kind :: asset_ref_kind
  asr_address :: "string option"
  asr_symbol :: string
  asr_decimals :: int

definition assetIdV1 :: "int \<Rightarrow> asset_ref_kind \<Rightarrow> string option \<Rightarrow> string" where
  "assetIdV1 chain kind address =
     (case kind of
        NativeKind \<Rightarrow> ''eip155:'' @ show_int chain @ ''/native''
      | Erc20Kind \<Rightarrow> ''eip155:'' @ show_int chain @ ''/erc20:'' @ (case address of Some a \<Rightarrow> a | None \<Rightarrow> ''null''))"

definition AssetRefV1Schema :: "asset_ref \<Rightarrow> bool" where
  "AssetRefV1Schema a \<longleftrightarrow>
     asr_asset_id a \<noteq> [] \<and> length (asr_asset_id a) \<le> 200
     \<and> (asr_chain_id a = 8453 \<or> asr_chain_id a = 84532)
     \<and> (case asr_address a of Some x \<Rightarrow> AddressV1Schema x = Some x | None \<Rightarrow> True)
     \<and> asr_symbol a \<noteq> [] \<and> length (asr_symbol a) \<le> 32
     \<and> 0 \<le> asr_decimals a \<and> asr_decimals a \<le> 255
     \<and> (asr_kind a = NativeKind \<longrightarrow> asr_address a = None)
     \<and> (asr_kind a = Erc20Kind \<longrightarrow> asr_address a \<noteq> None)
     \<and> asr_asset_id a = assetIdV1 (asr_chain_id a) (asr_kind a) (asr_address a)"

record token_amount =
  tam_asset :: asset_ref
  tam_amount_atomic :: string
  tam_amount_decimal :: string

definition TokenAmountV1Schema :: "token_amount \<Rightarrow> bool" where
  "TokenAmountV1Schema t \<longleftrightarrow> AssetRefV1Schema (tam_asset t) \<and> AtomicAmountV1Schema (tam_amount_atomic t)
     \<and> DecimalAmountV1Schema (tam_amount_decimal t)"

section \<open>route-contracts.ts\<close>

datatype verification_depth = DepthStandard | DepthEnhanced | DepthMaximum

record route_intent =
  rin_wallet_address :: string
  rin_chain_id :: int
  rin_from_asset :: "asset_ref option"
  rin_to_asset :: "asset_ref option"
  rin_amount :: token_amount
  rin_max_bps :: int
  rin_verification_depth :: verification_depth

datatype swap_provider = Uniswap | Kyberswap | Aerodrome | O1Exchange | Hydrex | Balancer

record route_candidate =
  rcd_provider :: swap_provider
  rcd_candidate_hash :: string
  rcd_source_keys :: "string list"
  rcd_minimum_output :: token_amount

section \<open>execution-contracts.ts\<close>

datatype call_type = ApprovalCall | SwapCall | DepositCall | WithdrawCall | TransferCall | OtherCall

record execution_call =
  exc_index :: int
  exc_call_type :: call_type
  exc_to :: string
  exc_value_wei :: string
  exc_data :: string
  exc_asset :: "asset_ref option"
  exc_amount_atomic :: "string option"
  exc_recipient :: "string option"
  exc_spender :: "string option"

text \<open>The schema of a call, after its transforms.\<close>

definition hex_data_schema :: "string \<Rightarrow> bool" where
  "hex_data_schema s \<longleftrightarrow> HEX_DATA s \<and> even (length s)"

definition ExecutionCallV1Schema :: "execution_call \<Rightarrow> bool" where
  "ExecutionCallV1Schema c \<longleftrightarrow>
     0 \<le> exc_index c \<and> AddressV1Schema (exc_to c) = Some (exc_to c) \<and> AtomicAmountV1Schema (exc_value_wei c)
     \<and> hex_data_schema (exc_data c)
     \<and> (case exc_asset c of Some a \<Rightarrow> AssetRefV1Schema a | None \<Rightarrow> True)
     \<and> (case exc_amount_atomic c of Some a \<Rightarrow> AtomicAmountV1Schema a | None \<Rightarrow> True)
     \<and> (case exc_recipient c of Some a \<Rightarrow> AddressV1Schema a = Some a | None \<Rightarrow> True)
     \<and> (case exc_spender c of Some a \<Rightarrow> AddressV1Schema a = Some a | None \<Rightarrow> True)"

section \<open>Facts\<close>

lemma hex_digit_lower: "digit_value c < 16 \<Longrightarrow> hex_lower (char_lower c)"
  by (auto simp: hex_lower_def digit_value_def char_lower_def Let_def split: if_splits)

lemma address_schema_lower: "address_schema s \<Longrightarrow> ADDRESS (to_lower s)"
proof -
  assume a: "address_schema s"
  then have s: "s = ''0x'' @ drop 2 s" by (intro prefixed) (simp add: address_schema_def)
  have "to_lower s = ''0x'' @ to_lower (drop 2 s)"
    by (subst s) (simp add: to_lower_def char_lower_def)
  moreover have "list_all hex_lower (to_lower (drop 2 s))"
    using a by (simp add: address_schema_def to_lower_def list_all_iff hex_digit_lower)
  ultimately show ?thesis using a by (simp add: ADDRESS_def address_schema_def)
qed

lemma schema_address: "AddressV1Schema s = Some t \<Longrightarrow> t = to_lower s \<and> ADDRESS t"
  by (auto simp: AddressV1Schema_def address_schema_lower split: if_splits)

lemma schema_fixed: "AddressV1Schema s = Some s \<longleftrightarrow> ADDRESS s"
proof
  assume "AddressV1Schema s = Some s"
  then show "ADDRESS s" using schema_address [of s s] by simp
next
  assume a: "ADDRESS s"
  then have "address_schema s" by (simp add: ADDRESS_def address_schema_def list_all_iff hex_lower_def)
  then show "AddressV1Schema s = Some s" using address_lower [OF a] by (simp add: AddressV1Schema_def)
qed

end
