(* ===== verification/Aerodrome_Build.thy ===== *)
theory Aerodrome_Build
  imports Aerodrome_Calldata Route_Domain
begin

text \<open>
  Building an Aerodrome swap: the source keys a reviewed route survives in
  (lib/swap-adapters/src/aerodrome-pinned.ts) and the adapter that turns the reviewed route into the
  calls of a batch (lib/transaction-composer/src/adapters/aerodrome.ts). The chain's answers, the
  clock and the language's date functions are parameters; amounts are the plain decimal text their
  schemas let through; the hashes kept as evidence of the request and the answer are left out.
\<close>

section \<open>Source keys\<close>

definition aerodromeSourceKeyV1 :: "route_leg \<Rightarrow> string" where
  "aerodromeSourceKeyV1 leg =
     ''aerodrome:'' @ leg_factory leg @ '':'' @ leg_from leg @ '':'' @ leg_to leg @ '':''
       @ (if leg_stable leg then ''stable'' else ''volatile'')"

definition parseAerodromeSourceKeyV1 :: "string \<Rightarrow> route_leg option" where
  "parseAerodromeSourceKeyV1 key =
     (case split_on (CHR '':'') key of
        [tag, factory, from, to, curve] \<Rightarrow>
          if tag \<noteq> ''aerodrome'' then None
          else if \<not> ADDRESS factory \<or> \<not> ADDRESS from \<or> \<not> ADDRESS to then None
          else if curve \<noteq> ''stable'' \<and> curve \<noteq> ''volatile'' then None
          else Some \<lparr>leg_from = from, leg_to = to, leg_stable = (curve = ''stable''), leg_factory = factory\<rparr>
      | _ \<Rightarrow> None)"

definition sameAerodromeRouteV1 :: "route_leg list \<Rightarrow> route_leg list \<Rightarrow> bool" where
  "sameAerodromeRouteV1 ls rs \<longleftrightarrow>
     length ls = length rs
     \<and> list_all (\<lambda>(l, r). to_lower (leg_from l) = to_lower (leg_from r) \<and> to_lower (leg_to l) = to_lower (leg_to r)
          \<and> leg_stable l = leg_stable r \<and> to_lower (leg_factory l) = to_lower (leg_factory r)) (zip ls rs)"

text \<open>The routes a pair may be asked over: the direct pools, then two hops through a pinned token.\<close>

definition candidateRoutesV1 :: "string \<Rightarrow> string \<Rightarrow> string \<Rightarrow> route_leg list list" where
  "candidateRoutesV1 from to factory =
     (let leg = (\<lambda>a b curve. \<lparr>leg_from = a, leg_to = b, leg_stable = curve, leg_factory = factory\<rparr>) in
      if from = to then []
      else [[leg from to False], [leg from to True]]
        @ concat (map (\<lambda>middle. if middle = from \<or> middle = to then []
            else concat (map (\<lambda>firstStable. map (\<lambda>secondStable. [leg from middle firstStable, leg middle to secondStable])
                   [False, True]) [False, True])) AERODROME_INTERMEDIATES_V1))"

section \<open>The adapter\<close>

definition BUILD_TTL_MS :: int where
  "BUILD_TTL_MS = 10 * 60000"

datatype rpc_reason = RpcNotConfigured | RpcUnavailable | RpcTimeout | RpcError | RateLimited | InvalidResponse | NoRoute

text \<open>The chain, as the reader answers.\<close>

record aerodrome_reader =
  rdr_default_factory :: "rpc_reason + string"
  rdr_amounts_out :: "int \<Rightarrow> route_leg list \<Rightarrow> rpc_reason + int list"
  rdr_allowance :: "string \<Rightarrow> string \<Rightarrow> string \<Rightarrow> rpc_reason + int"

datatype build_outcome = NotConfigured | Unavailable | InvalidBuild | Rejected | Expired

record build_failure =
  bfl_outcome :: build_outcome
  bfl_error_code :: string
  bfl_retryable :: bool

record build_call =
  bdc_to :: string
  bdc_value :: string
  bdc_data :: string

record aerodrome_facts =
  afc_route :: "route_leg list"
  afc_factory :: string
  afc_observed_allowance :: "string option"
  afc_input_is_native :: bool
  afc_output_is_native :: bool
  afc_input_token_address :: "string option"

record build_success =
  bds_router_address :: string
  bds_calls :: "build_call list"
  bds_quote_expiry :: string
  bds_expected_output :: token_amount
  bds_minimum_output :: token_amount
  bds_aerodrome :: aerodrome_facts

record build_input =
  bdi_intent :: route_intent
  bdi_selected :: route_candidate
  bdi_reviewed :: "route_candidate option"
  bdi_wallet_address :: string
  bdi_now :: int

text \<open>What the language provides: \<open>toISOString\<close> of an instant, \<open>Date.parse\<close>, and the package's hash.\<close>

record language =
  lng_iso :: "int \<Rightarrow> string"
  lng_parse :: "string \<Rightarrow> int option"
  lng_keccak :: "string \<Rightarrow> string"

definition build_fails :: "build_outcome \<Rightarrow> string \<Rightarrow> bool \<Rightarrow> build_failure + 'a" where
  "build_fails outcome errorCode retryable =
     Inl \<lparr>bfl_outcome = outcome, bfl_error_code = errorCode, bfl_retryable = retryable\<rparr>"

definition poolTokenV1 :: "asset_ref \<Rightarrow> string option" where
  "poolTokenV1 asset =
     (if asr_kind asset = NativeKind then Some AERODROME_WETH_V1
      else (case asr_address asset of Some a \<Rightarrow> if a = '''' then None else Some (to_lower a) | None \<Rightarrow> None))"

fun parse_legs :: "string list \<Rightarrow> route_leg list option" where
  "parse_legs [] = Some []"
| "parse_legs (key # keys) =
     (case parseAerodromeSourceKeyV1 key of None \<Rightarrow> None
      | Some leg \<Rightarrow> map_option ((#) leg) (parse_legs keys))"

fun legs_connect :: "route_leg list \<Rightarrow> bool" where
  "legs_connect (l # m # ls) \<longleftrightarrow> leg_from m = leg_to l \<and> legs_connect (m # ls)"
| "legs_connect ls \<longleftrightarrow> True"

definition routeFromCandidateV1 :: "route_candidate \<Rightarrow> route_leg list option" where
  "routeFromCandidateV1 candidate =
     (let sources = rcd_source_keys candidate in
      if sources = [] \<or> length sources > AERODROME_MAX_HOPS_V1 then None
      else (case parse_legs sources of
          None \<Rightarrow> None
        | Some legs \<Rightarrow>
            if list_ex (\<lambda>leg. leg_factory leg \<noteq> leg_factory (hd legs)) legs then None
            else if \<not> legs_connect legs then None else Some legs))"

text \<open>The assets, the pool tokens and the reviewed route, unless the pair or the route has moved.\<close>

definition reviewed_route ::
  "build_input \<Rightarrow> build_failure + asset_ref \<times> asset_ref \<times> string \<times> route_candidate \<times> route_leg list" where
  "reviewed_route i =
     (let intent = bdi_intent i in
      if rin_chain_id intent \<noteq> 8453 then build_fails Rejected ''aerodrome_pair_unsupported'' False
      else if to_lower (bdi_wallet_address i) \<noteq> to_lower (rin_wallet_address intent)
      then build_fails Rejected ''aerodrome_wallet_mismatch'' False
      else (case (rin_from_asset intent, rin_to_asset intent) of
          (Some fromAsset, Some toAsset) \<Rightarrow>
            (case (poolTokenV1 fromAsset, poolTokenV1 toAsset) of
               (Some inputToken, Some outputToken) \<Rightarrow>
                 if inputToken = outputToken then build_fails Rejected ''aerodrome_pair_unsupported'' False
                 else (case bdi_reviewed i of
                     None \<Rightarrow> build_fails Rejected ''aerodrome_reviewed_candidate_missing'' False
                   | Some reviewed \<Rightarrow>
                       (case routeFromCandidateV1 reviewed of
                          None \<Rightarrow> build_fails Rejected ''aerodrome_reviewed_route_unreadable'' False
                        | Some route \<Rightarrow>
                            if leg_from (hd route) \<noteq> inputToken \<or> leg_to (last route) \<noteq> outputToken
                            then build_fails Rejected ''aerodrome_reviewed_route_mismatch'' False
                            else (case routeFromCandidateV1 (bdi_selected i) of
                                None \<Rightarrow> build_fails Rejected ''aerodrome_route_changed'' True
                              | Some fresh \<Rightarrow>
                                  if \<not> sameAerodromeRouteV1 fresh route then build_fails Rejected ''aerodrome_route_changed'' True
                                  else Inr (fromAsset, toAsset, inputToken, reviewed, route))))
             | _ \<Rightarrow> build_fails Rejected ''aerodrome_pair_unsupported'' False)
        | _ \<Rightarrow> build_fails Rejected ''aerodrome_pair_unsupported'' False))"

text \<open>The factory the Router names now, and what the route gives for the amount.\<close>

definition fresh_reads ::
  "aerodrome_reader \<Rightarrow> route_intent \<Rightarrow> route_leg list \<Rightarrow> build_failure + string \<times> int \<times> int" where
  "fresh_reads reader intent route =
     (case rdr_default_factory reader of
        Inl RpcNotConfigured \<Rightarrow> build_fails NotConfigured ''aerodrome_not_configured'' False
      | Inl _ \<Rightarrow> build_fails Unavailable ''aerodrome_rpc_unavailable'' True
      | Inr factory \<Rightarrow>
          if to_lower factory \<noteq> to_lower (leg_factory (hd route)) then build_fails Rejected ''aerodrome_factory_changed'' True
          else let amountIn = int (digits_value 10 (tam_amount_atomic (rin_amount intent))) in
            if amountIn \<le> 0 then build_fails Rejected ''aerodrome_amount_invalid'' False
            else (case rdr_amounts_out reader amountIn route of
                Inl NoRoute \<Rightarrow> build_fails Rejected ''aerodrome_route_unavailable'' True
              | Inl _ \<Rightarrow> build_fails Unavailable ''aerodrome_rpc_unavailable'' True
              | Inr quoted \<Rightarrow> Inr (factory, amountIn, if quoted = [] then 0 else last quoted)))"

text \<open>The expected output and the least one: the reviewed floor wins whenever it is stricter.\<close>

definition build_amounts ::
  "route_intent \<Rightarrow> asset_ref \<Rightarrow> route_candidate \<Rightarrow> int \<Rightarrow> (build_failure + token_amount \<times> token_amount \<times> int) result" where
  "build_amounts intent toAsset reviewed expected =
     bindR (minimumOutputAtomic (show_int expected) (Whole (rin_max_bps intent))) (\<lambda>derived.
     let derivedMinimum = int (digits_value 10 derived);
         reviewedMinimum = int (digits_value 10 (tam_amount_atomic (rcd_minimum_output reviewed)));
         minimumRaw = (if derivedMinimum > reviewedMinimum then derivedMinimum else reviewedMinimum)
     in Inr (
       if minimumRaw \<le> 0 then build_fails Rejected ''aerodrome_minimum_invalid'' False
       else if expected < minimumRaw then build_fails Expired ''aerodrome_output_below_minimum'' True
       else (case (atomicToHumanDecimal (show_int expected) (Whole (asr_decimals toAsset)),
                   atomicToHumanDecimal (show_int minimumRaw) (Whole (asr_decimals toAsset))) of
           (Some expectedDecimal, Some minimumDecimal) \<Rightarrow>
             Inr (\<lparr>tam_asset = toAsset, tam_amount_atomic = show_int expected, tam_amount_decimal = expectedDecimal\<rparr>,
                  \<lparr>tam_asset = toAsset, tam_amount_atomic = show_int minimumRaw, tam_amount_decimal = minimumDecimal\<rparr>, minimumRaw)
         | _ \<Rightarrow> build_fails InvalidBuild ''aerodrome_amount_undisplayable'' False)))"

definition swap_calldata :: "(string \<Rightarrow> string) \<Rightarrow> bool \<Rightarrow> bool \<Rightarrow> swap_encode \<Rightarrow> string result" where
  "swap_calldata keccak inputIsNative outputIsNative args =
     (if inputIsNative then encodeSwapExactEthForTokensV1 keccak args
      else if outputIsNative then encodeSwapExactTokensForEthV1 keccak args
      else encodeSwapExactTokensForTokensV1 keccak args)"

text \<open>The approval of an ERC-20 input, always written out, and the swap.\<close>

definition build_calls ::
  "language \<Rightarrow> aerodrome_reader \<Rightarrow> build_input \<Rightarrow> asset_ref \<Rightarrow> asset_ref \<Rightarrow> string \<Rightarrow> int \<Rightarrow> int \<Rightarrow> route_leg list \<Rightarrow> string
   \<Rightarrow> (build_failure + build_call list \<times> string option) result" where
  "build_calls l reader i fromAsset toAsset inputToken amountIn minimumRaw route quoteExpiry =
     bindR (case lng_parse l quoteExpiry of Some t \<Rightarrow> Inr (t div 1000)
       | None \<Rightarrow> Inl (RangeError ''The number NaN cannot be converted to a BigInt'')) (\<lambda>deadline.
     let inputIsNative = (asr_kind fromAsset = NativeKind); outputIsNative = (asr_kind toAsset = NativeKind);
         args = \<lparr>sen_amount_in = amountIn, sen_amount_out_min = minimumRaw, sen_routes = route,
            sen_to = bdi_wallet_address i, sen_deadline = deadline\<rparr>;
         swap = (\<lambda>approvals allowance. Inr (case swap_calldata (lng_keccak l) inputIsNative outputIsNative args of
              Inl e \<Rightarrow> build_fails Rejected ''aerodrome_encode_refused'' False
            | Inr data \<Rightarrow> Inr (approvals @ [\<lparr>bdc_to = AERODROME_ROUTER_V1,
                  bdc_value = (if inputIsNative then show_int amountIn else ''0''), bdc_data = data\<rparr>], allowance)))
     in if inputIsNative then swap [] None
        else (case rdr_allowance reader inputToken (bdi_wallet_address i) AERODROME_ROUTER_V1 of
             Inl _ \<Rightarrow> Inr (build_fails Unavailable ''aerodrome_allowance_unreadable'' True)
           | Inr allowance \<Rightarrow>
               bindR (encodeExactApproveV1 (lng_keccak l) AERODROME_ROUTER_V1 amountIn) (\<lambda>approve.
               swap [\<lparr>bdc_to = inputToken, bdc_value = ''0'', bdc_data = approve\<rparr>] (Some (show_int allowance)))))"

definition build_aerodrome ::
  "language \<Rightarrow> aerodrome_reader option \<Rightarrow> build_input \<Rightarrow> (build_failure + build_success) result" where
  "build_aerodrome l source i =
     (case source of None \<Rightarrow> Inr (build_fails NotConfigured ''aerodrome_not_configured'' False)
      | Some reader \<Rightarrow>
     (case reviewed_route i of Inl failure \<Rightarrow> Inr (Inl failure)
      | Inr (fromAsset, toAsset, inputToken, reviewed, route) \<Rightarrow>
     (case fresh_reads reader (bdi_intent i) route of Inl failure \<Rightarrow> Inr (Inl failure)
      | Inr (factory, amountIn, expected) \<Rightarrow>
     bindR (build_amounts (bdi_intent i) toAsset reviewed expected) (\<lambda>amounts.
     case amounts of Inl failure \<Rightarrow> Inr (Inl failure)
      | Inr (expectedOutput, minimumOutput, minimumRaw) \<Rightarrow>
     let quoteExpiry = lng_iso l (bdi_now i + BUILD_TTL_MS) in
     bindR (build_calls l reader i fromAsset toAsset inputToken amountIn minimumRaw route quoteExpiry) (\<lambda>built.
     case built of Inl failure \<Rightarrow> Inr (Inl failure)
      | Inr (calls, allowance) \<Rightarrow>
     Inr (Inr \<lparr>bds_router_address = AERODROME_ROUTER_V1, bds_calls = calls, bds_quote_expiry = quoteExpiry,
       bds_expected_output = expectedOutput, bds_minimum_output = minimumOutput,
       bds_aerodrome = \<lparr>afc_route = route, afc_factory = factory, afc_observed_allowance = allowance,
         afc_input_is_native = (asr_kind fromAsset = NativeKind), afc_output_is_native = (asr_kind toAsset = NativeKind),
         afc_input_token_address = (if asr_kind fromAsset = NativeKind then None else Some inputToken)\<rparr>\<rparr>))))))"

end
