(* ===== verification/Aerodrome_Roundtrip.thy ===== *)
theory Aerodrome_Roundtrip
  imports Aerodrome_Calldata
begin

text \<open>
  The writer and the reader of Aerodrome's calldata agree: whatever lib/swap-adapters encodes,
  lib/security decodes to the same amounts, recipient, deadline and route, letter case aside.
\<close>

section \<open>The assumptions\<close>

text \<open>The four-byte selectors, as the repository's tests assert them of the hash.\<close>

definition keccak_ok :: "(string \<Rightarrow> string) \<Rightarrow> bool" where
  "keccak_ok keccak \<longleftrightarrow>
     selectorV1 keccak TOKENS_FOR_TOKENS = ''cac88ea9'' \<and> selectorV1 keccak ETH_FOR_TOKENS = ''903638a4''
     \<and> selectorV1 keccak TOKENS_FOR_ETH = ''c6b7f1b6'' \<and> selectorV1 keccak APPROVE = ''095ea7b3''"

definition leg_ok :: "route_leg \<Rightarrow> bool" where
  "leg_ok leg \<longleftrightarrow> ADDRESS (to_lower (leg_from leg)) \<and> ADDRESS (to_lower (leg_to leg)) \<and> ADDRESS (to_lower (leg_factory leg))"

definition lower_leg :: "route_leg \<Rightarrow> route_leg" where
  "lower_leg leg = \<lparr>leg_from = to_lower (leg_from leg), leg_to = to_lower (leg_to leg),
     leg_stable = leg_stable leg, leg_factory = to_lower (leg_factory leg)\<rparr>"

text \<open>What fits the words of the ABI.\<close>

definition encodable :: "swap_encode \<Rightarrow> bool" where
  "encodable i \<longleftrightarrow> sen_amount_in i < 2 ^ 256 \<and> sen_amount_out_min i < 2 ^ 256 \<and> sen_deadline i < 2 ^ 256
     \<and> ADDRESS (to_lower (sen_to i)) \<and> list_all leg_ok (sen_routes i)"

definition encodeSwap :: "(string \<Rightarrow> string) \<Rightarrow> swap_kind \<Rightarrow> swap_encode \<Rightarrow> string result" where
  "encodeSwap keccak kind =
     (case kind of TokensForTokens \<Rightarrow> encodeSwapExactTokensForTokensV1 keccak
      | EthForTokens \<Rightarrow> encodeSwapExactEthForTokensV1 keccak
      | TokensForEth \<Rightarrow> encodeSwapExactTokensForEthV1 keccak)"

section \<open>Words\<close>

definition bool_word :: "bool \<Rightarrow> string" where
  "bool_word b = padWord (show_digits 16 (if b then 1 else 0))"

definition leg_words :: "route_leg \<Rightarrow> string list" where
  "leg_words leg = [addressWord (leg_from leg), addressWord (leg_to leg), bool_word (leg_stable leg), addressWord (leg_factory leg)]"

text \<open>A list of whole, lower-case words.\<close>

definition words_ok :: "string list \<Rightarrow> bool" where
  "words_ok ws \<longleftrightarrow> list_all (\<lambda>w. length w = 64 \<and> list_all hex_lower w) ws"

lemma words_ok_simps [simp]:
  "words_ok []" "words_ok (w # ws) \<longleftrightarrow> length w = 64 \<and> list_all hex_lower w \<and> words_ok ws"
  "words_ok (vs @ ws) \<longleftrightarrow> words_ok vs \<and> words_ok ws"
  by (auto simp: words_ok_def)

lemma words_ok_concat: "(\<And>x. x \<in> set xs \<Longrightarrow> words_ok (f x)) \<Longrightarrow> words_ok (concat (map f xs))"
  by (induction xs) auto

lemma words_length: "words_ok ws \<Longrightarrow> length (concat ws) = 64 * length ws"
  by (rule length_words) (simp add: words_ok_def list_all_iff)

lemma words_hex: "words_ok ws \<Longrightarrow> list_all hex_lower (concat ws)"
  by (induction ws) (auto simp: words_ok_def)

lemma nth_word: "words_ok ws \<Longrightarrow> i < length ws \<Longrightarrow> word (concat ws) i = ws ! i"
  using word_of_words [of ws i "[]"] by (simp add: words_ok_def list_all_iff)

lemma bool_word_ok: "length (bool_word b) = 64 \<and> list_all hex_lower (bool_word b)
    \<and> wordUint (bool_word b) = Some (if b then 1 else 0)"
proof -
  obtain w where "uintWord (if b then 1 else 0) = Inr w" "length w = 64" "wordUint w = Some (if b then 1 else 0)"
      "list_all hex_lower w"
    by (rule uint_word [of "if b then 1 else 0"]) (auto split: if_splits)
  then show ?thesis by (auto simp: uintWord_def bool_word_def split: if_splits)
qed

lemma leg_words_ok: "leg_ok leg \<Longrightarrow> words_ok (leg_words leg)"
  by (simp add: leg_ok_def leg_words_def address_word bool_word_ok)

lemma leg_calldata_words: "leg_calldata leg = Inr (concat (leg_words leg))"
  by (simp add: leg_calldata_def leg_words_def bool_word_def uintWord_def)

lemma legs_calldata_words: "mapR leg_calldata legs = Inr (map (\<lambda>leg. concat (leg_words leg)) legs)"
  by (induction legs) (simp_all add: leg_calldata_words)

lemma legs_words_ok: "list_all leg_ok legs \<Longrightarrow> words_ok (concat (map leg_words legs))"
  by (rule words_ok_concat) (simp add: list_all_iff leg_words_ok)

lemma concat_concat_words: "concat (map (\<lambda>leg. concat (leg_words leg)) legs) = concat (concat (map leg_words legs))"
  by (induction legs) simp_all

lemma length_legs_words: "length (concat (map leg_words legs)) = 4 * length legs"
  by (induction legs) (simp_all add: leg_words_def)

lemma decode_leg_words:
  assumes "words_ok ws" and "leg_ok leg" and "base + 4 \<le> length ws"
    and "\<forall>k < 4. ws ! (base + k) = leg_words leg ! k"
  shows "decode_leg (concat ws) base = Some (lower_leg leg)"
proof -
  have w: "\<And>k. k < 4 \<Longrightarrow> word (concat ws) (base + k) = leg_words leg ! k"
    using assms(1,3,4) by (simp add: nth_word)
  show ?thesis
    using w [of 0] w [of 1] w [of 2] w [of 3] assms(2)
    by (simp add: decode_leg_def leg_words_def bool_word_ok address_word leg_ok_def lower_leg_def)
qed

lemma decode_legs_words:
  "words_ok pre \<Longrightarrow> list_all leg_ok legs \<Longrightarrow> base = length pre
   \<Longrightarrow> decode_legs (concat (pre @ concat (map leg_words legs))) base (length legs) = Some (map lower_leg legs)"
proof (induction legs arbitrary: pre base)
  case (Cons leg legs)
  let ?ws = "pre @ concat (map leg_words (leg # legs))"
  have ok: "words_ok ?ws" using Cons.prems legs_words_ok [of "leg # legs"] by (simp del: concat.simps)
  have "decode_leg (concat ?ws) base = Some (lower_leg leg)"
  proof (rule decode_leg_words [OF ok])
    show "leg_ok leg" using Cons.prems by simp
    show "base + 4 \<le> length ?ws" using Cons.prems(3) by (simp add: leg_words_def)
    show "\<forall>k < 4. ?ws ! (base + k) = leg_words leg ! k"
      using Cons.prems(3) by (simp add: All_less_Suc numeral_eq_Suc nth_append leg_words_def)
  qed
  moreover have "decode_legs (concat ((pre @ leg_words leg) @ concat (map leg_words legs))) (base + 4) (length legs)
      = Some (map lower_leg legs)"
    using Cons.prems leg_words_ok [of leg] by (intro Cons.IH) (simp_all add: leg_words_def)
  ultimately show ?case by simp
qed simp

section \<open>Swaps\<close>

lemma hex_text:
  assumes "words_ok ws" and "list_all hex_lower sel" and "length sel = 8"
  shows "to_lower (''0x'' @ sel @ concat ws) = ''0x'' @ sel @ concat ws"
    and "HEX_DATA (''0x'' @ sel @ concat ws)" and "10 \<le> length (''0x'' @ sel @ concat ws)"
    and "drop 10 (''0x'' @ sel @ concat ws) = concat ws" and "take 10 (''0x'' @ sel @ concat ws) = ''0x'' @ sel"
proof -
  have "to_lower sel = sel" "to_lower (concat ws) = concat ws"
    using assms by (simp_all add: to_lower_hex words_hex)
  moreover have "to_lower ''0x'' = ''0x''" by (simp add: to_lower_def char_lower_def)
  ultimately show "to_lower (''0x'' @ sel @ concat ws) = ''0x'' @ sel @ concat ws"
    by (metis to_lower_append)
  show "HEX_DATA (''0x'' @ sel @ concat ws)" using assms words_hex by (simp add: HEX_DATA_def)
qed (use assms in \<open>simp_all\<close>)

lemma decode_hex:
  assumes "words_ok ws" and "list_all hex_lower sel" and "length sel = 8"
    and "entrypoint (''0x'' @ sel) = Some (kind, hw)" and "hw \<le> length ws"
  shows "decodeAerodromeSwapCalldata (''0x'' @ sel @ concat ws) = decode_body kind hw (concat ws)"
  using hex_text [OF assms(1-3)] words_length [OF assms(1)] assms(4,5)
  by (simp add: decodeAerodromeSwapCalldata_def Let_def WORD_def)

text \<open>The head of the call and its route, as words.\<close>

lemma decode_body_words:
  assumes ok: "words_ok (head @ [n] @ concat (map leg_words legs))" and legs: "list_all leg_ok legs"
    and hw: "length head = hw" "hw = (if kind = EthForTokens then 4 else 5)"
    and n: "wordUint n = Some (int (length legs))" "legs \<noteq> []" "length legs \<le> AERODROME_MAX_HOPS"
    and ins: "kind \<noteq> EthForTokens \<Longrightarrow> wordUint (head ! 0) = Some a"
    and rest: "wordUint (head ! (if kind = EthForTokens then 0 else 1)) = Some m"
      "wordUint (head ! (if kind = EthForTokens then 1 else 2)) = Some (int (hw * 32))"
      "wordAddress (head ! (if kind = EthForTokens then 2 else 3)) = Some t"
      "wordUint (head ! (if kind = EthForTokens then 3 else 4)) = Some d"
  shows "decode_body kind hw (concat (head @ [n] @ concat (map leg_words legs)))
    = Some \<lparr>dsw_kind = kind, dsw_amount_in = (if kind = EthForTokens then None else Some a), dsw_amount_out_min = m,
        dsw_route = map lower_leg legs, dsw_to = t, dsw_deadline = d\<rparr>"
proof -
  let ?ws = "head @ [n] @ concat (map leg_words legs)"
  have w: "\<And>i. i < hw \<Longrightarrow> word (concat ?ws) i = head ! i"
    using nth_word [OF ok] hw(1) by (simp add: nth_append)
  have wn: "word (concat ?ws) hw = n" using nth_word [OF ok, of hw] hw(1) by (simp add: nth_append)
  have len: "length (concat ?ws) = (hw + 1 + length legs * 4) * WORD"
    using words_length [OF ok] length_legs_words [of legs] hw(1) by (simp add: WORD_def)
  have "decode_legs (concat ((head @ [n]) @ concat (map leg_words legs))) (hw + 1) (length legs) = Some (map lower_leg legs)"
    using ok legs hw(1) by (intro decode_legs_words) simp_all
  then have route: "decode_legs (concat ?ws) (hw + 1) (length legs) = Some (map lower_leg legs)" by simp
  have b: "int (length legs) \<noteq> 0" "\<not> int (length legs) > int AERODROME_MAX_HOPS" using n by simp_all
  show ?thesis
  proof (cases "kind = EthForTokens")
    case True
    with hw(2) have "hw = 4" by simp
    with True w [of 0] w [of 1] w [of 2] w [of 3] wn len route b n(1) rest show ?thesis
      by (simp add: decode_body_def Let_def)
  next
    case False
    with hw(2) have "hw = 5" by simp
    with False w [of 0] w [of 1] w [of 2] w [of 3] w [of 4] wn len route b n(1) rest ins show ?thesis
      by (simp add: decode_body_def Let_def)
  qed
qed

lemma encoded_is_decoded:
  assumes keccak: "keccak_ok keccak" and fits: "encodable i" and data: "encodeSwap keccak kind i = Inr data"
  shows "decodeAerodromeSwapCalldata data = Some \<lparr>dsw_kind = kind,
      dsw_amount_in = (if kind = EthForTokens then None else Some (sen_amount_in i)),
      dsw_amount_out_min = sen_amount_out_min i, dsw_route = map lower_leg (sen_routes i),
      dsw_to = to_lower (sen_to i), dsw_deadline = sen_deadline i\<rparr>"
proof -
  let ?legs = "sen_routes i" and ?t = "addressWord (sen_to i)"
  have good: "assertSwapInputV1 i = Inr ()"
    using data by (auto simp: encodeSwap_def encodeSwapExactTokensForTokensV1_def encodeSwapExactEthForTokensV1_def
        encodeSwapExactTokensForEthV1_def split: swap_kind.splits)
  then have pos: "0 < sen_amount_in i" "0 < sen_amount_out_min i" "0 < sen_deadline i"
      "?legs \<noteq> []" "length ?legs \<le> AERODROME_MAX_HOPS"
    by (auto simp: assertSwapInputV1_def AERODROME_MAX_HOPS_V1_def AERODROME_MAX_HOPS_def split: if_splits)
  have fit: "sen_amount_in i < 2 ^ 256" "sen_amount_out_min i < 2 ^ 256" "sen_deadline i < 2 ^ 256"
      "ADDRESS (to_lower (sen_to i))" "list_all leg_ok ?legs"
    using fits by (auto simp: encodable_def)
  obtain a where a: "uintWord (sen_amount_in i) = Inr a" "length a = 64" "wordUint a = Some (sen_amount_in i)" "list_all hex_lower a"
    using uint_word pos(1) fit(1) by (metis less_imp_le)
  obtain m where m: "uintWord (sen_amount_out_min i) = Inr m" "length m = 64" "wordUint m = Some (sen_amount_out_min i)" "list_all hex_lower m"
    using uint_word pos(2) fit(2) by (metis less_imp_le)
  obtain d where d: "uintWord (sen_deadline i) = Inr d" "length d = 64" "wordUint d = Some (sen_deadline i)" "list_all hex_lower d"
    using uint_word pos(3) fit(3) by (metis less_imp_le)
  obtain q where q: "uintWord (if kind = EthForTokens then 128 else 160) = Inr q" "length q = 64"
      "wordUint q = Some (if kind = EthForTokens then 128 else 160)" "list_all hex_lower q"
    by (rule uint_word [of "if kind = EthForTokens then 128 else 160"]) (auto split: if_splits)
  have nn: "0 \<le> int (length ?legs)" "int (length ?legs) < 2 ^ 256" using pos(5) by (simp_all add: AERODROME_MAX_HOPS_def)
  obtain n where n: "uintWord (int (length ?legs)) = Inr n" "length n = 64" "wordUint n = Some (int (length ?legs))" "list_all hex_lower n"
    by (rule uint_word [OF nn])
  have tail: "routesTailV1 ?legs = Inr (n @ concat (map (\<lambda>leg. concat (leg_words leg)) ?legs))"
    by (simp add: routesTailV1_def n legs_calldata_words)
  have flat: "concat (map (\<lambda>leg. concat (leg_words leg)) ?legs) = concat (concat (map leg_words ?legs))"
    by (simp add: concat_concat_words)
  have t: "length ?t = 64" "wordAddress ?t = Some (to_lower (sen_to i))" "list_all hex_lower ?t"
    using address_word [OF fit(4)] by simp_all
  note words = a m d q n t legs_words_ok [OF fit(5)]
  define head where "head = (if kind = EthForTokens then [m, q, ?t, d] else [a, m, q, ?t, d])"
  define sel where "sel = (case kind of TokensForTokens \<Rightarrow> ''cac88ea9'' | EthForTokens \<Rightarrow> ''903638a4'' | TokensForEth \<Rightarrow> ''c6b7f1b6'')"
  let ?ws = "head @ [n] @ concat (map leg_words ?legs)"
  have written: "data = ''0x'' @ sel @ concat ?ws"
    using data keccak words(1,5,9,13)
    by (cases kind) (simp_all add: encodeSwap_def encodeSwapExactTokensForTokensV1_def encodeSwapExactEthForTokensV1_def
        encodeSwapExactTokensForEthV1_def good tail flat keccak_ok_def head_def sel_def)
  have ok: "words_ok ?ws" using words by (simp add: head_def)
  have sel: "list_all hex_lower sel" "length sel = 8"
      "entrypoint (''0x'' @ sel) = Some (kind, if kind = EthForTokens then 4 else 5)"
    by (cases kind; simp add: sel_def hex_lower_def digit_value_def char_lower_def entrypoint_def
        SELECTOR_SWAP_TOKENS_FOR_TOKENS_def SELECTOR_SWAP_ETH_FOR_TOKENS_def SELECTOR_SWAP_TOKENS_FOR_ETH_def)+
  have "decodeAerodromeSwapCalldata data = decode_body kind (if kind = EthForTokens then 4 else 5) (concat ?ws)"
    unfolding written by (rule decode_hex [OF ok sel]) (simp add: head_def)
  also have "\<dots> = Some \<lparr>dsw_kind = kind,
      dsw_amount_in = (if kind = EthForTokens then None else Some (sen_amount_in i)),
      dsw_amount_out_min = sen_amount_out_min i, dsw_route = map lower_leg (sen_routes i),
      dsw_to = to_lower (sen_to i), dsw_deadline = sen_deadline i\<rparr>"
    using words pos fit by (intro decode_body_words) (simp_all add: ok [unfolded head_def] head_def)
  finally show ?thesis .
qed

lemma approval_is_decoded:
  assumes "keccak_ok keccak" and "ADDRESS (to_lower spender)" and "amount < 2 ^ 256"
    and "encodeExactApproveV1 keccak spender amount = Inr data"
  shows "decodeExactApproval data = Some (to_lower spender, amount) \<and> to_lower data = data \<and> HEX_DATA data \<and> 10 \<le> length data"
proof -
  have "0 < amount" using assms(4) by (auto simp: encodeExactApproveV1_def split: if_splits)
  then obtain a where a: "uintWord amount = Inr a" "length a = 64" "wordUint a = Some amount" "list_all hex_lower a"
    using uint_word assms(3) by (metis less_imp_le)
  let ?ws = "[addressWord spender, a]"
  have ok: "words_ok ?ws" using a address_word [OF assms(2)] by simp
  have data: "data = ''0x'' @ ''095ea7b3'' @ concat ?ws"
    using assms(1,4) a(1) \<open>0 < amount\<close> by (simp add: encodeExactApproveV1_def keccak_ok_def)
  have sel: "list_all hex_lower ''095ea7b3''" by (simp add: hex_lower_def digit_value_def char_lower_def)
  note t = hex_text [OF ok sel, simplified]
  have "word (concat ?ws) 0 = addressWord spender" "word (concat ?ws) 1 = a" using nth_word [OF ok] by simp_all
  then show ?thesis using t words_length [OF ok] a address_word [OF assms(2)] unfolding data
    by (simp add: decodeExactApproval_def Let_def WORD_def SELECTOR_ERC20_APPROVE_def)
qed

lemma decoded_is_hex:
  "decodeAerodromeSwapCalldata data = Some d \<Longrightarrow> HEX_DATA (to_lower data) \<and> 10 \<le> length data"
  by (auto simp: decodeAerodromeSwapCalldata_def Let_def split: if_splits)

end
