(* ===== verification/Aerodrome_Guard.thy ===== *)
theory Aerodrome_Guard
  imports Aerodrome_Roundtrip Swap_Calls Guarded_Steps
begin

text \<open>
  The last check of an Aerodrome batch before a wallet is asked to sign it,
  lib/security/src/aerodromeGuard.ts. It reads calldata, not what the server says of it. A refusal
  carries its code; the sentence shown with it is not modelled. The language's date parser is a
  parameter.
\<close>

record aerodrome_context =
  aec_input_token_address :: "string option"
  aec_input_is_native :: bool
  aec_output_is_native :: bool
  aec_amount_in_atomic :: string
  aec_minimum_output_atomic :: string
  aec_swapper :: string
  aec_recipient :: string
  aec_router_address :: string
  aec_factory :: string
  aec_route :: "route_leg list"
  aec_expires_at :: string

record aerodrome_semantics =
  aes_token_addresses :: "string list"
  aes_recipients :: "string list"
  aes_spenders :: "string list"
  aes_spend_amount_raw :: string
  aes_minimum_output_raw :: string
  aes_hops :: nat
  aes_curves :: "string list"
  aes_deadline_unix :: string

section \<open>The context\<close>

text \<open>The input token's address, or None when the input is native.\<close>

definition aerodrome_input_token :: "aerodrome_context \<Rightarrow> string option" where
  "aerodrome_input_token c =
     (if aec_input_is_native c then None
      else Some (to_lower (case aec_input_token_address c of Some a \<Rightarrow> a | None \<Rightarrow> '''')))"

text \<open>The amount in and the least amount out of a context that may be used, or the first refusal.\<close>

definition check_aerodrome_context ::
  "(string \<Rightarrow> int option) \<Rightarrow> aerodrome_context \<Rightarrow> int \<Rightarrow> string + int \<times> int" where
  "check_aerodrome_context parse c now =
     (let swapper = to_lower (aec_swapper c); recipient = to_lower (aec_recipient c);
          factory = to_lower (aec_factory c)
      in if to_lower (aec_router_address c) \<noteq> AERODROME_BASE_ROUTER then Inl ''aerodrome_router_not_pinned''
         else if \<not> ADDRESS swapper \<or> \<not> ADDRESS recipient \<or> swapper \<noteq> recipient
              then Inl ''aerodrome_wallet_binding_invalid''
         else (case parseAtomic (aec_amount_in_atomic c) of
             None \<Rightarrow> Inl ''aerodrome_amount_invalid''
           | Some amountIn \<Rightarrow>
               if amountIn \<le> 0 then Inl ''aerodrome_amount_invalid''
               else (case parseAtomic (aec_minimum_output_atomic c) of
                   None \<Rightarrow> Inl ''aerodrome_minimum_invalid''
                 | Some minimumOut \<Rightarrow>
                     if minimumOut \<le> 0 then Inl ''aerodrome_minimum_invalid''
                     else (case parse (aec_expires_at c) of
                         None \<Rightarrow> Inl ''aerodrome_quote_expired''
                       | Some expiry \<Rightarrow>
                           if expiry \<le> now then Inl ''aerodrome_quote_expired''
                           else if \<not> ADDRESS factory then Inl ''aerodrome_factory_invalid''
                           else if aec_route c = [] \<or> length (aec_route c) > AERODROME_MAX_HOPS
                                then Inl ''aerodrome_route_length_invalid''
                           else if list_ex (\<lambda>leg. to_lower (leg_factory leg) \<noteq> factory) (aec_route c)
                                then Inl ''aerodrome_route_factory_mismatch''
                           else (case aerodrome_input_token c of
                               Some token \<Rightarrow> if ADDRESS token then Inr (amountIn, minimumOut)
                                 else Inl ''aerodrome_input_token_invalid''
                             | None \<Rightarrow> Inr (amountIn, minimumOut))))))"

section \<open>The calls\<close>

record aerodrome_scan =
  asc_swap_call :: "base_call option"
  asc_approval :: "(string \<times> int) option"
  asc_spenders :: "string list"

definition no_calls_seen :: aerodrome_scan where
  "no_calls_seen = \<lparr>asc_swap_call = None, asc_approval = None, asc_spenders = []\<rparr>"

definition see_swap :: "aerodrome_context \<Rightarrow> int \<Rightarrow> int \<Rightarrow> aerodrome_scan \<Rightarrow> base_call \<Rightarrow> string + aerodrome_scan" where
  "see_swap c amountIn v s call =
     (if asc_swap_call s \<noteq> None then Inl ''aerodrome_router_call_invalid''
      else if aec_input_is_native c \<and> v \<noteq> amountIn then Inl ''aerodrome_native_value_mismatch''
      else if \<not> aec_input_is_native c \<and> v \<noteq> 0 then Inl ''aerodrome_native_value_blocked''
      else Inr (s\<lparr>asc_swap_call := Some call\<rparr>))"

definition see_approval :: "string \<Rightarrow> int \<Rightarrow> int \<Rightarrow> aerodrome_scan \<Rightarrow> base_call \<Rightarrow> string + aerodrome_scan" where
  "see_approval router amountIn v s call =
     (if v \<noteq> 0 then Inl ''aerodrome_native_value_blocked''
      else if asc_approval s \<noteq> None then Inl ''aerodrome_approval_count_invalid''
      else (case decodeExactApproval (call_data call) of
          None \<Rightarrow> Inl ''aerodrome_approval_invalid''
        | Some (spender, amount) \<Rightarrow>
            if to_lower spender \<noteq> router then Inl ''aerodrome_approval_spender_invalid''
            else if amount \<noteq> amountIn then Inl ''aerodrome_approval_not_exact''
            else Inr (s\<lparr>asc_approval := Some (spender, amount), asc_spenders := set_add spender (asc_spenders s)\<rparr>)))"

definition see_call :: "aerodrome_context \<Rightarrow> int \<Rightarrow> aerodrome_scan \<Rightarrow> base_call \<Rightarrow> string + aerodrome_scan" where
  "see_call c amountIn s call =
     (let to = call_to call; data = call_data call; router = to_lower (aec_router_address c) in
      case call_value call of
        None \<Rightarrow> Inl ''aerodrome_value_invalid''
      | Some v \<Rightarrow>
          if v < 0 then Inl ''aerodrome_value_invalid''
          else if \<not> ADDRESS to \<or> \<not> HEX_DATA data \<or> length data < 10 then Inl ''aerodrome_call_malformed''
          else if to = router then see_swap c amountIn v s call
          else if aerodrome_input_token c = Some to then see_approval router amountIn v s call
          else Inl ''aerodrome_target_not_allowlisted'')"

section \<open>The calldata\<close>

definition sameLeg :: "route_leg \<Rightarrow> route_leg \<Rightarrow> bool" where
  "sameLeg l r \<longleftrightarrow> to_lower (leg_from l) = to_lower (leg_from r) \<and> to_lower (leg_to l) = to_lower (leg_to r)
     \<and> leg_stable l = leg_stable r \<and> to_lower (leg_factory l) = to_lower (leg_factory r)"

text \<open>The first leg that is not the reviewed one, or goes through another factory.\<close>

fun route_refusal :: "string \<Rightarrow> route_leg list \<Rightarrow> route_leg list \<Rightarrow> string option" where
  "route_refusal factory (l # ls) (r # rs) =
     (if \<not> sameLeg l r then Some ''aerodrome_route_mismatch''
      else if to_lower (leg_factory l) \<noteq> factory then Some ''aerodrome_route_factory_mismatch''
      else route_refusal factory ls rs)"
| "route_refusal factory ls rs = None"

fun connected :: "route_leg list \<Rightarrow> bool" where
  "connected (l # m # ls) \<longleftrightarrow> to_lower (leg_from m) = to_lower (leg_to l) \<and> connected (m # ls)"
| "connected ls \<longleftrightarrow> True"

definition expected_kind :: "aerodrome_context \<Rightarrow> swap_kind" where
  "expected_kind c =
     (if aec_input_is_native c then EthForTokens else if aec_output_is_native c then TokensForEth else TokensForTokens)"

definition calldata_refusal :: "aerodrome_context \<Rightarrow> int \<Rightarrow> int \<Rightarrow> int \<Rightarrow> decoded_swap \<Rightarrow> string option" where
  "calldata_refusal c now amountIn minimumOut d =
     (if dsw_kind d \<noteq> expected_kind c then Some ''aerodrome_swap_function_mismatch''
      else if dsw_amount_in d \<noteq> None \<and> dsw_amount_in d \<noteq> Some amountIn then Some ''aerodrome_amount_mismatch''
      else if to_lower (dsw_to d) \<noteq> to_lower (aec_recipient c) then Some ''aerodrome_recipient_mismatch''
      else if dsw_amount_out_min d < minimumOut then Some ''aerodrome_minimum_output_weakened''
      else if dsw_deadline d * 1000 \<le> now then Some ''aerodrome_deadline_expired''
      else if length (dsw_route d) \<noteq> length (aec_route c) then Some ''aerodrome_route_mismatch''
      else (case route_refusal (to_lower (aec_factory c)) (dsw_route d) (aec_route c) of
          Some code \<Rightarrow> Some code
        | None \<Rightarrow>
            if (case aerodrome_input_token c of Some token \<Rightarrow> to_lower (leg_from (hd (dsw_route d))) \<noteq> token | None \<Rightarrow> False)
            then Some ''aerodrome_route_input_mismatch''
            else if \<not> connected (dsw_route d) then Some ''aerodrome_route_discontinuous'' else None))"

definition aerodrome_semantics_of :: "aerodrome_context \<Rightarrow> int \<Rightarrow> aerodrome_scan \<Rightarrow> decoded_swap \<Rightarrow> aerodrome_semantics" where
  "aerodrome_semantics_of c amountIn s d =
     \<lparr>aes_token_addresses = (case aerodrome_input_token c of Some t \<Rightarrow> [t] | None \<Rightarrow> []) @ map (to_lower \<circ> leg_to) (dsw_route d),
      aes_recipients = [to_lower (aec_recipient c)], aes_spenders = asc_spenders s,
      aes_spend_amount_raw = show_int amountIn, aes_minimum_output_raw = show_int (dsw_amount_out_min d),
      aes_hops = length (dsw_route d),
      aes_curves = map (\<lambda>leg. if leg_stable leg then ''stable'' else ''volatile'') (dsw_route d),
      aes_deadline_unix = show_int (dsw_deadline d)\<rparr>"

section \<open>The guard\<close>

definition aerodrome_checks :: "string list" where
  "aerodrome_checks = [''Base mainnet chain'', ''Pinned router, bound wallet, positive amounts, unexpired quote'',
     ''Decoded calldata: recipient, amounts, minimum output, deadline, route and factory'']"

definition validateAerodromeSwap ::
  "(string \<Rightarrow> int option) \<Rightarrow> chain_arg \<Rightarrow> base_call list \<Rightarrow> aerodrome_context option \<Rightarrow> int \<Rightarrow> aerodrome_semantics guard_result" where
  "validateAerodromeSwap parse chain calls context now =
     (if (case normalizeBaseChain chain of Inl e \<Rightarrow> True | Inr n \<Rightarrow> nch_chain_id n \<noteq> 8453)
      then Refused ''aerodrome_wrong_chain'' []
      else (case context of
          None \<Rightarrow> Refused ''aerodrome_context_missing'' (take 1 aerodrome_checks)
        | Some c \<Rightarrow>
            (case check_aerodrome_context parse c now of
               Inl code \<Rightarrow> Refused code (take 1 aerodrome_checks)
             | Inr (amountIn, minimumOut) \<Rightarrow>
                 if length calls < 1 \<or> length calls > 2 then Refused ''aerodrome_batch_size_invalid'' (take 2 aerodrome_checks)
                 else (case run_steps (see_call c amountIn) no_calls_seen calls of
                     Inl code \<Rightarrow> Refused code (take 2 aerodrome_checks)
                   | Inr s \<Rightarrow>
                       (case asc_swap_call s of
                          None \<Rightarrow> Refused ''aerodrome_router_call_invalid'' (take 2 aerodrome_checks)
                        | Some swapCall \<Rightarrow>
                            if aec_input_is_native c \<and> asc_approval s \<noteq> None
                            then Refused ''aerodrome_approval_unexpected'' (take 2 aerodrome_checks)
                            else if \<not> aec_input_is_native c \<and> asc_approval s = None
                            then Refused ''aerodrome_approval_missing'' (take 2 aerodrome_checks)
                            else (case decodeAerodromeSwapCalldata (opt_or (bcl_data swapCall) '''') of
                                None \<Rightarrow> Refused ''aerodrome_swap_calldata_unreadable'' (take 2 aerodrome_checks)
                              | Some d \<Rightarrow>
                                  (case calldata_refusal c now amountIn minimumOut d of
                                     Some code \<Rightarrow> Refused code (take 2 aerodrome_checks)
                                   | None \<Rightarrow> Allowed aerodrome_checks (aerodrome_semantics_of c amountIn s d))))))))"

end
