(* ===== verification/Aerodrome_Sound.thy ===== *)
theory Aerodrome_Sound
  imports Aerodrome_Guard
begin

text \<open>
  What a batch the Aerodrome guard allows can do to a wallet: every call of it is accounted for,
  and the swap is the reviewed one.
\<close>

section \<open>What a call does\<close>

text \<open>An approval of exactly the amount, to the router only, carrying no value.\<close>

definition approves_exactly :: "string \<Rightarrow> string \<Rightarrow> int \<Rightarrow> base_call \<Rightarrow> bool" where
  "approves_exactly token router amount call \<longleftrightarrow> call_to call = token \<and> call_value call = Some 0
     \<and> (\<exists>spender. decodeExactApproval (call_data call) = Some (spender, amount) \<and> to_lower spender = router)"

definition same_route :: "route_leg list \<Rightarrow> route_leg list \<Rightarrow> bool" where
  "same_route ls rs \<longleftrightarrow> list_all2 sameLeg ls rs"

text \<open>
  Swap calldata that is the reviewed one: the entry point for the kinds of asset, the input amount,
  the wallet's own address, no less than the reviewed minimum, and the reviewed pools one after the
  other, each of the reviewed factory, from the reviewed token.
\<close>

definition calldata_as_reviewed :: "aerodrome_context \<Rightarrow> int \<Rightarrow> int \<Rightarrow> int \<Rightarrow> decoded_swap \<Rightarrow> bool" where
  "calldata_as_reviewed c now amount minimum d \<longleftrightarrow>
     dsw_kind d = expected_kind c
     \<and> (dsw_amount_in d = None \<or> dsw_amount_in d = Some amount)
     \<and> to_lower (dsw_to d) = to_lower (aec_swapper c) \<and> minimum \<le> dsw_amount_out_min d
     \<and> now < dsw_deadline d * 1000 \<and> same_route (dsw_route d) (aec_route c) \<and> connected (dsw_route d)
     \<and> (\<forall>leg \<in> set (dsw_route d). to_lower (leg_factory leg) = to_lower (aec_factory c))
     \<and> (\<forall>token. aerodrome_input_token c = Some token \<longrightarrow> to_lower (leg_from (hd (dsw_route d))) = token)"

text \<open>The reviewed swap, as a call.\<close>

definition swaps_as_reviewed :: "aerodrome_context \<Rightarrow> int \<Rightarrow> int \<Rightarrow> int \<Rightarrow> base_call \<Rightarrow> bool" where
  "swaps_as_reviewed c now amount minimum call \<longleftrightarrow>
     call_to call = AERODROME_BASE_ROUTER
     \<and> call_value call = Some (if aec_input_is_native c then amount else 0)
     \<and> (\<exists>d. decodeAerodromeSwapCalldata (opt_or (bcl_data call) '''') = Some d
          \<and> calldata_as_reviewed c now amount minimum d)"

section \<open>The loop over the calls\<close>

lemma see_call_Inr:
  assumes "see_call c amount s call = Inr t"
  shows "(call_to call = to_lower (aec_router_address c) \<and> asc_swap_call s = None
      \<and> call_value call = Some (if aec_input_is_native c then amount else 0) \<and> t = s\<lparr>asc_swap_call := Some call\<rparr>)
    \<or> (\<exists>token. aerodrome_input_token c = Some token \<and> asc_approval s = None
      \<and> approves_exactly token (to_lower (aec_router_address c)) amount call
      \<and> asc_approval t \<noteq> None \<and> asc_swap_call t = asc_swap_call s)"
  using assms
  by (auto simp: see_call_def Let_def see_swap_def see_approval_def approves_exactly_def
      simp del: not_None_eq split_paired_All split_paired_Ex
      split: option.splits if_splits prod.splits)

lemma seen_calls:
  assumes "run_steps (see_call c amount) no_calls_seen calls = Inr s" and "length calls \<le> 2"
    and "asc_swap_call s = Some swap" and "\<not> aec_input_is_native c \<Longrightarrow> asc_approval s \<noteq> None"
    and "aec_input_is_native c \<Longrightarrow> asc_approval s = None"
  shows "call_to swap = to_lower (aec_router_address c)
    \<and> call_value swap = Some (if aec_input_is_native c then amount else 0)
    \<and> (if aec_input_is_native c then calls = [swap]
       else \<exists>token approval. aerodrome_input_token c = Some token
         \<and> approves_exactly token (to_lower (aec_router_address c)) amount approval
         \<and> (calls = [approval, swap] \<or> calls = [swap, approval]))"
proof -
  from assms(2) consider "calls = []" | a where "calls = [a]" | a b where "calls = [a, b]"
    by (cases calls; cases "tl calls") auto
  then show ?thesis
  proof cases
    case 1
    then show ?thesis using assms(1,3) by (auto simp: no_calls_seen_def)
  next
    case (2 a)
    then have "see_call c amount no_calls_seen a = Inr s" using assms(1) by (simp split: sum.splits)
    from see_call_Inr [OF this] show ?thesis
      using 2 assms(3-5) by (auto simp: no_calls_seen_def)
  next
    case (3 a b)
    then obtain t where t: "see_call c amount no_calls_seen a = Inr t" "see_call c amount t b = Inr s"
      using assms(1) by (auto split: sum.splits)
    have native: "aec_input_is_native c \<Longrightarrow> aerodrome_input_token c = None" by (simp add: aerodrome_input_token_def)
    show ?thesis
      using see_call_Inr [OF t(1)] see_call_Inr [OF t(2)] 3 assms(3-5) native
      by (auto simp: no_calls_seen_def)
  qed
qed

lemma route_refusal_None:
  "route_refusal factory ls rs = None \<Longrightarrow> length ls = length rs
    \<Longrightarrow> same_route ls rs \<and> (\<forall>leg \<in> set ls. to_lower (leg_factory leg) = factory)"
  by (induction factory ls rs rule: route_refusal.induct) (auto simp: same_route_def split: if_splits)

lemma calldata_ok:
  assumes "calldata_refusal c now amount minimum d = None"
    and "to_lower (aec_recipient c) = to_lower (aec_swapper c)"
  shows "calldata_as_reviewed c now amount minimum d"
  using assms
  by (auto simp: calldata_refusal_def calldata_as_reviewed_def split: if_split_asm option.split_asm
      dest: route_refusal_None [THEN conjunct1] route_refusal_None [THEN conjunct2])

text \<open>Only the entry point that takes ether has no input amount.\<close>

lemma decoded_amount_in:
  assumes "decodeAerodromeSwapCalldata data = Some d"
  shows "dsw_amount_in d = None \<longleftrightarrow> dsw_kind d = EthForTokens"
  using assms
  by (auto simp: decodeAerodromeSwapCalldata_def decode_body_def Let_def split: if_split_asm option.split_asm prod.split_asm)

lemma context_ok:
  assumes "check_aerodrome_context parse c now = Inr (amount, minimum)"
  shows "to_lower (aec_router_address c) = AERODROME_BASE_ROUTER \<and> to_lower (aec_recipient c) = to_lower (aec_swapper c)
    \<and> parseAtomic (aec_amount_in_atomic c) = Some amount \<and> parseAtomic (aec_minimum_output_atomic c) = Some minimum
    \<and> 0 < amount \<and> 0 < minimum \<and> (\<exists>expiry. parse (aec_expires_at c) = Some expiry \<and> now < expiry)"
  using assms
  by (auto simp: check_aerodrome_context_def Let_def split: option.splits if_splits)

text \<open>The whole of an allowed batch.\<close>

definition aerodrome_batch_ok :: "aerodrome_context \<Rightarrow> int \<Rightarrow> int \<Rightarrow> int \<Rightarrow> base_call list \<Rightarrow> bool" where
  "aerodrome_batch_ok c now amount minimum calls \<longleftrightarrow>
     (\<exists>swap. swaps_as_reviewed c now amount minimum swap
        \<and> (if aec_input_is_native c then calls = [swap]
           else \<exists>token approval. aerodrome_input_token c = Some token
             \<and> approves_exactly token AERODROME_BASE_ROUTER amount approval
             \<and> (calls = [approval, swap] \<or> calls = [swap, approval])))"

lemma aerodrome_allowed:
  assumes "guard_allows (validateAerodromeSwap parse chain calls (Some c) now)"
  shows "\<exists>amount minimum. parseAtomic (aec_amount_in_atomic c) = Some amount
    \<and> parseAtomic (aec_minimum_output_atomic c) = Some minimum \<and> 0 < amount \<and> 0 < minimum
    \<and> aerodrome_batch_ok c now amount minimum calls"
proof -
  from assms obtain amount minimum s swap d where
    ctx: "check_aerodrome_context parse c now = Inr (amount, minimum)"
    and len: "length calls \<le> 2"
    and run: "run_steps (see_call c amount) no_calls_seen calls = Inr s"
    and swap: "asc_swap_call s = Some swap"
    and app: "aec_input_is_native c \<longrightarrow> asc_approval s = None" "\<not> aec_input_is_native c \<longrightarrow> asc_approval s \<noteq> None"
    and dec: "decodeAerodromeSwapCalldata (opt_or (bcl_data swap) '''') = Some d"
    and ref: "calldata_refusal c now amount minimum d = None"
    by (auto simp: validateAerodromeSwap_def simp del: not_None_eq split_paired_All split_paired_Ex
        split: if_split_asm sum.split_asm option.split_asm prod.split_asm)
  note c = context_ok [OF ctx]
  have d: "calldata_as_reviewed c now amount minimum d" using calldata_ok [OF ref] c by blast
  have seen: "call_to swap = to_lower (aec_router_address c)
    \<and> call_value swap = Some (if aec_input_is_native c then amount else 0)
    \<and> (if aec_input_is_native c then calls = [swap]
       else \<exists>token approval. aerodrome_input_token c = Some token
         \<and> approves_exactly token (to_lower (aec_router_address c)) amount approval
         \<and> (calls = [approval, swap] \<or> calls = [swap, approval]))"
    using app by (intro seen_calls [OF run len swap]) simp_all
  then have "swaps_as_reviewed c now amount minimum swap"
    using c d dec by (auto simp: swaps_as_reviewed_def)
  with seen c have "aerodrome_batch_ok c now amount minimum calls" by (auto simp: aerodrome_batch_ok_def)
  with c show ?thesis by blast
qed

end
