(* ===== verification/Aerodrome_Ready.thy ===== *)
theory Aerodrome_Ready
  imports Aerodrome_Build Aerodrome_Sound
begin

text \<open>
  The two ends of an Aerodrome swap meet: the batch the adapter builds from a reviewed route is one
  the guard allows, though the guard reads only its bytes.
\<close>

section \<open>What the kernel hands to the guard\<close>

text \<open>
  lib/transaction-composer/src/safetyKernel.ts: the context of a built batch, and its calls as the
  guards take them.
\<close>

definition aerodrome_kernel_context :: "build_success \<Rightarrow> string \<Rightarrow> string \<Rightarrow> string \<Rightarrow> aerodrome_context" where
  "aerodrome_kernel_context b amountAtomic reviewedMinimum wallet =
     (let facts = bds_aerodrome b in
      \<lparr>aec_input_token_address = afc_input_token_address facts, aec_input_is_native = afc_input_is_native facts,
       aec_output_is_native = afc_output_is_native facts, aec_amount_in_atomic = amountAtomic,
       aec_minimum_output_atomic = reviewedMinimum, aec_swapper = wallet, aec_recipient = wallet,
       aec_router_address = bds_router_address b, aec_factory = afc_factory facts, aec_route = afc_route facts,
       aec_expires_at = bds_quote_expiry b\<rparr>)"

definition as_base_call :: "build_call \<Rightarrow> base_call" where
  "as_base_call c = \<lparr>bcl_to = bdc_to c, bcl_value = Some (bdc_value c), bcl_data = Some (bdc_data c)\<rparr>"

section \<open>The reviewed route\<close>

definition clean_leg :: "route_leg \<Rightarrow> bool" where
  "clean_leg leg \<longleftrightarrow> ADDRESS (leg_from leg) \<and> ADDRESS (leg_to leg) \<and> ADDRESS (leg_factory leg)"

lemma clean_leg_ok: "clean_leg leg \<Longrightarrow> leg_ok leg \<and> lower_leg leg = leg"
  by (simp add: clean_leg_def leg_ok_def lower_leg_def address_lower)

lemma parsed_leg_clean: "parseAerodromeSourceKeyV1 key = Some leg \<Longrightarrow> clean_leg leg"
  by (auto simp: parseAerodromeSourceKeyV1_def clean_leg_def split: list.splits if_splits)

lemma parsed_legs_clean: "parse_legs keys = Some legs \<Longrightarrow> list_all clean_leg legs \<and> length legs = length keys"
  by (induction keys arbitrary: legs) (auto simp: parsed_leg_clean split: option.splits)

lemma connected_legs: "list_all clean_leg legs \<Longrightarrow> legs_connect legs \<Longrightarrow> connected legs"
  by (induction legs rule: legs_connect.induct) (auto simp: clean_leg_def address_lower)

lemma candidate_route:
  assumes "routeFromCandidateV1 candidate = Some legs"
  shows "legs \<noteq> [] \<and> length legs \<le> AERODROME_MAX_HOPS_V1 \<and> list_all clean_leg legs \<and> connected legs
    \<and> (\<forall>leg \<in> set legs. leg_factory leg = leg_factory (hd legs))"
  using assms parsed_legs_clean [of "rcd_source_keys candidate"]
  by (auto simp: routeFromCandidateV1_def Let_def list_ex_iff connected_legs split: if_splits option.splits)

lemma clean_route_lower: "list_all clean_leg legs \<Longrightarrow> map lower_leg legs = legs \<and> list_all leg_ok legs"
  by (induction legs) (auto simp: clean_leg_ok)

lemma same_route_refl: "list_all clean_leg legs \<Longrightarrow> \<forall>leg \<in> set legs. leg_factory leg = f \<Longrightarrow> ADDRESS f
   \<Longrightarrow> route_refusal f legs legs = None"
  by (induction legs) (auto simp: sameLeg_def address_lower)

text \<open>A leg survives the source key it is kept in.\<close>

lemma address_no_colon: "ADDRESS a \<Longrightarrow> CHR '':'' \<notin> set a"
proof
  assume a: "ADDRESS a" "CHR '':'' \<in> set a"
  then have "a = ''0x'' @ drop 2 a" by (intro prefixed) (simp add: ADDRESS_def)
  then have "set a = insert (CHR ''0'') (insert (CHR ''x'') (set (drop 2 a)))" by (metis list.simps(15) append_Cons append_Nil)
  with a have "CHR '':'' \<in> set (drop 2 a)" by auto
  with a(1) have "hex_lower (CHR '':'')" by (auto simp: ADDRESS_def list_all_iff)
  then show False by (simp add: hex_lower_def digit_value_def)
qed

lemma key_is_read:
  assumes "clean_leg leg"
  shows "parseAerodromeSourceKeyV1 (aerodromeSourceKeyV1 leg) = Some leg"
proof -
  have c: "CHR '':'' \<notin> set (leg_factory leg)" "CHR '':'' \<notin> set (leg_from leg)" "CHR '':'' \<notin> set (leg_to leg)"
    using assms by (simp_all add: clean_leg_def address_no_colon)
  have "split_on (CHR '':'') (aerodromeSourceKeyV1 leg)
    = [''aerodrome'', leg_factory leg, leg_from leg, leg_to leg, if leg_stable leg then ''stable'' else ''volatile'']"
    using c by (simp add: aerodromeSourceKeyV1_def split_on_append)
  then show ?thesis using assms by (simp add: parseAerodromeSourceKeyV1_def clean_leg_def)
qed

section \<open>What a built batch consists of\<close>

definition kind_of :: "bool \<Rightarrow> bool \<Rightarrow> swap_kind" where
  "kind_of inputIsNative outputIsNative =
     (if inputIsNative then EthForTokens else if outputIsNative then TokensForEth else TokensForTokens)"

lemma swap_calldata_kind: "swap_calldata keccak n k args = encodeSwap keccak (kind_of n k) args"
  by (simp add: swap_calldata_def encodeSwap_def kind_of_def)

text \<open>Everything a success of the adapter rests on.\<close>

definition built_from ::
  "language \<Rightarrow> build_input \<Rightarrow> build_success \<Rightarrow> route_candidate \<Rightarrow> string \<Rightarrow> int \<Rightarrow> int \<Rightarrow> bool \<Rightarrow> bool \<Rightarrow> route_leg list \<Rightarrow> string \<Rightarrow> bool" where
  "built_from l i b reviewed token amount minimum native out route data \<longleftrightarrow>
     bdi_reviewed i = Some reviewed \<and> 0 < amount
     \<and> amount = int (digits_value 10 (tam_amount_atomic (rin_amount (bdi_intent i))))
     \<and> int (digits_value 10 (tam_amount_atomic (rcd_minimum_output reviewed))) \<le> minimum
     \<and> tam_amount_atomic (bds_minimum_output b) = show_int minimum
     \<and> routeFromCandidateV1 reviewed = Some route \<and> leg_from (hd route) = token
     \<and> to_lower (afc_factory (bds_aerodrome b)) = to_lower (leg_factory (hd route))
     \<and> afc_route (bds_aerodrome b) = route
     \<and> afc_input_is_native (bds_aerodrome b) = native \<and> afc_output_is_native (bds_aerodrome b) = out
     \<and> afc_input_token_address (bds_aerodrome b) = (if native then None else Some token)
     \<and> bds_router_address b = AERODROME_ROUTER_V1 \<and> bds_quote_expiry b = lng_iso l (bdi_now i + BUILD_TTL_MS)
     \<and> (\<exists>expiry. lng_parse l (bds_quote_expiry b) = Some expiry
          \<and> encodeSwap (lng_keccak l) (kind_of native out) \<lparr>sen_amount_in = amount, sen_amount_out_min = minimum,
              sen_routes = route, sen_to = bdi_wallet_address i, sen_deadline = expiry div 1000\<rparr> = Inr data)
     \<and> (if native then bds_calls b = [\<lparr>bdc_to = AERODROME_ROUTER_V1, bdc_value = show_int amount, bdc_data = data\<rparr>]
        else \<exists>approve. encodeExactApproveV1 (lng_keccak l) AERODROME_ROUTER_V1 amount = Inr approve
          \<and> bds_calls b = [\<lparr>bdc_to = token, bdc_value = ''0'', bdc_data = approve\<rparr>,
              \<lparr>bdc_to = AERODROME_ROUTER_V1, bdc_value = ''0'', bdc_data = data\<rparr>])"

lemma build_calls_parts:
  assumes "build_calls l reader i fromAsset toAsset token amount minimum route expiry = Inr (Inr (calls, allowance))"
  shows "\<exists>t data. lng_parse l expiry = Some t
    \<and> swap_calldata (lng_keccak l) (asr_kind fromAsset = NativeKind) (asr_kind toAsset = NativeKind)
        \<lparr>sen_amount_in = amount, sen_amount_out_min = minimum, sen_routes = route,
         sen_to = bdi_wallet_address i, sen_deadline = t div 1000\<rparr> = Inr data
    \<and> (if asr_kind fromAsset = NativeKind
       then calls = [\<lparr>bdc_to = AERODROME_ROUTER_V1, bdc_value = show_int amount, bdc_data = data\<rparr>]
       else \<exists>approve. encodeExactApproveV1 (lng_keccak l) AERODROME_ROUTER_V1 amount = Inr approve
         \<and> calls = [\<lparr>bdc_to = token, bdc_value = ''0'', bdc_data = approve\<rparr>,
             \<lparr>bdc_to = AERODROME_ROUTER_V1, bdc_value = ''0'', bdc_data = data\<rparr>])"
  using assms
  by (auto simp: build_calls_def Let_def build_fails_def split: option.splits sum.splits if_splits)

lemma build_parts:
  assumes "build_aerodrome l (Some reader) i = Inr (Inr b)"
  shows "\<exists>reviewed token amount minimum native out route data.
    built_from l i b reviewed token amount minimum native out route data"
proof -
  from assms obtain fromAsset toAsset token reviewed route factory amount expected expectedOutput minimumOutput minimum calls allowance where
    r: "reviewed_route i = Inr (fromAsset, toAsset, token, reviewed, route)"
    and f: "fresh_reads reader (bdi_intent i) route = Inr (factory, amount, expected)"
    and a: "build_amounts (bdi_intent i) toAsset reviewed expected = Inr (Inr (expectedOutput, minimumOutput, minimum))"
    and c: "build_calls l reader i fromAsset toAsset token amount minimum route (lng_iso l (bdi_now i + BUILD_TTL_MS))
      = Inr (Inr (calls, allowance))"
    and b: "b = \<lparr>bds_router_address = AERODROME_ROUTER_V1, bds_calls = calls, bds_quote_expiry = lng_iso l (bdi_now i + BUILD_TTL_MS),
       bds_expected_output = expectedOutput, bds_minimum_output = minimumOutput,
       bds_aerodrome = \<lparr>afc_route = route, afc_factory = factory, afc_observed_allowance = allowance,
         afc_input_is_native = (asr_kind fromAsset = NativeKind), afc_output_is_native = (asr_kind toAsset = NativeKind),
         afc_input_token_address = (if asr_kind fromAsset = NativeKind then None else Some token)\<rparr>\<rparr>"
    by (auto simp: build_aerodrome_def Let_def split: sum.splits prod.splits)
  have rr: "bdi_reviewed i = Some reviewed" "routeFromCandidateV1 reviewed = Some route" "leg_from (hd route) = token"
    using r by (auto simp: reviewed_route_def build_fails_def Let_def split: if_splits option.splits)
  have ff: "to_lower factory = to_lower (leg_factory (hd route))" "0 < amount"
      "amount = int (digits_value 10 (tam_amount_atomic (rin_amount (bdi_intent i))))"
    using f by (auto simp: fresh_reads_def build_fails_def Let_def split: if_splits sum.splits rpc_reason.splits)
  have aa: "int (digits_value 10 (tam_amount_atomic (rcd_minimum_output reviewed))) \<le> minimum"
      "tam_amount_atomic minimumOutput = show_int minimum"
    using a by (auto simp: build_amounts_def build_fails_def Let_def split: if_splits option.splits)
  from build_calls_parts [OF c] show ?thesis
    using rr ff aa unfolding b built_from_def swap_calldata_kind by (fastforce split: if_splits)
qed

section \<open>The guard on a built batch\<close>

text \<open>What the packages and the language are relied on for.\<close>

definition language_ok :: "language \<Rightarrow> bool" where
  "language_ok l \<longleftrightarrow> keccak_ok (lng_keccak l)
     \<and> (\<forall>t. 0 \<le> t \<and> t \<le> 8640000000000000 \<longrightarrow> lng_parse l (lng_iso l t) = Some t)"

text \<open>A request whose amounts fit the ABI, by a wallet that is an address, whose input is not the router itself.\<close>

definition buildable :: "build_input \<Rightarrow> build_success \<Rightarrow> string \<Rightarrow> bool" where
  "buildable i b minimum \<longleftrightarrow> address_schema (bdi_wallet_address i)
     \<and> 0 \<le> bdi_now i \<and> bdi_now i + BUILD_TTL_MS \<le> 8640000000000000
     \<and> plain_decimal (tam_amount_atomic (rin_amount (bdi_intent i)))
     \<and> digits_value 10 (tam_amount_atomic (rin_amount (bdi_intent i))) < 2 ^ 256
     \<and> plain_decimal minimum \<and> 0 < digits_value 10 minimum
     \<and> digits_value 10 (tam_amount_atomic (bds_minimum_output b)) < 2 ^ 256
     \<and> afc_input_token_address (bds_aerodrome b) \<noteq> Some AERODROME_ROUTER_V1"

lemma router_address: "ADDRESS AERODROME_ROUTER_V1"
  by (simp add: ADDRESS_def AERODROME_ROUTER_V1_def hex_lower_def digit_value_def char_lower_def)

lemma router_lower: "to_lower AERODROME_ROUTER_V1 = AERODROME_BASE_ROUTER"
  using address_lower [OF router_address] by (simp add: AERODROME_ROUTER_V1_def AERODROME_BASE_ROUTER_def)

text \<open>A batch about to be signed: what it was built from and what is assumed of the request.\<close>

definition ready ::
  "language \<Rightarrow> build_input \<Rightarrow> build_success \<Rightarrow> route_candidate \<Rightarrow> string \<Rightarrow> int \<Rightarrow> int \<Rightarrow> bool \<Rightarrow> bool \<Rightarrow> route_leg list \<Rightarrow> string \<Rightarrow> bool" where
  "ready l i b reviewed token amount minimum native out route data \<longleftrightarrow>
     language_ok l \<and> built_from l i b reviewed token amount minimum native out route data
     \<and> buildable i b (tam_amount_atomic (rcd_minimum_output reviewed))"

definition ready_context :: "build_input \<Rightarrow> build_success \<Rightarrow> route_candidate \<Rightarrow> aerodrome_context" where
  "ready_context i b reviewed = aerodrome_kernel_context b (tam_amount_atomic (rin_amount (bdi_intent i)))
     (tam_amount_atomic (rcd_minimum_output reviewed)) (bdi_wallet_address i)"

lemma ready_route:
  assumes "ready l i b reviewed token amount minimum native out route data"
  defines "f \<equiv> to_lower (afc_factory (bds_aerodrome b))"
  shows "route \<noteq> [] \<and> length route \<le> AERODROME_MAX_HOPS \<and> list_all clean_leg route \<and> connected route
    \<and> (\<forall>leg \<in> set route. leg_factory leg = f) \<and> ADDRESS f \<and> to_lower f = f
    \<and> leg_from (hd route) = token \<and> ADDRESS token \<and> to_lower token = token"
proof -
  have b: "leg_from (hd route) = token" "f = to_lower (leg_factory (hd route))" "routeFromCandidateV1 reviewed = Some route"
    using assms by (simp_all add: ready_def built_from_def)
  note c = candidate_route [OF b(3)]
  then have "clean_leg (hd route)" by (cases route) simp_all
  then have h: "ADDRESS (leg_factory (hd route))" "f = leg_factory (hd route)" "ADDRESS token"
    using b by (simp_all add: clean_leg_def address_lower)
  have g: "\<forall>leg \<in> set route. leg_factory leg = f"
  proof
    fix leg
    assume "leg \<in> set route"
    with c have "leg_factory leg = leg_factory (hd route)" by blast
    then show "leg_factory leg = f" by (simp only: h(2))
  qed
  have "route \<noteq> []" "length route \<le> AERODROME_MAX_HOPS_V1" "list_all clean_leg route" "connected route" using c by blast+
  then show ?thesis
    using b(1) g h(1,3) by (simp add: h(2) [symmetric] address_lower AERODROME_MAX_HOPS_def AERODROME_MAX_HOPS_V1_def)
qed

lemma ready_amounts:
  assumes "ready l i b reviewed token amount minimum native out route data"
  shows "0 < amount \<and> amount < 2 ^ 256 \<and> minimum < 2 ^ 256
    \<and> parseAtomic (tam_amount_atomic (rin_amount (bdi_intent i))) = Some amount
    \<and> (\<exists>floor. parseAtomic (tam_amount_atomic (rcd_minimum_output reviewed)) = Some floor \<and> 0 < floor \<and> floor \<le> minimum)"
proof -
  have m: "int (digits_value 10 (tam_amount_atomic (rcd_minimum_output reviewed))) \<le> minimum"
      "tam_amount_atomic (bds_minimum_output b) = show_int minimum"
    using assms by (simp_all add: ready_def built_from_def)
  then have "digits_value 10 (show_int minimum) = nat minimum" by (simp add: show_int_def show_digits_value)
  moreover have "digits_value 10 (show_int minimum) < 2 ^ 256" using assms m(2) by (simp add: ready_def buildable_def)
  ultimately have "nat minimum < 2 ^ 256" by simp
  with m(1) have "minimum < 2 ^ 256" by (simp add: nat_less_iff)
  moreover have "0 < amount \<and> amount = int (digits_value 10 (tam_amount_atomic (rin_amount (bdi_intent i))))
      \<and> digits_value 10 (tam_amount_atomic (rin_amount (bdi_intent i))) < 2 ^ 256"
    using assms by (simp add: ready_def built_from_def buildable_def)
  ultimately show ?thesis using assms m(1) by (simp add: ready_def buildable_def parseAtomic_def)
qed

lemma ready_expiry:
  assumes "ready l i b reviewed token amount minimum native out route data"
  shows "lng_parse l (bds_quote_expiry b) = Some (bdi_now i + BUILD_TTL_MS) \<and> 0 \<le> bdi_now i
    \<and> bdi_now i < (bdi_now i + BUILD_TTL_MS) div 1000 * 1000 \<and> (bdi_now i + BUILD_TTL_MS) div 1000 < 2 ^ 256"
  using assms by (auto simp: ready_def language_ok_def built_from_def buildable_def BUILD_TTL_MS_def)

lemma ready_context_ok:
  assumes "ready l i b reviewed token amount minimum native out route data"
  shows "\<exists>floor. check_aerodrome_context (lng_parse l) (ready_context i b reviewed) (bdi_now i) = Inr (amount, floor)
    \<and> floor \<le> minimum"
proof -
  note r = ready_route [OF assms] and a = ready_amounts [OF assms] and e = ready_expiry [OF assms]
  from a obtain floor where f: "parseAtomic (tam_amount_atomic (rcd_minimum_output reviewed)) = Some floor" "0 < floor" "floor \<le> minimum"
    by blast
  have b: "built_from l i b reviewed token amount minimum native out route data" using assms by (simp add: ready_def)
  have w: "ADDRESS (to_lower (bdi_wallet_address i))" using assms by (simp add: ready_def buildable_def address_schema_lower)
  have g: "\<not> list_ex (\<lambda>leg. to_lower (leg_factory leg) \<noteq> to_lower (afc_factory (bds_aerodrome b))) route"
    using r by (simp add: list_ex_iff)
  have "check_aerodrome_context (lng_parse l) (ready_context i b reviewed) (bdi_now i) = Inr (amount, floor)"
    using b r a e f w g
    by (simp add: check_aerodrome_context_def Let_def ready_context_def aerodrome_kernel_context_def built_from_def
        router_lower aerodrome_input_token_def clean_leg_def BUILD_TTL_MS_def)
  with f(3) show ?thesis by blast
qed

lemma ready_decodes:
  assumes "ready l i b reviewed token amount minimum native out route data"
  shows "decodeAerodromeSwapCalldata data = Some \<lparr>dsw_kind = kind_of native out,
      dsw_amount_in = (if kind_of native out = EthForTokens then None else Some amount), dsw_amount_out_min = minimum,
      dsw_route = route, dsw_to = to_lower (bdi_wallet_address i), dsw_deadline = (bdi_now i + BUILD_TTL_MS) div 1000\<rparr>"
proof -
  note r = ready_route [OF assms] and a = ready_amounts [OF assms] and e = ready_expiry [OF assms]
  let ?args = "\<lparr>sen_amount_in = amount, sen_amount_out_min = minimum, sen_routes = route,
      sen_to = bdi_wallet_address i, sen_deadline = (bdi_now i + BUILD_TTL_MS) div 1000\<rparr>"
  have "keccak_ok (lng_keccak l)" using assms by (simp add: ready_def language_ok_def)
  moreover have "encodable ?args"
    using a e r clean_route_lower [of route] assms
    by (simp add: encodable_def ready_def buildable_def address_schema_lower)
  moreover have "encodeSwap (lng_keccak l) (kind_of native out) ?args = Inr data"
    using assms e by (auto simp: ready_def built_from_def)
  ultimately show ?thesis
    using encoded_is_decoded [of "lng_keccak l" ?args "kind_of native out" data] r clean_route_lower [of route] by simp
qed

lemma ready_context_is:
  assumes "ready l i b reviewed token amount minimum native out route data"
  shows "ready_context i b reviewed = \<lparr>aec_input_token_address = (if native then None else Some token),
      aec_input_is_native = native, aec_output_is_native = out,
      aec_amount_in_atomic = tam_amount_atomic (rin_amount (bdi_intent i)),
      aec_minimum_output_atomic = tam_amount_atomic (rcd_minimum_output reviewed),
      aec_swapper = bdi_wallet_address i, aec_recipient = bdi_wallet_address i, aec_router_address = AERODROME_ROUTER_V1,
      aec_factory = afc_factory (bds_aerodrome b), aec_route = route, aec_expires_at = bds_quote_expiry b\<rparr>"
  using assms by (simp add: ready_def built_from_def ready_context_def aerodrome_kernel_context_def)

lemma ready_calldata_ok:
  assumes "ready l i b reviewed token amount minimum native out route data"
    and "decodeAerodromeSwapCalldata data = Some d" and "floor \<le> minimum"
  shows "calldata_refusal (ready_context i b reviewed) (bdi_now i) amount floor d = None"
proof -
  note r = ready_route [OF assms(1)] and e = ready_expiry [OF assms(1)]
  have d: "d = \<lparr>dsw_kind = kind_of native out,
      dsw_amount_in = (if kind_of native out = EthForTokens then None else Some amount), dsw_amount_out_min = minimum,
      dsw_route = route, dsw_to = to_lower (bdi_wallet_address i), dsw_deadline = (bdi_now i + BUILD_TTL_MS) div 1000\<rparr>"
    using ready_decodes [OF assms(1)] assms(2) by simp
  have "route_refusal (to_lower (afc_factory (bds_aerodrome b))) route route = None"
    using r by (intro same_route_refl) simp_all
  then show ?thesis
    using r e assms(3)
    by (simp add: calldata_refusal_def ready_context_is [OF assms(1)] d expected_kind_def kind_of_def aerodrome_input_token_def)
qed

section \<open>Its calls\<close>

lemma zero_text: "js_bigint ''0'' = Some 0"
  using js_bigint_show [of 0] by (simp add: show_int_def show_digits.simps digit_char_0)

lemma ready_sees_swap:
  assumes "ready l i b reviewed token amount minimum native out route data"
    and "asc_swap_call s = None"
    and "call = as_base_call \<lparr>bdc_to = AERODROME_ROUTER_V1, bdc_value = (if native then show_int amount else ''0''), bdc_data = data\<rparr>"
  shows "see_call (ready_context i b reviewed) amount s call = Inr (s\<lparr>asc_swap_call := Some call\<rparr>)"
proof -
  have d: "HEX_DATA (to_lower data)" "10 \<le> length data" using decoded_is_hex [OF ready_decodes [OF assms(1)]] by blast+
  have a: "0 \<le> amount" using ready_amounts [OF assms(1)] by simp
  then have v: "js_bigint (show_int amount) = Some amount" by (rule js_bigint_show)
  have n: "show_int amount \<noteq> ''''" by (simp add: show_int_def)
  have "data \<noteq> ''''" using d(2) by auto
  then have call: "call_to call = AERODROME_BASE_ROUTER" "call_data call = to_lower data"
      "call_value call = Some (if native then amount else 0)"
    using v n zero_text router_lower
    by (simp_all add: assms(3) as_base_call_def call_to_def call_data_def call_value_def opt_or_def or_else_def)
  have "ADDRESS AERODROME_BASE_ROUTER" using router_address router_lower address_lower by metis
  then show ?thesis
    using assms(2) router_lower a d call by (simp add: see_call_def see_swap_def ready_context_is [OF assms(1)])
qed

lemma ready_sees_approval:
  assumes "ready l i b reviewed token amount minimum False out route data"
    and "encodeExactApproveV1 (lng_keccak l) AERODROME_ROUTER_V1 amount = Inr approve"
  shows "\<exists>s. see_call (ready_context i b reviewed) amount no_calls_seen
      (as_base_call \<lparr>bdc_to = token, bdc_value = ''0'', bdc_data = approve\<rparr>) = Inr s
    \<and> asc_swap_call s = None \<and> asc_approval s \<noteq> None"
proof -
  note r = ready_route [OF assms(1)]
  have k: "keccak_ok (lng_keccak l)" "token \<noteq> AERODROME_ROUTER_V1"
    using assms(1) by (auto simp: ready_def language_ok_def buildable_def built_from_def)
  have d: "decodeExactApproval approve = Some (AERODROME_BASE_ROUTER, amount) \<and> to_lower approve = approve
      \<and> HEX_DATA approve \<and> 10 \<le> length approve"
    using approval_is_decoded [OF k(1) _ _ assms(2)] ready_amounts [OF assms(1)] router_address router_lower
    by (simp add: address_lower)
  have "approve \<noteq> ''''" "AERODROME_ROUTER_V1 = AERODROME_BASE_ROUTER" "to_lower AERODROME_BASE_ROUTER = AERODROME_BASE_ROUTER"
    using d router_lower address_lower [OF router_address] by auto
  then show ?thesis
    using r d zero_text k(2)
    by (simp add: see_call_def see_approval_def ready_context_is [OF assms(1)] as_base_call_def call_to_def aerodrome_input_token_def
        call_data_def call_value_def opt_or_def or_else_def no_calls_seen_def)
qed

text \<open>The guard's loop over the calls ends with the swap seen, and an approval exactly when one is due.\<close>

lemma ready_scan:
  assumes r: "ready l i b reviewed token amount minimum native out route data"
  shows "\<exists>s swap. length (bds_calls b) \<in> {1, 2}
    \<and> run_steps (see_call (ready_context i b reviewed) amount) no_calls_seen (map as_base_call (bds_calls b)) = Inr s
    \<and> asc_swap_call s = Some swap \<and> opt_or (bcl_data swap) '''' = data
    \<and> (asc_approval s \<noteq> None \<longleftrightarrow> \<not> native)"
proof (cases native)
  case True
  let ?swap = "as_base_call \<lparr>bdc_to = AERODROME_ROUTER_V1, bdc_value = show_int amount, bdc_data = data\<rparr>"
  have "bds_calls b = [\<lparr>bdc_to = AERODROME_ROUTER_V1, bdc_value = show_int amount, bdc_data = data\<rparr>]"
    using r True by (simp add: ready_def built_from_def)
  moreover have "see_call (ready_context i b reviewed) amount no_calls_seen ?swap = Inr (no_calls_seen\<lparr>asc_swap_call := Some ?swap\<rparr>)"
    by (rule ready_sees_swap [OF r]) (simp_all add: no_calls_seen_def True)
  ultimately show ?thesis
    using True by (simp add: no_calls_seen_def) (simp add: as_base_call_def opt_or_def or_else_def)
next
  case False
  let ?swap = "as_base_call \<lparr>bdc_to = AERODROME_ROUTER_V1, bdc_value = ''0'', bdc_data = data\<rparr>"
  obtain approve where e: "encodeExactApproveV1 (lng_keccak l) AERODROME_ROUTER_V1 amount = Inr approve"
    and calls: "bds_calls b = [\<lparr>bdc_to = token, bdc_value = ''0'', bdc_data = approve\<rparr>,
        \<lparr>bdc_to = AERODROME_ROUTER_V1, bdc_value = ''0'', bdc_data = data\<rparr>]"
    using r False by (auto simp: ready_def built_from_def)
  have r': "ready l i b reviewed token amount minimum False out route data" using r False by simp
  obtain s where s: "see_call (ready_context i b reviewed) amount no_calls_seen
      (as_base_call \<lparr>bdc_to = token, bdc_value = ''0'', bdc_data = approve\<rparr>) = Inr s"
      "asc_swap_call s = None" "asc_approval s \<noteq> None"
    using ready_sees_approval [OF r' e] by blast
  have "see_call (ready_context i b reviewed) amount s ?swap = Inr (s\<lparr>asc_swap_call := Some ?swap\<rparr>)"
    by (rule ready_sees_swap [OF r' s(2)]) simp
  then show ?thesis
    using False s calls by (simp add: as_base_call_def opt_or_def or_else_def)
qed

lemma built_is_allowed:
  assumes language: "language_ok l" and built: "build_aerodrome l (Some reader) i = Inr (Inr b)"
    and reviewed: "bdi_reviewed i = Some reviewed" and fits: "buildable i b (tam_amount_atomic (rcd_minimum_output reviewed))"
  shows "guard_allows (validateAerodromeSwap (lng_parse l) (ChainNumber 8453) (map as_base_call (bds_calls b))
    (Some (ready_context i b reviewed)) (bdi_now i))"
proof -
  obtain token amount minimum native out route data where
    r: "ready l i b reviewed token amount minimum native out route data"
    using build_parts [OF built] language reviewed fits by (auto simp: ready_def built_from_def)
  obtain floor where c: "check_aerodrome_context (lng_parse l) (ready_context i b reviewed) (bdi_now i) = Inr (amount, floor)"
      "floor \<le> minimum"
    using ready_context_ok [OF r] by blast
  obtain s swap where s: "length (bds_calls b) \<in> {1, 2}"
      "run_steps (see_call (ready_context i b reviewed) amount) no_calls_seen (map as_base_call (bds_calls b)) = Inr s"
      "asc_swap_call s = Some swap" "opt_or (bcl_data swap) '''' = data" "asc_approval s \<noteq> None \<longleftrightarrow> \<not> native"
    using ready_scan [OF r] by blast
  obtain d where d: "decodeAerodromeSwapCalldata data = Some d" using ready_decodes [OF r] by blast
  have chain: "normalizeBaseChain (ChainNumber 8453) = Inr \<lparr>nch_chain_id = 8453, nch_caip2 = ''eip155:8453'',
      nch_hex_chain_id = ''0x2105'', nch_mcp_chain = ''base'', nch_send_calls_tool = ''send_calls''\<rparr>"
    by (rule base_mainnet)
  show ?thesis
    using c s d ready_calldata_ok [OF r d c(2)] chain
    by (auto simp: validateAerodromeSwap_def ready_context_is [OF r])
qed

end
