(* ===== verification/Partner_Guards.thy ===== *)
theory Partner_Guards
  imports Swap_Calls Aerodrome_Calldata
begin

text \<open>
  The guards of the two batches of exactly one approval and one swap:
  lib/security/src/o1Guard.ts and lib/security/src/hydrexGuard.ts. The ABI decoder they read the
  calldata with belongs to a package and is a parameter; a decoding that throws is no value.
\<close>

datatype erc20_call = Erc20Approve string int | Erc20Transfer string int | Erc20Other

record o1_leg =
  o1l_token_in :: string
  o1l_token_out :: string
  o1l_pool :: string

record o1_swap =
  o1s_route :: "o1_leg list"
  o1s_settlement_token :: string
  o1s_amount_in :: int
  o1s_amount_out_min :: int

record hydrex_swap =
  hys_router :: string
  hys_input_asset :: string
  hys_output_asset :: string
  hys_input_amount :: int
  hys_min_output_amount :: int
  hys_call_data :: string
  hys_recipient :: string
  hys_origin :: string
  hys_referral :: string
  hys_referral_fee_bps :: int

record abi_decoder =
  abi_erc20 :: "string \<Rightarrow> erc20_call option"
  abi_o1 :: "string \<Rightarrow> o1_swap option"
  abi_hydrex :: "string \<Rightarrow> (hydrex_swap list \<times> int) option"

section \<open>What both share\<close>

text \<open>\<open>BigInt(String(call.value ?? '0'))\<close> and \<open>String(call.data).toLowerCase()\<close>\<close>

definition nullish_value :: "base_call \<Rightarrow> int option" where
  "nullish_value call = js_bigint (case bcl_value call of Some v \<Rightarrow> v | None \<Rightarrow> ''0'')"

definition data_text :: "base_call \<Rightarrow> string" where
  "data_text call = to_lower (case bcl_data call of Some d \<Rightarrow> d | None \<Rightarrow> ''undefined'')"

text \<open>A positive amount in plain decimal text.\<close>

definition positive_atomic :: "string \<Rightarrow> int option" where
  "positive_atomic s = (case parseAtomic s of Some n \<Rightarrow> if n > 0 then Some n else None | None \<Rightarrow> None)"

definition partner_chain_ok :: "chain_arg \<Rightarrow> bool" where
  "partner_chain_ok chain = (case normalizeBaseChain chain of Inl e \<Rightarrow> False | Inr n \<Rightarrow> nch_chain_id n = 8453)"

section \<open>o1.exchange\<close>

definition O1_BASE_ROUTER_PROXY :: string where
  "O1_BASE_ROUTER_PROXY = ''0x7293d41c28e5fc2292e62d26fec60e22a145d1a5''"

definition O1_MAX_HOPS :: nat where
  "O1_MAX_HOPS = 8"

record o1_context =
  o1c_input_token_address :: string
  o1c_output_token_address :: string
  o1c_amount_in_atomic :: string
  o1c_minimum_output_atomic :: string
  o1c_swapper :: string
  o1c_router_address :: string
  o1c_expires_at :: string

record partner_semantics =
  pts_token_addresses :: "string list"
  pts_recipients :: "string list"
  pts_spenders :: "string list"
  pts_spend_amount_raw :: string
  pts_minimum_output_raw :: string

definition o1_context_valid :: "o1_context \<Rightarrow> bool" where
  "o1_context_valid c \<longleftrightarrow>
     (let inputToken = to_lower (o1c_input_token_address c); outputToken = to_lower (o1c_output_token_address c) in
      to_lower (o1c_router_address c) = O1_BASE_ROUTER_PROXY \<and> ADDRESS inputToken \<and> ADDRESS outputToken
      \<and> inputToken \<noteq> outputToken \<and> ADDRESS (to_lower (o1c_swapper c)))"

text \<open>The first refusal of an approval: its target, its calldata, its spender and amount.\<close>

definition approval_refusal ::
  "abi_decoder \<Rightarrow> string \<Rightarrow> string \<Rightarrow> string \<Rightarrow> int \<Rightarrow> int \<Rightarrow> base_call \<Rightarrow> string option" where
  "approval_refusal abi name inputToken router amountIn v call =
     (if to_lower (bcl_to call) \<noteq> inputToken \<or> v \<noteq> 0 then Some (name @ ''_approval_target_invalid'')
      else (case abi_erc20 abi (data_text call) of
          Some (Erc20Approve spender amount) \<Rightarrow>
            if to_lower spender \<noteq> router \<or> amount \<noteq> amountIn then Some (name @ ''_approval_not_exact'') else None
        | _ \<Rightarrow> Some (name @ ''_approval_invalid'')))"

definition o1_bounds_ok :: "o1_context \<Rightarrow> int \<Rightarrow> int \<Rightarrow> o1_swap \<Rightarrow> bool" where
  "o1_bounds_ok c amountIn reviewedMinimum d \<longleftrightarrow>
     o1s_route d \<noteq> [] \<and> length (o1s_route d) \<le> O1_MAX_HOPS
     \<and> (to_lower (o1s_settlement_token d) = to_lower (o1c_input_token_address c)
        \<or> to_lower (o1s_settlement_token d) = to_lower (o1c_output_token_address c))
     \<and> o1s_amount_in d = amountIn \<and> reviewedMinimum \<le> o1s_amount_out_min d"

definition o1_leg_ok :: "o1_context \<Rightarrow> o1_leg list \<Rightarrow> nat \<Rightarrow> bool" where
  "o1_leg_ok c route index \<longleftrightarrow>
     (let leg = route ! index; from = to_lower (o1l_token_in leg); to = to_lower (o1l_token_out leg) in
      to_lower (o1l_pool leg) \<noteq> ZERO_ADDRESS
      \<and> (index = 0 \<longrightarrow> from = to_lower (o1c_input_token_address c))
      \<and> (index = length route - 1 \<longrightarrow> to = to_lower (o1c_output_token_address c))
      \<and> (index > 0 \<longrightarrow> from = to_lower (o1l_token_out (route ! (index - 1)))))"

definition o1_checks :: "string list" where
  "o1_checks = [''Base mainnet chain'', ''Exact input-token approval to pinned o1 router'',
     ''Decoded route, exact input, reviewed minimum, and pinned router'']"

definition validateO1Swap ::
  "abi_decoder \<Rightarrow> (string \<Rightarrow> int option) \<Rightarrow> chain_arg \<Rightarrow> base_call list \<Rightarrow> o1_context option \<Rightarrow> int \<Rightarrow> partner_semantics guard_result" where
  "validateO1Swap abi parse chain calls context now =
     (if \<not> partner_chain_ok chain then Refused ''o1_wrong_chain'' []
      else (case context of
          None \<Rightarrow> Refused ''o1_context_missing'' (take 1 o1_checks)
        | Some c \<Rightarrow>
            let router = to_lower (o1c_router_address c); inputToken = to_lower (o1c_input_token_address c);
                outputToken = to_lower (o1c_output_token_address c); refuse = (\<lambda>code n. Refused code (take n o1_checks)) in
            if \<not> o1_context_valid c then refuse ''o1_context_invalid'' 1
            else (case (positive_atomic (o1c_amount_in_atomic c), positive_atomic (o1c_minimum_output_atomic c)) of
                (Some amountIn, Some reviewedMinimum) \<Rightarrow>
                  if (case parse (o1c_expires_at c) of Some expiry \<Rightarrow> expiry \<le> now | None \<Rightarrow> True) then refuse ''o1_quote_expired'' 1
                  else (case calls of
                      [approvalCall, swapCall] \<Rightarrow>
                        (case (nullish_value approvalCall, nullish_value swapCall) of
                           (Some approvalValue, Some swapValue) \<Rightarrow>
                             (case approval_refusal abi ''o1'' inputToken router amountIn approvalValue approvalCall of
                                Some code \<Rightarrow> refuse code 1
                              | None \<Rightarrow>
                                  if to_lower (bcl_to swapCall) \<noteq> router \<or> swapValue \<noteq> 0 then refuse ''o1_swap_target_invalid'' 2
                                  else (case abi_o1 abi (data_text swapCall) of
                                      None \<Rightarrow> refuse ''o1_swap_calldata_invalid'' 2
                                    | Some d \<Rightarrow>
                                        if \<not> o1_bounds_ok c amountIn reviewedMinimum d then refuse ''o1_swap_bounds_invalid'' 2
                                        else if \<not> list_all (o1_leg_ok c (o1s_route d)) [0..<length (o1s_route d)]
                                        then refuse ''o1_route_asset_mismatch'' 2
                                        else Allowed o1_checks
                                          \<lparr>pts_token_addresses = [inputToken, outputToken], pts_recipients = [to_lower (o1c_swapper c)],
                                           pts_spenders = [router], pts_spend_amount_raw = show_int amountIn,
                                           pts_minimum_output_raw = show_int (o1s_amount_out_min d)\<rparr>))
                         | _ \<Rightarrow> refuse ''o1_value_invalid'' 1)
                    | _ \<Rightarrow> refuse ''o1_batch_size_invalid'' 1)
              | _ \<Rightarrow> refuse ''o1_amount_invalid'' 1)))"

section \<open>Hydrex\<close>

definition HYDREX_BASE_ROUTER_PROXY :: string where
  "HYDREX_BASE_ROUTER_PROXY = ''0x599bfa1039c9e22603f15642b711d56be62071f4''"

definition HYDREX_ZEROX_ALLOWANCE_HOLDER :: string where
  "HYDREX_ZEROX_ALLOWANCE_HOLDER = ''0x0000000000001ff3684f28c67538d4d072c22734''"

definition HYDREX_KYBER_META_ROUTER :: string where
  "HYDREX_KYBER_META_ROUTER = ''0x6131b5fae19ea4f9d964eac0408e4408b66337b5''"

record hydrex_context =
  hyc_input_token_address :: string
  hyc_output_token_address :: string
  hyc_amount_in_atomic :: string
  hyc_minimum_output_atomic :: string
  hyc_recipient :: string
  hyc_router_address :: string
  hyc_upstream_router :: string
  hyc_expires_at :: string

definition hydrex_context_valid :: "hydrex_context \<Rightarrow> bool" where
  "hydrex_context_valid c \<longleftrightarrow>
     (let inputToken = to_lower (hyc_input_token_address c); outputToken = to_lower (hyc_output_token_address c) in
      to_lower (hyc_router_address c) = HYDREX_BASE_ROUTER_PROXY
      \<and> to_lower (hyc_upstream_router c) \<in> {HYDREX_ZEROX_ALLOWANCE_HOLDER, HYDREX_KYBER_META_ROUTER}
      \<and> ADDRESS inputToken \<and> ADDRESS outputToken \<and> inputToken \<noteq> outputToken \<and> ADDRESS (to_lower (hyc_recipient c)))"

definition expected_inner_selector :: "string \<Rightarrow> string" where
  "expected_inner_selector upstream =
     (if upstream = HYDREX_ZEROX_ALLOWANCE_HOLDER then ''0x2213bc0b'' else ''0xe21fd0e9'')"

definition hydrex_swap_ok :: "hydrex_context \<Rightarrow> int \<Rightarrow> int \<Rightarrow> int \<Rightarrow> hydrex_swap \<Rightarrow> int \<Rightarrow> bool" where
  "hydrex_swap_ok c amountIn reviewedMinimum expiry s deadline \<longleftrightarrow>
     (let upstream = to_lower (hyc_upstream_router c) in
      to_lower (hys_router s) = upstream
      \<and> to_lower (hys_input_asset s) = to_lower (hyc_input_token_address c)
      \<and> to_lower (hys_output_asset s) = to_lower (hyc_output_token_address c)
      \<and> hys_input_amount s = amountIn \<and> reviewedMinimum \<le> hys_min_output_amount s
      \<and> to_lower (hys_recipient s) = to_lower (hyc_recipient c)
      \<and> to_lower (hys_origin s) = ''hydrex'' \<and> to_lower (hys_referral s) = ZERO_ADDRESS \<and> hys_referral_fee_bps s = 0
      \<and> 10 \<le> length (hys_call_data s) \<and> to_lower (take 10 (hys_call_data s)) = expected_inner_selector upstream
      \<and> deadline * 1000 = expiry)"

definition hydrex_checks :: "string list" where
  "hydrex_checks = [''Base mainnet chain'', ''Exact input-token approval to pinned Hydrex proxy'',
     ''Decoded exact input, reviewed minimum, recipient, deadline, and pinned upstream'']"

definition validateHydrexSwap ::
  "abi_decoder \<Rightarrow> (string \<Rightarrow> int option) \<Rightarrow> chain_arg \<Rightarrow> base_call list \<Rightarrow> hydrex_context option \<Rightarrow> int \<Rightarrow> partner_semantics guard_result" where
  "validateHydrexSwap abi parse chain calls context now =
     (if \<not> partner_chain_ok chain then Refused ''hydrex_wrong_chain'' []
      else (case context of
          None \<Rightarrow> Refused ''hydrex_context_missing'' (take 1 hydrex_checks)
        | Some c \<Rightarrow>
            let router = to_lower (hyc_router_address c); inputToken = to_lower (hyc_input_token_address c);
                outputToken = to_lower (hyc_output_token_address c); refuse = (\<lambda>code n. Refused code (take n hydrex_checks)) in
            if \<not> hydrex_context_valid c then refuse ''hydrex_context_invalid'' 1
            else (case (positive_atomic (hyc_amount_in_atomic c), positive_atomic (hyc_minimum_output_atomic c)) of
                (Some amountIn, Some reviewedMinimum) \<Rightarrow>
                  (case parse (hyc_expires_at c) of
                     None \<Rightarrow> refuse ''hydrex_quote_expired'' 1
                   | Some expiry \<Rightarrow>
                       if expiry \<le> now then refuse ''hydrex_quote_expired'' 1
                       else (case calls of
                           [approvalCall, swapCall] \<Rightarrow>
                             (case (nullish_value approvalCall, nullish_value swapCall) of
                                (Some approvalValue, Some swapValue) \<Rightarrow>
                                  (case approval_refusal abi ''hydrex'' inputToken router amountIn approvalValue approvalCall of
                                     Some code \<Rightarrow> refuse code 1
                                   | None \<Rightarrow>
                                       if to_lower (bcl_to swapCall) \<noteq> router \<or> swapValue \<noteq> 0 then refuse ''hydrex_swap_target_invalid'' 2
                                       else (case abi_hydrex abi (data_text swapCall) of
                                           Some ([s], deadline) \<Rightarrow>
                                             if \<not> hydrex_swap_ok c amountIn reviewedMinimum expiry s deadline
                                             then refuse ''hydrex_swap_bounds_invalid'' 2
                                             else Allowed hydrex_checks
                                               \<lparr>pts_token_addresses = [inputToken, outputToken], pts_recipients = [to_lower (hyc_recipient c)],
                                                pts_spenders = [router], pts_spend_amount_raw = show_int amountIn,
                                                pts_minimum_output_raw = show_int (hys_min_output_amount s)\<rparr>
                                         | _ \<Rightarrow> refuse ''hydrex_swap_calldata_invalid'' 2))
                              | _ \<Rightarrow> refuse ''hydrex_value_invalid'' 1)
                         | _ \<Rightarrow> refuse ''hydrex_batch_size_invalid'' 1))
              | _ \<Rightarrow> refuse ''hydrex_amount_invalid'' 1)))"

section \<open>What an allowed batch is\<close>

text \<open>Exactly one approval, of the amount and to the pinned proxy, then one swap through it.\<close>

definition approval_then_swap :: "abi_decoder \<Rightarrow> string \<Rightarrow> string \<Rightarrow> int \<Rightarrow> base_call list \<Rightarrow> base_call \<Rightarrow> bool" where
  "approval_then_swap abi inputToken router amount calls swap \<longleftrightarrow>
     (\<exists>approval spender. calls = [approval, swap]
        \<and> to_lower (bcl_to approval) = inputToken \<and> nullish_value approval = Some 0
        \<and> abi_erc20 abi (data_text approval) = Some (Erc20Approve spender amount) \<and> to_lower spender = router
        \<and> to_lower (bcl_to swap) = router \<and> nullish_value swap = Some 0)"

lemma approval_ok:
  "approval_refusal abi name token router amount v call = None \<Longrightarrow>
   v = 0 \<and> to_lower (bcl_to call) = token
   \<and> (\<exists>spender. abi_erc20 abi (data_text call) = Some (Erc20Approve spender amount) \<and> to_lower spender = router)"
  by (auto simp: approval_refusal_def split: if_splits option.splits erc20_call.splits)

lemma o1_allowed:
  assumes "guard_allows (validateO1Swap abi parse chain calls (Some c) now)"
  shows "\<exists>amount minimum swap d. positive_atomic (o1c_amount_in_atomic c) = Some amount
    \<and> positive_atomic (o1c_minimum_output_atomic c) = Some minimum
    \<and> approval_then_swap abi (to_lower (o1c_input_token_address c)) O1_BASE_ROUTER_PROXY amount calls swap
    \<and> abi_o1 abi (data_text swap) = Some d \<and> o1_bounds_ok c amount minimum d
    \<and> (\<forall>i < length (o1s_route d). o1_leg_ok c (o1s_route d) i)"
  using assms
  by (auto simp: validateO1Swap_def Let_def approval_then_swap_def o1_context_valid_def list_all_iff
      split: if_split_asm option.split_asm list.split_asm dest!: approval_ok)

lemma hydrex_allowed:
  assumes "guard_allows (validateHydrexSwap abi parse chain calls (Some c) now)"
  shows "\<exists>amount minimum expiry swap s deadline. positive_atomic (hyc_amount_in_atomic c) = Some amount
    \<and> positive_atomic (hyc_minimum_output_atomic c) = Some minimum \<and> parse (hyc_expires_at c) = Some expiry \<and> now < expiry
    \<and> approval_then_swap abi (to_lower (hyc_input_token_address c)) HYDREX_BASE_ROUTER_PROXY amount calls swap
    \<and> abi_hydrex abi (data_text swap) = Some ([s], deadline) \<and> hydrex_swap_ok c amount minimum expiry s deadline"
  using assms
  by (auto simp: validateHydrexSwap_def Let_def approval_then_swap_def hydrex_context_valid_def
      split: if_split_asm option.split_asm list.split_asm dest!: approval_ok)

end
