(* ===== verification/Gift.thy ===== *)
theory Gift
  imports Route_Domain Partner_Guards
begin

text \<open>
  lib/transaction-composer/src/gift.ts: a swap whose output is handed on, in the same batch, to the
  person the giver named. The package's encoder and decoder of ERC-20 calls are parameters; an
  encoding or decoding that throws is no value.
\<close>

record erc20_codec =
  erc_encode_transfer :: "string \<Rightarrow> int \<Rightarrow> string option"
  erc_decode :: "string \<Rightarrow> erc20_call option"

definition PERMIT2_ADDRESS_V1 :: string where
  "PERMIT2_ADDRESS_V1 = ''0x000000000022d473030f116ddee9f6b43ac78ba3''"

record gift_declaration =
  gft_recipient :: string
  gft_amount_atomic :: string

definition encodeGiftTransferV1 :: "erc20_codec \<Rightarrow> string \<Rightarrow> string \<Rightarrow> string result" where
  "encodeGiftTransferV1 codec recipient amountAtomic =
     (case js_bigint amountAtomic of
        None \<Rightarrow> Inl (JsError ''SyntaxError: Cannot convert to a BigInt'')
      | Some amount \<Rightarrow>
          (case erc_encode_transfer codec recipient amount of
             None \<Rightarrow> Inl (JsError ''encodeFunctionData'') | Some data \<Rightarrow> Inr (to_lower data)))"

definition giftTransferCallV1 :: "erc20_codec \<Rightarrow> int \<Rightarrow> asset_ref \<Rightarrow> string \<Rightarrow> string \<Rightarrow> execution_call result" where
  "giftTransferCallV1 codec index token given amountAtomic =
     (case (asr_kind token, asr_address token) of
        (Erc20Kind, Some address) \<Rightarrow>
          if address = '''' then Inl (JsError ''A gift transfer needs an ERC-20 output token'')
          else let recipient = to_lower given in
            bindR (encodeGiftTransferV1 codec recipient amountAtomic) (\<lambda>data.
            Inr \<lparr>exc_index = index, exc_call_type = TransferCall, exc_to = to_lower address, exc_value_wei = ''0'',
                 exc_data = data, exc_asset = Some token, exc_amount_atomic = Some amountAtomic,
                 exc_recipient = Some recipient, exc_spender = None\<rparr>)
      | _ \<Rightarrow> Inl (JsError ''A gift transfer needs an ERC-20 output token''))"

definition is_transfer :: "execution_call \<Rightarrow> bool" where
  "is_transfer call \<longleftrightarrow> exc_call_type call = TransferCall"

definition giftDeclarationFromCallsV1 :: "execution_call list \<Rightarrow> gift_declaration option" where
  "giftDeclarationFromCallsV1 calls =
     (case filter is_transfer calls of
        [call] \<Rightarrow>
          (case (exc_recipient call, exc_amount_atomic call) of
             (Some r, Some a) \<Rightarrow> if r = '''' \<or> a = '''' then None
               else Some \<lparr>gft_recipient = to_lower r, gft_amount_atomic = a\<rparr>
           | _ \<Rightarrow> None)
      | _ \<Rightarrow> None)"

text \<open>\<open>/^[1-9][0-9]*$/\<close>\<close>

definition positive_decimal :: "string \<Rightarrow> bool" where
  "positive_decimal s \<longleftrightarrow> plain_decimal s \<and> s \<noteq> ''0''"

definition last_index :: "execution_call list \<Rightarrow> int" where
  "last_index calls = foldl (\<lambda>m call. max m (exc_index call)) (- 1) calls"

definition gift_reserved :: "route_intent \<Rightarrow> string \<Rightarrow> string \<Rightarrow> string \<Rightarrow> string list" where
  "gift_reserved intent wallet router token =
     map to_lower [ZERO_ADDRESS, PERMIT2_ADDRESS_V1, wallet, router, token,
       (case rin_from_asset intent of Some a \<Rightarrow> (case asr_address a of Some x \<Rightarrow> x | None \<Rightarrow> '''') | None \<Rightarrow> '''')]"

text \<open>The bought token's address, when it can be given.\<close>

definition gift_token :: "route_intent \<Rightarrow> (asset_ref \<times> string) option" where
  "gift_token intent =
     (case rin_to_asset intent of
        Some asset \<Rightarrow>
          if asr_kind asset = Erc20Kind
          then (case asr_address asset of
              Some a \<Rightarrow> if ADDRESS (to_lower a) then Some (asset, to_lower a) else None | None \<Rightarrow> None)
          else None
      | None \<Rightarrow> None)"

text \<open>The bytes of the call: the decoded transfer, and the calldata written again from the declaration.\<close>

definition gift_calldata_refusal :: "erc20_codec \<Rightarrow> string \<Rightarrow> gift_declaration \<Rightarrow> execution_call \<Rightarrow> string option result" where
  "gift_calldata_refusal codec recipient gift call =
     (case erc_decode codec (exc_data call) of
        None \<Rightarrow> Inr (Some ''gift_calldata_invalid'')
      | Some (Erc20Transfer to amount) \<Rightarrow>
          bindR (encodeGiftTransferV1 codec recipient (gft_amount_atomic gift)) (\<lambda>data.
          Inr (if to_lower (exc_data call) \<noteq> data \<or> to_lower to \<noteq> recipient \<or> show_int amount \<noteq> gft_amount_atomic gift
               then Some ''gift_calldata_mismatch'' else None))
      | Some _ \<Rightarrow> Inr (Some ''gift_calldata_mismatch''))"

text \<open>None is a gift that may be sent (or no gift and no transfer); otherwise the refusal.\<close>

definition validateGiftTransferV1 ::
  "erc20_codec \<Rightarrow> execution_call list \<Rightarrow> route_intent \<Rightarrow> string \<Rightarrow> string \<Rightarrow> gift_declaration option \<Rightarrow> string option \<Rightarrow> string option result" where
  "validateGiftTransferV1 codec calls intent wallet router declared minimum =
     (case declared of
        None \<Rightarrow> Inr (if filter is_transfer calls = [] then None else Some ''gift_transfer_undeclared'')
      | Some gift \<Rightarrow>
          (case filter is_transfer calls of
             [call] \<Rightarrow>
               if exc_index call \<noteq> last_index calls then Inr (Some ''gift_transfer_not_last'')
               else (case gift_token intent of
                   None \<Rightarrow> Inr (Some ''gift_output_not_erc20'')
                 | Some (asset, token) \<Rightarrow>
                     let recipient = to_lower (gft_recipient gift) in
                     if to_lower (exc_to call) \<noteq> token \<or> map_option asr_asset_id (exc_asset call) \<noteq> Some (asr_asset_id asset)
                     then Inr (Some ''gift_wrong_token'')
                     else if exc_value_wei call \<noteq> ''0'' then Inr (Some ''gift_carries_value'')
                     else if \<not> ADDRESS recipient \<or> recipient \<in> set (gift_reserved intent wallet router token)
                     then Inr (Some ''gift_recipient_invalid'')
                     else if map_option to_lower (exc_recipient call) \<noteq> Some recipient
                       \<or> exc_amount_atomic call \<noteq> Some (gft_amount_atomic gift)
                     then Inr (Some ''gift_declaration_mismatch'')
                     else if (case minimum of Some m \<Rightarrow> \<not> positive_decimal m \<or> gft_amount_atomic gift \<noteq> m | None \<Rightarrow> True)
                     then Inr (Some ''gift_amount_not_minimum'')
                     else gift_calldata_refusal codec recipient gift call)
           | _ \<Rightarrow> Inr (Some ''gift_transfer_missing'')))"

section \<open>What a gift that passes is\<close>

text \<open>The package's documented behaviour: what it encodes, in lower case, decodes to the same transfer.\<close>

definition codec_ok :: "erc20_codec \<Rightarrow> bool" where
  "codec_ok codec \<longleftrightarrow> (\<forall>recipient amount. ADDRESS recipient \<and> 0 \<le> amount \<and> amount < 2 ^ 256 \<longrightarrow>
     (\<exists>data to. erc_encode_transfer codec recipient amount = Some data
        \<and> erc_decode codec (to_lower data) = Some (Erc20Transfer to amount) \<and> to_lower to = recipient))"

lemma positive_decimal_value:
  "positive_decimal s \<Longrightarrow> js_bigint s = Some (int (digits_value 10 s)) \<and> show_int (int (digits_value 10 s)) = s
    \<and> 0 < digits_value 10 s"
proof -
  assume p: "positive_decimal s"
  then have s: "all_digits 10 s" "show_digits 10 (digits_value 10 s) = s" "s \<noteq> []"
    using plain_decimal_digits [of s] by (auto simp: positive_decimal_def plain_decimal_def)
  have "digits_value 10 s \<noteq> 0"
  proof
    assume z: "digits_value 10 s = 0"
    then have "s = show_digits 10 0" using s(2) by simp
    then show False using p by (simp add: positive_decimal_def show_digits.simps digit_char_0)
  qed
  with s show ?thesis by (simp add: js_bigint_digits show_int_def)
qed

lemma shown_amount: "show_int n = s \<Longrightarrow> positive_decimal s \<Longrightarrow> n = int (digits_value 10 s)"
proof -
  assume s: "show_int n = s" "positive_decimal s"
  have "\<not> n < 0"
  proof
    assume "n < 0"
    then have "CHR ''-'' \<in> set s" using s(1) by (auto simp: show_int_def)
    moreover have "all_digits 10 s" using s(2) plain_decimal_digits by (simp add: positive_decimal_def)
    ultimately show False by (auto simp: all_digits_def list_all_iff digit_value_def)
  qed
  then show ?thesis using s(1) by (auto simp: show_int_def show_digits_value)
qed

text \<open>
  A declared gift that passes is one transfer of the bought token, for exactly the swap's guaranteed
  minimum, to the declared recipient, who is neither the wallet nor a contract of the route.
\<close>

definition gift_exact :: "erc20_codec \<Rightarrow> route_intent \<Rightarrow> string \<Rightarrow> string \<Rightarrow> gift_declaration \<Rightarrow> string \<Rightarrow> execution_call list \<Rightarrow> bool" where
  "gift_exact codec intent wallet router gift minimum calls \<longleftrightarrow>
     (\<exists>call asset token to. filter is_transfer calls = [call] \<and> exc_index call = last_index calls
        \<and> rin_to_asset intent = Some asset \<and> map_option to_lower (asr_address asset) = Some token
        \<and> to_lower (exc_to call) = token \<and> exc_value_wei call = ''0''
        \<and> to_lower (gft_recipient gift) \<notin> {to_lower wallet, to_lower router, token, ZERO_ADDRESS}
        \<and> erc_decode codec (exc_data call) = Some (Erc20Transfer to (int (digits_value 10 minimum)))
        \<and> to_lower to = to_lower (gft_recipient gift))"

lemma gift_ok:
  assumes "validateGiftTransferV1 codec calls intent wallet router (Some gift) minimum = Inr None"
  shows "\<exists>m. minimum = Some m \<and> positive_decimal m \<and> gft_amount_atomic gift = m
    \<and> gift_exact codec intent wallet router gift m calls"
proof -
  from assms obtain call where one: "filter is_transfer calls = [call]"
    by (auto simp: validateGiftTransferV1_def split: list.splits)
  from assms obtain asset token m where
    t: "gift_token intent = Some (asset, token)" and to: "to_lower (exc_to call) = token" and v: "exc_value_wei call = ''0''"
    and l: "exc_index call = last_index calls"
    and r: "to_lower (gft_recipient gift) \<notin> set (gift_reserved intent wallet router token)"
    and m: "minimum = Some m" "positive_decimal m" "gft_amount_atomic gift = m"
    and d: "gift_calldata_refusal codec (to_lower (gft_recipient gift)) gift call = Inr None"
    by (auto simp: validateGiftTransferV1_def one Let_def split: option.split_asm if_split_asm)
  from d obtain to' amount where dec: "erc_decode codec (exc_data call) = Some (Erc20Transfer to' amount)"
      "to_lower to' = to_lower (gft_recipient gift)" "show_int amount = m"
    by (auto simp: gift_calldata_refusal_def m(3) split: option.split_asm erc20_call.split_asm if_split_asm)
  have "amount = int (digits_value 10 m)" by (rule shown_amount [OF dec(3) m(2)])
  moreover have "rin_to_asset intent = Some asset" "map_option to_lower (asr_address asset) = Some token"
    using t by (auto simp: gift_token_def split: option.split_asm if_split_asm)
  moreover have "to_lower ZERO_ADDRESS = ZERO_ADDRESS" by (simp add: ZERO_ADDRESS_def to_lower_def char_lower_def)
  moreover have "to_lower token = token" using to [symmetric] by simp
  ultimately have "gift_exact codec intent wallet router gift m calls"
    using one to v l r dec unfolding gift_exact_def by (auto simp: gift_reserved_def)
  with m show ?thesis by blast
qed

end
