(* ===== verification/Kyber_Guard.thy ===== *)
theory Kyber_Guard
  imports Swap_Calls Aerodrome_Calldata Guarded_Steps
begin

text \<open>
  The guard of KyberSwap batches, lib/security/src/kyberGuard.ts. The router's own calldata is the
  partner's; everything else of the batch, and every unit of native value, is pinned here. The
  dollar figure of the semantics, a floating-point quotient shown to the user, is left out.
\<close>

definition KYBERSWAP_BASE_ROUTER :: string where
  "KYBERSWAP_BASE_ROUTER = ''0x6131b5fae19ea4f9d964eac0408e4408b66337b5''"

record kyber_context =
  kyc_amount_decimal :: string
  kyc_input_asset :: guard_asset
  kyc_output_asset :: guard_asset
  kyc_swapper :: string
  kyc_recipient :: string
  kyc_router_address :: string
  kyc_expires_at :: string

record swap_semantics =
  sms_token_addresses :: "string list"
  sms_recipients :: "string list"
  sms_spenders :: "string list"
  sms_spend_amount_raw :: string
  sms_spend_amount_is_usd :: bool

text \<open>The input side and its amount in base units, or the first refusal.\<close>

definition check_kyber_context ::
  "(string \<Rightarrow> int option) \<Rightarrow> kyber_context option \<Rightarrow> int \<Rightarrow> string + kyber_context \<times> normalized_asset \<times> int" where
  "check_kyber_context parse context now =
     (case (context, normalizeSwapAssetV1 (map_option kyc_input_asset context) [KYBERSWAP_BASE_ROUTER],
            normalizeSwapAssetV1 (map_option kyc_output_asset context) [KYBERSWAP_BASE_ROUTER]) of
        (Some c, Some inputAsset, Some outputAsset) \<Rightarrow>
          let swapper = to_lower (kyc_swapper c); recipient = to_lower (kyc_recipient c) in
          if nas_side inputAsset = nas_side outputAsset then Inl ''kyberswap_context_invalid''
          else if to_lower (kyc_router_address c) \<noteq> KYBERSWAP_BASE_ROUTER then Inl ''kyberswap_router_not_pinned''
          else if \<not> ADDRESS swapper \<or> \<not> ADDRESS recipient \<or> swapper \<noteq> recipient
          then Inl ''kyberswap_wallet_binding_invalid''
          else (case parse (kyc_expires_at c) of
              None \<Rightarrow> Inl ''kyberswap_quote_expired''
            | Some expiry \<Rightarrow>
                if expiry \<le> now then Inl ''kyberswap_quote_expired''
                else (case decimalAmountToRawV1 (kyc_amount_decimal c) (nas_decimals inputAsset) of
                    None \<Rightarrow> Inl ''kyberswap_amount_invalid''
                  | Some amountRaw \<Rightarrow> Inr (c, inputAsset, amountRaw)))
      | _ \<Rightarrow> Inl ''kyberswap_context_invalid'')"

record kyber_scan =
  kys_router_calls :: int
  kys_approval_calls :: int
  kys_attached_value :: int
  kys_spenders :: "string list"

definition kyber_no_calls :: kyber_scan where
  "kyber_no_calls = \<lparr>kys_router_calls = 0, kys_approval_calls = 0, kys_attached_value = 0, kys_spenders = []\<rparr>"

text \<open>The spender and the amount of approval calldata of the right length.\<close>

definition approval_spender :: "string \<Rightarrow> string option" where
  "approval_spender data = wordAddress (take 64 (drop 10 data))"

definition approval_amount :: "string \<Rightarrow> int" where
  "approval_amount data = int (digits_value 16 (take 64 (drop 74 data)))"

definition see_kyber_call :: "string option \<Rightarrow> int \<Rightarrow> kyber_scan \<Rightarrow> base_call \<Rightarrow> string + kyber_scan" where
  "see_kyber_call inputAddress amountRaw s call =
     (let to = call_to call; data = call_data call; router = KYBERSWAP_BASE_ROUTER in
      case call_value call of
        None \<Rightarrow> Inl ''kyberswap_value_invalid''
      | Some v \<Rightarrow>
          if v < 0 then Inl ''kyberswap_value_invalid''
          else if v \<noteq> 0 \<and> (inputAddress \<noteq> None \<or> to \<noteq> router) then Inl ''kyberswap_native_value_blocked''
          else let s = s\<lparr>kys_attached_value := kys_attached_value s + v\<rparr> in
            if \<not> ADDRESS to \<or> \<not> HEX_DATA data \<or> length data < 10 then Inl ''kyberswap_call_malformed''
            else if to = router then Inr (s\<lparr>kys_router_calls := kys_router_calls s + 1\<rparr>)
            else if inputAddress = Some to then
              (if length data \<noteq> 138 \<or> take 10 data \<noteq> SELECTOR_ERC20_APPROVE then Inl ''kyberswap_approval_invalid''
               else if approval_spender data \<noteq> Some router \<or> approval_amount data \<noteq> amountRaw
               then Inl ''kyberswap_approval_not_exact''
               else Inr (s\<lparr>kys_approval_calls := kys_approval_calls s + 1, kys_spenders := set_add router (kys_spenders s)\<rparr>))
            else Inl ''kyberswap_target_not_allowlisted'')"

definition kyber_checks :: "string option \<Rightarrow> string list" where
  "kyber_checks inputAddress = [''Base mainnet chain'',
     ''Exact positive input ('' @ (case inputAddress of Some a \<Rightarrow> a | None \<Rightarrow> ''native ETH'') @ ''), pinned router, and unexpired route'',
     ''Pinned KyberSwap router target and at most one exact approval'']"

definition validateKyberSwap ::
  "environment \<Rightarrow> (string \<Rightarrow> int option) \<Rightarrow> chain_arg \<Rightarrow> base_call list \<Rightarrow> kyber_context option \<Rightarrow> int \<Rightarrow> swap_semantics guard_result" where
  "validateKyberSwap env parse chain calls context now =
     (if (case normalizeBaseChain chain of Inl e \<Rightarrow> True | Inr n \<Rightarrow> nch_chain_id n \<noteq> 8453)
      then Refused ''kyberswap_wrong_chain'' []
      else (case check_kyber_context parse context now of
          Inl code \<Rightarrow> Refused code (take 1 (kyber_checks None))
        | Inr (c, inputAsset, amountRaw) \<Rightarrow>
            let inputAddress = nas_address inputAsset; passed = take 2 (kyber_checks inputAddress) in
            if length calls < 1 \<or> length calls > 2 then Refused ''kyberswap_batch_size_invalid'' passed
            else (case run_steps (see_kyber_call inputAddress amountRaw) kyber_no_calls calls of
                Inl code \<Rightarrow> Refused code passed
              | Inr s \<Rightarrow>
                  if kys_router_calls s \<noteq> 1 then Refused ''kyberswap_router_call_invalid'' passed
                  else if kys_approval_calls s > 1 then Refused ''kyberswap_approval_count_invalid'' passed
                  else if kys_attached_value s \<noteq> (if inputAddress = None then amountRaw else 0)
                  then Refused ''kyberswap_native_value_mismatch'' passed
                  else if inputAddress = None \<and> kys_approval_calls s > 0 then Refused ''kyberswap_native_input_approval'' passed
                  else Allowed (kyber_checks inputAddress)
                    \<lparr>sms_token_addresses = (case inputAddress of Some a \<Rightarrow> [a] | None \<Rightarrow> []),
                     sms_recipients = [to_lower (kyc_recipient c)], sms_spenders = kys_spenders s,
                     sms_spend_amount_raw = show_int amountRaw,
                     sms_spend_amount_is_usd = isCanonicalBaseUsdcV1 env inputAddress\<rparr>)))"

section \<open>What the loop accepts\<close>

definition call_native_value :: "base_call \<Rightarrow> int" where
  "call_native_value call = (case call_value call of Some v \<Rightarrow> v | None \<Rightarrow> 0)"

text \<open>A call to the pinned router, or an exact approval of the input token to it.\<close>

definition kyber_call_ok :: "string option \<Rightarrow> int \<Rightarrow> base_call \<Rightarrow> bool" where
  "kyber_call_ok inputAddress amount call \<longleftrightarrow>
     0 \<le> call_native_value call \<and> call_value call = Some (call_native_value call)
     \<and> (call_to call = KYBERSWAP_BASE_ROUTER
        \<or> inputAddress = Some (call_to call) \<and> call_native_value call = 0
          \<and> take 10 (call_data call) = SELECTOR_ERC20_APPROVE \<and> length (call_data call) = 138
          \<and> approval_spender (call_data call) = Some KYBERSWAP_BASE_ROUTER \<and> approval_amount (call_data call) = amount)"

definition to_router :: "string \<Rightarrow> base_call \<Rightarrow> int" where
  "to_router router call = (if call_to call = router then 1 else 0)"

lemma see_kyber_ok: "see_kyber_call inputAddress amount s call = Inr t \<Longrightarrow> kyber_call_ok inputAddress amount call"
  by (auto simp: see_kyber_call_def kyber_call_ok_def call_native_value_def Let_def split: option.splits if_splits)

interpretation kyber_value: adding_steps "see_kyber_call inputAddress amount" kys_attached_value call_native_value
    "kyber_call_ok inputAddress amount"
  by unfold_locales (rule see_kyber_ok, assumption,
      auto simp: see_kyber_call_def call_native_value_def Let_def split: option.splits if_splits)

interpretation kyber_router: adding_steps "see_kyber_call inputAddress amount" kys_router_calls
    "to_router KYBERSWAP_BASE_ROUTER" "kyber_call_ok inputAddress amount"
  by unfold_locales (rule see_kyber_ok, assumption,
      auto simp: see_kyber_call_def to_router_def Let_def split: option.splits if_splits)

lemma router_count: "(\<Sum>call\<leftarrow>calls. to_router router call) = int (length (filter (\<lambda>call. call_to call = router) calls))"
  by (induction calls) (simp_all add: to_router_def)

lemma kyber_context_ok:
  assumes "check_kyber_context parse (Some c) now = Inr (c', inputAsset, amount)"
  shows "c' = c \<and> to_lower (kyc_recipient c) = to_lower (kyc_swapper c)
    \<and> normalizeSwapAssetV1 (Some (kyc_input_asset c)) [KYBERSWAP_BASE_ROUTER] = Some inputAsset
    \<and> decimalAmountToRawV1 (kyc_amount_decimal c) (nas_decimals inputAsset) = Some amount
    \<and> (\<exists>expiry. parse (kyc_expires_at c) = Some expiry \<and> now < expiry)"
  using assms by (auto simp: check_kyber_context_def Let_def split: option.splits if_splits)

text \<open>
  What is left of a batch of at most two such calls, one of them to the router: for a native input one
  router call carrying the input; for a token one router call carrying nothing, and at most one
  approval, of the input to the router, beside it.
\<close>

definition kyber_approval :: "string \<Rightarrow> int \<Rightarrow> base_call \<Rightarrow> bool" where
  "kyber_approval token amount call \<longleftrightarrow> call_to call = token \<and> call_value call = Some 0
     \<and> take 10 (call_data call) = SELECTOR_ERC20_APPROVE \<and> length (call_data call) = 138
     \<and> approval_spender (call_data call) = Some KYBERSWAP_BASE_ROUTER \<and> approval_amount (call_data call) = amount"

definition kyber_batch_ok :: "string option \<Rightarrow> int \<Rightarrow> base_call list \<Rightarrow> bool" where
  "kyber_batch_ok inputAddress amount calls \<longleftrightarrow>
     (\<exists>swap. call_to swap = KYBERSWAP_BASE_ROUTER \<and> call_value swap = Some (if inputAddress = None then amount else 0)
        \<and> (calls = [swap]
           \<or> (\<exists>token approval. inputAddress = Some token \<and> kyber_approval token amount approval
                \<and> (calls = [approval, swap] \<or> calls = [swap, approval]))))"

lemma kyber_call_cases:
  assumes "kyber_call_ok inputAddress amount call"
  shows "0 \<le> call_native_value call \<and> call_value call = Some (call_native_value call)
    \<and> (call_to call \<noteq> KYBERSWAP_BASE_ROUTER \<longrightarrow>
        (\<exists>token. inputAddress = Some token \<and> kyber_approval token amount call \<and> call_native_value call = 0))"
  using assms by (auto simp: kyber_call_ok_def kyber_approval_def)

lemma kyber_batch_shape:
  assumes "length calls \<le> 2" and "length (filter (\<lambda>call. call_to call = KYBERSWAP_BASE_ROUTER) calls) = 1"
    and "(\<Sum>call\<leftarrow>calls. call_native_value call) = (if inputAddress = None then amount else 0)"
    and "\<forall>call \<in> set calls. kyber_call_ok inputAddress amount call"
  shows "kyber_batch_ok inputAddress amount calls"
proof -
  from assms(1) consider "calls = []" | a where "calls = [a]" | a b where "calls = [a, b]"
    by (cases calls; cases "tl calls") auto
  then show ?thesis
  proof cases
    case 1
    then show ?thesis using assms(2) by simp
  next
    case (2 a)
    then have "call_to a = KYBERSWAP_BASE_ROUTER" using assms(2) by (simp split: if_split_asm)
    with 2 show ?thesis using assms(3,4) kyber_call_cases [of inputAddress amount a]
      by (auto simp: kyber_batch_ok_def)
  next
    case (3 a b)
    have ab: "0 \<le> call_native_value a" "0 \<le> call_native_value b" "call_value a = Some (call_native_value a)"
        "call_value b = Some (call_native_value b)"
      using assms(4) 3 kyber_call_cases [of inputAddress amount] by auto
    have "\<exists>swap approval token. call_to swap = KYBERSWAP_BASE_ROUTER \<and> inputAddress = Some token
        \<and> kyber_approval token amount approval \<and> (calls = [approval, swap] \<or> calls = [swap, approval])"
    proof (cases "call_to a = KYBERSWAP_BASE_ROUTER")
      case True
      then have "call_to b \<noteq> KYBERSWAP_BASE_ROUTER" using assms(2) 3 by auto
      then show ?thesis using True 3 kyber_call_cases [of inputAddress amount b] assms(4) by auto
    next
      case False
      then have "call_to b = KYBERSWAP_BASE_ROUTER" using assms(2) 3 by (auto split: if_splits)
      then show ?thesis using False 3 kyber_call_cases [of inputAddress amount a] assms(4) by auto
    qed
    then obtain swap approval token where s: "call_to swap = KYBERSWAP_BASE_ROUTER" "inputAddress = Some token"
        "kyber_approval token amount approval" "calls = [approval, swap] \<or> calls = [swap, approval]" by blast
    then have "call_value swap = Some 0" using assms(3) 3 ab by auto
    with s show ?thesis unfolding kyber_batch_ok_def by (intro exI [of _ swap]) auto
  qed
qed

lemma kyber_allowed:
  assumes "guard_allows (validateKyberSwap env parse chain calls (Some c) now)"
  shows "\<exists>inputAsset amount.
    normalizeSwapAssetV1 (Some (kyc_input_asset c)) [KYBERSWAP_BASE_ROUTER] = Some inputAsset
    \<and> decimalAmountToRawV1 (kyc_amount_decimal c) (nas_decimals inputAsset) = Some amount
    \<and> kyber_batch_ok (nas_address inputAsset) amount calls"
proof -
  from assms obtain c' inputAsset amount s where
    ctx: "check_kyber_context parse (Some c) now = Inr (c', inputAsset, amount)"
    and run: "run_steps (see_kyber_call (nas_address inputAsset) amount) kyber_no_calls calls = Inr s"
    and len: "length calls \<le> 2" and one: "kys_router_calls s = 1"
    and total: "kys_attached_value s = (if nas_address inputAsset = None then amount else 0)"
    by (auto simp: validateKyberSwap_def Let_def simp del: not_None_eq split_paired_All split_paired_Ex
        split: if_split_asm sum.split_asm prod.split_asm)
  have "length (filter (\<lambda>call. call_to call = KYBERSWAP_BASE_ROUTER) calls) = 1"
    using kyber_router.run_adds [OF run] one by (simp add: kyber_no_calls_def router_count)
  moreover have "(\<Sum>call\<leftarrow>calls. call_native_value call) = (if nas_address inputAsset = None then amount else 0)"
    using kyber_value.run_adds [OF run] total by (simp add: kyber_no_calls_def)
  ultimately have "kyber_batch_ok (nas_address inputAsset) amount calls"
    using kyber_value.run_accepts [OF run] by (intro kyber_batch_shape [OF len]) blast+
  then show ?thesis using kyber_context_ok [OF ctx] by blast
qed

end
