(* ===== verification/Uniswap_Guard.thy ===== *)
theory Uniswap_Guard
  imports Kyber_Guard
begin

text \<open>
  The guard of Uniswap batches, lib/security/src/uniswapGuard.ts: one call to the pinned Universal
  Router, exact approvals to Permit2 or the router, and Permit2 allowances that end with the quote.
\<close>

definition BASE_UNISWAP_UNIVERSAL_ROUTER_2 :: string where
  "BASE_UNISWAP_UNIVERSAL_ROUTER_2 = ''0x6ff5693b99212da76ad316178a184ab56d299b43''"

definition PERMIT2_ADDRESS :: string where
  "PERMIT2_ADDRESS = ''0x000000000022d473030f116ddee9f6b43ac78ba3''"

definition PERMIT2_APPROVE_SELECTOR :: string where
  "PERMIT2_APPROVE_SELECTOR = ''0x87517c45''"

record uniswap_context =
  unc_amount_decimal :: string
  unc_input_asset :: guard_asset
  unc_output_asset :: guard_asset
  unc_swapper :: string
  unc_router_version :: string
  unc_expires_at :: string

definition uniswap_reserved :: "string list" where
  "uniswap_reserved = [BASE_UNISWAP_UNIVERSAL_ROUTER_2, PERMIT2_ADDRESS]"

text \<open>The input side, the quote's expiry and the amount in base units, or the first refusal.\<close>

definition check_uniswap_context ::
  "(string \<Rightarrow> int option) \<Rightarrow> uniswap_context option \<Rightarrow> int \<Rightarrow> string + normalized_asset \<times> int \<times> int" where
  "check_uniswap_context parse context now =
     (case (context, normalizeSwapAssetV1 (map_option unc_input_asset context) uniswap_reserved,
            normalizeSwapAssetV1 (map_option unc_output_asset context) uniswap_reserved) of
        (Some c, Some inputAsset, Some outputAsset) \<Rightarrow>
          if nas_side inputAsset = nas_side outputAsset then Inl ''uniswap_context_invalid''
          else if unc_router_version c \<noteq> ''2.0'' then Inl ''uniswap_router_version_invalid''
          else if \<not> ADDRESS (to_lower (unc_swapper c)) then Inl ''uniswap_swapper_invalid''
          else (case parse (unc_expires_at c) of
              None \<Rightarrow> Inl ''uniswap_quote_expired''
            | Some expiry \<Rightarrow>
                if expiry \<le> now then Inl ''uniswap_quote_expired''
                else (case decimalAmountToRawV1 (unc_amount_decimal c) (nas_decimals inputAsset) of
                    None \<Rightarrow> Inl ''uniswap_amount_invalid''
                  | Some amountRaw \<Rightarrow> Inr (inputAsset, expiry, amountRaw)))
      | _ \<Rightarrow> Inl ''uniswap_context_invalid'')"

record uniswap_scan =
  uns_router_calls :: int
  uns_attached_value :: int
  uns_spenders :: "string list"

definition uniswap_no_calls :: uniswap_scan where
  "uniswap_no_calls = \<lparr>uns_router_calls = 0, uns_attached_value = 0, uns_spenders = []\<rparr>"

text \<open>The words of calldata after its selector.\<close>

definition data_word :: "string \<Rightarrow> nat \<Rightarrow> string" where
  "data_word data i = take 64 (drop (10 + 64 * i) data)"

definition word_number :: "string \<Rightarrow> int" where
  "word_number w = int (digits_value 16 w)"

definition permit2_exact :: "string option \<Rightarrow> int \<Rightarrow> int \<Rightarrow> string \<Rightarrow> bool" where
  "permit2_exact inputAddress expiry amountRaw data \<longleftrightarrow>
     wordAddress (data_word data 0) = inputAddress
     \<and> wordAddress (data_word data 1) = Some BASE_UNISWAP_UNIVERSAL_ROUTER_2
     \<and> word_number (data_word data 2) = amountRaw \<and> word_number (data_word data 3) \<le> expiry div 1000"

definition see_uniswap_call ::
  "string option \<Rightarrow> int \<Rightarrow> int \<Rightarrow> uniswap_scan \<Rightarrow> base_call \<Rightarrow> string + uniswap_scan" where
  "see_uniswap_call inputAddress expiry amountRaw s call =
     (let to = call_to call; data = call_data call; router = BASE_UNISWAP_UNIVERSAL_ROUTER_2 in
      case call_value call of
        None \<Rightarrow> Inl ''uniswap_value_invalid''
      | Some v \<Rightarrow>
          if v < 0 then Inl ''uniswap_value_invalid''
          else if v \<noteq> 0 \<and> (inputAddress \<noteq> None \<or> to \<noteq> router) then Inl ''uniswap_native_value_blocked''
          else let s = s\<lparr>uns_attached_value := uns_attached_value s + v\<rparr> in
            if \<not> ADDRESS to \<or> \<not> HEX_DATA data \<or> length data < 10 then Inl ''uniswap_call_malformed''
            else if to = router then Inr (s\<lparr>uns_router_calls := uns_router_calls s + 1\<rparr>)
            else if inputAddress = Some to then
              (if length data \<noteq> 138 \<or> take 10 data \<noteq> SELECTOR_ERC20_APPROVE then Inl ''uniswap_approval_invalid''
               else (case wordAddress (data_word data 0) of
                   Some spender \<Rightarrow>
                     if spender \<notin> {PERMIT2_ADDRESS, router} \<or> word_number (data_word data 1) \<noteq> amountRaw
                     then Inl ''uniswap_approval_not_exact''
                     else Inr (s\<lparr>uns_spenders := set_add spender (uns_spenders s)\<rparr>)
                 | None \<Rightarrow> Inl ''uniswap_approval_not_exact''))
            else if to = PERMIT2_ADDRESS then
              (if length data \<noteq> 266 \<or> take 10 data \<noteq> PERMIT2_APPROVE_SELECTOR then Inl ''uniswap_permit2_call_invalid''
               else if \<not> permit2_exact inputAddress expiry amountRaw data then Inl ''uniswap_permit2_not_exact''
               else Inr (s\<lparr>uns_spenders := set_add router (uns_spenders s)\<rparr>))
            else Inl ''uniswap_target_not_allowlisted'')"

definition uniswap_checks :: "string option \<Rightarrow> string list" where
  "uniswap_checks inputAddress = [''Base mainnet chain'',
     ''Exact positive input ('' @ (case inputAddress of Some a \<Rightarrow> a | None \<Rightarrow> ''native ETH'') @ '') and unexpired quote'',
     ''Pinned Universal Router target and exact bounded approvals'']"

definition validateUniswapSwap ::
  "environment \<Rightarrow> (string \<Rightarrow> int option) \<Rightarrow> chain_arg \<Rightarrow> base_call list \<Rightarrow> uniswap_context option \<Rightarrow> int \<Rightarrow> swap_semantics guard_result" where
  "validateUniswapSwap env parse chain calls context now =
     (if (case normalizeBaseChain chain of Inl e \<Rightarrow> True | Inr n \<Rightarrow> nch_chain_id n \<noteq> 8453)
      then Refused ''uniswap_wrong_chain'' []
      else (case check_uniswap_context parse context now of
          Inl code \<Rightarrow> Refused code (take 1 (uniswap_checks None))
        | Inr (inputAsset, expiry, amountRaw) \<Rightarrow>
            let inputAddress = nas_address inputAsset; passed = take 2 (uniswap_checks inputAddress) in
            if length calls < 1 \<or> length calls > 4 then Refused ''uniswap_batch_size_invalid'' passed
            else (case run_steps (see_uniswap_call inputAddress expiry amountRaw) uniswap_no_calls calls of
                Inl code \<Rightarrow> Refused code passed
              | Inr s \<Rightarrow>
                  if uns_router_calls s \<noteq> 1 then Refused ''uniswap_router_call_invalid'' passed
                  else if uns_attached_value s \<noteq> (if inputAddress = None then amountRaw else 0)
                  then Refused ''uniswap_native_value_mismatch'' passed
                  else if inputAddress = None \<and> uns_spenders s \<noteq> [] then Refused ''uniswap_native_input_approval'' passed
                  else Allowed (uniswap_checks inputAddress)
                    \<lparr>sms_token_addresses = (case inputAddress of Some a \<Rightarrow> [a] | None \<Rightarrow> []),
                     sms_recipients = [], sms_spenders = uns_spenders s, sms_spend_amount_raw = show_int amountRaw,
                     sms_spend_amount_is_usd = isCanonicalBaseUsdcV1 env inputAddress\<rparr>)))"

section \<open>What the loop accepts\<close>

text \<open>
  A call to the pinned router, an exact approval of the input token to Permit2 or the router, or
  Permit2's own allowance of that token, that amount and that router until the quote's end at most.
\<close>

definition uniswap_call_ok :: "string option \<Rightarrow> int \<Rightarrow> int \<Rightarrow> base_call \<Rightarrow> bool" where
  "uniswap_call_ok inputAddress expiry amount call \<longleftrightarrow>
     0 \<le> call_native_value call
     \<and> (call_to call = BASE_UNISWAP_UNIVERSAL_ROUTER_2
        \<or> call_native_value call = 0 \<and> inputAddress = Some (call_to call)
          \<and> length (call_data call) = 138 \<and> take 10 (call_data call) = SELECTOR_ERC20_APPROVE
          \<and> (\<exists>spender \<in> {PERMIT2_ADDRESS, BASE_UNISWAP_UNIVERSAL_ROUTER_2}. wordAddress (data_word (call_data call) 0) = Some spender)
          \<and> word_number (data_word (call_data call) 1) = amount
        \<or> call_native_value call = 0 \<and> call_to call = PERMIT2_ADDRESS
          \<and> length (call_data call) = 266 \<and> take 10 (call_data call) = PERMIT2_APPROVE_SELECTOR
          \<and> permit2_exact inputAddress expiry amount (call_data call))"

lemma see_uniswap_ok:
  "see_uniswap_call inputAddress expiry amount s call = Inr t \<Longrightarrow> uniswap_call_ok inputAddress expiry amount call"
  by (auto simp: see_uniswap_call_def uniswap_call_ok_def call_native_value_def Let_def split: option.splits if_splits)

interpretation uniswap_value: adding_steps "see_uniswap_call inputAddress expiry amount" uns_attached_value
    call_native_value "uniswap_call_ok inputAddress expiry amount"
  by unfold_locales (rule see_uniswap_ok, assumption,
      auto simp: see_uniswap_call_def call_native_value_def Let_def split: option.splits if_splits)

interpretation uniswap_router: adding_steps "see_uniswap_call inputAddress expiry amount" uns_router_calls
    "to_router BASE_UNISWAP_UNIVERSAL_ROUTER_2" "uniswap_call_ok inputAddress expiry amount"
  by unfold_locales (rule see_uniswap_ok, assumption,
      auto simp: see_uniswap_call_def to_router_def Let_def split: option.splits if_splits)

lemma uniswap_context_ok:
  assumes "check_uniswap_context parse (Some c) now = Inr (inputAsset, expiry, amount)"
  shows "normalizeSwapAssetV1 (Some (unc_input_asset c)) uniswap_reserved = Some inputAsset
    \<and> decimalAmountToRawV1 (unc_amount_decimal c) (nas_decimals inputAsset) = Some amount
    \<and> parse (unc_expires_at c) = Some expiry \<and> now < expiry"
  using assms by (auto simp: check_uniswap_context_def Let_def split: option.splits if_splits)

lemma uniswap_allowed:
  assumes "guard_allows (validateUniswapSwap env parse chain calls (Some c) now)"
  shows "\<exists>inputAsset expiry amount.
    normalizeSwapAssetV1 (Some (unc_input_asset c)) uniswap_reserved = Some inputAsset
    \<and> decimalAmountToRawV1 (unc_amount_decimal c) (nas_decimals inputAsset) = Some amount
    \<and> parse (unc_expires_at c) = Some expiry \<and> now < expiry
    \<and> length (filter (\<lambda>call. call_to call = BASE_UNISWAP_UNIVERSAL_ROUTER_2) calls) = 1
    \<and> (\<Sum>call\<leftarrow>calls. call_native_value call) = (if nas_address inputAsset = None then amount else 0)
    \<and> (\<forall>call \<in> set calls. uniswap_call_ok (nas_address inputAsset) expiry amount call)"
proof -
  from assms obtain inputAsset expiry amount s where
    ctx: "check_uniswap_context parse (Some c) now = Inr (inputAsset, expiry, amount)"
    and run: "run_steps (see_uniswap_call (nas_address inputAsset) expiry amount) uniswap_no_calls calls = Inr s"
    and one: "uns_router_calls s = 1"
    and total: "uns_attached_value s = (if nas_address inputAsset = None then amount else 0)"
    by (auto simp: validateUniswapSwap_def Let_def simp del: not_None_eq split_paired_All split_paired_Ex
        split: if_split_asm sum.split_asm prod.split_asm)
  have "length (filter (\<lambda>call. call_to call = BASE_UNISWAP_UNIVERSAL_ROUTER_2) calls) = 1"
    using uniswap_router.run_adds [OF run] one by (simp add: uniswap_no_calls_def router_count)
  moreover have "(\<Sum>call\<leftarrow>calls. call_native_value call) = (if nas_address inputAsset = None then amount else 0)"
    using uniswap_value.run_adds [OF run] total by (simp add: uniswap_no_calls_def)
  ultimately show ?thesis
    using uniswap_context_ok [OF ctx] uniswap_value.run_accepts [OF run] by blast
qed

end
