(* ===== verification/Balancer_Guard.thy ===== *)
theory Balancer_Guard
  imports Partner_Guards
begin

text \<open>
  The guard of Balancer batches, lib/security/src/balancerGuard.ts, for both protocol versions. The
  package's ABI decoder is a parameter. A call value that is not a number makes the guard throw
  where the code reads it outside a try block.
\<close>

definition BALANCER_V2_VAULT_BASE_V1 :: string where
  "BALANCER_V2_VAULT_BASE_V1 = ''0xba12222222228d8ba445958a75a0704d566bf2c8''"

definition BALANCER_PERMIT2_BASE_V1 :: string where
  "BALANCER_PERMIT2_BASE_V1 = ''0x000000000022d473030f116ddee9f6b43ac78ba3''"

definition BALANCER_V3_ROUTER_BASE_V1 :: string where
  "BALANCER_V3_ROUTER_BASE_V1 = ''0x3f170631ed9821ca51a59d996ab095162438dc10''"

definition BALANCER_V3_BATCH_ROUTER_BASE_V1 :: string where
  "BALANCER_V3_BATCH_ROUTER_BASE_V1 = ''0x85a80afee867adf27b50bdb7b76da70f1e853062''"

section \<open>Decoded calldata\<close>

record permit2_approve =
  p2a_token :: string
  p2a_spender :: string
  p2a_amount :: int
  p2a_expiration :: int

record v3_single =
  v3s_pool :: string
  v3s_token_in :: string
  v3s_token_out :: string
  v3s_exact_amount_in :: int
  v3s_min_amount_out :: int
  v3s_deadline :: int
  v3s_weth_is_eth :: bool

record v3_path =
  v3p_token_in :: string
  v3p_steps :: "(string \<times> string) list" \<comment> \<open>pool and token out\<close>
  v3p_exact_amount_in :: int
  v3p_min_amount_out :: int

record v3_batch =
  v3b_paths :: "v3_path list"
  v3b_deadline :: int
  v3b_weth_is_eth :: bool

record v2_funds =
  v2f_sender :: string
  v2f_recipient :: string
  v2f_from_internal :: bool
  v2f_to_internal :: bool

record v2_single =
  v2s_pool_id :: string
  v2s_kind :: int
  v2s_asset_in :: string
  v2s_asset_out :: string
  v2s_amount :: int
  v2s_limit :: int
  v2s_deadline :: int

record v2_batch =
  v2b_kind :: int
  v2b_pool_ids :: "string list"
  v2b_assets :: "string list"
  v2b_limits :: "int list"
  v2b_deadline :: int

datatype vault_call = VaultSwap v2_single v2_funds | VaultBatchSwap v2_batch v2_funds

record balancer_abi =
  bab_erc20 :: "string \<Rightarrow> erc20_call option"
  bab_permit2 :: "string \<Rightarrow> permit2_approve option"
  bab_v3_single :: "string \<Rightarrow> v3_single option"
  bab_v3_batch :: "string \<Rightarrow> v3_batch option"
  bab_vault :: "string \<Rightarrow> vault_call option"

section \<open>The parts of the check\<close>

record balancer_context =
  blc_protocol_version :: int
  blc_input_token_address :: string
  blc_output_token_address :: string
  blc_amount_in_atomic :: string
  blc_minimum_output_atomic :: string
  blc_wallet_address :: string
  blc_router_address :: string
  blc_source_keys :: "string list"

definition poolsFromSources :: "string list \<Rightarrow> string list" where
  "poolsFromSources keys =
     filter (\<lambda>pool. pool \<noteq> '''')
       (concat (map (\<lambda>key. case drop 2 (split_on (CHR '':'') key) of pool # _ \<Rightarrow> [to_lower pool] | [] \<Rightarrow> []) keys))"

definition raw_data :: "base_call \<Rightarrow> string" where
  "raw_data call = (case bcl_data call of Some d \<Rightarrow> d | None \<Rightarrow> ''undefined'')"

definition decodeExactErc20Approval :: "balancer_abi \<Rightarrow> base_call \<Rightarrow> (string \<times> int) option" where
  "decodeExactErc20Approval abi call =
     (case bab_erc20 abi (raw_data call) of Some (Erc20Approve spender amount) \<Rightarrow> Some (to_lower spender, amount) | _ \<Rightarrow> None)"

definition validDeadline :: "int \<Rightarrow> int \<Rightarrow> bool" where
  "validDeadline deadline now \<longleftrightarrow> now div 1000 < deadline \<and> deadline \<le> now div 1000 + 300"

text \<open>A value read outside a try block: a SyntaxError leaves the guard.\<close>

definition thrown_value :: "base_call \<Rightarrow> int result" where
  "thrown_value call =
     (case nullish_value call of Some v \<Rightarrow> Inr v | None \<Rightarrow> Inl (JsError ''SyntaxError: Cannot convert to a BigInt''))"

definition permit2_ok :: "balancer_abi \<Rightarrow> string \<Rightarrow> string \<Rightarrow> int \<Rightarrow> int \<Rightarrow> base_call \<Rightarrow> bool" where
  "permit2_ok abi tokenIn router amountIn now call \<longleftrightarrow>
     (case bab_permit2 abi (raw_data call) of None \<Rightarrow> False
      | Some p \<Rightarrow>
          to_lower (bcl_to call) = BALANCER_PERMIT2_BASE_V1 \<and> nullish_value call = Some 0
          \<and> to_lower (p2a_token p) = tokenIn \<and> to_lower (p2a_spender p) = router \<and> p2a_amount p = amountIn
          \<and> validDeadline (p2a_expiration p) now)"

definition v3_single_ok :: "string list \<Rightarrow> string \<Rightarrow> string \<Rightarrow> int \<Rightarrow> int \<Rightarrow> int \<Rightarrow> v3_single \<Rightarrow> bool" where
  "v3_single_ok pools tokenIn tokenOut amountIn minimumOut now s \<longleftrightarrow>
     to_lower (v3s_pool s) \<in> set pools \<and> to_lower (v3s_token_in s) = tokenIn \<and> to_lower (v3s_token_out s) = tokenOut
     \<and> v3s_exact_amount_in s = amountIn \<and> minimumOut \<le> v3s_min_amount_out s
     \<and> \<not> v3s_weth_is_eth s \<and> validDeadline (v3s_deadline s) now"

definition v3_path_ok :: "string list \<Rightarrow> string \<Rightarrow> string \<Rightarrow> v3_path \<Rightarrow> bool" where
  "v3_path_ok pools tokenIn tokenOut path \<longleftrightarrow>
     to_lower (v3p_token_in path) = tokenIn \<and> v3p_steps path \<noteq> []
     \<and> to_lower (snd (last (v3p_steps path))) = tokenOut
     \<and> list_all (\<lambda>(pool, _). to_lower pool \<in> set pools) (v3p_steps path)"

definition v3_batch_ok :: "string list \<Rightarrow> string \<Rightarrow> string \<Rightarrow> int \<Rightarrow> int \<Rightarrow> int \<Rightarrow> v3_batch \<Rightarrow> bool" where
  "v3_batch_ok pools tokenIn tokenOut amountIn minimumOut now b \<longleftrightarrow>
     v3b_paths b \<noteq> [] \<and> (\<Sum>path\<leftarrow>v3b_paths b. v3p_exact_amount_in path) = amountIn
     \<and> minimumOut \<le> (\<Sum>path\<leftarrow>v3b_paths b. v3p_min_amount_out path)
     \<and> \<not> v3b_weth_is_eth b \<and> validDeadline (v3b_deadline b) now
     \<and> list_all (v3_path_ok pools tokenIn tokenOut) (v3b_paths b)"

definition v2_funds_ok :: "string \<Rightarrow> v2_funds \<Rightarrow> bool" where
  "v2_funds_ok wallet f \<longleftrightarrow> to_lower (v2f_sender f) = wallet \<and> to_lower (v2f_recipient f) = wallet
     \<and> \<not> v2f_from_internal f \<and> \<not> v2f_to_internal f"

definition v2_single_ok :: "string list \<Rightarrow> string \<Rightarrow> string \<Rightarrow> string \<Rightarrow> int \<Rightarrow> int \<Rightarrow> int \<Rightarrow> v2_single \<Rightarrow> v2_funds \<Rightarrow> bool" where
  "v2_single_ok pools tokenIn tokenOut wallet amountIn minimumOut now s f \<longleftrightarrow>
     v2s_kind s = 0 \<and> to_lower (v2s_pool_id s) \<in> set pools \<and> to_lower (v2s_asset_in s) = tokenIn
     \<and> to_lower (v2s_asset_out s) = tokenOut \<and> v2s_amount s = amountIn \<and> minimumOut \<le> v2s_limit s
     \<and> v2_funds_ok wallet f \<and> validDeadline (v2s_deadline s) now"

fun index_of :: "('a \<Rightarrow> bool) \<Rightarrow> 'a list \<Rightarrow> nat option" where
  "index_of p [] = None"
| "index_of p (x # xs) = (if p x then Some 0 else map_option Suc (index_of p xs))"

definition nth_opt :: "'a list \<Rightarrow> nat \<Rightarrow> 'a option" where
  "nth_opt xs n = (if n < length xs then Some (xs ! n) else None)"

definition v2_batch_ok :: "string list \<Rightarrow> string \<Rightarrow> string \<Rightarrow> string \<Rightarrow> int \<Rightarrow> int \<Rightarrow> int \<Rightarrow> v2_batch \<Rightarrow> v2_funds \<Rightarrow> bool" where
  "v2_batch_ok pools tokenIn tokenOut wallet amountIn minimumOut now b f \<longleftrightarrow>
     (case (index_of (\<lambda>asset. to_lower asset = tokenIn) (v2b_assets b),
            index_of (\<lambda>asset. to_lower asset = tokenOut) (v2b_assets b)) of
        (Some inputIndex, Some outputIndex) \<Rightarrow>
          v2b_kind b = 0 \<and> nth_opt (v2b_limits b) inputIndex = Some amountIn
          \<and> (case nth_opt (v2b_limits b) outputIndex of Some l \<Rightarrow> l | None \<Rightarrow> 0) \<le> - minimumOut
          \<and> v2_funds_ok wallet f
          \<and> list_all (\<lambda>pool. to_lower pool \<in> set pools) (v2b_pool_ids b) \<and> validDeadline (v2b_deadline b) now
      | _ \<Rightarrow> False)"

text \<open>The swap's own calldata: None when it is the reviewed route, or the refusal.\<close>

definition balancer_swap_refusal ::
  "balancer_abi \<Rightarrow> balancer_context \<Rightarrow> int \<Rightarrow> int \<Rightarrow> int \<Rightarrow> base_call \<Rightarrow> string option" where
  "balancer_swap_refusal abi c amountIn minimumOut now call =
     (let pools = poolsFromSources (blc_source_keys c); tokenIn = to_lower (blc_input_token_address c);
          tokenOut = to_lower (blc_output_token_address c); wallet = to_lower (blc_wallet_address c);
          router = to_lower (blc_router_address c);
          verdict = (\<lambda>ok. if ok then None else Some ''balancer_swap_semantics_invalid'');
          unreadable = Some ''balancer_swap_calldata_unreadable''
      in if blc_protocol_version c = 3 \<and> router = BALANCER_V3_ROUTER_BASE_V1 then
           (case bab_v3_single abi (raw_data call) of None \<Rightarrow> unreadable
            | Some s \<Rightarrow> verdict (v3_single_ok pools tokenIn tokenOut amountIn minimumOut now s))
         else if blc_protocol_version c = 3 then
           (case bab_v3_batch abi (raw_data call) of None \<Rightarrow> unreadable
            | Some b \<Rightarrow> verdict (v3_batch_ok pools tokenIn tokenOut amountIn minimumOut now b))
         else
           (case bab_vault abi (raw_data call) of None \<Rightarrow> unreadable
            | Some (VaultSwap s f) \<Rightarrow> verdict (v2_single_ok pools tokenIn tokenOut wallet amountIn minimumOut now s f)
            | Some (VaultBatchSwap b f) \<Rightarrow> verdict (v2_batch_ok pools tokenIn tokenOut wallet amountIn minimumOut now b f)))"

section \<open>The guard\<close>

definition balancer_checks :: "string list" where
  "balancer_checks = [''Base chain and pinned Balancer contracts'', ''Exact bounded approvals'',
     ''Reviewed pools, assets, amount, minimum output and deadline'']"

definition parse_bigint :: "string \<Rightarrow> int result" where
  "parse_bigint s = (case js_bigint s of Some v \<Rightarrow> Inr v | None \<Rightarrow> Inl (JsError ''SyntaxError: Cannot convert to a BigInt''))"

definition balancer_router_ok :: "balancer_context \<Rightarrow> bool" where
  "balancer_router_ok c \<longleftrightarrow>
     (let router = to_lower (blc_router_address c) in
      if blc_protocol_version c = 2 then router = BALANCER_V2_VAULT_BASE_V1
      else router = BALANCER_V3_ROUTER_BASE_V1 \<or> router = BALANCER_V3_BATCH_ROUTER_BASE_V1)"

definition balancer_approval_ok :: "balancer_abi \<Rightarrow> balancer_context \<Rightarrow> int \<Rightarrow> base_call \<Rightarrow> bool result" where
  "balancer_approval_ok abi c amountIn call =
     (if to_lower (bcl_to call) \<noteq> to_lower (blc_input_token_address c) then Inr False
      else bindR (thrown_value call) (\<lambda>v.
        Inr (v = 0 \<and> decodeExactErc20Approval abi call
          = Some (if blc_protocol_version c = 2 then BALANCER_V2_VAULT_BASE_V1 else BALANCER_PERMIT2_BASE_V1, amountIn))))"

definition balancer_swap_call ::
  "balancer_abi \<Rightarrow> balancer_context \<Rightarrow> int \<Rightarrow> int \<Rightarrow> int \<Rightarrow> base_call \<Rightarrow> unit guard_result result" where
  "balancer_swap_call abi c amountIn minimumOut now call =
     (if to_lower (bcl_to call) \<noteq> to_lower (blc_router_address c) then Inr (Refused ''balancer_swap_target_invalid'' [])
      else bindR (thrown_value call) (\<lambda>v.
        if v \<noteq> 0 then Inr (Refused ''balancer_swap_target_invalid'' [])
        else Inr (case balancer_swap_refusal abi c amountIn minimumOut now call of
            Some code \<Rightarrow> Refused code [] | None \<Rightarrow> Allowed balancer_checks ())))"

definition validateBalancerSwap ::
  "balancer_abi \<Rightarrow> int \<Rightarrow> base_call list \<Rightarrow> balancer_context option \<Rightarrow> int \<Rightarrow> unit guard_result result" where
  "validateBalancerSwap abi chain calls context now =
     (if chain \<noteq> 8453 then Inr (Refused ''balancer_wrong_chain'' [])
      else (case context of None \<Rightarrow> Inr (Refused ''balancer_context_missing'' [])
      | Some c \<Rightarrow>
          bindR (parse_bigint (blc_amount_in_atomic c)) (\<lambda>amountIn.
          bindR (parse_bigint (blc_minimum_output_atomic c)) (\<lambda>minimumOut.
          if amountIn \<le> 0 \<or> minimumOut \<le> 0 \<or> poolsFromSources (blc_source_keys c) = []
          then Inr (Refused ''balancer_context_invalid'' [])
          else if \<not> balancer_router_ok c then Inr (Refused ''balancer_router_not_pinned'' [])
          else if length calls \<noteq> (if blc_protocol_version c = 2 then 2 else 3)
          then Inr (Refused ''balancer_batch_size_invalid'' [])
          else bindR (balancer_approval_ok abi c amountIn (calls ! 0)) (\<lambda>approved.
            if \<not> approved then Inr (Refused ''balancer_approval_invalid'' [])
            else if blc_protocol_version c = 3
              \<and> \<not> permit2_ok abi (to_lower (blc_input_token_address c)) (to_lower (blc_router_address c)) amountIn now (calls ! 1)
            then Inr (Refused ''balancer_permit2_invalid'' [])
            else balancer_swap_call abi c amountIn minimumOut now (calls ! (if blc_protocol_version c = 3 then 2 else 1)))))))"

lemma balancer_allowed:
  assumes "validateBalancerSwap abi chain calls (Some c) now = Inr r" and "guard_allows r"
  shows "\<exists>amount minimum. js_bigint (blc_amount_in_atomic c) = Some amount \<and> js_bigint (blc_minimum_output_atomic c) = Some minimum
    \<and> 0 < amount \<and> 0 < minimum \<and> balancer_approval_ok abi c amount (calls ! 0) = Inr True
    \<and> balancer_swap_refusal abi c amount minimum now (calls ! (if blc_protocol_version c = 3 then 2 else 1)) = None
    \<and> to_lower (bcl_to (calls ! (if blc_protocol_version c = 3 then 2 else 1))) = to_lower (blc_router_address c)
    \<and> balancer_router_ok c"
  using assms
  by (auto simp: validateBalancerSwap_def balancer_swap_call_def parse_bigint_def guard_allows_def
      split: if_split_asm option.split_asm guard_result.split_asm)

end
