(* ===== verification/Safety_Kernel.thy ===== *)
theory Safety_Kernel
  imports Complex_Main Gift Uniswap_Guard Balancer_Guard Aerodrome_Ready
begin

text \<open>
  lib/transaction-composer/src/safetyKernel.ts: every check a batch must pass before a wallet is
  asked to sign it. A check carries its id and whether it passed; the sentences shown beside it are
  not modelled, nor is the schema's limit of 500 characters on the joined reasons of a refusal, past
  which the code throws instead of answering \<open>blocked\<close>. Packages (the ABI decoders) and the language (dates, numbers) are parameters.
\<close>

section \<open>Token security\<close>

definition MAX_TOKEN_TAX_PERCENT_V1 :: real where
  "MAX_TOKEN_TAX_PERCENT_V1 = 10"

record token_flags =
  tfl_is_honeypot :: bool
  tfl_cannot_sell_all :: bool
  tfl_owner_can_change_balance :: bool
  tfl_hidden_owner :: bool
  tfl_can_take_back_ownership :: bool
  tfl_selfdestruct :: bool
  tfl_buy_tax :: "string option"
  tfl_sell_tax :: "string option"

datatype security_status = SecurityOk | SecurityWarning | SecurityHighRisk | SecurityUnknown | SecurityFailed

record security_result =
  scr_address :: string
  scr_provider :: string
  scr_status :: security_status
  scr_flags :: "token_flags option"

datatype token_refusal =
    Honeypot | CannotSellAll | OwnerChangesBalance | HiddenOwner | TakeBackOwnership | Selfdestruct
  | TaxUnread string | TaxTooHigh string real

text \<open>\<open>Number(text)\<close>: None when it is not finite.\<close>

type_synonym number_reader = "string \<Rightarrow> real option"

definition tax_refusal :: "number_reader \<Rightarrow> string \<Rightarrow> string option \<Rightarrow> token_refusal option" where
  "tax_refusal num name raw =
     (case raw of None \<Rightarrow> None
      | Some text \<Rightarrow>
          if text = '''' then None
          else (case num text of None \<Rightarrow> Some (TaxUnread name)
            | Some percent \<Rightarrow> if percent > MAX_TOKEN_TAX_PERCENT_V1 then Some (TaxTooHigh name percent) else None))"

definition tokenSecurityRefusalV1 :: "number_reader \<Rightarrow> security_result \<Rightarrow> token_refusal option" where
  "tokenSecurityRefusalV1 num r =
     (case scr_flags r of None \<Rightarrow> None
      | Some f \<Rightarrow>
          if tfl_is_honeypot f then Some Honeypot
          else if tfl_cannot_sell_all f then Some CannotSellAll
          else if tfl_owner_can_change_balance f then Some OwnerChangesBalance
          else if tfl_hidden_owner f then Some HiddenOwner
          else if tfl_can_take_back_ownership f then Some TakeBackOwnership
          else if tfl_selfdestruct f then Some Selfdestruct
          else (case tax_refusal num ''buy tax'' (tfl_buy_tax f) of
              Some refusal \<Rightarrow> Some refusal | None \<Rightarrow> tax_refusal num ''sell tax'' (tfl_sell_tax f)))"

fun distinct_addresses :: "string list \<Rightarrow> string list \<Rightarrow> string list" where
  "distinct_addresses seen [] = []"
| "distinct_addresses seen (a # as) =
     (if to_lower a \<in> set seen then distinct_addresses seen as
      else a # distinct_addresses (to_lower a # seen) as)"

definition asset_addresses :: "asset_ref option \<Rightarrow> string list" where
  "asset_addresses asset =
     (case asset of Some a \<Rightarrow> (case asr_address a of Some x \<Rightarrow> if x = '''' then [] else [x] | None \<Rightarrow> []) | None \<Rightarrow> [])"

definition swapTokenSecurityAddressesV1 :: "route_intent \<Rightarrow> string list" where
  "swapTokenSecurityAddressesV1 intent =
     distinct_addresses [] (asset_addresses (rin_from_asset intent) @ asset_addresses (rin_to_asset intent))"

datatype security_summary = SecuritySkipped | SecurityBlocked | SecurityPassedWarning | SecurityPassed

definition verdict_for :: "security_result list \<Rightarrow> string \<Rightarrow> string \<times> security_status" where
  "verdict_for results address =
     (case find (\<lambda>r. to_lower (scr_address r) = to_lower address) results of
        Some r \<Rightarrow> (scr_provider r, scr_status r) | None \<Rightarrow> (''none'', SecurityUnknown))"

definition verdict_blocks :: "string \<times> security_status \<Rightarrow> bool" where
  "verdict_blocks v \<longleftrightarrow> fst v \<noteq> ''goplus'' \<or> snd v \<in> {SecurityFailed, SecurityUnknown, SecurityHighRisk}"

definition evaluateContractSecurityV1 ::
  "number_reader \<Rightarrow> bool \<Rightarrow> string \<Rightarrow> string list \<Rightarrow> security_result list \<Rightarrow> security_summary" where
  "evaluateContractSecurityV1 num required provider addresses results =
     (if \<not> required then SecuritySkipped
      else if provider \<noteq> ''goplus'' then SecurityBlocked
      else let verdicts = map (verdict_for results) addresses in
        if list_ex (\<lambda>r. tokenSecurityRefusalV1 num r \<noteq> None) results \<or> list_ex verdict_blocks verdicts then SecurityBlocked
        else if list_ex (\<lambda>v. snd v = SecurityWarning) verdicts then SecurityPassedWarning
        else SecurityPassed)"

section \<open>The kernel's input\<close>

record kernel_input =
  kin_provider :: swap_provider
  kin_router_address :: string
  kin_chain_id :: int
  kin_wallet_address :: string
  kin_intent :: route_intent
  kin_calls :: "execution_call list"
  kin_quote_expiry :: string
  kin_now :: int
  kin_security_required :: bool
  kin_security_provider :: string
  kin_security_results :: "security_result list"
  kin_security_addresses :: "string list"
  kin_simulation_acceptable :: bool
  kin_intent_hash :: string
  kin_selected_candidate_hash :: string
  kin_aerodrome :: "aerodrome_facts option"
  kin_reviewed_minimum :: "string option"
  kin_o1_pin_verified :: bool
  kin_hydrex_pin_verified :: bool
  kin_hydrex_upstream :: "string option"
  kin_balancer :: "(int \<times> string list) option"
  kin_gift :: "gift_declaration option"
  kin_swap_minimum :: "string option"

text \<open>Packages, language and environment.\<close>

record kernel_world =
  kwd_env :: environment
  kwd_parse :: "string \<Rightarrow> int option"
  kwd_number :: number_reader
  kwd_abi :: abi_decoder
  kwd_balancer :: balancer_abi
  kwd_codec :: erc20_codec

definition guardAssetV1 :: "asset_ref option \<Rightarrow> guard_asset option" where
  "guardAssetV1 asset =
     (case asset of None \<Rightarrow> None
      | Some a \<Rightarrow>
          if asr_kind a = NativeKind then Some NativeAsset
          else (case asr_address a of
              Some x \<Rightarrow> if x = '''' then None else Some (Erc20Asset (to_lower x) (Whole (asr_decimals a)))
            | None \<Rightarrow> None))"

section \<open>The calls the guard sees\<close>

text \<open>A declared gift's own transfer, the first of the batch, is checked apart and not shown to the guards.\<close>

fun without_first_transfer :: "execution_call list \<Rightarrow> execution_call list" where
  "without_first_transfer [] = []"
| "without_first_transfer (c # cs) = (if is_transfer c then cs else c # without_first_transfer cs)"

definition gift_call :: "kernel_input \<Rightarrow> execution_call option" where
  "gift_call i = (if kin_gift i = None then None else find is_transfer (kin_calls i))"

definition swap_part :: "kernel_input \<Rightarrow> execution_call list" where
  "swap_part i = (if gift_call i = None then kin_calls i else without_first_transfer (kin_calls i))"

definition to_base_call :: "execution_call \<Rightarrow> base_call" where
  "to_base_call c = \<lparr>bcl_to = exc_to c, bcl_value = Some (exc_value_wei c), bcl_data = Some (exc_data c)\<rparr>"

section \<open>The checks\<close>

type_synonym kernel_check = "string \<times> bool"

definition swap_calls :: "kernel_input \<Rightarrow> execution_call list" where
  "swap_calls i = filter (\<lambda>c. exc_call_type c = SwapCall) (kin_calls i)"

definition approval_calls :: "kernel_input \<Rightarrow> execution_call list" where
  "approval_calls i = filter (\<lambda>c. exc_call_type c = ApprovalCall) (kin_calls i)"

definition other_calls :: "kernel_input \<Rightarrow> execution_call list" where
  "other_calls i = filter (\<lambda>c. exc_call_type c \<noteq> SwapCall \<and> exc_call_type c \<noteq> ApprovalCall) (swap_part i)"

definition ordered_correctly :: "kernel_input \<Rightarrow> bool" where
  "ordered_correctly i \<longleftrightarrow>
     (case swap_calls i of
        [swap] \<Rightarrow>
          other_calls i = [] \<and> list_all (\<lambda>c. exc_index c < exc_index swap) (approval_calls i)
          \<and> (case gift_call i of Some g \<Rightarrow> exc_index g > exc_index swap | None \<Rightarrow> True)
      | _ \<Rightarrow> False)"

definition basic_checks :: "kernel_world \<Rightarrow> kernel_input \<Rightarrow> kernel_check list" where
  "basic_checks w i =
     [(''tenant_wallet_binding'', to_lower (kin_wallet_address i) = to_lower (rin_wallet_address (kin_intent i))),
      (''base_chain_pinned'', kin_chain_id i = 8453),
      (''quote_deadline_unexpired'', (case kwd_parse w (kin_quote_expiry i) of Some t \<Rightarrow> t > kin_now i | None \<Rightarrow> False)),
      (''call_order_and_count'', ordered_correctly i)]"

definition gift_checks :: "kernel_world \<Rightarrow> kernel_input \<Rightarrow> kernel_check list result" where
  "gift_checks w i =
     (if kin_gift i = None \<and> \<not> list_ex is_transfer (kin_calls i) then Inr []
      else bindR (validateGiftTransferV1 (kwd_codec w) (kin_calls i) (kin_intent i) (kin_wallet_address i)
               (kin_router_address i) (kin_gift i) (kin_swap_minimum i)) (\<lambda>refusal.
             Inr [(''gift_transfer_exact'', refusal = None)]))"

definition binding_checks :: "kernel_input \<Rightarrow> kernel_check list" where
  "binding_checks i =
     [(''recipient_is_wallet'',
        list_all (\<lambda>c. map_option to_lower (exc_recipient c) = Some (to_lower (kin_wallet_address i))) (swap_calls i)),
      (''input_amount_matches_intent'',
        list_all (\<lambda>c. exc_amount_atomic c = Some (tam_amount_atomic (rin_amount (kin_intent i)))) (approval_calls i)),
      (''linkage_hashes_present'', kin_intent_hash i \<noteq> '''' \<and> kin_selected_candidate_hash i \<noteq> '''')]"

text \<open>\<open>x && y && ...\<close> over optional text: none of it missing or empty.\<close>

definition present :: "string option \<Rightarrow> string option" where
  "present s = (case s of Some x \<Rightarrow> if x = '''' then None else Some x | None \<Rightarrow> None)"

definition asset_address_lower :: "asset_ref option \<Rightarrow> string option" where
  "asset_address_lower asset =
     present (case asset of Some a \<Rightarrow> map_option to_lower (asr_address a) | None \<Rightarrow> None)"

definition reviewed_parts :: "kernel_input \<Rightarrow> (string \<times> string \<times> string) option" where
  "reviewed_parts i =
     (case (asset_address_lower (rin_from_asset (kin_intent i)), asset_address_lower (rin_to_asset (kin_intent i)),
            present (kin_reviewed_minimum i)) of
        (Some a, Some b, Some m) \<Rightarrow> Some (a, b, m) | _ \<Rightarrow> None)"

definition intent_amount_atomic :: "kernel_input \<Rightarrow> string" where
  "intent_amount_atomic i = tam_amount_atomic (rin_amount (kin_intent i))"

definition balancer_context_of :: "kernel_input \<Rightarrow> balancer_context option" where
  "balancer_context_of i =
     (case (reviewed_parts i, kin_balancer i) of
        (Some (a, b, m), Some (version, keys)) \<Rightarrow>
          Some \<lparr>blc_protocol_version = version, blc_input_token_address = a, blc_output_token_address = b,
            blc_amount_in_atomic = intent_amount_atomic i, blc_minimum_output_atomic = m,
            blc_wallet_address = kin_wallet_address i, blc_router_address = kin_router_address i, blc_source_keys = keys\<rparr>
      | _ \<Rightarrow> None)"

definition hydrex_context_of :: "kernel_input \<Rightarrow> hydrex_context option" where
  "hydrex_context_of i =
     (case (reviewed_parts i, present (kin_hydrex_upstream i)) of
        (Some (a, b, m), Some upstream) \<Rightarrow>
          Some \<lparr>hyc_input_token_address = a, hyc_output_token_address = b, hyc_amount_in_atomic = intent_amount_atomic i,
            hyc_minimum_output_atomic = m, hyc_recipient = kin_wallet_address i, hyc_router_address = kin_router_address i,
            hyc_upstream_router = upstream, hyc_expires_at = kin_quote_expiry i\<rparr>
      | _ \<Rightarrow> None)"

definition o1_context_of :: "kernel_input \<Rightarrow> o1_context option" where
  "o1_context_of i =
     map_option (\<lambda>(a, b, m). \<lparr>o1c_input_token_address = a, o1c_output_token_address = b,
       o1c_amount_in_atomic = intent_amount_atomic i, o1c_minimum_output_atomic = m, o1c_swapper = kin_wallet_address i,
       o1c_router_address = kin_router_address i, o1c_expires_at = kin_quote_expiry i\<rparr>) (reviewed_parts i)"

definition aerodrome_context_of :: "kernel_input \<Rightarrow> aerodrome_context option" where
  "aerodrome_context_of i =
     (case (kin_aerodrome i, present (kin_reviewed_minimum i)) of
        (Some facts, Some m) \<Rightarrow>
          Some \<lparr>aec_input_token_address = afc_input_token_address facts, aec_input_is_native = afc_input_is_native facts,
            aec_output_is_native = afc_output_is_native facts, aec_amount_in_atomic = intent_amount_atomic i,
            aec_minimum_output_atomic = m, aec_swapper = kin_wallet_address i, aec_recipient = kin_wallet_address i,
            aec_router_address = kin_router_address i, aec_factory = afc_factory facts, aec_route = afc_route facts,
            aec_expires_at = kin_quote_expiry i\<rparr>
      | _ \<Rightarrow> None)"

definition uniswap_context_of :: "kernel_input \<Rightarrow> uniswap_context option" where
  "uniswap_context_of i =
     (case (guardAssetV1 (rin_from_asset (kin_intent i)), guardAssetV1 (rin_to_asset (kin_intent i))) of
        (Some a, Some b) \<Rightarrow>
          Some \<lparr>unc_amount_decimal = tam_amount_decimal (rin_amount (kin_intent i)), unc_input_asset = a,
            unc_output_asset = b, unc_swapper = kin_wallet_address i, unc_router_version = ''2.0'',
            unc_expires_at = kin_quote_expiry i\<rparr>
      | _ \<Rightarrow> None)"

definition kyber_context_of :: "kernel_input \<Rightarrow> kyber_context option" where
  "kyber_context_of i =
     (case (guardAssetV1 (rin_from_asset (kin_intent i)), guardAssetV1 (rin_to_asset (kin_intent i))) of
        (Some a, Some b) \<Rightarrow>
          Some \<lparr>kyc_amount_decimal = tam_amount_decimal (rin_amount (kin_intent i)), kyc_input_asset = a,
            kyc_output_asset = b, kyc_swapper = kin_wallet_address i, kyc_recipient = kin_wallet_address i,
            kyc_router_address = kin_router_address i, kyc_expires_at = kin_quote_expiry i\<rparr>
      | _ \<Rightarrow> None)"

text \<open>The provider's own guard over the swap part of the batch.\<close>

definition provider_checks :: "kernel_world \<Rightarrow> kernel_input \<Rightarrow> kernel_check list result" where
  "provider_checks w i =
     (let calls = map to_base_call (swap_part i); chain = ChainNumber (kin_chain_id i) in
      case kin_provider i of
        Balancer \<Rightarrow>
          bindR (validateBalancerSwap (kwd_balancer w) (kin_chain_id i) calls (balancer_context_of i) (kin_now i)) (\<lambda>r.
          Inr [(''provider_guard_balancer'', guard_allows r)])
      | Hydrex \<Rightarrow> Inr
          [(''provider_contract_pin_hydrex'', kin_hydrex_pin_verified i),
           (''provider_guard_hydrex'',
             guard_allows (validateHydrexSwap (kwd_abi w) (kwd_parse w) chain calls (hydrex_context_of i) (kin_now i)))]
      | O1Exchange \<Rightarrow> Inr
          [(''provider_contract_pin_o1'', kin_o1_pin_verified i),
           (''provider_guard_o1'',
             guard_allows (validateO1Swap (kwd_abi w) (kwd_parse w) chain calls (o1_context_of i) (kin_now i)))]
      | Aerodrome \<Rightarrow> Inr
          [(''provider_guard_aerodrome'',
             (case aerodrome_context_of i of None \<Rightarrow> False
              | Some c \<Rightarrow> guard_allows (validateAerodromeSwap (kwd_parse w) chain calls (Some c) (kin_now i))))]
      | Uniswap \<Rightarrow> Inr
          [(''provider_guard_uniswap'',
             guard_allows (validateUniswapSwap (kwd_env w) (kwd_parse w) chain calls (uniswap_context_of i) (kin_now i)))]
      | Kyberswap \<Rightarrow> Inr
          [(''provider_guard_kyberswap'',
             guard_allows (validateKyberSwap (kwd_env w) (kwd_parse w) chain calls (kyber_context_of i) (kin_now i)))])"

record kernel_result =
  krs_allowed :: bool
  krs_checks :: "kernel_check list"
  krs_contract_security :: security_summary

definition kernel_security :: "kernel_world \<Rightarrow> kernel_input \<Rightarrow> security_summary" where
  "kernel_security w i =
     evaluateContractSecurityV1 (kwd_number w) (kin_security_required i) (kin_security_provider i)
       (kin_security_addresses i) (kin_security_results i)"

definition runSafetyKernel :: "kernel_world \<Rightarrow> kernel_input \<Rightarrow> kernel_result result" where
  "runSafetyKernel w i =
     bindR (gift_checks w i) (\<lambda>gift.
     bindR (provider_checks w i) (\<lambda>provider.
     let checks = basic_checks w i @ gift @ binding_checks i @ provider
           @ [(''contract_token_security'', kernel_security w i \<noteq> SecurityBlocked),
              (''simulation_evidence'', kin_simulation_acceptable i)]
     in Inr \<lparr>krs_allowed = list_all snd checks, krs_checks = checks, krs_contract_security = kernel_security w i\<rparr>))"

end
