(* ===== verification/Kernel_Sound.thy ===== *)
theory Kernel_Sound
  imports Safety_Kernel
begin

text \<open>
  What an allowed verdict of the kernel rests on: every check of the list passed, read back as facts
  about the batch.
\<close>

section \<open>The checks of an allowed batch\<close>

definition kernel_allows :: "kernel_world \<Rightarrow> kernel_input \<Rightarrow> bool" where
  "kernel_allows w i = (case runSafetyKernel w i of Inr r \<Rightarrow> krs_allowed r | Inl e \<Rightarrow> False)"

lemma kernel_allows_parts:
  "kernel_allows w i \<longleftrightarrow>
     (\<exists>gift provider. gift_checks w i = Inr gift \<and> provider_checks w i = Inr provider
        \<and> list_all snd (basic_checks w i) \<and> list_all snd gift \<and> list_all snd (binding_checks i) \<and> list_all snd provider
        \<and> kernel_security w i \<noteq> SecurityBlocked \<and> kin_simulation_acceptable i)"
  by (auto simp: kernel_allows_def runSafetyKernel_def Let_def split: sum.splits)

text \<open>Who signs, where, until when, and in which order.\<close>

definition batch_bound :: "kernel_world \<Rightarrow> kernel_input \<Rightarrow> execution_call \<Rightarrow> bool" where
  "batch_bound w i swap \<longleftrightarrow>
     kin_chain_id i = 8453 \<and> to_lower (rin_wallet_address (kin_intent i)) = to_lower (kin_wallet_address i)
     \<and> (\<exists>expiry. kwd_parse w (kin_quote_expiry i) = Some expiry \<and> kin_now i < expiry)
     \<and> swap_calls i = [swap] \<and> map_option to_lower (exc_recipient swap) = Some (to_lower (kin_wallet_address i))
     \<and> (\<forall>call \<in> set (kin_calls i). exc_call_type call \<in> {SwapCall, ApprovalCall} \<or> Some call = gift_call i)
     \<and> (\<forall>call \<in> set (approval_calls i). exc_index call < exc_index swap
          \<and> exc_amount_atomic call = Some (intent_amount_atomic i))"

lemma without_first_transfer_set:
  "find is_transfer cs = Some g \<Longrightarrow> c \<in> set cs \<Longrightarrow> c = g \<or> c \<in> set (without_first_transfer cs)"
  by (induction cs) (auto split: if_splits)

lemma in_swap_part: "call \<in> set (kin_calls i) \<Longrightarrow> call \<in> set (swap_part i) \<or> Some call = gift_call i"
  using without_first_transfer_set [of "kin_calls i" _ call]
  by (auto simp: swap_part_def gift_call_def split: if_splits)

lemma kernel_binds:
  assumes "kernel_allows w i"
  shows "\<exists>swap. batch_bound w i swap"
proof -
  from assms have b: "list_all snd (basic_checks w i)" and r: "list_all snd (binding_checks i)"
    by (auto simp: kernel_allows_parts)
  then obtain swap where one: "swap_calls i = [swap]" and others: "other_calls i = []"
      and order: "list_all (\<lambda>c. exc_index c < exc_index swap) (approval_calls i)"
    by (auto simp: basic_checks_def ordered_correctly_def split: list.split_asm)
  have "exc_call_type call \<in> {SwapCall, ApprovalCall} \<or> Some call = gift_call i" if "call \<in> set (kin_calls i)" for call
    using others in_swap_part [OF that] by (auto simp: other_calls_def filter_empty_conv)
  moreover have "\<exists>expiry. kwd_parse w (kin_quote_expiry i) = Some expiry \<and> kin_now i < expiry"
    using b by (auto simp: basic_checks_def split: option.split_asm)
  ultimately have "batch_bound w i swap"
    using b r one order by (auto simp: batch_bound_def basic_checks_def binding_checks_def list_all_iff intent_amount_atomic_def)
  then show ?thesis ..
qed

section \<open>The provider's guard\<close>

lemma kernel_kyber:
  assumes "kernel_allows w i" and "kin_provider i = Kyberswap"
  shows "\<exists>c. kyber_context_of i = Some c
    \<and> guard_allows (validateKyberSwap (kwd_env w) (kwd_parse w) (ChainNumber (kin_chain_id i))
         (map to_base_call (swap_part i)) (Some c) (kin_now i))"
proof -
  from assms have g: "guard_allows (validateKyberSwap (kwd_env w) (kwd_parse w) (ChainNumber (kin_chain_id i))
         (map to_base_call (swap_part i)) (kyber_context_of i) (kin_now i))"
    by (auto simp: kernel_allows_parts provider_checks_def Let_def)
  then show ?thesis
    by (cases "kyber_context_of i") (simp_all add: validateKyberSwap_def check_kyber_context_def split: if_splits)
qed

lemma kernel_uniswap:
  assumes "kernel_allows w i" and "kin_provider i = Uniswap"
  shows "\<exists>c. uniswap_context_of i = Some c
    \<and> guard_allows (validateUniswapSwap (kwd_env w) (kwd_parse w) (ChainNumber (kin_chain_id i))
         (map to_base_call (swap_part i)) (Some c) (kin_now i))"
proof -
  from assms have g: "guard_allows (validateUniswapSwap (kwd_env w) (kwd_parse w) (ChainNumber (kin_chain_id i))
         (map to_base_call (swap_part i)) (uniswap_context_of i) (kin_now i))"
    by (auto simp: kernel_allows_parts provider_checks_def Let_def)
  then show ?thesis
    by (cases "uniswap_context_of i") (simp_all add: validateUniswapSwap_def check_uniswap_context_def split: if_splits)
qed

lemma kernel_aerodrome:
  assumes "kernel_allows w i" and "kin_provider i = Aerodrome"
  shows "\<exists>c. aerodrome_context_of i = Some c
    \<and> guard_allows (validateAerodromeSwap (kwd_parse w) (ChainNumber (kin_chain_id i))
         (map to_base_call (swap_part i)) (Some c) (kin_now i))"
  using assms by (auto simp: kernel_allows_parts provider_checks_def Let_def split: option.split_asm)

lemma kernel_o1:
  assumes "kernel_allows w i" and "kin_provider i = O1Exchange"
  shows "kin_o1_pin_verified i \<and> (\<exists>c. o1_context_of i = Some c
    \<and> guard_allows (validateO1Swap (kwd_abi w) (kwd_parse w) (ChainNumber (kin_chain_id i))
         (map to_base_call (swap_part i)) (Some c) (kin_now i)))"
proof -
  from assms have g: "kin_o1_pin_verified i"
      "guard_allows (validateO1Swap (kwd_abi w) (kwd_parse w) (ChainNumber (kin_chain_id i))
         (map to_base_call (swap_part i)) (o1_context_of i) (kin_now i))"
    by (auto simp: kernel_allows_parts provider_checks_def Let_def)
  then show ?thesis by (cases "o1_context_of i") (simp_all add: validateO1Swap_def split: if_splits)
qed

section \<open>Gifts and token security\<close>

lemma kernel_gift:
  assumes "kernel_allows w i"
  shows "case kin_gift i of
      None \<Rightarrow> filter is_transfer (kin_calls i) = []
    | Some gift \<Rightarrow> validateGiftTransferV1 (kwd_codec w) (kin_calls i) (kin_intent i) (kin_wallet_address i)
        (kin_router_address i) (Some gift) (kin_swap_minimum i) = Inr None"
proof -
  from assms obtain checks where g: "gift_checks w i = Inr checks" "list_all snd checks"
    by (auto simp: kernel_allows_parts)
  show ?thesis
  proof (cases "kin_gift i")
    case None
    then show ?thesis using g
      by (auto simp: gift_checks_def validateGiftTransferV1_def list_ex_iff filter_empty_conv split: if_split_asm)
  next
    case (Some gift)
    then show ?thesis using g by (auto simp: gift_checks_def split: sum.split_asm)
  qed
qed

text \<open>A token with a verdict of the provider asked, neither failed, unknown nor high risk.\<close>

definition vouched_for :: "security_result list \<Rightarrow> string \<Rightarrow> bool" where
  "vouched_for results address \<longleftrightarrow>
     (\<exists>r \<in> set results. to_lower (scr_address r) = to_lower address \<and> scr_provider r = ''goplus''
        \<and> scr_status r \<in> {SecurityOk, SecurityWarning})"

lemma not_blocked_vouched: "\<not> verdict_blocks (verdict_for results address) \<Longrightarrow> vouched_for results address"
proof (cases "find (\<lambda>r. to_lower (scr_address r) = to_lower address) results")
  case (Some r)
  then have "r \<in> set results" "to_lower (scr_address r) = to_lower address"
    by (auto simp: find_Some_iff)
  moreover assume "\<not> verdict_blocks (verdict_for results address)"
  ultimately show ?thesis using Some
    by (cases "scr_status r") (auto simp: verdict_for_def verdict_blocks_def vouched_for_def)
qed (simp add: verdict_for_def verdict_blocks_def)

lemma security_not_blocked:
  assumes "evaluateContractSecurityV1 num True provider addresses results \<noteq> SecurityBlocked"
  shows "provider = ''goplus'' \<and> (\<forall>r \<in> set results. tokenSecurityRefusalV1 num r = None)
    \<and> (\<forall>address \<in> set addresses. vouched_for results address)"
  using assms by (auto simp: evaluateContractSecurityV1_def Let_def list_ex_iff not_blocked_vouched split: if_split_asm)

lemma vouched_for_cong: "vouched_for results y \<Longrightarrow> to_lower y = to_lower x \<Longrightarrow> vouched_for results x"
  by (simp add: vouched_for_def)

text \<open>The addresses asked about leave out only a second spelling of one already asked about.\<close>

lemma distinct_addresses_cover:
  "x \<in> set xs \<Longrightarrow> to_lower x \<notin> set seen \<Longrightarrow> \<exists>y \<in> set (distinct_addresses seen xs). to_lower y = to_lower x"
proof (induction seen xs rule: distinct_addresses.induct)
  case (2 seen a as)
  then show ?case by (cases "to_lower a = to_lower x") (auto split: if_splits)
qed simp

text \<open>A tax reported as a fraction of one, a whole tax included, is below the threshold in percent.\<close>

lemma fractional_tax_passes:
  assumes "num raw = Some fraction" and "fraction \<le> 1"
  shows "tax_refusal num name (Some raw) = None"
  using assms by (simp add: tax_refusal_def MAX_TOKEN_TAX_PERCENT_V1_def)

end
