(* ===== verification/Kernel_Sample.thy ===== *)
theory Kernel_Sample
  imports Kernel_Sound
begin

text \<open>
  A batch the kernel allows: one ether is swapped through Kyber for a token, and the least the swap
  guarantees is handed to a friend. The properties of the kernel are read at this batch.
\<close>

definition plain_address :: "char \<Rightarrow> string" where
  "plain_address c = ''0x'' @ replicate 40 c"

lemma plain_address_ok: "hex_lower c \<Longrightarrow> ADDRESS (plain_address c)"
  by (simp add: plain_address_def ADDRESS_def list_all_iff)

lemma plain_address_lower: "hex_lower c \<Longrightarrow> to_lower (plain_address c) = plain_address c"
  by (rule address_lower) (rule plain_address_ok)

lemma plain_address_eq: "plain_address c = plain_address d \<longleftrightarrow> c = d"
  by (simp add: plain_address_def)

lemma plain_address_neq: "\<exists>x \<in> set (drop 2 s). x \<noteq> c \<Longrightarrow> plain_address c \<noteq> s \<and> s \<noteq> plain_address c"
  by (auto simp: plain_address_def)

definition giver :: string where "giver = plain_address (CHR ''1'')"
definition friend :: string where "friend = plain_address (CHR ''2'')"
definition bought :: string where "bought = plain_address (CHR ''3'')"

definition ether_asset :: asset_ref where
  "ether_asset = \<lparr>asr_asset_id = ''eip155:8453/native'', asr_chain_id = 8453, asr_kind = NativeKind,
     asr_address = None, asr_symbol = ''ETH'', asr_decimals = 18\<rparr>"

definition bought_asset :: asset_ref where
  "bought_asset = \<lparr>asr_asset_id = ''eip155:8453/erc20:'' @ bought, asr_chain_id = 8453, asr_kind = Erc20Kind,
     asr_address = Some bought, asr_symbol = ''ACME'', asr_decimals = 18\<rparr>"

definition gift_intent :: route_intent where
  "gift_intent = \<lparr>rin_wallet_address = giver, rin_chain_id = 8453, rin_from_asset = Some ether_asset,
     rin_to_asset = Some bought_asset,
     rin_amount = \<lparr>tam_asset = ether_asset, tam_amount_atomic = ''1000000000000000000'', tam_amount_decimal = ''1''\<rparr>,
     rin_max_bps = 50, rin_verification_depth = DepthStandard\<rparr>"

definition ether_swap :: execution_call where
  "ether_swap = \<lparr>exc_index = 0, exc_call_type = SwapCall, exc_to = KYBERSWAP_BASE_ROUTER,
     exc_value_wei = ''1000000000000000000'', exc_data = ''0xe21fd0e9'', exc_asset = None,
     exc_amount_atomic = None, exc_recipient = Some giver, exc_spender = None\<rparr>"

definition friend_transfer :: execution_call where
  "friend_transfer = \<lparr>exc_index = 1, exc_call_type = TransferCall, exc_to = bought, exc_value_wei = ''0'',
     exc_data = ''0xa9059cbb'', exc_asset = Some bought_asset, exc_amount_atomic = Some ''7'',
     exc_recipient = Some friend, exc_spender = None\<rparr>"

definition sample_world :: kernel_world where
  "sample_world = \<lparr>kwd_env = (\<lambda>_. None), kwd_parse = (\<lambda>s. if s = ''later'' then Some 2000 else None),
     kwd_number = (\<lambda>_. None), kwd_abi = \<lparr>abi_erc20 = (\<lambda>_. None), abi_o1 = (\<lambda>_. None), abi_hydrex = (\<lambda>_. None)\<rparr>,
     kwd_balancer = \<lparr>bab_erc20 = (\<lambda>_. None), bab_permit2 = (\<lambda>_. None), bab_v3_single = (\<lambda>_. None),
       bab_v3_batch = (\<lambda>_. None), bab_vault = (\<lambda>_. None)\<rparr>,
     kwd_codec = \<lparr>erc_encode_transfer = (\<lambda>to amount. Some ''0xa9059cbb''),
       erc_decode = (\<lambda>data. Some (Erc20Transfer friend 7))\<rparr>\<rparr>"

definition gift_batch :: kernel_input where
  "gift_batch = \<lparr>kin_provider = Kyberswap, kin_router_address = KYBERSWAP_BASE_ROUTER, kin_chain_id = 8453,
     kin_wallet_address = giver, kin_intent = gift_intent, kin_calls = [ether_swap, friend_transfer],
     kin_quote_expiry = ''later'', kin_now = 1000, kin_security_required = True, kin_security_provider = ''goplus'',
     kin_security_results = [\<lparr>scr_address = bought, scr_provider = ''goplus'', scr_status = SecurityOk, scr_flags = None\<rparr>],
     kin_security_addresses = [bought], kin_simulation_acceptable = True, kin_intent_hash = ''i'',
     kin_selected_candidate_hash = ''c'', kin_aerodrome = None, kin_reviewed_minimum = None,
     kin_o1_pin_verified = False, kin_hydrex_pin_verified = False, kin_hydrex_upstream = None, kin_balancer = None,
     kin_gift = Some \<lparr>gft_recipient = friend, gft_amount_atomic = ''7''\<rparr>, kin_swap_minimum = Some ''7''\<rparr>"

lemma sample_addresses:
  "ADDRESS giver" "ADDRESS friend" "ADDRESS bought" "to_lower giver = giver" "to_lower friend = friend" "to_lower bought = bought"
  by (simp_all add: giver_def friend_def bought_def plain_address_ok plain_address_lower hex_lower_def digit_value_def char_lower_def)

lemma kyber_router_lower: "ADDRESS KYBERSWAP_BASE_ROUTER \<and> to_lower KYBERSWAP_BASE_ROUTER = KYBERSWAP_BASE_ROUTER"
proof -
  have "ADDRESS KYBERSWAP_BASE_ROUTER"
    by (simp add: ADDRESS_def KYBERSWAP_BASE_ROUTER_def hex_lower_def digit_value_def char_lower_def)
  then show ?thesis by (simp add: address_lower)
qed

lemma one_ether: "js_bigint ''1000000000000000000'' = Some 1000000000000000000"
proof -
  have "all_digits 10 ''1000000000000000000''" by (simp add: all_digits_def digit_value_def)
  moreover have "digits_value 10 ''1000000000000000000'' = 1000000000000000000"
    by (simp add: digits_value_def digit_value_def)
  ultimately show ?thesis by (simp add: js_bigint_digits)
qed

lemma one_ether_decimal: "decimalAmountToRawV1 ''1'' 18 = Some 1000000000000000000"
proof -
  have "padEnd 18 (CHR ''0'') [] = ''000000000000000000''" by (simp add: padEnd_def numeral_eq_Suc)
  moreover have "digits_value 10 (CHR ''1'' # ''000000000000000000'') = 1000000000000000000"
    by (simp add: digits_value_def digit_value_def)
  ultimately show ?thesis
    by (simp add: decimalAmountToRawV1_def all_digits_def digit_value_def whole_and_fraction_def Let_def)
qed

lemma sample_context: "kyber_context_of gift_batch = Some \<lparr>kyc_amount_decimal = ''1'', kyc_input_asset = NativeAsset,
    kyc_output_asset = Erc20Asset bought (Whole 18), kyc_swapper = giver, kyc_recipient = giver,
    kyc_router_address = KYBERSWAP_BASE_ROUTER, kyc_expires_at = ''later''\<rparr>"
proof -
  have "bought \<noteq> []" by (simp add: bought_def plain_address_def)
  then show ?thesis
    by (simp add: kyber_context_of_def gift_batch_def gift_intent_def guardAssetV1_def ether_asset_def bought_asset_def sample_addresses)
qed

lemma sample_bought:
  "bought \<noteq> ZERO_ADDRESS" "bought \<noteq> KYBERSWAP_BASE_ROUTER" "bought \<noteq> BASE_WETH_ADDRESS"
  "ZERO_ADDRESS \<noteq> bought" "KYBERSWAP_BASE_ROUTER \<noteq> bought" "BASE_WETH_ADDRESS \<noteq> bought"
  by (simp_all add: bought_def plain_address_neq ZERO_ADDRESS_def KYBERSWAP_BASE_ROUTER_def BASE_WETH_ADDRESS_def)

lemma sample_kyber: "guard_allows (validateKyberSwap (kwd_env sample_world) (kwd_parse sample_world) (ChainNumber 8453)
    [to_base_call ether_swap] (kyber_context_of gift_batch) 1000)"
proof -
  have c: "check_kyber_context (kwd_parse sample_world) (kyber_context_of gift_batch) 1000
    = Inr (the (kyber_context_of gift_batch), \<lparr>nas_address = None, nas_decimals = 18, nas_side = BASE_WETH_ADDRESS\<rparr>, 1000000000000000000)"
    using sample_bought
    by (simp add: check_kyber_context_def sample_context normalizeSwapAssetV1_def sample_addresses kyber_router_lower
        MAX_SWAP_ASSET_DECIMALS_V1_def sample_world_def one_ether_decimal Let_def)
  have d: "HEX_DATA ''0xe21fd0e9''" "to_lower ''0xe21fd0e9'' = ''0xe21fd0e9''"
    by (simp_all add: HEX_DATA_def hex_lower_def digit_value_def char_lower_def to_lower_def)
  show ?thesis
    unfolding validateKyberSwap_def c
    by (simp add: base_mainnet to_base_call_def ether_swap_def see_kyber_call_def kyber_no_calls_def call_to_def call_data_def
        call_value_def opt_or_def or_else_def one_ether kyber_router_lower d Let_def)
qed

lemma sample_gift: "validateGiftTransferV1 (kwd_codec sample_world) (kin_calls gift_batch) (kin_intent gift_batch) giver
    KYBERSWAP_BASE_ROUTER (kin_gift gift_batch) (kin_swap_minimum gift_batch) = Inr None"
proof -
  have p: "positive_decimal ''7''" "digits_value 10 ''7'' = 7"
    by (simp_all add: positive_decimal_def plain_decimal_def all_digits_def digit_value_def digits_value_def)
  have seven: "js_bigint ''7'' = Some 7" "show_int 7 = ''7''" "positive_decimal ''7''"
    using positive_decimal_value [OF p(1)] p(1) unfolding p(2) by simp_all
  have d: "to_lower ''0xa9059cbb'' = ''0xa9059cbb''" by (simp add: to_lower_def char_lower_def)
  have lower: "to_lower ZERO_ADDRESS = ZERO_ADDRESS" "to_lower PERMIT2_ADDRESS_V1 = PERMIT2_ADDRESS_V1" "to_lower [] = []"
    by (simp_all add: ZERO_ADDRESS_def PERMIT2_ADDRESS_V1_def to_lower_def char_lower_def)
  have "friend \<noteq> ZERO_ADDRESS" "friend \<noteq> PERMIT2_ADDRESS_V1" "friend \<noteq> KYBERSWAP_BASE_ROUTER" "friend \<noteq> []"
    "friend \<noteq> giver" "friend \<noteq> bought"
    by (simp_all add: friend_def giver_def bought_def plain_address_eq plain_address_neq ZERO_ADDRESS_def PERMIT2_ADDRESS_V1_def
        KYBERSWAP_BASE_ROUTER_def) (simp add: plain_address_def)
  then have "friend \<notin> set (gift_reserved gift_intent giver KYBERSWAP_BASE_ROUTER bought)"
    by (simp add: gift_reserved_def gift_intent_def ether_asset_def sample_addresses kyber_router_lower lower)
  then show ?thesis
    by (simp add: validateGiftTransferV1_def gift_batch_def ether_swap_def friend_transfer_def is_transfer_def last_index_def
        gift_token_def gift_intent_def bought_asset_def sample_addresses sample_world_def gift_calldata_refusal_def
        encodeGiftTransferV1_def seven d Let_def)
qed

lemma gift_batch_allowed: "kernel_allows sample_world gift_batch"
proof -
  have parts: "gift_call gift_batch = Some friend_transfer" "swap_part gift_batch = [ether_swap]"
    "kin_calls gift_batch = [ether_swap, friend_transfer]"
    by (simp_all add: gift_call_def swap_part_def gift_batch_def ether_swap_def friend_transfer_def is_transfer_def)
  have "list_all snd (basic_checks sample_world gift_batch)"
    unfolding basic_checks_def ordered_correctly_def swap_calls_def approval_calls_def other_calls_def parts
    by (simp add: gift_batch_def gift_intent_def sample_world_def ether_swap_def friend_transfer_def)
  moreover have "list_all snd (binding_checks gift_batch)"
    unfolding binding_checks_def swap_calls_def approval_calls_def parts
    by (simp add: gift_batch_def ether_swap_def friend_transfer_def)
  moreover have "gift_checks sample_world gift_batch = Inr [(''gift_transfer_exact'', True)]"
    using sample_gift by (simp add: gift_checks_def gift_batch_def)
  moreover have "provider_checks sample_world gift_batch = Inr [(''provider_guard_kyberswap'', True)]"
    using sample_kyber unfolding provider_checks_def parts by (simp add: gift_batch_def Let_def)
  moreover have "kernel_security sample_world gift_batch \<noteq> SecurityBlocked"
    by (simp add: kernel_security_def evaluateContractSecurityV1_def gift_batch_def tokenSecurityRefusalV1_def
        verdict_for_def verdict_blocks_def)
  moreover have "kin_simulation_acceptable gift_batch" by (simp add: gift_batch_def)
  ultimately show ?thesis by (auto simp: kernel_allows_parts)
qed

end
