(* ===== verification/Swap_Properties.thy ===== *)
theory Swap_Properties
  imports Aerodrome_Ready Kernel_Sample
begin

text \<open>
  One ether swapped through one Aerodrome pool, built by the adapter from a reviewed candidate.

  The claims about swaps: amounts, calldata and source keys survive being written down; what an
  adapter builds its guard allows; what the kernel allows is what was reviewed.
\<close>

section \<open>A concrete build\<close>

definition sample_keccak :: "string \<Rightarrow> string" where
  "sample_keccak s = (if s = TOKENS_FOR_TOKENS then ''cac88ea9'' else if s = ETH_FOR_TOKENS then ''903638a4''
     else if s = TOKENS_FOR_ETH then ''c6b7f1b6'' else ''095ea7b3'')"

lemma sample_keccak_ok: "keccak_ok sample_keccak"
  by (simp add: keccak_ok_def selectorV1_def sample_keccak_def TOKENS_FOR_TOKENS_def ETH_FOR_TOKENS_def TOKENS_FOR_ETH_def APPROVE_def)

definition sample_language :: language where
  "sample_language = \<lparr>lng_iso = show_int, lng_parse = js_bigint, lng_keccak = sample_keccak\<rparr>"

lemma sample_language_ok: "language_ok sample_language"
  by (simp add: language_ok_def sample_language_def sample_keccak_ok js_bigint_show)

definition pool_factory :: string where "pool_factory = plain_address (CHR ''4'')"

definition ether_leg :: route_leg where
  "ether_leg = \<lparr>leg_from = AERODROME_WETH_V1, leg_to = bought, leg_stable = False, leg_factory = pool_factory\<rparr>"

lemma ether_leg_clean: "clean_leg ether_leg"
proof -
  have "ADDRESS AERODROME_WETH_V1"
    by (simp add: ADDRESS_def AERODROME_WETH_V1_def hex_lower_def digit_value_def char_lower_def)
  moreover have "ADDRESS pool_factory"
    by (simp add: pool_factory_def plain_address_ok hex_lower_def digit_value_def char_lower_def)
  ultimately show ?thesis by (simp add: clean_leg_def ether_leg_def sample_addresses)
qed

definition ether_candidate :: route_candidate where
  "ether_candidate = \<lparr>rcd_provider = Aerodrome, rcd_candidate_hash = ''c'', rcd_source_keys = [aerodromeSourceKeyV1 ether_leg],
     rcd_minimum_output = \<lparr>tam_asset = bought_asset, tam_amount_atomic = ''7'', tam_amount_decimal = ''0.000000000000000007''\<rparr>\<rparr>"

definition ether_reader :: aerodrome_reader where
  "ether_reader = \<lparr>rdr_default_factory = Inr pool_factory, rdr_amounts_out = (\<lambda>_ _. Inr [1000000000000000000, 7]),
     rdr_allowance = (\<lambda>_ _ _. Inr 0)\<rparr>"

definition ether_build :: build_input where
  "ether_build = \<lparr>bdi_intent = gift_intent\<lparr>rin_max_bps := 0\<rparr>, bdi_selected = ether_candidate,
     bdi_reviewed = Some ether_candidate, bdi_wallet_address = giver, bdi_now = 1000\<rparr>"

lemma ether_route: "routeFromCandidateV1 ether_candidate = Some [ether_leg]"
  by (simp add: routeFromCandidateV1_def ether_candidate_def key_is_read ether_leg_clean AERODROME_MAX_HOPS_V1_def)

lemma ether_reviewed: "reviewed_route ether_build
    = Inr (ether_asset, bought_asset, AERODROME_WETH_V1, ether_candidate, [ether_leg])"
proof -
  have "bought \<noteq> []" by (simp add: bought_def plain_address_def)
  moreover have "AERODROME_WETH_V1 \<noteq> bought"
    by (simp add: bought_def plain_address_neq AERODROME_WETH_V1_def)
  ultimately show ?thesis
    by (simp add: reviewed_route_def ether_build_def gift_intent_def poolTokenV1_def ether_asset_def bought_asset_def
        sample_addresses ether_route ether_leg_def sameAerodromeRouteV1_def)
qed

lemma shown_seven: "digits_value 10 ''7'' = 7 \<and> show_int 7 = ''7'' \<and> plain_decimal ''7''"
proof -
  have p: "positive_decimal ''7''" "digits_value 10 ''7'' = 7"
    by (simp_all add: positive_decimal_def plain_decimal_def all_digits_def digit_value_def digits_value_def)
  then show ?thesis using positive_decimal_value [OF p(1)] p(1) unfolding p(2) positive_decimal_def by simp
qed

lemma seven: "digit_value (CHR ''7'') = 7"
  by (simp add: digit_value_def)

lemma one_ether_value: "digits_value 10 ''1000000000000000000'' = 1000000000000000000"
  by (simp add: digits_value_def digit_value_def)

lemma ether_reads: "fresh_reads ether_reader (bdi_intent ether_build) [ether_leg] = Inr (pool_factory, 1000000000000000000, 7)"
  by (simp add: fresh_reads_def ether_reader_def ether_build_def gift_intent_def ether_leg_def one_ether_value)

lemma ether_amounts: "\<exists>expected minimum. tam_amount_atomic minimum = ''7''
    \<and> build_amounts (bdi_intent ether_build) bought_asset ether_candidate 7 = Inr (Inr (expected, minimum, 7))"
proof -
  have "minimumOutputAtomic ''7'' (Whole 0) = Inr ''7''"
    by (simp add: minimumOutputAtomic_def UNSIGNED_INTEGER_def shown_seven seven jsdiv_def)
  moreover obtain d where "atomicToHumanDecimal ''7'' (Whole 18) = Some d"
    using atomicToHumanDecimal_parts [of "''7''" 18] shown_seven by auto
  ultimately show ?thesis
    by (simp add: build_amounts_def ether_build_def gift_intent_def bought_asset_def ether_candidate_def shown_seven seven)
qed

lemma ether_builds: "\<exists>b. build_aerodrome sample_language (Some ether_reader) ether_build = Inr (Inr b)
    \<and> tam_amount_atomic (bds_minimum_output b) = ''7'' \<and> afc_input_token_address (bds_aerodrome b) = None"
proof -
  obtain expected minimum where a: "tam_amount_atomic minimum = ''7''"
    "build_amounts (bdi_intent ether_build) bought_asset ether_candidate 7 = Inr (Inr (expected, minimum, 7))"
    using ether_amounts by blast
  let ?args = "\<lparr>sen_amount_in = 1000000000000000000, sen_amount_out_min = 7, sen_routes = [ether_leg],
      sen_to = giver, sen_deadline = 601\<rparr>"
  obtain data where "encodeSwapExactEthForTokensV1 sample_keccak ?args = Inr data"
    by (simp add: encodeSwapExactEthForTokensV1_def assertSwapInputV1_def AERODROME_MAX_HOPS_V1_def uintWord_def
        routesTailV1_def leg_calldata_def ether_leg_def)
  then have "\<exists>calls. build_calls sample_language ether_reader ether_build ether_asset bought_asset AERODROME_WETH_V1
      1000000000000000000 7 [ether_leg] (show_int (1000 + BUILD_TTL_MS)) = Inr (Inr (calls, None))"
    by (simp add: build_calls_def sample_language_def js_bigint_show BUILD_TTL_MS_def ether_asset_def swap_calldata_def
        ether_build_def Let_def)
  moreover have "lng_iso sample_language = show_int" "bdi_now ether_build = 1000" "asr_kind ether_asset = NativeKind"
    by (simp_all add: sample_language_def ether_build_def ether_asset_def)
  ultimately show ?thesis
    using a(1) by (auto simp: build_aerodrome_def ether_reviewed ether_reads a(2) Let_def)
qed

lemma ether_native:
  assumes "build_aerodrome sample_language (Some ether_reader) ether_build = Inr (Inr b)"
  shows "afc_input_is_native (bds_aerodrome b)"
  using assms
  by (auto simp: build_aerodrome_def ether_reviewed ether_reads ether_asset_def Let_def split: sum.split_asm prod.split_asm)

section \<open>Round trips\<close>

text \<open>
  C36. An amount in base units is shown as decimal text and read back as itself, by the routes'
  reader for every number of decimals up to 255; and the guards' own reader, which accepts no zero,
  reads the same amount.
\<close>

theorem amounts_round_trip:
  assumes "plain_decimal v" and "d \<le> 255"
  shows "\<exists>h. atomicToHumanDecimal v (Whole (int d)) = Some h \<and> humanDecimalToAtomic h (Whole (int d)) = Some v
    \<and> decimalAmountToRawV1 h d = (if v = ''0'' then None else Some (int (digits_value 10 v)))"
proof -
  obtain w f where *: "atomicToHumanDecimal v (Whole (int d)) = Some (with_fraction w f)"
    "plain_decimal w" "all_digits 10 f" "strip_trailing_zeros f = f" "length f \<le> d"
    "digits_value 10 (w @ padEnd d (CHR ''0'') f) = digits_value 10 v"
    using atomicToHumanDecimal_parts [OF assms(1), of d] by metis
  then show ?thesis
    using humanDecimalToAtomic_of [OF *(2-5) assms(2)] decimalAmountToRawV1_of [OF *(2,3,5)]
      plain_decimal_digits [OF assms(1)] plain_zero [OF assms(1)] by (auto simp: Let_def)
qed

theorem amounts_round_trip_witness:
  "atomicToHumanDecimal ''1050000'' (Whole (int 6)) = Some ''1.05'' \<and> humanDecimalToAtomic ''1.05'' (Whole (int 6)) = Some ''1050000''"
  using amounts_round_trip [of "''1050000''" 6]
  by (simp add: atomicToHumanDecimal_def UNSIGNED_INTEGER_def plain_decimal_def all_digits_def digit_value_def padStart_def
      or_else_def with_fraction_def strip_trailing_zeros_def Let_def)

text \<open>
  C35. The calldata of an Aerodrome swap: whatever the adapter writes, the guard's decoder, which
  shares no code with it, reads as the same entry point, amounts, deadline, recipient and route,
  letter case aside.
\<close>

theorem aerodrome_calldata_round_trip:
  assumes "keccak_ok keccak" and "encodable i" and "encodeSwap keccak kind i = Inr data"
  shows "decodeAerodromeSwapCalldata data = Some \<lparr>dsw_kind = kind,
      dsw_amount_in = (if kind = EthForTokens then None else Some (sen_amount_in i)),
      dsw_amount_out_min = sen_amount_out_min i, dsw_route = map lower_leg (sen_routes i),
      dsw_to = to_lower (sen_to i), dsw_deadline = sen_deadline i\<rparr>"
  by (rule encoded_is_decoded [OF assms])

theorem aerodrome_calldata_round_trip_witness:
  "\<exists>data d. encodeSwapExactTokensForTokensV1 sample_keccak \<lparr>sen_amount_in = 5, sen_amount_out_min = 4,
       sen_routes = [ether_leg], sen_to = giver, sen_deadline = 601\<rparr> = Inr data
     \<and> decodeAerodromeSwapCalldata data = Some d \<and> dsw_amount_in d = Some 5 \<and> dsw_route d = [ether_leg]"
proof -
  let ?i = "\<lparr>sen_amount_in = 5, sen_amount_out_min = 4, sen_routes = [ether_leg], sen_to = giver, sen_deadline = 601\<rparr>"
  obtain data where data: "encodeSwapExactTokensForTokensV1 sample_keccak ?i = Inr data"
    by (simp add: encodeSwapExactTokensForTokensV1_def assertSwapInputV1_def AERODROME_MAX_HOPS_V1_def uintWord_def
        routesTailV1_def leg_calldata_def ether_leg_def)
  have "encodable ?i"
    using clean_leg_ok [OF ether_leg_clean] sample_addresses by (simp add: encodable_def)
  then have "decodeAerodromeSwapCalldata data = Some \<lparr>dsw_kind = TokensForTokens, dsw_amount_in = Some 5,
      dsw_amount_out_min = 4, dsw_route = [lower_leg ether_leg], dsw_to = to_lower giver, dsw_deadline = 601\<rparr>"
    using aerodrome_calldata_round_trip [of sample_keccak ?i TokensForTokens data] data
    by (simp add: encodeSwap_def sample_keccak_ok)
  with data clean_leg_ok [OF ether_leg_clean] show ?thesis by simp
qed

section \<open>What is built is allowed, and what is allowed was reviewed\<close>

text \<open>
  C24. Every batch the Aerodrome adapter builds from a reviewed candidate is one the guard allows
  at that moment: the guard, reading only the bytes and the review, never refuses the adapter's own
  work. The request's amounts must fit the ABI and the wallet be an address.
\<close>

theorem built_batches_pass_the_guard:
  assumes "language_ok l" and "build_aerodrome l (Some reader) i = Inr (Inr b)"
    and "bdi_reviewed i = Some reviewed" and "buildable i b (tam_amount_atomic (rcd_minimum_output reviewed))"
  shows "guard_allows (validateAerodromeSwap (lng_parse l) (ChainNumber 8453) (map as_base_call (bds_calls b))
    (Some (ready_context i b reviewed)) (bdi_now i))"
  by (rule built_is_allowed [OF assms])

lemma ether_buildable:
  assumes "tam_amount_atomic (bds_minimum_output b) = ''7''" and "afc_input_token_address (bds_aerodrome b) = None"
  shows "buildable ether_build b ''7''"
proof -
  have "address_schema giver" using schema_fixed [of giver] sample_addresses by (simp add: AddressV1Schema_def split: if_splits)
  moreover have "plain_decimal ''1000000000000000000''" by (simp add: plain_decimal_def all_digits_def digit_value_def)
  ultimately show ?thesis
    using assms by (simp add: buildable_def ether_build_def gift_intent_def BUILD_TTL_MS_def one_ether_value shown_seven seven)
qed

theorem built_batches_pass_the_guard_witness:
  "\<exists>b. build_aerodrome sample_language (Some ether_reader) ether_build = Inr (Inr b)
    \<and> guard_allows (validateAerodromeSwap js_bigint (ChainNumber 8453) (map as_base_call (bds_calls b))
        (Some (ready_context ether_build b ether_candidate)) 1000)"
proof -
  obtain b where b: "build_aerodrome sample_language (Some ether_reader) ether_build = Inr (Inr b)"
    "tam_amount_atomic (bds_minimum_output b) = ''7''" "afc_input_token_address (bds_aerodrome b) = None"
    using ether_builds by blast
  have "bdi_reviewed ether_build = Some ether_candidate" "bdi_now ether_build = 1000" "lng_parse sample_language = js_bigint"
    "tam_amount_atomic (rcd_minimum_output ether_candidate) = ''7''"
    by (simp_all add: ether_build_def sample_language_def ether_candidate_def)
  then show ?thesis
    using built_batches_pass_the_guard [OF sample_language_ok b(1)] ether_buildable [OF b(2,3)] b(1) by auto
qed

text \<open>
  C6. A batch the Aerodrome guard allows is the reviewed swap: one call to the pinned router and, for
  a token only, one approval of exactly the reviewed input to that router beside it. The swap's calldata
  decodes to the router's entry point for the kinds of the two assets, takes exactly the reviewed input,
  sends no less than the reviewed minimum to the wallet before its deadline, and goes through exactly the
  reviewed pools in their order, each of the reviewed factory, joined end to end; a token's route starts
  at that token. (For a native input the router itself starts from the ether sent, and the guard
  compares the route with the reviewed one only.)
\<close>

theorem aerodrome_guard_is_sound:
  assumes "guard_allows (validateAerodromeSwap parse chain calls (Some c) now)"
  shows "\<exists>amount minimum swap d. parseAtomic (aec_amount_in_atomic c) = Some amount
    \<and> parseAtomic (aec_minimum_output_atomic c) = Some minimum \<and> 0 < amount \<and> 0 < minimum
    \<and> call_to swap = AERODROME_BASE_ROUTER \<and> call_value swap = Some (if aec_input_is_native c then amount else 0)
    \<and> decodeAerodromeSwapCalldata (opt_or (bcl_data swap) '''') = Some d
    \<and> dsw_kind d = (if aec_input_is_native c then EthForTokens else if aec_output_is_native c then TokensForEth else TokensForTokens)
    \<and> (if aec_input_is_native c then dsw_amount_in d = None else dsw_amount_in d = Some amount)
    \<and> minimum \<le> dsw_amount_out_min d
    \<and> to_lower (dsw_to d) = to_lower (aec_swapper c) \<and> now < dsw_deadline d * 1000
    \<and> same_route (dsw_route d) (aec_route c) \<and> connected (dsw_route d)
    \<and> (\<forall>leg \<in> set (dsw_route d). to_lower (leg_factory leg) = to_lower (aec_factory c))
    \<and> (if aec_input_is_native c then calls = [swap]
       else \<exists>token approval. aerodrome_input_token c = Some token \<and> to_lower (leg_from (hd (dsw_route d))) = token
         \<and> approves_exactly token AERODROME_BASE_ROUTER amount approval \<and> set calls = {approval, swap} \<and> length calls = 2)"
proof -
  obtain amount minimum where a: "parseAtomic (aec_amount_in_atomic c) = Some amount"
      "parseAtomic (aec_minimum_output_atomic c) = Some minimum" "0 < amount" "0 < minimum"
    and ok: "aerodrome_batch_ok c now amount minimum calls"
    using aerodrome_allowed [OF assms] by blast
  then obtain swap where s: "swaps_as_reviewed c now amount minimum swap"
    and batch: "if aec_input_is_native c then calls = [swap]
           else \<exists>token approval. aerodrome_input_token c = Some token
             \<and> approves_exactly token AERODROME_BASE_ROUTER amount approval
             \<and> (calls = [approval, swap] \<or> calls = [swap, approval])"
    by (auto simp: aerodrome_batch_ok_def)
  obtain d where dec: "decodeAerodromeSwapCalldata (opt_or (bcl_data swap) '''') = Some d"
      and d: "calldata_as_reviewed c now amount minimum d"
      and to: "call_to swap = AERODROME_BASE_ROUTER" "call_value swap = Some (if aec_input_is_native c then amount else 0)"
    using s by (auto simp: swaps_as_reviewed_def)
  have "if aec_input_is_native c then calls = [swap]
       else \<exists>token approval. aerodrome_input_token c = Some token \<and> to_lower (leg_from (hd (dsw_route d))) = token
         \<and> approves_exactly token AERODROME_BASE_ROUTER amount approval \<and> set calls = {approval, swap} \<and> length calls = 2"
    using batch d by (auto simp: calldata_as_reviewed_def split: if_splits)
  moreover have "if aec_input_is_native c then dsw_amount_in d = None else dsw_amount_in d = Some amount"
    using d decoded_amount_in [OF dec] by (auto simp: calldata_as_reviewed_def expected_kind_def split: if_splits)
  moreover have "dsw_kind d = (if aec_input_is_native c then EthForTokens else if aec_output_is_native c then TokensForEth else TokensForTokens)"
      "minimum \<le> dsw_amount_out_min d" "to_lower (dsw_to d) = to_lower (aec_swapper c)" "now < dsw_deadline d * 1000"
      "same_route (dsw_route d) (aec_route c)" "connected (dsw_route d)"
      "\<forall>leg \<in> set (dsw_route d). to_lower (leg_factory leg) = to_lower (aec_factory c)"
    using d by (auto simp: calldata_as_reviewed_def expected_kind_def)
  ultimately show ?thesis using a dec to
    by (intro exI [of _ amount] exI [of _ minimum] exI [of _ swap] exI [of _ d]) simp
qed

theorem aerodrome_guard_is_sound_witness:
  "\<exists>b swap d. build_aerodrome sample_language (Some ether_reader) ether_build = Inr (Inr b)
    \<and> map as_base_call (bds_calls b) = [swap] \<and> call_to swap = AERODROME_BASE_ROUTER
    \<and> decodeAerodromeSwapCalldata (opt_or (bcl_data swap) '''') = Some d \<and> 7 \<le> dsw_amount_out_min d"
proof -
  obtain b where b: "build_aerodrome sample_language (Some ether_reader) ether_build = Inr (Inr b)"
    "tam_amount_atomic (bds_minimum_output b) = ''7''" "afc_input_token_address (bds_aerodrome b) = None"
    using ether_builds by blast
  have e: "bdi_reviewed ether_build = Some ether_candidate" "tam_amount_atomic (rcd_minimum_output ether_candidate) = ''7''"
    by (simp_all add: ether_build_def ether_candidate_def)
  have g: "guard_allows (validateAerodromeSwap (lng_parse sample_language) (ChainNumber 8453) (map as_base_call (bds_calls b))
      (Some (ready_context ether_build b ether_candidate)) (bdi_now ether_build))"
    using built_is_allowed [OF sample_language_ok b(1) e(1)] ether_buildable [OF b(2,3)] e(2) by simp
  have n: "aec_input_is_native (ready_context ether_build b ether_candidate)"
    "aec_minimum_output_atomic (ready_context ether_build b ether_candidate) = ''7''"
    using ether_native [OF b(1)] by (simp_all add: ready_context_def aerodrome_kernel_context_def e Let_def)
  have "parseAtomic ''7'' = Some 7" using parseAtomic_show [of 7] shown_seven by simp
  with aerodrome_guard_is_sound [OF g] n b(1) show ?thesis by auto
qed

section \<open>The kernel\<close>

text \<open>
  C5. What the safety kernel allows of a KyberSwap batch: it is the authenticated wallet's, on Base,
  before the quote's expiry; exactly one call is declared a swap and every other call is declared an
  approval of exactly the reviewed input, before it, or is the declared gift. The calls shown to the
  guard, which are all but the gift, are one or two: for ether, one call to the pinned router carrying
  exactly the reviewed input; for a token, one call to the pinned router carrying no value and at most
  one other, which carries no value and decodes to an approval of exactly the reviewed input to that
  router. The router's own calldata is KyberSwap's and is not read: what it takes of a token is bounded
  by this approval and by those the wallet made before.
\<close>

theorem kernel_spends_what_was_reviewed:
  assumes "kernel_allows w i" and "kin_provider i = Kyberswap"
  shows "\<exists>swap given inputAsset amount. batch_bound w i swap
    \<and> guardAssetV1 (rin_from_asset (kin_intent i)) = Some given
    \<and> normalizeSwapAssetV1 (Some given) [KYBERSWAP_BASE_ROUTER] = Some inputAsset
    \<and> decimalAmountToRawV1 (tam_amount_decimal (rin_amount (kin_intent i))) (nas_decimals inputAsset) = Some amount
    \<and> kyber_batch_ok (nas_address inputAsset) amount (map to_base_call (swap_part i))"
proof -
  obtain swap where s: "batch_bound w i swap" using kernel_binds [OF assms(1)] by blast
  obtain c where c: "kyber_context_of i = Some c"
    and g: "guard_allows (validateKyberSwap (kwd_env w) (kwd_parse w) (ChainNumber (kin_chain_id i))
         (map to_base_call (swap_part i)) (Some c) (kin_now i))"
    using kernel_kyber [OF assms] by blast
  have "guardAssetV1 (rin_from_asset (kin_intent i)) = Some (kyc_input_asset c)"
      "kyc_amount_decimal c = tam_amount_decimal (rin_amount (kin_intent i))"
    using c by (auto simp: kyber_context_of_def split: option.split_asm)
  with s kyber_allowed [OF g] show ?thesis by metis
qed

theorem kernel_spends_what_was_reviewed_witness:
  "\<exists>swap. map to_base_call (swap_part gift_batch) = [swap] \<and> call_to swap = KYBERSWAP_BASE_ROUTER
     \<and> call_value swap = Some 1000000000000000000"
proof -
  have "kin_provider gift_batch = Kyberswap" "guardAssetV1 (rin_from_asset (kin_intent gift_batch)) = Some NativeAsset"
      "tam_amount_decimal (rin_amount (kin_intent gift_batch)) = ''1''"
    by (simp_all add: gift_batch_def gift_intent_def ether_asset_def guardAssetV1_def)
  with kernel_spends_what_was_reviewed [OF gift_batch_allowed] show ?thesis
    by (auto simp: normalizeSwapAssetV1_def one_ether_decimal kyber_batch_ok_def)
qed

text \<open>
  C16. A gift the kernel allows: with none declared the batch transfers nothing; a declared one is
  exactly one transfer, the last call, of the bought token, carrying no value, decoding to exactly the
  swap's guaranteed minimum for the declared person, who is neither the giver, the router, the token
  nor the zero address.
\<close>

theorem kernel_gift_is_exact:
  assumes "kernel_allows w i"
  shows "case kin_gift i of
      None \<Rightarrow> filter is_transfer (kin_calls i) = []
    | Some gift \<Rightarrow> (\<exists>m. kin_swap_minimum i = Some m \<and> positive_decimal m \<and> gft_amount_atomic gift = m
        \<and> gift_exact (kwd_codec w) (kin_intent i) (kin_wallet_address i) (kin_router_address i) gift m (kin_calls i))"
proof (cases "kin_gift i")
  case None
  then show ?thesis using kernel_gift [OF assms] by simp
next
  case (Some gift)
  then show ?thesis using kernel_gift [OF assms] gift_ok by (simp only: option.case)
qed

theorem kernel_gift_is_exact_witness:
  "gift_exact (kwd_codec sample_world) gift_intent giver KYBERSWAP_BASE_ROUTER
     \<lparr>gft_recipient = friend, gft_amount_atomic = ''7''\<rparr> ''7'' [ether_swap, friend_transfer]"
  using kernel_gift_is_exact [OF gift_batch_allowed] by (simp add: gift_batch_def)

end
