(* ===== verification/Simulation.thy ===== *)
theory Simulation
  imports Safety_Kernel
begin

text \<open>
  lib/transaction-composer/src/simulationOutcome.ts and the part of coordinator.ts that decides
  whether a simulation is good enough to sign on, and that recovers the guards' facts from what is
  stored.
\<close>

section \<open>simulationOutcome.ts\<close>

datatype simulation_outcome =
    SimulationPassed | SimulationReverted | InsufficientFunds | SimulationMethodUnsupported | SimulationProviderUnavailable

datatype simulation_status = NotRequested | SimPending | SimPassed | SimFailed | SimUnavailable

record simulation_state =
  sms_status :: simulation_status
  sms_error_code :: "string option"

definition INSUFFICIENT_FUNDS_CODES_V1 :: "string list" where
  "INSUFFICIENT_FUNDS_CODES_V1 = [''provider_insufficient_funds'', ''insufficient_funds'', ''insufficient_balance'']"

definition METHOD_UNSUPPORTED_CODES_V1 :: "string list" where
  "METHOD_UNSUPPORTED_CODES_V1 = [''provider_method_unsupported'', ''provider_call_count_mismatch'',
     ''provider_invalid_schema'', ''provider_chain_mismatch'', ''provider_blueprint_mismatch'']"

text \<open>\<open>/first\s+second/\<close> somewhere in the text.\<close>

definition starts_with :: "string \<Rightarrow> string \<Rightarrow> bool" where
  "starts_with prefix s = (take (length prefix) s = prefix)"

fun says :: "string \<Rightarrow> string \<Rightarrow> string \<Rightarrow> bool" where
  "says first second [] = False"
| "says first second (c # s) =
     (let rest = drop (length first) (c # s) in
      (starts_with first (c # s) \<and> rest \<noteq> [] \<and> js_space (hd rest) \<and> starts_with second (dropWhile js_space rest))
      \<or> says first second s)"

text \<open>The longer alternatives of the pattern contain one of these.\<close>

definition INSUFFICIENT_FUNDS_TEXT_V1 :: "string \<Rightarrow> bool" where
  "INSUFFICIENT_FUNDS_TEXT_V1 s \<longleftrightarrow>
     says ''insufficient'' ''funds'' s \<or> says ''insufficient'' ''balance'' s \<or> says ''exceeds'' ''balance'' s"

definition classifySimulationOutcomeV1 :: "simulation_state \<Rightarrow> simulation_outcome" where
  "classifySimulationOutcomeV1 state =
     (if sms_status state = SimPassed then SimulationPassed
      else let code = to_lower (js_trim (case sms_error_code state of Some c \<Rightarrow> c | None \<Rightarrow> [])) in
        if code \<in> set INSUFFICIENT_FUNDS_CODES_V1 \<or> INSUFFICIENT_FUNDS_TEXT_V1 code then InsufficientFunds
        else if sms_status state = SimFailed
        then (if code \<in> set METHOD_UNSUPPORTED_CODES_V1 then SimulationMethodUnsupported else SimulationReverted)
        else if code \<in> set METHOD_UNSUPPORTED_CODES_V1 then SimulationMethodUnsupported
        else SimulationProviderUnavailable)"

definition simulationWasExecutedV1 :: "simulation_outcome \<Rightarrow> bool" where
  "simulationWasExecutedV1 outcome \<longleftrightarrow> outcome \<in> {SimulationPassed, SimulationReverted, InsufficientFunds}"

section \<open>coordinator.ts\<close>

definition PROVIDERS_REQUIRING_SIMULATION_V1 :: "swap_provider list" where
  "PROVIDERS_REQUIRING_SIMULATION_V1 = [Aerodrome, O1Exchange, Hydrex, Balancer]"

definition simulationIsRequiredV1 :: "swap_provider \<Rightarrow> route_intent \<Rightarrow> bool" where
  "simulationIsRequiredV1 provider intent \<longleftrightarrow>
     provider \<in> set PROVIDERS_REQUIRING_SIMULATION_V1 \<or> rin_verification_depth intent \<noteq> DepthStandard"

definition simulationHonesty :: "route_intent \<Rightarrow> bool" where
  "simulationHonesty intent \<longleftrightarrow> rin_verification_depth intent = DepthStandard"

text \<open>Whether it is acceptable, and the outcome it was read as when one was needed.\<close>

definition simulationRequirementV1 ::
  "swap_provider \<Rightarrow> route_intent \<Rightarrow> simulation_state \<Rightarrow> bool \<times> simulation_outcome option" where
  "simulationRequirementV1 provider intent state =
     (if \<not> simulationIsRequiredV1 provider intent then (simulationHonesty intent, None)
      else let outcome = classifySimulationOutcomeV1 state;
               providerRequires = provider \<in> set PROVIDERS_REQUIRING_SIMULATION_V1;
               ourGap = \<not> simulationWasExecutedV1 outcome
        in (outcome = SimulationPassed \<or> (ourGap \<and> \<not> providerRequires), Some outcome))"

section \<open>What is stored with a batch\<close>

datatype change_direction = Debit | Credit

record asset_change =
  ach_direction :: change_direction
  ach_asset :: asset_ref
  ach_amount_atomic :: string
  ach_minimum_amount_atomic :: "string option"

text \<open>
  The facts a provider's guard compares the calldata with, recovered from the stored candidate and
  asset changes: the Aerodrome route, the Balancer version and pools, and the reviewed floor.
\<close>

record stored_facts =
  sfc_aerodrome :: "aerodrome_facts option"
  sfc_balancer :: "(int \<times> string list) option"
  sfc_reviewed_minimum :: "string option"

definition no_facts :: stored_facts where
  "no_facts = \<lparr>sfc_aerodrome = None, sfc_balancer = None, sfc_reviewed_minimum = None\<rparr>"

definition balancer_version :: "string list \<Rightarrow> int option" where
  "balancer_version keys =
     (if list_all (starts_with ''balancer:v2:'') keys then Some 2
      else if list_all (starts_with ''balancer:v3:'') keys then Some 3 else None)"

definition aerodromeKernelInputV1 :: "swap_provider \<Rightarrow> route_candidate \<Rightarrow> asset_change list \<Rightarrow> stored_facts" where
  "aerodromeKernelInputV1 provider candidate changes =
     (case (find (\<lambda>c. ach_direction c = Debit) changes, find (\<lambda>c. ach_direction c = Credit) changes) of
        (Some debit, Some credit) \<Rightarrow>
          let keys = rcd_source_keys candidate;
              minimum = (case ach_minimum_amount_atomic credit of Some m \<Rightarrow> m | None \<Rightarrow> ach_amount_atomic credit)
          in (case provider of
              O1Exchange \<Rightarrow> no_facts\<lparr>sfc_reviewed_minimum := Some minimum\<rparr>
            | Hydrex \<Rightarrow>
                (case keys of
                   [key] \<Rightarrow> if ADDRESS (last (split_on (CHR '':'') key))
                     then no_facts\<lparr>sfc_reviewed_minimum := Some minimum\<rparr> else no_facts
                 | _ \<Rightarrow> no_facts)
            | Balancer \<Rightarrow>
                (case balancer_version keys of
                   None \<Rightarrow> no_facts
                 | Some version \<Rightarrow> if keys = [] then no_facts
                     else no_facts\<lparr>sfc_balancer := Some (version, keys), sfc_reviewed_minimum := Some minimum\<rparr>)
            | Aerodrome \<Rightarrow>
                (case routeFromCandidateV1 candidate of
                   None \<Rightarrow> no_facts
                 | Some route \<Rightarrow>
                     let inputIsNative = (asr_kind (ach_asset debit) = NativeKind) in
                     no_facts\<lparr>sfc_aerodrome := Some \<lparr>afc_route = route, afc_factory = leg_factory (hd route),
                         afc_observed_allowance = None, afc_input_is_native = inputIsNative,
                         afc_output_is_native = (asr_kind (ach_asset credit) = NativeKind),
                         afc_input_token_address = (if inputIsNative then None else map_option to_lower (asr_address (ach_asset debit)))\<rparr>,
                       sfc_reviewed_minimum := Some minimum\<rparr>)
            | _ \<Rightarrow> no_facts)
      | _ \<Rightarrow> no_facts)"

definition storedGiftKernelInputV1 :: "execution_call list \<Rightarrow> asset_change list \<Rightarrow> gift_declaration option \<times> string option" where
  "storedGiftKernelInputV1 calls changes =
     (giftDeclarationFromCallsV1 calls,
      Option.bind (find (\<lambda>c. ach_direction c = Credit) changes) ach_minimum_amount_atomic)"

section \<open>Facts\<close>

lemma passed_only:
  "fst (simulationRequirementV1 provider intent state) \<Longrightarrow> provider \<in> set PROVIDERS_REQUIRING_SIMULATION_V1
   \<Longrightarrow> sms_status state = SimPassed"
  by (auto simp: simulationRequirementV1_def simulationIsRequiredV1_def classifySimulationOutcomeV1_def Let_def split: if_splits)

lemma executed_refusal_blocks:
  "classifySimulationOutcomeV1 state \<in> {SimulationReverted, InsufficientFunds} \<Longrightarrow> simulationIsRequiredV1 provider intent
   \<Longrightarrow> \<not> fst (simulationRequirementV1 provider intent state)"
  by (auto simp: simulationRequirementV1_def simulationWasExecutedV1_def Let_def)

end
