(* ===== verification/Proof_Events.thy ===== *)
theory Proof_Events
  imports Simulation
begin

text \<open>
  A route proof and the history kept beside it: the shapes of lib/route-domain/src/execution-contracts.ts,
  the hash-chained events of lib/route-domain/src/proof-events.ts and the lifecycle read from both,
  lib/transaction-composer/src/lifecycle.ts. The hashes (SHA-256 of canonical JSON, a package) are
  parameters; instants are milliseconds; the fields no modelled code reads are left out.
\<close>

section \<open>Receipts\<close>

definition HashV1Schema :: "string \<Rightarrow> bool" where
  "HashV1Schema s \<longleftrightarrow> take 2 s = ''0x'' \<and> length s = 66 \<and> list_all hex_lower (drop 2 s)"

datatype receipt_status = ReceiptSuccess | ReceiptReverted | ReceiptUnknown

record receipt =
  rct_transaction_hash :: string
  rct_status :: receipt_status
  rct_block_number :: "string option"
  rct_gas_used :: "string option"

definition read_receipt_status :: "string \<Rightarrow> receipt_status option" where
  "read_receipt_status s =
     (if s = ''success'' then Some ReceiptSuccess else if s = ''reverted'' then Some ReceiptReverted
      else if s = ''unknown'' then Some ReceiptUnknown else None)"

text \<open>A nullable amount; a field that is not there is no value of the schema.\<close>

definition read_nullable_amount :: "json option \<Rightarrow> string option option" where
  "read_nullable_amount v =
     (case v of Some JNull \<Rightarrow> Some None
      | Some (JString s) \<Rightarrow> if AtomicAmountV1Schema s then Some (Some s) else None
      | _ \<Rightarrow> None)"

definition TransactionReceiptV1Schema :: "json \<Rightarrow> receipt option" where
  "TransactionReceiptV1Schema v =
     (case v of
        JObject members \<Rightarrow>
          if \<not> list_all (\<lambda>(name, _). name \<in> {''transactionHash'', ''status'', ''blockNumber'', ''gasUsed''}) members then None
          else (case (json_string (json_field v ''transactionHash''),
                      Option.bind (json_string (json_field v ''status'')) read_receipt_status,
                      read_nullable_amount (json_field v ''blockNumber''), read_nullable_amount (json_field v ''gasUsed'')) of
              (Some h, Some s, Some b, Some g) \<Rightarrow>
                if HashV1Schema h
                then Some \<lparr>rct_transaction_hash = h, rct_status = s, rct_block_number = b, rct_gas_used = g\<rparr> else None
            | _ \<Rightarrow> None)
      | _ \<Rightarrow> None)"

section \<open>Proofs\<close>

datatype final_status =
    FinalPending | FinalCompleted | FinalPartialFailure | FinalFailed | FinalCancelled | FinalReconciliationRequired

text \<open>What a batch is to move and what it moved, and how far the two are apart.\<close>

record execution_result =
  exr_asset_changes :: "asset_change list"
  exr_output_amount_atomic :: "string option"
  exr_output_asset :: "asset_ref option"

record proof_deviation =
  dev_output_bps :: "int option"
  dev_within_tolerance :: "bool option"

record gas_estimate =
  gas_units :: string
  gas_cost_native :: "string option"

datatype fee_payer = PaidByWallet | PaidBySponsor | PaidByBoth

datatype reconciliation_state = StatePending | Matched | Deviated | Partial | StateFailed | ManualReview

text \<open>A fee payer that is not there and one that is null read the same.\<close>

record route_proof =
  rpf_id :: string
  rpf_created_at :: int
  rpf_updated_at :: int
  rpf_status :: final_status
  rpf_final_status :: final_status
  rpf_blueprint_hash :: string
  rpf_approved_calls_hash :: "string option"
  rpf_approved_calls :: "execution_call list"
  rpf_expected_result :: execution_result
  rpf_actual_result :: "execution_result option"
  rpf_actual_gas :: "gas_estimate option"
  rpf_fee_paid_by :: "fee_payer option"
  rpf_deviation :: proof_deviation
  rpf_reconciliation_state :: reconciliation_state
  rpf_transaction_hashes :: "string list"
  rpf_receipts :: "receipt list"

text \<open>
  The refinements of the schema. Two are left out: the proof's own hash, which every writer recomputes,
  and the hash of the approved calls, which only the writer that creates the proof sets.
\<close>

definition RouteProofV1Schema :: "route_proof \<Rightarrow> bool" where
  "RouteProofV1Schema p \<longleftrightarrow>
     (let hashes = map rct_transaction_hash (rpf_receipts p); settled = rpf_final_status p in
      rpf_created_at p \<le> rpf_updated_at p
      \<and> list_all HashV1Schema (rpf_transaction_hashes p) \<and> list_all HashV1Schema hashes
      \<and> rpf_status p = rpf_final_status p
      \<and> (settled = FinalCompleted \<or> settled = FinalPartialFailure \<longrightarrow>
           rpf_actual_result p \<noteq> None \<and> rpf_transaction_hashes p \<noteq> [] \<and> rpf_receipts p \<noteq> [])
      \<and> distinct hashes \<and> list_all (\<lambda>h. h \<in> set hashes) (rpf_transaction_hashes p)
      \<and> (settled = FinalCompleted \<longrightarrow> list_all (\<lambda>r. rct_status r = ReceiptSuccess) (rpf_receipts p))
      \<and> (settled = FinalPartialFailure \<longrightarrow>
           list_ex (\<lambda>r. rct_status r = ReceiptSuccess) (rpf_receipts p)
           \<and> list_ex (\<lambda>r. rct_status r \<noteq> ReceiptSuccess) (rpf_receipts p)))"

section \<open>Events\<close>

datatype event_type =
    BlueprintCreated | CallsApproved | Submitted | ReceiptObserved | ProofCompleted | ProofPartialFailure | ReconciliationUpdated

record proof_event =
  pev_id :: string
  pev_created_at :: int
  pev_updated_at :: int
  pev_event_index :: nat
  pev_event_type :: event_type
  pev_previous_event_hash :: "string option"
  pev_payload :: json
  pev_payload_hash :: string
  pev_event_hash :: string

text \<open>
  \<open>stableHashV1\<close> over a payload, over the place and type of an event of a proof (its id), over an event
  (the proof it belongs to and its payload's hash included; its own hash, its id and its dates, which
  \<open>LIFECYCLE_FIELDS_V1\<close> takes out, excluded) and over a blueprint's id.
\<close>

record hashing =
  hsh_payload :: "json \<Rightarrow> string"
  hsh_event_id :: "string \<Rightarrow> nat \<Rightarrow> event_type \<Rightarrow> string"
  hsh_event :: "string \<Rightarrow> nat \<Rightarrow> event_type \<Rightarrow> string option \<Rightarrow> string \<Rightarrow> string"
  hsh_proof_id :: "string \<Rightarrow> string"

definition hashRouteProofEventV1 :: "hashing \<Rightarrow> string \<Rightarrow> proof_event \<Rightarrow> string" where
  "hashRouteProofEventV1 h proof e =
     hsh_event h proof (pev_event_index e) (pev_event_type e) (pev_previous_event_hash e) (pev_payload_hash e)"

definition RouteProofEventV1Schema :: "hashing \<Rightarrow> string \<Rightarrow> proof_event \<Rightarrow> bool" where
  "RouteProofEventV1Schema h proof e \<longleftrightarrow>
     pev_created_at e \<le> pev_updated_at e
     \<and> pev_payload_hash e = hsh_payload h (pev_payload e) \<and> pev_event_hash e = hashRouteProofEventV1 h proof e
     \<and> (pev_event_index e = 0 \<longleftrightarrow> pev_previous_event_hash e = None)"

definition buildRouteProofEventV1 :: "hashing \<Rightarrow> string \<Rightarrow> nat \<Rightarrow> string option \<Rightarrow> event_type \<Rightarrow> json \<Rightarrow> int \<Rightarrow> proof_event" where
  "buildRouteProofEventV1 h proof index previous eventType payload now =
     (let draft = \<lparr>pev_id = ''route-proof-event:'' @ drop 2 (hsh_event_id h proof index eventType), pev_created_at = now,
            pev_updated_at = now, pev_event_index = index, pev_event_type = eventType, pev_previous_event_hash = previous,
            pev_payload = payload, pev_payload_hash = hsh_payload h payload, pev_event_hash = []\<rparr>
      in draft\<lparr>pev_event_hash := hashRouteProofEventV1 h proof draft\<rparr>)"

definition findDuplicateRouteProofEventV1 :: "hashing \<Rightarrow> proof_event list \<Rightarrow> event_type \<Rightarrow> json \<Rightarrow> proof_event option" where
  "findDuplicateRouteProofEventV1 h existing eventType payload =
     find (\<lambda>e. pev_event_type e = eventType \<and> pev_payload_hash e = hsh_payload h payload) existing"

definition nextRouteProofEventV1 :: "hashing \<Rightarrow> string \<Rightarrow> proof_event list \<Rightarrow> event_type \<Rightarrow> json \<Rightarrow> int \<Rightarrow> proof_event option" where
  "nextRouteProofEventV1 h proof existing eventType payload now =
     (if findDuplicateRouteProofEventV1 h existing eventType payload \<noteq> None then None
      else Some (buildRouteProofEventV1 h proof (length existing)
        (if existing = [] then None else Some (pev_event_hash (last existing))) eventType payload now))"

text \<open>approval.ts: \<open>appendProofEventIfNewV1\<close>\<close>

definition appendProofEventIfNewV1 :: "hashing \<Rightarrow> string \<Rightarrow> proof_event list \<Rightarrow> event_type \<Rightarrow> json \<Rightarrow> int \<Rightarrow> proof_event list" where
  "appendProofEventIfNewV1 h proof existing eventType payload now =
     (case nextRouteProofEventV1 h proof existing eventType payload now of None \<Rightarrow> existing | Some e \<Rightarrow> existing @ [e])"

section \<open>The lifecycle\<close>

datatype blueprint_status = BlueprintDraft | BlueprintReadyForReview | BlueprintApproved | BlueprintExpired | BlueprintInvalid

datatype lifecycle_state =
    Draft | ReadyForReview | LifeExpired | LifeInvalid | LifeApproved | LifeSubmitted | SubmittedUnknown | LifeConfirmed
  | LifeFailed | LifeCancelled | LifeCompleted | PartialFailure | ReconciliationRequired

definition submitted_lifecycle :: "proof_event list \<Rightarrow> lifecycle_state" where
  "submitted_lifecycle events =
     (let submitted = filter (\<lambda>e. pev_event_type e = Submitted) events in
      if submitted = [] then LifeApproved
      else if json_string (json_field (pev_payload (last submitted)) ''status'') = Some ''submitted_unknown''
      then SubmittedUnknown else LifeSubmitted)"

definition deriveBlueprintLifecycleV1 :: "blueprint_status \<Rightarrow> route_proof option \<Rightarrow> proof_event list \<Rightarrow> lifecycle_state" where
  "deriveBlueprintLifecycleV1 status proof events =
     (case status of
        BlueprintDraft \<Rightarrow> Draft
      | BlueprintReadyForReview \<Rightarrow> ReadyForReview
      | BlueprintExpired \<Rightarrow> LifeExpired
      | BlueprintInvalid \<Rightarrow> LifeInvalid
      | BlueprintApproved \<Rightarrow>
          (case proof of None \<Rightarrow> LifeApproved
           | Some p \<Rightarrow>
               (case rpf_final_status p of
                  FinalCompleted \<Rightarrow> LifeCompleted
                | FinalPartialFailure \<Rightarrow> PartialFailure
                | FinalReconciliationRequired \<Rightarrow> ReconciliationRequired
                | FinalCancelled \<Rightarrow> LifeCancelled
                | FinalFailed \<Rightarrow> LifeFailed
                | FinalPending \<Rightarrow>
                    if list_ex (\<lambda>r. rct_status r = ReceiptSuccess) (rpf_receipts p) then LifeConfirmed
                    else if list_ex (\<lambda>r. rct_status r = ReceiptReverted) (rpf_receipts p) then LifeFailed
                    else submitted_lifecycle events)))"

section \<open>The chain\<close>

text \<open>Every event carries its place, the hash of the one before it and its own.\<close>

definition chained :: "hashing \<Rightarrow> string \<Rightarrow> proof_event list \<Rightarrow> bool" where
  "chained h proof es \<longleftrightarrow>
     (\<forall>k < length es. pev_event_index (es ! k) = k
        \<and> pev_previous_event_hash (es ! k) = (if k = 0 then None else Some (pev_event_hash (es ! (k - 1))))
        \<and> pev_created_at (es ! k) \<le> pev_updated_at (es ! k)
        \<and> pev_payload_hash (es ! k) = hsh_payload h (pev_payload (es ! k))
        \<and> pev_event_hash (es ! k) = hashRouteProofEventV1 h proof (es ! k))"

text \<open>No two events say the same thing.\<close>

definition told_once :: "proof_event list \<Rightarrow> bool" where
  "told_once es \<longleftrightarrow> distinct (map (\<lambda>e. (pev_event_type e, pev_payload_hash e)) es)"

lemma built_event [simp]:
  "pev_event_index (buildRouteProofEventV1 h p n prev t payload now) = n"
  "pev_event_type (buildRouteProofEventV1 h p n prev t payload now) = t"
  "pev_previous_event_hash (buildRouteProofEventV1 h p n prev t payload now) = prev"
  "pev_payload (buildRouteProofEventV1 h p n prev t payload now) = payload"
  "pev_payload_hash (buildRouteProofEventV1 h p n prev t payload now) = hsh_payload h payload"
  "pev_created_at (buildRouteProofEventV1 h p n prev t payload now) = now"
  "pev_updated_at (buildRouteProofEventV1 h p n prev t payload now) = now"
  "pev_event_hash (buildRouteProofEventV1 h p n prev t payload now) = hsh_event h p n t prev (hsh_payload h payload)"
  by (simp_all add: buildRouteProofEventV1_def hashRouteProofEventV1_def Let_def)

lemma appended_is_chained: "chained h p es \<Longrightarrow> chained h p (appendProofEventIfNewV1 h p es t payload now)"
  by (auto simp: appendProofEventIfNewV1_def nextRouteProofEventV1_def chained_def nth_append last_conv_nth
      hashRouteProofEventV1_def less_Suc_eq)

lemma appended_told_once: "told_once es \<Longrightarrow> told_once (appendProofEventIfNewV1 h p es t payload now)"
  by (auto simp: appendProofEventIfNewV1_def nextRouteProofEventV1_def findDuplicateRouteProofEventV1_def told_once_def
      find_None_iff split: if_splits)

lemma appended_extends: "\<exists>new. appendProofEventIfNewV1 h p es t payload now = es @ new \<and> length new \<le> 1"
  by (auto simp: appendProofEventIfNewV1_def split: option.splits)

lemma appended_tells: "\<exists>e \<in> set (appendProofEventIfNewV1 h p es t payload now).
    pev_event_type e = t \<and> pev_payload_hash e = hsh_payload h payload"
  by (auto simp: appendProofEventIfNewV1_def nextRouteProofEventV1_def findDuplicateRouteProofEventV1_def find_Some_iff
      intro: nth_mem split: option.splits)

lemma append_again:
  "\<exists>e \<in> set es. pev_event_type e = t \<and> pev_payload_hash e = hsh_payload h payload
   \<Longrightarrow> appendProofEventIfNewV1 h p es t payload now = es"
  by (auto simp: appendProofEventIfNewV1_def nextRouteProofEventV1_def findDuplicateRouteProofEventV1_def find_None_iff)

text \<open>The schema an event is parsed with before it is stored holds of everything in a chain.\<close>

lemma chained_event_schema: "chained h p es \<Longrightarrow> e \<in> set es \<Longrightarrow> RouteProofEventV1Schema h p e"
  by (auto simp: chained_def RouteProofEventV1Schema_def in_set_conv_nth split: if_splits)

end
