(* ===== verification/Asset_Movement.thy ===== *)
theory Asset_Movement
  imports Proof_Events
begin

text \<open>
  What a swap moved, read from verified receipts only: lib/route-proof/src/constants.ts, assetChanges.ts,
  deviation.ts and fee.ts. The decoder of Transfer logs and the hash of event signatures belong to a
  package and are parameters.
\<close>

section \<open>Logs and receipts of the chain\<close>

record receipt_log =
  rlg_address :: string
  rlg_topics :: "string list"
  rlg_data :: string

record receipt_source =
  rsc_transaction_hash :: string
  rsc_succeeded :: bool
  rsc_block_number :: int
  rsc_gas_used :: int
  rsc_effective_gas_price :: "int option"
  rsc_logs :: "receipt_log list"
  rsc_from :: "string option"

record log_codec =
  lcd_keccak :: "string \<Rightarrow> string"
  lcd_decode_transfer :: "string list \<Rightarrow> string \<Rightarrow> (string \<times> string \<times> int) option"

section \<open>constants.ts\<close>

definition CANONICAL_BASE_USDC :: string where
  "CANONICAL_BASE_USDC = ''0x833589fcd6edb6e08f4c7c32d4f71b54bda02913''"

definition CANONICAL_BASE_WETH :: string where
  "CANONICAL_BASE_WETH = ''0x4200000000000000000000000000000000000006''"

definition ERC20_TRANSFER_TOPIC0 :: "log_codec \<Rightarrow> string" where
  "ERC20_TRANSFER_TOPIC0 c = lcd_keccak c ''Transfer(address,address,uint256)''"

definition WETH_DEPOSIT_TOPIC0 :: "log_codec \<Rightarrow> string" where
  "WETH_DEPOSIT_TOPIC0 c = lcd_keccak c ''Deposit(address,uint256)''"

definition WETH_WITHDRAWAL_TOPIC0 :: "log_codec \<Rightarrow> string" where
  "WETH_WITHDRAWAL_TOPIC0 c = lcd_keccak c ''Withdrawal(address,uint256)''"

definition ROUTE_PROOF_TERMINAL_FINAL_STATUSES :: "final_status list" where
  "ROUTE_PROOF_TERMINAL_FINAL_STATUSES = [FinalCompleted, FinalPartialFailure, FinalFailed, FinalCancelled]"

section \<open>assetChanges.ts\<close>

datatype unsupported_reason = NativeOutputUnverifiable | UnsupportedAsset | GiftTransferUnverified

datatype asset_reconstruction = Reconstructed execution_result | Unsupported unsupported_reason

record gift_transfer =
  gtr_recipient :: string
  gtr_amount_atomic :: string

record decoded_transfer =
  dtr_token :: string
  dtr_from :: string
  dtr_to :: string
  dtr_value :: int

text \<open>The first topic, when it is there and not empty.\<close>

definition first_topic :: "receipt_log \<Rightarrow> string option" where
  "first_topic l = (case rlg_topics l of t # _ \<Rightarrow> if t = '''' then None else Some t | [] \<Rightarrow> None)"

definition decode_transfer_log :: "log_codec \<Rightarrow> receipt_log \<Rightarrow> decoded_transfer option" where
  "decode_transfer_log c l =
     (if map_option to_lower (first_topic l) \<noteq> Some (to_lower (ERC20_TRANSFER_TOPIC0 c)) then None
      else (case lcd_decode_transfer c (rlg_topics l) (rlg_data l) of
          None \<Rightarrow> None
        | Some (from_address, to_address, amount) \<Rightarrow>
            Some \<lparr>dtr_token = to_lower (rlg_address l), dtr_from = to_lower from_address, dtr_to = to_lower to_address,
              dtr_value = amount\<rparr>))"

definition decodeTransferLogsV1 :: "log_codec \<Rightarrow> receipt_log list \<Rightarrow> decoded_transfer list" where
  "decodeTransferLogsV1 c logs = List.map_filter (decode_transfer_log c) logs"

definition giftOfApprovedCallsV1 :: "execution_call list \<Rightarrow> gift_transfer option" where
  "giftOfApprovedCallsV1 calls =
     (case filter (\<lambda>c. exc_call_type c = TransferCall) calls of
        [call] \<Rightarrow>
          (case (exc_recipient call, exc_amount_atomic call) of
             (Some r, Some a) \<Rightarrow> if r = '''' \<or> a = '''' then None else Some \<lparr>gtr_recipient = r, gtr_amount_atomic = a\<rparr>
           | _ \<Rightarrow> None)
      | _ \<Rightarrow> None)"

text \<open>What left the wallet and what came in, of one token.\<close>

fun netForToken :: "string \<Rightarrow> string \<Rightarrow> decoded_transfer list \<Rightarrow> int \<times> int" where
  "netForToken token wallet [] = (0, 0)"
| "netForToken token wallet (t # ts) =
     (let (outgoing, inbound) = netForToken token wallet ts in
      if dtr_token t \<noteq> token then (outgoing, inbound)
      else (outgoing + (if dtr_from t = wallet then dtr_value t else 0), inbound + (if dtr_to t = wallet then dtr_value t else 0)))"

text \<open>\<open>/^0x[0-9a-fA-F]{n}$/\<close>\<close>

definition hex_of_length :: "nat \<Rightarrow> string \<Rightarrow> bool" where
  "hex_of_length n s \<longleftrightarrow> take 2 s = ''0x'' \<and> length s = n + 2 \<and> list_all (\<lambda>c. digit_value c < 16) (drop 2 s)"

definition topicAddressV1 :: "string option \<Rightarrow> string option" where
  "topicAddressV1 topic =
     (case topic of Some t \<Rightarrow> if hex_of_length 64 t then Some (to_lower (''0x'' @ drop 26 t)) else None | None \<Rightarrow> None)"

definition uintDataV1 :: "string \<Rightarrow> int option" where
  "uintDataV1 d = (if hex_of_length 64 d then Some (int (digits_value 16 (drop 2 d))) else None)"

definition topic_at :: "receipt_log \<Rightarrow> nat \<Rightarrow> string option" where
  "topic_at l k = (if k < length (rlg_topics l) then Some (rlg_topics l ! k) else None)"

text \<open>Wrapped, unwrapped, and whether anything was seen, after one more log.\<close>

definition see_weth_log :: "log_codec \<Rightarrow> string list \<Rightarrow> int \<times> int \<times> bool \<Rightarrow> receipt_log \<Rightarrow> int \<times> int \<times> bool" where
  "see_weth_log c allowed s l =
     (let (wrapped, unwrapped, observed) = s in
      if to_lower (rlg_address l) \<noteq> CANONICAL_BASE_WETH then s
      else (case (topicAddressV1 (topic_at l 1), uintDataV1 (rlg_data l)) of
          (Some actor, Some amount) \<Rightarrow>
            if actor \<notin> set allowed then s
            else let topic = map_option to_lower (topic_at l 0);
                     deposit = (topic = Some (to_lower (WETH_DEPOSIT_TOPIC0 c)));
                     withdrawal = (topic = Some (to_lower (WETH_WITHDRAWAL_TOPIC0 c)))
                 in (if deposit then wrapped + amount else wrapped, if withdrawal then unwrapped + amount else unwrapped,
                     observed \<or> deposit \<or> withdrawal)
        | _ \<Rightarrow> s))"

definition nativeMovementV1 :: "log_codec \<Rightarrow> receipt_log list \<Rightarrow> string list \<Rightarrow> (int \<times> int) option" where
  "nativeMovementV1 c logs targets =
     (if targets = [] then None
      else let (wrapped, unwrapped, observed) = foldl (see_weth_log c (map to_lower targets)) (0, 0, False) logs in
        if \<not> observed then None
        else Some (if wrapped > unwrapped then wrapped - unwrapped else 0, if unwrapped > wrapped then unwrapped - wrapped else 0))"

definition supportedAssetV1 :: "asset_ref \<Rightarrow> bool" where
  "supportedAssetV1 a \<longleftrightarrow> asr_chain_id a = 8453
     \<and> (asr_kind a = NativeKind \<or> (case asr_address a of Some x \<Rightarrow> hex_of_length 40 x | None \<Rightarrow> False))"

text \<open>The transfers that are the declared gift: of the token, from the wallet to the recipient, of that amount.\<close>

definition gift_matches :: "string option \<Rightarrow> string \<Rightarrow> gift_transfer \<Rightarrow> decoded_transfer list \<Rightarrow> decoded_transfer list" where
  "gift_matches token wallet gift ts =
     filter (\<lambda>t. Some (dtr_token t) = token \<and> dtr_from t = wallet \<and> dtr_to t = to_lower (gtr_recipient gift)
       \<and> show_int (dtr_value t) = gtr_amount_atomic gift) ts"

definition measured_change :: "change_direction \<Rightarrow> asset_ref \<Rightarrow> int \<Rightarrow> asset_change" where
  "measured_change direction asset amount = \<lparr>ach_direction = direction, ach_asset = asset, ach_amount_atomic = show_int amount,
     ach_minimum_amount_atomic = None\<rparr>"

definition asset_token :: "asset_ref \<Rightarrow> string" where
  "asset_token a = (case asr_address a of Some x \<Rightarrow> to_lower x | None \<Rightarrow> [])"

definition net_out :: "int \<times> int \<Rightarrow> int" where
  "net_out net = (if fst net > snd net then fst net - snd net else 0)"

definition net_in :: "int \<times> int \<Rightarrow> int" where
  "net_in net = (if snd net > fst net then snd net - fst net else 0)"

definition reconstructSendV1 :: "log_codec \<Rightarrow> string \<Rightarrow> asset_change \<Rightarrow> receipt_log list \<Rightarrow> gift_transfer \<Rightarrow> asset_reconstruction" where
  "reconstructSendV1 c walletAddress debit logs gift =
     (let asset = ach_asset debit; token = asset_token asset; wallet = to_lower walletAddress;
          decoded = decodeTransferLogsV1 c logs; matches = gift_matches (Some token) wallet gift decoded in
      if asr_kind asset \<noteq> Erc20Kind \<or> \<not> supportedAssetV1 asset then Unsupported UnsupportedAsset
      else (case matches of
          [m] \<Rightarrow> Reconstructed
            \<lparr>exr_asset_changes = [measured_change Debit asset (net_out (netForToken token wallet decoded))],
             exr_output_amount_atomic = Some (show_int (dtr_value m)), exr_output_asset = Some asset\<rparr>
        | _ \<Rightarrow> Unsupported GiftTransferUnverified))"

definition amount_for :: "string \<Rightarrow> (int \<times> int) option \<Rightarrow> decoded_transfer list \<Rightarrow> asset_change \<Rightarrow> change_direction \<Rightarrow> int option" where
  "amount_for wallet native ts change direction =
     (if asr_kind (ach_asset change) = NativeKind
      then map_option (if direction = Debit then fst else snd) native
      else let net = netForToken (asset_token (ach_asset change)) wallet ts
           in Some (if direction = Debit then net_out net else net_in net))"

text \<open>The transfers without the gift's own, when there is a gift; none when it is not there exactly once.\<close>

definition without_gift :: "asset_ref \<Rightarrow> string \<Rightarrow> gift_transfer option \<Rightarrow> decoded_transfer list \<Rightarrow> decoded_transfer list option" where
  "without_gift asset wallet gift decoded =
     (case gift of None \<Rightarrow> Some decoded
      | Some g \<Rightarrow>
          let token = (if asr_kind asset = Erc20Kind then map_option to_lower (asr_address asset) else None) in
          if token = None \<or> token = Some '''' then None
          else (case gift_matches token wallet g decoded of [m] \<Rightarrow> Some (remove1 m decoded) | _ \<Rightarrow> None))"

definition reconstruct_swap ::
  "log_codec \<Rightarrow> string \<Rightarrow> asset_change \<Rightarrow> asset_change option \<Rightarrow> receipt_log list \<Rightarrow> string list \<Rightarrow> gift_transfer option \<Rightarrow> asset_reconstruction" where
  "reconstruct_swap c wallet outputChange inputChange logs targets gift =
     (let native = nativeMovementV1 c logs targets in
      case without_gift (ach_asset outputChange) wallet gift (decodeTransferLogsV1 c logs) of
        None \<Rightarrow> Unsupported GiftTransferUnverified
      | Some ts \<Rightarrow>
          (case (amount_for wallet native ts outputChange Credit,
                 case inputChange of Some i \<Rightarrow> amount_for wallet native ts i Debit | None \<Rightarrow> Some 0) of
             (Some received, Some spent) \<Rightarrow>
               Reconstructed \<lparr>exr_asset_changes =
                   (case inputChange of Some i \<Rightarrow> [measured_change Debit (ach_asset i) spent] | None \<Rightarrow> [])
                     @ [measured_change Credit (ach_asset outputChange) received],
                 exr_output_amount_atomic = Some (show_int received), exr_output_asset = Some (ach_asset outputChange)\<rparr>
           | _ \<Rightarrow> Unsupported NativeOutputUnverifiable))"

definition reconstructAssetChangesV1 ::
  "log_codec \<Rightarrow> string \<Rightarrow> asset_change list \<Rightarrow> receipt_log list \<Rightarrow> string list \<Rightarrow> gift_transfer option \<Rightarrow> asset_reconstruction" where
  "reconstructAssetChangesV1 c walletAddress expected logs targets gift =
     (let outputChange = find (\<lambda>x. ach_direction x = Credit) expected; inputChange = find (\<lambda>x. ach_direction x = Debit) expected in
      case (outputChange, inputChange, gift) of
        (None, Some debit, Some g) \<Rightarrow>
          if length expected = 1 then reconstructSendV1 c walletAddress debit logs g else Unsupported UnsupportedAsset
      | (None, _, _) \<Rightarrow> Unsupported UnsupportedAsset
      | (Some out, _, _) \<Rightarrow>
          if \<not> supportedAssetV1 (ach_asset out) \<or> (case inputChange of Some i \<Rightarrow> \<not> supportedAssetV1 (ach_asset i) | None \<Rightarrow> False)
          then Unsupported UnsupportedAsset
          else reconstruct_swap c (to_lower walletAddress) out inputChange logs targets gift)"

section \<open>deviation.ts\<close>

definition js_BigInt :: "string \<Rightarrow> int result" where
  "js_BigInt s = (case js_bigint s of Some v \<Rightarrow> Inr v | None \<Rightarrow> Inl (JsError ''SyntaxError: Cannot convert to a BigInt''))"

text \<open>To the nearest integer, half away from zero. The last step to a Number is exact below 2^53.\<close>

definition roundedRatioBpsV1 :: "int \<Rightarrow> int \<Rightarrow> int" where
  "roundedRatioBpsV1 diff expected =
     (let numerator = diff * 10000; sign = (if numerator < 0 then -1 else 1);
          absNumerator = (if numerator < 0 then - numerator else numerator);
          absExpected = (if expected < 0 then - expected else expected);
          quotient = absNumerator div absExpected; remainder = absNumerator mod absExpected;
          rounded = (if remainder * 2 \<ge> absExpected then quotient + 1 else quotient)
      in if rounded = 0 then 0 else sign * rounded)"

definition output_bps :: "string option \<Rightarrow> string option \<Rightarrow> int option result" where
  "output_bps expectedOutput actualOutput =
     (case (expectedOutput, actualOutput) of
        (Some e, Some a) \<Rightarrow>
          bindR (js_BigInt e) (\<lambda>expected.
          if expected = 0 then Inr None
          else bindR (js_BigInt a) (\<lambda>actual. Inr (Some (roundedRatioBpsV1 (actual - expected) expected))))
      | _ \<Rightarrow> Inr None)"

definition minimum_satisfied :: "string option \<Rightarrow> string option \<Rightarrow> bool option result" where
  "minimum_satisfied minimumOutput actualOutput =
     (case (minimumOutput, actualOutput) of
        (Some m, Some a) \<Rightarrow> bindR (js_BigInt a) (\<lambda>actual. bindR (js_BigInt m) (\<lambda>minimum. Inr (Some (actual \<ge> minimum))))
      | _ \<Rightarrow> Inr None)"

definition computeRouteProofDeviationV1 :: "string option \<Rightarrow> string option \<Rightarrow> string option \<Rightarrow> (int option \<times> bool option) result" where
  "computeRouteProofDeviationV1 expectedOutput actualOutput minimumOutput =
     bindR (output_bps expectedOutput actualOutput) (\<lambda>bps.
     bindR (minimum_satisfied minimumOutput actualOutput) (\<lambda>satisfied. Inr (bps, satisfied)))"

section \<open>fee.ts\<close>

definition ENTRY_POINT_ADDRESSES_V1 :: "string list" where
  "ENTRY_POINT_ADDRESSES_V1 = [''0x5ff137d4b0fdcd49dca30c7cf57e578a026d2789'', ''0x0000000071727de22e5e9d8baf0edac6f37da032'',
     ''0x4337084d9e255ff0702461cf8895ce9e3b5ff108'']"

definition USER_OPERATION_EVENT_TOPIC_V1 :: string where
  "USER_OPERATION_EVENT_TOPIC_V1 = ''0x49628fd1471006c1482da88028e9ce4dbb080b815c9b0344d39e5a8e6ec1419f''"

record actual_fee =
  afe_actual_gas :: "gas_estimate option"
  afe_fee_paid_by :: "fee_payer option"

record operation_fee =
  opf_gas_used :: int
  opf_cost_wei :: "int option"
  opf_sponsored :: "bool option"

definition atomicDecimalFromWeiV1 :: "int \<Rightarrow> string" where
  "atomicDecimalFromWeiV1 amount =
     (let base = 10 ^ 18; whole = jsdiv amount base; frac = amount - whole * base in
      if frac = 0 then show_int whole
      else let fracStr = strip_trailing_zeros (padStart 18 (CHR ''0'') (show_int frac))
           in if fracStr \<noteq> [] then show_int whole @ ''.'' @ fracStr else show_int whole)"

text \<open>fee.ts: its own \<open>topicAddressV1\<close>, which reads what the one of assetChanges.ts reads.\<close>

definition fee_topic_address :: "string option \<Rightarrow> string option" where
  "fee_topic_address topic =
     (case topic of Some t \<Rightarrow> if hex_of_length 64 t then Some (''0x'' @ to_lower (drop 26 t)) else None | None \<Rightarrow> None)"

definition dataWordV1 :: "string \<Rightarrow> nat \<Rightarrow> int option" where
  "dataWordV1 d index =
     (let w = take 64 (drop (2 + index * 64) d) in
      if length w = 64 \<and> list_all (\<lambda>c. digit_value c < 16) w then Some (int (digits_value 16 w)) else None)"

text \<open>The wallet's own operation in a log: what it used, what it cost, and whether a paymaster paid.\<close>

definition wallet_operation :: "string \<Rightarrow> receipt_log \<Rightarrow> (int \<times> int \<times> bool) option" where
  "wallet_operation wallet l =
     (if to_lower (rlg_address l) \<notin> set ENTRY_POINT_ADDRESSES_V1
        \<or> map_option to_lower (topic_at l 0) \<noteq> Some USER_OPERATION_EVENT_TOPIC_V1
        \<or> fee_topic_address (topic_at l 2) \<noteq> Some wallet then None
      else (case (fee_topic_address (topic_at l 3), dataWordV1 (rlg_data l) 2, dataWordV1 (rlg_data l) 3) of
          (Some paymaster, Some cost, Some used) \<Rightarrow> Some (used, cost, paymaster \<noteq> ''0x'' @ replicate 40 (CHR ''0''))
        | _ \<Rightarrow> None))"

definition operationFeeV1 :: "string \<Rightarrow> receipt_source \<Rightarrow> operation_fee" where
  "operationFeeV1 wallet source =
     (let operations = List.map_filter (wallet_operation wallet) (rsc_logs source) in
      if operations \<noteq> []
      then \<lparr>opf_gas_used = sum_list (map fst operations), opf_cost_wei = Some (sum_list (map (fst \<circ> snd) operations)),
        opf_sponsored = (if list_all (snd \<circ> snd) operations then Some True
          else if list_all (Not \<circ> snd \<circ> snd) operations then Some False else None)\<rparr>
      else \<lparr>opf_gas_used = rsc_gas_used source,
        opf_cost_wei = map_option (\<lambda>price. rsc_gas_used source * price) (rsc_effective_gas_price source),
        opf_sponsored = (if map_option to_lower (rsc_from source) = Some wallet then Some False else None)\<rparr>)"

definition fee_payer_of :: "bool option list \<Rightarrow> fee_payer option" where
  "fee_payer_of sponsored =
     (if None \<in> set sponsored then None
      else if list_all (\<lambda>s. s = Some True) sponsored then Some PaidBySponsor
      else if list_all (\<lambda>s. s = Some False) sponsored then Some PaidByWallet else Some PaidByBoth)"

definition actualFeeV1 :: "receipt_source option list \<Rightarrow> string \<Rightarrow> actual_fee" where
  "actualFeeV1 sources walletAddress =
     (let verified = List.map_filter id sources in
      if verified = [] then \<lparr>afe_actual_gas = None, afe_fee_paid_by = None\<rparr>
      else let fees = map (operationFeeV1 (to_lower walletAddress)) verified; costs = map opf_cost_wei fees in
        \<lparr>afe_actual_gas = Some \<lparr>gas_units = show_int (sum_list (map opf_gas_used fees)),
           gas_cost_native = (if None \<in> set costs then None
             else Some (atomicDecimalFromWeiV1 (sum_list (map (case_option 0 id) costs))))\<rparr>,
         afe_fee_paid_by = fee_payer_of (map opf_sponsored fees)\<rparr>)"

end
