(* ===== verification/Submission.thy ===== *)
theory Submission
  imports Proof_Events Simulation
begin

text \<open>
  lib/transaction-composer/src/submission.ts: what a wallet reports of the batch it sent is recorded
  on the pending proof and in its history. The repository's rows for one route run of one tenant are
  the state; a call either throws before it writes anything or writes the proof and at most two
  events. Calls run one after another.
\<close>

section \<open>The rows\<close>

datatype run_goal = SwapGoal | EarnGoal | SendGoal

record run_row =
  rnw_wallet_address :: string
  rnw_chain_id :: int
  rnw_intent_hash :: string
  rnw_intent :: route_intent

record required_approval =
  rqa_asset :: asset_ref
  rqa_spender :: string
  rqa_amount_atomic :: string

record execution_blueprint =
  ebp_id :: string
  ebp_created_at :: int
  ebp_updated_at :: int
  ebp_status :: blueprint_status
  ebp_goal :: run_goal
  ebp_wallet_address :: string
  ebp_intent_hash :: string
  ebp_selected_candidate_hash :: string
  ebp_evidence_set_hash :: string
  ebp_blueprint_hash :: string
  ebp_calls_hash :: string
  ebp_approved_calls_hash :: "string option"
  ebp_quote_expiry :: string
  ebp_calls :: "execution_call list"
  ebp_expected_asset_changes :: "asset_change list"
  ebp_required_approvals :: "required_approval list"
  ebp_simulation_state :: simulation_state

record submission_store =
  sst_swap_run :: "run_row option"
  sst_earn_run :: "run_row option"
  sst_candidates :: "route_candidate list"
  sst_blueprints :: "execution_blueprint list"
  sst_proofs :: "string \<Rightarrow> route_proof option"
  sst_events :: "string \<Rightarrow> proof_event list"

datatype submission_status = StatusSubmitted | StatusConfirmed | StatusFailed | StatusCancelled | StatusSubmittedUnknown

record submission_input =
  sbi_wallet_address :: string
  sbi_blueprint_id :: string
  sbi_approved_calls_hash :: string
  sbi_status :: submission_status
  sbi_batch_id :: "string option"
  sbi_transaction_hashes :: "string list option"
  sbi_receipts :: "json list option"
  sbi_now :: int

datatype submission_error = BindingError string | ConflictError string | SchemaError

section \<open>Reading the report\<close>

text \<open>\<open>/^0x[0-9a-fA-F]{64}$/\<close>\<close>

definition HASH_PATTERN :: "string \<Rightarrow> bool" where
  "HASH_PATTERN s \<longleftrightarrow> take 2 s = ''0x'' \<and> length s = 66 \<and> list_all (\<lambda>c. digit_value c < 16) (drop 2 s)"

fun normalize_from :: "string list \<Rightarrow> string list \<Rightarrow> string list" where
  "normalize_from out [] = out"
| "normalize_from out (v # vs) =
     (if \<not> HASH_PATTERN v \<or> to_lower v \<in> set out then normalize_from out vs
      else normalize_from (out @ [to_lower v]) vs)"

definition normalizedHashes :: "string list \<Rightarrow> string list" where
  "normalizedHashes vs = normalize_from [] vs"

definition FINAL_STATUS_BY_SUBMISSION :: "submission_status \<Rightarrow> final_status" where
  "FINAL_STATUS_BY_SUBMISSION s =
     (case s of StatusFailed \<Rightarrow> FinalFailed | StatusCancelled \<Rightarrow> FinalCancelled | _ \<Rightarrow> FinalPending)"

definition submission_status_text :: "submission_status \<Rightarrow> string" where
  "submission_status_text s =
     (case s of StatusSubmitted \<Rightarrow> ''submitted'' | StatusConfirmed \<Rightarrow> ''confirmed'' | StatusFailed \<Rightarrow> ''failed''
      | StatusCancelled \<Rightarrow> ''cancelled'' | StatusSubmittedUnknown \<Rightarrow> ''submitted_unknown'')"

definition submitted_batch :: "proof_event \<Rightarrow> string option" where
  "submitted_batch e =
     (if pev_event_type e \<noteq> Submitted then None
      else (case json_string (json_field (pev_payload e) ''batchId'') of
          Some b \<Rightarrow> if b = [] then None else Some b | None \<Rightarrow> None))"

fun batches_from :: "string list \<Rightarrow> proof_event list \<Rightarrow> string list" where
  "batches_from out [] = out"
| "batches_from out (e # es) =
     (case submitted_batch e of
        Some b \<Rightarrow> if b \<in> set out then batches_from out es else batches_from (out @ [b]) es
      | None \<Rightarrow> batches_from out es)"

definition recordedBatchIds :: "proof_event list \<Rightarrow> string list" where
  "recordedBatchIds es = batches_from [] es"

definition reported_batch :: "submission_input \<Rightarrow> string option" where
  "reported_batch i =
     (case sbi_batch_id i of Some b \<Rightarrow> if js_trim b = [] then None else Some (js_trim b) | None \<Rightarrow> None)"

section \<open>Who may record what\<close>

definition submission_binding ::
  "(string \<Rightarrow> int option) \<Rightarrow> submission_store \<Rightarrow> submission_input \<Rightarrow> submission_error + execution_blueprint" where
  "submission_binding parse s i =
     (case (case sst_swap_run s of Some r \<Rightarrow> Some r | None \<Rightarrow> sst_earn_run s) of
        None \<Rightarrow> Inl (BindingError ''route_run_not_found'')
      | Some run \<Rightarrow>
          if to_lower (rnw_wallet_address run) \<noteq> to_lower (sbi_wallet_address i) then Inl (BindingError ''wallet_binding_mismatch'')
          else if rnw_chain_id run \<noteq> 8453 then Inl (BindingError ''unsupported_chain'')
          else (case find (\<lambda>b. ebp_id b = sbi_blueprint_id i) (sst_blueprints s) of
              None \<Rightarrow> Inl (BindingError ''blueprint_not_found'')
            | Some blueprint \<Rightarrow>
                if ebp_status blueprint \<noteq> BlueprintApproved then Inl (BindingError ''blueprint_not_approved'')
                else if ebp_approved_calls_hash blueprint \<noteq> Some (sbi_approved_calls_hash i)
                then Inl (BindingError ''approved_calls_hash_mismatch'')
                else if sbi_status i = StatusSubmitted
                  \<and> (case parse (ebp_quote_expiry blueprint) of Some t \<Rightarrow> t \<le> sbi_now i | None \<Rightarrow> False)
                then Inl (BindingError ''blueprint_expired'')
                else Inr blueprint))"

definition proof_settled_badly :: "route_proof \<Rightarrow> bool" where
  "proof_settled_badly p \<longleftrightarrow> rpf_final_status p = FinalCancelled \<or> rpf_final_status p = FinalFailed"

definition confirmed_already :: "route_proof \<Rightarrow> bool" where
  "confirmed_already p = list_ex (\<lambda>r. rct_status r = ReceiptSuccess) (rpf_receipts p)"

definition submission_conflict :: "submission_input \<Rightarrow> route_proof \<Rightarrow> proof_event list \<Rightarrow> string option" where
  "submission_conflict i p events =
     (let known = recordedBatchIds events; batch = reported_batch i in
      if (case batch of Some b \<Rightarrow> known \<noteq> [] \<and> b \<notin> set known \<and> \<not> proof_settled_badly p | None \<Rightarrow> False)
      then Some ''A different batch is already recorded for this Blueprint and is not failed or cancelled''
      else if sbi_status i = StatusConfirmed \<and> proof_settled_badly p
        \<and> (case batch of None \<Rightarrow> True | Some b \<Rightarrow> b \<in> set known)
      then Some ''A confirmed result contradicts the recorded cancelled/failed submission''
      else if (sbi_status i = StatusCancelled \<or> sbi_status i = StatusFailed) \<and> confirmed_already p
      then Some ''A cancelled/failed result contradicts the recorded confirmed submission''
      else None)"

section \<open>The facts, merged\<close>

definition reported_receipts :: "submission_input \<Rightarrow> receipt list" where
  "reported_receipts i =
     (if reported_batch i = None then []
      else List.map_filter TransactionReceiptV1Schema (case sbi_receipts i of Some rs \<Rightarrow> rs | None \<Rightarrow> []))"

definition reported_hashes :: "submission_input \<Rightarrow> string list" where
  "reported_hashes i =
     (if reported_batch i = None then []
      else normalizedHashes ((case sbi_transaction_hashes i of Some hs \<Rightarrow> hs | None \<Rightarrow> [])
             @ map rct_transaction_hash (reported_receipts i)))"

definition add_receipt :: "receipt list \<Rightarrow> receipt \<Rightarrow> receipt list" where
  "add_receipt receipts r =
     (if rct_transaction_hash r \<in> set (map rct_transaction_hash receipts) then receipts else receipts @ [r])"

definition unknown_receipt :: "string \<Rightarrow> receipt" where
  "unknown_receipt h = \<lparr>rct_transaction_hash = h, rct_status = ReceiptUnknown, rct_block_number = None, rct_gas_used = None\<rparr>"

definition merged_hashes :: "submission_input \<Rightarrow> route_proof \<Rightarrow> string list" where
  "merged_hashes i p =
     (if reported_batch i = None then rpf_transaction_hashes p
      else normalizedHashes (rpf_transaction_hashes p @ reported_hashes i))"

definition merged_receipts :: "submission_input \<Rightarrow> route_proof \<Rightarrow> receipt list" where
  "merged_receipts i p =
     (if reported_batch i = None then rpf_receipts p
      else foldl add_receipt (foldl add_receipt (rpf_receipts p) (reported_receipts i))
             (map unknown_receipt (merged_hashes i p)))"

definition recorded_proof :: "submission_input \<Rightarrow> route_proof \<Rightarrow> route_proof" where
  "recorded_proof i p = p\<lparr>rpf_status := FINAL_STATUS_BY_SUBMISSION (sbi_status i),
     rpf_final_status := FINAL_STATUS_BY_SUBMISSION (sbi_status i),
     rpf_transaction_hashes := merged_hashes i p, rpf_receipts := merged_receipts i p, rpf_updated_at := sbi_now i\<rparr>"

definition submitted_payload :: "string \<Rightarrow> submission_status \<Rightarrow> json" where
  "submitted_payload batch status =
     JObject [(''batchId'', JString batch), (''status'', JString (submission_status_text status))]"

definition receipt_payload :: "string \<Rightarrow> submission_input \<Rightarrow> json" where
  "receipt_payload batch i =
     JObject [(''batchId'', JString batch), (''transactionHashes'', JArray (map JString (reported_hashes i))),
       (''receiptsRaw'', JArray (case sbi_receipts i of Some rs \<Rightarrow> rs | None \<Rightarrow> []))]"

definition recorded_events :: "hashing \<Rightarrow> submission_input \<Rightarrow> string \<Rightarrow> proof_event list \<Rightarrow> proof_event list" where
  "recorded_events h i proofId events =
     (case reported_batch i of None \<Rightarrow> events
      | Some batch \<Rightarrow>
          let es = (if batch \<in> set (recordedBatchIds events) then events
                    else appendProofEventIfNewV1 h proofId events Submitted (submitted_payload batch (sbi_status i)) (sbi_now i))
          in if reported_hashes i \<noteq> [] \<or> (case sbi_receipts i of Some rs \<Rightarrow> rs \<noteq> [] | None \<Rightarrow> False)
             then appendProofEventIfNewV1 h proofId es ReceiptObserved (receipt_payload batch i) (sbi_now i) else es)"

section \<open>The operation\<close>

record submission_recorded =
  sbr_lifecycle :: lifecycle_state
  sbr_proof_id :: string
  sbr_final_status :: final_status

definition recordBlueprintSubmissionV1 ::
  "hashing \<Rightarrow> (string \<Rightarrow> int option) \<Rightarrow> submission_store \<Rightarrow> submission_input
   \<Rightarrow> submission_error + submission_store \<times> submission_recorded" where
  "recordBlueprintSubmissionV1 h parse s i =
     (case submission_binding parse s i of Inl e \<Rightarrow> Inl e
      | Inr blueprint \<Rightarrow>
          let proofId = hsh_proof_id h (ebp_id blueprint) in
          (case sst_proofs s proofId of
             None \<Rightarrow> Inl (BindingError ''route_proof_missing'')
           | Some p \<Rightarrow>
               let events = sst_events s proofId in
               (case submission_conflict i p events of
                  Some message \<Rightarrow> Inl (ConflictError message)
                | None \<Rightarrow>
                    let q = recorded_proof i p; es = recorded_events h i (rpf_id q) events in
                    if \<not> RouteProofV1Schema q then Inl SchemaError
                    else Inr (s\<lparr>sst_proofs := (sst_proofs s)(rpf_id q := Some q), sst_events := (sst_events s)(rpf_id q := es)\<rparr>,
                      \<lparr>sbr_lifecycle = deriveBlueprintLifecycleV1 (ebp_status blueprint) (Some q) es,
                       sbr_proof_id = proofId, sbr_final_status = rpf_final_status q\<rparr>))))"

end
