(* ===== verification/Reconciler.thy ===== *)
theory Reconciler
  imports Asset_Movement Submission
begin

text \<open>
  Finalizing a route proof from the chain: lib/route-proof/src/receipts.ts, reconciler.ts and the
  projection of projection.ts. The reader of receipts is a parameter and may fail; the rows are those of
  Submission.thy. The outcome projector, whose answer the code ignores, is left out.
\<close>

section \<open>receipts.ts\<close>

type_synonym receipt_reader = "string \<Rightarrow> receipt_source option result"

record verification =
  vrf_transaction_hash :: string
  vrf_receipt :: receipt
  vrf_source :: "receipt_source option"
  vrf_conflict :: "(receipt_status \<times> receipt_status) option"

text \<open>A map built from the receipts keeps the last one of a hash.\<close>

definition receipt_by_hash :: "receipt list \<Rightarrow> string \<Rightarrow> receipt option" where
  "receipt_by_hash receipts h = find (\<lambda>r. rct_transaction_hash r = h) (rev receipts)"

definition source_status :: "receipt_source \<Rightarrow> receipt_status" where
  "source_status s = (if rsc_succeeded s then ReceiptSuccess else ReceiptReverted)"

definition verify_receipt :: "receipt_reader \<Rightarrow> receipt list \<Rightarrow> string \<Rightarrow> verification result" where
  "verify_receipt reader existing h =
     bindR (reader h) (\<lambda>answer.
     case answer of
       None \<Rightarrow> Inr \<lparr>vrf_transaction_hash = h, vrf_receipt = unknown_receipt h, vrf_source = None, vrf_conflict = None\<rparr>
     | Some source \<Rightarrow>
         if to_lower (rsc_transaction_hash source) \<noteq> to_lower h then Inl (JsError ''RouteProofReceiptIntegrityError'')
         else Inr \<lparr>vrf_transaction_hash = h,
           vrf_receipt = \<lparr>rct_transaction_hash = h, rct_status = source_status source,
             rct_block_number = Some (show_int (rsc_block_number source)), rct_gas_used = Some (show_int (rsc_gas_used source))\<rparr>,
           vrf_source = Some source,
           vrf_conflict = (case receipt_by_hash existing h of
               Some e \<Rightarrow> if rct_status e \<noteq> ReceiptUnknown \<and> rct_status e \<noteq> source_status source
                 then Some (rct_status e, source_status source) else None
             | None \<Rightarrow> None)\<rparr>)"

definition verifyTransactionReceiptsV1 :: "receipt_reader \<Rightarrow> receipt list \<Rightarrow> string list \<Rightarrow> verification list result" where
  "verifyTransactionReceiptsV1 reader existing hashes = mapR (verify_receipt reader existing) hashes"

section \<open>reconciler.ts: reading the proof\<close>

fun verify_chain_from :: "nat \<Rightarrow> string option \<Rightarrow> proof_event list \<Rightarrow> bool" where
  "verify_chain_from k previous [] = True"
| "verify_chain_from k previous (e # es) =
     (if pev_event_index e \<noteq> k then False
      else if pev_previous_event_hash e \<noteq> previous then False
      else verify_chain_from (k + 1) (Some (pev_event_hash e)) es)"

definition verifyEventChainV1 :: "proof_event list \<Rightarrow> bool" where
  "verifyEventChainV1 events = verify_chain_from 0 None events"

definition pendingLifecycleV1 :: "receipt list \<Rightarrow> proof_event list \<Rightarrow> lifecycle_state" where
  "pendingLifecycleV1 receipts events =
     (if list_ex (\<lambda>r. rct_status r = ReceiptSuccess) receipts then LifeConfirmed
      else if list_ex (\<lambda>r. rct_status r = ReceiptReverted) receipts then LifeFailed
      else let submitted = filter (\<lambda>e. pev_event_type e = Submitted) events in
        if submitted = [] then LifeApproved
        else if json_string (json_field (pev_payload (last submitted)) ''status'') = Some ''submitted_unknown''
        then SubmittedUnknown else LifeSubmitted)"

definition deriveLifecycleAfterReconcileV1 :: "route_proof \<Rightarrow> proof_event list \<Rightarrow> lifecycle_state" where
  "deriveLifecycleAfterReconcileV1 p events =
     (case rpf_final_status p of
        FinalCompleted \<Rightarrow> LifeCompleted
      | FinalPartialFailure \<Rightarrow> PartialFailure
      | FinalReconciliationRequired \<Rightarrow> ReconciliationRequired
      | FinalCancelled \<Rightarrow> LifeCancelled
      | FinalFailed \<Rightarrow> LifeFailed
      | FinalPending \<Rightarrow> pendingLifecycleV1 (rpf_receipts p) events)"

definition assetUnreadableBeforeV1 :: "asset_ref \<Rightarrow> bool" where
  "assetUnreadableBeforeV1 a \<longleftrightarrow> asr_kind a = NativeKind
     \<or> (let address = map_option to_lower (asr_address a)
        in address \<noteq> Some CANONICAL_BASE_USDC \<and> address \<noteq> Some CANONICAL_BASE_WETH)"

definition tells_conflict :: "proof_event \<Rightarrow> bool" where
  "tells_conflict e = (case json_items (json_field (pev_payload e) ''receiptConflicts'') of Some (_ # _) \<Rightarrow> True | _ \<Rightarrow> False)"

definition legacyReconstructionRetryEligibleV1 :: "route_proof \<Rightarrow> proof_event list \<Rightarrow> bool" where
  "legacyReconstructionRetryEligibleV1 p events \<longleftrightarrow>
     rpf_final_status p = FinalReconciliationRequired \<and> rpf_reconciliation_state p = ManualReview
     \<and> rpf_actual_result p = None
     \<and> list_ex (\<lambda>x. assetUnreadableBeforeV1 (ach_asset x)) (exr_asset_changes (rpf_expected_result p))
     \<and> rpf_receipts p \<noteq> [] \<and> list_all (\<lambda>r. rct_status r = ReceiptSuccess) (rpf_receipts p)
     \<and> \<not> list_ex tells_conflict events"

definition receiptsEqualV1 :: "receipt list \<Rightarrow> receipt list \<Rightarrow> bool" where
  "receiptsEqualV1 a b \<longleftrightarrow> length a = length b
     \<and> list_all (\<lambda>r. case receipt_by_hash a (rct_transaction_hash r) of
          Some e \<Rightarrow> rct_status e = rct_status r \<and> rct_block_number e = rct_block_number r \<and> rct_gas_used e = rct_gas_used r
        | None \<Rightarrow> False) b"

section \<open>reconciler.ts: the settlement\<close>

record settlement =
  stl_final_status :: final_status
  stl_state :: reconciliation_state
  stl_actual_result :: "execution_result option"
  stl_deviation :: proof_deviation

definition unmeasured :: "final_status \<Rightarrow> reconciliation_state \<Rightarrow> settlement" where
  "unmeasured final state = \<lparr>stl_final_status = final, stl_state = state, stl_actual_result = None,
     stl_deviation = \<lparr>dev_output_bps = None, dev_within_tolerance = None\<rparr>\<rparr>"

definition positive_amount :: "string \<Rightarrow> bool result" where
  "positive_amount s = bindR (js_BigInt s) (\<lambda>v. Inr (v > 0))"

text \<open>Some measured change of the same asset and direction is positive.\<close>

fun moved :: "asset_change \<Rightarrow> asset_change list \<Rightarrow> bool result" where
  "moved expected [] = Inr False"
| "moved expected (a # actual) =
     (if ach_direction a = ach_direction expected \<and> asr_asset_id (ach_asset a) = asr_asset_id (ach_asset expected)
      then bindR (positive_amount (ach_amount_atomic a)) (\<lambda>yes. if yes then Inr True else moved expected actual)
      else moved expected actual)"

fun missing_movement :: "asset_change list \<Rightarrow> asset_change list \<Rightarrow> bool result" where
  "missing_movement [] actual = Inr False"
| "missing_movement (e # expected) actual =
     bindR (positive_amount (ach_amount_atomic e)) (\<lambda>positive.
     if \<not> positive then missing_movement expected actual
     else bindR (moved e actual) (\<lambda>yes. if \<not> yes then Inr True else missing_movement expected actual))"

definition settle_measured :: "route_proof \<Rightarrow> bool \<Rightarrow> execution_result \<Rightarrow> settlement result" where
  "settle_measured p allSuccess measured =
     (let expected = rpf_expected_result p; changes = exr_asset_changes expected;
          minimum = Option.bind (find (\<lambda>x. ach_direction x = Credit) changes) ach_minimum_amount_atomic in
      bindR (computeRouteProofDeviationV1 (exr_output_amount_atomic expected) (exr_output_amount_atomic measured) minimum)
        (\<lambda>(bps, satisfied).
      bindR (missing_movement changes (exr_asset_changes measured)) (\<lambda>missing.
      let (final, state) =
        (if allSuccess \<and> missing then (FinalReconciliationRequired, ManualReview)
         else if allSuccess then (FinalCompleted, if satisfied = Some False then Deviated else Matched)
         else (FinalPartialFailure, Partial))
      in Inr \<lparr>stl_final_status = final, stl_state = state, stl_actual_result = Some measured,
           stl_deviation = \<lparr>dev_output_bps = bps, dev_within_tolerance = satisfied\<rparr>\<rparr>)))"

definition settle :: "log_codec \<Rightarrow> string \<Rightarrow> route_proof \<Rightarrow> verification list \<Rightarrow> settlement result" where
  "settle c wallet p vs =
     (let successes = filter (\<lambda>v. rct_status (vrf_receipt v) = ReceiptSuccess) vs in
      if list_ex (\<lambda>v. vrf_conflict v \<noteq> None) vs then Inr (unmeasured FinalReconciliationRequired ManualReview)
      else if list_ex (\<lambda>v. rct_status (vrf_receipt v) = ReceiptUnknown) vs
      then Inr \<lparr>stl_final_status = rpf_final_status p, stl_state = rpf_reconciliation_state p,
        stl_actual_result = rpf_actual_result p, stl_deviation = rpf_deviation p\<rparr>
      else if successes = [] then Inr (unmeasured FinalFailed StateFailed)
      else (case reconstructAssetChangesV1 c wallet (exr_asset_changes (rpf_expected_result p))
                (concat (map (\<lambda>v. case vrf_source v of Some s \<Rightarrow> rsc_logs s | None \<Rightarrow> []) successes))
                (map exc_to (rpf_approved_calls p)) (giftOfApprovedCallsV1 (rpf_approved_calls p)) of
          Unsupported reason \<Rightarrow> Inr (unmeasured FinalReconciliationRequired ManualReview)
        | Reconstructed measured \<Rightarrow> settle_measured p (length successes = length vs) measured))"

section \<open>projection.ts\<close>

datatype unavailable_reason = OutputNativeUnverifiable | NotReconciled

record proof_projection =
  prj_proof_id :: string
  prj_blueprint_id :: string
  prj_expected_output :: string
  prj_minimum_output :: "string option"
  prj_actual_output :: "string option"
  prj_unavailable_reason :: "unavailable_reason option"
  prj_output_bps :: "int option"
  prj_minimum_satisfied :: "bool option"
  prj_actual_gas :: "gas_estimate option"
  prj_fee_paid_by :: "fee_payer option"
  prj_transaction_hashes :: "string list"
  prj_receipts :: "receipt list"
  prj_final_status :: final_status
  prj_reconciliation_state :: reconciliation_state
  prj_gift :: "gift_transfer option"

text \<open>The schema the projection is parsed with can refuse nothing but a gift.\<close>

definition projected_gift :: "gift_transfer option \<Rightarrow> gift_transfer option result" where
  "projected_gift gift =
     (case gift of None \<Rightarrow> Inr None
      | Some g \<Rightarrow>
          if ADDRESS (to_lower (gtr_recipient g)) \<and> positive_decimal (gtr_amount_atomic g)
          then Inr (Some (g\<lparr>gtr_recipient := to_lower (gtr_recipient g)\<rparr>)) else Inl (JsError ''ZodError''))"

definition toRouteProofProjectionV1 :: "route_proof \<Rightarrow> string \<Rightarrow> proof_projection result" where
  "toRouteProofProjectionV1 p blueprintId =
     (let expected = rpf_expected_result p;
          outputChange = find (\<lambda>x. ach_direction x = Credit) (exr_asset_changes expected);
          outputAsset = (case exr_output_asset expected of Some a \<Rightarrow> Some a | None \<Rightarrow> map_option ach_asset outputChange);
          actual = Option.bind (rpf_actual_result p) exr_output_amount_atomic
      in bindR (projected_gift (giftOfApprovedCallsV1 (rpf_approved_calls p))) (\<lambda>gift.
      Inr \<lparr>prj_proof_id = rpf_id p, prj_blueprint_id = blueprintId,
        prj_expected_output = (case exr_output_amount_atomic expected of Some a \<Rightarrow> a | None \<Rightarrow> ''0''),
        prj_minimum_output = Option.bind outputChange ach_minimum_amount_atomic, prj_actual_output = actual,
        prj_unavailable_reason =
          (if actual \<noteq> None \<and> actual \<noteq> Some '''' then None
           else if map_option asr_kind outputAsset = Some NativeKind then Some OutputNativeUnverifiable else Some NotReconciled),
        prj_output_bps = dev_output_bps (rpf_deviation p), prj_minimum_satisfied = dev_within_tolerance (rpf_deviation p),
        prj_actual_gas = rpf_actual_gas p, prj_fee_paid_by = rpf_fee_paid_by p,
        prj_transaction_hashes = rpf_transaction_hashes p, prj_receipts = rpf_receipts p,
        prj_final_status = rpf_final_status p, prj_reconciliation_state = rpf_reconciliation_state p, prj_gift = gift\<rparr>))"

section \<open>reconciler.ts: one pass\<close>

record reconcile_input =
  rci_wallet_address :: string
  rci_proof_id :: string
  rci_now :: int

datatype reconcile_error = ReconcileBinding string | ReconcileThrows js_error

datatype reconcile_outcome = AlreadyFinalized | OutcomePending | OutcomeFinal final_status

record reconcile_result =
  rcr_outcome :: reconcile_outcome
  rcr_proof :: proof_projection
  rcr_lifecycle :: lifecycle_state

definition reconcile_binding ::
  "hashing \<Rightarrow> submission_store \<Rightarrow> reconcile_input \<Rightarrow> reconcile_error + route_proof \<times> execution_blueprint" where
  "reconcile_binding h s i =
     (case sst_swap_run s of None \<Rightarrow> Inl (ReconcileBinding ''route_proof_not_found'')
      | Some run \<Rightarrow>
     if to_lower (rnw_wallet_address run) \<noteq> to_lower (rci_wallet_address i) then Inl (ReconcileBinding ''wallet_mismatch'')
     else if rnw_chain_id run \<noteq> 8453 then Inl (ReconcileBinding ''route_proof_conflict'')
     else (case sst_proofs s (rci_proof_id i) of None \<Rightarrow> Inl (ReconcileBinding ''route_proof_not_found'')
      | Some p \<Rightarrow>
     (case find (\<lambda>b. ebp_blueprint_hash b = rpf_blueprint_hash p \<and> hsh_proof_id h (ebp_id b) = rpf_id p) (sst_blueprints s) of
        None \<Rightarrow> Inl (ReconcileBinding ''route_proof_not_found'')
      | Some b \<Rightarrow>
          if ebp_status b \<noteq> BlueprintApproved then Inl (ReconcileBinding ''route_proof_conflict'')
          else if ebp_approved_calls_hash b \<noteq> rpf_approved_calls_hash p then Inl (ReconcileBinding ''route_proof_conflict'')
          else if \<not> verifyEventChainV1 (sst_events s (rpf_id p)) then Inl (ReconcileBinding ''route_proof_conflict'')
          else if \<not> distinct (rpf_transaction_hashes p) then Inl (ReconcileBinding ''route_proof_conflict'')
          else Inr (p, b))))"

definition finalized_already :: "route_proof \<Rightarrow> proof_event list \<Rightarrow> bool" where
  "finalized_already p events \<longleftrightarrow> rpf_final_status p \<in> set ROUTE_PROOF_TERMINAL_FINAL_STATUSES
     \<or> (rpf_reconciliation_state p = ManualReview \<and> \<not> legacyReconstructionRetryEligibleV1 p events)"

definition answer_reconcile :: "route_proof \<Rightarrow> execution_blueprint \<Rightarrow> proof_event list \<Rightarrow> reconcile_outcome \<Rightarrow> reconcile_error + reconcile_result" where
  "answer_reconcile p b events outcome =
     (case toRouteProofProjectionV1 p (ebp_id b) of Inl e \<Rightarrow> Inl (ReconcileThrows e)
      | Inr projection \<Rightarrow>
          Inr \<lparr>rcr_outcome = outcome, rcr_proof = projection, rcr_lifecycle = deriveLifecycleAfterReconcileV1 p events\<rparr>)"

text \<open>A receipt that contradicts a verified one does not replace it.\<close>

definition merged_receipt :: "receipt list \<Rightarrow> verification \<Rightarrow> receipt" where
  "merged_receipt existing v =
     (if vrf_conflict v = None then vrf_receipt v
      else (case receipt_by_hash existing (vrf_transaction_hash v) of Some e \<Rightarrow> e | None \<Rightarrow> vrf_receipt v))"

definition merge_verified :: "receipt list \<Rightarrow> verification list \<Rightarrow> receipt list" where
  "merge_verified existing vs = map (merged_receipt existing) vs"

definition still_pending :: "verification list \<Rightarrow> bool" where
  "still_pending vs \<longleftrightarrow> list_ex (\<lambda>v. rct_status (vrf_receipt v) = ReceiptUnknown) vs
     \<and> \<not> list_ex (\<lambda>v. vrf_conflict v \<noteq> None) vs"

definition reconciled_proof :: "route_proof \<Rightarrow> string \<Rightarrow> int \<Rightarrow> verification list \<Rightarrow> settlement \<Rightarrow> route_proof" where
  "reconciled_proof p wallet now vs st =
     (let fee = (if still_pending vs then None else Some (actualFeeV1 (map vrf_source vs) wallet)) in
      p\<lparr>rpf_actual_result := stl_actual_result st,
        rpf_actual_gas := (case fee of Some f \<Rightarrow> afe_actual_gas f | None \<Rightarrow> rpf_actual_gas p),
        rpf_fee_paid_by := (case fee of Some f \<Rightarrow> afe_fee_paid_by f | None \<Rightarrow> rpf_fee_paid_by p),
        rpf_deviation := stl_deviation st, rpf_receipts := merge_verified (rpf_receipts p) vs,
        rpf_final_status := stl_final_status st, rpf_status := stl_final_status st,
        rpf_reconciliation_state := stl_state st, rpf_updated_at := now\<rparr>)"

subsection \<open>What the events say\<close>

definition receipt_status_text :: "receipt_status \<Rightarrow> string" where
  "receipt_status_text s = (case s of ReceiptSuccess \<Rightarrow> ''success'' | ReceiptReverted \<Rightarrow> ''reverted'' | ReceiptUnknown \<Rightarrow> ''unknown'')"

definition final_status_text :: "final_status \<Rightarrow> string" where
  "final_status_text s =
     (case s of FinalPending \<Rightarrow> ''pending'' | FinalCompleted \<Rightarrow> ''completed'' | FinalPartialFailure \<Rightarrow> ''partial_failure''
      | FinalFailed \<Rightarrow> ''failed'' | FinalCancelled \<Rightarrow> ''cancelled'' | FinalReconciliationRequired \<Rightarrow> ''reconciliation_required'')"

definition state_text :: "reconciliation_state \<Rightarrow> string" where
  "state_text s =
     (case s of StatePending \<Rightarrow> ''pending'' | Matched \<Rightarrow> ''matched'' | Deviated \<Rightarrow> ''deviated'' | Partial \<Rightarrow> ''partial''
      | StateFailed \<Rightarrow> ''failed'' | ManualReview \<Rightarrow> ''manual_review'')"

definition json_nullable :: "('a \<Rightarrow> json) \<Rightarrow> 'a option \<Rightarrow> json" where
  "json_nullable f v = (case v of Some x \<Rightarrow> f x | None \<Rightarrow> JNull)"

definition receipt_json :: "receipt \<Rightarrow> json" where
  "receipt_json r = JObject [(''transactionHash'', JString (rct_transaction_hash r)),
     (''status'', JString (receipt_status_text (rct_status r))),
     (''blockNumber'', json_nullable JString (rct_block_number r)), (''gasUsed'', json_nullable JString (rct_gas_used r))]"

definition observed_payload :: "verification list \<Rightarrow> json" where
  "observed_payload vs = JObject [(''source'', JString ''chain''),
     (''receipts'', JArray (map receipt_json (filter (\<lambda>r. rct_status r \<noteq> ReceiptUnknown) (map vrf_receipt vs))))]"

definition conflict_json :: "verification \<Rightarrow> json" where
  "conflict_json v = (case vrf_conflict v of
       Some (earlier, now) \<Rightarrow> JObject [(''transactionHash'', JString (vrf_transaction_hash v)),
         (''previousStatus'', JString (receipt_status_text earlier)), (''nextStatus'', JString (receipt_status_text now))]
     | None \<Rightarrow> JNull)"

definition updated_payload :: "route_proof \<Rightarrow> settlement \<Rightarrow> verification list \<Rightarrow> json" where
  "updated_payload p st vs =
     (let conflicts = filter (\<lambda>v. vrf_conflict v \<noteq> None) vs in
      JObject ([(''previousState'', JString (state_text (rpf_reconciliation_state p))),
        (''nextState'', JString (state_text (stl_state st))),
        (''previousFinalStatus'', JString (final_status_text (rpf_final_status p))),
        (''nextFinalStatus'', JString (final_status_text (stl_final_status st)))]
        @ (if conflicts \<noteq> [] then [(''receiptConflicts'', JArray (map conflict_json conflicts))] else [])))"

definition final_payload :: "settlement \<Rightarrow> json" where
  "final_payload st = JObject [(''finalStatus'', JString (final_status_text (stl_final_status st))),
     (''outputBps'', json_nullable (\<lambda>n. JNumber (Whole n)) (dev_output_bps (stl_deviation st))),
     (''minimumSatisfied'', json_nullable JBool (dev_within_tolerance (stl_deviation st)))]"

definition reconcile_events :: "hashing \<Rightarrow> int \<Rightarrow> route_proof \<Rightarrow> settlement \<Rightarrow> verification list \<Rightarrow> proof_event list \<Rightarrow> proof_event list" where
  "reconcile_events h now p st vs events =
     (let append = (\<lambda>es t payload. appendProofEventIfNewV1 h (rpf_id p) es t payload now);
          finalChanged = (stl_final_status st \<noteq> rpf_final_status p); stateChanged = (stl_state st \<noteq> rpf_reconciliation_state p);
          observed = (if receiptsEqualV1 (rpf_receipts p) (merge_verified (rpf_receipts p) vs) then events
            else append events ReceiptObserved (observed_payload vs));
          updated = (if finalChanged \<or> stateChanged then append observed ReconciliationUpdated (updated_payload p st vs) else observed)
      in if finalChanged \<and> stl_final_status st = FinalCompleted then append updated ProofCompleted (final_payload st)
         else if finalChanged \<and> stl_final_status st = FinalPartialFailure then append updated ProofPartialFailure (final_payload st)
         else updated)"

text \<open>The pass that reads the chain; it writes the proof, then the events, then answers.\<close>

definition settle_pass ::
  "log_codec \<Rightarrow> hashing \<Rightarrow> receipt_reader \<Rightarrow> submission_store \<Rightarrow> reconcile_input \<Rightarrow> route_proof \<Rightarrow> execution_blueprint
   \<Rightarrow> submission_store \<times> (reconcile_error + reconcile_result)" where
  "settle_pass c h reader s i p b =
     (case bindR (verifyTransactionReceiptsV1 reader (rpf_receipts p) (rpf_transaction_hashes p)) (\<lambda>vs.
             bindR (settle c (rci_wallet_address i) p vs) (\<lambda>st. Inr (vs, st))) of
        Inl e \<Rightarrow> (s, Inl (ReconcileThrows e))
      | Inr (vs, st) \<Rightarrow>
          let q = reconciled_proof p (rci_wallet_address i) (rci_now i) vs st in
          if \<not> RouteProofV1Schema q then (s, Inl (ReconcileThrows (JsError ''ZodError'')))
          else let events = reconcile_events h (rci_now i) p st vs (sst_events s (rpf_id p));
                   t = s\<lparr>sst_proofs := (sst_proofs s)(rpf_id p := Some q), sst_events := (sst_events s)(rpf_id p := events)\<rparr>
               in (t, answer_reconcile q b events (if still_pending vs then OutcomePending else OutcomeFinal (stl_final_status st))))"

definition reconcile ::
  "log_codec \<Rightarrow> hashing \<Rightarrow> receipt_reader \<Rightarrow> submission_store \<Rightarrow> reconcile_input
   \<Rightarrow> submission_store \<times> (reconcile_error + reconcile_result)" where
  "reconcile c h reader s i =
     (case reconcile_binding h s i of Inl e \<Rightarrow> (s, Inl e)
      | Inr (p, b) \<Rightarrow>
          let events = sst_events s (rpf_id p) in
          if finalized_already p events then (s, answer_reconcile p b events AlreadyFinalized)
          else if rpf_transaction_hashes p = [] then (s, answer_reconcile p b events OutcomePending)
          else settle_pass c h reader s i p b)"

end
