(* ===== verification/Approval.thy ===== *)
theory Approval
  imports Submission Kernel_Sound
begin

text \<open>
  lib/transaction-composer/src/approval.ts: a stored blueprint becomes calls a wallet may sign only
  after the kernel has run again over those very calls. The repository's rows are the state of
  Submission.thy; token security and the contract pins are read from services and are parameters;
  the hashes are parameters. Where the repository itself would refuse a row (another tenant's, another
  lineage's) the call throws there; those refusals are not modelled.
\<close>

section \<open>The interface\<close>

record approval_input =
  api_wallet_address :: string
  api_blueprint_id :: string
  api_blueprint_hash :: string
  api_now :: int

record approval_world =
  apw_kernel :: kernel_world
  apw_hashing :: hashing
  apw_hash_blueprint :: "execution_blueprint \<Rightarrow> string"
  apw_hash_calls :: "execution_call list \<Rightarrow> string"
  apw_contract_security :: "string list \<Rightarrow> security_result list"
  apw_contract_pin :: "swap_provider \<Rightarrow> bool"

record payload_call =
  plc_to :: string
  plc_value :: string
  plc_data :: string

record approved_payload =
  apl_blueprint_id :: string
  apl_blueprint_hash :: string
  apl_approved_calls_hash :: "string option"
  apl_from :: string
  apl_calls :: "payload_call list"
  apl_atomic_required :: bool

datatype approve_result =
    Approved approved_payload lifecycle_state
  | ApproveExpired
  | ApproveBlocked string

datatype approval_error = ApprovalBinding string | ApprovalThrows js_error | ApprovalSchema

definition payload_call_of :: "execution_call \<Rightarrow> payload_call result" where
  "payload_call_of call =
     (case js_bigint (exc_value_wei call) of
        None \<Rightarrow> Inl (JsError ''SyntaxError: Cannot convert to a BigInt'')
      | Some v \<Rightarrow> Inr \<lparr>plc_to = exc_to call,
          plc_value = ''0x'' @ (if v < 0 then ''-'' @ show_digits 16 (nat (- v)) else show_digits 16 (nat v)), plc_data = exc_data call\<rparr>)"

definition buildApprovedPayload :: "execution_blueprint \<Rightarrow> string \<Rightarrow> approved_payload result" where
  "buildApprovedPayload b wallet =
     bindR (mapR payload_call_of (ebp_calls b)) (\<lambda>calls.
     Inr \<lparr>apl_blueprint_id = ebp_id b, apl_blueprint_hash = ebp_blueprint_hash b,
       apl_approved_calls_hash = ebp_approved_calls_hash b, apl_from = wallet, apl_calls = calls, apl_atomic_required = True\<rparr>)"

text \<open>\<open>maxUint256\<close> of the package.\<close>

definition MAX_UINT256 :: int where
  "MAX_UINT256 = 2 ^ 256 - 1"

definition sequentialSwapDeliveryV1 :: "(string \<Rightarrow> erc20_call option) \<Rightarrow> approved_payload \<Rightarrow> approved_payload option result" where
  "sequentialSwapDeliveryV1 decode payload =
     (let granted = Inr (Some (payload\<lparr>apl_atomic_required := False\<rparr>)) in
      case apl_calls payload of
        [only] \<Rightarrow> granted
      | [allowance, swap] \<Rightarrow>
          (case js_bigint (plc_value allowance) of
             None \<Rightarrow> Inl (JsError ''SyntaxError: Cannot convert to a BigInt'')
           | Some v \<Rightarrow>
               if v \<noteq> 0 then Inr None
               else (case decode (plc_data allowance) of
                   Some (Erc20Approve spender amount) \<Rightarrow>
                     if to_lower spender \<noteq> to_lower (plc_to swap) \<or> amount \<le> 0 \<or> amount \<ge> MAX_UINT256 then Inr None
                     else granted
                 | _ \<Rightarrow> Inr None))
      | _ \<Rightarrow> Inr None)"

section \<open>The kernel's second run\<close>

definition security_provider_of :: "security_result list \<Rightarrow> string" where
  "security_provider_of results =
     (if list_ex (\<lambda>r. scr_provider r = ''goplus'') results then ''goplus''
      else (case results of r # _ \<Rightarrow> scr_provider r | [] \<Rightarrow> ''none''))"

definition provider_id :: "swap_provider \<Rightarrow> string" where
  "provider_id p =
     (case p of Uniswap \<Rightarrow> ''uniswap'' | Kyberswap \<Rightarrow> ''kyberswap'' | Aerodrome \<Rightarrow> ''aerodrome''
      | O1Exchange \<Rightarrow> ''o1-exchange'' | Hydrex \<Rightarrow> ''hydrex'' | Balancer \<Rightarrow> ''balancer'')"

definition stored_kernel_input ::
  "approval_world \<Rightarrow> approval_input \<Rightarrow> run_row \<Rightarrow> route_candidate \<Rightarrow> execution_blueprint \<Rightarrow> kernel_input" where
  "stored_kernel_input w i run candidate b =
     (let provider = rcd_provider candidate; intent = rnw_intent run;
          addresses = swapTokenSecurityAddressesV1 intent; results = apw_contract_security w addresses;
          facts = aerodromeKernelInputV1 provider candidate (ebp_expected_asset_changes b);
          gift = storedGiftKernelInputV1 (ebp_calls b) (ebp_expected_asset_changes b)
      in \<lparr>kin_provider = provider,
          kin_router_address = (case find (\<lambda>c. exc_call_type c = SwapCall) (ebp_calls b) of Some c \<Rightarrow> exc_to c | None \<Rightarrow> provider_id provider),
          kin_chain_id = rin_chain_id intent, kin_wallet_address = api_wallet_address i, kin_intent = intent,
          kin_calls = ebp_calls b, kin_quote_expiry = ebp_quote_expiry b, kin_now = api_now i,
          kin_security_required = True, kin_security_provider = security_provider_of results,
          kin_security_results = results, kin_security_addresses = addresses,
          kin_simulation_acceptable = fst (simulationRequirementV1 provider intent (ebp_simulation_state b)),
          kin_intent_hash = ebp_intent_hash b, kin_selected_candidate_hash = ebp_selected_candidate_hash b,
          kin_aerodrome = sfc_aerodrome facts, kin_reviewed_minimum = sfc_reviewed_minimum facts,
          kin_o1_pin_verified = (provider = O1Exchange \<and> apw_contract_pin w provider),
          kin_hydrex_pin_verified = (provider = Hydrex \<and> apw_contract_pin w provider),
          kin_hydrex_upstream = (if provider = Hydrex then (case rcd_source_keys candidate of
              key # _ \<Rightarrow> Some (last (split_on (CHR '':'') key)) | [] \<Rightarrow> None) else None),
          kin_balancer = sfc_balancer facts, kin_gift = fst gift, kin_swap_minimum = snd gift\<rparr>)"

section \<open>Approving\<close>

definition approval_binding ::
  "approval_world \<Rightarrow> submission_store \<Rightarrow> approval_input \<Rightarrow> approval_error + run_row \<times> execution_blueprint" where
  "approval_binding w s i =
     (case sst_swap_run s of None \<Rightarrow> Inl (ApprovalBinding ''route_run_not_found'')
      | Some run \<Rightarrow>
          if to_lower (rnw_wallet_address run) \<noteq> to_lower (api_wallet_address i) then Inl (ApprovalBinding ''wallet_binding_mismatch'')
          else if rnw_chain_id run \<noteq> 8453 then Inl (ApprovalBinding ''unsupported_chain'')
          else (case find (\<lambda>b. ebp_id b = api_blueprint_id i) (sst_blueprints s) of
              None \<Rightarrow> Inl (ApprovalBinding ''blueprint_not_found'')
            | Some b \<Rightarrow>
                if ebp_goal b \<noteq> SwapGoal then Inl (ApprovalBinding ''goal_mismatch'')
                else if ebp_blueprint_hash b \<noteq> api_blueprint_hash i then Inl (ApprovalBinding ''blueprint_hash_mismatch'')
                else if ebp_intent_hash b \<noteq> rnw_intent_hash run then Inl (ApprovalBinding ''blueprint_intent_mismatch'')
                else if ebp_blueprint_hash b \<noteq> apw_hash_blueprint w b then Inl (ApprovalBinding ''blueprint_hash_invalid'')
                else if ebp_calls_hash b \<noteq> apw_hash_calls w (ebp_calls b) then Inl (ApprovalBinding ''blueprint_calls_hash_invalid'')
                else Inr (run, b)))"

definition find_candidate :: "submission_store \<Rightarrow> execution_blueprint \<Rightarrow> route_candidate option" where
  "find_candidate s b = find (\<lambda>c. rcd_candidate_hash c = ebp_selected_candidate_hash b) (sst_candidates s)"

text \<open>The blueprint as approved: already, now, or not (\<open>Inr (Inl r)\<close> is the answer).\<close>

definition approve_blueprint ::
  "approval_world \<Rightarrow> submission_store \<Rightarrow> approval_input \<Rightarrow> run_row \<Rightarrow> execution_blueprint
   \<Rightarrow> approval_error + (approve_result + execution_blueprint \<times> submission_store)" where
  "approve_blueprint w s i run b =
     (let recomputed = apw_hash_calls w (ebp_calls b) in
      if ebp_status b = BlueprintApproved \<and> ebp_approved_calls_hash b = Some recomputed then Inr (Inr (b, s))
      else if ebp_status b \<noteq> BlueprintReadyForReview then Inr (Inl (ApproveBlocked ''blueprint_status''))
      else (case find_candidate s b of None \<Rightarrow> Inl (ApprovalBinding ''candidate_not_found'')
        | Some candidate \<Rightarrow>
            (case runSafetyKernel (apw_kernel w) (stored_kernel_input w i run candidate b) of
               Inl e \<Rightarrow> Inl (ApprovalThrows e)
             | Inr r \<Rightarrow>
                 if \<not> krs_allowed r then Inr (Inl (ApproveBlocked ''safety_kernel''))
                 else if api_now i < ebp_created_at b then Inl ApprovalSchema
                 else let approved = b\<lparr>ebp_status := BlueprintApproved, ebp_approved_calls_hash := Some recomputed,
                        ebp_updated_at := api_now i\<rparr>
                   in Inr (Inr (approved, s\<lparr>sst_blueprints := map (\<lambda>x. if ebp_id x = ebp_id b then approved else x) (sst_blueprints s)\<rparr>)))))"

definition no_deviation :: proof_deviation where
  "no_deviation = \<lparr>dev_output_bps = None, dev_within_tolerance = None\<rparr>"

definition pending_proof :: "string \<Rightarrow> execution_blueprint \<Rightarrow> asset_change \<Rightarrow> int \<Rightarrow> route_proof" where
  "pending_proof proofId b output now = \<lparr>rpf_id = proofId, rpf_created_at = now, rpf_updated_at = now, rpf_status = FinalPending,
     rpf_final_status = FinalPending, rpf_blueprint_hash = ebp_blueprint_hash b,
     rpf_approved_calls_hash = ebp_approved_calls_hash b, rpf_approved_calls = ebp_calls b,
     rpf_expected_result = \<lparr>exr_asset_changes = ebp_expected_asset_changes b,
       exr_output_amount_atomic = Some (ach_amount_atomic output), exr_output_asset = Some (ach_asset output)\<rparr>,
     rpf_actual_result = None, rpf_actual_gas = None, rpf_fee_paid_by = None, rpf_deviation = no_deviation,
     rpf_reconciliation_state = StatePending, rpf_transaction_hashes = [], rpf_receipts = []\<rparr>"

definition approved_event_payload :: "execution_blueprint \<Rightarrow> json" where
  "approved_event_payload b = JObject [(''blueprintId'', JString (ebp_id b)), (''blueprintHash'', JString (ebp_blueprint_hash b)),
     (''approvedCallsHash'', (case ebp_approved_calls_hash b of Some h \<Rightarrow> JString h | None \<Rightarrow> JNull))]"

text \<open>
  The proof of an approved blueprint, created when it is missing and otherwise left as it is; the
  stored changes name what the swap is to pay out.
\<close>

definition ensure_proof ::
  "approval_world \<Rightarrow> submission_store \<Rightarrow> int \<Rightarrow> execution_blueprint \<Rightarrow> approval_error + route_proof \<times> submission_store" where
  "ensure_proof w s now b =
     (let proofId = hsh_proof_id (apw_hashing w) (ebp_id b) in
      case sst_proofs s proofId of
        Some p \<Rightarrow> Inr (p, s)
      | None \<Rightarrow>
          (case find_candidate s b of None \<Rightarrow> Inl (ApprovalBinding ''candidate_not_found'')
           | Some candidate \<Rightarrow>
               (case find (\<lambda>c. ach_direction c = Credit) (ebp_expected_asset_changes b) of
                  None \<Rightarrow> Inl (ApprovalThrows (TypeError ''Cannot read properties of undefined''))
                | Some output \<Rightarrow>
                    let p = pending_proof proofId b output now
                    in Inr (p, s\<lparr>sst_proofs := (sst_proofs s)(proofId := Some p)\<rparr>))))"

text \<open>The event of an approval, then the answer; both are written before the payload is made.\<close>

definition finish_approval ::
  "approval_world \<Rightarrow> submission_store \<Rightarrow> int \<Rightarrow> run_row \<Rightarrow> execution_blueprint \<Rightarrow> route_proof
   \<Rightarrow> submission_store \<times> (approval_error + approve_result)" where
  "finish_approval w s now run approved p =
     (let events = appendProofEventIfNewV1 (apw_hashing w) (rpf_id p) (sst_events s (rpf_id p)) CallsApproved
           (approved_event_payload approved) now;
         s' = s\<lparr>sst_events := (sst_events s)(rpf_id p := events)\<rparr>
      in (s', case buildApprovedPayload approved (rnw_wallet_address run) of
            Inl e \<Rightarrow> Inl (ApprovalThrows e)
          | Inr payload \<Rightarrow> Inr (Approved payload (deriveBlueprintLifecycleV1 (ebp_status approved) (Some p) events))))"

text \<open>What was written before a throw stays written.\<close>

definition approveExecutionBlueprintV1 ::
  "approval_world \<Rightarrow> submission_store \<Rightarrow> approval_input \<Rightarrow> submission_store \<times> (approval_error + approve_result)" where
  "approveExecutionBlueprintV1 w s i =
     (case approval_binding w s i of Inl e \<Rightarrow> (s, Inl e)
      | Inr (run, b) \<Rightarrow>
     if (case kwd_parse (apw_kernel w) (ebp_quote_expiry b) of Some t \<Rightarrow> t \<le> api_now i | None \<Rightarrow> False)
     then (s, Inr ApproveExpired)
     else (case approve_blueprint w s i run b of Inl e \<Rightarrow> (s, Inl e)
      | Inr (Inl answer) \<Rightarrow> (s, Inr answer)
      | Inr (Inr (approved, s1)) \<Rightarrow>
     (case ensure_proof w s1 (api_now i) approved of Inl e \<Rightarrow> (s1, Inl e)
      | Inr (p, s2) \<Rightarrow> finish_approval w s2 (api_now i) run approved p)))"

end
