(* ===== verification/Submission_Sound.thy ===== *)
theory Submission_Sound
  imports Submission Guarded_Steps
begin

text \<open>
  What recording keeps: the proof satisfies its schema, its history is a chain that only grows, and
  the facts of the chain are never rewritten.
\<close>

section \<open>Hashes\<close>

lemma hash_lower: "HASH_PATTERN v \<Longrightarrow> HashV1Schema (to_lower v)"
proof -
  assume a: "HASH_PATTERN v"
  then have v: "v = ''0x'' @ drop 2 v" by (intro prefixed) (simp add: HASH_PATTERN_def)
  have "to_lower v = ''0x'' @ to_lower (drop 2 v)"
    by (subst v) (simp add: to_lower_def char_lower_def)
  moreover have "list_all hex_lower (to_lower (drop 2 v))"
    using a by (simp add: HASH_PATTERN_def to_lower_def list_all_iff hex_digit_lower)
  ultimately show ?thesis using a by (simp add: HashV1Schema_def HASH_PATTERN_def)
qed

lemma hash_fixed: "HashV1Schema h \<Longrightarrow> HASH_PATTERN h \<and> to_lower h = h"
proof -
  assume a: "HashV1Schema h"
  then have v: "h = ''0x'' @ drop 2 h" by (intro prefixed) (simp add: HashV1Schema_def)
  have "to_lower (drop 2 h) = drop 2 h" using a by (simp add: HashV1Schema_def to_lower_hex)
  then have "to_lower h = h" by (subst v, subst (2) v) (simp add: to_lower_def char_lower_def)
  then show ?thesis using a by (simp add: HashV1Schema_def HASH_PATTERN_def list_all_iff hex_lower_def)
qed

lemma normalize_from_set: "set (normalize_from out vs) = set out \<union> to_lower ` {v \<in> set vs. HASH_PATTERN v}"
  by (induction out vs rule: normalize_from.induct) auto

lemma normalize_from_distinct: "distinct out \<Longrightarrow> distinct (normalize_from out vs)"
  by (induction out vs rule: normalize_from.induct) auto

lemma normalize_from_known: "\<forall>v \<in> set vs. HASH_PATTERN v \<longrightarrow> to_lower v \<in> set out \<Longrightarrow> normalize_from out vs = out"
  by (induction out vs rule: normalize_from.induct) auto

lemma normalize_from_append: "normalize_from out (xs @ ys) = normalize_from (normalize_from out xs) ys"
  by (induction out xs rule: normalize_from.induct) auto

lemma normalize_from_own: "list_all HashV1Schema vs \<Longrightarrow> distinct (out @ vs) \<Longrightarrow> normalize_from out vs = out @ vs"
  by (induction out vs rule: normalize_from.induct) (auto simp: hash_fixed)

lemma normalized_schema: "h \<in> set (normalizedHashes vs) \<Longrightarrow> HashV1Schema h"
  by (auto simp: normalizedHashes_def normalize_from_set hash_lower)

lemma normalized_idem: "normalizedHashes (normalizedHashes (as @ bs) @ bs) = normalizedHashes (as @ bs)"
proof -
  let ?n = "normalizedHashes (as @ bs)"
  have "normalize_from [] ?n = ?n"
    using normalize_from_own [of ?n "[]"] normalized_schema [of _ "as @ bs"] normalize_from_distinct [of "[]" "as @ bs"]
    by (simp add: list_all_iff normalizedHashes_def)
  moreover have "\<forall>v \<in> set bs. HASH_PATTERN v \<longrightarrow> to_lower v \<in> set ?n"
    by (auto simp: normalizedHashes_def normalize_from_set)
  ultimately show ?thesis
    unfolding normalizedHashes_def normalize_from_append [of "[]" "normalize_from [] (as @ bs)"]
    by (simp add: normalize_from_known normalizedHashes_def)
qed

section \<open>Receipts\<close>

lemma added_hashes: "set (map rct_transaction_hash (foldl add_receipt rs new)) = set (map rct_transaction_hash rs) \<union> set (map rct_transaction_hash new)"
  by (induction new arbitrary: rs) (auto simp: add_receipt_def)

lemma added_distinct: "distinct (map rct_transaction_hash rs) \<Longrightarrow> distinct (map rct_transaction_hash (foldl add_receipt rs new))"
  by (induction new arbitrary: rs) (auto simp: add_receipt_def)

lemma added_grows: "\<exists>more. foldl add_receipt rs new = rs @ more \<and> set more \<subseteq> set new"
proof (induction new arbitrary: rs)
  case Nil
  show ?case by simp
next
  case (Cons r new)
  obtain more where m: "foldl add_receipt (add_receipt rs r) new = add_receipt rs r @ more" "set more \<subseteq> set new"
    using Cons.IH by blast
  then have "foldl add_receipt rs (r # new) = rs @ (if rct_transaction_hash r \<in> set (map rct_transaction_hash rs) then more else r # more)"
    by (simp add: add_receipt_def)
  moreover have "set (if rct_transaction_hash r \<in> set (map rct_transaction_hash rs) then more else r # more) \<subseteq> set (r # new)"
    using m(2) by auto
  ultimately show ?case by blast
qed

lemma added_known: "set (map rct_transaction_hash new) \<subseteq> set (map rct_transaction_hash rs) \<Longrightarrow> foldl add_receipt rs new = rs"
  by (induction new arbitrary: rs) (auto simp: add_receipt_def)

lemma kept_by_map_filter: "y \<in> set (List.map_filter f xs) \<longleftrightarrow> (\<exists>x \<in> set xs. f x = Some y)"
  by (induction xs) (auto simp: List.map_filter_simps split: option.split)

lemma receipt_schema_hash: "TransactionReceiptV1Schema v = Some r \<Longrightarrow> HashV1Schema (rct_transaction_hash r)"
  by (cases v) (auto simp: TransactionReceiptV1Schema_def split: if_split_asm option.split_asm)

lemma parsed_receipt_hash: "r \<in> set (reported_receipts i) \<Longrightarrow> HashV1Schema (rct_transaction_hash r)"
  by (auto simp: reported_receipts_def kept_by_map_filter intro: receipt_schema_hash split: if_split_asm)

lemma merged_receipts_grow: "\<exists>more. merged_receipts i p = rpf_receipts p @ more
    \<and> set more \<subseteq> set (reported_receipts i) \<union> unknown_receipt ` set (merged_hashes i p)"
proof (cases "reported_batch i = None")
  case True
  then show ?thesis by (simp add: merged_receipts_def)
next
  case False
  obtain a where a: "foldl add_receipt (rpf_receipts p) (reported_receipts i) = rpf_receipts p @ a" "set a \<subseteq> set (reported_receipts i)"
    using added_grows by blast
  obtain b where "foldl add_receipt (rpf_receipts p @ a) (map unknown_receipt (merged_hashes i p)) = rpf_receipts p @ a @ b"
      "set b \<subseteq> unknown_receipt ` set (merged_hashes i p)"
    using added_grows [of "rpf_receipts p @ a" "map unknown_receipt (merged_hashes i p)"] by auto
  with a False show ?thesis by (auto simp: merged_receipts_def)
qed

lemma unknown_hash [simp]: "rct_transaction_hash (unknown_receipt h) = h" "rct_status (unknown_receipt h) = ReceiptUnknown"
  by (simp_all add: unknown_receipt_def)

lemma merged_hashes_schema:
  "list_all HashV1Schema (rpf_transaction_hashes p) \<Longrightarrow> list_all HashV1Schema (merged_hashes i p)"
  by (auto simp: merged_hashes_def list_all_iff normalized_schema)

lemma merged_hashes_keep:
  "list_all HashV1Schema (rpf_transaction_hashes p) \<Longrightarrow> set (rpf_transaction_hashes p) \<subseteq> set (merged_hashes i p)"
  by (auto simp: merged_hashes_def list_all_iff normalizedHashes_def normalize_from_set image_iff) (metis hash_fixed)

lemma recorded_proof_schema:
  assumes "RouteProofV1Schema p" and "rpf_created_at p \<le> sbi_now i"
  shows "RouteProofV1Schema (recorded_proof i p)"
proof -
  have old: "list_all HashV1Schema (rpf_transaction_hashes p)" "list_all HashV1Schema (map rct_transaction_hash (rpf_receipts p))"
      "distinct (map rct_transaction_hash (rpf_receipts p))"
      "set (rpf_transaction_hashes p) \<subseteq> set (map rct_transaction_hash (rpf_receipts p))"
    using assms(1) by (auto simp: RouteProofV1Schema_def Let_def list_all_iff)
  have "distinct (map rct_transaction_hash (merged_receipts i p))"
    using old(3) by (simp add: merged_receipts_def added_distinct)
  moreover have "set (merged_hashes i p) \<subseteq> set (map rct_transaction_hash (merged_receipts i p))"
    using old(4) added_hashes [of _ "map unknown_receipt (merged_hashes i p)"]
    by (auto simp: merged_receipts_def merged_hashes_def comp_def)
  moreover have "HashV1Schema (rct_transaction_hash r)" if "r \<in> set (merged_receipts i p)" for r
  proof -
    have "r \<in> set (rpf_receipts p) \<union> set (reported_receipts i) \<union> unknown_receipt ` set (merged_hashes i p)"
      using that merged_receipts_grow [of i p] by auto
    then show ?thesis
      using old(2) merged_hashes_schema [OF old(1), of i] by (auto simp: list_all_iff parsed_receipt_hash)
  qed
  moreover have "FINAL_STATUS_BY_SUBMISSION (sbi_status i) \<noteq> FinalCompleted"
      "FINAL_STATUS_BY_SUBMISSION (sbi_status i) \<noteq> FinalPartialFailure"
    by (simp_all add: FINAL_STATUS_BY_SUBMISSION_def split: submission_status.split)
  ultimately show ?thesis
    using assms(2) merged_hashes_schema [OF old(1), of i] by (auto simp: RouteProofV1Schema_def recorded_proof_def list_all_iff)
qed

section \<open>One report\<close>

lemma record_parts:
  assumes "recordBlueprintSubmissionV1 h parse s i = Inr (t, r)"
  obtains blueprint p where "submission_binding parse s i = Inr blueprint"
    and "sst_proofs s (hsh_proof_id h (ebp_id blueprint)) = Some p"
    and "submission_conflict i p (sst_events s (hsh_proof_id h (ebp_id blueprint))) = None"
    and "RouteProofV1Schema (recorded_proof i p)"
    and "t = s\<lparr>sst_proofs := (sst_proofs s)(rpf_id p := Some (recorded_proof i p)),
           sst_events := (sst_events s)(rpf_id p := recorded_events h i (rpf_id p) (sst_events s (hsh_proof_id h (ebp_id blueprint))))\<rparr>"
    and "sbr_proof_id r = hsh_proof_id h (ebp_id blueprint)"
    and "sbr_lifecycle r = deriveBlueprintLifecycleV1 (ebp_status blueprint) (Some (recorded_proof i p))
           (recorded_events h i (rpf_id p) (sst_events s (hsh_proof_id h (ebp_id blueprint))))"
  using assms
  by (auto simp: recordBlueprintSubmissionV1_def Let_def recorded_proof_def
      split: sum.split_asm option.split_asm if_split_asm)

definition sound_store :: "hashing \<Rightarrow> submission_store \<Rightarrow> bool" where
  "sound_store h s \<longleftrightarrow>
     (\<forall>pid. chained h pid (sst_events s pid) \<and> told_once (sst_events s pid))
     \<and> (\<forall>pid p. sst_proofs s pid = Some p \<longrightarrow> rpf_id p = pid \<and> RouteProofV1Schema p)"

lemma recorded_events_keep:
  "chained h pid es \<Longrightarrow> told_once es \<Longrightarrow> chained h pid (recorded_events h i pid es) \<and> told_once (recorded_events h i pid es)"
  by (simp add: recorded_events_def Let_def appended_is_chained appended_told_once split: option.split)

lemma recorded_events_grow: "\<exists>new. recorded_events h i pid es = es @ new"
proof -
  have grow: "\<exists>new. appendProofEventIfNewV1 h pid es t payload now = es @ new" for es t payload now
    using appended_extends by blast
  show ?thesis
  proof (cases "reported_batch i")
    case None
    then show ?thesis by (simp add: recorded_events_def)
  next
    case (Some batch)
    define es' where "es' = (if batch \<in> set (recordedBatchIds es) then es
        else appendProofEventIfNewV1 h pid es Submitted (submitted_payload batch (sbi_status i)) (sbi_now i))"
    then obtain a where a: "es' = es @ a" using grow [of es Submitted] by (cases "batch \<in> set (recordedBatchIds es)") auto
    have "recorded_events h i pid es = es' \<or> recorded_events h i pid es = appendProofEventIfNewV1 h pid es' ReceiptObserved (receipt_payload batch i) (sbi_now i)"
      using Some by (simp add: recorded_events_def es'_def Let_def)
    then show ?thesis using a grow [of es' ReceiptObserved "receipt_payload batch i" "sbi_now i"] by auto
  qed
qed

lemma record_keeps_sound:
  assumes "sound_store h s" and "recordBlueprintSubmissionV1 h parse s i = Inr (t, r)"
  shows "sound_store h t"
  using assms(2)
proof (rule record_parts)
  fix blueprint p
  assume p: "sst_proofs s (hsh_proof_id h (ebp_id blueprint)) = Some p" and ok: "RouteProofV1Schema (recorded_proof i p)"
    and t: "t = s\<lparr>sst_proofs := (sst_proofs s)(rpf_id p := Some (recorded_proof i p)),
           sst_events := (sst_events s)(rpf_id p := recorded_events h i (rpf_id p) (sst_events s (hsh_proof_id h (ebp_id blueprint))))\<rparr>"
  have "rpf_id p = hsh_proof_id h (ebp_id blueprint)"
    "chained h (rpf_id p) (sst_events s (rpf_id p))" "told_once (sst_events s (rpf_id p))"
    using assms(1) p by (auto simp: sound_store_def)
  then show "sound_store h t"
    using assms(1) ok recorded_events_keep unfolding t sound_store_def by (auto simp: recorded_proof_def)
qed

lemma record_never_breaks_the_schema:
  assumes "sound_store h s" and "\<forall>pid p. sst_proofs s pid = Some p \<longrightarrow> rpf_created_at p \<le> sbi_now i"
  shows "recordBlueprintSubmissionV1 h parse s i \<noteq> Inl SchemaError"
  using assms recorded_proof_schema
  by (auto simp: recordBlueprintSubmissionV1_def submission_binding_def sound_store_def Let_def
      split: sum.split option.split)

section \<open>Runs of reports\<close>

text \<open>A report is recorded, or refused and leaves the rows as they are.\<close>

inductive submission_step ::
  "hashing \<Rightarrow> (string \<Rightarrow> int option) \<Rightarrow> submission_store \<Rightarrow> submission_input \<Rightarrow> submission_store \<Rightarrow> bool" for h parse where
  recorded: "recordBlueprintSubmissionV1 h parse s i = Inr (t, r) \<Longrightarrow> submission_step h parse s i t"
| refused: "recordBlueprintSubmissionV1 h parse s i = Inl e \<Longrightarrow> submission_step h parse s i s"

inductive_cases submission_stepE: "submission_step h parse s i t"

lemma submission_step_cases:
  assumes "submission_step h parse s i t"
  obtains (recorded) r where "recordBlueprintSubmissionV1 h parse s i = Inr (t, r)"
    | (refused) e where "recordBlueprintSubmissionV1 h parse s i = Inl e" "t = s"
  using assms by (rule submission_stepE) auto

lemma step_keeps_sound: "sound_store h s \<Longrightarrow> submission_step h parse s i t \<Longrightarrow> sound_store h t"
  by (auto elim!: submission_stepE intro: record_keeps_sound)

interpretation submissions: stepping "submission_step h parse" "sound_store h" "sound_store h"
  by unfold_locales (auto intro: step_keeps_sound)

text \<open>What a proof knows afterwards: everything it knew, and only what somebody reported.\<close>

definition reported :: "submission_input list \<Rightarrow> receipt \<Rightarrow> bool" where
  "reported ins r \<longleftrightarrow> (\<exists>i \<in> set ins. r \<in> set (reported_receipts i)) \<or> rct_status r = ReceiptUnknown"

definition knows_more :: "submission_input list \<Rightarrow> string \<Rightarrow> submission_store \<Rightarrow> submission_store \<Rightarrow> bool" where
  "knows_more ins pid s t \<longleftrightarrow>
     (\<forall>p. sst_proofs s pid = Some p \<longrightarrow>
        (\<exists>q more new. sst_proofs t pid = Some q \<and> rpf_receipts q = rpf_receipts p @ more
           \<and> (\<forall>r \<in> set more. reported ins r) \<and> sst_events t pid = sst_events s pid @ new))"

lemma knows_more_refl: "knows_more ins pid s s"
  by (auto simp: knows_more_def)

lemma knows_more_trans:
  "knows_more [i] pid s t \<Longrightarrow> knows_more ins pid t u \<Longrightarrow> knows_more (i # ins) pid s u"
  unfolding knows_more_def reported_def by (fastforce simp: append_assoc)

lemma step_knows_more:
  assumes "sound_store h s" and "submission_step h parse s i t"
  shows "knows_more [i] pid s t"
  using assms(2)
proof (cases rule: submission_step_cases)
  case (recorded r)
  then show ?thesis
  proof (rule record_parts)
    fix blueprint p
    assume p: "sst_proofs s (hsh_proof_id h (ebp_id blueprint)) = Some p"
      and t: "t = s\<lparr>sst_proofs := (sst_proofs s)(rpf_id p := Some (recorded_proof i p)),
           sst_events := (sst_events s)(rpf_id p := recorded_events h i (rpf_id p) (sst_events s (hsh_proof_id h (ebp_id blueprint))))\<rparr>"
    have pid: "hsh_proof_id h (ebp_id blueprint) = rpf_id p" using assms(1) p by (auto simp: sound_store_def)
    obtain more where m: "merged_receipts i p = rpf_receipts p @ more"
        "set more \<subseteq> set (reported_receipts i) \<union> unknown_receipt ` set (merged_hashes i p)"
      using merged_receipts_grow by blast
    moreover have "\<forall>r \<in> set more. reported [i] r" using m(2) by (auto simp: reported_def)
    moreover obtain new where "recorded_events h i (rpf_id p) (sst_events s (rpf_id p)) = sst_events s (rpf_id p) @ new"
      using recorded_events_grow by blast
    ultimately show ?thesis using p unfolding t pid knows_more_def by (auto simp: recorded_proof_def)
  qed
next
  case (refused e)
  then show ?thesis by (simp add: knows_more_refl)
qed

lemma runs_know_more: "runs (submission_step h parse) s ins t \<Longrightarrow> sound_store h s \<Longrightarrow> knows_more ins pid s t"
proof (induction rule: runs.induct)
  case (none s)
  show ?case by (rule knows_more_refl)
next
  case (more s i t ins u)
  then show ?case using knows_more_trans step_knows_more step_keeps_sound by blast
qed

lemma batches_from_mem: "set (batches_from out es) = set out \<union> {b. \<exists>e \<in> set es. submitted_batch e = Some b}"
  by (induction out es rule: batches_from.induct) (auto split: option.splits)

lemma recorded_batches_grow: "set (recordedBatchIds es) \<subseteq> set (recordedBatchIds (es @ new))"
  by (auto simp: recordedBatchIds_def batches_from_mem)

section \<open>Retries\<close>

lemma merged_again:
  "merged_hashes i (recorded_proof i p) = merged_hashes i p"
  "merged_receipts i (recorded_proof i p) = merged_receipts i p"
proof -
  show h: "merged_hashes i (recorded_proof i p) = merged_hashes i p"
    by (simp add: merged_hashes_def recorded_proof_def normalized_idem)
  show "merged_receipts i (recorded_proof i p) = merged_receipts i p"
  proof (cases "reported_batch i = None")
    case True
    then show ?thesis by (simp add: merged_receipts_def recorded_proof_def)
  next
    case False
    let ?all = "merged_receipts i p"
    have known: "set (map rct_transaction_hash (reported_receipts i)) \<subseteq> set (map rct_transaction_hash ?all)"
        "set (merged_hashes i p) \<subseteq> set (map rct_transaction_hash ?all)"
      using False unfolding merged_receipts_def by (simp_all only: added_hashes if_False) (auto simp: comp_def)
    then have "foldl add_receipt ?all (reported_receipts i) = ?all" by (intro added_known)
    moreover have "foldl add_receipt ?all (map unknown_receipt (merged_hashes i p)) = ?all"
      using known(2) by (intro added_known) (auto simp: comp_def)
    moreover have "rpf_receipts (recorded_proof i p) = ?all" by (simp add: recorded_proof_def)
    ultimately show ?thesis using False unfolding merged_receipts_def [of i "recorded_proof i p"] h by simp
  qed
qed

text \<open>An event without a colliding one before it is in the history afterwards, word for word.\<close>

lemma appended_says:
  assumes "chained h pid es"
    and "\<forall>e \<in> set es. pev_event_type e = t \<and> hsh_payload h (pev_payload e) = hsh_payload h payload \<longrightarrow> pev_payload e = payload"
  shows "\<exists>e \<in> set (appendProofEventIfNewV1 h pid es t payload now). pev_event_type e = t \<and> pev_payload e = payload"
proof -
  obtain e where e: "e \<in> set (appendProofEventIfNewV1 h pid es t payload now)" "pev_event_type e = t"
      "pev_payload_hash e = hsh_payload h payload"
    using appended_tells [of h pid es t payload] by blast
  have "pev_payload e = payload"
  proof (cases "e \<in> set es")
    case True
    then have "pev_payload_hash e = hsh_payload h (pev_payload e)" using assms(1) by (auto simp: chained_def in_set_conv_nth)
    then show ?thesis using assms(2) True e(2,3) by simp
  next
    case False
    then show ?thesis using e(1) by (auto simp: appendProofEventIfNewV1_def nextRouteProofEventV1_def split: if_split_asm)
  qed
  with e(1,2) show ?thesis by blast
qed

lemma recorded_events_again: "recorded_events h i pid (recorded_events h i pid es) = recorded_events h i pid es"
proof (cases "reported_batch i")
  case None
  then show ?thesis by (simp add: recorded_events_def)
next
  case (Some batch)
  let ?all = "recorded_events h i pid es"
  define es' where "es' = (if batch \<in> set (recordedBatchIds es) then es
        else appendProofEventIfNewV1 h pid es Submitted (submitted_payload batch (sbi_status i)) (sbi_now i))"
  have all: "?all = (if reported_hashes i \<noteq> [] \<or> (case sbi_receipts i of Some rs \<Rightarrow> rs \<noteq> [] | None \<Rightarrow> False)
      then appendProofEventIfNewV1 h pid es' ReceiptObserved (receipt_payload batch i) (sbi_now i) else es')"
    using Some by (simp add: recorded_events_def es'_def [symmetric])
  have "?all = es' @ [] \<or> ?all = appendProofEventIfNewV1 h pid es' ReceiptObserved (receipt_payload batch i) (sbi_now i)"
    by (simp add: all)
  then obtain new where grown: "?all = es' @ new"
    using appended_extends [of h pid es' ReceiptObserved "receipt_payload batch i"] by metis
  have submitted: "batch \<in> set (recordedBatchIds ?all)
      \<or> appendProofEventIfNewV1 h pid ?all Submitted (submitted_payload batch (sbi_status i)) (sbi_now i) = ?all"
  proof (cases "batch \<in> set (recordedBatchIds es)")
    case True
    then show ?thesis using grown es'_def recorded_batches_grow [of es new] by auto
  next
    case False
    then have "\<exists>e \<in> set es'. pev_event_type e = Submitted
        \<and> pev_payload_hash e = hsh_payload h (submitted_payload batch (sbi_status i))"
      using appended_tells by (simp add: es'_def)
    then show ?thesis unfolding grown by (intro disjI2 append_again) auto
  qed
  have "appendProofEventIfNewV1 h pid ?all ReceiptObserved (receipt_payload batch i) (sbi_now i) = ?all"
    if "reported_hashes i \<noteq> [] \<or> (case sbi_receipts i of Some rs \<Rightarrow> rs \<noteq> [] | None \<Rightarrow> False)"
    using that by (intro append_again) (simp only: all if_True appended_tells)
  with submitted Some show ?thesis
    unfolding recorded_events_def [of h i pid ?all] by (auto simp: Let_def)
qed

end
