(* ===== verification/Custody.thy ===== *)
theory Custody
  imports Approval Submission_Sound
begin

text \<open>
  Approvals and reports on the same rows, in any order: the step relation of a route run between the
  review of its blueprints and the end of its proof, and what every step keeps. Between two steps the
  security service and the contract pins may answer anything; the hashes and the kernel's parameters
  stay.
\<close>

section \<open>The steps\<close>

datatype custody_event =
    Approve "string list \<Rightarrow> security_result list" "swap_provider \<Rightarrow> bool" approval_input
  | Report submission_input

definition asking :: "approval_world \<Rightarrow> (string list \<Rightarrow> security_result list) \<Rightarrow> (swap_provider \<Rightarrow> bool) \<Rightarrow> approval_world" where
  "asking w answers pin = w\<lparr>apw_contract_security := answers, apw_contract_pin := pin\<rparr>"

lemma asking_keeps [simp]:
  "apw_kernel (asking w answers pin) = apw_kernel w" "apw_hashing (asking w answers pin) = apw_hashing w"
  "apw_hash_calls (asking w answers pin) = apw_hash_calls w" "apw_hash_blueprint (asking w answers pin) = apw_hash_blueprint w"
  by (simp_all add: asking_def)

inductive custody_step :: "approval_world \<Rightarrow> submission_store \<Rightarrow> custody_event \<Rightarrow> submission_store \<Rightarrow> bool" for w where
  approve: "custody_step w s (Approve answers pin i) (fst (approveExecutionBlueprintV1 (asking w answers pin) s i))"
| report: "submission_step (apw_hashing w) (kwd_parse (apw_kernel w)) s i t \<Longrightarrow> custody_step w s (Report i) t"

inductive_cases custody_approveE: "custody_step w s (Approve answers pin i) t"
inductive_cases custody_reportE: "custody_step w s (Report i) t"

lemma asking_answers [simp]: "apw_contract_security (asking w answers pin) = answers"
  by (simp add: asking_def)

text \<open>The security answer of an approval the kernel let through.\<close>

lemma stored_kernel_security:
  assumes "kernel_allows (apw_kernel w) (stored_kernel_input (asking w answers pin) i run candidate b)"
  shows "(\<forall>r \<in> set (answers (swapTokenSecurityAddressesV1 (rnw_intent run))). tokenSecurityRefusalV1 (kwd_number (apw_kernel w)) r = None)
    \<and> (\<forall>y \<in> set (swapTokenSecurityAddressesV1 (rnw_intent run)). vouched_for (answers (swapTokenSecurityAddressesV1 (rnw_intent run))) y)"
proof -
  let ?i = "stored_kernel_input (asking w answers pin) i run candidate b"
  have "kin_security_required ?i" "kin_security_addresses ?i = swapTokenSecurityAddressesV1 (rnw_intent run)"
      "kin_security_results ?i = answers (swapTokenSecurityAddressesV1 (rnw_intent run))"
    by (simp_all add: stored_kernel_input_def Let_def)
  then show ?thesis
    using assms security_not_blocked [of "kwd_number (apw_kernel w)" "kin_security_provider ?i" "kin_security_addresses ?i" "kin_security_results ?i"]
    by (auto simp: kernel_allows_parts kernel_security_def)
qed

text \<open>The kernel allowed exactly these calls, for the run's wallet.\<close>

definition reviewed :: "approval_world \<Rightarrow> submission_store \<Rightarrow> run_row \<Rightarrow> execution_blueprint \<Rightarrow> bool" where
  "reviewed w s run b \<longleftrightarrow>
     (\<exists>answers pin i candidate. candidate \<in> set (sst_candidates s)
        \<and> rcd_candidate_hash candidate = ebp_selected_candidate_hash b
        \<and> to_lower (api_wallet_address i) = to_lower (rnw_wallet_address run)
        \<and> ebp_intent_hash b = rnw_intent_hash run \<and> ebp_approved_calls_hash b = Some (apw_hash_calls w (ebp_calls b))
        \<and> kernel_allows (apw_kernel w) (stored_kernel_input (asking w answers pin) i run candidate b))"

definition custody_ok :: "approval_world \<Rightarrow> submission_store \<Rightarrow> bool" where
  "custody_ok w s \<longleftrightarrow> sound_store (apw_hashing w) s
     \<and> (\<forall>b \<in> set (sst_blueprints s). ebp_status b = BlueprintApproved \<longrightarrow>
          (\<exists>run. sst_swap_run s = Some run \<and> reviewed w s run b))"

text \<open>A route run as the coordinator leaves it: nothing approved, no proof, no history.\<close>

definition custody_fresh :: "submission_store \<Rightarrow> bool" where
  "custody_fresh s \<longleftrightarrow> list_all (\<lambda>b. ebp_status b \<noteq> BlueprintApproved) (sst_blueprints s)
     \<and> (\<forall>pid. sst_proofs s pid = None \<and> sst_events s pid = [])"

lemma fresh_ok: "custody_fresh s \<Longrightarrow> custody_ok w s"
  by (auto simp: custody_fresh_def custody_ok_def sound_store_def chained_def told_once_def list_all_iff)

section \<open>One approval\<close>

lemma binding_found:
  assumes "approval_binding w s i = Inr (run, b)"
  shows "sst_swap_run s = Some run" "b \<in> set (sst_blueprints s)" "ebp_id b = api_blueprint_id i"
    "to_lower (rnw_wallet_address run) = to_lower (api_wallet_address i)" "rnw_chain_id run = 8453"
    "ebp_intent_hash b = rnw_intent_hash run" "ebp_calls_hash b = apw_hash_calls w (ebp_calls b)"
    "ebp_blueprint_hash b = api_blueprint_hash i"
  using assms by (auto simp: approval_binding_def find_Some_iff split: option.split_asm if_split_asm)

text \<open>The blueprint an approval goes on with, and the rows it leaves behind.\<close>

definition as_approved :: "approval_world \<Rightarrow> approval_input \<Rightarrow> execution_blueprint \<Rightarrow> execution_blueprint" where
  "as_approved w i b = b\<lparr>ebp_status := BlueprintApproved, ebp_approved_calls_hash := Some (apw_hash_calls w (ebp_calls b)),
     ebp_updated_at := api_now i\<rparr>"

lemma approve_blueprint_cases:
  assumes "approve_blueprint w s i run b = Inr (Inr (approved, s1))"
  obtains (already) "ebp_status b = BlueprintApproved" "approved = b" "s1 = s"
  | (now) candidate where "ebp_status b = BlueprintReadyForReview" "find_candidate s b = Some candidate"
      "kernel_allows (apw_kernel w) (stored_kernel_input w i run candidate b)" "approved = as_approved w i b"
      "s1 = s\<lparr>sst_blueprints := map (\<lambda>x. if ebp_id x = ebp_id b then approved else x) (sst_blueprints s)\<rparr>"
  using assms
  by (auto simp: approve_blueprint_def as_approved_def kernel_allows_def Let_def
      split: if_split_asm option.split_asm sum.split_asm)

lemma approved_input: "stored_kernel_input w i run candidate (as_approved w' j b) = stored_kernel_input w i run candidate b"
  by (simp add: stored_kernel_input_def as_approved_def Let_def)

lemma approve_blueprint_keeps:
  assumes "approval_binding (asking w answers pin) s i = Inr (run, b)"
    and "approve_blueprint (asking w answers pin) s i run b = Inr (Inr (approved, s1))" and "custody_ok w s"
  shows "custody_ok w s1 \<and> approved \<in> set (sst_blueprints s1) \<and> ebp_status approved = BlueprintApproved
    \<and> ebp_id approved = ebp_id b \<and> ebp_calls approved = ebp_calls b \<and> ebp_quote_expiry approved = ebp_quote_expiry b
    \<and> sst_swap_run s1 = sst_swap_run s \<and> sst_proofs s1 = sst_proofs s \<and> sst_events s1 = sst_events s"
  using assms(2)
proof (cases rule: approve_blueprint_cases)
  case already
  then show ?thesis using assms(3) binding_found(2) [OF assms(1)] by simp
next
  case (now candidate)
  note found = binding_found [OF assms(1)]
  have "reviewed w s run approved"
    unfolding reviewed_def
  proof (intro exI conjI)
    show "candidate \<in> set (sst_candidates s)" "rcd_candidate_hash candidate = ebp_selected_candidate_hash approved"
      using now(2,4) by (auto simp: find_candidate_def find_Some_iff as_approved_def)
    show "kernel_allows (apw_kernel w) (stored_kernel_input (asking w answers pin) i run candidate approved)"
      using now(3) by (simp add: now(4) approved_input)
  qed (use found now(4) in \<open>simp_all add: as_approved_def\<close>)
  then have "reviewed w s1 run approved" by (simp add: now(5) reviewed_def)
  moreover have "reviewed w s1 r x = reviewed w s r x" for r x by (simp add: now(5) reviewed_def)
  moreover have "approved \<in> set (sst_blueprints s1)" using found(2) by (force simp: now(5))
  moreover have "sound_store (apw_hashing w) s1" using assms(3) by (simp add: now(5) custody_ok_def sound_store_def)
  ultimately show ?thesis
    using assms(3) found(1) now(4) unfolding custody_ok_def by (auto simp: now(5) as_approved_def)
qed

lemma ensure_proof_cases:
  assumes "ensure_proof w s now b = Inr (p, s2)"
  obtains (there) "sst_proofs s (hsh_proof_id (apw_hashing w) (ebp_id b)) = Some p" "s2 = s"
  | (made) credit where "sst_proofs s (hsh_proof_id (apw_hashing w) (ebp_id b)) = None"
      "p = pending_proof (hsh_proof_id (apw_hashing w) (ebp_id b)) b credit now"
      "s2 = s\<lparr>sst_proofs := (sst_proofs s)(hsh_proof_id (apw_hashing w) (ebp_id b) := Some p)\<rparr>"
  using assms by (auto simp: ensure_proof_def Let_def split: option.split_asm if_split_asm)

lemma pending_proof_schema: "RouteProofV1Schema (pending_proof pid b credit now)" "rpf_id (pending_proof pid b output now) = pid"
  "rpf_receipts (pending_proof pid b credit now) = []"
  by (simp_all add: RouteProofV1Schema_def pending_proof_def)

lemma reviewed_cong: "sst_candidates s = sst_candidates t \<Longrightarrow> reviewed w s run b = reviewed w t run b"
  by (simp add: reviewed_def)

lemma custody_ok_cong:
  assumes "custody_ok w s" and "sst_swap_run t = sst_swap_run s" and "sst_candidates t = sst_candidates s"
    and "sst_blueprints t = sst_blueprints s" and "sound_store (apw_hashing w) t"
  shows "custody_ok w t"
  using assms(1,5) unfolding custody_ok_def by (auto simp: assms(2-4) reviewed_cong [OF assms(3)])

text \<open>What was known of a proof stays known when it is only created.\<close>

lemma ensure_proof_keeps:
  assumes "ensure_proof w s now b = Inr (p, s2)" and "sound_store (apw_hashing w) s"
  shows "sound_store (apw_hashing w) s2 \<and> sst_proofs s2 (rpf_id p) = Some p \<and> sst_events s2 = sst_events s
    \<and> sst_swap_run s2 = sst_swap_run s \<and> sst_candidates s2 = sst_candidates s \<and> sst_blueprints s2 = sst_blueprints s
    \<and> (\<forall>pid q. sst_proofs s pid = Some q \<longrightarrow> sst_proofs s2 pid = Some q)"
  using assms(1)
proof (cases rule: ensure_proof_cases)
  case there
  then show ?thesis using assms(2) by (auto simp: sound_store_def)
next
  case made
  then show ?thesis using assms(2) by (auto simp: sound_store_def pending_proof_schema)
qed

text \<open>The rows after an approval: nothing, the blueprint, or the blueprint with its proof and event.\<close>

lemma approval_cases:
  assumes "approveExecutionBlueprintV1 w s i = (t, r)"
  obtains (nothing) "t = s" "\<forall>payload life. r \<noteq> Inr (Approved payload life)"
  | (stopped) run b approved e where "approval_binding w s i = Inr (run, b)"
      "approve_blueprint w s i run b = Inr (Inr (approved, t))" "r = Inl e"
  | (finished) run b approved s1 p s2 where "approval_binding w s i = Inr (run, b)"
      "\<forall>expiry. kwd_parse (apw_kernel w) (ebp_quote_expiry b) = Some expiry \<longrightarrow> api_now i < expiry"
      "approve_blueprint w s i run b = Inr (Inr (approved, s1))"
      "ensure_proof w s1 (api_now i) approved = Inr (p, s2)" "(t, r) = finish_approval w s2 (api_now i) run approved p"
proof (cases "approval_binding w s i")
  case (Inl e)
  then have "t = s" "\<forall>payload life. r \<noteq> Inr (Approved payload life)" using assms by (auto simp: approveExecutionBlueprintV1_def)
  then show thesis by (rule nothing)
next
  case (Inr pair)
  obtain run b where rb: "pair = (run, b)" by (cases pair)
  note bound = Inr [unfolded rb]
  let ?expired = "case kwd_parse (apw_kernel w) (ebp_quote_expiry b) of Some x \<Rightarrow> x \<le> api_now i | None \<Rightarrow> False"
  show thesis
  proof (cases ?expired)
    case True
    then have "t = s" "\<forall>payload life. r \<noteq> Inr (Approved payload life)" using assms bound by (auto simp: approveExecutionBlueprintV1_def)
    then show thesis by (rule nothing)
  next
    case False
    then have fresh: "\<forall>expiry. kwd_parse (apw_kernel w) (ebp_quote_expiry b) = Some expiry \<longrightarrow> api_now i < expiry" by auto
    show thesis
    proof (cases "approve_blueprint w s i run b")
      case (Inl e)
      then have "t = s" "\<forall>payload life. r \<noteq> Inr (Approved payload life)" using assms bound False by (auto simp: approveExecutionBlueprintV1_def)
      then show thesis by (rule nothing)
    next
      case ok: (Inr answer)
      show thesis
      proof (cases answer)
        case (Inl a)
        then have "t = s \<and> r = Inr a" using assms bound False ok by (simp add: approveExecutionBlueprintV1_def)
        moreover have "\<forall>payload life. a \<noteq> Approved payload life"
          using ok Inl by (auto simp: approve_blueprint_def Let_def split: if_split_asm option.split_asm sum.split_asm)
        ultimately have "t = s" "\<forall>payload life. r \<noteq> Inr (Approved payload life)" by auto
        then show thesis by (rule nothing)
      next
        case (Inr pair2)
        obtain approved s1 where as: "pair2 = (approved, s1)" by (cases pair2)
        note ok2 = ok [unfolded Inr as]
        show thesis
        proof (cases "ensure_proof w s1 (api_now i) approved")
          case (Inl e)
          then have "t = s1" "r = Inl e" using assms bound False ok2 by (auto simp: approveExecutionBlueprintV1_def)
          then show thesis using bound ok2 by (metis stopped)
        next
          case made: (Inr pair3)
          obtain p s2 where ps: "pair3 = (p, s2)" by (cases pair3)
          have "(t, r) = finish_approval w s2 (api_now i) run approved p"
            using assms bound False ok2 made ps by (simp add: approveExecutionBlueprintV1_def)
          then show thesis by (rule finished [OF bound fresh ok2 made [unfolded ps]])
        qed
      qed
    qed
  qed
qed

section \<open>What every step keeps\<close>

text \<open>The rows after a finished approval differ in one event at most.\<close>

lemma finish_keeps:
  assumes "(t, r) = finish_approval w s now run approved p" and "sound_store (apw_hashing w) s"
  shows "sound_store (apw_hashing w) t \<and> sst_proofs t = sst_proofs s \<and> (\<exists>new. sst_events t pid = sst_events s pid @ new)
    \<and> sst_swap_run t = sst_swap_run s \<and> sst_candidates t = sst_candidates s \<and> sst_blueprints t = sst_blueprints s"
proof -
  let ?es = "appendProofEventIfNewV1 (apw_hashing w) (rpf_id p) (sst_events s (rpf_id p)) CallsApproved (approved_event_payload approved) now"
  have t: "t = s\<lparr>sst_events := (sst_events s)(rpf_id p := ?es)\<rparr>"
    using assms(1) by (simp add: finish_approval_def Let_def)
  have "\<exists>new. ?es = sst_events s (rpf_id p) @ new" using appended_extends by blast
  then show ?thesis
    using assms(2) unfolding t sound_store_def by (auto simp: appended_is_chained appended_told_once)
qed

lemma approval_keeps:
  assumes "custody_ok w s" and "approveExecutionBlueprintV1 (asking w answers pin) s i = (t, r)"
  shows "custody_ok w t \<and> knows_more ins pid s t"
  using assms(2)
proof (cases rule: approval_cases)
  case nothing
  then show ?thesis using assms(1) by (simp add: knows_more_refl)
next
  case (stopped run b approved e)
  then show ?thesis
    using approve_blueprint_keeps [OF stopped(1,2) assms(1)] by (auto simp: knows_more_def)
next
  case (finished run b approved s1 p s2)
  note a = approve_blueprint_keeps [OF finished(1,3) assms(1)]
  then have "sound_store (apw_hashing w) s1" by (simp add: custody_ok_def)
  note e = ensure_proof_keeps [OF finished(4), simplified, OF this]
  note f = finish_keeps [OF finished(5), simplified, OF conjunct1 [OF e]]
  obtain new where n: "sst_events t pid = sst_events s2 pid @ new" using f by blast
  have rows: "sst_swap_run t = sst_swap_run s1" "sst_candidates t = sst_candidates s1" "sst_blueprints t = sst_blueprints s1"
    "sst_proofs t = sst_proofs s2" "sst_events s2 = sst_events s" "sound_store (apw_hashing w) t"
    using a e f by metis+
  have "custody_ok w t" using a by (intro custody_ok_cong [OF _ rows(1-3,6)]) (rule conjunct1)
  moreover have "sst_proofs t pid = Some q \<and> sst_events t pid = sst_events s pid @ new" if "sst_proofs s pid = Some q" for q
    using that a e n unfolding rows by metis
  then have "knows_more ins pid s t" unfolding knows_more_def by force
  ultimately show ?thesis by blast
qed

lemma report_keeps_rows:
  assumes "submission_step h parse s i t"
  shows "sst_swap_run t = sst_swap_run s \<and> sst_candidates t = sst_candidates s \<and> sst_blueprints t = sst_blueprints s"
  using assms
proof (cases rule: submission_step_cases)
  case (recorded r)
  then show ?thesis by (rule record_parts) simp
qed simp

lemma custody_step_keeps:
  assumes "custody_ok w s" and "custody_step w s e t"
  shows "custody_ok w t"
proof (cases e)
  case (Approve answers pin i)
  then show ?thesis
    using assms(2) approval_keeps [OF assms(1)] by (auto elim!: custody_approveE) (metis prod.collapse)
next
  case (Report i)
  then have r: "submission_step (apw_hashing w) (kwd_parse (apw_kernel w)) s i t"
    using assms(2) by (auto elim: custody_reportE)
  then show ?thesis
    using report_keeps_rows [OF r] assms(1) step_keeps_sound [OF _ r]
    by (intro custody_ok_cong [OF assms(1)]) (simp_all add: custody_ok_def)
qed

interpretation custody: stepping "custody_step w" custody_fresh "custody_ok w" for w
  by unfold_locales (auto intro: fresh_ok custody_step_keeps)

text \<open>The reports of a run.\<close>

primrec report_of :: "custody_event \<Rightarrow> submission_input option" where
  "report_of (Approve answers pin i) = None"
| "report_of (Report i) = Some i"

definition reports :: "custody_event list \<Rightarrow> submission_input list" where
  "reports es = List.map_filter report_of es"

lemma reports_simps [simp]: "reports [] = []" "reports (Approve answers pin j # es) = reports es" "reports (Report i # es) = i # reports es"
  by (simp_all add: reports_def List.map_filter_simps)

lemma knows_more_join: "knows_more ins pid s t \<Longrightarrow> knows_more ins pid t u \<Longrightarrow> knows_more ins pid s u"
  unfolding knows_more_def reported_def by (fastforce simp: append_assoc)

lemma custody_knows_more:
  "runs (custody_step w) s es t \<Longrightarrow> custody_ok w s \<Longrightarrow> knows_more (reports es) pid s t"
proof (induction rule: runs.induct)
  case (none s)
  show ?case by (rule knows_more_refl)
next
  case (more s e t es u)
  have later: "knows_more (reports es) pid t u" using more custody_step_keeps by blast
  show ?case
  proof (cases e)
    case (Approve answers pin i)
    then have "t = fst (approveExecutionBlueprintV1 (asking w answers pin) s i)"
      using more.hyps(1) by (auto elim: custody_approveE)
    then have "knows_more (reports es) pid s t"
      using approval_keeps [OF more.prems, of answers pin i] by (metis prod.collapse)
    then show ?thesis using later Approve knows_more_join by simp
  next
    case (Report i)
    then have r: "submission_step (apw_hashing w) (kwd_parse (apw_kernel w)) s i t"
      using more.hyps(1) by (auto elim: custody_reportE)
    have "knows_more [i] pid s t"
      using step_knows_more [OF _ r] more.prems by (simp add: custody_ok_def)
    then show ?thesis using knows_more_trans [OF _ later] Report by simp
  qed
qed

text \<open>What is handed to the wallet was allowed by the kernel, call for call.\<close>

lemma handed_out_is_reviewed:
  assumes "custody_ok w s" and "approveExecutionBlueprintV1 (asking w answers pin) s i = (t, Inr (Approved payload life))"
  shows "\<exists>run b. sst_swap_run s = Some run \<and> reviewed w t run b \<and> ebp_id b = api_blueprint_id i
    \<and> to_lower (rnw_wallet_address run) = to_lower (api_wallet_address i) \<and> apl_from payload = rnw_wallet_address run
    \<and> mapR payload_call_of (ebp_calls b) = Inr (apl_calls payload) \<and> apl_atomic_required payload
    \<and> (\<forall>expiry. kwd_parse (apw_kernel w) (ebp_quote_expiry b) = Some expiry \<longrightarrow> api_now i < expiry)"
  using assms(2)
proof (cases rule: approval_cases)
  case (finished run b approved s1 p s2)
  note found = binding_found [OF finished(1)]
  note a = approve_blueprint_keeps [OF finished(1,3) assms(1)]
  then have "sound_store (apw_hashing w) s1" by (simp add: custody_ok_def)
  note e = ensure_proof_keeps [OF finished(4), simplified, OF this]
  note f = finish_keeps [OF finished(5), simplified, OF conjunct1 [OF e]]
  have "reviewed w s1 run approved" using a found(1) by (auto simp: custody_ok_def)
  then have "reviewed w t run approved" using e f reviewed_cong [of t s1] by simp
  moreover have "buildApprovedPayload approved (rnw_wallet_address run) = Inr payload"
    using finished(5) by (simp add: finish_approval_def Let_def split: sum.split_asm)
  then have "apl_from payload = rnw_wallet_address run" "mapR payload_call_of (ebp_calls approved) = Inr (apl_calls payload)"
    "apl_atomic_required payload"
    by (auto simp: buildApprovedPayload_def elim!: bindR_InrE)
  ultimately show ?thesis using a found finished(2) by (intro exI [of _ run] exI [of _ approved]) simp
qed auto

section \<open>Where the allowed rows come from\<close>

text \<open>
  Every row of a run is a stored row of its start, up to the marks of an approval; and one that is approved
  was allowed at an approval of the run, with the answers given there, for a stored candidate.
\<close>

definition same_batch :: "execution_blueprint \<Rightarrow> execution_blueprint \<Rightarrow> bool" where
  "same_batch b0 b \<longleftrightarrow> (\<exists>status hash now. b = b0\<lparr>ebp_status := status, ebp_approved_calls_hash := hash, ebp_updated_at := now\<rparr>)"

definition allowed_at :: "custody_event set \<Rightarrow> approval_world \<Rightarrow> submission_store \<Rightarrow> execution_blueprint \<Rightarrow> bool" where
  "allowed_at E w s b \<longleftrightarrow>
     (\<exists>run answers pin i candidate. sst_swap_run s = Some run \<and> Approve answers pin i \<in> E
        \<and> candidate \<in> set (sst_candidates s) \<and> rcd_candidate_hash candidate = ebp_selected_candidate_hash b
        \<and> to_lower (api_wallet_address i) = to_lower (rnw_wallet_address run)
        \<and> kernel_allows (apw_kernel w) (stored_kernel_input (asking w answers pin) i run candidate b))"

definition came_from :: "custody_event set \<Rightarrow> approval_world \<Rightarrow> submission_store \<Rightarrow> submission_store \<Rightarrow> bool" where
  "came_from E w s t \<longleftrightarrow> sst_swap_run t = sst_swap_run s \<and> sst_candidates t = sst_candidates s
     \<and> (\<forall>b \<in> set (sst_blueprints t). \<exists>b0 \<in> set (sst_blueprints s). same_batch b0 b
          \<and> (ebp_status b = BlueprintApproved \<longrightarrow> allowed_at E w s b0))"

lemma same_batch_refl: "same_batch b b"
  unfolding same_batch_def by (intro exI [of _ "ebp_status b"] exI [of _ "ebp_approved_calls_hash b"] exI [of _ "ebp_updated_at b"]) simp

lemma same_batch_approved: "same_batch b0 b \<Longrightarrow> same_batch b0 (as_approved w i b)"
  unfolding same_batch_def as_approved_def
  by (elim exE) (intro exI [of _ BlueprintApproved] exI [of _ "Some (apw_hash_calls w (ebp_calls b0))"] exI [of _ "api_now i"], simp)

lemma same_batch_reads:
  assumes "same_batch b0 b"
  shows "ebp_id b = ebp_id b0" "ebp_calls b = ebp_calls b0" "ebp_blueprint_hash b = ebp_blueprint_hash b0"
    "ebp_quote_expiry b = ebp_quote_expiry b0" "ebp_selected_candidate_hash b = ebp_selected_candidate_hash b0"
    "ebp_calls_hash b = ebp_calls_hash b0" "ebp_intent_hash b = ebp_intent_hash b0"
    "stored_kernel_input w i run candidate b = stored_kernel_input w i run candidate b0"
  using assms by (auto simp: same_batch_def stored_kernel_input_def Let_def)

lemma fresh_came_from: "custody_fresh s \<Longrightarrow> came_from E w s s"
  by (auto simp: came_from_def custody_fresh_def list_all_iff intro: same_batch_refl)

lemma came_from_cong:
  "came_from E w s t \<Longrightarrow> sst_swap_run u = sst_swap_run t \<Longrightarrow> sst_candidates u = sst_candidates t \<Longrightarrow> sst_blueprints u = sst_blueprints t
    \<Longrightarrow> came_from E w s u"
  by (simp add: came_from_def)

lemma approve_blueprint_came_from:
  assumes "approval_binding (asking w answers pin) t i = Inr (run, b)"
    and "approve_blueprint (asking w answers pin) t i run b = Inr (Inr (approved, t1))"
    and "came_from E w s t" and "Approve answers pin i \<in> E"
  shows "came_from E w s t1"
  using assms(2)
proof (cases rule: approve_blueprint_cases)
  case already
  then show ?thesis using assms(3) by simp
next
  case (now candidate)
  note found = binding_found [OF assms(1)]
  obtain b0 where b0: "b0 \<in> set (sst_blueprints s)" "same_batch b0 b" using assms(3) found(2) unfolding came_from_def by blast
  have candidate: "candidate \<in> set (sst_candidates s)" "rcd_candidate_hash candidate = ebp_selected_candidate_hash b0"
    using now(2) assms(3) same_batch_reads(5) [OF b0(2)] by (auto simp: find_candidate_def find_Some_iff came_from_def)
  have "kernel_allows (apw_kernel w) (stored_kernel_input (asking w answers pin) i run candidate b0)"
    using now(3) same_batch_reads(8) [OF b0(2)] by simp
  moreover have "sst_swap_run s = Some run" using found(1) assms(3) by (simp add: came_from_def)
  ultimately have "allowed_at E w s b0" unfolding allowed_at_def using assms(4) candidate found(4) by (metis (no_types, lifting))
  moreover have "same_batch b0 approved" unfolding now(4) by (rule same_batch_approved [OF b0(2)])
  ultimately have "\<exists>b0 \<in> set (sst_blueprints s). same_batch b0 approved \<and> allowed_at E w s b0" using b0(1) by blast
  then show ?thesis using assms(3) unfolding came_from_def by (auto simp: now(5))
qed

lemma approval_came_from:
  assumes "approveExecutionBlueprintV1 (asking w answers pin) t i = (u, r)" and "came_from E w s t" and "Approve answers pin i \<in> E"
    and "sound_store (apw_hashing w) t"
  shows "came_from E w s u"
  using assms(1)
proof (cases rule: approval_cases)
  case nothing
  then show ?thesis using assms(2) by simp
next
  case (stopped run b approved e)
  show ?thesis by (rule approve_blueprint_came_from [OF stopped(1,2) assms(2,3)])
next
  case (finished run b approved s1 p s2)
  have "sound_store (apw_hashing w) s1"
    using finished(3) assms(4) by (cases rule: approve_blueprint_cases) (simp_all add: sound_store_def)
  note e = ensure_proof_keeps [OF finished(4), simplified, OF this]
  note f = finish_keeps [OF finished(5), simplified, OF conjunct1 [OF e]]
  show ?thesis
    by (rule came_from_cong [OF approve_blueprint_came_from [OF finished(1,3) assms(2,3)]]) (use e f in simp_all)
qed

lemma custody_step_came_from:
  assumes "custody_step w t e u" and "came_from E w s t" and "e \<in> E" and "custody_ok w t"
  shows "came_from E w s u"
proof (cases e)
  case (Approve answers pin i)
  then have "approveExecutionBlueprintV1 (asking w answers pin) t i = (u, snd (approveExecutionBlueprintV1 (asking w answers pin) t i))"
    using assms(1) by (auto elim: custody_approveE)
  from approval_came_from [OF this assms(2)] show ?thesis using assms(3,4) Approve by (simp add: custody_ok_def)
next
  case (Report i)
  then have "submission_step (apw_hashing w) (kwd_parse (apw_kernel w)) t i u" using assms(1) by (auto elim: custody_reportE)
  from report_keeps_rows [OF this] show ?thesis by (intro came_from_cong [OF assms(2)]) simp_all
qed

lemma runs_came_from:
  "runs (custody_step w) t es u \<Longrightarrow> came_from E w s t \<Longrightarrow> set es \<subseteq> E \<Longrightarrow> custody_ok w t \<Longrightarrow> came_from E w s u"
proof (induction rule: runs.induct)
  case (none t)
  then show ?case by simp
next
  case (more t e v es u)
  then show ?case using custody_step_came_from custody_step_keeps by auto
qed

text \<open>What is handed out at the end of a run.\<close>

lemma handed_out_came_from:
  assumes "custody_ok w t" and "came_from E w s t" and "Approve answers pin i \<in> E"
    and "approveExecutionBlueprintV1 (asking w answers pin) t i = (u, Inr (Approved payload life))"
  shows "\<exists>run b. sst_swap_run s = Some run \<and> b \<in> set (sst_blueprints s) \<and> allowed_at E w s b
    \<and> ebp_id b = api_blueprint_id i \<and> ebp_blueprint_hash b = api_blueprint_hash i
    \<and> to_lower (rnw_wallet_address run) = to_lower (api_wallet_address i) \<and> apl_from payload = rnw_wallet_address run
    \<and> mapR payload_call_of (ebp_calls b) = Inr (apl_calls payload)
    \<and> (\<forall>expiry. kwd_parse (apw_kernel w) (ebp_quote_expiry b) = Some expiry \<longrightarrow> api_now i < expiry)"
  using assms(4)
proof (cases rule: approval_cases)
  case (finished run b approved s1 p s2)
  note found = binding_found [OF finished(1)]
  note a = approve_blueprint_keeps [OF finished(1,3) assms(1)]
  have s1: "came_from E w s s1" by (rule approve_blueprint_came_from [OF finished(1,3) assms(2,3)])
  have "approved \<in> set (sst_blueprints s1)" "ebp_status approved = BlueprintApproved" using a by simp_all
  then obtain b0 where b0: "b0 \<in> set (sst_blueprints s)" "same_batch b0 approved" "allowed_at E w s b0"
    using s1 unfolding came_from_def by blast
  note reads = same_batch_reads [OF b0(2)]
  have hash: "ebp_blueprint_hash approved = ebp_blueprint_hash b"
    using finished(3) by (cases rule: approve_blueprint_cases) (simp_all add: as_approved_def)
  have "buildApprovedPayload approved (rnw_wallet_address run) = Inr payload"
    using finished(5) by (simp add: finish_approval_def Let_def split: sum.split_asm)
  then have payload: "apl_from payload = rnw_wallet_address run" "mapR payload_call_of (ebp_calls approved) = Inr (apl_calls payload)"
    by (auto simp: buildApprovedPayload_def elim!: bindR_InrE)
  have facts: "ebp_id approved = ebp_id b" "ebp_quote_expiry approved = ebp_quote_expiry b" using a by simp_all
  have run: "sst_swap_run s = Some run" using found(1) assms(2) by (simp add: came_from_def)
  have "ebp_id b0 = api_blueprint_id i" "ebp_blueprint_hash b0 = api_blueprint_hash i"
    using reads(1,3) facts(1) hash found(3,8) by simp_all
  then show ?thesis
    using run b0(1,3) found(4) payload(1) payload(2) [unfolded reads(2)] finished(2) facts(2) reads(4) by (intro exI [of _ run] exI [of _ b0]) simp
qed auto

end
