(* ===== verification/Reconciler_Sound.thy ===== *)
theory Reconciler_Sound
  imports Reconciler Custody
begin

text \<open>
  What a pass of the reconciler keeps and what its verdicts rest on: a proof is completed only on
  receipts the chain answered with, and no verified receipt is overwritten.
\<close>

section \<open>Mirrors\<close>

text \<open>The lifecycle of the reconciler is the one of the composer, which it copies.\<close>

lemma lifecycle_mirrors: "deriveLifecycleAfterReconcileV1 p es = deriveBlueprintLifecycleV1 BlueprintApproved (Some p) es"
  by (simp add: deriveLifecycleAfterReconcileV1_def deriveBlueprintLifecycleV1_def pendingLifecycleV1_def submitted_lifecycle_def
      Let_def split: final_status.split)

lemma chain_from_iff:
  "verify_chain_from k previous es \<longleftrightarrow>
     (\<forall>n < length es. pev_event_index (es ! n) = k + n
        \<and> pev_previous_event_hash (es ! n) = (if n = 0 then previous else Some (pev_event_hash (es ! (n - 1)))))"
proof (induction es arbitrary: k previous)
  case Nil
  show ?case by simp
next
  case (Cons e es)
  have "(\<forall>n < length (e # es). P n) \<longleftrightarrow> P 0 \<and> (\<forall>n < length es. P (Suc n))" for P
    by (auto simp: less_Suc_eq_0_disj)
  then show ?case by (simp add: Cons.IH nth_Cons' cong: conj_cong)
qed

lemma chained_verifies: "chained h pid es \<Longrightarrow> verifyEventChainV1 es"
  by (simp add: verifyEventChainV1_def chain_from_iff chained_def)

section \<open>Receipts\<close>

lemma found_mem: "find P xs = Some x \<Longrightarrow> x \<in> set xs \<and> P x"
  by (induction xs) (auto split: if_split_asm)

lemma receipt_by_hash_mem: "receipt_by_hash rs h = Some r \<Longrightarrow> r \<in> set rs \<and> rct_transaction_hash r = h"
  by (auto simp: receipt_by_hash_def dest: found_mem)

text \<open>What a verification says of its hash.\<close>

definition verified_ok :: "receipt_reader \<Rightarrow> receipt list \<Rightarrow> verification \<Rightarrow> bool" where
  "verified_ok reader existing v \<longleftrightarrow>
     rct_transaction_hash (vrf_receipt v) = vrf_transaction_hash v
     \<and> (rct_status (vrf_receipt v) = ReceiptSuccess \<longrightarrow> (\<exists>source. reader (vrf_transaction_hash v) = Inr (Some source)
          \<and> vrf_source v = Some source \<and> rsc_succeeded source \<and> to_lower (rsc_transaction_hash source) = to_lower (vrf_transaction_hash v)))
     \<and> (vrf_conflict v \<noteq> None \<longrightarrow> (\<exists>e. receipt_by_hash existing (vrf_transaction_hash v) = Some e
          \<and> rct_status e \<noteq> ReceiptUnknown \<and> rct_status e \<noteq> rct_status (vrf_receipt v)))
     \<and> (vrf_conflict v = None \<longrightarrow> rct_status (vrf_receipt v) = ReceiptUnknown \<or>
          (\<forall>e. receipt_by_hash existing (vrf_transaction_hash v) = Some e
             \<longrightarrow> rct_status e = ReceiptUnknown \<or> rct_status e = rct_status (vrf_receipt v)))"

lemma verify_receipt_ok:
  "verify_receipt reader existing h = Inr v \<Longrightarrow> verified_ok reader existing v \<and> vrf_transaction_hash v = h"
  by (auto simp: verify_receipt_def verified_ok_def source_status_def elim!: bindR_InrE
      split: option.split_asm if_split_asm)

lemma mapR_all: "mapR f xs = Inr ys \<Longrightarrow> list_all2 (\<lambda>x y. f x = Inr y) xs ys"
  by (induction xs arbitrary: ys) (auto elim!: bindR_InrE)

lemma verified_all:
  assumes "verifyTransactionReceiptsV1 reader existing hashes = Inr vs"
  shows "map vrf_transaction_hash vs = hashes" and "v \<in> set vs \<Longrightarrow> verified_ok reader existing v"
proof -
  have a: "list_all2 (\<lambda>h v. verified_ok reader existing v \<and> vrf_transaction_hash v = h) hashes vs"
    using mapR_all [OF assms [unfolded verifyTransactionReceiptsV1_def]] verify_receipt_ok by (auto elim: list_all2_mono)
  then show "map vrf_transaction_hash vs = hashes" by (induction rule: list_all2_induct) auto
  show "v \<in> set vs \<Longrightarrow> verified_ok reader existing v" using a by (auto simp: list_all2_conv_all_nth in_set_conv_nth)
qed

lemma merged_hash: "verified_ok reader existing v \<Longrightarrow> rct_transaction_hash (merged_receipt existing v) = vrf_transaction_hash v"
  by (auto simp: merged_receipt_def verified_ok_def dest: receipt_by_hash_mem split: option.split)

lemma merge_verified_hashes:
  assumes "\<forall>v \<in> set vs. verified_ok reader existing v"
  shows "map rct_transaction_hash (merge_verified existing vs) = map vrf_transaction_hash vs"
  using assms by (simp add: merge_verified_def) (blast intro: merged_hash)

text \<open>A receipt with a verdict is never replaced by one with the other verdict.\<close>

lemma merged_keeps_verdicts:
  assumes "verified_ok reader existing v" and "receipt_by_hash existing (vrf_transaction_hash v) = Some e"
    and "rct_status e \<noteq> ReceiptUnknown"
  shows "rct_status (merged_receipt existing v) \<in> {rct_status e, ReceiptUnknown}"
  using assms by (cases "vrf_conflict v = None") (auto simp: merged_receipt_def verified_ok_def)

section \<open>Verdicts\<close>

lemma settle_completed:
  assumes "settle c wallet p vs = Inr st" and "stl_final_status st = FinalCompleted" and "rpf_final_status p \<noteq> FinalCompleted"
  shows "(\<forall>v \<in> set vs. vrf_conflict v = None \<and> rct_status (vrf_receipt v) = ReceiptSuccess) \<and> vs \<noteq> []
    \<and> (\<exists>measured. stl_actual_result st = Some measured
         \<and> reconstructAssetChangesV1 c wallet (exr_asset_changes (rpf_expected_result p))
             (concat (map (\<lambda>v. case vrf_source v of Some s \<Rightarrow> rsc_logs s | None \<Rightarrow> []) vs))
             (map exc_to (rpf_approved_calls p)) (giftOfApprovedCallsV1 (rpf_approved_calls p)) = Reconstructed measured
         \<and> missing_movement (exr_asset_changes (rpf_expected_result p)) (exr_asset_changes measured) = Inr False)"
proof -
  let ?ok = "\<lambda>v. rct_status (vrf_receipt v) = ReceiptSuccess"
  have quiet: "\<not> list_ex (\<lambda>v. vrf_conflict v \<noteq> None) vs"
    and some: "filter ?ok vs \<noteq> []"
    using assms by (auto simp: settle_def unmeasured_def Let_def split: if_split_asm)
  obtain measured where m: "reconstructAssetChangesV1 c wallet (exr_asset_changes (rpf_expected_result p))
             (concat (map (\<lambda>v. case vrf_source v of Some s \<Rightarrow> rsc_logs s | None \<Rightarrow> []) (filter ?ok vs)))
             (map exc_to (rpf_approved_calls p)) (giftOfApprovedCallsV1 (rpf_approved_calls p)) = Reconstructed measured"
      and ends: "settle_measured p (length (filter ?ok vs) = length vs) measured = Inr st"
    using assms by (auto simp: settle_def unmeasured_def Let_def split: if_split_asm asset_reconstruction.split_asm)
  have facts: "length (filter ?ok vs) = length vs" "stl_actual_result st = Some measured"
      "missing_movement (exr_asset_changes (rpf_expected_result p)) (exr_asset_changes measured) = Inr False"
    using ends assms(2) by (auto simp: settle_measured_def Let_def elim!: bindR_InrE split: if_split_asm)
  then have all: "filter ?ok vs = vs" by (metis filter_True length_filter_less less_irrefl)
  have "vrf_conflict v = None" if "v \<in> set vs" for v using quiet that unfolding list_ex_iff by blast
  moreover have "\<forall>v \<in> set vs. ?ok v" using all by (simp add: filter_id_conv)
  ultimately show ?thesis using some m facts all by auto
qed

lemma moved_iff:
  "moved e as = Inr True \<Longrightarrow> \<exists>a \<in> set as. ach_direction a = ach_direction e
     \<and> asr_asset_id (ach_asset a) = asr_asset_id (ach_asset e) \<and> (\<exists>v > 0. js_bigint (ach_amount_atomic a) = Some v)"
  by (induction as) (auto simp: positive_amount_def js_BigInt_def elim!: bindR_InrE split: if_split_asm option.split_asm)

lemma nothing_missing:
  "missing_movement es as = Inr False \<Longrightarrow> e \<in> set es \<Longrightarrow> js_bigint (ach_amount_atomic e) = Some v \<Longrightarrow> 0 < v
   \<Longrightarrow> moved e as = Inr True"
  by (induction es) (auto simp: positive_amount_def js_BigInt_def elim!: bindR_InrE split: if_split_asm option.split_asm)

lemma completed_moved_everything:
  assumes "missing_movement es as = Inr False" and "e \<in> set es" and "js_bigint (ach_amount_atomic e) = Some v" and "0 < v"
  shows "\<exists>a \<in> set as. ach_direction a = ach_direction e \<and> asr_asset_id (ach_asset a) = asr_asset_id (ach_asset e)
    \<and> (\<exists>m > 0. js_bigint (ach_amount_atomic a) = Some m)"
  by (rule moved_iff [OF nothing_missing [OF assms]])

section \<open>A pass\<close>

lemma reconcile_binding_found:
  assumes "reconcile_binding h s i = Inr (p, b)"
  shows "sst_proofs s (rci_proof_id i) = Some p" "b \<in> set (sst_blueprints s)" "hsh_proof_id h (ebp_id b) = rpf_id p"
    "ebp_status b = BlueprintApproved" "ebp_approved_calls_hash b = rpf_approved_calls_hash p"
    "distinct (rpf_transaction_hashes p)"
  using assms by (auto simp: reconcile_binding_def dest!: found_mem split: option.split_asm if_split_asm)

text \<open>The rows after a pass: unchanged, or the proof and its events replaced.\<close>

lemma reconcile_cases:
  assumes "reconcile c h reader s i = (t, r)"
  obtains (kept) "t = s" "\<forall>result final. r = Inr result \<longrightarrow> rcr_outcome result \<noteq> OutcomeFinal final"
  | (passed) p b vs st where "reconcile_binding h s i = Inr (p, b)" "\<not> finalized_already p (sst_events s (rpf_id p))"
      "rpf_transaction_hashes p \<noteq> []"
      "verifyTransactionReceiptsV1 reader (rpf_receipts p) (rpf_transaction_hashes p) = Inr vs"
      "settle c (rci_wallet_address i) p vs = Inr st"
      "RouteProofV1Schema (reconciled_proof p (rci_wallet_address i) (rci_now i) vs st)"
      "t = s\<lparr>sst_proofs := (sst_proofs s)(rpf_id p := Some (reconciled_proof p (rci_wallet_address i) (rci_now i) vs st)),
         sst_events := (sst_events s)(rpf_id p := reconcile_events h (rci_now i) p st vs (sst_events s (rpf_id p)))\<rparr>"
      "r = answer_reconcile (reconciled_proof p (rci_wallet_address i) (rci_now i) vs st) b
         (reconcile_events h (rci_now i) p st vs (sst_events s (rpf_id p))) (if still_pending vs then OutcomePending else OutcomeFinal (stl_final_status st))"
proof (cases "reconcile_binding h s i")
  case (Inl e)
  then have "t = s" "\<forall>result final. r = Inr result \<longrightarrow> rcr_outcome result \<noteq> OutcomeFinal final"
    using assms by (auto simp: reconcile_def)
  then show thesis by (rule kept)
next
  case (Inr pair)
  obtain p b where pb: "pair = (p, b)" by (cases pair)
  note bound = Inr [unfolded pb]
  let ?es = "sst_events s (rpf_id p)"
  show thesis
  proof (cases "finalized_already p ?es \<or> rpf_transaction_hashes p = []")
    case True
    then have "t = s" "\<forall>result final. r = Inr result \<longrightarrow> rcr_outcome result \<noteq> OutcomeFinal final"
      using assms bound by (auto simp: reconcile_def answer_reconcile_def Let_def split: if_split_asm sum.split_asm)
    then show thesis by (rule kept)
  next
    case False
    then have pass: "settle_pass c h reader s i p b = (t, r)" using assms bound by (simp add: reconcile_def Let_def)
    let ?read = "bindR (verifyTransactionReceiptsV1 reader (rpf_receipts p) (rpf_transaction_hashes p)) (\<lambda>vs.
             bindR (settle c (rci_wallet_address i) p vs) (\<lambda>st. Inr (vs, st)))"
    show thesis
    proof (cases ?read)
      case (Inl e)
      then have "t = s" "\<forall>result final. r = Inr result \<longrightarrow> rcr_outcome result \<noteq> OutcomeFinal final"
        using pass by (auto simp: settle_pass_def)
      then show thesis by (rule kept)
    next
      case read: (Inr vst)
      obtain vs st where vst: "vst = (vs, st)" by (cases vst)
      have parts: "verifyTransactionReceiptsV1 reader (rpf_receipts p) (rpf_transaction_hashes p) = Inr vs"
          "settle c (rci_wallet_address i) p vs = Inr st"
        using read unfolding vst by (auto elim!: bindR_InrE)
      let ?q = "reconciled_proof p (rci_wallet_address i) (rci_now i) vs st"
      show thesis
      proof (cases "RouteProofV1Schema ?q")
        case False
        then have "t = s" "\<forall>result final. r = Inr result \<longrightarrow> rcr_outcome result \<noteq> OutcomeFinal final"
          using pass read by (auto simp: settle_pass_def vst Let_def)
        then show thesis by (rule kept)
      next
        case True
        then have "t = s\<lparr>sst_proofs := (sst_proofs s)(rpf_id p := Some ?q),
            sst_events := (sst_events s)(rpf_id p := reconcile_events h (rci_now i) p st vs ?es)\<rparr>"
          "r = answer_reconcile ?q b (reconcile_events h (rci_now i) p st vs ?es)
             (if still_pending vs then OutcomePending else OutcomeFinal (stl_final_status st))"
          using pass read by (simp_all add: settle_pass_def vst Let_def)
        with bound False parts True show thesis by (intro passed) auto
      qed
    qed
  qed
qed

section \<open>What a pass keeps\<close>

lemma full_filter: "length (filter P xs) = length xs \<longleftrightarrow> (\<forall>x \<in> set xs. P x)"
proof (induction xs)
  case (Cons x xs)
  have "length (filter P xs) \<noteq> Suc (length xs)" using length_filter_le [of P xs] by linarith
  with Cons show ?case by auto
qed simp

lemma settle_final:
  assumes "settle c wallet p vs = Inr st"
  shows "stl_final_status st = rpf_final_status p
    \<or> stl_final_status st \<in> {FinalReconciliationRequired, FinalFailed}
    \<or> (stl_actual_result st \<noteq> None \<and> (\<forall>v \<in> set vs. vrf_conflict v = None)
        \<and> (\<exists>v \<in> set vs. rct_status (vrf_receipt v) = ReceiptSuccess)
        \<and> (if stl_final_status st = FinalCompleted then \<forall>v \<in> set vs. rct_status (vrf_receipt v) = ReceiptSuccess
           else stl_final_status st = FinalPartialFailure \<and> (\<exists>v \<in> set vs. rct_status (vrf_receipt v) \<noteq> ReceiptSuccess)))"
proof -
  let ?ok = "\<lambda>v. rct_status (vrf_receipt v) = ReceiptSuccess"
  have one: "filter ?ok vs \<noteq> [] \<longleftrightarrow> (\<exists>v \<in> set vs. ?ok v)" by (simp add: filter_empty_conv)
  have all: "length (filter ?ok vs) = length vs \<longleftrightarrow> (\<forall>v \<in> set vs. ?ok v)"
    by (rule full_filter)
  have quiet: "\<not> list_ex (\<lambda>v. vrf_conflict v \<noteq> None) vs \<longleftrightarrow> (\<forall>v \<in> set vs. vrf_conflict v = None)"
    by (simp only: list_ex_iff bex_simps not_not)
  have measured: "stl_actual_result st \<noteq> None \<and> stl_final_status st = (if b \<and> m then FinalReconciliationRequired
      else if b then FinalCompleted else FinalPartialFailure)"
    if "settle_measured p b r = Inr st" "missing_movement (exr_asset_changes (rpf_expected_result p)) (exr_asset_changes r) = Inr m" for b r m
    using that by (auto simp: settle_measured_def Let_def elim!: bindR_InrE split: if_split_asm)
  have runs: "\<exists>m. missing_movement (exr_asset_changes (rpf_expected_result p)) (exr_asset_changes r) = Inr m"
    if "settle_measured p b r = Inr st" for b r
    using that by (auto simp: settle_measured_def Let_def elim!: bindR_InrE)
  consider "stl_final_status st = rpf_final_status p" | "stl_final_status st \<in> {FinalReconciliationRequired, FinalFailed}"
    | r where "\<forall>v \<in> set vs. vrf_conflict v = None" "filter ?ok vs \<noteq> []" "settle_measured p (length (filter ?ok vs) = length vs) r = Inr st"
    using assms quiet
    by (auto simp: settle_def unmeasured_def Let_def split: if_split_asm asset_reconstruction.split_asm)
  then show ?thesis
  proof cases
    case (3 r)
    obtain m where "missing_movement (exr_asset_changes (rpf_expected_result p)) (exr_asset_changes r) = Inr m" using runs 3 by blast
    note measured [OF 3(3) this]
    then show ?thesis using 3(1,2) one all by auto
  qed simp_all
qed

lemma not_finalized: "\<not> finalized_already p es \<Longrightarrow> rpf_final_status p \<in> {FinalPending, FinalReconciliationRequired}"
  by (cases "rpf_final_status p") (simp_all add: finalized_already_def ROUTE_PROOF_TERMINAL_FINAL_STATUSES_def)

lemma reconciled_fields [simp]:
  "rpf_id (reconciled_proof p w n vs st) = rpf_id p" "rpf_created_at (reconciled_proof p w n vs st) = rpf_created_at p"
  "rpf_updated_at (reconciled_proof p w n vs st) = n" "rpf_final_status (reconciled_proof p w n vs st) = stl_final_status st"
  "rpf_status (reconciled_proof p w n vs st) = stl_final_status st" "rpf_actual_result (reconciled_proof p w n vs st) = stl_actual_result st"
  "rpf_transaction_hashes (reconciled_proof p w n vs st) = rpf_transaction_hashes p"
  "rpf_receipts (reconciled_proof p w n vs st) = merge_verified (rpf_receipts p) vs"
  "rpf_reconciliation_state (reconciled_proof p w n vs st) = stl_state st" "rpf_deviation (reconciled_proof p w n vs st) = stl_deviation st"
  "rpf_approved_calls (reconciled_proof p w n vs st) = rpf_approved_calls p"
  "rpf_expected_result (reconciled_proof p w n vs st) = rpf_expected_result p"
  "rpf_blueprint_hash (reconciled_proof p w n vs st) = rpf_blueprint_hash p"
  "rpf_approved_calls_hash (reconciled_proof p w n vs st) = rpf_approved_calls_hash p"
  by (simp_all add: reconciled_proof_def Let_def)

text \<open>The write of a pass is never refused by the schema, as long as the clock is not behind the proof.\<close>

lemma reconciled_schema:
  assumes "RouteProofV1Schema p" and "distinct (rpf_transaction_hashes p)" and "rpf_transaction_hashes p \<noteq> []"
    and "\<not> finalized_already p es" and "verifyTransactionReceiptsV1 reader (rpf_receipts p) (rpf_transaction_hashes p) = Inr vs"
    and "settle c wallet p vs = Inr st" and "rpf_created_at p \<le> now"
  shows "RouteProofV1Schema (reconciled_proof p wallet now vs st)"
proof -
  note v = verified_all [OF assms(5)]
  have hashes: "map rct_transaction_hash (merge_verified (rpf_receipts p) vs) = rpf_transaction_hashes p"
    using merge_verified_hashes [of vs reader "rpf_receipts p"] v by simp
  have vs: "vs \<noteq> []" using v(1) assms(3) by auto
  have own: "merge_verified (rpf_receipts p) vs = map vrf_receipt vs" if "\<forall>v \<in> set vs. vrf_conflict v = None"
    using that by (simp add: merge_verified_def merged_receipt_def)
  have old: "list_all HashV1Schema (rpf_transaction_hashes p)" using assms(1) by (simp add: RouteProofV1Schema_def Let_def)
  have "\<exists>v \<in> set vs. rct_status (vrf_receipt v) = ReceiptSuccess" if "stl_final_status st \<in> {FinalCompleted, FinalPartialFailure}"
    and "stl_final_status st \<noteq> rpf_final_status p"
    using settle_final [OF assms(6)] that by auto
  then show ?thesis
    using settle_final [OF assms(6)] not_finalized [OF assms(4)] assms(2,3,7) old own vs hashes
    by (simp add: RouteProofV1Schema_def Let_def list_all_iff list_ex_iff merge_verified_def)
       (cases "stl_final_status st"; auto)
qed

lemma reconcile_events_keep:
  assumes "chained h (rpf_id p) es" and "told_once es"
  shows "chained h (rpf_id p) (reconcile_events h now p st vs es) \<and> told_once (reconcile_events h now p st vs es)"
  using assms by (simp add: reconcile_events_def Let_def appended_is_chained appended_told_once)

lemma reconcile_keeps_sound:
  assumes "sound_store h s" and "reconcile c h reader s i = (t, r)"
  shows "sound_store h t"
  using assms(2)
proof (cases rule: reconcile_cases)
  case kept
  then show ?thesis using assms(1) by simp
next
  case (passed p b vs st)
  have "sst_proofs s (rci_proof_id i) = Some p" by (rule reconcile_binding_found [OF passed(1)])
  then have "chained h (rpf_id p) (sst_events s (rpf_id p))" "told_once (sst_events s (rpf_id p))"
    using assms(1) by (auto simp: sound_store_def)
  note events = reconcile_events_keep [OF this, of "rci_now i" st vs]
  show ?thesis using assms(1) passed(6) events unfolding passed(7) sound_store_def by auto
qed

end
