(* ===== verification/Settlement.thy ===== *)
theory Settlement
  imports Reconciler_Sound
begin

text \<open>
  A route run to its end: approvals, reports and passes of the reconciler on the same rows, in any
  order, the reader of receipts answering anything at every pass.
\<close>

section \<open>The steps\<close>

datatype settlement_event = Handled custody_event | Settle receipt_reader reconcile_input

inductive settlement_step ::
  "log_codec \<Rightarrow> approval_world \<Rightarrow> submission_store \<Rightarrow> settlement_event \<Rightarrow> submission_store \<Rightarrow> bool" for c w where
  handled: "custody_step w s e t \<Longrightarrow> settlement_step c w s (Handled e) t"
| settled: "settlement_step c w s (Settle reader i) (fst (reconcile c (apw_hashing w) reader s i))"

inductive_cases settlement_handledE: "settlement_step c w s (Handled e) t"
inductive_cases settlement_settledE: "settlement_step c w s (Settle reader i) t"

lemma reconcile_keeps_custody:
  assumes "custody_ok w s" and "reconcile c (apw_hashing w) reader s i = (t, r)"
  shows "custody_ok w t"
proof -
  have "sound_store (apw_hashing w) t"
    using assms(1) reconcile_keeps_sound [OF _ assms(2)] by (simp add: custody_ok_def)
  moreover have "sst_swap_run t = sst_swap_run s \<and> sst_candidates t = sst_candidates s \<and> sst_blueprints t = sst_blueprints s"
    using assms(2) by (cases rule: reconcile_cases) simp_all
  ultimately show ?thesis by (intro custody_ok_cong [OF assms(1)]) simp_all
qed

lemma settlement_step_keeps:
  assumes "custody_ok w s" and "settlement_step c w s e t"
  shows "custody_ok w t"
proof (cases e)
  case (Handled e')
  then show ?thesis using assms custody_step_keeps by (auto elim: settlement_handledE)
next
  case (Settle reader i)
  then have "t = fst (reconcile c (apw_hashing w) reader s i)" using assms(2) by (auto elim: settlement_settledE)
  then show ?thesis using reconcile_keeps_custody [OF assms(1), of c reader i] by (metis prod.collapse)
qed

interpretation settlement: stepping "settlement_step c w" custody_fresh "custody_ok w" for c w
  by unfold_locales (auto intro: fresh_ok settlement_step_keeps)

section \<open>Completed by the chain\<close>

text \<open>
  What a completed proof rests on: a reader that answered for every transaction with a receipt of
  success for that very transaction, the movement measured in the logs of those receipts, and none of
  the expected movements missing in it.
\<close>

definition chain_completed :: "log_codec \<Rightarrow> receipt_reader \<Rightarrow> string \<Rightarrow> route_proof \<Rightarrow> bool" where
  "chain_completed c reader wallet p \<longleftrightarrow> rpf_transaction_hashes p \<noteq> []
     \<and> (\<exists>sources measured. map reader (rpf_transaction_hashes p) = map (\<lambda>x. Inr (Some x)) sources
        \<and> list_all2 (\<lambda>h x. rsc_succeeded x \<and> to_lower (rsc_transaction_hash x) = to_lower h) (rpf_transaction_hashes p) sources
        \<and> reconstructAssetChangesV1 c wallet (exr_asset_changes (rpf_expected_result p)) (concat (map rsc_logs sources))
            (map exc_to (rpf_approved_calls p)) (giftOfApprovedCallsV1 (rpf_approved_calls p)) = Reconstructed measured
        \<and> rpf_actual_result p = Some measured
        \<and> missing_movement (exr_asset_changes (rpf_expected_result p)) (exr_asset_changes measured) = Inr False)"

text \<open>The wallet the reconciler was asked for, in whatever letter case.\<close>

definition all_chain_completed :: "log_codec \<Rightarrow> (receipt_reader \<times> string) set \<Rightarrow> submission_store \<Rightarrow> bool" where
  "all_chain_completed c asked s \<longleftrightarrow>
     (\<forall>pid p. sst_proofs s pid = Some p \<longrightarrow> rpf_final_status p = FinalCompleted
        \<longrightarrow> (\<exists>(reader, wallet) \<in> asked. chain_completed c reader wallet p
              \<and> map_option (to_lower \<circ> rnw_wallet_address) (sst_swap_run s) = Some (to_lower wallet)))"

lemma verified_sources:
  assumes "list_all (\<lambda>v. verified_ok reader existing v \<and> rct_status (vrf_receipt v) = ReceiptSuccess) vs"
  shows "\<exists>sources. map reader (map vrf_transaction_hash vs) = map (\<lambda>x. Inr (Some x)) sources
    \<and> list_all2 (\<lambda>h x. rsc_succeeded x \<and> to_lower (rsc_transaction_hash x) = to_lower h) (map vrf_transaction_hash vs) sources
    \<and> map (\<lambda>v. case vrf_source v of Some s \<Rightarrow> rsc_logs s | None \<Rightarrow> []) vs = map rsc_logs sources"
  using assms
proof (induction vs)
  case Nil
  show ?case by simp
next
  case (Cons v vs)
  obtain x where x: "reader (vrf_transaction_hash v) = Inr (Some x)" "vrf_source v = Some x" "rsc_succeeded x"
      "to_lower (rsc_transaction_hash x) = to_lower (vrf_transaction_hash v)"
    using Cons.prems by (auto simp: verified_ok_def)
  obtain xs where "map reader (map vrf_transaction_hash vs) = map (\<lambda>x. Inr (Some x)) xs
    \<and> list_all2 (\<lambda>h x. rsc_succeeded x \<and> to_lower (rsc_transaction_hash x) = to_lower h) (map vrf_transaction_hash vs) xs
    \<and> map (\<lambda>v. case vrf_source v of Some s \<Rightarrow> rsc_logs s | None \<Rightarrow> []) vs = map rsc_logs xs"
    using Cons by auto
  with x show ?case by (intro exI [of _ "x # xs"]) simp
qed

lemma pass_completes_by_chain:
  assumes "reconcile_binding h s i = Inr (p, b)" and "\<not> finalized_already p (sst_events s (rpf_id p))"
    and "rpf_transaction_hashes p \<noteq> []" and "verifyTransactionReceiptsV1 reader (rpf_receipts p) (rpf_transaction_hashes p) = Inr vs"
    and "settle c wallet p vs = Inr st" and "stl_final_status st = FinalCompleted"
  shows "chain_completed c reader wallet (reconciled_proof p wallet n vs st)"
proof -
  have "rpf_final_status p \<noteq> FinalCompleted" using not_finalized [OF assms(2)] by auto
  note s = settle_completed [OF assms(5,6) this]
  note v = verified_all [OF assms(4)]
  have "list_all (\<lambda>v. verified_ok reader (rpf_receipts p) v \<and> rct_status (vrf_receipt v) = ReceiptSuccess) vs"
    using s v(2) by (simp add: list_all_iff)
  from verified_sources [OF this] obtain sources where x:
      "map reader (rpf_transaction_hashes p) = map (\<lambda>x. Inr (Some x)) sources"
      "list_all2 (\<lambda>h x. rsc_succeeded x \<and> to_lower (rsc_transaction_hash x) = to_lower h) (rpf_transaction_hashes p) sources"
      "map (\<lambda>v. case vrf_source v of Some s \<Rightarrow> rsc_logs s | None \<Rightarrow> []) vs = map rsc_logs sources"
    unfolding v(1) by blast
  show ?thesis using s x assms(3) unfolding chain_completed_def by (auto simp: x(3))
qed

text \<open>An approval leaves every proof as it is, or creates a pending one; a report leaves it, or settles it without completing it.\<close>

lemma approval_proofs:
  assumes "approveExecutionBlueprintV1 w s i = (t, r)" and "sst_proofs t pid = Some p"
  shows "sst_proofs s pid = Some p \<or> rpf_final_status p = FinalPending"
  using assms(1)
proof (cases rule: approval_cases)
  case nothing
  then show ?thesis using assms(2) by simp
next
  case (stopped run b approved e)
  from stopped(2) show ?thesis using assms(2) by (cases rule: approve_blueprint_cases) simp_all
next
  case (finished run b approved s1 q s2)
  have "sst_proofs s1 = sst_proofs s" using finished(3) by (cases rule: approve_blueprint_cases) simp_all
  moreover have "sst_proofs t = sst_proofs s2" using finished(5) by (simp add: finish_approval_def Let_def)
  moreover from finished(4) have "sst_proofs s2 pid = Some p \<Longrightarrow> sst_proofs s1 pid = Some p \<or> rpf_final_status p = FinalPending"
    by (cases rule: ensure_proof_cases) (auto simp: pending_proof_def split: if_split_asm)
  ultimately show ?thesis using assms(2) by simp
qed

lemma report_proofs:
  assumes "submission_step h parse s i t" and "sst_proofs t pid = Some p"
  shows "sst_proofs s pid = Some p \<or> rpf_final_status p \<noteq> FinalCompleted"
  using assms(1)
proof (cases rule: submission_step_cases)
  case (recorded r)
  then show ?thesis
  proof (rule record_parts)
    fix b :: execution_blueprint and q
    assume "t = s\<lparr>sst_proofs := (sst_proofs s)(rpf_id q := Some (recorded_proof i q)),
           sst_events := (sst_events s)(rpf_id q := recorded_events h i (rpf_id q) (sst_events s (hsh_proof_id h (ebp_id b))))\<rparr>"
    then show ?thesis using assms(2)
      by (auto simp: recorded_proof_def FINAL_STATUS_BY_SUBMISSION_def split: if_split_asm submission_status.split_asm)
  qed
next
  case (refused e)
  then show ?thesis using assms(2) by simp
qed

text \<open>The readers a run has asked.\<close>

primrec asked_by :: "settlement_event \<Rightarrow> (receipt_reader \<times> string) option" where
  "asked_by (Handled e) = None"
| "asked_by (Settle reader i) = Some (reader, rci_wallet_address i)"

definition asked_in :: "settlement_event list \<Rightarrow> (receipt_reader \<times> string) set" where
  "asked_in es = {x. \<exists>e \<in> set es. asked_by e = Some x}"

lemma approval_keeps_run:
  assumes "approveExecutionBlueprintV1 w s i = (t, r)"
  shows "sst_swap_run t = sst_swap_run s"
  using assms
proof (cases rule: approval_cases)
  case nothing
  then show ?thesis by simp
next
  case (stopped run b approved e)
  from stopped(2) show ?thesis by (cases rule: approve_blueprint_cases) simp_all
next
  case (finished run b approved s1 p s2)
  have "sst_swap_run s1 = sst_swap_run s" using finished(3) by (cases rule: approve_blueprint_cases) simp_all
  moreover have "sst_swap_run s2 = sst_swap_run s1" using finished(4) by (cases rule: ensure_proof_cases) simp_all
  ultimately show ?thesis using finished(5) by (simp add: finish_approval_def Let_def)
qed

lemma custody_keeps_run: "custody_step w s e t \<Longrightarrow> sst_swap_run t = sst_swap_run s"
proof (cases e)
  case (Approve answers pin i)
  assume "custody_step w s e t"
  then have "t = fst (approveExecutionBlueprintV1 (asking w answers pin) s i)" unfolding Approve by (auto elim: custody_approveE)
  then show ?thesis using approval_keeps_run [of "asking w answers pin" s i] by (metis prod.collapse)
next
  case (Report i)
  assume "custody_step w s e t"
  then show ?thesis unfolding Report using report_keeps_rows by (auto elim!: custody_reportE)
qed

lemma step_chain_completed:
  assumes "all_chain_completed c asked s" and "settlement_step c w s e t"
  shows "all_chain_completed c (asked \<union> asked_in [e]) t"
proof (cases e)
  case (Handled e')
  then have step: "custody_step w s e' t" using assms(2) by (auto elim: settlement_handledE)
  have "sst_proofs s pid = Some p \<or> rpf_final_status p \<noteq> FinalCompleted" if "sst_proofs t pid = Some p" for pid p
  proof (cases e')
    case (Approve answers pin i)
    then have "t = fst (approveExecutionBlueprintV1 (asking w answers pin) s i)" using step by (auto elim: custody_approveE)
    then show ?thesis using approval_proofs [of "asking w answers pin" s i t] that by (metis final_status.distinct(1) prod.collapse)
  next
    case (Report i)
    then have "submission_step (apw_hashing w) (kwd_parse (apw_kernel w)) s i t" using step by (auto elim: custody_reportE)
    then show ?thesis using that by (rule report_proofs)
  qed
  then show ?thesis using assms(1) custody_keeps_run [OF step] unfolding all_chain_completed_def by fastforce
next
  case (Settle reader i)
  then have t: "reconcile c (apw_hashing w) reader s i = (t, snd (reconcile c (apw_hashing w) reader s i))"
    using assms(2) by (auto elim: settlement_settledE)
  then show ?thesis
  proof (cases rule: reconcile_cases)
    case kept
    then show ?thesis using assms(1) unfolding all_chain_completed_def by blast
  next
    case (passed p b vs st)
    let ?q = "reconciled_proof p (rci_wallet_address i) (rci_now i) vs st"
    have new: "chain_completed c reader (rci_wallet_address i) ?q" if "rpf_final_status ?q = FinalCompleted"
      using pass_completes_by_chain [OF passed(1-5)] that by simp
    have asked: "(reader, rci_wallet_address i) \<in> asked \<union> asked_in [e]" by (simp add: asked_in_def Settle)
    have rows: "sst_proofs t = (sst_proofs s)(rpf_id p := Some ?q)" "sst_swap_run t = sst_swap_run s" by (simp_all add: passed(7))
    have wallet: "map_option (to_lower \<circ> rnw_wallet_address) (sst_swap_run s) = Some (to_lower (rci_wallet_address i))"
      using passed(1) by (auto simp: reconcile_binding_def split: option.split_asm if_split_asm)
    show ?thesis
      unfolding all_chain_completed_def
    proof (intro allI impI)
      fix pid x
      assume x: "sst_proofs t pid = Some x" "rpf_final_status x = FinalCompleted"
      show "\<exists>(reader, wallet) \<in> asked \<union> asked_in [e]. chain_completed c reader wallet x
          \<and> map_option (to_lower \<circ> rnw_wallet_address) (sst_swap_run t) = Some (to_lower wallet)"
      proof (cases "pid = rpf_id p")
        case True
        then have "x = ?q" using x(1) rows(1) by simp
        then have "chain_completed c reader (rci_wallet_address i) x" using new x(2) by simp
        then show ?thesis unfolding rows(2) by (intro bexI [OF _ asked]) (simp add: wallet)
      next
        case False
        then have "sst_proofs s pid = Some x" using x(1) rows(1) by simp
        from assms(1) [unfolded all_chain_completed_def, rule_format, OF this x(2)]
        obtain rw where rw: "rw \<in> asked" "case rw of (reader, wallet) \<Rightarrow> chain_completed c reader wallet x
            \<and> map_option (to_lower \<circ> rnw_wallet_address) (sst_swap_run s) = Some (to_lower wallet)"
          by (elim bexE)
        then obtain rd wl where pair: "rw = (rd, wl)" by (cases rw)
        have "(rd, wl) \<in> asked \<union> asked_in [e]" using rw(1) by (simp add: pair)
        then show ?thesis unfolding rows(2) using rw(2) by (intro bexI [of _ "(rd, wl)"]) (simp_all add: pair)
      qed
    qed
  qed
qed

lemma run_chain_completed:
  "runs (settlement_step c w) s es t \<Longrightarrow> all_chain_completed c asked s \<Longrightarrow> all_chain_completed c (asked \<union> asked_in es) t"
proof (induction arbitrary: asked rule: runs.induct)
  case (none s)
  then show ?case by (simp add: asked_in_def)
next
  case (more s e t es u)
  have "asked_in (e # es) = asked_in [e] \<union> asked_in es" by (auto simp: asked_in_def)
  with more.IH [OF step_chain_completed [OF more.prems more.hyps(1)]] show ?case by (simp add: Un_assoc)
qed

end
