(* ===== verification/Custody_Sample.thy ===== *)
theory Custody_Sample
  imports Custody Kernel_Sample
begin

text \<open>
  The gift batch of Kernel_Sample as it is stored, approved, sent and reported: the run the witnesses
  of the custody properties read.
\<close>

definition gift_blueprint :: execution_blueprint where
  "gift_blueprint = \<lparr>ebp_id = ''b'', ebp_created_at = 900, ebp_updated_at = 900, ebp_status = BlueprintReadyForReview,
     ebp_goal = SwapGoal, ebp_wallet_address = giver, ebp_intent_hash = ''i'', ebp_selected_candidate_hash = ''c'', ebp_evidence_set_hash = ''v'', ebp_blueprint_hash = ''h'',
     ebp_calls_hash = ''k'', ebp_approved_calls_hash = None, ebp_quote_expiry = ''later'',
     ebp_calls = [ether_swap, friend_transfer],
     ebp_expected_asset_changes =
       [\<lparr>ach_direction = Credit, ach_asset = bought_asset, ach_amount_atomic = ''9'', ach_minimum_amount_atomic = Some ''7''\<rparr>],
     ebp_required_approvals = [], ebp_simulation_state = \<lparr>sms_status = NotRequested, sms_error_code = None\<rparr>\<rparr>"

definition gift_candidate :: route_candidate where
  "gift_candidate = \<lparr>rcd_provider = Kyberswap, rcd_candidate_hash = ''c'', rcd_source_keys = [],
     rcd_minimum_output = \<lparr>tam_asset = bought_asset, tam_amount_atomic = ''7'', tam_amount_decimal = ''0''\<rparr>\<rparr>"

definition gift_run :: run_row where
  "gift_run = \<lparr>rnw_wallet_address = giver, rnw_chain_id = 8453, rnw_intent_hash = ''i'', rnw_intent = gift_intent\<rparr>"

definition gift_rows :: submission_store where
  "gift_rows = \<lparr>sst_swap_run = Some gift_run, sst_earn_run = None, sst_candidates = [gift_candidate],
     sst_blueprints = [gift_blueprint], sst_proofs = (\<lambda>_. None), sst_events = (\<lambda>_. [])\<rparr>"

definition plain_hashing :: hashing where
  "plain_hashing = \<lparr>hsh_payload = (\<lambda>_. ''p''), hsh_event_id = (\<lambda>_ _ _. ''d''), hsh_event = (\<lambda>_ _ _ _ _. ''e''), hsh_proof_id = (\<lambda>id. id)\<rparr>"

definition safe_answers :: "string list \<Rightarrow> security_result list" where
  "safe_answers _ = [\<lparr>scr_address = bought, scr_provider = ''goplus'', scr_status = SecurityOk, scr_flags = None\<rparr>]"

definition custody_world :: approval_world where
  "custody_world = \<lparr>apw_kernel = sample_world, apw_hashing = plain_hashing, apw_hash_blueprint = (\<lambda>_. ''h''),
     apw_hash_calls = (\<lambda>_. ''k''), apw_contract_security = (\<lambda>_. []), apw_contract_pin = (\<lambda>_. False)\<rparr>"

definition gift_approval :: approval_input where
  "gift_approval = \<lparr>api_wallet_address = giver, api_blueprint_id = ''b'', api_blueprint_hash = ''h'', api_now = 1000\<rparr>"

lemma gift_rows_fresh: "custody_fresh gift_rows"
  by (simp add: custody_fresh_def gift_rows_def gift_blueprint_def)

lemma stored_gift_batch:
  "stored_kernel_input (asking custody_world safe_answers (\<lambda>_. False)) gift_approval gift_run gift_candidate gift_blueprint = gift_batch"
proof -
  have gift: "storedGiftKernelInputV1 (ebp_calls gift_blueprint) (ebp_expected_asset_changes gift_blueprint)
      = (Some \<lparr>gft_recipient = friend, gft_amount_atomic = ''7''\<rparr>, Some ''7'')"
  proof -
    have "friend \<noteq> []" by (simp add: friend_def plain_address_def)
    then show ?thesis
      by (simp add: storedGiftKernelInputV1_def gift_blueprint_def giftDeclarationFromCallsV1_def is_transfer_def
          ether_swap_def friend_transfer_def sample_addresses)
  qed
  have facts: "aerodromeKernelInputV1 Kyberswap gift_candidate (ebp_expected_asset_changes gift_blueprint) = no_facts"
    by (simp add: aerodromeKernelInputV1_def gift_blueprint_def)
  have addresses: "swapTokenSecurityAddressesV1 gift_intent = [bought]"
  proof -
    have "bought \<noteq> []" by (simp add: bought_def plain_address_def)
    then show ?thesis
      by (simp add: swapTokenSecurityAddressesV1_def gift_intent_def asset_addresses_def ether_asset_def bought_asset_def)
  qed
  have router: "find (\<lambda>c. exc_call_type c = SwapCall) (ebp_calls gift_blueprint) = Some ether_swap"
    by (simp add: gift_blueprint_def ether_swap_def)
  have rest: "rcd_provider gift_candidate = Kyberswap" "rnw_intent gift_run = gift_intent"
    "exc_to ether_swap = KYBERSWAP_BASE_ROUTER" "exc_call_type ether_swap = SwapCall" "rin_chain_id gift_intent = 8453" "rin_verification_depth gift_intent = DepthStandard"
    "api_wallet_address gift_approval = giver" "api_now gift_approval = 1000"
    "ebp_calls gift_blueprint = [ether_swap, friend_transfer]" "ebp_quote_expiry gift_blueprint = ''later''"
    "ebp_intent_hash gift_blueprint = ''i''" "ebp_selected_candidate_hash gift_blueprint = ''c''"
    by (simp_all add: gift_candidate_def gift_run_def ether_swap_def gift_intent_def gift_approval_def gift_blueprint_def)
  have simulated: "fst (simulationRequirementV1 Kyberswap gift_intent state) = True" for state
    by (simp add: simulationRequirementV1_def simulationIsRequiredV1_def PROVIDERS_REQUIRING_SIMULATION_V1_def simulationHonesty_def rest)
  have provider: "security_provider_of (safe_answers [bought]) = ''goplus''"
    by (simp add: security_provider_of_def safe_answers_def)
  show ?thesis
    unfolding stored_kernel_input_def Let_def rest addresses router gift [unfolded rest] facts
    using provider by (simp add: rest simulated gift [unfolded rest] facts asking_def no_facts_def safe_answers_def gift_batch_def)
qed

text \<open>Approving it answers with a payload.\<close>

lemma gift_is_bound: "approval_binding (asking custody_world safe_answers (\<lambda>_. False)) gift_rows gift_approval = Inr (gift_run, gift_blueprint)"
  by (simp add: approval_binding_def asking_def custody_world_def gift_rows_def gift_run_def gift_approval_def gift_blueprint_def)

lemma gift_payload_calls: "\<exists>calls. mapR payload_call_of [ether_swap, friend_transfer] = Inr calls"
proof -
  have "exc_value_wei ether_swap = ''1000000000000000000''" "exc_value_wei friend_transfer = ''0''"
    by (simp_all add: ether_swap_def friend_transfer_def)
  moreover have "js_bigint ''0'' = Some 0"
    by (simp add: js_bigint_digits all_digits_def digit_value_def digits_value_def)
  ultimately show ?thesis by (simp add: payload_call_of_def one_ether)
qed

lemma gift_is_approved:
  "\<exists>t payload life. approveExecutionBlueprintV1 (asking custody_world safe_answers (\<lambda>_. False)) gift_rows gift_approval
     = (t, Inr (Approved payload life))"
proof -
  let ?w = "asking custody_world safe_answers (\<lambda>_. False)"
  have found: "find_candidate gift_rows gift_blueprint = Some gift_candidate"
    by (simp add: find_candidate_def gift_rows_def gift_candidate_def gift_blueprint_def)
  have kernel: "\<exists>k. runSafetyKernel (apw_kernel ?w) (stored_kernel_input ?w gift_approval gift_run gift_candidate gift_blueprint) = Inr k \<and> krs_allowed k"
    using gift_batch_allowed unfolding stored_gift_batch
    by (simp add: kernel_allows_def custody_world_def split: sum.split_asm)
  have status: "ebp_status gift_blueprint = BlueprintReadyForReview" "\<not> api_now gift_approval < ebp_created_at gift_blueprint"
    by (simp_all add: gift_blueprint_def gift_approval_def)
  have "\<exists>s1. approve_blueprint ?w gift_rows gift_approval gift_run gift_blueprint
      = Inr (Inr (as_approved ?w gift_approval gift_blueprint, s1)) \<and> sst_candidates s1 = [gift_candidate]"
    using kernel status found by (auto simp: approve_blueprint_def as_approved_def Let_def gift_rows_def)
  then obtain s1 where a: "approve_blueprint ?w gift_rows gift_approval gift_run gift_blueprint
      = Inr (Inr (as_approved ?w gift_approval gift_blueprint, s1))" and c: "sst_candidates s1 = [gift_candidate]" by blast
  have "find_candidate s1 (as_approved ?w gift_approval gift_blueprint) = Some gift_candidate"
    using c by (simp add: find_candidate_def as_approved_def gift_blueprint_def gift_candidate_def)
  moreover have "ebp_expected_asset_changes (as_approved ?w gift_approval gift_blueprint) = ebp_expected_asset_changes gift_blueprint"
    "ebp_calls (as_approved ?w gift_approval gift_blueprint) = [ether_swap, friend_transfer]"
    by (simp_all add: as_approved_def gift_blueprint_def)
  moreover have "find (\<lambda>c. ach_direction c = Credit) (ebp_expected_asset_changes gift_blueprint) \<noteq> None"
    by (simp add: gift_blueprint_def)
  ultimately have "\<exists>p s2. ensure_proof ?w s1 (api_now gift_approval) (as_approved ?w gift_approval gift_blueprint) = Inr (p, s2)"
    by (auto simp: ensure_proof_def Let_def split: option.split)
  then obtain p s2 where e: "ensure_proof ?w s1 (api_now gift_approval) (as_approved ?w gift_approval gift_blueprint) = Inr (p, s2)" by blast
  obtain calls where "mapR payload_call_of [ether_swap, friend_transfer] = Inr calls" using gift_payload_calls by blast
  then have payload: "\<exists>payload. buildApprovedPayload (as_approved ?w gift_approval gift_blueprint) (rnw_wallet_address gift_run) = Inr payload"
    using \<open>ebp_calls _ = _\<close> by (simp add: buildApprovedPayload_def)
  have "\<not> (case kwd_parse (apw_kernel ?w) (ebp_quote_expiry gift_blueprint) of Some t \<Rightarrow> t \<le> api_now gift_approval | None \<Rightarrow> False)"
    by (simp add: custody_world_def sample_world_def gift_blueprint_def gift_approval_def)
  then show ?thesis
    using payload a e by (auto simp: approveExecutionBlueprintV1_def gift_is_bound finish_approval_def Let_def)
qed

section \<open>A report\<close>

definition approved_gift :: execution_blueprint where
  "approved_gift = gift_blueprint\<lparr>ebp_status := BlueprintApproved, ebp_approved_calls_hash := Some ''k''\<rparr>"

definition pending_gift :: route_proof where
  "pending_gift = pending_proof ''b'' approved_gift (hd (ebp_expected_asset_changes gift_blueprint)) 1000"

definition approved_rows :: submission_store where
  "approved_rows = gift_rows\<lparr>sst_blueprints := [approved_gift], sst_proofs := [''b'' \<mapsto> pending_gift]\<rparr>"

definition gift_report :: submission_input where
  "gift_report = \<lparr>sbi_wallet_address = giver, sbi_blueprint_id = ''b'', sbi_approved_calls_hash = ''k'',
     sbi_status = StatusSubmitted, sbi_batch_id = Some ''x'', sbi_transaction_hashes = None, sbi_receipts = None, sbi_now = 1500\<rparr>"

lemma gift_report_recorded: "\<exists>t r. recordBlueprintSubmissionV1 plain_hashing (kwd_parse sample_world) approved_rows gift_report = Inr (t, r)"
proof -
  have bound: "submission_binding (kwd_parse sample_world) approved_rows gift_report = Inr approved_gift"
    by (simp add: submission_binding_def approved_rows_def gift_rows_def gift_run_def gift_report_def approved_gift_def
        gift_blueprint_def sample_world_def)
  have batch: "reported_batch gift_report = Some ''x''"
    by (simp add: reported_batch_def gift_report_def js_trim_def js_space_def)
  have proof_id: "hsh_proof_id plain_hashing (ebp_id approved_gift) = ''b''"
    by (simp add: plain_hashing_def approved_gift_def gift_blueprint_def)
  have rows: "sst_proofs approved_rows ''b'' = Some pending_gift" "sst_events approved_rows ''b'' = []"
    by (simp_all add: approved_rows_def gift_rows_def)
  have "sbi_status gift_report = StatusSubmitted" by (simp add: gift_report_def)
  then have "submission_conflict gift_report pending_gift [] = None"
    using batch \<open>sbi_status gift_report = StatusSubmitted\<close> by (simp add: submission_conflict_def recordedBatchIds_def Let_def)
  moreover have "RouteProofV1Schema (recorded_proof gift_report pending_gift)"
    by (rule recorded_proof_schema) (simp_all add: pending_gift_def pending_proof_schema, simp add: pending_gift_def pending_proof_def gift_report_def)
  ultimately show ?thesis by (simp add: recordBlueprintSubmissionV1_def bound proof_id rows Let_def)
qed

lemma approved_rows_sound: "sound_store plain_hashing approved_rows"
  by (simp add: sound_store_def approved_rows_def gift_rows_def chained_def told_once_def pending_gift_def pending_proof_schema)

end
