(* ===== verification/Settlement_Sample.thy ===== *)
theory Settlement_Sample
  imports Settlement Custody_Sample
begin

text \<open>
  The gift batch of Custody_Sample once it is sent: nine tokens reach the giver, seven of them the
  friend, and the chain answers for the one transaction of the batch.
\<close>

definition sent_hash :: string where
  "sent_hash = ''0x'' @ replicate 64 (CHR ''5'')"

definition pool :: string where "pool = plain_address (CHR ''4'')"

definition sent_proof :: route_proof where
  "sent_proof = pending_gift\<lparr>rpf_transaction_hashes := [sent_hash], rpf_receipts := [unknown_receipt sent_hash]\<rparr>"

definition sent_rows :: submission_store where
  "sent_rows = approved_rows\<lparr>sst_proofs := [''b'' \<mapsto> sent_proof]\<rparr>"

definition transfer_log :: "string \<Rightarrow> receipt_log" where
  "transfer_log d = \<lparr>rlg_address = bought, rlg_topics = [''t''], rlg_data = d\<rparr>"

definition sample_codec :: log_codec where
  "sample_codec = \<lparr>lcd_keccak = (\<lambda>_. ''t''),
     lcd_decode_transfer = (\<lambda>topics d. if d = ''a'' then Some (pool, giver, 9) else Some (giver, friend, 7))\<rparr>"

definition chain_receipt :: "bool \<Rightarrow> string \<Rightarrow> receipt_source" where
  "chain_receipt ok h = \<lparr>rsc_transaction_hash = h, rsc_succeeded = ok, rsc_block_number = 1, rsc_gas_used = 21000,
     rsc_effective_gas_price = None, rsc_logs = [transfer_log ''a'', transfer_log ''b''], rsc_from = None\<rparr>"

definition chain_reader :: "bool \<Rightarrow> receipt_reader" where
  "chain_reader ok h = Inr (Some (chain_receipt ok h))"

definition settle_input :: reconcile_input where
  "settle_input = \<lparr>rci_wallet_address = giver, rci_proof_id = ''b'', rci_now = 2000\<rparr>"

section \<open>The rows\<close>

lemma sent_hash_schema: "HashV1Schema sent_hash"
  by (simp add: HashV1Schema_def sent_hash_def list_all_iff hex_lower_def digit_value_def char_lower_def)

lemma approved_input_is_gift:
  "stored_kernel_input (asking custody_world safe_answers (\<lambda>_. False)) gift_approval gift_run gift_candidate approved_gift = gift_batch"
proof -
  have "stored_kernel_input w i run candidate approved_gift = stored_kernel_input w i run candidate gift_blueprint" for w i run candidate
    by (simp add: stored_kernel_input_def approved_gift_def Let_def)
  then show ?thesis by (simp add: stored_gift_batch)
qed

lemma pending_gift_fields:
  "rpf_id pending_gift = ''b''" "rpf_created_at pending_gift = 1000" "rpf_final_status pending_gift = FinalPending"
  "rpf_status pending_gift = FinalPending" "rpf_updated_at pending_gift = 1000" "rpf_blueprint_hash pending_gift = ''h''"
  "rpf_approved_calls_hash pending_gift = Some ''k''" "rpf_approved_calls pending_gift = [ether_swap, friend_transfer]"
  "rpf_reconciliation_state pending_gift = StatePending" "rpf_receipts pending_gift = []" "rpf_actual_result pending_gift = None"
  "rpf_expected_result pending_gift = \<lparr>exr_asset_changes = ebp_expected_asset_changes gift_blueprint,
     exr_output_amount_atomic = Some ''9'', exr_output_asset = Some bought_asset\<rparr>"
  by (simp_all add: pending_gift_def pending_proof_def approved_gift_def gift_blueprint_def)

lemma sent_proof_schema: "RouteProofV1Schema sent_proof"
  by (simp add: RouteProofV1Schema_def sent_proof_def pending_gift_fields sent_hash_schema)

lemma sent_rows_fields:
  "sst_proofs sent_rows = [''b'' \<mapsto> sent_proof]" "sst_events sent_rows pid = []" "sst_blueprints sent_rows = [approved_gift]"
  "sst_swap_run sent_rows = Some gift_run" "sst_candidates sent_rows = [gift_candidate]"
  by (simp_all add: sent_rows_def approved_rows_def gift_rows_def)

lemma sent_rows_ok: "custody_ok custody_world sent_rows"
proof -
  have "rpf_id sent_proof = ''b''" by (simp add: sent_proof_def pending_gift_fields)
  then have "sound_store plain_hashing sent_rows"
    by (simp add: sound_store_def sent_rows_fields chained_def told_once_def sent_proof_schema)
  moreover have "reviewed custody_world sent_rows gift_run approved_gift"
    unfolding reviewed_def
  proof (intro exI conjI)
    show "gift_candidate \<in> set (sst_candidates sent_rows)" by (simp add: sent_rows_fields)
    show "rcd_candidate_hash gift_candidate = ebp_selected_candidate_hash approved_gift"
      by (simp add: gift_candidate_def approved_gift_def gift_blueprint_def)
    show "to_lower (api_wallet_address gift_approval) = to_lower (rnw_wallet_address gift_run)"
      by (simp add: gift_approval_def gift_run_def)
    show "ebp_intent_hash approved_gift = rnw_intent_hash gift_run" by (simp add: approved_gift_def gift_blueprint_def gift_run_def)
    show "ebp_approved_calls_hash approved_gift = Some (apw_hash_calls custody_world (ebp_calls approved_gift))"
      by (simp add: approved_gift_def custody_world_def)
    show "kernel_allows (apw_kernel custody_world)
        (stored_kernel_input (asking custody_world safe_answers (\<lambda>_. False)) gift_approval gift_run gift_candidate approved_gift)"
      unfolding approved_input_is_gift by (simp add: custody_world_def gift_batch_allowed)
  qed
  ultimately show ?thesis by (simp add: custody_ok_def sent_rows_fields custody_world_def)
qed

section \<open>The movement\<close>

lemma sample_transfers: "decodeTransferLogsV1 sample_codec [transfer_log ''a'', transfer_log ''b'']
    = [\<lparr>dtr_token = bought, dtr_from = pool, dtr_to = giver, dtr_value = 9\<rparr>, \<lparr>dtr_token = bought, dtr_from = giver, dtr_to = friend, dtr_value = 7\<rparr>]"
proof -
  have "to_lower pool = pool" by (simp add: pool_def plain_address_lower hex_lower_def digit_value_def char_lower_def)
  then show ?thesis
    by (simp add: decodeTransferLogsV1_def decode_transfer_log_def first_topic_def transfer_log_def sample_codec_def
        ERC20_TRANSFER_TOPIC0_def sample_addresses List.map_filter_simps)
qed

definition gift_moved :: execution_result where
  "gift_moved = \<lparr>exr_asset_changes = [measured_change Credit bought_asset 9], exr_output_amount_atomic = Some (show_int 9),
     exr_output_asset = Some bought_asset\<rparr>"

lemma sample_gift_transfer: "giftOfApprovedCallsV1 [ether_swap, friend_transfer] = Some \<lparr>gtr_recipient = friend, gtr_amount_atomic = ''7''\<rparr>"
proof -
  have "friend \<noteq> []" by (simp add: friend_def plain_address_def)
  then show ?thesis by (simp add: giftOfApprovedCallsV1_def ether_swap_def friend_transfer_def)
qed

lemma small_numbers: "show_int 7 = ''7''" "show_int 9 = ''9''" "js_bigint ''9'' = Some 9" "js_bigint ''7'' = Some 7"
proof -
  have p: "positive_decimal ''7''" "digits_value 10 ''7'' = 7" "positive_decimal ''9''" "digits_value 10 ''9'' = 9"
    by (simp_all add: positive_decimal_def plain_decimal_def all_digits_def digit_value_def digits_value_def)
  show "show_int 7 = ''7''" "js_bigint ''7'' = Some 7"
    using positive_decimal_value [OF p(1)] p(1) unfolding p(2) by simp_all
  show "show_int 9 = ''9''" "js_bigint ''9'' = Some 9"
    using positive_decimal_value [OF p(3)] p(3) unfolding p(4) by simp_all
qed

lemma sample_reconstruction:
  "reconstructAssetChangesV1 sample_codec giver (ebp_expected_asset_changes gift_blueprint) [transfer_log ''a'', transfer_log ''b'']
     targets (Some \<lparr>gtr_recipient = friend, gtr_amount_atomic = ''7''\<rparr>) = Reconstructed gift_moved"
proof -
  have token: "hex_of_length 40 bought" "bought \<noteq> []" "pool \<noteq> giver" "giver \<noteq> pool" "friend \<noteq> giver" "giver \<noteq> friend"
    using plain_address_eq
    by (simp_all add: hex_of_length_def bought_def pool_def giver_def friend_def plain_address_def list_all_iff digit_value_def)
  show ?thesis
    using token
    by (simp add: reconstructAssetChangesV1_def gift_blueprint_def supportedAssetV1_def bought_asset_def reconstruct_swap_def
        sample_transfers sample_addresses without_gift_def gift_matches_def small_numbers amount_for_def asset_token_def
        netForToken.simps net_in_def gift_moved_def Let_def)
qed

section \<open>The pass\<close>

definition sent_verification :: "bool \<Rightarrow> verification" where
  "sent_verification ok = \<lparr>vrf_transaction_hash = sent_hash,
     vrf_receipt = \<lparr>rct_transaction_hash = sent_hash, rct_status = (if ok then ReceiptSuccess else ReceiptReverted),
       rct_block_number = Some (show_int 1), rct_gas_used = Some (show_int 21000)\<rparr>,
     vrf_source = Some (chain_receipt ok sent_hash), vrf_conflict = None\<rparr>"

lemma sent_bound: "reconcile_binding plain_hashing sent_rows settle_input = Inr (sent_proof, approved_gift)"
proof -
  have "verifyEventChainV1 []" by (simp add: verifyEventChainV1_def)
  then show ?thesis
    by (simp add: reconcile_binding_def sent_rows_fields gift_run_def settle_input_def sent_proof_def pending_gift_fields
        approved_gift_def gift_blueprint_def plain_hashing_def)
qed

lemma sent_verified: "verifyTransactionReceiptsV1 (chain_reader ok) [unknown_receipt sent_hash] [sent_hash] = Inr [sent_verification ok]"
  by (simp add: verifyTransactionReceiptsV1_def verify_receipt_def chain_reader_def sent_verification_def chain_receipt_def
      receipt_by_hash_def source_status_def)

lemma gift_moved_enough: "missing_movement (ebp_expected_asset_changes gift_blueprint) (exr_asset_changes gift_moved) = Inr False"
  by (simp add: gift_blueprint_def gift_moved_def measured_change_def positive_amount_def js_BigInt_def small_numbers)

lemma gift_deviation: "computeRouteProofDeviationV1 (Some ''9'') (Some ''9'') (Some ''7'') = Inr (Some 0, Some True)"
  by (simp add: computeRouteProofDeviationV1_def output_bps_def minimum_satisfied_def js_BigInt_def small_numbers
      roundedRatioBpsV1_def)

lemma sent_settled: "\<exists>st. settle sample_codec giver sent_proof [sent_verification True] = Inr st \<and> stl_final_status st = FinalCompleted"
proof -
  have "rsc_logs (chain_receipt True sent_hash) = [transfer_log ''a'', transfer_log ''b'']" by (simp add: chain_receipt_def)
  moreover have "find (\<lambda>x. ach_direction x = Credit) (ebp_expected_asset_changes gift_blueprint)
      = Some \<lparr>ach_direction = Credit, ach_asset = bought_asset, ach_amount_atomic = ''9'', ach_minimum_amount_atomic = Some ''7''\<rparr>"
    by (simp add: gift_blueprint_def)
  moreover have "exr_output_amount_atomic gift_moved = Some ''9''" by (simp add: gift_moved_def small_numbers)
  ultimately show ?thesis
    using gift_moved_enough gift_deviation sample_reconstruction [of "map exc_to [ether_swap, friend_transfer]"]
    by (simp add: settle_def sent_verification_def sent_proof_def pending_gift_fields sample_gift_transfer settle_measured_def Let_def)
qed

lemma not_finalized_yet: "\<not> finalized_already sent_proof es"
  by (simp add: finalized_already_def ROUTE_PROOF_TERMINAL_FINAL_STATUSES_def sent_proof_def pending_gift_fields)

lemma sent_completes:
  "\<exists>t q r. reconcile sample_codec plain_hashing (chain_reader True) sent_rows settle_input = (t, r)
     \<and> sst_proofs t ''b'' = Some q \<and> rpf_final_status q = FinalCompleted"
proof -
  have p: "rpf_transaction_hashes sent_proof = [sent_hash]" "rpf_receipts sent_proof = [unknown_receipt sent_hash]" "rpf_id sent_proof = ''b''"
      "rpf_created_at sent_proof = 1000"
    by (simp_all add: sent_proof_def pending_gift_fields)
  obtain st where st: "settle sample_codec giver sent_proof [sent_verification True] = Inr st" "stl_final_status st = FinalCompleted"
    using sent_settled by blast
  have i: "rci_wallet_address settle_input = giver" "rci_now settle_input = 2000" by (simp_all add: settle_input_def)
  have "RouteProofV1Schema (reconciled_proof sent_proof giver 2000 [sent_verification True] st)"
    using sent_proof_schema not_finalized_yet [of "[]"] sent_verified [of True] st(1)
    by (intro reconciled_schema [where es = "[]" and reader = "chain_reader True" and c = sample_codec]) (simp_all add: p)
  then show ?thesis
    using sent_bound not_finalized_yet sent_verified [of True] st
    by (simp add: reconcile_def settle_pass_def p i Let_def)
qed

section \<open>A conflict\<close>

text \<open>The wallet reported a success; the chain answers that the transaction was reverted.\<close>

definition told_proof :: route_proof where
  "told_proof = sent_proof\<lparr>rpf_receipts := [(unknown_receipt sent_hash)\<lparr>rct_status := ReceiptSuccess\<rparr>]\<rparr>"

definition told_rows :: submission_store where
  "told_rows = sent_rows\<lparr>sst_proofs := [''b'' \<mapsto> told_proof]\<rparr>"

definition told_verification :: verification where
  "told_verification = (sent_verification False)\<lparr>vrf_conflict := Some (ReceiptSuccess, ReceiptReverted)\<rparr>"

lemma told_proof_fields:
  "rpf_id told_proof = ''b''" "rpf_created_at told_proof = 1000" "rpf_final_status told_proof = FinalPending"
  "rpf_reconciliation_state told_proof = StatePending" "rpf_transaction_hashes told_proof = [sent_hash]"
  "rpf_receipts told_proof = [(unknown_receipt sent_hash)\<lparr>rct_status := ReceiptSuccess\<rparr>]"
  "rpf_blueprint_hash told_proof = ''h''" "rpf_approved_calls_hash told_proof = Some ''k''"
  by (simp_all add: told_proof_def sent_proof_def pending_gift_fields)

lemma told_rows_fields:
  "sst_proofs told_rows = [''b'' \<mapsto> told_proof]" "sst_events told_rows pid = []" "sst_blueprints told_rows = [approved_gift]"
  "sst_swap_run told_rows = Some gift_run"
  by (simp_all add: told_rows_def sent_rows_fields)

lemma told_rows_sound: "sound_store plain_hashing told_rows"
proof -
  have "RouteProofV1Schema told_proof"
    using sent_proof_schema by (simp add: RouteProofV1Schema_def told_proof_def sent_proof_def pending_gift_fields)
  then show ?thesis by (simp add: sound_store_def told_rows_fields chained_def told_once_def told_proof_fields)
qed

lemma told_bound: "reconcile_binding plain_hashing told_rows settle_input = Inr (told_proof, approved_gift)"
proof -
  have "verifyEventChainV1 []" by (simp add: verifyEventChainV1_def)
  then show ?thesis
    by (simp add: reconcile_binding_def told_rows_fields gift_run_def settle_input_def told_proof_fields
        approved_gift_def gift_blueprint_def plain_hashing_def)
qed

lemma told_open: "\<not> finalized_already told_proof (sst_events told_rows (rpf_id told_proof))"
  by (simp add: finalized_already_def ROUTE_PROOF_TERMINAL_FINAL_STATUSES_def told_proof_fields)

lemma told_verified: "verifyTransactionReceiptsV1 (chain_reader False) (rpf_receipts told_proof) (rpf_transaction_hashes told_proof)
    = Inr [told_verification]"
  by (simp add: told_proof_fields verifyTransactionReceiptsV1_def verify_receipt_def chain_reader_def sent_verification_def
      chain_receipt_def told_verification_def receipt_by_hash_def source_status_def)

end
