(* ===== verification/Custody_Properties.thy ===== *)
theory Custody_Properties
  imports Custody_Sample
begin

text \<open>
  The claims about a route run between review and proof: its history is kept, a report told twice is
  told once, and the wallet is handed nothing the kernel did not allow.
\<close>

section \<open>The history\<close>

text \<open>
  C10. Whatever approvals and reports reach a route run, in whatever order and with whatever answers of
  the security service: every proof satisfies its schema, every history is a hash chain in which
  nothing is told twice, and of what was known of a proof nothing is lost: receipts are only added,
  each reported by a wallet or marked unknown, and events only appended.
\<close>

theorem custody_keeps_the_history:
  assumes "custody_fresh s" and "runs (custody_step w) s es t" and "runs (custody_step w) t later u"
  shows "sound_store (apw_hashing w) u \<and> knows_more (reports later) pid t u"
proof -
  have t: "custody_ok w t" by (rule custody.reached [OF assms(1,2)])
  then have "custody_ok w u" using assms(3) custody.runs_inv by blast
  then show ?thesis using custody_knows_more [OF assms(3) t] by (simp add: custody_ok_def)
qed

lemma custody_keeps_the_history_witness:
  "\<exists>t. custody_step custody_world gift_rows (Approve safe_answers (\<lambda>_. False) gift_approval) t
     \<and> sound_store plain_hashing t \<and> knows_more [] ''b'' gift_rows t"
proof -
  let ?e = "Approve safe_answers (\<lambda>_. False) gift_approval"
  let ?t = "fst (approveExecutionBlueprintV1 (asking custody_world safe_answers (\<lambda>_. False)) gift_rows gift_approval)"
  have step: "custody_step custody_world gift_rows ?e ?t" by (rule custody_step.approve)
  then have "sound_store (apw_hashing custody_world) ?t \<and> knows_more (reports [?e]) ''b'' gift_rows ?t"
    by (intro custody_keeps_the_history [OF gift_rows_fresh, where es = "[]"]) simp_all
  with step show ?thesis by (auto simp: custody_world_def)
qed

section \<open>Retries\<close>

text \<open>No event of the store shares its payload's hash with another payload.\<close>

definition collision_free :: "hashing \<Rightarrow> submission_store \<Rightarrow> bool" where
  "collision_free h s \<longleftrightarrow>
     (\<forall>pid. \<forall>e \<in> set (sst_events s pid). \<forall>p. hsh_payload h (pev_payload e) = hsh_payload h p \<longrightarrow> pev_payload e = p)"

lemma binding_reads:
  assumes "sst_swap_run t = sst_swap_run s" and "sst_earn_run t = sst_earn_run s" and "sst_blueprints t = sst_blueprints s"
  shows "submission_binding parse t i = submission_binding parse s i"
  by (simp only: submission_binding_def assms)

lemma recorded_proof_again: "recorded_proof i (recorded_proof i p) = recorded_proof i p"
  using merged_again [of i p] by (simp add: recorded_proof_def)

lemma submitted_payload_batch:
  assumes "reported_batch i = Some batch" and "pev_event_type e = Submitted"
    and "pev_payload e = submitted_payload batch (sbi_status i)"
  shows "submitted_batch e = Some batch"
proof -
  have "batch \<noteq> []" using assms(1) by (auto simp: reported_batch_def split: option.split_asm if_split_asm)
  then show ?thesis using assms(2,3) by (simp add: submitted_batch_def submitted_payload_def json_field_def json_string_def)
qed

lemma batch_is_recorded:
  assumes "reported_batch i = Some batch" and "chained h pid es"
    and "\<forall>e \<in> set es. \<forall>p. hsh_payload h (pev_payload e) = hsh_payload h p \<longrightarrow> pev_payload e = p"
  shows "batch \<in> set (recordedBatchIds (recorded_events h i pid es))"
proof (cases "batch \<in> set (recordedBatchIds es)")
  case True
  then show ?thesis using recorded_events_grow [of h i pid es] recorded_batches_grow by (metis subsetD)
next
  case False
  let ?sent = "appendProofEventIfNewV1 h pid es Submitted (submitted_payload batch (sbi_status i)) (sbi_now i)"
  obtain e where e: "e \<in> set ?sent" "pev_event_type e = Submitted" "pev_payload e = submitted_payload batch (sbi_status i)"
    using appended_says [OF assms(2)] assms(3) by blast
  then have sent: "batch \<in> set (recordedBatchIds ?sent)"
    using submitted_payload_batch [OF assms(1) e(2,3)] e(1) by (auto simp: recordedBatchIds_def batches_from_mem)
  have "recorded_events h i pid es = ?sent @ []
      \<or> recorded_events h i pid es = appendProofEventIfNewV1 h pid ?sent ReceiptObserved (receipt_payload batch i) (sbi_now i)"
    using assms(1) False by (simp add: recorded_events_def Let_def)
  then obtain new where n: "recorded_events h i pid es = ?sent @ new"
    using appended_extends [of h pid ?sent ReceiptObserved "receipt_payload batch i"] by metis
  show ?thesis unfolding n by (rule subsetD [OF recorded_batches_grow sent])
qed



section \<open>The kernel stands before the wallet\<close>

text \<open>What is handed out in a run, traced to the rows of its start and to the approval that let it through.\<close>

lemma signed_was_allowed:
  assumes "custody_fresh s" and "runs (custody_step w) s es t"
    and "approveExecutionBlueprintV1 (asking w answers pin) t i = (u, Inr (Approved payload life))"
  shows "\<exists>run b security pins j candidate.
    sst_swap_run s = Some run \<and> b \<in> set (sst_blueprints s)
    \<and> ebp_id b = api_blueprint_id i \<and> ebp_blueprint_hash b = api_blueprint_hash i
    \<and> to_lower (api_wallet_address i) = to_lower (rnw_wallet_address run) \<and> apl_from payload = rnw_wallet_address run
    \<and> mapR payload_call_of (ebp_calls b) = Inr (apl_calls payload)
    \<and> (\<forall>expiry. kwd_parse (apw_kernel w) (ebp_quote_expiry b) = Some expiry \<longrightarrow> api_now i < expiry)
    \<and> Approve security pins j \<in> set (es @ [Approve answers pin i])
    \<and> to_lower (api_wallet_address j) = to_lower (rnw_wallet_address run)
    \<and> candidate \<in> set (sst_candidates s) \<and> rcd_candidate_hash candidate = ebp_selected_candidate_hash b
    \<and> kernel_allows (apw_kernel w) (stored_kernel_input (asking w security pins) j run candidate b)"
proof -
  let ?E = "set (es @ [Approve answers pin i])"
  have "custody_ok w t" by (rule custody.reached [OF assms(1,2)])
  moreover have "came_from ?E w s t"
    using runs_came_from [OF assms(2) fresh_came_from [OF assms(1)] _ fresh_ok [OF assms(1)], of ?E] by auto
  ultimately obtain run b where b: "sst_swap_run s = Some run" "b \<in> set (sst_blueprints s)" "allowed_at ?E w s b"
      "ebp_id b = api_blueprint_id i" "ebp_blueprint_hash b = api_blueprint_hash i"
      "to_lower (rnw_wallet_address run) = to_lower (api_wallet_address i)" "apl_from payload = rnw_wallet_address run"
      "mapR payload_call_of (ebp_calls b) = Inr (apl_calls payload)"
      "\<forall>expiry. kwd_parse (apw_kernel w) (ebp_quote_expiry b) = Some expiry \<longrightarrow> api_now i < expiry"
    using handed_out_came_from [OF _ _ _ assms(3), of ?E s] by auto
  obtain security pins j candidate where "Approve security pins j \<in> ?E" "candidate \<in> set (sst_candidates s)"
      "rcd_candidate_hash candidate = ebp_selected_candidate_hash b" "to_lower (api_wallet_address j) = to_lower (rnw_wallet_address run)"
      "kernel_allows (apw_kernel w) (stored_kernel_input (asking w security pins) j run candidate b)"
    using b(1,3) unfolding allowed_at_def by auto
  with b show ?thesis by (intro exI [of _ run] exI [of _ b] exI [of _ security] exI [of _ pins] exI [of _ j] exI [of _ candidate]) simp
qed

text \<open>
  C1. In a route run that began with nothing approved, a payload is handed to the wallet only for the
  run's own wallet, before the quote expires, and with calls that are, target, value and data, those of
  the blueprint that was stored when the run began under the id and the hash the approval names; and
  those very calls the kernel has allowed, for that wallet and for a stored candidate, at this approval
  or at an earlier one of the run. This holds also when the approval is only repeated and the kernel
  does not run again.
\<close>

theorem wallet_signs_only_what_the_kernel_allowed:
  assumes "custody_fresh s" and "runs (custody_step w) s es t"
    and "approveExecutionBlueprintV1 (asking w answers pin) t i = (u, Inr (Approved payload life))"
  shows "\<exists>run b security pins j candidate.
    sst_swap_run s = Some run \<and> b \<in> set (sst_blueprints s)
    \<and> ebp_id b = api_blueprint_id i \<and> ebp_blueprint_hash b = api_blueprint_hash i
    \<and> to_lower (api_wallet_address i) = to_lower (rnw_wallet_address run) \<and> apl_from payload = rnw_wallet_address run
    \<and> mapR payload_call_of (ebp_calls b) = Inr (apl_calls payload)
    \<and> (\<forall>expiry. kwd_parse (apw_kernel w) (ebp_quote_expiry b) = Some expiry \<longrightarrow> api_now i < expiry)
    \<and> Approve security pins j \<in> set (es @ [Approve answers pin i])
    \<and> to_lower (api_wallet_address j) = to_lower (rnw_wallet_address run)
    \<and> candidate \<in> set (sst_candidates s) \<and> rcd_candidate_hash candidate = ebp_selected_candidate_hash b
    \<and> kernel_allows (apw_kernel w) (stored_kernel_input (asking w security pins) j run candidate b)"
  using signed_was_allowed [OF assms] by blast

lemma wallet_signs_only_what_the_kernel_allowed_witness:
  "\<exists>u payload life. approveExecutionBlueprintV1 (asking custody_world safe_answers (\<lambda>_. False)) gift_rows gift_approval
      = (u, Inr (Approved payload life))
     \<and> mapR payload_call_of [ether_swap, friend_transfer] = Inr (apl_calls payload) \<and> apl_from payload = giver
     \<and> kernel_allows sample_world (stored_kernel_input (asking custody_world safe_answers (\<lambda>_. False)) gift_approval gift_run gift_candidate gift_blueprint)"
proof -
  obtain u payload life where u: "approveExecutionBlueprintV1 (asking custody_world safe_answers (\<lambda>_. False)) gift_rows gift_approval
      = (u, Inr (Approved payload life))" using gift_is_approved by blast
  have run: "runs (custody_step custody_world) gift_rows [] gift_rows" by simp
  have rows: "sst_swap_run gift_rows = Some gift_run" "set (sst_blueprints gift_rows) = {gift_blueprint}" "set (sst_candidates gift_rows) = {gift_candidate}"
      "ebp_calls gift_blueprint = [ether_swap, friend_transfer]" "rnw_wallet_address gift_run = giver" "apw_kernel custody_world = sample_world"
    by (simp_all add: gift_rows_def gift_blueprint_def gift_run_def custody_world_def)
  show ?thesis
    using wallet_signs_only_what_the_kernel_allowed [OF gift_rows_fresh run u] u unfolding rows by (auto simp: rows)
qed

section \<open>Token security\<close>

lemma asset_is_asked:
  assumes "asset = rin_from_asset intent \<or> asset = rin_to_asset intent" and "asset = Some a" and "asr_address a = Some x" and "x \<noteq> ''''"
  shows "\<exists>y \<in> set (swapTokenSecurityAddressesV1 intent). to_lower y = to_lower x"
  unfolding swapTokenSecurityAddressesV1_def
proof (rule distinct_addresses_cover)
  have "x \<in> set (asset_addresses asset)" using assms(2-4) by (simp add: asset_addresses_def)
  with assms(1) show "x \<in> set (asset_addresses (rin_from_asset intent) @ asset_addresses (rin_to_asset intent))" by auto
qed simp

text \<open>
  C17. Token security: behind every payload a route run hands out stands one approval of the run at
  which the kernel allowed the named batch on the security service's answer, given then for the swap's
  own tokens: both the token sold and the token bought, each one that is a contract, have the provider's
  verdict in it, clean or with a warning, and nothing in the answer carries a power that refuses a token.
\<close>

theorem signed_tokens_are_vouched_for:
  assumes "custody_fresh s" and "runs (custody_step w) s es t"
    and "approveExecutionBlueprintV1 (asking w answers pin) t i = (u, Inr (Approved payload life))"
  shows "\<exists>run b security pins j candidate results.
    sst_swap_run s = Some run \<and> b \<in> set (sst_blueprints s) \<and> ebp_id b = api_blueprint_id i
    \<and> mapR payload_call_of (ebp_calls b) = Inr (apl_calls payload)
    \<and> Approve security pins j \<in> set (es @ [Approve answers pin i])
    \<and> kernel_allows (apw_kernel w) (stored_kernel_input (asking w security pins) j run candidate b)
    \<and> results = security (swapTokenSecurityAddressesV1 (rnw_intent run))
    \<and> (\<forall>r \<in> set results. tokenSecurityRefusalV1 (kwd_number (apw_kernel w)) r = None)
    \<and> (\<forall>asset a x. asset \<in> {rin_from_asset (rnw_intent run), rin_to_asset (rnw_intent run)} \<and> asset = Some a
         \<and> asr_address a = Some x \<and> x \<noteq> '''' \<longrightarrow> vouched_for results x)"
proof -
  obtain run b security pins j candidate where b: "sst_swap_run s = Some run" "b \<in> set (sst_blueprints s)" "ebp_id b = api_blueprint_id i"
      "mapR payload_call_of (ebp_calls b) = Inr (apl_calls payload)" "Approve security pins j \<in> set (es @ [Approve answers pin i])"
      "kernel_allows (apw_kernel w) (stored_kernel_input (asking w security pins) j run candidate b)"
    using signed_was_allowed [OF assms] by blast
  let ?results = "security (swapTokenSecurityAddressesV1 (rnw_intent run))"
  have v: "\<forall>r \<in> set ?results. tokenSecurityRefusalV1 (kwd_number (apw_kernel w)) r = None"
      "\<forall>y \<in> set (swapTokenSecurityAddressesV1 (rnw_intent run)). vouched_for ?results y"
    using stored_kernel_security [OF b(6)] by simp_all
  have "vouched_for ?results x" if x: "asset \<in> {rin_from_asset (rnw_intent run), rin_to_asset (rnw_intent run)} \<and> asset = Some a
      \<and> asr_address a = Some x \<and> x \<noteq> ''''" for asset a x
    using asset_is_asked [of asset "rnw_intent run" a x] x v(2) vouched_for_cong by (metis insertE singletonD)
  then show ?thesis
    using b v(1)
    by (intro exI [of _ run] exI [of _ b] exI [of _ security] exI [of _ pins] exI [of _ j] exI [of _ candidate]
        exI [of _ ?results]) blast
qed

lemma signed_tokens_are_vouched_for_witness:
  "\<exists>u payload life. approveExecutionBlueprintV1 (asking custody_world safe_answers (\<lambda>_. False)) gift_rows gift_approval
      = (u, Inr (Approved payload life))
     \<and> vouched_for (safe_answers (swapTokenSecurityAddressesV1 gift_intent)) bought"
proof -
  obtain u payload life where u: "approveExecutionBlueprintV1 (asking custody_world safe_answers (\<lambda>_. False)) gift_rows gift_approval
      = (u, Inr (Approved payload life))" using gift_is_approved by blast
  have run: "runs (custody_step custody_world) gift_rows [] gift_rows" by simp
  have rows: "sst_swap_run gift_rows = Some gift_run" "rnw_intent gift_run = gift_intent" "rin_to_asset gift_intent = Some bought_asset"
      "asr_address bought_asset = Some bought"
    by (simp_all add: gift_rows_def gift_run_def gift_intent_def bought_asset_def)
  have "bought \<noteq> ''''" by (simp add: bought_def plain_address_def)
  with signed_tokens_are_vouched_for [OF gift_rows_fresh run u] u rows show ?thesis by auto
qed

end
