(* ===== verification/Settlement_Properties.thy ===== *)
theory Settlement_Properties
  imports Settlement_Sample Custody_Properties
begin

text \<open>
  The claims about the end of a route run: what a completed proof rests on, what the measured amounts
  mean, and what becomes of a receipt the chain contradicts.
\<close>

section \<open>Completion\<close>

text \<open>
  C3. Nothing is completed on a wallet's word: however approvals, reports and passes of the reconciler
  are mixed, a completed proof stands for a pass in which a reader answered, for every transaction of
  the proof, with a receipt of success for that transaction, asked for the run's own wallet; the result
  on the proof is the movement measured in the logs of those receipts, and every expected movement of a
  positive amount is in it.
\<close>

theorem nothing_completes_without_the_chain:
  assumes "custody_ok w s" and "\<forall>pid p. sst_proofs s pid = Some p \<longrightarrow> rpf_final_status p \<noteq> FinalCompleted"
    and "runs (settlement_step c w) s es t" and "sst_proofs t pid = Some p" and "rpf_final_status p = FinalCompleted"
  shows "\<exists>reader i. Settle reader i \<in> set es \<and> chain_completed c reader (rci_wallet_address i) p
    \<and> map_option (to_lower \<circ> rnw_wallet_address) (sst_swap_run t) = Some (to_lower (rci_wallet_address i))
    \<and> RouteProofV1Schema p
    \<and> (\<forall>expected \<in> set (exr_asset_changes (rpf_expected_result p)). \<forall>v. js_bigint (ach_amount_atomic expected) = Some v \<and> 0 < v \<longrightarrow>
         (\<exists>measured \<in> set (exr_asset_changes (the (rpf_actual_result p))). ach_direction measured = ach_direction expected
            \<and> asr_asset_id (ach_asset measured) = asr_asset_id (ach_asset expected)
            \<and> (\<exists>m > 0. js_bigint (ach_amount_atomic measured) = Some m)))"
proof -
  have "all_chain_completed c {} s" using assms(2) unfolding all_chain_completed_def by blast
  from run_chain_completed [OF assms(3) this] obtain reader wallet where a: "(reader, wallet) \<in> asked_in es"
      "chain_completed c reader wallet p" "map_option (to_lower \<circ> rnw_wallet_address) (sst_swap_run t) = Some (to_lower wallet)"
    using assms(4,5) unfolding all_chain_completed_def by blast
  from a(1) obtain e where e: "e \<in> set es" "asked_by e = Some (reader, wallet)" by (auto simp: asked_in_def)
  from e(2) obtain i where i: "e = Settle reader i" "wallet = rci_wallet_address i" by (cases e) auto
  have "sound_store (apw_hashing w) t"
    using settlement.runs_inv [OF assms(3,1)] by (simp add: custody_ok_def)
  then have "RouteProofV1Schema p" using assms(4) by (simp add: sound_store_def)
  moreover obtain measured where "rpf_actual_result p = Some measured"
      "missing_movement (exr_asset_changes (rpf_expected_result p)) (exr_asset_changes measured) = Inr False"
    using a(2) by (auto simp: chain_completed_def)
  ultimately show ?thesis using a e(1) i completed_moved_everything by (intro exI [of _ reader] exI [of _ i]) auto
qed

lemma nothing_completes_without_the_chain_witness:
  "\<exists>t p reader (i :: reconcile_input). runs (settlement_step sample_codec custody_world) sent_rows [Settle (chain_reader True) settle_input] t
     \<and> sst_proofs t ''b'' = Some p \<and> rpf_final_status p = FinalCompleted
     \<and> chain_completed sample_codec reader (rci_wallet_address i) p"
proof -
  obtain t q r where pass: "reconcile sample_codec plain_hashing (chain_reader True) sent_rows settle_input = (t, r)"
      and q: "sst_proofs t ''b'' = Some q" "rpf_final_status q = FinalCompleted"
    using sent_completes by blast
  have "apw_hashing custody_world = plain_hashing" by (simp add: custody_world_def)
  then have "settlement_step sample_codec custody_world sent_rows (Settle (chain_reader True) settle_input) t"
    using settlement_step.settled [of sample_codec custody_world sent_rows "chain_reader True" settle_input] pass by simp
  then have run: "runs (settlement_step sample_codec custody_world) sent_rows [Settle (chain_reader True) settle_input] t" by simp
  have "\<forall>pid p. sst_proofs sent_rows pid = Some p \<longrightarrow> rpf_final_status p \<noteq> FinalCompleted"
    by (simp add: sent_rows_fields sent_proof_def pending_gift_fields)
  from nothing_completes_without_the_chain [OF sent_rows_ok this run q]
  obtain reader and i :: reconcile_input where "chain_completed sample_codec reader (rci_wallet_address i) q" by blast
  with run q show ?thesis by blast
qed

section \<open>Measures\<close>

definition inbound :: "string \<Rightarrow> string \<Rightarrow> decoded_transfer list \<Rightarrow> int" where
  "inbound token wallet ts = sum_list (map dtr_value (filter (\<lambda>t. dtr_token t = token \<and> dtr_to t = wallet) ts))"

definition outbound :: "string \<Rightarrow> string \<Rightarrow> decoded_transfer list \<Rightarrow> int" where
  "outbound token wallet ts = sum_list (map dtr_value (filter (\<lambda>t. dtr_token t = token \<and> dtr_from t = wallet) ts))"

lemma net_is_sums: "netForToken token wallet ts = (outbound token wallet ts, inbound token wallet ts)"
  by (induction ts) (simp_all add: inbound_def outbound_def)

lemma removed_inbound: "m \<in> set ts \<Longrightarrow> inbound token wallet (remove1 m ts)
    = inbound token wallet ts - (if dtr_token m = token \<and> dtr_to m = wallet then dtr_value m else 0)"
  by (induction ts) (auto simp: inbound_def)

lemma removed_outbound: "m \<in> set ts \<Longrightarrow> outbound token wallet (remove1 m ts)
    = outbound token wallet ts - (if dtr_token m = token \<and> dtr_from m = wallet then dtr_value m else 0)"
  by (induction ts) (auto simp: outbound_def)

lemma net_in_sums: "net_in (netForToken token wallet ts) = max 0 (inbound token wallet ts - outbound token wallet ts)"
  by (simp add: net_in_def net_is_sums)

text \<open>What an approved contract wrapped or unwrapped in one log of the canonical wrapped ether.\<close>

definition weth_amount :: "string list \<Rightarrow> string \<Rightarrow> receipt_log \<Rightarrow> int option" where
  "weth_amount targets topic l =
     (case (topicAddressV1 (topic_at l 1), uintDataV1 (rlg_data l)) of
        (Some actor, Some amount) \<Rightarrow>
          if to_lower (rlg_address l) = CANONICAL_BASE_WETH \<and> actor \<in> set (map to_lower targets)
             \<and> map_option to_lower (topic_at l 0) = Some (to_lower topic)
          then Some amount else None
      | _ \<Rightarrow> None)"

definition weth_sum :: "string list \<Rightarrow> string \<Rightarrow> receipt_log list \<Rightarrow> int" where
  "weth_sum targets topic logs = sum_list (List.map_filter (weth_amount targets topic) logs)"

lemma weth_sum_simps [simp]:
  "weth_sum targets topic [] = 0"
  "weth_sum targets topic (l # ls) = (case weth_amount targets topic l of Some v \<Rightarrow> v | None \<Rightarrow> 0) + weth_sum targets topic ls"
  by (simp_all add: weth_sum_def List.map_filter_simps split: option.split)

lemma see_weth_log_amounts:
  "see_weth_log c (map to_lower targets) (w, u, seen) l =
     (w + (case weth_amount targets (WETH_DEPOSIT_TOPIC0 c) l of Some v \<Rightarrow> v | None \<Rightarrow> 0),
      u + (case weth_amount targets (WETH_WITHDRAWAL_TOPIC0 c) l of Some v \<Rightarrow> v | None \<Rightarrow> 0),
      seen \<or> weth_amount targets (WETH_DEPOSIT_TOPIC0 c) l \<noteq> None \<or> weth_amount targets (WETH_WITHDRAWAL_TOPIC0 c) l \<noteq> None)"
  by (cases "topicAddressV1 (topic_at l 1)"; cases "uintDataV1 (rlg_data l)"; cases "topic_at l 0")
    (simp_all add: see_weth_log_def weth_amount_def Let_def)

lemma see_weth_logs:
  "foldl (see_weth_log c (map to_lower targets)) (w, u, seen) logs =
     (w + weth_sum targets (WETH_DEPOSIT_TOPIC0 c) logs, u + weth_sum targets (WETH_WITHDRAWAL_TOPIC0 c) logs,
      seen \<or> (\<exists>l \<in> set logs. weth_amount targets (WETH_DEPOSIT_TOPIC0 c) l \<noteq> None
                 \<or> weth_amount targets (WETH_WITHDRAWAL_TOPIC0 c) l \<noteq> None))"
proof (induction logs arbitrary: w u seen)
  case Nil
  then show ?case by simp
next
  case (Cons l ls)
  show ?case unfolding foldl_Cons see_weth_log_amounts Cons.IH by (simp add: add.assoc)
qed

lemma native_is_sums:
  assumes "nativeMovementV1 c logs targets = Some net"
  shows "snd net = max 0 (weth_sum targets (WETH_WITHDRAWAL_TOPIC0 c) logs - weth_sum targets (WETH_DEPOSIT_TOPIC0 c) logs)
    \<and> targets \<noteq> [] \<and> (\<exists>l \<in> set logs. weth_amount targets (WETH_DEPOSIT_TOPIC0 c) l \<noteq> None
         \<or> weth_amount targets (WETH_WITHDRAWAL_TOPIC0 c) l \<noteq> None)"
  using assms by (auto simp: nativeMovementV1_def see_weth_logs Let_def split: if_split_asm)

text \<open>
  C34. The measured output of a swap is what the receipts show. For a token: what reached the wallet
  less what left it, and never less than nothing; a gift in the batch is in the receipts exactly once, as
  declared, and is counted with the output; without that one transfer nothing is measured. For ether,
  which leaves no log of its own: what the approved contracts unwrapped of the canonical wrapped ether
  less what they wrapped, and never less than nothing; without one such log nothing is measured, and
  with a gift neither.
\<close>

theorem measured_output_is_what_arrived:
  assumes "reconstructAssetChangesV1 c wallet expected logs targets gift = Reconstructed measured"
    and "find (\<lambda>x. ach_direction x = Credit) expected = Some out"
  shows "let ts = decodeTransferLogsV1 c logs; token = asset_token (ach_asset out); me = to_lower wallet;
             net = inbound token me ts - outbound token me ts;
             unwrapped = weth_sum targets (WETH_WITHDRAWAL_TOPIC0 c) logs; wrapped = weth_sum targets (WETH_DEPOSIT_TOPIC0 c) logs in
    if asr_kind (ach_asset out) = NativeKind
    then gift = None \<and> (\<exists>l \<in> set logs. weth_amount targets (WETH_DEPOSIT_TOPIC0 c) l \<noteq> None
           \<or> weth_amount targets (WETH_WITHDRAWAL_TOPIC0 c) l \<noteq> None)
      \<and> exr_output_amount_atomic measured = Some (show_int (max 0 (unwrapped - wrapped)))
    else case gift of
      None \<Rightarrow> exr_output_amount_atomic measured = Some (show_int (max 0 net))
    | Some g \<Rightarrow> \<exists>m. filter (\<lambda>t. dtr_token t = token \<and> dtr_from t = me \<and> dtr_to t = to_lower (gtr_recipient g)
          \<and> show_int (dtr_value t) = gtr_amount_atomic g) ts = [m]
        \<and> exr_output_amount_atomic measured
          = Some (show_int (max 0 (net + (if to_lower (gtr_recipient g) = me then 0 else dtr_value m))))"
proof -
  let ?ts = "decodeTransferLogsV1 c logs" and ?token = "asset_token (ach_asset out)" and ?me = "to_lower wallet"
  let ?input = "find (\<lambda>x. ach_direction x = Debit) expected"
  have swap: "reconstruct_swap c ?me out ?input logs targets gift = Reconstructed measured" and ok: "supportedAssetV1 (ach_asset out)"
    using assms(1,2) by (auto simp: reconstructAssetChangesV1_def Let_def split: if_split_asm option.split_asm)
  then obtain ts received where ts: "without_gift (ach_asset out) ?me gift ?ts = Some ts"
      and received: "amount_for ?me (nativeMovementV1 c logs targets) ts out Credit = Some received"
      and amount: "exr_output_amount_atomic measured = Some (show_int received)"
    by (auto simp: reconstruct_swap_def Let_def split: option.split_asm)
  show ?thesis
  proof (cases "asr_kind (ach_asset out) = NativeKind")
    case True
    then obtain net where "nativeMovementV1 c logs targets = Some net" "received = snd net"
      using received by (auto simp: amount_for_def)
    moreover have "gift = None" using True ts by (auto simp: without_gift_def split: option.split_asm)
    ultimately show ?thesis using native_is_sums [of c logs targets net] amount True by (simp add: Let_def)
  next
    case False
    then have kind: "asr_kind (ach_asset out) = Erc20Kind" by (cases "asr_kind (ach_asset out)") simp_all
    have net: "received = net_in (netForToken ?token ?me ts)" using received False by (simp add: amount_for_def Let_def)
    show ?thesis
    proof (cases gift)
      case None
      then have "ts = ?ts" using ts by (simp add: without_gift_def)
      then show ?thesis using None amount False net by (simp add: net_in_sums Let_def)
    next
      case (Some g)
      have token: "map_option to_lower (asr_address (ach_asset out)) = Some ?token"
        using ok kind by (auto simp: supportedAssetV1_def asset_token_def split: option.split_asm)
      obtain m where m: "gift_matches (Some ?token) ?me g ?ts = [m]" "ts = remove1 m ?ts"
        using ts Some token kind
        by (auto simp: without_gift_def Let_def split: if_split_asm list.split_asm)
      then have "m \<in> set (gift_matches (Some ?token) ?me g ?ts)" by simp
      then have own: "m \<in> set ?ts" "dtr_token m = ?token" "dtr_from m = ?me" "dtr_to m = to_lower (gtr_recipient g)"
        by (auto simp: gift_matches_def)
      have "net_in (netForToken ?token ?me ts) = max 0 (inbound ?token ?me ?ts - outbound ?token ?me ?ts
          + (if to_lower (gtr_recipient g) = ?me then 0 else dtr_value m))"
        using own by (simp add: net_in_sums m(2) removed_inbound removed_outbound algebra_simps)
      then show ?thesis using Some m(1) amount False net by (simp add: gift_matches_def Let_def)
    qed
  qed
qed

lemma measured_output_is_what_arrived_witness:
  "inbound bought giver (decodeTransferLogsV1 sample_codec [transfer_log ''a'', transfer_log ''b'']) = 9
   \<and> exr_output_amount_atomic gift_moved = Some ''9''"
proof -
  have lower: "asset_token bought_asset = bought" "to_lower giver = giver" "asr_kind bought_asset = Erc20Kind"
    by (simp_all add: asset_token_def bought_asset_def sample_addresses)
  have distinct: "friend \<noteq> giver" "giver \<noteq> friend" "pool \<noteq> giver"
    by (simp_all add: giver_def friend_def pool_def plain_address_eq)
  have out: "find (\<lambda>x. ach_direction x = Credit) (ebp_expected_asset_changes gift_blueprint)
      = Some \<lparr>ach_direction = Credit, ach_asset = bought_asset, ach_amount_atomic = ''9'', ach_minimum_amount_atomic = Some ''7''\<rparr>"
    by (simp add: gift_blueprint_def)
  have "inbound bought giver (decodeTransferLogsV1 sample_codec [transfer_log ''a'', transfer_log ''b'']) = 9"
    "outbound bought giver (decodeTransferLogsV1 sample_codec [transfer_log ''a'', transfer_log ''b'']) = 7"
    using distinct by (simp_all add: sample_transfers inbound_def outbound_def)
  then show ?thesis
    using measured_output_is_what_arrived [OF sample_reconstruction [of "[]"] out] distinct
    by (auto simp: lower sample_transfers sample_addresses small_numbers Let_def)
qed

lemma rounded_ratio_parts:
  assumes "0 < e" and n_def: "n = \<bar>d * 10000\<bar>"
  shows "\<exists>k. 0 \<le> k \<and> roundedRatioBpsV1 d e = sgn d * k \<and> 2 * \<bar>k * e - n\<bar> \<le> e \<and> (2 * \<bar>k * e - n\<bar> = e \<longrightarrow> n < k * e)"
proof -
  define q r where "q = n div e" and "r = n mod e"
  have n: "n = q * e + r" "0 \<le> r" "r < e" "0 \<le> q"
    using assms(1) by (simp_all add: q_def r_def n_def pos_imp_zdiv_nonneg_iff)
  define k where "k = (if 2 * r \<ge> e then q + 1 else q)"
  have "k * e - n = (if 2 * r \<ge> e then e - r else - r)" using n(1) by (simp add: k_def algebra_simps)
  then have near: "2 * \<bar>k * e - n\<bar> \<le> e" "2 * \<bar>k * e - n\<bar> = e \<Longrightarrow> n < k * e"
    using n(2,3) by (auto split: if_split_asm)
  have "roundedRatioBpsV1 d e = sgn d * k"
  proof (cases "d = 0")
    case True
    then show ?thesis using assms(1) by (simp add: roundedRatioBpsV1_def)
  next
    case False
    have "(if d * 10000 < 0 then - (d * 10000) else d * 10000) = n" by (simp add: n_def)
    then show ?thesis
      using False assms(1)
      by (cases "d < 0") (simp_all add: roundedRatioBpsV1_def Let_def k_def q_def r_def mult.commute [of _ "2::int"])
  qed
  then show ?thesis using near n(4) by (intro exI [of _ k]) (auto simp: k_def)
qed

text \<open>
  The deviation of an output is the nearest whole number of basis points to its exact relative
  difference, with halves rounded away from zero; an output of any size deviates by at least -10,000;
  and the minimum is satisfied exactly when the output reaches it.
\<close>

theorem deviation_is_the_nearest_basis_point:
  assumes "js_bigint expected = Some e" and "js_bigint actual = Some a" and "js_bigint minimum = Some m" and "0 < e" and "0 \<le> a"
  shows "\<exists>bps. computeRouteProofDeviationV1 (Some expected) (Some actual) (Some minimum) = Inr (Some bps, Some (m \<le> a))
    \<and> 2 * \<bar>bps * e - 10000 * (a - e)\<bar> \<le> e \<and> -10000 \<le> bps
    \<and> (2 * \<bar>bps * e - 10000 * (a - e)\<bar> = e \<longrightarrow> 10000 * \<bar>a - e\<bar> < \<bar>bps\<bar> * e)"
proof -
  let ?d = "a - e"
  obtain k where k: "0 \<le> k" "roundedRatioBpsV1 ?d e = sgn ?d * k" "2 * \<bar>k * e - \<bar>?d * 10000\<bar>\<bar> \<le> e"
      "2 * \<bar>k * e - \<bar>?d * 10000\<bar>\<bar> = e \<longrightarrow> \<bar>?d * 10000\<bar> < k * e"
    using rounded_ratio_parts [OF assms(4) refl, of ?d] by blast
  have scaled: "sgn ?d * k * e - 10000 * ?d = sgn ?d * (k * e - \<bar>?d * 10000\<bar>)" if "?d \<noteq> 0"
    using that by (cases "?d < 0") (simp_all add: algebra_simps)
  have near: "2 * \<bar>sgn ?d * k * e - 10000 * ?d\<bar> \<le> e" "2 * \<bar>sgn ?d * k * e - 10000 * ?d\<bar> = e \<Longrightarrow> 10000 * \<bar>?d\<bar> < \<bar>sgn ?d * k\<bar> * e"
  proof -
    have size: "\<bar>sgn ?d * k * e - 10000 * ?d\<bar> = \<bar>k * e - \<bar>?d * 10000\<bar>\<bar> \<and> \<bar>sgn ?d * k\<bar> = k" if "?d \<noteq> 0"
      using scaled [OF that] that k(1) by (simp add: abs_mult)
    show "2 * \<bar>sgn ?d * k * e - 10000 * ?d\<bar> \<le> e" using size k(3) assms(4) by (cases "?d = 0") simp_all
    show "10000 * \<bar>?d\<bar> < \<bar>sgn ?d * k\<bar> * e" if "2 * \<bar>sgn ?d * k * e - 10000 * ?d\<bar> = e"
    proof (cases "?d = 0")
      case True
      then show ?thesis using that assms(4) by simp
    next
      case False
      note size [OF this]
      then have less: "\<bar>?d * 10000\<bar> < k * e" and same: "\<bar>sgn ?d * k\<bar> * e = k * e" using that k(4) by simp_all
      have scale: "10000 * \<bar>x\<bar> = \<bar>x * 10000\<bar>" for x :: int by (simp add: abs_mult)
      show ?thesis unfolding same scale [of ?d] by (rule less)
    qed
  qed
  have "-10000 \<le> sgn ?d * k"
  proof (rule ccontr)
    assume "\<not> -10000 \<le> sgn ?d * k"
    then have "(sgn ?d * k) * e \<le> -10001 * e" using assms(4) by (intro mult_right_mono) auto
    then show False using near(1) assms(4,5) by (auto simp: abs_le_iff algebra_simps)
  qed
  then show ?thesis
    using near assms(1-4)
    by (simp add: computeRouteProofDeviationV1_def output_bps_def minimum_satisfied_def js_BigInt_def k(2))
qed

lemma deviation_is_the_nearest_basis_point_witness:
  "\<exists>bps. computeRouteProofDeviationV1 (Some ''9'') (Some ''7'') (Some ''7'') = Inr (Some bps, Some True) \<and> 2 * \<bar>bps * 9 + 20000\<bar> \<le> 9"
  using deviation_is_the_nearest_basis_point [of "''9''" 9 "''7''" 7 "''7''" 7] by (auto simp: small_numbers algebra_simps)

section \<open>Conflicts\<close>

lemma conflict_settles:
  assumes "v \<in> set vs" and "vrf_conflict v \<noteq> None"
  shows "settle c wallet p vs = Inr (unmeasured FinalReconciliationRequired ManualReview)"
proof -
  have "list_ex (\<lambda>v. vrf_conflict v \<noteq> None) vs" unfolding list_ex_iff using assms by blast
  then show ?thesis by (simp add: settle_def Let_def)
qed

lemma conflict_is_told:
  assumes "v \<in> set vs" and "vrf_conflict v \<noteq> None" and "pev_payload e = updated_payload p st vs"
  shows "tells_conflict e"
proof -
  have "filter (\<lambda>v. vrf_conflict v \<noteq> None) vs \<noteq> []" using assms(1,2) unfolding filter_empty_conv by blast
  then obtain x xs where x: "filter (\<lambda>v. vrf_conflict v \<noteq> None) vs = x # xs" by (auto simp: neq_Nil_conv)
  show ?thesis
    unfolding tells_conflict_def assms(3) updated_payload_def x Let_def by (simp add: json_field_def json_items_def)
qed

lemma observed_tells_no_conflict: "pev_payload e = observed_payload vs \<Longrightarrow> \<not> tells_conflict e"
  by (simp add: tells_conflict_def observed_payload_def json_field_def json_items_def)

lemma told_conflict_is_final:
  assumes "rpf_final_status q = FinalReconciliationRequired" and "rpf_reconciliation_state q = ManualReview"
    and "e \<in> set es" and "tells_conflict e"
  shows "finalized_already q es"
  using assms by (auto simp: finalized_already_def legacyReconstructionRetryEligibleV1_def list_ex_iff)

lemma finalized_stays:
  assumes "sst_proofs t (rci_proof_id j) = Some q" and "finalized_already q (sst_events t (rpf_id q))"
  shows "fst (reconcile c h reader t j) = t"
  using assms by (auto simp: reconcile_def Let_def split: sum.split dest: reconcile_binding_found)

abbreviation under_review :: settlement where
  "under_review \<equiv> unmeasured FinalReconciliationRequired ManualReview"

lemma under_review_reads: "stl_final_status under_review = FinalReconciliationRequired" "stl_state under_review = ManualReview"
    "stl_actual_result under_review = None"
  by (simp_all add: unmeasured_def)

text \<open>What is told of the receipts before the update is.\<close>

definition told_receipts :: "hashing \<Rightarrow> int \<Rightarrow> route_proof \<Rightarrow> verification list \<Rightarrow> proof_event list \<Rightarrow> proof_event list" where
  "told_receipts h now p vs es =
     (if receiptsEqualV1 (rpf_receipts p) (merge_verified (rpf_receipts p) vs) then es
      else appendProofEventIfNewV1 h (rpf_id p) es ReceiptObserved (observed_payload vs) now)"

lemma told_receipts_adds:
  "x \<in> set (told_receipts h now p vs es) \<Longrightarrow> x \<in> set es \<or> pev_event_type x = ReceiptObserved \<and> pev_payload x = observed_payload vs"
  by (auto simp: told_receipts_def appendProofEventIfNewV1_def nextRouteProofEventV1_def split: if_split_asm option.split_asm)

lemma told_receipts_chained: "chained h (rpf_id p) es \<Longrightarrow> chained h (rpf_id p) (told_receipts h now p vs es)"
  by (simp add: told_receipts_def appended_is_chained)

text \<open>The rows after a pass that met a conflict.\<close>

lemma conflict_pass:
  assumes "sound_store h s" and "reconcile_binding h s i = Inr (p, b)" and "\<not> finalized_already p (sst_events s (rpf_id p))"
    and "rpf_created_at p \<le> rci_now i" and "verifyTransactionReceiptsV1 reader (rpf_receipts p) (rpf_transaction_hashes p) = Inr vs"
    and "v \<in> set vs" and "vrf_conflict v \<noteq> None"
  shows "fst (reconcile c h reader s i) = s\<lparr>sst_proofs := (sst_proofs s)(rpf_id p := Some (reconciled_proof p (rci_wallet_address i) (rci_now i) vs under_review)),
      sst_events := (sst_events s)(rpf_id p := reconcile_events h (rci_now i) p under_review vs (sst_events s (rpf_id p)))\<rparr>"
    "chained h (rpf_id p) (sst_events s (rpf_id p))"
proof -
  note found = reconcile_binding_found [OF assms(2)]
  have sound: "RouteProofV1Schema p" "chained h (rpf_id p) (sst_events s (rpf_id p))"
    using assms(1) found(1) by (auto simp: sound_store_def)
  have hashes: "rpf_transaction_hashes p \<noteq> []" using verified_all(1) [OF assms(5)] assms(6) by auto
  note settled = conflict_settles [OF assms(6,7), of c "rci_wallet_address i" p]
  have "RouteProofV1Schema (reconciled_proof p (rci_wallet_address i) (rci_now i) vs under_review)"
    by (rule reconciled_schema [OF sound(1) found(6) hashes assms(3,5) settled assms(4)])
  then show "fst (reconcile c h reader s i) = s\<lparr>sst_proofs := (sst_proofs s)(rpf_id p := Some (reconciled_proof p (rci_wallet_address i) (rci_now i) vs under_review)),
      sst_events := (sst_events s)(rpf_id p := reconcile_events h (rci_now i) p under_review vs (sst_events s (rpf_id p)))\<rparr>"
    using assms(2,3,5) hashes settled by (simp add: reconcile_def settle_pass_def Let_def)
  show "chained h (rpf_id p) (sst_events s (rpf_id p))" by (rule sound(2))
qed

lemma conflict_keeps_receipt:
  assumes "v \<in> set vs" and "vrf_conflict v \<noteq> None" and "receipt_by_hash (rpf_receipts p) (vrf_transaction_hash v) = Some e"
  shows "e \<in> set (rpf_receipts (reconciled_proof p wallet now vs st))"
proof -
  have "merged_receipt (rpf_receipts p) v = e" using assms(2,3) by (auto simp: merged_receipt_def)
  then show ?thesis using assms(1) by (auto simp: merge_verified_def)
qed

text \<open>A proof that was not under review remembers the conflict, one that was does not.\<close>

lemma conflict_is_remembered:
  assumes "chained h (rpf_id p) es" and "collision_free h s" and "es = sst_events s (rpf_id p)" and "rpf_reconciliation_state p \<noteq> ManualReview"
    and "v \<in> set vs" and "vrf_conflict v \<noteq> None"
  shows "finalized_already (reconciled_proof p wallet now vs under_review) (reconcile_events h now p under_review vs es)"
proof -
  let ?new = "reconcile_events h now p under_review vs es"
  have new: "?new = appendProofEventIfNewV1 h (rpf_id p) (told_receipts h now p vs es) ReconciliationUpdated (updated_payload p under_review vs) now"
    using assms(4) by (simp add: reconcile_events_def told_receipts_def under_review_reads Let_def)
  have "pev_payload x = updated_payload p under_review vs"
    if "x \<in> set (told_receipts h now p vs es)" "pev_event_type x = ReconciliationUpdated"
      "hsh_payload h (pev_payload x) = hsh_payload h (updated_payload p under_review vs)" for x
    using told_receipts_adds [OF that(1)] that(2,3) assms(2) unfolding collision_free_def assms(3) by auto
  then have "\<forall>x \<in> set (told_receipts h now p vs es). pev_event_type x = ReconciliationUpdated
      \<and> hsh_payload h (pev_payload x) = hsh_payload h (updated_payload p under_review vs) \<longrightarrow> pev_payload x = updated_payload p under_review vs"
    by blast
  then obtain x where "x \<in> set ?new" "pev_payload x = updated_payload p under_review vs"
    unfolding new using appended_says told_receipts_chained [OF assms(1)] by blast
  then show ?thesis using conflict_is_told [OF assms(5,6)] by (intro told_conflict_is_final) (simp_all add: under_review_reads)
qed

lemma retry_forgets_conflict:
  assumes "\<not> finalized_already p es" and "rpf_reconciliation_state p = ManualReview"
    and "verifyTransactionReceiptsV1 reader (rpf_receipts p) (rpf_transaction_hashes p) = Inr vs" and "vs \<noteq> []"
    and "\<forall>x \<in> set vs. vrf_conflict x = None \<longrightarrow> rct_status (vrf_receipt x) = ReceiptSuccess"
  shows "\<not> finalized_already (reconciled_proof p wallet now vs under_review) (reconcile_events h now p under_review vs es)"
proof -
  let ?new = "reconcile_events h now p under_review vs es" and ?q = "reconciled_proof p wallet now vs under_review"
  note vs = verified_all [OF assms(3)]
  have old: "legacyReconstructionRetryEligibleV1 p es" using assms(1,2) by (auto simp: finalized_already_def)
  have new: "?new = told_receipts h now p vs es"
    using assms(2) old by (simp add: reconcile_events_def told_receipts_def under_review_reads legacyReconstructionRetryEligibleV1_def Let_def)
  have "\<not> tells_conflict x" if "x \<in> set ?new" for x
    using told_receipts_adds [OF that [unfolded new]] old observed_tells_no_conflict
    by (auto simp: legacyReconstructionRetryEligibleV1_def list_ex_iff)
  moreover have "rct_status r = ReceiptSuccess" if "r \<in> set (rpf_receipts ?q)" for r
  proof -
    from that obtain x where x: "x \<in> set vs" "r = merged_receipt (rpf_receipts p) x" by (auto simp: merge_verified_def)
    show ?thesis
    proof (cases "vrf_conflict x = None")
      case True
      then show ?thesis using x assms(5) by (simp add: merged_receipt_def)
    next
      case False
      then obtain y where "receipt_by_hash (rpf_receipts p) (vrf_transaction_hash x) = Some y"
        using vs(2) [OF x(1)] by (auto simp: verified_ok_def)
      then show ?thesis using False x(2) old
        by (auto simp: merged_receipt_def legacyReconstructionRetryEligibleV1_def list_all_iff dest: receipt_by_hash_mem)
    qed
  qed
  moreover have "rpf_receipts ?q \<noteq> []" using assms(4) by (auto simp: merge_verified_def)
  ultimately have "legacyReconstructionRetryEligibleV1 ?q ?new"
    using old by (simp add: legacyReconstructionRetryEligibleV1_def list_all_iff list_ex_iff under_review_reads)
  then show ?thesis by (simp add: finalized_already_def ROUTE_PROOF_TERMINAL_FINAL_STATUSES_def under_review_reads)
qed

text \<open>
  C18. A receipt that was verified is not forgotten: when the chain later answers the opposite, the
  first receipt stays on the proof, the proof goes to manual review, and from then on no pass of the
  reconciler, whatever its reader answers, changes anything. The exception is a proof that was under
  review already and is retried under the rule for old reconstructions: a conflict seen by such a retry
  leaves no trace, and when its other receipts are successes the next pass may retry again.
\<close>

theorem receipt_conflict_is_final:
  assumes "sound_store h s" and "collision_free h s" and "reconcile_binding h s i = Inr (p, b)"
    and "\<not> finalized_already p (sst_events s (rpf_id p))" and "rpf_created_at p \<le> rci_now i"
    and "verifyTransactionReceiptsV1 reader (rpf_receipts p) (rpf_transaction_hashes p) = Inr vs"
    and "v \<in> set vs" and "vrf_conflict v \<noteq> None"
  shows "\<exists>q earlier. let t = fst (reconcile c h reader s i) in
    sst_proofs t (rpf_id p) = Some q \<and> rpf_final_status q = FinalReconciliationRequired \<and> rpf_reconciliation_state q = ManualReview
    \<and> earlier \<in> set (rpf_receipts p) \<and> earlier \<in> set (rpf_receipts q)
    \<and> rct_transaction_hash earlier = vrf_transaction_hash v \<and> rct_status earlier \<noteq> rct_status (vrf_receipt v)
    \<and> (if rpf_reconciliation_state p \<noteq> ManualReview
       then \<forall>reader' j. rci_proof_id j = rpf_id p \<longrightarrow> fst (reconcile c h reader' t j) = t
       else (\<forall>x \<in> set vs. vrf_conflict x = None \<longrightarrow> rct_status (vrf_receipt x) = ReceiptSuccess)
         \<longrightarrow> \<not> finalized_already q (sst_events t (rpf_id p)))"
proof -
  let ?q = "reconciled_proof p (rci_wallet_address i) (rci_now i) vs under_review" and ?t = "fst (reconcile c h reader s i)"
  let ?new = "reconcile_events h (rci_now i) p under_review vs (sst_events s (rpf_id p))"
  note pass = conflict_pass [OF assms(1,3-8)]
  obtain e where e: "receipt_by_hash (rpf_receipts p) (vrf_transaction_hash v) = Some e" "rct_status e \<noteq> rct_status (vrf_receipt v)"
    using verified_all(2) [OF assms(6,7)] assms(8) by (auto simp: verified_ok_def)
  have rows: "sst_proofs ?t (rpf_id p) = Some ?q" "sst_events ?t (rpf_id p) = ?new" by (simp_all add: pass(1))
  have "fst (reconcile c h reader' ?t j) = ?t" if "rpf_reconciliation_state p \<noteq> ManualReview" "rci_proof_id j = rpf_id p" for reader' j
    using conflict_is_remembered [OF pass(2) assms(2) refl that(1) assms(7,8)] that(2) rows
    by (intro finalized_stays [of _ _ ?q]) simp_all
  moreover have "vs \<noteq> []" using assms(7) by auto
  note retry_forgets_conflict [OF assms(4) _ assms(6) this]
  ultimately show ?thesis
    using rows under_review_reads e(2) conflict_keeps_receipt [OF assms(7,8) e(1)] receipt_by_hash_mem [OF e(1)]
    by (intro exI [of _ ?q] exI [of _ e]) (simp add: Let_def)
qed

lemma receipt_conflict_is_final_witness:
  "\<exists>q. sst_proofs (fst (reconcile sample_codec plain_hashing (chain_reader False) told_rows settle_input)) ''b'' = Some q
     \<and> rpf_reconciliation_state q = ManualReview
     \<and> (\<forall>reader' j. rci_proof_id j = ''b'' \<longrightarrow>
          fst (reconcile sample_codec plain_hashing reader' (fst (reconcile sample_codec plain_hashing (chain_reader False) told_rows settle_input)) j)
            = fst (reconcile sample_codec plain_hashing (chain_reader False) told_rows settle_input))"
proof -
  have i: "rpf_created_at told_proof \<le> rci_now settle_input" by (simp add: told_proof_fields settle_input_def)
  have free: "collision_free plain_hashing told_rows" by (simp add: collision_free_def told_rows_fields)
  have new: "rpf_id told_proof = ''b''" "rpf_reconciliation_state told_proof \<noteq> ManualReview" by (simp_all add: told_proof_fields)
  have "told_verification \<in> set [told_verification]" "vrf_conflict told_verification \<noteq> None"
    by (simp_all add: told_verification_def)
  from receipt_conflict_is_final [OF told_rows_sound free told_bound told_open i told_verified this, of sample_codec]
  show ?thesis unfolding new(1) Let_def using new(2) by auto
qed

end
