(* ===== verification/Route_Rows.thy ===== *)
theory Route_Rows
  imports Submission Guarded_Steps "HOL-Library.Char_ord" "HOL-Library.List_Lexorder"
begin

text \<open>
  The rows a preparation reads and writes: quoted candidates, evidence records, evidence sets and
  blueprints, as lib/route-domain/src/route-contracts.ts describes them and as the tables of
  lib/route-storage/src/memory.ts take them. One route run of one tenant is meant throughout. Every
  table is append-only: a row is added once, the same row again changes nothing, and another row under a
  known id or hash is a conflict.
\<close>

section \<open>Append-only tables\<close>

datatype storage_error = StorageConflict string | StorageIntegrity string

definition insert_row ::
  "('a \<Rightarrow> string) \<Rightarrow> ('a \<Rightarrow> string) \<Rightarrow> string \<Rightarrow> 'a \<Rightarrow> 'a list \<Rightarrow> storage_error + 'a list" where
  "insert_row ident digest what row rows =
     (case (case find (\<lambda>r. ident r = ident row) rows of Some r \<Rightarrow> Some r | None \<Rightarrow> find (\<lambda>r. digest r = digest row) rows) of
        Some r \<Rightarrow> if r = row then Inr rows else Inl (StorageConflict what)
      | None \<Rightarrow> Inr (rows @ [row]))"

definition keyed :: "('a \<Rightarrow> string) \<Rightarrow> ('a \<Rightarrow> string) \<Rightarrow> 'a list \<Rightarrow> bool" where
  "keyed ident digest rs \<longleftrightarrow> distinct (map ident rs) \<and> distinct (map digest rs)"

text \<open>What a table promises the coordinator.\<close>

locale row_table =
  fixes ident :: "'a \<Rightarrow> string" and digest :: "'a \<Rightarrow> string" and put :: "'a \<Rightarrow> 'a list \<Rightarrow> storage_error + 'a list"
  assumes put_shape: "put r rs = Inr ts \<Longrightarrow> (ts = rs \<and> r \<in> set rs)
      \<or> (ts = rs @ [r] \<and> ident r \<notin> ident ` set rs \<and> digest r \<notin> digest ` set rs)"
    and put_again: "put r rs = Inr ts \<Longrightarrow> distinct (map ident ts) \<Longrightarrow> put r ts = Inr ts"
begin

lemma put_adds: "put r rs = Inr ts \<Longrightarrow> set ts = insert r (set rs)"
  by (drule put_shape) auto

lemma put_has: "put r rs = Inr ts \<Longrightarrow> r \<in> set ts"
  by (simp add: put_adds)

lemma put_keeps: "put r rs = Inr ts \<Longrightarrow> set rs \<subseteq> set ts"
  by (simp add: put_adds subset_insertI)

lemma put_keyed: "put r rs = Inr ts \<Longrightarrow> keyed ident digest rs \<Longrightarrow> keyed ident digest ts"
proof -
  assume p: "put r rs = Inr ts" and k: "keyed ident digest rs"
  from put_shape [OF p] show "keyed ident digest ts"
  proof
    assume "ts = rs \<and> r \<in> set rs"
    with k show ?thesis by simp
  next
    assume "ts = rs @ [r] \<and> ident r \<notin> ident ` set rs \<and> digest r \<notin> digest ` set rs"
    with k show ?thesis unfolding keyed_def by (simp only: map_append distinct_append set_map) simp
  qed
qed

lemma put_twice: "put r rs = Inr ts \<Longrightarrow> keyed ident digest rs \<Longrightarrow> put r ts = Inr ts"
  using put_keyed [of r rs ts] by (intro put_again [of r rs]) (simp_all add: keyed_def)

lemma find_digest: "keyed ident digest rs \<Longrightarrow> r \<in> set rs \<Longrightarrow> find (\<lambda>x. digest x = digest r) rs = Some r"
  by (induction rs) (auto simp: keyed_def image_iff)

lemma find_ident: "keyed ident digest rs \<Longrightarrow> r \<in> set rs \<Longrightarrow> find (\<lambda>x. ident x = ident r) rs = Some r"
  by (induction rs) (auto simp: keyed_def image_iff)

end

lemma insert_row_shape:
  "insert_row ident digest what r rs = Inr ts \<Longrightarrow> (ts = rs \<and> r \<in> set rs)
      \<or> (ts = rs @ [r] \<and> ident r \<notin> ident ` set rs \<and> digest r \<notin> digest ` set rs)"
  by (auto simp: insert_row_def find_None_iff find_Some_iff image_iff split: option.split_asm if_split_asm)

lemma insert_row_again:
  assumes "insert_row ident digest what r rs = Inr ts" and "distinct (map ident ts)"
  shows "insert_row ident digest what r ts = Inr ts"
proof -
  have "r \<in> set ts" using insert_row_shape [OF assms(1)] by auto
  then have "find (\<lambda>x. ident x = ident r) ts = Some r"
    using assms(2) by (induction ts) (auto simp: image_iff)
  then show ?thesis by (simp add: insert_row_def)
qed

section \<open>Candidates and evidence\<close>

datatype source_independence = Independent | Overlapping | IndependenceUnknown

record provider_candidate =
  pcd_id :: string
  pcd_intent_hash :: string
  pcd_candidate_hash :: string
  pcd_provider_id :: string
  pcd_input_amount :: token_amount
  pcd_expected_output :: token_amount
  pcd_minimum_output :: token_amount
  pcd_quote_expires_at :: string
  pcd_source_keys :: "string list"
  pcd_source_independence :: source_independence

record evidence_record =
  evd_id :: string
  evd_wallet_address :: string
  evd_chain_id :: int
  evd_intent_hash :: string
  evd_candidate_hash :: string
  evd_evidence_hash :: string
  evd_evidence_type :: string
  evd_provider_id :: string
  evd_source_keys :: "string list"

record liquidity_overlap =
  lov_source_key :: string
  lov_evidence_ids :: "string list"
  lov_provider_ids :: "string list"

record evidence_set =
  evs_id :: string
  evs_wallet_address :: string
  evs_chain_id :: int
  evs_intent_hash :: string
  evs_candidate_hash :: string
  evs_evidence_set_hash :: string
  evs_records :: "evidence_record list"
  evs_required_evidence :: "string list"
  evs_source_independence :: source_independence
  evs_overlap_groups :: "liquidity_overlap list"

text \<open>The sources more than one provider drew on; texts are compared by code unit, as \<open>sort()\<close> does.\<close>

definition findLiquidityOverlapsV1 :: "evidence_record list \<Rightarrow> liquidity_overlap list" where
  "findLiquidityOverlapsV1 records =
     filter (\<lambda>g. 1 < length (lov_provider_ids g))
       (map (\<lambda>key. let drawn = filter (\<lambda>r. key \<in> set (evd_source_keys r)) records in
           \<lparr>lov_source_key = key, lov_evidence_ids = sort (remdups (map evd_id drawn)),
            lov_provider_ids = sort (remdups (map evd_provider_id drawn))\<rparr>)
         (sort (remdups (concat (map evd_source_keys records)))))"

text \<open>
  The schema of an evidence set whose status is \<open>complete\<close>. Its content hash is a parameter; that it
  does not read the field it fills is the package's.
\<close>

definition EvidenceSetV1Schema :: "(evidence_set \<Rightarrow> string) \<Rightarrow> evidence_set \<Rightarrow> bool" where
  "EvidenceSetV1Schema hash v \<longleftrightarrow>
     evs_evidence_set_hash v = hash v
     \<and> distinct (map evd_evidence_hash (evs_records v)) \<and> sorted (map evd_evidence_hash (evs_records v))
     \<and> list_all (\<lambda>r. evd_intent_hash r = evs_intent_hash v \<and> evd_candidate_hash r = evs_candidate_hash v
          \<and> evd_wallet_address r = evs_wallet_address v \<and> evd_chain_id r = evs_chain_id v) (evs_records v)
     \<and> evs_overlap_groups v = findLiquidityOverlapsV1 (evs_records v)
     \<and> (evs_overlap_groups v \<noteq> [] \<longrightarrow> evs_source_independence v = Overlapping)
     \<and> distinct (evs_required_evidence v)"

section \<open>Blueprints\<close>

text \<open>
  The schema of a blueprint in the form its transforms leave: a draft spelled otherwise does not hash
  to what it declares once it is transformed, and is refused. \<open>canonical\<close> is the spelling of an instant
  that \<open>toISOString\<close> gives.
\<close>

definition ExecutionBlueprintV1Schema ::
  "(execution_blueprint \<Rightarrow> string) \<Rightarrow> (execution_call list \<Rightarrow> string) \<Rightarrow> (string \<Rightarrow> int option) \<Rightarrow> (string \<Rightarrow> bool)
   \<Rightarrow> execution_blueprint \<Rightarrow> bool" where
  "ExecutionBlueprintV1Schema hash_blueprint hash_calls parse canonical b \<longleftrightarrow>
     ebp_id b \<noteq> '''' \<and> length (ebp_id b) \<le> 200 \<and> ADDRESS (ebp_wallet_address b)
     \<and> ebp_created_at b \<le> ebp_updated_at b
     \<and> ebp_blueprint_hash b = hash_blueprint b \<and> ebp_calls_hash b = hash_calls (ebp_calls b)
     \<and> (case ebp_approved_calls_hash b of Some h \<Rightarrow> h = hash_calls (ebp_calls b) | None \<Rightarrow> ebp_status b \<noteq> BlueprintApproved)
     \<and> 1 \<le> length (ebp_calls b) \<and> length (ebp_calls b) \<le> 100
     \<and> list_all ExecutionCallV1Schema (ebp_calls b) \<and> map exc_index (ebp_calls b) = map int [0..<length (ebp_calls b)]
     \<and> list_all (\<lambda>c. case exc_asset c of Some a \<Rightarrow> asr_chain_id a = 8453 | None \<Rightarrow> True) (ebp_calls b)
     \<and> ebp_expected_asset_changes b \<noteq> []
     \<and> list_all (\<lambda>c. AssetRefV1Schema (ach_asset c) \<and> asr_chain_id (ach_asset c) = 8453 \<and> AtomicAmountV1Schema (ach_amount_atomic c)
          \<and> (case ach_minimum_amount_atomic c of Some m \<Rightarrow> AtomicAmountV1Schema m | None \<Rightarrow> True)) (ebp_expected_asset_changes b)
     \<and> list_all (\<lambda>r. AssetRefV1Schema (rqa_asset r) \<and> ADDRESS (rqa_spender r) \<and> AtomicAmountV1Schema (rqa_amount_atomic r))
          (ebp_required_approvals b)
     \<and> canonical (ebp_quote_expiry b)
     \<and> (case parse (ebp_quote_expiry b) of Some t \<Rightarrow> ebp_created_at b < t | None \<Rightarrow> True)"

section \<open>The tables\<close>

definition assertLinkedHash :: "string \<Rightarrow> string \<Rightarrow> string \<Rightarrow> storage_error + unit" where
  "assertLinkedHash actual expected field = (if actual = expected then Inr () else Inl (StorageIntegrity field))"

definition insertCandidate ::
  "string \<Rightarrow> provider_candidate \<Rightarrow> provider_candidate list \<Rightarrow> storage_error + provider_candidate list" where
  "insertCandidate run_intent c rows =
     (case assertLinkedHash (pcd_intent_hash c) run_intent ''candidate.intentHash'' of Inl e \<Rightarrow> Inl e
      | Inr _ \<Rightarrow> insert_row pcd_id pcd_candidate_hash ''Candidate ID or run-scoped candidate hash already has different content'' c rows)"

text \<open>A row of the evidence and evidence set tables is kept with the candidate it belongs to.\<close>

definition insertEvidence ::
  "string \<Rightarrow> provider_candidate list \<Rightarrow> string \<times> evidence_record \<Rightarrow> (string \<times> evidence_record) list
   \<Rightarrow> storage_error + (string \<times> evidence_record) list" where
  "insertEvidence run_intent candidates e rows =
     (case assertLinkedHash (evd_intent_hash (snd e)) run_intent ''evidence.intentHash'' of Inl err \<Rightarrow> Inl err
      | Inr _ \<Rightarrow>
     (case find (\<lambda>c. pcd_id c = fst e) candidates of
        None \<Rightarrow> Inl (StorageIntegrity ''Candidate does not belong to the Route Run'')
      | Some c \<Rightarrow>
     (case assertLinkedHash (evd_candidate_hash (snd e)) (pcd_candidate_hash c) ''evidence.candidateHash'' of Inl err \<Rightarrow> Inl err
      | Inr _ \<Rightarrow> insert_row (evd_id \<circ> snd) (evd_evidence_hash \<circ> snd)
          ''Evidence ID or run-scoped evidence hash already has different content'' e rows)))"

definition insertEvidenceSet ::
  "(evidence_set \<Rightarrow> string) \<Rightarrow> string \<Rightarrow> provider_candidate list \<Rightarrow> (string \<times> evidence_record) list \<Rightarrow> string \<times> evidence_set
   \<Rightarrow> (string \<times> evidence_set) list \<Rightarrow> storage_error + (string \<times> evidence_set) list" where
  "insertEvidenceSet hash run_intent candidates evidence v rows =
     (if \<not> EvidenceSetV1Schema hash (snd v) then Inl (StorageIntegrity ''evidence set'')
      else (case assertLinkedHash (evs_intent_hash (snd v)) run_intent ''evidenceSet.intentHash'' of Inl e \<Rightarrow> Inl e
      | Inr _ \<Rightarrow>
     (case find (\<lambda>c. pcd_id c = fst v) candidates of
        None \<Rightarrow> Inl (StorageIntegrity ''Candidate does not belong to the Route Run'')
      | Some c \<Rightarrow>
     (case assertLinkedHash (evs_candidate_hash (snd v)) (pcd_candidate_hash c) ''evidenceSet.candidateHash'' of Inl e \<Rightarrow> Inl e
      | Inr _ \<Rightarrow>
          if list_all (\<lambda>r. list_ex (\<lambda>e. evd_evidence_hash (snd e) = evd_evidence_hash r) evidence) (evs_records (snd v))
          then insert_row (evs_id \<circ> snd) (evs_evidence_set_hash \<circ> snd)
            ''Evidence Set ID or run-scoped hash already has different content'' v rows
          else Inl (StorageIntegrity ''Evidence Set references an unstored evidence record'')))))"

definition insertBlueprint ::
  "(execution_blueprint \<Rightarrow> bool) \<Rightarrow> string \<Rightarrow> provider_candidate list \<Rightarrow> (string \<times> evidence_set) list \<Rightarrow> execution_blueprint
   \<Rightarrow> execution_blueprint list \<Rightarrow> storage_error + execution_blueprint list" where
  "insertBlueprint schema run_intent candidates sets b rows =
     (if \<not> schema b then Inl (StorageIntegrity ''blueprint'')
      else (case assertLinkedHash (ebp_intent_hash b) run_intent ''blueprint.intentHash'' of Inl e \<Rightarrow> Inl e
      | Inr _ \<Rightarrow>
     (case (find (\<lambda>c. pcd_candidate_hash c = ebp_selected_candidate_hash b) candidates,
            find (\<lambda>v. evs_evidence_set_hash (snd v) = ebp_evidence_set_hash b) sets) of
        (Some c, Some v) \<Rightarrow>
          (case assertLinkedHash (evs_intent_hash (snd v)) run_intent ''blueprint.evidenceSet.intentHash'' of Inl e \<Rightarrow> Inl e
           | Inr _ \<Rightarrow>
          (case assertLinkedHash (evs_candidate_hash (snd v)) (ebp_selected_candidate_hash b) ''blueprint.evidenceSet.candidateHash'' of
             Inl e \<Rightarrow> Inl e
           | Inr _ \<Rightarrow>
               if fst v \<noteq> pcd_id c then Inl (StorageIntegrity ''Blueprint Evidence Set has different lineage'')
               else insert_row ebp_id ebp_blueprint_hash ''Blueprint ID or run-scoped hash already has different content'' b rows))
      | _ \<Rightarrow> Inl (StorageIntegrity ''Blueprint references an unstored candidate or Evidence Set''))))"

section \<open>What the tables promise\<close>

lemmas linked_simps = assertLinkedHash_def insertCandidate_def insertEvidence_def insertEvidenceSet_def insertBlueprint_def

interpretation candidates: row_table pcd_id pcd_candidate_hash "insertCandidate run_intent" for run_intent
  by unfold_locales
    (auto simp: linked_simps split: if_split_asm dest: insert_row_shape insert_row_again)

interpretation evidence: row_table "evd_id \<circ> snd" "evd_evidence_hash \<circ> snd" "insertEvidence run_intent rows" for run_intent rows
  by unfold_locales
    (auto simp: linked_simps simp del: comp_apply split: if_split_asm option.split_asm dest: insert_row_shape insert_row_again)

interpretation evidence_sets: row_table "evs_id \<circ> snd" "evs_evidence_set_hash \<circ> snd"
    "insertEvidenceSet hash run_intent rows evidence" for hash run_intent rows evidence
  by unfold_locales
    (auto simp: linked_simps simp del: comp_apply split: if_split_asm option.split_asm dest: insert_row_shape insert_row_again)

interpretation blueprints: row_table ebp_id ebp_blueprint_hash "insertBlueprint schema run_intent rows sets" for schema run_intent rows sets
  by unfold_locales
    (auto simp: linked_simps split: if_split_asm option.split_asm dest: insert_row_shape insert_row_again)

end
