(* ===== verification/Preparation.thy ===== *)
theory Preparation
  imports Route_Rows Approval
begin

text \<open>
  lib/transaction-composer/src/coordinator.ts, blueprint.ts and reviewProjection.ts: from the card a user
  chose to a stored batch awaiting review. The quote adapters, the build adapters, the simulator and the
  security service are the composer's injected dependencies and are parameters; so are the hashes, the
  decoders and what the language reads of dates. The sentences shown beside an outcome are not modelled.
\<close>

section \<open>Which pairs are prepared\<close>

definition MAX_ROUTE_ASSET_DECIMALS_V1 :: int where
  "MAX_ROUTE_ASSET_DECIMALS_V1 = 36"

definition routeSideV1 :: "asset_ref option \<Rightarrow> string option" where
  "routeSideV1 asset =
     (case asset of None \<Rightarrow> None
      | Some a \<Rightarrow>
          if asr_chain_id a \<noteq> BASE_MAINNET_CHAIN_ID then None
          else if asr_kind a = NativeKind then Some BASE_WETH_ADDRESS
          else (case map_option to_lower (asr_address a) of
              None \<Rightarrow> None
            | Some x \<Rightarrow>
                if \<not> ADDRESS x \<or> x = ZERO_ADDRESS then None
                else if asr_decimals a < 0 \<or> asr_decimals a > MAX_ROUTE_ASSET_DECIMALS_V1 then None else Some x))"

definition routablePairV1 :: "asset_ref option \<Rightarrow> asset_ref option \<Rightarrow> bool" where
  "routablePairV1 source target \<longleftrightarrow>
     routeSideV1 source \<noteq> None \<and> routeSideV1 target \<noteq> None \<and> routeSideV1 source \<noteq> routeSideV1 target"

definition isSupportedPair :: "route_intent \<Rightarrow> bool" where
  "isSupportedPair intent \<longleftrightarrow> rin_chain_id intent = 8453 \<and> routablePairV1 (rin_from_asset intent) (rin_to_asset intent)"

definition CANONICAL_USDC_BASE :: string where
  "CANONICAL_USDC_BASE = ''0x833589fcd6edb6e08f4c7c32d4f71b54bda02913''"

definition CANONICAL_WETH_BASE :: string where
  "CANONICAL_WETH_BASE = ''0x4200000000000000000000000000000000000006''"

datatype aerodrome_side = SideUsdc | SideWeth | SideEth

definition canonicalAerodromeSideV1 :: "asset_ref option \<Rightarrow> aerodrome_side option" where
  "canonicalAerodromeSideV1 asset =
     (case asset of None \<Rightarrow> None
      | Some a \<Rightarrow>
          if asr_kind a = NativeKind then Some SideEth
          else (let address = map_option to_lower (asr_address a) in
            if address = Some CANONICAL_USDC_BASE then Some SideUsdc
            else if address = Some CANONICAL_WETH_BASE then Some SideWeth else None))"

definition isSupportedAerodromePair :: "route_intent \<Rightarrow> bool" where
  "isSupportedAerodromePair intent \<longleftrightarrow> rin_chain_id intent = 8453 \<and>
     (case (canonicalAerodromeSideV1 (rin_from_asset intent), canonicalAerodromeSideV1 (rin_to_asset intent)) of
        (Some a, Some b) \<Rightarrow> (a = SideUsdc) \<noteq> (b = SideUsdc) | _ \<Rightarrow> False)"

section \<open>blueprint.ts\<close>

definition selector_of :: "string \<Rightarrow> string" where
  "selector_of data = to_lower (take 10 data)"

definition plain_call :: "int \<Rightarrow> build_call \<Rightarrow> execution_call" where
  "plain_call index call = \<lparr>exc_index = index, exc_call_type = OtherCall, exc_to = bdc_to call, exc_value_wei = bdc_value call,
     exc_data = bdc_data call, exc_asset = None, exc_amount_atomic = None, exc_recipient = None, exc_spender = None\<rparr>"

definition as_approval :: "asset_ref \<Rightarrow> string \<Rightarrow> int \<Rightarrow> execution_call \<Rightarrow> execution_call" where
  "as_approval asset spender amount c = c\<lparr>exc_call_type := ApprovalCall, exc_asset := Some asset,
     exc_amount_atomic := Some (show_int amount), exc_spender := Some (to_lower spender)\<rparr>"

text \<open>
  Decoding decides; a call that is neither a decoded approval nor addressed to the router is \<open>other\<close>,
  which the kernel refuses.
\<close>

definition classifySwapCallV1 ::
  "kernel_world \<Rightarrow> asset_ref \<Rightarrow> string \<Rightarrow> string \<Rightarrow> int \<Rightarrow> build_call \<Rightarrow> execution_call" where
  "classifySwapCallV1 w inputAsset router wallet index call =
     (let selector = selector_of (bdc_data call);
          onToken = (case present (asr_address inputAsset) of
              Some a \<Rightarrow> to_lower (bdc_to call) = to_lower a \<and> selector = ''0x095ea7b3'' | None \<Rightarrow> False);
          routed = (if to_lower (bdc_to call) = to_lower router
            then (plain_call index call)\<lparr>exc_call_type := SwapCall, exc_recipient := Some wallet\<rparr> else plain_call index call);
          permitted = (if selector = ''0x87517c45''
            then (case bab_permit2 (kwd_balancer w) (bdc_data call) of
                Some p \<Rightarrow> as_approval inputAsset (p2a_spender p) (p2a_amount p) (plain_call index call)
              | None \<Rightarrow> routed)
            else routed)
      in if onToken
         then (case erc_decode (kwd_codec w) (bdc_data call) of
             Some (Erc20Approve spender amount) \<Rightarrow> as_approval inputAsset spender amount (plain_call index call)
           | _ \<Rightarrow> permitted)
         else permitted)"

text \<open>What identifies a request; the tenant and the run are the rows' own.\<close>

record blueprint_request =
  bpr_wallet_address :: string
  bpr_route_card_hash :: string
  bpr_candidate_hash :: string
  bpr_request_id :: string
  bpr_gift_recipient :: "string option"

definition blueprintIdV1 :: "(blueprint_request \<Rightarrow> string) \<Rightarrow> blueprint_request \<Rightarrow> string" where
  "blueprintIdV1 hash r = ''blueprint:'' @ drop 2 (hash (r\<lparr>bpr_gift_recipient := map_option to_lower (present (bpr_gift_recipient r))\<rparr>))"

definition ZERO_HASH_V1 :: string where
  "ZERO_HASH_V1 = ''0x'' @ replicate 64 (CHR ''0'')"

definition required_approvals :: "execution_call list \<Rightarrow> required_approval list" where
  "required_approvals calls = List.map_filter (\<lambda>c. case (exc_call_type c, exc_asset c, exc_spender c, exc_amount_atomic c) of
     (ApprovalCall, Some a, Some s, Some m) \<Rightarrow> Some \<lparr>rqa_asset = a, rqa_spender = s, rqa_amount_atomic = m\<rparr> | _ \<Rightarrow> None) calls"

definition expected_changes :: "asset_ref \<Rightarrow> string \<Rightarrow> asset_ref \<Rightarrow> string \<Rightarrow> string \<Rightarrow> asset_change list" where
  "expected_changes inputAsset amount outputAsset expected minimum =
     [\<lparr>ach_direction = Debit, ach_asset = inputAsset, ach_amount_atomic = amount, ach_minimum_amount_atomic = Some amount\<rparr>,
      \<lparr>ach_direction = Credit, ach_asset = outputAsset, ach_amount_atomic = expected, ach_minimum_amount_atomic = Some minimum\<rparr>]"

section \<open>The interface\<close>

record prepare_input =
  ppi_wallet_address :: string
  ppi_route_card_hash :: string
  ppi_selected_candidate_hash :: string
  ppi_request_id :: string
  ppi_now :: int
  ppi_gift_recipient :: "string option"

datatype card_status = CardReady | CardSelected | CardStale | CardInvalid

record route_card =
  rtc_route_card_hash :: string
  rtc_intent_hash :: string
  rtc_status :: card_status
  rtc_expires_at :: string
  rtc_recommended :: provider_candidate
  rtc_alternatives :: "provider_candidate list"

text \<open>One run of one tenant: its row, and the tables of its cards, quotes and blueprints.\<close>

record preparation_store =
  prs_run :: "(run_row \<times> run_goal) option"
  prs_cards :: "route_card list"
  prs_candidates :: "provider_candidate list"
  prs_evidence :: "(string \<times> evidence_record) list"
  prs_evidence_sets :: "(string \<times> evidence_set) list"
  prs_blueprints :: "execution_blueprint list"

record build_request =
  bdr_intent :: route_intent
  bdr_selected :: provider_candidate
  bdr_reviewed :: provider_candidate
  bdr_wallet_address :: string
  bdr_now :: int
  bdr_request_id :: string

record swap_build =
  swb_router_address :: string
  swb_calls :: "build_call list"
  swb_quote_expiry :: string
  swb_expected_output :: token_amount
  swb_minimum_output :: token_amount
  swb_aerodrome :: "aerodrome_facts option"
  swb_o1_pinned :: bool
  swb_hydrex_upstream :: "string option"
  swb_balancer :: "(int \<times> string list) option"

record preparation_world =
  ppw_approval :: approval_world
  ppw_hash_request :: "blueprint_request \<Rightarrow> string"
  ppw_hash_evidence_id :: "string \<Rightarrow> string list \<Rightarrow> string"
  ppw_hash_evidence_set :: "evidence_set \<Rightarrow> string"
  ppw_canonical :: "string \<Rightarrow> bool"
  ppw_supported :: "swap_provider list option"
  ppw_quote :: "swap_provider \<Rightarrow> (route_intent \<Rightarrow> prepare_input \<Rightarrow> string + provider_candidate \<times> evidence_record list) option"
  ppw_build :: "swap_provider \<Rightarrow> (build_request \<Rightarrow> string + swap_build) option"
  ppw_simulate :: "(string \<Rightarrow> execution_call list \<Rightarrow> simulation_state) option"

record review_projection =
  rvw_blueprint :: execution_blueprint
  rvw_input :: token_amount
  rvw_expected_output :: token_amount
  rvw_minimum_output :: token_amount
  rvw_card_expected_output :: token_amount
  rvw_card_minimum_output :: token_amount
  rvw_attached_native_value_wei :: string
  rvw_safety :: kernel_result
  rvw_simulation_state :: simulation_state

datatype refresh_reason = CardExpired | QuoteExpired | BlueprintExpiredReason | FreshOutputBelowMinimum | RouteChanged

datatype unsupported_outcome = UnsupportedPair | UnsupportedProvider

datatype prepare_result =
    Prepared execution_blueprint review_projection
  | RefreshRequired refresh_reason
  | Unsupported unsupported_outcome
  | PrepareBlocked kernel_result "simulation_state option"

datatype prepare_error =
    PrepareBinding string | PrepareThrows js_error | PrepareStorage storage_error | PrepareSchema string

type_synonym prepare_answer = "prepare_error + prepare_result"

abbreviation kernel_of :: "preparation_world \<Rightarrow> kernel_world" where
  "kernel_of w \<equiv> apw_kernel (ppw_approval w)"

definition past :: "preparation_world \<Rightarrow> string \<Rightarrow> int \<Rightarrow> bool" where
  "past w t now = (case kwd_parse (kernel_of w) t of Some x \<Rightarrow> x \<le> now | None \<Rightarrow> False)"

definition amount_of :: "token_amount \<Rightarrow> int result" where
  "amount_of t = (case js_bigint (tam_amount_atomic t) of Some n \<Rightarrow> Inr n
     | None \<Rightarrow> Inl (JsError ''SyntaxError: Cannot convert to a BigInt''))"

definition below :: "token_amount \<Rightarrow> token_amount \<Rightarrow> bool result" where
  "below a b = bindR (amount_of a) (\<lambda>x. bindR (amount_of b) (\<lambda>y. Inr (x < y)))"

definition all_providers :: "swap_provider list" where
  "all_providers = [Uniswap, Kyberswap, Aerodrome, O1Exchange, Hydrex, Balancer]"

definition provider_of :: "string \<Rightarrow> swap_provider option" where
  "provider_of name = find (\<lambda>p. provider_id p = name) all_providers"

text \<open>A stored candidate as the kernel's second run reads it.\<close>

definition candidate_row :: "swap_provider \<Rightarrow> provider_candidate \<Rightarrow> route_candidate" where
  "candidate_row p c = \<lparr>rcd_provider = p, rcd_candidate_hash = pcd_candidate_hash c, rcd_source_keys = pcd_source_keys c,
     rcd_minimum_output = pcd_minimum_output c\<rparr>"

definition DEFAULT_SUPPORTED_BUILD_PROVIDERS_V1 :: "swap_provider list" where
  "DEFAULT_SUPPORTED_BUILD_PROVIDERS_V1 = [Uniswap, Kyberswap]"

section \<open>The review of a batch\<close>

definition TransactionReviewProjectionV1Schema :: "review_projection \<Rightarrow> bool" where
  "TransactionReviewProjectionV1Schema r \<longleftrightarrow>
     list_all TokenAmountV1Schema [rvw_input r, rvw_expected_output r, rvw_minimum_output r, rvw_card_expected_output r, rvw_card_minimum_output r]
     \<and> AtomicAmountV1Schema (rvw_attached_native_value_wei r) \<and> list_all ExecutionCallV1Schema (ebp_calls (rvw_blueprint r))
     \<and> 1 \<le> length (ebp_calls (rvw_blueprint r)) \<and> length (ebp_calls (rvw_blueprint r)) \<le> 100
     \<and> asr_asset_id (tam_asset (rvw_expected_output r)) = asr_asset_id (tam_asset (rvw_minimum_output r))
     \<and> below (rvw_expected_output r) (rvw_minimum_output r) = Inr False
     \<and> asr_asset_id (tam_asset (rvw_card_expected_output r)) = asr_asset_id (tam_asset (rvw_card_minimum_output r))
     \<and> below (rvw_card_expected_output r) (rvw_card_minimum_output r) = Inr False
     \<and> map exc_index (ebp_calls (rvw_blueprint r)) = map int [0..<length (ebp_calls (rvw_blueprint r))]
     \<and> krs_allowed (rvw_safety r)"

definition buildTransactionReviewProjectionV1 ::
  "execution_blueprint \<Rightarrow> token_amount \<Rightarrow> token_amount \<Rightarrow> token_amount \<Rightarrow> provider_candidate \<Rightarrow> kernel_result \<Rightarrow> simulation_state option
   \<Rightarrow> prepare_error + review_projection" where
  "buildTransactionReviewProjectionV1 b spent expected minimum rcard safety override =
     (case mapR (\<lambda>c. case js_bigint (exc_value_wei c) of Some v \<Rightarrow> Inr v
         | None \<Rightarrow> Inl (JsError ''SyntaxError: Cannot convert to a BigInt'')) (ebp_calls b) of
        Inl e \<Rightarrow> Inl (PrepareThrows e)
      | Inr values \<Rightarrow>
          let r = \<lparr>rvw_blueprint = b, rvw_input = spent, rvw_expected_output = expected, rvw_minimum_output = minimum,
                rvw_card_expected_output = pcd_expected_output rcard, rvw_card_minimum_output = pcd_minimum_output rcard,
                rvw_attached_native_value_wei = show_int (sum_list values), rvw_safety = safety,
                rvw_simulation_state = (case override of Some s \<Rightarrow> s | None \<Rightarrow> ebp_simulation_state b)\<rparr>
          in if TransactionReviewProjectionV1Schema r then Inr r else Inl (PrepareSchema ''transaction-review-projection/v1''))"

section \<open>The binding of a request\<close>

definition prepare_binding :: "preparation_store \<Rightarrow> prepare_input \<Rightarrow> prepare_error + run_row \<times> route_card \<times> provider_candidate" where
  "prepare_binding s i =
     (case prs_run s of None \<Rightarrow> Inl (PrepareBinding ''route_run_not_found'')
      | Some (run, goal) \<Rightarrow>
          if to_lower (rnw_wallet_address run) \<noteq> to_lower (ppi_wallet_address i) then Inl (PrepareBinding ''wallet_binding_mismatch'')
          else if rnw_chain_id run \<noteq> 8453 then Inl (PrepareBinding ''unsupported_chain'')
          else if goal \<noteq> SwapGoal then Inl (PrepareBinding ''goal_mismatch'')
          else (case find (\<lambda>c. rtc_route_card_hash c = ppi_route_card_hash i) (prs_cards s) of
              None \<Rightarrow> Inl (PrepareBinding ''route_card_not_found'')
            | Some rcard \<Rightarrow>
                if rtc_intent_hash rcard \<noteq> rnw_intent_hash run then Inl (PrepareBinding ''route_card_intent_mismatch'')
                else (case find (\<lambda>c. pcd_candidate_hash c = ppi_selected_candidate_hash i) (rtc_recommended rcard # rtc_alternatives rcard) of
                    None \<Rightarrow> Inl (PrepareBinding ''candidate_not_in_card'')
                  | Some selected \<Rightarrow>
                      let amount = rin_amount (rnw_intent run); quoted = pcd_input_amount selected in
                      if asr_asset_id (tam_asset quoted) \<noteq> asr_asset_id (tam_asset amount)
                         \<or> tam_amount_atomic quoted \<noteq> tam_amount_atomic amount
                      then Inl (PrepareBinding ''candidate_intent_mismatch'') else Inr (run, rcard, selected))))"

definition invalidCardSafetyResult :: kernel_result where
  "invalidCardSafetyResult = \<lparr>krs_allowed = False, krs_checks = [(''route_card_state'', False)], krs_contract_security = SecuritySkipped\<rparr>"

text \<open>The answers that need no new quote, or the provider to ask for one.\<close>

definition card_answer ::
  "preparation_world \<Rightarrow> route_intent \<Rightarrow> route_card \<Rightarrow> provider_candidate \<Rightarrow> int \<Rightarrow> prepare_answer + swap_provider" where
  "card_answer w intent rcard selected now =
     (if pcd_provider_id selected = ''gmgn'' then Inl (Inr (Unsupported UnsupportedProvider))
      else (case provider_of (pcd_provider_id selected) of
          None \<Rightarrow> Inl (Inr (Unsupported UnsupportedProvider))
        | Some p \<Rightarrow>
            if p \<notin> set (case ppw_supported w of Some ps \<Rightarrow> ps | None \<Rightarrow> DEFAULT_SUPPORTED_BUILD_PROVIDERS_V1)
            then Inl (Inr (Unsupported UnsupportedProvider))
            else if \<not> (if p = Aerodrome then isSupportedAerodromePair intent else isSupportedPair intent)
            then Inl (Inr (Unsupported UnsupportedPair))
            else (case rtc_status rcard of
                CardInvalid \<Rightarrow> Inl (Inr (PrepareBlocked invalidCardSafetyResult None))
              | CardStale \<Rightarrow> Inl (Inr (RefreshRequired CardExpired))
              | _ \<Rightarrow> if past w (rtc_expires_at rcard) now then Inl (Inr (RefreshRequired CardExpired)) else Inr p)))"

definition request_of :: "prepare_input \<Rightarrow> blueprint_request" where
  "request_of i = \<lparr>bpr_wallet_address = ppi_wallet_address i, bpr_route_card_hash = ppi_route_card_hash i,
     bpr_candidate_hash = ppi_selected_candidate_hash i, bpr_request_id = ppi_request_id i,
     bpr_gift_recipient = map_option to_lower (present (ppi_gift_recipient i))\<rparr>"

section \<open>Replay\<close>

definition approval_input_of :: "prepare_input \<Rightarrow> execution_blueprint \<Rightarrow> approval_input" where
  "approval_input_of i b = \<lparr>api_wallet_address = ppi_wallet_address i, api_blueprint_id = ebp_id b,
     api_blueprint_hash = ebp_blueprint_hash b, api_now = ppi_now i\<rparr>"

definition shown :: "asset_ref \<Rightarrow> string \<Rightarrow> token_amount" where
  "shown asset atomic = \<lparr>tam_asset = asset, tam_amount_atomic = atomic, tam_amount_decimal =
     (case atomicToHumanDecimal atomic (Whole (asr_decimals asset)) of Some d \<Rightarrow> d | None \<Rightarrow> ''0'')\<rparr>"

text \<open>The kernel again, over the stored calls and with a fresh answer of the security service; nothing is written.\<close>

definition reviewStoredBlueprintV1 ::
  "preparation_world \<Rightarrow> prepare_input \<Rightarrow> run_row \<Rightarrow> swap_provider \<Rightarrow> provider_candidate \<Rightarrow> execution_blueprint
   \<Rightarrow> simulation_state option \<Rightarrow> prepare_answer" where
  "reviewStoredBlueprintV1 w i run p selected b override =
     (if ebp_goal b \<noteq> SwapGoal then Inl (PrepareBinding ''goal_mismatch'')
      else (case runSafetyKernel (kernel_of w)
          (stored_kernel_input (ppw_approval w) (approval_input_of i b) run (candidate_row p selected) b) of
        Inl e \<Rightarrow> Inl (PrepareThrows e)
      | Inr safety \<Rightarrow>
          if \<not> krs_allowed safety then Inr (PrepareBlocked safety (Some (ebp_simulation_state b)))
          else (case find (\<lambda>c. ach_direction c = Credit) (ebp_expected_asset_changes b) of
              None \<Rightarrow> Inl (PrepareThrows (TypeError ''Cannot read properties of undefined''))
            | Some change \<Rightarrow>
                let minimum = (case ach_minimum_amount_atomic change of Some m \<Rightarrow> m | None \<Rightarrow> ach_amount_atomic change) in
                (case buildTransactionReviewProjectionV1 b (rin_amount (rnw_intent run))
                     (shown (ach_asset change) (ach_amount_atomic change)) (shown (ach_asset change) minimum) selected safety override of
                   Inl e \<Rightarrow> Inl e
                 | Inr review \<Rightarrow> Inr (Prepared b review)))))"

section \<open>The fresh quote\<close>

definition fresh_quote ::
  "preparation_world \<Rightarrow> prepare_input \<Rightarrow> route_intent \<Rightarrow> provider_candidate \<Rightarrow> swap_provider
   \<Rightarrow> prepare_answer + provider_candidate \<times> evidence_record list" where
  "fresh_quote w i intent selected p =
     (let expired = Inl (Inr (RefreshRequired QuoteExpired)) in
      case ppw_quote w p of None \<Rightarrow> Inl (Inl (PrepareBinding ''quote_adapter_not_configured''))
      | Some quote \<Rightarrow>
     (case quote intent i of Inl code \<Rightarrow> expired
      | Inr (fresh, evidence) \<Rightarrow>
          if pcd_provider_id fresh \<noteq> provider_id p then expired
          else if asr_asset_id (tam_asset (pcd_input_amount fresh)) \<noteq> asr_asset_id (tam_asset (rin_amount intent))
             \<or> map_option asr_asset_id (rin_to_asset intent) \<noteq> Some (asr_asset_id (tam_asset (pcd_expected_output fresh))) then expired
          else if past w (pcd_quote_expires_at fresh) (ppi_now i) then expired
          else (case below (pcd_expected_output fresh) (pcd_minimum_output selected) of
              Inl e \<Rightarrow> Inl (Inl (PrepareThrows e))
            | Inr True \<Rightarrow> Inl (Inr (RefreshRequired FreshOutputBelowMinimum))
            | Inr False \<Rightarrow> Inr (fresh, evidence))))"

definition buildFreshEvidenceSetV1 ::
  "preparation_world \<Rightarrow> run_row \<Rightarrow> provider_candidate \<Rightarrow> evidence_record list \<Rightarrow> evidence_set" where
  "buildFreshEvidenceSetV1 w run c evidence =
     (let sorted = sort_key evd_evidence_hash evidence;
          draft = \<lparr>evs_id = ''evidence-set:'' @ drop 2 (ppw_hash_evidence_id w (pcd_candidate_hash c) (map evd_evidence_hash sorted)),
            evs_wallet_address = rin_wallet_address (rnw_intent run), evs_chain_id = rin_chain_id (rnw_intent run),
            evs_intent_hash = rnw_intent_hash run, evs_candidate_hash = pcd_candidate_hash c, evs_evidence_set_hash = ZERO_HASH_V1,
            evs_records = sorted, evs_required_evidence = sort (remdups (map evd_evidence_type sorted)),
            evs_source_independence = pcd_source_independence c, evs_overlap_groups = findLiquidityOverlapsV1 sorted\<rparr>
      in draft\<lparr>evs_evidence_set_hash := ppw_hash_evidence_set w draft\<rparr>)"

text \<open>The rows of a quote are written one by one; what was written before a refusal stays.\<close>

fun insert_evidence_rows ::
  "string \<Rightarrow> string \<Rightarrow> evidence_record list \<Rightarrow> preparation_store \<Rightarrow> preparation_store \<times> storage_error option" where
  "insert_evidence_rows run_intent owner [] s = (s, None)"
| "insert_evidence_rows run_intent owner (e # es) s =
     (case insertEvidence run_intent (prs_candidates s) (owner, e) (prs_evidence s) of
        Inl err \<Rightarrow> (s, Some err)
      | Inr rows \<Rightarrow> insert_evidence_rows run_intent owner es (s\<lparr>prs_evidence := rows\<rparr>))"

definition persist_quote ::
  "preparation_world \<Rightarrow> preparation_store \<Rightarrow> run_row \<Rightarrow> provider_candidate \<Rightarrow> evidence_record list
   \<Rightarrow> preparation_store \<times> (prepare_error + evidence_set)" where
  "persist_quote w s run c evidence =
     (case insertCandidate (rnw_intent_hash run) c (prs_candidates s) of Inl e \<Rightarrow> (s, Inl (PrepareStorage e))
      | Inr rows \<Rightarrow>
     (case insert_evidence_rows (rnw_intent_hash run) (pcd_id c) evidence (s\<lparr>prs_candidates := rows\<rparr>) of
        (s1, Some e) \<Rightarrow> (s1, Inl (PrepareStorage e))
      | (s1, None) \<Rightarrow>
          let v = buildFreshEvidenceSetV1 w run c evidence in
          if \<not> EvidenceSetV1Schema (ppw_hash_evidence_set w) v then (s1, Inl (PrepareSchema ''evidence-set/v1''))
          else (case insertEvidenceSet (ppw_hash_evidence_set w) (rnw_intent_hash run) (prs_candidates s1) (prs_evidence s1)
                  (pcd_id c, v) (prs_evidence_sets s1) of
              Inl e \<Rightarrow> (s1, Inl (PrepareStorage e))
            | Inr sets \<Rightarrow> (s1\<lparr>prs_evidence_sets := sets\<rparr>, Inr v))))"

text \<open>
  lib/route-engine/src/engine.ts: the rows of the compared routes, each with its evidence and its evidence
  set, written before a card is shown; scores are not read again and are left out, the run's own row too.
\<close>

fun persistEvaluation ::
  "preparation_world \<Rightarrow> string \<Rightarrow> (provider_candidate \<times> evidence_set) list \<Rightarrow> preparation_store \<Rightarrow> preparation_store \<times> storage_error option" where
  "persistEvaluation w run_intent [] s = (s, None)"
| "persistEvaluation w run_intent ((c, v) # routes) s =
     (case insertCandidate run_intent c (prs_candidates s) of Inl e \<Rightarrow> (s, Some e)
      | Inr rows \<Rightarrow>
     (case insert_evidence_rows run_intent (pcd_id c) (evs_records v) (s\<lparr>prs_candidates := rows\<rparr>) of
        (s1, Some e) \<Rightarrow> (s1, Some e)
      | (s1, None) \<Rightarrow>
     (case insertEvidenceSet (ppw_hash_evidence_set w) run_intent (prs_candidates s1) (prs_evidence s1) (pcd_id c, v) (prs_evidence_sets s1) of
        Inl e \<Rightarrow> (s1, Some e)
      | Inr sets \<Rightarrow> persistEvaluation w run_intent routes (s1\<lparr>prs_evidence_sets := sets\<rparr>))))"

section \<open>The fresh batch\<close>

definition ROUTE_MOVED_CODES :: "string list" where
  "ROUTE_MOVED_CODES = [''aerodrome_route_changed'', ''aerodrome_factory_changed'', ''o1_route_changed'', ''hydrex_route_changed'',
     ''balancer_route_changed'']"

definition fresh_build ::
  "preparation_world \<Rightarrow> prepare_input \<Rightarrow> route_intent \<Rightarrow> provider_candidate \<Rightarrow> provider_candidate \<Rightarrow> swap_provider
   \<Rightarrow> prepare_answer + swap_build" where
  "fresh_build w i intent fresh selected p =
     (case ppw_build w p of None \<Rightarrow> Inl (Inl (PrepareBinding ''build_adapter_not_configured''))
      | Some build \<Rightarrow>
     (case build \<lparr>bdr_intent = intent, bdr_selected = fresh, bdr_reviewed = selected, bdr_wallet_address = ppi_wallet_address i,
             bdr_now = ppi_now i, bdr_request_id = ppi_request_id i\<rparr> of
        Inl code \<Rightarrow> Inl (Inr (RefreshRequired (if code \<in> set ROUTE_MOVED_CODES then RouteChanged else QuoteExpired)))
      | Inr built \<Rightarrow>
          if past w (swb_quote_expiry built) (ppi_now i) then Inl (Inr (RefreshRequired QuoteExpired))
          else (case below (swb_expected_output built) (pcd_minimum_output selected) of
              Inl e \<Rightarrow> Inl (Inl (PrepareThrows e))
            | Inr True \<Rightarrow> Inl (Inr (RefreshRequired FreshOutputBelowMinimum))
            | Inr False \<Rightarrow> Inr built)))"

text \<open>The classified calls, a gift's transfer last.\<close>

definition swap_batch :: "kernel_world \<Rightarrow> asset_ref \<Rightarrow> string \<Rightarrow> swap_build \<Rightarrow> execution_call list" where
  "swap_batch w inputAsset wallet built =
     map (\<lambda>(n, call). classifySwapCallV1 w inputAsset (swb_router_address built) wallet (int n) call)
       (zip [0..<length (swb_calls built)] (swb_calls built))"

definition gift_of :: "prepare_input \<Rightarrow> swap_build \<Rightarrow> gift_declaration option" where
  "gift_of i built = map_option (\<lambda>r. \<lparr>gft_recipient = to_lower r, gft_amount_atomic = tam_amount_atomic (swb_minimum_output built)\<rparr>)
     (present (ppi_gift_recipient i))"

definition batch_calls ::
  "kernel_world \<Rightarrow> prepare_input \<Rightarrow> asset_ref \<Rightarrow> asset_ref \<Rightarrow> swap_build \<Rightarrow> prepare_answer + execution_call list" where
  "batch_calls w i inputAsset outputAsset built =
     (let swap = swap_batch w inputAsset (ppi_wallet_address i) built in
      case gift_of i built of None \<Rightarrow> Inr swap
      | Some gift \<Rightarrow>
          if asr_kind outputAsset \<noteq> Erc20Kind \<or> present (asr_address outputAsset) = None then Inl (Inr (Unsupported UnsupportedPair))
          else (case giftTransferCallV1 (kwd_codec w) (int (length swap)) outputAsset (gft_recipient gift) (gft_amount_atomic gift) of
              Inl e \<Rightarrow> Inl (Inl (PrepareThrows e)) | Inr call \<Rightarrow> Inr (swap @ [call])))"

definition unsimulatedStateV1 :: simulation_state where
  "unsimulatedStateV1 = \<lparr>sms_status = SimUnavailable, sms_error_code = Some ''no_simulation_provider''\<rparr>"

definition simulated ::
  "preparation_world \<Rightarrow> swap_provider \<Rightarrow> route_intent \<Rightarrow> string \<Rightarrow> execution_call list \<Rightarrow> simulation_state" where
  "simulated w p intent blueprint_id calls =
     (if simulationIsRequiredV1 p intent
      then (case ppw_simulate w of Some simulate \<Rightarrow> simulate blueprint_id calls | None \<Rightarrow> unsimulatedStateV1)
      else unsimulatedStateV1)"

text \<open>The kernel's first run: the build's own facts, and the floor of the card the user looked at.\<close>

definition fresh_kernel_input ::
  "preparation_world \<Rightarrow> prepare_input \<Rightarrow> run_row \<Rightarrow> provider_candidate \<Rightarrow> provider_candidate \<Rightarrow> swap_provider \<Rightarrow> swap_build
   \<Rightarrow> execution_call list \<Rightarrow> simulation_state \<Rightarrow> kernel_input" where
  "fresh_kernel_input w i run fresh selected p built calls sim =
     (let intent = rnw_intent run; addresses = swapTokenSecurityAddressesV1 intent;
          results = apw_contract_security (ppw_approval w) addresses
      in \<lparr>kin_provider = p, kin_router_address = swb_router_address built, kin_chain_id = rin_chain_id intent,
          kin_wallet_address = ppi_wallet_address i, kin_intent = intent, kin_calls = calls,
          kin_quote_expiry = swb_quote_expiry built, kin_now = ppi_now i, kin_security_required = True,
          kin_security_provider = security_provider_of results, kin_security_results = results,
          kin_security_addresses = addresses, kin_simulation_acceptable = fst (simulationRequirementV1 p intent sim),
          kin_intent_hash = rnw_intent_hash run, kin_selected_candidate_hash = pcd_candidate_hash fresh,
          kin_aerodrome = swb_aerodrome built, kin_reviewed_minimum = Some (tam_amount_atomic (pcd_minimum_output selected)),
          kin_o1_pin_verified = swb_o1_pinned built, kin_hydrex_pin_verified = (swb_hydrex_upstream built \<noteq> None),
          kin_hydrex_upstream = swb_hydrex_upstream built, kin_balancer = swb_balancer built, kin_gift = gift_of i built,
          kin_swap_minimum = Some (tam_amount_atomic (swb_minimum_output built))\<rparr>)"

definition blueprint_draft ::
  "preparation_world \<Rightarrow> prepare_input \<Rightarrow> run_row \<Rightarrow> provider_candidate \<Rightarrow> evidence_set \<Rightarrow> swap_build \<Rightarrow> asset_ref \<Rightarrow> asset_ref
   \<Rightarrow> execution_call list \<Rightarrow> simulation_state \<Rightarrow> execution_blueprint" where
  "blueprint_draft w i run fresh v built inputAsset outputAsset calls sim =
     \<lparr>ebp_id = blueprintIdV1 (ppw_hash_request w) (request_of i), ebp_created_at = ppi_now i, ebp_updated_at = ppi_now i,
      ebp_status = BlueprintReadyForReview, ebp_goal = SwapGoal, ebp_wallet_address = ppi_wallet_address i,
      ebp_intent_hash = rnw_intent_hash run, ebp_selected_candidate_hash = pcd_candidate_hash fresh,
      ebp_evidence_set_hash = evs_evidence_set_hash v, ebp_blueprint_hash = ZERO_HASH_V1,
      ebp_calls_hash = apw_hash_calls (ppw_approval w) calls, ebp_approved_calls_hash = None,
      ebp_quote_expiry = swb_quote_expiry built, ebp_calls = calls,
      ebp_expected_asset_changes = expected_changes inputAsset (tam_amount_atomic (rin_amount (rnw_intent run))) outputAsset
        (tam_amount_atomic (swb_expected_output built)) (tam_amount_atomic (swb_minimum_output built)),
      ebp_required_approvals = required_approvals calls, ebp_simulation_state = sim\<rparr>"

definition blueprint_schema :: "preparation_world \<Rightarrow> execution_blueprint \<Rightarrow> bool" where
  "blueprint_schema w = ExecutionBlueprintV1Schema (apw_hash_blueprint (ppw_approval w)) (apw_hash_calls (ppw_approval w))
     (kwd_parse (kernel_of w)) (ppw_canonical w)"

definition assembleExecutionBlueprintV1 ::
  "preparation_world \<Rightarrow> prepare_input \<Rightarrow> run_row \<Rightarrow> provider_candidate \<Rightarrow> evidence_set \<Rightarrow> swap_build \<Rightarrow> asset_ref \<Rightarrow> asset_ref
   \<Rightarrow> execution_call list \<Rightarrow> simulation_state \<Rightarrow> prepare_error + execution_blueprint" where
  "assembleExecutionBlueprintV1 w i run fresh v built inputAsset outputAsset calls sim =
     (let draft = blueprint_draft w i run fresh v built inputAsset outputAsset calls sim;
          b = draft\<lparr>ebp_blueprint_hash := apw_hash_blueprint (ppw_approval w) draft\<rparr>
      in if blueprint_schema w b then Inr b else Inl (PrepareSchema ''execution-blueprint/v1''))"

text \<open>The kernel, the blueprint, its row, its review; a review that does not parse leaves the row.\<close>

definition review_fresh ::
  "preparation_world \<Rightarrow> preparation_store \<Rightarrow> prepare_input \<Rightarrow> run_row \<Rightarrow> provider_candidate \<Rightarrow> provider_candidate \<Rightarrow> swap_provider
   \<Rightarrow> evidence_set \<Rightarrow> swap_build \<Rightarrow> asset_ref \<Rightarrow> asset_ref \<Rightarrow> execution_call list \<Rightarrow> preparation_store \<times> prepare_answer" where
  "review_fresh w s i run fresh selected p v built inputAsset outputAsset calls =
     (let sim = simulated w p (rnw_intent run) (blueprintIdV1 (ppw_hash_request w) (request_of i)) calls in
      case runSafetyKernel (kernel_of w) (fresh_kernel_input w i run fresh selected p built calls sim) of
        Inl e \<Rightarrow> (s, Inl (PrepareThrows e))
      | Inr safety \<Rightarrow>
          if \<not> krs_allowed safety then (s, Inr (PrepareBlocked safety (Some sim)))
          else (case assembleExecutionBlueprintV1 w i run fresh v built inputAsset outputAsset calls sim of
              Inl e \<Rightarrow> (s, Inl e)
            | Inr b \<Rightarrow>
          (case insertBlueprint (blueprint_schema w) (rnw_intent_hash run) (prs_candidates s) (prs_evidence_sets s) b (prs_blueprints s) of
              Inl e \<Rightarrow> (s, Inl (PrepareStorage e))
            | Inr rows \<Rightarrow>
                (s\<lparr>prs_blueprints := rows\<rparr>,
                 case buildTransactionReviewProjectionV1 b (rin_amount (rnw_intent run)) (swb_expected_output built)
                        (swb_minimum_output built) selected safety None of
                   Inl e \<Rightarrow> Inl e
                 | Inr review \<Rightarrow> Inr (Prepared b review)))))"

definition prepare_fresh ::
  "preparation_world \<Rightarrow> preparation_store \<Rightarrow> prepare_input \<Rightarrow> run_row \<Rightarrow> provider_candidate \<Rightarrow> swap_provider
   \<Rightarrow> preparation_store \<times> prepare_answer" where
  "prepare_fresh w s i run selected p =
     (let intent = rnw_intent run in
      case fresh_quote w i intent selected p of Inl answer \<Rightarrow> (s, answer)
      | Inr (fresh, evidence) \<Rightarrow>
     (case persist_quote w s run fresh evidence of (s1, Inl e) \<Rightarrow> (s1, Inl e)
      | (s1, Inr v) \<Rightarrow>
     (case fresh_build w i intent fresh selected p of Inl answer \<Rightarrow> (s1, answer)
      | Inr built \<Rightarrow>
     (case (rin_from_asset intent, rin_to_asset intent) of
        (Some inputAsset, Some outputAsset) \<Rightarrow>
          (case batch_calls (kernel_of w) i inputAsset outputAsset built of Inl answer \<Rightarrow> (s1, answer)
           | Inr calls \<Rightarrow> review_fresh w s1 i run fresh selected p v built inputAsset outputAsset calls)
      | _ \<Rightarrow> (s1, Inl (PrepareThrows (TypeError ''Cannot read properties of null'')))))))"

definition prepare :: "preparation_world \<Rightarrow> preparation_store \<Rightarrow> prepare_input \<Rightarrow> preparation_store \<times> prepare_answer" where
  "prepare w s i =
     (case prepare_binding s i of Inl e \<Rightarrow> (s, Inl e)
      | Inr (run, rcard, selected) \<Rightarrow>
     (case card_answer w (rnw_intent run) rcard selected (ppi_now i) of Inl answer \<Rightarrow> (s, answer)
      | Inr p \<Rightarrow>
     (case find (\<lambda>b. ebp_id b = blueprintIdV1 (ppw_hash_request w) (request_of i)) (prs_blueprints s) of
        Some b \<Rightarrow>
          if past w (ebp_quote_expiry b) (ppi_now i) then (s, Inr (RefreshRequired BlueprintExpiredReason))
          else (s, reviewStoredBlueprintV1 w i run p selected b None)
      | None \<Rightarrow> prepare_fresh w s i run selected p)))"

end
