(* ===== verification/Preparation_Sound.thy ===== *)
theory Preparation_Sound
  imports Preparation
begin

text \<open>
  What a preparation keeps of its tables: ids and hashes name one row each, an evidence set stands on
  stored records of its candidate, and a blueprint satisfies its schema and stands on its stored
  candidate and evidence set. Rows are only ever added.
\<close>

section \<open>The invariant\<close>

definition tables_keyed :: "preparation_store \<Rightarrow> bool" where
  "tables_keyed s \<longleftrightarrow> keyed pcd_id pcd_candidate_hash (prs_candidates s)
     \<and> keyed (evd_id \<circ> snd) (evd_evidence_hash \<circ> snd) (prs_evidence s)
     \<and> keyed (evs_id \<circ> snd) (evs_evidence_set_hash \<circ> snd) (prs_evidence_sets s)
     \<and> keyed ebp_id ebp_blueprint_hash (prs_blueprints s)"

definition set_stands :: "preparation_world \<Rightarrow> preparation_store \<Rightarrow> string \<times> evidence_set \<Rightarrow> bool" where
  "set_stands w s v \<longleftrightarrow> EvidenceSetV1Schema (ppw_hash_evidence_set w) (snd v)
     \<and> (\<exists>c \<in> set (prs_candidates s). pcd_id c = fst v \<and> pcd_candidate_hash c = evs_candidate_hash (snd v))
     \<and> (\<forall>r \<in> set (evs_records (snd v)). \<exists>e \<in> set (prs_evidence s). evd_evidence_hash (snd e) = evd_evidence_hash r)"

definition blueprint_stands :: "preparation_world \<Rightarrow> preparation_store \<Rightarrow> execution_blueprint \<Rightarrow> bool" where
  "blueprint_stands w s b \<longleftrightarrow> blueprint_schema w b \<and> ebp_goal b = SwapGoal
     \<and> (\<exists>run. prs_run s = Some (run, SwapGoal) \<and> ebp_intent_hash b = rnw_intent_hash run)
     \<and> (\<exists>c \<in> set (prs_candidates s). pcd_candidate_hash c = ebp_selected_candidate_hash b \<and> provider_of (pcd_provider_id c) \<noteq> None
          \<and> (\<exists>v. (pcd_id c, v) \<in> set (prs_evidence_sets s) \<and> evs_evidence_set_hash v = ebp_evidence_set_hash b
               \<and> evs_candidate_hash v = pcd_candidate_hash c))"

definition rows_ok :: "preparation_world \<Rightarrow> preparation_store \<Rightarrow> bool" where
  "rows_ok w s \<longleftrightarrow> tables_keyed s \<and> (\<forall>v \<in> set (prs_evidence_sets s). set_stands w s v)
     \<and> (\<forall>b \<in> set (prs_blueprints s). blueprint_stands w s b)"

definition extends :: "preparation_store \<Rightarrow> preparation_store \<Rightarrow> bool" where
  "extends s t \<longleftrightarrow> prs_run t = prs_run s \<and> prs_cards t = prs_cards s \<and> set (prs_candidates s) \<subseteq> set (prs_candidates t)
     \<and> set (prs_evidence s) \<subseteq> set (prs_evidence t) \<and> set (prs_evidence_sets s) \<subseteq> set (prs_evidence_sets t)
     \<and> set (prs_blueprints s) \<subseteq> set (prs_blueprints t)"

lemma extends_refl [simp]: "extends s s"
  by (simp add: extends_def)

lemma extends_trans [trans]: "extends s t \<Longrightarrow> extends t u \<Longrightarrow> extends s u"
  by (auto simp: extends_def)

lemma set_stands_mono: "set_stands w s v \<Longrightarrow> extends s t \<Longrightarrow> set_stands w t v"
  unfolding set_stands_def extends_def by (metis subsetD)

lemma blueprint_stands_mono: "blueprint_stands w s b \<Longrightarrow> extends s t \<Longrightarrow> blueprint_stands w t b"
  unfolding blueprint_stands_def extends_def by (metis subsetD)

lemma provider_round: "provider_of (provider_id p) = Some p"
  by (cases p) (simp_all add: provider_of_def all_providers_def provider_id_def)

section \<open>Writing a quote\<close>

lemma insert_evidence_rows_ok:
  assumes "insert_evidence_rows r owner es s = (t, e)"
  shows "extends s t \<and> (tables_keyed s \<longrightarrow> tables_keyed t) \<and> prs_candidates t = prs_candidates s
    \<and> prs_evidence_sets t = prs_evidence_sets s \<and> prs_blueprints t = prs_blueprints s"
  using assms
proof (induction r owner es s rule: insert_evidence_rows.induct)
  case (2 r owner ev es s)
  show ?case
  proof (cases "insertEvidence r (prs_candidates s) (owner, ev) (prs_evidence s)")
    case (Inl err)
    then show ?thesis using "2.prems" by simp
  next
    case (Inr rows)
    from 2 Inr have step: "extends (s\<lparr>prs_evidence := rows\<rparr>) t"
        "tables_keyed (s\<lparr>prs_evidence := rows\<rparr>) \<longrightarrow> tables_keyed t"
        "prs_candidates t = prs_candidates s" "prs_evidence_sets t = prs_evidence_sets s" "prs_blueprints t = prs_blueprints s"
      by auto
    have "extends s (s\<lparr>prs_evidence := rows\<rparr>)" using evidence.put_keeps [OF Inr] by (simp add: extends_def)
    then have "extends s t" using step(1) by (rule extends_trans)
    moreover have "tables_keyed s \<longrightarrow> tables_keyed (s\<lparr>prs_evidence := rows\<rparr>)"
      using evidence.put_keyed [OF Inr] by (simp add: tables_keyed_def)
    ultimately show ?thesis using step by blast
  qed
qed simp

lemma insertEvidenceSet_stands:
  assumes "insertEvidenceSet hash r (prs_candidates s) (prs_evidence s) v (prs_evidence_sets s) = Inr sets"
    and "hash = ppw_hash_evidence_set w"
  shows "set_stands w s v"
  using assms
  by (auto simp: linked_simps set_stands_def find_Some_iff list_all_iff list_ex_iff in_set_conv_nth
      split: if_split_asm option.split_asm) (metis nth_mem snd_conv)+

lemma persist_quote_ok:
  assumes "persist_quote w s run c evidence = (t, answer)"
  shows "extends s t \<and> (rows_ok w s \<longrightarrow> rows_ok w t) \<and> prs_blueprints t = prs_blueprints s
    \<and> (\<forall>v. answer = Inr v \<longrightarrow> c \<in> set (prs_candidates t) \<and> (pcd_id c, v) \<in> set (prs_evidence_sets t))"
proof (cases "insertCandidate (rnw_intent_hash run) c (prs_candidates s)")
  case (Inl e)
  then show ?thesis using assms by (auto simp: persist_quote_def)
next
  case (Inr rows)
  let ?s0 = "s\<lparr>prs_candidates := rows\<rparr>"
  have s0: "extends s ?s0" "tables_keyed s \<longrightarrow> tables_keyed ?s0" "c \<in> set rows"
    using candidates.put_keeps [OF Inr] candidates.put_keyed [OF Inr] candidates.put_has [OF Inr]
    by (simp_all add: extends_def tables_keyed_def)
  obtain s1 e where loop: "insert_evidence_rows (rnw_intent_hash run) (pcd_id c) evidence ?s0 = (s1, e)" by fastforce
  note s1 = insert_evidence_rows_ok [OF loop]
  have grow: "extends s s1" using s0(1) s1 extends_trans by blast
  have same: "prs_evidence_sets s1 = prs_evidence_sets s" "prs_blueprints s1 = prs_blueprints s" using s1 by simp_all
  have ok1: "rows_ok w s \<longrightarrow> rows_ok w s1"
    using s0(2) s1 grow unfolding rows_ok_def by (auto simp: same intro: set_stands_mono blueprint_stands_mono)
  let ?v = "buildFreshEvidenceSetV1 w run c evidence"
  have call: "persist_quote w s run c evidence = (case e of Some err \<Rightarrow> (s1, Inl (PrepareStorage err))
      | None \<Rightarrow> if \<not> EvidenceSetV1Schema (ppw_hash_evidence_set w) ?v then (s1, Inl (PrepareSchema ''evidence-set/v1''))
          else (case insertEvidenceSet (ppw_hash_evidence_set w) (rnw_intent_hash run) (prs_candidates s1) (prs_evidence s1)
                  (pcd_id c, ?v) (prs_evidence_sets s1) of
              Inl err \<Rightarrow> (s1, Inl (PrepareStorage err)) | Inr sets \<Rightarrow> (s1\<lparr>prs_evidence_sets := sets\<rparr>, Inr ?v)))"
    by (simp add: persist_quote_def Inr loop Let_def split: option.split)
  show ?thesis
  proof (cases answer)
    case (Inl err)
    then have "t = s1" using assms unfolding call by (cases e) (auto split: if_split_asm sum.split_asm)
    then show ?thesis using Inl grow ok1 same by auto
  next
    case answered: (Inr v)
    have "e = None" using assms answered unfolding call by (cases e) auto
    then obtain sets where
        put: "insertEvidenceSet (ppw_hash_evidence_set w) (rnw_intent_hash run) (prs_candidates s1) (prs_evidence s1)
                (pcd_id c, ?v) (prs_evidence_sets s1) = Inr sets"
      and t: "t = s1\<lparr>prs_evidence_sets := sets\<rparr>" "answer = Inr ?v"
      using assms answered unfolding call by (auto split: if_split_asm sum.split_asm)
    have more: "extends s1 t" using evidence_sets.put_keeps [OF put] by (simp add: extends_def t)
    have "set_stands w s1 (pcd_id c, ?v)" by (rule insertEvidenceSet_stands [OF put]) simp
    moreover have "set (prs_evidence_sets t) = insert (pcd_id c, ?v) (set (prs_evidence_sets s1))"
      using evidence_sets.put_adds [OF put] by (simp add: t)
    moreover have "tables_keyed s1 \<longrightarrow> tables_keyed t"
      using evidence_sets.put_keyed [OF put] by (simp add: tables_keyed_def t)
    ultimately have "rows_ok w s1 \<longrightarrow> rows_ok w t"
      using more unfolding rows_ok_def by (auto simp: t intro: set_stands_mono blueprint_stands_mono)
    moreover have "c \<in> set (prs_candidates t)" using s0(3) s1 by (simp add: t)
    moreover have "(pcd_id c, ?v) \<in> set (prs_evidence_sets t)" using evidence_sets.put_has [OF put] by (simp add: t)
    ultimately show ?thesis using ok1 grow more same extends_trans t by auto
  qed
qed

text \<open>The rows an evaluation writes stand, whatever was stored before.\<close>

lemma insert_set_stands:
  assumes "insertEvidenceSet (ppw_hash_evidence_set w) r (prs_candidates s) (prs_evidence s) v (prs_evidence_sets s) = Inr sets" and "rows_ok w s"
  shows "rows_ok w (s\<lparr>prs_evidence_sets := sets\<rparr>)"
proof -
  let ?t = "s\<lparr>prs_evidence_sets := sets\<rparr>"
  have more: "extends s ?t" using evidence_sets.put_keeps [OF assms(1)] by (simp add: extends_def)
  have "set_stands w s v" by (rule insertEvidenceSet_stands [OF assms(1)]) simp
  moreover have "set sets = insert v (set (prs_evidence_sets s))" by (rule evidence_sets.put_adds [OF assms(1)])
  moreover have "tables_keyed s \<longrightarrow> tables_keyed ?t" using evidence_sets.put_keyed [OF assms(1)] by (simp add: tables_keyed_def)
  ultimately show ?thesis
    using more assms(2) unfolding rows_ok_def by (auto intro: set_stands_mono blueprint_stands_mono)
qed

lemma persistEvaluation_stands:
  "rows_ok w s \<Longrightarrow> rows_ok w (fst (persistEvaluation w r routes s)) \<and> prs_blueprints (fst (persistEvaluation w r routes s)) = prs_blueprints s"
proof (induction w r routes s rule: persistEvaluation.induct)
  case (1 w r s)
  then show ?case by simp
next
  case (2 w r c v routes s)
  show ?case
  proof (cases "insertCandidate r c (prs_candidates s)")
    case (Inl e)
    then show ?thesis using "2.prems" by simp
  next
    case rows: (Inr rows)
    let ?s0 = "s\<lparr>prs_candidates := rows\<rparr>"
    have s0: "extends s ?s0" "tables_keyed s \<longrightarrow> tables_keyed ?s0"
      using candidates.put_keeps [OF rows] candidates.put_keyed [OF rows] by (simp_all add: extends_def tables_keyed_def)
    obtain s1 e where loop: "insert_evidence_rows r (pcd_id c) (evs_records v) ?s0 = (s1, e)" by fastforce
    note s1 = insert_evidence_rows_ok [OF loop]
    have grow: "extends s s1" using s0(1) s1 extends_trans by blast
    have same: "prs_evidence_sets s1 = prs_evidence_sets s" "prs_blueprints s1 = prs_blueprints s" using s1 by simp_all
    have ok: "rows_ok w s1"
      using "2.prems" s0(2) s1 grow unfolding rows_ok_def by (auto simp: same intro: set_stands_mono blueprint_stands_mono)
    show ?thesis
    proof (cases e)
      case (Some err)
      then show ?thesis using rows loop ok same by simp
    next
      case None
      show ?thesis
      proof (cases "insertEvidenceSet (ppw_hash_evidence_set w) r (prs_candidates s1) (prs_evidence s1) (pcd_id c, v) (prs_evidence_sets s1)")
        case (Inl err)
        then show ?thesis using rows loop None ok same by simp
      next
        case (Inr sets)
        have "rows_ok w (s1\<lparr>prs_evidence_sets := sets\<rparr>)" by (rule insert_set_stands [OF Inr ok])
        from "2.IH" [OF rows loop [symmetric] None Inr this] show ?thesis using rows loop None Inr same by simp
      qed
    qed
  qed
qed

section \<open>One preparation\<close>

lemma insertBlueprint_links:
  assumes "insertBlueprint schema r (prs_candidates s) (prs_evidence_sets s) b (prs_blueprints s) = Inr rows"
  shows "schema b \<and> ebp_intent_hash b = r
    \<and> (\<exists>c \<in> set (prs_candidates s). \<exists>v. pcd_candidate_hash c = ebp_selected_candidate_hash b \<and> (pcd_id c, v) \<in> set (prs_evidence_sets s)
         \<and> evs_evidence_set_hash v = ebp_evidence_set_hash b \<and> evs_candidate_hash v = ebp_selected_candidate_hash b)"
proof -
  from assms obtain c v where b: "schema b" "ebp_intent_hash b = r"
    and c: "find (\<lambda>c. pcd_candidate_hash c = ebp_selected_candidate_hash b) (prs_candidates s) = Some c"
    and v: "find (\<lambda>v. evs_evidence_set_hash (snd v) = ebp_evidence_set_hash b) (prs_evidence_sets s) = Some v"
      "evs_candidate_hash (snd v) = ebp_selected_candidate_hash b" "fst v = pcd_id c"
    by (auto simp: linked_simps split: if_split_asm option.split_asm)
  have "c \<in> set (prs_candidates s)" "pcd_candidate_hash c = ebp_selected_candidate_hash b"
    using c by (auto simp: find_Some_iff)
  moreover have "v \<in> set (prs_evidence_sets s)" "evs_evidence_set_hash (snd v) = ebp_evidence_set_hash b"
    using v(1) by (auto simp: find_Some_iff)
  moreover have "v = (pcd_id c, snd v)" using v(3) by (cases v) simp
  ultimately show ?thesis using b v(2) by metis
qed

lemma preparation_binding_reads:
  assumes "prepare_binding s i = Inr (run, rcard, selected)"
  shows "prs_run s = Some (run, SwapGoal)" "to_lower (rnw_wallet_address run) = to_lower (ppi_wallet_address i)"
    "rnw_chain_id run = 8453" "rcard \<in> set (prs_cards s)" "rtc_route_card_hash rcard = ppi_route_card_hash i"
    "rtc_intent_hash rcard = rnw_intent_hash run" "selected \<in> set (rtc_recommended rcard # rtc_alternatives rcard)"
    "pcd_candidate_hash selected = ppi_selected_candidate_hash i"
  using assms by (auto simp: prepare_binding_def Let_def find_Some_iff split: option.split_asm if_split_asm)

text \<open>Everything that went into a stored batch.\<close>

definition stored_fresh ::
  "preparation_world \<Rightarrow> prepare_input \<Rightarrow> run_row \<Rightarrow> provider_candidate \<Rightarrow> provider_candidate \<Rightarrow> swap_provider \<Rightarrow> evidence_set
   \<Rightarrow> swap_build \<Rightarrow> execution_call list \<Rightarrow> execution_blueprint \<Rightarrow> bool" where
  "stored_fresh w i run fresh selected p v built calls b \<longleftrightarrow>
     (\<exists>evidence inputAsset outputAsset. fresh_quote w i (rnw_intent run) selected p = Inr (fresh, evidence)
        \<and> fresh_build w i (rnw_intent run) fresh selected p = Inr built
        \<and> rin_from_asset (rnw_intent run) = Some inputAsset \<and> rin_to_asset (rnw_intent run) = Some outputAsset
        \<and> batch_calls (kernel_of w) i inputAsset outputAsset built = Inr calls
        \<and> (let sim = simulated w p (rnw_intent run) (blueprintIdV1 (ppw_hash_request w) (request_of i)) calls in
           kernel_allows (kernel_of w) (fresh_kernel_input w i run fresh selected p built calls sim)
           \<and> assembleExecutionBlueprintV1 w i run fresh v built inputAsset outputAsset calls sim = Inr b))"

lemma review_fresh_cases:
  assumes "review_fresh w s i run fresh selected p v built inputAsset outputAsset calls = (t, answer)"
  obtains (refused) "t = s" "\<And>b r. answer \<noteq> Inr (Prepared b r)"
  | (stored) b rows where
      "let sim = simulated w p (rnw_intent run) (blueprintIdV1 (ppw_hash_request w) (request_of i)) calls in
         kernel_allows (kernel_of w) (fresh_kernel_input w i run fresh selected p built calls sim)
         \<and> assembleExecutionBlueprintV1 w i run fresh v built inputAsset outputAsset calls sim = Inr b"
      "insertBlueprint (blueprint_schema w) (rnw_intent_hash run) (prs_candidates s) (prs_evidence_sets s) b (prs_blueprints s) = Inr rows"
      "t = s\<lparr>prs_blueprints := rows\<rparr>" "\<And>b' r. answer = Inr (Prepared b' r) \<Longrightarrow> b' = b"
proof -
  let ?sim = "simulated w p (rnw_intent run) (blueprintIdV1 (ppw_hash_request w) (request_of i)) calls"
  let ?k = "fresh_kernel_input w i run fresh selected p built calls ?sim"
  let ?a = "assembleExecutionBlueprintV1 w i run fresh v built inputAsset outputAsset calls ?sim"
  show thesis
  proof (cases "runSafetyKernel (kernel_of w) ?k")
    case (Inl e)
    then show ?thesis using assms by (intro refused) (auto simp: review_fresh_def Let_def)
  next
    case (Inr safety)
    note kernel = this
    show ?thesis
    proof (cases "krs_allowed safety")
      case False
      then show ?thesis using assms kernel by (intro refused) (auto simp: review_fresh_def Let_def)
    next
      case True
      then have allows: "kernel_allows (kernel_of w) ?k" by (simp add: kernel_allows_def kernel)
      show ?thesis
      proof (cases ?a)
        case (Inl e)
        then show ?thesis using assms kernel True by (intro refused) (auto simp: review_fresh_def Let_def)
      next
        case (Inr b)
        note assembled = this
        show ?thesis
        proof (cases "insertBlueprint (blueprint_schema w) (rnw_intent_hash run) (prs_candidates s) (prs_evidence_sets s) b (prs_blueprints s)")
          case (Inl e)
          then show ?thesis using assms kernel True assembled by (intro refused) (auto simp: review_fresh_def Let_def)
        next
          case (Inr rows)
          show ?thesis
            by (rule stored [of b rows])
              (use assms Inr kernel True assembled allows in \<open>auto simp: review_fresh_def Let_def split: sum.split_asm\<close>)
        qed
      qed
    qed
  qed
qed

lemma prepare_fresh_cases:
  assumes "prepare_fresh w s i run selected p = (t, answer)"
  obtains (refused) "extends s t" "rows_ok w s \<Longrightarrow> rows_ok w t" "prs_blueprints t = prs_blueprints s" "\<And>b r. answer \<noteq> Inr (Prepared b r)"
  | (stored) fresh v built calls b s1 rows where
      "stored_fresh w i run fresh selected p v built calls b" "extends s s1" "rows_ok w s \<Longrightarrow> rows_ok w s1"
      "prs_blueprints s1 = prs_blueprints s" "fresh \<in> set (prs_candidates s1)" "(pcd_id fresh, v) \<in> set (prs_evidence_sets s1)"
      "insertBlueprint (blueprint_schema w) (rnw_intent_hash run) (prs_candidates s1) (prs_evidence_sets s1) b (prs_blueprints s1) = Inr rows"
      "t = s1\<lparr>prs_blueprints := rows\<rparr>" "\<And>b' r. answer = Inr (Prepared b' r) \<Longrightarrow> b' = b"
proof (cases "fresh_quote w i (rnw_intent run) selected p")
  case (Inl a)
  have "\<And>b r. a \<noteq> Inr (Prepared b r)"
    using Inl by (auto simp: fresh_quote_def Let_def split: option.split_asm sum.split_asm if_split_asm bool.split_asm prod.split_asm)
  then show ?thesis using assms Inl by (intro refused) (auto simp: prepare_fresh_def Let_def)
next
  case (Inr quoted)
  then obtain fresh evidence where quote: "fresh_quote w i (rnw_intent run) selected p = Inr (fresh, evidence)" by (cases quoted) auto
  obtain s1 q where persist: "persist_quote w s run fresh evidence = (s1, q)" by fastforce
  note s1 = persist_quote_ok [OF persist]
  show ?thesis
  proof (cases q)
    case (Inl e)
    then show ?thesis using assms s1 quote persist by (intro refused) (auto simp: prepare_fresh_def Let_def)
  next
    case (Inr v)
    note q = this
    show ?thesis
    proof (cases "fresh_build w i (rnw_intent run) fresh selected p")
      case (Inl a)
      have "\<And>b r. a \<noteq> Inr (Prepared b r)"
        using Inl by (auto simp: fresh_build_def Let_def split: option.split_asm sum.split_asm if_split_asm bool.split_asm)
      then show ?thesis using assms s1 quote persist q Inl by (intro refused) (auto simp: prepare_fresh_def Let_def)
    next
      case (Inr built)
      note build = this
      show ?thesis
      proof (cases "\<exists>inputAsset outputAsset calls. rin_from_asset (rnw_intent run) = Some inputAsset
          \<and> rin_to_asset (rnw_intent run) = Some outputAsset \<and> batch_calls (kernel_of w) i inputAsset outputAsset built = Inr calls")
        case False
        then have "t = s1 \<and> (\<forall>b r. answer \<noteq> Inr (Prepared b r))"
          using assms quote persist q build
          by (auto simp: prepare_fresh_def Let_def batch_calls_def split: option.split_asm sum.split_asm if_split_asm)
        then show ?thesis using s1 by (intro refused) simp_all
      next
        case True
        then obtain inputAsset outputAsset calls where assets: "rin_from_asset (rnw_intent run) = Some inputAsset"
            "rin_to_asset (rnw_intent run) = Some outputAsset" "batch_calls (kernel_of w) i inputAsset outputAsset built = Inr calls"
          by blast
        then have "review_fresh w s1 i run fresh selected p v built inputAsset outputAsset calls = (t, answer)"
          using assms quote persist q build by (simp add: prepare_fresh_def Let_def)
        then show ?thesis
        proof (cases rule: review_fresh_cases)
          case refused
          then show ?thesis using s1 by (intro that(1)) simp_all
        next
          case (stored b rows)
          have "stored_fresh w i run fresh selected p v built calls b"
            unfolding stored_fresh_def using quote build assets stored(1) by blast
          moreover have "fresh \<in> set (prs_candidates s1)" "(pcd_id fresh, v) \<in> set (prs_evidence_sets s1)"
            using s1 q by blast+
          ultimately show ?thesis using s1 stored(2-4) by (intro that(2) [of fresh v built calls b s1 rows]) blast+
        qed
      qed
    qed
  qed
qed

lemma card_answer_refuses: "card_answer w intent rcard selected now = Inl a \<Longrightarrow> a \<noteq> Inr (Prepared b r)"
  by (auto simp: card_answer_def split: option.split_asm if_split_asm card_status.split_asm)

lemma prepare_cases:
  assumes "prepare w s i = (t, answer)"
  obtains (answered) "t = s" "\<And>b r. answer \<noteq> Inr (Prepared b r)"
  | (replayed) run rcard selected p b where
      "prepare_binding s i = Inr (run, rcard, selected)" "card_answer w (rnw_intent run) rcard selected (ppi_now i) = Inr p"
      "b \<in> set (prs_blueprints s)" "ebp_id b = blueprintIdV1 (ppw_hash_request w) (request_of i)"
      "t = s" "answer = reviewStoredBlueprintV1 w i run p selected b None"
  | (fresh) run rcard selected p where
      "prepare_binding s i = Inr (run, rcard, selected)" "card_answer w (rnw_intent run) rcard selected (ppi_now i) = Inr p"
      "\<And>b. b \<in> set (prs_blueprints s) \<Longrightarrow> ebp_id b \<noteq> blueprintIdV1 (ppw_hash_request w) (request_of i)"
      "prepare_fresh w s i run selected p = (t, answer)"
proof (cases "prepare_binding s i")
  case (Inl e)
  then show ?thesis using assms by (intro answered) (auto simp: prepare_def)
next
  case (Inr bound)
  then obtain run rcard selected where bound: "prepare_binding s i = Inr (run, rcard, selected)" by (cases bound) auto
  show ?thesis
  proof (cases "card_answer w (rnw_intent run) rcard selected (ppi_now i)")
    case (Inl a)
    then show ?thesis using assms bound card_answer_refuses [OF Inl] by (intro answered) (auto simp: prepare_def)
  next
    case (Inr p)
    let ?known = "find (\<lambda>b. ebp_id b = blueprintIdV1 (ppw_hash_request w) (request_of i)) (prs_blueprints s)"
    show ?thesis
    proof (cases ?known)
      case None
      then have "prepare_fresh w s i run selected p = (t, answer)" using assms bound Inr by (simp add: prepare_def)
      with None bound Inr show ?thesis by (intro fresh) (auto simp: find_None_iff)
    next
      case (Some b)
      then have b: "b \<in> set (prs_blueprints s)" "ebp_id b = blueprintIdV1 (ppw_hash_request w) (request_of i)"
        by (auto simp: find_Some_iff)
      show ?thesis
      proof (cases "past w (ebp_quote_expiry b) (ppi_now i)")
        case True
        then show ?thesis using assms bound Inr Some by (intro answered) (auto simp: prepare_def)
      next
        case False
        then have "t = s" "answer = reviewStoredBlueprintV1 w i run p selected b None"
          using assms bound Inr Some by (auto simp: prepare_def)
        with b bound Inr show ?thesis by (intro replayed)
      qed
    qed
  qed
qed

lemma quoted_provider: "fresh_quote w i intent selected p = Inr (fresh, evidence) \<Longrightarrow> pcd_provider_id fresh = provider_id p"
  by (auto simp: fresh_quote_def Let_def split: option.split_asm sum.split_asm if_split_asm bool.split_asm prod.split_asm)

lemma assembled:
  assumes "assembleExecutionBlueprintV1 w i run fresh v built inputAsset outputAsset calls sim = Inr b"
  shows "blueprint_schema w b" "ebp_id b = blueprintIdV1 (ppw_hash_request w) (request_of i)" "ebp_status b = BlueprintReadyForReview"
    "ebp_goal b = SwapGoal" "ebp_calls b = calls" "ebp_simulation_state b = sim" "ebp_quote_expiry b = swb_quote_expiry built"
    "ebp_created_at b = ppi_now i" "ebp_intent_hash b = rnw_intent_hash run" "ebp_selected_candidate_hash b = pcd_candidate_hash fresh"
    "ebp_wallet_address b = ppi_wallet_address i" "ebp_approved_calls_hash b = None"
    "ebp_expected_asset_changes b = expected_changes inputAsset (tam_amount_atomic (rin_amount (rnw_intent run))) outputAsset
        (tam_amount_atomic (swb_expected_output built)) (tam_amount_atomic (swb_minimum_output built))"
  using assms by (auto simp: assembleExecutionBlueprintV1_def blueprint_draft_def Let_def split: if_split_asm)

lemma stored_parts:
  assumes "stored_fresh w i run fresh selected p v built calls b"
  shows "pcd_provider_id fresh = provider_id p" "blueprint_schema w b"
    "ebp_id b = blueprintIdV1 (ppw_hash_request w) (request_of i)" "ebp_status b = BlueprintReadyForReview" "ebp_goal b = SwapGoal"
    "ebp_calls b = calls" "ebp_intent_hash b = rnw_intent_hash run" "ebp_selected_candidate_hash b = pcd_candidate_hash fresh"
    "kernel_allows (kernel_of w) (fresh_kernel_input w i run fresh selected p built calls (ebp_simulation_state b))"
  using assms assembled quoted_provider unfolding stored_fresh_def Let_def by (metis (no_types, lifting))+

lemma prepare_keeps:
  assumes "prepare w s i = (t, answer)" and "rows_ok w s"
  shows "rows_ok w t \<and> extends s t"
  using assms(1)
proof (cases rule: prepare_cases)
  case (fresh run rcard selected p)
  note run = preparation_binding_reads(1) [OF fresh(1)]
  from fresh(4) show ?thesis
  proof (cases rule: prepare_fresh_cases)
    case refused
    then show ?thesis using assms(2) by simp
  next
    case (stored c v built calls b s1 rows)
    have s1: "rows_ok w s1" using stored(3) assms(2) by blast
    have more: "extends s1 t" using blueprints.put_keeps [OF stored(7)] by (simp add: extends_def stored(8))
    have keyed: "tables_keyed t"
      using s1 blueprints.put_keyed [OF stored(7)] by (simp add: rows_ok_def tables_keyed_def stored(8))
    obtain c' v' where links: "ebp_intent_hash b = rnw_intent_hash run" "c' \<in> set (prs_candidates s1)"
        "pcd_candidate_hash c' = ebp_selected_candidate_hash b" "(pcd_id c', v') \<in> set (prs_evidence_sets s1)"
        "evs_evidence_set_hash v' = ebp_evidence_set_hash b" "evs_candidate_hash v' = ebp_selected_candidate_hash b"
      using insertBlueprint_links [OF stored(7)] by auto
    have "keyed pcd_id pcd_candidate_hash (prs_candidates s1)" using s1 by (simp add: rows_ok_def tables_keyed_def)
    then have "c' = c"
      using candidates.find_digest [of _ c] candidates.find_digest [of _ c'] links(2,3) stored(5) stored_parts(8) [OF stored(1)] by force
    then have "provider_of (pcd_provider_id c') = Some p" using stored_parts(1) [OF stored(1)] by (simp add: provider_round)
    moreover have "prs_run s1 = Some (run, SwapGoal)" using run stored(2) by (simp add: extends_def)
    ultimately have "blueprint_stands w s1 b"
      using links stored_parts(2,5) [OF stored(1)] unfolding blueprint_stands_def
      by (auto intro!: bexI [of _ c'] exI [of _ v'])
    moreover have "set (prs_blueprints t) = insert b (set (prs_blueprints s1))"
      using blueprints.put_adds [OF stored(7)] by (simp add: stored(8))
    ultimately have "\<forall>x \<in> set (prs_blueprints t). blueprint_stands w t x"
      using s1 more unfolding rows_ok_def by (auto intro: blueprint_stands_mono)
    moreover have "\<forall>x \<in> set (prs_evidence_sets t). set_stands w t x"
      using s1 more set_stands_mono unfolding rows_ok_def by (auto simp: stored(8))
    ultimately show ?thesis using keyed more stored(2) extends_trans unfolding rows_ok_def by blast
  qed
qed (use assms(2) in simp_all)

end
