(* ===== verification/Handover.thy ===== *)
theory Handover
  imports Preparation_Sound Custody
begin

text \<open>
  From the coordinator's tables to the rows approval reads, and why the kernel's second run over a stored
  batch agrees with its first for the providers that build their own calldata.
\<close>

section \<open>The rows approval reads\<close>

definition candidate_rows :: "provider_candidate list \<Rightarrow> route_candidate list" where
  "candidate_rows cs = List.map_filter (\<lambda>c. map_option (\<lambda>p. candidate_row p c) (provider_of (pcd_provider_id c))) cs"

text \<open>
  A candidate of a provider no batch is built for is left out: no blueprint names one. Before its first
  approval a run has no proof and no history.
\<close>

definition approval_rows :: "preparation_store \<Rightarrow> submission_store" where
  "approval_rows s = \<lparr>sst_swap_run = map_option fst (prs_run s), sst_earn_run = None, sst_candidates = candidate_rows (prs_candidates s),
     sst_blueprints = prs_blueprints s, sst_proofs = (\<lambda>_. None), sst_events = (\<lambda>_. [])\<rparr>"

lemma candidate_row_found:
  assumes "keyed pcd_id pcd_candidate_hash cs" and "c \<in> set cs" and "provider_of (pcd_provider_id c) = Some p"
  shows "find (\<lambda>x. rcd_candidate_hash x = pcd_candidate_hash c) (candidate_rows cs) = Some (candidate_row p c)"
  using assms
  by (induction cs)
    (auto simp: keyed_def candidate_rows_def List.map_filter_simps candidate_row_def split: option.split)

section \<open>The calls of a batch\<close>

lemma classified:
  "exc_call_type (classifySwapCallV1 w a router wallet n call) \<noteq> TransferCall"
  "exc_call_type (classifySwapCallV1 w a router wallet n call) = SwapCall
     \<Longrightarrow> to_lower (exc_to (classifySwapCallV1 w a router wallet n call)) = to_lower router"
  by (auto simp: classifySwapCallV1_def Let_def plain_call_def as_approval_def split: option.splits erc20_call.splits if_splits)

lemma swap_batch_types:
  assumes "c \<in> set (swap_batch w a wallet built)"
  shows "\<not> is_transfer c" "exc_call_type c = SwapCall \<Longrightarrow> to_lower (exc_to c) = to_lower (swb_router_address built)"
  using assms classified by (auto simp: swap_batch_def is_transfer_def)

lemma gift_call_shape:
  assumes "giftTransferCallV1 codec n token r amount = Inr c"
  shows "exc_call_type c = TransferCall" "exc_recipient c = Some (to_lower r)" "exc_amount_atomic c = Some amount"
  using assms by (auto simp: giftTransferCallV1_def bindR_eq_Inr Let_def split: asset_ref_kind.split_asm option.split_asm if_split_asm)

lemma batch_shape:
  assumes "batch_calls w i inputAsset outputAsset built = Inr calls"
  shows "(gift_of i built = None \<and> filter is_transfer calls = [])
    \<or> (\<exists>gift call. gift_of i built = Some gift \<and> filter is_transfer calls = [call]
         \<and> exc_recipient call = Some (to_lower (gft_recipient gift)) \<and> exc_amount_atomic call = Some (gft_amount_atomic gift))"
    "\<forall>c \<in> set calls. exc_call_type c = SwapCall \<longrightarrow> to_lower (exc_to c) = to_lower (swb_router_address built)"
proof -
  let ?swap = "swap_batch w inputAsset (ppi_wallet_address i) built"
  have none: "filter is_transfer ?swap = []" using swap_batch_types(1) by (simp add: filter_empty_conv)
  have routed: "\<forall>c \<in> set ?swap. exc_call_type c = SwapCall \<longrightarrow> to_lower (exc_to c) = to_lower (swb_router_address built)"
    using swap_batch_types(2) by blast
  show "(gift_of i built = None \<and> filter is_transfer calls = [])
    \<or> (\<exists>gift call. gift_of i built = Some gift \<and> filter is_transfer calls = [call]
         \<and> exc_recipient call = Some (to_lower (gft_recipient gift)) \<and> exc_amount_atomic call = Some (gft_amount_atomic gift))"
  proof (cases "gift_of i built")
    case None
    then show ?thesis using assms none by (simp add: batch_calls_def Let_def)
  next
    case (Some gift)
    then obtain call where "giftTransferCallV1 (kwd_codec w) (int (length ?swap)) outputAsset (gft_recipient gift) (gft_amount_atomic gift) = Inr call"
        "calls = ?swap @ [call]"
      using assms by (auto simp: batch_calls_def Let_def split: if_split_asm sum.split_asm)
    then show ?thesis using Some none gift_call_shape by (simp add: is_transfer_def)
  qed
  show "\<forall>c \<in> set calls. exc_call_type c = SwapCall \<longrightarrow> to_lower (exc_to c) = to_lower (swb_router_address built)"
    using assms routed gift_call_shape(1)
    by (auto simp: batch_calls_def Let_def split: option.split_asm if_split_asm sum.split_asm)
qed

text \<open>The gift read back from the calls is the one declared.\<close>

lemma declared_gift:
  assumes "batch_calls w i inputAsset outputAsset built = Inr calls" and "tam_amount_atomic (swb_minimum_output built) \<noteq> ''''"
  shows "giftDeclarationFromCallsV1 calls = gift_of i built"
  using batch_shape(1) [OF assms(1)]
proof
  assume "gift_of i built = None \<and> filter is_transfer calls = []"
  then show ?thesis by (simp add: giftDeclarationFromCallsV1_def)
next
  assume "\<exists>gift call. gift_of i built = Some gift \<and> filter is_transfer calls = [call]
      \<and> exc_recipient call = Some (to_lower (gft_recipient gift)) \<and> exc_amount_atomic call = Some (gft_amount_atomic gift)"
  then obtain gift call where g: "gift_of i built = Some gift" "filter is_transfer calls = [call]"
      "exc_recipient call = Some (to_lower (gft_recipient gift))" "exc_amount_atomic call = Some (gft_amount_atomic gift)"
    by blast
  obtain r where "present (ppi_gift_recipient i) = Some r" "gift = \<lparr>gft_recipient = to_lower r,
      gft_amount_atomic = tam_amount_atomic (swb_minimum_output built)\<rparr>"
    using g(1) by (auto simp: gift_of_def)
  moreover from this have "to_lower r \<noteq> []" by (auto simp: present_def to_lower_def split: option.split_asm if_split_asm)
  ultimately show ?thesis using g assms(2) by (auto simp: giftDeclarationFromCallsV1_def to_lower_idem)
qed

section \<open>The kernel's second run\<close>

text \<open>What a partner-built batch is not judged by.\<close>

definition second_run :: "kernel_input \<Rightarrow> int \<Rightarrow> stored_facts \<Rightarrow> kernel_input" where
  "second_run k now facts = k\<lparr>kin_now := now, kin_aerodrome := sfc_aerodrome facts, kin_reviewed_minimum := sfc_reviewed_minimum facts,
     kin_o1_pin_verified := False, kin_hydrex_pin_verified := False, kin_hydrex_upstream := None, kin_balancer := sfc_balancer facts\<rparr>"

lemma later_guards:
  "parse (kyc_expires_at c) = Some e \<Longrightarrow> now' < e \<Longrightarrow> guard_allows (validateKyberSwap env parse chain calls (Some c) now)
     \<Longrightarrow> guard_allows (validateKyberSwap env parse chain calls (Some c) now')"
  "parse (unc_expires_at d) = Some e \<Longrightarrow> now' < e \<Longrightarrow> guard_allows (validateUniswapSwap env parse chain calls (Some d) now)
     \<Longrightarrow> guard_allows (validateUniswapSwap env parse chain calls (Some d) now')"
proof -
  assume k: "parse (kyc_expires_at c) = Some e" "now' < e" "guard_allows (validateKyberSwap env parse chain calls (Some c) now)"
  then obtain r where r: "check_kyber_context parse (Some c) now = Inr r"
    by (cases "check_kyber_context parse (Some c) now") (auto simp: validateKyberSwap_def split: if_split_asm)
  then have r': "check_kyber_context parse (Some c) now' = Inr r"
    using k(1,2) by (auto simp: check_kyber_context_def Let_def split: option.split_asm if_split_asm)
  show "guard_allows (validateKyberSwap env parse chain calls (Some c) now')"
    using k(3) unfolding validateKyberSwap_def r r' .
next
  assume u: "parse (unc_expires_at d) = Some e" "now' < e" "guard_allows (validateUniswapSwap env parse chain calls (Some d) now)"
  then obtain r where r: "check_uniswap_context parse (Some d) now = Inr r"
    by (cases "check_uniswap_context parse (Some d) now") (auto simp: validateUniswapSwap_def split: if_split_asm)
  then have r': "check_uniswap_context parse (Some d) now' = Inr r"
    using u(1,2) by (auto simp: check_uniswap_context_def Let_def split: option.split_asm if_split_asm)
  show "guard_allows (validateUniswapSwap env parse chain calls (Some d) now')"
    using u(3) unfolding validateUniswapSwap_def r r' .
qed

lemma second_run_same [simp]:
  "kin_provider (second_run k now facts) = kin_provider k" "kin_chain_id (second_run k now facts) = kin_chain_id k"
  "kin_now (second_run k now facts) = now" "kin_quote_expiry (second_run k now facts) = kin_quote_expiry k"
  "kin_wallet_address (second_run k now facts) = kin_wallet_address k" "kin_intent (second_run k now facts) = kin_intent k"
  "kin_simulation_acceptable (second_run k now facts) = kin_simulation_acceptable k"
  "kin_calls (second_run k now facts) = kin_calls k" "kin_gift (second_run k now facts) = kin_gift k"
  "kin_swap_minimum (second_run k now facts) = kin_swap_minimum k" "kin_router_address (second_run k now facts) = kin_router_address k"
  "kin_intent_hash (second_run k now facts) = kin_intent_hash k"
  "kin_selected_candidate_hash (second_run k now facts) = kin_selected_candidate_hash k"
  "kin_security_required (second_run k now facts) = kin_security_required k"
  "kin_security_provider (second_run k now facts) = kin_security_provider k"
  "kin_security_addresses (second_run k now facts) = kin_security_addresses k"
  "kin_security_results (second_run k now facts) = kin_security_results k"
  by (simp_all add: second_run_def)

lemma second_run_calls [simp]:
  "gift_call (second_run k now facts) = gift_call k" "swap_calls (second_run k now facts) = swap_calls k"
  "approval_calls (second_run k now facts) = approval_calls k" "intent_amount_atomic (second_run k now facts) = intent_amount_atomic k"
  by (simp_all add: gift_call_def swap_calls_def approval_calls_def intent_amount_atomic_def)

lemma second_run_part [simp]: "swap_part (second_run k now facts) = swap_part k"
  by (simp add: swap_part_def)

lemma second_run_others [simp]: "other_calls (second_run k now facts) = other_calls k"
  by (simp add: other_calls_def)

lemma second_run_checks [simp]:
  "gift_checks w (second_run k now facts) = gift_checks w k" "binding_checks (second_run k now facts) = binding_checks k"
  "kernel_security w (second_run k now facts) = kernel_security w k"
  "kyber_context_of (second_run k now facts) = kyber_context_of k" "uniswap_context_of (second_run k now facts) = uniswap_context_of k"
  "ordered_correctly (second_run k now facts) = ordered_correctly k"
  by (simp_all add: gift_checks_def binding_checks_def kernel_security_def kyber_context_of_def uniswap_context_of_def
      ordered_correctly_def cong: option.case_cong prod.case_cong list.case_cong)

lemma second_run_allows:
  assumes "kernel_allows w k" and "kin_provider k \<in> {Uniswap, Kyberswap}"
    and "kwd_parse w (kin_quote_expiry k) = Some e" and "now < e"
  shows "kernel_allows w (second_run k now facts)"
proof -
  let ?k = "second_run k now facts"
  obtain gift provider where k: "gift_checks w k = Inr gift" "provider_checks w k = Inr provider" "list_all snd (basic_checks w k)"
      "list_all snd gift" "list_all snd (binding_checks k)" "list_all snd provider" "kernel_security w k \<noteq> SecurityBlocked"
      "kin_simulation_acceptable k"
    using assms(1) by (auto simp: kernel_allows_parts)
  have "list_all snd (basic_checks w ?k)" using k(3) assms(3,4) by (simp add: basic_checks_def)
  moreover have "\<exists>checks. provider_checks w ?k = Inr checks \<and> list_all snd checks"
  proof (cases "kin_provider k")
    case Kyberswap
    from kernel_kyber [OF assms(1) Kyberswap] obtain c where c: "kyber_context_of k = Some c"
        "guard_allows (validateKyberSwap (kwd_env w) (kwd_parse w) (ChainNumber (kin_chain_id k)) (map to_base_call (swap_part k)) (Some c) (kin_now k))"
      by blast
    have "kyc_expires_at c = kin_quote_expiry k" using c(1) by (auto simp: kyber_context_of_def split: option.split_asm)
    then show ?thesis using later_guards(1) [OF _ assms(4) c(2)] assms(3) c(1)
      by (simp add: provider_checks_def Let_def Kyberswap)
  next
    case Uniswap
    from kernel_uniswap [OF assms(1) Uniswap] obtain c where c: "uniswap_context_of k = Some c"
        "guard_allows (validateUniswapSwap (kwd_env w) (kwd_parse w) (ChainNumber (kin_chain_id k)) (map to_base_call (swap_part k)) (Some c) (kin_now k))"
      by blast
    have "unc_expires_at c = kin_quote_expiry k" using c(1) by (auto simp: uniswap_context_of_def split: option.split_asm)
    then show ?thesis using later_guards(2) [OF _ assms(4) c(2)] assms(3) c(1)
      by (simp add: provider_checks_def Let_def Uniswap)
  qed (use assms(2) in simp_all)
  ultimately show ?thesis using k by (auto simp: kernel_allows_parts)
qed

lemma find_of_filter: "filter P xs = [x] \<Longrightarrow> find P xs = Some x"
  by (induction xs) (auto split: if_split_asm)

lemma schema_parts:
  assumes "blueprint_schema w b"
  shows "list_all ExecutionCallV1Schema (ebp_calls b)" "ebp_blueprint_hash b = apw_hash_blueprint (ppw_approval w) b"
    "ebp_calls_hash b = apw_hash_calls (ppw_approval w) (ebp_calls b)"
    "\<forall>c \<in> set (ebp_expected_asset_changes b). case ach_minimum_amount_atomic c of Some m \<Rightarrow> AtomicAmountV1Schema m | None \<Rightarrow> True"
  using assms by (auto simp: blueprint_schema_def ExecutionBlueprintV1Schema_def list_all_iff)

lemma stored_pieces:
  assumes "stored_fresh w i run fresh selected p v built calls b"
  obtains inputAsset outputAsset evidence where
    "fresh_build w i (rnw_intent run) fresh selected p = Inr built"
    "fresh_quote w i (rnw_intent run) selected p = Inr (fresh, evidence)"
    "batch_calls (kernel_of w) i inputAsset outputAsset built = Inr calls"
    "ebp_expected_asset_changes b = expected_changes inputAsset (tam_amount_atomic (rin_amount (rnw_intent run))) outputAsset
        (tam_amount_atomic (swb_expected_output built)) (tam_amount_atomic (swb_minimum_output built))"
    "ebp_quote_expiry b = swb_quote_expiry built" "ebp_created_at b = ppi_now i"
  using assms assembled unfolding stored_fresh_def Let_def by (metis (no_types, lifting))

lemma stored_is_second_run:
  assumes sf: "stored_fresh w i run fresh selected p v built calls b" and p: "p \<in> {Uniswap, Kyberswap}"
    and router: "ADDRESS (swb_router_address built)" and wallet: "api_wallet_address a = ppi_wallet_address i"
  shows "stored_kernel_input (ppw_approval w) a run (candidate_row p fresh) b
    = second_run (fresh_kernel_input w i run fresh selected p built calls (ebp_simulation_state b)) (api_now a) no_facts"
proof -
  let ?k = "fresh_kernel_input w i run fresh selected p built calls (ebp_simulation_state b)"
  note parts = stored_parts [OF sf]
  from sf obtain inputAsset outputAsset evidence where pieces:
      "batch_calls (kernel_of w) i inputAsset outputAsset built = Inr calls"
      "ebp_expected_asset_changes b = expected_changes inputAsset (tam_amount_atomic (rin_amount (rnw_intent run))) outputAsset
        (tam_amount_atomic (swb_expected_output built)) (tam_amount_atomic (swb_minimum_output built))"
      "ebp_quote_expiry b = swb_quote_expiry built"
    by (rule stored_pieces)
  have minimum: "tam_amount_atomic (swb_minimum_output built) \<noteq> ''''"
    using schema_parts(4) [OF parts(2)] pieces(2) by (auto simp: expected_changes_def AtomicAmountV1Schema_def plain_decimal_def)
  have gift: "storedGiftKernelInputV1 (ebp_calls b) (ebp_expected_asset_changes b)
      = (gift_of i built, Some (tam_amount_atomic (swb_minimum_output built)))"
    using declared_gift [OF pieces(1) minimum]
    by (simp add: storedGiftKernelInputV1_def parts(6) pieces(2) expected_changes_def)
  have facts: "aerodromeKernelInputV1 p (candidate_row p fresh) (ebp_expected_asset_changes b) = no_facts"
    using p by (auto simp: aerodromeKernelInputV1_def pieces(2) expected_changes_def Let_def)
  obtain swap where "batch_bound (kernel_of w) ?k swap" using kernel_binds [OF parts(9)] by blast
  then have one: "filter (\<lambda>c. exc_call_type c = SwapCall) calls = [swap]"
    by (simp add: batch_bound_def swap_calls_def fresh_kernel_input_def Let_def)
  have "swap \<in> set (filter (\<lambda>c. exc_call_type c = SwapCall) calls)" unfolding one by simp
  then have swap: "swap \<in> set calls" "exc_call_type swap = SwapCall" by auto
  have "ADDRESS (exc_to swap)"
    using swap(1) schema_parts(1) [OF parts(2)] by (auto simp: parts(6) list_all_iff ExecutionCallV1Schema_def schema_fixed)
  then have "exc_to swap = swb_router_address built"
    using batch_shape(2) [OF pieces(1)] swap router address_lower by metis
  then have found: "(case find (\<lambda>c. exc_call_type c = SwapCall) (ebp_calls b) of Some c \<Rightarrow> exc_to c | None \<Rightarrow> provider_id p)
      = swb_router_address built"
    by (simp add: parts(6) find_of_filter [OF one])
  have provider: "rcd_provider (candidate_row p fresh) = p" by (simp add: candidate_row_def)
  show ?thesis
    using p unfolding stored_kernel_input_def provider found facts gift Let_def fst_conv snd_conv
    by (auto simp: second_run_def fresh_kernel_input_def no_facts_def Let_def parts(6-8) pieces(3) wallet)
qed

section \<open>An approval that goes through\<close>

text \<open>The call a wallet is handed and the stored one: target, data and attached value.\<close>

definition pays_the_same :: "execution_call \<Rightarrow> payload_call \<Rightarrow> bool" where
  "pays_the_same c p \<longleftrightarrow> plc_to p = exc_to c \<and> plc_data p = exc_data c
     \<and> (\<exists>v. js_bigint (exc_value_wei c) = Some (int v) \<and> plc_value p = ''0x'' @ show_digits 16 v)"

lemma payload_total:
  assumes "list_all ExecutionCallV1Schema cs"
  shows "\<exists>ps. mapR payload_call_of cs = Inr ps \<and> list_all2 pays_the_same cs ps"
  using assms
proof (induction cs)
  case (Cons c cs)
  then have plain: "plain_decimal (exc_value_wei c)" by (simp add: ExecutionCallV1Schema_def AtomicAmountV1Schema_def)
  then have "exc_value_wei c \<noteq> []" by (auto simp: plain_decimal_def)
  then have "js_bigint (exc_value_wei c) = Some (int (digits_value 10 (exc_value_wei c)))"
    using js_bigint_digits plain_decimal_digits [OF plain] by blast
  then have "\<exists>x. payload_call_of c = Inr x \<and> pays_the_same c x"
    by (simp add: payload_call_of_def pays_the_same_def)
  then show ?case using Cons by auto
qed simp

lemma approval_goes_through:
  assumes run: "sst_swap_run s = Some run" and wallet: "to_lower (rnw_wallet_address run) = to_lower (api_wallet_address a)"
    and chain: "rnw_chain_id run = 8453"
    and b: "find (\<lambda>b. ebp_id b = api_blueprint_id a) (sst_blueprints s) = Some b" "ebp_goal b = SwapGoal"
      "ebp_blueprint_hash b = api_blueprint_hash a" "ebp_intent_hash b = rnw_intent_hash run"
      "ebp_blueprint_hash b = apw_hash_blueprint w b" "ebp_calls_hash b = apw_hash_calls w (ebp_calls b)"
      "ebp_status b = BlueprintReadyForReview" "list_all ExecutionCallV1Schema (ebp_calls b)" "ebp_created_at b \<le> api_now a"
    and time: "kwd_parse (apw_kernel w) (ebp_quote_expiry b) = Some e" "api_now a < e"
    and candidate: "find_candidate s b = Some c"
    and kernel: "kernel_allows (apw_kernel w) (stored_kernel_input w a run c b)"
    and credit: "find (\<lambda>c. ach_direction c = Credit) (ebp_expected_asset_changes b) = Some output"
    and proofless: "sst_proofs s = (\<lambda>_. None)"
  shows "\<exists>payload state. snd (approveExecutionBlueprintV1 w s a) = Inr (Approved payload state)
    \<and> list_all2 pays_the_same (ebp_calls b) (apl_calls payload) \<and> apl_from payload = rnw_wallet_address run"
proof -
  have binding: "approval_binding w s a = Inr (run, b)"
    using run wallet chain b(1-6) by (simp add: approval_binding_def)
  obtain r where r: "runSafetyKernel (apw_kernel w) (stored_kernel_input w a run c b) = Inr r" "krs_allowed r"
    using kernel by (auto simp: kernel_allows_def split: sum.split_asm)
  let ?b = "as_approved w a b"
  let ?s = "s\<lparr>sst_blueprints := map (\<lambda>x. if ebp_id x = ebp_id b then ?b else x) (sst_blueprints s)\<rparr>"
  have approved: "approve_blueprint w s a run b = Inr (Inr (?b, ?s))"
    using b(7,9) candidate r by (simp add: approve_blueprint_def as_approved_def Let_def)
  have "find_candidate ?s ?b = Some c" using candidate by (simp add: find_candidate_def as_approved_def)
  then obtain p s2 where ensured: "ensure_proof w ?s (api_now a) ?b = Inr (p, s2)"
    using credit proofless by (auto simp: ensure_proof_def Let_def as_approved_def)
  obtain ps where ps: "mapR payload_call_of (ebp_calls ?b) = Inr ps" "list_all2 pays_the_same (ebp_calls b) ps"
    using payload_total [OF b(8)] by (auto simp: as_approved_def)
  have "\<not> e \<le> api_now a" using time(2) by simp
  then show ?thesis
    using ps by (simp add: approveExecutionBlueprintV1_def binding time(1) approved ensured finish_approval_def
        buildApprovedPayload_def Let_def)
qed

section \<open>What a stored batch promises\<close>

lemma card_answer_asks:
  assumes "card_answer w intent rcard selected now = Inr p"
  shows "pcd_provider_id selected = provider_id p" "rtc_status rcard \<in> {CardReady, CardSelected}"
    "\<not> past w (rtc_expires_at rcard) now" "if p = Aerodrome then isSupportedAerodromePair intent else isSupportedPair intent"
  using assms
  by (auto simp: card_answer_def provider_of_def find_Some_iff split: option.split_asm if_split_asm card_status.split_asm)

lemma stored_credit:
  assumes "stored_fresh w i run fresh selected p v built calls b"
  shows "\<exists>credit \<in> set (ebp_expected_asset_changes b). ach_direction credit = Credit \<and> rin_to_asset (rnw_intent run) = Some (ach_asset credit)
     \<and> ach_amount_atomic credit = tam_amount_atomic (swb_expected_output built)
     \<and> ach_minimum_amount_atomic credit = Some (tam_amount_atomic (swb_minimum_output built))"
  using assms assembled(13) by (fastforce simp: stored_fresh_def Let_def expected_changes_def)

lemma stored_floors:
  assumes "stored_fresh w i run fresh selected p v built calls b"
  shows "below (pcd_expected_output fresh) (pcd_minimum_output selected) = Inr False
    \<and> below (swb_expected_output built) (pcd_minimum_output selected) = Inr False"
  using assms
  by (auto simp: stored_fresh_def fresh_quote_def fresh_build_def Let_def
      split: option.split_asm sum.split_asm if_split_asm bool.split_asm prod.split_asm)

text \<open>The quote and the build a stored batch rests on are the services' own answers to this request.\<close>

definition build_request_of :: "prepare_input \<Rightarrow> run_row \<Rightarrow> provider_candidate \<Rightarrow> provider_candidate \<Rightarrow> build_request" where
  "build_request_of i run fresh selected = \<lparr>bdr_intent = rnw_intent run, bdr_selected = fresh, bdr_reviewed = selected,
     bdr_wallet_address = ppi_wallet_address i, bdr_now = ppi_now i, bdr_request_id = ppi_request_id i\<rparr>"

lemma stored_services:
  assumes "stored_fresh w i run fresh selected p v built calls b"
  shows "\<exists>quote evidence build. ppw_quote w p = Some quote \<and> quote (rnw_intent run) i = Inr (fresh, evidence)
    \<and> ppw_build w p = Some build \<and> build (build_request_of i run fresh selected) = Inr built
    \<and> \<not> past w (pcd_quote_expires_at fresh) (ppi_now i) \<and> \<not> past w (swb_quote_expiry built) (ppi_now i)"
proof -
  obtain evidence where "fresh_quote w i (rnw_intent run) selected p = Inr (fresh, evidence)"
      "fresh_build w i (rnw_intent run) fresh selected p = Inr built"
    using assms unfolding stored_fresh_def by blast
  then show ?thesis
    by (auto simp: fresh_quote_def fresh_build_def build_request_of_def Let_def
        split: option.split_asm sum.split_asm if_split_asm bool.split_asm prod.split_asm)
qed

section \<open>Preparations in any order\<close>

text \<open>Between two preparations every service may answer otherwise; the hashes, the clock's reading of texts and the kernel's parameters stay.\<close>

record service_answers =
  sva_security :: "string list \<Rightarrow> security_result list"
  sva_pin :: "swap_provider \<Rightarrow> bool"
  sva_supported :: "swap_provider list option"
  sva_quote :: "swap_provider \<Rightarrow> (route_intent \<Rightarrow> prepare_input \<Rightarrow> string + provider_candidate \<times> evidence_record list) option"
  sva_build :: "swap_provider \<Rightarrow> (build_request \<Rightarrow> string + swap_build) option"
  sva_simulate :: "(string \<Rightarrow> execution_call list \<Rightarrow> simulation_state) option"

definition served :: "preparation_world \<Rightarrow> service_answers \<Rightarrow> preparation_world" where
  "served w a = w\<lparr>ppw_approval := asking (ppw_approval w) (sva_security a) (sva_pin a), ppw_supported := sva_supported a,
     ppw_quote := sva_quote a, ppw_build := sva_build a, ppw_simulate := sva_simulate a\<rparr>"

lemma served_keeps [simp]:
  "kernel_of (served w a) = kernel_of w" "apw_hash_calls (ppw_approval (served w a)) = apw_hash_calls (ppw_approval w)"
  "apw_hash_blueprint (ppw_approval (served w a)) = apw_hash_blueprint (ppw_approval w)"
  "apw_hashing (ppw_approval (served w a)) = apw_hashing (ppw_approval w)"
  "ppw_hash_request (served w a) = ppw_hash_request w" "ppw_hash_evidence_set (served w a) = ppw_hash_evidence_set w"
  "ppw_canonical (served w a) = ppw_canonical w"
  by (simp_all add: served_def)

lemma served_invariant [simp]: "rows_ok (served w a) s \<longleftrightarrow> rows_ok w s"
proof -
  have "blueprint_schema (served w a) = blueprint_schema w" by (simp add: blueprint_schema_def)
  then show ?thesis by (simp add: rows_ok_def set_stands_def blueprint_stands_def)
qed

inductive preparation_step ::
  "preparation_world \<Rightarrow> preparation_store \<Rightarrow> service_answers \<times> prepare_input \<Rightarrow> preparation_store \<Rightarrow> bool" for w where
  prepared: "preparation_step w s (a, i) (fst (prepare (served w a) s i))"

inductive_cases preparation_stepE: "preparation_step w s e t"

text \<open>
  A run whose routes are compared, their candidates, evidence and evidence sets stored, and whose first batch
  is still to be prepared.
\<close>

definition nothing_prepared :: "preparation_world \<Rightarrow> preparation_store \<Rightarrow> bool" where
  "nothing_prepared w s \<longleftrightarrow> rows_ok w s \<and> prs_blueprints s = []"

text \<open>What the engine leaves behind, with any cards over it, is such a run.\<close>

lemma evaluated_is_unprepared:
  assumes "prs_candidates s = []" and "prs_evidence s = []" and "prs_evidence_sets s = []" and "prs_blueprints s = []"
  shows "nothing_prepared w ((fst (persistEvaluation w r routes s))\<lparr>prs_cards := cards\<rparr>)"
proof -
  have "rows_ok w s" using assms by (simp add: rows_ok_def tables_keyed_def keyed_def)
  from persistEvaluation_stands [OF this, of r routes]
  have "rows_ok w (fst (persistEvaluation w r routes s))" "prs_blueprints (fst (persistEvaluation w r routes s)) = []"
    using assms(4) by simp_all
  moreover have "rows_ok w (t\<lparr>prs_cards := cards\<rparr>) = rows_ok w t" for t
    by (simp add: rows_ok_def tables_keyed_def set_stands_def blueprint_stands_def)
  ultimately show ?thesis by (simp add: nothing_prepared_def)
qed

definition awaiting_review :: "preparation_world \<Rightarrow> preparation_store \<Rightarrow> bool" where
  "awaiting_review w s \<longleftrightarrow> rows_ok w s \<and> (\<forall>b \<in> set (prs_blueprints s). ebp_status b = BlueprintReadyForReview)"

lemma prepared_blueprints:
  assumes "prepare w s i = (t, answer)" and "b \<in> set (prs_blueprints t)"
  shows "b \<in> set (prs_blueprints s) \<or> (ebp_status b = BlueprintReadyForReview \<and> ebp_id b = blueprintIdV1 (ppw_hash_request w) (request_of i))"
  using assms(1)
proof (cases rule: prepare_cases)
  case (fresh run rcard selected p)
  from fresh(4) show ?thesis
  proof (cases rule: prepare_fresh_cases)
    case (stored c v built calls b' s1 rows)
    have "set (prs_blueprints t) = insert b' (set (prs_blueprints s))"
      using blueprints.put_adds [OF stored(7)] by (simp add: stored(4,8))
    then show ?thesis using assms(2) stored_parts(3,4) [OF stored(1)] by auto
  qed (use assms(2) in simp)
qed (use assms(2) in simp_all)

lemma preparation_step_keeps: "awaiting_review w s \<Longrightarrow> preparation_step w s e t \<Longrightarrow> awaiting_review w t"
proof (erule preparation_stepE)
  fix a i
  assume ok: "awaiting_review w s" and t: "t = fst (prepare (served w a) s i)"
  then obtain answer where p: "prepare (served w a) s i = (t, answer)" by (cases "prepare (served w a) s i") simp
  have "rows_ok w t" using prepare_keeps [OF p] ok by (simp add: awaiting_review_def)
  moreover have "\<forall>b \<in> set (prs_blueprints t). ebp_status b = BlueprintReadyForReview"
    using prepared_blueprints [OF p] ok by (auto simp: awaiting_review_def)
  ultimately show "awaiting_review w t" by (simp add: awaiting_review_def)
qed

interpretation preparation: stepping "preparation_step w" "nothing_prepared w" "awaiting_review w" for w
  by unfold_locales (simp add: nothing_prepared_def awaiting_review_def, rule preparation_step_keeps)

lemma step_extends:
  assumes "awaiting_review w s" and "preparation_step w s e t"
  shows "extends s t"
  using assms(2)
proof (rule preparation_stepE)
  fix a i
  assume "t = fst (prepare (served w a) s i)"
  then obtain answer where "prepare (served w a) s i = (t, answer)" by (cases "prepare (served w a) s i") simp
  from prepare_keeps [OF this] show ?thesis using assms(1) by (simp add: awaiting_review_def)
qed

lemma runs_extend: "runs (preparation_step w) s es t \<Longrightarrow> awaiting_review w s \<Longrightarrow> extends s t \<and> awaiting_review w t"
proof (induction es arbitrary: s)
  case (Cons e es)
  then obtain u where u: "preparation_step w s e u" "runs (preparation_step w) u es t" by auto
  have "awaiting_review w u" using Cons.prems(2) u(1) by (rule preparation_step_keeps)
  then show ?case using Cons.IH [OF u(2)] step_extends [OF Cons.prems(2) u(1)] extends_trans by blast
qed simp

lemma fresh_for_custody: "awaiting_review w s \<Longrightarrow> custody_fresh (approval_rows s)"
  by (auto simp: awaiting_review_def custody_fresh_def approval_rows_def list_all_iff)

text \<open>What an answer that shows a batch says about the tables.\<close>

lemma shown_is_stored:
  assumes "prepare w s i = (t, Inr (Prepared b r))"
  shows "b \<in> set (prs_blueprints t) \<and> ebp_id b = blueprintIdV1 (ppw_hash_request w) (request_of i)"
  using assms
proof (cases rule: prepare_cases)
  case (replayed run rcard selected p b')
  then have "b' = b"
    by (auto simp: reviewStoredBlueprintV1_def Let_def split: if_split_asm sum.split_asm option.split_asm)
  then show ?thesis using replayed by simp
next
  case (fresh run rcard selected p)
  from fresh(4) show ?thesis
  proof (cases rule: prepare_fresh_cases)
    case (stored c v built calls b' s1 rows)
    then have "b = b'" by simp
    then show ?thesis using blueprints.put_has [OF stored(7)] stored_parts(3) [OF stored(1)] by (simp add: stored(8))
  next
    case refused
    from refused(4) show ?thesis by blast
  qed
next
  case answered
  from answered(2) show ?thesis by blast
qed

lemma stored_quote:
  assumes "stored_fresh w i run fresh selected p v built calls b"
  shows "swb_quote_expiry built = ebp_quote_expiry b" "ebp_created_at b = ppi_now i"
  using stored_pieces [OF assms] by metis+

end
