(* ===== verification/Preparation_Sample.thy ===== *)
theory Preparation_Sample
  imports Handover Custody_Sample
begin

text \<open>
  The gift batch of Kernel_Sample as it comes to be: the card, the quote and the build it is prepared
  from, for the witnesses of the claims about preparations.
\<close>

definition sample_card_candidate :: provider_candidate where
  "sample_card_candidate = \<lparr>pcd_id = ''q0'', pcd_intent_hash = ''i'', pcd_candidate_hash = ''c0'', pcd_provider_id = ''kyberswap'',
     pcd_input_amount = rin_amount gift_intent,
     pcd_expected_output = \<lparr>tam_asset = bought_asset, tam_amount_atomic = ''9'', tam_amount_decimal = ''0''\<rparr>,
     pcd_minimum_output = \<lparr>tam_asset = bought_asset, tam_amount_atomic = ''7'', tam_amount_decimal = ''0''\<rparr>,
     pcd_quote_expires_at = ''later'', pcd_source_keys = [], pcd_source_independence = Independent\<rparr>"

definition sample_quote :: provider_candidate where
  "sample_quote = sample_card_candidate\<lparr>pcd_id := ''q'', pcd_candidate_hash := ''c''\<rparr>"

definition sample_build :: swap_build where
  "sample_build = \<lparr>swb_router_address = KYBERSWAP_BASE_ROUTER,
     swb_calls = [\<lparr>bdc_to = KYBERSWAP_BASE_ROUTER, bdc_value = ''1000000000000000000'', bdc_data = ''0xe21fd0e9''\<rparr>],
     swb_quote_expiry = ''later'', swb_expected_output = pcd_expected_output sample_quote,
     swb_minimum_output = pcd_minimum_output sample_quote, swb_aerodrome = None, swb_o1_pinned = False,
     swb_hydrex_upstream = None, swb_balancer = None\<rparr>"

definition sample_preparation :: preparation_world where
  "sample_preparation = \<lparr>ppw_approval = asking custody_world safe_answers (\<lambda>_. False), ppw_hash_request = (\<lambda>_. ''0xb''),
     ppw_hash_evidence_id = (\<lambda>_ _. ''0xv''), ppw_hash_evidence_set = (\<lambda>v. if evs_candidate_hash v = ''c'' then ''v'' else ''v0''), ppw_canonical = (\<lambda>_. True),
     ppw_supported = None, ppw_quote = (\<lambda>_. Some (\<lambda>_ _. Inr (sample_quote, []))),
     ppw_build = (\<lambda>_. Some (\<lambda>_. Inr sample_build)), ppw_simulate = None\<rparr>"

definition sample_card :: route_card where
  "sample_card = \<lparr>rtc_route_card_hash = ''r'', rtc_intent_hash = ''i'', rtc_status = CardReady, rtc_expires_at = ''later'',
     rtc_recommended = sample_card_candidate, rtc_alternatives = []\<rparr>"

definition sample_request :: prepare_input where
  "sample_request = \<lparr>ppi_wallet_address = giver, ppi_route_card_hash = ''r'', ppi_selected_candidate_hash = ''c0'',
     ppi_request_id = ''1'', ppi_now = 1000, ppi_gift_recipient = Some friend\<rparr>"

definition sample_set :: evidence_set where
  "sample_set = \<lparr>evs_id = ''evidence-set:v'', evs_wallet_address = giver, evs_chain_id = 8453, evs_intent_hash = ''i'',
     evs_candidate_hash = ''c'', evs_evidence_set_hash = ''v'', evs_records = [], evs_required_evidence = [],
     evs_source_independence = Independent, evs_overlap_groups = []\<rparr>"

text \<open>What the comparison stored for the card's candidate.\<close>

definition sample_card_set :: evidence_set where
  "sample_card_set = sample_set\<lparr>evs_id := ''evidence-set:v0'', evs_candidate_hash := ''c0'', evs_evidence_set_hash := ''v0''\<rparr>"

definition sample_opened :: preparation_store where
  "sample_opened = \<lparr>prs_run = Some (gift_run, SwapGoal), prs_cards = [sample_card], prs_candidates = [], prs_evidence = [],
     prs_evidence_sets = [], prs_blueprints = []\<rparr>"

definition sample_tables :: preparation_store where
  "sample_tables = \<lparr>prs_run = Some (gift_run, SwapGoal), prs_cards = [sample_card], prs_candidates = [sample_card_candidate],
     prs_evidence = [], prs_evidence_sets = [(''q0'', sample_card_set)], prs_blueprints = []\<rparr>"

definition sample_blueprint :: execution_blueprint where
  "sample_blueprint = gift_blueprint\<lparr>ebp_id := ''blueprint:b'', ebp_created_at := 1000, ebp_updated_at := 1000,
     ebp_expected_asset_changes := expected_changes ether_asset ''1000000000000000000'' bought_asset ''9'' ''7'',
     ebp_simulation_state := unsimulatedStateV1\<rparr>"

definition sample_quoted :: preparation_store where
  "sample_quoted = sample_tables\<lparr>prs_candidates := [sample_card_candidate, sample_quote], prs_evidence_sets := [(''q0'', sample_card_set), (''q'', sample_set)]\<rparr>"

definition sample_stored :: preparation_store where
  "sample_stored = sample_quoted\<lparr>prs_blueprints := [sample_blueprint]\<rparr>"

lemma sample_digits: "js_bigint ''7'' = Some 7" "js_bigint ''9'' = Some 9" "js_bigint ''0'' = Some 0" "plain_decimal ''7''" "plain_decimal ''9''"
    "plain_decimal ''0''" "plain_decimal ''1''" "plain_decimal ''1000000000000000000''"
  by (simp_all add: js_bigint_digits all_digits_def digit_value_def digits_value_def plain_decimal_def)

lemma sample_bound: "prepare_binding sample_tables sample_request = Inr (gift_run, sample_card, sample_card_candidate)"
  by (simp add: prepare_binding_def sample_tables_def sample_request_def gift_run_def sample_card_def sample_card_candidate_def
      gift_intent_def ether_asset_def Let_def)

lemma sample_asked: "card_answer sample_preparation gift_intent sample_card sample_card_candidate 1000 = Inr Kyberswap"
proof -
  have "isSupportedPair gift_intent"
    using sample_bought sample_addresses(3,6)
    by (simp add: isSupportedPair_def routablePairV1_def routeSideV1_def gift_intent_def ether_asset_def bought_asset_def
        BASE_MAINNET_CHAIN_ID_def MAX_ROUTE_ASSET_DECIMALS_V1_def)
  then show ?thesis
    by (simp add: card_answer_def sample_card_candidate_def provider_of_def all_providers_def provider_id_def sample_preparation_def
        DEFAULT_SUPPORTED_BUILD_PROVIDERS_V1_def sample_card_def past_def custody_world_def asking_def sample_world_def)
qed

lemma sample_quote_ok: "fresh_quote sample_preparation sample_request gift_intent sample_card_candidate Kyberswap = Inr (sample_quote, [])"
  by (simp add: fresh_quote_def sample_preparation_def sample_quote_def sample_card_candidate_def provider_id_def gift_intent_def
      below_def amount_of_def sample_digits past_def custody_world_def asking_def sample_world_def sample_request_def Let_def)

lemma sample_persisted: "persist_quote sample_preparation sample_tables gift_run sample_quote [] = (sample_quoted, Inr sample_set)"
proof -
  have set: "buildFreshEvidenceSetV1 sample_preparation gift_run sample_quote [] = sample_set"
    by (simp add: buildFreshEvidenceSetV1_def sample_preparation_def gift_run_def gift_intent_def sample_quote_def sample_card_candidate_def
        sample_set_def findLiquidityOverlapsV1_def Let_def)
  have schema: "EvidenceSetV1Schema (ppw_hash_evidence_set sample_preparation) sample_set"
    by (simp add: EvidenceSetV1Schema_def sample_preparation_def sample_set_def findLiquidityOverlapsV1_def)
  have "insertCandidate ''i'' sample_quote [sample_card_candidate] = Inr [sample_card_candidate, sample_quote]"
    by (simp add: linked_simps insert_row_def sample_quote_def sample_card_candidate_def)
  moreover have "insertEvidenceSet (ppw_hash_evidence_set sample_preparation) ''i'' [sample_card_candidate, sample_quote] [] (''q'', sample_set)
        [(''q0'', sample_card_set)] = Inr [(''q0'', sample_card_set), (''q'', sample_set)]"
    using schema by (simp add: linked_simps insert_row_def) (simp add: sample_card_set_def sample_set_def sample_quote_def sample_card_candidate_def)
  moreover have "pcd_id sample_quote = ''q''" "rnw_intent_hash gift_run = ''i''" by (simp_all add: sample_quote_def gift_run_def)
  ultimately show ?thesis using schema
    by (simp add: persist_quote_def sample_tables_def set sample_quoted_def Let_def)
qed

lemma sample_built: "fresh_build sample_preparation sample_request gift_intent sample_quote sample_card_candidate Kyberswap = Inr sample_build"
  by (simp add: fresh_build_def sample_preparation_def sample_build_def below_def amount_of_def sample_quote_def sample_card_candidate_def
      sample_digits past_def custody_world_def asking_def sample_world_def sample_request_def)

lemma sample_batch: "batch_calls (kernel_of sample_preparation) sample_request ether_asset bought_asset sample_build = Inr [ether_swap, friend_transfer]"
proof -
  have swap: "swap_batch (kernel_of sample_preparation) ether_asset giver sample_build = [ether_swap]"
    by (simp add: swap_batch_def sample_build_def classifySwapCallV1_def selector_of_def to_lower_def char_lower_def plain_call_def
        ether_asset_def present_def ether_swap_def Let_def)
  have gift: "gift_of sample_request sample_build = Some \<lparr>gft_recipient = friend, gft_amount_atomic = ''7''\<rparr>"
  proof -
    have "friend \<noteq> []" by (simp add: friend_def plain_address_def)
    then show ?thesis
      by (simp add: gift_of_def present_def sample_request_def sample_build_def sample_quote_def sample_card_candidate_def sample_addresses)
  qed
  have token: "present (asr_address bought_asset) = Some bought" "asr_kind bought_asset = Erc20Kind"
    by (simp_all add: present_def bought_asset_def bought_def plain_address_def)
  have lower: "to_lower ''0xa9059cbb'' = ''0xa9059cbb''" by (simp add: to_lower_def char_lower_def)
  have "giftTransferCallV1 (kwd_codec (kernel_of sample_preparation)) 1 bought_asset friend ''7'' = Inr friend_transfer"
  proof -
    have "bought \<noteq> []" by (simp add: bought_def plain_address_def)
    then show ?thesis
      by (simp add: giftTransferCallV1_def encodeGiftTransferV1_def sample_digits sample_preparation_def asking_def custody_world_def
          sample_world_def bought_asset_def friend_transfer_def sample_addresses lower Let_def)
  qed
  then show ?thesis using swap gift token by (simp add: batch_calls_def sample_request_def Let_def)
qed

lemma sample_sim: "simulated sample_preparation Kyberswap gift_intent x calls = unsimulatedStateV1"
  by (simp add: simulated_def simulationIsRequiredV1_def PROVIDERS_REQUIRING_SIMULATION_V1_def gift_intent_def)

abbreviation sample_kernel_input :: kernel_input where
  "sample_kernel_input \<equiv> fresh_kernel_input sample_preparation sample_request gift_run sample_quote sample_card_candidate Kyberswap
     sample_build [ether_swap, friend_transfer] unsimulatedStateV1"

lemma sample_gift_of: "gift_of sample_request sample_build = Some \<lparr>gft_recipient = friend, gft_amount_atomic = ''7''\<rparr>"
proof -
  have "friend \<noteq> []" by (simp add: friend_def plain_address_def)
  then show ?thesis
    by (simp add: gift_of_def present_def sample_request_def sample_build_def sample_quote_def sample_card_candidate_def sample_addresses)
qed

lemma sample_input: "sample_kernel_input = second_run gift_batch 1000 (no_facts\<lparr>sfc_reviewed_minimum := Some ''7''\<rparr>)"
proof -
  have addresses: "swapTokenSecurityAddressesV1 gift_intent = [bought]"
  proof -
    have "bought \<noteq> []" by (simp add: bought_def plain_address_def)
    then show ?thesis
      by (simp add: swapTokenSecurityAddressesV1_def gift_intent_def asset_addresses_def ether_asset_def bought_asset_def)
  qed
  have provider: "security_provider_of (safe_answers [bought]) = ''goplus''"
    by (simp add: security_provider_of_def safe_answers_def)
  have sim: "fst (simulationRequirementV1 Kyberswap gift_intent state) = True" for state
    by (simp add: simulationRequirementV1_def simulationIsRequiredV1_def PROVIDERS_REQUIRING_SIMULATION_V1_def simulationHonesty_def
        gift_intent_def)
  have rest: "rnw_intent gift_run = gift_intent" "rnw_intent_hash gift_run = ''i''" "rin_chain_id gift_intent = 8453"
    "apw_contract_security (ppw_approval sample_preparation) = safe_answers" "ppi_wallet_address sample_request = giver"
    "ppi_now sample_request = 1000" "pcd_candidate_hash sample_quote = ''c''"
    "tam_amount_atomic (pcd_minimum_output sample_card_candidate) = ''7''" "tam_amount_atomic (swb_minimum_output sample_build) = ''7''"
    by (simp_all add: gift_run_def gift_intent_def sample_preparation_def asking_def sample_request_def sample_quote_def
        sample_card_candidate_def sample_build_def)
  show ?thesis
    unfolding fresh_kernel_input_def Let_def rest addresses provider sim sample_gift_of
    by (simp add: sample_build_def second_run_def gift_batch_def no_facts_def safe_answers_def)
qed

lemma sample_allowed: "kernel_allows (kernel_of sample_preparation) sample_kernel_input"
proof -
  have "kernel_allows sample_world (second_run gift_batch 1000 (no_facts\<lparr>sfc_reviewed_minimum := Some ''7''\<rparr>))"
    by (rule second_run_allows [OF gift_batch_allowed, of 2000]) (simp_all add: gift_batch_def sample_world_def)
  then show ?thesis unfolding sample_input by (simp add: sample_preparation_def asking_def custody_world_def)
qed

lemma sample_assets: "AssetRefV1Schema ether_asset" "AssetRefV1Schema bought_asset"
proof -
  have l: "length bought = 42" "bought \<noteq> []" by (simp_all add: bought_def plain_address_def)
  have show_chain: "show_int 8453 = ''8453''"
    by (simp add: show_int_def show_digits.simps digit_char_def char_of_def bit_0 bit_Suc_0_iff)
  show "AssetRefV1Schema ether_asset" by (simp add: AssetRefV1Schema_def ether_asset_def assetIdV1_def show_chain)
  show "AssetRefV1Schema bought_asset"
    using l sample_addresses(3) by (simp add: AssetRefV1Schema_def bought_asset_def assetIdV1_def show_chain schema_fixed)
qed

lemma sample_calls: "ExecutionCallV1Schema ether_swap" "ExecutionCallV1Schema friend_transfer"
  using sample_assets(2) sample_addresses kyber_router_lower
  by (simp_all add: ExecutionCallV1Schema_def ether_swap_def friend_transfer_def schema_fixed AtomicAmountV1Schema_def sample_digits
      hex_data_schema_def HEX_DATA_def hex_lower_def digit_value_def char_lower_def)

abbreviation sample_assembled :: "prepare_error + execution_blueprint" where
  "sample_assembled \<equiv> assembleExecutionBlueprintV1 sample_preparation sample_request gift_run sample_quote sample_set sample_build
     ether_asset bought_asset [ether_swap, friend_transfer] unsimulatedStateV1"

lemma sample_schema: "blueprint_schema sample_preparation sample_blueprint"
  using sample_assets sample_calls sample_addresses
  by (simp add: blueprint_schema_def ExecutionBlueprintV1Schema_def sample_blueprint_def gift_blueprint_def sample_preparation_def
      custody_world_def asking_def sample_world_def expected_changes_def AtomicAmountV1Schema_def sample_digits)
    (simp add: ether_swap_def friend_transfer_def ether_asset_def bought_asset_def)

lemma sample_assembles: "sample_assembled = Inr sample_blueprint"
proof -
  have none: "required_approvals [ether_swap, friend_transfer] = []"
    by (simp add: required_approvals_def List.map_filter_simps ether_swap_def friend_transfer_def)
  have draft: "(blueprint_draft sample_preparation sample_request gift_run sample_quote sample_set sample_build ether_asset bought_asset
      [ether_swap, friend_transfer] unsimulatedStateV1)\<lparr>ebp_blueprint_hash := ''h''\<rparr> = sample_blueprint"
    by (simp add: blueprint_draft_def none sample_blueprint_def gift_blueprint_def blueprintIdV1_def sample_preparation_def
        custody_world_def asking_def sample_request_def gift_run_def gift_intent_def sample_quote_def sample_card_candidate_def
        sample_set_def sample_build_def)
  have "apw_hash_blueprint (ppw_approval sample_preparation) = (\<lambda>_. ''h'')"
    by (simp add: sample_preparation_def custody_world_def asking_def)
  then show ?thesis using sample_schema by (simp add: assembleExecutionBlueprintV1_def draft Let_def)
qed

lemma sample_inserted: "insertBlueprint (blueprint_schema sample_preparation) ''i'' [sample_card_candidate, sample_quote]
    [(''q0'', sample_card_set), (''q'', sample_set)] sample_blueprint [] = Inr [sample_blueprint]"
  using sample_schema
  by (simp add: linked_simps insert_row_def)
    (simp add: sample_blueprint_def gift_blueprint_def sample_quote_def sample_card_candidate_def sample_card_set_def sample_set_def)

lemma sample_amounts: "list_all TokenAmountV1Schema [rin_amount gift_intent, pcd_expected_output sample_quote, pcd_minimum_output sample_quote]"
  using sample_assets
  by (simp add: TokenAmountV1Schema_def gift_intent_def sample_quote_def sample_card_candidate_def AtomicAmountV1Schema_def
      DecimalAmountV1Schema_def UNSIGNED_DECIMAL_def sample_digits)

lemma sample_safety:
  "\<exists>safety. runSafetyKernel (kernel_of sample_preparation) sample_kernel_input = Inr safety \<and> krs_allowed safety"
  using sample_allowed by (simp add: kernel_allows_def split: sum.split_asm)

lemma sample_review:
  assumes "krs_allowed safety"
  shows "\<exists>r. buildTransactionReviewProjectionV1 sample_blueprint (rin_amount gift_intent) (swb_expected_output sample_build)
    (swb_minimum_output sample_build) sample_card_candidate safety None = Inr r"
proof -
  have calls: "ebp_calls sample_blueprint = [ether_swap, friend_transfer]" by (simp add: sample_blueprint_def gift_blueprint_def)
  have wei: "exc_value_wei ether_swap = ''1000000000000000000''" "exc_value_wei friend_transfer = ''0''"
    by (simp_all add: ether_swap_def friend_transfer_def)
  have shown: "AtomicAmountV1Schema (show_int 1000000000000000000)"
  proof -
    have p: "positive_decimal ''1000000000000000000''" by (simp add: positive_decimal_def sample_digits)
    have "show_int 1000000000000000000 = ''1000000000000000000''"
      using positive_decimal_value [OF p] one_ether by (metis option.inject)
    then show ?thesis by (simp add: AtomicAmountV1Schema_def sample_digits)
  qed
  have outputs: "swb_expected_output sample_build = pcd_expected_output sample_quote" "swb_minimum_output sample_build = pcd_minimum_output sample_quote"
    "pcd_expected_output sample_card_candidate = pcd_expected_output sample_quote"
    "pcd_minimum_output sample_card_candidate = pcd_minimum_output sample_quote"
    by (simp_all add: sample_build_def sample_quote_def)
  have floors: "below (pcd_expected_output sample_quote) (pcd_minimum_output sample_quote) = Inr False"
    "asr_asset_id (tam_asset (pcd_expected_output sample_quote)) = asr_asset_id (tam_asset (pcd_minimum_output sample_quote))"
    by (simp_all add: below_def amount_of_def sample_quote_def sample_card_candidate_def sample_digits)
  have "exc_index ether_swap = 0" "exc_index friend_transfer = 1" by (simp_all add: ether_swap_def friend_transfer_def)
  then show ?thesis
    using assms sample_amounts sample_calls shown floors
    by (simp add: buildTransactionReviewProjectionV1_def wei one_ether sample_digits outputs
        TransactionReviewProjectionV1Schema_def Let_def calls)
qed

lemma sample_prepares:
  "\<exists>r. prepare sample_preparation sample_tables sample_request = (sample_stored, Inr (Prepared sample_blueprint r))"
proof -
  obtain safety where safety: "runSafetyKernel (kernel_of sample_preparation) sample_kernel_input = Inr safety" "krs_allowed safety"
    using sample_safety by blast
  obtain r where r: "buildTransactionReviewProjectionV1 sample_blueprint (rin_amount gift_intent) (swb_expected_output sample_build)
      (swb_minimum_output sample_build) sample_card_candidate safety None = Inr r"
    using sample_review [OF safety(2)] by blast
  have rest: "rnw_intent gift_run = gift_intent" "rnw_intent_hash gift_run = ''i''" "ppi_now sample_request = 1000"
    "rin_from_asset gift_intent = Some ether_asset" "rin_to_asset gift_intent = Some bought_asset"
    "prs_candidates sample_quoted = [sample_card_candidate, sample_quote]" "prs_evidence_sets sample_quoted = [(''q0'', sample_card_set), (''q'', sample_set)]"
    "prs_blueprints sample_quoted = []" "prs_blueprints sample_tables = []"
    by (simp_all add: gift_run_def gift_intent_def sample_request_def sample_quoted_def sample_tables_def)
  have fresh: "prepare_fresh sample_preparation sample_tables sample_request gift_run sample_card_candidate Kyberswap
      = (sample_stored, Inr (Prepared sample_blueprint r))"
    by (simp add: prepare_fresh_def rest sample_quote_ok sample_persisted sample_built sample_batch review_fresh_def sample_sim safety
        sample_assembles sample_inserted r sample_stored_def Let_def)
  then show ?thesis
    by (intro exI [of _ r]) (simp add: prepare_def sample_bound rest sample_asked)
qed

lemma sample_evaluated:
  "persistEvaluation sample_preparation ''i'' [(sample_card_candidate, sample_card_set)] sample_opened = (sample_tables, None)"
proof -
  have schema: "EvidenceSetV1Schema (ppw_hash_evidence_set sample_preparation) sample_card_set"
    by (simp add: EvidenceSetV1Schema_def sample_preparation_def sample_card_set_def sample_set_def findLiquidityOverlapsV1_def)
  have "insertCandidate ''i'' sample_card_candidate [] = Inr [sample_card_candidate]"
    by (simp add: linked_simps insert_row_def sample_card_candidate_def)
  moreover have "insertEvidenceSet (ppw_hash_evidence_set sample_preparation) ''i'' [sample_card_candidate] [] (''q0'', sample_card_set) []
      = Inr [(''q0'', sample_card_set)]"
    using schema by (simp add: linked_simps insert_row_def) (simp add: sample_card_set_def sample_set_def sample_card_candidate_def)
  moreover have "pcd_id sample_card_candidate = ''q0''" "evs_records sample_card_set = []"
    by (simp_all add: sample_card_candidate_def sample_card_set_def sample_set_def)
  ultimately show ?thesis by (simp add: sample_opened_def sample_tables_def)
qed

lemma sample_nothing_prepared: "nothing_prepared sample_preparation sample_tables"
proof -
  have "nothing_prepared sample_preparation ((fst (persistEvaluation sample_preparation ''i'' [(sample_card_candidate, sample_card_set)]
      sample_opened))\<lparr>prs_cards := [sample_card]\<rparr>)"
    by (rule evaluated_is_unprepared) (simp_all add: sample_opened_def)
  then show ?thesis unfolding sample_evaluated fst_conv by (simp add: sample_tables_def)
qed

end
