(* ===== verification/Preparation_Properties.thy ===== *)
theory Preparation_Properties
  imports Preparation_Sample
begin

text \<open>
  What the label of a call of a prepared batch says: the fields each type of call carries, and that they
  are read from the bytes of the call.

  The claims about preparing a batch: what is stored was allowed, the tables stay sound, a request is
  answered by one batch however often it is made, and what was reviewed can be approved.
\<close>

section \<open>The types\<close>

text \<open>An approval is decoded: of the sold token, or of an allowance of Permit2.\<close>

definition approves :: "kernel_world \<Rightarrow> asset_ref \<Rightarrow> execution_call \<Rightarrow> string \<Rightarrow> int \<Rightarrow> bool" where
  "approves w paid c spender amount \<longleftrightarrow>
     (erc_decode (kwd_codec w) (exc_data c) = Some (Erc20Approve spender amount)
        \<and> (\<exists>a. asr_address paid = Some a \<and> to_lower (exc_to c) = to_lower a))
     \<or> (\<exists>p. bab_permit2 (kwd_balancer w) (exc_data c) = Some p \<and> p2a_spender p = spender \<and> p2a_amount p = amount)"

definition bare :: "execution_call \<Rightarrow> bool" where
  "bare c \<longleftrightarrow> exc_asset c = None \<and> exc_amount_atomic c = None \<and> exc_spender c = None"

definition well_typed :: "kernel_world \<Rightarrow> asset_ref \<Rightarrow> asset_ref \<Rightarrow> string \<Rightarrow> string \<Rightarrow> execution_call \<Rightarrow> bool" where
  "well_typed w paid got router wallet c \<longleftrightarrow>
     (case exc_call_type c of
        ApprovalCall \<Rightarrow> exc_asset c = Some paid \<and> exc_recipient c = None
          \<and> (\<exists>spender amount. exc_spender c = Some (to_lower spender) \<and> exc_amount_atomic c = Some (show_int amount)
               \<and> approves w paid c spender amount)
      | SwapCall \<Rightarrow> bare c \<and> exc_recipient c = Some wallet \<and> to_lower (exc_to c) = to_lower router
      | TransferCall \<Rightarrow> exc_asset c = Some got \<and> exc_spender c = None \<and> exc_value_wei c = ''0''
          \<and> map_option to_lower (asr_address got) = Some (exc_to c)
          \<and> (\<exists>r amount. exc_recipient c = Some r \<and> exc_amount_atomic c = Some amount
               \<and> encodeGiftTransferV1 (kwd_codec w) r amount = Inr (exc_data c))
      | OtherCall \<Rightarrow> bare c \<and> exc_recipient c = None
      | _ \<Rightarrow> False)"

lemma classified_call:
  "exc_index (classifySwapCallV1 w paid router wallet n call) = n"
  "exc_to (classifySwapCallV1 w paid router wallet n call) = bdc_to call"
  "exc_value_wei (classifySwapCallV1 w paid router wallet n call) = bdc_value call"
  "exc_data (classifySwapCallV1 w paid router wallet n call) = bdc_data call"
  by (simp_all add: classifySwapCallV1_def Let_def plain_call_def as_approval_def split: option.split erc20_call.split)

lemma classified_types: "well_typed w paid got router wallet (classifySwapCallV1 w paid router wallet n call)"
proof -
  have address: "present (asr_address paid) = Some a \<Longrightarrow> asr_address paid = Some a" for a
    by (simp add: present_def split: option.split_asm if_split_asm)
  show ?thesis
    unfolding classifySwapCallV1_def Let_def
    by (auto simp: well_typed_def approves_def bare_def plain_call_def as_approval_def dest!: address
        split: option.split erc20_call.split)
qed

lemma gift_call_types:
  assumes "giftTransferCallV1 (kwd_codec w) n got r amount = Inr c"
  shows "exc_index c = n" "exc_call_type c = TransferCall" "well_typed w paid got router wallet c"
  using assms by (auto simp: giftTransferCallV1_def well_typed_def bindR_eq_Inr Let_def
      split: asset_ref_kind.split_asm option.split_asm if_split_asm)

lemma swap_batch_nth:
  assumes "k < length (swb_calls built)"
  shows "swap_batch w paid wallet built ! k = classifySwapCallV1 w paid (swb_router_address built) wallet (int k) (swb_calls built ! k)"
  using assms by (simp add: swap_batch_def)

lemma length_swap_batch: "length (swap_batch w paid wallet built) = length (swb_calls built)"
  by (simp add: swap_batch_def)

section \<open>What the approvals of a blueprint list\<close>

definition approval_of :: "execution_call \<Rightarrow> required_approval" where
  "approval_of c = \<lparr>rqa_asset = the (exc_asset c), rqa_spender = the (exc_spender c), rqa_amount_atomic = the (exc_amount_atomic c)\<rparr>"

lemma typed_approvals:
  assumes "\<forall>c \<in> set calls. well_typed w paid got router wallet c"
  shows "required_approvals calls = map approval_of (filter (\<lambda>c. exc_call_type c = ApprovalCall) calls)"
  using assms
  by (induction calls)
    (auto simp: required_approvals_def List.map_filter_simps well_typed_def approval_of_def split: call_type.splits)

text \<open>
  C15. Every call of a prepared batch is labelled from its bytes: the calls of the provider keep their
  place, target, value and data; an approval names the sold asset and the spender and amount decoded
  from it; a swap goes to the provider's router and is the wallet's; a gift's transfer carries its
  recipient and amount; any other call carries nothing. The approvals a blueprint asks for are the
  batch's approvals, in order.
\<close>

theorem batch_is_labelled_from_its_bytes:
  assumes "batch_calls w i paid got built = Inr calls"
  shows "length calls = length (swb_calls built) + (if gift_of i built = None then 0 else 1)
    \<and> (\<forall>k < length calls. exc_index (calls ! k) = int k
         \<and> well_typed w paid got (swb_router_address built) (ppi_wallet_address i) (calls ! k)
         \<and> (if k < length (swb_calls built) then bdc_to (swb_calls built ! k) = exc_to (calls ! k)
              \<and> bdc_value (swb_calls built ! k) = exc_value_wei (calls ! k) \<and> bdc_data (swb_calls built ! k) = exc_data (calls ! k)
            else exc_call_type (calls ! k) = TransferCall))
    \<and> required_approvals calls = map approval_of (filter (\<lambda>c. exc_call_type c = ApprovalCall) calls)"
proof -
  let ?swap = "swap_batch w paid (ppi_wallet_address i) built" and ?n = "length (swb_calls built)"
  let ?ok = "well_typed w paid got (swb_router_address built) (ppi_wallet_address i)"
  have swap: "exc_index (?swap ! k) = int k \<and> ?ok (?swap ! k) \<and> bdc_to (swb_calls built ! k) = exc_to (?swap ! k)
      \<and> bdc_value (swb_calls built ! k) = exc_value_wei (?swap ! k) \<and> bdc_data (swb_calls built ! k) = exc_data (?swap ! k)"
    if "k < ?n" for k
    by (simp add: swap_batch_nth [OF that] classified_call classified_types)
  obtain rest where rest: "calls = ?swap @ rest" "length rest = (if gift_of i built = None then 0 else 1)"
      "\<forall>c \<in> set rest. exc_index c = int ?n \<and> exc_call_type c = TransferCall \<and> ?ok c"
  proof (cases "gift_of i built")
    case None
    then show ?thesis using assms that [of "[]"] by (simp add: batch_calls_def Let_def)
  next
    case (Some gift)
    then obtain c where "giftTransferCallV1 (kwd_codec w) (int ?n) got (gft_recipient gift) (gft_amount_atomic gift) = Inr c"
        "calls = ?swap @ [c]"
      using assms by (auto simp: batch_calls_def length_swap_batch Let_def split: if_split_asm sum.split_asm)
    then show ?thesis using gift_call_types that [of "[c]"] Some by simp
  qed
  have each: "exc_index (calls ! k) = int k \<and> ?ok (calls ! k)
      \<and> (if k < ?n then bdc_to (swb_calls built ! k) = exc_to (calls ! k)
           \<and> bdc_value (swb_calls built ! k) = exc_value_wei (calls ! k) \<and> bdc_data (swb_calls built ! k) = exc_data (calls ! k)
         else exc_call_type (calls ! k) = TransferCall)" if "k < length calls" for k
  proof (cases "k < ?n")
    case True
    then show ?thesis using swap [OF True] by (simp add: rest(1) nth_append length_swap_batch)
  next
    case False
    then have "k = ?n" "k - ?n < length rest" using that rest(1,2) by (auto simp: length_swap_batch split: if_split_asm)
    then have "calls ! k \<in> set rest" "k = ?n" using False by (simp_all add: rest(1) nth_append length_swap_batch)
    then show ?thesis using False rest(3) by simp
  qed
  then have "\<forall>c \<in> set calls. ?ok c" by (metis in_set_conv_nth)
  then have approvals: "required_approvals calls = map approval_of (filter (\<lambda>c. exc_call_type c = ApprovalCall) calls)"
    by (rule typed_approvals)
  have "length calls = length (swb_calls built) + (if gift_of i built = None then 0 else 1)"
    by (simp only: rest(1,2) length_append length_swap_batch)
  then show ?thesis using each approvals by blast
qed

lemma batch_is_labelled_from_its_bytes_witness:
  "length [ether_swap, friend_transfer] = length (swb_calls sample_build) + 1
   \<and> exc_index friend_transfer = 1 \<and> required_approvals [ether_swap, friend_transfer] = []"
proof -
  have types: "exc_call_type ether_swap \<noteq> ApprovalCall" "exc_call_type friend_transfer \<noteq> ApprovalCall"
    by (simp_all add: ether_swap_def friend_transfer_def)
  have one: "length (swb_calls sample_build) = 1" by (simp add: sample_build_def)
  note batch = batch_is_labelled_from_its_bytes [OF sample_batch]
  have "length [ether_swap, friend_transfer] = length (swb_calls sample_build) + (if gift_of sample_request sample_build = None then 0 else 1)"
    using batch by (rule conjunct1)
  then have "length [ether_swap, friend_transfer] = length (swb_calls sample_build) + 1" by (simp add: one split: if_split_asm)
  moreover have "exc_index ([ether_swap, friend_transfer] ! 1) = int 1" using batch [THEN conjunct2, THEN conjunct1, THEN spec [of _ 1]] by simp
  then have "exc_index friend_transfer = 1" by (simp only: One_nat_def nth_Cons_Suc nth_Cons_0)
  moreover have "required_approvals [ether_swap, friend_transfer] = []"
    using batch [THEN conjunct2, THEN conjunct2] types by simp
  ultimately show ?thesis by blast
qed

section \<open>What is stored was allowed\<close>

text \<open>
  C2. A batch that a preparation stores belongs to the card and the candidate the request names: the card
  of the run's intent, ready or selected and not expired, and one of its candidates. The quote it was
  refreshed from and the build it was made of are what the services of the candidate's provider answered
  to this very request, neither expired, and both promise at least the floor of the candidate the user
  looked at. The safety kernel allowed its calls for the wallet of the run, over those answers and that
  floor; the stored blueprint names the fresh quote, which is stored too, and shows what the build promised.
\<close>

theorem stored_batches_were_allowed:
  assumes "prepare w s i = (t, answer)" and "b \<in> set (prs_blueprints t)" and "b \<notin> set (prs_blueprints s)"
  shows "\<exists>run rcard selected p quote fresh evidence build built. prs_run s = Some (run, SwapGoal)
    \<and> to_lower (rnw_wallet_address run) = to_lower (ppi_wallet_address i)
    \<and> rcard \<in> set (prs_cards s) \<and> rtc_route_card_hash rcard = ppi_route_card_hash i \<and> rtc_intent_hash rcard = rnw_intent_hash run
    \<and> rtc_status rcard \<in> {CardReady, CardSelected} \<and> \<not> past w (rtc_expires_at rcard) (ppi_now i)
    \<and> selected \<in> set (rtc_recommended rcard # rtc_alternatives rcard) \<and> pcd_candidate_hash selected = ppi_selected_candidate_hash i
    \<and> pcd_provider_id selected = provider_id p
    \<and> ppw_quote w p = Some quote \<and> quote (rnw_intent run) i = Inr (fresh, evidence) \<and> \<not> past w (pcd_quote_expires_at fresh) (ppi_now i)
    \<and> ppw_build w p = Some build \<and> build (build_request_of i run fresh selected) = Inr built \<and> \<not> past w (swb_quote_expiry built) (ppi_now i)
    \<and> below (pcd_expected_output fresh) (pcd_minimum_output selected) = Inr False
    \<and> below (swb_expected_output built) (pcd_minimum_output selected) = Inr False
    \<and> kernel_allows (kernel_of w) (fresh_kernel_input w i run fresh selected p built (ebp_calls b) (ebp_simulation_state b))
    \<and> (\<exists>swap. batch_bound (kernel_of w) (fresh_kernel_input w i run fresh selected p built (ebp_calls b) (ebp_simulation_state b)) swap)
    \<and> fresh \<in> set (prs_candidates t) \<and> ebp_selected_candidate_hash b = pcd_candidate_hash fresh
    \<and> ebp_quote_expiry b = swb_quote_expiry built \<and> ebp_intent_hash b = rnw_intent_hash run
    \<and> (\<exists>credit \<in> set (ebp_expected_asset_changes b). ach_direction credit = Credit \<and> rin_to_asset (rnw_intent run) = Some (ach_asset credit)
         \<and> ach_amount_atomic credit = tam_amount_atomic (swb_expected_output built)
         \<and> ach_minimum_amount_atomic credit = Some (tam_amount_atomic (swb_minimum_output built)))"
  using assms(1)
proof (cases rule: prepare_cases)
  case (fresh run rcard selected p)
  note bound = preparation_binding_reads [OF fresh(1)] and asked = card_answer_asks [OF fresh(2)]
  from fresh(4) show ?thesis
  proof (cases rule: prepare_fresh_cases)
    case refused
    then show ?thesis using assms(2,3) by simp
  next
    case (stored c v built calls b' s1 rows)
    have "set (prs_blueprints t) = insert b' (set (prs_blueprints s))"
      using blueprints.put_adds [OF stored(7)] by (simp add: stored(4,8))
    then have b: "b' = b" using assms(2,3) by simp
    note sf = stored(1) [unfolded b]
    note parts = stored_parts [OF sf] and quoted = stored_quote [OF sf]
    obtain quote evidence build where services: "ppw_quote w p = Some quote" "quote (rnw_intent run) i = Inr (c, evidence)"
        "ppw_build w p = Some build" "build (build_request_of i run c selected) = Inr built"
        "\<not> past w (pcd_quote_expires_at c) (ppi_now i)" "\<not> past w (swb_quote_expiry built) (ppi_now i)"
      using stored_services [OF sf] by blast
    have kernel: "kernel_allows (kernel_of w) (fresh_kernel_input w i run c selected p built (ebp_calls b) (ebp_simulation_state b))"
      using parts(6,9) by simp
    have row: "c \<in> set (prs_candidates t)" using stored(5) by (simp add: stored(8))
    show ?thesis
      by (rule exI [of _ run], rule exI [of _ rcard], rule exI [of _ selected], rule exI [of _ p], rule exI [of _ quote],
          rule exI [of _ c], rule exI [of _ evidence], rule exI [of _ build], rule exI [of _ built])
        (intro conjI; (rule bound asked(1-3) services kernel row stored_floors [OF sf, THEN conjunct1] stored_floors [OF sf, THEN conjunct2]
           kernel_binds [OF kernel] parts(7,8) quoted(1) [symmetric] stored_credit [OF sf]))
  qed
qed (use assms(2,3) in simp_all)

lemma sample_not_stored: "sample_blueprint \<notin> set (prs_blueprints sample_tables)" "sample_blueprint \<in> set (prs_blueprints sample_stored)"
  by (simp_all add: sample_tables_def sample_stored_def)

lemma stored_batches_were_allowed_witness:
  "\<exists>run selected fresh p built. prs_run sample_tables = Some (run, SwapGoal)
     \<and> pcd_candidate_hash selected = ''c0'' \<and> fresh \<in> set (prs_candidates sample_stored) \<and> pcd_candidate_hash fresh = ''c''
     \<and> kernel_allows (kernel_of sample_preparation) (fresh_kernel_input sample_preparation sample_request run fresh selected p built
          (ebp_calls sample_blueprint) (ebp_simulation_state sample_blueprint))"
proof -
  obtain r where "prepare sample_preparation sample_tables sample_request = (sample_stored, Inr (Prepared sample_blueprint r))"
    using sample_prepares by blast
  note stored = stored_batches_were_allowed [OF this sample_not_stored(2,1)]
  have hashes: "ppi_selected_candidate_hash sample_request = ''c0''" "ebp_selected_candidate_hash sample_blueprint = ''c''"
    by (simp_all add: sample_request_def sample_blueprint_def gift_blueprint_def)
  from stored show ?thesis unfolding hashes by (elim exE conjE) (intro exI conjI; (assumption | rule sym, assumption))
qed

section \<open>The tables\<close>

text \<open>
  C8. Whatever is prepared for a run whose routes were compared and stored, in whatever order and whatever
  the services answer: ids and hashes keep naming one row, rows are only added, every evidence set stands on stored records of its candidate,
  every blueprint satisfies its schema and stands on its stored candidate and evidence set, and the
  rows are a fresh start for approvals and reports, whose invariant then holds to the end.
\<close>

theorem preparations_keep_the_tables:
  assumes "nothing_prepared w s" and "runs (preparation_step w) s es t" and "runs (custody_step (ppw_approval w)) (approval_rows t) cs u"
  shows "rows_ok w t \<and> extends s t \<and> custody_ok (ppw_approval w) u"
proof -
  have "awaiting_review w s" using assms(1) by (rule preparation.started_inv)
  then have t: "extends s t" "awaiting_review w t" using runs_extend [OF assms(2)] by blast+
  then have "custody_ok (ppw_approval w) u" using custody.reached [OF fresh_for_custody assms(3)] by blast
  then show ?thesis using t by (simp add: awaiting_review_def)
qed

abbreviation sample_answers :: service_answers where
  "sample_answers \<equiv> \<lparr>sva_security = safe_answers, sva_pin = (\<lambda>_. False), sva_supported = None,
     sva_quote = ppw_quote sample_preparation, sva_build = ppw_build sample_preparation, sva_simulate = None\<rparr>"

lemma sample_served: "served sample_preparation sample_answers = sample_preparation"
  by (simp add: served_def sample_preparation_def asking_def custody_world_def)

lemma preparations_keep_the_tables_witness:
  "\<exists>t. persistEvaluation sample_preparation ''i'' [(sample_card_candidate, sample_card_set)] sample_opened = (sample_tables, None)
     \<and> preparation_step sample_preparation sample_tables (sample_answers, sample_request) t
     \<and> sample_blueprint \<in> set (prs_blueprints t) \<and> rows_ok sample_preparation t \<and> extends sample_tables t"
proof -
  obtain r where r: "prepare sample_preparation sample_tables sample_request = (sample_stored, Inr (Prepared sample_blueprint r))"
    using sample_prepares by blast
  have "preparation_step sample_preparation sample_tables (sample_answers, sample_request)
      (fst (prepare (served sample_preparation sample_answers) sample_tables sample_request))"
    by (rule preparation_step.prepared)
  then have step: "preparation_step sample_preparation sample_tables (sample_answers, sample_request) sample_stored"
    by (simp add: sample_served r)
  then have "runs (preparation_step sample_preparation) sample_tables [(sample_answers, sample_request)] sample_stored" by auto
  moreover have "runs (custody_step (ppw_approval sample_preparation)) (approval_rows sample_stored) [] (approval_rows sample_stored)" by auto
  ultimately show ?thesis
    using preparations_keep_the_tables [OF sample_nothing_prepared] step sample_not_stored(2) sample_evaluated by blast
qed

section \<open>The same request again\<close>

text \<open>
  C19. A request has one batch: after a batch was shown, any number of further preparations leave it
  stored as it is, and the same request made again writes nothing and shows no other batch, whatever the
  services answer by then.
\<close>

theorem a_request_has_one_batch:
  assumes "awaiting_review w s" and "prepare w s i = (t, Inr (Prepared b r))"
    and "runs (preparation_step w) t es t'" and "request_of j = request_of i"
    and "prepare (served w answers) t' j = (u, answer)"
  shows "b \<in> set (prs_blueprints u) \<and> u = t' \<and> (\<forall>b' r'. answer = Inr (Prepared b' r') \<longrightarrow> b' = b)"
proof -
  note shown = shown_is_stored [OF assms(2)]
  have "awaiting_review w t"
    using prepared_blueprints [OF assms(2)] prepare_keeps [OF assms(2)] assms(1) by (auto simp: awaiting_review_def)
  then have t': "extends t t'" "awaiting_review w t'" using runs_extend [OF assms(3)] by blast+
  then have b: "b \<in> set (prs_blueprints t')" "ebp_id b = blueprintIdV1 (ppw_hash_request (served w answers)) (request_of j)"
    using shown assms(4) by (auto simp: extends_def)
  have keyed: "keyed ebp_id ebp_blueprint_hash (prs_blueprints t')" using t'(2) by (simp add: awaiting_review_def rows_ok_def tables_keyed_def)
  from assms(5) show ?thesis
  proof (cases rule: prepare_cases)
    case answered
    then show ?thesis using b(1) by blast
  next
    case (replayed run rcard selected p b2)
    have "find (\<lambda>x. ebp_id x = ebp_id b) (prs_blueprints t') = Some b"
      by (rule blueprints.find_ident [OF keyed b(1)])
    moreover have "find (\<lambda>x. ebp_id x = ebp_id b2) (prs_blueprints t') = Some b2"
      by (rule blueprints.find_ident [OF keyed replayed(3)])
    ultimately have "b2 = b" using b(2) replayed(4) by simp
    then show ?thesis using replayed(5,6) b(1)
      by (auto simp: reviewStoredBlueprintV1_def Let_def split: if_split_asm sum.split_asm option.split_asm)
  next
    case (fresh run rcard selected p)
    then show ?thesis using b by blast
  qed
qed

lemma sample_awaiting: "awaiting_review sample_preparation sample_tables"
  by (rule preparation.started_inv [OF sample_nothing_prepared])

lemma a_request_has_one_batch_witness:
  "\<exists>r u answer. prepare sample_preparation sample_tables sample_request = (sample_stored, Inr (Prepared sample_blueprint r))
     \<and> prepare sample_preparation sample_stored (sample_request\<lparr>ppi_now := 1500\<rparr>) = (u, answer) \<and> u = sample_stored
     \<and> (\<forall>b' r'. answer = Inr (Prepared b' r') \<longrightarrow> b' = sample_blueprint)"
proof -
  obtain r where r: "prepare sample_preparation sample_tables sample_request = (sample_stored, Inr (Prepared sample_blueprint r))"
    using sample_prepares by blast
  obtain u answer where again: "prepare (served sample_preparation sample_answers) sample_stored (sample_request\<lparr>ppi_now := 1500\<rparr>) = (u, answer)"
    by fastforce
  have "request_of (sample_request\<lparr>ppi_now := 1500\<rparr>) = request_of sample_request" by (simp add: request_of_def)
  from a_request_has_one_batch [OF sample_awaiting r _ this again, of "[]"] r again show ?thesis
    by (auto simp: sample_served)
qed

section \<open>What was reviewed can be approved\<close>

text \<open>
  C7. A KyberSwap or Uniswap batch that a preparation newly stores can be approved at any moment before
  its quote expires, by an approval that the security service answers as it answered the preparation:
  approval finds its binding, its
  candidate and its hashes in order, the kernel allows the stored batch again, and the payload handed to
  the wallet carries exactly the stored calls, each with its target, its data and its attached value, from
  the wallet of the run.
\<close>

theorem reviewed_batches_can_be_approved:
  assumes "rows_ok w s" and "prepare w s i = (t, answer)" and "b \<in> set (prs_blueprints t)" and "b \<notin> set (prs_blueprints s)"
    and "\<forall>c \<in> set (prs_candidates t). pcd_candidate_hash c = ebp_selected_candidate_hash b \<longrightarrow> pcd_provider_id c \<in> {''uniswap'', ''kyberswap''}"
    and "\<forall>p build q built. ppw_build w p = Some build \<and> build q = Inr built \<longrightarrow> ADDRESS (swb_router_address built)"
    and "kwd_parse (kernel_of w) (ebp_quote_expiry b) = Some expiry" and "ppi_now i \<le> now" and "now < expiry"
  shows "\<exists>payload state. snd (approveExecutionBlueprintV1 (ppw_approval w) (approval_rows t)
      \<lparr>api_wallet_address = ppi_wallet_address i, api_blueprint_id = ebp_id b, api_blueprint_hash = ebp_blueprint_hash b, api_now = now\<rparr>)
        = Inr (Approved payload state)
    \<and> list_all2 pays_the_same (ebp_calls b) (apl_calls payload)
    \<and> (\<exists>run. prs_run t = Some (run, SwapGoal) \<and> apl_from payload = rnw_wallet_address run)"
  using assms(2)
proof (cases rule: prepare_cases)
  case (fresh run rcard selected p)
  note bound = preparation_binding_reads [OF fresh(1)]
  have ok: "rows_ok w t" using prepare_keeps [OF assms(2,1)] by simp
  from fresh(4) show ?thesis
  proof (cases rule: prepare_fresh_cases)
    case refused
    then show ?thesis using assms(3,4) by simp
  next
    case (stored c v built calls b' s1 rows)
    have "set (prs_blueprints t) = insert b' (set (prs_blueprints s))"
      using blueprints.put_adds [OF stored(7)] by (simp add: stored(4,8))
    then have b: "b' = b" using assms(3,4) by auto
    note sf = stored(1) [unfolded b]
    note parts = stored_parts [OF sf] and schema = schema_parts [OF stored_parts(2) [OF sf]]
    let ?a = "\<lparr>api_wallet_address = ppi_wallet_address i, api_blueprint_id = ebp_id b, api_blueprint_hash = ebp_blueprint_hash b, api_now = now\<rparr>"
    have c: "c \<in> set (prs_candidates t)" "provider_of (pcd_provider_id c) = Some p"
      using stored(5) parts(1) by (simp_all add: stored(8) provider_round)
    have p: "p \<in> {Uniswap, Kyberswap}"
      using assms(5) c parts(1,8) by (cases p) (auto simp: provider_id_def)
    have "ADDRESS (swb_router_address built)"
      using sf assms(6) by (auto simp: stored_fresh_def fresh_build_def split: option.split_asm sum.split_asm if_split_asm bool.split_asm)
    then have second: "kernel_allows (kernel_of w) (stored_kernel_input (ppw_approval w) ?a run (candidate_row p c) b)"
      using stored_is_second_run [OF sf p] second_run_allows [OF parts(9)] p assms(7,9) stored_quote [OF sf]
      by (simp add: fresh_kernel_input_def Let_def)
    have keyed: "keyed pcd_id pcd_candidate_hash (prs_candidates t)" "keyed ebp_id ebp_blueprint_hash (prs_blueprints t)"
      using ok by (simp_all add: rows_ok_def tables_keyed_def)
    have candidate: "find_candidate (approval_rows t) b = Some (candidate_row p c)"
      using candidate_row_found [OF keyed(1) c] parts(8) by (simp add: find_candidate_def approval_rows_def)
    have found: "find (\<lambda>x. ebp_id x = ebp_id b) (prs_blueprints t) = Some b"
      by (rule blueprints.find_ident [OF keyed(2) assms(3)])
    obtain credit where credit: "find (\<lambda>c. ach_direction c = Credit) (ebp_expected_asset_changes b) = Some credit"
      using stored_credit [OF sf] by (cases "find (\<lambda>c. ach_direction c = Credit) (ebp_expected_asset_changes b)") (auto simp: find_None_iff)
    have run: "prs_run t = Some (run, SwapGoal)" using bound(1) stored(2) by (simp add: extends_def stored(8))
    show ?thesis
      using approval_goes_through [of "approval_rows t" run ?a b "ppw_approval w" expiry "candidate_row p c" credit]
        bound(2,3) run found parts(4,5,7) schema(1-3) stored_quote [OF sf] assms(7-9) candidate second credit
      by (auto simp: approval_rows_def)
  qed
qed (use assms(3,4) in simp_all)

lemma reviewed_batches_can_be_approved_witness:
  "\<exists>payload state. snd (approveExecutionBlueprintV1 (ppw_approval sample_preparation) (approval_rows sample_stored)
      \<lparr>api_wallet_address = giver, api_blueprint_id = ''blueprint:b'', api_blueprint_hash = ''h'', api_now = 1999\<rparr>)
        = Inr (Approved payload state)
    \<and> (\<exists>p q. apl_calls payload = [p, q] \<and> plc_to p = KYBERSWAP_BASE_ROUTER \<and> plc_value p = ''0x'' @ show_digits 16 1000000000000000000
         \<and> plc_to q = bought \<and> plc_value q = ''0x'' @ show_digits 16 0)"
proof -
  obtain r where r: "prepare sample_preparation sample_tables sample_request = (sample_stored, Inr (Prepared sample_blueprint r))"
    using sample_prepares by blast
  have ok: "rows_ok sample_preparation sample_tables" using sample_awaiting by (simp add: awaiting_review_def)
  have partner: "\<forall>c \<in> set (prs_candidates sample_stored). pcd_candidate_hash c = ebp_selected_candidate_hash sample_blueprint
      \<longrightarrow> pcd_provider_id c \<in> {''uniswap'', ''kyberswap''}"
    by (simp add: sample_stored_def sample_quoted_def sample_quote_def sample_card_candidate_def)
  have routers: "\<forall>p build q built. ppw_build sample_preparation p = Some build \<and> build q = Inr built \<longrightarrow> ADDRESS (swb_router_address built)"
    using kyber_router_lower by (auto simp: sample_preparation_def sample_build_def)
  have expiry: "kwd_parse (kernel_of sample_preparation) (ebp_quote_expiry sample_blueprint) = Some 2000"
    by (simp add: sample_preparation_def asking_def custody_world_def sample_world_def sample_blueprint_def gift_blueprint_def)
  have now: "ppi_now sample_request \<le> 1999" "ppi_wallet_address sample_request = giver" by (simp_all add: sample_request_def)
  have calls: "ebp_calls sample_blueprint = [ether_swap, friend_transfer]" "ebp_id sample_blueprint = ''blueprint:b''"
      "ebp_blueprint_hash sample_blueprint = ''h''"
    by (simp_all add: sample_blueprint_def gift_blueprint_def)
  have reads: "exc_to ether_swap = KYBERSWAP_BASE_ROUTER" "exc_to friend_transfer = bought"
      "exc_value_wei ether_swap = ''1000000000000000000''" "exc_value_wei friend_transfer = ''0''"
    by (simp_all add: ether_swap_def friend_transfer_def)
  have wei: "(1000000000000000000 :: int) = int v \<longleftrightarrow> v = 1000000000000000000" for v by auto
  have pair: "\<exists>p q. ps = [p, q] \<and> plc_to p = KYBERSWAP_BASE_ROUTER \<and> plc_value p = ''0x'' @ show_digits 16 1000000000000000000
         \<and> plc_to q = bought \<and> plc_value q = ''0x'' @ show_digits 16 0" if "list_all2 pays_the_same [ether_swap, friend_transfer] ps" for ps
    using that unfolding list_all2_Cons1 by (auto simp: pays_the_same_def reads one_ether sample_digits wei)
  obtain payload state where found: "snd (approveExecutionBlueprintV1 (ppw_approval sample_preparation) (approval_rows sample_stored)
      \<lparr>api_wallet_address = giver, api_blueprint_id = ''blueprint:b'', api_blueprint_hash = ''h'', api_now = 1999\<rparr>)
        = Inr (Approved payload state)" "list_all2 pays_the_same [ether_swap, friend_transfer] (apl_calls payload)"
    using reviewed_batches_can_be_approved [OF ok r sample_not_stored(2,1) partner routers expiry now(1)]
    unfolding now(2) calls by auto
  show ?thesis using found(1) pair [OF found(2)] by (intro exI [of _ payload] exI [of _ state]) simp
qed

end
