(* ===== verification/History.thy ===== *)
theory History
  imports Reconciler_Sound
begin

text \<open>
  What the history of a proof is to its readers: a list of facts, each told once. The chain of hashes
  implements that list, and its last hash stands for the whole of it.
\<close>

section \<open>Facts\<close>

type_synonym fact = "event_type \<times> json"

definition facts :: "proof_event list \<Rightarrow> fact list" where
  "facts es = map (\<lambda>e. (pev_event_type e, pev_payload e)) es"

definition tell :: "fact list \<Rightarrow> fact \<Rightarrow> fact list" where
  "tell fs f = (if f \<in> set fs then fs else fs @ [f])"

text \<open>A fact is told at an instant.\<close>

definition append_fact :: "hashing \<Rightarrow> string \<Rightarrow> proof_event list \<Rightarrow> fact \<times> int \<Rightarrow> proof_event list" where
  "append_fact h pid es n = appendProofEventIfNewV1 h pid es (fst (fst n)) (snd (fst n)) (snd n)"

text \<open>No two payloads of the histories at hand share a hash.\<close>

definition payloads_apart :: "hashing \<Rightarrow> fact list \<Rightarrow> bool" where
  "payloads_apart h fs \<longleftrightarrow> inj_on (hsh_payload h) (snd ` set fs)"

lemma payload_hash: "chained h pid es \<Longrightarrow> e \<in> set es \<Longrightarrow> pev_payload_hash e = hsh_payload h (pev_payload e)"
  by (auto simp: chained_def in_set_conv_nth)

lemma said: "e \<in> set es \<Longrightarrow> pev_payload e \<in> snd ` set (facts es)"
  by (auto simp: facts_def image_iff)

lemma set_tell: "set (foldl tell fs news) = set fs \<union> set news"
  by (induction news arbitrary: fs) (auto simp: tell_def)

lemma tell_again: "set news \<subseteq> set fs \<Longrightarrow> foldl tell fs news = fs"
  by (induction news) (auto simp: tell_def)

lemma tell_prefix: "\<exists>more. foldl tell fs news = fs @ more"
proof (induction news arbitrary: fs)
  case Nil
  show ?case by simp
next
  case (Cons f news)
  obtain more where "foldl tell fs (f # news) = tell fs f @ more" using Cons.IH [of "tell fs f"] by (auto simp only: foldl.simps)
  moreover have "\<exists>one. tell fs f = fs @ one" by (auto simp: tell_def)
  ultimately show ?case by (metis append_assoc)
qed

lemma tell_distinct: "distinct fs \<Longrightarrow> distinct (foldl tell fs news)"
  by (induction news arbitrary: fs) (auto simp: tell_def)

section \<open>The chain implements the facts\<close>

lemma append_fact_tells:
  assumes "chained h pid es" and "payloads_apart h (facts es @ [f])"
  shows "facts (append_fact h pid es (f, now)) = tell (facts es) f"
proof -
  have "(\<exists>e \<in> set es. pev_event_type e = fst f \<and> pev_payload_hash e = hsh_payload h (snd f)) \<longleftrightarrow> f \<in> set (facts es)"
  proof
    assume "\<exists>e \<in> set es. pev_event_type e = fst f \<and> pev_payload_hash e = hsh_payload h (snd f)"
    then obtain e where e: "e \<in> set es" "pev_event_type e = fst f" "hsh_payload h (pev_payload e) = hsh_payload h (snd f)"
      using payload_hash [OF assms(1)] by auto
    then have "pev_payload e = snd f"
      using assms(2) by (intro inj_onD [OF assms(2) [unfolded payloads_apart_def]]) (auto simp: facts_def image_iff)
    then show "f \<in> set (facts es)" using e by (auto simp: facts_def image_iff prod_eq_iff intro!: bexI [of _ e])
  next
    assume "f \<in> set (facts es)"
    then show "\<exists>e \<in> set es. pev_event_type e = fst f \<and> pev_payload_hash e = hsh_payload h (snd f)"
      using payload_hash [OF assms(1)] by (auto simp: facts_def)
  qed
  then have "findDuplicateRouteProofEventV1 h es (fst f) (snd f) \<noteq> None \<longleftrightarrow> f \<in> set (facts es)"
    by (simp add: findDuplicateRouteProofEventV1_def find_None_iff) blast
  then show ?thesis
    by (auto simp: append_fact_def appendProofEventIfNewV1_def nextRouteProofEventV1_def facts_def tell_def)
qed

lemma append_facts_tell:
  assumes "chained h pid es" and "payloads_apart h (facts es @ map fst news)"
  shows "chained h pid (foldl (append_fact h pid) es news)
    \<and> facts (foldl (append_fact h pid) es news) = foldl tell (facts es) (map fst news)"
  using assms
proof (induction news arbitrary: es)
  case Nil
  then show ?case by simp
next
  case (Cons n news)
  obtain f now where n: "n = (f, now)" by (cases n)
  have "payloads_apart h (facts es @ [f])" using Cons.prems(2) n unfolding payloads_apart_def by (intro inj_on_subset [OF Cons.prems(2) [unfolded payloads_apart_def]]) auto
  from append_fact_tells [OF Cons.prems(1) this] have told: "facts (append_fact h pid es n) = tell (facts es) f" unfolding n .
  have "payloads_apart h (tell (facts es) f @ map fst news)"
    using Cons.prems(2) unfolding payloads_apart_def by (rule inj_on_subset) (auto simp: tell_def n split: if_splits)
  then have "payloads_apart h (facts (append_fact h pid es n) @ map fst news)" by (simp only: told)
  moreover have "chained h pid (append_fact h pid es n)" unfolding append_fact_def by (rule appended_is_chained [OF Cons.prems(1)])
  ultimately show ?case using Cons.IH told n by simp
qed

lemma append_facts_extend: "\<exists>new. foldl (append_fact h pid) es news = es @ new"
proof (induction news arbitrary: es)
  case Nil
  show ?case by simp
next
  case (Cons f news)
  obtain new where "foldl (append_fact h pid) es (f # news) = append_fact h pid es f @ new"
    using Cons.IH [of "append_fact h pid es f"] by (auto simp only: foldl.simps)
  moreover have "\<exists>one. append_fact h pid es f = es @ one" using appended_extends unfolding append_fact_def by blast
  ultimately show ?case by (metis append_assoc)
qed

section \<open>The last hash\<close>

text \<open>What the store and the reconciler check of a history, apart, is the chain.\<close>

lemma chain_is_checked: "chained h pid es \<longleftrightarrow> verifyEventChainV1 es \<and> list_all (RouteProofEventV1Schema h pid) es"
  by (auto simp: verifyEventChainV1_def chain_from_iff chained_def list_all_length RouteProofEventV1Schema_def)

text \<open>What the hash of an event stands for: all of it but its id and its dates.\<close>

definition hashed_part :: "proof_event \<Rightarrow> nat \<times> event_type \<times> string option \<times> json \<times> string \<times> string" where
  "hashed_part e = (pev_event_index e, pev_event_type e, pev_previous_event_hash e, pev_payload e, pev_payload_hash e, pev_event_hash e)"

text \<open>An event under another id and other dates.\<close>

definition redated :: "string \<Rightarrow> int \<Rightarrow> int \<Rightarrow> proof_event \<Rightarrow> proof_event" where
  "redated n created updated e = e\<lparr>pev_id := n, pev_created_at := created, pev_updated_at := updated\<rparr>"

lemma redated_same: "hashed_part (redated n created updated e) = hashed_part e"
  by (simp add: hashed_part_def redated_def)

lemma redated_schema: "created \<le> updated \<Longrightarrow> RouteProofEventV1Schema h pid e \<Longrightarrow> RouteProofEventV1Schema h pid (redated n created updated e)"
  by (simp add: RouteProofEventV1Schema_def redated_def hashRouteProofEventV1_def)

text \<open>
  No two different events of two histories, and no two different payloads, share a hash; the hash of an
  event is taken over its place, its type, the hash before it and the hash of its payload.
\<close>

definition hashes_apart :: "hashing \<Rightarrow> proof_event list \<Rightarrow> proof_event list \<Rightarrow> bool" where
  "hashes_apart h xs ys \<longleftrightarrow> payloads_apart h (facts xs @ facts ys)
     \<and> (\<forall>x \<in> set xs. \<forall>y \<in> set ys. pev_event_hash x = pev_event_hash y
          \<longrightarrow> pev_event_index x = pev_event_index y \<and> pev_event_type x = pev_event_type y
              \<and> pev_previous_event_hash x = pev_previous_event_hash y \<and> pev_payload_hash x = pev_payload_hash y)"

lemma chained_nth:
  assumes "chained h pid es" and "k < length es"
  shows "pev_event_index (es ! k) = k" "pev_payload_hash (es ! k) = hsh_payload h (pev_payload (es ! k))"
    "pev_previous_event_hash (es ! k) = (if k = 0 then None else Some (pev_event_hash (es ! (k - 1))))"
  using assms unfolding chained_def by blast+

lemma apart_nth:
  assumes "hashes_apart h xs ys" and "chained h pid xs" and "chained h pid ys" and "k < length xs" and "j < length ys"
    and "pev_event_hash (xs ! k) = pev_event_hash (ys ! j)"
  shows "k = j \<and> hashed_part (xs ! k) = hashed_part (ys ! j) \<and> (k \<noteq> 0 \<longrightarrow> pev_event_hash (xs ! (k - 1)) = pev_event_hash (ys ! (j - 1)))"
proof -
  note x = chained_nth [OF assms(2,4)] and y = chained_nth [OF assms(3,5)]
  have mem: "xs ! k \<in> set xs" "ys ! j \<in> set ys" using assms(4,5) by simp_all
  then have same: "pev_event_index (xs ! k) = pev_event_index (ys ! j)" "pev_event_type (xs ! k) = pev_event_type (ys ! j)"
      "pev_previous_event_hash (xs ! k) = pev_previous_event_hash (ys ! j)" "pev_payload_hash (xs ! k) = pev_payload_hash (ys ! j)"
    using assms(1,6) unfolding hashes_apart_def by blast+
  have "pev_payload (xs ! k) = pev_payload (ys ! j)"
    using assms(1) said [OF mem(1)] said [OF mem(2)] same(4) x(2) y(2) unfolding hashes_apart_def payloads_apart_def
    by (intro inj_onD [of "hsh_payload h" "snd ` set (facts xs @ facts ys)"]) (auto simp: image_Un)
  then have "hashed_part (xs ! k) = hashed_part (ys ! j)" using same assms(6) by (simp add: hashed_part_def)
  moreover have "k = j" using same(1) x(1) y(1) by simp
  moreover from this have "k \<noteq> 0 \<longrightarrow> pev_event_hash (xs ! (k - 1)) = pev_event_hash (ys ! (j - 1))"
    using same(3) x(3) y(3) by auto
  ultimately show ?thesis by blast
qed

lemma apart_past:
  assumes "hashes_apart h xs ys" and "chained h pid xs" and "chained h pid ys"
  shows "k < length xs \<Longrightarrow> k < length ys \<Longrightarrow> pev_event_hash (xs ! k) = pev_event_hash (ys ! k)
    \<Longrightarrow> map hashed_part (take (Suc k) xs) = map hashed_part (take (Suc k) ys)"
proof (induction k)
  case 0
  then show ?case using apart_nth [OF assms, of 0 0] by (simp add: take_Suc_conv_app_nth)
next
  case (Suc k)
  note e = apart_nth [OF assms Suc.prems]
  then have "map hashed_part (take (Suc k) xs) = map hashed_part (take (Suc k) ys)" using Suc by simp
  then show ?case using e Suc.prems(1,2) by (simp add: take_Suc_conv_app_nth [of "Suc k"])
qed

section \<open>What is claimed of a history\<close>

text \<open>
  C9. The hash-chained history implements a plain list of facts: telling it any facts, in any order and
  with any repetitions, leaves it a verified chain that extends the old one, and what it says is what
  the list says after the same facts are added one by one, each only when it is not there yet. Told
  the same facts again, it does not change.
\<close>

theorem history_implements_a_list_of_facts:
  assumes "chained h pid es" and "payloads_apart h (facts es @ map fst news)"
  shows "let t = foldl (append_fact h pid) es news in
    facts t = foldl tell (facts es) (map fst news) \<and> verifyEventChainV1 t \<and> list_all (RouteProofEventV1Schema h pid) t
    \<and> take (length es) t = es \<and> facts (foldl (append_fact h pid) t news) = facts t"
proof -
  let ?t = "foldl (append_fact h pid) es news"
  have t: "chained h pid ?t" "facts ?t = foldl tell (facts es) (map fst news)" using append_facts_tell [OF assms] by blast+
  have said: "set (facts ?t) = set (facts es) \<union> set (map fst news)" by (simp add: t(2) set_tell)
  then have "payloads_apart h (facts ?t @ map fst news)" using assms(2) by (simp add: payloads_apart_def Un_assoc)
  from append_facts_tell [OF t(1) this] have "facts (foldl (append_fact h pid) ?t news) = facts ?t"
    using said by (simp add: tell_again)
  moreover obtain new where "?t = es @ new" using append_facts_extend by blast
  ultimately show ?thesis using t chain_is_checked [of h pid ?t] by (simp add: Let_def)
qed

text \<open>
  C22. The history cannot be rewritten under its hashes: when two histories of a proof are accepted, by
  the schema an event is parsed with and by the reconciler's check of the chain, and an event of one
  has the hash of an event of the other, the two events stand at the same place and the histories agree
  up to and including it in everything the hashes are taken over: types, payloads, places and hashes.
  Only the ids and dates of events, which no hash covers, may differ; with any others, in order, an
  event is accepted as before.
\<close>

theorem a_hash_stands_for_its_past:
  assumes "verifyEventChainV1 xs" and "list_all (RouteProofEventV1Schema h pid) xs"
    and "verifyEventChainV1 ys" and "list_all (RouteProofEventV1Schema h pid) ys" and "hashes_apart h xs ys"
    and "k < length xs" and "j < length ys" and "pev_event_hash (xs ! k) = pev_event_hash (ys ! j)"
  shows "k = j \<and> map hashed_part (take (Suc k) xs) = map hashed_part (take (Suc j) ys)
    \<and> (\<forall>n created updated. created \<le> updated \<longrightarrow> RouteProofEventV1Schema h pid (redated n created updated (xs ! k)))"
proof -
  have chains: "chained h pid xs" "chained h pid ys" using assms(1-4) chain_is_checked by blast+
  have "RouteProofEventV1Schema h pid (xs ! k)" using assms(2,6) by (simp add: list_all_length)
  then have "\<forall>n created updated. created \<le> updated \<longrightarrow> RouteProofEventV1Schema h pid (redated n created updated (xs ! k))"
    using redated_schema by blast
  moreover have "k = j" using apart_nth [OF assms(5) chains assms(6-8)] by blast
  moreover from this have "map hashed_part (take (Suc k) xs) = map hashed_part (take (Suc j) ys)"
    using apart_past [OF assms(5) chains, of k] assms(6-8) by blast
  ultimately show ?thesis by blast
qed

section \<open>A history\<close>

definition spelling :: hashing where
  "spelling = \<lparr>hsh_payload = (\<lambda>p. case p of JString s \<Rightarrow> s | _ \<Rightarrow> []),
     hsh_event_id = (\<lambda>p _ _. p), hsh_event = (\<lambda>_ n _ _ d. d @ replicate n (CHR ''.'')), hsh_proof_id = (\<lambda>id. id)\<rparr>"

definition first_tellings :: "(fact \<times> int) list" where
  "first_tellings = [((BlueprintCreated, JString ''a''), 1), ((CallsApproved, JString ''b''), 2), ((BlueprintCreated, JString ''a''), 3)]"

lemma spelled_history:
  "foldl (append_fact spelling ''p'') [] first_tellings =
     [buildRouteProofEventV1 spelling ''p'' 0 None BlueprintCreated (JString ''a'') 1,
      buildRouteProofEventV1 spelling ''p'' 1 (Some ''a'') CallsApproved (JString ''b'') 2]"
  by (simp add: first_tellings_def append_fact_def appendProofEventIfNewV1_def nextRouteProofEventV1_def
      findDuplicateRouteProofEventV1_def spelling_def)

lemma history_implements_a_list_of_facts_witness:
  "facts (foldl (append_fact spelling ''p'') [] first_tellings) = [(BlueprintCreated, JString ''a''), (CallsApproved, JString ''b'')]"
proof -
  have "chained spelling ''p'' []" by (simp add: chained_def)
  moreover have "payloads_apart spelling (facts [] @ map fst first_tellings)"
    by (auto simp: payloads_apart_def facts_def first_tellings_def spelling_def inj_on_def)
  ultimately have "facts (foldl (append_fact spelling ''p'') [] first_tellings) = foldl tell (facts []) (map fst first_tellings)"
    using history_implements_a_list_of_facts unfolding Let_def by blast
  then show ?thesis by (simp add: facts_def first_tellings_def tell_def)
qed

lemma a_hash_stands_for_its_past_witness:
  "let xs = foldl (append_fact spelling ''p'') [] first_tellings; ys = append_fact spelling ''p'' xs ((Submitted, JString ''c''), 4) in
     length xs = 2 \<and> length ys = 3 \<and> pev_event_hash (xs ! 1) = ''b.'' \<and> map hashed_part (take 2 xs) = map hashed_part (take 2 ys)"
proof -
  let ?xs = "foldl (append_fact spelling ''p'') [] first_tellings" and ?c = "((Submitted, JString ''c''), 4)"
  let ?ys = "append_fact spelling ''p'' ?xs ?c"
  have ys: "?ys = ?xs @ [buildRouteProofEventV1 spelling ''p'' 2 (Some ''b.'') Submitted (JString ''c'') 4]"
    by (simp add: spelled_history append_fact_def appendProofEventIfNewV1_def nextRouteProofEventV1_def
        findDuplicateRouteProofEventV1_def) (simp add: spelling_def numeral_2_eq_2)
  have "chained spelling ''p'' ?xs"
    unfolding spelled_history by (auto simp: chained_def less_Suc_eq hashRouteProofEventV1_def) (simp_all add: spelling_def)
  moreover from this have "chained spelling ''p'' ?ys" unfolding append_fact_def by (rule appended_is_chained)
  ultimately have ok: "verifyEventChainV1 ?xs" "list_all (RouteProofEventV1Schema spelling ''p'') ?xs"
      "verifyEventChainV1 ?ys" "list_all (RouteProofEventV1Schema spelling ''p'') ?ys" using chain_is_checked by blast+
  have apart: "hashes_apart spelling ?xs ?ys"
    unfolding ys unfolding spelled_history
    by (auto simp: hashes_apart_def payloads_apart_def facts_def inj_on_def) (simp_all add: spelling_def)
  have last: "length ?xs = 2" "length ?ys = 3" "pev_event_hash (?xs ! 1) = ''b.''" "pev_event_hash (?ys ! 1) = ''b.''"
    unfolding ys unfolding spelled_history by simp_all (simp_all add: spelling_def)
  have "map hashed_part (take (Suc 1) ?xs) = map hashed_part (take (Suc 1) ?ys)" using a_hash_stands_for_its_past [OF ok apart, of 1 1] last by simp
  then show ?thesis using last by (simp add: Let_def numeral_2_eq_2)
qed

end
