(* ===== verification/Earn_Kernel.thy ===== *)
theory Earn_Kernel
  imports Approval Asset_Movement
begin

text \<open>
  Deposits of USDC that earn: the pinned venues of lib/earn-engine/src/pinned-config.ts, the two calls
  lib/transaction-composer/src/earnComposition.ts builds and the kernel of earnSafetyKernel.ts that
  reads them back. The ABI encoders and decoders belong to a package and are parameters; one that
  throws gives no value.
\<close>

section \<open>pinned-config.ts\<close>

datatype earn_protocol = Moonwell | MorphoVault | Yo

definition PINNED_BASE_USDC_V1 :: string where
  "PINNED_BASE_USDC_V1 = ''0x833589fcd6edb6e08f4c7c32d4f71b54bda02913''"

record earn_venue =
  pin_target :: string
  pin_approval_spender :: string

definition PINNED_EARN_VENUES_V1 :: "earn_protocol \<Rightarrow> earn_venue" where
  "PINNED_EARN_VENUES_V1 p =
     (case p of
        Moonwell \<Rightarrow> \<lparr>pin_target = ''0xedc817a28e8b93b03976fbd4a3ddbc9f7d176c22'',
          pin_approval_spender = ''0xedc817a28e8b93b03976fbd4a3ddbc9f7d176c22''\<rparr>
      | MorphoVault \<Rightarrow> \<lparr>pin_target = ''0xc1256ae5ff1cf2719d4937adb3bbccab2e00a2ca'',
          pin_approval_spender = ''0xc1256ae5ff1cf2719d4937adb3bbccab2e00a2ca''\<rparr>
      | Yo \<Rightarrow> \<lparr>pin_target = ''0x0000000f2eb9f69274678c76222b35eec7588a65'',
          pin_approval_spender = ''0xf1eee0957267b1a474323ff9cff7719e964969fa''\<rparr>)"

definition EARN_PROTOCOLS_V1 :: "earn_protocol list" where
  "EARN_PROTOCOLS_V1 = [Moonwell, MorphoVault, Yo]"

definition pinnedEarnVenueV1 :: "earn_protocol \<Rightarrow> earn_venue" where
  "pinnedEarnVenueV1 p = PINNED_EARN_VENUES_V1 p"

definition ALLOWLISTED_TARGETS_V1 :: "string list" where
  "ALLOWLISTED_TARGETS_V1 =
     concat (map (\<lambda>p. [pin_target (PINNED_EARN_VENUES_V1 p), pin_approval_spender (PINNED_EARN_VENUES_V1 p)]) EARN_PROTOCOLS_V1)"

definition isPinnedEarnTargetV1 :: "string \<Rightarrow> bool" where
  "isPinnedEarnTargetV1 a \<longleftrightarrow> to_lower a \<in> set ALLOWLISTED_TARGETS_V1"

definition earn_isCanonicalBaseUsdcV1 :: "string \<Rightarrow> bool" where
  "earn_isCanonicalBaseUsdcV1 a \<longleftrightarrow> to_lower a = PINNED_BASE_USDC_V1"

section \<open>Intents and candidates\<close>

record earn_intent =
  ein_wallet_address :: string
  ein_chain_id :: int
  ein_intent_hash :: string
  ein_asset :: asset_ref
  ein_amount :: token_amount

record earn_contracts =
  ect_asset :: string
  ect_target :: string
  ect_approval_spender :: string

text \<open>A position that is null and one that is not there read the same.\<close>

record earn_candidate =
  ecd_id :: string
  ecd_intent_hash :: string
  ecd_candidate_hash :: string
  ecd_protocol :: earn_protocol
  ecd_venue_address :: string
  ecd_asset :: asset_ref
  ecd_amount :: token_amount
  ecd_expected_position_atomic :: "string option"
  ecd_expires_at :: string
  ecd_contracts :: earn_contracts

section \<open>The two calls\<close>

record gateway_deposit =
  gwd_vault :: string
  gwd_assets :: int
  gwd_minimum_shares :: int
  gwd_receiver :: string
  gwd_partner_id :: int

text \<open>\<open>encodeFunctionData\<close> and \<open>decodeFunctionData\<close> over the ABIs of ERC-20, Moonwell, Morpho and the YO gateway.\<close>

record earn_abi =
  eab_encode_approve :: "string \<Rightarrow> int \<Rightarrow> string option"
  eab_encode_mint :: "int \<Rightarrow> string option"
  eab_encode_deposit :: "int \<Rightarrow> string \<Rightarrow> string option"
  eab_encode_gateway :: "gateway_deposit \<Rightarrow> string option"
  eab_decode_erc20 :: "string \<Rightarrow> erc20_call option"
  eab_decode_mint :: "string \<Rightarrow> int option"
  eab_decode_deposit :: "string \<Rightarrow> (int \<times> string) option"
  eab_decode_gateway :: "string \<Rightarrow> gateway_deposit option"

definition encoded :: "string option \<Rightarrow> string result" where
  "encoded d = (case d of Some x \<Rightarrow> Inr x | None \<Rightarrow> Inl (JsError ''AbiEncodingError''))"

definition minimum_shares :: "int \<Rightarrow> int" where
  "minimum_shares expected = jsdiv (expected * 9950) 10000"

definition deposit_data :: "earn_abi \<Rightarrow> earn_candidate \<Rightarrow> int \<Rightarrow> string \<Rightarrow> int option \<Rightarrow> string result" where
  "deposit_data abi c amount wallet shares =
     (case ecd_protocol c of
        Moonwell \<Rightarrow> encoded (eab_encode_mint abi amount)
      | MorphoVault \<Rightarrow> encoded (eab_encode_deposit abi amount wallet)
      | Yo \<Rightarrow>
          (case shares of None \<Rightarrow> Inl (TypeError ''YO deposit requires a fresh positive share conversion'')
           | Some s \<Rightarrow> encoded (eab_encode_gateway abi \<lparr>gwd_vault = ect_target (ecd_contracts c), gwd_assets = amount,
               gwd_minimum_shares = s, gwd_receiver = wallet, gwd_partner_id = 0\<rparr>)))"

definition optional_shares :: "string option \<Rightarrow> int option result" where
  "optional_shares position =
     (case position of None \<Rightarrow> Inr None | Some s \<Rightarrow> bindR (js_BigInt s) (\<lambda>expected. Inr (Some (minimum_shares expected))))"

definition buildEarnDepositCallsV1 :: "earn_abi \<Rightarrow> earn_intent \<Rightarrow> earn_candidate \<Rightarrow> string \<Rightarrow> execution_call list result" where
  "buildEarnDepositCallsV1 abi intent c wallet =
     (let atomic = tam_amount_atomic (ein_amount intent); spender = ect_approval_spender (ecd_contracts c) in
      bindR (js_BigInt atomic) (\<lambda>amount.
      bindR (encoded (eab_encode_approve abi spender amount)) (\<lambda>approve.
      bindR (optional_shares (ecd_expected_position_atomic c)) (\<lambda>shares.
      if ecd_protocol c = Yo \<and> (case shares of None \<Rightarrow> True | Some s \<Rightarrow> s \<le> 0)
      then Inl (TypeError ''YO deposit requires a fresh positive share conversion'')
      else bindR (deposit_data abi c amount wallet shares) (\<lambda>data.
      Inr
       [\<lparr>exc_index = 0, exc_call_type = ApprovalCall, exc_to = ect_asset (ecd_contracts c), exc_value_wei = ''0'', exc_data = approve,
         exc_asset = Some (ein_asset intent), exc_amount_atomic = Some atomic, exc_recipient = None, exc_spender = Some spender\<rparr>,
        \<lparr>exc_index = 1, exc_call_type = DepositCall,
         exc_to = (if ecd_protocol c = Yo then spender else ect_target (ecd_contracts c)), exc_value_wei = ''0'', exc_data = data,
         exc_asset = Some (ein_asset intent), exc_amount_atomic = Some atomic, exc_recipient = Some wallet, exc_spender = None\<rparr>])))))"

section \<open>Reading a call back\<close>

definition decodeApprove :: "earn_abi \<Rightarrow> execution_call \<Rightarrow> (string \<times> int) option" where
  "decodeApprove abi call =
     (if to_lower (take 10 (exc_data call)) \<noteq> ''0x095ea7b3'' then None
      else (case eab_decode_erc20 abi (exc_data call) of
          Some (Erc20Approve spender amount) \<Rightarrow> Some (to_lower spender, amount) | _ \<Rightarrow> None))"

record decoded_deposit =
  ddp_amount :: int
  ddp_receiver :: "string option"
  ddp_vault :: "string option"
  ddp_minimum_shares :: "int option"
  ddp_partner_id :: "int option"

definition plain_deposit :: "int \<Rightarrow> string option \<Rightarrow> decoded_deposit" where
  "plain_deposit amount receiver =
     \<lparr>ddp_amount = amount, ddp_receiver = receiver, ddp_vault = None, ddp_minimum_shares = None, ddp_partner_id = None\<rparr>"

definition decodeDeposit :: "earn_abi \<Rightarrow> execution_call \<Rightarrow> earn_protocol \<Rightarrow> decoded_deposit option" where
  "decodeDeposit abi call p =
     (case p of
        Moonwell \<Rightarrow> map_option (\<lambda>amount. plain_deposit amount None) (eab_decode_mint abi (exc_data call))
      | MorphoVault \<Rightarrow> map_option (\<lambda>(assets, receiver). plain_deposit assets (Some (to_lower receiver)))
          (eab_decode_deposit abi (exc_data call))
      | Yo \<Rightarrow> map_option (\<lambda>g. \<lparr>ddp_amount = gwd_assets g, ddp_receiver = Some (to_lower (gwd_receiver g)),
            ddp_vault = Some (to_lower (gwd_vault g)), ddp_minimum_shares = Some (gwd_minimum_shares g),
            ddp_partner_id = Some (gwd_partner_id g)\<rparr>)
          (eab_decode_gateway abi (exc_data call)))"

section \<open>The checks\<close>

record earn_kernel_input =
  eki_wallet_address :: string
  eki_intent :: earn_intent
  eki_candidate :: earn_candidate
  eki_calls :: "execution_call list"
  eki_quote_expiry :: string
  eki_now :: int
  eki_intent_hash :: string
  eki_selected_candidate_hash :: string

text \<open>A check: its id, whether it passed, and what is said when it did not.\<close>

type_synonym earn_check = "string \<times> bool \<times> string"

definition first_call :: "call_type \<Rightarrow> execution_call list \<Rightarrow> execution_call option" where
  "first_call t calls = find (\<lambda>c. exc_call_type c = t) calls"

definition calls_of :: "call_type \<Rightarrow> execution_call list \<Rightarrow> execution_call list" where
  "calls_of t calls = filter (\<lambda>c. exc_call_type c = t) calls"

definition earn_shape :: "execution_call list \<Rightarrow> bool" where
  "earn_shape calls \<longleftrightarrow>
     filter (\<lambda>c. exc_call_type c \<noteq> ApprovalCall \<and> exc_call_type c \<noteq> DepositCall) calls = []
     \<and> (case (calls_of ApprovalCall calls, calls_of DepositCall calls) of
          ([a], [d]) \<Rightarrow> exc_index a < exc_index d | _ \<Rightarrow> False)"

definition earn_target :: "earn_kernel_input \<Rightarrow> string" where
  "earn_target i = to_lower (ect_target (ecd_contracts (eki_candidate i)))"

definition earn_pin :: "earn_kernel_input \<Rightarrow> earn_venue" where
  "earn_pin i = pinnedEarnVenueV1 (ecd_protocol (eki_candidate i))"

definition pinning_checks :: "earn_kernel_input \<Rightarrow> earn_check list" where
  "pinning_checks i =
     (let intent = eki_intent i; c = eki_candidate i; contracts = ecd_contracts c; target = earn_target i; pinned = earn_pin i in
      [(''tenant_wallet_binding'', to_lower (eki_wallet_address i) = to_lower (ein_wallet_address intent),
         ''walletAddress does not match the stored earn intent''),
       (''base_chain_pinned'', ein_chain_id intent = 8453 \<and> asr_chain_id (ecd_asset c) = 8453,
         ''Earn deposits are only supported on Base mainnet (8453)''),
       (''canonical_usdc'', earn_isCanonicalBaseUsdcV1 (case asr_address (ein_asset intent) of Some a \<Rightarrow> a | None \<Rightarrow> '''')
           \<and> earn_isCanonicalBaseUsdcV1 (ect_asset contracts) \<and> asr_asset_id (ecd_asset c) = asr_asset_id (ein_asset intent),
         ''Earn V1 only deposits canonical Base USDC''),
       (''pinned_deposit_target'', isPinnedEarnTargetV1 target \<and> target = pin_target pinned \<and> to_lower (ecd_venue_address c) = target,
         ''Deposit target is not the pinned venue for this protocol (no dynamic discovery)''),
       (''pinned_approval_spender'', to_lower (ect_approval_spender contracts) = pin_approval_spender pinned
           \<and> isPinnedEarnTargetV1 (pin_approval_spender pinned),
         ''Approval spender is not the pinned protocol spender''),
       (''intent_candidate_amount_match'', tam_amount_atomic (ecd_amount c) = tam_amount_atomic (ein_amount intent)
           \<and> asr_asset_id (tam_asset (ecd_amount c)) = asr_asset_id (tam_asset (ein_amount intent)),
         ''Candidate amount does not exactly match the stored intent amount''),
       (''call_order_and_count'', earn_shape (eki_calls i),
         ''Earn calls must be exactly one approval then one deposit, nothing else'')])"

text \<open>The amount of the intent is read only when everything before it in the conjunction holds; a text that is no number throws.\<close>

definition approval_exact :: "earn_abi \<Rightarrow> earn_kernel_input \<Rightarrow> bool result" where
  "approval_exact abi i =
     (case first_call ApprovalCall (eki_calls i) of None \<Rightarrow> Inr False
      | Some call \<Rightarrow>
          (case decodeApprove abi call of None \<Rightarrow> Inr False
           | Some (spender, amount) \<Rightarrow>
               if \<not> earn_isCanonicalBaseUsdcV1 (exc_to call) \<or> spender \<noteq> pin_approval_spender (earn_pin i) then Inr False
               else bindR (js_BigInt (tam_amount_atomic (ein_amount (eki_intent i)))) (\<lambda>expected.
                 Inr (amount = expected \<and> amount \<noteq> MAX_UINT256))))"

definition not_unlimited :: "earn_abi \<Rightarrow> earn_kernel_input \<Rightarrow> bool" where
  "not_unlimited abi i =
     (case Option.bind (first_call ApprovalCall (eki_calls i)) (decodeApprove abi) of
        Some (_, amount) \<Rightarrow> amount \<noteq> MAX_UINT256 | None \<Rightarrow> True)"

definition earn_deposit :: "earn_abi \<Rightarrow> earn_kernel_input \<Rightarrow> decoded_deposit option" where
  "earn_deposit abi i =
     Option.bind (first_call DepositCall (eki_calls i)) (\<lambda>call. decodeDeposit abi call (ecd_protocol (eki_candidate i)))"

definition yo_semantics :: "earn_kernel_input \<Rightarrow> int option \<Rightarrow> decoded_deposit \<Rightarrow> bool" where
  "yo_semantics i shares d \<longleftrightarrow> ecd_protocol (eki_candidate i) \<noteq> Yo
     \<or> (ddp_vault d = Some (earn_target i) \<and> ddp_minimum_shares d = shares \<and> ddp_partner_id d = Some 0)"

definition deposit_exact :: "earn_abi \<Rightarrow> earn_kernel_input \<Rightarrow> int option \<Rightarrow> bool result" where
  "deposit_exact abi i shares =
     (let to = (if ecd_protocol (eki_candidate i) = Yo then pin_approval_spender (earn_pin i) else earn_target i) in
      case (first_call DepositCall (eki_calls i), earn_deposit abi i) of
        (Some call, Some d) \<Rightarrow>
          if to_lower (exc_to call) \<noteq> to then Inr False
          else bindR (js_BigInt (tam_amount_atomic (ein_amount (eki_intent i)))) (\<lambda>expected.
            Inr (ddp_amount d = expected \<and> yo_semantics i shares d))
      | _ \<Rightarrow> Inr False)"

definition receiver_ok :: "earn_abi \<Rightarrow> earn_kernel_input \<Rightarrow> bool" where
  "receiver_ok abi i =
     (case earn_deposit abi i of None \<Rightarrow> False
      | Some d \<Rightarrow> ddp_receiver d = None \<or> ddp_receiver d = Some (to_lower (eki_wallet_address i)))"

definition later_than :: "(string \<Rightarrow> int option) \<Rightarrow> string \<Rightarrow> int \<Rightarrow> bool" where
  "later_than parse s now \<longleftrightarrow> (case parse s of Some t \<Rightarrow> t > now | None \<Rightarrow> False)"

definition linkage_checks :: "(string \<Rightarrow> int option) \<Rightarrow> earn_kernel_input \<Rightarrow> earn_check list" where
  "linkage_checks parse i =
     (let zeroHash = ''0x'' @ replicate 64 (CHR ''0'') in
      [(''quote_evidence_unexpired'', later_than parse (ecd_expires_at (eki_candidate i)) (eki_now i)
           \<and> later_than parse (eki_quote_expiry i) (eki_now i),
         ''Candidate evidence or Blueprint quote is expired or has an invalid expiry''),
       (''linkage_hashes_present'', eki_intent_hash i \<noteq> '''' \<and> eki_selected_candidate_hash i \<noteq> ''''
           \<and> eki_intent_hash i \<noteq> zeroHash \<and> eki_selected_candidate_hash i \<noteq> zeroHash,
         ''Missing intent or candidate linkage hash'')])"

record earn_verdict =
  evt_allowed :: bool
  evt_checks :: "(string \<times> bool) list"
  evt_blocked_reason :: "string option"

fun joined_reasons :: "earn_check list \<Rightarrow> string" where
  "joined_reasons [] = ''''"
| "joined_reasons [(n, _, detail)] = n @ '': '' @ detail"
| "joined_reasons ((n, _, detail) # rest) = n @ '': '' @ detail @ ''; '' @ joined_reasons rest"

text \<open>The schema the result is parsed with bounds the reason it gives.\<close>

definition earn_result :: "earn_check list \<Rightarrow> earn_verdict result" where
  "earn_result checks =
     (let failed = filter (\<lambda>(_, ok, _). \<not> ok) checks; reason = joined_reasons failed;
          named = map (\<lambda>(n, ok, _). (n, ok)) checks
      in if failed = [] then Inr \<lparr>evt_allowed = True, evt_checks = named, evt_blocked_reason = None\<rparr>
         else if length reason > 500 then Inl (JsError ''ZodError'')
         else Inr \<lparr>evt_allowed = False, evt_checks = named, evt_blocked_reason = Some reason\<rparr>)"

definition expected_yo_shares :: "earn_candidate \<Rightarrow> int option result" where
  "expected_yo_shares c = optional_shares (present (ecd_expected_position_atomic c))"

definition runEarnSafetyKernelV1 :: "earn_abi \<Rightarrow> (string \<Rightarrow> int option) \<Rightarrow> earn_kernel_input \<Rightarrow> earn_verdict result" where
  "runEarnSafetyKernelV1 abi parse i =
     bindR (approval_exact abi i) (\<lambda>approvalExact.
     bindR (expected_yo_shares (eki_candidate i)) (\<lambda>shares.
     bindR (deposit_exact abi i shares) (\<lambda>depositExact.
     earn_result (pinning_checks i
       @ [(''exact_approval'', approvalExact, ''Approval must be an exact-amount USDC approve() to the pinned target''),
          (''no_unlimited_approval'', not_unlimited abi i, ''Unlimited (MaxUint256) approvals are forbidden for earn deposits''),
          (''deposit_calldata_pinned'', depositExact, ''Deposit call is not the exact pinned deposit for the exact intent amount''),
          (''receiver_is_wallet'', receiver_ok abi i, ''Deposit receiver is not the authenticated wallet'')]
       @ linkage_checks parse i))))"

section \<open>What an allowed batch is\<close>

lemma earn_result_allowed:
  "earn_result checks = Inr r \<Longrightarrow> evt_allowed r \<longleftrightarrow> (\<forall>c \<in> set checks. fst (snd c))"
  by (auto simp: earn_result_def Let_def filter_empty_conv split: if_split_asm)

lemma earn_result_all: "\<forall>c \<in> set checks. fst (snd c) \<Longrightarrow> \<exists>r. earn_result checks = Inr r"
proof -
  assume "\<forall>c \<in> set checks. fst (snd c)"
  then have "filter (\<lambda>(_, ok, _). \<not> ok) checks = []" by (auto simp: filter_empty_conv)
  then show ?thesis by (simp add: earn_result_def Let_def)
qed

definition earn_allows :: "earn_abi \<Rightarrow> (string \<Rightarrow> int option) \<Rightarrow> earn_kernel_input \<Rightarrow> bool" where
  "earn_allows abi parse i \<longleftrightarrow> (\<exists>r. runEarnSafetyKernelV1 abi parse i = Inr r \<and> evt_allowed r)"

text \<open>The checks of an allowed batch, taken apart.\<close>

lemma earn_allows_iff:
  "earn_allows abi parse i \<longleftrightarrow>
     (\<forall>c \<in> set (pinning_checks i). fst (snd c)) \<and> (\<forall>c \<in> set (linkage_checks parse i). fst (snd c))
     \<and> approval_exact abi i = Inr True \<and> not_unlimited abi i \<and> receiver_ok abi i
     \<and> (\<exists>shares. expected_yo_shares (eki_candidate i) = Inr shares \<and> deposit_exact abi i shares = Inr True)"
    (is "_ \<longleftrightarrow> ?parts")
proof
  assume "earn_allows abi parse i"
  then obtain r a shares d where run: "approval_exact abi i = Inr a" "expected_yo_shares (eki_candidate i) = Inr shares"
      "deposit_exact abi i shares = Inr d" "evt_allowed r"
      "earn_result (pinning_checks i
       @ [(''exact_approval'', a, ''Approval must be an exact-amount USDC approve() to the pinned target''),
          (''no_unlimited_approval'', not_unlimited abi i, ''Unlimited (MaxUint256) approvals are forbidden for earn deposits''),
          (''deposit_calldata_pinned'', d, ''Deposit call is not the exact pinned deposit for the exact intent amount''),
          (''receiver_is_wallet'', receiver_ok abi i, ''Deposit receiver is not the authenticated wallet'')]
       @ linkage_checks parse i) = Inr r"
    by (auto simp: earn_allows_def runEarnSafetyKernelV1_def bindR_eq_Inr)
  from earn_result_allowed [OF run(5)] run(4) show ?parts using run(1-3) by (simp add: ball_Un)
next
  assume parts: ?parts
  then obtain shares where shares: "expected_yo_shares (eki_candidate i) = Inr shares" "deposit_exact abi i shares = Inr True" by blast
  let ?checks = "pinning_checks i
       @ [(''exact_approval'', True, ''Approval must be an exact-amount USDC approve() to the pinned target''),
          (''no_unlimited_approval'', not_unlimited abi i, ''Unlimited (MaxUint256) approvals are forbidden for earn deposits''),
          (''deposit_calldata_pinned'', True, ''Deposit call is not the exact pinned deposit for the exact intent amount''),
          (''receiver_is_wallet'', receiver_ok abi i, ''Deposit receiver is not the authenticated wallet'')]
       @ linkage_checks parse i"
  have all: "\<forall>c \<in> set ?checks. fst (snd c)" using parts by (simp add: ball_Un)
  then obtain r where r: "earn_result ?checks = Inr r" using earn_result_all by blast
  moreover have "runEarnSafetyKernelV1 abi parse i = earn_result ?checks"
    using parts shares by (simp add: runEarnSafetyKernelV1_def)
  ultimately show "earn_allows abi parse i" using earn_result_allowed [OF r] all by (auto simp: earn_allows_def)
qed

end
