(* ===== verification/Earn.thy ===== *)
theory Earn
  imports Earn_Kernel Route_Rows
begin

text \<open>
  From a chosen venue to a deposit a wallet may sign: the blueprint of earnComposition.ts and the
  preparation and approval of lib/transaction-composer/src/earnExecution.ts, over the rows of one earn
  run of one tenant as lib/route-storage/src/memory.ts keeps them. Hashes are parameters; where the
  repository itself would refuse a row of another tenant or another run the call throws there, and
  those refusals are not modelled.
\<close>

section \<open>Parameters and rows\<close>

record earn_request =
  erq_wallet_address :: string
  erq_intent_hash :: string
  erq_candidate_hash :: string
  erq_request_id :: string

record earn_world =
  ewd_abi :: earn_abi
  ewd_parse :: "string \<Rightarrow> int option"
  ewd_canonical :: "string \<Rightarrow> bool"
  ewd_hashing :: hashing
  ewd_hash_request :: "earn_request \<Rightarrow> string"
  ewd_hash_evidence_set :: "string list \<Rightarrow> string"
  ewd_hash_blueprint :: "execution_blueprint \<Rightarrow> string"
  ewd_hash_calls :: "execution_call list \<Rightarrow> string"

record earn_run =
  ern_wallet_address :: string
  ern_chain_id :: int
  ern_intent_hash :: string
  ern_intent :: earn_intent

record earn_evidence =
  eve_candidate_hash :: string
  eve_evidence_hash :: string

text \<open>Of a stored card only its hash is read.\<close>

record earn_store =
  ets_run :: "earn_run option"
  ets_cards :: "string list"
  ets_candidates :: "earn_candidate list"
  ets_evidence :: "earn_evidence list"
  ets_blueprints :: "execution_blueprint list"
  ets_proofs :: "string \<Rightarrow> route_proof option"
  ets_events :: "string \<Rightarrow> proof_event list"

section \<open>earnComposition.ts: the blueprint\<close>

definition UNAVAILABLE_SIMULATION_V1 :: simulation_state where
  "UNAVAILABLE_SIMULATION_V1 = \<lparr>sms_status = SimUnavailable, sms_error_code = Some ''no_simulation_provider''\<rparr>"

definition earnBlueprintIdV1 :: "(earn_request \<Rightarrow> string) \<Rightarrow> earn_request \<Rightarrow> string" where
  "earnBlueprintIdV1 hash r = ''earn-blueprint:'' @ drop 2 (hash (r\<lparr>erq_wallet_address := to_lower (erq_wallet_address r)\<rparr>))"

record earn_blueprint_input =
  ebi_wallet_address :: string
  ebi_intent :: earn_intent
  ebi_candidate :: earn_candidate
  ebi_evidence_set_hash :: string
  ebi_request_id :: string
  ebi_now :: int
  ebi_quote_expiry :: "string option"
  ebi_simulation_state :: "simulation_state option"

datatype earn_built =
    EarnPrepared execution_blueprint earn_verdict
  | EarnExpired
  | EarnBlocked string earn_verdict

definition YO_REASON :: string where
  "YO_REASON = ''YO requires a fresh positive onchain share conversion before deposit preparation''"

definition no_share_quote :: earn_built where
  "no_share_quote = EarnBlocked YO_REASON
     \<lparr>evt_allowed = False, evt_checks = [(''yo_share_quote_present'', False)], evt_blocked_reason = Some YO_REASON\<rparr>"

text \<open>The source checks this twice in a row; the second time it holds whenever it is reached.\<close>

definition lacks_shares :: "earn_candidate \<Rightarrow> bool result" where
  "lacks_shares c =
     (if ecd_protocol c \<noteq> Yo then Inr False
      else (case ecd_expected_position_atomic c of None \<Rightarrow> Inr True
        | Some s \<Rightarrow> bindR (js_BigInt s) (\<lambda>n. Inr (n \<le> 0))))"

definition earn_draft :: "earn_world \<Rightarrow> earn_blueprint_input \<Rightarrow> string \<Rightarrow> execution_call list \<Rightarrow> execution_blueprint" where
  "earn_draft w i quoteExpiry calls =
     (let intent = ebi_intent i; c = ebi_candidate i; amount = tam_amount_atomic (ein_amount intent) in
      \<lparr>ebp_id = earnBlueprintIdV1 (ewd_hash_request w) \<lparr>erq_wallet_address = ebi_wallet_address i,
         erq_intent_hash = ein_intent_hash intent, erq_candidate_hash = ecd_candidate_hash c, erq_request_id = ebi_request_id i\<rparr>,
       ebp_created_at = ebi_now i, ebp_updated_at = ebi_now i, ebp_status = BlueprintReadyForReview, ebp_goal = EarnGoal,
       ebp_wallet_address = ebi_wallet_address i, ebp_intent_hash = ein_intent_hash intent,
       ebp_selected_candidate_hash = ecd_candidate_hash c, ebp_evidence_set_hash = ebi_evidence_set_hash i,
       ebp_blueprint_hash = ''0x'' @ replicate 64 (CHR ''0''), ebp_calls_hash = ewd_hash_calls w calls, ebp_approved_calls_hash = None,
       ebp_quote_expiry = quoteExpiry, ebp_calls = calls,
       ebp_expected_asset_changes = [\<lparr>ach_direction = Debit, ach_asset = ein_asset intent, ach_amount_atomic = amount,
         ach_minimum_amount_atomic = Some amount\<rparr>],
       ebp_required_approvals = [\<lparr>rqa_asset = ein_asset intent, rqa_spender = ect_approval_spender (ecd_contracts c),
         rqa_amount_atomic = amount\<rparr>],
       ebp_simulation_state = (case ebi_simulation_state i of Some s \<Rightarrow> s | None \<Rightarrow> UNAVAILABLE_SIMULATION_V1)\<rparr>)"

definition earn_schema :: "earn_world \<Rightarrow> execution_blueprint \<Rightarrow> bool" where
  "earn_schema w = ExecutionBlueprintV1Schema (ewd_hash_blueprint w) (ewd_hash_calls w) (ewd_parse w) (ewd_canonical w)"

definition built_kernel_input :: "earn_blueprint_input \<Rightarrow> string \<Rightarrow> execution_call list \<Rightarrow> earn_kernel_input" where
  "built_kernel_input i quoteExpiry calls =
     \<lparr>eki_wallet_address = ebi_wallet_address i, eki_intent = ebi_intent i, eki_candidate = ebi_candidate i, eki_calls = calls,
      eki_quote_expiry = quoteExpiry, eki_now = ebi_now i, eki_intent_hash = ein_intent_hash (ebi_intent i),
      eki_selected_candidate_hash = ecd_candidate_hash (ebi_candidate i)\<rparr>"

definition quote_expiry_of :: "earn_blueprint_input \<Rightarrow> string" where
  "quote_expiry_of i = (case ebi_quote_expiry i of Some e \<Rightarrow> e | None \<Rightarrow> ecd_expires_at (ebi_candidate i))"

definition passed_by :: "(string \<Rightarrow> int option) \<Rightarrow> string \<Rightarrow> int \<Rightarrow> bool" where
  "passed_by parse s now \<longleftrightarrow> (case parse s of Some t \<Rightarrow> t \<le> now | None \<Rightarrow> False)"

definition buildEarnDepositBlueprintV1 :: "earn_world \<Rightarrow> earn_blueprint_input \<Rightarrow> earn_built result" where
  "buildEarnDepositBlueprintV1 w i =
     (let quoteExpiry = quote_expiry_of i in
      if passed_by (ewd_parse w) quoteExpiry (ebi_now i) then Inr EarnExpired
      else bindR (lacks_shares (ebi_candidate i)) (\<lambda>lacking.
      if lacking then Inr no_share_quote
      else bindR (buildEarnDepositCallsV1 (ewd_abi w) (ebi_intent i) (ebi_candidate i) (ebi_wallet_address i)) (\<lambda>calls.
      bindR (runEarnSafetyKernelV1 (ewd_abi w) (ewd_parse w) (built_kernel_input i quoteExpiry calls)) (\<lambda>safety.
      if \<not> evt_allowed safety
      then Inr (EarnBlocked (case evt_blocked_reason safety of Some r \<Rightarrow> r | None \<Rightarrow> ''Earn Safety Kernel blocked this deposit'') safety)
      else let draft = earn_draft w i quoteExpiry calls;
               b = draft\<lparr>ebp_blueprint_hash := ewd_hash_blueprint w draft\<rparr>
           in if earn_schema w b then Inr (EarnPrepared b safety) else Inl (JsError ''ZodError'')))))"

section \<open>memory.ts: the row\<close>

definition insertEarnBlueprint ::
  "(execution_blueprint \<Rightarrow> bool) \<Rightarrow> string \<Rightarrow> earn_candidate list \<Rightarrow> execution_blueprint \<Rightarrow> execution_blueprint list
   \<Rightarrow> storage_error + execution_blueprint list" where
  "insertEarnBlueprint schema run_intent candidates b rows =
     (if \<not> schema b then Inl (StorageIntegrity ''blueprint'')
      else if ebp_goal b \<noteq> EarnGoal then Inl (StorageIntegrity ''insertEarnBlueprint requires an earn-goal Blueprint'')
      else (case assertLinkedHash (ebp_intent_hash b) run_intent ''earnBlueprint.intentHash'' of Inl e \<Rightarrow> Inl e
      | Inr _ \<Rightarrow>
     (case find (\<lambda>c. ecd_candidate_hash c = ebp_selected_candidate_hash b) candidates of
        None \<Rightarrow> Inl (StorageIntegrity ''Earn Blueprint references an unstored earn candidate'')
      | Some c \<Rightarrow> insert_row ebp_id ebp_blueprint_hash ''Earn Blueprint ID or run-scoped hash already has different content'' b rows)))"

interpretation earn_blueprints: row_table ebp_id ebp_blueprint_hash "insertEarnBlueprint schema run_intent rows"
    for schema run_intent rows
  by unfold_locales
    (auto simp: insertEarnBlueprint_def assertLinkedHash_def split: if_split_asm option.split_asm dest: insert_row_shape insert_row_again)

section \<open>earnExecution.ts: preparing\<close>

record earn_prepare_input =
  epi_wallet_address :: string
  epi_route_card_hash :: string
  epi_selected_candidate_hash :: string
  epi_request_id :: string
  epi_now :: int

datatype earn_error = EarnBinding string | EarnThrows js_error | EarnStorage storage_error | EarnSchema

datatype earn_answer = EarnBuilt earn_built | EarnRefresh string

definition earn_binding :: "earn_store \<Rightarrow> string \<Rightarrow> earn_error + earn_run" where
  "earn_binding s wallet =
     (case ets_run s of None \<Rightarrow> Inl (EarnBinding ''earn_route_run_not_found'')
      | Some run \<Rightarrow>
          if to_lower (ern_wallet_address run) \<noteq> to_lower wallet then Inl (EarnBinding ''wallet_binding_mismatch'') else Inr run)"

definition find_earn_candidate :: "earn_store \<Rightarrow> string \<Rightarrow> earn_candidate option" where
  "find_earn_candidate s hash = find (\<lambda>c. ecd_candidate_hash c = hash) (ets_candidates s)"

definition blueprint_input_of :: "earn_world \<Rightarrow> earn_prepare_input \<Rightarrow> earn_run \<Rightarrow> earn_candidate \<Rightarrow> earn_evidence \<Rightarrow> earn_blueprint_input" where
  "blueprint_input_of w i run c e =
     \<lparr>ebi_wallet_address = epi_wallet_address i, ebi_intent = ern_intent run, ebi_candidate = c,
      ebi_evidence_set_hash = ewd_hash_evidence_set w [eve_evidence_hash e], ebi_request_id = epi_request_id i,
      ebi_now = epi_now i, ebi_quote_expiry = None, ebi_simulation_state = None\<rparr>"

definition prepareEarnDepositV1 :: "earn_world \<Rightarrow> earn_store \<Rightarrow> earn_prepare_input \<Rightarrow> earn_store \<times> (earn_error + earn_answer)" where
  "prepareEarnDepositV1 w s i =
     (case earn_binding s (epi_wallet_address i) of Inl e \<Rightarrow> (s, Inl e)
      | Inr run \<Rightarrow>
     if epi_route_card_hash i \<notin> set (ets_cards s) then (s, Inr (EarnRefresh ''card''))
     else (case find_earn_candidate s (epi_selected_candidate_hash i) of None \<Rightarrow> (s, Inr (EarnRefresh ''candidate''))
      | Some c \<Rightarrow>
     (case find (\<lambda>e. eve_candidate_hash e = ecd_candidate_hash c) (ets_evidence s) of None \<Rightarrow> (s, Inr (EarnRefresh ''evidence''))
      | Some e \<Rightarrow>
     (case buildEarnDepositBlueprintV1 w (blueprint_input_of w i run c e) of
        Inl err \<Rightarrow> (s, Inl (EarnThrows err))
      | Inr (EarnPrepared b safety) \<Rightarrow>
          (case insertEarnBlueprint (earn_schema w) (ern_intent_hash run) (ets_candidates s) b (ets_blueprints s) of
             Inl err \<Rightarrow> (s, Inl (EarnStorage err))
           | Inr rows \<Rightarrow> (s\<lparr>ets_blueprints := rows\<rparr>, Inr (EarnBuilt (EarnPrepared b safety))))
      | Inr answer \<Rightarrow> (s, Inr (EarnBuilt answer))))))"

section \<open>earnExecution.ts: approving\<close>

definition earnPositionAssetV1 :: "earn_candidate \<Rightarrow> asset_ref" where
  "earnPositionAssetV1 c =
     (let address = ect_target (ecd_contracts c) in
      \<lparr>asr_asset_id = ''eip155:8453/erc20:'' @ address, asr_chain_id = 8453, asr_kind = Erc20Kind, asr_address = Some address,
       asr_symbol = (case ecd_protocol c of Moonwell \<Rightarrow> ''mwUSDC'' | MorphoVault \<Rightarrow> ''mwUSDC-vault'' | Yo \<Rightarrow> ''yoUSD''),
       asr_decimals = (case ecd_protocol c of Moonwell \<Rightarrow> 8 | MorphoVault \<Rightarrow> 18 | Yo \<Rightarrow> 6)\<rparr>)"

definition buildEarnPendingRouteProofV1 :: "earn_world \<Rightarrow> execution_blueprint \<Rightarrow> earn_candidate \<Rightarrow> int \<Rightarrow> route_proof" where
  "buildEarnPendingRouteProofV1 w b c now =
     \<lparr>rpf_id = hsh_proof_id (ewd_hashing w) (ebp_id b), rpf_created_at = now, rpf_updated_at = now, rpf_status = FinalPending,
      rpf_final_status = FinalPending, rpf_blueprint_hash = ebp_blueprint_hash b,
      rpf_approved_calls_hash = ebp_approved_calls_hash b, rpf_approved_calls = ebp_calls b,
      rpf_expected_result = \<lparr>exr_asset_changes = ebp_expected_asset_changes b, exr_output_amount_atomic = None,
        exr_output_asset = Some (earnPositionAssetV1 c)\<rparr>,
      rpf_actual_result = None, rpf_actual_gas = None, rpf_fee_paid_by = None, rpf_deviation = no_deviation,
      rpf_reconciliation_state = StatePending, rpf_transaction_hashes = [], rpf_receipts = []\<rparr>"

definition earn_approval_binding :: "earn_world \<Rightarrow> earn_store \<Rightarrow> approval_input \<Rightarrow> earn_error + earn_run \<times> execution_blueprint" where
  "earn_approval_binding w s i =
     (case earn_binding s (api_wallet_address i) of Inl e \<Rightarrow> Inl e
      | Inr run \<Rightarrow>
          if ern_chain_id run \<noteq> 8453 then Inl (EarnBinding ''unsupported_chain'')
          else (case find (\<lambda>b. ebp_id b = api_blueprint_id i) (ets_blueprints s) of
              None \<Rightarrow> Inl (EarnBinding ''blueprint_not_found'')
            | Some b \<Rightarrow>
                if ebp_goal b \<noteq> EarnGoal then Inl (EarnBinding ''goal_mismatch'')
                else if ebp_blueprint_hash b \<noteq> api_blueprint_hash i then Inl (EarnBinding ''blueprint_hash_mismatch'')
                else if ebp_intent_hash b \<noteq> ern_intent_hash run then Inl (EarnBinding ''blueprint_intent_mismatch'')
                else if ebp_blueprint_hash b \<noteq> ewd_hash_blueprint w b then Inl (EarnBinding ''blueprint_hash_invalid'')
                else if ebp_calls_hash b \<noteq> ewd_hash_calls w (ebp_calls b) then Inl (EarnBinding ''blueprint_calls_hash_invalid'')
                else Inr (run, b)))"

definition stored_earn_input :: "approval_input \<Rightarrow> earn_run \<Rightarrow> earn_candidate \<Rightarrow> execution_blueprint \<Rightarrow> earn_kernel_input" where
  "stored_earn_input i run c b =
     \<lparr>eki_wallet_address = api_wallet_address i, eki_intent = ern_intent run, eki_candidate = c, eki_calls = ebp_calls b,
      eki_quote_expiry = ebp_quote_expiry b, eki_now = api_now i, eki_intent_hash = ebp_intent_hash b,
      eki_selected_candidate_hash = ebp_selected_candidate_hash b\<rparr>"

definition blueprint_status_text :: "blueprint_status \<Rightarrow> string" where
  "blueprint_status_text s =
     (case s of BlueprintDraft \<Rightarrow> ''draft'' | BlueprintReadyForReview \<Rightarrow> ''ready_for_review'' | BlueprintApproved \<Rightarrow> ''approved''
      | BlueprintExpired \<Rightarrow> ''expired'' | BlueprintInvalid \<Rightarrow> ''invalid'')"

text \<open>The blueprint as approved: already, now, or not (\<open>Inr (Inl r)\<close> is the answer).\<close>

definition approve_earn_blueprint ::
  "earn_world \<Rightarrow> earn_store \<Rightarrow> approval_input \<Rightarrow> earn_run \<Rightarrow> execution_blueprint
   \<Rightarrow> earn_error + (approve_result + execution_blueprint \<times> earn_store)" where
  "approve_earn_blueprint w s i run b =
     (let recomputed = ewd_hash_calls w (ebp_calls b) in
      if ebp_status b = BlueprintApproved \<and> ebp_approved_calls_hash b = Some recomputed then Inr (Inr (b, s))
      else if ebp_status b \<noteq> BlueprintReadyForReview then Inr (Inl (ApproveBlocked
        (''Blueprint status '' @ blueprint_status_text (ebp_status b) @ '' is not approvable'')))
      else (case find_earn_candidate s (ebp_selected_candidate_hash b) of None \<Rightarrow> Inl (EarnBinding ''candidate_not_found'')
        | Some c \<Rightarrow>
            (case runEarnSafetyKernelV1 (ewd_abi w) (ewd_parse w) (stored_earn_input i run c b) of
               Inl e \<Rightarrow> Inl (EarnThrows e)
             | Inr safety \<Rightarrow>
                 if \<not> evt_allowed safety then Inr (Inl (ApproveBlocked
                   (case evt_blocked_reason safety of Some r \<Rightarrow> r | None \<Rightarrow> ''Earn Safety Kernel blocked this Blueprint'')))
                 else if api_now i < ebp_created_at b then Inl EarnSchema
                 else let approved = b\<lparr>ebp_status := BlueprintApproved, ebp_approved_calls_hash := Some recomputed,
                        ebp_updated_at := api_now i\<rparr>
                   in Inr (Inr (approved, s\<lparr>ets_blueprints := map (\<lambda>x. if ebp_id x = ebp_id b then approved else x) (ets_blueprints s)\<rparr>)))))"

definition ensure_earn_proof ::
  "earn_world \<Rightarrow> earn_store \<Rightarrow> int \<Rightarrow> execution_blueprint \<Rightarrow> earn_error + route_proof \<times> earn_store" where
  "ensure_earn_proof w s now b =
     (let proofId = hsh_proof_id (ewd_hashing w) (ebp_id b) in
      case ets_proofs s proofId of
        Some p \<Rightarrow> Inr (p, s)
      | None \<Rightarrow>
          (case find_earn_candidate s (ebp_selected_candidate_hash b) of None \<Rightarrow> Inl (EarnBinding ''candidate_not_found'')
           | Some c \<Rightarrow>
               let p = buildEarnPendingRouteProofV1 w b c now in
               if \<not> RouteProofV1Schema p then Inl EarnSchema
               else Inr (p, s\<lparr>ets_proofs := (ets_proofs s)(proofId := Some p)\<rparr>)))"

definition finish_earn_approval ::
  "earn_world \<Rightarrow> earn_store \<Rightarrow> int \<Rightarrow> earn_run \<Rightarrow> execution_blueprint \<Rightarrow> route_proof \<Rightarrow> earn_store \<times> (earn_error + approve_result)" where
  "finish_earn_approval w s now run approved p =
     (let events = appendProofEventIfNewV1 (ewd_hashing w) (rpf_id p) (ets_events s (rpf_id p)) CallsApproved
           (approved_event_payload approved) now;
         s' = s\<lparr>ets_events := (ets_events s)(rpf_id p := events)\<rparr>
      in (s', case buildApprovedPayload approved (ern_wallet_address run) of
            Inl e \<Rightarrow> Inl (EarnThrows e)
          | Inr payload \<Rightarrow> Inr (Approved payload (deriveBlueprintLifecycleV1 (ebp_status approved) (Some p) events))))"

definition approveEarnBlueprintV1 ::
  "earn_world \<Rightarrow> earn_store \<Rightarrow> approval_input \<Rightarrow> earn_store \<times> (earn_error + approve_result)" where
  "approveEarnBlueprintV1 w s i =
     (case earn_approval_binding w s i of Inl e \<Rightarrow> (s, Inl e)
      | Inr (run, b) \<Rightarrow>
     if passed_by (ewd_parse w) (ebp_quote_expiry b) (api_now i) then (s, Inr ApproveExpired)
     else (case approve_earn_blueprint w s i run b of Inl e \<Rightarrow> (s, Inl e)
      | Inr (Inl answer) \<Rightarrow> (s, Inr answer)
      | Inr (Inr (approved, s1)) \<Rightarrow>
     (case ensure_earn_proof w s1 (api_now i) approved of Inl e \<Rightarrow> (s1, Inl e)
      | Inr (p, s2) \<Rightarrow> finish_earn_approval w s2 (api_now i) run approved p)))"

section \<open>A run\<close>

datatype earn_event = EarnPrepare earn_prepare_input | EarnApprove approval_input

inductive earn_step :: "earn_world \<Rightarrow> earn_store \<Rightarrow> earn_event \<Rightarrow> earn_store \<Rightarrow> bool" for w where
  prepared: "earn_step w s (EarnPrepare i) (fst (prepareEarnDepositV1 w s i))"
| approved: "earn_step w s (EarnApprove i) (fst (approveEarnBlueprintV1 w s i))"

inductive_cases earn_prepareE: "earn_step w s (EarnPrepare i) t"
inductive_cases earn_approveE: "earn_step w s (EarnApprove i) t"

end
