(* ===== verification/Earn_Sound.thy ===== *)
theory Earn_Sound
  imports Earn Submission_Sound
begin

text \<open>
  What the kernel's word means for a deposit, and what every step of an earn run keeps.
\<close>

section \<open>An exact deposit\<close>

definition deposits :: "earn_abi \<Rightarrow> earn_candidate \<Rightarrow> int \<Rightarrow> string \<Rightarrow> execution_call \<Rightarrow> bool" where
  "deposits abi c amount wallet d \<longleftrightarrow>
     (let pin = pinnedEarnVenueV1 (ecd_protocol c) in
      case ecd_protocol c of
        Moonwell \<Rightarrow> to_lower (exc_to d) = pin_target pin \<and> eab_decode_mint abi (exc_data d) = Some amount
      | MorphoVault \<Rightarrow> to_lower (exc_to d) = pin_target pin
          \<and> (\<exists>r. eab_decode_deposit abi (exc_data d) = Some (amount, r) \<and> to_lower r = to_lower wallet)
      | Yo \<Rightarrow> to_lower (exc_to d) = pin_approval_spender pin
          \<and> (\<exists>g position expected. eab_decode_gateway abi (exc_data d) = Some g \<and> gwd_assets g = amount
               \<and> to_lower (gwd_vault g) = pin_target pin \<and> to_lower (gwd_receiver g) = to_lower wallet \<and> gwd_partner_id g = 0
               \<and> ecd_expected_position_atomic c = Some position \<and> js_bigint position = Some expected
               \<and> gwd_minimum_shares g = minimum_shares expected))"

definition approves_the_amount :: "earn_abi \<Rightarrow> earn_candidate \<Rightarrow> int \<Rightarrow> execution_call \<Rightarrow> bool" where
  "approves_the_amount abi c amount a \<longleftrightarrow> to_lower (exc_to a) = PINNED_BASE_USDC_V1 \<and> amount \<noteq> MAX_UINT256
     \<and> (\<exists>spender. eab_decode_erc20 abi (exc_data a) = Some (Erc20Approve spender amount)
          \<and> to_lower spender = pin_approval_spender (pinnedEarnVenueV1 (ecd_protocol c)))"

definition exact_deposit :: "earn_abi \<Rightarrow> earn_intent \<Rightarrow> earn_candidate \<Rightarrow> string \<Rightarrow> execution_call list \<Rightarrow> bool" where
  "exact_deposit abi intent c wallet calls \<longleftrightarrow>
     (\<exists>a d amount. calls = [a, d] \<and> js_bigint (tam_amount_atomic (ein_amount intent)) = Some amount
        \<and> approves_the_amount abi c amount a \<and> deposits abi c amount wallet d)"

lemma js_BigInt_eq: "js_BigInt s = Inr v \<longleftrightarrow> js_bigint s = Some v"
  by (simp add: js_BigInt_def split: option.split)

lemma optional_shares_Inr:
  "optional_shares p = Inr (Some s) \<longleftrightarrow> (\<exists>t n. p = Some t \<and> js_bigint t = Some n \<and> s = minimum_shares n)"
  by (auto simp: optional_shares_def bindR_eq_Inr js_BigInt_eq split: option.split_asm)

lemma present_Some: "present p = Some t \<longleftrightarrow> p = Some t \<and> t \<noteq> ''''"
  by (auto simp: present_def split: option.split_asm if_split_asm)

lemma first_of: "calls_of t calls = [c] \<Longrightarrow> first_call t calls = Some c"
  by (induction calls) (auto simp: first_call_def calls_of_def split: if_split_asm)

text \<open>Two lists of one element each, and nothing besides, are the batch in the order of the indexes.\<close>

lemma earn_shape_calls:
  assumes "earn_shape calls" and "map exc_index calls = map int [0..<length calls]"
  obtains a d where "calls = [a, d]" "first_call ApprovalCall calls = Some a" "first_call DepositCall calls = Some d"
proof -
  obtain a d where one: "calls_of ApprovalCall calls = [a]" "calls_of DepositCall calls = [d]" "exc_index a < exc_index d"
    using assms(1) by (auto simp: earn_shape_def split: list.split_asm)
  have none: "filter (\<lambda>c. exc_call_type c \<noteq> ApprovalCall \<and> exc_call_type c \<noteq> DepositCall) calls = []"
    using assms(1) by (simp add: earn_shape_def)
  then have "length calls = length (calls_of ApprovalCall calls) + length (calls_of DepositCall calls)"
    unfolding calls_of_def by (induction calls) (auto split: if_split_asm)
  then have "length calls = 2" using one by simp
  then obtain x y where xy: "calls = [x, y]" by (auto simp: numeral_2_eq_2 length_Suc_conv)
  then have index: "exc_index x = 0" "exc_index y = 1" using assms(2) by (simp_all add: upt_rec)
  have "a \<in> {x, y}" "d \<in> {x, y}" using one(1,2) xy unfolding calls_of_def by (auto split: if_split_asm)
  moreover have "a \<noteq> d" using one(3) by auto
  ultimately have "calls = [a, d]" using one(3) index xy by auto
  then show thesis using that one by (simp add: first_of)
qed

lemma approval_exact_True:
  assumes "approval_exact abi i = Inr True" and "first_call ApprovalCall (eki_calls i) = Some a"
  obtains amount where "js_bigint (tam_amount_atomic (ein_amount (eki_intent i))) = Some amount"
    "approves_the_amount abi (eki_candidate i) amount a"
proof -
  obtain spender amount where d: "decodeApprove abi a = Some (spender, amount)" "earn_isCanonicalBaseUsdcV1 (exc_to a)"
      "spender = pin_approval_spender (earn_pin i)" "js_bigint (tam_amount_atomic (ein_amount (eki_intent i))) = Some amount"
      "amount \<noteq> MAX_UINT256"
    using assms by (auto simp: approval_exact_def bindR_eq_Inr js_BigInt_eq split: option.split_asm prod.split_asm if_split_asm)
  then obtain s where "eab_decode_erc20 abi (exc_data a) = Some (Erc20Approve s amount)" "spender = to_lower s"
    by (auto simp: decodeApprove_def split: if_split_asm option.split_asm erc20_call.split_asm)
  with d show thesis by (intro that [OF d(4)]) (auto simp: approves_the_amount_def earn_isCanonicalBaseUsdcV1_def earn_pin_def)
qed

lemma deposit_exact_True:
  assumes "deposit_exact abi i shares = Inr True" and "receiver_ok abi i" and "first_call DepositCall (eki_calls i) = Some d"
    and "expected_yo_shares (eki_candidate i) = Inr shares" and "earn_target i = pin_target (earn_pin i)"
    and "js_bigint (tam_amount_atomic (ein_amount (eki_intent i))) = Some amount"
  shows "deposits abi (eki_candidate i) amount (eki_wallet_address i) d"
proof -
  let ?p = "ecd_protocol (eki_candidate i)"
  obtain x where x: "decodeDeposit abi d ?p = Some x" "earn_deposit abi i = Some x"
      "to_lower (exc_to d) = (if ?p = Yo then pin_approval_spender (earn_pin i) else earn_target i)"
      "ddp_amount x = amount" "yo_semantics i shares x"
    using assms(1,3,6)
    by (auto simp: deposit_exact_def earn_deposit_def bindR_eq_Inr js_BigInt_eq Let_def split: option.split_asm if_split_asm)
  have receiver: "ddp_receiver x = None \<or> ddp_receiver x = Some (to_lower (eki_wallet_address i))"
    using assms(2) x(2) by (simp add: receiver_ok_def)
  show ?thesis
  proof (cases ?p)
    case Moonwell
    then show ?thesis using x(1,3,4) assms(5)
      by (auto simp: deposits_def decodeDeposit_def plain_deposit_def earn_pin_def Let_def)
  next
    case MorphoVault
    then show ?thesis using x(1,3,4) assms(5) receiver
      by (auto simp: deposits_def decodeDeposit_def plain_deposit_def earn_pin_def Let_def)
  next
    case Yo
    obtain g where gx: "eab_decode_gateway abi (exc_data d) = Some g" "x = \<lparr>ddp_amount = gwd_assets g,
        ddp_receiver = Some (to_lower (gwd_receiver g)), ddp_vault = Some (to_lower (gwd_vault g)),
        ddp_minimum_shares = Some (gwd_minimum_shares g), ddp_partner_id = Some (gwd_partner_id g)\<rparr>"
      using x(1) unfolding Yo decodeDeposit_def earn_protocol.case map_option_eq_Some by blast
    then have g: "ddp_receiver x = Some (to_lower (gwd_receiver g))"
        "ddp_vault x = Some (to_lower (gwd_vault g))" "ddp_minimum_shares x = Some (gwd_minimum_shares g)"
        "ddp_partner_id x = Some (gwd_partner_id g)" "gwd_assets g = amount"
      using x(4) by simp_all
    have "shares = Some (gwd_minimum_shares g)" using x(5) Yo g(3) by (simp add: yo_semantics_def)
    then obtain position expected where "ecd_expected_position_atomic (eki_candidate i) = Some position"
        "js_bigint position = Some expected" "gwd_minimum_shares g = minimum_shares expected"
      using assms(4) by (auto simp: expected_yo_shares_def optional_shares_Inr present_Some)
    then show ?thesis using Yo gx(1) g x(3,5) receiver assms(5)
      by (auto simp: deposits_def yo_semantics_def earn_pin_def Let_def)
  qed
qed

lemma pinning_facts:
  assumes "\<forall>c \<in> set (pinning_checks i). fst (snd c)"
  shows "to_lower (eki_wallet_address i) = to_lower (ein_wallet_address (eki_intent i))" "ein_chain_id (eki_intent i) = 8453"
    "earn_target i = pin_target (earn_pin i)" "earn_shape (eki_calls i)"
    "tam_amount_atomic (ecd_amount (eki_candidate i)) = tam_amount_atomic (ein_amount (eki_intent i))"
  using assms by (simp_all add: pinning_checks_def Let_def)

lemma allowed_is_exact:
  assumes "earn_allows abi parse i" and "map exc_index (eki_calls i) = map int [0..<length (eki_calls i)]"
  shows "exact_deposit abi (eki_intent i) (eki_candidate i) (eki_wallet_address i) (eki_calls i)"
proof -
  obtain shares where parts: "\<forall>c \<in> set (pinning_checks i). fst (snd c)" "approval_exact abi i = Inr True" "receiver_ok abi i"
      "expected_yo_shares (eki_candidate i) = Inr shares" "deposit_exact abi i shares = Inr True"
    using assms(1) unfolding earn_allows_iff by blast
  note pins = pinning_facts [OF parts(1)]
  obtain a d where calls: "eki_calls i = [a, d]" "first_call ApprovalCall (eki_calls i) = Some a"
      "first_call DepositCall (eki_calls i) = Some d"
    using earn_shape_calls [OF pins(4) assms(2)] by metis
  obtain amount where amount: "js_bigint (tam_amount_atomic (ein_amount (eki_intent i))) = Some amount"
      "approves_the_amount abi (eki_candidate i) amount a"
    using approval_exact_True [OF parts(2) calls(2)] by blast
  have "deposits abi (eki_candidate i) amount (eki_wallet_address i) d"
    by (rule deposit_exact_True [OF parts(5,3) calls(3) parts(4) pins(3) amount(1)])
  then show ?thesis using calls(1) amount unfolding exact_deposit_def by blast
qed

text \<open>The kernel reads no value: ether attached to an allowed batch goes unseen.\<close>

definition paying :: "string \<Rightarrow> execution_call \<Rightarrow> execution_call" where
  "paying v c = c\<lparr>exc_value_wei := v\<rparr>"

lemma paying_same [simp]:
  "exc_index (paying v c) = exc_index c" "exc_call_type (paying v c) = exc_call_type c" "exc_to (paying v c) = exc_to c"
  "exc_data (paying v c) = exc_data c" "exc_value_wei (paying v c) = v"
  by (simp_all add: paying_def)

lemma calls_of_paying: "calls_of t (map (paying v) cs) = map (paying v) (calls_of t cs)"
  by (induction cs) (simp_all add: calls_of_def)

lemma first_call_paying: "first_call t (map (paying v) cs) = map_option (paying v) (first_call t cs)"
  by (induction cs) (simp_all add: first_call_def)

lemma earn_shape_paying: "earn_shape (map (paying v) cs) = earn_shape cs"
proof -
  have "filter (\<lambda>c. exc_call_type c \<noteq> ApprovalCall \<and> exc_call_type c \<noteq> DepositCall) (map (paying v) cs) = []
      \<longleftrightarrow> filter (\<lambda>c. exc_call_type c \<noteq> ApprovalCall \<and> exc_call_type c \<noteq> DepositCall) cs = []"
    by (simp add: filter_map comp_def)
  then show ?thesis by (auto simp: earn_shape_def calls_of_paying split: list.split)
qed

lemma kernel_reads_no_value:
  "runEarnSafetyKernelV1 abi parse (i\<lparr>eki_calls := map (paying v) (eki_calls i)\<rparr>) = runEarnSafetyKernelV1 abi parse i"
proof -
  let ?j = "i\<lparr>eki_calls := map (paying v) (eki_calls i)\<rparr>"
  have decode: "decodeApprove abi (paying v c) = decodeApprove abi c" "decodeDeposit abi (paying v c) p = decodeDeposit abi c p" for c p
    by (simp_all add: decodeApprove_def decodeDeposit_def split: earn_protocol.split)
  have pin: "earn_pin ?j = earn_pin i" "earn_target ?j = earn_target i" by (simp_all add: earn_pin_def earn_target_def)
  have dep: "earn_deposit abi ?j = earn_deposit abi i"
    by (cases "first_call DepositCall (eki_calls i)") (simp_all add: earn_deposit_def first_call_paying decode)
  have "approval_exact abi ?j = approval_exact abi i"
    by (cases "first_call ApprovalCall (eki_calls i)") (simp_all add: approval_exact_def first_call_paying decode pin split: option.split prod.split)
  moreover have "not_unlimited abi ?j = not_unlimited abi i"
    by (cases "first_call ApprovalCall (eki_calls i)") (simp_all add: not_unlimited_def first_call_paying decode)
  moreover have "deposit_exact abi ?j s = deposit_exact abi i s" for s
    by (cases "first_call DepositCall (eki_calls i)")
      (simp_all add: deposit_exact_def first_call_paying dep pin yo_semantics_def split: option.split)
  moreover have "receiver_ok abi ?j = receiver_ok abi i" by (simp add: receiver_ok_def dep split: option.split)
  moreover have "pinning_checks ?j = pinning_checks i" "linkage_checks parse ?j = linkage_checks parse i"
    by (simp_all add: pinning_checks_def linkage_checks_def pin earn_shape_paying Let_def)
  ultimately show ?thesis by (simp add: runEarnSafetyKernelV1_def)
qed

section \<open>Preparing\<close>

lemma earn_built_facts:
  assumes "buildEarnDepositBlueprintV1 w i = Inr (EarnPrepared b safety)"
  obtains calls where
    "buildEarnDepositCallsV1 (ewd_abi w) (ebi_intent i) (ebi_candidate i) (ebi_wallet_address i) = Inr calls"
    "earn_allows (ewd_abi w) (ewd_parse w) (built_kernel_input i (quote_expiry_of i) calls)" "earn_schema w b"
    "b = (earn_draft w i (quote_expiry_of i) calls)\<lparr>ebp_blueprint_hash := ewd_hash_blueprint w (earn_draft w i (quote_expiry_of i) calls)\<rparr>"
  using assms
  by (auto simp: buildEarnDepositBlueprintV1_def no_share_quote_def earn_allows_def bindR_eq_Inr Let_def split: if_split_asm)

lemma built_fields:
  assumes "buildEarnDepositBlueprintV1 w i = Inr (EarnPrepared b safety)"
  shows "ebp_status b = BlueprintReadyForReview" "ebp_goal b = EarnGoal" "earn_schema w b"
    "ebp_selected_candidate_hash b = ecd_candidate_hash (ebi_candidate i)" "ebp_intent_hash b = ein_intent_hash (ebi_intent i)"
    "buildEarnDepositCallsV1 (ewd_abi w) (ebi_intent i) (ebi_candidate i) (ebi_wallet_address i) = Inr (ebp_calls b)"
  using assms by (auto elim!: earn_built_facts simp: earn_draft_def Let_def)

lemma built_calls_pay_nothing:
  "buildEarnDepositCallsV1 abi intent c wallet = Inr calls \<Longrightarrow> \<forall>x \<in> set calls. exc_value_wei x = ''0''"
  by (auto simp: buildEarnDepositCallsV1_def bindR_eq_Inr Let_def split: if_split_asm)

lemma prepare_earn_cases:
  assumes "prepareEarnDepositV1 w s i = (t, r)"
  obtains (kept) "t = s" "\<forall>b safety. r \<noteq> Inr (EarnBuilt (EarnPrepared b safety))"
  | (stored) run c e b safety rows where "earn_binding s (epi_wallet_address i) = Inr run"
      "find_earn_candidate s (epi_selected_candidate_hash i) = Some c"
      "find (\<lambda>e. eve_candidate_hash e = ecd_candidate_hash c) (ets_evidence s) = Some e"
      "buildEarnDepositBlueprintV1 w (blueprint_input_of w i run c e) = Inr (EarnPrepared b safety)"
      "insertEarnBlueprint (earn_schema w) (ern_intent_hash run) (ets_candidates s) b (ets_blueprints s) = Inr rows"
      "t = s\<lparr>ets_blueprints := rows\<rparr>" "r = Inr (EarnBuilt (EarnPrepared b safety))"
proof (cases "earn_binding s (epi_wallet_address i)")
  case (Inl e)
  then show ?thesis using assms by (intro kept) (auto simp: prepareEarnDepositV1_def)
next
  case run: (Inr run)
  show ?thesis
  proof (cases "epi_route_card_hash i \<in> set (ets_cards s)")
    case False
    then show ?thesis using assms run by (intro kept) (auto simp: prepareEarnDepositV1_def)
  next
    case card: True
    show ?thesis
    proof (cases "find_earn_candidate s (epi_selected_candidate_hash i)")
      case None
      then show ?thesis using assms run card by (intro kept) (auto simp: prepareEarnDepositV1_def)
    next
      case c: (Some c)
      show ?thesis
      proof (cases "find (\<lambda>e. eve_candidate_hash e = ecd_candidate_hash c) (ets_evidence s)")
        case None
        then show ?thesis using assms run card c by (intro kept) (auto simp: prepareEarnDepositV1_def)
      next
        case e: (Some e)
        note read = assms [unfolded prepareEarnDepositV1_def run c e sum.case option.case if_not_P [OF card [THEN not_not [THEN iffD2]]]]
        show ?thesis
        proof (cases "\<exists>b safety. buildEarnDepositBlueprintV1 w (blueprint_input_of w i run c e) = Inr (EarnPrepared b safety)")
          case False
          then show ?thesis using read by (intro kept) (auto split: sum.split_asm earn_built.split_asm)
        next
          case True
          then obtain b safety where b: "buildEarnDepositBlueprintV1 w (blueprint_input_of w i run c e) = Inr (EarnPrepared b safety)"
            by blast
          show ?thesis
          proof (cases "insertEarnBlueprint (earn_schema w) (ern_intent_hash run) (ets_candidates s) b (ets_blueprints s)")
            case (Inl err)
            then show ?thesis using read b by (intro kept) auto
          next
            case (Inr rows)
            then show ?thesis using read b by (intro stored [OF run c e b]) auto
          qed
        qed
      qed
    qed
  qed
qed

section \<open>Approving\<close>

definition as_earn_approved :: "earn_world \<Rightarrow> int \<Rightarrow> execution_blueprint \<Rightarrow> execution_blueprint" where
  "as_earn_approved w now b = b\<lparr>ebp_status := BlueprintApproved, ebp_approved_calls_hash := Some (ewd_hash_calls w (ebp_calls b)),
     ebp_updated_at := now\<rparr>"

lemma as_earn_approved_fields [simp]:
  "ebp_status (as_earn_approved w now b) = BlueprintApproved" "ebp_id (as_earn_approved w now b) = ebp_id b"
  "ebp_calls (as_earn_approved w now b) = ebp_calls b" "ebp_goal (as_earn_approved w now b) = ebp_goal b"
  "ebp_selected_candidate_hash (as_earn_approved w now b) = ebp_selected_candidate_hash b"
  "ebp_intent_hash (as_earn_approved w now b) = ebp_intent_hash b" "ebp_quote_expiry (as_earn_approved w now b) = ebp_quote_expiry b"
  "ebp_created_at (as_earn_approved w now b) = ebp_created_at b" "ebp_blueprint_hash (as_earn_approved w now b) = ebp_blueprint_hash b"
  "ebp_approved_calls_hash (as_earn_approved w now b) = Some (ewd_hash_calls w (ebp_calls b))"
  by (simp_all add: as_earn_approved_def)

lemma earn_binding_found:
  assumes "earn_approval_binding w s i = Inr (run, b)"
  shows "ets_run s = Some run" "b \<in> set (ets_blueprints s)" "ebp_id b = api_blueprint_id i" "ebp_goal b = EarnGoal"
    "to_lower (ern_wallet_address run) = to_lower (api_wallet_address i)" "ebp_intent_hash b = ern_intent_hash run"
  using assms by (auto simp: earn_approval_binding_def earn_binding_def find_Some_iff split: option.split_asm sum.split_asm if_split_asm)

lemma approve_earn_cases:
  assumes "approve_earn_blueprint w s i run b = Inr (Inr (approved, s1))"
  obtains (already) "ebp_status b = BlueprintApproved" "approved = b" "s1 = s"
  | (now) c where "ebp_status b = BlueprintReadyForReview" "find_earn_candidate s (ebp_selected_candidate_hash b) = Some c"
      "earn_allows (ewd_abi w) (ewd_parse w) (stored_earn_input i run c b)" "approved = as_earn_approved w (api_now i) b"
      "s1 = s\<lparr>ets_blueprints := map (\<lambda>x. if ebp_id x = ebp_id b then approved else x) (ets_blueprints s)\<rparr>"
  using assms
  by (auto simp: approve_earn_blueprint_def as_earn_approved_def earn_allows_def Let_def
      split: if_split_asm option.split_asm sum.split_asm)

lemma ensure_earn_cases:
  assumes "ensure_earn_proof w s now b = Inr (p, s2)"
  obtains (there) "ets_proofs s (hsh_proof_id (ewd_hashing w) (ebp_id b)) = Some p" "s2 = s"
  | (made) c where "p = buildEarnPendingRouteProofV1 w b c now" "RouteProofV1Schema p"
      "s2 = s\<lparr>ets_proofs := (ets_proofs s)(hsh_proof_id (ewd_hashing w) (ebp_id b) := Some p)\<rparr>"
  using assms by (auto simp: ensure_earn_proof_def Let_def split: option.split_asm if_split_asm)

lemma approve_earn_outcome:
  assumes "approveEarnBlueprintV1 w s i = (t, r)"
  obtains (kept) "t = s" "\<forall>payload lifecycle. r \<noteq> Inr (Approved payload lifecycle)"
  | (stopped) run b approved where "earn_approval_binding w s i = Inr (run, b)"
      "approve_earn_blueprint w s i run b = Inr (Inr (approved, t))" "\<forall>payload lifecycle. r \<noteq> Inr (Approved payload lifecycle)"
  | (finished) run b approved s1 p s2 where "earn_approval_binding w s i = Inr (run, b)"
      "\<not> passed_by (ewd_parse w) (ebp_quote_expiry b) (api_now i)"
      "approve_earn_blueprint w s i run b = Inr (Inr (approved, s1))" "ensure_earn_proof w s1 (api_now i) approved = Inr (p, s2)"
      "finish_earn_approval w s2 (api_now i) run approved p = (t, r)"
proof (cases "earn_approval_binding w s i")
  case (Inl e)
  then show ?thesis using assms by (intro kept) (auto simp: approveEarnBlueprintV1_def)
next
  case (Inr pair)
  then obtain run b where bound: "earn_approval_binding w s i = Inr (run, b)" by (cases pair) auto
  show ?thesis
  proof (cases "passed_by (ewd_parse w) (ebp_quote_expiry b) (api_now i)")
    case True
    then show ?thesis using assms bound by (intro kept) (auto simp: approveEarnBlueprintV1_def)
  next
    case False
    note early = False
    show ?thesis
    proof (cases "approve_earn_blueprint w s i run b")
      case (Inl e)
      then show ?thesis using assms bound early by (intro kept) (auto simp: approveEarnBlueprintV1_def)
    next
      case (Inr answer)
      show ?thesis
      proof (cases answer)
        case (Inl a)
        have "\<forall>payload lifecycle. a \<noteq> Approved payload lifecycle"
          using Inr Inl by (auto simp: approve_earn_blueprint_def Let_def split: if_split_asm option.split_asm sum.split_asm)
        then show ?thesis using assms bound early Inr Inl by (intro kept) (auto simp: approveEarnBlueprintV1_def)
      next
        case one: (Inr pair1)
        then obtain approved s1 where went: "approve_earn_blueprint w s i run b = Inr (Inr (approved, s1))"
          using Inr by (cases pair1) auto
        show ?thesis
        proof (cases "ensure_earn_proof w s1 (api_now i) approved")
          case (Inl e)
          then have "t = s1" "r = Inl e" using assms bound early went by (auto simp: approveEarnBlueprintV1_def)
          then show ?thesis using went by (intro stopped [OF bound, of approved]) auto
        next
          case (Inr pair2)
          then obtain p s2 where "ensure_earn_proof w s1 (api_now i) approved = Inr (p, s2)" by (cases pair2) auto
          then show ?thesis using assms bound early went by (intro finished [OF bound early went]) (auto simp: approveEarnBlueprintV1_def)
        qed
      qed
    qed
  qed
qed

section \<open>What every step keeps\<close>

text \<open>The kernel allowed exactly these calls, for the run's wallet and the run's intent.\<close>

definition earn_reviewed :: "earn_world \<Rightarrow> earn_store \<Rightarrow> earn_run \<Rightarrow> execution_blueprint \<Rightarrow> bool" where
  "earn_reviewed w s run b \<longleftrightarrow>
     (\<exists>i c. c \<in> set (ets_candidates s) \<and> ecd_candidate_hash c = ebp_selected_candidate_hash b
        \<and> to_lower (api_wallet_address i) = to_lower (ern_wallet_address run)
        \<and> earn_allows (ewd_abi w) (ewd_parse w) (stored_earn_input i run c b))"

definition in_order :: "execution_blueprint \<Rightarrow> bool" where
  "in_order b \<longleftrightarrow> map exc_index (ebp_calls b) = map int [0..<length (ebp_calls b)]"

definition earn_history_ok :: "earn_world \<Rightarrow> earn_store \<Rightarrow> bool" where
  "earn_history_ok w s \<longleftrightarrow>
     (\<forall>pid. chained (ewd_hashing w) pid (ets_events s pid) \<and> told_once (ets_events s pid))
     \<and> (\<forall>pid p. ets_proofs s pid = Some p \<longrightarrow> rpf_id p = pid \<and> RouteProofV1Schema p)"

definition earn_ok :: "earn_world \<Rightarrow> earn_store \<Rightarrow> bool" where
  "earn_ok w s \<longleftrightarrow> earn_history_ok w s
     \<and> (\<forall>b \<in> set (ets_blueprints s). in_order b
          \<and> (ebp_status b = BlueprintApproved \<longrightarrow> (\<exists>run. ets_run s = Some run \<and> earn_reviewed w s run b)))"

text \<open>An earn run as it is opened: nothing approved, no proof, no history; the rows were parsed.\<close>

definition earn_started :: "earn_store \<Rightarrow> bool" where
  "earn_started s \<longleftrightarrow> (\<forall>b \<in> set (ets_blueprints s). in_order b \<and> ebp_status b \<noteq> BlueprintApproved)
     \<and> (\<forall>pid. ets_proofs s pid = None \<and> ets_events s pid = [])"

lemma earn_started_ok: "earn_started s \<Longrightarrow> earn_ok w s"
  by (auto simp: earn_started_def earn_ok_def earn_history_ok_def chained_def told_once_def)

lemma schema_in_order: "earn_schema w b \<Longrightarrow> in_order b"
  by (simp add: earn_schema_def ExecutionBlueprintV1Schema_def in_order_def)

lemma earn_reviewed_cong: "ets_candidates t = ets_candidates s \<Longrightarrow> earn_reviewed w t run b = earn_reviewed w s run b"
  by (simp add: earn_reviewed_def)

lemma prepare_keeps_earn:
  assumes "prepareEarnDepositV1 w s i = (t, r)" and "earn_ok w s"
  shows "earn_ok w t"
  using assms(1)
proof (cases rule: prepare_earn_cases)
  case kept
  then show ?thesis using assms(2) by simp
next
  case (stored run c e b safety rows)
  note b = built_fields [OF stored(4)]
  have rows: "set rows = insert b (set (ets_blueprints s))" using stored(5) by (rule earn_blueprints.put_adds)
  have "in_order b" "ebp_status b \<noteq> BlueprintApproved" using schema_in_order [OF b(3)] b(1) by simp_all
  then show ?thesis
    using assms(2) unfolding earn_ok_def
    by (auto simp: stored(6) rows earn_history_ok_def earn_reviewed_def)
qed

lemma approve_blueprint_keeps_earn:
  assumes "earn_approval_binding w s i = Inr (run, b)" and "approve_earn_blueprint w s i run b = Inr (Inr (approved, s1))"
    and "earn_ok w s"
  shows "earn_ok w s1 \<and> approved \<in> set (ets_blueprints s1) \<and> ebp_status approved = BlueprintApproved
    \<and> ebp_calls approved = ebp_calls b \<and> ebp_quote_expiry approved = ebp_quote_expiry b \<and> ets_run s1 = ets_run s
    \<and> ets_candidates s1 = ets_candidates s \<and> ebp_id approved = ebp_id b"
  using assms(2)
proof (cases rule: approve_earn_cases)
  case already
  then show ?thesis using assms(3) earn_binding_found(2) [OF assms(1)] by simp
next
  case (now c)
  note found = earn_binding_found [OF assms(1)]
  have "stored_earn_input i run c approved = stored_earn_input i run c b" by (simp add: now(4) stored_earn_input_def)
  then have "earn_reviewed w s run approved"
    using now(2,3,4) found(5) unfolding earn_reviewed_def
    by (intro exI [of _ i] exI [of _ c]) (auto simp: find_earn_candidate_def find_Some_iff)
  moreover have "in_order approved" using assms(3) found(2) by (auto simp: earn_ok_def in_order_def now(4))
  ultimately have "earn_ok w s1"
    using assms(3) found(1) unfolding earn_ok_def by (auto simp: now(5) earn_history_ok_def earn_reviewed_def)
  moreover have "approved \<in> set (ets_blueprints s1)" using found(2) by (force simp: now(5))
  ultimately show ?thesis using now(4,5) by simp
qed

lemma ensure_earn_keeps:
  assumes "ensure_earn_proof w s now b = Inr (p, s2)" and "earn_ok w s"
  shows "earn_ok w s2 \<and> ets_blueprints s2 = ets_blueprints s \<and> ets_run s2 = ets_run s \<and> ets_candidates s2 = ets_candidates s
    \<and> rpf_id p = hsh_proof_id (ewd_hashing w) (ebp_id b)"
  using assms(1)
proof (cases rule: ensure_earn_cases)
  case there
  then show ?thesis using assms(2) by (simp add: earn_ok_def earn_history_ok_def)
next
  case (made c)
  then have "rpf_id p = hsh_proof_id (ewd_hashing w) (ebp_id b)" by (simp add: buildEarnPendingRouteProofV1_def)
  then show ?thesis using assms(2) made by (auto simp: earn_ok_def earn_history_ok_def earn_reviewed_def)
qed

lemma finish_earn_keeps:
  assumes "finish_earn_approval w s now run approved p = (t, r)" and "earn_ok w s"
  shows "earn_ok w t \<and> ets_blueprints t = ets_blueprints s \<and> ets_run t = ets_run s \<and> ets_candidates t = ets_candidates s"
proof -
  have t: "t = s\<lparr>ets_events := (ets_events s)(rpf_id p := appendProofEventIfNewV1 (ewd_hashing w) (rpf_id p) (ets_events s (rpf_id p))
      CallsApproved (approved_event_payload approved) now)\<rparr>"
    using assms(1) by (simp add: finish_earn_approval_def Let_def)
  have "earn_history_ok w t"
    using assms(2) by (auto simp: t earn_ok_def earn_history_ok_def appended_is_chained appended_told_once)
  then show ?thesis using assms(2) by (auto simp: t earn_ok_def earn_reviewed_def)
qed

lemma approve_keeps_earn:
  assumes "approveEarnBlueprintV1 w s i = (t, r)" and "earn_ok w s"
  shows "earn_ok w t \<and> ets_run t = ets_run s \<and> ets_candidates t = ets_candidates s"
  using assms(1)
proof (cases rule: approve_earn_outcome)
  case kept
  then show ?thesis using assms(2) by simp
next
  case (stopped run b approved)
  then show ?thesis using approve_blueprint_keeps_earn [OF stopped(1,2) assms(2)] by simp
next
  case (finished run b approved s1 p s2)
  note one = approve_blueprint_keeps_earn [OF finished(1,3) assms(2)]
  have two: "earn_ok w s2 \<and> ets_run s2 = ets_run s1 \<and> ets_candidates s2 = ets_candidates s1"
    using ensure_earn_keeps [OF finished(4)] one by blast
  show ?thesis using finish_earn_keeps [OF finished(5)] one two by simp
qed

lemma prepare_keeps_run:
  "prepareEarnDepositV1 w s i = (t, r) \<Longrightarrow> ets_run t = ets_run s \<and> ets_candidates t = ets_candidates s"
  by (erule prepare_earn_cases) simp_all

lemma earn_step_keeps:
  assumes "earn_ok w s" and "earn_step w s e t"
  shows "earn_ok w t \<and> ets_run t = ets_run s \<and> ets_candidates t = ets_candidates s"
proof (cases e)
  case (EarnPrepare i)
  then have "prepareEarnDepositV1 w s i = (t, snd (prepareEarnDepositV1 w s i))" using assms(2) by (auto elim: earn_prepareE)
  then show ?thesis using prepare_keeps_earn [OF _ assms(1)] prepare_keeps_run by blast
next
  case (EarnApprove i)
  then have "approveEarnBlueprintV1 w s i = (t, snd (approveEarnBlueprintV1 w s i))" using assms(2) by (auto elim: earn_approveE)
  then show ?thesis using approve_keeps_earn [OF _ assms(1)] by blast
qed

interpretation earn_runs: stepping "earn_step w" earn_started "earn_ok w" for w
  by unfold_locales (auto intro: earn_started_ok dest: earn_step_keeps)

lemma earn_runs_keep:
  "runs (earn_step w) s es t \<Longrightarrow> earn_ok w s \<Longrightarrow> ets_run t = ets_run s \<and> ets_candidates t = ets_candidates s"
proof (induction rule: runs.induct)
  case (none s)
  show ?case by simp
next
  case (more s e t es u)
  then show ?case using earn_step_keeps by metis
qed

text \<open>Nothing a run prepares pays ether.\<close>

definition unpaid :: "earn_store \<Rightarrow> bool" where
  "unpaid s \<longleftrightarrow> (\<forall>b \<in> set (ets_blueprints s). \<forall>c \<in> set (ebp_calls b). exc_value_wei c = ''0'')"

lemma approve_keeps_unpaid:
  assumes "approveEarnBlueprintV1 w s i = (t, r)" and "unpaid s"
  shows "unpaid t"
proof -
  have one: "unpaid s1" if "approve_earn_blueprint w s i run b = Inr (Inr (approved, s1))" "b \<in> set (ets_blueprints s)" for run b approved s1
    using that(1)
  proof (cases rule: approve_earn_cases)
    case already
    then show ?thesis using assms(2) by simp
  next
    case (now c)
    then show ?thesis using assms(2) that(2) by (auto simp: unpaid_def)
  qed
  show ?thesis
    using assms(1)
  proof (cases rule: approve_earn_outcome)
    case kept
    then show ?thesis using assms(2) by simp
  next
    case (stopped run b approved)
    then show ?thesis using one earn_binding_found(2) by blast
  next
    case (finished run b approved s1 p s2)
    have "ets_blueprints s2 = ets_blueprints s1" using finished(4) by (cases rule: ensure_earn_cases) simp_all
    moreover have "ets_blueprints t = ets_blueprints s2"
      using finished(5) by (auto simp: finish_earn_approval_def Let_def)
    ultimately show ?thesis using one [OF finished(3) earn_binding_found(2) [OF finished(1)]] by (simp add: unpaid_def)
  qed
qed

lemma step_keeps_unpaid:
  assumes "unpaid s" and "earn_step w s e t"
  shows "unpaid t"
proof (cases e)
  case (EarnPrepare i)
  then have "prepareEarnDepositV1 w s i = (t, snd (prepareEarnDepositV1 w s i))" using assms(2) by (auto elim: earn_prepareE)
  then show ?thesis
  proof (cases rule: prepare_earn_cases)
    case kept
    then show ?thesis using assms(1) by simp
  next
    case (stored run c e b safety rows)
    have "set rows = insert b (set (ets_blueprints s))" using stored(5) by (rule earn_blueprints.put_adds)
    moreover have "\<forall>x \<in> set (ebp_calls b). exc_value_wei x = ''0''"
      using built_calls_pay_nothing built_fields(6) [OF stored(4)] by blast
    ultimately show ?thesis using assms(1) by (auto simp: stored(6) unpaid_def)
  qed
next
  case (EarnApprove i)
  then have "approveEarnBlueprintV1 w s i = (t, snd (approveEarnBlueprintV1 w s i))" using assms(2) by (auto elim: earn_approveE)
  then show ?thesis using approve_keeps_unpaid assms(1) by blast
qed

interpretation unpaid_runs: stepping "earn_step w" "\<lambda>s. ets_blueprints s = []" unpaid for w
  by unfold_locales (simp add: unpaid_def, rule step_keeps_unpaid)

section \<open>What is handed out\<close>

lemma payload_calls:
  assumes "buildApprovedPayload b wallet = Inr payload"
  shows "map plc_to (apl_calls payload) = map exc_to (ebp_calls b)" "map plc_data (apl_calls payload) = map exc_data (ebp_calls b)"
    "apl_from payload = wallet" "\<forall>c \<in> set (ebp_calls b). exc_value_wei c = ''0'' \<Longrightarrow> \<forall>c \<in> set (apl_calls payload). plc_value c = ''0x0''"
proof -
  obtain cs where cs: "mapR payload_call_of (ebp_calls b) = Inr cs" "apl_calls payload = cs" "apl_from payload = wallet"
    using assms by (auto simp: buildApprovedPayload_def bindR_eq_Inr)
  have rel: "list_all2 (\<lambda>x y. payload_call_of x = Inr y) (ebp_calls b) cs" using cs(1) by (rule mapR_list_all2)
  then show "map plc_to (apl_calls payload) = map exc_to (ebp_calls b)" "map plc_data (apl_calls payload) = map exc_data (ebp_calls b)"
    unfolding cs(2) by (induction rule: list_all2_induct) (auto simp: payload_call_of_def split: option.split_asm)
  show "apl_from payload = wallet" by (rule cs(3))
  assume zero: "\<forall>c \<in> set (ebp_calls b). exc_value_wei c = ''0''"
  have zeros: "js_bigint ''0'' = Some 0" "show_digits 16 0 = ''0''" by code_simp+
  from rel zero show "\<forall>c \<in> set (apl_calls payload). plc_value c = ''0x0''"
    unfolding cs(2) by (induction rule: list_all2_induct) (auto simp: payload_call_of_def zeros)
qed

lemma earn_handed_out:
  assumes "approveEarnBlueprintV1 w s i = (t, Inr (Approved payload lifecycle))" and "earn_ok w s"
  obtains run b where "ets_run s = Some run" "b \<in> set (ets_blueprints t)" "earn_reviewed w s run b" "in_order b"
    "\<not> passed_by (ewd_parse w) (ebp_quote_expiry b) (api_now i)" "buildApprovedPayload b (ern_wallet_address run) = Inr payload"
    "to_lower (ern_wallet_address run) = to_lower (api_wallet_address i)"
  using assms(1)
proof (cases rule: approve_earn_outcome)
  case kept
  then show ?thesis by simp
next
  case (stopped run b approved)
  then show ?thesis by simp
next
  case (finished run b approved s1 p s2)
  note one = approve_blueprint_keeps_earn [OF finished(1,3) assms(2)]
  note two = ensure_earn_keeps [OF finished(4) one [THEN conjunct1]]
  note three = finish_earn_keeps [OF finished(5) two [THEN conjunct1]]
  note found = earn_binding_found [OF finished(1)]
  have row: "approved \<in> set (ets_blueprints t)" using one two three by simp
  then have "in_order approved \<and> (\<exists>r. ets_run t = Some r \<and> earn_reviewed w t r approved)"
    using three one unfolding earn_ok_def by blast
  then have "in_order approved" "earn_reviewed w s run approved"
    using one two three found(1) earn_reviewed_cong [of t s] by auto
  moreover have "buildApprovedPayload approved (ern_wallet_address run) = Inr payload"
    using finished(5) by (auto simp: finish_earn_approval_def Let_def split: sum.split_asm)
  ultimately show ?thesis using that [OF found(1) row] finished(2) one found(5) by simp
qed

end
