(* ===== verification/Earn_Ready.thy ===== *)
theory Earn_Ready
  imports Earn_Sound
begin

text \<open>
  The other direction: a deposit of USDC into a pinned venue, composed with encoders that are read back,
  passes the kernel, is stored, and can be approved until its quote expires.
\<close>

section \<open>The package\<close>

definition word256 :: "int \<Rightarrow> bool" where
  "word256 n \<longleftrightarrow> 0 \<le> n \<and> n < 2 ^ 256"

text \<open>
  What the encoders and decoders of the package promise: arguments in range are encoded, as hexadecimal
  data, and decoded to themselves, addresses up to the case of their letters; a call of ERC-20's
  \<open>approve\<close> starts with its selector.
\<close>

definition earn_abi_ok :: "earn_abi \<Rightarrow> bool" where
  "earn_abi_ok abi \<longleftrightarrow>
     (\<forall>s n. ADDRESS s \<and> word256 n \<longrightarrow> (\<exists>d s'. eab_encode_approve abi s n = Some d \<and> hex_data_schema d
        \<and> to_lower (take 10 d) = ''0x095ea7b3'' \<and> eab_decode_erc20 abi d = Some (Erc20Approve s' n) \<and> to_lower s' = s))
     \<and> (\<forall>n. word256 n \<longrightarrow> (\<exists>d. eab_encode_mint abi n = Some d \<and> hex_data_schema d \<and> eab_decode_mint abi d = Some n))
     \<and> (\<forall>r n. ADDRESS r \<and> word256 n \<longrightarrow> (\<exists>d r'. eab_encode_deposit abi n r = Some d \<and> hex_data_schema d
        \<and> eab_decode_deposit abi d = Some (n, r') \<and> to_lower r' = r))
     \<and> (\<forall>g. ADDRESS (gwd_vault g) \<and> ADDRESS (gwd_receiver g) \<and> word256 (gwd_assets g) \<and> word256 (gwd_minimum_shares g)
            \<and> gwd_partner_id g = 0
          \<longrightarrow> (\<exists>d g'. eab_encode_gateway abi g = Some d \<and> hex_data_schema d \<and> eab_decode_gateway abi d = Some g'
                \<and> to_lower (gwd_vault g') = gwd_vault g \<and> to_lower (gwd_receiver g') = gwd_receiver g
                \<and> gwd_assets g' = gwd_assets g \<and> gwd_minimum_shares g' = gwd_minimum_shares g \<and> gwd_partner_id g' = 0))"

section \<open>A deposit that is ready\<close>

text \<open>A venue as the adapter fills it in from the pinned configuration.\<close>

definition pinned_contracts :: "earn_protocol \<Rightarrow> earn_contracts" where
  "pinned_contracts p = \<lparr>ect_asset = PINNED_BASE_USDC_V1, ect_target = pin_target (pinnedEarnVenueV1 p),
     ect_approval_spender = pin_approval_spender (pinnedEarnVenueV1 p)\<rparr>"

definition pinned_candidate :: "earn_intent \<Rightarrow> earn_candidate \<Rightarrow> bool" where
  "pinned_candidate intent c \<longleftrightarrow> ecd_asset c = ein_asset intent \<and> ecd_amount c = ein_amount intent
     \<and> ecd_contracts c = pinned_contracts (ecd_protocol c) \<and> ecd_venue_address c = pin_target (pinnedEarnVenueV1 (ecd_protocol c))"

text \<open>Only YO needs a conversion; where there is one it is a number.\<close>

definition shares_ready :: "earn_candidate \<Rightarrow> bool" where
  "shares_ready c \<longleftrightarrow>
     (case ecd_expected_position_atomic c of None \<Rightarrow> ecd_protocol c \<noteq> Yo
      | Some s \<Rightarrow> s \<noteq> '''' \<and> (\<exists>n. js_bigint s = Some n \<and> (ecd_protocol c = Yo \<longrightarrow> 1 < n \<and> n < 2 ^ 256)))"

definition linked :: "string \<Rightarrow> bool" where
  "linked h \<longleftrightarrow> h \<noteq> '''' \<and> h \<noteq> ''0x'' @ replicate 64 (CHR ''0'')"

definition usdc_intent :: "earn_intent \<Rightarrow> int \<Rightarrow> bool" where
  "usdc_intent intent amount \<longleftrightarrow> ein_chain_id intent = 8453 \<and> AssetRefV1Schema (ein_asset intent)
     \<and> asr_chain_id (ein_asset intent) = 8453 \<and> asr_address (ein_asset intent) = Some PINNED_BASE_USDC_V1
     \<and> AtomicAmountV1Schema (tam_amount_atomic (ein_amount intent))
     \<and> js_bigint (tam_amount_atomic (ein_amount intent)) = Some amount \<and> word256 amount \<and> amount \<noteq> MAX_UINT256"

definition deposit_ready :: "earn_world \<Rightarrow> earn_blueprint_input \<Rightarrow> bool" where
  "deposit_ready w i \<longleftrightarrow>
     (let intent = ebi_intent i; c = ebi_candidate i in
      ADDRESS (ebi_wallet_address i) \<and> to_lower (ein_wallet_address intent) = ebi_wallet_address i
      \<and> (\<exists>amount. usdc_intent intent amount) \<and> pinned_candidate intent c \<and> shares_ready c
      \<and> linked (ein_intent_hash intent) \<and> linked (ecd_candidate_hash c)
      \<and> later_than (ewd_parse w) (ecd_expires_at c) (ebi_now i) \<and> later_than (ewd_parse w) (quote_expiry_of i) (ebi_now i)
      \<and> ewd_canonical w (quote_expiry_of i))"

text \<open>What the hashes of the route domain promise: a blueprint's is not over its own field, and a request's is no longer than a hash.\<close>

definition earn_hashes_ok :: "earn_world \<Rightarrow> bool" where
  "earn_hashes_ok w \<longleftrightarrow> (\<forall>b h. ewd_hash_blueprint w (b\<lparr>ebp_blueprint_hash := h\<rparr>) = ewd_hash_blueprint w b)
     \<and> (\<forall>r. length (ewd_hash_request w r) \<le> 66)"

section \<open>The calls pass\<close>

lemma pins_are_addresses:
  "ADDRESS PINNED_BASE_USDC_V1" "ADDRESS (pin_target (pinnedEarnVenueV1 p))" "ADDRESS (pin_approval_spender (pinnedEarnVenueV1 p))"
proof -
  show "ADDRESS PINNED_BASE_USDC_V1" by code_simp
  show "ADDRESS (pin_target (pinnedEarnVenueV1 p))" by (cases p; simp only:; code_simp)
  show "ADDRESS (pin_approval_spender (pinnedEarnVenueV1 p))" by (cases p; simp only:; code_simp)
qed

lemma pins_are_listed:
  "isPinnedEarnTargetV1 (pin_target (pinnedEarnVenueV1 p))" "isPinnedEarnTargetV1 (pin_approval_spender (pinnedEarnVenueV1 p))"
proof -
  show "isPinnedEarnTargetV1 (pin_target (pinnedEarnVenueV1 p))" by (cases p; simp only:; code_simp)
  show "isPinnedEarnTargetV1 (pin_approval_spender (pinnedEarnVenueV1 p))" by (cases p; simp only:; code_simp)
qed

lemmas pins_lower = pins_are_addresses [THEN address_lower]

lemma enough_shares: "1 < n \<Longrightarrow> n < 2 ^ 256 \<Longrightarrow> 0 < minimum_shares n \<and> word256 (minimum_shares n)"
proof -
  assume n: "1 < n" "n < 2 ^ 256"
  then have eq: "minimum_shares n = n * 9950 div 10000" by (simp add: minimum_shares_def)
  have "1 \<le> n * 9950 div 10000" using n(1) by simp
  moreover have "n * 9950 div 10000 \<le> n" using n(1) by simp
  ultimately show ?thesis using n(2) unfolding eq word256_def by linarith
qed

text \<open>The shares a candidate is read to give, the same by the builder and by the kernel.\<close>

lemma ready_shares:
  assumes "shares_ready c"
  obtains shares where "optional_shares (ecd_expected_position_atomic c) = Inr shares" "expected_yo_shares c = Inr shares"
    "lacks_shares c = Inr False" "ecd_protocol c = Yo \<longrightarrow> (\<exists>s. shares = Some s \<and> 0 < s \<and> word256 s)"
proof (cases "ecd_expected_position_atomic c")
  case None
  with assms show ?thesis
    by (intro that [of None]) (auto simp: shares_ready_def optional_shares_def expected_yo_shares_def present_def lacks_shares_def)
next
  case (Some t)
  then obtain n where n: "t \<noteq> ''''" "js_bigint t = Some n" "ecd_protocol c = Yo \<longrightarrow> 1 < n \<and> n < 2 ^ 256"
    using assms by (auto simp: shares_ready_def)
  then have "js_BigInt t = Inr n" by (simp add: js_BigInt_eq)
  with Some n show ?thesis
    by (intro that [of "Some (minimum_shares n)"])
      (auto simp: optional_shares_def expected_yo_shares_def present_def lacks_shares_def enough_shares)
qed

lemma ready_deposit:
  assumes "earn_abi_ok abi" and "ADDRESS wallet" and "word256 amount" and "ecd_contracts c = pinned_contracts (ecd_protocol c)"
    and "ecd_protocol c = Yo \<longrightarrow> (\<exists>s. shares = Some s \<and> 0 < s \<and> word256 s)"
  obtains data x where "deposit_data abi c amount wallet shares = Inr data" "hex_data_schema data"
    "\<forall>call :: execution_call. exc_data call = data \<longrightarrow> decodeDeposit abi call (ecd_protocol c) = Some x" "ddp_amount x = amount"
    "ddp_receiver x = None \<or> ddp_receiver x = Some wallet"
    "ecd_protocol c = Yo \<longrightarrow> ddp_vault x = Some (pin_target (pinnedEarnVenueV1 Yo)) \<and> ddp_minimum_shares x = shares \<and> ddp_partner_id x = Some 0"
proof (cases "ecd_protocol c")
  case Moonwell
  obtain d where "eab_encode_mint abi amount = Some d" "hex_data_schema d" "eab_decode_mint abi d = Some amount"
    using assms(1,3) unfolding earn_abi_ok_def by blast
  then show ?thesis
    using Moonwell by (intro that [of d "plain_deposit amount None"])
      (simp_all add: deposit_data_def encoded_def decodeDeposit_def plain_deposit_def)
next
  case MorphoVault
  obtain d r where "eab_encode_deposit abi amount wallet = Some d" "hex_data_schema d" "eab_decode_deposit abi d = Some (amount, r)"
      "to_lower r = wallet"
    using assms(1-3) unfolding earn_abi_ok_def by blast
  then show ?thesis
    using MorphoVault by (intro that [of d "plain_deposit amount (Some wallet)"])
      (simp_all add: deposit_data_def encoded_def decodeDeposit_def plain_deposit_def)
next
  case Yo
  then obtain s where s: "shares = Some s" "0 < s" "word256 s" using assms(5) by blast
  define g where "g = \<lparr>gwd_vault = pin_target (pinnedEarnVenueV1 Yo), gwd_assets = amount, gwd_minimum_shares = s,
      gwd_receiver = wallet, gwd_partner_id = 0\<rparr>"
  have "ADDRESS (gwd_vault g) \<and> ADDRESS (gwd_receiver g) \<and> word256 (gwd_assets g) \<and> word256 (gwd_minimum_shares g) \<and> gwd_partner_id g = 0"
    using assms(2,3) s(3) pins_are_addresses(2) by (simp add: g_def)
  then obtain d g' where d: "eab_encode_gateway abi g = Some d" "hex_data_schema d" "eab_decode_gateway abi d = Some g'"
      "to_lower (gwd_vault g') = gwd_vault g" "to_lower (gwd_receiver g') = gwd_receiver g"
      "gwd_assets g' = gwd_assets g" "gwd_minimum_shares g' = gwd_minimum_shares g" "gwd_partner_id g' = 0"
    using assms(1) unfolding earn_abi_ok_def by blast
  have "deposit_data abi c amount wallet shares = Inr d"
    using Yo s(1) d(1) assms(4) by (simp add: deposit_data_def encoded_def pinned_contracts_def g_def)
  moreover define x where "x = \<lparr>ddp_amount = amount, ddp_receiver = Some wallet,
      ddp_vault = Some (pin_target (pinnedEarnVenueV1 Yo)), ddp_minimum_shares = Some s, ddp_partner_id = Some 0\<rparr>"
  moreover have "decodeDeposit abi call Yo = Some x" if "exc_data call = d" for call :: execution_call
    using d(3-8) that by (simp add: decodeDeposit_def g_def x_def)
  ultimately show ?thesis using Yo s(1) d(2) by (intro that [of d x]) simp_all
qed

lemma ready_calls:
  assumes "earn_abi_ok (ewd_abi w)" and "deposit_ready w i"
  obtains calls where
    "buildEarnDepositCallsV1 (ewd_abi w) (ebi_intent i) (ebi_candidate i) (ebi_wallet_address i) = Inr calls"
    "earn_allows (ewd_abi w) (ewd_parse w) (built_kernel_input i (quote_expiry_of i) calls)"
    "list_all ExecutionCallV1Schema calls" "length calls = 2" "map exc_index calls = [0, 1]"
    "list_all (\<lambda>x. exc_asset x = Some (ein_asset (ebi_intent i))) calls"
proof -
  let ?intent = "ebi_intent i" and ?c = "ebi_candidate i" and ?me = "ebi_wallet_address i" and ?abi = "ewd_abi w"
  let ?p = "ecd_protocol ?c" and ?asset = "ein_asset ?intent" and ?atomic = "tam_amount_atomic (ein_amount ?intent)"
  let ?pin = "pinnedEarnVenueV1 ?p"
  obtain amount where usdc: "usdc_intent ?intent amount" using assms(2) by (auto simp: deposit_ready_def Let_def)
  have me: "ADDRESS ?me" "to_lower ?me = ?me" "to_lower (ein_wallet_address ?intent) = ?me"
    using assms(2) address_lower by (auto simp: deposit_ready_def Let_def)
  have pinned: "ecd_contracts ?c = pinned_contracts ?p" "ecd_venue_address ?c = pin_target ?pin" "ecd_asset ?c = ?asset"
      "ecd_amount ?c = ein_amount ?intent"
    using assms(2) by (auto simp: deposit_ready_def pinned_candidate_def Let_def)
  have amounts: "word256 amount" "js_bigint ?atomic = Some amount" "amount \<noteq> MAX_UINT256" "AtomicAmountV1Schema ?atomic"
    using usdc by (simp_all add: usdc_intent_def)
  have asset: "AssetRefV1Schema ?asset" "asr_chain_id ?asset = 8453" "asr_address ?asset = Some PINNED_BASE_USDC_V1"
    using usdc by (simp_all add: usdc_intent_def)
  have "shares_ready ?c" using assms(2) by (simp add: deposit_ready_def Let_def)
  then obtain shares where shares: "optional_shares (ecd_expected_position_atomic ?c) = Inr shares" "expected_yo_shares ?c = Inr shares"
      "lacks_shares ?c = Inr False" "?p = Yo \<longrightarrow> (\<exists>s. shares = Some s \<and> 0 < s \<and> word256 s)"
    by (rule ready_shares)
  obtain approve spender' where approve: "eab_encode_approve ?abi (pin_approval_spender ?pin) amount = Some approve" "hex_data_schema approve"
      "to_lower (take 10 approve) = ''0x095ea7b3''" "eab_decode_erc20 ?abi approve = Some (Erc20Approve spender' amount)"
      "to_lower spender' = pin_approval_spender ?pin"
    using assms(1) pins_are_addresses(3) amounts(1) unfolding earn_abi_ok_def by blast
  obtain data x where data: "deposit_data ?abi ?c amount ?me shares = Inr data" "hex_data_schema data"
      "\<forall>call :: execution_call. exc_data call = data \<longrightarrow> decodeDeposit ?abi call ?p = Some x" "ddp_amount x = amount"
      "ddp_receiver x = None \<or> ddp_receiver x = Some ?me"
      "?p = Yo \<longrightarrow> ddp_vault x = Some (pin_target (pinnedEarnVenueV1 Yo)) \<and> ddp_minimum_shares x = shares \<and> ddp_partner_id x = Some 0"
    by (rule ready_deposit [OF assms(1) me(1) amounts(1) pinned(1) shares(4)])
  define a :: execution_call where "a = \<lparr>exc_index = 0, exc_call_type = ApprovalCall, exc_to = PINNED_BASE_USDC_V1, exc_value_wei = ''0'', exc_data = approve,
      exc_asset = Some ?asset, exc_amount_atomic = Some ?atomic, exc_recipient = None, exc_spender = Some (pin_approval_spender ?pin)\<rparr>"
  define d :: execution_call where "d = \<lparr>exc_index = 1, exc_call_type = DepositCall,
      exc_to = (if ?p = Yo then pin_approval_spender ?pin else pin_target ?pin), exc_value_wei = ''0'', exc_data = data,
      exc_asset = Some ?asset, exc_amount_atomic = Some ?atomic, exc_recipient = Some ?me, exc_spender = None\<rparr>"
  have enough: "\<not> (?p = Yo \<and> (case shares of None \<Rightarrow> True | Some s \<Rightarrow> s \<le> 0))" using shares(4) by auto
  have big: "js_BigInt ?atomic = Inr amount" using amounts(2) by (simp add: js_BigInt_eq)
  have built: "buildEarnDepositCallsV1 ?abi ?intent ?c ?me = Inr [a, d]"
    using enough big approve(1) shares(1) data(1)
    by (simp add: buildEarnDepositCallsV1_def pinned(1) pinned_contracts_def encoded_def a_def d_def Let_def)
  let ?k = "built_kernel_input i (quote_expiry_of i) [a, d]"
  have k: "eki_wallet_address ?k = ?me" "eki_intent ?k = ?intent" "eki_candidate ?k = ?c" "eki_calls ?k = [a, d]"
      "eki_quote_expiry ?k = quote_expiry_of i" "eki_now ?k = ebi_now i" "eki_intent_hash ?k = ein_intent_hash ?intent"
      "eki_selected_candidate_hash ?k = ecd_candidate_hash ?c"
    by (simp_all add: built_kernel_input_def)
  have types: "exc_call_type a = ApprovalCall" "exc_call_type d = DepositCall" "exc_index a = 0" "exc_index d = 1"
    by (simp_all add: a_def d_def)
  have firsts: "first_call ApprovalCall [a, d] = Some a" "first_call DepositCall [a, d] = Some d" "earn_shape [a, d]"
    by (simp_all add: first_call_def earn_shape_def calls_of_def types)
  have pin: "earn_pin ?k = ?pin" "earn_target ?k = pin_target ?pin"
    by (simp_all add: earn_pin_def earn_target_def k pinned(1) pinned_contracts_def pins_lower)
  have "exc_data d = data" by (simp add: d_def)
  then have deposit: "earn_deposit ?abi ?k = Some x" by (simp add: earn_deposit_def k firsts data(3))
  have decoded: "decodeApprove ?abi a = Some (pin_approval_spender ?pin, amount)" using approve(3-5) by (simp add: decodeApprove_def a_def)
  have "\<forall>y \<in> set (pinning_checks ?k). fst (snd y)"
    using usdc by (simp add: pinning_checks_def k pin firsts me pinned pinned_contracts_def pins_lower pins_are_listed asset
        earn_isCanonicalBaseUsdcV1_def usdc_intent_def Let_def)
  moreover have "\<forall>y \<in> set (linkage_checks (ewd_parse w) ?k). fst (snd y)"
    using assms(2) by (simp add: linkage_checks_def k deposit_ready_def linked_def Let_def)
  moreover have "approval_exact ?abi ?k = Inr True"
    by (simp add: approval_exact_def k firsts decoded pin big amounts(3)) (simp add: a_def earn_isCanonicalBaseUsdcV1_def pins_lower)
  moreover have "not_unlimited ?abi ?k" by (simp add: not_unlimited_def k firsts decoded amounts(3))
  moreover have "receiver_ok ?abi ?k" using data(5) by (auto simp: receiver_ok_def deposit k me(2))
  moreover have "deposit_exact ?abi ?k shares = Inr True"
  proof -
    have "to_lower (exc_to d) = (if ?p = Yo then pin_approval_spender ?pin else pin_target ?pin)" by (simp add: d_def pins_lower)
    moreover have "yo_semantics ?k shares x" using data(6) by (auto simp: yo_semantics_def k pin)
    ultimately show ?thesis by (simp add: deposit_exact_def k firsts deposit pin big data(4))
  qed
  ultimately have allows: "earn_allows ?abi (ewd_parse w) ?k" using shares(2) unfolding earn_allows_iff k(3) by blast
  have "list_all ExecutionCallV1Schema [a, d]"
    using asset(1) amounts(4) approve(2) data(2) me(1) pins_are_addresses
    by (simp add: ExecutionCallV1Schema_def a_def d_def schema_fixed AtomicAmountV1Schema_def) (simp add: plain_decimal_def all_digits_def digit_value_def)
  then show thesis using that [OF built allows] by (simp add: a_def d_def)
qed

section \<open>The blueprint is made\<close>

lemma drafted:
  assumes "b = (earn_draft w i q calls)\<lparr>ebp_blueprint_hash := h\<rparr>"
  shows "ebp_id b = earnBlueprintIdV1 (ewd_hash_request w) \<lparr>erq_wallet_address = ebi_wallet_address i,
         erq_intent_hash = ein_intent_hash (ebi_intent i), erq_candidate_hash = ecd_candidate_hash (ebi_candidate i),
         erq_request_id = ebi_request_id i\<rparr>"
    "ebp_created_at b = ebi_now i" "ebp_updated_at b = ebi_now i" "ebp_status b = BlueprintReadyForReview"
    "ebp_wallet_address b = ebi_wallet_address i" "ebp_blueprint_hash b = h" "ebp_calls b = calls"
    "ebp_calls_hash b = ewd_hash_calls w calls" "ebp_approved_calls_hash b = None" "ebp_quote_expiry b = q"
    "ebp_expected_asset_changes b = [\<lparr>ach_direction = Debit, ach_asset = ein_asset (ebi_intent i),
       ach_amount_atomic = tam_amount_atomic (ein_amount (ebi_intent i)),
       ach_minimum_amount_atomic = Some (tam_amount_atomic (ein_amount (ebi_intent i)))\<rparr>]"
    "ebp_required_approvals b = [\<lparr>rqa_asset = ein_asset (ebi_intent i),
       rqa_spender = ect_approval_spender (ecd_contracts (ebi_candidate i)),
       rqa_amount_atomic = tam_amount_atomic (ein_amount (ebi_intent i))\<rparr>]"
  by (simp_all add: assms earn_draft_def Let_def)

lemma ready_blueprint:
  assumes "earn_abi_ok (ewd_abi w)" and "earn_hashes_ok w" and "deposit_ready w i"
  obtains b safety where "buildEarnDepositBlueprintV1 w i = Inr (EarnPrepared b safety)"
proof -
  let ?q = "quote_expiry_of i"
  obtain calls where calls: "buildEarnDepositCallsV1 (ewd_abi w) (ebi_intent i) (ebi_candidate i) (ebi_wallet_address i) = Inr calls"
    "earn_allows (ewd_abi w) (ewd_parse w) (built_kernel_input i ?q calls)"
    "list_all ExecutionCallV1Schema calls" "length calls = 2" "map exc_index calls = [0, 1]"
    "list_all (\<lambda>x. exc_asset x = Some (ein_asset (ebi_intent i))) calls"
    using ready_calls [OF assms(1,3)] by metis
  obtain safety where safety: "runEarnSafetyKernelV1 (ewd_abi w) (ewd_parse w) (built_kernel_input i ?q calls) = Inr safety" "evt_allowed safety"
    using calls(2) by (auto simp: earn_allows_def)
  have c: "pinned_candidate (ebi_intent i) (ebi_candidate i)" "shares_ready (ebi_candidate i)" "ADDRESS (ebi_wallet_address i)"
      "later_than (ewd_parse w) ?q (ebi_now i)" "ewd_canonical w ?q"
    using assms(3) by (auto simp: deposit_ready_def Let_def)
  obtain amount where usdc: "usdc_intent (ebi_intent i) amount" using assms(3) by (auto simp: deposit_ready_def Let_def)
  define draft where "draft = earn_draft w i ?q calls"
  define b where "b = draft\<lparr>ebp_blueprint_hash := ewd_hash_blueprint w draft\<rparr>"
  note f = drafted [OF b_def [unfolded draft_def]]
  have hash: "ewd_hash_blueprint w b = ewd_hash_blueprint w draft" using assms(2) by (simp add: earn_hashes_ok_def b_def)
  have short: "length (ebp_id b) \<le> 200" "ebp_id b \<noteq> ''''"
  proof -
    obtain r where r: "ebp_id b = ''earn-blueprint:'' @ drop 2 (ewd_hash_request w r)"
      by (auto simp: f(1) earnBlueprintIdV1_def)
    have "length (ewd_hash_request w r) \<le> 66" using assms(2) unfolding earn_hashes_ok_def by blast
    then show "length (ebp_id b) \<le> 200" "ebp_id b \<noteq> ''''" by (simp_all add: r)
  qed
  have chain: "list_all (\<lambda>x. case exc_asset x of Some a \<Rightarrow> asr_chain_id a = 8453 | None \<Rightarrow> True) calls"
    using calls(6) usdc by (auto simp: list_all_iff usdc_intent_def)
  have open_still: "case ewd_parse w ?q of Some t \<Rightarrow> ebi_now i < t | None \<Rightarrow> True" "\<not> passed_by (ewd_parse w) ?q (ebi_now i)"
    using c(4) by (auto simp: later_than_def passed_by_def split: option.split_asm)
  have spender: "ADDRESS (ect_approval_spender (ecd_contracts (ebi_candidate i)))"
    using c(1) pins_are_addresses(3) by (simp add: pinned_candidate_def pinned_contracts_def)
  have index: "map exc_index calls = map int [0..<length calls]" unfolding calls(4,5) by (simp add: upt_rec)
  have asset: "AssetRefV1Schema (ein_asset (ebi_intent i))" "asr_chain_id (ein_asset (ebi_intent i)) = 8453"
      "AtomicAmountV1Schema (tam_amount_atomic (ein_amount (ebi_intent i)))"
    using usdc by (simp_all add: usdc_intent_def)
  have many: "1 \<le> length calls" "length calls \<le> 100" by (simp_all add: calls(4))
  have bhash: "ebp_blueprint_hash b = ewd_hash_blueprint w b" by (simp add: hash f(6) draft_def)
  have schema: "earn_schema w b"
    unfolding earn_schema_def ExecutionBlueprintV1Schema_def
    by (intro conjI; (rule short bhash)?) (use calls(3) index chain open_still(1) spender asset c(3,5) many in \<open>simp_all add: f cong: option.case_cong\<close>)
  have "lacks_shares (ebi_candidate i) = Inr False" using ready_shares [OF c(2)] by metis
  then have "buildEarnDepositBlueprintV1 w i = Inr (EarnPrepared b safety)"
    using calls(1) safety open_still(2) schema by (simp add: buildEarnDepositBlueprintV1_def b_def draft_def Let_def)
  then show thesis by (rule that)
qed

section \<open>And can be approved\<close>

text \<open>The kernel's second run differs in the wallet's spelling, the instant and where it takes the hashes from.\<close>

lemma second_earn_run:
  assumes "earn_allows abi parse (built_kernel_input i q calls)" and "b = (earn_draft w i q calls)\<lparr>ebp_blueprint_hash := h\<rparr>"
    and "ern_intent run = ebi_intent i" and "to_lower (api_wallet_address j) = to_lower (ebi_wallet_address i)"
    and "later_than parse (ecd_expires_at (ebi_candidate i)) (api_now j)" and "later_than parse q (api_now j)"
  shows "earn_allows abi parse (stored_earn_input j run (ebi_candidate i) b)"
proof -
  let ?k = "built_kernel_input i q calls" and ?l = "stored_earn_input j run (ebi_candidate i) b"
  have k: "eki_wallet_address ?k = ebi_wallet_address i" "eki_intent ?k = ebi_intent i" "eki_candidate ?k = ebi_candidate i"
      "eki_calls ?k = calls" "eki_quote_expiry ?k = q" "eki_now ?k = ebi_now i" "eki_intent_hash ?k = ein_intent_hash (ebi_intent i)"
      "eki_selected_candidate_hash ?k = ecd_candidate_hash (ebi_candidate i)"
    by (simp_all add: built_kernel_input_def)
  have l: "eki_wallet_address ?l = api_wallet_address j" "eki_intent ?l = ebi_intent i" "eki_candidate ?l = ebi_candidate i"
      "eki_calls ?l = calls" "eki_quote_expiry ?l = q" "eki_now ?l = api_now j" "eki_intent_hash ?l = ein_intent_hash (ebi_intent i)"
      "eki_selected_candidate_hash ?l = ecd_candidate_hash (ebi_candidate i)"
    by (simp_all add: stored_earn_input_def assms(2,3) earn_draft_def Let_def)
  have pin: "earn_pin ?l = earn_pin ?k" "earn_target ?l = earn_target ?k" by (simp_all add: earn_pin_def earn_target_def k l)
  have deposit: "earn_deposit abi ?l = earn_deposit abi ?k" by (simp add: earn_deposit_def k l)
  have "pinning_checks ?l = pinning_checks ?k" by (simp add: pinning_checks_def k l pin assms(4) Let_def)
  moreover have "(\<forall>c \<in> set (linkage_checks parse ?k). fst (snd c)) \<longrightarrow> (\<forall>c \<in> set (linkage_checks parse ?l). fst (snd c))"
    using assms(5,6) by (simp add: linkage_checks_def k l Let_def)
  moreover have "approval_exact abi ?l = approval_exact abi ?k" "not_unlimited abi ?l = not_unlimited abi ?k"
    by (simp_all add: approval_exact_def not_unlimited_def k l pin split: option.split prod.split)
  moreover have "receiver_ok abi ?l = receiver_ok abi ?k" by (simp add: receiver_ok_def deposit k l assms(4) split: option.split)
  moreover have "deposit_exact abi ?l s = deposit_exact abi ?k s" for s
    by (simp add: deposit_exact_def deposit k l pin yo_semantics_def split: option.split)
  ultimately show ?thesis using assms(1) unfolding earn_allows_iff k(3) l(3) by metis
qed

text \<open>A deposit that was just stored is approved by its wallet, whatever the spelling, until its quote expires.\<close>

lemma prepared_can_be_approved:
  assumes "prepareEarnDepositV1 w s i = (t, Inr (EarnBuilt (EarnPrepared b safety)))"
    and "earn_hashes_ok w" and "keyed ebp_id ebp_blueprint_hash (ets_blueprints s)"
    and "ets_run s = Some run" and "ern_chain_id run = 8453" and "ern_intent_hash run = ein_intent_hash (ern_intent run)"
    and "ets_proofs s (hsh_proof_id (ewd_hashing w) (ebp_id b)) = None"
    and "api_blueprint_id j = ebp_id b" and "api_blueprint_hash j = ebp_blueprint_hash b"
    and "to_lower (api_wallet_address j) = to_lower (ern_wallet_address run)"
    and "later_than (ewd_parse w) (ebp_quote_expiry b) (api_now j)" and "epi_now i \<le> api_now j"
  shows "\<exists>u payload lifecycle. approveEarnBlueprintV1 w t j = (u, Inr (Approved payload lifecycle))
    \<and> map plc_data (apl_calls payload) = map exc_data (ebp_calls b)"
  using assms(1)
proof (cases rule: prepare_earn_cases)
  case kept
  then show ?thesis by simp
next
  case (stored run' c e b' safety' rows)
  have run: "run' = run" "to_lower (epi_wallet_address i) = to_lower (ern_wallet_address run)"
    using stored(1) assms(4) by (auto simp: earn_binding_def split: if_split_asm)
  have b: "b' = b" using stored(7) by simp
  note stored = stored [unfolded run(1) b]
  let ?i = "blueprint_input_of w i run c e" and ?q = "quote_expiry_of (blueprint_input_of w i run c e)"
  obtain calls where calls: "buildEarnDepositCallsV1 (ewd_abi w) (ebi_intent ?i) (ebi_candidate ?i) (ebi_wallet_address ?i) = Inr calls"
    "earn_allows (ewd_abi w) (ewd_parse w) (built_kernel_input ?i ?q calls)" "earn_schema w b"
    "b = (earn_draft w ?i ?q calls)\<lparr>ebp_blueprint_hash := ewd_hash_blueprint w (earn_draft w ?i ?q calls)\<rparr>"
    using earn_built_facts [OF stored(4)] by metis
  note f = drafted [OF calls(4)]
  have i: "ebi_intent ?i = ern_intent run" "ebi_candidate ?i = c" "ebi_wallet_address ?i = epi_wallet_address i" "ebi_now ?i = epi_now i"
      "?q = ecd_expires_at c"
    by (simp_all add: blueprint_input_of_def quote_expiry_of_def)
  have built: "ebp_goal b = EarnGoal" "ebp_selected_candidate_hash b = ecd_candidate_hash c" "ebp_intent_hash b = ern_intent_hash run"
    using built_fields [OF stored(4)] assms(6) by (simp_all add: i)
  have hashes: "ebp_blueprint_hash b = ewd_hash_blueprint w b" "ebp_calls_hash b = ewd_hash_calls w (ebp_calls b)"
    using assms(2) f(7,8) by (simp_all add: calls(4) earn_hashes_ok_def)
  have row: "find (\<lambda>x. ebp_id x = ebp_id b) (ets_blueprints t) = Some b"
    unfolding stored(6) using earn_blueprints.put_keyed [OF stored(5) assms(3)] earn_blueprints.put_has [OF stored(5)]
    by (simp add: earn_blueprints.find_ident)
  have open_still: "\<not> passed_by (ewd_parse w) (ebp_quote_expiry b) (api_now j)"
    using assms(11) by (auto simp: passed_by_def later_than_def split: option.split_asm)
  have bound: "earn_approval_binding w t j = Inr (run, b)"
    using row assms(4,5,8-10) built hashes
    by (simp add: earn_approval_binding_def earn_binding_def stored(6))
  have candidate: "find_earn_candidate t (ebp_selected_candidate_hash b) = Some c"
    using stored(2) by (auto simp: find_earn_candidate_def stored(6) built(2) find_Some_iff)
  have allows: "earn_allows (ewd_abi w) (ewd_parse w) (stored_earn_input j run c b)"
    using second_earn_run [OF calls(2,4), of run j] assms(10,11) run(2) by (simp add: i f(10))
  then obtain verdict where "runEarnSafetyKernelV1 (ewd_abi w) (ewd_parse w) (stored_earn_input j run c b) = Inr verdict" "evt_allowed verdict"
    by (auto simp: earn_allows_def)
  moreover have "ebp_created_at b \<le> api_now j" using assms(12) by (simp add: f(2) i(4))
  ultimately obtain t1 where approve: "approve_earn_blueprint w t j run b = Inr (Inr (as_earn_approved w (api_now j) b, t1))"
      "ets_proofs t1 = ets_proofs t" "ets_candidates t1 = ets_candidates t"
    using candidate f(4) by (simp add: approve_earn_blueprint_def as_earn_approved_def Let_def)
  let ?b = "as_earn_approved w (api_now j) b"
  have "RouteProofV1Schema (buildEarnPendingRouteProofV1 w ?b c (api_now j))"
    by (simp add: RouteProofV1Schema_def buildEarnPendingRouteProofV1_def)
  then obtain p t2 where opened: "ensure_earn_proof w t1 (api_now j) ?b = Inr (p, t2)"
    using approve(2,3) candidate assms(7) by (simp add: ensure_earn_proof_def find_earn_candidate_def stored(6) Let_def)
  have "\<forall>x \<in> set (ebp_calls ?b). exc_value_wei x = ''0''" using built_calls_pay_nothing [OF calls(1)] by (simp add: f(7))
  then obtain payload where payload: "buildApprovedPayload ?b (ern_wallet_address run) = Inr payload"
  proof -
    have zero: "js_bigint ''0'' = Some 0" by code_simp
    have "mapR payload_call_of cs = Inr (map (\<lambda>x. \<lparr>plc_to = exc_to x, plc_value = ''0x'' @ show_digits 16 0, plc_data = exc_data x\<rparr>) cs)"
      if "\<forall>x \<in> set cs. exc_value_wei x = ''0''" for cs
      using that by (induction cs) (simp_all add: payload_call_of_def zero)
    then show ?thesis using that \<open>\<forall>x \<in> set (ebp_calls ?b). _\<close> by (simp add: buildApprovedPayload_def)
  qed
  then have "map plc_data (apl_calls payload) = map exc_data (ebp_calls b)" using payload_calls(2) by fastforce
  moreover obtain u lifecycle where "finish_earn_approval w t2 (api_now j) run ?b p = (u, Inr (Approved payload lifecycle))"
    using payload by (simp add: finish_earn_approval_def Let_def)
  ultimately show ?thesis using bound open_still approve(1) opened by (auto simp: approveEarnBlueprintV1_def)
qed

end
