(* ===== verification/Earn_Properties.thy ===== *)
theory Earn_Properties
  imports Earn_Ready Aerodrome_Roundtrip
begin

text \<open>
  A deposit of seven USDC into Moonwell's market, over the ABI of static arguments: a selector, then one
  word per argument.

  The claims about deposits: what a wallet is handed, that a deposit into a pinned venue can be made, and
  what becomes of one that is asked for twice or fails in too many ways.
\<close>

section \<open>Static calls\<close>

definition int_word :: "int \<Rightarrow> string" where
  "int_word n = padWord (show_digits 16 (nat n))"

definition static_call :: "string \<Rightarrow> string list \<Rightarrow> string" where
  "static_call sel ws = ''0x'' @ sel @ concat ws"

definition argument :: "string \<Rightarrow> nat \<Rightarrow> string" where
  "argument data k = word (drop 10 data) k"

lemma int_word_ok: "word256 n \<Longrightarrow> length (int_word n) = 64 \<and> list_all hex_lower (int_word n) \<and> wordUint (int_word n) = Some n"
proof -
  assume "word256 n"
  then obtain w where "uintWord n = Inr w" "length w = 64" "wordUint w = Some n" "list_all hex_lower w"
    using uint_word [of n] by (auto simp: word256_def)
  then show ?thesis by (auto simp: uintWord_def int_word_def split: if_split_asm)
qed

lemma address_word_ok: "ADDRESS a \<Longrightarrow> length (addressWord a) = 64 \<and> list_all hex_lower (addressWord a) \<and> wordAddress (addressWord a) = Some a"
  using address_word [of a] address_lower [of a] by simp

lemma static_call_ok:
  assumes "words_ok ws" and "list_all hex_lower sel" and "length sel = 8"
  shows "hex_data_schema (static_call sel ws)" "to_lower (take 10 (static_call sel ws)) = ''0x'' @ sel"
    "k < length ws \<Longrightarrow> argument (static_call sel ws) k = ws ! k"
proof -
  note hex = hex_text [OF assms]
  show "hex_data_schema (static_call sel ws)"
    using hex(2) words_length [OF assms(1)] assms(3) by (simp add: hex_data_schema_def static_call_def)
  have "to_lower (''0x'' @ sel) = ''0x'' @ sel" using to_lower_hex [OF assms(2)] by (simp add: to_lower_def char_lower_def)
  then show "to_lower (take 10 (static_call sel ws)) = ''0x'' @ sel" using hex(5) by (simp add: static_call_def)
  show "k < length ws \<Longrightarrow> argument (static_call sel ws) k = ws ! k"
    using hex(4) nth_word [OF assms(1)] by (simp add: argument_def static_call_def)
qed

definition static_abi :: earn_abi where
  "static_abi = \<lparr>eab_encode_approve = (\<lambda>s n. Some (static_call ''095ea7b3'' [addressWord s, int_word n])),
     eab_encode_mint = (\<lambda>n. Some (static_call ''a0712d68'' [int_word n])),
     eab_encode_deposit = (\<lambda>n r. Some (static_call ''6e553f65'' [int_word n, addressWord r])),
     eab_encode_gateway = (\<lambda>g. Some (static_call ''1f6f7fb0'' [addressWord (gwd_vault g), int_word (gwd_assets g),
       int_word (gwd_minimum_shares g), addressWord (gwd_receiver g), int_word (gwd_partner_id g)])),
     eab_decode_erc20 = (\<lambda>d. case (wordAddress (argument d 0), wordUint (argument d 1)) of
       (Some s, Some n) \<Rightarrow> Some (Erc20Approve s n) | _ \<Rightarrow> None),
     eab_decode_mint = (\<lambda>d. wordUint (argument d 0)),
     eab_decode_deposit = (\<lambda>d. case (wordUint (argument d 0), wordAddress (argument d 1)) of
       (Some n, Some r) \<Rightarrow> Some (n, r) | _ \<Rightarrow> None),
     eab_decode_gateway = (\<lambda>d. case (wordAddress (argument d 0), wordUint (argument d 1), wordUint (argument d 2),
         wordAddress (argument d 3), wordUint (argument d 4)) of
       (Some v, Some n, Some s, Some r, Some p) \<Rightarrow> Some \<lparr>gwd_vault = v, gwd_assets = n, gwd_minimum_shares = s,
         gwd_receiver = r, gwd_partner_id = p\<rparr> | _ \<Rightarrow> None)\<rparr>"

lemma selectors:
  "list_all hex_lower ''095ea7b3'' \<and> length ''095ea7b3'' = 8" "list_all hex_lower ''a0712d68'' \<and> length ''a0712d68'' = 8"
  "list_all hex_lower ''6e553f65'' \<and> length ''6e553f65'' = 8" "list_all hex_lower ''1f6f7fb0'' \<and> length ''1f6f7fb0'' = 8"
  by code_simp+

lemma static_abi_ok: "earn_abi_ok static_abi"
  unfolding earn_abi_ok_def
proof (intro conjI allI impI)
  fix s n
  assume a: "ADDRESS s \<and> word256 n"
  let ?ws = "[addressWord s, int_word n]"
  have ws: "words_ok ?ws" using a int_word_ok [of n] address_word_ok [of s] by simp
  note call = static_call_ok [OF ws, of "''095ea7b3''"]
  show "\<exists>d s'. eab_encode_approve static_abi s n = Some d \<and> hex_data_schema d \<and> to_lower (take 10 d) = ''0x095ea7b3''
      \<and> eab_decode_erc20 static_abi d = Some (Erc20Approve s' n) \<and> to_lower s' = s"
    using call selectors(1) a int_word_ok [of n] address_word_ok [of s] address_lower [of s]
    by (intro exI [of _ "static_call ''095ea7b3'' ?ws"] exI [of _ s]) (simp add: static_abi_def)
next
  fix n
  assume a: "word256 n"
  have ws: "words_ok [int_word n]" using a int_word_ok [of n] by simp
  show "\<exists>d. eab_encode_mint static_abi n = Some d \<and> hex_data_schema d \<and> eab_decode_mint static_abi d = Some n"
    using static_call_ok [OF ws, of "''a0712d68''"] selectors(2) int_word_ok [OF a] by (simp add: static_abi_def)
next
  fix r n
  assume a: "ADDRESS r \<and> word256 n"
  let ?ws = "[int_word n, addressWord r]"
  have ws: "words_ok ?ws" using a int_word_ok [of n] address_word_ok [of r] by simp
  show "\<exists>d r'. eab_encode_deposit static_abi n r = Some d \<and> hex_data_schema d \<and> eab_decode_deposit static_abi d = Some (n, r')
      \<and> to_lower r' = r"
    using static_call_ok [OF ws, of "''6e553f65''"] selectors(3) a int_word_ok [of n] address_word_ok [of r] address_lower [of r]
    by (simp add: static_abi_def)
next
  fix g :: gateway_deposit
  assume a: "ADDRESS (gwd_vault g) \<and> ADDRESS (gwd_receiver g) \<and> word256 (gwd_assets g) \<and> word256 (gwd_minimum_shares g) \<and> gwd_partner_id g = 0"
  let ?ws = "[addressWord (gwd_vault g), int_word (gwd_assets g), int_word (gwd_minimum_shares g), addressWord (gwd_receiver g),
      int_word (gwd_partner_id g)]"
  have zero: "word256 0" by (simp add: word256_def)
  note words = int_word_ok [of "gwd_assets g"] int_word_ok [of "gwd_minimum_shares g"] int_word_ok [OF zero]
    address_word_ok [of "gwd_vault g"] address_word_ok [of "gwd_receiver g"]
  have ws: "words_ok ?ws" using a words by simp
  show "\<exists>d g'. eab_encode_gateway static_abi g = Some d \<and> hex_data_schema d \<and> eab_decode_gateway static_abi d = Some g'
      \<and> to_lower (gwd_vault g') = gwd_vault g \<and> to_lower (gwd_receiver g') = gwd_receiver g \<and> gwd_assets g' = gwd_assets g
      \<and> gwd_minimum_shares g' = gwd_minimum_shares g \<and> gwd_partner_id g' = 0"
    using static_call_ok [OF ws, of "''1f6f7fb0''"] selectors(4) a words address_lower [of "gwd_vault g"] address_lower [of "gwd_receiver g"]
    by (simp add: static_abi_def)
qed

section \<open>A run\<close>

definition usdc_asset :: asset_ref where
  "usdc_asset = \<lparr>asr_asset_id = ''eip155:8453/erc20:'' @ PINNED_BASE_USDC_V1, asr_chain_id = 8453, asr_kind = Erc20Kind,
     asr_address = Some PINNED_BASE_USDC_V1, asr_symbol = ''USDC'', asr_decimals = 6\<rparr>"

definition depositor :: string where
  "depositor = ''0x'' @ replicate 40 (CHR ''1'')"

definition seven_usdc :: token_amount where
  "seven_usdc = \<lparr>tam_asset = usdc_asset, tam_amount_atomic = ''7000000'', tam_amount_decimal = ''7''\<rparr>"

definition seven_intent :: earn_intent where
  "seven_intent = \<lparr>ein_wallet_address = depositor, ein_chain_id = 8453, ein_intent_hash = ''i'', ein_asset = usdc_asset,
     ein_amount = seven_usdc\<rparr>"

definition moonwell_candidate :: earn_candidate where
  "moonwell_candidate = \<lparr>ecd_id = ''m'', ecd_intent_hash = ''i'', ecd_candidate_hash = ''c'', ecd_protocol = Moonwell,
     ecd_venue_address = pin_target (pinnedEarnVenueV1 Moonwell), ecd_asset = usdc_asset, ecd_amount = seven_usdc,
     ecd_expected_position_atomic = None, ecd_expires_at = ''later'', ecd_contracts = pinned_contracts Moonwell\<rparr>"

definition sample_earn_world :: earn_world where
  "sample_earn_world = \<lparr>ewd_abi = static_abi, ewd_parse = (\<lambda>s. if s = ''later'' then Some 2000 else None),
     ewd_canonical = (\<lambda>_. True), ewd_hashing = \<lparr>hsh_payload = (\<lambda>_. ''p''), hsh_event_id = (\<lambda>_ _ _. ''d''), hsh_event = (\<lambda>_ _ _ _ _. ''e''), hsh_proof_id = (\<lambda>id. id)\<rparr>,
     ewd_hash_request = (\<lambda>_. ''0xr''), ewd_hash_evidence_set = (\<lambda>_. ''v''), ewd_hash_blueprint = (\<lambda>_. ''h''),
     ewd_hash_calls = (\<lambda>_. ''k'')\<rparr>"

definition seven_run :: earn_run where
  "seven_run = \<lparr>ern_wallet_address = depositor, ern_chain_id = 8453, ern_intent_hash = ''i'', ern_intent = seven_intent\<rparr>"

definition seven_evidence :: earn_evidence where
  "seven_evidence = \<lparr>eve_candidate_hash = ''c'', eve_evidence_hash = ''e''\<rparr>"

definition opened_run :: earn_store where
  "opened_run = \<lparr>ets_run = Some seven_run, ets_cards = [''card''], ets_candidates = [moonwell_candidate],
     ets_evidence = [seven_evidence], ets_blueprints = [], ets_proofs = (\<lambda>_. None), ets_events = (\<lambda>_. [])\<rparr>"

definition seven_request :: earn_prepare_input where
  "seven_request = \<lparr>epi_wallet_address = depositor, epi_route_card_hash = ''card'', epi_selected_candidate_hash = ''c'',
     epi_request_id = ''q'', epi_now = 1000\<rparr>"

lemma sample_hashes_ok: "earn_hashes_ok sample_earn_world"
  by (simp add: earn_hashes_ok_def sample_earn_world_def)

lemma depositor_ok: "ADDRESS depositor" "to_lower depositor = depositor"
proof -
  show "ADDRESS depositor" by code_simp
  then show "to_lower depositor = depositor" by (rule address_lower)
qed

lemma usdc_is_an_asset: "AssetRefV1Schema usdc_asset"
proof -
  have "show_int 8453 = ''8453''"
    by (simp add: show_int_def show_digits.simps digit_char_def char_of_def bit_0 bit_Suc_0_iff)
  moreover have "length PINNED_BASE_USDC_V1 = 42" by (simp add: PINNED_BASE_USDC_V1_def)
  ultimately show ?thesis
    using pins_are_addresses(1) by (simp add: AssetRefV1Schema_def usdc_asset_def assetIdV1_def schema_fixed)
qed

lemma seven_million: "plain_decimal ''7000000''" "js_bigint ''7000000'' = Some 7000000"
proof -
  have "show_int 7000000 = ''7000000''"
    by (simp add: show_int_def show_digits.simps digit_char_def char_of_def bit_0 bit_Suc_0_iff)
  then show "js_bigint ''7000000'' = Some 7000000" using js_bigint_show [of 7000000] by simp
  show "plain_decimal ''7000000''" by (simp add: plain_decimal_def all_digits_def digit_value_def)
qed

lemma seven_intent_ok: "usdc_intent seven_intent 7000000"
proof -
  have "7000000 \<noteq> MAX_UINT256" by (simp add: MAX_UINT256_def)
  moreover have "ein_chain_id seven_intent = 8453" "ein_asset seven_intent = usdc_asset" "ein_amount seven_intent = seven_usdc"
    "tam_amount_atomic seven_usdc = ''7000000''" "asr_chain_id usdc_asset = 8453" "asr_address usdc_asset = Some PINNED_BASE_USDC_V1"
    by (simp_all add: seven_intent_def seven_usdc_def usdc_asset_def)
  ultimately show ?thesis
    using usdc_is_an_asset seven_million by (simp add: usdc_intent_def word256_def AtomicAmountV1Schema_def)
qed

lemma seven_ready: "deposit_ready sample_earn_world (blueprint_input_of sample_earn_world seven_request seven_run moonwell_candidate seven_evidence)"
proof -
  have usdc: "\<exists>amount. usdc_intent seven_intent amount" using seven_intent_ok ..
  have links: "linked ''i''" "linked ''c''" by (simp_all add: linked_def)
  have candidate: "pinned_candidate seven_intent moonwell_candidate" "shares_ready moonwell_candidate"
    by (simp_all add: pinned_candidate_def moonwell_candidate_def seven_intent_def shares_ready_def)
  let ?i = "blueprint_input_of sample_earn_world seven_request seven_run moonwell_candidate seven_evidence"
  have i: "ebi_wallet_address ?i = depositor" "ebi_intent ?i = seven_intent" "ebi_candidate ?i = moonwell_candidate"
      "ebi_now ?i = 1000" "quote_expiry_of ?i = ''later''"
    by (simp_all add: blueprint_input_of_def seven_request_def seven_run_def quote_expiry_of_def moonwell_candidate_def)
  have w: "ewd_parse sample_earn_world ''later'' = Some 2000" "ewd_canonical sample_earn_world ''later''"
    by (simp_all add: sample_earn_world_def)
  have names: "ein_wallet_address seven_intent = depositor" "ein_intent_hash seven_intent = ''i''"
      "ecd_candidate_hash moonwell_candidate = ''c''" "ecd_expires_at moonwell_candidate = ''later''"
    by (simp_all add: seven_intent_def moonwell_candidate_def)
  show ?thesis unfolding deposit_ready_def Let_def i names using usdc links candidate depositor_ok w by (simp add: later_than_def)
qed

lemma opened_run_reads:
  "ets_run opened_run = Some seven_run" "ets_blueprints opened_run = []" "ets_proofs opened_run = (\<lambda>_. None)"
  "epi_route_card_hash seven_request \<in> set (ets_cards opened_run)"
  "find_earn_candidate opened_run (epi_selected_candidate_hash seven_request) = Some moonwell_candidate"
  "find (\<lambda>e. eve_candidate_hash e = ecd_candidate_hash moonwell_candidate) (ets_evidence opened_run) = Some seven_evidence"
  by (simp_all add: opened_run_def seven_request_def find_earn_candidate_def moonwell_candidate_def seven_evidence_def)

lemma seven_run_reads: "ern_chain_id seven_run = 8453" "ern_intent_hash seven_run = ein_intent_hash (ern_intent seven_run)"
  "ern_wallet_address seven_run = depositor" "epi_wallet_address seven_request = depositor" "epi_now seven_request = 1000"
  by (simp_all add: seven_run_def seven_intent_def seven_request_def)

section \<open>What a wallet is handed\<close>

lemma exact_deposit_cong: "to_lower v = to_lower wallet \<Longrightarrow> exact_deposit abi intent c v calls = exact_deposit abi intent c wallet calls"
proof -
  assume "to_lower v = to_lower wallet"
  then have "deposits abi c amount v d = deposits abi c amount wallet d" for amount d
    by (simp add: deposits_def Let_def split: earn_protocol.split)
  then show ?thesis by (simp add: exact_deposit_def)
qed

lemma reviewed_is_exact:
  assumes "earn_reviewed w s run b" and "in_order b"
  shows "\<exists>c \<in> set (ets_candidates s). exact_deposit (ewd_abi w) (ern_intent run) c (ern_wallet_address run) (ebp_calls b)"
proof -
  obtain i c where i: "c \<in> set (ets_candidates s)" "to_lower (api_wallet_address i) = to_lower (ern_wallet_address run)"
      "earn_allows (ewd_abi w) (ewd_parse w) (stored_earn_input i run c b)"
    using assms(1) unfolding earn_reviewed_def by blast
  have k: "eki_wallet_address (stored_earn_input i run c b) = api_wallet_address i" "eki_intent (stored_earn_input i run c b) = ern_intent run"
      "eki_candidate (stored_earn_input i run c b) = c" "eki_calls (stored_earn_input i run c b) = ebp_calls b"
    by (simp_all add: stored_earn_input_def)
  show ?thesis
    using allowed_is_exact [OF i(3)] assms(2) i(1) exact_deposit_cong [OF i(2)] unfolding k in_order_def by blast
qed

text \<open>
  C4. Whatever is prepared and approved in an earn run, in any order, and whatever unapproved rows it
  started from, a wallet is handed exactly two calls: the approval of USDC, decoded from its bytes, for
  the amount of the run's own intent and never an unlimited one, to the spender pinned for a candidate
  of the run; then the deposit of the same amount into the pinned venue, credited to the run's wallet,
  with at least the reviewed share of what a gateway converts. A run that prepared every row itself
  sends no ether with them.
\<close>

theorem a_wallet_is_handed_the_exact_deposit:
  assumes "earn_started s" and "runs (earn_step w) s es t" and "approveEarnBlueprintV1 w t j = (u, Inr (Approved payload lifecycle))"
  shows "\<exists>run calls. ets_run s = Some run
    \<and> (\<exists>c \<in> set (ets_candidates s). exact_deposit (ewd_abi w) (ern_intent run) c (ern_wallet_address run) calls)
    \<and> map plc_to (apl_calls payload) = map exc_to calls \<and> map plc_data (apl_calls payload) = map exc_data calls
    \<and> apl_from payload = ern_wallet_address run \<and> to_lower (ern_wallet_address run) = to_lower (api_wallet_address j)
    \<and> (ets_blueprints s = [] \<longrightarrow> (\<forall>x \<in> set (apl_calls payload). plc_value x = ''0x0''))"
proof -
  have ok: "earn_ok w t" using earn_runs.reached assms(1,2) by blast
  have same: "ets_run t = ets_run s" "ets_candidates t = ets_candidates s"
    using earn_runs_keep [OF assms(2) earn_started_ok [OF assms(1)]] by simp_all
  obtain run b where b: "ets_run t = Some run" "b \<in> set (ets_blueprints u)" "earn_reviewed w t run b" "in_order b"
      "buildApprovedPayload b (ern_wallet_address run) = Inr payload" "to_lower (ern_wallet_address run) = to_lower (api_wallet_address j)"
    using earn_handed_out [OF assms(3) ok] by metis
  have "\<forall>x \<in> set (apl_calls payload). plc_value x = ''0x0''" if "ets_blueprints s = []"
  proof -
    have "unpaid t" using unpaid_runs.reached that assms(2) by blast
    then have "unpaid u" using approve_keeps_unpaid [OF assms(3)] by blast
    then show ?thesis using payload_calls(4) [OF b(5)] b(2) by (auto simp: unpaid_def)
  qed
  then show ?thesis using reviewed_is_exact [OF b(3,4)] payload_calls(1-3) [OF b(5)] b(1,6) same by auto
qed

section \<open>A deposit can be made\<close>

lemma prepared_expiry:
  assumes "prepareEarnDepositV1 w s i = (t, Inr (EarnBuilt (EarnPrepared b safety)))" and "find_earn_candidate s (epi_selected_candidate_hash i) = Some c"
  shows "ebp_quote_expiry b = ecd_expires_at c"
  using assms(1)
proof (cases rule: prepare_earn_cases)
  case kept
  then show ?thesis by simp
next
  case (stored run c' e b' safety' rows)
  have eq: "b' = b" "c' = c" using stored(2,7) assms(2) by simp_all
  let ?i = "blueprint_input_of w i run c e"
  obtain calls where "b = (earn_draft w ?i (quote_expiry_of ?i) calls)\<lparr>ebp_blueprint_hash := ewd_hash_blueprint w (earn_draft w ?i (quote_expiry_of ?i) calls)\<rparr>"
    using earn_built_facts [OF stored(4) [unfolded eq]] by metis
  moreover have "quote_expiry_of ?i = ecd_expires_at c" by (simp add: blueprint_input_of_def quote_expiry_of_def)
  ultimately show ?thesis by (simp only: drafted(10))
qed

lemma ready_is_prepared:
  assumes "earn_abi_ok (ewd_abi w)" and "earn_hashes_ok w"
    and "ets_run s = Some run" and "ern_intent_hash run = ein_intent_hash (ern_intent run)"
    and "to_lower (epi_wallet_address i) = to_lower (ern_wallet_address run)" and "epi_route_card_hash i \<in> set (ets_cards s)"
    and "find_earn_candidate s (epi_selected_candidate_hash i) = Some c"
    and "find (\<lambda>e. eve_candidate_hash e = ecd_candidate_hash c) (ets_evidence s) = Some e"
    and "deposit_ready w (blueprint_input_of w i run c e)" and "ets_blueprints s = []"
  obtains b safety where "prepareEarnDepositV1 w s i = (s\<lparr>ets_blueprints := [b]\<rparr>, Inr (EarnBuilt (EarnPrepared b safety)))"
proof -
  obtain b safety where b: "buildEarnDepositBlueprintV1 w (blueprint_input_of w i run c e) = Inr (EarnPrepared b safety)"
    using ready_blueprint [OF assms(1,2,9)] .
  note built = built_fields [OF b]
  have "ebp_selected_candidate_hash b = epi_selected_candidate_hash i" "ebp_intent_hash b = ern_intent_hash run"
    using built(4,5) assms(4,7) by (auto simp: blueprint_input_of_def find_earn_candidate_def find_Some_iff)
  then have "insertEarnBlueprint (earn_schema w) (ern_intent_hash run) (ets_candidates s) b (ets_blueprints s) = Inr [b]"
    using built(2,3) assms(7,10) by (simp add: insertEarnBlueprint_def assertLinkedHash_def insert_row_def find_earn_candidate_def)
  then show thesis using that assms(3,5-8) b by (simp add: prepareEarnDepositV1_def earn_binding_def)
qed

text \<open>
  C13. Nothing stands in the way of an honest deposit: given encoders that are read back, the first
  deposit of USDC that a run asks for, into a venue filled in from the pinned configuration and not yet
  expired, is prepared and stored; and until its quote expires the run's wallet, in any spelling, is
  handed its calls.
\<close>

theorem a_pinned_deposit_can_be_made:
  assumes "earn_abi_ok (ewd_abi w)" and "earn_hashes_ok w"
    and "ets_run s = Some run" and "ern_chain_id run = 8453" and "ern_intent_hash run = ein_intent_hash (ern_intent run)"
    and "to_lower (epi_wallet_address i) = to_lower (ern_wallet_address run)" and "epi_route_card_hash i \<in> set (ets_cards s)"
    and "find_earn_candidate s (epi_selected_candidate_hash i) = Some c"
    and "find (\<lambda>e. eve_candidate_hash e = ecd_candidate_hash c) (ets_evidence s) = Some e"
    and "deposit_ready w (blueprint_input_of w i run c e)" and "ets_blueprints s = []" and "ets_proofs s = (\<lambda>_. None)"
  shows "\<exists>t b safety. prepareEarnDepositV1 w s i = (t, Inr (EarnBuilt (EarnPrepared b safety))) \<and> ets_blueprints t = [b]
    \<and> (\<forall>j. api_blueprint_id j = ebp_id b \<and> api_blueprint_hash j = ebp_blueprint_hash b
         \<and> to_lower (api_wallet_address j) = to_lower (ern_wallet_address run)
         \<and> later_than (ewd_parse w) (ebp_quote_expiry b) (api_now j) \<and> epi_now i \<le> api_now j
       \<longrightarrow> (\<exists>u payload lifecycle. approveEarnBlueprintV1 w t j = (u, Inr (Approved payload lifecycle))
             \<and> map plc_data (apl_calls payload) = map exc_data (ebp_calls b)))"
proof -
  obtain b safety where prepared: "prepareEarnDepositV1 w s i = (s\<lparr>ets_blueprints := [b]\<rparr>, Inr (EarnBuilt (EarnPrepared b safety)))"
    by (rule ready_is_prepared [OF assms(1-3,5-11)])
  have "keyed ebp_id ebp_blueprint_hash (ets_blueprints s)" "ets_proofs s (hsh_proof_id (ewd_hashing w) (ebp_id b)) = None"
    by (simp_all add: keyed_def assms(11,12))
  from prepared_can_be_approved [OF prepared assms(2) this(1) assms(3-5) this(2)] show ?thesis
    by (intro exI [of _ "s\<lparr>ets_blueprints := [b]\<rparr>"] exI [of _ b] exI [of _ safety]) (simp add: prepared)
qed

lemma seven_prepared:
  obtains b safety where "prepareEarnDepositV1 sample_earn_world opened_run seven_request
      = (opened_run\<lparr>ets_blueprints := [b]\<rparr>, Inr (EarnBuilt (EarnPrepared b safety)))" "ebp_quote_expiry b = ''later''"
proof -
  have abi: "earn_abi_ok (ewd_abi sample_earn_world)" by (simp add: sample_earn_world_def static_abi_ok)
  obtain b safety where b: "prepareEarnDepositV1 sample_earn_world opened_run seven_request
      = (opened_run\<lparr>ets_blueprints := [b]\<rparr>, Inr (EarnBuilt (EarnPrepared b safety)))"
    by (rule ready_is_prepared [OF abi sample_hashes_ok opened_run_reads(1) seven_run_reads(2) _ opened_run_reads(4-6) seven_ready opened_run_reads(2)])
      (simp add: seven_run_reads)
  then show thesis using that prepared_expiry [OF b opened_run_reads(5)] by (simp add: moonwell_candidate_def)
qed

definition approving :: "execution_blueprint \<Rightarrow> approval_input" where
  "approving b = \<lparr>api_wallet_address = depositor, api_blueprint_id = ebp_id b, api_blueprint_hash = ebp_blueprint_hash b, api_now = 1500\<rparr>"

lemma later_1500: "later_than (ewd_parse sample_earn_world) ''later'' 1500"
  by (simp add: later_than_def sample_earn_world_def)

theorem a_pinned_deposit_can_be_made_witness:
  "\<exists>t b safety u payload lifecycle. prepareEarnDepositV1 sample_earn_world opened_run seven_request = (t, Inr (EarnBuilt (EarnPrepared b safety)))
    \<and> approveEarnBlueprintV1 sample_earn_world t (approving b) = (u, Inr (Approved payload lifecycle))"
proof -
  have abi: "earn_abi_ok (ewd_abi sample_earn_world)" by (simp add: sample_earn_world_def static_abi_ok)
  have me: "to_lower (epi_wallet_address seven_request) = to_lower (ern_wallet_address seven_run)" by (simp add: seven_run_reads)
  from a_pinned_deposit_can_be_made [OF abi sample_hashes_ok opened_run_reads(1) seven_run_reads(1,2) me opened_run_reads(4-6)
      seven_ready opened_run_reads(2,3)]
  obtain t b safety where b: "prepareEarnDepositV1 sample_earn_world opened_run seven_request = (t, Inr (EarnBuilt (EarnPrepared b safety)))"
    and can: "\<forall>j. api_blueprint_id j = ebp_id b \<and> api_blueprint_hash j = ebp_blueprint_hash b
         \<and> to_lower (api_wallet_address j) = to_lower (ern_wallet_address seven_run)
         \<and> later_than (ewd_parse sample_earn_world) (ebp_quote_expiry b) (api_now j) \<and> epi_now seven_request \<le> api_now j
       \<longrightarrow> (\<exists>u payload lifecycle. approveEarnBlueprintV1 sample_earn_world t j = (u, Inr (Approved payload lifecycle))
             \<and> map plc_data (apl_calls payload) = map exc_data (ebp_calls b))" by metis
  have "ebp_quote_expiry b = ''later''" using prepared_expiry [OF b opened_run_reads(5)] by (simp add: moonwell_candidate_def)
  then have "\<exists>u payload lifecycle. approveEarnBlueprintV1 sample_earn_world t (approving b) = (u, Inr (Approved payload lifecycle))"
    using can [THEN spec, of "approving b"] later_1500 by (auto simp: approving_def seven_run_reads)
  then show ?thesis using b by blast
qed

section \<open>A deposit asked for twice\<close>

lemma later_build:
  assumes "buildEarnDepositBlueprintV1 w i = Inr (EarnPrepared b safety)" and "earn_hashes_ok w"
    and "later_than (ewd_parse w) (ecd_expires_at (ebi_candidate i)) n" and "later_than (ewd_parse w) (quote_expiry_of i) n"
  obtains b' safety' where "buildEarnDepositBlueprintV1 w (i\<lparr>ebi_now := n\<rparr>) = Inr (EarnPrepared b' safety')"
    "ebp_id b' = ebp_id b" "ebp_created_at b' = n" "ebp_created_at b = ebi_now i"
proof -
  let ?j = "i\<lparr>ebi_now := n\<rparr>" and ?q = "quote_expiry_of i"
  obtain calls where calls: "buildEarnDepositCallsV1 (ewd_abi w) (ebi_intent i) (ebi_candidate i) (ebi_wallet_address i) = Inr calls"
    "earn_allows (ewd_abi w) (ewd_parse w) (built_kernel_input i ?q calls)" "earn_schema w b"
    "b = (earn_draft w i ?q calls)\<lparr>ebp_blueprint_hash := ewd_hash_blueprint w (earn_draft w i ?q calls)\<rparr>"
    using earn_built_facts [OF assms(1)] by metis
  note f = drafted [OF calls(4)]
  have expiry: "quote_expiry_of ?j = ?q" by (simp add: quote_expiry_of_def split: option.split)
  define draft where "draft = earn_draft w ?j ?q calls"
  define b' where "b' = draft\<lparr>ebp_blueprint_hash := ewd_hash_blueprint w draft\<rparr>"
  note f' = drafted [OF b'_def [unfolded draft_def], simplified]
  have bhash: "ebp_blueprint_hash b' = ewd_hash_blueprint w b'" using assms(2) by (simp add: b'_def earn_hashes_ok_def)
  have "case ewd_parse w ?q of Some t \<Rightarrow> n < t | None \<Rightarrow> True" "\<not> passed_by (ewd_parse w) ?q n"
    using assms(4) by (auto simp: later_than_def passed_by_def split: option.split_asm)
  note still = this
  have "earn_schema w b'"
    using calls(3) still(1) bhash
    unfolding earn_schema_def ExecutionBlueprintV1Schema_def by (simp add: f f' cong: option.case_cong)
  moreover have "lacks_shares (ebi_candidate i) = Inr False"
    using assms(1) by (auto simp: buildEarnDepositBlueprintV1_def no_share_quote_def bindR_eq_Inr Let_def split: if_split_asm)
  moreover obtain verdict where "runEarnSafetyKernelV1 (ewd_abi w) (ewd_parse w) (built_kernel_input ?j ?q calls) = Inr verdict" "evt_allowed verdict"
  proof -
    let ?run = "\<lparr>ern_wallet_address = '''', ern_chain_id = 0, ern_intent_hash = '''', ern_intent = ebi_intent i\<rparr>"
    let ?a = "\<lparr>api_wallet_address = ebi_wallet_address i, api_blueprint_id = '''', api_blueprint_hash = '''', api_now = n\<rparr>"
    have "earn_allows (ewd_abi w) (ewd_parse w) (stored_earn_input ?a ?run (ebi_candidate i) b)"
      using second_earn_run [OF calls(2,4), of ?run ?a] assms(3,4) by simp
    moreover have "stored_earn_input ?a ?run (ebi_candidate i) b = built_kernel_input ?j ?q calls"
      by (simp add: stored_earn_input_def built_kernel_input_def calls(4) earn_draft_def Let_def)
    ultimately show ?thesis using that by (auto simp: earn_allows_def)
  qed
  ultimately have "buildEarnDepositBlueprintV1 w ?j = Inr (EarnPrepared b' verdict)"
    using calls(1) still(2) expiry by (simp add: buildEarnDepositBlueprintV1_def b'_def draft_def Let_def)
  then show thesis using that f' f by simp
qed

lemma prepare_reads_card:
  "prepareEarnDepositV1 w s i = (t, Inr (EarnBuilt x)) \<Longrightarrow> epi_route_card_hash i \<in> set (ets_cards s)"
  by (rule ccontr) (auto simp: prepareEarnDepositV1_def split: sum.split_asm)

text \<open>
  C21. A request for a deposit is not repeatable: asked again at any other instant before the quote
  expires, the same request is refused by the table as a conflict, because the blueprint it makes again
  has the old id and a new date, and the stored deposit is left as it is.
\<close>

theorem a_deposit_asked_twice_conflicts:
  assumes "prepareEarnDepositV1 w s i = (t, Inr (EarnBuilt (EarnPrepared b safety)))" and "earn_hashes_ok w"
    and "keyed ebp_id ebp_blueprint_hash (ets_blueprints s)" and "n \<noteq> epi_now i"
    and "later_than (ewd_parse w) (ebp_quote_expiry b) n"
  shows "\<exists>what. prepareEarnDepositV1 w t (i\<lparr>epi_now := n\<rparr>) = (t, Inl (EarnStorage (StorageConflict what)))"
  using assms(1)
proof (cases rule: prepare_earn_cases)
  case kept
  then show ?thesis by simp
next
  case (stored run c e b' safety' rows)
  have b: "b' = b" using stored(7) by simp
  note stored = stored [unfolded b]
  let ?i = "blueprint_input_of w i run c e"
  have i: "quote_expiry_of ?i = ecd_expires_at c" "ebi_candidate ?i = c" "ebi_now ?i = epi_now i"
    by (simp_all add: blueprint_input_of_def quote_expiry_of_def)
  have q: "ebp_quote_expiry b = ecd_expires_at c" by (rule prepared_expiry [OF assms(1) stored(2)])
  obtain b2 safety2 where b2: "buildEarnDepositBlueprintV1 w (?i\<lparr>ebi_now := n\<rparr>) = Inr (EarnPrepared b2 safety2)"
      "ebp_id b2 = ebp_id b" "ebp_created_at b2 = n" "ebp_created_at b = epi_now i"
    by (rule later_build [OF stored(4) assms(2), of n]) (use assms(5) i in \<open>simp_all add: q\<close>)
  have again: "blueprint_input_of w (i\<lparr>epi_now := n\<rparr>) run c e = ?i\<lparr>ebi_now := n\<rparr>" by (simp add: blueprint_input_of_def)
  have row: "find (\<lambda>x. ebp_id x = ebp_id b) rows = Some b"
    using earn_blueprints.put_keyed [OF stored(5) assms(3)] earn_blueprints.put_has [OF stored(5)]
    by (simp add: earn_blueprints.find_ident)
  have new: "b2 \<noteq> b" using b2(3,4) assms(4) by auto
  have put: "earn_schema w b \<and> ebp_intent_hash b = ern_intent_hash run" "ebp_goal b2 = EarnGoal" "earn_schema w b2"
      "ebp_intent_hash b2 = ebp_intent_hash b" "ebp_selected_candidate_hash b2 = ebp_selected_candidate_hash b"
    using stored(5) built_fields [OF stored(4)] built_fields [OF b2(1)]
    by (auto simp: insertEarnBlueprint_def assertLinkedHash_def split: if_split_asm)
  have "find (\<lambda>x. ecd_candidate_hash x = ebp_selected_candidate_hash b) (ets_candidates s) \<noteq> None"
    using stored(5) by (auto simp: insertEarnBlueprint_def split: if_split_asm option.split_asm sum.split_asm)
  then have "\<exists>what. insertEarnBlueprint (earn_schema w) (ern_intent_hash run) (ets_candidates s) b2 rows = Inl (StorageConflict what)"
    using put row new by (auto simp: insertEarnBlueprint_def assertLinkedHash_def insert_row_def b2(2))
  then show ?thesis
    using stored(1-3) b2(1) prepare_reads_card [OF assms(1)] again
    by (auto simp: prepareEarnDepositV1_def earn_binding_def find_earn_candidate_def stored(6))
qed

theorem a_wallet_is_handed_the_exact_deposit_witness:
  "\<exists>t j u payload lifecycle calls. runs (earn_step sample_earn_world) opened_run [EarnPrepare seven_request] t
    \<and> approveEarnBlueprintV1 sample_earn_world t j = (u, Inr (Approved payload lifecycle))
    \<and> exact_deposit static_abi seven_intent moonwell_candidate depositor calls
    \<and> map plc_data (apl_calls payload) = map exc_data calls"
proof -
  obtain b safety where b: "prepareEarnDepositV1 sample_earn_world opened_run seven_request
      = (opened_run\<lparr>ets_blueprints := [b]\<rparr>, Inr (EarnBuilt (EarnPrepared b safety)))" "ebp_quote_expiry b = ''later''"
    by (rule seven_prepared)
  have started: "earn_started opened_run" "keyed ebp_id ebp_blueprint_hash (ets_blueprints opened_run)"
    by (simp_all add: earn_started_def opened_run_def keyed_def)
  let ?t = "opened_run\<lparr>ets_blueprints := [b]\<rparr>"
  have run: "runs (earn_step sample_earn_world) opened_run [EarnPrepare seven_request] ?t"
    using earn_step.prepared [of sample_earn_world opened_run seven_request] by (simp add: b(1))
  obtain u payload lifecycle where ok: "approveEarnBlueprintV1 sample_earn_world ?t (approving b) = (u, Inr (Approved payload lifecycle))"
    using prepared_can_be_approved [OF b(1) sample_hashes_ok started(2) opened_run_reads(1) seven_run_reads(1,2), of "approving b"] later_1500 b(2)
    by (auto simp: approving_def seven_run_reads opened_run_reads)
  have "ern_intent seven_run = seven_intent" "ewd_abi sample_earn_world = static_abi" "set (ets_candidates opened_run) = {moonwell_candidate}"
    by (simp_all add: seven_run_def sample_earn_world_def opened_run_def)
  then obtain calls where "exact_deposit static_abi seven_intent moonwell_candidate depositor calls"
      "map plc_data (apl_calls payload) = map exc_data calls"
    using a_wallet_is_handed_the_exact_deposit [OF started(1) run ok] by (auto simp: opened_run_reads seven_run_reads)
  then show ?thesis using run ok by blast
qed

theorem a_deposit_asked_twice_conflicts_witness:
  "\<exists>t b safety what. prepareEarnDepositV1 sample_earn_world opened_run seven_request = (t, Inr (EarnBuilt (EarnPrepared b safety)))
    \<and> prepareEarnDepositV1 sample_earn_world t (seven_request\<lparr>epi_now := 1500\<rparr>) = (t, Inl (EarnStorage (StorageConflict what)))"
proof -
  obtain b safety where b: "prepareEarnDepositV1 sample_earn_world opened_run seven_request
      = (opened_run\<lparr>ets_blueprints := [b]\<rparr>, Inr (EarnBuilt (EarnPrepared b safety)))" "ebp_quote_expiry b = ''later''"
    by (rule seven_prepared)
  have "keyed ebp_id ebp_blueprint_hash (ets_blueprints opened_run)" by (simp add: opened_run_reads keyed_def)
  from a_deposit_asked_twice_conflicts [OF b(1) sample_hashes_ok this, of 1500] show ?thesis
    using b later_1500 by (auto simp: seven_run_reads)
qed

section \<open>Two answers that are exceptions\<close>

text \<open>
  The reason a blocked batch is given is parsed with a bound of five hundred characters. A batch that
  fails six checks at once goes past it, so the caller gets the schema's exception and no list of checks.
\<close>

lemma joined_length: "(\<Sum>(n, _, d) \<leftarrow> checks. length n + length d + 2) \<le> length (joined_reasons checks)"
  by (induction checks rule: joined_reasons.induct) auto

lemma too_many_failures_are_not_a_block:
  assumes "eki_calls i = []" and "to_lower (eki_wallet_address i) \<noteq> to_lower (ein_wallet_address (eki_intent i))"
    and "\<not> later_than parse (eki_quote_expiry i) (eki_now i)" and "ecd_expected_position_atomic (eki_candidate i) = None"
  shows "runEarnSafetyKernelV1 abi parse i = Inl (JsError ''ZodError'')"
proof -
  let ?checks = "pinning_checks i
       @ [(''exact_approval'', False, ''Approval must be an exact-amount USDC approve() to the pinned target''),
          (''no_unlimited_approval'', not_unlimited abi i, ''Unlimited (MaxUint256) approvals are forbidden for earn deposits''),
          (''deposit_calldata_pinned'', False, ''Deposit call is not the exact pinned deposit for the exact intent amount''),
          (''receiver_is_wallet'', receiver_ok abi i, ''Deposit receiver is not the authenticated wallet'')]
       @ linkage_checks parse i"
  have "approval_exact abi i = Inr False" "deposit_exact abi i None = Inr False" "receiver_ok abi i = False"
      "expected_yo_shares (eki_candidate i) = Inr None"
    by (simp_all add: approval_exact_def deposit_exact_def receiver_ok_def earn_deposit_def first_call_def assms(1,4) Let_def
        expected_yo_shares_def optional_shares_def present_def)
  then have run: "runEarnSafetyKernelV1 abi parse i = earn_result ?checks" by (simp add: runEarnSafetyKernelV1_def)
  let ?failed = "filter (\<lambda>(_, ok, _). \<not> ok) ?checks"
  have "500 < (\<Sum>(n, _, d) \<leftarrow> ?failed. length n + length d + 2)"
    using assms(1-3) \<open>receiver_ok abi i = False\<close>
    by (simp add: pinning_checks_def linkage_checks_def earn_shape_def calls_of_def Let_def)
  then have "500 < length (joined_reasons ?failed)" using joined_length [of ?failed] by linarith
  moreover from this have "?failed \<noteq> []" by force
  ultimately have "earn_result ?checks = Inl (JsError ''ZodError'')" unfolding earn_result_def Let_def by (simp only: if_False if_True)
  then show ?thesis by (simp only: run)
qed

text \<open>A conversion to one share passes the guard of the blueprint, whose floor is then no share at all.\<close>

lemma one_share_throws:
  assumes "ecd_protocol (ebi_candidate i) = Yo" and "ecd_expected_position_atomic (ebi_candidate i) = Some s" and "js_BigInt s = Inr 1"
    and "\<not> passed_by (ewd_parse w) (quote_expiry_of i) (ebi_now i)"
    and "js_BigInt (tam_amount_atomic (ein_amount (ebi_intent i))) = Inr amount"
    and "eab_encode_approve (ewd_abi w) (ect_approval_spender (ecd_contracts (ebi_candidate i))) amount = Some data"
  shows "lacks_shares (ebi_candidate i) = Inr False"
    "buildEarnDepositBlueprintV1 w i = Inl (TypeError ''YO deposit requires a fresh positive share conversion'')"
proof -
  show lacks: "lacks_shares (ebi_candidate i) = Inr False" using assms(1-3) by (simp add: lacks_shares_def)
  have "minimum_shares 1 = 0" by (simp add: minimum_shares_def jsdiv_def)
  then show "buildEarnDepositBlueprintV1 w i = Inl (TypeError ''YO deposit requires a fresh positive share conversion'')"
    using assms lacks by (simp add: buildEarnDepositBlueprintV1_def buildEarnDepositCallsV1_def optional_shares_def encoded_def Let_def)
qed

end
