(* ===== verification/Earn_Comparison.thy ===== *)
theory Earn_Comparison
  imports Earn "HOL-Library.Product_Lexorder"
begin

text \<open>
  Comparing the venues a deposit could go to, from end to end: evidence.ts, scoring.ts, ranking.ts,
  adapters.ts, coordinator.ts and routeCard.ts of lib/earn-engine/src, with the schemas of
  lib/route-domain/src/earn-contracts.ts. What a source observed is a parameter, an answer for each
  protocol; hashes and the readings of dates are parameters too. The sentences of a recommendation, the
  evidence a dimension cites, the fees and terms that are only recorded and the hashes of the parts of a
  score are not modelled. Points are rational numbers; the quotients the source takes in floating point
  round to the same integers.
\<close>

section \<open>Candidates and evidence\<close>

datatype withdrawal_model = DirectWithdrawal | VaultRedeem | AsyncRedeem

text \<open>What a candidate carries for the comparison, besides what a deposit reads of it.\<close>

record earn_quote = earn_candidate +
  eqt_base_apy_bps :: "int option"
  eqt_reward_apy_bps :: "int option"
  eqt_net_apy_bps :: "int option"
  eqt_available_liquidity_atomic :: "string option"
  eqt_withdrawal_model :: withdrawal_model
  eqt_call_count :: int
  eqt_approval_count :: int
  eqt_observed_at :: string

record earn_reading = earn_evidence +
  erd_observed_at :: string
  erd_expires_at :: string

datatype earn_freshness = EarnFresh | EarnStale | EarnFreshnessUnknown

definition earnFreshnessStateV1 :: "(string \<Rightarrow> int option) \<Rightarrow> earn_reading \<Rightarrow> int \<Rightarrow> earn_freshness" where
  "earnFreshnessStateV1 parse e now =
     (case parse (erd_expires_at e) of None \<Rightarrow> EarnFreshnessUnknown
      | Some expires \<Rightarrow> if now \<le> expires then EarnFresh else EarnStale)"

section \<open>scoring.ts\<close>

datatype earn_dimension_name = NetYield | Liquidity | RouteSimplicity | TransactionSafety

datatype earn_evidence_kind = YieldRate | LiquidityKind | FeesKind | WithdrawalTermsKind | MarketIdentity | ContractRisk

datatype not_scored_reason = NotRequested | InsufficientEvidence | StaleEvidence | ValidationFailed | ScoringError

record earn_dimension =
  edm_dimension :: earn_dimension_name
  edm_scored :: bool
  edm_score :: "int option"
  edm_not_scored_reason :: "not_scored_reason option"
  edm_confidence :: "string option"
  edm_freshness :: "earn_freshness option"
  edm_missing_evidence :: "earn_evidence_kind list"

definition confidenceLabel :: "rat \<Rightarrow> string" where
  "confidenceLabel v = (if v \<ge> 3 / 4 then ''high'' else if v \<ge> 2 / 5 then ''medium'' else ''low'')"

definition points :: "rat \<Rightarrow> int" where
  "points score = max 0 (min 100 \<lfloor>score + 1 / 2\<rfloor>)"

definition scoredDimensionV1 :: "earn_dimension_name \<Rightarrow> rat \<Rightarrow> rat \<Rightarrow> earn_freshness \<Rightarrow> earn_dimension" where
  "scoredDimensionV1 dimension score confidence freshness =
     \<lparr>edm_dimension = dimension, edm_scored = True, edm_score = Some (points score), edm_not_scored_reason = None,
      edm_confidence = Some (confidenceLabel confidence), edm_freshness = Some freshness, edm_missing_evidence = []\<rparr>"

definition notScoredDimensionV1 :: "earn_dimension_name \<Rightarrow> not_scored_reason \<Rightarrow> earn_evidence_kind list \<Rightarrow> earn_dimension" where
  "notScoredDimensionV1 dimension reason missing =
     \<lparr>edm_dimension = dimension, edm_scored = False, edm_score = None, edm_not_scored_reason = Some reason,
      edm_confidence = None, edm_freshness = None, edm_missing_evidence = missing\<rparr>"

datatype earn_liquidity_state = LiquidityHigh | LiquidityMedium | LiquidityLow | LiquidityNotScored

definition earnLiquidityStateV1 :: "string option \<Rightarrow> string \<Rightarrow> earn_liquidity_state result" where
  "earnLiquidityStateV1 available amountAtomic =
     (case available of None \<Rightarrow> Inr LiquidityNotScored
      | Some l \<Rightarrow>
          bindR (js_BigInt amountAtomic) (\<lambda>amount.
          if amount \<le> 0 then Inr LiquidityNotScored
          else bindR (js_BigInt l) (\<lambda>liquidity.
            Inr (if liquidity \<ge> amount * 100 then LiquidityHigh
                 else if liquidity \<ge> amount * 10 then LiquidityMedium else LiquidityLow))))"

fun liquidityScore :: "earn_liquidity_state \<Rightarrow> rat" where
  "liquidityScore LiquidityHigh = 90"
| "liquidityScore LiquidityMedium = 65"
| "liquidityScore LiquidityLow = 40"
| "liquidityScore LiquidityNotScored = 0"

definition netYieldScore :: "int \<Rightarrow> rat" where
  "netYieldScore netApyBps = of_int netApyBps / 20"

definition routeSimplicityScore :: "earn_quote \<Rightarrow> rat" where
  "routeSimplicityScore c =
     of_int (100 - eqt_approval_count c * 10 - max 0 (eqt_call_count c - 2) * 10
       - (if eqt_withdrawal_model c = VaultRedeem then 15 else 0))"

datatype earn_score_status = EarnScored | EarnPartiallyScored | EarnNotScored

record earn_score =
  esc_candidate_hash :: string
  esc_status :: earn_score_status
  esc_dimensions :: "earn_dimension list"

definition net_yield_dimension :: "earn_quote \<Rightarrow> earn_freshness \<Rightarrow> earn_dimension" where
  "net_yield_dimension c freshness =
     (case eqt_net_apy_bps c of None \<Rightarrow> notScoredDimensionV1 NetYield InsufficientEvidence [YieldRate]
      | Some net \<Rightarrow>
          if freshness = EarnStale then notScoredDimensionV1 NetYield StaleEvidence [YieldRate]
          else scoredDimensionV1 NetYield (netYieldScore net) (3 / 5) freshness)"

definition liquidity_dimension :: "earn_liquidity_state \<Rightarrow> earn_freshness \<Rightarrow> earn_dimension" where
  "liquidity_dimension state freshness =
     (if state = LiquidityNotScored then notScoredDimensionV1 Liquidity InsufficientEvidence [LiquidityKind]
      else scoredDimensionV1 Liquidity (liquidityScore state) (1 / 2) freshness)"

definition buildEarnScoreV1 :: "(string \<Rightarrow> int option) \<Rightarrow> earn_quote \<Rightarrow> earn_reading \<Rightarrow> int \<Rightarrow> earn_score result" where
  "buildEarnScoreV1 parse c e now =
     (let freshness = earnFreshnessStateV1 parse e now in
      bindR (earnLiquidityStateV1 (eqt_available_liquidity_atomic c) (tam_amount_atomic (ecd_amount c))) (\<lambda>state.
      let dimensions = [net_yield_dimension c freshness, liquidity_dimension state freshness,
            scoredDimensionV1 RouteSimplicity (routeSimplicityScore c) (4 / 5) freshness,
            notScoredDimensionV1 TransactionSafety InsufficientEvidence [ContractRisk]];
          scoredCount = length (filter edm_scored dimensions)
      in Inr \<lparr>esc_candidate_hash = ecd_candidate_hash c,
           esc_status = (if scoredCount = 4 then EarnScored else if scoredCount = 0 then EarnNotScored else EarnPartiallyScored),
           esc_dimensions = dimensions\<rparr>))"

definition earnDimensionV1 :: "earn_score \<Rightarrow> earn_dimension_name \<Rightarrow> earn_dimension result" where
  "earnDimensionV1 score name =
     (case find (\<lambda>d. edm_dimension d = name) (esc_dimensions score) of
        Some d \<Rightarrow> Inr d | None \<Rightarrow> Inl (JsError ''Error''))"

section \<open>Sorting\<close>

text \<open>
  The language's sort: stable, and for a comparator that orders by a key the same whatever algorithm an
  engine uses.
\<close>

fun insert_by :: "('a \<Rightarrow> 'a \<Rightarrow> int) \<Rightarrow> 'a \<Rightarrow> 'a list \<Rightarrow> 'a list" where
  "insert_by compare x [] = [x]"
| "insert_by compare x (y # ys) = (if compare x y \<le> 0 then x # y # ys else y # insert_by compare x ys)"

definition js_sort :: "('a \<Rightarrow> 'a \<Rightarrow> int) \<Rightarrow> 'a list \<Rightarrow> 'a list" where
  "js_sort compare xs = foldr (insert_by compare) xs []"

lemma insert_by_key: "(\<And>x y. compare x y \<le> 0 \<longleftrightarrow> key x \<le> key y) \<Longrightarrow> insert_by compare x ys = insort_key key x ys"
  by (induction ys) simp_all

lemma js_sort_key: "(\<And>x y. compare x y \<le> 0 \<longleftrightarrow> key x \<le> key y) \<Longrightarrow> js_sort compare xs = sort_key key xs"
  unfolding js_sort_def by (induction xs) (simp_all add: insert_by_key)

section \<open>ranking.ts\<close>

datatype earn_mode = BestNetYield | HighestLiquidity | SimplestRoute | LowestRisk

datatype earn_degraded = NoRiskEvidence | NothingToRank earn_mode | MissingProviders "earn_protocol list" "earn_protocol list"

record earn_ranking =
  erk_ordered :: "string list"
  erk_recommended :: "string option"
  erk_degraded :: "earn_degraded option"

type_synonym earn_entry = "earn_quote \<times> earn_score"

fun protocol_text :: "earn_protocol \<Rightarrow> string" where
  "protocol_text Moonwell = ''moonwell''"
| "protocol_text MorphoVault = ''morpho''"
| "protocol_text Yo = ''yo''"

instantiation earn_protocol :: linorder
begin

definition less_eq_earn_protocol :: "earn_protocol \<Rightarrow> earn_protocol \<Rightarrow> bool" where
  "less_eq_earn_protocol p q \<longleftrightarrow> protocol_text p \<le> protocol_text q"

definition less_earn_protocol :: "earn_protocol \<Rightarrow> earn_protocol \<Rightarrow> bool" where
  "less_earn_protocol p q \<longleftrightarrow> protocol_text p < protocol_text q"

instance
proof
  fix p q :: earn_protocol
  show "p \<le> q \<Longrightarrow> q \<le> p \<Longrightarrow> p = q"
    by (cases p; cases q) (simp_all add: less_eq_earn_protocol_def)
qed (auto simp: less_eq_earn_protocol_def less_earn_protocol_def)

end

definition compare_base :: "earn_entry \<Rightarrow> earn_entry \<Rightarrow> int" where
  "compare_base a b =
     (let p = ecd_protocol (fst a); q = ecd_protocol (fst b);
          g = ecd_candidate_hash (fst a); h = ecd_candidate_hash (fst b)
      in if p \<noteq> q then (if p < q then -1 else 1) else if g < h then -1 else if g > h then 1 else 0)"

definition earn_eligible :: "earn_mode \<Rightarrow> earn_entry \<Rightarrow> bool result" where
  "earn_eligible mode e =
     (case mode of
        BestNetYield \<Rightarrow> bindR (earnDimensionV1 (snd e) NetYield) (\<lambda>d. Inr (edm_scored d \<and> eqt_net_apy_bps (fst e) \<noteq> None))
      | HighestLiquidity \<Rightarrow>
          bindR (earnDimensionV1 (snd e) Liquidity) (\<lambda>d. Inr (edm_scored d \<and> eqt_available_liquidity_atomic (fst e) \<noteq> None))
      | _ \<Rightarrow> Inr True)"

text \<open>What the comparators compare: the greater comes first.\<close>

definition earn_worth :: "earn_mode \<Rightarrow> earn_entry \<Rightarrow> int result" where
  "earn_worth mode e =
     (case mode of
        BestNetYield \<Rightarrow> Inr (case eqt_net_apy_bps (fst e) of Some n \<Rightarrow> n | None \<Rightarrow> 0)
      | HighestLiquidity \<Rightarrow> js_BigInt (case eqt_available_liquidity_atomic (fst e) of Some s \<Rightarrow> s | None \<Rightarrow> ''0'')
      | _ \<Rightarrow> bindR (earnDimensionV1 (snd e) RouteSimplicity) (\<lambda>d. Inr (case edm_score d of Some n \<Rightarrow> n | None \<Rightarrow> 0)))"

definition compare_ranked :: "int \<times> nat \<times> earn_entry \<Rightarrow> int \<times> nat \<times> earn_entry \<Rightarrow> int" where
  "compare_ranked a b =
     (if fst a > fst b then -1 else if fst a < fst b then 1 else int (fst (snd a)) - int (fst (snd b)))"

text \<open>A comparator is only called when there are two to compare, and then with each of them.\<close>

definition ranked_entries :: "earn_mode \<Rightarrow> (nat \<times> earn_entry) list \<Rightarrow> earn_entry list result" where
  "ranked_entries mode eligible =
     (if length eligible \<le> 1 then Inr (map snd eligible)
      else bindR (mapR (\<lambda>e. earn_worth mode (snd e)) eligible) (\<lambda>worths.
        Inr (map (\<lambda>x. snd (snd x)) (js_sort compare_ranked (zip worths eligible)))))"

definition rankEarnCandidatesV1 :: "earn_entry list \<Rightarrow> earn_mode \<Rightarrow> earn_ranking result" where
  "rankEarnCandidatesV1 entries mode =
     (let base = js_sort compare_base entries; hashes = map (\<lambda>e. ecd_candidate_hash (fst e)) in
      if mode = LowestRisk then Inr \<lparr>erk_ordered = hashes base, erk_recommended = None, erk_degraded = Some NoRiskEvidence\<rparr>
      else bindR (mapR (earn_eligible mode) base) (\<lambda>oks.
        let marked = zip oks (enumerate 0 base);
            eligible = map snd (filter fst marked);
            ineligible = map (\<lambda>x. snd (snd x)) (filter (\<lambda>x. \<not> fst x) marked)
        in bindR (ranked_entries mode eligible) (\<lambda>ranked.
          let ordered = hashes ranked @ hashes ineligible in
          Inr (case ranked of
              [] \<Rightarrow> \<lparr>erk_ordered = ordered, erk_recommended = None, erk_degraded = Some (NothingToRank mode)\<rparr>
            | best # _ \<Rightarrow> \<lparr>erk_ordered = ordered, erk_recommended = Some (ecd_candidate_hash (fst best)), erk_degraded = None\<rparr>))))"

definition degradeEarnRankingForUnavailableProvidersV1 ::
  "earn_ranking \<Rightarrow> earn_protocol list \<Rightarrow> earn_protocol list \<Rightarrow> earn_ranking" where
  "degradeEarnRankingForUnavailableProvidersV1 r unavailable compared =
     (if unavailable = [] then r
      else \<lparr>erk_ordered = erk_ordered r, erk_recommended = None, erk_degraded = Some (MissingProviders unavailable compared)\<rparr>)"

section \<open>adapters.ts\<close>

record earn_observation =
  obs_base_apy_bps :: "int option"
  obs_reward_apy_bps :: "int option"
  obs_net_apy_bps :: "int option"
  obs_available_liquidity_atomic :: "string option"
  obs_expected_position_atomic :: "string option"
  obs_observed_at :: string
  obs_expires_at :: string
  obs_response_hash :: string

type_synonym earn_source = "earn_protocol \<Rightarrow> string + earn_observation"

record comparison_world =
  cmw_parse :: "string \<Rightarrow> int option"
  cmw_canonical :: "string \<Rightarrow> bool"
  cmw_hash_candidate_id :: "string \<Rightarrow> earn_protocol \<Rightarrow> string"
  cmw_hash_candidate :: "earn_quote \<Rightarrow> string"
  cmw_hash_evidence :: "earn_reading \<Rightarrow> string \<Rightarrow> string"

text \<open>Of a pinned venue, how one withdraws, and the calls and approvals of a deposit.\<close>

definition pinned_terms :: "earn_protocol \<Rightarrow> withdrawal_model \<times> int \<times> int" where
  "pinned_terms p =
     (case p of Moonwell \<Rightarrow> (DirectWithdrawal, 2, 1) | MorphoVault \<Rightarrow> (VaultRedeem, 2, 1) | Yo \<Rightarrow> (AsyncRedeem, 2, 1))"

definition EXPECTED_WITHDRAWAL_MODEL_V1 :: "earn_protocol \<Rightarrow> withdrawal_model" where
  "EXPECTED_WITHDRAWAL_MODEL_V1 p = (case p of Moonwell \<Rightarrow> DirectWithdrawal | MorphoVault \<Rightarrow> VaultRedeem | Yo \<Rightarrow> AsyncRedeem)"

definition ApyBpsV1Schema :: "int option \<Rightarrow> bool" where
  "ApyBpsV1Schema a \<longleftrightarrow> (case a of None \<Rightarrow> True | Some n \<Rightarrow> 0 \<le> n \<and> n \<le> 1000000)"

definition optional_amount :: "string option \<Rightarrow> bool" where
  "optional_amount a \<longleftrightarrow> (case a of None \<Rightarrow> True | Some s \<Rightarrow> AtomicAmountV1Schema s)"

definition not_later :: "(string \<Rightarrow> int option) \<Rightarrow> string \<Rightarrow> string \<Rightarrow> bool" where
  "not_later parse a b \<longleftrightarrow> (case (parse a, parse b) of (Some x, Some y) \<Rightarrow> x \<le> y | _ \<Rightarrow> False)"

definition EarnCandidateV1Schema :: "comparison_world \<Rightarrow> earn_quote \<Rightarrow> bool" where
  "EarnCandidateV1Schema w c \<longleftrightarrow>
     ApyBpsV1Schema (eqt_base_apy_bps c) \<and> ApyBpsV1Schema (eqt_reward_apy_bps c) \<and> ApyBpsV1Schema (eqt_net_apy_bps c)
     \<and> optional_amount (eqt_available_liquidity_atomic c) \<and> optional_amount (ecd_expected_position_atomic c)
     \<and> cmw_canonical w (eqt_observed_at c) \<and> cmw_canonical w (ecd_expires_at c)
     \<and> ecd_candidate_hash c = cmw_hash_candidate w c
     \<and> \<not> not_later (cmw_parse w) (ecd_expires_at c) (eqt_observed_at c)
     \<and> asr_asset_id (tam_asset (ecd_amount c)) = asr_asset_id (ecd_asset c)
     \<and> ecd_venue_address c = ect_target (ecd_contracts c)
     \<and> eqt_withdrawal_model c = EXPECTED_WITHDRAWAL_MODEL_V1 (ecd_protocol c)
     \<and> 1 \<le> eqt_approval_count c \<and> eqt_approval_count c + 1 \<le> eqt_call_count c
     \<and> (case (eqt_net_apy_bps c, eqt_base_apy_bps c) of
          (Some net, Some base) \<Rightarrow> net \<le> base + (case eqt_reward_apy_bps c of Some r \<Rightarrow> r | None \<Rightarrow> 0)
        | _ \<Rightarrow> True)"

definition earn_candidate_base :: "comparison_world \<Rightarrow> earn_intent \<Rightarrow> earn_protocol \<Rightarrow> earn_observation \<Rightarrow> earn_quote" where
  "earn_candidate_base w intent p o' =
     (let venue = pinnedEarnVenueV1 p in
      \<lparr>ecd_id = cmw_hash_candidate_id w (ein_intent_hash intent) p, ecd_intent_hash = ein_intent_hash intent,
       ecd_candidate_hash = ''0x'' @ replicate 64 (CHR ''0''), ecd_protocol = p, ecd_venue_address = pin_target venue,
       ecd_asset = ein_asset intent, ecd_amount = ein_amount intent,
       ecd_expected_position_atomic = obs_expected_position_atomic o', ecd_expires_at = obs_expires_at o',
       ecd_contracts = \<lparr>ect_asset = PINNED_BASE_USDC_V1, ect_target = pin_target venue, ect_approval_spender = pin_approval_spender venue\<rparr>,
       eqt_base_apy_bps = obs_base_apy_bps o', eqt_reward_apy_bps = obs_reward_apy_bps o', eqt_net_apy_bps = obs_net_apy_bps o',
       eqt_available_liquidity_atomic = obs_available_liquidity_atomic o', eqt_withdrawal_model = fst (pinned_terms p),
       eqt_call_count = fst (snd (pinned_terms p)), eqt_approval_count = snd (snd (pinned_terms p)), eqt_observed_at = obs_observed_at o'\<rparr>)"

text \<open>
  The evidence repeats the candidate's readings, so of its schema only what is its own is left: the
  hash it carries is the one of its content.
\<close>

definition earn_evidence_of :: "comparison_world \<Rightarrow> earn_quote \<Rightarrow> earn_observation \<Rightarrow> earn_reading" where
  "earn_evidence_of w c o' =
     (let base = \<lparr>eve_candidate_hash = ecd_candidate_hash c, eve_evidence_hash = ''0x'' @ replicate 64 (CHR ''0''),
            erd_observed_at = obs_observed_at o', erd_expires_at = obs_expires_at o'\<rparr>
      in base\<lparr>eve_evidence_hash := cmw_hash_evidence w base (obs_response_hash o')\<rparr>)"

definition buildEarnCandidateV1 ::
  "comparison_world \<Rightarrow> earn_source \<Rightarrow> earn_intent \<Rightarrow> earn_protocol \<Rightarrow> (earn_protocol \<times> string + earn_quote \<times> earn_reading) result" where
  "buildEarnCandidateV1 w source intent p =
     (case source p of Inl reason \<Rightarrow> Inr (Inl (p, reason))
      | Inr o' \<Rightarrow>
          let base = earn_candidate_base w intent p o'; c = base\<lparr>ecd_candidate_hash := cmw_hash_candidate w base\<rparr>
          in if EarnCandidateV1Schema w c then Inr (Inr (c, earn_evidence_of w c o')) else Inl (JsError ''ZodError''))"

section \<open>coordinator.ts: the venues asked\<close>

datatype constraint_mode = AnyProtocol | IncludeOnly | ExcludeProtocols

record protocol_constraint =
  pcs_mode :: constraint_mode
  pcs_protocols :: "string list"

definition selectEarnProtocolsV1 :: "protocol_constraint \<Rightarrow> earn_protocol list \<Rightarrow> earn_protocol list" where
  "selectEarnProtocolsV1 constraint all =
     (let names = set (map to_lower (pcs_protocols constraint)) in
      case pcs_mode constraint of
        AnyProtocol \<Rightarrow> all
      | IncludeOnly \<Rightarrow> filter (\<lambda>p. protocol_text p \<in> names) all
      | ExcludeProtocols \<Rightarrow> filter (\<lambda>p. protocol_text p \<notin> names) all)"

section \<open>routeCard.ts\<close>

record earn_row =
  erw_candidate :: earn_quote
  erw_score :: earn_score
  erw_evidence :: earn_reading

record earn_comparison =
  ecm_candidate :: earn_quote
  ecm_score :: earn_score
  ecm_liquidity_state :: earn_liquidity_state
  ecm_freshness_state :: earn_freshness
  ecm_missing_evidence :: "earn_evidence_kind list"

record earn_card =
  ecc_mode :: earn_mode
  ecc_intent_hash :: string
  ecc_recommended :: "string option"
  ecc_degraded :: "earn_degraded option"
  ecc_comparisons :: "earn_comparison list"
  ecc_expires_at :: int

definition collectMissingEvidenceV1 :: "earn_score \<Rightarrow> earn_evidence_kind list" where
  "collectMissingEvidenceV1 score = rev (remdups (rev (concat (map edm_missing_evidence (esc_dimensions score)))))"

definition earn_compared :: "comparison_world \<Rightarrow> int \<Rightarrow> earn_row \<Rightarrow> earn_comparison result" where
  "earn_compared w now r =
     (let c = erw_candidate r in
      bindR (earnLiquidityStateV1 (eqt_available_liquidity_atomic c) (tam_amount_atomic (ecd_amount c))) (\<lambda>state.
      Inr \<lparr>ecm_candidate = c, ecm_score = erw_score r, ecm_liquidity_state = state,
        ecm_freshness_state = earnFreshnessStateV1 (cmw_parse w) (erw_evidence r) now,
        ecm_missing_evidence = collectMissingEvidenceV1 (erw_score r)\<rparr>))"

definition DEFAULT_TTL_MS :: int where
  "DEFAULT_TTL_MS = 5 * 60000"

text \<open>Keyed by hash, a later row replaces an earlier one.\<close>

definition row_of_hash :: "earn_row list \<Rightarrow> string \<Rightarrow> earn_row option" where
  "row_of_hash rows h = find (\<lambda>r. ecd_candidate_hash (erw_candidate r) = h) (rev rows)"

definition EarnRouteCardV1Schema :: "int \<Rightarrow> earn_card \<Rightarrow> bool" where
  "EarnRouteCardV1Schema now crd \<longleftrightarrow>
     ecc_comparisons crd \<noteq> [] \<and> now < ecc_expires_at crd
     \<and> (ecc_recommended crd = None \<longleftrightarrow> ecc_degraded crd \<noteq> None)
     \<and> (\<forall>c \<in> set (ecc_comparisons crd). ecd_intent_hash (ecm_candidate c) = ecc_intent_hash crd
          \<and> esc_candidate_hash (ecm_score c) = ecd_candidate_hash (ecm_candidate c))
     \<and> distinct (map (\<lambda>c. ecd_candidate_hash (ecm_candidate c)) (ecc_comparisons crd))
     \<and> (case ecc_recommended crd of None \<Rightarrow> True
        | Some h \<Rightarrow> h \<in> (\<lambda>c. ecd_candidate_hash (ecm_candidate c)) ` set (ecc_comparisons crd))"

definition buildEarnRouteCardV1 ::
  "comparison_world \<Rightarrow> earn_intent \<Rightarrow> earn_mode \<Rightarrow> earn_row list \<Rightarrow> earn_ranking \<Rightarrow> int \<Rightarrow> int option \<Rightarrow> earn_card result" where
  "buildEarnRouteCardV1 w intent mode rows ranking now ttl =
     bindR (mapR (earn_compared w now) (List.map_filter (row_of_hash rows) (erk_ordered ranking))) (\<lambda>comparisons.
       let crd = \<lparr>ecc_mode = mode, ecc_intent_hash = ein_intent_hash intent, ecc_recommended = erk_recommended ranking,
             ecc_degraded = erk_degraded ranking, ecc_comparisons = comparisons,
             ecc_expires_at = now + (case ttl of Some t \<Rightarrow> t | None \<Rightarrow> DEFAULT_TTL_MS)\<rparr>
       in if EarnRouteCardV1Schema now crd then Inr crd else Inl (JsError ''ZodError''))"

section \<open>coordinator.ts: the comparison\<close>

datatype compared =
    NoComparison string "(earn_protocol \<times> string) list"
  | Compared earn_card "earn_row list" earn_ranking "(earn_protocol \<times> string) list"

text \<open>The loop over the protocols, one after the other: the failures and the rows, each in their order.\<close>

fun ask_venues ::
  "comparison_world \<Rightarrow> earn_source \<Rightarrow> earn_intent \<Rightarrow> int \<Rightarrow> earn_protocol list \<Rightarrow> ((earn_protocol \<times> string) list \<times> earn_row list) result" where
  "ask_venues w source intent now [] = Inr ([], [])"
| "ask_venues w source intent now (p # ps) =
     bindR (buildEarnCandidateV1 w source intent p) (\<lambda>answer.
     case answer of
       Inl failure \<Rightarrow> bindR (ask_venues w source intent now ps) (\<lambda>(failures, rows). Inr (failure # failures, rows))
     | Inr (c, e) \<Rightarrow>
         bindR (buildEarnScoreV1 (cmw_parse w) c e now) (\<lambda>score.
         bindR (ask_venues w source intent now ps) (\<lambda>(failures, rows).
           Inr (failures, \<lparr>erw_candidate = c, erw_score = score, erw_evidence = e\<rparr> # rows))))"

definition compareEarnRoutesV1 ::
  "comparison_world \<Rightarrow> earn_source \<Rightarrow> earn_protocol list option \<Rightarrow> earn_intent \<Rightarrow> earn_mode \<Rightarrow> protocol_constraint \<Rightarrow> int \<Rightarrow> int option
   \<Rightarrow> compared result" where
  "compareEarnRoutesV1 w source supported intent mode constraint now ttl =
     (let protocols = selectEarnProtocolsV1 constraint (case supported of Some ps \<Rightarrow> ps | None \<Rightarrow> EARN_PROTOCOLS_V1) in
      if protocols = [] then Inr (NoComparison ''no_protocols_selected'' [])
      else bindR (ask_venues w source intent now protocols) (\<lambda>(failures, rows).
        if rows = []
        then Inr (NoComparison (if failures \<noteq> [] then ''all_providers_unavailable'' else ''no_candidates'') failures)
        else bindR (rankEarnCandidatesV1 (map (\<lambda>r. (erw_candidate r, erw_score r)) rows) mode) (\<lambda>ranked.
          let ranking = degradeEarnRankingForUnavailableProvidersV1 ranked (map fst failures)
                (map (\<lambda>r. ecd_protocol (erw_candidate r)) rows)
          in bindR (buildEarnRouteCardV1 w intent mode rows ranking now ttl) (\<lambda>crd.
            Inr (Compared crd rows ranking failures)))))"

end
