(* ===== verification/Earn_Best.thy ===== *)
theory Earn_Best
  imports Earn_Comparison Earn_Properties "HOL-Library.Multiset"
begin

text \<open>
  What a comparison says: which venue it recommends, and that it says the same however its sources
  are listed.
\<close>

section \<open>The order of the base\<close>

definition base_key :: "earn_entry \<Rightarrow> earn_protocol \<times> string" where
  "base_key e = (ecd_protocol (fst e), ecd_candidate_hash (fst e))"

lemma base_sorted: "js_sort compare_base entries = sort_key base_key entries"
  by (rule js_sort_key) (auto simp: compare_base_def base_key_def Let_def less_eq_prod_def)

lemma compare_ranked_key: "compare_ranked x y \<le> 0 \<longleftrightarrow> (- fst x, fst (snd x)) \<le> (- fst y, fst (snd y))"
  by (auto simp: compare_ranked_def less_eq_prod_def)

lemma mapR_map: "(\<And>x. x \<in> set xs \<Longrightarrow> f x = Inr (g x)) \<Longrightarrow> mapR f xs = Inr (map g xs)"
  by (induction xs) simp_all

section \<open>The first of the ranked\<close>

lemma ranked_first:
  assumes "\<And>x. x \<in> set eligible \<Longrightarrow> earn_worth mode (snd x) = Inr (v (snd x))"
  obtains ranked where "ranked_entries mode eligible = Inr ranked" "mset ranked = mset (map snd eligible)"
    "\<forall>b rest. ranked = b # rest \<longrightarrow> (\<exists>i. (i, b) \<in> set eligible \<and> (\<forall>(j, e) \<in> set eligible. v e < v b \<or> v e = v b \<and> i \<le> j))"
proof (cases "length eligible \<le> 1")
  case True
  then have "eligible = [] \<or> (\<exists>x. eligible = [x])" by (cases eligible) auto
  then show ?thesis using that [of "map snd eligible"] True by (auto simp: ranked_entries_def)
next
  case False
  let ?key = "\<lambda>x. (- fst x, fst (snd x))" and ?marked = "map (\<lambda>x. (v (snd x), x)) eligible"
  let ?sorted = "sort_key ?key ?marked"
  let ?ranked = "map (\<lambda>x. snd (snd x)) ?sorted"
  have "mapR (\<lambda>e. earn_worth mode (snd e)) eligible = Inr (map (\<lambda>x. v (snd x)) eligible)" using assms by (rule mapR_map)
  moreover have "zip (map (\<lambda>x. v (snd x)) eligible) eligible = ?marked" by (simp add: zip_map1 zip_same_conv_map)
  ultimately have "ranked_entries mode eligible = Inr ?ranked"
    using False by (simp add: ranked_entries_def js_sort_key [OF compare_ranked_key])
  moreover have "mset ?ranked = mset (map snd eligible)"
    unfolding mset_map mset_sort by (simp add: image_mset.compositionality comp_def)
  moreover have "\<forall>b rest. ?ranked = b # rest \<longrightarrow> (\<exists>i. (i, b) \<in> set eligible \<and> (\<forall>(j, e) \<in> set eligible. v e < v b \<or> v e = v b \<and> i \<le> j))"
  proof (intro allI impI)
    fix b rest
    assume "?ranked = b # rest"
    then obtain s more where s: "?sorted = s # more" "b = snd (snd s)" by auto
    have least: "?key s \<le> ?key x" if "x \<in> set ?marked" for x
    proof -
      have "sorted (map ?key ?sorted)" by (rule sorted_sort_key)
      then have "(\<forall>y \<in> set (map ?key more). ?key s \<le> y) \<and> sorted (map ?key more)" unfolding s(1) list.map sorted_simps(2) by assumption
      then have "\<forall>y \<in> set (map ?key more). ?key s \<le> y" by (rule conjunct1)
      moreover have "x = s \<or> ?key x \<in> set (map ?key more)"
      proof -
        have "x \<in> set ?sorted" using that by (simp only: set_sort)
        then show ?thesis by (simp only: s(1) set_simps insert_iff set_map) blast
      qed
      ultimately show ?thesis by (elim disjE) (simp_all only: order_refl)
    qed
    have "s \<in> set ?sorted" unfolding s(1) by (rule list.set_intros(1))
    then have "s \<in> set ?marked" by (simp only: set_sort)
    then obtain x where x: "x \<in> set eligible" "s = (v (snd x), x)" by (auto simp only: set_map)
    define i where "i = fst x"
    have i: "(i, b) \<in> set eligible" "s = (v b, (i, b))" using x by (simp_all add: i_def s(2))
    have "v e < v b \<or> v e = v b \<and> i \<le> j" if "(j, e) \<in> set eligible" for j e
    proof -
      have "(v e, (j, e)) \<in> set ?marked" using that by force
      from least [OF this] show ?thesis by (auto simp: i(2) less_eq_prod_def)
    qed
    then show "\<exists>i. (i, b) \<in> set eligible \<and> (\<forall>(j, e) \<in> set eligible. v e < v b \<or> v e = v b \<and> i \<le> j)" using i(1) by blast
  qed
  ultimately show ?thesis by (rule that)
qed

section \<open>The recommendation of a ranking\<close>

lemma marked_eligible:
  "map snd (filter fst (zip (map P base) (enumerate 0 base))) = filter (\<lambda>x. P (snd x)) (enumerate 0 base)"
proof -
  have "map snd (filter fst (zip (map P (map snd ies)) ies)) = filter (\<lambda>x. P (snd x)) ies" for ies :: "(nat \<times> 'a) list"
    by (induction ies) auto
  from this [of "enumerate 0 base"] show ?thesis by simp
qed

lemma marked_ineligible:
  "map (\<lambda>x. snd (snd x)) (filter (\<lambda>x. \<not> fst x) (zip (map P base) (enumerate 0 base))) = filter (\<lambda>x. \<not> P x) base"
proof -
  have "map (\<lambda>x. snd (snd x)) (filter (\<lambda>x. \<not> fst x) (zip (map P (map snd ies)) ies)) = filter (\<lambda>x. \<not> P x) (map snd ies)"
    for ies :: "(nat \<times> 'a) list"
    by (induction ies) auto
  from this [of "enumerate 0 base"] show ?thesis by simp
qed

lemma eligible_entries: "map snd (filter (\<lambda>x. P (snd x)) (enumerate 0 base)) = filter P base"
proof -
  have "map snd (filter (\<lambda>x. P (snd x)) ies) = filter P (map snd ies)" for ies :: "(nat \<times> 'a) list"
    by (induction ies) auto
  from this [of "enumerate 0 base"] show ?thesis by simp
qed

text \<open>
  When eligibility and worth can be read, the ranking answers: every hash once, and what it recommends
  is worth most, the first of its equals in the order of protocols and hashes.
\<close>

lemma ranking_answers:
  assumes "\<And>e. e \<in> set entries \<Longrightarrow> earn_eligible mode e = Inr (P e)"
    and "\<And>e. e \<in> set entries \<Longrightarrow> P e \<Longrightarrow> earn_worth mode e = Inr (v e)" and "mode \<noteq> LowestRisk"
  obtains r where "rankEarnCandidatesV1 entries mode = Inr r"
    "mset (erk_ordered r) = mset (map (\<lambda>e. ecd_candidate_hash (fst e)) entries)"
    "erk_recommended r = None \<longleftrightarrow> erk_degraded r \<noteq> None"
    "\<forall>h. erk_recommended r = Some h \<longrightarrow> (\<exists>b \<in> set entries. P b \<and> ecd_candidate_hash (fst b) = h \<and> hd (erk_ordered r) = h
       \<and> erk_ordered r \<noteq> [] \<and> (\<forall>e \<in> set entries. P e \<longrightarrow> v e < v b \<or> v e = v b \<and> base_key b \<le> base_key e))"
proof -
  let ?base = "sort_key base_key entries" and ?hash = "\<lambda>e. ecd_candidate_hash (fst e)"
  let ?eligible = "filter (\<lambda>x. P (snd x)) (enumerate 0 ?base)"
  have mem: "x \<in> set ?eligible \<Longrightarrow> snd x \<in> set entries \<and> P (snd x)" for x
  proof -
    assume "x \<in> set ?eligible"
    then have "snd x \<in> set (map snd ?eligible)" by (simp only: set_map imageI)
    then have "snd x \<in> set (filter P ?base)" by (simp only: eligible_entries)
    then show ?thesis by simp
  qed
  have worth: "x \<in> set ?eligible \<Longrightarrow> earn_worth mode (snd x) = Inr (v (snd x))" for x using mem assms(2) by blast
  obtain ranked where ranked: "ranked_entries mode ?eligible = Inr ranked" "mset ranked = mset (map snd ?eligible)"
    "\<forall>b rest. ranked = b # rest \<longrightarrow> (\<exists>i. (i, b) \<in> set ?eligible \<and> (\<forall>(j, e) \<in> set ?eligible. v e < v b \<or> v e = v b \<and> i \<le> j))"
    using ranked_first [of ?eligible mode v] worth by blast
  let ?rest = "filter (\<lambda>e. \<not> P e) ?base"
  define r where "r = (case ranked of
      [] \<Rightarrow> \<lparr>erk_ordered = map ?hash ranked @ map ?hash ?rest, erk_recommended = None, erk_degraded = Some (NothingToRank mode)\<rparr>
    | best # _ \<Rightarrow> \<lparr>erk_ordered = map ?hash ranked @ map ?hash ?rest, erk_recommended = Some (?hash best), erk_degraded = None\<rparr>)"
  have oks: "mapR (earn_eligible mode) ?base = Inr (map P ?base)" by (rule mapR_map) (simp add: assms(1))
  have answer: "rankEarnCandidatesV1 entries mode = Inr r"
    unfolding rankEarnCandidatesV1_def Let_def base_sorted oks bindR_Inr marked_eligible marked_ineligible ranked(1) r_def
    by (simp only: assms(3) if_False)
  have ordered: "erk_ordered r = map ?hash ranked @ map ?hash ?rest" by (simp add: r_def split: list.split)
  have "mset ranked = mset (filter P ?base)" by (simp only: ranked(2) eligible_entries)
  then have "mset (ranked @ ?rest) = mset entries" by (simp add: mset_filter)
  then have "mset (erk_ordered r) = mset (map ?hash entries)"
    unfolding ordered by (metis map_append mset_map)
  moreover have "erk_recommended r = None \<longleftrightarrow> erk_degraded r \<noteq> None" by (simp add: r_def split: list.split)
  moreover have "\<exists>b \<in> set entries. P b \<and> ?hash b = h \<and> hd (erk_ordered r) = h \<and> erk_ordered r \<noteq> []
      \<and> (\<forall>e \<in> set entries. P e \<longrightarrow> v e < v b \<or> v e = v b \<and> base_key b \<le> base_key e)" if "erk_recommended r = Some h" for h
  proof -
    from that have "ranked \<noteq> []" by (auto simp: r_def)
    then obtain b more where ranked_by: "ranked = b # more" by (cases ranked) blast+
    then have b: "ranked = b # more" "?hash b = h" using that by (simp_all add: r_def)
    obtain i where i: "(i, b) \<in> set ?eligible" "\<forall>(j, e) \<in> set ?eligible. v e < v b \<or> v e = v b \<and> i \<le> j" using ranked(3) b(1) by blast
    have at_i: "i < length ?base" "?base ! i = b" using i(1) by (auto simp: in_set_enumerate_eq)
    have "v e < v b \<or> v e = v b \<and> base_key b \<le> base_key e" if e: "e \<in> set entries" "P e" for e
    proof -
      have "e \<in> set ?base" using e(1) by simp
      then obtain j where j: "j < length ?base" "?base ! j = e" by (auto simp only: in_set_conv_nth)
      then have "(j, e) \<in> set ?eligible" using e(2) by (simp add: in_set_enumerate_eq)
      with i(2) have best: "v e < v b \<or> v e = v b \<and> i \<le> j" by blast
      have "sorted (map base_key ?base)" by (rule sorted_sort_key)
      then have "i \<le> j \<Longrightarrow> map base_key ?base ! i \<le> map base_key ?base ! j" using j(1) by (intro sorted_nth_mono) simp_all
      then show ?thesis using best at_i j by (simp only: nth_map) blast
    qed
    note best = this
    have "b \<in> set entries" "P b" using mem [OF i(1)] by simp_all
    then show ?thesis using best by (intro bexI [of _ b]) (simp_all add: ordered b)
  qed
  ultimately show thesis by (intro that [OF answer]) blast+
qed

section \<open>What the rows are\<close>

text \<open>
  What a mode ranks by, and the modes that rank a stale reading too: the net yield is ranked only while
  fresh, but liquidity and simplicity are ranked however old the reading is.
\<close>

definition ranks_stale :: "earn_mode \<Rightarrow> bool" where
  "ranks_stale mode \<longleftrightarrow> mode \<noteq> BestNetYield"

definition earn_reading :: "earn_mode \<Rightarrow> earn_quote \<Rightarrow> int option" where
  "earn_reading mode c =
     (case mode of
        BestNetYield \<Rightarrow> eqt_net_apy_bps c
      | HighestLiquidity \<Rightarrow>
          (case (eqt_available_liquidity_atomic c, js_bigint (tam_amount_atomic (ecd_amount c))) of
             (Some l, Some a) \<Rightarrow> if a \<le> 0 then None else js_bigint l | _ \<Rightarrow> None)
      | SimplestRoute \<Rightarrow> Some (points (routeSimplicityScore c))
      | LowestRisk \<Rightarrow> None)"

definition stale_row :: "comparison_world \<Rightarrow> int \<Rightarrow> earn_row \<Rightarrow> bool" where
  "stale_row w now r \<longleftrightarrow> earnFreshnessStateV1 (cmw_parse w) (erw_evidence r) now = EarnStale"

definition earn_measure :: "comparison_world \<Rightarrow> int \<Rightarrow> earn_mode \<Rightarrow> earn_row \<Rightarrow> int option" where
  "earn_measure w now mode r =
     (if stale_row w now r \<and> \<not> ranks_stale mode then None else earn_reading mode (erw_candidate r))"

lemma earn_measure_eq:
  "earn_measure w now mode r =
     (let c = erw_candidate r in
      case mode of
        BestNetYield \<Rightarrow> if earnFreshnessStateV1 (cmw_parse w) (erw_evidence r) now = EarnStale then None else eqt_net_apy_bps c
      | HighestLiquidity \<Rightarrow>
          (case (eqt_available_liquidity_atomic c, js_bigint (tam_amount_atomic (ecd_amount c))) of
             (Some l, Some a) \<Rightarrow> if a \<le> 0 then None else js_bigint l | _ \<Rightarrow> None)
      | SimplestRoute \<Rightarrow> Some (points (routeSimplicityScore c))
      | LowestRisk \<Rightarrow> None)"
  by (cases mode) (simp_all add: earn_measure_def stale_row_def ranks_stale_def earn_reading_def Let_def)

abbreviation row_entry :: "earn_row \<Rightarrow> earn_entry" where
  "row_entry r \<equiv> (erw_candidate r, erw_score r)"

definition row_ok :: "comparison_world \<Rightarrow> earn_intent \<Rightarrow> int \<Rightarrow> earn_row \<Rightarrow> bool" where
  "row_ok w intent now r \<longleftrightarrow> EarnCandidateV1Schema w (erw_candidate r)
     \<and> buildEarnScoreV1 (cmw_parse w) (erw_candidate r) (erw_evidence r) now = Inr (erw_score r)
     \<and> pinned_candidate intent (earn_candidate.truncate (erw_candidate r))
     \<and> ecd_intent_hash (erw_candidate r) = ein_intent_hash intent
     \<and> erd_expires_at (erw_evidence r) = ecd_expires_at (erw_candidate r)
     \<and> eve_candidate_hash (erw_evidence r) = ecd_candidate_hash (erw_candidate r)"

lemma built_candidate:
  assumes "buildEarnCandidateV1 w source intent p = Inr (Inr (c, e))"
  shows "EarnCandidateV1Schema w c" "ecd_protocol c = p" "pinned_candidate intent (earn_candidate.truncate c)"
    "ecd_intent_hash c = ein_intent_hash intent" "erd_expires_at e = ecd_expires_at c" "eve_candidate_hash e = ecd_candidate_hash c"
  using assms
  by (auto simp: buildEarnCandidateV1_def earn_candidate_base_def earn_evidence_of_def pinned_candidate_def pinned_contracts_def
      earn_candidate.truncate_def Let_def split: sum.split_asm if_split_asm)

lemma asked_venues:
  "ask_venues w source intent now ps = Inr (failures, rows) \<Longrightarrow>
     (\<forall>r \<in> set rows. row_ok w intent now r) \<and> (failures = [] \<longrightarrow> map (\<lambda>r. ecd_protocol (erw_candidate r)) rows = ps)"
proof (induction ps arbitrary: failures rows)
  case Nil
  then show ?case by simp
next
  case (Cons p ps)
  obtain answer where answer: "buildEarnCandidateV1 w source intent p = Inr answer"
    using Cons.prems by (cases "buildEarnCandidateV1 w source intent p") simp_all
  show ?case
  proof (cases answer)
    case (Inl failure)
    then show ?thesis using Cons.prems Cons.IH answer by (fastforce simp: bindR_eq_Inr)
  next
    case (Inr ce)
    obtain c e where ce: "ce = (c, e)" by (cases ce)
    note c = built_candidate [OF answer [unfolded Inr ce]]
    obtain score more where rest: "buildEarnScoreV1 (cmw_parse w) c e now = Inr score" "ask_venues w source intent now ps = Inr (failures, more)"
        "rows = \<lparr>erw_candidate = c, erw_score = score, erw_evidence = e\<rparr> # more"
      using Cons.prems answer Inr ce by (auto simp: bindR_eq_Inr)
    then show ?thesis using Cons.IH [OF rest(2)] c by (auto simp: row_ok_def)
  qed
qed

lemma score_dimensions:
  assumes "buildEarnScoreV1 parse c e now = Inr s"
  obtains state where "earnLiquidityStateV1 (eqt_available_liquidity_atomic c) (tam_amount_atomic (ecd_amount c)) = Inr state"
    "earnDimensionV1 s NetYield = Inr (net_yield_dimension c (earnFreshnessStateV1 parse e now))"
    "earnDimensionV1 s Liquidity = Inr (liquidity_dimension state (earnFreshnessStateV1 parse e now))"
    "earnDimensionV1 s RouteSimplicity = Inr (scoredDimensionV1 RouteSimplicity (routeSimplicityScore c) (4 / 5) (earnFreshnessStateV1 parse e now))"
proof -
  have net: "edm_dimension (net_yield_dimension c f) = NetYield" for f
    by (simp add: net_yield_dimension_def notScoredDimensionV1_def scoredDimensionV1_def split: option.split)
  have liquidity: "edm_dimension (liquidity_dimension state f) = Liquidity" for state f
    by (simp add: liquidity_dimension_def notScoredDimensionV1_def scoredDimensionV1_def)
  obtain state where "earnLiquidityStateV1 (eqt_available_liquidity_atomic c) (tam_amount_atomic (ecd_amount c)) = Inr state"
    using assms by (cases "earnLiquidityStateV1 (eqt_available_liquidity_atomic c) (tam_amount_atomic (ecd_amount c))")
      (simp_all add: buildEarnScoreV1_def Let_def)
  then show ?thesis using assms that [of state]
    by (simp add: buildEarnScoreV1_def earnDimensionV1_def net liquidity Let_def) (auto simp: scoredDimensionV1_def net liquidity)
qed

lemma liquidity_read:
  assumes "earnLiquidityStateV1 available amount = Inr state"
  shows "state \<noteq> LiquidityNotScored \<longleftrightarrow>
    (\<exists>l a n. available = Some l \<and> js_bigint amount = Some a \<and> 0 < a \<and> js_bigint l = Some n)"
  using assms by (auto simp: earnLiquidityStateV1_def bindR_eq_Inr js_BigInt_eq split: option.split_asm if_split_asm)

lemma row_reads:
  assumes "row_ok w intent now r" and "mode \<noteq> LowestRisk"
  shows "earn_eligible mode (row_entry r) = Inr (earn_measure w now mode r \<noteq> None)"
    "earn_measure w now mode r = Some n \<Longrightarrow> earn_worth mode (row_entry r) = Inr n"
proof -
  let ?c = "erw_candidate r" and ?f = "earnFreshnessStateV1 (cmw_parse w) (erw_evidence r) now"
  have "buildEarnScoreV1 (cmw_parse w) ?c (erw_evidence r) now = Inr (erw_score r)" using assms(1) by (simp add: row_ok_def)
  then obtain state where s: "earnLiquidityStateV1 (eqt_available_liquidity_atomic ?c) (tam_amount_atomic (ecd_amount ?c)) = Inr state"
    "earnDimensionV1 (erw_score r) NetYield = Inr (net_yield_dimension ?c ?f)"
    "earnDimensionV1 (erw_score r) Liquidity = Inr (liquidity_dimension state ?f)"
    "earnDimensionV1 (erw_score r) RouteSimplicity = Inr (scoredDimensionV1 RouteSimplicity (routeSimplicityScore ?c) (4 / 5) ?f)"
    by (rule score_dimensions)
  have scored: "edm_scored (scoredDimensionV1 d x y f)" "\<not> edm_scored (notScoredDimensionV1 d reason missing)"
      "edm_score (scoredDimensionV1 d x y f) = Some (points x)" for d x y f reason missing
    by (simp_all add: scoredDimensionV1_def notScoredDimensionV1_def)
  show "earn_eligible mode (row_entry r) = Inr (earn_measure w now mode r \<noteq> None)"
  proof (cases mode)
    case BestNetYield
    then show ?thesis by (auto simp: earn_eligible_def earn_measure_eq s net_yield_dimension_def scored Let_def split: option.split)
  next
    case HighestLiquidity
    then show ?thesis using liquidity_read [OF s(1)]
      by (auto simp: earn_eligible_def earn_measure_eq s liquidity_dimension_def scored Let_def split: option.split)
  next
    case SimplestRoute
    then show ?thesis by (simp add: earn_eligible_def earn_measure_eq Let_def)
  next
    case LowestRisk
    then show ?thesis using assms(2) by simp
  qed
  show "earn_worth mode (row_entry r) = Inr n" if "earn_measure w now mode r = Some n"
    using that assms(2)
    by (cases mode) (auto simp: earn_worth_def earn_measure_eq s scored js_BigInt_eq Let_def split: option.split_asm if_split_asm)
qed

section \<open>The card\<close>

lemma compared_candidate: "earn_compared w now r = Inr x \<Longrightarrow> ecm_candidate x = erw_candidate r"
  by (auto simp: earn_compared_def bindR_eq_Inr Let_def)

lemma row_found: "h \<in> set (map (\<lambda>r. ecd_candidate_hash (erw_candidate r)) rows) \<Longrightarrow>
    \<exists>r \<in> set rows. row_of_hash rows h = Some r \<and> ecd_candidate_hash (erw_candidate r) = h"
proof -
  assume "h \<in> set (map (\<lambda>r. ecd_candidate_hash (erw_candidate r)) rows)"
  then have "find (\<lambda>r. ecd_candidate_hash (erw_candidate r) = h) (rev rows) \<noteq> None" by (auto simp: find_None_iff)
  then obtain r where r: "find (\<lambda>r. ecd_candidate_hash (erw_candidate r) = h) (rev rows) = Some r" by blast
  have found: "find P xs = Some x \<Longrightarrow> x \<in> set xs \<and> P x" for P :: "earn_row \<Rightarrow> bool" and xs x
    by (induction xs) (auto split: if_split_asm)
  from found [OF r] have "r \<in> set (rev rows) \<and> ecd_candidate_hash (erw_candidate r) = h" .
  then show ?thesis using r by (auto simp: row_of_hash_def)
qed

lemma compared_hashes:
  assumes "set hs \<subseteq> set (map (\<lambda>r. ecd_candidate_hash (erw_candidate r)) rows)"
    and "mapR (earn_compared w now) (List.map_filter (row_of_hash rows) hs) = Inr cs"
  shows "map (\<lambda>c. ecd_candidate_hash (ecm_candidate c)) cs = hs \<and> (\<forall>c \<in> set cs. ecm_candidate c \<in> erw_candidate ` set rows)"
  using assms
proof (induction hs arbitrary: cs)
  case Nil
  then show ?case by (simp add: List.map_filter_simps)
next
  case (Cons h hs)
  obtain r where r: "r \<in> set rows" "row_of_hash rows h = Some r" "ecd_candidate_hash (erw_candidate r) = h"
    using row_found [of h rows] Cons.prems(1) by auto
  obtain x more where x: "earn_compared w now r = Inr x" "mapR (earn_compared w now) (List.map_filter (row_of_hash rows) hs) = Inr more" "cs = x # more"
    using Cons.prems(2) r(2) by (auto simp: List.map_filter_simps bindR_eq_Inr)
  have "set hs \<subseteq> set (map (\<lambda>r. ecd_candidate_hash (erw_candidate r)) rows)" using Cons.prems(1) by simp
  then show ?case using Cons.IH [OF _ x(2)] compared_candidate [OF x(1)] r x(3) by auto
qed

section \<open>What a comparison says\<close>

lemma comparison_parts:
  assumes "compareEarnRoutesV1 w source supported intent mode constraint now ttl = Inr (Compared crd rows ranking failures)"
  obtains ranked where
    "ask_venues w source intent now (selectEarnProtocolsV1 constraint (case supported of Some ps \<Rightarrow> ps | None \<Rightarrow> EARN_PROTOCOLS_V1)) = Inr (failures, rows)"
    "rankEarnCandidatesV1 (map row_entry rows) mode = Inr ranked"
    "ranking = degradeEarnRankingForUnavailableProvidersV1 ranked (map fst failures) (map (\<lambda>r. ecd_protocol (erw_candidate r)) rows)"
    "buildEarnRouteCardV1 w intent mode rows ranking now ttl = Inr crd"
  using assms by (auto simp: compareEarnRoutesV1_def bindR_eq_Inr Let_def split: if_split_asm)

lemma card_parts:
  assumes "buildEarnRouteCardV1 w intent mode rows ranking now ttl = Inr crd"
  shows "mapR (earn_compared w now) (List.map_filter (row_of_hash rows) (erk_ordered ranking)) = Inr (ecc_comparisons crd)"
    "EarnRouteCardV1Schema now crd" "ecc_recommended crd = erk_recommended ranking"
  using assms by (auto simp: buildEarnRouteCardV1_def bindR_eq_Inr Let_def split: if_split_asm)

lemma ranked_rows:
  assumes "\<forall>r \<in> set rows. row_ok w intent now r" and "mode \<noteq> LowestRisk" and "rankEarnCandidatesV1 (map row_entry rows) mode = Inr ranked"
  shows "mset (erk_ordered ranked) = mset (map (\<lambda>r. ecd_candidate_hash (erw_candidate r)) rows)"
    "erk_recommended ranked = Some h \<Longrightarrow> \<exists>b \<in> set rows. \<exists>n. ecd_candidate_hash (erw_candidate b) = h \<and> hd (erk_ordered ranked) = h
       \<and> erk_ordered ranked \<noteq> [] \<and> earn_measure w now mode b = Some n
       \<and> (\<forall>r \<in> set rows. \<forall>m. earn_measure w now mode r = Some m \<longrightarrow>
            m < n \<or> m = n \<and> ecd_protocol (erw_candidate b) \<le> ecd_protocol (erw_candidate r))"
proof -
  define P where "P e \<longleftrightarrow> earn_eligible mode e = Inr True" for e
  define v where "v e = (case earn_worth mode e of Inr n \<Rightarrow> n | Inl _ \<Rightarrow> 0)" for e
  have reads: "earn_eligible mode (row_entry r) = Inr (P (row_entry r))" "P (row_entry r) \<longleftrightarrow> earn_measure w now mode r \<noteq> None"
      "earn_measure w now mode r = Some n \<Longrightarrow> earn_worth mode (row_entry r) = Inr (v (row_entry r)) \<and> v (row_entry r) = n"
    if "r \<in> set rows" for r n
    using row_reads [OF assms(1) [rule_format, OF that] assms(2)] by (simp_all add: P_def v_def)
  have eligible: "earn_eligible mode e = Inr (P e)" and worth: "P e \<Longrightarrow> earn_worth mode e = Inr (v e)"
    if "e \<in> set (map row_entry rows)" for e
    using that reads by auto
  obtain r where r: "rankEarnCandidatesV1 (map row_entry rows) mode = Inr r"
    "mset (erk_ordered r) = mset (map (\<lambda>e. ecd_candidate_hash (fst e)) (map row_entry rows))"
    "\<forall>h. erk_recommended r = Some h \<longrightarrow> (\<exists>b \<in> set (map row_entry rows). P b \<and> ecd_candidate_hash (fst b) = h \<and> hd (erk_ordered r) = h
       \<and> erk_ordered r \<noteq> [] \<and> (\<forall>e \<in> set (map row_entry rows). P e \<longrightarrow> v e < v b \<or> v e = v b \<and> base_key b \<le> base_key e))"
    by (rule ranking_answers [OF eligible worth assms(2)])
  have same: "r = ranked" using r(1) assms(3) by simp
  show "mset (erk_ordered ranked) = mset (map (\<lambda>r. ecd_candidate_hash (erw_candidate r)) rows)"
    using r(2) by (simp add: same comp_def)
  assume "erk_recommended ranked = Some h"
  then obtain b where b: "b \<in> set rows" "P (row_entry b)" "ecd_candidate_hash (erw_candidate b) = h" "hd (erk_ordered ranked) = h"
      "erk_ordered ranked \<noteq> []"
    and best: "\<forall>e \<in> set (map row_entry rows). P e \<longrightarrow> v e < v (row_entry b) \<or> v e = v (row_entry b) \<and> base_key (row_entry b) \<le> base_key e"
    using r(3) by (auto simp: same)
  obtain n where n: "earn_measure w now mode b = Some n" "v (row_entry b) = n" using reads(2,3) b(1,2) by blast
  have "m < n \<or> m = n \<and> ecd_protocol (erw_candidate b) \<le> ecd_protocol (erw_candidate r')"
    if r': "r' \<in> set rows" "earn_measure w now mode r' = Some m" for r' m
  proof -
    have "P (row_entry r')" "v (row_entry r') = m" "row_entry r' \<in> set (map row_entry rows)" using reads(2,3) [OF r'(1)] r' by simp_all
    then have "m < n \<or> m = n \<and> base_key (row_entry b) \<le> base_key (row_entry r')" using best n(2) by blast
    then show ?thesis by (auto simp: base_key_def less_eq_prod_def)
  qed
  then show "\<exists>b \<in> set rows. \<exists>n. ecd_candidate_hash (erw_candidate b) = h \<and> hd (erk_ordered ranked) = h
       \<and> erk_ordered ranked \<noteq> [] \<and> earn_measure w now mode b = Some n
       \<and> (\<forall>r \<in> set rows. \<forall>m. earn_measure w now mode r = Some m \<longrightarrow>
            m < n \<or> m = n \<and> ecd_protocol (erw_candidate b) \<le> ecd_protocol (erw_candidate r))"
    using b n by blast
qed

text \<open>
  C14. A recommendation is the best of everything that was asked for: when a comparison recommends a
  venue, every venue the intent selects has answered, the recommended one is shown first, and by what
  the mode ranks by (the net yield, the liquidity it can pay out, or how few steps it takes) it is at least
  as good as every other that can be ranked, and comes before its equals in the order of protocols. The
  best net yield is only ever sought among readings that are not stale. The other two modes are the
  exception: they rank every reading, stale ones too, and may recommend a stale one, although
  observation-cache.ts says that a stale reading is excluded from every ranked dimension. A mode that
  asks for the lowest risk is never answered with a recommendation.
\<close>

theorem a_recommendation_is_the_best_of_all:
  assumes "compareEarnRoutesV1 w source supported intent mode constraint now ttl = Inr (Compared crd rows ranking failures)"
    and "ecc_recommended crd = Some h"
  shows "mode \<noteq> LowestRisk \<and> failures = []
    \<and> map (\<lambda>r. ecd_protocol (erw_candidate r)) rows
        = selectEarnProtocolsV1 constraint (case supported of Some ps \<Rightarrow> ps | None \<Rightarrow> EARN_PROTOCOLS_V1)
    \<and> (\<exists>b \<in> set rows. \<exists>n. ecd_candidate_hash (erw_candidate b) = h \<and> ecm_candidate (hd (ecc_comparisons crd)) = erw_candidate b
         \<and> earn_reading mode (erw_candidate b) = Some n \<and> (mode = BestNetYield \<longrightarrow> \<not> stale_row w now b)
         \<and> (\<forall>r \<in> set rows. \<forall>m. earn_reading mode (erw_candidate r) = Some m
              \<and> (mode = BestNetYield \<longrightarrow> \<not> stale_row w now r) \<longrightarrow>
              m < n \<or> m = n \<and> ecd_protocol (erw_candidate b) \<le> ecd_protocol (erw_candidate r)))"
proof -
  have measured: "earn_measure w now mode r = Some m \<longleftrightarrow>
      earn_reading mode (erw_candidate r) = Some m \<and> (mode = BestNetYield \<longrightarrow> \<not> stale_row w now r)" for r m
    by (auto simp: earn_measure_def ranks_stale_def)
  obtain ranked where parts:
    "ask_venues w source intent now (selectEarnProtocolsV1 constraint (case supported of Some ps \<Rightarrow> ps | None \<Rightarrow> EARN_PROTOCOLS_V1)) = Inr (failures, rows)"
    "rankEarnCandidatesV1 (map row_entry rows) mode = Inr ranked"
    "ranking = degradeEarnRankingForUnavailableProvidersV1 ranked (map fst failures) (map (\<lambda>r. ecd_protocol (erw_candidate r)) rows)"
    "buildEarnRouteCardV1 w intent mode rows ranking now ttl = Inr crd"
    by (rule comparison_parts [OF assms(1)])
  note rows = asked_venues [OF parts(1)] and crd = card_parts [OF parts(4)]
  have all: "failures = []" "ranking = ranked" and h: "erk_recommended ranked = Some h"
    using crd(3) assms(2) parts(3) by (auto simp: degradeEarnRankingForUnavailableProvidersV1_def split: if_split_asm)
  have mode: "mode \<noteq> LowestRisk" using parts(2) h by (auto simp: rankEarnCandidatesV1_def Let_def)
  note ranks = ranked_rows [OF conjunct1 [OF rows] mode parts(2)]
  obtain b n where b: "b \<in> set rows" "ecd_candidate_hash (erw_candidate b) = h" "hd (erk_ordered ranked) = h" "erk_ordered ranked \<noteq> []"
      "earn_measure w now mode b = Some n"
    and best: "\<forall>r \<in> set rows. \<forall>m. earn_measure w now mode r = Some m \<longrightarrow>
              m < n \<or> m = n \<and> ecd_protocol (erw_candidate b) \<le> ecd_protocol (erw_candidate r)"
    using ranks(2) [OF h] by blast
  let ?hashes = "map (\<lambda>r. ecd_candidate_hash (erw_candidate r)) rows" and ?cs = "ecc_comparisons crd"
  have "set (erk_ordered ranked) \<subseteq> set ?hashes" using ranks(1) by (metis set_mset_mset subset_refl)
  from compared_hashes [OF this crd(1) [unfolded all(2)]]
  have cs: "map (\<lambda>c. ecd_candidate_hash (ecm_candidate c)) ?cs = erk_ordered ranked" "\<forall>c \<in> set ?cs. ecm_candidate c \<in> erw_candidate ` set rows"
    by blast+
  have "distinct (erk_ordered ranked)" using crd(2) unfolding EarnRouteCardV1Schema_def cs(1) by blast
  then have inj: "distinct ?hashes" using ranks(1) by (metis mset_eq_imp_distinct_iff)
  have "?cs \<noteq> []" using cs(1) b(4) by auto
  then have first: "hd ?cs \<in> set ?cs" "ecd_candidate_hash (ecm_candidate (hd ?cs)) = h"
    using cs(1) b(3) by (simp_all add: hd_map flip: cs(1))
  then obtain r where r: "r \<in> set rows" "ecm_candidate (hd ?cs) = erw_candidate r" using cs(2) by blast
  have "r = b" using inj r b(1,2) first(2) by (auto simp: distinct_map dest: inj_onD)
  then show ?thesis using mode all(1) rows b best r unfolding measured by blast
qed

text \<open>
  C20. What is compared can be deposited: every candidate a comparison shows is filled in from the
  pinned configuration and from the user's intent, however its source described the venue, so that the
  preparation of a deposit asks nothing more of it than an expiry that has not passed and, for a
  gateway, a conversion to shares.
\<close>

theorem compared_venues_are_pinned:
  assumes "compareEarnRoutesV1 w source supported intent mode constraint now ttl = Inr (Compared crd rows ranking failures)"
    and "r \<in> set rows"
  shows "pinned_candidate intent (earn_candidate.truncate (erw_candidate r))
    \<and> ecd_intent_hash (erw_candidate r) = ein_intent_hash intent
    \<and> ecd_candidate_hash (erw_candidate r) = cmw_hash_candidate w (erw_candidate r)
    \<and> eve_candidate_hash (erw_evidence r) = ecd_candidate_hash (erw_candidate r)
    \<and> erd_expires_at (erw_evidence r) = ecd_expires_at (erw_candidate r)"
proof -
  obtain ranked where
    "ask_venues w source intent now (selectEarnProtocolsV1 constraint (case supported of Some ps \<Rightarrow> ps | None \<Rightarrow> EARN_PROTOCOLS_V1)) = Inr (failures, rows)"
    by (rule comparison_parts [OF assms(1)])
  then have "row_ok w intent now r" using asked_venues assms(2) by blast
  then show ?thesis by (simp add: row_ok_def EarnCandidateV1Schema_def)
qed

section \<open>A comparison\<close>

definition plain_world :: comparison_world where
  "plain_world = \<lparr>cmw_parse = (\<lambda>s. if s = ''later'' then Some 2000 else if s = ''seen'' then Some 500 else None),
     cmw_canonical = (\<lambda>_. True), cmw_hash_candidate_id = (\<lambda>_ p. protocol_text p),
     cmw_hash_candidate = (\<lambda>c. protocol_text (ecd_protocol c)), cmw_hash_evidence = (\<lambda>_ _. ''v'')\<rparr>"

definition observed :: "int \<Rightarrow> earn_observation" where
  "observed net =
     \<lparr>obs_base_apy_bps = Some net, obs_reward_apy_bps = None, obs_net_apy_bps = Some net,
      obs_available_liquidity_atomic = None, obs_expected_position_atomic = None, obs_observed_at = ''seen'',
      obs_expires_at = ''later'', obs_response_hash = ''r''\<rparr>"

definition two_venues :: earn_source where
  "two_venues p = Inr (observed (if p = Yo then 500 else 400))"

definition any_protocol :: protocol_constraint where
  "any_protocol = \<lparr>pcs_mode = AnyProtocol, pcs_protocols = []\<rparr>"

abbreviation two_compared :: "compared result" where
  "two_compared \<equiv> compareEarnRoutesV1 plain_world two_venues (Some [Moonwell, Yo]) seven_intent BestNetYield any_protocol 1000 None"

lemma venue_answers:
  assumes "two_venues p = Inr (observed net)" and "0 \<le> net" and "net \<le> 1000000"
  obtains c e s where "buildEarnCandidateV1 plain_world two_venues seven_intent p = Inr (Inr (c, e))"
    "buildEarnScoreV1 (cmw_parse plain_world) c e 1000 = Inr s"
    "eqt_net_apy_bps c = Some net" "earnFreshnessStateV1 (cmw_parse plain_world) e 1000 = EarnFresh"
    "eqt_available_liquidity_atomic c = None" "ecd_candidate_hash c = protocol_text p" "esc_candidate_hash s = protocol_text p"
proof -
  let ?base = "earn_candidate_base plain_world seven_intent p (observed net)"
  let ?c = "?base\<lparr>ecd_candidate_hash := protocol_text p\<rparr>"
  have c: "eqt_net_apy_bps ?c = Some net" "eqt_available_liquidity_atomic ?c = None" "ecd_candidate_hash ?c = protocol_text p"
      "cmw_hash_candidate plain_world ?base = protocol_text p"
    by (simp_all add: earn_candidate_base_def observed_def plain_world_def Let_def)
  have schema: "EarnCandidateV1Schema plain_world ?c"
    using assms(2,3)
    by (cases p) (simp_all add: EarnCandidateV1Schema_def earn_candidate_base_def observed_def plain_world_def ApyBpsV1Schema_def
        optional_amount_def not_later_def EXPECTED_WITHDRAWAL_MODEL_V1_def pinned_terms_def seven_intent_def seven_usdc_def Let_def)
  let ?e = "earn_evidence_of plain_world ?c (observed net)"
  have fresh: "earnFreshnessStateV1 (cmw_parse plain_world) ?e 1000 = EarnFresh"
    by (simp add: earn_evidence_of_def observed_def plain_world_def earnFreshnessStateV1_def Let_def)
  have built: "buildEarnCandidateV1 plain_world two_venues seven_intent p = Inr (Inr (?c, ?e))"
    using schema by (simp add: buildEarnCandidateV1_def assms(1) c(4) Let_def)
  have "\<exists>s. buildEarnScoreV1 (cmw_parse plain_world) ?c ?e 1000 = Inr s \<and> esc_candidate_hash s = protocol_text p"
    using c(2,3) by (simp add: buildEarnScoreV1_def earnLiquidityStateV1_def Let_def)
  then show ?thesis using that [OF built] c(1-3) fresh by blast
qed

lemma two_are_compared:
  obtains crd rows ranking where "two_compared = Inr (Compared crd rows ranking [])" "ecc_recommended crd = Some ''yo''"
proof -
  have source: "two_venues Moonwell = Inr (observed 400)" "two_venues Yo = Inr (observed 500)" by (simp_all add: two_venues_def)
  obtain c e s where m: "buildEarnCandidateV1 plain_world two_venues seven_intent Moonwell = Inr (Inr (c, e))"
    "buildEarnScoreV1 (cmw_parse plain_world) c e 1000 = Inr s" "eqt_net_apy_bps c = Some 400"
    "earnFreshnessStateV1 (cmw_parse plain_world) e 1000 = EarnFresh" "eqt_available_liquidity_atomic c = None"
    "ecd_candidate_hash c = ''moonwell''" "esc_candidate_hash s = ''moonwell''"
    by (rule venue_answers [OF source(1)]) simp_all
  obtain d f t where y: "buildEarnCandidateV1 plain_world two_venues seven_intent Yo = Inr (Inr (d, f))"
    "buildEarnScoreV1 (cmw_parse plain_world) d f 1000 = Inr t" "eqt_net_apy_bps d = Some 500"
    "earnFreshnessStateV1 (cmw_parse plain_world) f 1000 = EarnFresh" "eqt_available_liquidity_atomic d = None"
    "ecd_candidate_hash d = ''yo''" "esc_candidate_hash t = ''yo''"
    by (rule venue_answers [OF source(2)]) simp_all
  let ?m = "\<lparr>erw_candidate = c, erw_score = s, erw_evidence = e\<rparr>" and ?y = "\<lparr>erw_candidate = d, erw_score = t, erw_evidence = f\<rparr>"
  have asked: "ask_venues plain_world two_venues seven_intent 1000 [Moonwell, Yo] = Inr ([], [?m, ?y])" using m(1,2) y(1,2) by simp
  then have ok: "row_ok plain_world seven_intent 1000 ?m" "row_ok plain_world seven_intent 1000 ?y" using asked_venues by fastforce+
  have measures: "earn_measure plain_world 1000 BestNetYield ?m = Some 400" "earn_measure plain_world 1000 BestNetYield ?y = Some 500"
    using m(3,4) y(3,4) by (simp_all add: earn_measure_eq)
  have eligible: "earn_eligible BestNetYield (c, s) = Inr True" "earn_eligible BestNetYield (d, t) = Inr True"
      and worth: "earn_worth BestNetYield (c, s) = Inr 400" "earn_worth BestNetYield (d, t) = Inr 500"
    using row_reads [OF ok(1), of BestNetYield] row_reads [OF ok(2), of BestNetYield] measures by simp_all
  have protocols: "ecd_protocol c = Moonwell" "ecd_protocol d = Yo" using built_candidate(2) [OF m(1)] built_candidate(2) [OF y(1)] by simp_all
  have "Moonwell < Yo" by (simp add: less_earn_protocol_def)
  then have "compare_base (c, s) (d, t) \<le> 0" by (simp add: compare_base_def protocols)
  then have base: "js_sort compare_base [(c, s), (d, t)] = [(c, s), (d, t)]" by (simp add: js_sort_def)
  have "js_sort compare_ranked [(400, 0, (c, s)), (500, 1, (d, t))] = [(500, 1, (d, t)), (400, 0, (c, s))]"
    by (simp add: js_sort_def compare_ranked_def)
  then have "ranked_entries BestNetYield [(0, (c, s)), (1, (d, t))] = Inr [(d, t), (c, s)]"
    using worth by (simp add: ranked_entries_def)
  then have ranked: "rankEarnCandidatesV1 [(c, s), (d, t)] BestNetYield
      = Inr \<lparr>erk_ordered = [''yo'', ''moonwell''], erk_recommended = Some ''yo'', erk_degraded = None\<rparr>"
    using eligible m(6) y(6) by (simp add: rankEarnCandidatesV1_def base Let_def)
  have rows: "row_of_hash [?m, ?y] ''yo'' = Some ?y" "row_of_hash [?m, ?y] ''moonwell'' = Some ?m"
    using m(6) y(6) by (simp_all add: row_of_hash_def)
  obtain x z where xz: "earn_compared plain_world 1000 ?m = Inr x" "earn_compared plain_world 1000 ?y = Inr z" "ecm_candidate x = c" "ecm_candidate z = d"
      "ecm_score x = s" "ecm_score z = t"
    using m(5) y(5) by (simp add: earn_compared_def earnLiquidityStateV1_def Let_def)
  have intents: "ecd_intent_hash c = ein_intent_hash seven_intent" "ecd_intent_hash d = ein_intent_hash seven_intent"
    using built_candidate(4) [OF m(1)] built_candidate(4) [OF y(1)] by simp_all
  have "\<exists>crd. buildEarnRouteCardV1 plain_world seven_intent BestNetYield [?m, ?y]
      \<lparr>erk_ordered = [''yo'', ''moonwell''], erk_recommended = Some ''yo'', erk_degraded = None\<rparr> 1000 None = Inr crd \<and> ecc_recommended crd = Some ''yo''"
    using m(6,7) y(6,7) intents xz
    by (simp add: buildEarnRouteCardV1_def rows List.map_filter_simps EarnRouteCardV1Schema_def DEFAULT_TTL_MS_def Let_def)
  then show ?thesis using that ranked asked
    by (auto simp: compareEarnRoutesV1_def selectEarnProtocolsV1_def any_protocol_def degradeEarnRankingForUnavailableProvidersV1_def Let_def)
qed

theorem a_recommendation_is_the_best_of_all_witness:
  "\<exists>crd rows ranking. two_compared = Inr (Compared crd rows ranking [])
     \<and> (\<exists>b \<in> set rows. \<exists>n. ecd_candidate_hash (erw_candidate b) = ''yo'' \<and> earn_reading BestNetYield (erw_candidate b) = Some n \<and> \<not> stale_row plain_world 1000 b)"
proof -
  obtain crd rows ranking where two: "two_compared = Inr (Compared crd rows ranking [])" "ecc_recommended crd = Some ''yo''"
    by (rule two_are_compared)
  from a_recommendation_is_the_best_of_all [OF this] show ?thesis using two(1) by blast
qed

theorem compared_venues_are_pinned_witness:
  "\<exists>crd rows ranking. two_compared = Inr (Compared crd rows ranking [])
     \<and> (\<forall>r \<in> set rows. pinned_candidate seven_intent (earn_candidate.truncate (erw_candidate r)))"
proof -
  obtain crd rows ranking where two: "two_compared = Inr (Compared crd rows ranking [])" "ecc_recommended crd = Some ''yo''"
    by (rule two_are_compared)
  then show ?thesis using compared_venues_are_pinned [OF two(1)] by blast
qed

end
