(* ===== verification/Spec2Isabelle.thy ===== *)
theory Spec2Isabelle
  imports Morpho_Properties Capacity_Properties Risk_Premium Windows Mirror_Properties Aave_Safety
    Scenario_Rounds Calendar_Properties Swap_Properties Settlement_Properties
    Preparation_Properties History Earn_Properties Earn_Best
begin

text \<open>
  Three parts of the repository decide over a user's money, and this development verifies them: Still,
  the borrowing assistant of lib/still-engine (with the Morpho arithmetic of lib/rwa-issuer and the
  market calendar of lib/rwa-market-reality); the path of a swap from a reviewed route to a
  recorded transaction (lib/security, lib/swap-adapters, lib/transaction-composer, lib/route-proof, with the values of
  lib/route-domain); and the deposit of USDC into a pinned venue (lib/earn-engine's configuration and
  the earn half of lib/transaction-composer). Paths below are under src/lib.

  How the source is rendered. BigInts and safe integers are \<open>int\<close>, with the throw of BigInt division
  and the floor or ceiling of every quotient written out. A \<open>throw\<close>, a refused parse and a refusal
  value are the left side of a sum, or None where the code answers null; a loop with early returns is
  a structural recursion. Records carry the fields the modelled code reads. Instants are milliseconds
  since 1970. Addresses and hex data are strings compared without their case where the code lowers
  it. Chains, clocks, HTTP answers, ABI packages, hashes and the language's date and floating point
  functions are arguments of the definitions; a theorem that needs a fact about one of them states it
  as a premise and has a witness with a concrete function.

  Shared theories. \<open>Still_Prelude\<close>: results that may throw, BigInt division, lemma collections.
  \<open>Guarded_Steps\<close>: the locale of operations that change a state or refuse, with whole runs proved
  once; the scenarios, the calendar cache and the walks over the calls of a batch interpret it.
  \<open>Json\<close>, \<open>Hex_Text\<close>: untyped values, and numbers, addresses and calldata words as text.

  Still.
  Money (still-engine/src/math.ts): \<open>mulDiv\<close> and the other money operations, with the direction of
  every rounding.
  Morpho_Math, Morpho_Laws, Morpho_Properties (rwa-issuer/src/morphoBorrowMath.ts): Morpho Blue's
  shares, interest, health, capacity and liquidation price, operation for operation; accrual keeps a market sound.
  C30, C31, C32: the projected borrow, the offered capacity, and both sides of the liquidation price.
  Terms, Capacity, Capacity_Properties, Risk_Premium (still-engine/src/policy.ts and
  capacity.ts): the share of the protocol limit Still lends at, the search for the greatest whole-cent
  offer, the recheck of a draw, Aave's risk premium. \<open>draw_ledger\<close> is the locale of a venue whose
  projected debt is covered and grows with the draw, interpreted on Morpho's projection. The search
  halves an interval, and its measure is the length of that interval. C11, C12, C33.
  Civil, Market_Clock, Weekend_Market, Windows (policy.ts, rwa-market-reality/src/referenceSession.ts
  and weekendMarket.ts): civil dates, New York's wall clock, the reviewed calendar, closed-market and
  earnings windows, with what each says of sessions and earnings. The time zone follows the rule in force since 2007.
  Registry, Reading (registry.ts, read.ts): the assets and contracts, what one block answered,
  decoded into the universe and the wallet. A chain question is its outcome: an answer or
  a failure.
  Report, Mirror, Mirror_Morpho, Mirror_Aave, Mirror_Whole, Mirror_Weekend, Mirror_Sample,
  Mirror_Properties, Aave_Safety (report.ts, mirror.ts): from the reading to what the wallet could
  borrow, with the ledger of failed reads threaded through. C25, C27, C26, C28, C29: it answers on every
  well-formed reading whose instants a Date holds (a calendar's dates have years of four digits, so their windows do), its headline is its venues, a quiet period never offers more, Aave's
  liquidation prices are exact, and the one reading on which it throws.
  Scenario, Scenario_Holdings, Scenario_Rounds (scenario.ts): what-if edits of a reading.
  C38, C37.
  Earnings_Calendar, Calendar_Cache, Calendar_Properties (calendar.ts): one reading of the Aave API,
  paged up to the code's own limit of pages, and the source that remembers the last good one as a
  step relation over questions, readings that end and time that passes; each reading meets its own answers of the API. C39, C40.

  Swaps.
  Amount_Text (swap-adapters/src/normalization.ts, security/src/swapAsset.ts): base units and decimal
  text. C36.
  Swap_Calls, Route_Domain (security/src/baseGuards.ts, swapAsset.ts, route-domain/src): calls, assets,
  intents, candidates and the checks of their schemas.
  Aerodrome_Calldata, Aerodrome_Roundtrip (swap-adapters/src/aerodrome-pinned.ts and the decoder of
  security/src/aerodromeGuard.ts): the writer and the independent reader of calldata. C35.
  Aerodrome_Guard, Aerodrome_Sound, Aerodrome_Build, Aerodrome_Ready
  (aerodromeGuard.ts, transaction-composer/src/adapters/aerodrome.ts): the guard and the adapter.
  C24 and C6: what the adapter builds the guard allows, and what the guard allows is the reviewed swap.
  Kyber_Guard, Uniswap_Guard, Partner_Guards, Balancer_Guard (security/src/*Guard.ts) and Gift
  (transaction-composer/src/gift.ts): the other guards and the gift of a swap's output.
  Safety_Kernel, Kernel_Sound, Kernel_Sample (safetyKernel.ts): every check in its order. C5, C16.
  For a batch of KyberSwap the router's own calldata is the partner's and is not read.
  Simulation (simulationOutcome.ts, coordinator.ts), Proof_Events (execution-contracts.ts,
  proof-events.ts, lifecycle.ts): whether a simulation is good enough to sign on, and the hash-chained
  history of a route run.
  History (proof-events.ts, approval.ts, reconciler.ts): that history as an implementation of a plain list
  of facts, C9, and what its hashes stand for, C22; an
  event's id and dates are stored beside it and not hashed.
  Route_Rows (route-storage/src/memory.ts, route-domain/src/route-contracts.ts): the append-only tables of
  candidates, evidence, evidence sets and blueprints, interpretations of the locale \<open>row_table\<close>.
  Preparation, Preparation_Sound (coordinator.ts, blueprint.ts, reviewProjection.ts): from the card a
  user chose to a stored batch awaiting review, every service a parameter; and the rows the route engine
  leaves before a card exists (route-engine/src/engine.ts, \<open>persistEvaluation\<close>). Handover: the same rows as
  approval reads them, and why the kernel's second run agrees with its first.
  Preparation_Sample, Preparation_Properties: C2, what is stored was allowed;
  C8, the tables stay sound from an evaluation into approvals and reports; C19, a
  request has one batch; C15, each call is labelled from its bytes;
  C7, what was reviewed can be approved.
  Submission, Submission_Sound (submission.ts): the recording of what a wallet reports.
  Approval (approval.ts): the kernel's second run over the stored calls, and the payload a wallet gets.
  Custody, Custody_Sample, Custody_Properties: approvals and reports on the same rows as a step
  relation, an interpretation of \<open>stepping\<close>. C10, C23, C1, C17: the history is kept, a retry changes
  nothing, and the wallet is handed nothing but stored calls the kernel allowed on a security answer for the swap's own tokens.

  Asset_Movement (route-proof/src/assetChanges.ts, deviation.ts, fee.ts, constants.ts), Reconciler
  (receipts.ts, reconciler.ts, projection.ts), Reconciler_Sound: what the logs of verified receipts
  moved, and one pass of the reconciler.
  Settlement, Settlement_Sample, Settlement_Properties: approvals, reports and passes of the reconciler
  on the same rows, another interpretation of \<open>stepping\<close>. C3: nothing is completed without the
  chain; C34: what the measured output means, of a token and of ether; C18: what becomes of a receipt
  the chain contradicts, and the one retry that forgets it.

  Earn deposits.
  Earn_Kernel (earn-engine/src/pinned-config.ts, transaction-composer/src/earnComposition.ts and
  earnSafetyKernel.ts): the pinned venues, the two calls of a deposit, and the kernel that reads them back.
  Earn (earnComposition.ts, earnExecution.ts, route-storage/src/memory.ts): the blueprint, its row,
  preparation and approval as a step relation over the rows of one earn run; the row is another
  \<open>row_table\<close>. Earn_Sound: what an allowed batch decodes to, and the invariants of a run, two more
  interpretations of \<open>stepping\<close>. Earn_Ready: that an honest deposit passes every step.
  Earn_Properties: C4, what a wallet is handed;
  C13, that a deposit can be made; C21, what becomes of
  one that is asked for twice; and two answers that are exceptions.
  Earn_Comparison (earn-engine/src): where the candidates come from, the observation of each venue turned
  into a candidate, its scores, the ranking and the card; what a source observes is a parameter.
  Earn_Best: C14, what a recommendation means, and
  C20, that what is compared can be deposited.

  Bounds and fuel. No definition takes fuel. The loops that page, search or walk are bounded by the
  code's own limits or by the length of a list, and are total functions.

  Not modelled: the sentences shown with a refusal, the hashes kept only as evidence, floating-point
  figures that are only displayed, and concurrency inside one call (a call runs to its end, except
  where the calendar cache is asked during a load, which is modelled). The HTTP servers, the user
  interfaces, the generated API clients, the database, the network readers and the other engines of
  the repository are listed in the manifest with their reasons.
\<close>

end
